(* ===== verification/Prelude.thy ===== *)
theory Prelude
  imports Complex_Main "HOL-Library.AList"
begin

section \<open>Prelude: Python values, dictionaries, tables and shared automation\<close>

text \<open>
  The program is Python over JSON documents and small SQLite tables. This theory holds what
  all components share:
  \<^item> \<open>json\<close>, the values of a JSON document, with Python's truth value (\<open>truthy\<close>), its
    \<open>or\<close> operator and its number coercions;
  \<^item> \<open>doc\<close>, a dictionary as an association list in insertion order, with \<open>d.get(k)\<close>
    (\<open>dget\<close>), \<open>d.get(k, v)\<close> (\<open>getd\<close>), \<open>k in d\<close> (\<open>has\<close>), \<open>d[k] = v\<close>
    (\<open>dset\<close>), \<open>d.pop(k, None)\<close> (\<open>dpop\<close>) and \<open>d.update(u)\<close> (\<open>dupd\<close>);
  \<^item> \<open>jfile\<close>, the content of a JSON file: a document, or bytes that do not parse;
  \<^item> the exceptions a modelled function can raise, as the left side of a sum;
  \<^item> SQL tables keyed by a primary key (\<open>tput\<close> is \<^verbatim>\<open>INSERT OR REPLACE\<close>, \<open>tdel\<close> is
    \<^verbatim>\<open>DELETE\<close>), and two interfaces stated as locales: \<open>keyed_store\<close> and
    \<open>absorbing_machine\<close>.
  Strings are lists of ASCII characters; numbers are exact reals (the code's floats without
  rounding). Clock readings, random tokens and uuids are arguments of the operations.
\<close>

named_theorems py_simps "unfolding rules for the Python operators"
named_theorems frame "what an operation leaves unchanged"

subsection \<open>Errors\<close>

datatype py_error =
    ValueError string
  | TypeError
  | KeyError string
  | AttributeError
  | OSError
  | OtherError string

type_synonym 'a res = "py_error + 'a"

definition is_ok :: "'a res \<Rightarrow> bool" where
  "is_ok r = (case r of Inl _ \<Rightarrow> False | Inr _ \<Rightarrow> True)"

lemma is_ok_simps [simp]: "is_ok (Inr x)" "\<not> is_ok (Inl e)"
  by (simp_all add: is_ok_def)

lemma is_ok_iff: "is_ok r \<longleftrightarrow> (\<exists>x. r = Inr x)"
  by (cases r) auto

subsection \<open>Characters and strings\<close>

definition char_in :: "nat \<Rightarrow> nat \<Rightarrow> char \<Rightarrow> bool" where
  "char_in lo hi c = (let n = of_char c in lo \<le> n \<and> n \<le> (hi::nat))"

definition is_lower :: "char \<Rightarrow> bool" where "is_lower = char_in 97 122"
definition is_upper :: "char \<Rightarrow> bool" where "is_upper = char_in 65 90"
definition is_digit :: "char \<Rightarrow> bool" where "is_digit = char_in 48 57"
definition is_space :: "char \<Rightarrow> bool" where
  \<comment> \<open>\<open>str.isspace\<close> on ASCII: tab, newline, vertical tab, form feed, return, \<open>0x1c..0x1f\<close>, space\<close>
  "is_space c = (char_in 9 13 c \<or> char_in 28 32 c)"

definition up_char :: "char \<Rightarrow> char" where
  "up_char c = (if is_lower c then char_of (of_char c - (32::nat)) else c)"
definition lo_char :: "char \<Rightarrow> char" where
  "lo_char c = (if is_upper c then char_of (of_char c + (32::nat)) else c)"

definition upper :: "string \<Rightarrow> string" where "upper = map up_char"
definition lower :: "string \<Rightarrow> string" where "lower = map lo_char"

definition strip :: "string \<Rightarrow> string" where
  "strip s = rev (dropWhile is_space (rev (dropWhile is_space s)))"

definition starts_with :: "string \<Rightarrow> string \<Rightarrow> bool" where
  "starts_with s p = (take (length p) s = p)"

definition ends_with :: "string \<Rightarrow> string \<Rightarrow> bool" where
  "ends_with s p = starts_with (rev s) (rev p)"

fun contains :: "string \<Rightarrow> string \<Rightarrow> bool" where
  "contains [] p = (p = [])"
| "contains (c # s) p = (starts_with (c # s) p \<or> contains s p)"

function replace_all :: "string \<Rightarrow> string \<Rightarrow> string \<Rightarrow> string" where
  \<comment> \<open>\<open>s.replace(old, new)\<close> for a non-empty \<open>old\<close>\<close>
  "replace_all old new s =
    (if s = [] \<or> old = [] then s
     else if starts_with s old then new @ replace_all old new (drop (length old) s)
     else hd s # replace_all old new (tl s))"
  by pat_completeness auto
termination
  by (relation "measure (\<lambda>(old, new, s). length s)") auto

declare replace_all.simps [simp del]

lemma upper_Nil_iff [simp]: "upper s = [] \<longleftrightarrow> s = []"
  by (simp add: upper_def)

lemma upper_Nil [simp]: "upper [] = []"
  by (simp add: upper_def)

lemma of_char_less: "of_char c < (256::nat)"
  by simp

lemma is_lower_up_char: "\<not> is_lower (up_char c)"
  by (auto simp: up_char_def is_lower_def char_in_def Let_def)

lemma up_char_idem [simp]: "up_char (up_char c) = up_char c"
  using is_lower_up_char [of c] by (simp add: up_char_def [of "up_char c"])

lemma upper_idem [simp]: "upper (upper s) = upper s"
  by (simp add: upper_def)

lemma dropWhile_rev_dropWhile_idem:
  "dropWhile P (rev (dropWhile P (rev (dropWhile P s)))) = rev (dropWhile P (rev (dropWhile P s)))"
proof (cases "dropWhile P s")
  case Nil
  show ?thesis unfolding Nil by simp
next
  case (Cons c t)
  then have c: "\<not> P c" by (metis dropWhile_eq_Cons_conv)
  have "dropWhile P (rev (c # t)) = dropWhile P (rev t @ [c])" by simp
  also have "\<dots> = dropWhile P (rev t) @ [c]"
    using c by (simp add: dropWhile_append)
  finally show ?thesis using Cons c by simp
qed

lemma strip_idem [simp]: "strip (strip s) = strip s"
  by (simp add: strip_def dropWhile_rev_dropWhile_idem)

subsection \<open>JSON values\<close>

datatype json =
    JNull
  | JBool bool
  | JNum real
  | JStr string
  | JArr "json list"
  | JObj "(string \<times> json) list"

type_synonym doc = "(string \<times> json) list"

fun truthy :: "json \<Rightarrow> bool" where
  "truthy JNull = False"
| "truthy (JBool b) = b"
| "truthy (JNum n) = (n \<noteq> 0)"
| "truthy (JStr s) = (s \<noteq> [])"
| "truthy (JArr xs) = (xs \<noteq> [])"
| "truthy (JObj d) = (d \<noteq> [])"

definition py_or :: "json \<Rightarrow> json \<Rightarrow> json" where
  "py_or a b = (if truthy a then a else b)"

fun num_of :: "json \<Rightarrow> real option" where
  \<comment> \<open>the values arithmetic accepts; \<open>bool\<close> is a subclass of \<open>int\<close>\<close>
  "num_of (JNum n) = Some n"
| "num_of (JBool b) = Some (if b then 1 else 0)"
| "num_of _ = None"

fun str_of :: "json \<Rightarrow> string option" where
  "str_of (JStr s) = Some s"
| "str_of _ = None"

fun obj_of :: "json \<Rightarrow> doc option" where
  "obj_of (JObj d) = Some d"
| "obj_of _ = None"

definition py_int :: "real \<Rightarrow> int" where
  \<comment> \<open>\<open>int(x)\<close> on a float: truncation towards zero\<close>
  "py_int x = (if 0 \<le> x then \<lfloor>x\<rfloor> else - \<lfloor>- x\<rfloor>)"

lemma py_int_nonneg: "0 \<le> x \<Longrightarrow> 0 \<le> py_int x"
  by (simp add: py_int_def)

lemma py_int_le: "0 \<le> x \<Longrightarrow> real_of_int (py_int x) \<le> x"
  by (simp add: py_int_def)

lemma truthy_JNull_imp: "truthy j \<Longrightarrow> j \<noteq> JNull"
  by auto

subsection \<open>Dictionaries\<close>

definition dget :: "doc \<Rightarrow> string \<Rightarrow> json" where
  "dget d k = (case map_of d k of None \<Rightarrow> JNull | Some v \<Rightarrow> v)"

definition getd :: "doc \<Rightarrow> string \<Rightarrow> json \<Rightarrow> json" where
  "getd d k v = (case map_of d k of None \<Rightarrow> v | Some w \<Rightarrow> w)"

definition has :: "doc \<Rightarrow> string \<Rightarrow> bool" where
  "has d k = (map_of d k \<noteq> None)"

definition dset :: "doc \<Rightarrow> string \<Rightarrow> json \<Rightarrow> doc" where
  "dset d k v = AList.update k v d"

definition dpop :: "doc \<Rightarrow> string \<Rightarrow> doc" where
  "dpop d k = AList.delete k d"

definition dupd :: "doc \<Rightarrow> doc \<Rightarrow> doc" where
  "dupd d u = AList.merge d u"

lemma map_of_dset [simp]: "map_of (dset d k v) = (map_of d)(k \<mapsto> v)"
  by (simp add: dset_def update_conv')

lemma map_of_dpop [simp]: "map_of (dpop d k) = (map_of d)(k := None)"
  by (simp add: dpop_def delete_conv')

lemma map_of_dupd [simp]: "map_of (dupd d u) = map_of d ++ map_of u"
  by (simp add: dupd_def merge_conv')

lemma dget_list [simp]:
  "dget [] k = JNull" "dget ((k', v) # d) k = (if k = k' then v else dget d k)"
  by (simp_all add: dget_def)

lemma getd_list [simp]:
  "getd [] k w = w" "getd ((k', v) # d) k w = (if k = k' then v else getd d k w)"
  by (simp_all add: getd_def)

lemma has_list [simp]:
  "\<not> has [] k" "has ((k', v) # d) k = (k = k' \<or> has d k)"
  by (simp_all add: has_def)

lemma dget_dset [simp]: "dget (dset d k v) k' = (if k = k' then v else dget d k')"
  by (simp add: dget_def)

lemma getd_dset [simp]: "getd (dset d k v) k' w = (if k = k' then v else getd d k' w)"
  by (simp add: getd_def)

lemma has_dset [simp]: "has (dset d k v) k' = (k = k' \<or> has d k')"
  by (auto simp: has_def)

lemma dget_dupd: "dget (dupd d u) k = (if has u k then dget u k else dget d k)"
  by (auto simp: dget_def has_def map_add_def split: option.splits)

lemma getd_dupd: "getd (dupd d u) k v = (if has u k then dget u k else getd d k v)"
  by (auto simp: getd_def dget_def has_def map_add_def split: option.splits)

lemma has_dupd [simp]: "has (dupd d u) k = (has u k \<or> has d k)"
  by (auto simp: has_def map_add_def split: option.splits)

lemma getd_has: "has d k \<Longrightarrow> getd d k v = dget d k"
  by (auto simp: getd_def dget_def has_def)

lemma getd_not_has: "\<not> has d k \<Longrightarrow> getd d k v = v"
  by (auto simp: getd_def has_def)

lemma dget_not_has: "\<not> has d k \<Longrightarrow> dget d k = JNull"
  by (auto simp: dget_def has_def)

lemma dget_dpop [simp]: "dget (dpop d k) k' = (if k = k' then JNull else dget d k')"
  by (simp add: dget_def)

lemma has_dpop [simp]: "has (dpop d k) k' = (k \<noteq> k' \<and> has d k')"
  by (simp add: has_def)

definition dset_new :: "doc \<Rightarrow> string \<Rightarrow> json \<Rightarrow> doc" where
  \<comment> \<open>\<^verbatim>\<open>if k not in d: d[k] = v\<close>\<close>
  "dset_new d k v = (if has d k then d else dset d k v)"

lemma dget_dset_new [simp]:
  "dget (dset_new d k v) k' = (if k = k' \<and> \<not> has d k then v else dget d k')"
  by (simp add: dset_new_def)

lemma has_dset_new [simp]: "has (dset_new d k v) k' = (k = k' \<or> has d k')"
  by (auto simp: dset_new_def)

subsection \<open>JSON files\<close>

datatype jfile = Doc doc | Corrupt

fun file_doc :: "jfile option \<Rightarrow> doc option" where
  "file_doc (Some (Doc d)) = Some d"
| "file_doc _ = None"

lemma file_doc_Some_iff [simp]: "file_doc f = Some d \<longleftrightarrow> f = Some (Doc d)"
  by (cases f rule: file_doc.cases) auto

subsection \<open>Keyed tables\<close>

lemma update_fresh: "k \<notin> fst ` set t \<Longrightarrow> AList.update k v t = t @ [(k, v)]"
  by (induction t) auto

lemma set_update:
  "distinct (map fst t) \<Longrightarrow> set (AList.update k v t) = insert (k, v) {p \<in> set t. fst p \<noteq> k}"
proof (induction t)
  case (Cons p t)
  have "(fst p, b) \<notin> set t" for b
    using Cons.prems image_eqI [of "fst p" fst "(fst p, b)" "set t"] by auto
  then show ?case using Cons by (cases p) auto
qed simp

definition tput :: "'k \<Rightarrow> 'v \<Rightarrow> ('k \<times> 'v) list \<Rightarrow> ('k \<times> 'v) list" where
  \<comment> \<open>\<^verbatim>\<open>INSERT OR REPLACE\<close>: the old row goes, the new one is the last\<close>
  "tput k v t = AList.delete k t @ [(k, v)]"

definition tdel :: "'k \<Rightarrow> ('k \<times> 'v) list \<Rightarrow> ('k \<times> 'v) list" where
  "tdel k t = AList.delete k t"

lemma map_of_tdel [simp]: "map_of (tdel k t) = (map_of t)(k := None)"
  by (simp add: tdel_def delete_conv')

lemma map_of_tput [simp]: "map_of (tput k v t) = (map_of t)(k \<mapsto> v)"
  by (auto simp: tput_def map_add_def delete_conv' fun_eq_iff split: option.splits)

lemma set_tdel: "set (tdel k t) = {p \<in> set t. fst p \<noteq> k}"
  by (auto simp: tdel_def AList.delete_eq)

lemma set_tput: "set (tput k v t) = insert (k, v) {p \<in> set t. fst p \<noteq> k}"
  by (auto simp: tput_def AList.delete_eq)

lemma distinct_tdel [simp]: "distinct (map fst t) \<Longrightarrow> distinct (map fst (tdel k t))"
  unfolding tdel_def by (rule distinct_delete)

lemma distinct_tput [simp]: "distinct (map fst t) \<Longrightarrow> distinct (map fst (tput k v t))"
  using distinct_delete [of t k] by (auto simp: tput_def AList.delete_eq)

subsection \<open>The interface of a keyed store\<close>

text \<open>
  Every component keeps its records in a store that is read, written and deleted by key: a
  directory of JSON files, a dictionary, an SQL table. The laws below are all that the
  clients use.
\<close>

locale keyed_store =
  fixes look :: "'s \<Rightarrow> 'k \<Rightarrow> 'v option"
    and put :: "'k \<Rightarrow> 'v \<Rightarrow> 's \<Rightarrow> 's"
    and del :: "'k \<Rightarrow> 's \<Rightarrow> 's"
  assumes look_put: "look (put k v s) = (look s)(k \<mapsto> v)"
    and look_del: "look (del k s) = (look s)(k := None)"
begin

lemma look_put_same: "look (put k v s) k = Some v"
  by (simp add: look_put)

lemma look_put_other: "k \<noteq> k' \<Longrightarrow> look (put k v s) k' = look s k'"
  by (simp add: look_put)

lemma look_del_same: "look (del k s) k = None"
  by (simp add: look_del)

lemma look_put_put: "look (put k v (put k w s)) = look (put k v s)"
  by (simp add: look_put)

lemma put_preserves_all:
  assumes "\<And>k v. look s k = Some v \<Longrightarrow> P v" and "P w"
  shows "look (put k' w s) k = Some v \<Longrightarrow> P v"
  using assms by (auto simp: look_put split: if_splits)

end

interpretation tbl: keyed_store map_of tput tdel
  by unfold_locales simp_all

interpretation dict: keyed_store map_of "\<lambda>k v d. dset d k v" "\<lambda>k d. dpop d k"
  by unfold_locales simp_all

subsection \<open>Machines with absorbing states\<close>

text \<open>
  A life cycle whose final states are never left: one step from a final state keeps what
  identifies it (\<open>tag\<close>), so every run does.
\<close>

locale absorbing_machine =
  fixes step :: "'s \<Rightarrow> 's \<Rightarrow> bool"
    and final :: "'s \<Rightarrow> bool"
    and tag :: "'s \<Rightarrow> 't"
  assumes step_final: "final s \<Longrightarrow> step s t \<Longrightarrow> tag t = tag s"
    and final_tag: "tag s = tag t \<Longrightarrow> final s \<Longrightarrow> final t"
begin

lemma run_final: "step\<^sup>*\<^sup>* s t \<Longrightarrow> final s \<Longrightarrow> tag t = tag s \<and> final t"
proof (induction rule: rtranclp_induct)
  case base
  then show ?case by simp
next
  case (step y z)
  then have y: "tag y = tag s" "final y" by simp_all
  with step.hyps have z: "tag z = tag y" by (blast intro: step_final)
  with y final_tag [of y z] show ?case by simp
qed

end

subsection \<open>Authentication by token\<close>

text \<open>
  A component that names the owner of a presented token: \<open>holds\<close> is what the records say,
  \<open>auth\<close> is the procedure with its caches and indices, \<open>good\<close> the invariant under which the
  two agree.
\<close>

locale authenticator =
  fixes good :: "'s \<Rightarrow> bool"
    and holds :: "'s \<Rightarrow> 'i \<Rightarrow> 't \<Rightarrow> bool"
    and auth :: "'s \<Rightarrow> 't \<Rightarrow> 'i option"
  assumes auth_sound: "good s \<Longrightarrow> auth s t = Some i \<Longrightarrow> holds s i t"
    and auth_complete: "good s \<Longrightarrow> holds s i t \<Longrightarrow> auth s t \<noteq> None"
begin

lemma auth_iff:
  assumes "good s" and "\<And>j. holds s j t \<Longrightarrow> j = i"
  shows "auth s t = Some i \<longleftrightarrow> holds s i t"
  using assms auth_sound [of s t] auth_complete [of s i t] by (cases "auth s t") auto

lemma auth_revoked: "good s \<Longrightarrow> (\<And>j. \<not> holds s j t) \<Longrightarrow> auth s t = None"
  using auth_sound [of s t] by (cases "auth s t") auto

lemma auth_transparent:
  assumes "good s" "good s'" "holds s' = holds s" and "\<And>i j. holds s i t \<Longrightarrow> holds s j t \<Longrightarrow> i = j"
  shows "auth s' t = auth s t"
proof (cases "auth s t")
  case None
  then have "\<not> holds s j t" for j using auth_complete [OF assms(1)] by blast
  then show ?thesis using None auth_revoked [OF assms(2)] assms(3) by simp
next
  case (Some i)
  have "auth s' t = Some i \<longleftrightarrow> holds s' i t"
    using auth_sound [OF assms(1) Some] assms(3,4) by (intro auth_iff assms(2)) simp
  with auth_sound [OF assms(1) Some] assms(3) Some show ?thesis by simp
qed

end

subsection \<open>Stable sorting by a key\<close>

lemma sort_key_hd_least:
  fixes f :: "'a \<Rightarrow> 'b::linorder"
  assumes "sort_key f xs = y # ys" and "x \<in> set xs"
  shows "f y \<le> f x"
proof -
  have "sorted (map f (y # ys))" using assms(1) by (metis sorted_sort_key)
  moreover have "x \<in> set (y # ys)" using assms by (metis set_sort)
  ultimately show ?thesis by auto
qed

end
