(* ===== verification/ExecStatus.thy ===== *)
theory ExecStatus
  imports Prelude
begin

section \<open>The execution status machine\<close>

text \<open>
  \<^verbatim>\<open>server/storage/executions_store.py\<close>: the statuses of an execution, the table of allowed
  transitions and \<open>validate_status_transition\<close>, which every guarded status change calls.
  A status is whatever the JSON document holds under \<open>status\<close>, so the arguments are JSON
  values: an empty or missing status raises \<open>ValueError\<close>, a status that is no string has
  no \<open>upper\<close> method and raises \<open>AttributeError\<close>.
\<close>

definition FINAL_STATUSES :: "string list" where
  "FINAL_STATUSES = [''CANCELED'', ''SUCCESS'', ''FAILED'']"

definition ALLOWED_TRANSITIONS :: "(string \<times> string list) list" where
  "ALLOWED_TRANSITIONS =
    [(''QUEUED'', [''RUNNING'', ''CANCELED'']),
     (''RUNNING'', [''SUCCESS'', ''FAILED'', ''CANCELING'']),
     (''CANCELING'', [''CANCELED'', ''FAILED'']),
     (''CANCELED'', []),
     (''SUCCESS'', []),
     (''FAILED'', [])]"

definition allowed_from :: "string \<Rightarrow> string list" where
  \<comment> \<open>\<open>ALLOWED_TRANSITIONS.get(s, set())\<close>\<close>
  "allowed_from s = (case map_of ALLOWED_TRANSITIONS s of None \<Rightarrow> [] | Some ts \<Rightarrow> ts)"

definition upper_or_none :: "json \<Rightarrow> string option res" where
  \<comment> \<open>\<open>s.upper() if s else None\<close>\<close>
  "upper_or_none j =
    (if truthy j
     then (case j of JStr s \<Rightarrow> Inr (Some (upper s)) | _ \<Rightarrow> Inl AttributeError)
     else Inr None)"

definition validate_status_transition :: "json \<Rightarrow> json \<Rightarrow> unit res" where
  "validate_status_transition from_status to_status =
    (case upper_or_none from_status of
       Inl e \<Rightarrow> Inl e
     | Inr f \<Rightarrow>
         (case upper_or_none to_status of
            Inl e \<Rightarrow> Inl e
          | Inr t \<Rightarrow>
              (case (f, t) of
                 (Some f', Some t') \<Rightarrow>
                   (if f' = t' then Inr ()
                    else if t' \<notin> set (allowed_from f') then
                      (if f' \<in> set FINAL_STATUSES
                       then Inl (ValueError ''Cannot change status from final status'')
                       else if t' = ''CANCELED'' \<and> f' = ''RUNNING''
                       then Inl (ValueError ''Must go through CANCELING first'')
                       else Inl (ValueError ''Invalid status transition''))
                    else Inr ())
               | _ \<Rightarrow> Inl (ValueError ''Status cannot be None or empty''))))"

definition is_final_status :: "json \<Rightarrow> bool res" where
  "is_final_status status =
    (case upper_or_none status of
       Inl e \<Rightarrow> Inl e
     | Inr None \<Rightarrow> Inr False
     | Inr (Some s) \<Rightarrow> Inr (s \<in> set FINAL_STATUSES))"

definition can_transition :: "json \<Rightarrow> json \<Rightarrow> bool res" where
  \<comment> \<open>only \<open>ValueError\<close> is caught\<close>
  "can_transition from_status to_status =
    (case validate_status_transition from_status to_status of
       Inr _ \<Rightarrow> Inr True
     | Inl (ValueError _) \<Rightarrow> Inr False
     | Inl e \<Rightarrow> Inl e)"

definition get_status_transitions :: "json \<Rightarrow> string list res" where
  "get_status_transitions from_status =
    (case upper_or_none from_status of
       Inl e \<Rightarrow> Inl e
     | Inr None \<Rightarrow> Inr []
     | Inr (Some s) \<Rightarrow> Inr (allowed_from s))"

subsection \<open>Lemmas\<close>

lemmas status_tables = FINAL_STATUSES_def ALLOWED_TRANSITIONS_def allowed_from_def

definition is_final :: "json \<Rightarrow> bool" where
  \<comment> \<open>the statement used by the invariants: a final status, in any letter case\<close>
  "is_final j = (case j of JStr s \<Rightarrow> upper s \<in> set FINAL_STATUSES | _ \<Rightarrow> False)"

lemma is_final_status_eq:
  "is_final_status j = Inr True \<longleftrightarrow> is_final j"
  by (auto simp: is_final_status_def upper_or_none_def is_final_def FINAL_STATUSES_def
      split: json.splits if_splits)

lemma is_final_truthy: "is_final j \<Longrightarrow> truthy j"
  by (auto simp: is_final_def FINAL_STATUSES_def split: json.splits)

lemma allowed_from_final: "s \<in> set FINAL_STATUSES \<Longrightarrow> allowed_from s = []"
  by (auto simp: status_tables)

lemma allowed_from_cases:
  "t \<in> set (allowed_from s) \<Longrightarrow>
   (s = ''QUEUED'' \<and> t \<in> {''RUNNING'', ''CANCELED''}) \<or>
   (s = ''RUNNING'' \<and> t \<in> {''SUCCESS'', ''FAILED'', ''CANCELING''}) \<or>
   (s = ''CANCELING'' \<and> t \<in> {''CANCELED'', ''FAILED''})"
  by (auto simp: status_tables split: option.splits if_splits)

lemma validate_ok_iff:
  "validate_status_transition a b = Inr u \<longleftrightarrow>
   (\<exists>s t. a = JStr s \<and> b = JStr t \<and> s \<noteq> [] \<and> t \<noteq> [] \<and>
          (upper s = upper t \<or> upper t \<in> set (allowed_from (upper s))))"
  by (cases a; cases b)
    (auto simp: validate_status_transition_def upper_or_none_def split: if_splits)

lemma validate_final:
  "validate_status_transition a b = Inr u \<Longrightarrow> is_final a \<Longrightarrow>
   \<exists>s t. a = JStr s \<and> b = JStr t \<and> upper t = upper s"
  by (auto simp: validate_ok_iff is_final_def allowed_from_final)

lemma validate_keeps_final:
  "validate_status_transition a b = Inr u \<Longrightarrow> is_final a \<Longrightarrow> is_final b"
  by (auto simp: validate_ok_iff is_final_def allowed_from_final)

lemma validate_to_QUEUED:
  "validate_status_transition a (JStr t) = Inr u \<Longrightarrow> upper t = ''QUEUED'' \<Longrightarrow>
   \<exists>s. a = JStr s \<and> upper s = ''QUEUED''"
  by (auto simp: validate_ok_iff dest: allowed_from_cases)

lemma validate_RUNNING_FAILED [simp]:
  "validate_status_transition (JStr ''RUNNING'') (JStr ''FAILED'') = Inr ()"
  by code_simp

lemma validate_CANCELING_CANCELED [simp]:
  "validate_status_transition (JStr ''CANCELING'') (JStr ''CANCELED'') = Inr ()"
  by code_simp

lemma validate_QUEUED_CANCELED [simp]:
  "validate_status_transition (JStr ''QUEUED'') (JStr ''CANCELED'') = Inr ()"
  by code_simp

lemma validate_RUNNING_CANCELING [simp]:
  "validate_status_transition (JStr ''RUNNING'') (JStr ''CANCELING'') = Inr ()"
  by code_simp

text \<open>The machine on upper-case status names, and its order: it never goes back.\<close>

definition status_step :: "string \<Rightarrow> string \<Rightarrow> bool" where
  "status_step s t = (validate_status_transition (JStr s) (JStr t) = Inr ())"

definition status_rank :: "string \<Rightarrow> nat" where
  "status_rank s =
    (if upper s = ''QUEUED'' then 0 else if upper s = ''RUNNING'' then 1
     else if upper s = ''CANCELING'' then 2 else 3)"

lemma status_step_rank:
  assumes "status_step s t"
  shows "upper s = upper t \<or> status_rank s < status_rank t"
proof -
  have u: "upper t = upper s \<or> upper t \<in> set (allowed_from (upper s))"
    using assms by (auto simp: status_step_def validate_ok_iff)
  then show ?thesis
    by (auto simp: status_rank_def dest!: allowed_from_cases)
qed

interpretation st: absorbing_machine status_step "\<lambda>s. is_final (JStr s)" upper
  by unfold_locales
    (auto simp: status_step_def is_final_def dest: validate_final)

text \<open>The guard accepts exactly the pairs of non-empty strings that are equal up to letter case or an edge of \<open>ALLOWED_TRANSITIONS\<close>; the raised error is \<open>ValueError\<close> for every other pair of strings.\<close>

theorem validate_status_transition_correct:
  "validate_status_transition (JStr s) (JStr t) =
    (if s \<noteq> [] \<and> t \<noteq> [] \<and> (upper s = upper t \<or>
        (upper s, upper t) \<in>
          {(''QUEUED'', ''RUNNING''), (''QUEUED'', ''CANCELED''),
           (''RUNNING'', ''SUCCESS''), (''RUNNING'', ''FAILED''), (''RUNNING'', ''CANCELING''),
           (''CANCELING'', ''CANCELED''), (''CANCELING'', ''FAILED'')})
     then Inr ()
     else Inl (ValueError
       (if s = [] \<or> t = [] then ''Status cannot be None or empty''
        else if upper s \<in> {''CANCELED'', ''SUCCESS'', ''FAILED''}
        then ''Cannot change status from final status''
        else if upper s = ''RUNNING'' \<and> upper t = ''CANCELED''
        then ''Must go through CANCELING first''
        else ''Invalid status transition'')))"
proof -
  have edge: "upper t \<in> set (allowed_from (upper s)) \<longleftrightarrow>
      (upper s, upper t) \<in>
          {(''QUEUED'', ''RUNNING''), (''QUEUED'', ''CANCELED''),
           (''RUNNING'', ''SUCCESS''), (''RUNNING'', ''FAILED''), (''RUNNING'', ''CANCELING''),
           (''CANCELING'', ''CANCELED''), (''CANCELING'', ''FAILED'')}"
    by (auto simp: status_tables split: option.splits if_splits)
  have fin: "upper s \<in> set FINAL_STATUSES \<longleftrightarrow> upper s \<in> {''CANCELED'', ''SUCCESS'', ''FAILED''}"
    by (simp add: FINAL_STATUSES_def)
  show ?thesis
    unfolding edge [symmetric] fin [symmetric] validate_status_transition_def upper_or_none_def
    by auto
qed

text \<open>A sequence of accepted transitions never leaves a final status: every status reached from \<open>SUCCESS\<close>, \<open>FAILED\<close> or \<open>CANCELED\<close> is that status again, up to letter case.\<close>

theorem final_status_absorbing:
  assumes "status_step\<^sup>*\<^sup>* s t" and "upper s \<in> {''SUCCESS'', ''FAILED'', ''CANCELED''}"
  shows "upper t = upper s"
proof -
  have "is_final (JStr s)" using assms(2) by (auto simp: is_final_def FINAL_STATUSES_def)
  with assms(1) show ?thesis by (blast dest: st.run_final)
qed

lemma final_status_absorbing_witness:
  "status_step\<^sup>*\<^sup>* ''Failed'' ''FAILED'' \<and> upper ''FAILED'' = upper ''Failed''"
proof -
  have 1: "status_step ''Failed'' ''FAILED''" by code_simp
  have 2: "upper ''Failed'' \<in> {''SUCCESS'', ''FAILED'', ''CANCELED''}" by code_simp
  show ?thesis using 1 final_status_absorbing [OF r_into_rtranclp [of status_step, OF 1] 2] by blast
qed

end
