(* ===== verification/IndexDb.thy ===== *)
theory IndexDb
  imports ExecStatus
begin

section \<open>The SQLite index\<close>

text \<open>
  \<^verbatim>\<open>server/storage/index_db.py\<close>: four small tables kept beside the JSON files so that the
  claim, log and token paths do not scan directories. \<open>ix_open\<close> is false when the database
  could not be opened; every operation then does nothing. An operation that SQLite refuses
  (a value that cannot be bound, a time stamp that is no number) is caught by the code and
  leaves the tables as they were. A row of a table keyed by \<open>TEXT PRIMARY KEY\<close> is replaced
  by \<open>tput\<close>; the scan order is the insertion order.
\<close>

record queued_row =
  q_project :: string
  q_at :: real
  q_requirements :: doc

record running_row =
  r_project :: string
  r_worker :: json
  r_started :: real

record location_row =
  l_project :: string
  l_status :: json
  l_worker :: json
  l_updated :: real

record index_db =
  ix_open :: bool
  queued :: "(string \<times> queued_row) list"
  running :: "(string \<times> running_row) list"
  locations :: "(string \<times> location_row) list"
  worker_tokens :: "(string \<times> (string \<times> string)) list"  \<comment> \<open>hash to worker id and salt\<close>

definition empty_index :: index_db where
  "empty_index = \<lparr>ix_open = True, queued = [], running = [], locations = [], worker_tokens = []\<rparr>"

definition sql_bindable :: "json \<Rightarrow> bool" where
  "sql_bindable j = (case j of JArr _ \<Rightarrow> False | JObj _ \<Rightarrow> False | _ \<Rightarrow> True)"

definition float_or :: "real \<Rightarrow> json \<Rightarrow> real option" where
  \<comment> \<open>\<open>float(x or time.time())\<close>\<close>
  "float_or now x = (if truthy x then num_of x else Some now)"

subsection \<open>Queued, located and running executions\<close>

definition add_queued_execution :: "real \<Rightarrow> string \<Rightarrow> string \<Rightarrow> json \<Rightarrow> doc \<Rightarrow> index_db \<Rightarrow> index_db" where
  "add_queued_execution now execution_id project_id queued_at requirements ix =
    (if \<not> ix_open ix \<or> execution_id = [] \<or> project_id = [] then ix
     else (case float_or now queued_at of
             None \<Rightarrow> ix
           | Some ts \<Rightarrow>
               ix\<lparr>queued := tput execution_id
                    \<lparr>q_project = project_id, q_at = ts, q_requirements = requirements\<rparr> (queued ix)\<rparr>))"

definition remove_queued_execution :: "string \<Rightarrow> index_db \<Rightarrow> index_db" where
  "remove_queued_execution execution_id ix =
    (if \<not> ix_open ix \<or> execution_id = [] then ix
     else ix\<lparr>queued := tdel execution_id (queued ix)\<rparr>)"

definition upsert_execution_location ::
  "real \<Rightarrow> string \<Rightarrow> string \<Rightarrow> json \<Rightarrow> json \<Rightarrow> json \<Rightarrow> index_db \<Rightarrow> index_db" where
  "upsert_execution_location now execution_id project_id status worker_id updated_at ix =
    (if \<not> ix_open ix \<or> execution_id = [] \<or> project_id = [] then ix
     else if \<not> sql_bindable status \<or> \<not> sql_bindable worker_id then ix
     else (case float_or now updated_at of
             None \<Rightarrow> ix
           | Some ts \<Rightarrow>
               ix\<lparr>locations := tput execution_id
                    \<lparr>l_project = project_id, l_status = status, l_worker = worker_id, l_updated = ts\<rparr>
                    (locations ix)\<rparr>))"

definition find_execution_project :: "string \<Rightarrow> index_db \<Rightarrow> string option" where
  "find_execution_project execution_id ix =
    (if \<not> ix_open ix \<or> execution_id = [] then None
     else map_option l_project (map_of (locations ix) execution_id))"

definition mark_running_execution ::
  "real \<Rightarrow> string \<Rightarrow> string \<Rightarrow> json \<Rightarrow> json \<Rightarrow> index_db \<Rightarrow> index_db" where
  "mark_running_execution now execution_id project_id worker_id started_at ix =
    (if \<not> ix_open ix \<or> execution_id = [] \<or> project_id = [] \<or> \<not> truthy worker_id then ix
     else (case float_or now started_at of
             None \<Rightarrow> ix
           | Some ts \<Rightarrow>
               if \<not> sql_bindable worker_id then ix
               else upsert_execution_location now execution_id project_id
                      (JStr ''RUNNING'') worker_id (JNum ts)
                      (remove_queued_execution execution_id
                        (ix\<lparr>running := tput execution_id
                             \<lparr>r_project = project_id, r_worker = worker_id, r_started = ts\<rparr>
                             (running ix)\<rparr>))))"

definition remove_running_execution :: "string \<Rightarrow> index_db \<Rightarrow> index_db" where
  "remove_running_execution execution_id ix =
    (if \<not> ix_open ix \<or> execution_id = [] then ix
     else ix\<lparr>running := tdel execution_id (running ix)\<rparr>)"

definition running_rows_of :: "string \<Rightarrow> index_db \<Rightarrow> (string \<times> running_row) list" where
  \<comment> \<open>\<^verbatim>\<open>WHERE worker_id = ?\<close>\<close>
  "running_rows_of worker_id ix = filter (\<lambda>(e, r). r_worker r = JStr worker_id) (running ix)"

definition running_count_for_worker :: "string \<Rightarrow> index_db \<Rightarrow> nat option" where
  "running_count_for_worker worker_id ix =
    (if \<not> ix_open ix \<or> worker_id = [] then None
     else Some (length (running_rows_of worker_id ix)))"

definition list_running_for_worker :: "string \<Rightarrow> index_db \<Rightarrow> (string \<times> string \<times> real) list" where
  "list_running_for_worker worker_id ix =
    (if \<not> ix_open ix \<or> worker_id = [] then []
     else map (\<lambda>(e, r). (e, r_project r, r_started r)) (running_rows_of worker_id ix))"

definition sql_limit :: "int \<Rightarrow> 'a list \<Rightarrow> 'a list" where
  \<comment> \<open>\<^verbatim>\<open>LIMIT n\<close>: a negative limit is none\<close>
  "sql_limit n xs = (if n < 0 then xs else take (nat n) xs)"

definition list_queued :: "string option \<Rightarrow> int \<Rightarrow> index_db \<Rightarrow> (string \<times> string \<times> real) list" where
  "list_queued project_id limit ix =
    (if \<not> ix_open ix then []
     else (let rows = (case project_id of
                         Some p \<Rightarrow> if p = [] then queued ix
                                   else filter (\<lambda>(e, r). q_project r = p) (queued ix)
                       | None \<Rightarrow> queued ix)
           in map (\<lambda>(e, r). (e, q_project r, q_at r))
                (sql_limit limit (sort_key (\<lambda>(e, r). q_at r) rows))))"

definition queued_count :: "index_db \<Rightarrow> nat" where
  "queued_count ix = (if ix_open ix then length (queued ix) else 0)"

subsection \<open>Worker tokens\<close>

definition upsert_worker_token :: "string \<Rightarrow> string \<Rightarrow> string \<Rightarrow> index_db \<Rightarrow> index_db" where
  "upsert_worker_token worker_id token_hash salt ix =
    (if \<not> ix_open ix \<or> worker_id = [] \<or> token_hash = [] \<or> salt = [] then ix
     else ix\<lparr>worker_tokens :=
            tput token_hash (worker_id, salt)
              (filter (\<lambda>(h, w, s). w \<noteq> worker_id) (worker_tokens ix))\<rparr>)"

definition remove_worker_token :: "string \<Rightarrow> index_db \<Rightarrow> index_db" where
  "remove_worker_token worker_id ix =
    (if \<not> ix_open ix \<or> worker_id = [] then ix
     else ix\<lparr>worker_tokens := filter (\<lambda>(h, w, s). w \<noteq> worker_id) (worker_tokens ix)\<rparr>)"

definition find_worker_by_token_hash :: "string \<Rightarrow> index_db \<Rightarrow> (string \<times> string) option" where
  "find_worker_by_token_hash token_hash ix =
    (if \<not> ix_open ix \<or> token_hash = [] then None
     else map_of (worker_tokens ix) token_hash)"

definition all_worker_salts :: "index_db \<Rightarrow> (string \<times> string \<times> string) list" where
  \<comment> \<open>worker id, salt, token hash\<close>
  "all_worker_salts ix =
    (if ix_open ix then map (\<lambda>(h, w, s). (w, s, h)) (worker_tokens ix) else [])"

definition worker_token_count :: "index_db \<Rightarrow> nat" where
  "worker_token_count ix = (if ix_open ix then length (worker_tokens ix) else 0)"

subsection \<open>What each operation does to each table\<close>

lemma ix_open_ops [simp, frame]:
  "ix_open (add_queued_execution now e p q r ix) = ix_open ix"
  "ix_open (remove_queued_execution e ix) = ix_open ix"
  "ix_open (upsert_execution_location now e p s w u ix) = ix_open ix"
  "ix_open (mark_running_execution now e p w u ix) = ix_open ix"
  "ix_open (remove_running_execution e ix) = ix_open ix"
  "ix_open (upsert_worker_token w' h s' ix) = ix_open ix"
  "ix_open (remove_worker_token w' ix) = ix_open ix"
  by (simp_all add: add_queued_execution_def remove_queued_execution_def
      upsert_execution_location_def mark_running_execution_def remove_running_execution_def
      upsert_worker_token_def remove_worker_token_def split: option.split)

lemma queued_frame [simp, frame]:
  "queued (upsert_execution_location now e p s w u ix) = queued ix"
  "queued (remove_running_execution e ix) = queued ix"
  "queued (upsert_worker_token w' h s' ix) = queued ix"
  "queued (remove_worker_token w' ix) = queued ix"
  by (simp_all add: upsert_execution_location_def remove_running_execution_def
      upsert_worker_token_def remove_worker_token_def split: option.split)

lemma running_frame [simp, frame]:
  "running (add_queued_execution now e p q r ix) = running ix"
  "running (remove_queued_execution e ix) = running ix"
  "running (upsert_execution_location now e p s w u ix) = running ix"
  "running (upsert_worker_token w' h s' ix) = running ix"
  "running (remove_worker_token w' ix) = running ix"
  by (simp_all add: add_queued_execution_def remove_queued_execution_def
      upsert_execution_location_def upsert_worker_token_def remove_worker_token_def
      split: option.split)

lemma tokens_frame [simp, frame]:
  "worker_tokens (add_queued_execution now e p q r ix) = worker_tokens ix"
  "worker_tokens (remove_queued_execution e ix) = worker_tokens ix"
  "worker_tokens (upsert_execution_location now e p s w u ix) = worker_tokens ix"
  "worker_tokens (mark_running_execution now e p w u ix) = worker_tokens ix"
  "worker_tokens (remove_running_execution e ix) = worker_tokens ix"
  by (simp_all add: add_queued_execution_def remove_queued_execution_def
      upsert_execution_location_def mark_running_execution_def remove_running_execution_def
      split: option.split)

lemma queued_remove [simp]:
  "ix_open ix \<Longrightarrow> e \<noteq> [] \<Longrightarrow> queued (remove_queued_execution e ix) = tdel e (queued ix)"
  by (simp add: remove_queued_execution_def)

lemma running_remove [simp]:
  "ix_open ix \<Longrightarrow> e \<noteq> [] \<Longrightarrow> running (remove_running_execution e ix) = tdel e (running ix)"
  by (simp add: remove_running_execution_def)

lemma mark_running_closed:
  "\<not> ix_open ix \<Longrightarrow> mark_running_execution now e p w u ix = ix"
  by (simp add: mark_running_execution_def)

lemma mark_running_tables:
  assumes "ix_open ix" "e \<noteq> []" "p \<noteq> []" "w \<noteq> []" "float_or now u = Some ts"
  shows "running (mark_running_execution now e p (JStr w) u ix) =
           tput e \<lparr>r_project = p, r_worker = JStr w, r_started = ts\<rparr> (running ix)"
    and "queued (mark_running_execution now e p (JStr w) u ix) = tdel e (queued ix)"
  using assms
  by (simp_all add: mark_running_execution_def sql_bindable_def)

subsection \<open>Well-formed index\<close>

definition wf_index :: "index_db \<Rightarrow> bool" where
  \<comment> \<open>primary keys are unique, and a worker has one token at most\<close>
  "wf_index ix \<longleftrightarrow>
     distinct (map fst (queued ix)) \<and> distinct (map fst (running ix)) \<and>
     distinct (map fst (locations ix)) \<and> distinct (map fst (worker_tokens ix)) \<and>
     distinct (map (fst \<circ> snd) (worker_tokens ix))"

lemma wf_empty_index: "wf_index empty_index"
  by (simp add: wf_index_def empty_index_def)

lemma wf_upsert_worker_token:
  "wf_index ix \<Longrightarrow> wf_index (upsert_worker_token w h s ix)"
proof -
  assume wf: "wf_index ix"
  let ?t = "filter (\<lambda>(h', w', s'). w' \<noteq> w) (worker_tokens ix)"
  have "distinct (map fst ?t)"
    using wf by (auto simp: wf_index_def distinct_map inj_on_def)
  moreover have "distinct (map (fst \<circ> snd) (tput h (w, s) ?t))"
    using wf
    by (auto simp: wf_index_def tput_def AList.delete_eq distinct_map inj_on_def)
  ultimately show ?thesis
    using wf by (auto simp: wf_index_def upsert_worker_token_def remove_worker_token_def)
qed

lemma wf_remove_worker_token:
  "wf_index ix \<Longrightarrow> wf_index (remove_worker_token w ix)"
  by (auto simp: wf_index_def remove_worker_token_def distinct_map inj_on_def)

lemma wf_exec_ops:
  assumes "wf_index ix"
  shows "wf_index (add_queued_execution now e p q r ix)"
    and "wf_index (remove_queued_execution e ix)"
    and "wf_index (upsert_execution_location now e p s w u ix)"
    and "wf_index (remove_running_execution e ix)"
  using assms
  by (simp_all add: wf_index_def add_queued_execution_def remove_queued_execution_def
      upsert_execution_location_def remove_running_execution_def split: option.split)

lemma wf_mark_running:
  assumes "wf_index ix"
  shows "wf_index (mark_running_execution now e p w u ix)"
proof -
  have "wf_index (ix\<lparr>running := tput e r (running ix)\<rparr>)" for r
    using assms by (simp add: wf_index_def)
  then show ?thesis
    using assms by (auto simp: mark_running_execution_def split: option.split intro: wf_exec_ops)
qed

lemmas wf_index_ops = wf_upsert_worker_token wf_remove_worker_token wf_exec_ops wf_mark_running

subsection \<open>The queue order\<close>

lemma list_queued_sorted:
  "sorted (map (\<lambda>(e, p, q). q) (list_queued project_id limit ix))"
proof -
  have s: "sorted (map (\<lambda>(e, r). q_at r) (sql_limit limit (sort_key (\<lambda>(e, r). q_at r) rows)))"
    for rows :: "(string \<times> queued_row) list"
    by (simp add: sql_limit_def take_map [symmetric] sorted_wrt_take)
  have m: "(\<lambda>(e, p, q). q) \<circ> (\<lambda>(e, r). (e, q_project r, q_at r)) = (\<lambda>(e :: string, r). q_at r)"
    by auto
  show ?thesis using s unfolding list_queued_def Let_def by (simp add: m)
qed

lemma list_queued_in_queue:
  "(e, p, q) \<in> set (list_queued project_id limit ix) \<Longrightarrow>
   \<exists>r. (e, r) \<in> set (queued ix) \<and> q_project r = p \<and> q_at r = q"
  by (auto simp: list_queued_def Let_def sql_limit_def split: if_splits option.splits
      dest!: in_set_takeD)

lemma length_running_tput_le:
  "length (filter P (tput e r t)) \<le> Suc (length (filter P t))"
proof -
  have "length (filter P (AList.delete e t)) \<le> length (filter P t)"
    by (induction t) auto
  then show ?thesis by (simp add: tput_def)
qed

lemma running_count_tput_le:
  assumes "running ix' = tput e r (running ix)"
  shows "length (running_rows_of w ix') \<le> Suc (length (running_rows_of w ix))"
  using assms by (simp add: running_rows_of_def length_running_tput_le)

text \<open>Every index operation keeps the tables well formed: primary keys stay unique and a worker never has two token rows.\<close>

theorem index_ops_keep_wf:
  assumes "wf_index ix"
  shows "wf_index (add_queued_execution now e p q r ix) \<and>
         wf_index (remove_queued_execution e ix) \<and>
         wf_index (upsert_execution_location now e p s w u ix) \<and>
         wf_index (mark_running_execution now e p w u ix) \<and>
         wf_index (remove_running_execution e ix) \<and>
         wf_index (upsert_worker_token wid h salt ix) \<and>
         wf_index (remove_worker_token wid ix)"
  using assms by (intro conjI wf_index_ops)

lemma index_ops_keep_wf_witness:
  "wf_index (upsert_worker_token ''w'' ''h2'' ''s2'' (upsert_worker_token ''w'' ''h1'' ''s1'' empty_index))
   \<and> worker_tokens (upsert_worker_token ''w'' ''h2'' ''s2'' (upsert_worker_token ''w'' ''h1'' ''s1'' empty_index))
       = [(''h2'', ''w'', ''s2'')]"
proof
  show "wf_index (upsert_worker_token ''w'' ''h2'' ''s2'' (upsert_worker_token ''w'' ''h1'' ''s1'' empty_index))"
    using index_ops_keep_wf [of "upsert_worker_token ''w'' ''h1'' ''s1'' empty_index"]
      wf_upsert_worker_token [OF wf_empty_index] by simp
qed (simp add: upsert_worker_token_def empty_index_def tput_def)

end
