(* ===== verification/ExecStore.thy ===== *)
theory ExecStore
  imports IndexDb
begin

section \<open>Execution records on disk\<close>

text \<open>
  \<^verbatim>\<open>server/storage/executions_store.py\<close>. \<open>PROJECTS_DIR\<close> is the list \<open>projects\<close> of
  project directories in the order \<open>iterdir\<close> yields them. A directory that does not exist
  is \<open>None\<close>; a JSON file carries its modification time. The index is the one of
  \<open>IndexDb\<close>. Reading and writing of files is taken to succeed; bytes that do not parse are
  \<open>Corrupt\<close>, and reading them raises \<open>JSONDecodeError\<close>, which is a \<open>ValueError\<close>.
\<close>

type_synonym exec_dir = "(string \<times> (jfile \<times> real)) list"

record pdir =
  hist_exec :: "exec_dir option"                    \<comment> \<open>\<^verbatim>\<open>history/executions\<close>\<close>
  legacy_exec :: "exec_dir option"                  \<comment> \<open>\<^verbatim>\<open>executions\<close>\<close>
  hist_logs :: "(string \<times> string) list option"     \<comment> \<open>\<^verbatim>\<open>history/logs\<close>\<close>
  legacy_logs :: "(string \<times> string) list option"   \<comment> \<open>\<^verbatim>\<open>executions/logs\<close>\<close>
  gen_dir :: "(string \<times> real) list option"         \<comment> \<open>\<^verbatim>\<open>runtime/generated_playbooks\<close>\<close>

record store =
  projects :: "(string \<times> pdir) list"
  index :: index_db

definition empty_pdir :: pdir where
  "empty_pdir = \<lparr>hist_exec = None, legacy_exec = None, hist_logs = None,
                 legacy_logs = None, gen_dir = None\<rparr>"

definition pdir_of :: "store \<Rightarrow> string \<Rightarrow> pdir" where
  "pdir_of S p = (case map_of (projects S) p of None \<Rightarrow> empty_pdir | Some d \<Rightarrow> d)"

definition set_pdir :: "string \<Rightarrow> pdir \<Rightarrow> store \<Rightarrow> store" where
  "set_pdir p d S = S\<lparr>projects := AList.update p d (projects S)\<rparr>"

definition dir_file :: "exec_dir option \<Rightarrow> string \<Rightarrow> jfile option" where
  "dir_file dir e = (case dir of None \<Rightarrow> None | Some t \<Rightarrow> map_option fst (map_of t e))"

definition hist_file :: "store \<Rightarrow> string \<Rightarrow> string \<Rightarrow> jfile option" where
  \<comment> \<open>the file \<open>get_project_executions_dir(p) / f'{e}.json'\<close>\<close>
  "hist_file S p e = dir_file (hist_exec (pdir_of S p)) e"

definition dir_put :: "real \<Rightarrow> string \<Rightarrow> doc \<Rightarrow> exec_dir option \<Rightarrow> exec_dir option" where
  "dir_put now e d dir =
     Some (AList.update e (Doc d, now) (case dir of None \<Rightarrow> [] | Some t \<Rightarrow> t))"

definition put_hist :: "real \<Rightarrow> string \<Rightarrow> string \<Rightarrow> doc \<Rightarrow> store \<Rightarrow> store" where
  "put_hist now p e d S =
     (let pd = pdir_of S p in set_pdir p (pd\<lparr>hist_exec := dir_put now e d (hist_exec pd)\<rparr>) S)"

subsection \<open>Which project owns an execution\<close>

fun scan_project :: "string \<Rightarrow> (string \<times> pdir) list \<Rightarrow> json" where
  \<comment> \<open>the first readable record named \<open>e\<close> decides; its \<open>projectId\<close> may be null\<close>
  "scan_project e [] = JNull"
| "scan_project e ((p, pd) # ps) =
    (case dir_file (hist_exec pd) e of
       Some (Doc d) \<Rightarrow> dget d ''projectId''
     | _ \<Rightarrow> scan_project e ps)"

definition resolve_project :: "string \<Rightarrow> doc \<Rightarrow> string option \<Rightarrow> store \<Rightarrow> string res" where
  "resolve_project e updates project_id S =
    (let p0 = (case project_id of Some p \<Rightarrow> JStr p | None \<Rightarrow> JNull);
         p1 = (if truthy p0 then p0 else dget updates ''project_id'');
         p2 = (if truthy p1 then p1
               else (case find_execution_project e (index S) of Some p \<Rightarrow> JStr p | None \<Rightarrow> JNull));
         p3 = (if truthy p2 then p2 else scan_project e (projects S))
     in if \<not> truthy p3 then Inl (ValueError ''project_id is required'')
        else (case p3 of JStr p \<Rightarrow> Inr p | _ \<Rightarrow> Inl TypeError))"

subsection \<open>Updating a record\<close>

definition status_changes :: "doc \<Rightarrow> doc \<Rightarrow> bool" where
  \<comment> \<open>\<open>new_status and new_status != old_status\<close>\<close>
  "status_changes d u =
    (truthy (dget u ''status'') \<and> dget u ''status'' \<noteq> getd d ''status'' (JStr ''QUEUED''))"

definition stamp_status :: "real \<Rightarrow> doc \<Rightarrow> doc \<Rightarrow> doc" where
  "stamp_status now d u =
    (let old_status = getd d ''status'' (JStr ''QUEUED'');
         new_status = dget u ''status'';
         u = dset u ''statusUpdatedAt'' (JNum now)
     in if new_status = JStr ''RUNNING'' then
          (let u = dset_new u ''startedAt'' (JNum now)
           in if old_status = JStr ''QUEUED'' \<and> \<not> has d ''queuedAt''
              then dset u ''queuedAt'' (getd d ''createdAt'' (JNum now)) else u)
        else if new_status = JStr ''CANCELING'' then dset_new u ''cancelRequestedAt'' (JNum now)
        else if new_status = JStr ''CANCELED'' then
          dset_new (dset_new u ''canceledAt'' (JNum now)) ''cancelReason''
            (if old_status = JStr ''QUEUED'' then JStr ''user''
             else if old_status = JStr ''CANCELING'' then JStr ''user''
             else JStr ''admin'')
        else if new_status = JStr ''SUCCESS'' \<or> new_status = JStr ''FAILED'' then
          dset_new u ''finishedAt'' (JNum now)
        else u)"

definition add_duration :: "doc \<Rightarrow> doc \<Rightarrow> doc option" where
  \<comment> \<open>\<open>None\<close>: the subtraction raises \<open>TypeError\<close>\<close>
  "add_duration d u =
    (if has u ''finishedAt'' \<and> \<not> has u ''duration'' then
       (let started_at = py_or (py_or (dget d ''startedAt'') (dget u ''startedAt''))
                               (dget d ''createdAt'');
            finished_at = dget u ''finishedAt''
        in if truthy started_at \<and> truthy finished_at then
             (case (num_of finished_at, num_of started_at) of
                (Some f, Some s) \<Rightarrow> Some (dset u ''duration'' (JNum (real_of_int (py_int (f - s)))))
              | _ \<Rightarrow> None)
           else Some u)
     else Some u)"

definition sync_index :: "real \<Rightarrow> string \<Rightarrow> string \<Rightarrow> json \<Rightarrow> doc \<Rightarrow> index_db \<Rightarrow> index_db" where
  \<comment> \<open>\<open>d\<close> is the written record, \<open>new_status\<close> what the caller asked for\<close>
  "sync_index now e p new_status d ix =
    (let effective_status = py_or new_status (dget d ''status'');
         ix = upsert_execution_location now e p effective_status (dget d ''workerId'')
                (py_or (dget d ''statusUpdatedAt'') (JNum now)) ix
     in if effective_status = JStr ''QUEUED'' then
          remove_running_execution e
            (add_queued_execution now e p
               (py_or (py_or (dget d ''queuedAt'') (dget d ''createdAt'')) (JNum now)) [] ix)
        else if effective_status = JStr ''RUNNING'' \<and> truthy (dget d ''workerId'') then
          mark_running_execution now e p (dget d ''workerId'')
            (py_or (py_or (dget d ''startedAt'') (dget d ''createdAt'')) (JNum now)) ix
        else remove_running_execution e (remove_queued_execution e ix))"

definition prepare_update :: "real \<Rightarrow> doc \<Rightarrow> doc \<Rightarrow> bool res + doc" where
  \<comment> \<open>the guard, the stamps and the duration: \<open>Inl r\<close> when the call ends with \<open>r\<close> (a raised
     \<open>ValueError\<close>, or \<open>False\<close> for any other exception), else the completed updates\<close>
  "prepare_update now d updates =
    (case (if status_changes d updates
           then validate_status_transition (getd d ''status'' (JStr ''QUEUED''))
                  (dget updates ''status'')
           else Inr ()) of
       Inl (ValueError m) \<Rightarrow> Inl (Inl (ValueError m))
     | Inl _ \<Rightarrow> Inl (Inr False)
     | Inr _ \<Rightarrow>
         (case add_duration d
                 (if status_changes d updates then stamp_status now d updates else updates) of
            None \<Rightarrow> Inl (Inr False)
          | Some u \<Rightarrow> Inr u))"

definition update_execution_record ::
  "real \<Rightarrow> string \<Rightarrow> doc \<Rightarrow> string option \<Rightarrow> store \<Rightarrow> bool res \<times> store" where
  "update_execution_record now e updates project_id S =
    (case resolve_project e updates project_id S of
       Inl err \<Rightarrow> (Inl err, S)
     | Inr p \<Rightarrow>
         (case hist_file S p e of
            None \<Rightarrow> (Inr False, S)
          | Some Corrupt \<Rightarrow> (Inl (ValueError ''JSONDecodeError''), S)
          | Some (Doc d) \<Rightarrow>
              (case prepare_update now d updates of
                 Inl r \<Rightarrow> (r, S)
               | Inr u \<Rightarrow>
                   (let d' = dupd d u; S' = put_hist now p e d' S
                    in (Inr True,
                        S'\<lparr>index := sync_index now e p (dget updates ''status'') d' (index S')\<rparr>)))))"

subsection \<open>Reading a record\<close>

fun scan_execution :: "string \<Rightarrow> (string \<times> pdir) list \<Rightarrow> doc option" where
  "scan_execution e [] = None"
| "scan_execution e ((p, pd) # ps) =
    (case dir_file (hist_exec pd) e of
       Some (Doc d) \<Rightarrow> Some d
     | _ \<Rightarrow> scan_execution e ps)"

definition get_execution :: "string \<Rightarrow> string option \<Rightarrow> store \<Rightarrow> doc option" where
  "get_execution e project_id S =
    (let p = (case project_id of
                Some p \<Rightarrow> if p = [] then find_execution_project e (index S) else Some p
              | None \<Rightarrow> find_execution_project e (index S))
     in case p of
          Some p' \<Rightarrow> if p' = [] then scan_execution e (projects S)
                     else file_doc (hist_file S p' e)
        | None \<Rightarrow> scan_execution e (projects S))"

subsection \<open>Logs\<close>

definition log_file :: "store \<Rightarrow> string \<Rightarrow> string \<Rightarrow> string option" where
  "log_file S p e = (case hist_logs (pdir_of S p) of None \<Rightarrow> None | Some t \<Rightarrow> map_of t e)"

definition append_execution_log ::
  "string \<Rightarrow> string \<Rightarrow> string option \<Rightarrow> store \<Rightarrow> bool res \<times> store" where
  "append_execution_log e text project_id S =
    (case project_id of
       None \<Rightarrow> (Inl (ValueError ''project_id is required''), S)
     | Some p \<Rightarrow>
         if p = [] then (Inl (ValueError ''project_id is required''), S)
         else
           (let pd = pdir_of S p;
                t = (case hist_logs pd of None \<Rightarrow> [] | Some t \<Rightarrow> t);
                old = (case map_of t e of None \<Rightarrow> [] | Some s \<Rightarrow> s);
                line = (if ends_with text [CHR 0x0A] then text else text @ [CHR 0x0A])
            in (Inr True, set_pdir p (pd\<lparr>hist_logs := Some (AList.update e (old @ line) t)\<rparr>) S)))"

definition byte_in :: "nat \<Rightarrow> nat \<Rightarrow> char \<Rightarrow> bool" where
  "byte_in lo hi c = (lo \<le> of_char c \<and> of_char c \<le> (hi::nat))"

definition utf8_second :: "char \<Rightarrow> char \<Rightarrow> bool" where
  \<comment> \<open>which second byte may follow a lead byte of a three or four byte sequence\<close>
  "utf8_second b c =
    (if b = CHR 0xE0 then byte_in 0xA0 0xBF c
     else if b = CHR 0xED then byte_in 0x80 0x9F c
     else if b = CHR 0xF0 then byte_in 0x90 0xBF c
     else if b = CHR 0xF4 then byte_in 0x80 0x8F c
     else byte_in 0x80 0xBF c)"

fun utf8_ignore :: "string \<Rightarrow> string" where
  \<comment> \<open>\<open>chunk.decode('utf-8', errors='ignore')\<close>, the text again as its UTF-8 bytes\<close>
  "utf8_ignore [] = []"
| "utf8_ignore (b # bs) =
    (if byte_in 0 0x7F b then b # utf8_ignore bs
     else if byte_in 0xC2 0xDF b then
       (case bs of
          c # cs \<Rightarrow> if byte_in 0x80 0xBF c then b # c # utf8_ignore cs else utf8_ignore (c # cs)
        | [] \<Rightarrow> [])
     else if byte_in 0xE0 0xEF b then
       (case bs of
          c # e # es \<Rightarrow>
            if utf8_second b c then
              (if byte_in 0x80 0xBF e then b # c # e # utf8_ignore es else utf8_ignore (e # es))
            else utf8_ignore (c # e # es)
        | [c] \<Rightarrow> if utf8_second b c then [] else utf8_ignore [c]
        | [] \<Rightarrow> [])
     else if byte_in 0xF0 0xF4 b then
       (case bs of
          c # e # f # fs \<Rightarrow>
            if utf8_second b c then
              (if byte_in 0x80 0xBF e then
                 (if byte_in 0x80 0xBF f then b # c # e # f # utf8_ignore fs
                  else utf8_ignore (f # fs))
               else utf8_ignore (e # f # fs))
            else utf8_ignore (c # e # f # fs)
        | [c, e] \<Rightarrow>
            if utf8_second b c then (if byte_in 0x80 0xBF e then [] else utf8_ignore [e])
            else utf8_ignore [c, e]
        | [c] \<Rightarrow> if utf8_second b c then [] else utf8_ignore [c]
        | [] \<Rightarrow> [])
     else utf8_ignore bs)"

definition log_complete :: "string \<Rightarrow> string \<Rightarrow> store \<Rightarrow> bool" where
  \<comment> \<open>\<open>execution and execution.get('status') in FINAL_STATUSES\<close>\<close>
  "log_complete e p S =
    (case get_execution e (Some p) S of
       None \<Rightarrow> False
     | Some d \<Rightarrow> d \<noteq> [] \<and> (\<exists>s\<in>set FINAL_STATUSES. dget d ''status'' = JStr s))"

definition read_log_chunk ::
  "string \<Rightarrow> nat \<Rightarrow> nat \<Rightarrow> string option \<Rightarrow> store \<Rightarrow> (string \<times> nat \<times> nat \<times> bool) res" where
  \<comment> \<open>text, next offset, file size, is complete\<close>
  "read_log_chunk e offset limit project_id S =
    (case project_id of
       None \<Rightarrow> Inl (ValueError ''project_id is required'')
     | Some p \<Rightarrow>
         if p = [] then Inl (ValueError ''project_id is required'')
         else
           (case log_file S p e of
              None \<Rightarrow> Inr ([], 0, 0, False)
            | Some bytes \<Rightarrow>
                if length bytes \<le> offset
                then Inr ([], offset, length bytes, log_complete e p S)
                else (let chunk = take limit (drop offset bytes)
                      in Inr (utf8_ignore chunk, offset + length chunk, length bytes,
                              log_complete e p S))))"

subsection \<open>Store lemmas\<close>

lemma map_of_AList_update [simp]: "map_of (AList.update k v t) = (map_of t)(k \<mapsto> v)"
  by (simp add: update_conv')

lemma pdir_of_set_pdir [simp]:
  "pdir_of (set_pdir p d S) p' = (if p = p' then d else pdir_of S p')"
  by (simp add: pdir_of_def set_pdir_def)

lemma index_set_pdir [simp, frame]: "index (set_pdir p d S) = index S"
  by (simp add: set_pdir_def)

lemma pdir_of_index_update [simp]: "pdir_of (S\<lparr>index := ix\<rparr>) p = pdir_of S p"
  by (simp add: pdir_of_def)

lemma hist_file_index_update [simp]: "hist_file (S\<lparr>index := ix\<rparr>) p e = hist_file S p e"
  by (simp add: hist_file_def)

lemma log_file_index_update [simp]: "log_file (S\<lparr>index := ix\<rparr>) p e = log_file S p e"
  by (simp add: log_file_def)

lemma dir_file_put [simp]:
  "dir_file (dir_put now e d dir) e' = (if e = e' then Some (Doc d) else dir_file dir e')"
  by (auto simp: dir_file_def dir_put_def split: option.splits)

lemma hist_file_put_hist [simp]:
  "hist_file (put_hist now p e d S) p' e' =
     (if p = p' \<and> e = e' then Some (Doc d) else hist_file S p' e')"
  by (simp add: hist_file_def put_hist_def Let_def)

lemma index_put_hist [simp, frame]: "index (put_hist now p e d S) = index S"
  by (simp add: put_hist_def Let_def)

lemma log_file_put_hist [simp, frame]: "log_file (put_hist now p e d S) p' e' = log_file S p' e'"
  by (simp add: log_file_def put_hist_def Let_def)

lemma log_file_set_logs [simp]:
  "log_file (set_pdir p ((pdir_of S p)\<lparr>hist_logs := Some (AList.update e s t)\<rparr>) S) p' e' =
    (if p = p' then (if e = e' then Some s else map_of t e') else log_file S p' e')"
  by (simp add: log_file_def)

lemma hist_file_set_logs [simp, frame]:
  "hist_file (set_pdir p ((pdir_of S p)\<lparr>hist_logs := l\<rparr>) S) p' e' = hist_file S p' e'"
  by (simp add: hist_file_def)

subsection \<open>The update rules\<close>

lemma resolve_given [simp]: "p \<noteq> [] \<Longrightarrow> resolve_project e u (Some p) S = Inr p"
  by (simp add: resolve_project_def)

lemma stamp_status_status [simp]:
  "dget (stamp_status now d u) ''status'' = dget u ''status''"
  "has (stamp_status now d u) ''status'' = has u ''status''"
  by (simp_all add: stamp_status_def Let_def)

lemma add_duration_other:
  "add_duration d u = Some u' \<Longrightarrow> k \<noteq> ''duration'' \<Longrightarrow> dget u' k = dget u k \<and> has u' k = has u k"
  by (auto simp: add_duration_def Let_def split: if_splits option.splits prod.splits)

lemma prepare_update_Inl: "prepare_update now d u = Inl r \<Longrightarrow> r \<noteq> Inr True"
  by (auto simp: prepare_update_def split: sum.splits option.splits py_error.splits if_splits)

lemma prepare_update_Inr:
  assumes "prepare_update now d u = Inr u'"
  shows "status_changes d u \<Longrightarrow>
      validate_status_transition (getd d ''status'' (JStr ''QUEUED'')) (dget u ''status'') = Inr ()"
    and "add_duration d (if status_changes d u then stamp_status now d u else u) = Some u'"
  using assms
  by (auto simp: prepare_update_def split: sum.splits option.splits py_error.splits if_splits)

lemma update_cases:
  assumes "update_execution_record now e u pid S = (r, S')"
  obtains (rejected) "S' = S" "r \<noteq> Inr True"
  | (written) p d u' where "r = Inr True" "resolve_project e u pid S = Inr p"
      "hist_file S p e = Some (Doc d)" "prepare_update now d u = Inr u'"
      "S' = (put_hist now p e (dupd d u') S)
              \<lparr>index := sync_index now e p (dget u ''status'') (dupd d u') (index S)\<rparr>"
proof (cases "resolve_project e u pid S")
  case (Inl err)
  with assms have "S' = S" "r \<noteq> Inr True" by (auto simp: update_execution_record_def)
  then show thesis by (rule rejected)
next
  case (Inr p)
  show thesis
  proof (cases "hist_file S p e")
    case None
    with assms Inr have "S' = S" "r \<noteq> Inr True" by (auto simp: update_execution_record_def)
    then show thesis by (rule rejected)
  next
    case (Some f)
    show thesis
    proof (cases f)
      case Corrupt
      with assms Inr Some have "S' = S" "r \<noteq> Inr True"
        by (auto simp: update_execution_record_def)
      then show thesis by (rule rejected)
    next
      case (Doc d)
      note eqs = assms Inr Some Doc
      show thesis
      proof (cases "prepare_update now d u")
        case Inl
        with eqs have "S' = S" "r \<noteq> Inr True"
          by (auto simp: update_execution_record_def dest: prepare_update_Inl)
        then show thesis by (rule rejected)
      next
        case Inr
        with eqs written show thesis by (simp add: update_execution_record_def Let_def)
      qed
    qed
  qed
qed

lemma written_status:
  assumes "prepare_update now d u = Inr u'"
  shows "dget u' ''status'' = dget u ''status'' \<and> has u' ''status'' = has u ''status''"
  using add_duration_other [OF prepare_update_Inr(2) [OF assms], of "''status''"] by simp

lemma has_truthy: "truthy (dget d k) \<Longrightarrow> has d k"
  by (auto simp: dget_def has_def split: option.splits)

lemma getd_truthy: "truthy (dget d k) \<Longrightarrow> getd d k v = dget d k"
  by (simp add: has_truthy getd_has)

definition same_final :: "json \<Rightarrow> json \<Rightarrow> bool" where
  \<comment> \<open>the same final status, up to letter case\<close>
  "same_final a b = (is_final a \<and> is_final b \<and>
     (case (a, b) of (JStr s, JStr t) \<Rightarrow> upper s = upper t | _ \<Rightarrow> False))"

lemma same_final_refl: "is_final a \<Longrightarrow> same_final a a"
  by (auto simp: same_final_def is_final_def split: json.splits)

lemma same_final_is_final: "same_final a b \<Longrightarrow> is_final b"
  by (simp add: same_final_def)

lemma same_final_trans: "same_final a b \<Longrightarrow> same_final b c \<Longrightarrow> same_final a c"
  by (auto simp: same_final_def split: json.splits)

lemma validate_same_final:
  "validate_status_transition a b = Inr v \<Longrightarrow> is_final a \<Longrightarrow> same_final a b"
  by (frule (1) validate_keeps_final, drule (1) validate_final) (auto simp: same_final_def)

lemma merged_status_final:
  assumes fin: "is_final (dget d ''status'')"
    and prep: "prepare_update now d u = Inr u'"
    and u: "has u ''status'' \<Longrightarrow> truthy (dget u ''status'')"
  shows "same_final (dget d ''status'') (dget (dupd d u') ''status'')"
proof -
  have old: "getd d ''status'' (JStr ''QUEUED'') = dget d ''status''"
    using fin by (simp add: is_final_truthy getd_truthy)
  have new: "dget (dupd d u') ''status'' =
      (if has u ''status'' then dget u ''status'' else dget d ''status'')"
    using written_status [OF prep] by (simp add: dget_dupd)
  show ?thesis
  proof (cases "status_changes d u")
    case True
    with prepare_update_Inr(1) [OF prep] old fin
    have "same_final (dget d ''status'') (dget u ''status'')"
      by (simp add: validate_same_final)
    with True show ?thesis by (simp add: new status_changes_def has_truthy)
  next
    case False
    then have "has u ''status'' \<Longrightarrow> dget u ''status'' = dget d ''status''"
      using u old by (auto simp: status_changes_def)
    with fin show ?thesis by (simp add: new same_final_refl)
  qed
qed

lemma update_keeps_final:
  assumes upd: "update_execution_record now e u pid S = (r, S')"
    and rec: "hist_file S q x = Some (Doc d)" and fin: "is_final (dget d ''status'')"
    and u: "has u ''status'' \<Longrightarrow> truthy (dget u ''status'')"
  shows "\<exists>d'. hist_file S' q x = Some (Doc d') \<and> same_final (dget d ''status'') (dget d' ''status'')"
  using upd
proof (cases rule: update_cases)
  case rejected
  with rec fin show ?thesis by (auto intro: same_final_refl)
next
  case (written p d0 u')
  show ?thesis
  proof (cases "q = p \<and> x = e")
    case True
    with rec written have "d0 = d" by simp
    with merged_status_final [OF fin _ u] written True show ?thesis by simp
  next
    case False
    with rec written fin show ?thesis by (auto intro: same_final_refl)
  qed
qed

subsection \<open>Agreement of index and records\<close>

definition index_agrees :: "store \<Rightarrow> string \<Rightarrow> string \<Rightarrow> bool" where
  \<comment> \<open>the queued and running rows of an execution say what its record says\<close>
  "index_agrees S p e =
    (case hist_file S p e of
       Some (Doc d) \<Rightarrow>
         (map_of (queued (index S)) e \<noteq> None \<longleftrightarrow> dget d ''status'' = JStr ''QUEUED'') \<and>
         (case map_of (running (index S)) e of
            None \<Rightarrow> dget d ''status'' \<noteq> JStr ''RUNNING'' \<or> \<not> truthy (dget d ''workerId'')
          | Some r \<Rightarrow> dget d ''status'' = JStr ''RUNNING'' \<and> r_project r = p \<and>
                      r_worker r = dget d ''workerId'')
     | _ \<Rightarrow> True)"

definition numeric :: "json \<Rightarrow> bool" where
  "numeric j = (\<exists>x. j = JNum x)"

lemma float_or_py_or:
  "numeric (py_or a (JNum now)) \<Longrightarrow> \<exists>x. float_or now (py_or a (JNum now)) = Some x"
  by (auto simp: float_or_def numeric_def)

lemma sync_index_agrees:
  assumes opn: "ix_open (index S)" and e: "e \<noteq> []" and p: "p \<noteq> []"
    and rec: "hist_file S p e = Some (Doc d)"
    and eff: "py_or st (dget d ''status'') = dget d ''status''"
    and w: "sql_bindable (dget d ''workerId'')"
    and q: "numeric (py_or (py_or (dget d ''queuedAt'') (dget d ''createdAt'')) (JNum now))"
    and s: "numeric (py_or (py_or (dget d ''startedAt'') (dget d ''createdAt'')) (JNum now))"
  shows "index_agrees (S\<lparr>index := sync_index now e p st d (index S)\<rparr>) p e"
proof -
  obtain x where x: "float_or now (py_or (py_or (dget d ''queuedAt'') (dget d ''createdAt'')) (JNum now)) = Some x"
    using float_or_py_or [OF q] by blast
  obtain y where y: "float_or now (py_or (py_or (dget d ''startedAt'') (dget d ''createdAt'')) (JNum now)) = Some y"
    using float_or_py_or [OF s] by blast
  show ?thesis
    using assms x y
    by (auto simp: index_agrees_def sync_index_def Let_def add_queued_execution_def
        mark_running_execution_def)
qed

end
