(* ===== verification/ExecHistory.thy ===== *)
theory ExecHistory
  imports ExecStore
begin

section \<open>Execution history: creation, listing, deletion, retention\<close>

text \<open>
  \<^verbatim>\<open>server/services/execution_history.py\<close> over the store of \<open>ExecStore\<close>. Uuids and the
  clock are arguments; \<open>py_str\<close> is the text \<open>str()\<close> gives a JSON value and
  \<open>doc_size\<close> the size of a record's file in bytes. The helper that cleans generated
  playbooks parses the inventory with a name (\<open>yaml_loader\<close>) its module does not define;
  the \<open>NameError\<close> is caught, so the set of key files to delete is always empty, and that
  is what \<open>cleanup_generated_playbooks\<close> does.
\<close>

subsection \<open>Python helpers used here\<close>

definition py_bound :: "nat \<Rightarrow> int \<Rightarrow> nat" where
  \<comment> \<open>a slice bound: negative counts from the end, and it is clipped to the list\<close>
  "py_bound n i = (if i < 0 then nat (int n + i) else min (nat i) n)"

definition py_slice_from :: "int \<Rightarrow> 'a list \<Rightarrow> 'a list" where
  "py_slice_from lo xs = drop (py_bound (length xs) lo) xs"

definition py_slice :: "int \<Rightarrow> int \<Rightarrow> 'a list \<Rightarrow> 'a list" where
  "py_slice lo hi xs =
    (let a = py_bound (length xs) lo; b = py_bound (length xs) hi in take (b - a) (drop a xs))"

fun any_opt :: "('a \<Rightarrow> bool option) \<Rightarrow> 'a list \<Rightarrow> bool option" where
  \<comment> \<open>a search loop that breaks at the first hit; \<open>None\<close> when the body raises\<close>
  "any_opt f [] = Some False"
| "any_opt f (x # xs) =
    (case f x of None \<Rightarrow> None | Some b \<Rightarrow> if b then Some True else any_opt f xs)"

fun iter_of :: "json \<Rightarrow> json list option" where
  "iter_of (JArr xs) = Some xs"
| "iter_of (JStr s) = Some (map (\<lambda>c. JStr [c]) s)"
| "iter_of (JObj d) = Some (map (\<lambda>kv. JStr (fst kv)) d)"
| "iter_of _ = None"

definition lower_field :: "doc \<Rightarrow> string \<Rightarrow> string option" where
  \<comment> \<open>\<open>d.get(k, '').lower()\<close>\<close>
  "lower_field d k = map_option lower (str_of (getd d k (JStr [])))"

subsection \<open>Creating a record\<close>

definition copy_key :: "string \<Rightarrow> doc \<Rightarrow> doc \<Rightarrow> doc" where
  \<comment> \<open>\<^verbatim>\<open>if k in data: execution[k] = data.get(k)\<close>\<close>
  "copy_key k data ex = (if has data k then dset ex k (dget data k) else ex)"

definition copy_truthy :: "string \<Rightarrow> doc \<Rightarrow> doc \<Rightarrow> doc" where
  "copy_truthy k data ex = (if truthy (dget data k) then dset ex k (dget data k) else ex)"

definition initial_status :: "string \<Rightarrow> string" where
  "initial_status s = (if s = ''QUEUED'' \<or> s = ''RUNNING'' then s else ''QUEUED'')"

definition copy_run_params :: "doc \<Rightarrow> doc \<Rightarrow> doc" where
  "copy_run_params data ex =
    (if has data ''runParams'' then
       (let ex = dset ex ''runParams'' (dget data ''runParams'')
        in case dget data ''runParams'' of
             JObj rp \<Rightarrow> if truthy (dget rp ''stage'')
                        then dset ex ''stage'' (dget rp ''stage'') else ex
           | _ \<Rightarrow> ex)
     else ex)"

definition new_execution :: "real \<Rightarrow> string \<Rightarrow> json \<Rightarrow> string \<Rightarrow> doc \<Rightarrow> doc" where
  "new_execution now e project_id status data =
    (let ex = [(''id'', JStr e), (''projectId'', project_id), (''createdAt'', JNum now),
               (''status'', JStr status), (''statusUpdatedAt'', JNum now),
               (''playbookName'', getd data ''playbookName'' (JStr ''dynamic_playbook'')),
               (''mode'', getd data ''mode'' (JStr ''PER_GROUP'')),
               (''inventorySnapshot'', getd data ''inventorySnapshot'' (JObj [])),
               (''selectionSnapshot'', getd data ''selectionSnapshot'' (JObj [])),
               (''stats'', getd data ''stats'' (JObj [])),
               (''warnings'', getd data ''warnings'' (JArr []))];
         ex = (if status = ''QUEUED'' then dset ex ''queuedAt'' (JNum now) else ex);
         ex = (if status = ''RUNNING''
               then copy_key ''workerId'' data (dset ex ''startedAt'' (JNum now)) else ex);
         ex = (if status = ''QUEUED'' then copy_key ''workerId'' data ex else ex);
         ex = copy_key ''runName'' data ex;
         ex = copy_key ''tag'' data ex;
         ex = copy_key ''description'' data ex;
         ex = copy_run_params data ex;
         ex = copy_truthy ''play_name'' data ex;
         ex = copy_key ''playbookId'' data ex;
         ex = copy_truthy ''triggeredBy'' data ex;
         ex = copy_truthy ''triggeredByUserId'' data ex
     in ex)"

definition index_new_execution :: "real \<Rightarrow> string \<Rightarrow> string \<Rightarrow> string \<Rightarrow> doc \<Rightarrow> index_db \<Rightarrow> index_db" where
  "index_new_execution now e p status ex ix =
    (let ix = upsert_execution_location now e p (JStr status) (dget ex ''workerId'')
                (py_or (dget ex ''statusUpdatedAt'') (JNum now)) ix
     in if status = ''QUEUED'' then
          add_queued_execution now e p (py_or (dget ex ''queuedAt'') (JNum now)) [] ix
        else if status = ''RUNNING'' \<and> truthy (dget ex ''workerId'') then
          mark_running_execution now e p (dget ex ''workerId'')
            (py_or (dget ex ''startedAt'') (JNum now)) ix
        else ix)"

definition create_execution_record ::
  "real \<Rightarrow> string \<Rightarrow> doc \<Rightarrow> string option \<Rightarrow> string option \<Rightarrow> store \<Rightarrow> string res \<times> store" where
  "create_execution_record now uuid data project_id execution_id S =
    (let e = (case execution_id of None \<Rightarrow> uuid | Some x \<Rightarrow> x);
         p0 = (case project_id of Some p \<Rightarrow> JStr p | None \<Rightarrow> JNull);
         p1 = (if truthy p0 then p0 else dget data ''project_id'')
     in if \<not> truthy p1 then (Inl (ValueError ''project_id is required''), S)
        else (case getd data ''status'' (JStr ''QUEUED'') of
                JStr s \<Rightarrow>
                  (case p1 of
                     JStr p \<Rightarrow>
                       (let status = initial_status (upper s);
                            ex = new_execution now e p1 status data;
                            S' = put_hist now p e ex S
                        in (Inr e, S'\<lparr>index := index_new_execution now e p status ex (index S')\<rparr>))
                   | _ \<Rightarrow> (Inl TypeError, S))
              | _ \<Rightarrow> (Inl AttributeError, S)))"

subsection \<open>Listing\<close>

definition host_matches :: "string \<Rightarrow> json \<Rightarrow> bool option" where
  "host_matches q h =
    (case h of
       JObj d \<Rightarrow>
         (case lower_field d ''hostId'' of
            None \<Rightarrow> None
          | Some s \<Rightarrow> if contains s q then Some True
                      else map_option (\<lambda>ip. contains ip q) (lower_field d ''ip''))
     | _ \<Rightarrow> None)"

definition group_matches :: "string \<Rightarrow> json \<Rightarrow> bool option" where
  "group_matches q g =
    (case g of
       JObj d \<Rightarrow>
         (case lower_field d ''groupName'' of
            None \<Rightarrow> None
          | Some s \<Rightarrow> if contains s q then Some True
                      else (case iter_of (getd d ''hosts'' (JArr [])) of
                              None \<Rightarrow> None
                            | Some hs \<Rightarrow> any_opt (host_matches q) hs))
     | _ \<Rightarrow> None)"

definition search_matches :: "(json \<Rightarrow> string) \<Rightarrow> string \<Rightarrow> doc \<Rightarrow> bool option" where
  "search_matches py_str search_query d =
    (let q = lower search_query
     in case lower_field d ''id'' of
          None \<Rightarrow> None
        | Some i \<Rightarrow>
            if contains i q then Some True
            else (case getd d ''stats'' (JObj []) of
                    JObj st \<Rightarrow>
                      if contains (lower (py_str (getd st ''hostsTargeted'' (JStr [])))) q
                      then Some True
                      else (case getd d ''inventorySnapshot'' (JObj []) of
                              JObj snap \<Rightarrow>
                                (case iter_of (getd snap ''groups'' (JArr [])) of
                                   None \<Rightarrow> None
                                 | Some gs \<Rightarrow> any_opt (group_matches q) gs)
                            | _ \<Rightarrow> None)
                  | _ \<Rightarrow> None))"

definition playbook_matches :: "string \<Rightarrow> doc \<Rightarrow> bool" where
  "playbook_matches playbook_id d =
    (case getd d ''selectionSnapshot'' (JObj []) of
       JObj snap \<Rightarrow> dget snap ''playbookId'' = JStr playbook_id
     | _ \<Rightarrow> False)"

definition list_filter :: "(json \<Rightarrow> string) \<Rightarrow> string option \<Rightarrow> string option \<Rightarrow> doc \<Rightarrow> bool" where
  \<comment> \<open>whether the loop appends the record; a record whose reading raises is skipped\<close>
  "list_filter py_str search_query playbook_id d =
    ((case playbook_id of Some b \<Rightarrow> b = [] \<or> playbook_matches b d | None \<Rightarrow> True) \<and>
     (case search_query of
        Some q \<Rightarrow> q = [] \<or> search_matches py_str q d = Some True
      | None \<Rightarrow> True))"

definition newest_first :: "exec_dir \<Rightarrow> exec_dir" where
  "newest_first t = sort_key (\<lambda>(e, f, m). - m) t"

definition readable :: "exec_dir \<Rightarrow> doc list" where
  "readable t = List.map_filter (\<lambda>(e, f, m). file_doc (Some f)) t"

definition window :: "int option \<Rightarrow> int \<Rightarrow> 'a list \<Rightarrow> 'a list" where
  "window limit offset xs =
    (case limit of
       Some l \<Rightarrow> if l \<noteq> 0 then py_slice offset (offset + l) xs
                 else if offset \<noteq> 0 then py_slice_from offset xs else xs
     | None \<Rightarrow> if offset \<noteq> 0 then py_slice_from offset xs else xs)"

definition list_executions ::
  "(json \<Rightarrow> string) \<Rightarrow> int option \<Rightarrow> int \<Rightarrow> string option \<Rightarrow> string option \<Rightarrow> string option
   \<Rightarrow> store \<Rightarrow> doc list res" where
  "list_executions py_str limit offset search_query playbook_id project_id S =
    (case project_id of
       None \<Rightarrow> Inl (ValueError ''project_id is required'')
     | Some p \<Rightarrow>
         if p = [] then Inl (ValueError ''project_id is required'')
         else (case hist_exec (pdir_of S p) of
                 None \<Rightarrow> Inr []
               | Some t \<Rightarrow>
                   Inr (window limit offset
                          (filter (list_filter py_str search_query playbook_id)
                             (readable (newest_first t))))))"

fun scan_execution_legacy :: "string \<Rightarrow> (string \<times> pdir) list \<Rightarrow> doc option" where
  \<comment> \<open>the scan of this module falls back to the old directory of a project\<close>
  "scan_execution_legacy e [] = None"
| "scan_execution_legacy e ((p, pd) # ps) =
    (case dir_file (if hist_exec pd = None then legacy_exec pd else hist_exec pd) e of
       Some (Doc d) \<Rightarrow> Some d
     | _ \<Rightarrow> scan_execution_legacy e ps)"

definition get_execution_any :: "string \<Rightarrow> string option \<Rightarrow> store \<Rightarrow> doc option" where
  "get_execution_any e project_id S =
    (let p = (case project_id of
                Some p \<Rightarrow> if p = [] then find_execution_project e (index S) else Some p
              | None \<Rightarrow> find_execution_project e (index S))
     in case p of
          Some p' \<Rightarrow> if p' = [] then scan_execution_legacy e (projects S)
                     else file_doc (hist_file S p' e)
        | None \<Rightarrow> scan_execution_legacy e (projects S))"

definition get_execution_log :: "string \<Rightarrow> string option \<Rightarrow> store \<Rightarrow> string res" where
  "get_execution_log e project_id S =
    (case project_id of
       None \<Rightarrow> Inl (ValueError ''project_id is required'')
     | Some p \<Rightarrow>
         if p = [] then Inl (ValueError ''project_id is required'')
         else Inr (case log_file S p e of None \<Rightarrow> [] | Some s \<Rightarrow> s))"

subsection \<open>Deleting\<close>

definition cleanup_generated_playbooks :: "string \<Rightarrow> pdir \<Rightarrow> pdir" where
  "cleanup_generated_playbooks e pd =
    (case gen_dir pd of
       None \<Rightarrow> pd
     | Some t \<Rightarrow>
         pd\<lparr>gen_dir := Some (filter (\<lambda>(f, m). f \<noteq> e @ ''.yml'' \<and> f \<noteq> ''inventory_'' @ e @ ''.yml'') t)\<rparr>)"

definition drop_file :: "string \<Rightarrow> (string \<times> 'v) list option \<Rightarrow> (string \<times> 'v) list option" where
  "drop_file e dir = map_option (tdel e) dir"

definition delete_in_project :: "string \<Rightarrow> pdir \<Rightarrow> pdir" where
  "delete_in_project e pd =
    (let pd = cleanup_generated_playbooks e pd
     in pd\<lparr>hist_exec := drop_file e (hist_exec pd), hist_logs := drop_file e (hist_logs pd)\<rparr>)"

definition delete_in_first :: "string \<Rightarrow> pdir \<Rightarrow> pdir" where
  \<comment> \<open>the body of the loop over all projects, for a project that has an execution directory\<close>
  "delete_in_first e pd =
    (case hist_exec pd of
       Some t \<Rightarrow>
         (let pd = (if map_of t e \<noteq> None then cleanup_generated_playbooks e pd else pd)
          in pd\<lparr>hist_exec := drop_file e (hist_exec pd), hist_logs := drop_file e (hist_logs pd)\<rparr>)
     | None \<Rightarrow>
         (let pd = (if dir_file (legacy_exec pd) e \<noteq> None then cleanup_generated_playbooks e pd else pd)
          in pd\<lparr>legacy_exec := drop_file e (legacy_exec pd),
                legacy_logs := drop_file e (legacy_logs pd)\<rparr>))"

fun delete_scan :: "string \<Rightarrow> (string \<times> pdir) list \<Rightarrow> bool \<times> (string \<times> pdir) list" where
  "delete_scan e [] = (False, [])"
| "delete_scan e ((p, pd) # ps) =
    (if hist_exec pd = None \<and> legacy_exec pd = None
     then (let (r, ps') = delete_scan e ps in (r, (p, pd) # ps'))
     else (True, (p, delete_in_first e pd) # ps))"

definition delete_execution :: "string \<Rightarrow> string option \<Rightarrow> store \<Rightarrow> bool \<times> store" where
  "delete_execution e project_id S =
    (case (case project_id of Some p \<Rightarrow> if p = [] then None else Some p | None \<Rightarrow> None) of
       Some p \<Rightarrow>
         (True, if map_of (projects S) p = None then S
                else set_pdir p (delete_in_project e (pdir_of S p)) S)
     | None \<Rightarrow>
         (let (r, ps) = delete_scan e (projects S) in (r, S\<lparr>projects := ps\<rparr>)))"

subsection \<open>Retention\<close>

record settings =
  save_history :: bool
  retention_mode :: string
  retention_count :: int
  retention_size_mb :: int

definition exec_id :: "(json \<Rightarrow> string) \<Rightarrow> doc \<Rightarrow> string res" where
  \<comment> \<open>\<open>execution['id']\<close> in an f-string\<close>
  "exec_id py_str d =
    (if has d ''id'' then Inr (case dget d ''id'' of JStr s \<Rightarrow> s | j \<Rightarrow> py_str j)
     else Inl (KeyError ''id''))"

fun delete_all :: "(json \<Rightarrow> string) \<Rightarrow> string \<Rightarrow> doc list \<Rightarrow> store \<Rightarrow> store" where
  \<comment> \<open>stops at a record without an id: the \<open>KeyError\<close> is caught around the loop\<close>
  "delete_all py_str p [] S = S"
| "delete_all py_str p (d # ds) S =
    (case exec_id py_str d of
       Inl _ \<Rightarrow> S
     | Inr e \<Rightarrow> delete_all py_str p ds (snd (delete_execution e (Some p) S)))"

definition retain_count :: "(json \<Rightarrow> string) \<Rightarrow> int \<Rightarrow> string \<Rightarrow> store \<Rightarrow> store" where
  "retain_count py_str max_count p S =
    (case list_executions py_str None 0 None None (Some p) S of
       Inl _ \<Rightarrow> S
     | Inr executions \<Rightarrow>
         if int (length executions) > max_count
         then delete_all py_str p (py_slice_from max_count executions) S
         else S)"

definition execution_size :: "(jfile \<Rightarrow> nat) \<Rightarrow> string \<Rightarrow> string \<Rightarrow> store \<Rightarrow> int" where
  "execution_size doc_size p e S =
    int (case hist_file S p e of None \<Rightarrow> 0 | Some f \<Rightarrow> doc_size f) +
    int (case log_file S p e of None \<Rightarrow> 0 | Some s \<Rightarrow> length s)"

fun evict :: "int \<Rightarrow> int \<Rightarrow> string \<Rightarrow> (string \<times> int) list \<Rightarrow> store \<Rightarrow> store" where
  \<comment> \<open>the loop over the executions, oldest first, that stops when the total fits\<close>
  "evict max_size_bytes total_size p [] S = S"
| "evict max_size_bytes total_size p ((e, sz) # xs) S =
    (if total_size \<le> max_size_bytes then S
     else evict max_size_bytes (total_size - sz) p xs (snd (delete_execution e (Some p) S)))"

definition created_key :: "doc \<Rightarrow> real option" where
  "created_key d = num_of (getd d ''createdAt'' (JNum 0))"

definition retain_size ::
  "(json \<Rightarrow> string) \<Rightarrow> (jfile \<Rightarrow> nat) \<Rightarrow> int \<Rightarrow> string \<Rightarrow> store \<Rightarrow> store" where
  "retain_size py_str doc_size max_size_mb p S =
    (case list_executions py_str None 0 None None (Some p) S of
       Inl _ \<Rightarrow> S
     | Inr executions \<Rightarrow>
         (let max_size_bytes = max_size_mb * 1024 * 1024
          in if \<exists>d\<in>set executions. \<not> has d ''id'' then S
             else
               (let sized = map (\<lambda>d. case exec_id py_str d of
                                      Inl _ \<Rightarrow> (d, [], 0)
                                    | Inr e \<Rightarrow> (d, e, execution_size doc_size p e S)) executions;
                    total_size = sum_list (map (\<lambda>(d, e, sz). sz) sized)
                in if total_size \<le> max_size_bytes then S
                   else if length sized \<ge> 2 \<and> (\<exists>d\<in>set executions. created_key d = None) then S
                   else evict max_size_bytes total_size p
                          (map snd (sort_key (\<lambda>(d, e, sz). case created_key d of None \<Rightarrow> 0 | Some x \<Rightarrow> x) sized)) S)))"

definition gen_exec_id :: "string \<Rightarrow> string" where
  \<comment> \<open>the execution a generated file belongs to\<close>
  "gen_exec_id f =
    (let stem = take (length f - 4) f
     in if starts_with f ''inventory_'' then replace_all ''inventory_'' [] stem else stem)"

fun orphan_loop :: "real \<Rightarrow> real \<Rightarrow> string set \<Rightarrow> string set \<Rightarrow> (string \<times> real) list \<Rightarrow> pdir \<Rightarrow> pdir" where
  "orphan_loop now min_age existing processed [] pd = pd"
| "orphan_loop now min_age existing processed ((f, mtime) # fs) pd =
    (let e = gen_exec_id f
     in if e = [] \<or> e \<in> existing \<or> e \<in> processed \<or> now - mtime < min_age
        then orphan_loop now min_age existing processed fs pd
        else orphan_loop now min_age existing (insert e processed) fs
               (cleanup_generated_playbooks e pd))"

definition cleanup_orphaned :: "real \<Rightarrow> real \<Rightarrow> pdir \<Rightarrow> pdir" where
  "cleanup_orphaned now min_age pd =
    (case gen_dir pd of
       None \<Rightarrow> pd
     | Some t \<Rightarrow>
         orphan_loop now min_age
           (case hist_exec pd of None \<Rightarrow> {} | Some h \<Rightarrow> fst ` set h) {}
           (filter (\<lambda>(f, m). ends_with f ''.yml'') t) pd)"

fun apply_retention_policy ::
  "(json \<Rightarrow> string) \<Rightarrow> (jfile \<Rightarrow> nat) \<Rightarrow> real \<Rightarrow> settings \<Rightarrow> string list \<Rightarrow> store \<Rightarrow> store" where
  \<comment> \<open>the list holds the ids \<open>load_projects\<close> returns; a project without an id is skipped\<close>
  "apply_retention_policy py_str doc_size now cfg [] S = S"
| "apply_retention_policy py_str doc_size now cfg (p # ps) S =
    (if \<not> save_history cfg then S
     else if p = [] then apply_retention_policy py_str doc_size now cfg ps S
     else
       (let S1 = (if retention_mode cfg = ''count''
                  then retain_count py_str (retention_count cfg) p S
                  else if retention_mode cfg = ''size''
                  then retain_size py_str doc_size (retention_size_mb cfg) p S
                  else S);
            S2 = (if map_of (projects S1) p = None then S1
                  else set_pdir p (cleanup_orphaned now 600 (pdir_of S1 p)) S1)
        in apply_retention_policy py_str doc_size now cfg ps S2))"

fun delete_stems :: "string \<Rightarrow> string list \<Rightarrow> store \<Rightarrow> nat \<times> store" where
  "delete_stems p [] S = (0, S)"
| "delete_stems p (e # es) S =
    (let (r, S1) = delete_execution e (Some p) S; (n, S2) = delete_stems p es S1
     in (if r then Suc n else n, S2))"

fun clear_dirs :: "(string \<times> pdir) list \<Rightarrow> store \<Rightarrow> nat \<times> store" where
  "clear_dirs [] S = (0, S)"
| "clear_dirs ((p, pd) # ps) S =
    (case (if hist_exec pd = None then legacy_exec pd else hist_exec pd) of
       None \<Rightarrow> clear_dirs ps S
     | Some t \<Rightarrow>
         (let (n, S1) = delete_stems p (map fst t) S; (m, S2) = clear_dirs ps S1
          in (n + m, S2)))"

definition clear_all_executions :: "string option \<Rightarrow> store \<Rightarrow> nat \<times> store" where
  "clear_all_executions project_id S =
    (case (case project_id of Some p \<Rightarrow> if p = [] then None else Some p | None \<Rightarrow> None) of
       Some p \<Rightarrow>
         (case hist_exec (pdir_of S p) of
            None \<Rightarrow> (0, S)
          | Some t \<Rightarrow> delete_stems p (map fst t) S)
     | None \<Rightarrow> clear_dirs (projects S) S)"

end
