(* ===== verification/Dispatcher.thy ===== *)
theory Dispatcher
  imports ExecHistory
begin

section \<open>The execution dispatcher\<close>

text \<open>
  \<^verbatim>\<open>server/services/execution_dispatcher.py\<close>: whether a worker may run an execution
  (\<open>check_execution_requirements\<close>), and the file contents that travel with a claimed
  execution (\<open>attach_worker_transfer_payload\<close>). The file system is read only here and is a
  record of functions on paths; paths are strings joined with a slash. \<open>py_str\<close> is Python's
  \<open>str\<close> on values that are no strings.
\<close>

subsection \<open>Equality of JSON values in Python\<close>

text \<open>Booleans equal the numbers 0 and 1; dictionaries are equal whatever their order.\<close>

fun py_eq :: "json \<Rightarrow> json \<Rightarrow> bool"
  and arr_eq :: "json list \<Rightarrow> json list \<Rightarrow> bool"
  and obj_le :: "doc \<Rightarrow> doc \<Rightarrow> bool" where
  "py_eq (JArr xs) (JArr ys) = arr_eq xs ys"
| "py_eq (JObj d) (JObj e) = (length d = length e \<and> obj_le d e)"
| "py_eq (JStr s) (JStr t) = (s = t)"
| "py_eq JNull JNull = True"
| "py_eq (JNum m) (JNum n) = (m = n)"
| "py_eq (JBool b) (JBool c) = (b = c)"
| "py_eq (JNum n) (JBool b) = (n = (if b then 1 else 0))"
| "py_eq (JBool b) (JNum n) = (n = (if b then 1 else 0))"
| "py_eq _ _ = False"
| "arr_eq [] [] = True"
| "arr_eq (x # xs) (y # ys) = (py_eq x y \<and> arr_eq xs ys)"
| "arr_eq _ _ = False"
| "obj_le [] e = True"
| "obj_le ((k, v) # d) e =
    ((case map_of e k of None \<Rightarrow> False | Some w \<Rightarrow> py_eq v w) \<and> obj_le d e)"

definition hashable :: "json \<Rightarrow> bool" where
  "hashable j = (case j of JArr _ \<Rightarrow> False | JObj _ \<Rightarrow> False | _ \<Rightarrow> True)"

definition set_of :: "json \<Rightarrow> json list res" where
  \<comment> \<open>\<open>set(xs)\<close>, as the list of its elements\<close>
  "set_of j = (case iter_of j of
                 None \<Rightarrow> Inl TypeError
               | Some xs \<Rightarrow> if list_all hashable xs then Inr xs else Inl TypeError)"

subsection \<open>Requirements\<close>

definition as_text :: "(json \<Rightarrow> string) \<Rightarrow> json \<Rightarrow> string" where
  "as_text py_str j = (case j of JStr s \<Rightarrow> s | _ \<Rightarrow> py_str j)"

fun caps_match :: "doc \<Rightarrow> doc \<Rightarrow> bool" where
  \<comment> \<open>the loop over the required capabilities\<close>
  "caps_match [] caps = True"
| "caps_match ((k, v) # req) caps = (py_eq (dget caps k) v \<and> caps_match req caps)"

definition tags_match :: "json \<Rightarrow> json \<Rightarrow> bool res" where
  "tags_match required_tags worker_tags =
    (if \<not> truthy required_tags then Inr True
     else (case set_of (py_or worker_tags (JArr [])) of
             Inl err \<Rightarrow> Inl err
           | Inr have \<Rightarrow>
               (case set_of required_tags of
                  Inl err \<Rightarrow> Inl err
                | Inr req \<Rightarrow> Inr (list_all (\<lambda>t. list_ex (\<lambda>w. py_eq w t) have) req))))"

definition check_execution_requirements ::
  "(json \<Rightarrow> string) \<Rightarrow> doc \<Rightarrow> json \<Rightarrow> json \<Rightarrow> string \<Rightarrow> bool res" where
  "check_execution_requirements py_str execution worker_capabilities worker_tags worker_id =
    (case getd execution ''runParams'' (JObj []) of
       JObj run_params \<Rightarrow>
         (case getd run_params ''requirements'' (JObj []) of
            JObj requirements \<Rightarrow>
              (let required_worker_id =
                     py_or (dget requirements ''worker_id'') (dget run_params ''target_worker_id'')
               in if truthy required_worker_id \<and> worker_id \<noteq> [] \<and>
                     as_text py_str required_worker_id \<noteq> worker_id
                  then Inr False
                  else (case tags_match (getd requirements ''tags'' (JArr [])) worker_tags of
                          Inl err \<Rightarrow> Inl err
                        | Inr False \<Rightarrow> Inr False
                        | Inr True \<Rightarrow>
                            (let required_caps = getd requirements ''capabilities'' (JObj [])
                             in if \<not> truthy required_caps then Inr True
                                else (case (required_caps, worker_capabilities) of
                                        (JObj req, JObj caps) \<Rightarrow> Inr (caps_match req caps)
                                      | _ \<Rightarrow> Inl AttributeError))))
          | _ \<Rightarrow> Inl AttributeError)
     | _ \<Rightarrow> Inl AttributeError)"

subsection \<open>Files a worker receives\<close>

record file_system =
  fs_read :: "string \<Rightarrow> string option"                \<comment> \<open>text of a readable regular file\<close>
  fs_exists :: "string \<Rightarrow> bool"
  fs_rglob :: "string \<Rightarrow> string \<Rightarrow> string option"      \<comment> \<open>first regular file of that name below a root\<close>
  fs_tree :: "string \<Rightarrow> string list option"           \<comment> \<open>regular files below a directory, relative\<close>
  fs_vaults :: "string \<Rightarrow> json option"                \<comment> \<open>the project's vault list, when it parses\<close>
  fs_vault_key :: "string \<Rightarrow> string \<Rightarrow> string option"  \<comment> \<open>a readable password file of the project\<close>

definition path_join :: "string \<Rightarrow> string \<Rightarrow> string" where
  "path_join a b = (if starts_with b ''/'' then b else a @ ''/'' @ b)"

definition path_name :: "string \<Rightarrow> string" where
  "path_name p = rev (takeWhile (\<lambda>c. c \<noteq> CHR ''/'') (rev p))"

definition path_parent :: "string \<Rightarrow> string" where
  "path_parent p = (let r = dropWhile (\<lambda>c. c \<noteq> CHR ''/'') (rev p) in rev (tl r))"

definition resolve_execution_inventory_path :: "file_system \<Rightarrow> string \<Rightarrow> string \<Rightarrow> string" where
  "resolve_execution_inventory_path fs project_dir inv_file =
    (let repo_dir = path_join project_dir ''repo'';
         inv_value = (if inv_file = [] then ''inventory.yml'' else inv_file);
         found = (\<lambda>root. if fs_exists fs root then fs_rglob fs root (path_name inv_value) else None);
         searched = (case found (path_join repo_dir ''IaC/ansible/inventories'') of
                       Some p \<Rightarrow> p
                     | None \<Rightarrow> (case found (path_join repo_dir ''inventories'') of
                                  Some p \<Rightarrow> p
                                | None \<Rightarrow> path_join repo_dir inv_value))
     in if starts_with inv_value ''/'' then inv_value
        else if starts_with inv_value ''inventories/'' \<or>
                (contains inv_value ''.'' \<and> contains inv_value ''/'')
        then path_join repo_dir inv_value
        else if inv_value = ''inventory.yml'' \<and> fs_exists fs (path_join repo_dir ''inventory.yml'')
        then path_join repo_dir ''inventory.yml''
        else searched)"

definition collect_inventory_var_payloads :: "file_system \<Rightarrow> string \<Rightarrow> string \<Rightarrow> json list" where
  "collect_inventory_var_payloads fs inv_path dirname =
    (let var_dir = path_join (path_parent inv_path) dirname
     in case fs_tree fs var_dir of
          None \<Rightarrow> []
        | Some rels \<Rightarrow>
            List.map_filter
              (\<lambda>rel. case fs_read fs (path_join var_dir rel) of
                       None \<Rightarrow> None
                     | Some content \<Rightarrow>
                         Some (JObj [(''relative_path'', JStr rel), (''content'', JStr content)]))
              rels)"

definition attach_playbook :: "file_system \<Rightarrow> doc \<Rightarrow> doc option" where
  \<comment> \<open>\<open>None\<close>: building the path raises\<close>
  "attach_playbook fs rp =
    (if truthy (dget rp ''temp_playbook'') \<and> \<not> truthy (dget rp ''playbook_content'') then
       (case dget rp ''temp_playbook'' of
          JStr t \<Rightarrow> Some (case fs_read fs t of
                            None \<Rightarrow> rp
                          | Some content \<Rightarrow> dset rp ''playbook_content'' (JStr content))
        | _ \<Rightarrow> None)
     else Some rp)"

definition inventory_payload :: "(json \<Rightarrow> string) \<Rightarrow> file_system \<Rightarrow> string \<Rightarrow> json \<Rightarrow> json option" where
  "inventory_payload py_str fs project_dir inv_file =
    (let inv_path = resolve_execution_inventory_path fs project_dir
                      (if truthy inv_file then as_text py_str inv_file else [])
     in case fs_read fs inv_path of
          None \<Rightarrow> None
        | Some content \<Rightarrow>
            Some (JObj [(''requested'', inv_file), (''filename'', JStr (path_name inv_path)),
                        (''content'', JStr content),
                        (''group_vars'', JArr (collect_inventory_var_payloads fs inv_path ''group_vars'')),
                        (''host_vars'', JArr (collect_inventory_var_payloads fs inv_path ''host_vars''))]))"

definition config_path :: "(json \<Rightarrow> string) \<Rightarrow> file_system \<Rightarrow> string \<Rightarrow> json \<Rightarrow> string" where
  "config_path py_str fs project_dir ansible_config =
    (let c = as_text py_str ansible_config;
         repo_cfg = path_join project_dir ''repo/ansible.cfg'';
         plain = path_join (path_join project_dir ''ansible-config'') c
     in if starts_with c ''ansible-config/'' then path_join project_dir c
        else if c = ''ansible.cfg'' \<or> ends_with c ''.cfg'' then
          (if fs_exists fs repo_cfg then repo_cfg else plain)
        else plain)"

definition attach_inventories :: "(json \<Rightarrow> string) \<Rightarrow> file_system \<Rightarrow> doc \<Rightarrow> doc option" where
  "attach_inventories py_str fs rp =
    (case dget rp ''project_dir'' of
       JStr project_dir \<Rightarrow>
         if project_dir = [] \<or> \<not> fs_exists fs project_dir \<or> truthy (dget rp ''inventory_payloads'')
         then Some rp
         else
           (case iter_of (py_or (dget rp ''inventory_files'') (JArr [])) of
              None \<Rightarrow> None
            | Some files \<Rightarrow>
                (let payloads = List.map_filter (inventory_payload py_str fs project_dir) files;
                     rp = (if payloads \<noteq> [] then dset rp ''inventory_payloads'' (JArr payloads) else rp);
                     cfg = dget rp ''ansible_config''
                 in Some (if truthy cfg \<and> \<not> truthy (dget rp ''ansible_config_content'') then
                            (case fs_read fs (config_path py_str fs project_dir cfg) of
                               None \<Rightarrow> rp
                             | Some content \<Rightarrow> dset rp ''ansible_config_content'' (JStr content))
                          else rp)))
     | j \<Rightarrow> if truthy j then None else Some rp)"

fun vault_creds :: "(json \<Rightarrow> string) \<Rightarrow> file_system \<Rightarrow> string \<Rightarrow> json list \<Rightarrow> json list option" where
  \<comment> \<open>\<open>None\<close>: an entry that is no object, or a label that is no string, raises\<close>
  "vault_creds py_str fs project_id [] = Some []"
| "vault_creds py_str fs project_id (v # vs) =
    (case v of
       JObj d \<Rightarrow>
         if \<not> truthy (dget d ''keyId'') then vault_creds py_str fs project_id vs
         else (case fs_vault_key fs project_id (as_text py_str (dget d ''keyId'')) of
                 None \<Rightarrow> vault_creds py_str fs project_id vs
               | Some content \<Rightarrow>
                   (let password = rev (dropWhile (\<lambda>c. c = CHR 0x0A) (rev content))
                    in if password = [] then vault_creds py_str fs project_id vs
                       else (case py_or (py_or (dget d ''vaultId'') (dget d ''name'')) (JStr []) of
                               JStr label \<Rightarrow>
                                 map_option
                                   (Cons (JObj [(''id'', JStr (as_text py_str (py_or (dget d ''id'') (JStr [])))),
                                                (''label'', JStr (strip label)),
                                                (''password'', JStr password)]))
                                   (vault_creds py_str fs project_id vs)
                             | _ \<Rightarrow> None)))
     | _ \<Rightarrow> None)"

definition attach_vault :: "(json \<Rightarrow> string) \<Rightarrow> file_system \<Rightarrow> doc \<Rightarrow> doc \<Rightarrow> doc" where
  "attach_vault py_str fs execution rp =
    (if truthy (dget rp ''vault_credentials'') \<or> \<not> truthy (dget execution ''projectId'') then rp
     else
       (let p = as_text py_str (dget execution ''projectId'');
            vaults = (case fs_vaults fs p of None \<Rightarrow> JArr [] | Some j \<Rightarrow> py_or j (JArr []))
        in case iter_of vaults of
             None \<Rightarrow> rp
           | Some vs \<Rightarrow> (case vault_creds py_str fs p vs of
                            None \<Rightarrow> rp
                          | Some creds \<Rightarrow> if creds \<noteq> [] then dset rp ''vault_credentials'' (JArr creds)
                                          else rp)))"

definition attach_worker_transfer_payload ::
  "(json \<Rightarrow> string) \<Rightarrow> file_system \<Rightarrow> doc \<Rightarrow> doc" where
  \<comment> \<open>an exception ends the function with what it has attached so far\<close>
  "attach_worker_transfer_payload py_str fs execution =
    (case dget execution ''runParams'' of
       JObj rp \<Rightarrow>
         dset execution ''runParams'' (JObj
           (case attach_playbook fs rp of
              None \<Rightarrow> rp
            | Some rp1 \<Rightarrow>
                (case attach_inventories py_str fs rp1 of
                   None \<Rightarrow> rp1
                 | Some rp2 \<Rightarrow> attach_vault py_str fs execution rp2)))
     | _ \<Rightarrow> execution)"

subsection \<open>What the payload can change\<close>

lemma attach_keeps_record:
  "k \<noteq> ''runParams'' \<Longrightarrow>
   dget (attach_worker_transfer_payload py_str fs execution) k = dget execution k"
  by (simp add: attach_worker_transfer_payload_def split: json.split)

end
