(* ===== verification/WorkerRegistry.thy ===== *)
theory WorkerRegistry
  imports ExecStore
begin

section \<open>The worker registry\<close>

text \<open>
  \<^verbatim>\<open>server/services/worker_registry.py\<close>. \<open>wfiles\<close> is \<open>WORKERS_DIR\<close>: a JSON record per
  worker id, in the order \<open>glob\<close> yields them (empty or broken files are \<open>Corrupt\<close>).
  \<open>token_cache\<close> and \<open>beat_cache\<close> are the module's in-process caches. Worker ids are strings:
  a record whose \<open>id\<close> is another JSON value counts as one without an id. The hash function
  (SHA-256) is the argument \<open>sha\<close>; fresh tokens, salts, uuids and the clock are arguments too.
  A write of a file ends in one of three ways (\<open>write_outcome\<close>): \<open>open\<close> with mode
  \<^verbatim>\<open>'w'\<close> truncates the file, so a write that fails half-way leaves broken bytes.
\<close>

datatype write_outcome = WOk | WNoOpen | WTorn

record registry =
  wfiles :: "(string \<times> jfile) list"
  token_cache :: "(string \<times> (string \<times> real)) list"
  beat_cache :: "(string \<times> (real \<times> json)) list"
  legacy_file :: "jfile option"                      \<comment> \<open>\<^verbatim>\<open>workers.json\<close>\<close>

definition hash_token :: "(string \<Rightarrow> string) \<Rightarrow> string \<Rightarrow> string \<Rightarrow> string" where
  "hash_token sha token salt = sha (token @ salt)"

definition load_worker :: "string \<Rightarrow> registry \<Rightarrow> doc option" where
  "load_worker worker_id R = file_doc (map_of (wfiles R) worker_id)"

definition found_worker :: "string \<Rightarrow> registry \<Rightarrow> doc option" where
  \<comment> \<open>the guard \<^verbatim>\<open>if not worker_data\<close> of the callers: an empty record is not found either\<close>
  "found_worker worker_id R =
    (case load_worker worker_id R of
       Some d \<Rightarrow> if d = [] then None else Some d
     | None \<Rightarrow> None)"

definition save_worker :: "write_outcome \<Rightarrow> doc \<Rightarrow> registry \<Rightarrow> bool \<times> registry" where
  "save_worker io d R =
    (case str_of (dget d ''id'') of
       None \<Rightarrow> (False, R)
     | Some worker_id \<Rightarrow>
         if worker_id = [] then (False, R)
         else (case io of
                 WOk \<Rightarrow> (True, R\<lparr>wfiles := AList.update worker_id (Doc d) (wfiles R)\<rparr>)
               | WNoOpen \<Rightarrow> (False, R)
               | WTorn \<Rightarrow> (False, R\<lparr>wfiles := AList.update worker_id Corrupt (wfiles R)\<rparr>)))"

fun load_all_files :: "(string \<times> jfile) list \<Rightarrow> (string \<times> doc) list \<Rightarrow> (string \<times> doc) list" where
  "load_all_files [] workers = workers"
| "load_all_files ((n, f) # fs) workers =
    (case f of
       Corrupt \<Rightarrow> load_all_files fs workers
     | Doc d \<Rightarrow>
         (case str_of (dget d ''id'') of
            Some worker_id \<Rightarrow>
              load_all_files fs (if worker_id \<noteq> [] then AList.update worker_id d workers else workers)
          | None \<Rightarrow> load_all_files fs workers))"

definition load_all_workers :: "registry \<Rightarrow> (string \<times> doc) list" where
  "load_all_workers R = load_all_files (wfiles R) []"

definition enabled :: "doc \<Rightarrow> bool" where
  "enabled d = truthy (getd d ''enabled'' (JBool True))"

subsection \<open>Creation\<close>

definition new_worker ::
  "(string \<Rightarrow> string) \<Rightarrow> real \<Rightarrow> string \<Rightarrow> string \<Rightarrow> string \<Rightarrow> json \<Rightarrow> json \<Rightarrow> json \<Rightarrow> doc" where
  "new_worker sha now worker_id token salt name capabilities tags =
     [(''id'', JStr worker_id), (''name'', name),
      (''tokenHash'', JStr (hash_token sha token salt)), (''tokenSalt'', JStr salt),
      (''capabilities'', py_or capabilities (JObj [])), (''tags'', py_or tags (JArr [])),
      (''enabled'', JBool True), (''createdAt'', JNum now), (''lastSeenAt'', JNull),
      (''currentExecutionId'', JNull)]"

definition create_worker ::
  "(string \<Rightarrow> string) \<Rightarrow> write_outcome \<Rightarrow> real \<Rightarrow> string \<Rightarrow> string \<Rightarrow> string \<Rightarrow> json \<Rightarrow> json \<Rightarrow> json
   \<Rightarrow> registry \<Rightarrow> index_db \<Rightarrow> (string \<times> string) res \<times> registry \<times> index_db" where
  "create_worker sha io now worker_id token salt name capabilities tags R ix =
    (let (ok, R') = save_worker io
                      (new_worker sha now worker_id token salt name capabilities tags) R
     in if ok then (Inr (worker_id, token), R',
                    upsert_worker_token worker_id (hash_token sha token salt) salt ix)
        else (Inl (OtherError ''Failed to save worker''), R', ix))"

definition ensure_default_worker ::
  "(string \<Rightarrow> string) \<Rightarrow> write_outcome \<Rightarrow> real \<Rightarrow> string \<Rightarrow> string \<Rightarrow> string \<Rightarrow> registry \<Rightarrow> index_db
   \<Rightarrow> (string \<times> string) option \<times> registry \<times> index_db" where
  "ensure_default_worker sha io now worker_id token salt R ix =
    (if load_all_workers R \<noteq> [] then (None, R, ix)
     else (case create_worker sha io now worker_id token salt (JStr ''local-worker'') (JObj [])
                  (JArr [JStr ''default'', JStr ''local'']) R ix of
             (Inr r, R', ix') \<Rightarrow> (Some r, R', ix')
           | (Inl _, R', ix') \<Rightarrow> (None, R', ix')))"

subsection \<open>Tokens\<close>

definition TOKEN_CACHE_TTL :: real where "TOKEN_CACHE_TTL = 60"

definition cache_token :: "string \<Rightarrow> string \<Rightarrow> real \<Rightarrow> registry \<Rightarrow> registry" where
  "cache_token token worker_id now R =
    R\<lparr>token_cache := AList.update token (worker_id, now + TOKEN_CACHE_TTL) (token_cache R)\<rparr>"

fun verify_index ::
  "(string \<Rightarrow> string) \<Rightarrow> string \<Rightarrow> registry \<Rightarrow> (string \<times> string \<times> string) list \<Rightarrow> (string \<times> doc) option" where
  \<comment> \<open>the loop over \<open>all_worker_salts\<close>\<close>
  "verify_index sha token R [] = None"
| "verify_index sha token R ((wid, salt, th) # rows) =
    (if hash_token sha token salt = th then
       (case found_worker wid R of
          Some d \<Rightarrow> if enabled d then Some (wid, d) else verify_index sha token R rows
        | None \<Rightarrow> verify_index sha token R rows)
     else verify_index sha token R rows)"

fun verify_files ::
  "(string \<Rightarrow> string) \<Rightarrow> string \<Rightarrow> (string \<times> doc) list \<Rightarrow> (string \<times> doc) option res" where
  \<comment> \<open>the scan of all records: a salt that is no string makes the concatenation raise\<close>
  "verify_files sha token [] = Inr None"
| "verify_files sha token ((wid, d) # ws) =
    (if \<not> enabled d \<or> \<not> truthy (dget d ''tokenHash'') \<or> \<not> truthy (dget d ''tokenSalt'')
     then verify_files sha token ws
     else (case dget d ''tokenSalt'' of
             JStr salt \<Rightarrow>
               if JStr (hash_token sha token salt) = dget d ''tokenHash''
               then Inr (Some (wid, d)) else verify_files sha token ws
           | _ \<Rightarrow> Inl TypeError))"

definition verify_cached :: "string \<Rightarrow> real \<Rightarrow> registry \<Rightarrow> (string \<times> doc) option \<times> registry" where
  \<comment> \<open>the in-process cache: a live entry of a worker that is gone or disabled is dropped\<close>
  "verify_cached token now R =
    (case map_of (token_cache R) token of
       Some (wid, expires_at) \<Rightarrow>
         if expires_at > now then
           (case found_worker wid R of
              Some d \<Rightarrow> if enabled d then (Some (wid, d), R)
                         else (None, R\<lparr>token_cache := AList.delete token (token_cache R)\<rparr>)
            | None \<Rightarrow> (None, R\<lparr>token_cache := AList.delete token (token_cache R)\<rparr>))
         else (None, R)
     | None \<Rightarrow> (None, R))"

definition verify_token ::
  "(string \<Rightarrow> string) \<Rightarrow> real \<Rightarrow> string \<Rightarrow> registry \<Rightarrow> index_db
   \<Rightarrow> (string \<times> doc) option res \<times> registry \<times> index_db" where
  "verify_token sha now token R ix =
    (if token = [] then (Inr None, R, ix)
     else
       (case verify_cached token now R of
          (Some r, R1) \<Rightarrow> (Inr (Some r), R1, ix)
        | (None, R1) \<Rightarrow>
            (case verify_index sha token R1 (all_worker_salts ix) of
               Some (wid, d) \<Rightarrow> (Inr (Some (wid, d)), cache_token token wid now R1, ix)
             | None \<Rightarrow>
                 (case verify_files sha token (load_all_workers R1) of
                    Inl err \<Rightarrow> (Inl err, R1, ix)
                  | Inr None \<Rightarrow> (Inr None, R1, ix)
                  | Inr (Some (wid, d)) \<Rightarrow>
                      (Inr (Some (wid, d)), cache_token token wid now R1,
                       (case (dget d ''tokenHash'', dget d ''tokenSalt'') of
                          (JStr th, JStr salt) \<Rightarrow> upsert_worker_token wid th salt ix
                        | _ \<Rightarrow> ix))))))"

definition purge_tokens :: "string \<Rightarrow> registry \<Rightarrow> registry" where
  "purge_tokens worker_id R =
    R\<lparr>token_cache := filter (\<lambda>(k, v). fst v \<noteq> worker_id) (token_cache R)\<rparr>"

definition rotate_worker_token ::
  "(string \<Rightarrow> string) \<Rightarrow> write_outcome \<Rightarrow> real \<Rightarrow> string \<Rightarrow> string \<Rightarrow> string \<Rightarrow> registry \<Rightarrow> index_db
   \<Rightarrow> string res \<times> registry \<times> index_db" where
  "rotate_worker_token sha io now token salt worker_id R ix =
    (case found_worker worker_id R of
       None \<Rightarrow> (Inl (ValueError ''Worker not found''), R, ix)
     | Some d \<Rightarrow>
         (let token_hash = hash_token sha token salt;
              d = dset d ''tokenHash'' (JStr token_hash);
              d = dset d ''tokenSalt'' (JStr salt);
              d = dset d ''lastTokenRotatedAt'' (JNum now);
              (ok, R') = save_worker io d R
          in if ok then (Inr token, purge_tokens worker_id R',
                         upsert_worker_token worker_id token_hash salt ix)
             else (Inl (OtherError ''Failed to save worker''), R', ix)))"

subsection \<open>Updates\<close>

definition merge_colors :: "doc option \<Rightarrow> doc \<Rightarrow> doc res" where
  \<comment> \<open>\<open>worker_data['tagColors'].update(tagColors)\<close>\<close>
  "merge_colors colors d =
    (case colors of
       None \<Rightarrow> Inr d
     | Some c \<Rightarrow>
         (let d = dset_new d ''tagColors'' (JObj [])
          in case dget d ''tagColors'' of
               JObj old \<Rightarrow> Inr (dset d ''tagColors'' (JObj (dupd old c)))
             | _ \<Rightarrow> Inl AttributeError))"

definition update_worker ::
  "write_outcome \<Rightarrow> real \<Rightarrow> string \<Rightarrow> string option \<Rightarrow> string option \<Rightarrow> json option \<Rightarrow> doc option
   \<Rightarrow> registry \<Rightarrow> bool res \<times> registry" where
  "update_worker io now worker_id name description tags tag_colors R =
    (case found_worker worker_id R of
       None \<Rightarrow> (Inr False, R)
     | Some d \<Rightarrow>
         (let d = (case name of Some n \<Rightarrow> dset d ''name'' (JStr (strip n)) | None \<Rightarrow> d);
              d = (case description of
                     Some s \<Rightarrow> if strip s \<noteq> [] then dset d ''description'' (JStr (strip s))
                               else dpop d ''description''
                   | None \<Rightarrow> d);
              d = (case tags of Some t \<Rightarrow> dset d ''tags'' t | None \<Rightarrow> d)
          in case merge_colors tag_colors d of
               Inl err \<Rightarrow> (Inl err, R)
             | Inr d \<Rightarrow>
                 (let (ok, R') = save_worker io (dset d ''updatedAt'' (JNum now)) R
                  in (Inr ok, R'))))"

definition HEARTBEAT_WRITE_MIN_INTERVAL :: real where "HEARTBEAT_WRITE_MIN_INTERVAL = 15"

definition update_worker_heartbeat ::
  "write_outcome \<Rightarrow> real \<Rightarrow> string \<Rightarrow> json option \<Rightarrow> registry \<Rightarrow> bool \<times> registry" where
  \<comment> \<open>the current execution is \<open>None\<close> for \<open>_UNCHANGED\<close>\<close>
  "update_worker_heartbeat io now worker_id current R =
    (case found_worker worker_id R of
       None \<Rightarrow> (False, R)
     | Some d \<Rightarrow>
         (let next_current = (case current of None \<Rightarrow> dget d ''currentExecutionId'' | Some c \<Rightarrow> c)
          in if (case map_of (beat_cache R) worker_id of
                   None \<Rightarrow> False
                 | Some (t, c) \<Rightarrow> now - t < HEARTBEAT_WRITE_MIN_INTERVAL \<and> c = next_current)
             then (True, R)
             else
               (let d = dset d ''lastSeenAt'' (JNum now);
                    d = (case current of None \<Rightarrow> d | Some c \<Rightarrow> dset d ''currentExecutionId'' c);
                    (ok, R') = save_worker io d R
                in (ok, if ok then R'\<lparr>beat_cache :=
                                        AList.update worker_id (now, next_current) (beat_cache R')\<rparr>
                        else R'))))"

definition enable_worker :: "write_outcome \<Rightarrow> string \<Rightarrow> registry \<Rightarrow> bool \<times> registry" where
  "enable_worker io worker_id R =
    (case found_worker worker_id R of
       None \<Rightarrow> (False, R)
     | Some d \<Rightarrow> save_worker io (dset d ''enabled'' (JBool True)) R)"

definition disable_worker :: "write_outcome \<Rightarrow> string \<Rightarrow> registry \<Rightarrow> bool \<times> registry" where
  "disable_worker io worker_id R =
    (case found_worker worker_id R of
       None \<Rightarrow> (False, R)
     | Some d \<Rightarrow> save_worker io (dset d ''enabled'' (JBool False)) R)"

definition delete_worker :: "bool \<Rightarrow> string \<Rightarrow> registry \<Rightarrow> index_db \<Rightarrow> bool \<times> registry \<times> index_db" where
  \<comment> \<open>\<open>unlinked\<close>: the file system lets the file go\<close>
  "delete_worker unlinked worker_id R ix =
    (if map_of (wfiles R) worker_id = None \<or> \<not> unlinked then (False, R, ix)
     else (True, purge_tokens worker_id (R\<lparr>wfiles := AList.delete worker_id (wfiles R)\<rparr>),
           remove_worker_token worker_id ix))"

subsection \<open>Liveness\<close>

definition is_worker_online :: "real \<Rightarrow> string \<Rightarrow> real \<Rightarrow> registry \<Rightarrow> bool res" where
  "is_worker_online now worker_id ttl_seconds R =
    (case found_worker worker_id R of
       None \<Rightarrow> Inr False
     | Some d \<Rightarrow>
         if \<not> enabled d then Inr False
         else if \<not> truthy (dget d ''lastSeenAt'') then Inr False
         else (case num_of (dget d ''lastSeenAt'') of
                 None \<Rightarrow> Inl TypeError
               | Some t \<Rightarrow> Inr (now - t \<le> ttl_seconds)))"

fun stale_ids :: "real \<Rightarrow> real \<Rightarrow> (string \<times> doc) list \<Rightarrow> string list res" where
  "stale_ids now max_age [] = Inr []"
| "stale_ids now max_age ((wid, d) # ws) =
    (if \<not> enabled d \<or> \<not> truthy (dget d ''lastSeenAt'') then stale_ids now max_age ws
     else (case num_of (dget d ''lastSeenAt'') of
             None \<Rightarrow> Inl TypeError
           | Some t \<Rightarrow>
               (case stale_ids now max_age ws of
                  Inl err \<Rightarrow> Inl err
                | Inr ids \<Rightarrow> Inr (if now - t > max_age then wid # ids else ids))))"

definition get_stale_workers :: "real \<Rightarrow> real \<Rightarrow> registry \<Rightarrow> string list res" where
  "get_stale_workers now max_age_seconds R = stale_ids now max_age_seconds (load_all_workers R)"

fun count_running_files ::
  "real \<Rightarrow> string \<Rightarrow> string \<Rightarrow> exec_dir \<Rightarrow> nat \<times> index_db \<Rightarrow> nat \<times> index_db" where
  "count_running_files now worker_id p [] (n, ix) = (n, ix)"
| "count_running_files now worker_id p ((e, f, m) # fs) (n, ix) =
    (case f of
       Corrupt \<Rightarrow> count_running_files now worker_id p fs (n, ix)
     | Doc d \<Rightarrow>
         if dget d ''status'' = JStr ''RUNNING'' \<and> dget d ''workerId'' = JStr worker_id
         then count_running_files now worker_id p fs
                (Suc n, mark_running_execution now
                          (case py_or (dget d ''id'') (JStr e) of JStr i \<Rightarrow> i | _ \<Rightarrow> e) p (JStr worker_id)
                          (py_or (py_or (dget d ''startedAt'') (dget d ''createdAt'')) (JNum now)) ix)
         else count_running_files now worker_id p fs (n, ix))"

fun count_running_projects ::
  "real \<Rightarrow> string \<Rightarrow> (string \<times> pdir) list \<Rightarrow> nat \<times> index_db \<Rightarrow> nat \<times> index_db" where
  "count_running_projects now worker_id [] acc = acc"
| "count_running_projects now worker_id ((p, pd) # ps) acc =
    (case (if hist_exec pd = None then legacy_exec pd else hist_exec pd) of
       None \<Rightarrow> count_running_projects now worker_id ps acc
     | Some t \<Rightarrow> count_running_projects now worker_id ps
                   (count_running_files now worker_id p t acc))"

definition get_worker_active_runs_count ::
  "real \<Rightarrow> string \<Rightarrow> registry \<Rightarrow> store \<Rightarrow> nat \<times> store" where
  "get_worker_active_runs_count now worker_id R S =
    (case found_worker worker_id R of
       None \<Rightarrow> (0, S)
     | Some _ \<Rightarrow>
         (case running_count_for_worker worker_id (index S) of
            Some n \<Rightarrow> (n, S)
          | None \<Rightarrow>
              (let (n, ix) = count_running_projects now worker_id (projects S) (0, index S)
               in (n, S\<lparr>index := ix\<rparr>))))"

subsection \<open>The old single-file format\<close>

definition migrate_record ::
  "(string \<Rightarrow> string) \<Rightarrow> string \<Rightarrow> doc \<Rightarrow> doc option" where
  \<comment> \<open>\<open>None\<close>: a plaintext token that is no string makes hashing raise\<close>
  "migrate_record sha salt d =
    (let defaults = (\<lambda>d. dset_new (dset_new (dset_new d ''enabled'' (JBool True))
                                    ''capabilities'' (JObj [])) ''tags'' (JArr []))
     in if has d ''token'' then
          (case dget d ''token'' of
             JStr token \<Rightarrow>
               Some (defaults (dset (dset (dpop d ''token'') ''tokenHash''
                                      (JStr (hash_token sha token salt)))
                                ''tokenSalt'' (JStr salt)))
           | _ \<Rightarrow> None)
        else Some (defaults d))"

fun migrate_loop ::
  "(string \<Rightarrow> string) \<Rightarrow> (string \<Rightarrow> write_outcome) \<Rightarrow> (string \<Rightarrow> string) \<Rightarrow> doc \<Rightarrow> nat \<Rightarrow> registry
   \<Rightarrow> nat option \<times> registry" where
  \<comment> \<open>\<open>None\<close>: an exception ends the loop and the migration\<close>
  "migrate_loop sha io salts [] n R = (Some n, R)"
| "migrate_loop sha io salts ((wid, v) # ws) n R =
    (if found_worker wid R \<noteq> None then migrate_loop sha io salts ws n R
     else (case v of
             JObj d \<Rightarrow>
               (case migrate_record sha (salts wid) d of
                  None \<Rightarrow> (None, R)
                | Some d' \<Rightarrow>
                    (let (ok, R') = save_worker (io wid) d' R
                     in migrate_loop sha io salts ws (if ok then Suc n else n) R'))
           | _ \<Rightarrow> (None, R)))"

definition migrate_legacy_workers ::
  "(string \<Rightarrow> string) \<Rightarrow> (string \<Rightarrow> write_outcome) \<Rightarrow> (string \<Rightarrow> string) \<Rightarrow> registry \<Rightarrow> registry" where
  "migrate_legacy_workers sha io salts R =
    (case legacy_file R of
       Some (Doc legacy_workers) \<Rightarrow>
         (case migrate_loop sha io salts legacy_workers 0 R of
            (Some n, R') \<Rightarrow> if n > 0 then R'\<lparr>legacy_file := None\<rparr> else R'
          | (None, R') \<Rightarrow> R')
     | _ \<Rightarrow> R)"

end
