(* ===== verification/Claim.thy ===== *)
theory Claim
  imports Dispatcher WorkerRegistry "HOL-Library.Char_ord" "HOL-Library.List_Lexorder"
begin

section \<open>Claiming queued executions\<close>

text \<open>
  \<open>prune_stale_running_for_worker\<close> of \<^verbatim>\<open>server/storage/index_db.py\<close> and
  \<open>server_claim_next_execution\<close> of \<^verbatim>\<open>server/app.py\<close>. The claim has two phases:
  \<open>find_queued\<close> collects the queued records this worker may run (from the index, or from disk),
  then \<open>try_claim\<close> reopens one candidate under an exclusive file lock, checks again, and writes
  \<^verbatim>\<open>RUNNING\<close>. Other processes run between the phases, so \<open>try_claim\<close> is a step on its own;
  \<open>server_claim_next_execution\<close> is the composition when nobody else runs. \<open>busy\<close> tells which
  records another process holds locked during the scan. An execution id that is no string is
  used as its text (\<open>py_str\<close>).
\<close>

subsection \<open>Where a record is\<close>

definition find_record :: "store \<Rightarrow> string \<Rightarrow> string \<Rightarrow> (bool \<times> jfile) option" where
  \<comment> \<open>the history directory first, then the old one (\<open>True\<close>)\<close>
  "find_record S p e =
    (case dir_file (hist_exec (pdir_of S p)) e of
       Some f \<Rightarrow> Some (False, f)
     | None \<Rightarrow> map_option (Pair True) (dir_file (legacy_exec (pdir_of S p)) e))"

definition record_at :: "store \<Rightarrow> string \<Rightarrow> bool \<Rightarrow> string \<Rightarrow> jfile option" where
  "record_at S p old e =
    dir_file (if old then legacy_exec (pdir_of S p) else hist_exec (pdir_of S p)) e"

definition write_record :: "real \<Rightarrow> string \<Rightarrow> bool \<Rightarrow> string \<Rightarrow> doc \<Rightarrow> store \<Rightarrow> store" where
  "write_record now p old e d S =
    (let pd = pdir_of S p
     in set_pdir p (if old then pd\<lparr>legacy_exec := dir_put now e d (legacy_exec pd)\<rparr>
                    else pd\<lparr>hist_exec := dir_put now e d (hist_exec pd)\<rparr>) S)"

definition append_raw_log :: "string \<Rightarrow> string \<Rightarrow> string \<Rightarrow> store \<Rightarrow> store" where
  "append_raw_log p e text S =
    (let pd = pdir_of S p;
         t = (case hist_logs pd of None \<Rightarrow> [] | Some t \<Rightarrow> t);
         old = (case map_of t e of None \<Rightarrow> [] | Some s \<Rightarrow> s)
     in set_pdir p (pd\<lparr>hist_logs := Some (AList.update e (old @ text) t)\<rparr>) S)"

subsection \<open>Pruning the index of a worker\<close>

definition orphan_failed :: "real \<Rightarrow> real \<Rightarrow> doc \<Rightarrow> doc option" where
  \<comment> \<open>\<open>None\<close>: the start time is no number\<close>
  "orphan_failed now started d =
    (case num_of (py_or (py_or (dget d ''startedAt'') (JNum started)) (JNum now)) of
       None \<Rightarrow> None
     | Some started_at \<Rightarrow>
         (let d = dset d ''status'' (JStr ''FAILED'');
              d = dset d ''finishedAt'' (JNum now);
              d = dset d ''statusUpdatedAt'' (JNum now);
              d = dset d ''duration'' (JNum (real_of_int (max 0 (py_int (now - started_at)))))
          in Some (dset d ''error''
                     (py_or (dget d ''error'') (JStr ''Worker restarted before reporting completion'')))))"

definition ORPHAN_LOG :: string where
  "ORPHAN_LOG = [CHR 0x0A] @ ''[recovery] Worker restarted before reporting completion; marked as FAILED and unblocked the queue.'' @ [CHR 0x0A]"

definition mark_orphan :: "real \<Rightarrow> string \<Rightarrow> string \<Rightarrow> string \<Rightarrow> real \<Rightarrow> bool \<Rightarrow> doc \<Rightarrow> store \<Rightarrow> store" where
  "mark_orphan now worker_id e p started old d S =
    (case orphan_failed now started d of
       None \<Rightarrow> S
     | Some d' \<Rightarrow>
         (let S = append_raw_log p e ORPHAN_LOG (write_record now p old e d' S)
          in S\<lparr>index := upsert_execution_location now e p (JStr ''FAILED'') (JStr worker_id)
                          (JNum now) (index S)\<rparr>))"

definition prune_row ::
  "real \<Rightarrow> string \<Rightarrow> string option \<Rightarrow> bool \<Rightarrow> string \<times> string \<times> real \<Rightarrow> nat \<times> store \<Rightarrow> nat \<times> store" where
  "prune_row now worker_id current mark_failed = (\<lambda>(e, p, started) (n, S).
    (let drop = (\<lambda>S. (Suc n, S\<lparr>index := remove_running_execution e (index S)\<rparr>))
     in case find_record S p e of
          None \<Rightarrow> drop S
        | Some (old, Corrupt) \<Rightarrow> drop S
        | Some (old, Doc d) \<Rightarrow>
            if dget d ''status'' \<noteq> JStr ''RUNNING'' \<or>
               truthy (dget d ''workerId'') \<and> dget d ''workerId'' \<noteq> JStr worker_id
            then drop S
            else if current \<noteq> Some e
            then drop (if mark_failed then mark_orphan now worker_id e p started old d S else S)
            else (n, S)))"

definition prune_stale_running_for_worker ::
  "real \<Rightarrow> string \<Rightarrow> string option \<Rightarrow> bool \<Rightarrow> store \<Rightarrow> nat \<times> store" where
  "prune_stale_running_for_worker now worker_id current mark_failed S =
    fold (prune_row now worker_id current mark_failed)
      (list_running_for_worker worker_id (index S)) (0, S)"

subsection \<open>Capacity\<close>

definition runs_after_healing :: "real \<Rightarrow> string \<Rightarrow> real \<Rightarrow> registry \<Rightarrow> store \<Rightarrow> nat \<times> store" where
  \<comment> \<open>the active runs of the worker; when they reach the limit, stale rows are pruned first\<close>
  "runs_after_healing now worker_id max_concurrency R S =
    (let (active, S1) = get_worker_active_runs_count now worker_id R S
     in if real active \<ge> max_concurrency then
          (let (pruned, S2) = prune_stale_running_for_worker now worker_id None True S1
           in if pruned > 0 then get_worker_active_runs_count now worker_id R S2 else (active, S2))
        else (active, S1))"

subsection \<open>Candidates\<close>

record candidate =
  c_at :: json            \<comment> \<open>the queue time it is sorted by\<close>
  c_old :: bool           \<comment> \<open>found in the old directory\<close>
  c_stem :: string        \<comment> \<open>the name of its file\<close>
  c_doc :: doc            \<comment> \<open>the record as the scan read it\<close>
  c_project :: string

record claimer =
  cl_id :: string
  cl_data :: doc
  cl_tags :: json

definition claim_tags :: "json \<Rightarrow> doc \<Rightarrow> json" where
  "claim_tags tags worker_data = py_or tags (getd worker_data ''tags'' (JArr []))"

definition eligible :: "(json \<Rightarrow> string) \<Rightarrow> claimer \<Rightarrow> doc \<Rightarrow> bool" where
  \<comment> \<open>a check that raises counts as not eligible: the loop goes on with the next file\<close>
  "eligible py_str W d =
    (check_execution_requirements py_str d (getd (cl_data W) ''capabilities'' (JObj []))
       (claim_tags (cl_tags W) (cl_data W)) (cl_id W) = Inr True)"

definition id_text :: "(json \<Rightarrow> string) \<Rightarrow> string \<Rightarrow> doc \<Rightarrow> string" where
  "id_text py_str stem d = as_text py_str (py_or (dget d ''id'') (JStr stem))"

fun scan_files ::
  "(json \<Rightarrow> string) \<Rightarrow> (string \<Rightarrow> string \<Rightarrow> bool) \<Rightarrow> real \<Rightarrow> claimer \<Rightarrow> string \<Rightarrow> bool \<Rightarrow> exec_dir
   \<Rightarrow> candidate list \<times> index_db \<Rightarrow> candidate list \<times> index_db" where
  "scan_files py_str busy now W p old [] (cs, ix) = (cs, ix)"
| "scan_files py_str busy now W p old ((e, f, m) # fs) (cs, ix) =
    (case f of
       Corrupt \<Rightarrow> scan_files py_str busy now W p old fs (cs, ix)
     | Doc d \<Rightarrow>
         if busy p e \<or> dget d ''status'' \<noteq> JStr ''QUEUED''
         then scan_files py_str busy now W p old fs (cs, ix)
         else
           (let ix' = add_queued_execution now (id_text py_str e d) p
                        (py_or (py_or (dget d ''queuedAt'') (dget d ''createdAt'')) (JNum 0)) [] ix;
                c = \<lparr>c_at = getd d ''queuedAt'' (getd d ''createdAt'' (JNum 0)),
                     c_old = old, c_stem = e, c_doc = d, c_project = p\<rparr>
            in scan_files py_str busy now W p old fs
                 (if eligible py_str W d then cs @ [c] else cs, ix')))"

fun scan_projects ::
  "(json \<Rightarrow> string) \<Rightarrow> (string \<Rightarrow> string \<Rightarrow> bool) \<Rightarrow> real \<Rightarrow> claimer \<Rightarrow> (string \<times> pdir) list
   \<Rightarrow> candidate list \<times> index_db \<Rightarrow> candidate list \<times> index_db" where
  "scan_projects py_str busy now W [] acc = acc"
| "scan_projects py_str busy now W ((p, pd) # ps) acc =
    scan_projects py_str busy now W ps
      (case hist_exec pd of
         Some t \<Rightarrow> scan_files py_str busy now W p False t acc
       | None \<Rightarrow> (case legacy_exec pd of
                    Some t \<Rightarrow> scan_files py_str busy now W p True t acc
                  | None \<Rightarrow> acc))"

definition scan_queued_from_disk ::
  "(json \<Rightarrow> string) \<Rightarrow> (string \<Rightarrow> string \<Rightarrow> bool) \<Rightarrow> real \<Rightarrow> claimer \<Rightarrow> string \<Rightarrow> store
   \<Rightarrow> candidate list \<times> store" where
  "scan_queued_from_disk py_str busy now W project_id S =
    (let dirs = (if project_id \<noteq> [] then filter (\<lambda>(p, pd). p = project_id) (projects S)
                 else projects S);
         (cs, ix) = scan_projects py_str busy now W dirs ([], index S)
     in (cs, S\<lparr>index := ix\<rparr>))"

fun scan_index ::
  "(json \<Rightarrow> string) \<Rightarrow> (string \<Rightarrow> string \<Rightarrow> bool) \<Rightarrow> claimer \<Rightarrow> (string \<times> string \<times> real) list
   \<Rightarrow> candidate list \<times> store \<Rightarrow> candidate list \<times> store" where
  "scan_index py_str busy W [] acc = acc"
| "scan_index py_str busy W ((e, p, queued_at) # rows) (cs, S) =
    (let unqueue = S\<lparr>index := remove_queued_execution e (index S)\<rparr>
     in case find_record S p e of
          None \<Rightarrow> scan_index py_str busy W rows (cs, unqueue)
        | Some (old, f) \<Rightarrow>
            if busy p e then scan_index py_str busy W rows (cs, S)
            else (case f of
                    Corrupt \<Rightarrow> scan_index py_str busy W rows (cs, S)
                  | Doc d \<Rightarrow>
                      if dget d ''status'' \<noteq> JStr ''QUEUED''
                      then scan_index py_str busy W rows (cs, unqueue)
                      else scan_index py_str busy W rows
                        (if eligible py_str W d
                         then cs @ [\<lparr>c_at = getd d ''queuedAt'' (getd d ''createdAt'' (JNum queued_at)),
                                     c_old = old, c_stem = e, c_doc = d, c_project = p\<rparr>]
                         else cs, S)))"

type_synonym scan_times = "(string \<times> real) list"

definition find_queued ::
  "(json \<Rightarrow> string) \<Rightarrow> (string \<Rightarrow> string \<Rightarrow> bool) \<Rightarrow> real \<Rightarrow> real \<Rightarrow> claimer \<Rightarrow> string \<Rightarrow> store \<Rightarrow> scan_times
   \<Rightarrow> candidate list \<times> store \<times> scan_times" where
  \<comment> \<open>the index first; when it offers nothing, a scan of the disk at most once per interval\<close>
  "find_queued py_str busy interval now W project_id S tm =
    (if ix_open (index S) then
       (let (cs, S1) = scan_index py_str busy W (list_queued (Some project_id) 50 (index S)) ([], S);
            scan_key = (if project_id \<noteq> [] then project_id else ''__all__'');
            last_scan = (case map_of tm scan_key of None \<Rightarrow> 0 | Some t \<Rightarrow> t)
        in if cs = [] \<and> now - last_scan \<ge> interval then
             (let (cs2, S2) = scan_queued_from_disk py_str busy now W project_id S1
              in (cs2, S2, AList.update scan_key now tm))
           else (cs, S1, tm))
     else (let (cs, S1) = scan_queued_from_disk py_str busy now W project_id S in (cs, S1, tm)))"

definition sort_candidates :: "candidate list \<Rightarrow> candidate list option" where
  \<comment> \<open>\<open>queued_runs.sort(key=lambda x: x[0])\<close>: stable; \<open>None\<close> when two keys do not compare\<close>
  "sort_candidates cs =
    (if length cs \<le> 1 then Some cs
     else if list_all (\<lambda>c. num_of (c_at c) \<noteq> None) cs
     then Some (sort_key (\<lambda>c. the (num_of (c_at c))) cs)
     else if list_all (\<lambda>c. str_of (c_at c) \<noteq> None) cs
     then Some (sort_key (\<lambda>c. the (str_of (c_at c))) cs)
     else None)"

subsection \<open>Taking a candidate\<close>

definition running_record :: "real \<Rightarrow> claimer \<Rightarrow> doc \<Rightarrow> doc" where
  "running_record now W d =
    (let d = dset d ''status'' (JStr ''RUNNING'');
         d = dset d ''startedAt'' (JNum now);
         d = dset d ''statusUpdatedAt'' (JNum now);
         d = dset d ''workerId'' (JStr (cl_id W));
         d = dset d ''workerName'' (getd (cl_data W) ''name'' (JStr ''Unknown''))
     in dset d ''workerTags'' (getd (cl_data W) ''tags'' (JArr [])))"

definition try_claim ::
  "(json \<Rightarrow> string) \<Rightarrow> real \<Rightarrow> claimer \<Rightarrow> real \<Rightarrow> registry \<Rightarrow> candidate \<Rightarrow> store
   \<Rightarrow> (string \<times> doc \<times> string) option \<times> store" where
  \<comment> \<open>one turn of the claim loop, under the lock of the file\<close>
  "try_claim py_str now W max_concurrency R c S =
    (if \<not> truthy (dget (c_doc c) ''id'') then (None, S)
     else
       (let execution_id = as_text py_str (dget (c_doc c) ''id'')
        in case record_at S (c_project c) (c_old c) (c_stem c) of
             Some (Doc d) \<Rightarrow>
               if dget d ''status'' \<noteq> JStr ''QUEUED'' then (None, S)
               else
                 (let (active, S1) = runs_after_healing now (cl_id W) max_concurrency R S
                  in if real active \<ge> max_concurrency then (None, S1)
                     else
                       (let d' = running_record now W d;
                            S2 = write_record now (c_project c) (c_old c) (c_stem c) d' S1;
                            S3 = S2\<lparr>index := mark_running_execution now execution_id (c_project c)
                                      (JStr (cl_id W)) (py_or (JNum now) (JNum now)) (index S2)\<rparr>
                        in (Some (execution_id, d', c_project c), S3)))
           | _ \<Rightarrow> (None, S)))"

fun claim_loop ::
  "(json \<Rightarrow> string) \<Rightarrow> real \<Rightarrow> claimer \<Rightarrow> real \<Rightarrow> registry \<Rightarrow> candidate list \<Rightarrow> store
   \<Rightarrow> (string \<times> doc \<times> string) option \<times> store" where
  "claim_loop py_str now W max_concurrency R [] S = (None, S)"
| "claim_loop py_str now W max_concurrency R (c # cs) S =
    (case try_claim py_str now W max_concurrency R c S of
       (Some r, S1) \<Rightarrow> (Some r, S1)
     | (None, S1) \<Rightarrow> claim_loop py_str now W max_concurrency R cs S1)"

definition server_claim_next_execution ::
  "(json \<Rightarrow> string) \<Rightarrow> (string \<Rightarrow> string \<Rightarrow> bool) \<Rightarrow> file_system \<Rightarrow> real \<Rightarrow> real \<Rightarrow> claimer \<Rightarrow> string \<Rightarrow> json
   \<Rightarrow> registry \<Rightarrow> store \<Rightarrow> scan_times
   \<Rightarrow> (string \<times> doc \<times> string) option \<times> store \<times> scan_times" where
  "server_claim_next_execution py_str busy fs interval now W project_id max_concurrency R S tm =
    (case num_of max_concurrency of
       None \<Rightarrow> (None, snd (get_worker_active_runs_count now (cl_id W) R S), tm)
     | Some m \<Rightarrow>
         (let (active, S1) = runs_after_healing now (cl_id W) m R S
          in if real active \<ge> m then (None, S1, tm)
             else
               (let (cs, S2, at2) = find_queued py_str busy interval now W project_id S1 tm
                in case sort_candidates cs of
                     None \<Rightarrow> (None, S2, at2)
                   | Some cs \<Rightarrow>
                       (case claim_loop py_str now W m R cs S2 of
                          (None, S3) \<Rightarrow> (None, S3, at2)
                        | (Some (e, d, p), S3) \<Rightarrow>
                            (Some (e, attach_worker_transfer_payload py_str fs d, p), S3, at2)))))"

end
