(* ===== verification/Recovery.thy ===== *)
theory Recovery
  imports Claim
begin

section \<open>Recovery of stuck executions\<close>

text \<open>
  \<open>server_recover_stuck_executions\<close> of \<^verbatim>\<open>server/app.py\<close>: a periodic task fails executions that
  run for too long and cancels those whose cancellation hangs. \<open>fmt1\<close> renders a number with
  one decimal; \<open>busy\<close> tells which files another process holds locked. The index is not
  touched: a later claim of the worker prunes its rows.
\<close>

definition recover_running ::
  "(real \<Rightarrow> string) \<Rightarrow> real \<Rightarrow> real \<Rightarrow> real \<Rightarrow> registry \<Rightarrow> doc \<Rightarrow> (doc \<times> string) option" where
  \<comment> \<open>the failed record and the log line; an exception of the time arithmetic or of the worker
     check is caught around the file\<close>
  "recover_running fmt1 now max_age_minutes heartbeat_ttl R d =
    (if \<not> truthy (dget d ''startedAt'') then None
     else (case num_of (dget d ''startedAt'') of
             None \<Rightarrow> None
           | Some started_at \<Rightarrow>
               (let age_minutes = (now - started_at) / 60;
                    online = (case dget d ''workerId'' of
                                JStr w \<Rightarrow> if w = [] then Inr False else is_worker_online now w heartbeat_ttl R
                              | _ \<Rightarrow> Inr False)
                in case online of
                     Inl err \<Rightarrow> None
                   | Inr _ \<Rightarrow>
                       if age_minutes > max_age_minutes \<and>
                          is_ok (validate_status_transition (JStr ''RUNNING'') (JStr ''FAILED''))
                       then
                         (let d = dset d ''status'' (JStr ''FAILED'');
                              d = dset d ''finishedAt'' (JNum now);
                              d = dset d ''duration'' (JNum (real_of_int (py_int (now - started_at))));
                              d = dset d ''statusUpdatedAt'' (JNum now);
                              d = dset d ''error''
                                    (JStr (''Execution timeout after '' @ fmt1 age_minutes @ '' minutes''))
                          in Some (d, ''[recovery] Execution timeout after '' @ fmt1 age_minutes @
                                      '' minutes, marked as FAILED'' @ [CHR 0x0A]))
                       else None)))"

definition recover_canceling ::
  "(real \<Rightarrow> string) \<Rightarrow> real \<Rightarrow> real \<Rightarrow> doc \<Rightarrow> (doc \<times> string) option" where
  "recover_canceling fmt1 now max_cancel_minutes d =
    (if \<not> truthy (dget d ''cancelRequestedAt'') then None
     else (case num_of (dget d ''cancelRequestedAt'') of
             None \<Rightarrow> None
           | Some requested \<Rightarrow>
               (let cancel_age = (now - requested) / 60
                in if cancel_age > max_cancel_minutes \<and>
                      is_ok (validate_status_transition (JStr ''CANCELING'') (JStr ''CANCELED''))
                   then
                     (let d = dset d ''status'' (JStr ''CANCELED'');
                          d = dset d ''canceledAt'' (JNum now);
                          d = dset d ''cancelReason'' (JStr ''timeout'');
                          d = dset d ''statusUpdatedAt'' (JNum now);
                          text = ''[recovery] Force canceled after '' @ fmt1 cancel_age @
                                 '' minutes timeout'' @ [CHR 0x0A]
                      in if truthy (dget d ''startedAt'') then
                           (case num_of (dget d ''startedAt'') of
                              None \<Rightarrow> None
                            | Some started_at \<Rightarrow>
                                Some (dset (dset d ''duration''
                                              (JNum (real_of_int (py_int (now - started_at)))))
                                        ''finishedAt'' (JNum now), text))
                         else Some (d, text))
                   else None)))"

definition recover_record ::
  "(real \<Rightarrow> string) \<Rightarrow> real \<Rightarrow> real \<Rightarrow> real \<Rightarrow> real \<Rightarrow> registry \<Rightarrow> doc \<Rightarrow> (doc \<times> string) option" where
  "recover_record fmt1 now max_age heartbeat_ttl max_cancel R d =
    (case is_final_status (dget d ''status'') of
       Inl err \<Rightarrow> None
     | Inr True \<Rightarrow> None
     | Inr False \<Rightarrow>
         if dget d ''status'' = JStr ''RUNNING''
         then recover_running fmt1 now max_age heartbeat_ttl R d
         else if dget d ''status'' = JStr ''CANCELING''
         then recover_canceling fmt1 now max_cancel d
         else None)"

definition recover_file ::
  "(json \<Rightarrow> string) \<Rightarrow> (string \<Rightarrow> string \<Rightarrow> bool) \<Rightarrow> (doc \<Rightarrow> (doc \<times> string) option) \<Rightarrow> real \<Rightarrow> string \<Rightarrow> bool
   \<Rightarrow> string \<Rightarrow> nat \<times> store \<Rightarrow> nat \<times> store" where
  "recover_file py_str busy fix now p old e = (\<lambda>(n, S).
    (case record_at S p old e of
       Some (Doc d) \<Rightarrow>
         if busy p e then (n, S)
         else (case fix d of
                 None \<Rightarrow> (n, S)
               | Some (d', text) \<Rightarrow>
                   (let S = write_record now p old e d' S
                    in (Suc n, snd (append_execution_log (as_text py_str (dget d ''id'')) text (Some p) S))))
     | _ \<Rightarrow> (n, S)))"

fun recover_projects ::
  "(json \<Rightarrow> string) \<Rightarrow> (string \<Rightarrow> string \<Rightarrow> bool) \<Rightarrow> (doc \<Rightarrow> (doc \<times> string) option) \<Rightarrow> real
   \<Rightarrow> (string \<times> pdir) list \<Rightarrow> nat \<times> store \<Rightarrow> nat \<times> store" where
  "recover_projects py_str busy fix now [] acc = acc"
| "recover_projects py_str busy fix now ((p, pd) # ps) acc =
    recover_projects py_str busy fix now ps
      (case hist_exec pd of
         Some t \<Rightarrow> fold (recover_file py_str busy fix now p False) (map fst t) acc
       | None \<Rightarrow> (case legacy_exec pd of
                    Some t \<Rightarrow> fold (recover_file py_str busy fix now p True) (map fst t) acc
                  | None \<Rightarrow> acc))"

definition server_recover_stuck_executions ::
  "(json \<Rightarrow> string) \<Rightarrow> (real \<Rightarrow> string) \<Rightarrow> (string \<Rightarrow> string \<Rightarrow> bool) \<Rightarrow> real \<Rightarrow> real \<Rightarrow> real \<Rightarrow> real
   \<Rightarrow> registry \<Rightarrow> store \<Rightarrow> nat \<times> store" where
  "server_recover_stuck_executions py_str fmt1 busy now max_age heartbeat_ttl max_cancel R S =
    recover_projects py_str busy (recover_record fmt1 now max_age heartbeat_ttl max_cancel R) now
      (projects S) (0, S)"

end
