(* ===== verification/HostStatus.thy ===== *)
theory HostStatus
  imports ExecHistory
begin

section \<open>The host status cache\<close>

text \<open>
  \<^verbatim>\<open>server/utils/host_status.py\<close>: the last known reachability of a host, in memory and in
  \<open>host_status.json\<close> of the project. \<open>isofmt\<close> renders a time stamp and \<open>parse\<close> reads one back,
  as \<open>datetime.isoformat\<close> and \<open>datetime.fromisoformat\<close> do; \<open>int_of\<close> is \<open>int\<close> on a string.
  Writing the file takes its lock and succeeds unless \<open>io\<close> is false.
\<close>

record host_entry =
  he_status :: json
  he_checked :: real
  he_expires :: real

record host_state =
  h_cache :: "((string \<times> string) \<times> host_entry) list"
  h_files :: "(string \<times> jfile) list"

definition HOST_STATUS_TTL_DEFAULT :: int where "HOST_STATUS_TTL_DEFAULT = 300"

definition env_ttl :: "(string \<Rightarrow> int option) \<Rightarrow> string option \<Rightarrow> int" where
  "env_ttl int_of env =
    (case env of
       None \<Rightarrow> HOST_STATUS_TTL_DEFAULT
     | Some s \<Rightarrow> (case (if s = [] then None else int_of s) of
                    None \<Rightarrow> HOST_STATUS_TTL_DEFAULT
                  | Some n \<Rightarrow> if n > 0 then n else HOST_STATUS_TTL_DEFAULT))"

definition get_host_status_ttl_seconds ::
  "(string \<Rightarrow> int option) \<Rightarrow> string option \<Rightarrow> doc option \<Rightarrow> string \<Rightarrow> int" where
  \<comment> \<open>\<open>config\<close>: the project's configuration, \<open>None\<close> when loading it raises\<close>
  "get_host_status_ttl_seconds int_of env config project_id =
    (if project_id = [] then env_ttl int_of env
     else (case config of
             None \<Rightarrow> env_ttl int_of env
           | Some c \<Rightarrow>
               (case getd c ''host_status'' (JObj []) of
                  JObj h \<Rightarrow>
                    (let ttl = (if dget h ''ttl_seconds'' = JNull
                                then dget c ''host_status_ttl_seconds''
                                else dget h ''ttl_seconds'')
                     in case num_of ttl of
                          None \<Rightarrow> env_ttl int_of env
                        | Some x \<Rightarrow> if x > 0 then py_int x else env_ttl int_of env)
                | _ \<Rightarrow> env_ttl int_of env)))"

definition host_file_entry :: "(real \<Rightarrow> string) \<Rightarrow> host_entry \<Rightarrow> json" where
  "host_file_entry isofmt e =
     JObj [(''status'', he_status e), (''last_checked_at'', JStr (isofmt (he_checked e) @ ''Z'')),
           (''status_expires_at'', JStr (isofmt (he_expires e) @ ''Z''))]"

definition set_host_check_status ::
  "(real \<Rightarrow> string) \<Rightarrow> int \<Rightarrow> bool \<Rightarrow> real \<Rightarrow> string \<Rightarrow> string \<Rightarrow> json \<Rightarrow> host_state \<Rightarrow> host_state" where
  "set_host_check_status isofmt ttl io now project_id host status H =
    (if project_id = [] \<or> host = [] then H
     else
       (let e = \<lparr>he_status = status, he_checked = now,
                 he_expires = (if ttl > 0 then now + real_of_int ttl else now)\<rparr>;
            H = H\<lparr>h_cache := AList.update (project_id, host) e (h_cache H)\<rparr>;
            existing = (case file_doc (map_of (h_files H) project_id) of None \<Rightarrow> [] | Some d \<Rightarrow> d)
        in case py_or (dget existing ''hosts'') (JObj []) of
             JObj hosts_map \<Rightarrow>
               if io then H\<lparr>h_files := AList.update project_id
                              (Doc [(''hosts'', JObj (dset hosts_map host (host_file_entry isofmt e)))])
                              (h_files H)\<rparr>
               else H
           | _ \<Rightarrow> H))"

definition parse_stamp :: "(string \<Rightarrow> real option) \<Rightarrow> json \<Rightarrow> real option" where
  "parse_stamp parse j =
    (case j of
       JStr s \<Rightarrow> if s = [] then None else parse (replace_all ''Z'' ''+00:00'' s)
     | _ \<Rightarrow> None)"

definition load_host_entry ::
  "(string \<Rightarrow> real option) \<Rightarrow> int \<Rightarrow> real \<Rightarrow> jfile option \<Rightarrow> string \<Rightarrow> host_entry option" where
  "load_host_entry parse ttl now f host =
    (case file_doc f of
       None \<Rightarrow> None
     | Some d \<Rightarrow>
         (case py_or (dget d ''hosts'') (JObj []) of
            JObj hosts \<Rightarrow>
              (case dget hosts host of
                 JObj he \<Rightarrow>
                   if he = [] then None
                   else
                     (let last = (case parse_stamp parse (dget he ''last_checked_at'') of
                                    None \<Rightarrow> now | Some t \<Rightarrow> t);
                          expires = (case parse_stamp parse (dget he ''status_expires_at'') of
                                       None \<Rightarrow> last + real_of_int ttl | Some t \<Rightarrow> t)
                      in Some \<lparr>he_status = getd he ''status'' (JStr ''unknown''),
                               he_checked = last, he_expires = expires\<rparr>)
               | _ \<Rightarrow> None)
          | _ \<Rightarrow> None))"

record host_report =
  hr_status :: json
  hr_checked :: string
  hr_expires :: string
  hr_expired :: bool

definition get_host_check_status ::
  "(real \<Rightarrow> string) \<Rightarrow> (string \<Rightarrow> real option) \<Rightarrow> int \<Rightarrow> real \<Rightarrow> string \<Rightarrow> string \<Rightarrow> host_state
   \<Rightarrow> host_report option \<times> host_state" where
  "get_host_check_status isofmt parse ttl now project_id host H =
    (if project_id = [] \<or> host = [] then (None, H)
     else
       (let (data, H') =
              (case map_of (h_cache H) (project_id, host) of
                 Some e \<Rightarrow> (Some e, H)
               | None \<Rightarrow>
                   (case load_host_entry parse ttl now (map_of (h_files H) project_id) host of
                      None \<Rightarrow> (None, H)
                    | Some e \<Rightarrow> (Some e, H\<lparr>h_cache := AList.update (project_id, host) e (h_cache H)\<rparr>)))
        in (map_option
              (\<lambda>e. \<lparr>hr_status = he_status e,
                    hr_checked = isofmt (if he_checked e = 0 then now else he_checked e) @ ''Z'',
                    hr_expires = isofmt (he_expires e) @ ''Z'',
                    hr_expired = (he_expires e \<le> now)\<rparr>) data, H')))"

subsection \<open>What was set is what is read\<close>

lemma hosts_after_set:
  assumes "project_id \<noteq> []" "host \<noteq> []"
  shows "map_of (h_cache (set_host_check_status isofmt ttl io now project_id host status H)) (project_id, host) =
    Some \<lparr>he_status = status, he_checked = now, he_expires = (if ttl > 0 then now + real_of_int ttl else now)\<rparr>"
  using assms
  by (simp add: set_host_check_status_def Let_def update_conv' split: json.split)

lemma replace_all_Z:
  assumes "CHR ''Z'' \<notin> set s"
  shows "replace_all ''Z'' u (s @ ''Z'') = s @ u"
  using assms
proof (induction s)
  case Nil
  show ?case by (simp add: replace_all.simps starts_with_def)
next
  case (Cons c s)
  then have "replace_all ''Z'' u (s @ ''Z'') = s @ u" "c \<noteq> CHR ''Z''" by auto
  then show ?case by (subst replace_all.simps) (simp add: starts_with_def)
qed

definition clock :: "(real \<Rightarrow> string) \<Rightarrow> (string \<Rightarrow> real option) \<Rightarrow> real set \<Rightarrow> bool" where
  \<comment> \<open>the rendering of these times carries no zone letter and is read back with an explicit offset\<close>
  "clock isofmt parse ts \<longleftrightarrow> (\<forall>t\<in>ts. CHR ''Z'' \<notin> set (isofmt t) \<and> isofmt t \<noteq> [] \<and> parse (isofmt t @ ''+00:00'') = Some t)"

lemma parse_stamp_iso:
  "clock isofmt parse ts \<Longrightarrow> t \<in> ts \<Longrightarrow> parse_stamp parse (JStr (isofmt t @ ''Z'')) = Some t"
  by (simp add: parse_stamp_def clock_def replace_all_Z)

text \<open>A host status that was recorded is reported unchanged until it expires, and marked expired from then on; it is so even for a server that restarted in between and knows only the file.\<close>

theorem host_status_survives_restart:
  assumes "clock isofmt parse {now, now + real_of_int ttl}" and "project_id \<noteq> []" "host \<noteq> []" and "ttl > 0" "now \<noteq> 0"
    and "file_doc (map_of (h_files H) project_id) = None"
    and "H' = set_host_check_status isofmt ttl True now project_id host status H"
    and "H'' = H' \<or> H'' = H'\<lparr>h_cache := []\<rparr>"
  shows "fst (get_host_check_status isofmt parse ttl' now' project_id host H'') =
     Some \<lparr>hr_status = status, hr_checked = isofmt now @ ''Z'', hr_expires = isofmt (now + real_of_int ttl) @ ''Z'',
           hr_expired = (now + real_of_int ttl \<le> now')\<rparr>"
proof -
  let ?e = "\<lparr>he_status = status, he_checked = now, he_expires = now + real_of_int ttl\<rparr>"
  have c: "map_of (h_cache H') (project_id, host) = Some ?e"
    using hosts_after_set [OF assms(2,3)] assms(4,7) by simp
  have d: "file_doc (map_of (h_files H') project_id) =
      Some [(''hosts'', JObj (dset [] host (host_file_entry isofmt ?e)))]"
    using assms(2-4,6) unfolding assms(7)
    by (simp add: set_host_check_status_def Let_def py_or_def update_conv')
  have "load_host_entry parse ttl' now' (map_of (h_files H') project_id) host = Some ?e"
    unfolding load_host_entry_def d
    by (simp add: py_or_def dset_def host_file_entry_def parse_stamp_iso [OF assms(1)])
  with c assms(8) show ?thesis
    using assms(2,3,5) by (auto simp: get_host_check_status_def)
qed

lemma host_status_survives_restart_witness:
  "fst (get_host_check_status (\<lambda>t. if t = 1 then ''a'' else ''b'')
          (\<lambda>s. if s = ''a+00:00'' then Some 1 else Some 301) 60 100 ''p'' ''h''
          ((set_host_check_status (\<lambda>t. if t = 1 then ''a'' else ''b'') 300 True 1 ''p'' ''h'' (JStr ''online'')
              \<lparr>h_cache = [], h_files = []\<rparr>)\<lparr>h_cache := []\<rparr>))
     = Some \<lparr>hr_status = JStr ''online'', hr_checked = ''aZ'', hr_expires = ''bZ'', hr_expired = False\<rparr>"
  using host_status_survives_restart
    [of "\<lambda>t. if t = 1 then ''a'' else ''b''" "\<lambda>s. if s = ''a+00:00'' then Some 1 else Some 301" 1 300
        "''p''" "''h''" "\<lparr>h_cache = [], h_files = []\<rparr>" _ "JStr ''online''" _ 60 100]
  by (simp add: clock_def)

end
