(* ===== verification/Routes.thy ===== *)
theory Routes
  imports Recovery HostStatus
begin

section \<open>The HTTP handlers of executions and workers\<close>

text \<open>
  \<^verbatim>\<open>server/api/executions_routes.py\<close> and \<^verbatim>\<open>server/api/worker_routes.py\<close>. A handler maps
  the server's state to an HTTP status code and the next state; the bodies that matter to a
  worker are returned too. Everything a call takes from its surroundings is in \<open>environment\<close>:
  the clock, the hash function, the outcome of file writes, the file system. A request body is
  a JSON object; a project id in it that is no string counts as none.
\<close>

record environment =
  e_now :: real
  e_sha :: "string \<Rightarrow> string"
  e_str :: "json \<Rightarrow> string"
  e_io :: write_outcome
  e_fs :: file_system
  e_busy :: "string \<Rightarrow> string \<Rightarrow> bool"
  e_interval :: real
  e_iso :: "real \<Rightarrow> string"
  e_ttl :: int

record server =
  sv_store :: store
  sv_reg :: registry
  sv_scan :: scan_times
  sv_rate :: "(string \<times> real) list"        \<comment> \<open>\<open>_claim_rate_limits\<close>\<close>
  sv_hosts :: host_state

subsection \<open>Cancel and stop\<close>

definition locked_update ::
  "real \<Rightarrow> string \<Rightarrow> string \<Rightarrow> (json \<Rightarrow> (nat + (doc \<Rightarrow> doc))) \<Rightarrow> string \<Rightarrow> store \<Rightarrow> nat \<times> store" where
  \<comment> \<open>read the record under its lock, let the status decide between an answer and an edit,
     write it back and log\<close>
  "locked_update now p e decide text S =
    (case hist_file S p e of
       None \<Rightarrow> (404, S)
     | Some Corrupt \<Rightarrow> (409, S)
     | Some (Doc d) \<Rightarrow>
         (case decide (getd d ''status'' (JStr ''QUEUED'')) of
            Inl code \<Rightarrow> (code, S)
          | Inr edit \<Rightarrow>
              (200, snd (append_execution_log e text (Some p) (put_hist now p e (edit d) S)))))"

definition cancel_edit :: "real \<Rightarrow> json \<Rightarrow> nat + (doc \<Rightarrow> doc)" where
  "cancel_edit now current_status =
    (if current_status \<noteq> JStr ''QUEUED'' then Inl 409
     else if \<not> is_ok (validate_status_transition (JStr ''QUEUED'') (JStr ''CANCELED'')) then Inl 409
     else Inr (\<lambda>d. dset (dset (dset (dset d ''status'' (JStr ''CANCELED''))
                      ''canceledAt'' (JNum now)) ''cancelReason'' (JStr ''user''))
                      ''statusUpdatedAt'' (JNum now)))"

definition stop_edit :: "real \<Rightarrow> json \<Rightarrow> nat + (doc \<Rightarrow> doc)" where
  "stop_edit now current_status =
    (if current_status = JStr ''CANCELING'' then Inl 200
     else if current_status \<noteq> JStr ''RUNNING'' then Inl 409
     else if \<not> is_ok (validate_status_transition (JStr ''RUNNING'') (JStr ''CANCELING'')) then Inl 409
     else Inr (\<lambda>d. dset (dset (dset d ''status'' (JStr ''CANCELING''))
                      ''cancelRequestedAt'' (JNum now)) ''statusUpdatedAt'' (JNum now)))"

definition api_cancel_execution :: "real \<Rightarrow> string \<Rightarrow> string \<Rightarrow> store \<Rightarrow> nat \<times> store" where
  "api_cancel_execution now p e S =
    locked_update now p e (cancel_edit now) (''[api] Canceled by user'' @ [CHR 0x0A]) S"

definition api_stop_execution :: "real \<Rightarrow> string \<Rightarrow> string \<Rightarrow> store \<Rightarrow> nat \<times> store" where
  "api_stop_execution now p e S =
    locked_update now p e (stop_edit now) (''[api] Stop requested by user'' @ [CHR 0x0A]) S"

definition api_update_execution :: "real \<Rightarrow> string \<Rightarrow> doc \<Rightarrow> string option \<Rightarrow> store \<Rightarrow> nat \<times> store" where
  "api_update_execution now e data project_id S =
    (case update_execution_record now e data project_id S of
       (Inr True, S') \<Rightarrow> (200, S')
     | (_, S') \<Rightarrow> (500, S'))"

definition api_create_execution ::
  "bool \<Rightarrow> real \<Rightarrow> string \<Rightarrow> doc \<Rightarrow> string option \<Rightarrow> store \<Rightarrow> nat \<times> store" where
  \<comment> \<open>the setting that keeps a history, and the fresh uuid, are arguments\<close>
  "api_create_execution history_on now uuid data project_id S =
    (if project_id = None \<or> project_id = Some [] then (400, S)
     else if \<not> history_on then (400, S)
     else (case create_execution_record now uuid data project_id None S of
             (Inr e, S') \<Rightarrow> (if e \<noteq> [] then 200 else 500, S')
           | (Inl _, S') \<Rightarrow> (500, S')))"

subsection \<open>Authentication of a worker\<close>

definition with_worker ::
  "environment \<Rightarrow> string \<Rightarrow> (string \<Rightarrow> doc \<Rightarrow> server \<Rightarrow> nat \<times> server) \<Rightarrow> server \<Rightarrow> nat \<times> server" where
  "with_worker E token handler sv =
    (if token = [] then (401, sv)
     else
       (case verify_token (e_sha E) (e_now E) token (sv_reg sv) (index (sv_store sv)) of
          (r, R, ix) \<Rightarrow>
            (let sv' = sv\<lparr>sv_reg := R, sv_store := (sv_store sv)\<lparr>index := ix\<rparr>\<rparr>
             in case r of
                  Inl _ \<Rightarrow> (500, sv')
                | Inr None \<Rightarrow> (401, sv')
                | Inr (Some (w, d)) \<Rightarrow> handler w d sv')))"

definition beat :: "environment \<Rightarrow> string \<Rightarrow> json \<Rightarrow> server \<Rightarrow> server" where
  "beat E w current sv =
    sv\<lparr>sv_reg := snd (update_worker_heartbeat (e_io E) (e_now E) w (Some current) (sv_reg sv))\<rparr>"

definition api_worker_register ::
  "environment \<Rightarrow> string \<Rightarrow> string \<Rightarrow> string option \<Rightarrow> bool \<Rightarrow> string \<Rightarrow> string \<Rightarrow> string \<Rightarrow> doc \<Rightarrow> server
   \<Rightarrow> nat \<times> server" where
  \<comment> \<open>the configured secret, the one provided, the logged-in user, whether that user may
     create workers, the fresh uuid, token and salt, and the body\<close>
  "api_worker_register E reg_secret provided user allowed uuid token salt data sv =
    (if \<not> (reg_secret \<noteq> [] \<and> provided = reg_secret) \<and> (user = None \<or> user = Some []) then (401, sv)
     else if \<not> (reg_secret \<noteq> [] \<and> provided = reg_secret) \<and> \<not> allowed then (403, sv)
     else if \<not> truthy (getd data ''name'' (JStr [])) then (400, sv)
     else (case create_worker (e_sha E) (e_io E) (e_now E) uuid token salt (dget data ''name'')
                  (getd data ''capabilities'' (JObj [])) (getd data ''tags'' (JArr []))
                  (sv_reg sv) (index (sv_store sv)) of
             (r, R, ix) \<Rightarrow> (if is_ok r then 200 else 500,
                            sv\<lparr>sv_reg := R, sv_store := (sv_store sv)\<lparr>index := ix\<rparr>\<rparr>)))"

subsection \<open>Claim\<close>

definition CLAIM_RATE_LIMIT_SECONDS :: real where "CLAIM_RATE_LIMIT_SECONDS = 1"

definition api_worker_claim :: "environment \<Rightarrow> string \<Rightarrow> doc \<Rightarrow> server \<Rightarrow> nat \<times> server" where
  "api_worker_claim E token data =
    with_worker E token (\<lambda>w worker_data sv.
      let sv = beat E w JNull sv;
          last_claim = (case map_of (sv_rate sv) w of None \<Rightarrow> 0 | Some t \<Rightarrow> t)
      in if e_now E - last_claim < CLAIM_RATE_LIMIT_SECONDS then (429, sv)
         else
           (let sv = sv\<lparr>sv_rate := AList.update w (e_now E) (sv_rate sv)\<rparr>
            in case server_claim_next_execution (e_str E) (e_busy E) (e_fs E) (e_interval E) (e_now E)
                      \<lparr>cl_id = w, cl_data = worker_data, cl_tags = dget data ''tags''\<rparr>
                      (case dget data ''projectId'' of JStr p \<Rightarrow> p | _ \<Rightarrow> [])
                      (getd data ''maxConcurrency'' (JNum 1))
                      (sv_reg sv) (sv_store sv) (sv_scan sv) of
                 (None, S, tm) \<Rightarrow> (204, sv\<lparr>sv_store := S, sv_scan := tm\<rparr>)
               | (Some (e, d, p), S, tm) \<Rightarrow>
                   (if e = [] then (204, sv\<lparr>sv_store := S, sv_scan := tm\<rparr>)
                    else (200, beat E w (JStr e) (sv\<lparr>sv_store := S, sv_scan := tm\<rparr>)))))"

subsection \<open>Log lines from a worker\<close>

definition api_worker_execution_log :: "environment \<Rightarrow> string \<Rightarrow> string \<Rightarrow> doc \<Rightarrow> server \<Rightarrow> nat \<times> server" where
  "api_worker_execution_log E token e data =
    with_worker E token (\<lambda>w worker_data sv.
      if \<not> truthy (getd data ''text'' (JStr [])) then (400, sv)
      else (case get_execution e None (sv_store sv) of
              None \<Rightarrow> (404, sv)
            | Some d \<Rightarrow>
                if d = [] then (404, sv)
                else if \<not> truthy (dget d ''projectId'') then (400, sv)
                else if dget d ''workerId'' \<noteq> JStr w then (403, sv)
                else (case dget data ''text'' of
                        JStr text \<Rightarrow>
                          (200, sv\<lparr>sv_store := snd (append_execution_log e text
                             (Some (as_text (e_str E) (dget d ''projectId''))) (sv_store sv))\<rparr>)
                      | _ \<Rightarrow> (200, sv))))"

subsection \<open>The end of an execution\<close>

definition finish_updates :: "real \<Rightarrow> doc \<Rightarrow> doc" where
  "finish_updates now data =
    (let u = [(''status'', dget data ''status''), (''finishedAt'', getd data ''finishedAt'' (JNum now))];
         u = (if dget data ''duration'' \<noteq> JNull then dset u ''duration'' (dget data ''duration'') else u);
         u = (if dget data ''returnCode'' \<noteq> JNull then dset u ''returnCode'' (dget data ''returnCode'') else u);
         u = (if truthy (dget data ''error'') then dset u ''error'' (dget data ''error'') else u)
     in if truthy (dget data ''result'') then dset u ''result'' (dget data ''result'') else u)"

definition per_host_status :: "(json \<Rightarrow> string) \<Rightarrow> doc \<Rightarrow> json \<Rightarrow> json \<Rightarrow> (string \<times> json) list option" where
  \<comment> \<open>which hosts a finished host check reports, and how; \<open>None\<close> when reading the list raises\<close>
  "per_host_status py_str run_params result status =
    (let ok = (status = JStr ''SUCCESS'');
         reported = (case result of
                       JObj r \<Rightarrow> (case dget r ''hosts'' of JObj h \<Rightarrow> h | _ \<Rightarrow> [])
                     | _ \<Rightarrow> []);
         hosts_list = py_or (dget run_params ''hosts'') (JArr []);
         host_name = py_or (dget run_params ''host'') (dget run_params ''limit_host'');
         single = (if \<not> truthy host_name then []
                   else (case (ok, result) of
                           (True, JObj r) \<Rightarrow>
                             [(as_text py_str host_name,
                               JStr (if truthy (dget r ''available'') then ''online'' else ''offline''))]
                         | (True, _) \<Rightarrow> []
                         | (False, _) \<Rightarrow> [(as_text py_str host_name, JStr ''offline'')]))
     in if reported \<noteq> [] then Some reported
        else if truthy hosts_list then
          (case set_of hosts_list of
             Inl _ \<Rightarrow> None
           | Inr hs \<Rightarrow>
               Some (map (\<lambda>h. (as_text py_str h, JStr (if ok then ''online'' else ''offline''))) hs))
        else Some single)"

definition note_host :: "environment \<Rightarrow> string \<Rightarrow> string \<times> json \<Rightarrow> host_state \<Rightarrow> host_state" where
  "note_host E p = (\<lambda>(host, status) H.
    (if host \<noteq> [] \<and> status \<in> {JStr ''online'', JStr ''offline'', JStr ''unknown''}
     then set_host_check_status (e_iso E) (e_ttl E) (e_io E = WOk) (e_now E) p host status H
     else H))"

definition note_host_check :: "environment \<Rightarrow> string \<Rightarrow> doc \<Rightarrow> doc \<Rightarrow> host_state \<Rightarrow> host_state" where
  \<comment> \<open>an exception anywhere in it is logged and the request goes on\<close>
  "note_host_check E p d data H =
    (case py_or (getd d ''runParams'' (JObj [])) (JObj []) of
       JObj run_params \<Rightarrow>
         if dget run_params ''execution_type'' \<noteq> JStr ''HOST_CHECK'' then H
         else (case per_host_status (e_str E) run_params (dget data ''result'') (dget data ''status'') of
                 None \<Rightarrow> H
               | Some hs \<Rightarrow> fold (note_host E p) hs H)
     | _ \<Rightarrow> H)"

definition clean_generated :: "string \<Rightarrow> string \<Rightarrow> store \<Rightarrow> store" where
  "clean_generated p e S =
    (if map_of (projects S) p = None then S
     else set_pdir p (cleanup_generated_playbooks e (pdir_of S p)) S)"

definition api_worker_execution_finish ::
  "environment \<Rightarrow> string \<Rightarrow> string \<Rightarrow> doc \<Rightarrow> server \<Rightarrow> nat \<times> server" where
  "api_worker_execution_finish E token e data =
    with_worker E token (\<lambda>w worker_data sv.
      if dget data ''status'' \<notin> {JStr ''SUCCESS'', JStr ''FAILED'', JStr ''CANCELED''} then (400, sv)
      else (case get_execution e None (sv_store sv) of
              None \<Rightarrow> (404, sv)
            | Some d \<Rightarrow>
                if d = [] then (404, sv)
                else if \<not> truthy (dget d ''projectId'') then (400, sv)
                else if truthy (dget d ''workerId'') \<and> dget d ''workerId'' \<noteq> JStr w then (403, sv)
                else
                  (let p = as_text (e_str E) (dget d ''projectId'');
                       sv = sv\<lparr>sv_hosts := note_host_check E p d data (sv_hosts sv)\<rparr>
                   in case update_execution_record (e_now E) e (finish_updates (e_now E) data)
                             (Some p) (sv_store sv) of
                        (Inl _, S) \<Rightarrow> (500, sv\<lparr>sv_store := S\<rparr>)
                      | (Inr _, S) \<Rightarrow>
                          (200, beat E w JNull (sv\<lparr>sv_store := clean_generated p e S\<rparr>)))))"

subsection \<open>Heartbeat and system information\<close>

definition api_worker_heartbeat :: "environment \<Rightarrow> string \<Rightarrow> doc \<Rightarrow> server \<Rightarrow> nat \<times> server" where
  "api_worker_heartbeat E token data =
    with_worker E token (\<lambda>w worker_data sv.
      let sv = beat E w (dget data ''currentExecutionId'') sv
      in case found_worker w (sv_reg sv) of
           None \<Rightarrow> (200, sv)
         | Some d \<Rightarrow>
             if truthy (getd d ''systemInfoRequested'' (JBool False))
             then (200, sv\<lparr>sv_reg := snd (save_worker (e_io E)
                             (dset d ''systemInfoRequested'' (JBool False)) (sv_reg sv))\<rparr>)
             else (200, sv))"

definition api_worker_system_info :: "environment \<Rightarrow> string \<Rightarrow> doc \<Rightarrow> server \<Rightarrow> nat \<times> server" where
  "api_worker_system_info E token data =
    with_worker E token (\<lambda>w worker_data sv.
      if \<not> truthy (dget data ''systemInfo'') then (400, sv)
      else (case found_worker w (sv_reg sv) of
              None \<Rightarrow> (404, sv)
            | Some d \<Rightarrow>
                (let d = dset d ''systemInfo'' (dget data ''systemInfo'');
                     d = dset d ''systemInfoUpdatedAt'' (JNum (e_now E));
                     (ok, R) = save_worker (e_io E) d (sv_reg sv)
                 in (if ok then 204 else 500, sv\<lparr>sv_reg := R\<rparr>))))"

end
