(* ===== verification/WorkerRegistryProps.thy ===== *)
theory WorkerRegistryProps
  imports WorkerRegistry
begin

section \<open>Properties of the worker registry\<close>

text \<open>
  The token index and the token cache are copies of what the worker records say.
  \<open>token_inv\<close> states that they agree with the records; every operation keeps it, so in every
  reachable state a token is accepted for the worker whose current record holds its salted
  hash, and for no other. The heartbeat keeps a worker online although most of its writes
  are skipped.
\<close>

subsection \<open>What saving and updating leave behind\<close>

lemma load_save [simp]:
  "load_worker w (R\<lparr>wfiles := AList.update wid f (wfiles R)\<rparr>) =
     (if w = wid then file_doc (Some f) else load_worker w R)"
  by (simp add: load_worker_def)

lemma load_frame [simp]:
  "load_worker w (R\<lparr>token_cache := tc\<rparr>) = load_worker w R"
  "load_worker w (R\<lparr>beat_cache := bc\<rparr>) = load_worker w R"
  "load_worker w (purge_tokens wid R) = load_worker w R"
  "load_worker w (cache_token token wid now R) = load_worker w R"
  by (simp_all add: load_worker_def purge_tokens_def cache_token_def)

lemma found_frame [simp]:
  "found_worker w (R\<lparr>token_cache := tc\<rparr>) = found_worker w R"
  "found_worker w (R\<lparr>beat_cache := bc\<rparr>) = found_worker w R"
  "found_worker w (purge_tokens wid R) = found_worker w R"
  "found_worker w (cache_token token wid now R) = found_worker w R"
  by (simp_all add: found_worker_def)

lemma found_Some_iff:
  "found_worker w R = Some d \<longleftrightarrow> load_worker w R = Some d \<and> d \<noteq> []"
  by (auto simp: found_worker_def split: option.splits if_splits)

definition named_files :: "registry \<Rightarrow> bool" where
  \<comment> \<open>every readable record sits in the file named by its id\<close>
  "named_files R \<longleftrightarrow> distinct (map fst (wfiles R)) \<and> load_worker [] R = None \<and>
     (\<forall>w d. load_worker w R = Some d \<longrightarrow> dget d ''id'' = JStr w)"

lemma named_found:
  "named_files R \<Longrightarrow> found_worker w R = Some d \<Longrightarrow> dget d ''id'' = JStr w \<and> w \<noteq> []"
  by (auto simp: named_files_def found_Some_iff)

lemma save_worker_cases:
  assumes "save_worker io d R = (ok, R')" "dget d ''id'' = JStr w" "w \<noteq> []"
  shows "ok \<and> R' = R\<lparr>wfiles := AList.update w (Doc d) (wfiles R)\<rparr> \<or>
         \<not> ok \<and> R' = R \<or> \<not> ok \<and> R' = R\<lparr>wfiles := AList.update w Corrupt (wfiles R)\<rparr>"
  using assms by (auto simp: save_worker_def split: write_outcome.splits)

lemma named_files_save:
  assumes "named_files R" "dget d ''id'' = JStr w" "w \<noteq> []" "save_worker io d R = (ok, R')"
  shows "named_files R'"
  using save_worker_cases [OF assms(4,2,3)] assms(1-3)
  by (auto simp: named_files_def distinct_update split: if_splits)

lemma save_worker_ok:
  "dget d ''id'' = JStr w \<Longrightarrow> w \<noteq> [] \<Longrightarrow>
   save_worker WOk d R = (True, R\<lparr>wfiles := AList.update w (Doc d) (wfiles R)\<rparr>)"
  by (simp add: save_worker_def)

subsection \<open>Agreement of index, cache and records\<close>

definition credential :: "(string \<Rightarrow> string) \<Rightarrow> doc \<Rightarrow> string \<Rightarrow> bool" where
  "credential sha d token =
    (case (dget d ''tokenHash'', dget d ''tokenSalt'') of
       (JStr h, JStr salt) \<Rightarrow> h = hash_token sha token salt
     | _ \<Rightarrow> False)"

definition row_agrees :: "registry \<Rightarrow> string \<times> string \<times> string \<Rightarrow> bool" where
  "row_agrees R = (\<lambda>(wid, salt, th). \<forall>d. found_worker wid R = Some d \<longrightarrow>
      dget d ''tokenHash'' = JStr th \<and> dget d ''tokenSalt'' = JStr salt)"

definition entry_agrees :: "(string \<Rightarrow> string) \<Rightarrow> registry \<Rightarrow> string \<times> (string \<times> real) \<Rightarrow> bool" where
  "entry_agrees sha R = (\<lambda>(token, wid, ex). \<forall>d. found_worker wid R = Some d \<longrightarrow> credential sha d token)"

definition token_inv :: "(string \<Rightarrow> string) \<Rightarrow> registry \<Rightarrow> index_db \<Rightarrow> bool" where
  "token_inv sha R ix \<longleftrightarrow> named_files R \<and>
     (\<forall>row\<in>set (all_worker_salts ix). row_agrees R row) \<and>
     (\<forall>x\<in>set (token_cache R). entry_agrees sha R x)"

lemma token_inv_named: "token_inv sha R ix \<Longrightarrow> named_files R"
  by (simp add: token_inv_def)

lemma agrees_mono:
  assumes "\<And>d'. found_worker w R' = Some d' \<Longrightarrow>
     \<exists>d. found_worker w R = Some d \<and> dget d' ''tokenHash'' = dget d ''tokenHash'' \<and>
         dget d' ''tokenSalt'' = dget d ''tokenSalt''"
  shows "row_agrees R (w, s, h) \<Longrightarrow> row_agrees R' (w, s, h)"
    and "entry_agrees sha R (t, w, ex) \<Longrightarrow> entry_agrees sha R' (t, w, ex)"
proof -
  { fix d' assume d': "found_worker w R' = Some d'"
    obtain d where d: "found_worker w R = Some d" "dget d' ''tokenHash'' = dget d ''tokenHash''"
        "dget d' ''tokenSalt'' = dget d ''tokenSalt''"
      using assms [OF d'] by blast
    have "row_agrees R (w, s, h) \<Longrightarrow> dget d' ''tokenHash'' = JStr h \<and> dget d' ''tokenSalt'' = JStr s"
      using d by (simp add: row_agrees_def)
    moreover have "entry_agrees sha R (t, w, ex) \<Longrightarrow> credential sha d' t"
      using d by (simp add: entry_agrees_def credential_def)
    ultimately have "row_agrees R (w, s, h) \<Longrightarrow> dget d' ''tokenHash'' = JStr h \<and> dget d' ''tokenSalt'' = JStr s"
        "entry_agrees sha R (t, w, ex) \<Longrightarrow> credential sha d' t" by blast+ }
  then show "row_agrees R (w, s, h) \<Longrightarrow> row_agrees R' (w, s, h)"
      "entry_agrees sha R (t, w, ex) \<Longrightarrow> entry_agrees sha R' (t, w, ex)"
    by (simp_all add: row_agrees_def [of R'] entry_agrees_def [of sha R'])
qed

lemma token_inv_mono:
  assumes "token_inv sha R ix" "named_files R'" "set (token_cache R') \<subseteq> set (token_cache R)"
    "\<And>w d'. found_worker w R' = Some d' \<Longrightarrow>
     \<exists>d. found_worker w R = Some d \<and> dget d' ''tokenHash'' = dget d ''tokenHash'' \<and>
         dget d' ''tokenSalt'' = dget d ''tokenSalt''"
  shows "token_inv sha R' ix"
proof -
  have "row_agrees R' row" if "row \<in> set (all_worker_salts ix)" for row
    using assms(1) that agrees_mono(1) [OF assms(4)]
    by (cases row) (auto simp: token_inv_def)
  moreover have "entry_agrees sha R' x" if "x \<in> set (token_cache R')" for x
    using assms(1,3) that agrees_mono(2) [OF assms(4)]
    by (cases x) (auto simp: token_inv_def)
  ultimately show ?thesis using assms(2) by (simp add: token_inv_def)
qed

lemma token_inv_save_same:
  assumes inv: "token_inv sha R ix" and f: "found_worker w R = Some d"
    and same: "dget d' ''id'' = dget d ''id''" "dget d' ''tokenHash'' = dget d ''tokenHash''"
      "dget d' ''tokenSalt'' = dget d ''tokenSalt''"
    and s: "save_worker io d' R = (ok, R')"
  shows "token_inv sha R' ix"
proof -
  have id: "dget d' ''id'' = JStr w" "w \<noteq> []"
    using named_found [OF token_inv_named [OF inv] f] same(1) by simp_all
  show ?thesis
  proof (rule token_inv_mono [OF inv])
    show "named_files R'" using named_files_save [OF token_inv_named [OF inv] id s] .
    show "set (token_cache R') \<subseteq> set (token_cache R)"
      using save_worker_cases [OF s id] by auto
    fix w' x assume "found_worker w' R' = Some x"
    then show "\<exists>d. found_worker w' R = Some d \<and> dget x ''tokenHash'' = dget d ''tokenHash'' \<and>
        dget x ''tokenSalt'' = dget d ''tokenSalt''"
      using save_worker_cases [OF s id] f same
      by (auto simp: found_Some_iff split: if_splits)
  qed
qed

lemma token_inv_beat [simp]: "token_inv sha (R\<lparr>beat_cache := bc\<rparr>) ix = token_inv sha R ix"
  by (simp add: token_inv_def named_files_def row_agrees_def entry_agrees_def)

subsection \<open>The updates keep the agreement\<close>

lemma inv_heartbeat:
  assumes "token_inv sha R ix" "update_worker_heartbeat io now w cur R = (ok, R')"
  shows "token_inv sha R' ix"
proof (cases "found_worker w R")
  case None
  then show ?thesis using assms by (simp add: update_worker_heartbeat_def)
next
  case (Some d)
  let ?d = "case cur of None \<Rightarrow> dset d ''lastSeenAt'' (JNum now)
            | Some c \<Rightarrow> dset (dset d ''lastSeenAt'' (JNum now)) ''currentExecutionId'' c"
  obtain ok' R'' where s: "save_worker io ?d R = (ok', R'')" by fastforce
  have "token_inv sha R'' ix"
    by (rule token_inv_save_same [OF assms(1) Some _ _ _ s]) (auto split: option.split)
  then show ?thesis
    using assms Some s by (auto simp: update_worker_heartbeat_def Let_def split: if_splits)
qed

lemma inv_enabled:
  assumes "token_inv sha R ix"
  shows "token_inv sha (snd (enable_worker io w R)) ix" "token_inv sha (snd (disable_worker io w R)) ix"
proof -
  have "token_inv sha (snd (save_worker io (dset d ''enabled'' b) R)) ix"
    if "found_worker w R = Some d" for d b
    by (rule token_inv_save_same [OF assms that, where ok = "fst (save_worker io (dset d ''enabled'' b) R)"])
      simp_all
  then show "token_inv sha (snd (enable_worker io w R)) ix" "token_inv sha (snd (disable_worker io w R)) ix"
    using assms by (simp_all add: enable_worker_def disable_worker_def split: option.split)
qed

lemma inv_update:
  assumes "token_inv sha R ix" "update_worker io now w n de t c R = (r, R')"
  shows "token_inv sha R' ix"
proof (cases "found_worker w R")
  case None
  then show ?thesis using assms by (simp add: update_worker_def)
next
  case (Some d)
  have mc: "merge_colors c x = Inr y \<Longrightarrow> k \<noteq> ''tagColors'' \<Longrightarrow> dget y k = dget x k" for x y k
    by (auto simp: merge_colors_def Let_def split: option.splits json.splits)
  let ?d = "(let d = (case n of Some n \<Rightarrow> dset d ''name'' (JStr (strip n)) | None \<Rightarrow> d);
              d = (case de of
                     Some s \<Rightarrow> if strip s \<noteq> [] then dset d ''description'' (JStr (strip s))
                               else dpop d ''description''
                   | None \<Rightarrow> d)
            in (case t of Some t \<Rightarrow> dset d ''tags'' t | None \<Rightarrow> d))"
  have keys: "dget ?d k = dget d k" if "k \<noteq> ''name''" "k \<noteq> ''description''" "k \<noteq> ''tags''" for k
    using that by (auto simp: Let_def split: option.split)
  show ?thesis
  proof (cases "merge_colors c ?d")
    case (Inl err)
    then show ?thesis using assms Some by (simp add: update_worker_def Let_def)
  next
    case (Inr y)
    obtain ok R'' where s: "save_worker io (dset y ''updatedAt'' (JNum now)) R = (ok, R'')" by fastforce
    have "token_inv sha R'' ix"
      by (rule token_inv_save_same [OF assms(1) Some _ _ _ s]) (simp_all add: mc [OF Inr] keys)
    moreover have "R' = R''"
      using assms(2) Some Inr s by (simp add: update_worker_def Let_def)
    ultimately show ?thesis by simp
  qed
qed


subsection \<open>Creation, deletion and rotation\<close>

lemma in_all_worker_salts:
  "(w, s, h) \<in> set (all_worker_salts ix) \<longleftrightarrow> ix_open ix \<and> (h, w, s) \<in> set (worker_tokens ix)"
  by (force simp: all_worker_salts_def)

lemma all_worker_salts_upsert:
  assumes "w \<noteq> []" "h \<noteq> []" "s \<noteq> []"
  shows "set (all_worker_salts (upsert_worker_token w h s ix)) \<subseteq>
     insert (w, s, h) {(w', s', h') \<in> set (all_worker_salts ix). w' \<noteq> w}"
  using assms
  by (auto simp: in_all_worker_salts) (auto simp: upsert_worker_token_def set_tput split: if_splits)

lemma all_worker_salts_remove:
  "w \<noteq> [] \<Longrightarrow> set (all_worker_salts (remove_worker_token w ix)) =
     {(w', s', h') \<in> set (all_worker_salts ix). w' \<noteq> w}"
  by (auto simp: in_all_worker_salts) (auto simp: remove_worker_token_def split: if_splits)

lemma wfiles_purge [simp]: "wfiles (purge_tokens w R) = wfiles R"
  by (simp add: purge_tokens_def)

lemma purge_cache:
  "set (token_cache (purge_tokens w R)) = {(k, v) \<in> set (token_cache R). fst v \<noteq> w}"
  by (auto simp: purge_tokens_def)

text \<open>Writing a new credential for a worker, with its row replaced and its cache entries gone.\<close>

lemma token_inv_new_credential:
  assumes inv: "token_inv sha R ix" and d: "dget d ''id'' = JStr w" "w \<noteq> []" "salt \<noteq> []"
      "hash_token sha token salt \<noteq> []"
      "dget d ''tokenHash'' = JStr (hash_token sha token salt)" "dget d ''tokenSalt'' = JStr salt"
    and R': "wfiles R' = AList.update w (Doc d) (wfiles R)"
    and c: "set (token_cache R') \<subseteq> {(k, v) \<in> set (token_cache R). fst v \<noteq> w}"
  shows "token_inv sha R' (upsert_worker_token w (hash_token sha token salt) salt ix)"
proof -
  have other: "found_worker w' R' = found_worker w' R" if "w' \<noteq> w" for w'
    using that R' by (simp add: found_worker_def load_worker_def)
  have self: "found_worker w R' = (if d = [] then None else Some d)"
    using R' by (simp add: found_worker_def load_worker_def)
  have "named_files R'"
    using inv d R' by (auto simp: token_inv_def named_files_def load_worker_def distinct_update)
  moreover have "row_agrees R' row"
    if "row \<in> set (all_worker_salts (upsert_worker_token w (hash_token sha token salt) salt ix))" for row
  proof -
    have "row = (w, salt, hash_token sha token salt) \<or> row \<in> set (all_worker_salts ix) \<and> fst row \<noteq> w"
      using that all_worker_salts_upsert [OF d(2,4,3), of ix] by auto
    then show ?thesis
    proof
      assume "row = (w, salt, hash_token sha token salt)"
      then show ?thesis using self d by (simp add: row_agrees_def)
    next
      assume *: "row \<in> set (all_worker_salts ix) \<and> fst row \<noteq> w"
      then have "row_agrees R row" using inv by (simp add: token_inv_def)
      with * show ?thesis by (cases row) (simp add: row_agrees_def other)
    qed
  qed
  moreover have "entry_agrees sha R' x" if "x \<in> set (token_cache R')" for x
  proof -
    obtain t v ex where x: "x = (t, v, ex)" by (cases x)
    have *: "x \<in> set (token_cache R)" "v \<noteq> w" using that c x by auto
    then have "entry_agrees sha R x" using inv by (simp add: token_inv_def)
    with *(2) show ?thesis by (simp add: x entry_agrees_def other)
  qed
  ultimately show ?thesis by (simp add: token_inv_def)
qed

lemma token_inv_torn:
  assumes "token_inv sha R ix" "w \<noteq> []" "wfiles R' = AList.update w Corrupt (wfiles R)"
    "token_cache R' = token_cache R"
  shows "token_inv sha R' ix"
proof (rule token_inv_mono [OF assms(1)])
  show "named_files R'"
    using assms by (auto simp: token_inv_def named_files_def load_worker_def distinct_update)
  fix w' d' assume "found_worker w' R' = Some d'"
  then have "found_worker w' R = Some d'"
    using assms(3) by (auto simp: found_Some_iff load_worker_def split: if_splits)
  then show "\<exists>d. found_worker w' R = Some d \<and> dget d' ''tokenHash'' = dget d ''tokenHash'' \<and>
      dget d' ''tokenSalt'' = dget d ''tokenSalt''" by blast
qed (simp add: assms(4))

definition fresh_worker :: "string \<Rightarrow> registry \<Rightarrow> bool" where
  \<comment> \<open>a new uuid: no cache entry names it (a row of it would be replaced)\<close>
  "fresh_worker w R \<longleftrightarrow> w \<noteq> [] \<and> (\<forall>x\<in>set (token_cache R). fst (snd x) \<noteq> w)"

definition good_hash :: "(string \<Rightarrow> string) \<Rightarrow> bool" where
  \<comment> \<open>a digest is never empty\<close>
  "good_hash sha \<longleftrightarrow> (\<forall>x. sha x \<noteq> [])"

lemma good_hash_token [simp]: "good_hash sha \<Longrightarrow> hash_token sha t s \<noteq> []"
  by (simp add: good_hash_def hash_token_def)

lemma inv_create:
  assumes inv: "token_inv sha R ix" and "good_hash sha" "fresh_worker w R" "salt \<noteq> []"
    and c: "create_worker sha io now w token salt name ca tg R ix = (r, R', ix')"
  shows "token_inv sha R' ix'"
proof -
  let ?d = "new_worker sha now w token salt name ca tg"
  have w: "w \<noteq> []" using assms(3) by (simp add: fresh_worker_def)
  have d: "dget ?d ''id'' = JStr w" "dget ?d ''tokenHash'' = JStr (hash_token sha token salt)"
      "dget ?d ''tokenSalt'' = JStr salt" by (simp_all add: new_worker_def)
  obtain ok R'' where s: "save_worker io ?d R = (ok, R'')" by fastforce
  show ?thesis
  proof (cases ok)
    case True
    then have "R'' = R\<lparr>wfiles := AList.update w (Doc ?d) (wfiles R)\<rparr>"
      using save_worker_cases [OF s d(1) w] by blast
    moreover have "(r, R', ix') = (Inr (w, token), R'', upsert_worker_token w (hash_token sha token salt) salt ix)"
      using c s True by (simp add: create_worker_def)
    moreover have "set (token_cache R) \<subseteq> {(k, v) \<in> set (token_cache R). fst v \<noteq> w}"
      using assms(3) by (auto simp: fresh_worker_def)
    ultimately show ?thesis
      using assms(2,4) d w by (auto intro!: token_inv_new_credential [OF inv])
  next
    case False
    then have "R'' = R \<or> R'' = R\<lparr>wfiles := AList.update w Corrupt (wfiles R)\<rparr>"
      using save_worker_cases [OF s d(1) w] by blast
    moreover have "R' = R''" "ix' = ix" using c s False by (simp_all add: create_worker_def)
    ultimately show ?thesis using inv token_inv_torn [OF inv w] by auto
  qed
qed

lemma inv_rotate:
  assumes inv: "token_inv sha R ix" and "good_hash sha" "salt \<noteq> []"
    and c: "rotate_worker_token sha io now token salt w R ix = (r, R', ix')"
  shows "token_inv sha R' ix'"
proof (cases "found_worker w R")
  case None
  then show ?thesis using assms by (simp add: rotate_worker_token_def)
next
  case (Some d)
  let ?h = "hash_token sha token salt"
  let ?d = "dset (dset (dset d ''tokenHash'' (JStr ?h)) ''tokenSalt'' (JStr salt)) ''lastTokenRotatedAt'' (JNum now)"
  have w: "dget d ''id'' = JStr w" "w \<noteq> []" using named_found [OF token_inv_named [OF inv] Some] by simp_all
  have d: "dget ?d ''id'' = JStr w" "dget ?d ''tokenHash'' = JStr ?h" "dget ?d ''tokenSalt'' = JStr salt"
    using w by simp_all
  obtain ok R'' where s: "save_worker io ?d R = (ok, R'')" by fastforce
  show ?thesis
  proof (cases ok)
    case True
    then have R'': "R'' = R\<lparr>wfiles := AList.update w (Doc ?d) (wfiles R)\<rparr>"
      using save_worker_cases [OF s d(1) w(2)] by blast
    have e: "R' = purge_tokens w R''" "ix' = upsert_worker_token w ?h salt ix"
      using c s True Some by (simp_all add: rotate_worker_token_def Let_def)
    have "wfiles R' = AList.update w (Doc ?d) (wfiles R)" using e R'' by (simp add: purge_tokens_def)
    moreover have "set (token_cache R') \<subseteq> {(k, v) \<in> set (token_cache R). fst v \<noteq> w}"
      using e(1) R'' by (auto simp: purge_tokens_def)
    ultimately show ?thesis
      unfolding e(2) using assms(2,3) d w(2) by (intro token_inv_new_credential [OF inv]) simp_all
  next
    case False
    then have "R'' = R \<or> R'' = R\<lparr>wfiles := AList.update w Corrupt (wfiles R)\<rparr>"
      using save_worker_cases [OF s d(1) w(2)] by blast
    moreover have "R' = R''" "ix' = ix"
      using c s False Some by (simp_all add: rotate_worker_token_def Let_def)
    ultimately show ?thesis using inv token_inv_torn [OF inv w(2)] by auto
  qed
qed

lemma inv_delete:
  assumes inv: "token_inv sha R ix" and w: "w \<noteq> []" and c: "delete_worker u w R ix = (r, R', ix')"
  shows "token_inv sha R' ix'"
proof (cases "map_of (wfiles R) w = None \<or> \<not> u")
  case True
  then show ?thesis using c inv by (auto simp: delete_worker_def)
next
  case False
  let ?R = "R\<lparr>wfiles := AList.delete w (wfiles R)\<rparr>"
  have e: "R' = purge_tokens w ?R" "ix' = remove_worker_token w ix"
    using c False by (auto simp: delete_worker_def)
  have fw: "found_worker w' R' = (if w' = w then None else found_worker w' R)" for w'
    unfolding e(1) found_worker_def load_worker_def wfiles_purge by (simp add: delete_conv')
  have "named_files R'"
    using inv distinct_delete [of "wfiles R" w]
    by (auto simp: token_inv_def named_files_def load_worker_def e(1) purge_tokens_def delete_conv')
  moreover have "\<forall>row\<in>set (all_worker_salts ix'). row_agrees R' row"
    using inv w by (auto simp: e(2) all_worker_salts_remove token_inv_def row_agrees_def fw)
  moreover have "\<forall>x\<in>set (token_cache R'). entry_agrees sha R' x"
  proof
    fix x assume x: "x \<in> set (token_cache R')"
    obtain t v ex where e': "x = (t, v, ex)" by (cases x)
    have "x \<in> set (token_cache R)" "v \<noteq> w" using x e' by (auto simp: e(1) purge_cache)
    then show "entry_agrees sha R' x" using inv by (auto simp: token_inv_def e' entry_agrees_def fw)
  qed
  ultimately show ?thesis by (simp add: token_inv_def)
qed


subsection \<open>Verification of a token\<close>

lemma map_of_load_all_files:
  assumes "distinct (map fst fs)" "\<forall>(n, f)\<in>set fs. \<forall>d. f = Doc d \<longrightarrow> dget d ''id'' = JStr n \<and> n \<noteq> []"
  shows "map_of (load_all_files fs acc) w =
           (case file_doc (map_of fs w) of Some d \<Rightarrow> Some d | None \<Rightarrow> map_of acc w)"
  using assms
proof (induction fs arbitrary: acc)
  case Nil
  then show ?case by simp
next
  case (Cons x fs)
  obtain n f where x: "x = (n, f)" by (cases x)
  have "map_of fs n = None" using Cons.prems(1) x by (simp add: map_of_eq_None_iff)
  then show ?case using Cons x by (cases f) (auto simp: update_conv' split: option.split)
qed

lemma distinct_load_all_files: "distinct (map fst acc) \<Longrightarrow> distinct (map fst (load_all_files fs acc))"
  by (induction fs arbitrary: acc) (auto simp: distinct_update split: jfile.split option.split)

lemma map_of_load_all:
  assumes "named_files R"
  shows "map_of (load_all_workers R) w = found_worker w R"
proof -
  have "\<forall>(n, f)\<in>set (wfiles R). \<forall>d. f = Doc d \<longrightarrow> dget d ''id'' = JStr n \<and> n \<noteq> []"
  proof clarify
    fix n d assume "(n, Doc d) \<in> set (wfiles R)"
    then have "load_worker n R = Some d"
      using assms by (simp add: named_files_def load_worker_def)
    then show "dget d ''id'' = JStr n \<and> n \<noteq> []" using assms by (auto simp: named_files_def)
  qed
  then have m: "map_of (load_all_workers R) w = load_worker w R"
    using assms by (simp add: map_of_load_all_files load_all_workers_def load_worker_def
        named_files_def split: option.split)
  have "load_worker w R \<noteq> Some []"
  proof
    assume "load_worker w R = Some []"
    then have "dget [] ''id'' = JStr w" using assms unfolding named_files_def by blast
    then show False by simp
  qed
  then show ?thesis using m by (auto simp: found_worker_def split: option.split)
qed

lemma in_load_all:
  "named_files R \<Longrightarrow> (w, d) \<in> set (load_all_workers R) \<longleftrightarrow> found_worker w R = Some d"
  using map_of_load_all [of R w] distinct_load_all_files [of "[]" "wfiles R"]
    map_of_eq_Some_iff [of "load_all_workers R" w d]
  by (simp add: load_all_workers_def)

lemma verify_index_sound:
  "verify_index sha token R rows = Some (w, d) \<Longrightarrow>
   \<exists>salt. (w, salt, hash_token sha token salt) \<in> set rows \<and> found_worker w R = Some d \<and> enabled d"
  by (induction rows) (auto split: if_splits option.splits)

lemma verify_files_sound:
  "verify_files sha token ws = Inr (Some (w, d)) \<Longrightarrow>
   (w, d) \<in> set ws \<and> enabled d \<and> credential sha d token"
  by (induction ws) (auto simp: credential_def split: if_splits json.splits)

lemma verify_files_complete:
  assumes "(w, d) \<in> set ws" "enabled d" "credential sha d token" "good_hash sha"
    "\<forall>(w, d)\<in>set ws. \<exists>salt. dget d ''tokenSalt'' = JStr salt \<and> salt \<noteq> []"
  shows "\<exists>r. verify_files sha token ws = Inr (Some r)"
  using assms
proof (induction ws)
  case Nil
  then show ?case by simp
next
  case (Cons x ws)
  obtain w' d' where x: "x = (w', d')" by (cases x)
  obtain salt where salt: "dget d' ''tokenSalt'' = JStr salt" "salt \<noteq> []" using Cons.prems(5) x by auto
  show ?case
  proof (cases "enabled d' \<and> truthy (dget d' ''tokenHash'') \<and>
      JStr (hash_token sha token salt) = dget d' ''tokenHash''")
    case True
    then show ?thesis using salt by (simp add: x)
  next
    case False
    then have "d' \<noteq> d \<or> w' \<noteq> w"
      using Cons.prems(2,3) salt \<open>good_hash sha\<close> by (auto simp: credential_def split: json.splits)
    then have "(w, d) \<in> set ws" using Cons.prems(1) x by auto
    then obtain r where "verify_files sha token ws = Inr (Some r)"
      using Cons by auto
    then show ?thesis using False salt x by auto
  qed
qed

lemma verify_cached_cases:
  assumes "verify_cached token now R = (r, R1)"
  shows "(\<exists>w ex d. r = Some (w, d) \<and> (token, w, ex) \<in> set (token_cache R) \<and>
            found_worker w R = Some d \<and> enabled d \<and> R1 = R) \<or>
         r = None \<and> wfiles R1 = wfiles R \<and> set (token_cache R1) \<subseteq> set (token_cache R)"
proof (cases "map_of (token_cache R) token")
  case None
  then show ?thesis using assms by (simp add: verify_cached_def)
next
  case (Some v)
  obtain w ex where v: "v = (w, ex)" by (cases v)
  then have "(token, w, ex) \<in> set (token_cache R)" using Some by (simp add: map_of_SomeD)
  then show ?thesis using assms Some v
    by (auto simp: verify_cached_def AList.delete_eq split: option.splits if_splits)
qed

lemma found_same_files: "wfiles R1 = wfiles R \<Longrightarrow> found_worker w R1 = found_worker w R"
  by (simp add: found_worker_def load_worker_def)

lemma token_inv_fewer_entries:
  assumes "token_inv sha R ix" "wfiles R1 = wfiles R" "set (token_cache R1) \<subseteq> set (token_cache R)"
  shows "token_inv sha R1 ix"
proof (rule token_inv_mono [OF assms(1) _ assms(3)])
  show "named_files R1"
    using assms by (simp add: token_inv_def named_files_def load_worker_def)
qed (auto simp: found_same_files [OF assms(2)])

lemma token_inv_cache:
  assumes "token_inv sha R ix" "found_worker w R = Some d" "credential sha d token"
  shows "token_inv sha (cache_token token w now R) ix"
proof -
  have "set (token_cache (cache_token token w now R)) \<subseteq>
      insert (token, w, now + TOKEN_CACHE_TTL) (set (token_cache R))"
  proof -
    have "set (AList.update k v xs) \<subseteq> insert (k, v) (set xs)" for k v and xs :: "('a \<times> 'b) list"
      by (induction xs) auto
    then show ?thesis by (simp add: cache_token_def)
  qed
  note sub = this
  let ?R = "cache_token token w now R"
  have "wfiles ?R = wfiles R" by (simp add: cache_token_def)
  then have n: "named_files ?R"
    using assms(1) by (simp add: token_inv_def named_files_def load_worker_def)
  have r: "row_agrees ?R row = row_agrees R row" for row by (simp add: row_agrees_def)
  have e: "entry_agrees sha ?R x = entry_agrees sha R x" for x by (simp add: entry_agrees_def)
  have "entry_agrees sha R (token, w, now + TOKEN_CACHE_TTL)"
    using assms(2,3) by (simp add: entry_agrees_def)
  then have "\<forall>x\<in>set (token_cache ?R). entry_agrees sha R x"
    using sub assms(1) by (auto simp: token_inv_def)
  then show ?thesis using n assms(1) by (simp add: token_inv_def r e)
qed

lemma token_inv_row:
  assumes "token_inv sha R ix" "found_worker w R = Some d"
    "dget d ''tokenHash'' = JStr h" "dget d ''tokenSalt'' = JStr s"
  shows "token_inv sha R (upsert_worker_token w h s ix)"
proof -
  have "set (all_worker_salts (upsert_worker_token w h s ix)) \<subseteq> insert (w, s, h) (set (all_worker_salts ix))"
    by (auto simp: in_all_worker_salts) (auto simp: upsert_worker_token_def set_tput split: if_splits)
  moreover have "row_agrees R (w, s, h)" using assms by (simp add: row_agrees_def)
  ultimately show ?thesis using assms(1) unfolding token_inv_def by blast
qed

lemma row_credential:
  "token_inv sha R ix \<Longrightarrow> (w, s, hash_token sha t s) \<in> set (all_worker_salts ix) \<Longrightarrow>
   found_worker w R = Some d \<Longrightarrow> credential sha d t"
  by (fastforce simp: token_inv_def row_agrees_def credential_def)

lemma verify_token_sound:
  assumes inv: "token_inv sha R ix" and v: "verify_token sha now token R ix = (r, R', ix')"
  shows "token_inv sha R' ix' \<and>
         (\<forall>w d. r = Inr (Some (w, d)) \<longrightarrow> found_worker w R = Some d \<and> enabled d \<and> credential sha d token)"
proof (cases "token = []")
  case True
  then show ?thesis using assms by (auto simp: verify_token_def)
next
  case False
  obtain c R1 where c: "verify_cached token now R = (c, R1)" by fastforce
  show ?thesis
  proof (cases c)
    case (Some x)
    then obtain w ex d where x: "x = (w, d)" "(token, w, ex) \<in> set (token_cache R)"
        "found_worker w R = Some d" "enabled d" "R1 = R"
      using verify_cached_cases [OF c] by auto
    then have "credential sha d token" using inv by (fastforce simp: token_inv_def entry_agrees_def)
    then show ?thesis using v c Some x False inv by (auto simp: verify_token_def)
  next
    case None
    then have R1: "wfiles R1 = wfiles R" "set (token_cache R1) \<subseteq> set (token_cache R)"
      using verify_cached_cases [OF c] by auto
    note inv1 = token_inv_fewer_entries [OF inv R1] and fw = found_same_files [OF R1(1)]
    show ?thesis
    proof (cases "verify_index sha token R1 (all_worker_salts ix)")
      case (Some x)
      obtain w d where x: "x = (w, d)" by (cases x)
      then obtain s where s: "(w, s, hash_token sha token s) \<in> set (all_worker_salts ix)"
          "found_worker w R1 = Some d" "enabled d"
        using verify_index_sound Some by blast
      then have "credential sha d token" using row_credential [OF inv1] by blast
      then show ?thesis
        using v c None Some x False s token_inv_cache [OF inv1 s(2)] fw by (auto simp: verify_token_def)
    next
      case no_row: None
      show ?thesis
      proof (cases "verify_files sha token (load_all_workers R1)")
        case (Inl err)
        then show ?thesis using v c None no_row False inv1 by (auto simp: verify_token_def)
      next
        case (Inr y)
        show ?thesis
        proof (cases y)
          case y: None
          then show ?thesis using v c None no_row Inr False inv1 by (auto simp: verify_token_def)
        next
          case y: (Some z)
          obtain w d where z: "z = (w, d)" by (cases z)
          have d: "found_worker w R1 = Some d" "enabled d" "credential sha d token"
            using verify_files_sound [of sha token "load_all_workers R1" w d] Inr y z
              in_load_all [OF token_inv_named [OF inv1]] by auto
          then obtain h s where hs: "dget d ''tokenHash'' = JStr h" "dget d ''tokenSalt'' = JStr s"
            by (auto simp: credential_def split: json.splits)
          have "token_inv sha (cache_token token w now R1) (upsert_worker_token w h s ix)"
            using token_inv_row [OF token_inv_cache [OF inv1 d(1,3)], where w = w and d = d] d(1) hs by simp
          then show ?thesis
            using v c None no_row Inr y z False d hs fw by (auto simp: verify_token_def)
        qed
      qed
    qed
  qed
qed


definition string_salts :: "registry \<Rightarrow> bool" where
  "string_salts R \<longleftrightarrow> (\<forall>w d. found_worker w R = Some d \<longrightarrow>
      (\<exists>salt. dget d ''tokenSalt'' = JStr salt \<and> salt \<noteq> []))"

lemma verify_token_complete:
  assumes inv: "token_inv sha R ix" and "good_hash sha" "string_salts R" "token \<noteq> []"
    and d: "found_worker w R = Some d" "enabled d" "credential sha d token"
  shows "\<exists>r. fst (verify_token sha now token R ix) = Inr (Some r)"
proof -
  obtain c R1 where c: "verify_cached token now R = (c, R1)" by fastforce
  show ?thesis
  proof (cases c)
    case (Some x)
    then show ?thesis using c \<open>token \<noteq> []\<close> by (simp add: verify_token_def)
  next
    case None
    then have R1: "wfiles R1 = wfiles R" "set (token_cache R1) \<subseteq> set (token_cache R)"
      using verify_cached_cases [OF c] by auto
    note n1 = token_inv_named [OF token_inv_fewer_entries [OF inv R1]]
    note fw = found_same_files [OF R1(1)]
    have "(w, d) \<in> set (load_all_workers R1)" using d(1) in_load_all [OF n1] fw by simp
    moreover have "\<forall>(w, d)\<in>set (load_all_workers R1). \<exists>salt. dget d ''tokenSalt'' = JStr salt \<and> salt \<noteq> []"
      using \<open>string_salts R\<close> in_load_all [OF n1] fw by (auto simp: string_salts_def)
    ultimately obtain r where "verify_files sha token (load_all_workers R1) = Inr (Some r)"
      using verify_files_complete d(2,3) \<open>good_hash sha\<close> by blast
    then show ?thesis using c None \<open>token \<noteq> []\<close>
      by (cases r) (auto simp: verify_token_def split: option.split)
  qed
qed

text \<open>The registry authenticates: the records decide, whatever the index and the cache hold.\<close>

type_synonym auth_state = "(string \<Rightarrow> string) \<times> real \<times> registry \<times> index_db"

fun auth_good :: "auth_state \<Rightarrow> bool" where
  "auth_good (sha, now, R, ix) = (token_inv sha R ix \<and> good_hash sha \<and> string_salts R)"

fun auth_holds :: "auth_state \<Rightarrow> string \<Rightarrow> string \<Rightarrow> bool" where
  "auth_holds (sha, now, R, ix) w token =
    (token \<noteq> [] \<and> (\<exists>d. found_worker w R = Some d \<and> enabled d \<and> credential sha d token))"

fun auth_worker :: "auth_state \<Rightarrow> string \<Rightarrow> string option" where
  "auth_worker (sha, now, R, ix) token =
    (case fst (verify_token sha now token R ix) of
       Inr (Some (w, d)) \<Rightarrow> Some w
     | _ \<Rightarrow> None)"

interpretation wauth: authenticator auth_good auth_holds auth_worker
proof unfold_locales
  fix s :: auth_state and t :: string and i :: string
  obtain sha now R ix where s: "s = (sha, now, R, ix)" by (cases s)
  obtain r R' ix' where v: "verify_token sha now t R ix = (r, R', ix')" by (cases "verify_token sha now t R ix")
  { assume "auth_good s" "auth_worker s t = Some i"
    moreover then obtain d where "r = Inr (Some (i, d))"
      using s v by (auto split: sum.splits option.splits)
    moreover have "t \<noteq> []"
      using calculation(2) s by (auto simp: verify_token_def)
    ultimately show "auth_holds s i t"
      using verify_token_sound [OF _ v] s by auto }
  { assume "auth_good s" "auth_holds s i t"
    then obtain d where g: "token_inv sha R ix" "good_hash sha" "string_salts R" "t \<noteq> []"
        and d: "found_worker i R = Some d" "enabled d" "credential sha d t"
      using s by auto
    obtain r' where "fst (verify_token sha now t R ix) = Inr (Some r')"
      using verify_token_complete [OF g d] by blast
    then show "auth_worker s t \<noteq> None" using s by (cases r') simp }
qed

subsection \<open>Every reachable registry\<close>

inductive reg_step :: "(string \<Rightarrow> string) \<Rightarrow> registry \<times> index_db \<Rightarrow> registry \<times> index_db \<Rightarrow> bool"
  for sha :: "string \<Rightarrow> string" where
  create: "create_worker sha io now w token salt name ca tg R ix = (r, R', ix') \<Longrightarrow>
     fresh_worker w R \<Longrightarrow> salt \<noteq> [] \<Longrightarrow> reg_step sha (R, ix) (R', ix')"
| rotate: "rotate_worker_token sha io now token salt w R ix = (r, R', ix') \<Longrightarrow>
     salt \<noteq> [] \<Longrightarrow> reg_step sha (R, ix) (R', ix')"
| verify: "verify_token sha now token R ix = (v, R', ix') \<Longrightarrow> reg_step sha (R, ix) (R', ix')"
| update: "update_worker io now w n de t c R = (u, R') \<Longrightarrow> reg_step sha (R, ix) (R', ix)"
| beat: "update_worker_heartbeat io now w cur R = (ok, R') \<Longrightarrow> reg_step sha (R, ix) (R', ix)"
| enable: "enable_worker io w R = (ok, R') \<Longrightarrow> reg_step sha (R, ix) (R', ix)"
| disable: "disable_worker io w R = (ok, R') \<Longrightarrow> reg_step sha (R, ix) (R', ix)"
| delete: "delete_worker unl w R ix = (ok, R', ix') \<Longrightarrow> w \<noteq> [] \<Longrightarrow> reg_step sha (R, ix) (R', ix')"
| index_write: "worker_tokens ix' = worker_tokens ix \<Longrightarrow> ix_open ix' = ix_open ix \<Longrightarrow>
     reg_step sha (R, ix) (R, ix')"

inductive_cases reg_stepE: "reg_step sha (R, ix) s"

lemma reg_step_inv:
  assumes "reg_step sha s s'" "good_hash sha" "token_inv sha (fst s) (snd s)"
  shows "token_inv sha (fst s') (snd s')"
  using assms
proof (induction rule: reg_step.induct)
  case (create io now w token salt name ca tg R ix r R' ix')
  then show ?case using inv_create by simp
next
  case (rotate io now token salt w R ix r R' ix')
  then show ?case using inv_rotate by simp
next
  case (verify now token R ix v R' ix')
  then show ?case using verify_token_sound by simp
next
  case (update io now w n de t c R u R' ix)
  then show ?case using inv_update by simp
next
  case (beat io now w cur R ok R' ix)
  then show ?case using inv_heartbeat by simp
next
  case (enable io w R ok R' ix)
  then show ?case using inv_enabled(1) [of sha R ix io w] by simp
next
  case (disable io w R ok R' ix)
  then show ?case using inv_enabled(2) [of sha R ix io w] by simp
next
  case (delete unl w R ix ok R' ix')
  then show ?case using inv_delete by simp
next
  case (index_write ix' ix R)
  then show ?case by (simp add: token_inv_def all_worker_salts_def)
qed

definition empty_registry :: registry where
  "empty_registry = \<lparr>wfiles = [], token_cache = [], beat_cache = [], legacy_file = None\<rparr>"

lemma token_inv_empty: "token_inv sha empty_registry empty_index"
  by (simp add: token_inv_def named_files_def empty_registry_def load_worker_def
      all_worker_salts_def empty_index_def)

lemma reg_run_inv:
  "(reg_step sha)\<^sup>*\<^sup>* s s' \<Longrightarrow> good_hash sha \<Longrightarrow> token_inv sha (fst s) (snd s) \<Longrightarrow>
   token_inv sha (fst s') (snd s')"
  by (induction rule: rtranclp_induct) (auto intro: reg_step_inv)

text \<open>C3: Whatever operations ran before, a token is accepted only for a worker that exists, is enabled and whose current record holds the salted hash of that token; neither the token index nor the token cache ever lets in a token that a rotation, a deletion or a disabling has withdrawn.\<close>

theorem reachable_tokens_sound:
  assumes "(reg_step sha)\<^sup>*\<^sup>* (empty_registry, empty_index) (R, ix)" and "good_hash sha"
    and "fst (verify_token sha now token R ix) = Inr (Some (w, d))"
  shows "load_worker w R = Some d \<and> enabled d \<and>
         (\<exists>salt. dget d ''tokenSalt'' = JStr salt \<and> dget d ''tokenHash'' = JStr (sha (token @ salt)))"
proof -
  have "token_inv sha R ix" using reg_run_inv [OF assms(1,2)] token_inv_empty by simp
  then have "found_worker w R = Some d \<and> enabled d \<and> credential sha d token"
    using verify_token_sound assms(3) by (metis prod.collapse fst_conv)
  then show ?thesis
    by (auto simp: found_Some_iff credential_def hash_token_def split: json.splits)
qed


lemma reachable_tokens_sound_witness:
  "let sha = Cons CHR ''#'';
       (r, R, ix) = create_worker sha WOk 1 ''w1'' ''t0'' ''s0'' (JStr ''n'') JNull JNull empty_registry empty_index
   in \<exists>w d. fst (verify_token sha 2 ''t0'' R ix) = Inr (Some (w, d)) \<and> load_worker w R = Some d \<and>
        enabled d \<and> (\<exists>salt. dget d ''tokenSalt'' = JStr salt \<and> dget d ''tokenHash'' = JStr (sha (''t0'' @ salt)))"
proof -
  let ?sha = "Cons CHR ''#''"
  let ?d = "new_worker ?sha 1 ''w1'' ''t0'' ''s0'' (JStr ''n'') JNull JNull"
  let ?R = "empty_registry\<lparr>wfiles := [(''w1'', Doc ?d)]\<rparr>"
  let ?ix = "upsert_worker_token ''w1'' (hash_token ?sha ''t0'' ''s0'') ''s0'' empty_index"
  have c: "create_worker ?sha WOk 1 ''w1'' ''t0'' ''s0'' (JStr ''n'') JNull JNull empty_registry empty_index =
      (Inr (''w1'', ''t0''), ?R, ?ix)"
    by (simp add: create_worker_def save_worker_def new_worker_def empty_registry_def)
  have "reg_step ?sha (empty_registry, empty_index) (?R, ?ix)"
    by (rule reg_step.create [OF c]) (simp_all add: fresh_worker_def empty_registry_def)
  then have run: "(reg_step ?sha)\<^sup>*\<^sup>* (empty_registry, empty_index) (?R, ?ix)" by simp
  have "found_worker ''w1'' ?R = Some ?d" "enabled ?d"
    by (simp_all add: found_worker_def load_worker_def new_worker_def enabled_def)
  then have v: "fst (verify_token ?sha 2 ''t0'' ?R ?ix) = Inr (Some (''w1'', ?d))"
    by (simp add: verify_token_def verify_cached_def empty_registry_def all_worker_salts_def
        upsert_worker_token_def empty_index_def tput_def hash_token_def)
  have "good_hash ?sha" by (simp add: good_hash_def)
  from reachable_tokens_sound [OF run this v] v show ?thesis
    unfolding Let_def c prod.case by blast
qed

subsection \<open>Rotation\<close>

lemma rotate_ok:
  assumes "named_files R" and "rotate_worker_token sha io now token salt w R ix = (Inr tok, R', ix')"
  shows "tok = token \<and> w \<noteq> [] \<and> (\<exists>d d'. found_worker w R = Some d \<and> found_worker w R' = Some d' \<and>
           dget d' ''tokenHash'' = JStr (hash_token sha token salt) \<and> dget d' ''tokenSalt'' = JStr salt \<and>
           enabled d' = enabled d) \<and>
         (\<forall>w'. w' \<noteq> w \<longrightarrow> found_worker w' R' = found_worker w' R)"
proof (cases "found_worker w R")
  case None
  then show ?thesis using assms by (simp add: rotate_worker_token_def)
next
  case (Some d)
  let ?h = "hash_token sha token salt"
  let ?d = "dset (dset (dset d ''tokenHash'' (JStr ?h)) ''tokenSalt'' (JStr salt)) ''lastTokenRotatedAt'' (JNum now)"
  have w: "dget d ''id'' = JStr w" "w \<noteq> []" using named_found [OF assms(1) Some] by simp_all
  have d: "dget ?d ''id'' = JStr w" using w by simp
  have ne: "?d \<noteq> []" using w by (metis dget_list(1) d json.distinct(5))
  obtain ok R'' where s: "save_worker io ?d R = (ok, R'')" by fastforce
  have "ok" using assms(2) Some s by (auto simp: rotate_worker_token_def Let_def split: if_splits)
  then have "R'' = R\<lparr>wfiles := AList.update w (Doc ?d) (wfiles R)\<rparr>"
    using save_worker_cases [OF s d w(2)] by blast
  moreover have "R' = purge_tokens w R''" "tok = token"
    using assms(2) Some s \<open>ok\<close> by (simp_all add: rotate_worker_token_def Let_def)
  ultimately show ?thesis using Some w ne by (auto simp: found_worker_def enabled_def)
qed

text \<open>After a successful rotation exactly the new token authenticates the worker: the token it had before, and every other one, is refused, although the token index and the cache still served it a moment ago.\<close>

theorem rotation_replaces_token:
  assumes inv: "token_inv sha R ix" and sha: "good_hash sha" "inj sha" and salts: "string_salts R" "salt \<noteq> []"
    and rot: "rotate_worker_token sha io now token salt w R ix = (Inr tok, R', ix')"
    and new: "token \<noteq> []" "\<And>w' d'. w' \<noteq> w \<Longrightarrow> found_worker w' R = Some d' \<Longrightarrow> \<not> credential sha d' token"
    and on: "found_worker w R = Some d" "enabled d"
  shows "(\<exists>d'. fst (verify_token sha now' t R' ix') = Inr (Some (w, d'))) \<longleftrightarrow> t = token"
proof -
  have ro: "w \<noteq> []" "\<And>w'. w' \<noteq> w \<Longrightarrow> found_worker w' R' = found_worker w' R"
    using rotate_ok [OF token_inv_named [OF inv] rot] by auto
  obtain d' where d': "found_worker w R' = Some d'" "dget d' ''tokenHash'' = JStr (hash_token sha token salt)"
      "dget d' ''tokenSalt'' = JStr salt" "enabled d'"
    using rotate_ok [OF token_inv_named [OF inv] rot] on by auto
  have inv': "token_inv sha R' ix'" using inv_rotate [OF inv sha(1) salts(2) rot] .
  have salts': "string_salts R'"
    unfolding string_salts_def
  proof (intro allI impI)
    fix x y assume "found_worker x R' = Some y"
    then show "\<exists>s. dget y ''tokenSalt'' = JStr s \<and> s \<noteq> []"
      using salts d' ro(2) [of x] by (cases "x = w") (auto simp: string_salts_def)
  qed
  have self: "credential sha d' x \<longleftrightarrow> x = token" for x
    using d' sha(2) by (auto simp: credential_def hash_token_def inj_eq)
  have iff: "(\<exists>d'. fst (verify_token sha now' t R' ix') = Inr (Some (w, d'))) \<longleftrightarrow>
      auth_worker (sha, now', R', ix') t = Some w"
    by (auto split: sum.split option.split)
  show ?thesis
  proof
    assume "\<exists>d'. fst (verify_token sha now' t R' ix') = Inr (Some (w, d'))"
    then have "auth_holds (sha, now', R', ix') w t"
      using iff inv' salts' sha(1) by (intro wauth.auth_sound) simp_all
    then show "t = token" using d'(1) self by auto
  next
    assume t: "t = token"
    have "auth_worker (sha, now', R', ix') t = Some w \<longleftrightarrow> auth_holds (sha, now', R', ix') w t"
    proof (rule wauth.auth_iff)
      fix j assume "auth_holds (sha, now', R', ix') j t"
      then show "j = w" using new(2) [of j] ro(2) [of j] t
        by (cases "j = w") (simp, force)
    qed (use inv' salts' sha(1) in simp)
    then show "\<exists>d'. fst (verify_token sha now' t R' ix') = Inr (Some (w, d'))"
      using iff d' self new(1) t by auto
  qed
qed

lemma rotation_replaces_token_witness:
  "let sha = Cons CHR ''#'';
       d = new_worker sha 1 ''w1'' ''t0'' ''s0'' (JStr ''n'') JNull JNull;
       R = empty_registry\<lparr>wfiles := [(''w1'', Doc d)], token_cache := [(''t0'', (''w1'', 90))]\<rparr>;
       (r, R', ix') = rotate_worker_token sha WOk 2 ''t1'' ''s1'' ''w1'' R empty_index
   in r = Inr ''t1'' \<and> \<not> (\<exists>d'. fst (verify_token sha 3 ''t0'' R' ix') = Inr (Some (''w1'', d'))) \<and>
      (\<exists>d'. fst (verify_token sha 3 ''t1'' R' ix') = Inr (Some (''w1'', d')))"
proof -
  let ?sha = "Cons CHR ''#''"
  let ?d = "new_worker ?sha 1 ''w1'' ''t0'' ''s0'' (JStr ''n'') JNull JNull"
  let ?R = "empty_registry\<lparr>wfiles := [(''w1'', Doc ?d)], token_cache := [(''t0'', (''w1'', 90))]\<rparr>"
  obtain r R' ix' where rot: "rotate_worker_token ?sha WOk 2 ''t1'' ''s1'' ''w1'' ?R empty_index = (r, R', ix')"
    by (cases "rotate_worker_token ?sha WOk 2 ''t1'' ''s1'' ''w1'' ?R empty_index")
  have f: "found_worker w ?R = (if w = ''w1'' then Some ?d else None)" for w
    by (simp add: found_worker_def load_worker_def new_worker_def)
  have r: "r = Inr ''t1''"
    using rot f [of "''w1''"]
    by (auto simp: rotate_worker_token_def Let_def save_worker_def new_worker_def)
  have f0: "found_worker w (empty_registry\<lparr>wfiles := [(''w1'', Doc ?d)]\<rparr>) = (if w = ''w1'' then Some ?d else None)" for w
    by (simp add: found_worker_def load_worker_def new_worker_def)
  have ld0: "load_worker w (empty_registry\<lparr>wfiles := [(''w1'', Doc ?d)]\<rparr>) = (if w = ''w1'' then Some ?d else None)" for w
    by (simp add: load_worker_def)
  have "dget ?d ''id'' = JStr ''w1''" "dget ?d ''tokenSalt'' = JStr ''s0''" "credential ?sha ?d ''t0''" "enabled ?d"
    by (simp_all add: new_worker_def credential_def enabled_def)
  moreover then have "token_inv ?sha ?R empty_index"
    by (simp add: token_inv_def named_files_def ld0 entry_agrees_def f0 all_worker_salts_def empty_index_def)
  ultimately have "(\<exists>d'. fst (verify_token ?sha 3 t R' ix') = Inr (Some (''w1'', d'))) \<longleftrightarrow> t = ''t1''" for t
    using rotation_replaces_token [of ?sha ?R empty_index "''s1''" WOk 2 "''t1''" "''w1''" "''t1''" R' ix' ?d 3 t]
      rot r f0 by (auto simp: good_hash_def inj_def string_salts_def)
  note acc = this
  have "\<not> (\<exists>d'. fst (verify_token ?sha 3 ''t0'' R' ix') = Inr (Some (''w1'', d')))"
    unfolding acc by simp
  moreover have "\<exists>d'. fst (verify_token ?sha 3 ''t1'' R' ix') = Inr (Some (''w1'', d'))"
    unfolding acc by simp
  ultimately show ?thesis using r unfolding Let_def rot prod.case by blast
qed

subsection \<open>Heartbeats\<close>

definition beat_inv :: "registry \<Rightarrow> bool" where
  \<comment> \<open>an entry of the write cache tells what the record holds\<close>
  "beat_inv R \<longleftrightarrow> named_files R \<and>
     (\<forall>w t c d. map_of (beat_cache R) w = Some (t, c) \<longrightarrow> found_worker w R = Some d \<longrightarrow>
        dget d ''lastSeenAt'' = JNum t \<and> dget d ''currentExecutionId'' = c)"

lemma beat_inv_heartbeat:
  assumes "beat_inv R" "update_worker_heartbeat io now w cur R = (ok, R')"
  shows "beat_inv R' \<and>
    (ok \<longrightarrow> (\<exists>d d' t. found_worker w R = Some d \<and> found_worker w R' = Some d' \<and> enabled d' = enabled d \<and>
        dget d' ''lastSeenAt'' = JNum t \<and> now - t < HEARTBEAT_WRITE_MIN_INTERVAL \<and>
        dget d' ''currentExecutionId'' =
          (case cur of None \<Rightarrow> dget d ''currentExecutionId'' | Some c \<Rightarrow> c)))"
proof (cases "found_worker w R")
  case None
  then show ?thesis using assms by (auto simp: update_worker_heartbeat_def)
next
  case (Some d)
  let ?next = "case cur of None \<Rightarrow> dget d ''currentExecutionId'' | Some c \<Rightarrow> c"
  let ?d = "case cur of None \<Rightarrow> dset d ''lastSeenAt'' (JNum now)
            | Some c \<Rightarrow> dset (dset d ''lastSeenAt'' (JNum now)) ''currentExecutionId'' c"
  have n: "named_files R" using assms(1) by (simp add: beat_inv_def)
  have w: "dget d ''id'' = JStr w" "w \<noteq> []" using named_found [OF n Some] by simp_all
  show ?thesis
  proof (cases "\<exists>t. map_of (beat_cache R) w = Some (t, ?next) \<and> now - t < HEARTBEAT_WRITE_MIN_INTERVAL")
    case True
    then obtain t where t: "map_of (beat_cache R) w = Some (t, ?next)" "now - t < HEARTBEAT_WRITE_MIN_INTERVAL"
      by blast
    have "dget d ''lastSeenAt'' = JNum t" "dget d ''currentExecutionId'' = ?next"
      using assms(1) t(1) Some by (simp_all add: beat_inv_def)
    moreover have "R' = R" using assms(2) Some t by (simp add: update_worker_heartbeat_def Let_def)
    ultimately show ?thesis using assms(1) Some t(2) by auto
  next
    case False
    obtain ok' R'' where s: "save_worker io ?d R = (ok', R'')" by fastforce
    have e: "ok = ok'" "R' = (if ok' then R''\<lparr>beat_cache := AList.update w (now, ?next) (beat_cache R'')\<rparr> else R'')"
      using assms(2) Some s False by (auto simp: update_worker_heartbeat_def Let_def split: option.splits)
    have id: "dget ?d ''id'' = JStr w" using w by (simp split: option.split)
    have ne: "?d \<noteq> []" using id by (metis dget_list(1) json.distinct(5))
    have n'': "named_files R''" using named_files_save [OF n id w(2) s] .
    consider "ok'" "R'' = R\<lparr>wfiles := AList.update w (Doc ?d) (wfiles R)\<rparr>"
      | "\<not> ok'" "R'' = R" | "\<not> ok'" "R'' = R\<lparr>wfiles := AList.update w Corrupt (wfiles R)\<rparr>"
      using save_worker_cases [OF s id w(2)] by blast
    then show ?thesis
    proof cases
      case 1
      have "found_worker w R' = Some ?d"
        using 1 e ne by (simp add: found_worker_def)
      moreover have "found_worker w' R' = found_worker w' R" if "w' \<noteq> w" for w'
        using 1 e that by (simp add: found_worker_def)
      moreover have "map_of (beat_cache R') = (map_of (beat_cache R))(w \<mapsto> (now, ?next))"
        using 1 e by (simp add: update_conv')
      moreover have "named_files R'" using n'' e 1 by (simp add: named_files_def)
      ultimately have "beat_inv R'"
        using assms(1) by (auto simp: beat_inv_def split: option.splits)
      then show ?thesis
        using 1 e Some \<open>found_worker w R' = Some ?d\<close>
        by (auto simp: enabled_def HEARTBEAT_WRITE_MIN_INTERVAL_def split: option.splits)
    next
      case 2
      then show ?thesis using e assms(1) by simp
    next
      case 3
      then have "found_worker w' R' = (if w' = w then None else found_worker w' R)" for w'
        using e by (simp add: found_worker_def)
      then show ?thesis using 3 e n'' assms(1) by (auto simp: beat_inv_def)
    qed
  qed
qed

text \<open>A heartbeat that reports success keeps an enabled worker online for at least 45 of the 60 seconds of its time to live, and its record then names the execution the heartbeat named, even when the write was skipped because of the write cache.\<close>

theorem heartbeat_keeps_online:
  assumes "beat_inv R" "update_worker_heartbeat io now w (Some cur) R = (True, R')"
    and "found_worker w R = Some d" "enabled d" and "15 \<le> now" "now' \<le> now + 45"
  shows "is_worker_online now' w 60 R' = Inr True \<and>
         (\<exists>d'. load_worker w R' = Some d' \<and> dget d' ''currentExecutionId'' = cur)"
proof -
  obtain d' t where d': "found_worker w R' = Some d'" "enabled d'" "dget d' ''lastSeenAt'' = JNum t"
      "now - t < 15" "dget d' ''currentExecutionId'' = cur"
    using beat_inv_heartbeat [OF assms(1,2)] assms(3,4)
    by (auto simp: HEARTBEAT_WRITE_MIN_INTERVAL_def)
  moreover have "t \<noteq> 0" using d'(4) assms(5) by auto
  moreover have "now' - t \<le> 60" using d'(4) assms(6) by simp
  ultimately show ?thesis
    using d'(1) found_Some_iff [of w R' d'] by (simp add: is_worker_online_def)
qed

lemma heartbeat_keeps_online_witness:
  "let R = empty_registry\<lparr>wfiles := [(''w1'', Doc (new_worker id 1 ''w1'' ''t0'' ''s0'' (JStr ''n'') JNull JNull))]\<rparr>;
       (ok, R') = update_worker_heartbeat WOk 100 ''w1'' (Some (JStr ''e1'')) R
   in ok \<and> is_worker_online 145 ''w1'' 60 R' = Inr True"
proof -
  let ?d = "new_worker id 1 ''w1'' ''t0'' ''s0'' (JStr ''n'') JNull JNull"
  let ?R = "empty_registry\<lparr>wfiles := [(''w1'', Doc ?d)]\<rparr>"
  obtain ok R' where b: "update_worker_heartbeat WOk 100 ''w1'' (Some (JStr ''e1'')) ?R = (ok, R')"
    by fastforce
  have f: "found_worker w ?R = (if w = ''w1'' then Some ?d else None)" for w
    by (simp add: found_worker_def load_worker_def new_worker_def)
  have ld: "load_worker w ?R = (if w = ''w1'' then Some ?d else None)" for w
    by (simp add: load_worker_def)
  have i: "dget ?d ''id'' = JStr ''w1''" "enabled ?d" by (simp_all add: new_worker_def enabled_def)
  have "ok" using b f i by (auto simp: update_worker_heartbeat_def save_worker_def empty_registry_def)
  moreover have "beat_inv ?R"
    using i by (simp add: beat_inv_def named_files_def ld) (simp add: empty_registry_def)
  ultimately show ?thesis
    using heartbeat_keeps_online [of ?R WOk 100 "''w1''" "JStr ''e1''" R' ?d 145] b f i by (simp add: Let_def)
qed

end
