(* ===== verification/ClaimProps.thy ===== *)
theory ClaimProps
  imports Claim WorkerRegistryProps
begin

section \<open>Properties of the claim\<close>

text \<open>
  First what each step of the claim leaves alone: the scans touch the index only, pruning
  turns running records into failed ones and nothing else. Then the claim is first in, first
  out among the candidates that may run, it never gives a worker more executions than its
  limit, and a record without a queue time blocks everyone.
\<close>

subsection \<open>Frames\<close>

lemma record_at_index [simp, frame]: "record_at (S\<lparr>index := ix\<rparr>) p old e = record_at S p old e"
  by (simp add: record_at_def)

lemma record_at_write [simp]:
  "record_at (write_record now p old e d S) p' old' e' =
     (if p = p' \<and> old = old' \<and> e = e' then Some (Doc d) else record_at S p' old' e')"
  by (auto simp: record_at_def write_record_def Let_def)

lemma record_at_append [simp, frame]: "record_at (append_raw_log p e t S) p' old e' = record_at S p' old e'"
  by (simp add: record_at_def append_raw_log_def Let_def)

lemma index_write [simp, frame]: "index (write_record now p old e d S) = index S"
  by (simp add: write_record_def Let_def)

lemma index_append [simp, frame]: "index (append_raw_log p e t S) = index S"
  by (simp add: append_raw_log_def Let_def)

lemma find_record_at: "find_record S p e = Some (old, f) \<Longrightarrow> record_at S p old e = Some f"
  by (auto simp: find_record_def record_at_def split: option.splits)

lemma count_files_closed:
  "w = [] \<or> \<not> ix_open ix \<Longrightarrow> snd (count_running_files now w p fs (n, ix)) = ix"
proof (induction fs arbitrary: n)
  case (Cons x fs)
  have "mark_running_execution now e q (JStr w) s ix = ix" for e q s
    using Cons.prems by (auto simp: mark_running_execution_def)
  then show ?case using Cons by (cases x) (simp split: jfile.split)
qed simp

lemma count_projects_closed:
  assumes "w = [] \<or> \<not> ix_open (snd acc)"
  shows "snd (count_running_projects now w ps acc) = snd acc"
  using assms
proof (induction ps arbitrary: acc)
  case (Cons x ps)
  obtain p pd where x: "x = (p, pd)" by (cases x)
  obtain n ix where acc: "acc = (n, ix)" by (cases acc)
  have "snd (count_running_files now w p t acc) = snd acc" for t
    using count_files_closed Cons.prems acc by simp
  then show ?case using Cons by (simp add: x split: option.split)
qed simp

lemma active_runs_pure [simp]: "snd (get_worker_active_runs_count now w R S) = S"
proof (cases "running_count_for_worker w (index S)")
  case None
  then have "w = [] \<or> \<not> ix_open (index S)" by (auto simp: running_count_for_worker_def split: if_splits)
  then have "snd (count_running_projects now w (projects S) (0, index S)) = index S"
    by (subst count_projects_closed) simp_all
  then show ?thesis
    by (cases "count_running_projects now w (projects S) (0, index S)")
      (simp add: get_worker_active_runs_count_def None split: option.split)
qed (simp add: get_worker_active_runs_count_def split: option.split)

lemma active_runs_indexed:
  assumes "ix_open (index S)" "w \<noteq> []" "found_worker w R \<noteq> None"
  shows "get_worker_active_runs_count now w R S = (length (running_rows_of w (index S)), S)"
  using assms by (auto simp: get_worker_active_runs_count_def running_count_for_worker_def)

subsection \<open>Pruning\<close>

definition healed :: "jfile option \<Rightarrow> jfile option \<Rightarrow> bool" where
  "healed f g \<longleftrightarrow> g = f \<or>
     (\<exists>d d'. f = Some (Doc d) \<and> g = Some (Doc d') \<and> dget d ''status'' = JStr ''RUNNING'' \<and>
             dget d' ''status'' = JStr ''FAILED'' \<and> has d' ''status'')"

lemma healed_trans: "healed f g \<Longrightarrow> healed g h \<Longrightarrow> healed f h"
  by (auto simp: healed_def)

lemma healed_refl [simp]: "healed f f"
  by (simp add: healed_def)

definition heals :: "store \<Rightarrow> store \<Rightarrow> bool" where
  "heals S S' \<longleftrightarrow> (\<forall>p old e. healed (record_at S p old e) (record_at S' p old e)) \<and>
     ix_open (index S') = ix_open (index S) \<and> queued (index S') = queued (index S)"

lemma heals_refl [simp]: "heals S S"
  by (simp add: heals_def)

lemma heals_trans: "heals S S' \<Longrightarrow> heals S' S'' \<Longrightarrow> heals S S''"
  unfolding heals_def by (intro conjI allI) (blast intro: healed_trans, simp, simp)

lemma orphan_failed_status:
  "orphan_failed now started d = Some d' \<Longrightarrow> dget d' ''status'' = JStr ''FAILED'' \<and> has d' ''status''"
  by (auto simp: orphan_failed_def Let_def split: option.splits)

lemma heals_mark_orphan:
  assumes "record_at S p old e = Some (Doc d)" "dget d ''status'' = JStr ''RUNNING''"
  shows "heals S (mark_orphan now w e p started old d S)"
  using assms orphan_failed_status [of now started d]
  by (auto simp: mark_orphan_def Let_def heals_def healed_def split: option.split)

lemma heals_remove_running [simp]:
  "heals S (S'\<lparr>index := remove_running_execution e (index S')\<rparr>) = heals S S'"
  by (simp add: heals_def)

lemma heals_prune_row: "heals S (snd (prune_row now w cur mk row (n, S)))"
proof -
  obtain e p started where row: "row = (e, p, started)" by (cases row)
  show ?thesis
  proof (cases "find_record S p e")
    case None
    then show ?thesis by (simp add: row prune_row_def Let_def)
  next
    case (Some x)
    obtain old f where x: "x = (old, f)" by (cases x)
    show ?thesis
    proof (cases f)
      case Corrupt
      then show ?thesis using Some x by (simp add: row prune_row_def Let_def)
    next
      case (Doc d)
      have "heals S (mark_orphan now w e p started old d S)" if "dget d ''status'' = JStr ''RUNNING''"
        using that find_record_at Some x Doc by (intro heals_mark_orphan) simp_all
      then show ?thesis using Some x Doc by (simp add: row prune_row_def Let_def)
    qed
  qed
qed

lemma heals_prune_fold: "heals S (snd acc) \<Longrightarrow> heals S (snd (fold (prune_row now w cur mk) rows acc))"
proof (induction rows arbitrary: acc)
  case (Cons row rows)
  have "heals S (snd (prune_row now w cur mk row acc))"
    using Cons.prems heals_prune_row [of "snd acc" now w cur mk row "fst acc"] heals_trans by simp
  then show ?case using Cons.IH by simp
qed simp

lemma heals_prune: "heals S (snd (prune_stale_running_for_worker now w cur mk S))"
  by (simp add: prune_stale_running_for_worker_def heals_prune_fold)

lemma heals_runs: "runs_after_healing now w m R S = (n, S') \<Longrightarrow> heals S S'"
proof -
  assume *: "runs_after_healing now w m R S = (n, S')"
  obtain a where a: "get_worker_active_runs_count now w R S = (a, S)"
    using active_runs_pure [of now w R S] by (metis prod.collapse)
  obtain k S2 where p: "prune_stale_running_for_worker now w None True S = (k, S2)" by fastforce
  obtain b where b: "get_worker_active_runs_count now w R S2 = (b, S2)"
    using active_runs_pure [of now w R S2] by (metis prod.collapse)
  have "heals S S2" using heals_prune [of S now w None True] p by simp
  then show ?thesis using * by (auto simp: runs_after_healing_def a p b split: if_splits)
qed

lemma runs_after_healing_value:
  assumes "runs_after_healing now w m R S = (n, S')" "real n < m"
  shows "get_worker_active_runs_count now w R S' = (n, S')"
proof -
  obtain a where a: "get_worker_active_runs_count now w R S = (a, S)"
    using active_runs_pure [of now w R S] by (metis prod.collapse)
  obtain k S2 where p: "prune_stale_running_for_worker now w None True S = (k, S2)" by fastforce
  obtain b where b: "get_worker_active_runs_count now w R S2 = (b, S2)"
    using active_runs_pure [of now w R S2] by (metis prod.collapse)
  show ?thesis using assms a b by (auto simp: runs_after_healing_def p split: if_splits)
qed

lemma runs_below_limit:
  assumes "get_worker_active_runs_count now w R S = (n, S)" "real n < m"
  shows "runs_after_healing now w m R S = (n, S)"
  using assms by (simp add: runs_after_healing_def)

subsection \<open>Taking a candidate\<close>

lemma try_claim_Some:
  assumes "try_claim py_str now W m R c S = (Some (e, d', p), S')"
  shows "\<exists>d n S1. truthy (dget (c_doc c) ''id'') \<and> e = as_text py_str (dget (c_doc c) ''id'') \<and> p = c_project c \<and>
     record_at S p (c_old c) (c_stem c) = Some (Doc d) \<and> dget d ''status'' = JStr ''QUEUED'' \<and>
     runs_after_healing now (cl_id W) m R S = (n, S1) \<and> real n < m \<and> d' = running_record now W d \<and>
     S' = (write_record now p (c_old c) (c_stem c) d' S1)
            \<lparr>index := mark_running_execution now e p (JStr (cl_id W)) (py_or (JNum now) (JNum now)) (index S1)\<rparr>"
proof -
  obtain n S1 where r: "runs_after_healing now (cl_id W) m R S = (n, S1)" by fastforce
  show ?thesis
    using assms r
    by (auto simp: try_claim_def Let_def split: if_splits option.splits jfile.splits)
qed

lemma try_claim_None:
  assumes "try_claim py_str now W m R c S = (None, S')"
  shows "S' = S \<or> (\<exists>n. runs_after_healing now (cl_id W) m R S = (n, S'))"
proof -
  obtain n S1 where r: "runs_after_healing now (cl_id W) m R S = (n, S1)" by fastforce
  show ?thesis
    using assms r
    by (auto simp: try_claim_def Let_def split: if_splits option.splits jfile.splits)
qed

lemma running_record_fields [simp]:
  "dget (running_record now W d) ''status'' = JStr ''RUNNING''"
  "has (running_record now W d) ''status''"
  "dget (running_record now W d) ''workerId'' = JStr (cl_id W)"
  "dget (running_record now W d) ''startedAt'' = JNum now"
  by (simp_all add: running_record_def Let_def)

lemma try_claim_ready:
  assumes "truthy (dget (c_doc c) ''id'')"
    "record_at S (c_project c) (c_old c) (c_stem c) = Some (Doc d)" "dget d ''status'' = JStr ''QUEUED''"
    "get_worker_active_runs_count now (cl_id W) R S = (n, S)" "real n < m"
  shows "\<exists>r S'. try_claim py_str now W m R c S = (Some r, S') \<and>
           fst r = as_text py_str (dget (c_doc c) ''id'') \<and> snd (snd r) = c_project c"
  using assms runs_below_limit [OF assms(4,5)] by (simp add: try_claim_def Let_def)

lemma try_claim_no_id:
  "\<not> truthy (dget (c_doc c) ''id'') \<Longrightarrow> try_claim py_str now W m R c S = (None, S)"
  by (simp add: try_claim_def)

text \<open>With every candidate still queued and a free slot, the loop takes the first that has an id.\<close>

lemma claim_loop_first:
  assumes "get_worker_active_runs_count now (cl_id W) R S = (n, S)" "real n < m"
    and "\<forall>c\<in>set cs. \<exists>d. record_at S (c_project c) (c_old c) (c_stem c) = Some (Doc d) \<and>
           dget d ''status'' = JStr ''QUEUED''"
  shows "case find (\<lambda>c. truthy (dget (c_doc c) ''id'')) cs of
           None \<Rightarrow> claim_loop py_str now W m R cs S = (None, S)
         | Some c \<Rightarrow> \<exists>r S'. claim_loop py_str now W m R cs S = (Some r, S') \<and>
             fst r = as_text py_str (dget (c_doc c) ''id'') \<and> snd (snd r) = c_project c"
  using assms(3)
proof (induction cs)
  case Nil
  then show ?case by simp
next
  case (Cons c cs)
  show ?case
  proof (cases "truthy (dget (c_doc c) ''id'')")
    case False
    then have "claim_loop py_str now W m R (c # cs) S = claim_loop py_str now W m R cs S"
      by (simp add: try_claim_no_id)
    then show ?thesis using False Cons by (auto split: option.split simp del: claim_loop.simps(2))
  next
    case True
    obtain d where d: "record_at S (c_project c) (c_old c) (c_stem c) = Some (Doc d)"
        "dget d ''status'' = JStr ''QUEUED''" using Cons.prems by auto
    obtain r S' where "try_claim py_str now W m R c S = (Some r, S')"
        "fst r = as_text py_str (dget (c_doc c) ''id'')" "snd (snd r) = c_project c"
      using try_claim_ready [OF True d assms(1,2), of py_str] by blast
    then show ?thesis using True by auto
  qed
qed


subsection \<open>What the scans find\<close>

definition genuine :: "(json \<Rightarrow> string) \<Rightarrow> claimer \<Rightarrow> store \<Rightarrow> candidate \<Rightarrow> bool" where
  \<comment> \<open>the candidate is on disk as the scan saw it, queued, and the worker may run it\<close>
  "genuine py_str W S c \<longleftrightarrow>
     record_at S (c_project c) (c_old c) (c_stem c) = Some (Doc (c_doc c)) \<and>
     dget (c_doc c) ''status'' = JStr ''QUEUED'' \<and> eligible py_str W (c_doc c)"

lemma genuine_index [simp]: "genuine py_str W (S\<lparr>index := ix\<rparr>) c = genuine py_str W S c"
  by (simp add: genuine_def)

lemma scan_files_genuine:
  assumes "\<And>e f m. (e, f, m) \<in> set fs \<Longrightarrow> record_at S p old e = Some f"
    and "\<forall>c\<in>set cs. genuine py_str W S c"
    and "scan_files py_str busy now W p old fs (cs, ix) = (cs', ix')"
  shows "(\<forall>c\<in>set cs'. genuine py_str W S c) \<and> ix_open ix' = ix_open ix \<and> running ix' = running ix"
  using assms
proof (induction fs arbitrary: cs ix)
  case Nil
  then show ?case by simp
next
  case (Cons x fs)
  obtain e f m where x: "x = (e, f, m)" by (cases x)
  have at: "record_at S p old e = Some f" by (rule Cons.prems(1) [where m = m]) (simp add: x)
  have tl: "record_at S p old e = Some f" if "(e, f, m) \<in> set fs" for e f m
    by (rule Cons.prems(1) [where m = m]) (simp add: that)
  show ?case
  proof (cases f)
    case Corrupt
    then show ?thesis using Cons.IH [OF tl Cons.prems(2)] Cons.prems(3) x by simp
  next
    case (Doc d)
    show ?thesis
    proof (cases "busy p e \<or> dget d ''status'' \<noteq> JStr ''QUEUED''")
      case True
      then show ?thesis using Cons.IH [OF tl Cons.prems(2)] Cons.prems(3) x Doc by simp
    next
      case False
      let ?c = "\<lparr>c_at = getd d ''queuedAt'' (getd d ''createdAt'' (JNum 0)), c_old = old,
                 c_stem = e, c_doc = d, c_project = p\<rparr>"
      let ?cs = "if eligible py_str W d then cs @ [?c] else cs"
      let ?ix = "add_queued_execution now (id_text py_str e d) p
                   (py_or (py_or (dget d ''queuedAt'') (dget d ''createdAt'')) (JNum 0)) [] ix"
      have g: "\<forall>c\<in>set ?cs. genuine py_str W S c"
        using Cons.prems(2) at Doc False by (auto simp: genuine_def)
      have "scan_files py_str busy now W p old fs (?cs, ?ix) = (cs', ix')"
        using Cons.prems(3) False by (simp add: x Doc Let_def)
      from Cons.IH [OF tl g this] show ?thesis by simp
    qed
  qed
qed

lemma scan_projects_genuine:
  assumes "\<And>p pd. (p, pd) \<in> set ps \<Longrightarrow> pdir_of S p = pd"
    and "\<And>p pd t. (p, pd) \<in> set ps \<Longrightarrow> hist_exec pd = Some t \<or> legacy_exec pd = Some t \<Longrightarrow> distinct (map fst t)"
    and "\<forall>c\<in>set cs. genuine py_str W S c"
    and "scan_projects py_str busy now W ps (cs, ix) = (cs', ix')"
  shows "(\<forall>c\<in>set cs'. genuine py_str W S c) \<and> ix_open ix' = ix_open ix \<and> running ix' = running ix"
  using assms
proof (induction ps arbitrary: cs ix)
  case Nil
  then show ?case by simp
next
  case (Cons x ps)
  obtain p pd where x: "x = (p, pd)" by (cases x)
  have pd: "pdir_of S p = pd" using Cons.prems(1) x by simp
  have dist: "hist_exec pd = Some t \<or> legacy_exec pd = Some t \<Longrightarrow> distinct (map fst t)" for t
    using Cons.prems(2) x by auto
  obtain cs1 ix1 where 1: "(case hist_exec pd of
         Some t \<Rightarrow> scan_files py_str busy now W p False t (cs, ix)
       | None \<Rightarrow> (case legacy_exec pd of
                    Some t \<Rightarrow> scan_files py_str busy now W p True t (cs, ix)
                  | None \<Rightarrow> (cs, ix))) = (cs1, ix1)" by fastforce
  have g1: "(\<forall>c\<in>set cs1. genuine py_str W S c) \<and> ix_open ix1 = ix_open ix \<and> running ix1 = running ix"
  proof (cases "hist_exec pd")
    case (Some t)
    have "record_at S p False e = Some f" if "(e, f, m) \<in> set t" for e f m
      using that dist Some pd by (simp add: record_at_def dir_file_def)
    from scan_files_genuine [where old = False, OF this Cons.prems(3)] 1 Some show ?thesis by simp
  next
    case no_hist: None
    show ?thesis
    proof (cases "legacy_exec pd")
      case None
      then show ?thesis using 1 no_hist Cons.prems(3) by auto
    next
      case (Some t)
      have "record_at S p True e = Some f" if "(e, f, m) \<in> set t" for e f m
        using that dist Some pd by (simp add: record_at_def dir_file_def)
      from scan_files_genuine [where old = True, OF this Cons.prems(3)] 1 Some no_hist show ?thesis by simp
    qed
  qed
  have "scan_projects py_str busy now W ps (cs1, ix1) = (cs', ix')"
    using Cons.prems(4) 1 by (simp add: x)
  then show ?case using Cons.IH [of cs1 ix1] Cons.prems(1,2) g1 by (metis list.set_intros(2))
qed

definition wf_store :: "store \<Rightarrow> bool" where
  \<comment> \<open>names in a directory are unique\<close>
  "wf_store S \<longleftrightarrow> distinct (map fst (projects S)) \<and>
     (\<forall>(p, pd)\<in>set (projects S). \<forall>t. hist_exec pd = Some t \<or> legacy_exec pd = Some t \<longrightarrow> distinct (map fst t))"

lemma wf_store_index [simp]: "wf_store (S\<lparr>index := ix\<rparr>) = wf_store S"
  by (simp add: wf_store_def)

lemma scan_disk_genuine:
  assumes "wf_store S" "scan_queued_from_disk py_str busy now W project_id S = (cs, S')"
  shows "(\<forall>c\<in>set cs. genuine py_str W S c) \<and> (\<exists>ix. S' = S\<lparr>index := ix\<rparr> \<and>
           ix_open ix = ix_open (index S) \<and> running ix = running (index S))"
proof -
  let ?dirs = "if project_id \<noteq> [] then filter (\<lambda>(p, pd). p = project_id) (projects S) else projects S"
  obtain cs1 ix1 where s: "scan_projects py_str busy now W ?dirs ([], index S) = (cs1, ix1)" by fastforce
  have sub: "set ?dirs \<subseteq> set (projects S)" by auto
  have a: "pdir_of S p = pd" if "(p, pd) \<in> set ?dirs" for p pd
    using that sub assms(1) by (auto simp: wf_store_def pdir_of_def split: if_splits)
  have b: "distinct (map fst t)" if "(p, pd) \<in> set ?dirs" "hist_exec pd = Some t \<or> legacy_exec pd = Some t" for p pd t
    using that sub assms(1) unfolding wf_store_def by blast
  have "(\<forall>c\<in>set cs1. genuine py_str W S c) \<and> ix_open ix1 = ix_open (index S) \<and> running ix1 = running (index S)"
    using scan_projects_genuine [OF a b _ s] by simp
  then show ?thesis using assms(2) s by (auto simp: scan_queued_from_disk_def Let_def)
qed

lemma scan_index_genuine:
  assumes "\<forall>c\<in>set cs. genuine py_str W S c" "scan_index py_str busy W rows (cs, S) = (cs', S')"
  shows "(\<forall>c\<in>set cs'. genuine py_str W S c) \<and> (\<exists>ix. S' = S\<lparr>index := ix\<rparr> \<and>
           ix_open ix = ix_open (index S) \<and> running ix = running (index S))"
  using assms
proof (induction rows arbitrary: cs S)
  case Nil
  then show ?case by (auto intro: exI [of _ "index S"])
next
  case (Cons row rows)
  obtain e p q where row: "row = (e, p, q)" by (cases row)
  let ?U = "S\<lparr>index := remove_queued_execution e (index S)\<rparr>"
  have U: "?case" if "scan_index py_str busy W rows (cs, ?U) = (cs', S')"
    using Cons.IH [OF _ that] Cons.prems(1) by auto
  have K: "?case" if "scan_index py_str busy W rows (cs, S) = (cs', S')"
    using Cons.IH [OF _ that] Cons.prems(1) by blast
  show ?case
  proof (cases "find_record S p e")
    case None
    then show ?thesis using Cons.prems(2) U by (simp add: row Let_def)
  next
    case (Some x)
    obtain old f where x: "x = (old, f)" by (cases x)
    show ?thesis
    proof (cases "busy p e \<or> f = Corrupt")
      case True
      then show ?thesis using Cons.prems(2) K Some x by (auto simp: row Let_def split: if_splits)
    next
      case False
      then obtain d where d: "f = Doc d" by (cases f) auto
      show ?thesis
      proof (cases "dget d ''status'' = JStr ''QUEUED''")
        case False
        then show ?thesis using Cons.prems(2) U Some x d \<open>\<not> (busy p e \<or> f = Corrupt)\<close>
          by (simp add: row Let_def)
      next
        case True
        let ?c = "\<lparr>c_at = getd d ''queuedAt'' (getd d ''createdAt'' (JNum q)), c_old = old,
                   c_stem = e, c_doc = d, c_project = p\<rparr>"
        let ?cs = "if eligible py_str W d then cs @ [?c] else cs"
        have "\<forall>c\<in>set ?cs. genuine py_str W S c"
          using Cons.prems(1) find_record_at [of S p e old f] Some x d True by (auto simp: genuine_def)
        moreover have "scan_index py_str busy W rows (?cs, S) = (cs', S')"
          using Cons.prems(2) Some x d True \<open>\<not> (busy p e \<or> f = Corrupt)\<close> by (simp add: row Let_def)
        ultimately show ?thesis using Cons.IH by blast
      qed
    qed
  qed
qed

lemma find_queued_genuine:
  assumes "wf_store S" "find_queued py_str busy iv now W project_id S tm = (cs, S', tm')"
  shows "(\<forall>c\<in>set cs. genuine py_str W S c) \<and> (\<exists>ix. S' = S\<lparr>index := ix\<rparr> \<and>
           ix_open ix = ix_open (index S) \<and> running ix = running (index S))"
proof (cases "ix_open (index S)")
  case True
  obtain cs1 S1 where 1: "scan_index py_str busy W (list_queued (Some project_id) 50 (index S)) ([], S) = (cs1, S1)"
    by fastforce
  have g1: "(\<forall>c\<in>set cs1. genuine py_str W S c)" and
    S1: "\<exists>ix. S1 = S\<lparr>index := ix\<rparr> \<and> ix_open ix = ix_open (index S) \<and> running ix = running (index S)"
    using scan_index_genuine [OF _ 1] by auto
  obtain cs2 S2 where 2: "scan_queued_from_disk py_str busy now W project_id S1 = (cs2, S2)" by fastforce
  have "wf_store S1" using assms(1) S1 by auto
  from scan_disk_genuine [OF this 2] S1
  have g2: "(\<forall>c\<in>set cs2. genuine py_str W S c)" and
    S2: "\<exists>ix. S2 = S\<lparr>index := ix\<rparr> \<and> ix_open ix = ix_open (index S) \<and> running ix = running (index S)"
    by auto
  show ?thesis
    using assms(2) True 1 2 g1 g2 S1 S2 by (auto simp: find_queued_def Let_def split: if_splits)
next
  case False
  obtain cs1 S1 where 1: "scan_queued_from_disk py_str busy now W project_id S = (cs1, S1)" by fastforce
  show ?thesis using scan_disk_genuine [OF assms(1) 1] assms(2) False 1 by (simp add: find_queued_def)
qed


subsection \<open>First in, first out\<close>

definition numbered :: "candidate list \<Rightarrow> bool" where
  "numbered cs \<longleftrightarrow> (\<forall>c\<in>set cs. num_of (c_at c) \<noteq> None)"

lemma sort_numbered:
  assumes "numbered cs"
  shows "\<exists>ys. sort_candidates cs = Some ys \<and> set ys = set cs \<and>
           sorted (map (\<lambda>c. the (num_of (c_at c))) ys)"
proof (cases "length cs \<le> 1")
  case True
  then have "cs = [] \<or> (\<exists>c. cs = [c])" by (cases cs) auto
  then show ?thesis using True by (auto simp: sort_candidates_def)
next
  case False
  then show ?thesis using assms by (auto simp: sort_candidates_def numbered_def list_all_iff)
qed

lemma find_sorted_least:
  fixes f :: "'a \<Rightarrow> real"
  assumes "sorted (map f xs)" "find P xs = Some x" "y \<in> set xs" "P y"
  shows "f x \<le> f y"
  using assms by (induction xs) (auto split: if_splits)

lemma active_runs_same_running:
  assumes "get_worker_active_runs_count now w R S = (n, S)" "ix_open ix = ix_open (index S)"
    "running ix = running (index S)"
  shows "get_worker_active_runs_count now w R (S\<lparr>index := ix\<rparr>) = (n, S\<lparr>index := ix\<rparr>)"
proof (cases "running_count_for_worker w (index S)")
  case (Some k)
  then have "running_count_for_worker w ix = Some k"
    using assms(2,3) by (auto simp: running_count_for_worker_def running_rows_of_def split: if_splits)
  then show ?thesis using assms(1) Some
    by (auto simp: get_worker_active_runs_count_def split: option.splits)
next
  case None
  have closed: "w = [] \<or> \<not> ix_open (index S)" using None by (auto simp: running_count_for_worker_def split: if_splits)
  have None': "running_count_for_worker w ix = None"
    using None assms(2,3) by (simp add: running_count_for_worker_def split: if_splits)
  have ff: "fst (count_running_files now w p t (k, i)) = fst (count_running_files now w p t (k, j))" for p t k i j
    by (induction t arbitrary: k i j) (auto split: jfile.split)
  have "fst (count_running_projects now w ps a) = fst (count_running_projects now w ps b)"
    if "fst a = fst b" for ps a b
    using that
  proof (induction ps arbitrary: a b)
    case (Cons x ps)
    obtain p pd where x: "x = (p, pd)" by (cases x)
    have "fst (count_running_files now w p t a) = fst (count_running_files now w p t b)" for t
      using ff [of p t "fst a" "snd a" "snd b"] Cons.prems by (cases a; cases b) (simp only: fst_conv snd_conv)
    then have "fst (case (if hist_exec pd = None then legacy_exec pd else hist_exec pd) of
                 None \<Rightarrow> a | Some t \<Rightarrow> count_running_files now w p t a) =
        fst (case (if hist_exec pd = None then legacy_exec pd else hist_exec pd) of
                 None \<Rightarrow> b | Some t \<Rightarrow> count_running_files now w p t b)"
      using Cons.prems by (cases "if hist_exec pd = None then legacy_exec pd else hist_exec pd") simp_all
    from Cons.IH [OF this] show ?case
      by (cases "if hist_exec pd = None then legacy_exec pd else hist_exec pd") (simp_all add: x del: prod.collapse)
  qed simp
  then have "fst (count_running_projects now w (projects S) (0, index S)) =
      fst (count_running_projects now w (projects S) (0, ix))" by simp
  moreover have "snd (count_running_projects now w (projects S) (0, ix)) = ix"
    using closed assms(2) by (subst count_projects_closed) auto
  moreover obtain a i where a: "count_running_projects now w (projects S) (0, index S) = (a, i)" by fastforce
  moreover obtain b j where b: "count_running_projects now w (projects S) (0, ix) = (b, j)" by fastforce
  ultimately have ab: "a = b" "j = ix" by simp_all
  show ?thesis
  proof (cases "found_worker w R")
    case no: None
    then show ?thesis using assms(1) by (simp add: get_worker_active_runs_count_def)
  next
    case (Some d)
    have "get_worker_active_runs_count now w R S = (a, S\<lparr>index := i\<rparr>)"
      by (simp add: get_worker_active_runs_count_def Some None a)
    then have "n = a" using assms(1) by simp
    then show ?thesis by (simp add: get_worker_active_runs_count_def Some None' b ab)
  qed
qed

text \<open>C11: The claim is first in, first out: with every queue time a number, a slot free and nobody else at work on the records during the call, it succeeds exactly when some candidate has an id, and then it takes a candidate that has an id, that the worker is eligible for, and that no other candidate with an id was queued before.\<close>

theorem claim_is_fifo:
  assumes "wf_store S1"
    and "runs_after_healing now (cl_id W) (real k) R S = (n, S1)" and "n < k"
    and "find_queued py_str busy iv now W project_id S1 tm = (cs, S2, tm')" and "numbered cs"
  shows "case fst (server_claim_next_execution py_str busy fs iv now W project_id (JNum (real k)) R S tm) of
           None \<Rightarrow> \<forall>c\<in>set cs. \<not> truthy (dget (c_doc c) ''id'')
         | Some (e, d, p) \<Rightarrow> \<exists>c\<in>set cs. truthy (dget (c_doc c) ''id'') \<and> e = as_text py_str (dget (c_doc c) ''id'') \<and> p = c_project c \<and>
             eligible py_str W (c_doc c) \<and>
             (\<forall>c'\<in>set cs. truthy (dget (c_doc c') ''id'') \<longrightarrow>
                the (num_of (c_at c)) \<le> the (num_of (c_at c')))"
proof -
  obtain ys where ys: "sort_candidates cs = Some ys" "set ys = set cs"
      "sorted (map (\<lambda>c. the (num_of (c_at c))) ys)" using sort_numbered [OF assms(5)] by blast
  obtain ix where ix: "S2 = S1\<lparr>index := ix\<rparr>" "ix_open ix = ix_open (index S1)" "running ix = running (index S1)"
    and g: "\<forall>c\<in>set cs. genuine py_str W S1 c"
    using find_queued_genuine [OF assms(1,4)] by auto
  have act: "get_worker_active_runs_count now (cl_id W) R S2 = (n, S2)"
    using active_runs_same_running [OF runs_after_healing_value [OF assms(2)] ix(2,3)] assms(3) ix(1) by simp
  have q: "\<forall>c\<in>set ys. \<exists>d. record_at S2 (c_project c) (c_old c) (c_stem c) = Some (Doc d) \<and>
      dget d ''status'' = JStr ''QUEUED''"
    using g ys(2) by (auto simp: genuine_def ix(1))
  note first = claim_loop_first [where py_str = py_str and m = "real k", OF act _ q]
  have top: "fst (server_claim_next_execution py_str busy fs iv now W project_id (JNum (real k)) R S tm) =
      map_option (\<lambda>(e, d, p). (e, attach_worker_transfer_payload py_str fs d, p))
        (fst (claim_loop py_str now W (real k) R ys S2))"
    using assms(2,3,4) ys(1)
    by (auto simp: server_claim_next_execution_def split: prod.split option.split)
  show ?thesis
  proof (cases "find (\<lambda>c. truthy (dget (c_doc c) ''id'')) ys")
    case None
    then have "fst (claim_loop py_str now W (real k) R ys S2) = None" using first assms(3) by simp
    then show ?thesis using None top ys(2) by (auto simp: find_None_iff)
  next
    case (Some c)
    then obtain r S' where r: "claim_loop py_str now W (real k) R ys S2 = (Some r, S')"
        "fst r = as_text py_str (dget (c_doc c) ''id'')" "snd (snd r) = c_project c"
      using first assms(3) by auto
    have c: "c \<in> set cs" "truthy (dget (c_doc c) ''id'')" using Some ys(2) by (auto simp: find_Some_iff)
    have "\<forall>c'\<in>set cs. truthy (dget (c_doc c') ''id'') \<longrightarrow> the (num_of (c_at c)) \<le> the (num_of (c_at c'))"
      using find_sorted_least [OF ys(3) Some] ys(2) by auto
    then show ?thesis using top r c g by (cases r) (auto simp: genuine_def)
  qed
qed

definition no_files :: file_system where
  "no_files = \<lparr>fs_read = (\<lambda>_. None), fs_exists = (\<lambda>_. False), fs_rglob = (\<lambda>_ _. None),
               fs_tree = (\<lambda>_. None), fs_vaults = (\<lambda>_. None), fs_vault_key = (\<lambda>_ _. None)\<rparr>"

definition queue_doc :: "string \<Rightarrow> json \<Rightarrow> doc" where
  "queue_doc e t = [(''id'', JStr e), (''status'', JStr ''QUEUED''), (''queuedAt'', t)]"

definition queue_store :: "json \<Rightarrow> store" where
  \<comment> \<open>two queued executions of a project, the later one listed first\<close>
  "queue_store t =
     \<lparr>projects = [(''p1'', empty_pdir\<lparr>hist_exec := Some
        [(''e2'', (Doc (queue_doc ''e2'' (JNum 2)), 0)), (''e1'', (Doc (queue_doc ''e1'' t), 0))]\<rparr>)],
      index = empty_index\<lparr>queued := [(''e2'', \<lparr>q_project = ''p1'', q_at = 2, q_requirements = []\<rparr>),
                                   (''e1'', \<lparr>q_project = ''p1'', q_at = 1, q_requirements = []\<rparr>)]\<rparr>\<rparr>"

definition queue_claimer :: claimer where
  "queue_claimer = \<lparr>cl_id = ''w1'', cl_data = [(''id'', JStr ''w1'')], cl_tags = JNull\<rparr>"

definition queue_registry :: registry where
  "queue_registry = empty_registry\<lparr>wfiles := [(''w1'', Doc [(''id'', JStr ''w1'')])]\<rparr>"

definition queue_candidate :: "string \<Rightarrow> json \<Rightarrow> candidate" where
  "queue_candidate e t = \<lparr>c_at = t, c_old = False, c_stem = e, c_doc = queue_doc e t, c_project = ''p1''\<rparr>"

lemma queue_runs:
  "runs_after_healing now (cl_id queue_claimer) (real (Suc 0)) queue_registry (queue_store t) = (0, queue_store t)"
  by (simp add: runs_after_healing_def get_worker_active_runs_count_def running_count_for_worker_def
      running_rows_of_def queue_store_def queue_registry_def queue_claimer_def found_worker_def
      load_worker_def empty_index_def empty_registry_def)

lemma queue_found:
  "find_queued (\<lambda>_. []) (\<lambda>_ _. False) 60 9 queue_claimer [] (queue_store t) [] =
     ([queue_candidate ''e1'' t, queue_candidate ''e2'' (JNum 2)], queue_store t, [])"
  by (simp add: find_queued_def queue_store_def empty_index_def list_queued_def sql_limit_def
      find_record_def dir_file_def pdir_of_def queue_doc_def eligible_def
      check_execution_requirements_def tags_match_def queue_candidate_def Let_def py_or_def)

lemma queue_wf: "wf_store (queue_store t)"
  by (simp add: wf_store_def queue_store_def empty_pdir_def)

lemma claim_is_fifo_witness:
  "case fst (server_claim_next_execution (\<lambda>_. []) (\<lambda>_ _. False) no_files 60 9 queue_claimer [] (JNum (real (Suc 0)))
          queue_registry (queue_store (JNum 1)) []) of
     None \<Rightarrow> \<forall>c\<in>set [queue_candidate ''e1'' (JNum 1), queue_candidate ''e2'' (JNum 2)].
              \<not> truthy (dget (c_doc c) ''id'')
   | Some (e, d, p) \<Rightarrow> \<exists>c\<in>set [queue_candidate ''e1'' (JNum 1), queue_candidate ''e2'' (JNum 2)].
       truthy (dget (c_doc c) ''id'') \<and> e = as_text (\<lambda>_. []) (dget (c_doc c) ''id'') \<and> p = c_project c \<and>
       eligible (\<lambda>_. []) queue_claimer (c_doc c) \<and>
       (\<forall>c'\<in>set [queue_candidate ''e1'' (JNum 1), queue_candidate ''e2'' (JNum 2)].
          truthy (dget (c_doc c') ''id'') \<longrightarrow> the (num_of (c_at c)) \<le> the (num_of (c_at c')))"
  by (rule claim_is_fifo [OF queue_wf queue_runs _ queue_found])
    (simp_all add: numbered_def queue_candidate_def)

subsection \<open>Capacity\<close>

lemma claim_loop_Some:
  assumes "claim_loop py_str now W m R cs S = (Some (e, d, p), S')" "ix_open (index S)"
  shows "\<exists>c S0. c \<in> set cs \<and> ix_open (index S0) \<and> try_claim py_str now W m R c S0 = (Some (e, d, p), S')"
  using assms
proof (induction cs arbitrary: S)
  case Nil
  then show ?case by simp
next
  case (Cons c cs)
  obtain r S1 where t: "try_claim py_str now W m R c S = (r, S1)" by fastforce
  show ?case
  proof (cases r)
    case (Some x)
    then show ?thesis using Cons.prems t by auto
  next
    case None
    then have "heals S S1" using try_claim_None t heals_runs by (metis heals_refl)
    then have "ix_open (index S1)" using Cons.prems(2) by (simp add: heals_def)
    then obtain c' S0 where "c' \<in> set cs" "ix_open (index S0)"
        "try_claim py_str now W m R c' S0 = (Some (e, d, p), S')"
      using Cons.IH [of S1] Cons.prems(1) t None by auto
    then show ?thesis by (meson list.set_intros(2))
  qed
qed

text \<open>C12: A claim never gives a worker more executions than its limit: after a successful claim the index counts at most \<open>k\<close> running executions of the worker.\<close>

theorem claim_respects_limit:
  assumes "ix_open (index S)" "cl_id W \<noteq> []" "found_worker (cl_id W) R \<noteq> None"
    and "server_claim_next_execution py_str busy fs iv now W project_id (JNum (real k)) R S tm = (Some r, S', tm')"
    and "wf_store (snd (runs_after_healing now (cl_id W) (real k) R S))"
  shows "length (running_rows_of (cl_id W) (index S')) \<le> k"
proof -
  obtain n S1 where h: "runs_after_healing now (cl_id W) (real k) R S = (n, S1)" by fastforce
  obtain cs S2 tm2 where f: "find_queued py_str busy iv now W project_id S1 tm = (cs, S2, tm2)"
    by (cases "find_queued py_str busy iv now W project_id S1 tm")
  have "ix_open (index S1)" using heals_runs [OF h] assms(1) by (simp add: heals_def)
  then have o2: "ix_open (index S2)" using find_queued_genuine [OF _ f] assms(5) h by auto
  obtain e d p ys where l: "claim_loop py_str now W (real k) R ys S2 = (Some (e, d, p), S')"
    using assms(4) h f
    by (auto simp: server_claim_next_execution_def split: if_splits option.splits prod.splits)
  obtain c S0 where t: "try_claim py_str now W (real k) R c S0 = (Some (e, d, p), S')" "ix_open (index S0)"
    using claim_loop_Some [OF l o2] by auto
  obtain n3 S3 d3 where 3: "runs_after_healing now (cl_id W) (real k) R S0 = (n3, S3)" "n3 < k"
      "S' = (write_record now p (c_old c) (c_stem c) d3 S3)
            \<lparr>index := mark_running_execution now e p (JStr (cl_id W)) (py_or (JNum now) (JNum now)) (index S3)\<rparr>"
    using try_claim_Some [OF t(1)] by auto
  have o3: "ix_open (index S3)" using heals_runs [OF 3(1)] t(2) by (simp add: heals_def)
  have n3: "n3 = length (running_rows_of (cl_id W) (index S3))"
    using runs_after_healing_value [OF 3(1)] 3(2) active_runs_indexed [OF o3 assms(2,3)] by simp
  have "length (running_rows_of (cl_id W) (mark_running_execution now e p (JStr (cl_id W))
            (py_or (JNum now) (JNum now)) (index S3))) \<le> Suc n3"
  proof (cases "e = [] \<or> p = []")
    case True
    then show ?thesis using n3 by (auto simp: mark_running_execution_def)
  next
    case False
    have "\<exists>ts. float_or now (py_or (JNum now) (JNum now)) = Some ts" by (auto simp: float_or_def py_or_def)
    then obtain ts where ts: "float_or now (py_or (JNum now) (JNum now)) = Some ts" ..
    show ?thesis
      using mark_running_tables(1) [OF o3 _ _ assms(2) ts, of e p] False n3 running_count_tput_le by simp
  qed
  then show ?thesis using 3 by simp
qed

lemma claim_respects_limit_witness:
  "\<exists>r S' tm'. server_claim_next_execution (\<lambda>_. []) (\<lambda>_ _. False) no_files 60 9 queue_claimer [] (JNum (real (Suc 0)))
        queue_registry (queue_store (JNum 1)) [] = (Some r, S', tm') \<and>
     length (running_rows_of ''w1'' (index S')) \<le> Suc 0"
proof -
  let ?call = "server_claim_next_execution (\<lambda>_. []) (\<lambda>_ _. False) no_files 60 9 queue_claimer [] (JNum (real (Suc 0)))
        queue_registry (queue_store (JNum 1)) []"
  let ?c1 = "queue_candidate ''e1'' (JNum 1)" and ?c2 = "queue_candidate ''e2'' (JNum 2)"
  have s: "sort_candidates [?c1, ?c2] = Some [?c1, ?c2]"
    by (simp add: sort_candidates_def queue_candidate_def)
  have "\<exists>r S'. try_claim (\<lambda>_. []) 9 queue_claimer (real (Suc 0)) queue_registry ?c1 (queue_store (JNum 1)) = (Some r, S')"
  proof -
    have "get_worker_active_runs_count 9 (cl_id queue_claimer) queue_registry (queue_store (JNum 1)) = (0, queue_store (JNum 1))"
      by (rule runs_after_healing_value [OF queue_runs]) simp
    moreover have "record_at (queue_store (JNum 1)) (c_project ?c1) (c_old ?c1) (c_stem ?c1) = Some (Doc (queue_doc ''e1'' (JNum 1)))"
      by (simp add: record_at_def queue_candidate_def queue_store_def dir_file_def pdir_of_def)
    moreover have "truthy (dget (c_doc ?c1) ''id'')" "dget (queue_doc ''e1'' (JNum 1)) ''status'' = JStr ''QUEUED''"
      by (simp_all add: queue_candidate_def queue_doc_def)
    ultimately show ?thesis
      using try_claim_ready [of ?c1 "queue_store (JNum 1)" "queue_doc ''e1'' (JNum 1)" 9 queue_claimer
        queue_registry 0 "real (Suc 0)" "\<lambda>_. []"] by simp blast
  qed
  then obtain r S' where "try_claim (\<lambda>_. []) 9 queue_claimer (real (Suc 0)) queue_registry ?c1 (queue_store (JNum 1)) = (Some r, S')"
    by blast
  then have c: "claim_loop (\<lambda>_. []) 9 queue_claimer (real (Suc 0)) queue_registry [?c1, ?c2] (queue_store (JNum 1)) = (Some r, S')"
    by simp
  have "\<exists>r tm'. ?call = (Some r, S', tm')"
    using queue_runs [of 9 "JNum 1"] queue_found [of "JNum 1"] s c
    by (cases r) (simp add: server_claim_next_execution_def del: of_nat_Suc)
  then obtain r tm' where call: "?call = (Some r, S', tm')" by blast
  have "length (running_rows_of (cl_id queue_claimer) (index S')) \<le> Suc 0"
    by (rule claim_respects_limit [OF _ _ _ call])
      (use queue_wf queue_runs [of 9 "JNum 1"] in \<open>simp_all add: queue_store_def queue_claimer_def
        queue_registry_def empty_index_def found_worker_def load_worker_def\<close>)
  then have "length (running_rows_of ''w1'' (index S')) \<le> Suc 0" by (simp add: queue_claimer_def)
  with call show ?thesis by blast
qed

subsection \<open>A record without a queue time\<close>

text \<open>One queued record whose queue time is null blocks the queue for everyone: as soon as two records are candidates and one of them carries null, sorting raises, the exception is swallowed, and the claim hands out nothing.\<close>

theorem null_queue_time_blocks:
  assumes "runs_after_healing now (cl_id W) m R S = (n, S1)" "real n < m"
    and "find_queued py_str busy iv now W project_id S1 tm = (cs, S2, tm')"
    and "c \<in> set cs" "c_at c = JNull" "length cs \<ge> 2"
  shows "server_claim_next_execution py_str busy fs iv now W project_id (JNum m) R S tm = (None, S2, tm')"
proof -
  have "\<not> list_all (\<lambda>c. num_of (c_at c) \<noteq> None) cs" "\<not> list_all (\<lambda>c. str_of (c_at c) \<noteq> None) cs"
    using assms(4,5) by (force simp: list_all_iff)+
  then have "sort_candidates cs = None" using assms(6) by (simp add: sort_candidates_def)
  then show ?thesis using assms(1-3) by (simp add: server_claim_next_execution_def)
qed

lemma null_queue_time_blocks_witness:
  "server_claim_next_execution (\<lambda>_. []) (\<lambda>_ _. False) no_files 60 9 queue_claimer [] (JNum (real (Suc 0)))
     queue_registry (queue_store JNull) [] = (None, queue_store JNull, [])"
  by (rule null_queue_time_blocks [OF queue_runs _ queue_found, where c = "queue_candidate ''e1'' JNull"])
    (simp_all add: queue_candidate_def)

end
