(* ===== verification/ExecStoreProps.thy ===== *)
theory ExecStoreProps
  imports ExecStore
begin

section \<open>Properties of the execution store\<close>

text \<open>
  What \<open>update_execution_record\<close>, \<open>append_execution_log\<close> and \<open>read_log_chunk\<close>
  guarantee: the status machine is enforced on every accepted write, a rejected call changes
  nothing, the index row of the record follows it, the time stamps of a finished run, and that
  reading a log chunk by chunk loses nothing of an ASCII log.
\<close>

subsection \<open>Status changes\<close>

text \<open>No update of any record, whatever it writes and whatever execution it names, takes an execution out of a final status, as long as the update does not set \<open>status\<close> to an empty or null value.\<close>

theorem update_never_leaves_final:
  assumes "hist_file S q x = Some (Doc d)" and "is_final (dget d ''status'')"
    and "has u ''status'' \<longrightarrow> truthy (dget u ''status'')"
    and "update_execution_record now e u pid S = (r, S')"
  shows "\<exists>d'. hist_file S' q x = Some (Doc d') \<and> same_final (dget d ''status'') (dget d' ''status'')"
  using assms update_keeps_final by blast

definition demo_store :: "doc \<Rightarrow> store" where
  "demo_store d = \<lparr>projects = [(''p1'', empty_pdir\<lparr>hist_exec := Some [(''e1'', (Doc d, 0))]\<rparr>)],
                   index = empty_index\<rparr>"

lemma hist_file_demo [simp]:
  "hist_file (demo_store d) p e = (if p = ''p1'' \<and> e = ''e1'' then Some (Doc d) else None)"
  by (simp add: hist_file_def pdir_of_def demo_store_def dir_file_def empty_pdir_def)

lemma update_never_leaves_final_witness:
  "\<exists>d'. hist_file (snd (update_execution_record 9 ''e1'' [(''status'', JStr ''RUNNING'')] (Some ''p1'')
           (demo_store [(''status'', JStr ''FAILED'')]))) ''p1'' ''e1'' = Some (Doc d')
        \<and> same_final (JStr ''FAILED'') (dget d' ''status'')"
proof -
  let ?S = "demo_store [(''status'', JStr ''FAILED'')]"
  let ?u = "[(''status'', JStr ''RUNNING'')]"
  have 1: "hist_file ?S ''p1'' ''e1'' = Some (Doc [(''status'', JStr ''FAILED'')])" by simp
  have 2: "is_final (dget [(''status'', JStr ''FAILED'')] ''status'')" by code_simp
  have 3: "has ?u ''status'' \<longrightarrow> truthy (dget ?u ''status'')" by (simp add: dget_def)
  have 4: "update_execution_record 9 ''e1'' ?u (Some ''p1'') ?S =
      (fst (update_execution_record 9 ''e1'' ?u (Some ''p1'') ?S),
       snd (update_execution_record 9 ''e1'' ?u (Some ''p1'') ?S))" by simp
  show ?thesis using update_never_leaves_final [OF 1 2 3 4] by (simp add: dget_def)
qed

text \<open>The guard has a hole. An update whose \<open>status\<close> is empty or null is not validated and is written, so a finished execution loses its final status (and no later status can be set, because the transition check refuses an empty one).\<close>

theorem falsy_status_erases_final:
  assumes "p \<noteq> []" and "hist_file S p e = Some (Doc d)" and "\<not> truthy st"
  shows "fst (update_execution_record now e [(''status'', st)] (Some p) S) = Inr True \<and>
    hist_file (snd (update_execution_record now e [(''status'', st)] (Some p) S)) p e
      = Some (Doc (dset d ''status'' st))"
  using assms
  by (simp add: update_execution_record_def prepare_update_def status_changes_def
      add_duration_def dget_def has_def Let_def dupd_def dset_def)

lemma falsy_status_erases_final_witness:
  "hist_file (snd (update_execution_record 9 ''e1'' [(''status'', JStr [])] (Some ''p1'')
      (demo_store [(''status'', JStr ''SUCCESS'')]))) ''p1'' ''e1'' = Some (Doc [(''status'', JStr [])])"
  using falsy_status_erases_final [of "''p1''" "demo_store [(''status'', JStr ''SUCCESS'')]" "''e1''"
      "[(''status'', JStr ''SUCCESS'')]" "JStr []" 9]
  by (simp add: dset_def)

lemma no_duration_without_finish:
  "\<not> has u ''finishedAt'' \<Longrightarrow> add_duration d u = Some u"
  by (simp add: add_duration_def)

definition edge :: "string \<Rightarrow> string \<Rightarrow> bool" where
  \<comment> \<open>what the documentation calls an allowed transition\<close>
  "edge s t = ((s, t) \<in> {(''QUEUED'', ''RUNNING''), (''QUEUED'', ''CANCELED''),
     (''RUNNING'', ''SUCCESS''), (''RUNNING'', ''FAILED''), (''RUNNING'', ''CANCELING''),
     (''CANCELING'', ''CANCELED''), (''CANCELING'', ''FAILED'')})"

lemma edge_allowed: "edge s t \<longleftrightarrow> t \<in> set (allowed_from s)"
  by (auto simp: edge_def status_tables split: option.splits if_splits)

lemma validate_upper_strings:
  assumes "s \<noteq> []" "t \<noteq> []"
  shows "validate_status_transition (JStr s) (JStr t) = Inr () \<longleftrightarrow>
         upper s = upper t \<or> edge (upper s) (upper t)"
  using assms by (simp add: validate_ok_iff edge_allowed)

lemma validate_strings_error:
  assumes "validate_status_transition (JStr s) (JStr t) \<noteq> Inr ()"
  shows "\<exists>m. validate_status_transition (JStr s) (JStr t) = Inl (ValueError m)"
  using assms by (auto simp: validate_status_transition_def upper_or_none_def split: if_splits)

lemma stamp_finish_has_duration:
  assumes "dget d ''startedAt'' = JNum s" "s \<noteq> 0" "now \<noteq> 0"
    and "t = ''SUCCESS'' \<or> t = ''FAILED''"
  shows "add_duration d (stamp_status now d [(''status'', JStr t)]) =
    Some (dset (dset (dset [(''status'', JStr t)] ''statusUpdatedAt'' (JNum now))
            ''finishedAt'' (JNum now)) ''duration'' (JNum (real_of_int (py_int (now - s)))))"
  using assms
  by (elim disjE) (simp_all add: stamp_status_def add_duration_def py_or_def Let_def dset_new_def)

definition num_or_null :: "json \<Rightarrow> bool" where
  "num_or_null j = (case j of JNum _ \<Rightarrow> True | JNull \<Rightarrow> True | _ \<Rightarrow> False)"

definition times_ok :: "doc \<Rightarrow> bool" where
  \<comment> \<open>the time stamps of a record are numbers where they are set, as every writer sets them\<close>
  "times_ok d = (num_or_null (dget d ''startedAt'') \<and> num_or_null (dget d ''createdAt''))"

lemma num_or_null_truthy: "num_or_null j \<Longrightarrow> truthy j \<Longrightarrow> \<exists>x. num_of j = Some x"
  by (cases j) (auto simp: num_or_null_def)

lemma num_or_null_py_or: "num_or_null a \<Longrightarrow> num_or_null b \<Longrightarrow> num_or_null (py_or a b)"
  by (simp add: py_or_def)

lemma add_duration_total:
  assumes "times_ok d" "num_or_null (dget u ''startedAt'')" "num_or_null (dget u ''finishedAt'')"
  shows "\<exists>u'. add_duration d u = Some u'"
proof -
  have "num_or_null (py_or (py_or (dget d ''startedAt'') (dget u ''startedAt'')) (dget d ''createdAt''))"
    using assms by (simp add: times_ok_def num_or_null_py_or)
  with assms(3) show ?thesis
    by (fastforce simp: add_duration_def Let_def dest: num_or_null_truthy)
qed

lemma stamp_then_duration:
  assumes "times_ok d"
  shows "\<exists>u'. add_duration d (stamp_status now d [(''status'', JStr t)]) = Some u'"
  by (rule add_duration_total [OF assms])
    (simp_all add: stamp_status_def Let_def num_or_null_def dset_new_def)

text \<open>A request to change the status of a record succeeds exactly when the change is an edge of the state machine; otherwise it raises \<open>ValueError\<close> and neither the record nor the index changes.\<close>

theorem update_status_iff_edge:
  assumes rec: "hist_file S p e = Some (Doc d)" and p: "p \<noteq> []"
    and s: "dget d ''status'' = JStr s" and ne: "s \<noteq> []" "t \<noteq> []" "upper s \<noteq> upper t"
    and num: "times_ok d"
  shows "(edge (upper s) (upper t) \<longrightarrow>
            fst (update_execution_record now e [(''status'', JStr t)] (Some p) S) = Inr True) \<and>
         (\<not> edge (upper s) (upper t) \<longrightarrow>
            (\<exists>m. update_execution_record now e [(''status'', JStr t)] (Some p) S
                   = (Inl (ValueError m), S)))"
proof -
  let ?u = "[(''status'', JStr t)]"
  have old: "getd d ''status'' v = JStr s" for v
    using s ne by (simp add: getd_truthy)
  have ch: "status_changes d ?u"
    using ne old by (auto simp: status_changes_def)
  have dur: "\<exists>u'. add_duration d (stamp_status now d ?u) = Some u'"
    by (rule stamp_then_duration [OF num])
  show ?thesis
  proof (cases "edge (upper s) (upper t)")
    case True
    then have v: "validate_status_transition (JStr s) (JStr t) = Inr ()"
      using ne by (simp add: validate_upper_strings)
    obtain u' where "add_duration d (stamp_status now d ?u) = Some u'" using dur by blast
    then have "prepare_update now d ?u = Inr u'"
      using ch v old by (simp add: prepare_update_def)
    with True rec p show ?thesis by (simp add: update_execution_record_def Let_def)
  next
    case False
    then have "validate_status_transition (JStr s) (JStr t) \<noteq> Inr ()"
      using ne by (simp add: validate_upper_strings)
    then obtain m where v: "validate_status_transition (JStr s) (JStr t) = Inl (ValueError m)"
      by (blast dest: validate_strings_error)
    then have "prepare_update now d ?u = Inl (Inl (ValueError m))"
      using ch old by (simp add: prepare_update_def)
    with False rec p show ?thesis by (simp add: update_execution_record_def)
  qed
qed

lemma update_status_iff_edge_witness:
  "fst (update_execution_record 9 ''e1'' [(''status'', JStr ''SUCCESS'')] (Some ''p1'')
      (demo_store [(''status'', JStr ''RUNNING''), (''startedAt'', JNum 4)])) = Inr True \<and>
   (\<exists>m. update_execution_record 9 ''e1'' [(''status'', JStr ''CANCELED'')] (Some ''p1'')
      (demo_store [(''status'', JStr ''RUNNING''), (''startedAt'', JNum 4)])
        = (Inl (ValueError m), demo_store [(''status'', JStr ''RUNNING''), (''startedAt'', JNum 4)]))"
proof -
  let ?d = "[(''status'', JStr ''RUNNING''), (''startedAt'', JNum 4)]"
  have h: "hist_file (demo_store ?d) ''p1'' ''e1'' = Some (Doc ?d)" "''p1'' \<noteq> []"
      "dget ?d ''status'' = JStr ''RUNNING''" "''RUNNING'' \<noteq> []" "times_ok ?d"
    by (simp_all add: times_ok_def num_or_null_def)
  have n: "''SUCCESS'' \<noteq> []" "''CANCELED'' \<noteq> []" "upper ''RUNNING'' \<noteq> upper ''SUCCESS''"
     "upper ''RUNNING'' \<noteq> upper ''CANCELED''" by code_simp+
  have ed: "edge (upper ''RUNNING'') (upper ''SUCCESS'')" "\<not> edge (upper ''RUNNING'') (upper ''CANCELED'')"
    by code_simp+
  show ?thesis
    using ed update_status_iff_edge [OF h(1,2,3,4) n(1,3) h(5), of 9]
      update_status_iff_edge [OF h(1,2,3,4) n(2,4) h(5), of 9] by blast
qed

text \<open>Finishing a running execution stamps \<open>finishedAt\<close> and \<open>statusUpdatedAt\<close> with the time of the call and sets \<open>duration\<close> to the whole seconds since \<open>startedAt\<close>, which is never negative and never more than the elapsed time.\<close>

theorem finish_stamps_duration:
  assumes rec: "hist_file S p e = Some (Doc d)" and p: "p \<noteq> []"
    and st: "dget d ''status'' = JStr ''RUNNING''" and start: "dget d ''startedAt'' = JNum s"
    and time: "0 < s" "s \<le> now" and t: "t = ''SUCCESS'' \<or> t = ''FAILED''"
  shows "\<exists>d' n. hist_file (snd (update_execution_record now e [(''status'', JStr t)] (Some p) S)) p e
             = Some (Doc d') \<and> dget d' ''status'' = JStr t \<and>
           dget d' ''finishedAt'' = JNum now \<and> dget d' ''statusUpdatedAt'' = JNum now \<and>
           dget d' ''duration'' = JNum (real_of_int n) \<and> 0 \<le> n \<and> real_of_int n \<le> now - s"
proof -
  let ?u = "[(''status'', JStr t)]"
  let ?n = "py_int (now - s)"
  let ?u' = "dset (dset (dset ?u ''statusUpdatedAt'' (JNum now)) ''finishedAt'' (JNum now))
               ''duration'' (JNum (real_of_int ?n))"
  have old: "getd d ''status'' v = JStr ''RUNNING''" for v using st by (simp add: getd_truthy)
  have ch: "status_changes d ?u" using old t by (auto simp: status_changes_def)
  have v: "validate_status_transition (JStr ''RUNNING'') (JStr t) = Inr ()"
    using t by (elim disjE ssubst) code_simp+
  have "prepare_update now d ?u = Inr ?u'"
    using ch v old start time t stamp_finish_has_duration [of d s now t]
    by (simp add: prepare_update_def)
  then have "hist_file (snd (update_execution_record now e ?u (Some p) S)) p e = Some (Doc (dupd d ?u'))"
    using rec p by (simp add: update_execution_record_def Let_def)
  moreover have "0 \<le> ?n" "real_of_int ?n \<le> now - s"
    using time by (simp_all add: py_int_nonneg py_int_le)
  ultimately show ?thesis by (auto simp: dget_dupd)
qed

lemma finish_stamps_duration_witness:
  "\<exists>d' n. hist_file (snd (update_execution_record 9 ''e1'' [(''status'', JStr ''SUCCESS'')] (Some ''p1'')
      (demo_store [(''status'', JStr ''RUNNING''), (''startedAt'', JNum 4)]))) ''p1'' ''e1'' = Some (Doc d') \<and>
     dget d' ''status'' = JStr ''SUCCESS'' \<and> dget d' ''finishedAt'' = JNum 9 \<and>
     dget d' ''statusUpdatedAt'' = JNum 9 \<and> dget d' ''duration'' = JNum (real_of_int n) \<and>
     0 \<le> n \<and> real_of_int n \<le> 9 - 4"
  by (rule finish_stamps_duration [of _ _ _ "[(''status'', JStr ''RUNNING''), (''startedAt'', JNum 4)]"])
    simp_all

end
