(* ===== verification/ExecHistoryProps.thy ===== *)
theory ExecHistoryProps
  imports ExecHistory ExecStoreProps
begin

section \<open>Properties of the execution history\<close>

text \<open>
  A created record is read back and indexed; the retention policy by count keeps exactly the
  newest records and the one by size deletes the oldest ones and no more than it must; two
  properties state how deletion behaves where it falls short of its purpose.
\<close>

subsection \<open>Creation\<close>

lemma dget_copy_key [simp]:
  "dget (copy_key k data ex) k' = (if k = k' \<and> has data k then dget data k else dget ex k')"
  by (simp add: copy_key_def)

lemma dget_copy_truthy [simp]:
  "dget (copy_truthy k data ex) k' = (if k = k' \<and> truthy (dget data k) then dget data k else dget ex k')"
  by (simp add: copy_truthy_def)

lemma dget_copy_run_params [simp]:
  "k' \<noteq> ''runParams'' \<Longrightarrow> k' \<noteq> ''stage'' \<Longrightarrow> dget (copy_run_params data ex) k' = dget ex k'"
  by (auto simp: copy_run_params_def Let_def split: json.split)

lemma new_execution_fields:
  "dget (new_execution now e p st data) ''status'' = JStr st"
  "dget (new_execution now e p st data) ''id'' = JStr e"
  "dget (new_execution now e p st data) ''projectId'' = p"
  "dget (new_execution now e p st data) ''createdAt'' = JNum now"
  "dget (new_execution now e p st data) ''statusUpdatedAt'' = JNum now"
  by (simp_all add: new_execution_def Let_def)

lemma new_execution_times:
  "dget (new_execution now e p ''QUEUED'' data) ''queuedAt'' = JNum now"
  "dget (new_execution now e p ''RUNNING'' data) ''startedAt'' = JNum now"
  by (simp_all add: new_execution_def Let_def)

lemma new_execution_worker:
  "st \<in> {''QUEUED'', ''RUNNING''} \<Longrightarrow>
   dget (new_execution now e p st data) ''workerId'' = dget data ''workerId''"
  by (auto simp: new_execution_def Let_def dget_not_has)

lemma initial_status_cases: "initial_status s \<in> {''QUEUED'', ''RUNNING''}"
  by (simp add: initial_status_def)

lemma float_or_now [simp]: "float_or now (py_or (JNum x) (JNum now)) = Some (if x = 0 then now else x)"
  by (simp add: float_or_def py_or_def)

lemma index_new_execution_agrees:
  assumes opn: "ix_open ix" and ne: "e \<noteq> []" "p \<noteq> []"
    and fresh: "map_of (queued ix) e = None" "map_of (running ix) e = None"
    and st: "st \<in> {''QUEUED'', ''RUNNING''}" and w: "sql_bindable (dget data ''workerId'')"
    and rec: "hist_file S p e = Some (Doc (new_execution now e pj st data))"
  shows "index_agrees (S\<lparr>index := index_new_execution now e p st
                          (new_execution now e pj st data) ix\<rparr>) p e"
proof -
  let ?ex = "new_execution now e pj st data"
  have f: "dget ?ex ''status'' = JStr st" "dget ?ex ''workerId'' = dget data ''workerId''"
      "dget ?ex ''statusUpdatedAt'' = JNum now"
    using st by (simp_all add: new_execution_fields new_execution_worker)
  from st consider "st = ''QUEUED''" | "st = ''RUNNING''" by blast
  then show ?thesis
  proof cases
    case 1
    with assms f show ?thesis
      by (simp add: index_agrees_def index_new_execution_def Let_def new_execution_times
          add_queued_execution_def)
  next
    case 2
    with assms f show ?thesis
      by (auto simp: index_agrees_def index_new_execution_def Let_def new_execution_times
          mark_running_execution_def)
  qed
qed

text \<open>Creating an execution stores a record in state \<open>QUEUED\<close> or \<open>RUNNING\<close> that is read back under its id, and enters it in the queue or among the running executions of the index exactly as its status says.\<close>

theorem create_then_get:
  assumes "project_id = Some p" "p \<noteq> []" "uuid \<noteq> []" "ix_open (index S)"
    and "map_of (queued (index S)) uuid = None" "map_of (running (index S)) uuid = None"
    and "getd data ''status'' (JStr ''QUEUED'') = JStr s" "sql_bindable (dget data ''workerId'')"
    and "create_execution_record now uuid data project_id None S = (r, S')"
  shows "r = Inr uuid \<and>
    (\<exists>d. get_execution uuid (Some p) S' = Some d \<and> dget d ''id'' = JStr uuid \<and>
         dget d ''projectId'' = JStr p \<and>
         dget d ''status'' = JStr (if upper s = ''RUNNING'' then ''RUNNING'' else ''QUEUED'')) \<and>
    index_agrees S' p uuid"
proof -
  let ?st = "initial_status (upper s)"
  let ?ex = "new_execution now uuid (JStr p) ?st data"
  let ?S1 = "put_hist now p uuid ?ex S"
  have S': "S' = ?S1\<lparr>index := index_new_execution now uuid p ?st ?ex (index S)\<rparr>" and r: "r = Inr uuid"
    using assms by (auto simp: create_execution_record_def Let_def)
  have "get_execution uuid (Some p) S' = Some ?ex"
    using assms(2) by (simp add: S' get_execution_def)
  moreover have "?st = (if upper s = ''RUNNING'' then ''RUNNING'' else ''QUEUED'')"
    by (simp add: initial_status_def)
  moreover have "index_agrees S' p uuid"
    unfolding S' using assms initial_status_cases
    by (intro index_new_execution_agrees) auto
  ultimately show ?thesis using r by (auto simp: new_execution_fields)
qed

definition empty_store :: store where
  "empty_store = \<lparr>projects = [], index = empty_index\<rparr>"

lemma create_then_get_witness:
  "fst (create_execution_record 5 ''u1'' [] (Some ''p1'') None empty_store) = Inr ''u1'' \<and>
   index_agrees (snd (create_execution_record 5 ''u1'' [] (Some ''p1'') None empty_store)) ''p1'' ''u1''"
proof -
  obtain r S' where c: "create_execution_record 5 ''u1'' [] (Some ''p1'') None empty_store = (r, S')"
    by fastforce
  have s: "getd [] ''status'' (JStr ''QUEUED'') = JStr ''QUEUED''" "sql_bindable (dget [] ''workerId'')"
    by (simp_all add: sql_bindable_def)
  show ?thesis
    using create_then_get [of "Some ''p1''" "''p1''" "''u1''" empty_store "[]" "''QUEUED''" 5 r S'] c s
    by (simp add: empty_store_def empty_index_def)
qed

subsection \<open>Retention by count\<close>

definition consistent_dir :: "exec_dir \<Rightarrow> bool" where
  \<comment> \<open>every file holds a readable record whose id is the name of the file, names are unique\<close>
  "consistent_dir t \<longleftrightarrow> distinct (map fst t) \<and>
     (\<forall>(e, f, m)\<in>set t. \<exists>d. f = Doc d \<and> dget d ''id'' = JStr e \<and> has d ''id'')"

lemma list_all_executions:
  assumes "p \<noteq> []" "hist_exec (pdir_of S p) = Some t"
  shows "list_executions py_str None 0 None None (Some p) S = Inr (readable (newest_first t))"
  using assms by (simp add: list_executions_def window_def list_filter_def)

lemma newest_first_filter:
  "newest_first (filter P t) = filter P (newest_first t)"
  unfolding newest_first_def by (simp add: filter_sort)

lemma tdel_filter: "tdel e t = filter (\<lambda>kv. fst kv \<noteq> e) t"
  by (auto simp: tdel_def AList.delete_eq intro: filter_cong)

lemma readable_consistent:
  assumes "\<forall>(e, f, m)\<in>set t. \<exists>d. f = Doc d \<and> dget d ''id'' = JStr e \<and> has d ''id''"
  shows "map (exec_id py_str) (readable t) = map (Inr \<circ> fst) t \<and> length (readable t) = length t"
  using assms
proof (induction t)
  case Nil
  then show ?case by (simp add: readable_def)
next
  case (Cons x t)
  then show ?case by (cases x) (auto simp: readable_def exec_id_def)
qed

lemma readable_append: "readable (xs @ ys) = readable xs @ readable ys"
  by (induction xs) (auto simp: readable_def List.map_filter_simps split: option.split)

lemma hist_exec_delete:
  assumes "p \<noteq> []" "hist_exec (pdir_of S p) = Some t"
  shows "hist_exec (pdir_of (snd (delete_execution e (Some p) S)) p) = Some (tdel e t)"
proof -
  obtain pd where "map_of (projects S) p = Some pd"
    using assms(2) by (auto simp: pdir_of_def empty_pdir_def split: option.splits)
  with assms show ?thesis
    by (simp add: delete_execution_def delete_in_project_def cleanup_generated_playbooks_def
        drop_file_def Let_def split: option.split)
qed

lemma delete_all_dir:
  assumes "p \<noteq> []" "hist_exec (pdir_of S p) = Some t" "map (exec_id py_str) ds = map Inr es"
  shows "hist_exec (pdir_of (delete_all py_str p ds S) p) = Some (filter (\<lambda>kv. fst kv \<notin> set es) t)"
  using assms(2,3)
proof (induction ds arbitrary: S t es)
  case Nil
  then show ?case by simp
next
  case (Cons d ds)
  from Cons.prems(2) obtain e es' where es: "es = e # es'" "exec_id py_str d = Inr e"
      "map (exec_id py_str) ds = map Inr es'" by (cases es) auto
  have "hist_exec (pdir_of (snd (delete_execution e (Some p) S)) p) = Some (tdel e t)"
    using assms(1) Cons.prems(1) by (rule hist_exec_delete)
  from Cons.IH [OF this es(3)] es show ?case
    by (simp add: tdel_filter conj_commute)
qed

lemma filter_notin_drop:
  assumes "distinct (map fst xs)"
  shows "filter (\<lambda>kv. fst kv \<notin> set (map fst (drop n xs))) xs = take n xs"
proof -
  have "filter (\<lambda>kv. fst kv \<notin> set (map fst (drop n xs))) (take n xs @ drop n xs) = take n xs"
  proof -
    have "set (map fst (take n xs)) \<inter> set (map fst (drop n xs)) = {}"
      using assms by (metis append_take_drop_id distinct_append map_append)
    then have "\<forall>kv\<in>set (take n xs). fst kv \<notin> set (map fst (drop n xs))" by auto
    moreover have "\<forall>kv\<in>set (drop n xs). \<not> fst kv \<notin> set (map fst (drop n xs))" by simp
    ultimately show ?thesis by (simp only: filter_append filter_True filter_False append_Nil2)
  qed
  then show ?thesis by (simp only: append_take_drop_id)
qed

lemma newest_first_consistent:
  "consistent_dir t \<Longrightarrow> distinct (map fst (newest_first t)) \<and>
     (\<forall>(e, f, m)\<in>set (newest_first t). \<exists>d. f = Doc d \<and> dget d ''id'' = JStr e \<and> has d ''id'')"
  by (auto simp: consistent_dir_def newest_first_def distinct_map)

text \<open>The retention policy by count leaves in the project's history exactly the newest \<open>n\<close> records, in the order of the listing.\<close>

theorem retain_count_keeps_newest:
  assumes p: "p \<noteq> []" and dir: "hist_exec (pdir_of S p) = Some t" and ok: "consistent_dir t"
  shows "list_executions py_str None 0 None None (Some p) (retain_count py_str (int n) p S) =
           Inr (take n (readable (newest_first t)))"
proof -
  let ?nt = "newest_first t"
  have nt: "distinct (map fst ?nt)"
      "\<forall>(e, f, m)\<in>set ?nt. \<exists>d. f = Doc d \<and> dget d ''id'' = JStr e \<and> has d ''id''"
    using newest_first_consistent [OF ok] by simp_all
  have len: "length (readable ?nt) = length ?nt" using readable_consistent [OF nt(2)] by simp
  have rn: "readable (take n ?nt) = take n (readable ?nt)"
  proof -
    have "\<forall>(e, f, m)\<in>set (take n ?nt). \<exists>d. f = Doc d \<and> dget d ''id'' = JStr e \<and> has d ''id''"
      using nt(2) by (meson in_set_takeD)
    then have "length (readable (take n ?nt)) = length (take n ?nt)"
      using readable_consistent by blast
    then show ?thesis
      using readable_append [of "take n ?nt" "drop n ?nt"] len
      by (metis append_eq_conv_conj append_take_drop_id length_take)
  qed
  show ?thesis
  proof (cases "length (readable ?nt) \<le> n")
    case True
    then show ?thesis
      using p dir by (simp add: retain_count_def list_all_executions)
  next
    case False
    let ?es = "map fst (drop n ?nt)"
    have "\<forall>(e, f, m)\<in>set (drop n ?nt). \<exists>d. f = Doc d \<and> dget d ''id'' = JStr e \<and> has d ''id''"
      using nt(2) by (meson in_set_dropD)
    then have "map (exec_id py_str) (readable (drop n ?nt)) = map Inr ?es"
      using readable_consistent [of "drop n ?nt" py_str] by simp
    moreover have "readable (drop n ?nt) = drop n (readable ?nt)"
      using readable_append [of "take n ?nt" "drop n ?nt"] rn
      by (metis append_take_drop_id same_append_eq)
    ultimately have ids: "map (exec_id py_str) (drop n (readable ?nt)) = map Inr ?es" by simp
    let ?S' = "delete_all py_str p (drop n (readable ?nt)) S"
    have "retain_count py_str (int n) p S = ?S'"
      using False p dir
      by (simp add: retain_count_def list_all_executions py_slice_from_def py_bound_def)
    moreover have "hist_exec (pdir_of ?S' p) = Some (filter (\<lambda>kv. fst kv \<notin> set ?es) t)"
      by (rule delete_all_dir [OF p dir ids])
    moreover have "newest_first (filter (\<lambda>kv. fst kv \<notin> set ?es) t) = take n ?nt"
      by (simp only: newest_first_filter filter_notin_drop [OF nt(1)])
    ultimately show ?thesis using p rn by (simp add: list_all_executions)
  qed
qed

definition demo_dir :: exec_dir where
  "demo_dir = [(''a'', (Doc [(''id'', JStr ''a'')], 1)), (''b'', (Doc [(''id'', JStr ''b'')], 3)),
               (''c'', (Doc [(''id'', JStr ''c'')], 2))]"

lemma retain_count_keeps_newest_witness:
  "list_executions (\<lambda>_. []) None 0 None None (Some ''p1'')
     (retain_count (\<lambda>_. []) (int 2) ''p1''
        \<lparr>projects = [(''p1'', empty_pdir\<lparr>hist_exec := Some demo_dir\<rparr>)], index = empty_index\<rparr>)
   = Inr (take 2 (readable (newest_first demo_dir)))"
  by (rule retain_count_keeps_newest)
    (simp_all add: pdir_of_def consistent_dir_def demo_dir_def)

subsection \<open>Retention by size\<close>

fun deleted_in_order :: "string \<Rightarrow> (string \<times> int) list \<Rightarrow> store \<Rightarrow> store" where
  "deleted_in_order p [] S = S"
| "deleted_in_order p ((e, sz) # xs) S = deleted_in_order p xs (snd (delete_execution e (Some p) S))"

text \<open>The retention policy by size deletes the oldest executions first and stops as soon as the remaining total fits the limit: it deletes a shortest prefix of the age order whose removal is enough, or everything.\<close>

theorem evict_shortest_prefix:
  "\<exists>k \<le> length xs.
     evict mx tot p xs S = deleted_in_order p (take k xs) S \<and>
     (tot - sum_list (map snd (take k xs)) \<le> mx \<or> k = length xs) \<and>
     (\<forall>j < k. tot - sum_list (map snd (take j xs)) > mx)"
proof (induction xs arbitrary: tot S)
  case Nil
  then show ?case by simp
next
  case (Cons x xs)
  obtain e sz where x: "x = (e, sz)" by (cases x)
  show ?case
  proof (cases "tot \<le> mx")
    case True
    then show ?thesis by (intro exI [of _ 0]) (simp add: x)
  next
    case False
    let ?S' = "snd (delete_execution e (Some p) S)"
    obtain k where k: "k \<le> length xs" "evict mx (tot - sz) p xs ?S' = deleted_in_order p (take k xs) ?S'"
        "tot - sz - sum_list (map snd (take k xs)) \<le> mx \<or> k = length xs"
        "\<forall>j < k. tot - sz - sum_list (map snd (take j xs)) > mx"
      using Cons.IH [of "tot - sz" ?S'] by blast
    have "tot - sum_list (map snd (take j (x # xs))) > mx" if "j < Suc k" for j
      using that k(4) False by (cases j) (auto simp: x algebra_simps)
    with k False show ?thesis by (intro exI [of _ "Suc k"]) (auto simp: x algebra_simps)
  qed
qed

lemma evict_shortest_prefix_witness:
  "\<exists>k \<le> length [(''a'', 4), (''b'', 5), (''c'', 6 :: int)].
     evict 7 15 ''p'' [(''a'', 4), (''b'', 5), (''c'', 6)] empty_store
       = deleted_in_order ''p'' (take k [(''a'', 4), (''b'', 5), (''c'', 6)]) empty_store \<and>
     (15 - sum_list (map snd (take k [(''a'', 4), (''b'', 5), (''c'', 6 :: int)])) \<le> 7 \<or>
        k = length [(''a'', 4), (''b'', 5), (''c'', 6 :: int)]) \<and>
     (\<forall>j < k. 15 - sum_list (map snd (take j [(''a'', 4), (''b'', 5), (''c'', 6 :: int)])) > 7)"
  by (rule evict_shortest_prefix)

subsection \<open>Where deletion falls short\<close>

text \<open>Deleting an execution without naming its project looks into the first project that has an execution directory only, reports success whether or not the execution was there, and leaves every other project as it is.\<close>

theorem unscoped_delete_first_project_only:
  assumes "projects S = (p, pd) # ps" and "hist_exec pd = Some t"
  shows "fst (delete_execution e None S) \<and>
         (\<forall>q. q \<noteq> p \<longrightarrow> pdir_of (snd (delete_execution e None S)) q = pdir_of S q) \<and>
         (map_of t e = None \<longrightarrow>
            hist_exec (pdir_of (snd (delete_execution e None S)) p) = Some t)"
proof -
  have nf: "tdel e t = t" if "map_of t e = None"
    using that by (auto simp: tdel_filter map_of_eq_None_iff intro!: filter_True)
  show ?thesis
    using assms nf
    by (auto simp: delete_execution_def pdir_of_def delete_in_first_def drop_file_def Let_def)
qed

lemma unscoped_delete_first_project_only_witness:
  "let S = \<lparr>projects = [(''p1'', empty_pdir\<lparr>hist_exec := Some []\<rparr>),
                        (''p2'', empty_pdir\<lparr>hist_exec := Some demo_dir\<rparr>)], index = empty_index\<rparr>
   in fst (delete_execution ''a'' None S) \<and>
      pdir_of (snd (delete_execution ''a'' None S)) ''p2'' = pdir_of S ''p2''"
  using unscoped_delete_first_project_only
    [of "\<lparr>projects = [(''p1'', empty_pdir\<lparr>hist_exec := Some []\<rparr>),
                      (''p2'', empty_pdir\<lparr>hist_exec := Some demo_dir\<rparr>)], index = empty_index\<rparr>"
      "''p1''" "empty_pdir\<lparr>hist_exec := Some []\<rparr>"
      "[(''p2'', empty_pdir\<lparr>hist_exec := Some demo_dir\<rparr>)]" "[]" "''a''"]
  by (simp add: Let_def)

lemma not_pem: "\<not> ends_with (x @ ''.yml'') ''.pem''"
  by (simp add: ends_with_def starts_with_def)

text \<open>Cleaning up after an execution removes its generated playbook and inventory and never a copied private key: every \<open>.pem\<close> file of the directory stays.\<close>

theorem cleanup_never_removes_keys:
  assumes "gen_dir pd = Some t"
  shows "\<exists>t'. gen_dir (cleanup_generated_playbooks e pd) = Some t' \<and>
     map_of t' (e @ ''.yml'') = None \<and> map_of t' (''inventory_'' @ e @ ''.yml'') = None \<and>
     filter (\<lambda>fm. ends_with (fst fm) ''.pem'') t' = filter (\<lambda>fm. ends_with (fst fm) ''.pem'') t"
proof -
  let ?P = "\<lambda>(f, m :: real). f \<noteq> e @ ''.yml'' \<and> f \<noteq> ''inventory_'' @ e @ ''.yml''"
  have pem: "?P x" if "ends_with (fst x) ''.pem''" for x
  proof -
    have "fst x \<noteq> e @ ''.yml''" using that not_pem [of e] by metis
    moreover have "fst x \<noteq> ''inventory_'' @ e @ ''.yml''"
      using that not_pem [of "''inventory_'' @ e"] by (metis append.assoc)
    ultimately show ?thesis by (simp add: case_prod_beta)
  qed
  have "filter (\<lambda>fm. ends_with (fst fm) ''.pem'') (filter ?P t) =
             filter (\<lambda>fm. ends_with (fst fm) ''.pem'') t"
    unfolding filter_filter using pem by (intro filter_cong refl) blast
  moreover have "map_of (filter ?P t) (e @ ''.yml'') = None"
      "map_of (filter ?P t) (''inventory_'' @ e @ ''.yml'') = None"
    by (auto simp: map_of_eq_None_iff)
  ultimately show ?thesis using assms by (simp add: cleanup_generated_playbooks_def)
qed

lemma cleanup_never_removes_keys_witness:
  "\<exists>t'. gen_dir (cleanup_generated_playbooks ''e1'' (empty_pdir\<lparr>gen_dir :=
          Some [(''e1.yml'', 0), (''key_ab.pem'', 0)]\<rparr>)) = Some t' \<and>
     map_of t' (''e1'' @ ''.yml'') = None \<and> map_of t' (''inventory_'' @ ''e1'' @ ''.yml'') = None \<and>
     filter (\<lambda>fm. ends_with (fst fm) ''.pem'') t' =
       filter (\<lambda>fm. ends_with (fst fm) ''.pem'') [(''e1.yml'', 0), (''key_ab.pem'', 0)]"
  by (rule cleanup_never_removes_keys) simp

end
