(* ===== verification/LifeCycle.thy ===== *)
theory LifeCycle
  imports Routes ClaimProps ExecHistoryProps
begin

section \<open>The life of an execution across all operations\<close>

text \<open>
  Nothing keeps two operations on an execution apart, except that those that hold the lock of its
  file exclude each other; an update takes no lock at all. So an operation is split where the code
  reads the record and where it writes it: a \<open>writer\<close> is an operation that has read a record and
  has yet to write it, and \<open>race_step\<close> is one step of the server: a record is read, emptied or
  written by one of the writers, an operation gives up, a record is deleted, another is created, a log
  or the index is written. Every operation of the server on a record is a run of such steps. The two
  theorems say what holds for all of them in any order: a final status stays, and an execution is
  claimed once, as long as no write that was prepared before is outstanding.
\<close>

subsection \<open>Moving along accepted transitions\<close>

definition eff :: "doc \<Rightarrow> json" where
  \<comment> \<open>the status the code sees: a record without one counts as queued\<close>
  "eff d = getd d ''status'' (JStr ''QUEUED'')"

definition moves :: "json \<Rightarrow> json \<Rightarrow> bool" where
  "moves a b = (validate_status_transition a b = Inr ())"

lemma moves_rank:
  assumes "moves\<^sup>*\<^sup>* (JStr s) b"
  shows "\<exists>t. b = JStr t \<and> (upper t = upper s \<or> status_rank s < status_rank t)"
  using assms
proof (induction rule: rtranclp_induct)
  case base
  then show ?case by simp
next
  case (step y z)
  then obtain t where t: "y = JStr t" "upper t = upper s \<or> status_rank s < status_rank t" by blast
  from step.hyps(2) obtain u where u: "z = JStr u" "status_step t u"
    unfolding t moves_def status_step_def by (auto simp: validate_ok_iff)
  have "status_rank t = status_rank s" if "upper t = upper s" using that by (simp add: status_rank_def)
  moreover have "status_rank u = status_rank t" if "upper u = upper t" using that by (simp add: status_rank_def)
  ultimately show ?case using status_step_rank [OF u(2)] t(2) u(1) by force
qed

lemma moves_final:
  assumes "moves\<^sup>*\<^sup>* a b" "is_final a"
  shows "same_final a b"
  using assms
proof (induction rule: rtranclp_induct)
  case base
  then show ?case by (rule same_final_refl)
next
  case (step y z)
  then have "same_final y z" using validate_same_final same_final_is_final unfolding moves_def by blast
  then show ?case using step same_final_trans by blast
qed

subsection \<open>Every operation\<close>

lemma eff_dset [simp]:
  "eff (dset d k v) = (if k = ''status'' then v else eff d)"
  by (simp add: eff_def)

lemma eff_getd: "getd d ''status'' (JStr ''QUEUED'') = eff d"
  by (simp add: eff_def)

lemma eff_dget: "truthy (dget d ''status'') \<Longrightarrow> eff d = dget d ''status''"
  by (simp add: eff_def getd_truthy)

lemma hist_file_record: "hist_file S p e = record_at S p False e"
  by (simp add: hist_file_def record_at_def)

lemma record_at_put_hist [simp]:
  "record_at (put_hist now p e d S) p' old e' =
     (if p = p' \<and> e = e' \<and> \<not> old then Some (Doc d) else record_at S p' old e')"
  by (auto simp: record_at_def put_hist_def Let_def)

lemma record_at_log [simp]:
  "record_at (snd (append_execution_log e t pid S)) p old e' = record_at S p old e'"
  by (simp add: append_execution_log_def record_at_def Let_def split: option.split)

lemma edges [simp]:
  "moves (JStr ''QUEUED'') (JStr ''CANCELED'')" "moves (JStr ''RUNNING'') (JStr ''CANCELING'')"
  "moves (JStr ''QUEUED'') (JStr ''RUNNING'')" "moves (JStr ''RUNNING'') (JStr ''FAILED'')"
  "moves (JStr ''CANCELING'') (JStr ''CANCELED'')"
  by (simp_all add: moves_def validate_ok_iff) code_simp+

lemma recover_record_moves:
  assumes "recover_record fmt now a b c R d = Some (d', text)"
  shows "moves (eff d) (eff d')"
proof -
  have s: "dget d ''status'' = JStr ''RUNNING'' \<and> recover_running fmt now a b R d = Some (d', text) \<or>
        dget d ''status'' = JStr ''CANCELING'' \<and> recover_canceling fmt now c d = Some (d', text)"
    using assms by (auto simp: recover_record_def split: sum.splits bool.splits if_splits)
  then show ?thesis
  proof
    assume *: "dget d ''status'' = JStr ''RUNNING'' \<and> recover_running fmt now a b R d = Some (d', text)"
    then have "eff d' = JStr ''FAILED''"
      by (auto simp: recover_running_def Let_def split: if_splits option.splits sum.splits)
    then show ?thesis using * by (simp add: eff_dget)
  next
    assume *: "dget d ''status'' = JStr ''CANCELING'' \<and> recover_canceling fmt now c d = Some (d', text)"
    then have "eff d' = JStr ''CANCELED''"
      by (auto simp: recover_canceling_def Let_def split: if_splits option.splits)
    then show ?thesis using * by (simp add: eff_dget)
  qed
qed

lemma dir_file_drop [simp]: "dir_file (drop_file e t) x = (if x = e then None else dir_file t x)"
  by (auto simp: dir_file_def drop_file_def split: option.split)

lemma exec_clean [simp]:
  "hist_exec (cleanup_generated_playbooks e pd) = hist_exec pd"
  "legacy_exec (cleanup_generated_playbooks e pd) = legacy_exec pd"
  by (simp_all add: cleanup_generated_playbooks_def split: option.split)

definition pdir_record :: "pdir \<Rightarrow> bool \<Rightarrow> string \<Rightarrow> jfile option" where
  "pdir_record pd old x = dir_file (if old then legacy_exec pd else hist_exec pd) x"

lemma record_at_pdir: "record_at S p old x = pdir_record (pdir_of S p) old x"
  by (simp add: record_at_def pdir_record_def)

lemma pdir_delete:
  "pdir_record (delete_in_project e pd) old x = pdir_record pd old x \<or>
   pdir_record (delete_in_project e pd) old x = None"
  "pdir_record (delete_in_first e pd) old x = pdir_record pd old x \<or>
   pdir_record (delete_in_first e pd) old x = None"
  by (auto simp: pdir_record_def delete_in_project_def delete_in_first_def Let_def split: option.splits)

lemma delete_scan_map:
  "map_of (snd (delete_scan e ps)) p = map_of ps p \<or>
   map_of (snd (delete_scan e ps)) p = map_option (delete_in_first e) (map_of ps p)"
  by (induction ps) (auto simp: case_prod_beta Let_def)

lemma record_at_delete:
  "record_at (snd (delete_execution e pid S)) p old x = record_at S p old x \<or>
   record_at (snd (delete_execution e pid S)) p old x = None"
proof -
  have "pdir_of (snd (delete_execution e pid S)) p \<in>
      {pdir_of S p, delete_in_project e (pdir_of S p), delete_in_first e (pdir_of S p)}"
  proof (cases "pid = None \<or> pid = Some []")
    case True
    then have "projects (snd (delete_execution e pid S)) = snd (delete_scan e (projects S))"
      by (auto simp: delete_execution_def case_prod_beta)
    then show ?thesis
      using delete_scan_map [of e "projects S" p] by (auto simp: pdir_of_def split: option.splits)
  next
    case False
    then show ?thesis by (auto simp: delete_execution_def split: option.splits)
  qed
  then show ?thesis
    using pdir_delete(1) [of e "pdir_of S p" old x] pdir_delete(2) [of e "pdir_of S p" old x]
    by (auto simp: record_at_pdir)
qed

lemma record_at_create:
  assumes "(case w of None \<Rightarrow> uuid | Some y \<Rightarrow> y) \<noteq> x"
  shows "record_at (snd (create_execution_record now uuid data pid w S)) p old x = record_at S p old x"
  unfolding create_execution_record_def Let_def
  using assms by (auto split: json.split)

lemma record_at_clean [simp]: "record_at (clean_generated q e S) p old x = record_at S p old x"
  by (simp add: record_at_pdir clean_generated_def pdir_record_def)

lemma store_beat [simp]: "sv_store (beat E w c sv) = sv_store sv"
  by (simp add: beat_def)

lemma finish_updates_status:
  "dget (finish_updates now data) ''status'' = dget data ''status''"
  by (simp add: finish_updates_def Let_def)

definition authed :: "registry \<Rightarrow> index_db \<Rightarrow> server \<Rightarrow> server" where
  \<comment> \<open>the server after the token was verified\<close>
  "authed R ix sv = sv\<lparr>sv_reg := R, sv_store := (sv_store sv)\<lparr>index := ix\<rparr>\<rparr>"

lemma authed_store [simp]:
  "record_at (sv_store (authed R ix sv)) p old x = record_at (sv_store sv) p old x"
  "pdir_of (sv_store (authed R ix sv)) p = pdir_of (sv_store sv) p"
  by (simp_all add: authed_def)

lemma with_worker_cases:
  assumes "with_worker E token handler sv = (c, sv')"
  obtains (refused) R ix where "c \<in> {401, 500}" "sv' = sv \<or> sv' = authed R ix sv"
  | (accepted) w d R ix where "token \<noteq> []"
      "verify_token (e_sha E) (e_now E) token (sv_reg sv) (index (sv_store sv)) = (Inr (Some (w, d)), R, ix)"
      "handler w d (authed R ix sv) = (c, sv')"
proof (cases "token = []")
  case True
  then show thesis using assms refused by (simp add: with_worker_def)
next
  case False
  obtain r R ix where v: "verify_token (e_sha E) (e_now E) token (sv_reg sv) (index (sv_store sv)) = (r, R, ix)"
    by (cases "verify_token (e_sha E) (e_now E) token (sv_reg sv) (index (sv_store sv))")
  show thesis
  proof (cases r)
    case (Inl err)
    then have "c \<in> {401, 500}" "sv' = authed R ix sv"
      using assms False v by (simp_all add: with_worker_def authed_def)
    then show thesis using refused [of R ix] by simp
  next
    case (Inr y)
    show thesis
    proof (cases y)
      case None
      then have "c \<in> {401, 500}" "sv' = authed R ix sv"
        using assms False v Inr by (simp_all add: with_worker_def authed_def)
      then show thesis using refused [of R ix] by simp
    next
      case (Some z)
      obtain w d where "z = (w, d)" by (cases z)
      then have "handler w d (authed R ix sv) = (c, sv')"
        using assms False v Inr Some by (simp add: with_worker_def authed_def)
      then show thesis using accepted False v Inr Some \<open>z = (w, d)\<close> by blast
    qed
  qed
qed

subsection \<open>Writers\<close>

datatype writer =
    Update real doc
  | Cancel real
  | Stop real
  | TakeRun real claimer
  | Orphan real real
  | Recover "real \<Rightarrow> string" real real real real registry

fun exclusive :: "writer \<Rightarrow> bool" where
  \<comment> \<open>holds the lock of the file from the reading to the writing\<close>
  "exclusive (Update now u) = False"
| "exclusive (Orphan now started) = False"
| "exclusive w = True"

fun new_doc :: "writer \<Rightarrow> doc \<Rightarrow> doc option" where
  \<comment> \<open>what the operation writes after it has read the record; \<open>None\<close>: nothing\<close>
  "new_doc (Update now u) d = (case prepare_update now d u of Inl _ \<Rightarrow> None | Inr v \<Rightarrow> Some (dupd d v))"
| "new_doc (Cancel now) d = (case cancel_edit now (eff d) of Inl _ \<Rightarrow> None | Inr edit \<Rightarrow> Some (edit d))"
| "new_doc (Stop now) d = (case stop_edit now (eff d) of Inl _ \<Rightarrow> None | Inr edit \<Rightarrow> Some (edit d))"
| "new_doc (TakeRun now W) d = (if dget d ''status'' = JStr ''QUEUED'' then Some (running_record now W d) else None)"
| "new_doc (Orphan now started) d = (if dget d ''status'' = JStr ''RUNNING'' then orphan_failed now started d else None)"
| "new_doc (Recover fmt now a b c R) d = map_option fst (recover_record fmt now a b c R d)"

fun keeps_status :: "writer \<Rightarrow> bool" where
  \<comment> \<open>an update does not set the status to an empty value\<close>
  "keeps_status (Update now u) = (has u ''status'' \<longrightarrow> truthy (dget u ''status''))"
| "keeps_status w = True"

lemma update_moves:
  assumes "prepare_update now d u = Inr v" "has u ''status'' \<longrightarrow> truthy (dget u ''status'')"
  shows "eff (dupd d v) = eff d \<or> moves (eff d) (eff (dupd d v))"
proof -
  have new: "eff (dupd d v) = (if has u ''status'' then dget u ''status'' else eff d)"
    using written_status [OF assms(1)] by (simp add: eff_def getd_dupd)
  show ?thesis
  proof (cases "status_changes d u")
    case True
    then have "has u ''status''" by (simp add: status_changes_def has_truthy)
    then show ?thesis using prepare_update_Inr(1) [OF assms(1) True] new by (simp add: moves_def eff_def)
  next
    case False
    then show ?thesis using new assms(2) by (auto simp: status_changes_def eff_def)
  qed
qed

lemma new_doc_moves:
  assumes "new_doc w d = Some d'" "keeps_status w"
  shows "eff d' = eff d \<or> moves (eff d) (eff d')"
proof (cases w)
  case (Update now u)
  then show ?thesis using assms update_moves by (auto split: sum.splits)
next
  case (TakeRun now W)
  then show ?thesis using assms by (auto simp: eff_dget split: if_splits)
next
  case (Orphan now started)
  then show ?thesis using assms orphan_failed_status [of now started d d'] by (auto simp: eff_dget split: if_splits)
next
  case (Recover fmt now a b c R)
  then show ?thesis using assms recover_record_moves by (auto split: option.splits)
qed (use assms in \<open>auto simp: cancel_edit_def stop_edit_def split: sum.splits if_splits\<close>)

lemma new_doc_run: "new_doc w d = Some d' \<Longrightarrow> keeps_status w \<Longrightarrow> moves\<^sup>*\<^sup>* a (eff d) \<Longrightarrow> moves\<^sup>*\<^sup>* a (eff d')"
  using new_doc_moves [of w d d'] by (auto intro: rtranclp.rtrancl_into_rtrancl)

subsection \<open>Races\<close>

type_synonym place = "string \<times> bool \<times> string"     \<comment> \<open>project, old directory, name of the file\<close>
type_synonym race = "store \<times> (place \<times> writer \<times> doc) list"

definition garble :: "real \<Rightarrow> string \<Rightarrow> bool \<Rightarrow> string \<Rightarrow> store \<Rightarrow> store" where
  \<comment> \<open>the file is open for writing and still empty\<close>
  "garble now p old e S =
    (let pd = pdir_of S p; put = (\<lambda>dir. Some (AList.update e (Corrupt, now) (case dir of None \<Rightarrow> [] | Some t \<Rightarrow> t)))
     in set_pdir p (if old then pd\<lparr>legacy_exec := put (legacy_exec pd)\<rparr>
                    else pd\<lparr>hist_exec := put (hist_exec pd)\<rparr>) S)"

definition drop_nth :: "nat \<Rightarrow> 'a list \<Rightarrow> 'a list" where
  "drop_nth i xs = take i xs @ drop (Suc i) xs"

definition lockable :: "place \<Rightarrow> (place \<times> writer \<times> doc) list \<Rightarrow> bool" where
  "lockable k P = list_all (\<lambda>(k', w, d). k' = k \<longrightarrow> \<not> exclusive w) P"

inductive race_step :: "string \<Rightarrow> race \<Rightarrow> race \<Rightarrow> bool" for x :: string where
  reads: "record_at S p old e = Some (Doc d) \<Longrightarrow> new_doc w d = Some d' \<Longrightarrow> keeps_status w \<Longrightarrow>
     (exclusive w \<Longrightarrow> lockable (p, old, e) P) \<Longrightarrow> race_step x (S, P) (S, P @ [((p, old, e), w, d')])"
| empties: "i < length P \<Longrightarrow> P ! i = ((p, old, e), w, d') \<Longrightarrow> race_step x (S, P) (garble now p old e S, P)"
| writes: "i < length P \<Longrightarrow> P ! i = ((p, old, e), w, d') \<Longrightarrow>
     race_step x (S, P) (write_record now p old e d' S, drop_nth i P)"
| gives_up: "race_step x (S, P) (S, drop_nth i P)"
| log: "append_execution_log e t pid S = (r, S') \<Longrightarrow> race_step x (S, P) (S', P)"
| raw_log: "race_step x (S, P) (append_raw_log p e t S, P)"
| delete: "delete_execution e pid S = (b, S') \<Longrightarrow> race_step x (S, P) (S', P)"
| create: "create_execution_record now uuid data pid w S = (r, S') \<Longrightarrow>
     (case w of None \<Rightarrow> uuid | Some y \<Rightarrow> y) \<noteq> x \<Longrightarrow> race_step x (S, P) (S', P)"
| index_write: "race_step x (S, P) (S\<lparr>index := ix\<rparr>, P)"

inductive_cases race_stepE: "race_step x (S, P) (S', P')"

lemma record_at_garble [simp]:
  "record_at (garble now p old e S) p' old' e' =
     (if p = p' \<and> old = old' \<and> e = e' then Some Corrupt else record_at S p' old' e')"
  by (auto simp: garble_def record_at_def dir_file_def Let_def split: option.split)

lemma set_drop_nth: "set (drop_nth i xs) \<subseteq> set xs"
  by (auto simp: drop_nth_def dest: in_set_takeD in_set_dropD)

definition all_docs :: "(doc \<Rightarrow> bool) \<Rightarrow> place \<Rightarrow> race \<Rightarrow> bool" where
  \<comment> \<open>the record and everything that is about to be written there\<close>
  "all_docs Q = (\<lambda>(p, old, x) (S, P).
    (\<forall>d. record_at S p old x = Some (Doc d) \<longrightarrow> Q d) \<and>
    (\<forall>(k, w, d)\<in>set P. k = (p, old, x) \<longrightarrow> Q d))"

lemma all_docs_step:
  assumes "race_step x (S, P) (S', P')" "all_docs Q (p, old, x) (S, P)"
    and "\<And>w d d'. Q d \<Longrightarrow> new_doc w d = Some d' \<Longrightarrow> keeps_status w \<Longrightarrow> Q d'"
  shows "all_docs Q (p, old, x) (S', P')"
  using assms(1)
proof (cases rule: race_step.cases)
  case (reads p' old' e d w d')
  then have "all_docs Q (p, old, x) (S, P @ [((p', old', e), w, d')])"
    using assms(2) assms(3) [of d w d'] by (auto simp: all_docs_def)
  then show ?thesis using reads by simp
next
  case (empties i p' old' e w d' now)
  then show ?thesis using assms(2) by (auto simp: all_docs_def)
next
  case (writes i p' old' e w d' now)
  then have "((p', old', e), w, d') \<in> set P" by (metis nth_mem)
  then show ?thesis using writes assms(2) set_drop_nth [of i P] by (fastforce simp: all_docs_def)
next
  case (gives_up i)
  then show ?thesis using assms(2) set_drop_nth [of i P] by (fastforce simp: all_docs_def)
next
  case (log e t pid r)
  then show ?thesis using assms(2) record_at_log [of e t pid S p old x] by (auto simp: all_docs_def)
next
  case (delete e pid b)
  then show ?thesis using assms(2) record_at_delete [of e pid S p old x] by (auto simp: all_docs_def)
next
  case (create now uuid data pid w r)
  then show ?thesis using assms(2) record_at_create [where w = w and uuid = uuid and x = x and now = now and data = data and pid = pid and S = S and p = p and old = old]
    by (auto simp: all_docs_def)
qed (use assms(2) in \<open>auto simp: all_docs_def\<close>)

lemma all_docs_run:
  assumes "(race_step x)\<^sup>*\<^sup>* SP SP'" "all_docs Q (p, old, x) SP"
    and "\<And>w d d'. Q d \<Longrightarrow> new_doc w d = Some d' \<Longrightarrow> keeps_status w \<Longrightarrow> Q d'"
  shows "all_docs Q (p, old, x) SP'"
  using assms(1,2)
proof (induction rule: rtranclp_induct)
  case (step y z)
  then show ?case using all_docs_step assms(3) by (metis surj_pair)
qed simp

subsection \<open>Locks exclude each other\<close>

definition prepared :: "(place \<times> writer \<times> doc) list \<Rightarrow> bool" where
  \<comment> \<open>what is to be written was computed from a record, and one writer at most holds the lock of a file\<close>
  "prepared P = ((\<forall>(k, w, d)\<in>set P. keeps_status w \<and> (\<exists>d0. new_doc w d0 = Some d)) \<and>
     distinct (map fst (filter (\<lambda>(k, w, d). exclusive w) P)))"

lemma prepared_drop: "prepared P \<Longrightarrow> prepared (drop_nth i P)"
proof -
  assume P: "prepared P"
  have "distinct (map fst (filter (\<lambda>(k, w, d). exclusive w) (drop_nth i P)))"
  proof (cases "i < length P")
    case True
    have "filter (\<lambda>(k, w, d). exclusive w) P =
        filter (\<lambda>(k, w, d). exclusive w) (take i P @ P ! i # drop (Suc i) P)"
      using True by (simp add: id_take_nth_drop [symmetric])
    then show ?thesis using P by (auto simp: prepared_def drop_nth_def split: if_splits)
  next
    case False
    then show ?thesis using P by (simp add: prepared_def drop_nth_def)
  qed
  then show ?thesis using P set_drop_nth [of i P] by (fastforce simp: prepared_def)
qed

lemma lockable_iff: "lockable k P \<longleftrightarrow> k \<notin> fst ` set (filter (\<lambda>(k, w, d). exclusive w) P)"
  by (force simp: lockable_def list_all_iff)

lemma prepared_step: "race_step x (S, P) (S', P') \<Longrightarrow> prepared P \<Longrightarrow> prepared P'"
proof (erule race_stepE, goal_cases)
  case (1 p old e d w d')
  then show ?case by (auto simp: prepared_def lockable_iff)
qed (auto intro: prepared_drop)

lemma prepared_run: "(race_step x)\<^sup>*\<^sup>* (S, P) (S', P') \<Longrightarrow> prepared P \<Longrightarrow> prepared P'"
proof (induction "(S', P')" arbitrary: S' P' rule: rtranclp_induct)
  case (step y)
  then show ?case using prepared_step by (metis surj_pair)
qed simp

lemma holder_alone:
  assumes "prepared P" "i < length P" "P ! i = (k, v, d)" "exclusive v" "(k, w, d') \<in> set (drop_nth i P)"
  shows "\<not> exclusive w"
proof
  assume w: "exclusive w"
  let ?ex = "\<lambda>(k :: place, w, d :: doc). exclusive w"
  have "distinct (map fst (filter ?ex (take i P @ P ! i # drop (Suc i) P)))"
    using assms(1,2) by (simp add: prepared_def id_take_nth_drop [symmetric])
  then have "k \<notin> fst ` set (filter ?ex (drop_nth i P))"
    using assms(3,4) by (auto simp: drop_nth_def)
  then show False using assms(5) w by force
qed

subsection \<open>The operations are runs\<close>

lemma put_hist_write: "put_hist now p e d S = write_record now p False e d S"
  by (simp add: put_hist_def write_record_def Let_def)

lemma read_and_write:
  assumes "record_at S p old e = Some (Doc d)" "new_doc w d = Some d'" "keeps_status w"
    and "exclusive w \<Longrightarrow> lockable (p, old, e) P"
  shows "(race_step x)\<^sup>*\<^sup>* (S, P) (write_record now p old e d' S, P)"
proof -
  have "race_step x (S, P) (S, P @ [((p, old, e), w, d')])" by (rule race_step.reads) (use assms in auto)
  moreover have "race_step x (S, P @ [((p, old, e), w, d')])
      (write_record now p old e d' S, drop_nth (length P) (P @ [((p, old, e), w, d')]))"
    by (rule race_step.writes) auto
  ultimately show ?thesis by (simp add: drop_nth_def)
qed

lemma race_index: "(race_step x)\<^sup>*\<^sup>* (S, P) (S', P) \<Longrightarrow> (race_step x)\<^sup>*\<^sup>* (S, P) (S'\<lparr>index := ix\<rparr>, P)"
  by (rule rtranclp.rtrancl_into_rtrancl [of "race_step x", OF _ race_step.index_write])

lemma update_races:
  assumes "update_execution_record now e u pid S = (r, S')" "has u ''status'' \<longrightarrow> truthy (dget u ''status'')"
  shows "(race_step x)\<^sup>*\<^sup>* (S, P) (S', P)"
  using assms(1)
proof (cases rule: update_cases)
  case (written p d v)
  have "(race_step x)\<^sup>*\<^sup>* (S, P) (write_record now p False e (dupd d v) S, P)"
    by (rule read_and_write [of _ _ _ _ d "Update now u"]) (use written assms(2) in \<open>simp_all add: hist_file_record\<close>)
  then show ?thesis unfolding written(5) put_hist_write by (rule race_index)
qed simp

lemma log_races:
  "(race_step x)\<^sup>*\<^sup>* (S, P) (S', P) \<Longrightarrow> (race_step x)\<^sup>*\<^sup>* (S, P) (snd (append_execution_log e t pid S'), P)"
  by (rule rtranclp.rtrancl_into_rtrancl [of "race_step x", OF _ race_step.log [OF surjective_pairing]])

lemma locked_races:
  assumes "locked_update now p e decide text S = (c, S')" "lockable (p, False, e) P"
    and "decide = cancel_edit now \<or> decide = stop_edit now"
  shows "(race_step x)\<^sup>*\<^sup>* (S, P) (S', P)"
proof (cases "S' = S")
  case False
  then obtain d edit where d: "hist_file S p e = Some (Doc d)" "decide (eff d) = Inr edit"
      "S' = snd (append_execution_log e text (Some p) (put_hist now p e (edit d) S))"
    using assms(1) by (auto simp: locked_update_def eff_getd split: option.splits jfile.splits sum.splits)
  obtain w where w: "new_doc w d = Some (edit d)" "keeps_status w"
  proof (cases "decide = cancel_edit now")
    case True
    then show thesis using that [of "Cancel now"] d(2) by simp
  next
    case False
    then show thesis using that [of "Stop now"] d(2) assms(3) by simp
  qed
  have "(race_step x)\<^sup>*\<^sup>* (S, P) (write_record now p False e (edit d) S, P)"
    by (rule read_and_write [OF _ w]) (use d assms(2) in \<open>simp_all add: hist_file_record\<close>)
  then show ?thesis unfolding d(3) put_hist_write by (rule log_races)
qed simp

lemma recover_races:
  assumes "recover_file py_str busy (recover_record fmt now a b c R) now p old e (n, S) = (m, S')"
    and "lockable (p, old, e) P"
  shows "(race_step x)\<^sup>*\<^sup>* (S, P) (S', P)"
proof (cases "S' = S")
  case False
  then obtain d d' t where d: "record_at S p old e = Some (Doc d)" "recover_record fmt now a b c R d = Some (d', t)"
      "S' = snd (append_execution_log (as_text py_str (dget d ''id'')) t (Some p) (write_record now p old e d' S))"
    using assms(1) by (auto simp: recover_file_def Let_def split: option.splits jfile.splits if_splits prod.splits)
  have "(race_step x)\<^sup>*\<^sup>* (S, P) (write_record now p old e d' S, P)"
    by (rule read_and_write [of _ _ _ _ d "Recover fmt now a b c R"]) (use d assms(2) in simp_all)
  then show ?thesis unfolding d(3) by (rule log_races)
qed simp

lemma orphan_races:
  assumes "record_at S p old e = Some (Doc d)" "dget d ''status'' = JStr ''RUNNING''"
  shows "(race_step x)\<^sup>*\<^sup>* (S, P) (mark_orphan now w e p started old d S, P)"
proof (cases "orphan_failed now started d")
  case None
  then show ?thesis by (simp add: mark_orphan_def)
next
  case (Some d')
  have "(race_step x)\<^sup>*\<^sup>* (S, P) (write_record now p old e d' S, P)"
    by (rule read_and_write [of _ _ _ _ d "Orphan now started"]) (use Some assms in simp_all)
  then have "(race_step x)\<^sup>*\<^sup>* (S, P) (append_raw_log p e ORPHAN_LOG (write_record now p old e d' S), P)"
    by (rule rtranclp.rtrancl_into_rtrancl [of "race_step x", OF _ race_step.raw_log])
  from race_index [OF this] show ?thesis by (simp add: mark_orphan_def Some Let_def)
qed

lemma prune_row_races: "(race_step x)\<^sup>*\<^sup>* (S, P) (snd (prune_row now w cur mk row (n, S)), P)"
proof -
  obtain e p started where row: "row = (e, p, started)" by (cases row)
  have run: "(race_step x)\<^sup>*\<^sup>* (S, P) (mark_orphan now w e p started old d S, P)"
    if "find_record S p e = Some (old, Doc d)" "dget d ''status'' = JStr ''RUNNING''" for old d
    using orphan_races find_record_at that by blast
  show ?thesis
    using race_index [OF rtranclp.rtrancl_refl] race_index [OF run]
    by (auto simp: row prune_row_def Let_def split: option.split jfile.split)
qed

lemma prune_races: "(race_step x)\<^sup>*\<^sup>* (S, P) (snd (prune_stale_running_for_worker now w cur mk S), P)"
proof -
  have "(race_step x)\<^sup>*\<^sup>* (snd acc, P) (snd (fold (prune_row now w cur mk) rows acc), P)" for rows acc
  proof (induction rows arbitrary: acc)
    case (Cons row rows)
    then show ?case
      using prune_row_races [of x "snd acc" P now w cur mk row "fst acc"] rtranclp_trans by fastforce
  qed simp
  from this [of "(0, S)"] show ?thesis by (simp add: prune_stale_running_for_worker_def)
qed

lemma healing_races:
  assumes "runs_after_healing now w m R S = (n, S')"
  shows "(race_step x)\<^sup>*\<^sup>* (S, P) (S', P)"
proof -
  obtain a where a: "get_worker_active_runs_count now w R S = (a, S)"
    using active_runs_pure [of now w R S] by (metis prod.collapse)
  obtain k S2 where p: "prune_stale_running_for_worker now w None True S = (k, S2)" by fastforce
  obtain b where b: "get_worker_active_runs_count now w R S2 = (b, S2)"
    using active_runs_pure [of now w R S2] by (metis prod.collapse)
  have "(race_step x)\<^sup>*\<^sup>* (S, P) (S2, P)" using prune_races [of x S P now w None True] p by simp
  then show ?thesis using assms by (auto simp: runs_after_healing_def a p b split: if_splits)
qed

lemma claim_races:
  assumes "try_claim py_str now W m R c S = (r, S')" "lockable (c_project c, c_old c, c_stem c) P"
  shows "(race_step x)\<^sup>*\<^sup>* (S, P) (S', P)"
proof (cases r)
  case None
  then show ?thesis using try_claim_None assms(1) healing_races by (metis rtranclp.rtrancl_refl)
next
  case (Some t)
  obtain e d' q where t: "t = (e, d', q)" by (cases t)
  obtain d n S1 where 1: "q = c_project c" "record_at S q (c_old c) (c_stem c) = Some (Doc d)"
      "dget d ''status'' = JStr ''QUEUED''" "runs_after_healing now (cl_id W) m R S = (n, S1)"
      "d' = running_record now W d"
      "S' = (write_record now q (c_old c) (c_stem c) d' S1)
            \<lparr>index := mark_running_execution now e q (JStr (cl_id W)) (py_or (JNum now) (JNum now)) (index S1)\<rparr>"
    using try_claim_Some assms(1) Some t by metis
  let ?P = "P @ [((q, c_old c, c_stem c), TakeRun now W, d')]"
  have "race_step x (S, P) (S, ?P)" by (rule race_step.reads [OF 1(2)]) (use 1 assms(2) in simp_all)
  moreover have "(race_step x)\<^sup>*\<^sup>* (S, ?P) (S1, ?P)" by (rule healing_races [OF 1(4)])
  moreover have "race_step x (S1, ?P)
      (write_record now q (c_old c) (c_stem c) d' S1, drop_nth (length P) ?P)"
    by (rule race_step.writes) auto
  ultimately have "(race_step x)\<^sup>*\<^sup>* (S, P) (write_record now q (c_old c) (c_stem c) d' S1, P)"
    by (simp add: drop_nth_def)
  then show ?thesis unfolding 1(6) by (rule race_index)
qed

subsection \<open>A final status stays\<close>

lemma final_kept:
  assumes "is_final a" "same_final a (eff d)" "new_doc w d = Some d'" "keeps_status w"
  shows "same_final a (eff d')"
proof -
  have "moves\<^sup>*\<^sup>* (eff d) (eff d')" using new_doc_run [OF assms(3,4)] by blast
  then show ?thesis using assms(2) moves_final same_final_is_final same_final_trans by blast
qed

lemma eff_final: "same_final a (eff d) \<Longrightarrow> same_final a (dget d ''status'')"
proof -
  assume f: "same_final a (eff d)"
  then have "is_final (eff d)" by (rule same_final_is_final)
  moreover have "\<not> is_final (JStr ''QUEUED'')" by code_simp
  ultimately have "has d ''status''" by (metis eff_def getd_not_has)
  then show ?thesis using f by (simp add: eff_def getd_has)
qed

text \<open>C1: An execution with a final status keeps it. The operations of the server on its record (updates,
  cancel and stop requests, claims, recovery, the marking of orphans) may read and write it in any
  interleaving, an update without any lock; from a moment on at which the record has a final status
  and no operation is between its reading and its writing of that record, the record has
  this status whenever it can be read. Two things are left out: an update that sets the status to an empty
  value, and the creation of another execution under the same id.\<close>

theorem final_until_deleted:
  assumes "(race_step x)\<^sup>*\<^sup>* (S, P) (S', P')"
    and "record_at S p old x = Some (Doc d)" "is_final (dget d ''status'')"
    and "\<forall>(k, w, d1)\<in>set P. k \<noteq> (p, old, x)"
    and "record_at S' p old x = Some (Doc d')"
  shows "same_final (dget d ''status'') (dget d' ''status'')"
proof -
  let ?Q = "\<lambda>d'. same_final (dget d ''status'') (eff d')"
  have e: "eff d = dget d ''status''" using is_final_truthy [OF assms(3)] by (rule eff_dget)
  have "all_docs ?Q (p, old, x) (S, P)"
    using assms(2,4) same_final_refl [OF assms(3)] e by (force simp: all_docs_def)
  then have "all_docs ?Q (p, old, x) (S', P')"
    by (rule all_docs_run [OF assms(1)]) (rule final_kept [OF assms(3)])
  then have "?Q d'" using assms(5) by (simp add: all_docs_def)
  then show ?thesis by (rule eff_final)
qed

subsection \<open>An execution is claimed once\<close>

lemma orphan_doc: "new_doc (Orphan now started) d = Some d' \<Longrightarrow> moves\<^sup>*\<^sup>* (JStr ''RUNNING'') (eff d')"
  using orphan_failed_status [of now started d d'] by (auto simp: eff_dget split: if_splits)

text \<open>C2: An execution is claimed at most once. Start with no operation under way and let them read
  and write the record in any interleaving, where only those that hold its lock exclude each other. Once
  a claim has written its record, and no update is between its reading and its writing of it, no later claim
  by any worker gets it, whatever the server does in between, and whoever has been reading or writing it at
  the time of the first claim. (No update sets the status to an empty value, and no execution is created under the
  same id.)\<close>

theorem claimed_at_most_once:
  assumes "(race_step (c_stem c))\<^sup>*\<^sup>* (S0, []) (S1, P1)"
    and "i < length P1" "P1 ! i = ((c_project c, c_old c, c_stem c), TakeRun now W, d)"
    and "P2 = drop_nth i P1" "\<forall>(k, w, d1)\<in>set P2. k = (c_project c, c_old c, c_stem c) \<longrightarrow> (\<forall>t u. w \<noteq> Update t u)"
    and "(race_step (c_stem c))\<^sup>*\<^sup>* (write_record now (c_project c) (c_old c) (c_stem c) d S1, P2) (S3, P3)"
  shows "fst (try_claim py_str now' W' m R c S3) = None"
proof (rule ccontr)
  let ?k = "(c_project c, c_old c, c_stem c)" and ?Q = "\<lambda>d. moves\<^sup>*\<^sup>* (JStr ''RUNNING'') (eff d)"
  assume "\<not> ?thesis"
  then obtain e' d'' p' S4 where t: "try_claim py_str now' W' m R c S3 = (Some (e', d'', p'), S4)"
    by (metis option.exhaust prod.exhaust fst_conv)
  obtain d2 where d2: "record_at S3 (c_project c) (c_old c) (c_stem c) = Some (Doc d2)"
      "dget d2 ''status'' = JStr ''QUEUED''"
    using try_claim_Some [OF t] by auto
  have P1: "prepared P1" by (rule prepared_run [OF assms(1)]) (simp add: prepared_def)
  then have P2: "prepared P2" unfolding assms(4) by (rule prepared_drop)
  have "eff d = JStr ''RUNNING''"
    using P1 assms(2,3) nth_mem [OF assms(2)] by (fastforce simp: prepared_def eff_dget split: if_splits)
  moreover have "?Q d1" if in_P2: "(?k, w, d1) \<in> set P2" for w d1
  proof -
    have "\<not> exclusive w" using holder_alone [OF P1 assms(2,3) _] in_P2 assms(4) by simp
    moreover have "\<forall>t u. w \<noteq> Update t u" using in_P2 assms(5) by fastforce
    ultimately obtain a b where "w = Orphan a b" by (cases w) auto
    moreover obtain d0 where "new_doc w d0 = Some d1" using P2 in_P2 by (fastforce simp: prepared_def)
    ultimately show ?thesis using orphan_doc by blast
  qed
  ultimately have "all_docs ?Q ?k (write_record now (c_project c) (c_old c) (c_stem c) d S1, P2)"
    by (auto simp: all_docs_def)
  then have "all_docs ?Q ?k (S3, P3)"
    by (rule all_docs_run [OF assms(6)]) (rule new_doc_run)
  then have "moves\<^sup>*\<^sup>* (JStr ''RUNNING'') (JStr ''QUEUED'')" using d2 by (auto simp: all_docs_def eff_dget)
  from moves_rank [OF this] show False
    by (auto simp: status_rank_def upper_def up_char_def is_lower_def char_in_def)
qed

end
