(* ===== verification/LifeCycleProps.thy ===== *)
theory LifeCycleProps
  imports LifeCycle
begin

section \<open>Who may finish an execution, and what a lost update does\<close>

text \<open>
  A worker that does not own an execution cannot change it; a finish report of a canceled run
  that nobody asked to stop is refused by the state machine although the handler accepts the
  status. The update of a record reads, decides and writes without a lock: two that overlap
  can take a record out of a final status.
\<close>

subsection \<open>A small server\<close>

definition demo_sha :: "string \<Rightarrow> string" where "demo_sha = Cons CHR ''#''"

definition demo_env :: environment where
  "demo_env = \<lparr>e_now = 100, e_sha = demo_sha, e_str = (\<lambda>_. []), e_io = WOk, e_fs = no_files,
               e_busy = (\<lambda>_ _. False), e_interval = 60, e_iso = (\<lambda>_. ''t''), e_ttl = 300\<rparr>"

definition demo_record :: "string \<Rightarrow> string \<Rightarrow> doc" where
  "demo_record status worker =
     [(''id'', JStr ''e1''), (''projectId'', JStr ''p1''), (''status'', JStr status),
      (''workerId'', JStr worker), (''startedAt'', JNum 10)]"

definition demo_server :: "string \<Rightarrow> string \<Rightarrow> server" where
  "demo_server status worker =
     \<lparr>sv_store = \<lparr>projects = [(''p1'', empty_pdir\<lparr>hist_exec := Some [(''e1'', (Doc (demo_record status worker), 0))]\<rparr>)],
                  index = upsert_worker_token ''w1'' (demo_sha ''t0s0'') ''s0'' empty_index\<rparr>,
      sv_reg = empty_registry\<lparr>wfiles := [(''w1'', Doc (new_worker demo_sha 1 ''w1'' ''t0'' ''s0'' (JStr ''n'') JNull JNull))]\<rparr>,
      sv_scan = [], sv_rate = [], sv_hosts = \<lparr>h_cache = [], h_files = []\<rparr>\<rparr>"

lemma demo_verify:
  "\<exists>R. verify_token (e_sha demo_env) (e_now demo_env) ''t0'' (sv_reg (demo_server s w)) (index (sv_store (demo_server s w)))
     = (Inr (Some (''w1'', new_worker demo_sha 1 ''w1'' ''t0'' ''s0'' (JStr ''n'') JNull JNull)), R,
        index (sv_store (demo_server s w)))"
  by (simp add: verify_token_def verify_cached_def demo_server_def empty_registry_def all_worker_salts_def
      upsert_worker_token_def empty_index_def tput_def demo_env_def demo_sha_def hash_token_def
      found_worker_def load_worker_def new_worker_def enabled_def)

lemma demo_get: "get_execution ''e1'' None (sv_store (authed R ix (demo_server s w))) = Some (demo_record s w)"
  if "locations ix = []"
  using that by (simp add: get_execution_def find_execution_project_def authed_def demo_server_def
      dir_file_def)

lemma with_worker_accepted:
  "verify_token (e_sha E) (e_now E) token (sv_reg sv) (index (sv_store sv)) = (Inr (Some (w, wd)), R, ix) \<Longrightarrow>
   token \<noteq> [] \<Longrightarrow> with_worker E token handler sv = handler w wd (authed R ix sv)"
  by (simp add: with_worker_def authed_def)

lemma authed_fields [simp]:
  "sv_store (authed R ix sv) = (sv_store sv)\<lparr>index := ix\<rparr>" "sv_reg (authed R ix sv) = R"
  "sv_hosts (authed R ix sv) = sv_hosts sv"
  by (simp_all add: authed_def)

subsection \<open>Ownership\<close>

text \<open>A worker cannot finish or write to the log of an execution that another worker runs: the answer is an error, and every record and every log stays as it was.\<close>

theorem foreign_worker_rejected:
  assumes "verify_token (e_sha E) (e_now E) token (sv_reg sv) (index (sv_store sv)) = (Inr (Some (w, wd)), R, ix)"
    and "token \<noteq> []"
    and "get_execution e None ((sv_store sv)\<lparr>index := ix\<rparr>) = Some d"
    and "dget d ''workerId'' = JStr v" "v \<noteq> w" "v \<noteq> []"
    and "h = api_worker_execution_finish E token e data \<or> h = api_worker_execution_log E token e data"
  shows "fst (h sv) \<in> {400, 403, 404} \<and> projects (sv_store (snd (h sv))) = projects (sv_store sv) \<and>
         sv_hosts (snd (h sv)) = sv_hosts sv"
proof -
  have "truthy (dget d ''workerId'')" "dget d ''workerId'' \<noteq> JStr w" "d \<noteq> []" using assms(4-6) by auto
  note guards = this
  have "api_worker_execution_finish E token e data sv \<in> {(400, authed R ix sv), (403, authed R ix sv)}"
    unfolding api_worker_execution_finish_def with_worker_accepted [OF assms(1,2)]
    using guards assms(3) by simp
  moreover have "api_worker_execution_log E token e data sv \<in> {(400, authed R ix sv), (403, authed R ix sv)}"
    unfolding api_worker_execution_log_def with_worker_accepted [OF assms(1,2)]
    using guards assms(3) by simp
  moreover have "projects (sv_store (authed R ix sv)) = projects (sv_store sv)" by simp
  ultimately show ?thesis using assms(7) by auto
qed

lemma foreign_worker_rejected_witness:
  "fst (api_worker_execution_finish demo_env ''t0'' ''e1'' [(''status'', JStr ''SUCCESS'')] (demo_server ''RUNNING'' ''w2''))
     \<in> {400, 403, 404} \<and>
   projects (sv_store (snd (api_worker_execution_finish demo_env ''t0'' ''e1'' [(''status'', JStr ''SUCCESS'')]
     (demo_server ''RUNNING'' ''w2'')))) = projects (sv_store (demo_server ''RUNNING'' ''w2''))"
proof -
  obtain R where v: "verify_token (e_sha demo_env) (e_now demo_env) ''t0'' (sv_reg (demo_server ''RUNNING'' ''w2''))
      (index (sv_store (demo_server ''RUNNING'' ''w2''))) =
      (Inr (Some (''w1'', new_worker demo_sha 1 ''w1'' ''t0'' ''s0'' (JStr ''n'') JNull JNull)), R,
       index (sv_store (demo_server ''RUNNING'' ''w2'')))" using demo_verify by blast
  have g: "get_execution ''e1'' None ((sv_store (demo_server ''RUNNING'' ''w2''))
      \<lparr>index := index (sv_store (demo_server ''RUNNING'' ''w2''))\<rparr>) = Some (demo_record ''RUNNING'' ''w2'')"
    using demo_get [of "index (sv_store (demo_server ''RUNNING'' ''w2''))"]
    by (simp add: authed_def demo_server_def upsert_worker_token_def empty_index_def)
  show ?thesis
    using foreign_worker_rejected [OF v _ g, where v = "''w2''" and data = "[(''status'', JStr ''SUCCESS'')]"
        and h = "api_worker_execution_finish demo_env ''t0'' ''e1'' [(''status'', JStr ''SUCCESS'')]"]
    by (simp add: demo_record_def)
qed

subsection \<open>A canceled run nobody asked to stop\<close>

text \<open>The finish handler accepts the status \<open>CANCELED\<close>, but for an execution that is running the state machine refuses it: the worker gets error 500, the record still says running, and the worker stays marked as busy with it.\<close>

theorem canceled_finish_of_running_fails:
  assumes "verify_token (e_sha E) (e_now E) token (sv_reg sv) (index (sv_store sv)) = (Inr (Some (w, wd)), R, ix)"
    and "token \<noteq> []" and "get_execution e None ((sv_store sv)\<lparr>index := ix\<rparr>) = Some d"
    and "dget d ''projectId'' = JStr p" "p \<noteq> []" "dget d ''workerId'' = JStr w"
    and "record_at (sv_store sv) p False e = Some (Doc d)" "dget d ''status'' = JStr ''RUNNING''"
    and "dget data ''status'' = JStr ''CANCELED''"
  shows "fst (api_worker_execution_finish E token e data sv) = 500 \<and>
         sv_store (snd (api_worker_execution_finish E token e data sv)) = (sv_store sv)\<lparr>index := ix\<rparr> \<and>
         sv_reg (snd (api_worker_execution_finish E token e data sv)) = R"
proof -
  have "truthy (dget d ''status'')" using assms(8) by simp
  then have st: "getd d ''status'' (JStr ''QUEUED'') = JStr ''RUNNING''" using assms(8) by (simp add: getd_truthy)
  have u: "dget (finish_updates (e_now E) data) ''status'' = JStr ''CANCELED''"
    using assms(9) by (simp add: finish_updates_status)
  have "validate_status_transition (JStr ''RUNNING'') (JStr ''CANCELED'') = Inl (ValueError ''Must go through CANCELING first'')"
    by code_simp
  then have "prepare_update (e_now E) d (finish_updates (e_now E) data) =
      Inl (Inl (ValueError ''Must go through CANCELING first''))"
    using st u by (simp add: prepare_update_def status_changes_def)
  then have "update_execution_record (e_now E) e (finish_updates (e_now E) data) (Some p)
      ((sv_store sv)\<lparr>index := ix\<rparr>) = (Inl (ValueError ''Must go through CANCELING first''), (sv_store sv)\<lparr>index := ix\<rparr>)"
    using assms(5,7) by (simp add: update_execution_record_def hist_file_record)
  moreover have "d \<noteq> []" using assms(8) by auto
  ultimately show ?thesis
    using assms(3-6,9) with_worker_accepted [OF assms(1,2)]
    by (simp add: api_worker_execution_finish_def Let_def as_text_def)
qed

lemma canceled_finish_of_running_fails_witness:
  "fst (api_worker_execution_finish demo_env ''t0'' ''e1'' [(''status'', JStr ''CANCELED'')]
          (demo_server ''RUNNING'' ''w1'')) = 500"
proof -
  obtain R where v: "verify_token (e_sha demo_env) (e_now demo_env) ''t0'' (sv_reg (demo_server ''RUNNING'' ''w1''))
      (index (sv_store (demo_server ''RUNNING'' ''w1''))) =
      (Inr (Some (''w1'', new_worker demo_sha 1 ''w1'' ''t0'' ''s0'' (JStr ''n'') JNull JNull)), R,
       index (sv_store (demo_server ''RUNNING'' ''w1'')))" using demo_verify by blast
  have g: "get_execution ''e1'' None ((sv_store (demo_server ''RUNNING'' ''w1''))
      \<lparr>index := index (sv_store (demo_server ''RUNNING'' ''w1''))\<rparr>) = Some (demo_record ''RUNNING'' ''w1'')"
    using demo_get [of "index (sv_store (demo_server ''RUNNING'' ''w1''))"]
    by (simp add: authed_def demo_server_def upsert_worker_token_def empty_index_def)
  show ?thesis
    using canceled_finish_of_running_fails [OF v _ g, of "''p1''" "[(''status'', JStr ''CANCELED'')]"]
    by (simp add: demo_record_def record_at_def demo_server_def dir_file_def pdir_of_def)
qed

subsection \<open>Overlapping updates\<close>

definition update_read :: "real \<Rightarrow> string \<Rightarrow> doc \<Rightarrow> string \<Rightarrow> store \<Rightarrow> doc option" where
  \<comment> \<open>the first half of an update: the record it will write\<close>
  "update_read now e updates p S =
    (case hist_file S p e of
       Some (Doc d) \<Rightarrow>
         (case prepare_update now d updates of
            Inl _ \<Rightarrow> None
          | Inr u \<Rightarrow> Some (dupd d u))
     | _ \<Rightarrow> None)"

definition update_write :: "real \<Rightarrow> string \<Rightarrow> string \<Rightarrow> doc \<Rightarrow> doc \<Rightarrow> store \<Rightarrow> store" where
  \<comment> \<open>the second half\<close>
  "update_write now e p updates d' S =
    (let S' = put_hist now p e d' S
     in S'\<lparr>index := sync_index now e p (dget updates ''status'') d' (index S')\<rparr>)"

lemma update_is_read_then_write:
  assumes "p \<noteq> []"
  shows "snd (update_execution_record now e u (Some p) S) =
     (case update_read now e u p S of None \<Rightarrow> S | Some d' \<Rightarrow> update_write now e p u d' S)"
  using assms
  by (simp add: update_execution_record_def update_read_def update_write_def Let_def
      split: option.split jfile.split sum.split)

text \<open>Nothing locks the record between the two halves of an update: if an execution is running when a stop request reads it, and it is finished before the request writes, then the request overwrites the final status with \<open>CANCELING\<close>.\<close>

theorem overlapping_updates_leave_final:
  assumes "p \<noteq> []" "hist_file S p e = Some (Doc d)" "dget d ''status'' = JStr ''RUNNING''"
    and "update_read now e [(''status'', JStr ''CANCELING'')] p S = Some d1"
    and "update_execution_record now' e u (Some p) S = (Inr True, S1)" "dget u ''status'' = JStr ''SUCCESS''"
  shows "(\<exists>d'. hist_file S1 p e = Some (Doc d') \<and> dget d' ''status'' = JStr ''SUCCESS'') \<and>
         (\<exists>d'. hist_file (update_write now e p [(''status'', JStr ''CANCELING'')] d1 S1) p e = Some (Doc d') \<and>
               dget d' ''status'' = JStr ''CANCELING'')"
proof
  have hu: "has u ''status''" using assms(6) by (auto intro: has_truthy)
  show "\<exists>d'. hist_file S1 p e = Some (Doc d') \<and> dget d' ''status'' = JStr ''SUCCESS''"
    using assms(5)
  proof (cases rule: update_cases)
    case rejected
    then show ?thesis by simp
  next
    case (written q d0 u')
    then have "q = p" using assms(1) by simp
    then show ?thesis using written written_status [OF written(4)] hu assms(6) by (simp add: dget_dupd)
  qed
  obtain v where "prepare_update now d [(''status'', JStr ''CANCELING'')] = Inr v" "d1 = dupd d v"
    using assms(2,4) by (auto simp: update_read_def split: sum.splits)
  then have "dget d1 ''status'' = JStr ''CANCELING''"
    using written_status [of now d "[(''status'', JStr ''CANCELING'')]" v] by (simp add: dget_dupd)
  then show "\<exists>d'. hist_file (update_write now e p [(''status'', JStr ''CANCELING'')] d1 S1) p e = Some (Doc d') \<and>
        dget d' ''status'' = JStr ''CANCELING''"
    by (simp add: update_write_def Let_def)
qed

lemma overlapping_updates_leave_final_witness:
  "\<exists>d1 S1. update_read 50 ''e1'' [(''status'', JStr ''CANCELING'')] ''p1'' (sv_store (demo_server ''RUNNING'' ''w1'')) = Some d1 \<and>
     update_execution_record 60 ''e1'' [(''status'', JStr ''SUCCESS'')] (Some ''p1'')
       (sv_store (demo_server ''RUNNING'' ''w1'')) = (Inr True, S1) \<and>
     (\<exists>d'. hist_file (update_write 50 ''e1'' ''p1'' [(''status'', JStr ''CANCELING'')] d1 S1) ''p1'' ''e1'' = Some (Doc d') \<and>
           dget d' ''status'' = JStr ''CANCELING'')"
proof -
  let ?S = "sv_store (demo_server ''RUNNING'' ''w1'')"
  have h: "hist_file ?S ''p1'' ''e1'' = Some (Doc (demo_record ''RUNNING'' ''w1''))"
    by (simp add: demo_server_def hist_file_def dir_file_def pdir_of_def)
  have ok: "\<exists>u. prepare_update t (demo_record ''RUNNING'' ''w1'') [(''status'', JStr x)] = Inr u"
    if "x = ''CANCELING'' \<or> x = ''SUCCESS''" for t x
  proof -
    have "validate_status_transition (JStr ''RUNNING'') (JStr ''CANCELING'') = Inr ()"
        "validate_status_transition (JStr ''RUNNING'') (JStr ''SUCCESS'') = Inr ()" by code_simp+
    then show ?thesis using that
      by (auto simp: prepare_update_def status_changes_def demo_record_def stamp_status_def
          add_duration_def Let_def py_or_def split: option.split prod.split)
  qed
  obtain u1 where u1: "prepare_update 50 (demo_record ''RUNNING'' ''w1'') [(''status'', JStr ''CANCELING'')] = Inr u1"
    using ok by blast
  obtain u2 where u2: "prepare_update 60 (demo_record ''RUNNING'' ''w1'') [(''status'', JStr ''SUCCESS'')] = Inr u2"
    using ok by blast
  have r: "update_read 50 ''e1'' [(''status'', JStr ''CANCELING'')] ''p1'' ?S = Some (dupd (demo_record ''RUNNING'' ''w1'') u1)"
    by (simp add: update_read_def h u1)
  obtain S1 where w: "update_execution_record 60 ''e1'' [(''status'', JStr ''SUCCESS'')] (Some ''p1'') ?S = (Inr True, S1)"
    by (simp add: update_execution_record_def h u2 Let_def)
  have "dget (demo_record ''RUNNING'' ''w1'') ''status'' = JStr ''RUNNING''" by (simp add: demo_record_def)
  from overlapping_updates_leave_final [OF _ h this r w] show ?thesis using r w by auto
qed

lemma final_until_deleted_witness:
  "\<exists>S'. (race_step ''e1'')\<^sup>*\<^sup>* (sv_store (demo_server ''SUCCESS'' ''w1''), []) (S', []) \<and>
        record_at S' ''p1'' False ''e1'' = Some (Doc (demo_record ''SUCCESS'' ''w1'')) \<and>
        same_final (JStr ''SUCCESS'') (dget (demo_record ''SUCCESS'' ''w1'') ''status'')"
proof -
  let ?S = "sv_store (demo_server ''SUCCESS'' ''w1'')"
  obtain r S' where l: "append_execution_log ''e1'' ''x'' (Some ''p1'') ?S = (r, S')" by fastforce
  have s: "(race_step ''e1'')\<^sup>*\<^sup>* (?S, []) (S', [])" by (rule r_into_rtranclp, rule race_step.log [OF l])
  have 0: "record_at ?S ''p1'' False ''e1'' = Some (Doc (demo_record ''SUCCESS'' ''w1''))"
    by (simp add: demo_server_def record_at_def dir_file_def pdir_of_def)
  then have 1: "record_at S' ''p1'' False ''e1'' = Some (Doc (demo_record ''SUCCESS'' ''w1''))"
    using record_at_log [of "''e1''" "''x''" "Some ''p1''" ?S "''p1''" False "''e1''"] l by simp
  have "is_final (dget (demo_record ''SUCCESS'' ''w1'') ''status'')" by code_simp
  then have "same_final (dget (demo_record ''SUCCESS'' ''w1'') ''status'') (dget (demo_record ''SUCCESS'' ''w1'') ''status'')"
    using final_until_deleted [OF s 0 _ _ 1] by simp
  then show ?thesis using s 1 by (auto simp: demo_record_def)
qed

lemma claimed_at_most_once_witness:
  "\<exists>d S1. (race_step ''e1'')\<^sup>*\<^sup>* (queue_store (JNum 1), []) (queue_store (JNum 1), [((''p1'', False, ''e1''), TakeRun 9 queue_claimer, d)]) \<and>
     S1 = write_record 9 ''p1'' False ''e1'' d (queue_store (JNum 1)) \<and>
     fst (try_claim (\<lambda>_. []) 10 queue_claimer 5 queue_registry (queue_candidate ''e1'' (JNum 1)) S1) = None"
proof -
  let ?c = "queue_candidate ''e1'' (JNum 1)"
  let ?k = "(c_project ?c, c_old ?c, c_stem ?c)"
  have k: "?k = (''p1'', False, ''e1'')" by (simp add: queue_candidate_def)
  let ?d = "running_record 9 queue_claimer (queue_doc ''e1'' (JNum 1))"
  have q: "record_at (queue_store (JNum 1)) ''p1'' False ''e1'' = Some (Doc (queue_doc ''e1'' (JNum 1)))"
    by (simp add: record_at_def queue_store_def dir_file_def pdir_of_def)
  have "dget (queue_doc ''e1'' (JNum 1)) ''status'' = JStr ''QUEUED''" by (simp add: queue_doc_def)
  then have n: "new_doc (TakeRun 9 queue_claimer) (queue_doc ''e1'' (JNum 1)) = Some ?d" by simp
  have "race_step ''e1'' (queue_store (JNum 1), []) (queue_store (JNum 1), [] @ [((''p1'', False, ''e1''), TakeRun 9 queue_claimer, ?d)])"
    by (rule race_step.reads [OF q n]) (simp_all add: lockable_def)
  then have r: "(race_step ''e1'')\<^sup>*\<^sup>* (queue_store (JNum 1), []) (queue_store (JNum 1), [((''p1'', False, ''e1''), TakeRun 9 queue_claimer, ?d)])"
    by (simp add: r_into_rtranclp)
  have "fst (try_claim (\<lambda>_. []) 10 queue_claimer 5 queue_registry ?c
      (write_record 9 ''p1'' False ''e1'' ?d (queue_store (JNum 1)))) = None"
    by (rule claimed_at_most_once [where ?P1.0 = "[((''p1'', False, ''e1''), TakeRun 9 queue_claimer, ?d)]" and i = 0 and ?P2.0 = "[]"
        and ?S0.0 = "queue_store (JNum 1)" and ?S1.0 = "queue_store (JNum 1)" and ?P3.0 = "[]" and now = 9 and d = ?d and W = queue_claimer])
      (use r in \<open>simp_all add: queue_candidate_def drop_nth_def\<close>)
  then show ?thesis using r by auto
qed

end
