(* ===== verification/Tokens.thy ===== *)
theory Tokens
  imports WorkerRegistry
begin

section \<open>API tokens and session tokens\<close>

text \<open>
  \<^verbatim>\<open>server/storage/api_tokens_store.py\<close> keeps long-lived tokens, hashed with a salt, in one
  JSON file; \<^verbatim>\<open>server/auth/service.py\<close> makes and checks JWTs and keeps the file of revoked
  ones. The JWT library is a record of functions (\<open>jwt_lib\<close>) with its documented laws
  (\<open>jwt_laws\<close>); \<open>offset\<close> is the distance of the server's zone from UTC in seconds, positive
  to the east, because \<^verbatim>\<open>datetime.utcnow().timestamp()\<close> reads the UTC wall clock as a local
  time.
\<close>

subsection \<open>API tokens\<close>

record api_token =
  tk_id :: string
  tk_name :: string
  tk_scope :: string
  tk_project :: "string option"
  tk_user :: string
  tk_username :: string
  tk_hash :: string
  tk_salt :: string
  tk_created :: real
  tk_used :: "real option"
  tk_expires :: "real option"
  tk_revoked :: bool

record token_index =
  ti_tokens :: "api_token list"
  ti_by_id :: "(string \<times> nat) list"

datatype token_file = NoTokens | BadTokens | Tokens token_index

definition load_index :: "token_file \<Rightarrow> token_index" where
  \<comment> \<open>a file that is missing or does not parse reads as empty\<close>
  "load_index f = (case f of Tokens ti \<Rightarrow> ti | _ \<Rightarrow> \<lparr>ti_tokens = [], ti_by_id = []\<rparr>)"

definition save_index :: "bool \<Rightarrow> token_index \<Rightarrow> token_file \<Rightarrow> bool \<times> token_file" where
  \<comment> \<open>\<open>writable\<close>: whether the file can be opened; the error is logged and reported as \<open>False\<close>\<close>
  "save_index writable ti f = (if writable then (True, Tokens ti) else (False, f))"

definition list_tokens :: "string \<Rightarrow> token_file \<Rightarrow> doc list" where
  "list_tokens user_id f =
    (let text = (\<lambda>x. case x of None \<Rightarrow> JNull | Some s \<Rightarrow> JStr s);
         num = (\<lambda>x. case x of None \<Rightarrow> JNull | Some n \<Rightarrow> JNum n)
     in map (\<lambda>t. [(''id'', JStr (tk_id t)), (''name'', JStr (tk_name t)), (''scope'', JStr (tk_scope t)),
                  (''projectId'', text (tk_project t)), (''createdAt'', JNum (tk_created t)),
                  (''lastUsedAt'', num (tk_used t)), (''expiresAt'', num (tk_expires t)),
                  (''status'', JStr (if tk_revoked t then ''revoked'' else ''active''))])
          (filter (\<lambda>t. tk_user t = user_id) (ti_tokens (load_index f))))"

definition new_token ::
  "(string \<Rightarrow> string) \<Rightarrow> real \<Rightarrow> string \<Rightarrow> string \<Rightarrow> string \<Rightarrow> string \<Rightarrow> string \<Rightarrow> string \<Rightarrow> string
   \<Rightarrow> string option \<Rightarrow> int option \<Rightarrow> api_token" where
  "new_token sha now token_id plaintext salt user_id username name scope project_id expires_days =
    \<lparr>tk_id = token_id, tk_name = name, tk_scope = scope,
     tk_project = (if scope = ''project'' then project_id else None),
     tk_user = user_id, tk_username = username, tk_hash = hash_token sha plaintext salt, tk_salt = salt,
     tk_created = now, tk_used = None,
     tk_expires = (case expires_days of None \<Rightarrow> None
                   | Some n \<Rightarrow> if 0 < n then Some (now + real_of_int n * 86400) else None),
     tk_revoked = False\<rparr>"

definition create_token ::
  "(string \<Rightarrow> string) \<Rightarrow> bool \<Rightarrow> real \<Rightarrow> string \<Rightarrow> string \<Rightarrow> string \<Rightarrow> string \<Rightarrow> string \<Rightarrow> string \<Rightarrow> string
   \<Rightarrow> string option \<Rightarrow> int option \<Rightarrow> token_file \<Rightarrow> (string \<times> string) res \<times> token_file" where
  "create_token sha writable now token_id plaintext salt user_id username name scope project_id expires_days f =
    (let data = load_index f;
         toks = ti_tokens data @ [new_token sha now token_id plaintext salt user_id username name scope
                                    project_id expires_days];
         data' = \<lparr>ti_tokens = toks, ti_by_id = AList.update token_id (length toks - 1) (ti_by_id data)\<rparr>
     in (case save_index writable data' f of
           (True, f') \<Rightarrow> (Inr (token_id, plaintext), f')
         | (False, f') \<Rightarrow> (Inl (OtherError ''Failed to save API token''), f')))"

definition token_live :: "real \<Rightarrow> api_token \<Rightarrow> bool" where
  "token_live now t = (\<not> tk_revoked t \<and>
     (case tk_expires t of None \<Rightarrow> True | Some e \<Rightarrow> e = 0 \<or> now \<le> e))"

definition token_accepts :: "(string \<Rightarrow> string) \<Rightarrow> string \<Rightarrow> api_token \<Rightarrow> bool" where
  "token_accepts sha token t =
    (tk_hash t \<noteq> [] \<and> tk_salt t \<noteq> [] \<and> hash_token sha token (tk_salt t) = tk_hash t)"

fun touch_first :: "('a \<Rightarrow> bool) \<Rightarrow> ('a \<Rightarrow> 'a) \<Rightarrow> 'a list \<Rightarrow> 'a list" where
  \<comment> \<open>a \<open>for\<close> loop that changes the first match in place and stops\<close>
  "touch_first P g [] = []"
| "touch_first P g (t # ts) = (if P t then g t # ts else t # touch_first P g ts)"

definition verify_api_token ::
  "(string \<Rightarrow> string) \<Rightarrow> bool \<Rightarrow> real \<Rightarrow> string \<Rightarrow> token_file \<Rightarrow> (string \<times> api_token) option \<times> token_file" where
  "verify_api_token sha writable now token f =
    (let data = load_index f; P = (\<lambda>t. token_live now t \<and> token_accepts sha token t);
         use = (\<lambda>t. t\<lparr>tk_used := Some now\<rparr>)
     in (case find P (ti_tokens data) of
           None \<Rightarrow> (None, f)
         | Some t \<Rightarrow> (Some (tk_user t, use t),
                      snd (save_index writable (data\<lparr>ti_tokens := touch_first P use (ti_tokens data)\<rparr>) f))))"

definition revoke_token :: "bool \<Rightarrow> string \<Rightarrow> string \<Rightarrow> token_file \<Rightarrow> bool \<times> token_file" where
  "revoke_token writable token_id user_id f =
    (let data = load_index f; P = (\<lambda>t. tk_id t = token_id \<and> tk_user t = user_id)
     in if find P (ti_tokens data) = None then (False, f)
        else save_index writable (data\<lparr>ti_tokens := touch_first P (tk_revoked_update (\<lambda>_. True)) (ti_tokens data)\<rparr>) f)"

definition rotate_token ::
  "(string \<Rightarrow> string) \<Rightarrow> bool \<Rightarrow> real \<Rightarrow> string \<Rightarrow> string \<Rightarrow> string \<Rightarrow> string \<Rightarrow> string \<Rightarrow> token_file
   \<Rightarrow> (string \<times> string) option res \<times> token_file" where
  \<comment> \<open>the days left are truncated to an integer; \<open>create_token\<close> reads the file again\<close>
  "rotate_token sha writable now new_id plaintext salt token_id user_id f =
    (let data = load_index f; P = (\<lambda>t. tk_id t = token_id \<and> tk_user t = user_id \<and> \<not> tk_revoked t)
     in (case find P (ti_tokens data) of
           None \<Rightarrow> (Inr None, f)
         | Some t \<Rightarrow>
             (let f1 = snd (save_index writable (data\<lparr>ti_tokens :=
                              touch_first P (tk_revoked_update (\<lambda>_. True)) (ti_tokens data)\<rparr>) f);
                  expires_days = (case tk_expires t of
                                    None \<Rightarrow> None
                                  | Some e \<Rightarrow> if e \<noteq> 0 \<and> now < e then Some (py_int ((e - now) / 86400)) else None)
              in (case create_token sha writable now new_id plaintext salt user_id (tk_username t) (tk_name t)
                         (tk_scope t) (tk_project t) expires_days f1 of
                    (Inl err, f2) \<Rightarrow> (Inl err, f2)
                  | (Inr r, f2) \<Rightarrow> (Inr (Some r), f2)))))"

definition delete_token :: "bool \<Rightarrow> string \<Rightarrow> string \<Rightarrow> token_file \<Rightarrow> bool \<times> token_file" where
  "delete_token writable token_id user_id f =
    (let data = load_index f;
         keep = filter (\<lambda>t. \<not> (tk_id t = token_id \<and> tk_user t = user_id)) (ti_tokens data)
     in if length keep = length (ti_tokens data) then (False, f)
        else save_index writable \<lparr>ti_tokens = keep, ti_by_id = AList.delete token_id (ti_by_id data)\<rparr> f)"

subsection \<open>Session tokens\<close>

record claims =
  jc_user :: string
  jc_name :: string
  jc_roles :: "string list"
  jc_type :: string
  jc_exp :: int
  jc_iat :: int

record jwt_lib =
  jw_encode :: "claims \<Rightarrow> string"
  jw_signed :: "string \<Rightarrow> claims option"
  jw_decode :: "real \<Rightarrow> string \<Rightarrow> claims option"

definition jwt_laws :: "jwt_lib \<Rightarrow> bool" where
  \<comment> \<open>what the library documents: a decoded token is signed and not expired, an encoded one
     decodes between its issue and its expiry, and \<open>verify_exp = False\<close> ignores the clock\<close>
  "jwt_laws J =
    ((\<forall>c. jw_signed J (jw_encode J c) = Some c) \<and>
     (\<forall>t tok c. jw_decode J t tok = Some c \<longrightarrow> jw_signed J tok = Some c \<and> t < real_of_int (jc_exp c)) \<and>
     (\<forall>t tok c. jw_signed J tok = Some c \<and> real_of_int (jc_iat c) \<le> t \<and> t < real_of_int (jc_exp c) \<longrightarrow>
        jw_decode J t tok = Some c))"

definition access_minutes :: real where "access_minutes = 1440"
definition refresh_days :: real where "refresh_days = 7"

definition generate_token ::
  "jwt_lib \<Rightarrow> real \<Rightarrow> string \<Rightarrow> string \<Rightarrow> string list \<Rightarrow> string \<Rightarrow> real option \<Rightarrow> string" where
  \<comment> \<open>the library writes \<open>exp\<close> and \<open>iat\<close> as whole seconds\<close>
  "generate_token J now user_id username roles token_type expires_delta =
    (let delta = (case expires_delta of
                    Some d \<Rightarrow> d
                  | None \<Rightarrow> if token_type = ''refresh'' then refresh_days * 86400 else access_minutes * 60)
     in jw_encode J \<lparr>jc_user = user_id, jc_name = username, jc_roles = roles, jc_type = token_type,
                     jc_exp = \<lfloor>now + delta\<rfloor>, jc_iat = \<lfloor>now\<rfloor>\<rparr>)"

text \<open>The blacklist file: missing, a dictionary of expiry times, or anything else (which is dropped).
  Reading it, writing the purged list and saving may each fail; every failure is logged and
  swallowed, and a failure while loading gives an empty blacklist.\<close>

datatype blacklist_file = NoBlacklist | OtherContent | Blacklist "(string \<times> real) list"

record black_io =
  bio_read :: bool      \<comment> \<open>the file can be opened and parsed\<close>
  bio_purge :: bool     \<comment> \<open>the purged list can be written\<close>
  bio_save :: bool      \<comment> \<open>the list with a new entry can be written\<close>

definition load_token_blacklist ::
  "black_io \<Rightarrow> real \<Rightarrow> real \<Rightarrow> blacklist_file \<Rightarrow> (string \<times> real) list \<times> blacklist_file" where
  \<comment> \<open>\<open>utcnow().timestamp()\<close> is \<open>now - offset\<close>; expired entries are purged on disk\<close>
  "load_token_blacklist io offset now f =
    (case f of
       Blacklist data \<Rightarrow>
         if \<not> bio_read io then ([], f)
         else
           (let active = filter (\<lambda>(tok, e). now - offset < e) data
            in if length active = length data then (active, f)
               else if bio_purge io then (active, Blacklist active) else ([], f))
     | _ \<Rightarrow> ([], f))"

definition extract_exp :: "jwt_lib \<Rightarrow> real \<Rightarrow> real \<Rightarrow> string \<Rightarrow> real" where
  "extract_exp J offset now token =
    (case jw_signed J token of
       Some c \<Rightarrow> if jc_exp c \<noteq> 0 then real_of_int (jc_exp c) else now - offset + refresh_days * 86400
     | None \<Rightarrow> now - offset + refresh_days * 86400)"

definition add_token_to_blacklist ::
  "jwt_lib \<Rightarrow> black_io \<Rightarrow> real \<Rightarrow> real \<Rightarrow> string \<Rightarrow> blacklist_file \<Rightarrow> blacklist_file" where
  "add_token_to_blacklist J io offset now token f =
    (case load_token_blacklist io offset now f of
       (bl, f') \<Rightarrow> if bio_save io then Blacklist (AList.update token (extract_exp J offset now token) bl) else f')"

definition is_token_blacklisted :: "black_io \<Rightarrow> real \<Rightarrow> real \<Rightarrow> string \<Rightarrow> blacklist_file \<Rightarrow> bool \<times> blacklist_file" where
  "is_token_blacklisted io offset now token f =
    (case load_token_blacklist io offset now f of (bl, f') \<Rightarrow> (map_of bl token \<noteq> None, f'))"

definition verify_jwt ::
  "jwt_lib \<Rightarrow> black_io \<Rightarrow> real \<Rightarrow> real \<Rightarrow> string \<Rightarrow> string \<Rightarrow> blacklist_file \<Rightarrow> claims option \<times> blacklist_file" where
  "verify_jwt J io offset now token token_type f =
    (case is_token_blacklisted io offset now token f of
       (True, f') \<Rightarrow> (None, f')
     | (False, f') \<Rightarrow>
         ((case jw_decode J now token of
             None \<Rightarrow> None
           | Some c \<Rightarrow> if jc_type c \<noteq> token_type then None else Some c), f'))"

fun split_space :: "string \<Rightarrow> string list" where
  \<comment> \<open>\<open>s.split()\<close>\<close>
  "split_space [] = []"
| "split_space (c # s) =
    (if is_space c then split_space s
     else (case s of
             [] \<Rightarrow> [[c]]
           | d # _ \<Rightarrow> if is_space d then [c] # split_space s
                      else (case split_space s of [] \<Rightarrow> [[c]] | w # ws \<Rightarrow> (c # w) # ws)))"

definition get_token_from_header :: "string option \<Rightarrow> string option" where
  "get_token_from_header auth_header =
    (case auth_header of
       None \<Rightarrow> None
     | Some h \<Rightarrow> (case split_space h of
                    [scheme, token] \<Rightarrow> if lower scheme \<noteq> ''bearer'' then None else Some token
                  | _ \<Rightarrow> None))"

end
