(* ===== verification/AuthDb.thy ===== *)
theory AuthDb
  imports IndexDb "HOL-Library.Char_ord" "HOL-Library.List_Lexorder"
begin

section \<open>Users, roles and permissions\<close>

text \<open>
  \<^verbatim>\<open>server/storage/auth_db.py\<close>, \<^verbatim>\<open>server/services/user_service.py\<close>,
  \<^verbatim>\<open>server/services/role_service.py\<close>, \<^verbatim>\<open>server/services/permission_service.py\<close> and
  \<^verbatim>\<open>server/auth/models.py\<close>. A table is a list of keyed rows in insertion order; the link
  tables are lists of pairs. The constraints of the schema are written out where a statement
  can violate them: \<^verbatim>\<open>UNIQUE\<close> names, primary keys, and foreign keys with
  \<^verbatim>\<open>ON DELETE CASCADE\<close> (\<^verbatim>\<open>INSERT OR IGNORE\<close> skips a duplicate pair but not a missing
  reference). A violated constraint raises and rolls back. Password hashing is an argument.
\<close>

definition integrity_error :: py_error where "integrity_error = OtherError ''IntegrityError''"

record user_row =
  u_name :: string
  u_email :: "string option"
  u_hash :: string
  u_active :: bool
  u_created :: string
  u_updated :: string
  u_last :: "string option"
  u_disabled :: "string option"

record role_row =
  ro_name :: string
  ro_desc :: string
  ro_system :: bool
  ro_created :: string
  ro_updated :: string

record perm_row =
  pe_name :: string
  pe_desc :: string
  pe_resource :: string
  pe_action :: string
  pe_created :: string

record audit_row =
  a_actor :: "string option"
  a_action :: string
  a_type :: "string option"
  a_target :: "string option"
  a_meta :: "json option"
  a_at :: string

record auth_db =
  t_users :: "(string \<times> user_row) list"
  t_roles :: "(string \<times> role_row) list"
  t_perms :: "(string \<times> perm_row) list"
  user_roles :: "(string \<times> string) list"
  role_perms :: "(string \<times> string) list"
  audit_log :: "audit_row list"

definition empty_auth :: auth_db where
  "empty_auth = \<lparr>t_users = [], t_roles = [], t_perms = [], user_roles = [], role_perms = [], audit_log = []\<rparr>"

subsection \<open>Statements\<close>

definition audit :: "string \<Rightarrow> string \<Rightarrow> string \<Rightarrow> string \<Rightarrow> string option \<Rightarrow> doc \<Rightarrow> auth_db \<Rightarrow> auth_db" where
  "audit now action target_type target_id actor meta db =
    db\<lparr>audit_log := audit_log db @
        [\<lparr>a_actor = actor, a_action = action, a_type = Some target_type, a_target = Some target_id,
          a_meta = (if meta \<noteq> [] then Some (JObj meta) else None), a_at = now\<rparr>]\<rparr>"

definition list_audit ::
  "int \<Rightarrow> string option \<Rightarrow> string option \<Rightarrow> string option \<Rightarrow> auth_db \<Rightarrow> (nat \<times> audit_row) list" where
  \<comment> \<open>the row id is its position; a filter that is empty does not apply\<close>
  "list_audit limit target_type target_id actor db =
    (let ok = (\<lambda>wanted got. wanted = None \<or> wanted = Some [] \<or> got = wanted)
     in sql_limit limit (filter (\<lambda>(i, r). ok target_type (a_type r) \<and> ok target_id (a_target r) \<and>
                                            ok actor (a_actor r))
                           (rev (zip [1..<Suc (length (audit_log db))] (audit_log db)))))"

fun link_all :: "string \<Rightarrow> string list \<Rightarrow> string list \<Rightarrow> (string \<times> string) list \<Rightarrow> (string \<times> string) list option" where
  \<comment> \<open>a run of \<^verbatim>\<open>INSERT OR IGNORE\<close> into a link table; \<open>None\<close>: a reference is missing\<close>
  "link_all a [] existing t = Some t"
| "link_all a (b # bs) existing t =
    (if b \<notin> set existing then None
     else link_all a bs existing (if (a, b) \<in> set t then t else t @ [(a, b)]))"

definition ids :: "(string \<times> 'r) list \<Rightarrow> string list" where
  "ids t = map fst t"

definition name_taken :: "('r \<Rightarrow> string) \<Rightarrow> string \<Rightarrow> string \<Rightarrow> (string \<times> 'r) list \<Rightarrow> bool" where
  \<comment> \<open>\<^verbatim>\<open>SELECT 1 FROM t WHERE name = ? AND id != ?\<close>\<close>
  "name_taken nm name key t = (\<exists>(k, r)\<in>set t. nm r = name \<and> k \<noteq> key)"

definition row_update :: "string \<Rightarrow> ('r \<Rightarrow> 'r) \<Rightarrow> (string \<times> 'r) list \<Rightarrow> (string \<times> 'r) list" where
  "row_update key f t = map (\<lambda>(k, r). if k = key then (k, f r) else (k, r)) t"

definition opt_name :: "string option \<Rightarrow> string \<Rightarrow> string" where
  "opt_name new old = (case new of None \<Rightarrow> old | Some s \<Rightarrow> s)"

subsection \<open>Users\<close>

record user =
  us_id :: string
  us_row :: user_row
  us_roles :: "string list"

definition row_to_user :: "auth_db \<Rightarrow> string \<times> user_row \<Rightarrow> user" where
  "row_to_user db = (\<lambda>(k, r). \<lparr>us_id = k, us_row = r,
      us_roles = map snd (filter (\<lambda>(a, b). a = k) (user_roles db))\<rparr>)"

definition get_user_by_id :: "string \<Rightarrow> auth_db \<Rightarrow> user option" where
  "get_user_by_id user_id db =
    map_option (\<lambda>r. row_to_user db (user_id, r)) (map_of (t_users db) user_id)"

definition get_user_by_username :: "string \<Rightarrow> auth_db \<Rightarrow> user option" where
  "get_user_by_username username db =
    map_option (row_to_user db) (find (\<lambda>(k, r). u_name r = username) (t_users db))"

definition get_all_users :: "auth_db \<Rightarrow> user list" where
  "get_all_users db = map (row_to_user db) (sort_key (\<lambda>(k, r). u_name r) (t_users db))"

definition user_to_dict :: "user \<Rightarrow> doc" where
  \<comment> \<open>\<open>User.to_dict\<close>: all fields but the password hash\<close>
  "user_to_dict us =
    (let r = us_row us; text = (\<lambda>x. case x of None \<Rightarrow> JNull | Some s \<Rightarrow> JStr s)
     in dpop [(''id'', JStr (us_id us)), (''username'', JStr (u_name r)), (''email'', text (u_email r)),
              (''password_hash'', JStr (u_hash r)), (''roles'', JArr (map JStr (us_roles us))),
              (''is_active'', JBool (u_active r)), (''created_at'', JStr (u_created r)),
              (''updated_at'', JStr (u_updated r)), (''last_login'', text (u_last r))] ''password_hash'')"

definition create_user ::
  "string \<Rightarrow> string \<Rightarrow> string \<Rightarrow> string \<Rightarrow> string option \<Rightarrow> string list \<Rightarrow> auth_db \<Rightarrow> user option res \<times> auth_db" where
  \<comment> \<open>\<open>password_hash\<close>: what hashing the password with a fresh salt gives\<close>
  "create_user now user_id password_hash username email roles db =
    (if \<exists>(k, r)\<in>set (t_users db). u_name r = username then (Inl (ValueError ''already exists''), db)
     else if map_of (t_users db) user_id \<noteq> None then (Inl integrity_error, db)
     else (case link_all user_id roles (ids (t_roles db)) (user_roles db) of
             None \<Rightarrow> (Inl integrity_error, db)
           | Some ur \<Rightarrow>
               (let row = \<lparr>u_name = username, u_email = email, u_hash = password_hash, u_active = True,
                           u_created = now, u_updated = now, u_last = None, u_disabled = None\<rparr>;
                    db' = audit now ''user.create'' ''user'' user_id None
                            [(''username'', JStr username),
                             (''email'', case email of None \<Rightarrow> JNull | Some e \<Rightarrow> JStr e),
                             (''roles'', JArr (map JStr roles))]
                            (db\<lparr>t_users := t_users db @ [(user_id, row)], user_roles := ur\<rparr>)
                in (Inr (get_user_by_id user_id db'), db'))))"

definition update_user ::
  "string \<Rightarrow> string \<Rightarrow> string option \<Rightarrow> string option \<Rightarrow> string list option \<Rightarrow> bool option \<Rightarrow> auth_db
   \<Rightarrow> user option res \<times> auth_db" where
  "update_user now user_id username email roles is_active db =
    (case map_of (t_users db) user_id of
       None \<Rightarrow> (Inr None, db)
     | Some row \<Rightarrow>
         (let name = opt_name username (u_name row)
          in if username \<noteq> None \<and> name \<noteq> [] \<and> name \<noteq> u_name row \<and> name_taken u_name name user_id (t_users db)
             then (Inl (ValueError ''already exists''), db)
             else if name_taken u_name name user_id (t_users db) then (Inl integrity_error, db)
             else
               (let edit = (\<lambda>r. r\<lparr>u_name := name,
                                  u_email := (case email of None \<Rightarrow> u_email r | Some e \<Rightarrow> Some e),
                                  u_active := (case is_active of None \<Rightarrow> u_active r | Some b \<Rightarrow> b),
                                  u_disabled := (case is_active of None \<Rightarrow> u_disabled r
                                                 | Some b \<Rightarrow> if b then None else Some now),
                                  u_updated := now\<rparr>);
                    links = (case roles of
                               None \<Rightarrow> Some (user_roles db)
                             | Some rs \<Rightarrow> link_all user_id rs (ids (t_roles db))
                                            (filter (\<lambda>(a, b). a \<noteq> user_id) (user_roles db)))
                in case links of
                     None \<Rightarrow> (Inl integrity_error, db)
                   | Some ur \<Rightarrow>
                       (let text = (\<lambda>x. case x of None \<Rightarrow> JNull | Some s \<Rightarrow> JStr s);
                            db' = audit now ''user.update'' ''user'' user_id None
                                    [(''username'', text username), (''email'', text email),
                                     (''roles'', case roles of None \<Rightarrow> JNull | Some rs \<Rightarrow> JArr (map JStr rs)),
                                     (''is_active'', case is_active of None \<Rightarrow> JNull | Some b \<Rightarrow> JBool b)]
                                    (db\<lparr>t_users := row_update user_id edit (t_users db), user_roles := ur\<rparr>)
                        in (Inr (get_user_by_id user_id db'), db')))))"

definition store_password :: "string \<Rightarrow> string \<Rightarrow> string \<Rightarrow> string \<Rightarrow> auth_db \<Rightarrow> auth_db" where
  "store_password now user_id password_hash action db =
    audit now action ''user'' user_id None []
      (db\<lparr>t_users := row_update user_id (\<lambda>r. r\<lparr>u_hash := password_hash, u_updated := now\<rparr>) (t_users db)\<rparr>)"

definition change_password ::
  "(string \<Rightarrow> string \<Rightarrow> bool) \<Rightarrow> string \<Rightarrow> string \<Rightarrow> string \<Rightarrow> string \<Rightarrow> auth_db \<Rightarrow> bool \<times> auth_db" where
  \<comment> \<open>\<open>checkpw password hash\<close>; \<open>new_hash\<close>: the hash of the new password\<close>
  "change_password checkpw now user_id old_password new_hash db =
    (case map_of (t_users db) user_id of
       None \<Rightarrow> (False, db)
     | Some r \<Rightarrow> if \<not> checkpw old_password (u_hash r) then (False, db)
                 else (True, store_password now user_id new_hash ''user.password_change'' db))"

definition set_password :: "string \<Rightarrow> string \<Rightarrow> string \<Rightarrow> auth_db \<Rightarrow> bool \<times> auth_db" where
  "set_password now user_id new_hash db =
    (if map_of (t_users db) user_id = None then (False, db)
     else (True, store_password now user_id new_hash ''user.password_set'' db))"

definition delete_user :: "string \<Rightarrow> string \<Rightarrow> auth_db \<Rightarrow> bool \<times> auth_db" where
  "delete_user now user_id db =
    (case map_of (t_users db) user_id of
       None \<Rightarrow> (False, db)
     | Some r \<Rightarrow>
         (True, audit now ''user.delete'' ''user'' user_id None [(''username'', JStr (u_name r))]
                  (db\<lparr>t_users := filter (\<lambda>(k, r). k \<noteq> user_id) (t_users db),
                      user_roles := filter (\<lambda>(a, b). a \<noteq> user_id) (user_roles db)\<rparr>)))"

definition authenticate ::
  "(string \<Rightarrow> string \<Rightarrow> bool) \<Rightarrow> string \<Rightarrow> string \<Rightarrow> string \<Rightarrow> auth_db \<Rightarrow> user option \<times> auth_db" where
  "authenticate checkpw now username password db =
    (case get_user_by_username username db of
       None \<Rightarrow> (None, db)
     | Some us \<Rightarrow>
         (let meta = [(''username'', JStr username)]
          in if \<not> u_active (us_row us)
             then (None, audit now ''user.login_denied_inactive'' ''user'' (us_id us) None meta db)
             else if \<not> checkpw password (u_hash (us_row us))
             then (None, audit now ''user.login_failed'' ''user'' (us_id us) None meta db)
             else (Some (us\<lparr>us_row := (us_row us)\<lparr>u_last := Some now\<rparr>\<rparr>),
                   audit now ''user.login'' ''user'' (us_id us) (Some (us_id us)) meta
                     (db\<lparr>t_users := row_update (us_id us) (\<lambda>r. r\<lparr>u_last := Some now\<rparr>) (t_users db)\<rparr>))))"

definition touch_user :: "string \<Rightarrow> string \<Rightarrow> auth_db \<Rightarrow> auth_db" where
  "touch_user now user_id db =
    db\<lparr>t_users := row_update user_id (\<lambda>r. r\<lparr>u_updated := now\<rparr>) (t_users db)\<rparr>"

definition add_role_to_user :: "string \<Rightarrow> string \<Rightarrow> string \<Rightarrow> auth_db \<Rightarrow> bool res \<times> auth_db" where
  "add_role_to_user now user_id role_id db =
    (if map_of (t_users db) user_id = None then (Inr False, db)
     else (case link_all user_id [role_id] (ids (t_roles db)) (user_roles db) of
             None \<Rightarrow> (Inl integrity_error, db)
           | Some ur \<Rightarrow> (Inr True, audit now ''user.role_add'' ''user'' user_id None [(''role_id'', JStr role_id)]
                                     (touch_user now user_id (db\<lparr>user_roles := ur\<rparr>)))))"

definition remove_role_from_user :: "string \<Rightarrow> string \<Rightarrow> string \<Rightarrow> auth_db \<Rightarrow> bool \<times> auth_db" where
  "remove_role_from_user now user_id role_id db =
    (if map_of (t_users db) user_id = None then (False, db)
     else (True, audit now ''user.role_remove'' ''user'' user_id None [(''role_id'', JStr role_id)]
                   (touch_user now user_id
                      (db\<lparr>user_roles := filter (\<lambda>l. l \<noteq> (user_id, role_id)) (user_roles db)\<rparr>))))"

subsection \<open>Roles\<close>

record role =
  rl_id :: string
  rl_row :: role_row
  rl_perms :: "string list"

definition row_to_role :: "auth_db \<Rightarrow> string \<times> role_row \<Rightarrow> role" where
  "row_to_role db = (\<lambda>(k, r). \<lparr>rl_id = k, rl_row = r,
      rl_perms = map snd (filter (\<lambda>(a, b). a = k) (role_perms db))\<rparr>)"

definition get_role_by_id :: "string \<Rightarrow> auth_db \<Rightarrow> role option" where
  "get_role_by_id role_id db = map_option (\<lambda>r. row_to_role db (role_id, r)) (map_of (t_roles db) role_id)"

definition get_role_by_name :: "string \<Rightarrow> auth_db \<Rightarrow> role option" where
  "get_role_by_name name db =
    map_option (row_to_role db) (find (\<lambda>(k, r). ro_name r = name) (t_roles db))"

definition get_all_roles :: "auth_db \<Rightarrow> role list" where
  "get_all_roles db = map (row_to_role db) (sort_key (\<lambda>(k, r). ro_name r) (t_roles db))"

definition create_role ::
  "string \<Rightarrow> string \<Rightarrow> string \<Rightarrow> string \<Rightarrow> string list \<Rightarrow> auth_db \<Rightarrow> role option res \<times> auth_db" where
  "create_role now role_id name description permissions db =
    (if \<exists>(k, r)\<in>set (t_roles db). ro_name r = name then (Inl (ValueError ''already exists''), db)
     else if map_of (t_roles db) role_id \<noteq> None then (Inl integrity_error, db)
     else (case link_all role_id permissions (ids (t_perms db)) (role_perms db) of
             None \<Rightarrow> (Inl integrity_error, db)
           | Some rp \<Rightarrow>
               (let row = \<lparr>ro_name = name, ro_desc = description, ro_system = False,
                           ro_created = now, ro_updated = now\<rparr>;
                    db' = audit now ''role.create'' ''role'' role_id None
                            [(''name'', JStr name), (''permissions'', JArr (map JStr permissions))]
                            (db\<lparr>t_roles := t_roles db @ [(role_id, row)], role_perms := rp\<rparr>)
                in (Inr (get_role_by_id role_id db'), db'))))"

definition update_role ::
  "string \<Rightarrow> string \<Rightarrow> string option \<Rightarrow> string option \<Rightarrow> string list option \<Rightarrow> auth_db
   \<Rightarrow> role option res \<times> auth_db" where
  "update_role now role_id name description permissions db =
    (case map_of (t_roles db) role_id of
       None \<Rightarrow> (Inr None, db)
     | Some row \<Rightarrow>
         (let new_name = opt_name name (ro_name row)
          in if name \<noteq> None \<and> new_name \<noteq> [] \<and> new_name \<noteq> ro_name row \<and>
                name_taken ro_name new_name role_id (t_roles db)
             then (Inl (ValueError ''already exists''), db)
             else if name_taken ro_name new_name role_id (t_roles db) then (Inl integrity_error, db)
             else
               (let edit = (\<lambda>r. r\<lparr>ro_name := new_name, ro_desc := opt_name description (ro_desc r),
                                  ro_updated := now\<rparr>);
                    links = (case permissions of
                               None \<Rightarrow> Some (role_perms db)
                             | Some ps \<Rightarrow> link_all role_id ps (ids (t_perms db))
                                            (filter (\<lambda>(a, b). a \<noteq> role_id) (role_perms db)))
                in case links of
                     None \<Rightarrow> (Inl integrity_error, db)
                   | Some rp \<Rightarrow>
                       (let text = (\<lambda>x. case x of None \<Rightarrow> JNull | Some s \<Rightarrow> JStr s);
                            db' = audit now ''role.update'' ''role'' role_id None
                                    [(''name'', text name), (''description'', text description),
                                     (''permissions'', case permissions of None \<Rightarrow> JNull
                                                       | Some ps \<Rightarrow> JArr (map JStr ps))]
                                    (db\<lparr>t_roles := row_update role_id edit (t_roles db), role_perms := rp\<rparr>)
                        in (Inr (get_role_by_id role_id db'), db')))))"

definition delete_role :: "string \<Rightarrow> string \<Rightarrow> auth_db \<Rightarrow> bool \<times> auth_db" where
  "delete_role now role_id db =
    (case map_of (t_roles db) role_id of
       None \<Rightarrow> (False, db)
     | Some r \<Rightarrow>
         (True, audit now ''role.delete'' ''role'' role_id None [(''name'', JStr (ro_name r))]
                  (db\<lparr>t_roles := filter (\<lambda>(k, r). k \<noteq> role_id) (t_roles db),
                      user_roles := filter (\<lambda>(a, b). b \<noteq> role_id) (user_roles db),
                      role_perms := filter (\<lambda>(a, b). a \<noteq> role_id) (role_perms db)\<rparr>)))"

definition touch_role :: "string \<Rightarrow> string \<Rightarrow> auth_db \<Rightarrow> auth_db" where
  "touch_role now role_id db =
    db\<lparr>t_roles := row_update role_id (\<lambda>r. r\<lparr>ro_updated := now\<rparr>) (t_roles db)\<rparr>"

definition add_permission_to_role :: "string \<Rightarrow> string \<Rightarrow> string \<Rightarrow> auth_db \<Rightarrow> bool res \<times> auth_db" where
  "add_permission_to_role now role_id permission_id db =
    (if map_of (t_roles db) role_id = None then (Inr False, db)
     else (case link_all role_id [permission_id] (ids (t_perms db)) (role_perms db) of
             None \<Rightarrow> (Inl integrity_error, db)
           | Some rp \<Rightarrow> (Inr True, audit now ''role.permission_add'' ''role'' role_id None
                                     [(''permission_id'', JStr permission_id)]
                                     (touch_role now role_id (db\<lparr>role_perms := rp\<rparr>)))))"

definition remove_permission_from_role :: "string \<Rightarrow> string \<Rightarrow> string \<Rightarrow> auth_db \<Rightarrow> bool \<times> auth_db" where
  "remove_permission_from_role now role_id permission_id db =
    (if map_of (t_roles db) role_id = None then (False, db)
     else (True, audit now ''role.permission_remove'' ''role'' role_id None
                   [(''permission_id'', JStr permission_id)]
                   (touch_role now role_id
                      (db\<lparr>role_perms := filter (\<lambda>l. l \<noteq> (role_id, permission_id)) (role_perms db)\<rparr>))))"

subsection \<open>Permissions\<close>

definition get_permission_by_id :: "string \<Rightarrow> auth_db \<Rightarrow> perm_row option" where
  "get_permission_by_id perm_id db = map_of (t_perms db) perm_id"

definition get_permission_by_name :: "string \<Rightarrow> auth_db \<Rightarrow> (string \<times> perm_row) option" where
  "get_permission_by_name name db = find (\<lambda>(k, r). pe_name r = name) (t_perms db)"

definition get_all_permissions :: "auth_db \<Rightarrow> (string \<times> perm_row) list" where
  "get_all_permissions db = sort_key (\<lambda>(k, r). pe_name r) (t_perms db)"

definition get_permissions_by_resource :: "string \<Rightarrow> auth_db \<Rightarrow> (string \<times> perm_row) list" where
  "get_permissions_by_resource resource db =
    sort_key (\<lambda>(k, r). pe_action r) (filter (\<lambda>(k, r). pe_resource r = resource) (t_perms db))"

definition create_permission ::
  "string \<Rightarrow> string \<Rightarrow> string \<Rightarrow> string \<Rightarrow> string \<Rightarrow> string \<Rightarrow> auth_db \<Rightarrow> perm_row option res \<times> auth_db" where
  "create_permission now perm_id name description resource action db =
    (if \<exists>(k, r)\<in>set (t_perms db). pe_name r = name then (Inl (ValueError ''already exists''), db)
     else if map_of (t_perms db) perm_id \<noteq> None then (Inl integrity_error, db)
     else (let row = \<lparr>pe_name = name, pe_desc = description, pe_resource = resource,
                      pe_action = action, pe_created = now\<rparr>;
               db' = audit now ''permission.create'' ''permission'' perm_id None
                       [(''name'', JStr name), (''resource'', JStr resource), (''action'', JStr action)]
                       (db\<lparr>t_perms := t_perms db @ [(perm_id, row)]\<rparr>)
           in (Inr (get_permission_by_id perm_id db'), db')))"

definition update_permission ::
  "string \<Rightarrow> string \<Rightarrow> string option \<Rightarrow> string option \<Rightarrow> string option \<Rightarrow> string option \<Rightarrow> auth_db
   \<Rightarrow> perm_row option res \<times> auth_db" where
  "update_permission now perm_id name description resource action db =
    (case map_of (t_perms db) perm_id of
       None \<Rightarrow> (Inr None, db)
     | Some row \<Rightarrow>
         (let new_name = opt_name name (pe_name row)
          in if name \<noteq> None \<and> new_name \<noteq> [] \<and> new_name \<noteq> pe_name row \<and>
                name_taken pe_name new_name perm_id (t_perms db)
             then (Inl (ValueError ''already exists''), db)
             else if name_taken pe_name new_name perm_id (t_perms db) then (Inl integrity_error, db)
             else
               (let edit = (\<lambda>r. r\<lparr>pe_name := new_name, pe_desc := opt_name description (pe_desc r),
                                  pe_resource := opt_name resource (pe_resource r),
                                  pe_action := opt_name action (pe_action r)\<rparr>);
                    text = (\<lambda>x. case x of None \<Rightarrow> JNull | Some s \<Rightarrow> JStr s);
                    db' = audit now ''permission.update'' ''permission'' perm_id None
                            [(''name'', text name), (''resource'', text resource), (''action'', text action)]
                            (db\<lparr>t_perms := row_update perm_id edit (t_perms db)\<rparr>)
                in (Inr (get_permission_by_id perm_id db'), db'))))"

definition delete_permission :: "string \<Rightarrow> string \<Rightarrow> auth_db \<Rightarrow> bool \<times> auth_db" where
  "delete_permission now perm_id db =
    (case map_of (t_perms db) perm_id of
       None \<Rightarrow> (False, db)
     | Some r \<Rightarrow>
         (True, audit now ''permission.delete'' ''permission'' perm_id None [(''name'', JStr (pe_name r))]
                  (db\<lparr>t_perms := filter (\<lambda>(k, r). k \<noteq> perm_id) (t_perms db),
                      role_perms := filter (\<lambda>(a, b). b \<noteq> perm_id) (role_perms db)\<rparr>)))"

subsection \<open>Access control\<close>

definition get_user_permissions :: "string \<Rightarrow> auth_db \<Rightarrow> string list" where
  \<comment> \<open>the set of names, as a list\<close>
  "get_user_permissions user_id db =
    (case get_user_by_id user_id db of
       None \<Rightarrow> []
     | Some us \<Rightarrow>
         if \<not> u_active (us_row us) then []
         else concat (map (\<lambda>role_id.
                case get_role_by_id role_id db of
                  None \<Rightarrow> []
                | Some rl \<Rightarrow> List.map_filter
                    (\<lambda>perm_id. map_option pe_name (get_permission_by_id perm_id db)) (rl_perms rl))
              (us_roles us)))"

definition has_permission :: "string \<Rightarrow> string \<Rightarrow> auth_db \<Rightarrow> bool" where
  "has_permission user_id permission_name db =
    (permission_name \<in> set (get_user_permissions user_id db))"

definition has_any_permission :: "string \<Rightarrow> string list \<Rightarrow> auth_db \<Rightarrow> bool" where
  "has_any_permission user_id permission_names db =
    list_ex (\<lambda>p. p \<in> set permission_names) (get_user_permissions user_id db)"

definition has_all_permissions :: "string \<Rightarrow> string list \<Rightarrow> auth_db \<Rightarrow> bool" where
  "has_all_permissions user_id permission_names db =
    list_all (\<lambda>p. p \<in> set (get_user_permissions user_id db)) permission_names"

definition get_user_roles :: "string \<Rightarrow> auth_db \<Rightarrow> string list" where
  "get_user_roles user_id db =
    (case get_user_by_id user_id db of
       None \<Rightarrow> []
     | Some us \<Rightarrow>
         if \<not> u_active (us_row us) then []
         else List.map_filter (\<lambda>role_id. map_option (\<lambda>rl. ro_name (rl_row rl)) (get_role_by_id role_id db))
                (us_roles us))"

definition has_role :: "string \<Rightarrow> string \<Rightarrow> auth_db \<Rightarrow> bool" where
  "has_role user_id role_name db = (role_name \<in> set (get_user_roles user_id db))"

definition check_resource_access :: "string \<Rightarrow> string \<Rightarrow> string \<Rightarrow> auth_db \<Rightarrow> bool" where
  "check_resource_access user_id resource action db =
    has_permission user_id (resource @ ''.'' @ action) db"

end
