(* ===== verification/Middleware.thy ===== *)
theory Middleware
  imports Tokens AuthDb
begin

section \<open>Validators and the authentication of a request\<close>

text \<open>
  \<^verbatim>\<open>server/auth/validators.py\<close> and \<^verbatim>\<open>server/auth/middleware.py\<close>. A validator's result is
  \<open>None\<close> when it accepts and the kind of the refusal otherwise. A regular expression of the
  source is a sequence of \<open>pat\<close>, each one character or a repetition, matched against the
  whole (stripped) string with backtracking. A decorator returns \<open>Inl code\<close> when it answers
  the request itself and \<open>Inr\<close> the principal when the handler runs.
\<close>

subsection \<open>Regular expressions\<close>

datatype pat = One "char \<Rightarrow> bool" | Many "char \<Rightarrow> bool"

function rx :: "pat list \<Rightarrow> string \<Rightarrow> bool" where
  \<comment> \<open>\<open>Many P\<close> is \<^verbatim>\<open>[P]+\<close>\<close>
  "rx [] s = (s = [])"
| "rx (p # ps) [] = False"
| "rx (One P # ps) (c # s) = (P c \<and> rx ps s)"
| "rx (Many P # ps) (c # s) = (P c \<and> (rx ps s \<or> rx (Many P # ps) s))"
  by pat_completeness auto
termination
  by (relation "measures [\<lambda>(ps, s). length s, \<lambda>(ps, s). length ps]") auto

definition is_alpha :: "char \<Rightarrow> bool" where "is_alpha c = (is_lower c \<or> is_upper c)"
definition is_alnum :: "char \<Rightarrow> bool" where "is_alnum c = (is_alpha c \<or> is_digit c)"
definition word_char :: "string \<Rightarrow> char \<Rightarrow> bool" where
  "word_char extra c = (is_alnum c \<or> c \<in> set extra)"

definition email_rx :: "pat list" where
  \<comment> \<open>\<^verbatim>\<open>^[a-zA-Z0-9._%+-]+@[a-zA-Z0-9.-]+\.[a-zA-Z]{2,}$\<close>\<close>
  "email_rx = [Many (word_char ''._%+-''), One (\<lambda>c. c = CHR ''@''), Many (word_char ''.-''),
               One (\<lambda>c. c = CHR ''.''), One is_alpha, Many is_alpha]"

definition permission_rx :: "pat list" where
  \<comment> \<open>\<^verbatim>\<open>^[a-zA-Z0-9_]+\.[a-zA-Z0-9_]+$\<close>\<close>
  "permission_rx = [Many (word_char ''_''), One (\<lambda>c. c = CHR ''.''), Many (word_char ''_'')]"

subsection \<open>Validators\<close>

definition validate_username :: "json \<Rightarrow> string option" where
  "validate_username j =
    (if \<not> truthy j then Some ''required''
     else (case j of
             JStr u \<Rightarrow>
               (let name = strip u
                in if length name < 3 then Some ''too short''
                   else if 50 < length name then Some ''too long''
                   else if \<not> rx [Many (word_char ''_-'')] name then Some ''characters''
                   else None)
           | _ \<Rightarrow> Some ''not a string''))"

definition validate_password :: "json \<Rightarrow> string option" where
  "validate_password j =
    (if \<not> truthy j then Some ''required''
     else (case j of
             JStr p \<Rightarrow>
               (if length p < 12 then Some ''too short''
                else if 128 < length p then Some ''too long''
                else (let classes = of_bool (list_ex is_lower p) + of_bool (list_ex is_upper p) +
                                    of_bool (list_ex is_digit p) + of_bool (list_ex (\<lambda>c. \<not> is_alnum c) p)
                      in if classes < (3::nat) then Some ''classes'' else None))
           | _ \<Rightarrow> Some ''not a string''))"

definition validate_email :: "json \<Rightarrow> string option" where
  "validate_email j =
    (case j of
       JNull \<Rightarrow> None
     | JStr e \<Rightarrow>
         (let email = strip e
          in if email = [] then None
             else if \<not> rx email_rx email then Some ''format''
             else if 255 < length email then Some ''too long''
             else None)
     | _ \<Rightarrow> Some ''not a string'')"

definition validate_role_name :: "json \<Rightarrow> string option" where
  \<comment> \<open>\<^verbatim>\<open>^[a-zA-Z0-9_\s-]+$\<close>\<close>
  "validate_role_name j =
    (if \<not> truthy j then Some ''required''
     else (case j of
             JStr u \<Rightarrow>
               (let name = strip u
                in if length name < 2 then Some ''too short''
                   else if 100 < length name then Some ''too long''
                   else if \<not> rx [Many (\<lambda>c. word_char ''_-'' c \<or> is_space c)] name then Some ''characters''
                   else None)
           | _ \<Rightarrow> Some ''not a string''))"

definition validate_permission_name :: "json \<Rightarrow> string option" where
  "validate_permission_name j =
    (if \<not> truthy j then Some ''required''
     else (case j of
             JStr u \<Rightarrow>
               (let name = strip u
                in if length name < 3 then Some ''too short''
                   else if 100 < length name then Some ''too long''
                   else if \<not> rx permission_rx name then Some ''format''
                   else None)
           | _ \<Rightarrow> Some ''not a string''))"

subsection \<open>Requests\<close>

record request =
  rq_method :: string
  rq_path :: string
  rq_internal :: "string option"
  rq_auth :: "string option"
  rq_args :: "(string \<times> string) list"

record principal =
  pr_user :: "string option"
  pr_worker :: "string option"
  pr_name :: string
  pr_roles :: "string list"
  pr_token :: "string option"

text \<open>What the process knows (\<open>auth_env\<close>; \<open>ae_str\<close> is Python's \<open>str\<close> and \<open>ae_sql\<close> the text
  SQLite gives a number, of a value that is not a string) and the state a request can read or change (\<open>gate\<close>).\<close>

record auth_env =
  ae_now :: real
  ae_iso :: string
  ae_offset :: real
  ae_sha :: "string \<Rightarrow> string"
  ae_jwt :: jwt_lib
  ae_black :: black_io
  ae_secret :: string
  ae_writable :: bool
  ae_checkpw :: "string \<Rightarrow> string \<Rightarrow> bool"
  ae_hash :: "string \<Rightarrow> string"
  ae_str :: "json \<Rightarrow> string"
  ae_sql :: "json \<Rightarrow> string"

record gate =
  g_db :: auth_db
  g_reg :: registry
  g_ix :: index_db
  g_tokens :: token_file
  g_black :: blacklist_file
  g_attempts :: "(string \<times> real list) list"

definition path_allows_query_token :: "string \<Rightarrow> bool" where
  "path_allows_query_token path =
    (contains path ''/stream'' \<or> contains path ''/sse'' \<or> contains path ''/events'' \<or> ends_with path ''/logs'')"

definition nonempty :: "string option \<Rightarrow> string option" where
  "nonempty x = (if x = Some [] then None else x)"

definition request_token :: "request \<Rightarrow> string option" where
  \<comment> \<open>the header, or the query string of a streaming \<open>GET\<close>\<close>
  "request_token rq =
    (case nonempty (get_token_from_header (rq_auth rq)) of
       Some t \<Rightarrow> Some t
     | None \<Rightarrow>
         if rq_method rq = ''GET'' \<and> path_allows_query_token (rq_path rq) then
           (case nonempty (map_of (rq_args rq) ''access_token'') of
              Some t \<Rightarrow> Some t
            | None \<Rightarrow> nonempty (map_of (rq_args rq) ''token''))
         else None)"

definition user_principal :: "claims \<Rightarrow> string \<Rightarrow> principal" where
  "user_principal c token =
    \<lparr>pr_user = Some (jc_user c), pr_worker = None, pr_name = jc_name c, pr_roles = jc_roles c, pr_token = Some token\<rparr>"

definition check_session_or_api :: "auth_env \<Rightarrow> string \<Rightarrow> gate \<Rightarrow> (nat + principal) \<times> gate" where
  "check_session_or_api E token G =
    (case verify_jwt (ae_jwt E) (ae_black E) (ae_offset E) (ae_now E) token ''access'' (g_black G) of
       (Some c, bl) \<Rightarrow> (Inr (user_principal c token), G\<lparr>g_black := bl\<rparr>)
     | (None, bl) \<Rightarrow>
         (case verify_api_token (ae_sha E) (ae_writable E) (ae_now E) token (g_tokens G) of
            (Some (u, t), f) \<Rightarrow>
              (Inr \<lparr>pr_user = Some u, pr_worker = None, pr_name = tk_username t,
                    pr_roles = get_user_roles u (g_db G), pr_token = Some token\<rparr>,
               G\<lparr>g_black := bl, g_tokens := f\<rparr>)
          | (None, f) \<Rightarrow> (Inl 401, G\<lparr>g_black := bl, g_tokens := f\<rparr>)))"

definition require_auth :: "auth_env \<Rightarrow> request \<Rightarrow> gate \<Rightarrow> (nat + principal) \<times> gate" where
  "require_auth E rq G =
    (if nonempty (rq_internal rq) = Some (ae_secret E) then
       (Inr \<lparr>pr_user = Some ''__internal__'', pr_worker = None, pr_name = ''internal'',
             pr_roles = [''admin''], pr_token = None\<rparr>, G)
     else
       (case request_token rq of
          None \<Rightarrow> (Inl 401, G)
        | Some token \<Rightarrow>
            (let worker_path = starts_with (rq_path rq) ''/api/worker/'';
                 execution_get = starts_with (rq_path rq) ''/api/executions/'' \<and> rq_method rq = ''GET''
             in if worker_path \<or> execution_get then
                  (case verify_token (ae_sha E) (ae_now E) token (g_reg G) (g_ix G) of
                     (Inl _, R, ix) \<Rightarrow> (Inl 500, G\<lparr>g_reg := R, g_ix := ix\<rparr>)
                   | (Inr (Some (w, d)), R, ix) \<Rightarrow>
                       (Inr \<lparr>pr_user = None, pr_worker = Some w, pr_name = ''worker:'' @ take 8 w,
                             pr_roles = [], pr_token = Some token\<rparr>, G\<lparr>g_reg := R, g_ix := ix\<rparr>)
                   | (Inr None, R, ix) \<Rightarrow>
                       if worker_path then (Inl 401, G\<lparr>g_reg := R, g_ix := ix\<rparr>)
                       else check_session_or_api E token (G\<lparr>g_reg := R, g_ix := ix\<rparr>))
                else check_session_or_api E token G)))"

definition require_optional_auth :: "auth_env \<Rightarrow> request \<Rightarrow> gate \<Rightarrow> principal option \<times> gate" where
  "require_optional_auth E rq G =
    (case nonempty (get_token_from_header (rq_auth rq)) of
       None \<Rightarrow> (None, G)
     | Some token \<Rightarrow>
         (case verify_jwt (ae_jwt E) (ae_black E) (ae_offset E) (ae_now E) token ''access'' (g_black G) of
            (c, bl) \<Rightarrow> (map_option (\<lambda>c. user_principal c token) c, G\<lparr>g_black := bl\<rparr>)))"

definition require_permission ::
  "string \<Rightarrow> auth_env \<Rightarrow> request \<Rightarrow> gate \<Rightarrow> (nat + principal) \<times> gate" where
  "require_permission permission_name E rq G =
    (case require_auth E rq G of
       (Inl code, G') \<Rightarrow> (Inl code, G')
     | (Inr pr, G') \<Rightarrow>
         ((case nonempty (pr_user pr) of
             None \<Rightarrow> Inl 401
           | Some u \<Rightarrow> if \<not> has_permission u permission_name (g_db G') then Inl 403 else Inr pr), G'))"

definition require_any_role ::
  "string list \<Rightarrow> auth_env \<Rightarrow> request \<Rightarrow> gate \<Rightarrow> (nat + principal) \<times> gate" where
  "require_any_role role_names E rq G =
    (case require_auth E rq G of
       (Inl code, G') \<Rightarrow> (Inl code, G')
     | (Inr pr, G') \<Rightarrow> (if \<not> list_ex (\<lambda>r. r \<in> set role_names) (pr_roles pr) then Inl 403 else Inr pr, G'))"

definition require_all_roles ::
  "string list \<Rightarrow> auth_env \<Rightarrow> request \<Rightarrow> gate \<Rightarrow> (nat + principal) \<times> gate" where
  "require_all_roles role_names E rq G =
    (case require_auth E rq G of
       (Inl code, G') \<Rightarrow> (Inl code, G')
     | (Inr pr, G') \<Rightarrow> (if \<not> list_all (\<lambda>r. r \<in> set (pr_roles pr)) role_names then Inl 403 else Inr pr, G'))"

subsection \<open>Access to the global secrets\<close>

text \<open>\<open>can_read_global_secrets\<close> and \<open>can_write_global_secrets\<close> in \<^verbatim>\<open>server/app.py\<close>.\<close>

definition can_read_global_secrets :: "principal \<Rightarrow> auth_db \<Rightarrow> bool" where
  "can_read_global_secrets pr db =
    (if pr_user pr = Some ''__internal__'' then True
     else (case nonempty (pr_user pr) of
             None \<Rightarrow> False
           | Some u \<Rightarrow> has_permission u ''secrets.read'' db))"

definition can_write_global_secrets :: "principal \<Rightarrow> auth_db \<Rightarrow> bool" where
  "can_write_global_secrets pr db =
    (if pr_user pr = Some ''__internal__'' then True
     else (case nonempty (pr_user pr) of
             None \<Rightarrow> False
           | Some u \<Rightarrow> list_ex (\<lambda>p. has_permission u p db) [''secrets.create'', ''secrets.update'', ''secrets.delete'']))"

end
