(* ===== verification/AccountRoutes.thy ===== *)
theory AccountRoutes
  imports Middleware
begin

section \<open>Account handlers\<close>

text \<open>
  \<^verbatim>\<open>server/api/auth_routes.py\<close> (login, logout, refresh, the current user) and the handlers of
  \<^verbatim>\<open>server/api/users_routes.py\<close> that change users, roles and permissions. A handler
  returns its status code and the new state; \<open>body\<close> is the JSON object of the request. All
  but login and refresh run behind \<open>require_auth\<close> (\<open>authed\<close>). An exception that the handler
  catches is answered with 500, a \<open>ValueError\<close> with 400 where the code says so.
\<close>

subsection \<open>Reading a body\<close>

definition strip_or_empty :: "doc \<Rightarrow> string \<Rightarrow> string res" where
  \<comment> \<open>\<^verbatim>\<open>(data.get(k) or "").strip()\<close>\<close>
  "strip_or_empty body k =
    (case py_or (dget body k) (JStr []) of JStr s \<Rightarrow> Inr (strip s) | _ \<Rightarrow> Inl AttributeError)"

definition strip_default :: "doc \<Rightarrow> string \<Rightarrow> string res" where
  \<comment> \<open>\<^verbatim>\<open>data.get(k, "").strip()\<close>\<close>
  "strip_default body k = (case getd body k (JStr []) of JStr s \<Rightarrow> Inr (strip s) | _ \<Rightarrow> Inl AttributeError)"

definition strip_optional :: "doc \<Rightarrow> string \<Rightarrow> string option res" where
  \<comment> \<open>\<^verbatim>\<open>data.get(k, "").strip() if data.get(k) else None\<close>\<close>
  "strip_optional body k =
    (if \<not> truthy (dget body k) then Inr None
     else (case dget body k of JStr s \<Rightarrow> Inr (Some (strip s)) | _ \<Rightarrow> Inl AttributeError))"

definition some_nonempty :: "string \<Rightarrow> string option" where
  "some_nonempty s = (if s = [] then None else Some s)"

definition iter_json :: "json \<Rightarrow> json list res" where
  \<comment> \<open>\<^verbatim>\<open>for x in j\<close>\<close>
  "iter_json j =
    (case j of
       JArr xs \<Rightarrow> Inr xs
     | JStr s \<Rightarrow> Inr (map (\<lambda>c. JStr [c]) s)
     | JObj d \<Rightarrow> Inr (map (\<lambda>(k, v). JStr k) d)
     | _ \<Rightarrow> Inl TypeError)"

definition sql_key :: "(json \<Rightarrow> string) \<Rightarrow> json \<Rightarrow> string option res" where
  \<comment> \<open>a value bound to a \<^verbatim>\<open>TEXT\<close> comparison: \<open>None\<close> never matches, containers cannot be bound\<close>
  "sql_key text j =
    (case j of
       JStr s \<Rightarrow> Inr (Some s)
     | JNull \<Rightarrow> Inr None
     | JArr _ \<Rightarrow> Inl (OtherError ''InterfaceError'')
     | JObj _ \<Rightarrow> Inl (OtherError ''InterfaceError'')
     | _ \<Rightarrow> Inr (Some (text j)))"

fun known_keys :: "(json \<Rightarrow> string) \<Rightarrow> string list \<Rightarrow> json list \<Rightarrow> string list option res" where
  \<comment> \<open>the loop that looks every id up; \<open>None\<close>: one is not found\<close>
  "known_keys text existing [] = Inr (Some [])"
| "known_keys text existing (j # js) =
    (case sql_key text j of
       Inl e \<Rightarrow> Inl e
     | Inr None \<Rightarrow> Inr None
     | Inr (Some k) \<Rightarrow>
         if k \<notin> set existing then Inr None
         else (case known_keys text existing js of
                 Inr (Some ks) \<Rightarrow> Inr (Some (k # ks))
               | r \<Rightarrow> r))"

definition authed :: "auth_env \<Rightarrow> request \<Rightarrow> (principal \<Rightarrow> gate \<Rightarrow> nat \<times> gate) \<Rightarrow> gate \<Rightarrow> nat \<times> gate" where
  "authed E rq h G =
    (case require_auth E rq G of
       (Inl code, G') \<Rightarrow> (code, G')
     | (Inr pr, G') \<Rightarrow> h pr G')"

subsection \<open>Login\<close>

definition LOGIN_WINDOW_SECONDS :: real where "LOGIN_WINDOW_SECONDS = 60"
definition LOGIN_MAX_FAILURES :: nat where "LOGIN_MAX_FAILURES = 5"

definition attempts_of :: "string \<Rightarrow> (string \<times> real list) list \<Rightarrow> real list" where
  "attempts_of key m = (case map_of m key of None \<Rightarrow> [] | Some ts \<Rightarrow> ts)"

definition login_rate_limit_allow ::
  "real \<Rightarrow> string \<Rightarrow> (string \<times> real list) list \<Rightarrow> bool \<times> (string \<times> real list) list" where
  "login_rate_limit_allow now key m =
    (let arr = filter (\<lambda>t. now - LOGIN_WINDOW_SECONDS < t) (attempts_of key m)
     in (length arr < LOGIN_MAX_FAILURES, AList.update key arr m))"

definition login_rate_limit_record_failure ::
  "real \<Rightarrow> string \<Rightarrow> (string \<times> real list) list \<Rightarrow> (string \<times> real list) list" where
  "login_rate_limit_record_failure now key m = AList.update key (attempts_of key m @ [now]) m"

definition login_rate_limit_reset :: "string \<Rightarrow> (string \<times> real list) list \<Rightarrow> (string \<times> real list) list" where
  "login_rate_limit_reset key m = AList.delete key m"

definition client_ip :: "string option \<Rightarrow> string option \<Rightarrow> string" where
  \<comment> \<open>the first hop of \<open>X-Forwarded-For\<close>, else the peer\<close>
  "client_ip forwarded remote =
    (let hop = strip (takeWhile (\<lambda>c. c \<noteq> CHR '','') (case forwarded of None \<Rightarrow> [] | Some s \<Rightarrow> s))
     in if hop \<noteq> [] then hop
        else (case nonempty remote of Some r \<Rightarrow> r | None \<Rightarrow> ''unknown''))"

definition role_names :: "user \<Rightarrow> auth_db \<Rightarrow> string list" where
  "role_names us db =
    List.map_filter (\<lambda>r. map_option (\<lambda>rl. ro_name (rl_row rl)) (get_role_by_id r db)) (us_roles us)"

definition login_guard ::
  "auth_env \<Rightarrow> string option \<Rightarrow> string option \<Rightarrow> doc \<Rightarrow> gate \<Rightarrow> (nat + string \<times> string) \<times> gate" where
  \<comment> \<open>up to the limiter: a status code, or the username and the key it counts by\<close>
  "login_guard E forwarded remote body G =
    (case strip_default body ''username'' of
       Inl _ \<Rightarrow> (Inl 500, G)
     | Inr username \<Rightarrow>
         (let key = client_ip forwarded remote @ ''|'' @ lower username
          in case login_rate_limit_allow (ae_now E) key (g_attempts G) of
               (False, m) \<Rightarrow> (Inl 429, G\<lparr>g_attempts := m\<rparr>)
             | (True, m) \<Rightarrow> (Inr (username, key), G\<lparr>g_attempts := m\<rparr>)))"

definition login_finish ::
  "auth_env \<Rightarrow> string \<Rightarrow> string \<Rightarrow> doc \<Rightarrow> gate \<Rightarrow> (nat \<times> (string \<times> string) option) \<times> gate" where
  \<comment> \<open>the rest, with the access and the refresh token on success\<close>
  "login_finish E username key body G =
    (let fail = (\<lambda>G. G\<lparr>g_attempts := login_rate_limit_record_failure (ae_now E) key (g_attempts G)\<rparr>)
     in if validate_username (JStr username) \<noteq> None then ((400, None), fail G)
        else (case getd body ''password'' (JStr []) of
                JStr password \<Rightarrow>
                  if password = [] then ((400, None), fail G)
                  else (case authenticate (ae_checkpw E) (ae_iso E) username password (g_db G) of
                          (None, db) \<Rightarrow> ((401, None), fail (G\<lparr>g_db := db\<rparr>))
                        | (Some us, db) \<Rightarrow>
                            (let names = role_names us db;
                                 make = (\<lambda>typ. generate_token (ae_jwt E) (ae_now E) (us_id us)
                                                 (u_name (us_row us)) names typ None)
                             in ((200, Some (make ''access'', make ''refresh'')),
                                 G\<lparr>g_db := db, g_attempts := login_rate_limit_reset key (g_attempts G)\<rparr>)))
              | _ \<Rightarrow> ((400, None), fail G)))"

definition api_auth_login ::
  "auth_env \<Rightarrow> string option \<Rightarrow> string option \<Rightarrow> doc \<Rightarrow> gate \<Rightarrow> (nat \<times> (string \<times> string) option) \<times> gate" where
  "api_auth_login E forwarded remote body G =
    (case login_guard E forwarded remote body G of
       (Inl code, G) \<Rightarrow> ((code, None), G)
     | (Inr (username, key), G) \<Rightarrow> login_finish E username key body G)"

definition api_auth_logout :: "auth_env \<Rightarrow> request \<Rightarrow> gate \<Rightarrow> nat \<times> gate" where
  "api_auth_logout E rq =
    authed E rq (\<lambda>pr G.
      (200, case nonempty (pr_token pr) of
              None \<Rightarrow> G
            | Some t \<Rightarrow> G\<lparr>g_black := add_token_to_blacklist (ae_jwt E) (ae_black E) (ae_offset E) (ae_now E) t (g_black G)\<rparr>))"

definition api_auth_refresh :: "auth_env \<Rightarrow> doc \<Rightarrow> gate \<Rightarrow> (nat \<times> string option) \<times> gate" where
  "api_auth_refresh E body G =
    (case strip_default body ''refresh_token'' of
       Inl _ \<Rightarrow> ((500, None), G)
     | Inr token \<Rightarrow>
         if token = [] then ((400, None), G)
         else (case verify_jwt (ae_jwt E) (ae_black E) (ae_offset E) (ae_now E) token ''refresh'' (g_black G) of
                 (None, bl) \<Rightarrow> ((401, None), G\<lparr>g_black := bl\<rparr>)
               | (Some c, bl) \<Rightarrow>
                   ((case get_user_by_id (jc_user c) (g_db G) of
                       None \<Rightarrow> (401, None)
                     | Some us \<Rightarrow>
                         if \<not> u_active (us_row us) then (401, None)
                         else (200, Some (generate_token (ae_jwt E) (ae_now E) (us_id us) (u_name (us_row us))
                                            (role_names us (g_db G)) ''access'' None))),
                    G\<lparr>g_black := bl\<rparr>)))"

subsection \<open>Users\<close>

definition role_refs :: "(json \<Rightarrow> string) \<Rightarrow> string list \<Rightarrow> json list \<Rightarrow> string list option" where
  \<comment> \<open>the ids of the wanted roles; empty ones are skipped; \<open>None\<close>: one is not found\<close>
  "role_refs str existing js =
    (let id_of = (\<lambda>j. case j of JObj d \<Rightarrow> getd d ''id'' j | _ \<Rightarrow> j);
         keys = List.map_filter (\<lambda>j. if id_of j = JNull then None
                    else some_nonempty (strip (case id_of j of JStr s \<Rightarrow> s | v \<Rightarrow> str v))) js
     in if list_all (\<lambda>k. k \<in> set existing) keys then Some keys else None)"

definition error_code :: "py_error \<Rightarrow> nat" where
  "error_code e = (case e of ValueError _ \<Rightarrow> 400 | _ \<Rightarrow> 500)"

definition create_user_body :: "auth_env \<Rightarrow> string \<Rightarrow> doc \<Rightarrow> gate \<Rightarrow> nat \<times> gate" where
  "create_user_body E user_id body G =
    (case (strip_or_empty body ''username'', strip_or_empty body ''email'') of
       (Inr username, Inr email) \<Rightarrow>
         (let password = py_or (dget body ''password'') (JStr [])
          in if validate_username (JStr username) \<noteq> None \<or> validate_password password \<noteq> None \<or>
                email \<noteq> [] \<and> validate_email (JStr email) \<noteq> None
             then (400, G)
             else (case (iter_json (py_or (dget body ''roles'') (JArr [])), password) of
                     (Inr rs, JStr pw) \<Rightarrow>
                       (case role_refs (ae_str E) (ids (t_roles (g_db G))) rs of
                          None \<Rightarrow> (400, G)
                        | Some role_ids \<Rightarrow>
                            (case create_user (ae_iso E) user_id (ae_hash E pw) username (some_nonempty email)
                                    role_ids (g_db G) of
                               (Inl e, db) \<Rightarrow> (error_code e, G\<lparr>g_db := db\<rparr>)
                             | (Inr _, db) \<Rightarrow> (201, G\<lparr>g_db := db\<rparr>)))
                   | _ \<Rightarrow> (500, G)))
     | _ \<Rightarrow> (500, G))"

definition api_create_user :: "auth_env \<Rightarrow> string \<Rightarrow> request \<Rightarrow> doc \<Rightarrow> gate \<Rightarrow> nat \<times> gate" where
  "api_create_user E user_id rq body = authed E rq (\<lambda>pr. create_user_body E user_id body)"

definition short_password :: "json \<Rightarrow> bool res" where
  \<comment> \<open>\<^verbatim>\<open>not new_password or len(new_password) < 6\<close>\<close>
  "short_password j =
    (if \<not> truthy j then Inr True
     else (case j of
             JStr s \<Rightarrow> Inr (length s < 6)
           | JArr xs \<Rightarrow> Inr (length xs < 6)
           | JObj d \<Rightarrow> Inr (length d < 6)
           | _ \<Rightarrow> Inl TypeError))"

definition put_password :: "auth_env \<Rightarrow> principal \<Rightarrow> string \<Rightarrow> doc \<Rightarrow> auth_db \<Rightarrow> nat option \<times> auth_db" where
  \<comment> \<open>the password part of an update; \<open>None\<close>: the handler goes on\<close>
  "put_password E pr user_id body db =
    (let cur = dget body ''current_password''; new = dget body ''password''
     in if cur \<noteq> JNull \<and> new \<noteq> JNull then
          (case short_password new of
             Inl _ \<Rightarrow> (Some 500, db)
           | Inr True \<Rightarrow> (Some 400, db)
           | Inr False \<Rightarrow>
               (case (cur, new) of
                  (JStr old, JStr pw) \<Rightarrow>
                    (case change_password (ae_checkpw E) (ae_iso E) user_id old (ae_hash E pw) db of
                       (True, db') \<Rightarrow> (None, db')
                     | (False, db') \<Rightarrow> (Some 400, db'))
                | (JStr old, _) \<Rightarrow>
                    (case map_of (t_users db) user_id of
                       Some r \<Rightarrow> if ae_checkpw E old (u_hash r) then (Some 500, db) else (Some 400, db)
                     | None \<Rightarrow> (Some 400, db))
                | _ \<Rightarrow> (Some 400, db)))
        else if new \<noteq> JNull then
          if pr_user pr = Some user_id then (Some 400, db)
          else (case short_password new of
                  Inl _ \<Rightarrow> (Some 500, db)
                | Inr True \<Rightarrow> (Some 400, db)
                | Inr False \<Rightarrow>
                    (case new of
                       JStr pw \<Rightarrow>
                         (case set_password (ae_iso E) user_id (ae_hash E pw) db of
                            (True, db') \<Rightarrow> (None, db')
                          | (False, db') \<Rightarrow> (Some 404, db'))
                     | _ \<Rightarrow> if map_of (t_users db) user_id = None then (Some 404, db) else (Some 500, db)))
        else (None, db))"

definition wanted_keys :: "(json \<Rightarrow> string) \<Rightarrow> string list \<Rightarrow> json \<Rightarrow> string list option option res" where
  \<comment> \<open>an absent list, a list of existing ids, or \<open>None\<close> for an unknown id\<close>
  "wanted_keys text existing j =
    (if j = JNull then Inr (Some None)
     else (case iter_json j of
             Inl e \<Rightarrow> Inl e
           | Inr js \<Rightarrow> map_sum (\<lambda>e. e) (map_option Some) (known_keys text existing js)))"

definition update_user_body :: "auth_env \<Rightarrow> principal \<Rightarrow> string \<Rightarrow> doc \<Rightarrow> gate \<Rightarrow> nat \<times> gate" where
  \<comment> \<open>the password is stored before the other fields are validated\<close>
  "update_user_body E pr user_id body G =
    (case (strip_or_empty body ''username'', strip_or_empty body ''email'') of
       (Inr username, Inr email) \<Rightarrow>
         (case put_password E pr user_id body (g_db G) of
            (Some code, db) \<Rightarrow> (code, G\<lparr>g_db := db\<rparr>)
          | (None, db) \<Rightarrow>
              (let G1 = G\<lparr>g_db := db\<rparr>
               in if username \<noteq> [] \<and> validate_username (JStr username) \<noteq> None then (400, G1)
                  else if email \<noteq> [] \<and> validate_email (JStr email) \<noteq> None then (400, G1)
                  else (case wanted_keys (ae_sql E) (ids (t_roles db)) (dget body ''roles'') of
                          Inl _ \<Rightarrow> (500, G1)
                        | Inr None \<Rightarrow> (400, G1)
                        | Inr (Some roles) \<Rightarrow>
                            (case update_user (ae_iso E) user_id (some_nonempty username) (some_nonempty email)
                                    roles
                                    (case dget body ''is_active'' of JNull \<Rightarrow> None | j \<Rightarrow> Some (truthy j)) db of
                               (Inl e, db') \<Rightarrow> (error_code e, G\<lparr>g_db := db'\<rparr>)
                             | (Inr None, db') \<Rightarrow> (404, G\<lparr>g_db := db'\<rparr>)
                             | (Inr (Some _), db') \<Rightarrow> (200, G\<lparr>g_db := db'\<rparr>)))))
     | _ \<Rightarrow> (500, G))"

definition api_update_user :: "auth_env \<Rightarrow> request \<Rightarrow> string \<Rightarrow> doc \<Rightarrow> gate \<Rightarrow> nat \<times> gate" where
  "api_update_user E rq user_id body = authed E rq (\<lambda>pr. update_user_body E pr user_id body)"

definition api_delete_user :: "auth_env \<Rightarrow> request \<Rightarrow> string \<Rightarrow> gate \<Rightarrow> nat \<times> gate" where
  "api_delete_user E rq user_id =
    authed E rq (\<lambda>pr G.
      if pr_user pr = Some user_id then (400, G)
      else (case delete_user (ae_iso E) user_id (g_db G) of
              (True, db) \<Rightarrow> (200, G\<lparr>g_db := db\<rparr>)
            | (False, db) \<Rightarrow> (404, G\<lparr>g_db := db\<rparr>)))"

definition api_assign_roles_to_user :: "auth_env \<Rightarrow> request \<Rightarrow> string \<Rightarrow> doc \<Rightarrow> gate \<Rightarrow> nat \<times> gate" where
  "api_assign_roles_to_user E rq user_id body =
    authed E rq (\<lambda>pr G.
      case getd body ''roles'' (JArr []) of
        JArr js \<Rightarrow>
          if get_user_by_id user_id (g_db G) = None then (404, G)
          else (case known_keys (ae_sql E) (ids (t_roles (g_db G))) js of
                  Inl _ \<Rightarrow> (500, G)
                | Inr None \<Rightarrow> (400, G)
                | Inr (Some role_ids) \<Rightarrow>
                    (case update_user (ae_iso E) user_id None None (Some role_ids) None (g_db G) of
                       (Inr (Some _), db) \<Rightarrow> (200, G\<lparr>g_db := db\<rparr>)
                     | (_, db) \<Rightarrow> (500, G\<lparr>g_db := db\<rparr>)))
      | _ \<Rightarrow> (400, G))"

subsection \<open>Roles and permissions\<close>

definition api_create_role :: "auth_env \<Rightarrow> string \<Rightarrow> request \<Rightarrow> doc \<Rightarrow> gate \<Rightarrow> nat \<times> gate" where
  "api_create_role E role_id rq body =
    authed E rq (\<lambda>pr G.
      case (strip_or_empty body ''name'', strip_or_empty body ''description'',
            iter_json (py_or (dget body ''permissions'') (JArr []))) of
        (Inr name, Inr description, Inr raw) \<Rightarrow>
          (let text = (\<lambda>j. case j of JStr s \<Rightarrow> s | v \<Rightarrow> ae_str E v);
               id_of = (\<lambda>j. case j of JObj d \<Rightarrow> getd d ''id'' j | _ \<Rightarrow> j);
               permissions = filter (\<lambda>p. p \<noteq> []) (map (\<lambda>j. strip (text (id_of j))) (filter (\<lambda>j. j \<noteq> JNull) raw))
           in if validate_role_name (JStr name) \<noteq> None then (400, G)
              else if \<not> list_all (\<lambda>p. get_permission_by_id p (g_db G) \<noteq> None) permissions then (400, G)
              else (case create_role (ae_iso E) role_id name description permissions (g_db G) of
                      (Inl e, db) \<Rightarrow> (error_code e, G\<lparr>g_db := db\<rparr>)
                    | (Inr _, db) \<Rightarrow> (201, G\<lparr>g_db := db\<rparr>)))
      | _ \<Rightarrow> (500, G))"

definition api_update_role :: "auth_env \<Rightarrow> request \<Rightarrow> string \<Rightarrow> doc \<Rightarrow> gate \<Rightarrow> nat \<times> gate" where
  "api_update_role E rq role_id body =
    authed E rq (\<lambda>pr G.
      case (strip_optional body ''name'', strip_optional body ''description'') of
        (Inr name, Inr description) \<Rightarrow>
          (if (case name of None \<Rightarrow> False | Some n \<Rightarrow> validate_role_name (JStr n) \<noteq> None) then (400, G)
           else (case wanted_keys (ae_sql E) (ids (t_perms (g_db G))) (dget body ''permissions'') of
                   Inl _ \<Rightarrow> (500, G)
                 | Inr None \<Rightarrow> (400, G)
                 | Inr (Some permissions) \<Rightarrow>
                     (case update_role (ae_iso E) role_id name description permissions (g_db G) of
                        (Inl e, db) \<Rightarrow> (error_code e, G\<lparr>g_db := db\<rparr>)
                      | (Inr None, db) \<Rightarrow> (404, G\<lparr>g_db := db\<rparr>)
                      | (Inr (Some _), db) \<Rightarrow> (200, G\<lparr>g_db := db\<rparr>))))
      | _ \<Rightarrow> (500, G))"

definition api_delete_role :: "auth_env \<Rightarrow> request \<Rightarrow> string \<Rightarrow> gate \<Rightarrow> nat \<times> gate" where
  "api_delete_role E rq role_id =
    authed E rq (\<lambda>pr G.
      case delete_role (ae_iso E) role_id (g_db G) of
        (True, db) \<Rightarrow> (200, G\<lparr>g_db := db\<rparr>)
      | (False, db) \<Rightarrow> (404, G\<lparr>g_db := db\<rparr>))"

definition api_create_permission :: "auth_env \<Rightarrow> string \<Rightarrow> request \<Rightarrow> doc \<Rightarrow> gate \<Rightarrow> nat \<times> gate" where
  "api_create_permission E perm_id rq body =
    authed E rq (\<lambda>pr G.
      case (strip_default body ''name'', strip_default body ''description'',
            strip_default body ''resource'', strip_default body ''action'') of
        (Inr name, Inr description, Inr resource, Inr action) \<Rightarrow>
          (if validate_permission_name (JStr name) \<noteq> None \<or> resource = [] \<or> action = [] then (400, G)
           else (case create_permission (ae_iso E) perm_id name description resource action (g_db G) of
                   (Inl e, db) \<Rightarrow> (error_code e, G\<lparr>g_db := db\<rparr>)
                 | (Inr _, db) \<Rightarrow> (201, G\<lparr>g_db := db\<rparr>)))
      | _ \<Rightarrow> (500, G))"

definition api_update_permission :: "auth_env \<Rightarrow> request \<Rightarrow> string \<Rightarrow> doc \<Rightarrow> gate \<Rightarrow> nat \<times> gate" where
  "api_update_permission E rq perm_id body =
    authed E rq (\<lambda>pr G.
      case (strip_optional body ''name'', strip_optional body ''description'',
            strip_optional body ''resource'', strip_optional body ''action'') of
        (Inr name, Inr description, Inr resource, Inr action) \<Rightarrow>
          (if (case name of None \<Rightarrow> False | Some n \<Rightarrow> validate_permission_name (JStr n) \<noteq> None) then (400, G)
           else (case update_permission (ae_iso E) perm_id name description resource action (g_db G) of
                   (Inl e, db) \<Rightarrow> (error_code e, G\<lparr>g_db := db\<rparr>)
                 | (Inr None, db) \<Rightarrow> (404, G\<lparr>g_db := db\<rparr>)
                 | (Inr (Some _), db) \<Rightarrow> (200, G\<lparr>g_db := db\<rparr>)))
      | _ \<Rightarrow> (500, G))"

definition api_delete_permission :: "auth_env \<Rightarrow> request \<Rightarrow> string \<Rightarrow> gate \<Rightarrow> nat \<times> gate" where
  "api_delete_permission E rq perm_id =
    authed E rq (\<lambda>pr G.
      case delete_permission (ae_iso E) perm_id (g_db G) of
        (True, db) \<Rightarrow> (200, G\<lparr>g_db := db\<rparr>)
      | (False, db) \<Rightarrow> (404, G\<lparr>g_db := db\<rparr>))"

end
