(* ===== verification/AuthProps.thy ===== *)
theory AuthProps
  imports AuthDb
begin

section \<open>Properties of users, roles and permissions\<close>

text \<open>
  The integrity of the tables (\<open>wf_auth\<close>: unique keys and names, no dangling link) holds
  after any sequence of service calls (\<open>auth_op\<close>, \<open>apply_op\<close>). Under it a permission check
  is the join of the tables, and the theorems say who can gain a permission, when a
  deactivated user is locked out, and what a login decides.
\<close>

named_theorems auth_frame "tables that a statement leaves unchanged"

lemma audit_frame [simp, auth_frame]:
  "t_users (audit n a t i c m db) = t_users db" "t_roles (audit n a t i c m db) = t_roles db"
  "t_perms (audit n a t i c m db) = t_perms db" "user_roles (audit n a t i c m db) = user_roles db"
  "role_perms (audit n a t i c m db) = role_perms db"
  by (simp_all add: audit_def)

lemma touch_frame [simp, auth_frame]:
  "t_roles (touch_user n u db) = t_roles db" "t_perms (touch_user n u db) = t_perms db"
  "user_roles (touch_user n u db) = user_roles db" "role_perms (touch_user n u db) = role_perms db"
  "t_users (touch_role n u db) = t_users db" "t_perms (touch_role n u db) = t_perms db"
  "user_roles (touch_role n u db) = user_roles db" "role_perms (touch_role n u db) = role_perms db"
  by (simp_all add: touch_user_def touch_role_def)

subsection \<open>Keyed rows\<close>

definition row_names :: "('r \<Rightarrow> string) \<Rightarrow> (string \<times> 'r) list \<Rightarrow> string list" where
  "row_names nm t = map (\<lambda>(k, r). nm r) t"

definition wf_rows :: "('r \<Rightarrow> string) \<Rightarrow> (string \<times> 'r) list \<Rightarrow> bool" where
  "wf_rows nm t = (distinct (ids t) \<and> distinct (row_names nm t))"

lemma ids_iff: "k \<in> set (ids t) \<longleftrightarrow> (\<exists>r. map_of t k = Some r)"
  by (metis ids_def list.set_map map_of_eq_None_iff not_None_eq)

lemma ids_simps [simp]:
  "ids (t @ t') = ids t @ ids t'" "ids [(k, r)] = [k]" "ids [] = []"
  "ids (row_update key f t) = ids t"
  by (auto simp: ids_def row_update_def)

lemma row_names_simps [simp]:
  "row_names nm (t @ t') = row_names nm t @ row_names nm t'" "row_names nm [(k, r)] = [nm r]"
  "row_names nm [] = []"
  by (simp_all add: row_names_def)

lemma map_of_row_update [simp]:
  "map_of (row_update key f t) k = (if k = key then map_option f (map_of t k) else map_of t k)"
  by (induction t) (auto simp: row_update_def)

lemma map_of_drop_key [simp]: "map_of (filter (\<lambda>(k, r). k \<noteq> x) t) = (map_of t)(x := None)"
  by (induction t) (auto simp: fun_eq_iff)

lemma ids_drop_key: "set (ids (filter (\<lambda>(k, r). k \<noteq> x) t)) = set (ids t) - {x}"
  by (force simp: ids_def)

lemma map_of_append_new:
  "map_of t k = None \<Longrightarrow> map_of (t @ [(k, r)]) = (map_of t)(k \<mapsto> r)"
  by (auto simp: map_add_def fun_eq_iff split: option.splits)

lemma wf_rows_append:
  assumes "wf_rows nm t" "map_of t k = None" "\<not> (\<exists>(k', r')\<in>set t. nm r' = nm r)"
  shows "wf_rows nm (t @ [(k, r)])"
  using assms ids_iff [of k t] by (auto simp: wf_rows_def row_names_def)

lemma wf_rows_drop:
  assumes "wf_rows nm t" shows "wf_rows nm (filter P t)"
  using assms by (auto simp: wf_rows_def ids_def row_names_def intro: distinct_map_filter)

lemma row_names_row_update:
  "row_names nm (row_update key f t) =
    map (\<lambda>(k, r). if k = key then nm (f r) else nm r) t"
  by (auto simp: row_names_def row_update_def)

lemma wf_rows_update_same:
  assumes "wf_rows nm t" "\<And>r. nm (f r) = nm r"
  shows "wf_rows nm (row_update key f t)"
proof -
  have "row_names nm (row_update key f t) = row_names nm t"
    unfolding row_names_row_update using assms(2) by (auto simp: row_names_def)
  then show ?thesis using assms by (simp add: wf_rows_def)
qed

lemma wf_rows_update:
  assumes wf: "wf_rows nm t" and f: "\<And>r. nm (f r) = name" and free: "\<not> name_taken nm name key t"
  shows "wf_rows nm (row_update key f t)"
proof -
  have "distinct (map (\<lambda>(k, r). if k = key then nm (f r) else nm r) t)"
    using wf free
  proof (induction t)
    case Nil
    then show ?case by simp
  next
    case (Cons p t)
    obtain k r where p: "p = (k, r)" by fastforce
    have tl: "wf_rows nm t" "\<not> name_taken nm name key t"
      using Cons.prems by (auto simp: wf_rows_def ids_def row_names_def name_taken_def)
    have "k = key \<Longrightarrow> \<forall>(k', r')\<in>set t. k' \<noteq> key \<and> nm r' \<noteq> name"
      using Cons.prems p by (force simp: wf_rows_def ids_def name_taken_def)
    moreover have "k \<noteq> key \<Longrightarrow> nm r \<noteq> name \<and> (\<forall>(k', r')\<in>set t. nm r' \<noteq> nm r)"
      using Cons.prems p by (force simp: wf_rows_def row_names_def name_taken_def)
    ultimately have "(\<lambda>(k, r). if k = key then nm (f r) else nm r) p \<notin>
      (\<lambda>(k, r). if k = key then nm (f r) else nm r) ` set t"
      using p f by (auto split: if_splits)
    then show ?case using Cons.IH tl by simp
  qed
  then show ?thesis using wf by (simp add: wf_rows_def row_names_row_update)
qed

lemma find_row_iff:
  assumes "wf_rows nm t"
  shows "find (\<lambda>(k, r). nm r = n) t = Some (k, r) \<longleftrightarrow> map_of t k = Some r \<and> nm r = n"
proof -
  have d: "distinct (map fst t)" "distinct (map (\<lambda>(k, r). nm r) t)"
    using assms by (auto simp: wf_rows_def ids_def row_names_def)
  have "find (\<lambda>(k, r). nm r = n) t = Some (k, r) \<longleftrightarrow> (k, r) \<in> set t \<and> nm r = n"
    using d(2)
  proof (induction t)
    case Nil
    then show ?case by simp
  next
    case (Cons p t)
    obtain k' r' where p: "p = (k', r')" by fastforce
    have "nm r' = n \<Longrightarrow> nm r = n \<Longrightarrow> (k, r) \<notin> set t"
      using Cons.prems p by force
    then show ?case using Cons.IH Cons.prems p by auto
  qed
  then show ?thesis using d(1) by simp
qed

subsection \<open>Link tables\<close>

lemma link_all_set: "link_all a bs existing t = Some t' \<Longrightarrow> set t' = set t \<union> {a} \<times> set bs"
proof (induction bs arbitrary: t)
  case (Cons b bs)
  have "link_all a bs existing (if (a, b) \<in> set t then t else t @ [(a, b)]) = Some t'"
    using Cons.prems by (cases "b \<in> set existing") simp_all
  from Cons.IH [OF this]
  have "set t' = set (if (a, b) \<in> set t then t else t @ [(a, b)]) \<union> {a} \<times> set bs" .
  then show ?case by (cases "(a, b) \<in> set t") auto
qed simp

lemma link_all_distinct: "link_all a bs existing t = Some t' \<Longrightarrow> distinct t \<Longrightarrow> distinct t'"
  by (induction bs arbitrary: t) (simp_all split: if_split_asm)

lemma link_all_refs: "link_all a bs existing t = Some t' \<Longrightarrow> set bs \<subseteq> set existing"
  by (induction bs arbitrary: t) (simp_all split: if_split_asm)

lemmas link_all_Some = link_all_set link_all_refs link_all_distinct

lemma link_all_None_iff: "link_all a bs existing t = None \<longleftrightarrow> \<not> set bs \<subseteq> set existing"
  by (induction bs arbitrary: t) simp_all

definition wf_links :: "(string \<times> string) list \<Rightarrow> string set \<Rightarrow> string set \<Rightarrow> bool" where
  "wf_links l A B = (distinct l \<and> set l \<subseteq> A \<times> B)"

lemma wf_links_filter: "wf_links l A B \<Longrightarrow> wf_links (filter P l) A B"
  by (auto simp: wf_links_def)

lemma wf_links_mono: "wf_links l A B \<Longrightarrow> A \<subseteq> A' \<Longrightarrow> B \<subseteq> B' \<Longrightarrow> wf_links l A' B'"
  by (auto simp: wf_links_def)

lemma wf_links_link_all:
  assumes "link_all a bs existing l = Some l'" "wf_links l A (set existing)" "a \<in> A"
  shows "wf_links l' A (set existing)"
  using assms link_all_Some [OF assms(1)] by (auto simp: wf_links_def)

lemma wf_links_drop_left: "wf_links l A B \<Longrightarrow> wf_links (filter (\<lambda>(a, b). a \<noteq> x) l) (A - {x}) B"
  by (auto simp: wf_links_def)

lemma wf_links_drop_right: "wf_links l A B \<Longrightarrow> wf_links (filter (\<lambda>(a, b). b \<noteq> x) l) A (B - {x})"
  by (auto simp: wf_links_def)

subsection \<open>Integrity\<close>

definition wf_auth :: "auth_db \<Rightarrow> bool" where
  "wf_auth db =
    (wf_rows u_name (t_users db) \<and> wf_rows ro_name (t_roles db) \<and> wf_rows pe_name (t_perms db) \<and>
     wf_links (user_roles db) (set (ids (t_users db))) (set (ids (t_roles db))) \<and>
     wf_links (role_perms db) (set (ids (t_roles db))) (set (ids (t_perms db))))"

lemma wf_authI:
  assumes "wf_rows u_name (t_users db)" "wf_rows ro_name (t_roles db)" "wf_rows pe_name (t_perms db)"
    "wf_links (user_roles db) (set (ids (t_users db))) (set (ids (t_roles db)))"
    "wf_links (role_perms db) (set (ids (t_roles db))) (set (ids (t_perms db)))"
  shows "wf_auth db"
  using assms by (simp add: wf_auth_def)

lemma wf_authD:
  assumes "wf_auth db"
  shows "wf_rows u_name (t_users db)" "wf_rows ro_name (t_roles db)" "wf_rows pe_name (t_perms db)"
    "wf_links (user_roles db) (set (ids (t_users db))) (set (ids (t_roles db)))"
    "wf_links (role_perms db) (set (ids (t_roles db))) (set (ids (t_perms db)))"
  using assms by (simp_all add: wf_auth_def)

lemma wf_auth_audit [simp]: "wf_auth (audit n a t i c m db) = wf_auth db"
  by (simp add: wf_auth_def)

lemma wf_auth_touch_user [simp]: "wf_auth db \<Longrightarrow> wf_auth (touch_user n u db)"
  by (simp add: wf_auth_def touch_user_def wf_rows_update_same)

lemma wf_auth_touch_role [simp]: "wf_auth db \<Longrightarrow> wf_auth (touch_role n u db)"
  by (simp add: wf_auth_def touch_role_def wf_rows_update_same)

lemma wf_auth_empty: "wf_auth empty_auth"
  by (simp add: wf_auth_def empty_auth_def wf_rows_def wf_links_def)

lemmas wf_table_intros =
  wf_rows_append wf_rows_drop wf_rows_update_same wf_links_filter wf_links_drop_left wf_links_drop_right

text \<open>The shape of a database after each operation: unchanged, or the effect of its statements.\<close>

lemma wf_with_users:
  assumes "wf_auth db" "wf_rows u_name t" "ids t = ids (t_users db)"
    "wf_links l (set (ids (t_users db))) (set (ids (t_roles db)))"
  shows "wf_auth (db\<lparr>t_users := t, user_roles := l\<rparr>)"
  using assms by (simp add: wf_auth_def)

lemma wf_with_roles:
  assumes "wf_auth db" "wf_rows ro_name t" "ids t = ids (t_roles db)"
    "wf_links l (set (ids (t_roles db))) (set (ids (t_perms db)))"
  shows "wf_auth (db\<lparr>t_roles := t, role_perms := l\<rparr>)"
  using assms by (simp add: wf_auth_def)


lemma wf_create_user: "wf_auth db \<Longrightarrow> wf_auth (snd (create_user n k h u e rs db))"
proof -
  assume wf: "wf_auth db"
  note D = wf_authD [OF wf]
  show ?thesis
  proof (cases "(\<exists>(k, r)\<in>set (t_users db). u_name r = u) \<or> map_of (t_users db) k \<noteq> None \<or>
                link_all k rs (ids (t_roles db)) (user_roles db) = None")
    case True
    then show ?thesis using wf by (auto simp: create_user_def)
  next
    case False
    then obtain ur where ur: "link_all k rs (ids (t_roles db)) (user_roles db) = Some ur" by blast
    let ?A = "set (ids (t_users db)) \<union> {k}"
    have "wf_links (user_roles db) ?A (set (ids (t_roles db)))" using D(4) by (rule wf_links_mono) auto
    from wf_links_link_all [OF ur this] have l: "wf_links ur ?A (set (ids (t_roles db)))" by simp
    let ?row = "\<lparr>u_name = u, u_email = e, u_hash = h, u_active = True, u_created = n, u_updated = n,
                  u_last = None, u_disabled = None\<rparr>"
    have w: "wf_rows u_name (t_users db @ [(k, ?row)])"
      using D(1) False by (intro wf_rows_append) auto
    have "wf_auth (db\<lparr>t_users := t_users db @ [(k, ?row)], user_roles := ur\<rparr>)"
      by (rule wf_authI) (simp_all add: D(2,3,5) w l [simplified])
    then show ?thesis using False ur by (simp add: create_user_def Let_def)
  qed
qed

lemma wf_create_role: "wf_auth db \<Longrightarrow> wf_auth (snd (create_role n k u d ps db))"
proof -
  assume wf: "wf_auth db"
  note D = wf_authD [OF wf]
  show ?thesis
  proof (cases "(\<exists>(k, r)\<in>set (t_roles db). ro_name r = u) \<or> map_of (t_roles db) k \<noteq> None \<or>
                link_all k ps (ids (t_perms db)) (role_perms db) = None")
    case True
    then show ?thesis using wf by (auto simp: create_role_def)
  next
    case False
    then obtain rp where rp: "link_all k ps (ids (t_perms db)) (role_perms db) = Some rp" by blast
    let ?A = "set (ids (t_roles db)) \<union> {k}"
    have "wf_links (role_perms db) ?A (set (ids (t_perms db)))" using D(5) by (rule wf_links_mono) auto
    from wf_links_link_all [OF rp this] have l: "wf_links rp ?A (set (ids (t_perms db)))" by simp
    have m: "wf_links (user_roles db) (set (ids (t_users db))) ?A" using D(4) by (rule wf_links_mono) auto
    let ?row = "\<lparr>ro_name = u, ro_desc = d, ro_system = False, ro_created = n, ro_updated = n\<rparr>"
    have w: "wf_rows ro_name (t_roles db @ [(k, ?row)])"
      using D(2) False by (intro wf_rows_append) auto
    have "wf_auth (db\<lparr>t_roles := t_roles db @ [(k, ?row)], role_perms := rp\<rparr>)"
      by (rule wf_authI) (simp_all add: D(1,3) w l [simplified] m [simplified])
    then show ?thesis using False rp by (simp add: create_role_def Let_def)
  qed
qed

lemma wf_create_permission: "wf_auth db \<Longrightarrow> wf_auth (snd (create_permission n k u d re ac db))"
proof -
  assume wf: "wf_auth db"
  note D = wf_authD [OF wf]
  show ?thesis
  proof (cases "(\<exists>(k, r)\<in>set (t_perms db). pe_name r = u) \<or> map_of (t_perms db) k \<noteq> None")
    case True
    then show ?thesis using wf by (auto simp: create_permission_def)
  next
    case False
    let ?row = "\<lparr>pe_name = u, pe_desc = d, pe_resource = re, pe_action = ac, pe_created = n\<rparr>"
    have w: "wf_rows pe_name (t_perms db @ [(k, ?row)])"
      using D(3) False by (intro wf_rows_append) auto
    have m: "wf_links (role_perms db) (set (ids (t_roles db))) (set (ids (t_perms db)) \<union> {k})"
      using D(5) by (rule wf_links_mono) auto
    have "wf_auth (db\<lparr>t_perms := t_perms db @ [(k, ?row)]\<rparr>)"
      by (rule wf_authI) (simp_all add: D(1,2,4) w m [simplified])
    then show ?thesis using False by (simp add: create_permission_def Let_def)
  qed
qed

text \<open>An update is refused, or rewrites one row (keeping the name free of clashes) and its links.\<close>

lemma update_user_cases:
  obtains (same) "snd (update_user n k u e rs a db) = db"
  | (edit) f ur m row where
      "snd (update_user n k u e rs a db) =
        audit n ''user.update'' ''user'' k None m
          (db\<lparr>t_users := row_update k f (t_users db), user_roles := ur\<rparr>)"
      "map_of (t_users db) k = Some row"
      "\<not> name_taken u_name (opt_name u (u_name row)) k (t_users db)"
      "\<And>r. u_name (f r) = opt_name u (u_name row)"
      "\<And>r. u_active (f r) = (case a of None \<Rightarrow> u_active r | Some b \<Rightarrow> b)"
      "\<And>r. u_hash (f r) = u_hash r"
      "case rs of None \<Rightarrow> ur = user_roles db
       | Some rs' \<Rightarrow> link_all k rs' (ids (t_roles db)) (filter (\<lambda>(x, y). x \<noteq> k) (user_roles db)) = Some ur"
proof -
  let ?links = "case rs of None \<Rightarrow> Some (user_roles db)
     | Some rs' \<Rightarrow> link_all k rs' (ids (t_roles db)) (filter (\<lambda>(x, y). x \<noteq> k) (user_roles db))"
  consider "map_of (t_users db) k = None"
    | row where "map_of (t_users db) k = Some row"
        "name_taken u_name (opt_name u (u_name row)) k (t_users db) \<or> ?links = None"
    | row ur where "map_of (t_users db) k = Some row"
        "\<not> name_taken u_name (opt_name u (u_name row)) k (t_users db)" "?links = Some ur"
    by (cases "map_of (t_users db) k"; cases ?links) auto
  then show thesis
  proof cases
    case 1
    then show thesis by (intro same) (simp add: update_user_def)
  next
    case 2
    then show thesis by (intro same) (auto simp: update_user_def Let_def)
  next
    case 3
    then show thesis
      by (intro edit [where ur = ur and row = row and f = "\<lambda>r. r\<lparr>u_name := opt_name u (u_name row),
                                  u_email := (case e of None \<Rightarrow> u_email r | Some e \<Rightarrow> Some e),
                                  u_active := (case a of None \<Rightarrow> u_active r | Some b \<Rightarrow> b),
                                  u_disabled := (case a of None \<Rightarrow> u_disabled r
                                                 | Some b \<Rightarrow> if b then None else Some n),
                                  u_updated := n\<rparr>"])
        (auto simp: update_user_def Let_def split: option.splits)
  qed
qed

lemma wf_update_user: "wf_auth db \<Longrightarrow> wf_auth (snd (update_user n k u e rs a db))"
proof (rule update_user_cases [where n = n and k = k and u = u and e = e and rs = rs and a = a and db = db])
  assume wf: "wf_auth db" and "snd (update_user n k u e rs a db) = db"
  then show ?thesis by simp
next
  fix f :: "user_row \<Rightarrow> user_row" and ur m row
  assume wf: "wf_auth db"
    and eq: "snd (update_user n k u e rs a db) =
      audit n ''user.update'' ''user'' k None m
        (db\<lparr>t_users := row_update k f (t_users db), user_roles := ur\<rparr>)"
    and row: "map_of (t_users db) k = Some row"
    and free: "\<not> name_taken u_name (opt_name u (u_name row)) k (t_users db)"
    and nm: "\<And>r. u_name (f r) = opt_name u (u_name row)"
    and links: "case rs of None \<Rightarrow> ur = user_roles db
       | Some rs' \<Rightarrow> link_all k rs' (ids (t_roles db)) (filter (\<lambda>(x, y). x \<noteq> k) (user_roles db)) = Some ur"
  note D = wf_authD [OF wf]
  have k: "k \<in> set (ids (t_users db))" using row by (simp add: ids_iff)
  have "wf_links ur (set (ids (t_users db))) (set (ids (t_roles db)))"
  proof (cases rs)
    case None
    then show ?thesis using links D(4) by simp
  next
    case (Some rs')
    then show ?thesis using links wf_links_link_all [OF _ wf_links_filter [OF D(4)] k] by simp
  qed
  then have "wf_auth (db\<lparr>t_users := row_update k f (t_users db), user_roles := ur\<rparr>)"
    using wf_rows_update [OF D(1) nm free] wf by (intro wf_with_users) simp_all
  then show ?thesis by (simp add: eq)
qed

lemma wf_update_role: "wf_auth db \<Longrightarrow> wf_auth (snd (update_role n k u d ps db))"
proof -
  assume wf: "wf_auth db"
  note D = wf_authD [OF wf]
  let ?links = "case ps of None \<Rightarrow> Some (role_perms db)
     | Some ps' \<Rightarrow> link_all k ps' (ids (t_perms db)) (filter (\<lambda>(x, y). x \<noteq> k) (role_perms db))"
  consider "map_of (t_roles db) k = None"
    | row where "map_of (t_roles db) k = Some row"
        "name_taken ro_name (opt_name u (ro_name row)) k (t_roles db) \<or> ?links = None"
    | row rp where "map_of (t_roles db) k = Some row"
        "\<not> name_taken ro_name (opt_name u (ro_name row)) k (t_roles db)" "?links = Some rp"
    by (cases "map_of (t_roles db) k"; cases ?links) auto
  then show ?thesis
  proof cases
    case 1
    then show ?thesis using wf by (simp add: update_role_def)
  next
    case 2
    then show ?thesis using wf by (auto simp: update_role_def Let_def)
  next
    case (3 row rp)
    have k: "k \<in> set (ids (t_roles db))" using 3 by (simp add: ids_iff)
    have "wf_links rp (set (ids (t_roles db))) (set (ids (t_perms db)))"
    proof (cases ps)
      case None
      then show ?thesis using 3 D(5) by simp
    next
      case (Some ps')
      then show ?thesis using 3 wf_links_link_all [OF _ wf_links_filter [OF D(5)] k] by simp
    qed
    then have "wf_auth (db\<lparr>t_roles := row_update k (\<lambda>r. r\<lparr>ro_name := opt_name u (ro_name row),
                 ro_desc := opt_name d (ro_desc r), ro_updated := n\<rparr>) (t_roles db), role_perms := rp\<rparr>)"
      using wf_rows_update [OF D(2) _ 3(2)] wf by (intro wf_with_roles) simp_all
    then show ?thesis using 3 by (simp add: update_role_def Let_def)
  qed
qed

lemma wf_update_permission: "wf_auth db \<Longrightarrow> wf_auth (snd (update_permission n k u d re ac db))"
proof -
  assume wf: "wf_auth db"
  note D = wf_authD [OF wf]
  show ?thesis
  proof (cases "map_of (t_perms db) k")
    case None
    then show ?thesis using wf by (simp add: update_permission_def)
  next
    case (Some row)
    show ?thesis
    proof (cases "name_taken pe_name (opt_name u (pe_name row)) k (t_perms db)")
      case True
      then show ?thesis using wf Some by (auto simp: update_permission_def Let_def)
    next
      case False
      have "wf_auth (db\<lparr>t_perms := row_update k (\<lambda>r. r\<lparr>pe_name := opt_name u (pe_name row),
              pe_desc := opt_name d (pe_desc r), pe_resource := opt_name re (pe_resource r),
              pe_action := opt_name ac (pe_action r)\<rparr>) (t_perms db)\<rparr>)"
        using wf_rows_update [OF D(3) _ False] by (intro wf_authI) (simp_all add: D)
      then show ?thesis using Some False by (simp add: update_permission_def Let_def)
    qed
  qed
qed

lemma wf_delete_user: "wf_auth db \<Longrightarrow> wf_auth (snd (delete_user n k db))"
  using wf_links_drop_left [of "user_roles db" _ _ k]
  by (cases "map_of (t_users db) k")
     (auto simp: delete_user_def wf_auth_def ids_drop_key wf_rows_drop)

lemma wf_delete_role: "wf_auth db \<Longrightarrow> wf_auth (snd (delete_role n k db))"
  using wf_links_drop_left [of "role_perms db" _ _ k] wf_links_drop_right [of "user_roles db" _ _ k]
  by (cases "map_of (t_roles db) k")
     (auto simp: delete_role_def wf_auth_def ids_drop_key wf_rows_drop)

lemma wf_delete_permission: "wf_auth db \<Longrightarrow> wf_auth (snd (delete_permission n k db))"
  using wf_links_drop_right [of "role_perms db" _ _ k]
  by (cases "map_of (t_perms db) k")
     (auto simp: delete_permission_def wf_auth_def ids_drop_key wf_rows_drop)

lemma wf_add_role: "wf_auth db \<Longrightarrow> wf_auth (snd (add_role_to_user n k r db))"
proof (cases "map_of (t_users db) k = None \<or> link_all k [r] (ids (t_roles db)) (user_roles db) = None")
  case False
  assume wf: "wf_auth db"
  obtain ur where ur: "link_all k [r] (ids (t_roles db)) (user_roles db) = Some ur"
    and k: "k \<in> set (ids (t_users db))" using False by (auto simp: ids_iff)
  have "wf_auth (db\<lparr>user_roles := ur\<rparr>)"
    using wf wf_links_link_all [OF ur _ k] by (simp add: wf_auth_def)
  then show ?thesis using False ur wf by (simp add: add_role_to_user_def)
qed (auto simp: add_role_to_user_def)

lemma wf_add_permission: "wf_auth db \<Longrightarrow> wf_auth (snd (add_permission_to_role n k p db))"
proof (cases "map_of (t_roles db) k = None \<or> link_all k [p] (ids (t_perms db)) (role_perms db) = None")
  case False
  assume wf: "wf_auth db"
  obtain rp where rp: "link_all k [p] (ids (t_perms db)) (role_perms db) = Some rp"
    and k: "k \<in> set (ids (t_roles db))" using False by (auto simp: ids_iff)
  have "wf_auth (db\<lparr>role_perms := rp\<rparr>)"
    using wf wf_links_link_all [OF rp _ k] by (simp add: wf_auth_def)
  then show ?thesis using False rp wf by (simp add: add_permission_to_role_def)
qed (auto simp: add_permission_to_role_def)

lemma wf_remove_role: "wf_auth db \<Longrightarrow> wf_auth (snd (remove_role_from_user n k r db))"
proof -
  assume wf: "wf_auth db"
  then have "wf_auth (db\<lparr>user_roles := filter (\<lambda>l. l \<noteq> (k, r)) (user_roles db)\<rparr>)"
    by (simp add: wf_auth_def wf_links_filter)
  then show ?thesis using wf by (simp add: remove_role_from_user_def)
qed

lemma wf_remove_permission: "wf_auth db \<Longrightarrow> wf_auth (snd (remove_permission_from_role n k p db))"
proof -
  assume wf: "wf_auth db"
  then have "wf_auth (db\<lparr>role_perms := filter (\<lambda>l. l \<noteq> (k, p)) (role_perms db)\<rparr>)"
    by (simp add: wf_auth_def wf_links_filter)
  then show ?thesis using wf by (simp add: remove_permission_from_role_def)
qed

lemma wf_with_same_names:
  "wf_auth db \<Longrightarrow> (\<And>r. u_name (f r) = u_name r) \<Longrightarrow> wf_auth (db\<lparr>t_users := row_update k f (t_users db)\<rparr>)"
  by (simp add: wf_auth_def wf_rows_update_same)

lemma wf_store_password: "wf_auth db \<Longrightarrow> wf_auth (store_password n k h a db)"
  by (simp add: store_password_def wf_with_same_names)

lemma wf_authenticate: "wf_auth db \<Longrightarrow> wf_auth (snd (authenticate cp n u p db))"
  by (auto simp: authenticate_def Let_def wf_with_same_names split: option.split)

subsection \<open>Service calls\<close>

text \<open>
  The calls that write. Fresh ids, hashes and the clock are arguments; \<open>ChangePassword\<close> and
  \<open>Login\<close> carry the outcome table of the hash comparison as a function.
\<close>

datatype auth_op =
    CreateUser string string string string "string option" "string list"
  | UpdateUser string string "string option" "string option" "string list option" "bool option"
  | ChangePassword "string \<Rightarrow> string \<Rightarrow> bool" string string string string
  | SetPassword string string string
  | DeleteUser string string
  | Login "string \<Rightarrow> string \<Rightarrow> bool" string string string
  | AddRole string string string
  | RemoveRole string string string
  | CreateRole string string string string "string list"
  | UpdateRole string string "string option" "string option" "string list option"
  | DeleteRole string string
  | AddPermission string string string
  | RemovePermission string string string
  | CreatePermission string string string string string string
  | UpdatePermission string string "string option" "string option" "string option" "string option"
  | DeletePermission string string

fun apply_op :: "auth_op \<Rightarrow> auth_db \<Rightarrow> auth_db" where
  "apply_op (CreateUser n k h u e rs) db = snd (create_user n k h u e rs db)"
| "apply_op (UpdateUser n k u e rs a) db = snd (update_user n k u e rs a db)"
| "apply_op (ChangePassword cp n k old new) db = snd (change_password cp n k old new db)"
| "apply_op (SetPassword n k h) db = snd (set_password n k h db)"
| "apply_op (DeleteUser n k) db = snd (delete_user n k db)"
| "apply_op (Login cp n u p) db = snd (authenticate cp n u p db)"
| "apply_op (AddRole n k r) db = snd (add_role_to_user n k r db)"
| "apply_op (RemoveRole n k r) db = snd (remove_role_from_user n k r db)"
| "apply_op (CreateRole n k u d ps) db = snd (create_role n k u d ps db)"
| "apply_op (UpdateRole n k u d ps) db = snd (update_role n k u d ps db)"
| "apply_op (DeleteRole n k) db = snd (delete_role n k db)"
| "apply_op (AddPermission n k p) db = snd (add_permission_to_role n k p db)"
| "apply_op (RemovePermission n k p) db = snd (remove_permission_from_role n k p db)"
| "apply_op (CreatePermission n k u d re ac) db = snd (create_permission n k u d re ac db)"
| "apply_op (UpdatePermission n k u d re ac) db = snd (update_permission n k u d re ac db)"
| "apply_op (DeletePermission n k) db = snd (delete_permission n k db)"

lemma wf_apply_op: "wf_auth db \<Longrightarrow> wf_auth (apply_op op db)"
  by (cases op)
     (simp_all add: wf_create_user wf_update_user wf_delete_user wf_authenticate wf_add_role wf_remove_role
        wf_create_role wf_update_role wf_delete_role wf_add_permission wf_remove_permission
        wf_create_permission wf_update_permission wf_delete_permission
        wf_store_password change_password_def set_password_def split: option.split)

lemma wf_apply_ops: "wf_auth db \<Longrightarrow> wf_auth (fold apply_op ops db)"
  by (induction ops arbitrary: db) (simp_all add: wf_apply_op)

text \<open>C4: Starting from the empty database, after any sequence of service calls (failed ones
  included) the access-control tables are sound: ids and names are unique in the users, roles
  and permissions, and each link joins two rows that exist, once. In particular deleting a
  user, role or permission leaves no dangling link behind, so a later row with the same id
  inherits nothing.
\<close>
theorem auth_integrity: "wf_auth (fold apply_op ops empty_auth)"
  by (intro wf_apply_ops wf_auth_empty)

subsection \<open>What a permission check decides\<close>

definition granted :: "auth_db \<Rightarrow> string \<Rightarrow> string \<Rightarrow> bool" where
  \<comment> \<open>the join of the tables\<close>
  "granted db u p =
    (\<exists>(k, r)\<in>set (t_users db). k = u \<and> u_active r \<and>
     (\<exists>(k', role)\<in>set (user_roles db). k' = u \<and>
      (\<exists>(role', q)\<in>set (role_perms db). role' = role \<and>
       (\<exists>(q', pr)\<in>set (t_perms db). q' = q \<and> pe_name pr = p))))"

lemma in_table_iff: "wf_rows nm t \<Longrightarrow> (k, r) \<in> set t \<longleftrightarrow> map_of t k = Some r"
  by (simp add: wf_rows_def ids_def)

lemma granted_iff:
  assumes "wf_auth db"
  shows "granted db u p \<longleftrightarrow>
    (\<exists>r role q pr. map_of (t_users db) u = Some r \<and> u_active r \<and> (u, role) \<in> set (user_roles db) \<and>
       (role, q) \<in> set (role_perms db) \<and> map_of (t_perms db) q = Some pr \<and> pe_name pr = p)"
  using wf_authD(1,3) [OF assms] by (fastforce simp: granted_def simp flip: in_table_iff)

lemma linked_role_exists:
  assumes "wf_auth db" "(u, role) \<in> set (user_roles db)"
  shows "\<exists>rr. map_of (t_roles db) role = Some rr"
  using wf_authD(4) [OF assms(1)] assms(2) by (auto simp: wf_links_def simp flip: ids_iff)

lemma set_map_filter_option: "x \<in> set (List.map_filter f xs) \<longleftrightarrow> (\<exists>y\<in>set xs. f y = Some x)"
  by (force simp: map_filter_def)

lemma role_names_iff:
  "p \<in> set (case get_role_by_id role db of None \<Rightarrow> []
     | Some rl \<Rightarrow> List.map_filter (\<lambda>q. map_option pe_name (get_permission_by_id q db)) (rl_perms rl)) \<longleftrightarrow>
   (\<exists>rr q pr. map_of (t_roles db) role = Some rr \<and> (role, q) \<in> set (role_perms db) \<and>
      map_of (t_perms db) q = Some pr \<and> pe_name pr = p)"
proof (cases "map_of (t_roles db) role")
  case None
  then show ?thesis by (simp add: get_role_by_id_def)
next
  case (Some rr)
  have "p \<in> set (case get_role_by_id role db of None \<Rightarrow> []
     | Some rl \<Rightarrow> List.map_filter (\<lambda>q. map_option pe_name (get_permission_by_id q db)) (rl_perms rl)) \<longleftrightarrow>
    (\<exists>q\<in>set (map snd (filter (\<lambda>(a, b). a = role) (role_perms db))).
       map_option pe_name (map_of (t_perms db) q) = Some p)"
    using Some by (simp add: get_role_by_id_def row_to_role_def get_permission_by_id_def
        set_map_filter_option)
  also have "\<dots> \<longleftrightarrow> (\<exists>q. (role, q) \<in> set (role_perms db) \<and>
       map_option pe_name (map_of (t_perms db) q) = Some p)" by auto
  finally show ?thesis using Some by auto
qed

lemma get_user_permissions_iff:
  assumes wf: "wf_auth db"
  shows "p \<in> set (get_user_permissions u db) \<longleftrightarrow> granted db u p"
proof (cases "map_of (t_users db) u")
  case None
  then show ?thesis
    by (simp add: get_user_permissions_def get_user_by_id_def granted_iff [OF wf])
next
  case (Some r)
  show ?thesis
  proof (cases "u_active r")
    case False
    then show ?thesis using Some
      by (simp add: get_user_permissions_def get_user_by_id_def granted_iff [OF wf] row_to_user_def)
  next
    case True
    define names where "names role =
      (case get_role_by_id role db of None \<Rightarrow> []
       | Some rl \<Rightarrow> List.map_filter (\<lambda>q. map_option pe_name (get_permission_by_id q db)) (rl_perms rl))"
      for role
    have "get_user_permissions u db =
      concat (map names (map snd (filter (\<lambda>(a, b). a = u) (user_roles db))))"
      using Some True
      by (simp add: get_user_permissions_def get_user_by_id_def row_to_user_def names_def comp_def)
    then have "p \<in> set (get_user_permissions u db) \<longleftrightarrow>
      (\<exists>role. (u, role) \<in> set (user_roles db) \<and> p \<in> set (names role))" by auto
    then have "p \<in> set (get_user_permissions u db) \<longleftrightarrow>
      (\<exists>role rr q pr. (u, role) \<in> set (user_roles db) \<and> map_of (t_roles db) role = Some rr \<and>
         (role, q) \<in> set (role_perms db) \<and> map_of (t_perms db) q = Some pr \<and> pe_name pr = p)"
      unfolding names_def role_names_iff by blast
    also have "\<dots> \<longleftrightarrow> (\<exists>role q pr. (u, role) \<in> set (user_roles db) \<and>
         (role, q) \<in> set (role_perms db) \<and> map_of (t_perms db) q = Some pr \<and> pe_name pr = p)"
      using linked_role_exists [OF wf] by blast
    finally show ?thesis using Some True by (simp add: granted_iff [OF wf])
  qed
qed

lemma has_permission_granted: "wf_auth db \<Longrightarrow> has_permission u p db \<longleftrightarrow> granted db u p"
  by (simp add: has_permission_def get_user_permissions_iff)

text \<open>C13: A permission check answers the relational question. In every database that the service
  calls can produce, \<open>has_permission\<close> holds exactly when the user row is active and the link
  tables join it to a role and that role to a permission of that name. The any- and
  all-variants are the corresponding quantifications.
\<close>
theorem permission_check_is_join:
  fixes ops :: "auth_op list"
  defines "db \<equiv> fold apply_op ops empty_auth"
  shows "has_permission u p db = granted db u p \<and>
    has_any_permission u ps db = list_ex (granted db u) ps \<and>
    has_all_permissions u ps db = list_all (granted db u) ps"
proof -
  have "wf_auth db" unfolding db_def by (intro wf_apply_ops wf_auth_empty)
  from get_user_permissions_iff [OF this] show ?thesis
    by (auto simp: has_permission_def has_any_permission_def has_all_permissions_def
        list_ex_iff list_all_iff)
qed

subsection \<open>Who can gain a permission\<close>

fun grants :: "string \<Rightarrow> string \<Rightarrow> auth_op \<Rightarrow> bool" where
  "grants u p (CreateUser n k h un e rs) = (k = u)"
| "grants u p (UpdateUser n k un e rs a) = (k = u \<and> (rs \<noteq> None \<or> a = Some True))"
| "grants u p (AddRole n k r) = (k = u)"
| "grants u p (UpdateRole n k nm d ps) = (ps \<noteq> None)"
| "grants u p (AddPermission n k q) = True"
| "grants u p (UpdatePermission n k nm d re ac) = (nm = Some p)"
| "grants u p _ = False"

lemma granted_mono:
  assumes "wf_auth db" "wf_auth db'" "granted db' u p"
    and "\<And>r'. map_of (t_users db') u = Some r' \<Longrightarrow> u_active r' \<Longrightarrow>
           \<exists>r. map_of (t_users db) u = Some r \<and> u_active r"
    and "\<And>role. (u, role) \<in> set (user_roles db') \<Longrightarrow> (u, role) \<in> set (user_roles db)"
    and "\<And>role q. (u, role) \<in> set (user_roles db) \<Longrightarrow> (role, q) \<in> set (role_perms db') \<Longrightarrow>
           (role, q) \<in> set (role_perms db)"
    and "\<And>role q pr. (role, q) \<in> set (role_perms db) \<Longrightarrow> map_of (t_perms db') q = Some pr \<Longrightarrow>
           pe_name pr = p \<Longrightarrow> \<exists>pr. map_of (t_perms db) q = Some pr \<and> pe_name pr = p"
  shows "granted db u p"
proof -
  obtain r role q pr where "map_of (t_users db') u = Some r" "u_active r"
    "(u, role) \<in> set (user_roles db')" "(role, q) \<in> set (role_perms db')"
    "map_of (t_perms db') q = Some pr" "pe_name pr = p"
    using assms(3) unfolding granted_iff [OF assms(2)] by blast
  with assms(4-7) show ?thesis unfolding granted_iff [OF assms(1)] by metis
qed

lemma granted_same:
  assumes "wf_auth db" "wf_auth db'" "granted db' u p" "user_roles db' = user_roles db"
    "role_perms db' = role_perms db" "t_perms db' = t_perms db"
    and "\<And>k. map_option u_active (map_of (t_users db') k) = map_option u_active (map_of (t_users db) k)"
  shows "granted db u p"
proof (rule granted_mono [OF assms(1-3)])
  fix r' assume "map_of (t_users db') u = Some r'" "u_active r'"
  then show "\<exists>r. map_of (t_users db) u = Some r \<and> u_active r"
    using assms(7) [of u] by (cases "map_of (t_users db) u") auto
qed (use assms(4-6) in auto)

lemma dangling_free:
  assumes "wf_auth db"
  shows "(k, r) \<in> set (user_roles db) \<Longrightarrow> map_of (t_users db) k \<noteq> None"
    and "(k, r) \<in> set (user_roles db) \<Longrightarrow> map_of (t_roles db) r \<noteq> None"
    and "(k, q) \<in> set (role_perms db) \<Longrightarrow> map_of (t_roles db) k \<noteq> None"
    and "(k, q) \<in> set (role_perms db) \<Longrightarrow> map_of (t_perms db) q \<noteq> None"
  using wf_authD(4,5) [OF assms] ids_iff by (fastforce simp: wf_links_def)+

lemma no_gain_create_user:
  assumes "wf_auth db" "granted (snd (create_user n k h un e rs db)) u p" "k \<noteq> u"
  shows "granted db u p"
proof (rule granted_mono [OF assms(1) wf_create_user [OF assms(1)] assms(2)])
  let ?db = "snd (create_user n k h un e rs db)"
  have users: "map_of (t_users ?db) u = map_of (t_users db) u"
    using assms(3) by (auto simp: create_user_def Let_def map_add_def split: option.splits)
  have rest: "role_perms ?db = role_perms db" "t_perms ?db = t_perms db"
    by (auto simp: create_user_def Let_def split: option.splits)
  have links: "(u, role) \<in> set (user_roles ?db) \<Longrightarrow> (u, role) \<in> set (user_roles db)" for role
    using assms(3) by (auto simp: create_user_def Let_def split: option.splits if_splits dest: link_all_set)
  show "\<And>r'. map_of (t_users ?db) u = Some r' \<Longrightarrow> u_active r' \<Longrightarrow>
          \<exists>r. map_of (t_users db) u = Some r \<and> u_active r" by (simp add: users)
  show "\<And>role. (u, role) \<in> set (user_roles ?db) \<Longrightarrow> (u, role) \<in> set (user_roles db)" by (rule links)
qed (auto simp: create_user_def Let_def split: option.splits if_splits)

lemma no_gain_update_user:
  assumes wf: "wf_auth db" and g: "granted (snd (update_user n k un e rs a db)) u p"
    and no: "\<not> (k = u \<and> (rs \<noteq> None \<or> a = Some True))"
  shows "granted db u p"
proof (rule update_user_cases [where n = n and k = k and u = un and e = e and rs = rs and a = a and db = db])
  assume "snd (update_user n k un e rs a db) = db"
  then show ?thesis using g by simp
next
  fix f :: "user_row \<Rightarrow> user_row" and ur m row
  let ?db = "snd (update_user n k un e rs a db)"
  assume eq: "?db = audit n ''user.update'' ''user'' k None m
      (db\<lparr>t_users := row_update k f (t_users db), user_roles := ur\<rparr>)"
    and act: "\<And>r. u_active (f r) = (case a of None \<Rightarrow> u_active r | Some b \<Rightarrow> b)"
    and links: "case rs of None \<Rightarrow> ur = user_roles db
       | Some rs' \<Rightarrow> link_all k rs' (ids (t_roles db)) (filter (\<lambda>(x, y). x \<noteq> k) (user_roles db)) = Some ur"
  show ?thesis
  proof (rule granted_mono [OF wf wf_update_user [OF wf] g])
    show "\<exists>r. map_of (t_users db) u = Some r \<and> u_active r"
      if "map_of (t_users ?db) u = Some r'" "u_active r'" for r'
      using that no act unfolding eq by (auto split: if_splits option.splits)
    show "(u, role) \<in> set (user_roles db)" if "(u, role) \<in> set (user_roles ?db)" for role
    proof (cases rs)
      case None
      then show ?thesis using that [unfolded eq] links by simp
    next
      case (Some rs')
      then have "k \<noteq> u" using no by simp
      then show ?thesis using that [unfolded eq] links Some by (auto dest!: link_all_set)
    qed
  qed (auto simp: eq)
qed

lemma no_gain_roles:
  assumes wf: "wf_auth db"
  shows "granted (snd (add_role_to_user n k r db)) u p \<Longrightarrow> k \<noteq> u \<Longrightarrow> granted db u p"
    and "granted (snd (remove_role_from_user n k r db)) u p \<Longrightarrow> granted db u p"
proof -
  have touch: "map_option u_active (map_of (t_users (touch_user n k db)) x) =
    map_option u_active (map_of (t_users db) x)" for x and db :: auth_db
    by (simp add: touch_user_def option.map_comp comp_def)
  have act: "map_of (t_users (touch_user n k db)) x = Some r' \<Longrightarrow> u_active r' \<Longrightarrow>
    \<exists>r. map_of (t_users db) x = Some r \<and> u_active r" for x r' and db :: auth_db
    using touch [where db = db and x = x] by (cases "map_of (t_users db) x") auto
  { assume g: "granted (snd (add_role_to_user n k r db)) u p" and k: "k \<noteq> u"
    let ?db = "snd (add_role_to_user n k r db)"
    have u: "map_of (t_users ?db) u = map_of (t_users db) u"
      using k by (simp add: add_role_to_user_def touch_user_def split: option.split)
    show "granted db u p"
    proof (rule granted_mono [OF wf wf_add_role [OF wf] g])
      show "(u, role) \<in> set (user_roles db)" if "(u, role) \<in> set (user_roles ?db)" for role
        using that k by (auto simp: add_role_to_user_def split: if_splits)
    qed (simp_all add: u, auto simp: add_role_to_user_def split: if_splits) }
  { assume g: "granted (snd (remove_role_from_user n k r db)) u p"
    show "granted db u p"
    proof (rule granted_mono [OF wf wf_remove_role [OF wf] g])
      fix r' assume "map_of (t_users (snd (remove_role_from_user n k r db))) u = Some r'" "u_active r'"
      then show "\<exists>r. map_of (t_users db) u = Some r \<and> u_active r"
        using act [of "db\<lparr>user_roles := filter (\<lambda>l. l \<noteq> (k, r)) (user_roles db)\<rparr>" u r']
        by (auto simp: remove_role_from_user_def split: if_splits)
    qed (auto simp: remove_role_from_user_def split: if_splits) }
qed

lemma no_gain_create_role:
  assumes wf: "wf_auth db" and g: "granted (snd (create_role n k nm d ps db)) u p"
  shows "granted db u p"
proof (rule granted_mono [OF wf wf_create_role [OF wf] g])
  let ?db = "snd (create_role n k nm d ps db)"
  fix role q assume u: "(u, role) \<in> set (user_roles db)" and q: "(role, q) \<in> set (role_perms ?db)"
  have "map_of (t_roles db) role \<noteq> None" using dangling_free(2) [OF wf u] .
  then show "(role, q) \<in> set (role_perms db)"
    using q by (auto simp: create_role_def Let_def split: option.splits if_splits dest!: link_all_set)
qed (auto simp: create_role_def Let_def split: option.splits if_splits)

lemma no_gain_update_role:
  assumes wf: "wf_auth db" and g: "granted (snd (update_role n k nm d None db)) u p"
  shows "granted db u p"
  by (rule granted_same [OF wf wf_update_role [OF wf] g])
     (auto simp: update_role_def Let_def split: option.split)

lemma no_gain_delete_user:
  assumes wf: "wf_auth db" and g: "granted (snd (delete_user n k db)) u p"
  shows "granted db u p"
  by (rule granted_mono [OF wf wf_delete_user [OF wf] g])
     (auto simp: delete_user_def split: option.splits if_splits)

lemma no_gain_delete_role:
  assumes wf: "wf_auth db" and g: "granted (snd (delete_role n k db)) u p"
  shows "granted db u p"
  by (rule granted_mono [OF wf wf_delete_role [OF wf] g])
     (auto simp: delete_role_def split: option.splits if_splits)

lemma no_gain_remove_permission:
  assumes wf: "wf_auth db" and g: "granted (snd (remove_permission_from_role n k q db)) u p"
  shows "granted db u p"
  by (rule granted_mono [OF wf wf_remove_permission [OF wf] g])
     (auto simp: remove_permission_from_role_def split: if_splits)

lemma no_gain_create_permission:
  assumes wf: "wf_auth db" and g: "granted (snd (create_permission n k nm d re ac db)) u p"
  shows "granted db u p"
proof (rule granted_mono [OF wf wf_create_permission [OF wf] g])
  let ?db = "snd (create_permission n k nm d re ac db)"
  fix role q pr
  assume l: "(role, q) \<in> set (role_perms db)" and pr: "map_of (t_perms ?db) q = Some pr" "pe_name pr = p"
  have "map_of (t_perms db) q \<noteq> None" using dangling_free(4) [OF wf l] .
  then show "\<exists>pr. map_of (t_perms db) q = Some pr \<and> pe_name pr = p"
    using pr by (auto simp: create_permission_def Let_def map_add_def split: if_splits option.splits)
qed (auto simp: create_permission_def Let_def split: if_splits)

lemma update_permission_frame [auth_frame]:
  "t_users (snd (update_permission n k nm d re ac db)) = t_users db"
  "user_roles (snd (update_permission n k nm d re ac db)) = user_roles db"
  "role_perms (snd (update_permission n k nm d re ac db)) = role_perms db"
  by (simp_all add: update_permission_def Let_def split: option.split)

lemma no_gain_update_permission:
  assumes wf: "wf_auth db" and g: "granted (snd (update_permission n k nm d re ac db)) u p"
    and nm: "nm \<noteq> Some p"
  shows "granted db u p"
proof (rule granted_mono [OF wf wf_update_permission [OF wf] g])
  let ?db = "snd (update_permission n k nm d re ac db)"
  fix role q pr
  assume pr: "map_of (t_perms ?db) q = Some pr" "pe_name pr = p"
  then show "\<exists>pr. map_of (t_perms db) q = Some pr \<and> pe_name pr = p"
    using nm by (cases nm) (auto simp: update_permission_def Let_def opt_name_def split: if_splits option.splits)
qed (simp_all add: update_permission_frame)

lemma no_gain_delete_permission:
  assumes wf: "wf_auth db" and g: "granted (snd (delete_permission n k db)) u p"
  shows "granted db u p"
  by (rule granted_mono [OF wf wf_delete_permission [OF wf] g])
     (auto simp: delete_permission_def split: option.splits if_splits)

lemma active_update [simp]:
  "(\<And>r. u_active (f r) = u_active r) \<Longrightarrow>
   map_option u_active (map_of (row_update x f t) k) = map_option u_active (map_of t k)"
  by (simp add: option.map_comp comp_def)

lemma no_gain_store_password:
  assumes wf: "wf_auth db" and g: "granted (store_password n k h a db) u p"
  shows "granted db u p"
  by (rule granted_same [OF wf wf_store_password [OF wf] g])
     (simp_all add: store_password_def option.map_comp comp_def)

lemma no_gain_login:
  assumes wf: "wf_auth db" and g: "granted (snd (authenticate cp n un pw db)) u p"
  shows "granted db u p"
  by (rule granted_same [OF wf wf_authenticate [OF wf] g])
     (auto simp: authenticate_def Let_def option.map_comp comp_def split: option.split)

lemma no_gain:
  assumes wf: "wf_auth db" and g: "granted (apply_op op db) u p" and no: "\<not> grants u p op"
  shows "granted db u p"
proof (cases op)
  case (ChangePassword cp n k old new)
  then show ?thesis
    using g no_gain_store_password [OF wf] by (simp add: change_password_def split: option.splits if_splits)
next
  case (SetPassword n k h)
  then show ?thesis
    using g no_gain_store_password [OF wf] by (simp add: set_password_def split: option.splits if_splits)
next
  case (UpdateUser n k un e rs a)
  then show ?thesis using g no no_gain_update_user [OF wf] by simp
next
  case (Login cp n un pw)
  then show ?thesis using g no_gain_login [OF wf] by simp
next
  case (UpdatePermission n k nm d re ac)
  then show ?thesis using g no no_gain_update_permission [OF wf] by simp
next
  case (UpdateRole n k nm d ps)
  then show ?thesis using g no no_gain_update_role [OF wf] by simp
qed (use g no in \<open>simp_all add: no_gain_create_user [OF wf] no_gain_delete_user [OF wf]
       no_gain_roles [OF wf] no_gain_create_role [OF wf] no_gain_delete_role [OF wf]
       no_gain_remove_permission [OF wf] no_gain_create_permission [OF wf]
       no_gain_delete_permission [OF wf]\<close>)

lemma no_gain_run:
  assumes "wf_auth db" "granted (fold apply_op ops db) u p" "\<forall>op\<in>set ops. \<not> grants u p op"
  shows "granted db u p"
  using assms
proof (induction ops arbitrary: db)
  case Nil
  then show ?case by simp
next
  case (Cons op ops)
  then have "granted (apply_op op db) u p" by (simp add: wf_apply_op)
  then show ?case using Cons.prems no_gain by simp
qed

text \<open>A database used by the witnesses: an admin and an operator with one permission each.\<close>

definition demo_ops :: "auth_op list" where
  "demo_ops =
    [CreatePermission ''t0'' ''p1'' ''executions.run'' '''' ''executions'' ''run'',
     CreatePermission ''t0'' ''p2'' ''users.write'' '''' ''users'' ''write'',
     CreateRole ''t0'' ''r1'' ''operator'' '''' [''p1''],
     CreateRole ''t0'' ''r2'' ''admin'' '''' [''p1'', ''p2''],
     CreateUser ''t0'' ''u1'' ''h-ann'' ''ann'' None [''r2''],
     CreateUser ''t0'' ''u2'' ''h-bob'' ''bob'' None [''r1'']]"

definition demo_auth :: auth_db where
  "demo_auth = fold apply_op demo_ops empty_auth"

definition demo_checkpw :: "string \<Rightarrow> string \<Rightarrow> bool" where
  "demo_checkpw pw h = (h = ''h-'' @ pw)"

lemma wf_demo_auth: "wf_auth demo_auth"
  unfolding demo_auth_def by (intro wf_apply_ops wf_auth_empty)

lemma demo_users:
  "map_of (t_users demo_auth) ''u2'' = Some \<lparr>u_name = ''bob'', u_email = None, u_hash = ''h-bob'',
     u_active = True, u_created = ''t0'', u_updated = ''t0'', u_last = None, u_disabled = None\<rparr>"
  by code_simp

lemma demo_permissions:
  "has_permission ''u2'' ''executions.run'' demo_auth" "\<not> has_permission ''u2'' ''users.write'' demo_auth"
  by code_simp+

text \<open>C5: No privilege escalation. A user who lacks a permission still lacks it after any sequence
  of service calls, unless one of them creates that user, assigns the user roles, reactivates
  the user, changes the permissions of a role, or renames a permission to that name. Creating
  or deleting roles and permissions, editing other users, logins and password changes give
  nothing: a created role or permission has no links yet, because deletions cascade.
\<close>
theorem no_escalation:
  assumes "\<not> has_permission u p (fold apply_op ops empty_auth)"
    and "\<forall>op\<in>set later. \<not> grants u p op"
  shows "\<not> has_permission u p (fold apply_op later (fold apply_op ops empty_auth))"
proof -
  have wf: "wf_auth (fold apply_op ops empty_auth)" by (intro wf_apply_ops wf_auth_empty)
  show ?thesis
    using assms no_gain_run [OF wf]
    unfolding has_permission_granted [OF wf] has_permission_granted [OF wf_apply_ops [OF wf]] by blast
qed

theorem no_escalation_witness:
  "\<not> has_permission ''u2'' ''users.write''
      (fold apply_op [RemoveRole ''t1'' ''u2'' ''r1'', CreateRole ''t2'' ''r3'' ''ops'' '''' [''p2''],
                      AddRole ''t3'' ''u1'' ''r3'', DeleteRole ''t4'' ''r1'']
        (fold apply_op demo_ops empty_auth))"
  by (rule no_escalation) (use demo_permissions in \<open>simp_all add: demo_auth_def\<close>)

subsection \<open>Deactivation\<close>

fun reactivates :: "string \<Rightarrow> auth_op \<Rightarrow> bool" where
  "reactivates u (CreateUser n k h un e rs) = (k = u)"
| "reactivates u (UpdateUser n k un e rs a) = (k = u \<and> a = Some True)"
| "reactivates u _ = False"

definition locked :: "string \<Rightarrow> auth_db \<Rightarrow> bool" where
  "locked u db = (case map_of (t_users db) u of None \<Rightarrow> True | Some r \<Rightarrow> \<not> u_active r)"

lemma locked_same:
  "map_option u_active (map_of (t_users db') u) = map_option u_active (map_of (t_users db) u) \<Longrightarrow>
   locked u db' = locked u db"
  by (auto simp: locked_def split: option.splits)

lemma locked_users_only: "t_users db' = t_users db \<Longrightarrow> locked u db' = locked u db"
  by (simp add: locked_def)

lemma locked_update_user:
  assumes "locked u db" "\<not> (k = u \<and> a = Some True)"
  shows "locked u (snd (update_user n k un e rs a db))"
proof (rule update_user_cases [where n = n and k = k and u = un and e = e and rs = rs and a = a and db = db])
  fix f :: "user_row \<Rightarrow> user_row" and ur m row
  assume eq: "snd (update_user n k un e rs a db) = audit n ''user.update'' ''user'' k None m
      (db\<lparr>t_users := row_update k f (t_users db), user_roles := ur\<rparr>)"
    and act: "\<And>r. u_active (f r) = (case a of None \<Rightarrow> u_active r | Some b \<Rightarrow> b)"
  show ?thesis
    using assms act unfolding eq by (auto simp: locked_def split: option.splits)
qed (use assms in simp)

lemma locked_other_ops:
  "locked u (store_password n k h a db) = locked u db"
  "locked u (snd (authenticate cp n un pw db)) = locked u db"
  "locked u (snd (add_role_to_user n k r db)) = locked u db"
  "locked u (snd (remove_role_from_user n k r db)) = locked u db"
proof -
  show "locked u (store_password n k h a db) = locked u db"
    by (rule locked_same) (simp add: store_password_def option.map_comp comp_def)
  show "locked u (snd (authenticate cp n un pw db)) = locked u db"
    by (rule locked_same)
       (auto simp: authenticate_def Let_def option.map_comp comp_def split: option.split)
  show "locked u (snd (add_role_to_user n k r db)) = locked u db"
    by (rule locked_same)
       (auto simp: add_role_to_user_def touch_user_def option.map_comp comp_def split: option.split)
  show "locked u (snd (remove_role_from_user n k r db)) = locked u db"
    by (rule locked_same)
       (auto simp: remove_role_from_user_def touch_user_def option.map_comp comp_def)
qed

lemma locked_table_ops:
  "locked u (snd (create_role n k rn rd ps db)) = locked u db"
  "locked u (snd (update_role n k rn' rd' ps' db)) = locked u db"
  "locked u (snd (delete_role n k db)) = locked u db"
  "locked u (snd (add_permission_to_role n k q db)) = locked u db"
  "locked u (snd (remove_permission_from_role n k q db)) = locked u db"
  "locked u (snd (create_permission n k nm d re ac db)) = locked u db"
  "locked u (snd (update_permission n k nm' d' re' ac' db)) = locked u db"
  "locked u (snd (delete_permission n k db)) = locked u db"
  by (rule locked_users_only,
      simp add: create_role_def update_role_def delete_role_def add_permission_to_role_def
        remove_permission_from_role_def create_permission_def update_permission_frame
        delete_permission_def Let_def split: option.split)+

lemma locked_apply_op: "locked u db \<Longrightarrow> \<not> reactivates u op \<Longrightarrow> locked u (apply_op op db)"
proof (cases op)
  case (CreateUser n k h un e rs)
  assume "locked u db" "\<not> reactivates u op"
  then show ?thesis using CreateUser
    by (auto simp: locked_def create_user_def Let_def map_add_def split: option.splits)
next
  case (DeleteUser n k)
  assume "locked u db"
  then show ?thesis using DeleteUser
    by (auto simp: locked_def delete_user_def split: option.splits)
next
  case (ChangePassword cp n k old new)
  assume "locked u db"
  then show ?thesis using ChangePassword
    by (simp add: change_password_def locked_other_ops split: option.split)
next
  case (SetPassword n k h)
  assume "locked u db"
  then show ?thesis using SetPassword
    by (simp add: set_password_def locked_other_ops split: option.split)
qed (simp_all add: locked_update_user locked_other_ops locked_table_ops)

lemma locked_run:
  "locked u db \<Longrightarrow> \<forall>op\<in>set ops. \<not> reactivates u op \<Longrightarrow> locked u (fold apply_op ops db)"
  by (induction ops arbitrary: db) (simp_all add: locked_apply_op)


lemma locked_no_access:
  assumes "locked u db"
  shows "get_user_permissions u db = []" "get_user_roles u db = []"
  using assms
  by (auto simp: locked_def get_user_permissions_def get_user_roles_def get_user_by_id_def
      row_to_user_def split: option.splits)

lemma get_user_by_username_iff:
  assumes "wf_auth db"
  shows "get_user_by_username n db = Some us \<longleftrightarrow>
    (\<exists>r. map_of (t_users db) (us_id us) = Some r \<and> u_name r = n \<and> us = row_to_user db (us_id us, r))"
proof -
  have "find (\<lambda>(k, r). u_name r = n) (t_users db) = Some (k, r) \<longleftrightarrow>
    map_of (t_users db) k = Some r \<and> u_name r = n" for k r
    by (rule find_row_iff [OF wf_authD(1) [OF assms]])
  then show ?thesis
    by (fastforce simp: get_user_by_username_def row_to_user_def)
qed

lemma us_id_row_to_user [simp]: "us_id (row_to_user db (k, r)) = k"
  by (simp add: row_to_user_def)

lemma authenticate_user_iff:
  assumes "wf_auth db"
  shows "(\<exists>us. fst (authenticate cp n name pw db) = Some us \<and> us_id us = k) \<longleftrightarrow>
    (\<exists>r. map_of (t_users db) k = Some r \<and> u_name r = name \<and> u_active r \<and> cp pw (u_hash r))"
proof (cases "get_user_by_username name db")
  case None
  then have "\<not> (\<exists>us. get_user_by_username name db = Some us)" by simp
  then have no: "\<not> (map_of (t_users db) k = Some r \<and> u_name r = name)" for r
    unfolding get_user_by_username_iff [OF assms]
    by (metis us_id_row_to_user)
  show ?thesis using None no by (auto simp: authenticate_def)
next
  case (Some us)
  then obtain r where r: "map_of (t_users db) (us_id us) = Some r" "u_name r = name"
      "us = row_to_user db (us_id us, r)"
    unfolding get_user_by_username_iff [OF assms] by blast
  have row: "us_row us = r" by (subst r(3)) (simp add: row_to_user_def)
  have unique: "map_of (t_users db) k = Some r' \<Longrightarrow> u_name r' = name \<Longrightarrow> k = us_id us \<and> r' = r" for k r'
    using find_row_iff [OF wf_authD(1) [OF assms], of name] r(1,2) by (metis option.inject prod.inject)
  have "(\<exists>x. fst (authenticate cp n name pw db) = Some x \<and> us_id x = k) \<longleftrightarrow>
      u_active r \<and> cp pw (u_hash r) \<and> us_id us = k"
    using Some row by (simp add: authenticate_def Let_def)
  also have "\<dots> \<longleftrightarrow> (\<exists>r. map_of (t_users db) k = Some r \<and> u_name r = name \<and> u_active r \<and> cp pw (u_hash r))"
    using r(1,2) unique by metis
  finally show ?thesis .
qed

text \<open>A deactivated account stays locked out. Once \<open>update_user\<close> has stored \<open>is_active = False\<close>,
  then after any further service calls among which none reactivates the account, its permission
  and role lists are empty and no login, with any password, returns it: changing its
  password, its roles or its name does not let it back in.
\<close>
theorem deactivated_locked_out:
  fixes ops later :: "auth_op list"
  assumes "fst (update_user now u name email roles (Some False) (fold apply_op ops empty_auth)) = Inr (Some us)"
    and "\<forall>op\<in>set later. \<not> reactivates u op"
  defines "db \<equiv> fold apply_op later
      (snd (update_user now u name email roles (Some False) (fold apply_op ops empty_auth)))"
  shows "get_user_permissions u db = [] \<and> get_user_roles u db = [] \<and>
    (\<forall>us. fst (authenticate checkpw t login_name pw db) = Some us \<longrightarrow> us_id us \<noteq> u)"
proof -
  let ?db0 = "fold apply_op ops empty_auth"
  let ?db1 = "snd (update_user now u name email roles (Some False) ?db0)"
  have wf: "wf_auth db" unfolding db_def by (intro wf_apply_ops wf_update_user wf_auth_empty)
  have "locked u ?db1"
    using assms(1)
    by (auto simp: update_user_def Let_def locked_def split: option.splits if_splits)
  then have l: "locked u db" unfolding db_def using assms(2) by (rule locked_run)
  have "us_id us \<noteq> u" if "fst (authenticate checkpw t login_name pw db) = Some us" for us
    using that authenticate_user_iff [OF wf, of checkpw t login_name pw u] l
    by (auto simp: locked_def split: option.splits)
  with locked_no_access [OF l] show ?thesis by blast
qed

definition demo_off :: auth_db where
  "demo_off = snd (update_user ''t1'' ''u2'' None None None (Some False) (fold apply_op demo_ops empty_auth))"

lemma demo_off_ok:
  "is_ok (fst (update_user ''t1'' ''u2'' None None None (Some False) (fold apply_op demo_ops empty_auth)))"
  "fst (update_user ''t1'' ''u2'' None None None (Some False) (fold apply_op demo_ops empty_auth))
     = Inr (get_user_by_id ''u2'' demo_off)"
  "get_user_by_id ''u2'' demo_off \<noteq> None"
  by code_simp+

theorem deactivated_locked_out_witness:
  "get_user_permissions ''u2''
     (fold apply_op [AddRole ''t2'' ''u2'' ''r2'', SetPassword ''t3'' ''u2'' ''h-new''] demo_off) = []"
proof -
  obtain us where "get_user_by_id ''u2'' demo_off = Some us" using demo_off_ok(3) by blast
  then show ?thesis
    using deactivated_locked_out [of "''t1''" "''u2''" None None None demo_ops us
        "[AddRole ''t2'' ''u2'' ''r2'', SetPassword ''t3'' ''u2'' ''h-new'']"] demo_off_ok(2)
    by (simp add: demo_off_def)
qed

subsection \<open>Logins and passwords\<close>

text \<open>A login succeeds exactly for the right account. In every database the service calls can
  produce, \<open>authenticate\<close> returns a user with id \<open>k\<close> exactly when the row \<open>k\<close> has that
  username, is active and its hash accepts the password; in every case where the name exists
  one audit row is appended, and it names the outcome.
\<close>
theorem login_iff:
  fixes ops :: "auth_op list"
  defines "db \<equiv> fold apply_op ops empty_auth"
  shows "(\<exists>us. fst (authenticate checkpw now name pw db) = Some us \<and> us_id us = k) =
    (\<exists>r. map_of (t_users db) k = Some r \<and> u_name r = name \<and> u_active r \<and> checkpw pw (u_hash r)) \<and>
    map a_action (audit_log (snd (authenticate checkpw now name pw db))) =
      map a_action (audit_log db) @
      (case get_user_by_username name db of
         None \<Rightarrow> []
       | Some us \<Rightarrow> if \<not> u_active (us_row us) then [''user.login_denied_inactive'']
                    else if checkpw pw (u_hash (us_row us)) then [''user.login''] else [''user.login_failed''])"
proof -
  have "wf_auth db" unfolding db_def by (intro wf_apply_ops wf_auth_empty)
  note authenticate_user_iff [OF this, of checkpw now name pw k]
  moreover have "map a_action (audit_log (snd (authenticate checkpw now name pw db))) =
      map a_action (audit_log db) @
      (case get_user_by_username name db of
         None \<Rightarrow> []
       | Some us \<Rightarrow> if \<not> u_active (us_row us) then [''user.login_denied_inactive'']
                    else if checkpw pw (u_hash (us_row us)) then [''user.login''] else [''user.login_failed''])"
    by (auto simp: authenticate_def Let_def audit_def split: option.split)
  ultimately show ?thesis by blast
qed

text \<open>Changing a password replaces it. When \<open>change_password\<close> accepts the old password, the
  login of that active account afterwards succeeds with a password exactly when the new hash
  accepts it; a wrong old password changes nothing. (The hash comparison is a parameter.)
\<close>
theorem password_change_replaces:
  fixes ops :: "auth_op list"
  defines "db \<equiv> fold apply_op ops empty_auth"
  assumes row: "map_of (t_users db) k = Some r" and act: "u_active r"
  shows "fst (change_password checkpw now k old new_hash db) = checkpw old (u_hash r) \<and>
    (if checkpw old (u_hash r)
     then (\<exists>us. fst (authenticate checkpw t (u_name r) pw (snd (change_password checkpw now k old new_hash db)))
             = Some us \<and> us_id us = k) = checkpw pw new_hash
     else snd (change_password checkpw now k old new_hash db) = db)"
proof -
  have wf: "wf_auth db" unfolding db_def by (intro wf_apply_ops wf_auth_empty)
  show ?thesis
  proof (cases "checkpw old (u_hash r)")
    case False
    then show ?thesis using row by (simp add: change_password_def)
  next
    case True
    then have eq: "change_password checkpw now k old new_hash db =
        (True, store_password now k new_hash ''user.password_change'' db)"
      using row by (simp add: change_password_def)
    have "(\<exists>us. fst (authenticate checkpw t (u_name r) pw
        (store_password now k new_hash ''user.password_change'' db)) = Some us \<and> us_id us = k) =
      checkpw pw new_hash"
      unfolding authenticate_user_iff [OF wf_store_password [OF wf]]
      using row act by (simp add: store_password_def)
    then show ?thesis using True by (simp add: eq)
  qed
qed

theorem password_change_replaces_witness:
  "(\<exists>us. fst (authenticate demo_checkpw ''t2'' ''bob'' ''new''
      (snd (change_password demo_checkpw ''t1'' ''u2'' ''bob'' ''h-new'' (fold apply_op demo_ops empty_auth))))
      = Some us \<and> us_id us = ''u2'')"
  using password_change_replaces [OF demo_users [unfolded demo_auth_def], of demo_checkpw "''t1''" "''bob''" "''h-new''" "''t2''" "''new''"]
  by (simp add: demo_checkpw_def)

end
