(* ===== verification/TokensProps.thy ===== *)
theory TokensProps
  imports Tokens
begin

section \<open>Properties of API tokens and session tokens\<close>

text \<open>
  The token file is an authenticator (\<open>api\<close>): \<open>verify_api_token\<close> answers for the live entries
  that accept the token. A revoked token never works again; what a rotation does to the expiry
  is stated exactly. A session token that was logged out stays rejected as long as its entry
  is on the blacklist, and the theorems say how long that is.
\<close>

named_theorems token_simps "the result of a token operation on the entries of the file"

abbreviation entries :: "token_file \<Rightarrow> api_token list" where
  "entries f \<equiv> ti_tokens (load_index f)"

lemma load_Tokens [simp]: "load_index (Tokens ti) = ti"
  by (simp add: load_index_def)

lemma touch_first_none: "find P ts = None \<Longrightarrow> touch_first P g ts = ts"
  by (induction ts) (auto split: if_splits)

lemma set_touch_first:
  "t \<in> set (touch_first P g ts) \<Longrightarrow> t \<in> set ts \<or> (\<exists>u\<in>set ts. P u \<and> t = g u)"
  by (induction ts) (auto split: if_splits)

lemma map_touch_first: "(\<And>t. h (g t) = h t) \<Longrightarrow> map h (touch_first P g ts) = map h ts"
  by (induction ts) auto

lemma find_SomeD: "find P xs = Some x \<Longrightarrow> x \<in> set xs \<and> P x"
  by (induction xs) (auto split: if_splits)

lemma touch_first_find:
  "find P ts = Some t \<Longrightarrow> \<exists>us vs. ts = us @ t # vs \<and> P t \<and> touch_first P g ts = us @ g t # vs"
proof (induction ts)
  case (Cons a ts)
  show ?case
  proof (cases "P a")
    case True
    then have "a # ts = [] @ t # ts \<and> P t \<and> touch_first P g (a # ts) = [] @ g t # ts"
      using Cons.prems by simp
    then show ?thesis by blast
  next
    case False
    then obtain us vs where "ts = us @ t # vs" "P t" and tail: "touch_first P g ts = us @ g t # vs"
      using Cons by auto
    moreover have "touch_first P g (a # ts) = (a # us) @ g t # vs" using False tail by simp
    ultimately show ?thesis by (metis append_Cons)
  qed
qed simp

lemma entries_save [token_simps]:
  "entries (snd (save_index w ti f)) = (if w then ti_tokens ti else entries f)"
  by (simp add: save_index_def)

lemma entries_create [token_simps]:
  "entries (snd (create_token sha w now i p s u un nm sc pr d f)) =
    (if w then entries f @ [new_token sha now i p s u un nm sc pr d] else entries f)"
  by (simp add: create_token_def save_index_def Let_def)

lemma entries_verify [token_simps]:
  "entries (snd (verify_api_token sha w now tok f)) =
    (if w then touch_first (\<lambda>t. token_live now t \<and> token_accepts sha tok t) (\<lambda>t. t\<lparr>tk_used := Some now\<rparr>) (entries f)
     else entries f)"
  by (auto simp: verify_api_token_def entries_save Let_def touch_first_none split: option.split)

lemma entries_revoke [token_simps]:
  "entries (snd (revoke_token w i u f)) =
    (if w then touch_first (\<lambda>t. tk_id t = i \<and> tk_user t = u) (tk_revoked_update (\<lambda>_. True)) (entries f)
     else entries f)"
  by (auto simp: revoke_token_def entries_save Let_def touch_first_none)

lemma entries_delete [token_simps]:
  "entries (snd (delete_token w i u f)) =
    (if w then filter (\<lambda>t. \<not> (tk_id t = i \<and> tk_user t = u)) (entries f) else entries f)"
proof -
  have "xs = filter P xs" if "length (filter P xs) = length xs" for P and xs :: "api_token list"
    using that by (metis filter_id_conv length_filter_less less_irrefl)
  from this [of "\<lambda>t. \<not> (tk_id t = i \<and> tk_user t = u)" "entries f"]
  show ?thesis by (auto simp: delete_token_def entries_save Let_def simp del: de_Morgan_conj)
qed

lemma entries_rotate [token_simps]:
  "entries (snd (rotate_token sha w now i p s old u f)) =
    (case find (\<lambda>t. tk_id t = old \<and> tk_user t = u \<and> \<not> tk_revoked t) (entries f) of
       None \<Rightarrow> entries f
     | Some t \<Rightarrow>
         if \<not> w then entries f
         else touch_first (\<lambda>t. tk_id t = old \<and> tk_user t = u \<and> \<not> tk_revoked t)
                (tk_revoked_update (\<lambda>_. True)) (entries f) @
              [new_token sha now i p s u (tk_username t) (tk_name t) (tk_scope t) (tk_project t)
                 (case tk_expires t of None \<Rightarrow> None
                  | Some e \<Rightarrow> if e \<noteq> 0 \<and> now < e then Some (py_int ((e - now) / 86400)) else None)])"
  by (simp add: rotate_token_def Let_def create_token_def save_index_def split: option.split)

subsection \<open>Authentication\<close>

definition api_holds :: "(string \<Rightarrow> string) \<Rightarrow> real \<Rightarrow> token_file \<Rightarrow> string \<Rightarrow> string \<Rightarrow> bool" where
  "api_holds sha now f u tok =
    (\<exists>t\<in>set (entries f). token_live now t \<and> token_accepts sha tok t \<and> tk_user t = u)"

definition api_user :: "(string \<Rightarrow> string) \<Rightarrow> bool \<Rightarrow> real \<Rightarrow> token_file \<Rightarrow> string \<Rightarrow> string option" where
  "api_user sha w now f tok = map_option fst (fst (verify_api_token sha w now tok f))"

lemma api_user_find:
  "api_user sha w now f tok =
    map_option tk_user (find (\<lambda>t. token_live now t \<and> token_accepts sha tok t) (entries f))"
  by (simp add: api_user_def verify_api_token_def Let_def split: option.split)

interpretation api: authenticator "\<lambda>f. True" "api_holds sha now" "api_user sha w now" for sha now w
proof unfold_locales
  fix f t i
  assume "api_user sha w now f t = Some i"
  then show "api_holds sha now f i t"
    by (auto simp: api_user_find api_holds_def dest!: find_SomeD)
next
  fix f i t
  assume "api_holds sha now f i t"
  then show "api_user sha w now f t \<noteq> None"
    by (auto simp: api_user_find api_holds_def find_None_iff)
qed

subsection \<open>Revocation\<close>

datatype token_op =
    TCreate bool real string string string string string string string "string option" "int option"
  | TVerify bool real string
  | TRevoke bool string string
  | TRotate bool real string string string string string
  | TDelete bool string string

fun apply_token_op :: "(string \<Rightarrow> string) \<Rightarrow> token_op \<Rightarrow> token_file \<Rightarrow> token_file" where
  "apply_token_op sha (TCreate w now i p s u un nm sc pr d) f =
    snd (create_token sha w now i p s u un nm sc pr d f)"
| "apply_token_op sha (TVerify w now tok) f = snd (verify_api_token sha w now tok f)"
| "apply_token_op sha (TRevoke w i u) f = snd (revoke_token w i u f)"
| "apply_token_op sha (TRotate w now i p s old u) f = snd (rotate_token sha w now i p s old u f)"
| "apply_token_op sha (TDelete w i u) f = snd (delete_token w i u f)"

fun makes :: "(string \<Rightarrow> string) \<Rightarrow> string \<Rightarrow> token_op \<Rightarrow> bool" where
  \<comment> \<open>the operation stores an entry that accepts the token\<close>
  "makes sha tok (TCreate w now i p s u un nm sc pr d) = (hash_token sha tok s = hash_token sha p s)"
| "makes sha tok (TRotate w now i p s old u) = (hash_token sha tok s = hash_token sha p s)"
| "makes sha tok _ = False"

definition dead_token :: "(string \<Rightarrow> string) \<Rightarrow> string \<Rightarrow> token_file \<Rightarrow> bool" where
  "dead_token sha tok f = (\<forall>t\<in>set (entries f). token_accepts sha tok t \<longrightarrow> tk_revoked t)"

lemma dead_not_verified:
  assumes "dead_token sha tok f"
  shows "fst (verify_api_token sha w now tok f) = None"
proof -
  have "api_user sha w now f tok = None"
    using assms by (intro api.auth_revoked) (auto simp: dead_token_def api_holds_def token_live_def)
  then show ?thesis by (simp add: api_user_def)
qed

lemma accepts_new:
  "token_accepts sha tok (new_token sha now i p s u un nm sc pr d) \<Longrightarrow> hash_token sha tok s = hash_token sha p s"
  by (simp add: token_accepts_def new_token_def)

lemma accepts_used [simp]: "token_accepts sha tok (t\<lparr>tk_used := x\<rparr>) = token_accepts sha tok t"
  by (simp add: token_accepts_def)

lemma accepts_revoked [simp]: "token_accepts sha tok (tk_revoked_update g t) = token_accepts sha tok t"
  by (simp add: token_accepts_def)

lemma dead_apply:
  assumes "dead_token sha tok f" "\<not> makes sha tok op"
  shows "dead_token sha tok (apply_token_op sha op f)"
proof (cases op)
  case (TCreate w now i p s u un nm sc pr d)
  then show ?thesis using assms
    by (auto simp: dead_token_def token_simps dest: accepts_new split: if_splits)
next
  case (TVerify w now t)
  then show ?thesis using assms
    by (auto simp: dead_token_def token_simps dest!: set_touch_first split: if_splits)
next
  case (TRevoke w i u)
  then show ?thesis using assms
    by (auto simp: dead_token_def token_simps dest!: set_touch_first split: if_splits)
next
  case (TRotate w now i p s old u)
  then show ?thesis using assms
    by (auto simp: dead_token_def token_simps dest!: set_touch_first dest: accepts_new
        split: if_splits option.splits)
next
  case (TDelete w i u)
  then show ?thesis using assms by (auto simp: dead_token_def token_simps split: if_splits)
qed

lemma dead_run:
  "dead_token sha tok f \<Longrightarrow> \<forall>op\<in>set ops. \<not> makes sha tok op \<Longrightarrow> dead_token sha tok (fold (apply_token_op sha) ops f)"
  by (induction ops arbitrary: f) (simp_all add: dead_apply)

definition demo_tokens :: token_file where
  "demo_tokens = fold (apply_token_op (Cons CHR ''#''))
     [TCreate True 0 ''t1'' ''aaa'' ''s1'' ''u1'' ''ann'' ''ci'' ''global'' None (Some 2),
      TCreate True 0 ''t2'' ''bbb'' ''s2'' ''u2'' ''bob'' ''ci'' ''global'' None None] NoTokens"

text \<open>C10: A revoked API token is dead for good. When \<open>revoke_token\<close> reports success for the one
  entry that accepts a token, no verification at any later time accepts it, whatever creations,
  rotations, deletions, revocations and verifications happen in between, as long as none of
  them happens to store the hash of that token again.\<close>
theorem revoked_token_dead:
  assumes "fst (revoke_token w i u f) = True"
    and "\<forall>t\<in>set (ti_tokens (load_index f)). token_accepts sha tok t \<longrightarrow> tk_id t = i \<and> tk_user t = u"
    and "distinct (map tk_id (ti_tokens (load_index f)))"
    and "\<forall>op\<in>set ops. \<not> makes sha tok op"
  shows "fst (verify_api_token sha w' now tok (fold (apply_token_op sha) ops (snd (revoke_token w i u f)))) = None"
proof (intro dead_not_verified dead_run assms(4))
  let ?P = "\<lambda>t. tk_id t = i \<and> tk_user t = u"
  obtain t where t: "find ?P (entries f) = Some t" and w
    using assms(1) by (auto simp: revoke_token_def Let_def save_index_def split: if_splits)
  obtain us vs where split: "entries f = us @ t # vs" "?P t"
      "touch_first ?P (tk_revoked_update (\<lambda>_. True)) (entries f) = us @ tk_revoked_update (\<lambda>_. True) t # vs"
    using touch_first_find [OF t] by blast
  have "tk_id x \<noteq> i" if "x \<in> set us \<union> set vs" for x
    using assms(3) that split(1,2) by (auto simp: image_iff)
  then have "\<not> token_accepts sha tok x" if "x \<in> set us \<union> set vs" for x
    using assms(2) that split(1) by auto
  moreover have "entries (snd (revoke_token w i u f)) = us @ tk_revoked_update (\<lambda>_. True) t # vs"
    using \<open>w\<close> by (simp add: entries_revoke split(3))
  ultimately show "dead_token sha tok (snd (revoke_token w i u f))"
    by (auto simp: dead_token_def)
qed

theorem revoked_token_dead_witness:
  "fst (verify_api_token (Cons CHR ''#'') True 9 ''aaa''
     (fold (apply_token_op (Cons CHR ''#''))
        [TVerify True 5 ''aaa'', TRotate True 6 ''t3'' ''ccc'' ''s3'' ''t1'' ''u1'', TDelete True ''t2'' ''u2'']
        (snd (revoke_token True ''t1'' ''u1'' demo_tokens)))) = None"
proof (rule revoked_token_dead)
  show "fst (revoke_token True ''t1'' ''u1'' demo_tokens) = True" by code_simp
  show "\<forall>t\<in>set (ti_tokens (load_index demo_tokens)).
      token_accepts (Cons CHR ''#'') ''aaa'' t \<longrightarrow> tk_id t = ''t1'' \<and> tk_user t = ''u1''" by code_simp
  show "distinct (map tk_id (ti_tokens (load_index demo_tokens)))" by code_simp
qed (simp add: hash_token_def)

subsection \<open>Rotation\<close>

lemma rotation_entry:
  assumes "find (\<lambda>t. tk_id t = old \<and> tk_user t = u \<and> \<not> tk_revoked t) (entries f) = Some t"
  shows "entries (snd (rotate_token sha True now i p s old u f)) =
    touch_first (\<lambda>t. tk_id t = old \<and> tk_user t = u \<and> \<not> tk_revoked t) (tk_revoked_update (\<lambda>_. True)) (entries f) @
    [new_token sha now i p s u (tk_username t) (tk_name t) (tk_scope t) (tk_project t)
       (case tk_expires t of None \<Rightarrow> None
        | Some e \<Rightarrow> if e \<noteq> 0 \<and> now < e then Some (py_int ((e - now) / 86400)) else None)]"
  using assms by (simp add: entries_rotate)

lemma rotation_expiry:
  assumes "0 < e"
  shows "tk_expires (new_token sha now i p s u un nm sc pr
      (if e \<noteq> 0 \<and> now < e then Some (py_int ((e - now) / 86400)) else None)) =
    (if now + 86400 \<le> e then Some (now + real_of_int \<lfloor>(e - now) / 86400\<rfloor> * 86400) else None)"
proof -
  have "0 < \<lfloor>(e - now) / 86400\<rfloor> \<longleftrightarrow> now + 86400 \<le> e"
    by (simp add: less_floor_iff field_simps)
  then show ?thesis using assms by (auto simp: new_token_def py_int_def field_simps)
qed

lemma rotation_within_old_expiry:
  fixes now e :: real
  shows "now + real_of_int \<lfloor>(e - now) / 86400\<rfloor> * 86400 \<le> e"
  using of_int_floor_le [of "(e - now) / 86400"] by (simp add: field_simps)

text \<open>Rotating a token that has less than a day left, or that has expired already, makes a
  token that never expires. The days left are truncated to 0 (or dropped), and
  \<open>create_token\<close> reads 0 as no expiry: the new token is accepted at every later time, as its
  owner. (A token with a day or more left keeps a whole number of days within its old expiry.)\<close>
theorem rotation_drops_expiry:
  assumes "find (\<lambda>t. tk_id t = old \<and> tk_user t = u \<and> \<not> tk_revoked t) (ti_tokens (load_index f)) = Some t"
    and "tk_expires t = Some e" and "0 < e" and "e < now + 86400"
    and "s \<noteq> []" and "hash_token sha p s \<noteq> []"
    and "\<forall>x\<in>set (ti_tokens (load_index f)). \<not> token_accepts sha p x"
  shows "map_option fst (fst (verify_api_token sha w later p (snd (rotate_token sha True now i p s old u f)))) = Some u"
proof -
  let ?f = "snd (rotate_token sha True now i p s old u f)"
  let ?touched = "touch_first (\<lambda>t. tk_id t = old \<and> tk_user t = u \<and> \<not> tk_revoked t)
      (tk_revoked_update (\<lambda>_. True)) (entries f)"
  let ?new = "new_token sha now i p s u (tk_username t) (tk_name t) (tk_scope t) (tk_project t)
       (if e \<noteq> 0 \<and> now < e then Some (py_int ((e - now) / 86400)) else None)"
  have eq: "entries ?f = ?touched @ [?new]"
    using rotation_entry [OF assms(1)] assms(2) by simp
  have none: "\<forall>x\<in>set ?touched. \<not> token_accepts sha p x"
    using assms(7) by (auto dest!: set_touch_first)
  have "tk_expires ?new = None" using rotation_expiry [OF assms(3)] assms(4) by simp
  then have "token_live later ?new" by (simp add: token_live_def) (simp add: new_token_def)
  moreover have "token_accepts sha p ?new"
    using assms(5,6) by (simp add: token_accepts_def new_token_def)
  moreover have "tk_user ?new = u" by (simp add: new_token_def)
  ultimately have "api_holds sha later ?f u p" unfolding api_holds_def eq by auto
  moreover have "j = u" if "api_holds sha later ?f j p" for j
    using that none \<open>tk_user ?new = u\<close> unfolding api_holds_def eq by auto
  ultimately have "api_user sha w later ?f p = Some u" by (simp add: api.auth_iff)
  then show ?thesis by (simp add: api_user_def)
qed

theorem rotation_drops_expiry_witness:
  "map_option fst (fst (verify_api_token (Cons CHR ''#'') True 999999999 ''ccc''
     (snd (rotate_token (Cons CHR ''#'') True 100000 ''t3'' ''ccc'' ''s3'' ''t1'' ''u1'' demo_tokens)))) = Some ''u1''"
proof -
  let ?t = "\<lparr>tk_id = ''t1'', tk_name = ''ci'', tk_scope = ''global'', tk_project = None, tk_user = ''u1'',
      tk_username = ''ann'', tk_hash = ''#aaas1'', tk_salt = ''s1'', tk_created = 0, tk_used = None,
      tk_expires = Some 172800, tk_revoked = False\<rparr>"
  have f: "find (\<lambda>t. tk_id t = ''t1'' \<and> tk_user t = ''u1'' \<and> \<not> tk_revoked t) (ti_tokens (load_index demo_tokens)) = Some ?t"
    by (simp add: demo_tokens_def create_token_def new_token_def save_index_def load_index_def hash_token_def)
  have n: "\<forall>x\<in>set (ti_tokens (load_index demo_tokens)). \<not> token_accepts (Cons CHR ''#'') ''ccc'' x"
    by (simp add: demo_tokens_def create_token_def new_token_def save_index_def load_index_def hash_token_def
        token_accepts_def)
  show ?thesis by (rule rotation_drops_expiry [OF f _ _ _ _ _ n, of 172800]) (simp_all add: hash_token_def)
qed

subsection \<open>Revoked session tokens\<close>

text \<open>Two halves of an operation on the file need not follow each other: a check reads the list and
  may write the purged one later, a logout reads it, and writes it with the new entry later. Only
  logouts exclude each other. \<open>W\<close> holds the lists that are still to be written.\<close>

definition purges :: "real \<Rightarrow> real \<Rightarrow> blacklist_file \<Rightarrow> (string \<times> real) list list" where
  "purges offset t f =
    (case f of
       Blacklist data \<Rightarrow>
         (let active = filter (\<lambda>(tok, e). t - offset < e) data
          in if length active = length data then [] else [active])
     | _ \<Rightarrow> [])"

datatype black_op = Check real | Logout black_io real string | Commit nat

fun op_before :: "real \<Rightarrow> black_op \<Rightarrow> bool" where
  \<comment> \<open>not after the time, and a logout can read and purge the list\<close>
  "op_before t (Check t') = (t' \<le> t)"
| "op_before t (Logout io t' tok) = (t' \<le> t \<and> bio_read io \<and> bio_purge io)"
| "op_before t (Commit i) = True"

fun black_step ::
  "jwt_lib \<Rightarrow> real \<Rightarrow> black_op \<Rightarrow> blacklist_file \<times> (string \<times> real) list list \<Rightarrow> blacklist_file \<times> (string \<times> real) list list" where
  "black_step J offset (Check t) (f, W) = (f, W @ purges offset t f)"
| "black_step J offset (Logout io t tok) (f, W) =
    (f, W @ purges offset t f @
       [AList.update tok (extract_exp J offset t tok) (fst (load_token_blacklist io offset t f))])"
| "black_step J offset (Commit i) (f, W) =
    (if i < length W then (Blacklist (W ! i), take i W @ drop (Suc i) W) else (f, W))"

lemma logout_is_its_steps:
  assumes "bio_read io" "bio_purge io" "bio_save io"
  shows "fold (black_step J offset) (Logout io t tok # map (\<lambda>_. Commit 0) (purges offset t f) @ [Commit 0]) (f, []) =
    (add_token_to_blacklist J io offset t tok f, [])"
  using assms
  by (auto simp: add_token_to_blacklist_def load_token_blacklist_def purges_def Let_def split: blacklist_file.split)

lemma check_is_its_steps:
  assumes "bio_read io" "bio_purge io"
  shows "fold (black_step J offset) (Check t # map (\<lambda>_. Commit 0) (purges offset t f)) (f, []) =
    (snd (verify_jwt J io offset t tok ty f), [])"
  using assms
  by (auto simp: verify_jwt_def is_token_blacklisted_def load_token_blacklist_def purges_def Let_def
      split: blacklist_file.split prod.split bool.split)

definition listed :: "string \<Rightarrow> real \<Rightarrow> blacklist_file \<Rightarrow> bool" where
  "listed tok e f = (\<exists>data. f = Blacklist data \<and> map_of data tok = Some e \<and> distinct (map fst data))"

lemma map_of_filter_distinct:
  "distinct (map fst xs) \<Longrightarrow>
   map_of (filter (\<lambda>(k, e). a < e) xs) k =
     (case map_of xs k of None \<Rightarrow> None | Some e \<Rightarrow> if a < e then Some e else None)"
  by (induction xs) (auto split: option.splits dest!: map_of_SomeD intro: rev_image_eqI)

lemma distinct_filter_keys:
  "distinct (map fst xs) \<Longrightarrow> distinct (map fst (filter P xs))"
  by (rule distinct_map_filter)

definition keeps_entry :: "string \<Rightarrow> real \<Rightarrow> (string \<times> real) list \<Rightarrow> bool" where
  "keeps_entry tok e data = (map_of data tok = Some e \<and> distinct (map fst data))"

lemma listed_keeps: "listed tok e f \<longleftrightarrow> (\<exists>data. f = Blacklist data \<and> keeps_entry tok e data)"
  by (simp add: listed_def keeps_entry_def)

lemma keeps_filter: "keeps_entry tok e data \<Longrightarrow> a < e \<Longrightarrow> keeps_entry tok e (filter (\<lambda>(k, x). a < x) data)"
  by (simp add: keeps_entry_def map_of_filter_distinct distinct_filter_keys)

lemma keeps_update: "keeps_entry tok e data \<Longrightarrow> (tok' = tok \<Longrightarrow> x = e) \<Longrightarrow> keeps_entry tok e (AList.update tok' x data)"
  by (auto simp: keeps_entry_def update_conv' distinct_update)

lemma load_listed:
  assumes "listed tok e f" "t - offset < e" "bio_read io" "bio_purge io"
  shows "keeps_entry tok e (fst (load_token_blacklist io offset t f))"
  using assms keeps_filter [of tok e]
  by (auto simp: listed_keeps load_token_blacklist_def Let_def)

lemma purges_listed:
  "listed tok e f \<Longrightarrow> t - offset < e \<Longrightarrow> w \<in> set (purges offset t f) \<Longrightarrow> keeps_entry tok e w"
  using keeps_filter [of tok e] by (auto simp: listed_keeps purges_def Let_def split: if_splits)

lemma verify_listed:
  assumes "listed tok e f" "t - offset < e" "bio_read io" "bio_purge io"
  shows "fst (verify_jwt J io offset t tok typ f) = None"
  using load_listed [OF assms]
  by (auto simp: verify_jwt_def is_token_blacklisted_def keeps_entry_def split: prod.split)

lemma step_listed:
  assumes "listed tok e f" "\<forall>w\<in>set W. keeps_entry tok e w" "op_before t op" "t - offset < e"
    and "jw_signed J tok = Some c" "real_of_int (jc_exp c) = e" "e \<noteq> 0"
    and "black_step J offset op (f, W) = (f', W')"
  shows "listed tok e f' \<and> (\<forall>w\<in>set W'. keeps_entry tok e w)"
proof (cases op)
  case (Check t')
  then show ?thesis using assms purges_listed [OF assms(1), of t' offset] by auto
next
  case (Logout io t' tok')
  then have t': "t' - offset < e" "bio_read io" "bio_purge io" using assms(3,4) by auto
  have "extract_exp J offset t' tok = e" using assms(5-7) by (simp add: extract_exp_def)
  then have "keeps_entry tok e (AList.update tok' (extract_exp J offset t' tok') (fst (load_token_blacklist io offset t' f)))"
    using load_listed [OF assms(1) t'] by (intro keeps_update) auto
  then show ?thesis using assms(1,2,8) Logout purges_listed [OF assms(1) t'(1)] by auto
next
  case (Commit i)
  then show ?thesis
    using assms(1,2,8) by (auto simp: listed_keeps split: if_splits dest!: in_set_takeD in_set_dropD)
qed

lemma run_listed:
  assumes "listed tok e f" "\<forall>w\<in>set W. keeps_entry tok e w" "\<forall>op\<in>set ops. op_before t op" "t - offset < e"
    and "jw_signed J tok = Some c" "real_of_int (jc_exp c) = e" "e \<noteq> 0"
    and "fold (black_step J offset) ops (f, W) = (f', W')"
  shows "listed tok e f'"
  using assms(1-3,8)
proof (induction ops arbitrary: f W)
  case (Cons op ops)
  obtain f1 W1 where s: "black_step J offset op (f, W) = (f1, W1)" by fastforce
  have "listed tok e f1 \<and> (\<forall>w\<in>set W1. keeps_entry tok e w)"
    by (rule step_listed [OF Cons.prems(1,2) _ assms(4-7) s]) (use Cons.prems(3) in simp)
  then show ?case using Cons s by auto
qed simp

lemma logout_lists:
  assumes "jw_signed J tok = Some c" "real_of_int (jc_exp c) = e" "e \<noteq> 0" "bio_save io"
    and "\<And>data. f = Blacklist data \<Longrightarrow> distinct (map fst data)"
  shows "listed tok e (add_token_to_blacklist J io offset t tok f)"
proof -
  have "distinct (map fst (fst (load_token_blacklist io offset t f)))"
    using assms(5) by (cases f) (auto simp: load_token_blacklist_def Let_def distinct_filter_keys)
  then show ?thesis using assms(1-4)
    by (auto simp: add_token_to_blacklist_def listed_def extract_exp_def update_conv' distinct_update split: prod.split)
qed

text \<open>A library that satisfies the laws: the claims are written out, and the signature is empty.\<close>

fun enc_seq :: "('a \<Rightarrow> string) \<Rightarrow> 'a list \<Rightarrow> string" where
  "enc_seq e [] = '';''"
| "enc_seq e (x # xs) = CHR ''x'' # e x @ enc_seq e xs"

fun dec_seq :: "nat \<Rightarrow> (string \<Rightarrow> ('a \<times> string) option) \<Rightarrow> string \<Rightarrow> ('a list \<times> string) option" where
  "dec_seq (Suc n) d (c # s) =
    (if c = CHR '';'' then Some ([], s)
     else (case d s of
             None \<Rightarrow> None
           | Some (x, r) \<Rightarrow> map_option (\<lambda>(xs, r'). (x # xs, r')) (dec_seq n d r)))"
| "dec_seq _ _ _ = None"

lemma dec_enc_seq:
  assumes "\<And>x r. x \<in> set xs \<Longrightarrow> d (e x @ r) = Some (x, r)" "length xs < n"
  shows "dec_seq n d (enc_seq e xs @ r) = Some (xs, r)"
  using assms
proof (induction xs arbitrary: n)
  case Nil
  then show ?case by (cases n) simp_all
next
  case (Cons x xs)
  then show ?case by (cases n) simp_all
qed

lemma length_enc_seq: "length xs < length (enc_seq e xs)"
  by (induction xs) auto

definition enc_string :: "string \<Rightarrow> string" where
  "enc_string = enc_seq (\<lambda>c. [c])"

definition dec_string :: "nat \<Rightarrow> string \<Rightarrow> (string \<times> string) option" where
  "dec_string n = dec_seq n (\<lambda>s. case s of [] \<Rightarrow> None | c # r \<Rightarrow> Some (c, r))"

lemma dec_enc_string: "length w < n \<Longrightarrow> dec_string n (enc_string w @ r) = Some (w, r)"
  unfolding dec_string_def enc_string_def by (rule dec_enc_seq) auto

definition enc_int :: "int \<Rightarrow> string" where
  "enc_int i = (if i < 0 then CHR ''-'' else CHR ''+'') # replicate (nat \<bar>i\<bar>) CHR ''1'' @ '';''"

definition dec_int :: "string \<Rightarrow> (int \<times> string) option" where
  "dec_int s =
    (case s of
       [] \<Rightarrow> None
     | c # r \<Rightarrow> (let n = int (length (takeWhile (\<lambda>c. c = CHR ''1'') r))
                 in Some (if c = CHR ''-'' then - n else n, drop 1 (dropWhile (\<lambda>c. c = CHR ''1'') r))))"

lemma dec_enc_int: "dec_int (enc_int i @ r) = Some (i, r)"
proof -
  have "takeWhile (\<lambda>c. c = CHR ''1'') (replicate n CHR ''1'' @ CHR '';'' # r) = replicate n CHR ''1''"
    "dropWhile (\<lambda>c. c = CHR ''1'') (replicate n CHR ''1'' @ CHR '';'' # r) = CHR '';'' # r" for n
    by (induction n) simp_all
  then show ?thesis by (simp add: dec_int_def enc_int_def)
qed

definition enc_claims :: "claims \<Rightarrow> string" where
  "enc_claims c = enc_string (jc_user c) @ enc_string (jc_name c) @ enc_seq enc_string (jc_roles c) @
     enc_string (jc_type c) @ enc_int (jc_exp c) @ enc_int (jc_iat c)"

definition dec_fuel :: "nat \<Rightarrow> string \<Rightarrow> claims option" where
  "dec_fuel n s =
    (case dec_string n s of None \<Rightarrow> None | Some (u, s) \<Rightarrow>
       (case dec_string n s of None \<Rightarrow> None | Some (nm, s) \<Rightarrow>
         (case dec_seq n (dec_string n) s of None \<Rightarrow> None | Some (rs, s) \<Rightarrow>
           (case dec_string n s of None \<Rightarrow> None | Some (ty, s) \<Rightarrow>
             (case dec_int s of None \<Rightarrow> None | Some (e, s) \<Rightarrow>
               (case dec_int s of None \<Rightarrow> None | Some (i, s) \<Rightarrow>
                 Some \<lparr>jc_user = u, jc_name = nm, jc_roles = rs, jc_type = ty, jc_exp = e, jc_iat = i\<rparr>))))))"

definition dec_claims :: "string \<Rightarrow> claims option" where
  "dec_claims s = dec_fuel (length s) s"

lemma length_in_enc_seq: "x \<in> set xs \<Longrightarrow> length (e x) < length (enc_seq e xs)"
  by (induction xs) auto

lemma dec_fuel_enc:
  assumes "length (enc_claims c) \<le> n"
  shows "dec_fuel n (enc_claims c) = Some c"
proof -
  have str: "dec_string n (enc_string w @ r) = Some (w, r)" if "length (enc_string w) \<le> n" for w r
    using that length_enc_seq [of w "\<lambda>c. [c]"] by (intro dec_enc_string) (simp add: enc_string_def)
  have len: "length (enc_string (jc_user c)) \<le> n" "length (enc_string (jc_name c)) \<le> n"
    "length (enc_seq enc_string (jc_roles c)) \<le> n" "length (enc_string (jc_type c)) \<le> n"
    using assms by (simp_all add: enc_claims_def)
  have roles: "dec_seq n (dec_string n) (enc_seq enc_string (jc_roles c) @ r) = Some (jc_roles c, r)" for r
  proof (rule dec_enc_seq)
    fix w r assume "w \<in> set (jc_roles c)"
    then have "length (enc_string w) < length (enc_seq enc_string (jc_roles c))" by (rule length_in_enc_seq)
    then show "dec_string n (enc_string w @ r) = Some (w, r)" using len(3) by (intro str) simp
  next
    show "length (jc_roles c) < n"
      using length_enc_seq [of "jc_roles c" enc_string] len(3) by simp
  qed
  have tail: "dec_int (enc_int i) = Some (i, [])" for i using dec_enc_int [of i "[]"] by simp
  show ?thesis by (simp add: dec_fuel_def enc_claims_def str len roles dec_enc_int tail)
qed

lemma dec_enc_claims: "dec_claims (enc_claims c) = Some c"
  by (simp add: dec_claims_def dec_fuel_enc)

definition plain_jwt :: jwt_lib where
  "plain_jwt = \<lparr>jw_encode = enc_claims, jw_signed = dec_claims,
     jw_decode = (\<lambda>t tok. case dec_claims tok of
        None \<Rightarrow> None
      | Some c \<Rightarrow> if real_of_int (jc_iat c) \<le> t \<and> t < real_of_int (jc_exp c) then Some c else None)\<rparr>"

lemma plain_jwt_laws: "jwt_laws plain_jwt"
  by (auto simp: jwt_laws_def plain_jwt_def dec_enc_claims split: option.splits if_splits)

definition demo_jwt :: jwt_lib where
  \<comment> \<open>one key, one session: the token \<open>sess\<close> of \<open>u1\<close>, valid from 0 to 1000\<close>
  "demo_jwt =
    (let c = \<lparr>jc_user = ''u1'', jc_name = ''ann'', jc_roles = [], jc_type = ''access'', jc_exp = 1000, jc_iat = 0\<rparr>
     in \<lparr>jw_encode = (\<lambda>_. ''sess''), jw_signed = (\<lambda>tok. if tok = ''sess'' then Some c else None),
         jw_decode = (\<lambda>t tok. if tok = ''sess'' \<and> 0 \<le> t \<and> t < 1000 then Some c else None)\<rparr>)"

definition jwt_sound :: "jwt_lib \<Rightarrow> bool" where
  \<comment> \<open>the second law alone: what decodes is signed and not expired\<close>
  "jwt_sound J = (\<forall>t tok c. jw_decode J t tok = Some c \<longrightarrow> jw_signed J tok = Some c \<and> t < real_of_int (jc_exp c))"

lemma jwt_laws_sound: "jwt_laws J \<Longrightarrow> jwt_sound J"
  unfolding jwt_laws_def jwt_sound_def by blast

lemma demo_jwt_sound: "jwt_sound demo_jwt"
  by (auto simp: jwt_sound_def demo_jwt_def Let_def split: if_splits)

text \<open>C7: Logging out is final on a server whose zone is UTC or east of it, once the blacklist with
  the token has been written while no other check or logout was half-way. Afterwards checks and
  logouts may overlap in any way, each reading the file at one moment and writing the purged or
  extended list later or never; at every later time at which the file can be read (and purged, where
  that is due), the token is rejected, for either token type, until it has expired by itself. A logout
  in between must be able to read and purge the list, because the code goes on with an empty one where
  it cannot. (What the JWT library decodes is assumed to be signed and not expired.)\<close>
theorem logout_is_final:
  assumes "jwt_sound J" and "0 \<le> offset"
    and "jw_signed J tok = Some c" and "jc_exp c \<noteq> 0"
    and "case f of Blacklist data \<Rightarrow> distinct (map fst data) | _ \<Rightarrow> True"
    and "bio_save io0" and "\<forall>op\<in>set ops. op_before t op"
    and "fold (black_step J offset) ops (add_token_to_blacklist J io0 offset t0 tok f, []) = (f', W)"
    and "bio_read io" "bio_purge io"
  shows "fst (verify_jwt J io offset t tok ty f') = None"
proof (cases "t - offset < real_of_int (jc_exp c)")
  case True
  have "listed tok (real_of_int (jc_exp c)) (add_token_to_blacklist J io0 offset t0 tok f)"
    using assms(3-6) by (intro logout_lists) auto
  then have "listed tok (real_of_int (jc_exp c)) f'"
    using run_listed [OF _ _ assms(7) True assms(3) refl _ assms(8)] assms(4) by simp
  then show ?thesis using True assms(9,10) by (rule verify_listed)
next
  case False
  have "jw_decode J t tok \<noteq> Some c'" for c'
  proof
    assume "jw_decode J t tok = Some c'"
    then have "jw_signed J tok = Some c'" "t < real_of_int (jc_exp c')" using assms(1) unfolding jwt_sound_def by blast+
    then show "False" using False assms(2,3) by simp
  qed
  then have "jw_decode J t tok = None" by (cases "jw_decode J t tok") auto
  then show ?thesis by (auto simp: verify_jwt_def split: prod.split bool.split)
qed

definition good_io :: black_io where
  "good_io = \<lparr>bio_read = True, bio_purge = True, bio_save = True\<rparr>"

lemma good_io_simps [simp]: "bio_read good_io" "bio_purge good_io" "bio_save good_io"
  by (simp_all add: good_io_def)

theorem logout_is_final_witness:
  "fst (verify_jwt demo_jwt good_io 3600 900 ''sess'' ''access''
     (Blacklist [(''sess'', 1000), (''other'', 600 - 3600 + 7 * 86400)])) = None"
  by (rule logout_is_final [OF demo_jwt_sound, where c = "\<lparr>jc_user = ''u1'', jc_name = ''ann'', jc_roles = [],
        jc_type = ''access'', jc_exp = 1000, jc_iat = 0\<rparr>" and f = NoBlacklist and ?t0.0 = 100 and ?io0.0 = good_io
        and ops = "[Logout good_io 600 ''other'', Check 500, Commit 0, Commit 5]" and W = "[]"])
     (simp_all add: demo_jwt_def Let_def add_token_to_blacklist_def load_token_blacklist_def extract_exp_def
       purges_def refresh_days_def)

text \<open>What the hypotheses keep out. A list that cannot be read, or not be purged when that is due,
  counts as empty: the token of a finished logout is accepted again.\<close>

theorem unreadable_blacklist_revives_token:
  assumes "jw_decode J t tok = Some c" and "jc_type c = ty" and "\<not> bio_read io"
  shows "fst (verify_jwt J io offset t tok ty f) = Some c"
  using assms by (auto simp: verify_jwt_def is_token_blacklisted_def load_token_blacklist_def
      split: prod.split blacklist_file.split)

text \<open>West of UTC a logged-out token comes back to life. The clock of the blacklist runs ahead
  by the zone's offset, so an entry is purged that long before the token expires; in between
  the token is accepted again.\<close>
theorem west_zone_revives_token:
  assumes "jw_signed J tok = Some c" and "jc_exp c \<noteq> 0" and "jw_decode J t tok = Some c"
    and "real_of_int (jc_exp c) + offset \<le> t" and "bio_save io"
    and "case f of Blacklist data \<Rightarrow> distinct (map fst data) | _ \<Rightarrow> True"
  shows "fst (verify_jwt J io offset t tok (jc_type c) (add_token_to_blacklist J io offset t0 tok f)) = Some c"
proof -
  have "listed tok (real_of_int (jc_exp c)) (add_token_to_blacklist J io offset t0 tok f)"
    using assms(1,2,5,6) by (intro logout_lists) auto
  then obtain data where d: "add_token_to_blacklist J io offset t0 tok f = Blacklist data"
    "map_of data tok = Some (real_of_int (jc_exp c))" "distinct (map fst data)" by (auto simp: listed_def)
  have "map_of (filter (\<lambda>(tok, e). t - offset < e) data) tok = None"
    using d(2,3) assms(4) by (simp add: map_of_filter_distinct)
  then have "map_of (fst (load_token_blacklist io offset t (Blacklist data))) tok = None"
    by (auto simp: load_token_blacklist_def Let_def)
  then show ?thesis
    unfolding d(1) using assms(3) by (auto simp: verify_jwt_def is_token_blacklisted_def split: prod.split)
qed

theorem west_zone_revives_token_witness:
  "fst (verify_jwt demo_jwt good_io (- 500) 600 ''sess'' ''access''
     (add_token_to_blacklist demo_jwt good_io (- 500) 100 ''sess'' NoBlacklist)) \<noteq> None"
proof -
  let ?c = "\<lparr>jc_user = ''u1'', jc_name = ''ann'', jc_roles = [], jc_type = ''access'', jc_exp = 1000, jc_iat = 0\<rparr>"
  have "fst (verify_jwt demo_jwt good_io (- 500) 600 ''sess'' (jc_type ?c)
     (add_token_to_blacklist demo_jwt good_io (- 500) 100 ''sess'' NoBlacklist)) = Some ?c"
    by (rule west_zone_revives_token) (simp_all add: demo_jwt_def Let_def)
  then show ?thesis by simp
qed

end
