(* ===== verification/AccessProps.thy ===== *)
theory AccessProps
  imports AccountRoutes AuthProps TokensProps WorkerRegistryProps
begin

section \<open>Properties of the account handlers\<close>

text \<open>
  What passes the middleware, how a login becomes a session, how many guesses the login
  allows, and what the handlers that change accounts check: they ask for a valid token only,
  so the permission tables do not guard themselves.
\<close>

subsection \<open>The middleware\<close>

lemma check_session_frame [simp]:
  "g_db (snd (check_session_or_api E token G)) = g_db G"
  "g_attempts (snd (check_session_or_api E token G)) = g_attempts G"
  by (simp_all add: check_session_or_api_def split: prod.split option.split)

lemma require_auth_frame [simp]:
  "g_db (snd (require_auth E rq G)) = g_db G"
  "g_attempts (snd (require_auth E rq G)) = g_attempts G"
  by (simp_all add: require_auth_def Let_def split: prod.split option.split sum.split)

lemma require_auth_db: "require_auth E rq G = (r, G') \<Longrightarrow> g_db G' = g_db G"
  using require_auth_frame(1) [of E rq G] by simp

lemma granted_has_user: "wf_auth db \<Longrightarrow> granted db u p \<Longrightarrow> map_of (t_users db) u \<noteq> None"
  by (auto simp: granted_iff)

text \<open>A handler behind \<open>require_permission\<close> runs only for a known user who holds the permission
  now. If the decorator lets a request through, the principal is a user, not a worker token,
  whose active row the tables join to the permission at this moment, whatever the roles inside
  the session token say; the internal caller passes only if there is such a user. And it lets
  every authenticated holder through.\<close>
theorem require_permission_exact:
  assumes "G = G0\<lparr>g_db := fold apply_op ops empty_auth\<rparr>"
  shows "fst (require_permission p E rq G) = Inr pr \<longleftrightarrow>
    fst (require_auth E rq G) = Inr pr \<and>
    (\<exists>u. pr_user pr = Some u \<and> u \<noteq> [] \<and> granted (g_db G) u p)"
proof -
  have wf: "wf_auth (g_db G)" using assms by (simp add: wf_apply_ops wf_auth_empty)
  obtain r G' where a: "require_auth E rq G = (r, G')" by fastforce
  have db: "g_db G' = g_db G" using require_auth_db [OF a] .
  show ?thesis
    by (cases r) (auto simp: require_permission_def a db nonempty_def has_permission_granted [OF wf]
        split: option.splits)
qed

subsection \<open>The accounts are not guarded by permissions\<close>

lemma own_name_free:
  assumes "wf_rows nm t" "map_of t k = Some r"
  shows "\<not> name_taken nm (nm r) k t"
proof
  assume "name_taken nm (nm r) k t"
  then obtain k' r' where "(k', r') \<in> set t" "nm r' = nm r" "k' \<noteq> k" by (auto simp: name_taken_def)
  then show "False"
    using find_row_iff [OF assms(1), of "nm r"] assms in_table_iff [OF assms(1)] by (metis option.inject prod.inject)
qed

lemma assign_roles_effect:
  assumes wf: "wf_auth db" and row: "map_of (t_users db) u = Some row" and rs: "set rs \<subseteq> set (ids (t_roles db))"
  shows "\<exists>us. fst (update_user n u None None (Some rs) (Some True) db) = Inr (Some us)"
    and "r \<in> set rs \<Longrightarrow> (u, r) \<in> set (user_roles (snd (update_user n u None None (Some rs) (Some True) db)))"
    and "\<exists>row'. map_of (t_users (snd (update_user n u None None (Some rs) (Some True) db))) u = Some row' \<and> u_active row'"
    and "role_perms (snd (update_user n u None None (Some rs) (Some True) db)) = role_perms db"
    and "t_perms (snd (update_user n u None None (Some rs) (Some True) db)) = t_perms db"
proof -
  have free: "\<not> name_taken u_name (u_name row) u (t_users db)"
    by (rule own_name_free [OF wf_authD(1) [OF wf] row])
  obtain ur where ur: "link_all u rs (ids (t_roles db)) (filter (\<lambda>(a, b). a \<noteq> u) (user_roles db)) = Some ur"
    using rs link_all_None_iff by (metis option.exhaust)
  note defs = update_user_def opt_name_def Let_def row free ur
  show "\<exists>us. fst (update_user n u None None (Some rs) (Some True) db) = Inr (Some us)"
    by (simp add: defs get_user_by_id_def)
  show "r \<in> set rs \<Longrightarrow> (u, r) \<in> set (user_roles (snd (update_user n u None None (Some rs) (Some True) db)))"
    using link_all_set [OF ur] by (simp add: defs)
  show "\<exists>row'. map_of (t_users (snd (update_user n u None None (Some rs) (Some True) db))) u = Some row' \<and> u_active row'"
    "role_perms (snd (update_user n u None None (Some rs) (Some True) db)) = role_perms db"
    "t_perms (snd (update_user n u None None (Some rs) (Some True) db)) = t_perms db"
    by (simp_all add: defs)
qed

definition grant_me :: "string \<Rightarrow> doc" where
  "grant_me r = [(''roles'', JArr [JStr r]), (''is_active'', JBool True)]"

lemma grant_me_body:
  "strip_or_empty (grant_me r) ''username'' = Inr []" "strip_or_empty (grant_me r) ''email'' = Inr []"
  "put_password E pr u (grant_me r) db = (None, db)"
  "dget (grant_me r) ''roles'' = JArr [JStr r]" "dget (grant_me r) ''is_active'' = JBool True"
  by (simp_all add: grant_me_def strip_or_empty_def py_or_def strip_def put_password_def)

lemma update_user_body_grant:
  assumes "wf_auth (g_db G)" "map_of (t_users (g_db G)) u = Some row" "r \<in> set (ids (t_roles (g_db G)))"
  shows "update_user_body E pr u (grant_me r) G =
    (200, G\<lparr>g_db := snd (update_user (ae_iso E) u None None (Some [r]) (Some True) (g_db G))\<rparr>)"
proof -
  obtain us where "fst (update_user (ae_iso E) u None None (Some [r]) (Some True) (g_db G)) = Inr (Some us)"
    using assign_roles_effect(1) [OF assms(1,2), of "[r]"] assms(3) by auto
  then obtain db' where "update_user (ae_iso E) u None None (Some [r]) (Some True) (g_db G) = (Inr (Some us), db')"
    by (metis prod.collapse)
  then show ?thesis
    using assms(3)
    by (simp add: update_user_body_def grant_me_body wanted_keys_def iter_json_def sql_key_def some_nonempty_def)
qed

definition open_gate :: "auth_db \<Rightarrow> gate" where
  "open_gate db = \<lparr>g_db = db, g_reg = empty_registry, g_ix = empty_index,
     g_tokens = NoTokens, g_black = NoBlacklist, g_attempts = []\<rparr>"

definition demo_access :: auth_env where
  "demo_access = \<lparr>ae_now = 100, ae_iso = ''t9'', ae_offset = 0, ae_sha = Cons CHR ''#'', ae_jwt = demo_jwt, ae_black = good_io,
     ae_secret = ''internal'', ae_writable = True, ae_checkpw = demo_checkpw, ae_hash = (@) ''h-'',
     ae_str = (\<lambda>_. []), ae_sql = (\<lambda>_. [])\<rparr>"

definition session_request :: "string \<Rightarrow> request" where
  "session_request path = \<lparr>rq_method = ''PUT'', rq_path = path, rq_internal = None,
     rq_auth = Some ''Bearer sess'', rq_args = []\<rparr>"

text \<open>A session of \<open>u1\<close>: whatever the tables say, the token of the demo library is accepted.\<close>

lemma session_accepted:
  "fst (require_auth demo_access (session_request ''/api/users/u2'') (open_gate db)) =
    Inr \<lparr>pr_user = Some ''u1'', pr_worker = None, pr_name = ''ann'', pr_roles = [], pr_token = Some ''sess''\<rparr>"
proof -
  have header: "get_token_from_header (Some ''Bearer sess'') = Some ''sess''" by code_simp
  show ?thesis
    by (simp add: require_auth_def session_request_def demo_access_def request_token_def nonempty_def
        header starts_with_def check_session_or_api_def verify_jwt_def is_token_blacklisted_def
        load_token_blacklist_def open_gate_def demo_jwt_def user_principal_def Let_def)
qed

theorem require_permission_exact_witness:
  "fst (require_permission ''users.write'' demo_access (session_request ''/api/users/u2'')
          (open_gate (fold apply_op demo_ops empty_auth)))
    = Inr \<lparr>pr_user = Some ''u1'', pr_worker = None, pr_name = ''ann'', pr_roles = [], pr_token = Some ''sess''\<rparr>"
proof -
  have "granted (fold apply_op demo_ops empty_auth) ''u1'' ''users.write''" by code_simp
  moreover have "open_gate (fold apply_op demo_ops empty_auth) =
      (open_gate empty_auth)\<lparr>g_db := fold apply_op demo_ops empty_auth\<rparr>"
    by (simp add: open_gate_def)
  ultimately show ?thesis
    using session_accepted [of "fold apply_op demo_ops empty_auth"]
    by (subst require_permission_exact [where ?G0.0 = "open_gate empty_auth" and ops = demo_ops])
       (simp_all only: open_gate_def gate.simps principal.simps, simp_all)
qed

text \<open>C6: The permission tables do not protect themselves. Any caller with a valid token, of any
  user, may update any existing user: one request gives the target any existing role and
  activates the account, so afterwards the target holds each permission of that role. No
  permission of the caller is consulted, not even whether the caller is still active: a
  deactivated user whose token has not expired can reactivate the own account this way.\<close>
theorem any_caller_can_escalate:
  assumes "G = G0\<lparr>g_db := fold apply_op ops empty_auth\<rparr>"
    and "fst (require_auth E rq G) = Inr pr"
    and "map_of (t_users (g_db G)) u = Some row"
    and "(r, q) \<in> set (role_perms (g_db G))" and "map_of (t_perms (g_db G)) q = Some pm"
  shows "fst (api_update_user E rq u [(''roles'', JArr [JStr r]), (''is_active'', JBool True)] G) = 200 \<and>
    has_permission u (pe_name pm)
      (g_db (snd (api_update_user E rq u [(''roles'', JArr [JStr r]), (''is_active'', JBool True)] G)))"
proof -
  have wf: "wf_auth (g_db G)" using assms(1) by (simp add: wf_apply_ops wf_auth_empty)
  have r: "r \<in> set (ids (t_roles (g_db G)))" using dangling_free(3) [OF wf assms(4)] by (simp add: ids_iff)
  obtain G1 where a: "require_auth E rq G = (Inr pr, G1)" using assms(2) by (metis prod.collapse)
  have db: "g_db G1 = g_db G" using require_auth_db [OF a] .
  let ?db = "snd (update_user (ae_iso E) u None None (Some [r]) (Some True) (g_db G))"
  have call: "api_update_user E rq u (grant_me r) G = (200, G1\<lparr>g_db := ?db\<rparr>)"
    using update_user_body_grant [of G1 u row r E pr] wf assms(3) r
    by (simp add: api_update_user_def authed_def a db)
  note eff = assign_roles_effect [OF wf assms(3), where rs = "[r]" and n = "ae_iso E"]
  have "granted ?db u (pe_name pm)"
    unfolding granted_iff [OF wf_update_user [OF wf]]
    using eff(2) [where r = r] eff(3,4,5) r assms(4,5) by auto
  then show ?thesis
    using call has_permission_granted [OF wf_update_user [OF wf]] by (simp add: grant_me_def)
qed

theorem any_caller_can_escalate_witness:
  "has_permission ''u2'' ''users.write''
     (g_db (snd (api_update_user demo_access (session_request ''/api/users/u2'') ''u2''
        [(''roles'', JArr [JStr ''r2'']), (''is_active'', JBool True)] (open_gate (fold apply_op demo_ops empty_auth)))))"
proof -
  let ?G = "open_gate (fold apply_op demo_ops empty_auth)"
  have G: "?G = (open_gate empty_auth)\<lparr>g_db := fold apply_op demo_ops empty_auth\<rparr>"
    by (simp add: open_gate_def)
  have db: "g_db ?G = fold apply_op demo_ops empty_auth" by (simp add: open_gate_def)
  have row: "map_of (t_users (g_db ?G)) ''u2'' = Some \<lparr>u_name = ''bob'', u_email = None, u_hash = ''h-bob'',
     u_active = True, u_created = ''t0'', u_updated = ''t0'', u_last = None, u_disabled = None\<rparr>"
    unfolding db using demo_users by (simp only: demo_auth_def)
  have l: "(''r2'', ''p2'') \<in> set (role_perms (g_db ?G))" unfolding db by code_simp
  have p: "map_of (t_perms (g_db ?G)) ''p2'' = Some \<lparr>pe_name = ''users.write'', pe_desc = [],
      pe_resource = ''users'', pe_action = ''write'', pe_created = ''t0''\<rparr>"
    unfolding db by code_simp
  show ?thesis
    using any_caller_can_escalate [OF G session_accepted row l p]
    by (elim conjE) (simp only: perm_row.simps)
qed

subsection \<open>A rejected update can have changed the password\<close>

text \<open>An update that is rejected may still have replaced the password. The handler stores the
  password before it validates the other fields: a request whose username is invalid is
  answered with 400, but from then on the new password logs the user in.\<close>
theorem rejected_update_sets_password:
  assumes "G = G0\<lparr>g_db := fold apply_op ops empty_auth\<rparr>"
    and "fst (require_auth E rq G) = Inr pr" and "pr_user pr \<noteq> Some u"
    and "map_of (t_users (g_db G)) u = Some row" and "u_active row"
    and "6 \<le> length pw" and "strip name \<noteq> []" and "validate_username (JStr (strip name)) \<noteq> None"
    and "ae_checkpw E pw (ae_hash E pw)"
  shows "fst (api_update_user E rq u [(''username'', JStr name), (''password'', JStr pw)] G) = 400 \<and>
    (\<exists>us. fst (authenticate (ae_checkpw E) t (u_name row) pw
        (g_db (snd (api_update_user E rq u [(''username'', JStr name), (''password'', JStr pw)] G)))) = Some us \<and>
      us_id us = u)"
proof -
  have wf: "wf_auth (g_db G)" using assms(1) by (simp add: wf_apply_ops wf_auth_empty)
  obtain G1 where a: "require_auth E rq G = (Inr pr, G1)" using assms(2) by (metis prod.collapse)
  have db: "g_db G1 = g_db G" using require_auth_db [OF a] .
  let ?body = "[(''username'', JStr name), (''password'', JStr pw)]"
  let ?db = "store_password (ae_iso E) u (ae_hash E pw) ''user.password_set'' (g_db G)"
  have name: "name \<noteq> []" using assms(7) by (auto simp: strip_def)
  have "short_password (JStr pw) = Inr False" using assms(6) by (auto simp: short_password_def)
  then have "put_password E pr u ?body (g_db G1) = (None, ?db)"
    using assms(3,4) by (simp add: put_password_def set_password_def db)
  moreover have "strip_or_empty ?body ''username'' = Inr (strip name)" "strip_or_empty ?body ''email'' = Inr []"
    using name by (simp_all add: strip_or_empty_def py_or_def strip_def)
  ultimately have call: "api_update_user E rq u ?body G = (400, G1\<lparr>g_db := ?db\<rparr>)"
    using assms(7,8) by (simp add: api_update_user_def authed_def a update_user_body_def db)
  have "map_of (t_users ?db) u = Some (row\<lparr>u_hash := ae_hash E pw, u_updated := ae_iso E\<rparr>)"
    using assms(4) by (simp add: store_password_def)
  then show ?thesis
    unfolding call using authenticate_user_iff [OF wf_store_password [OF wf]] assms(5,9) by simp
qed

theorem rejected_update_sets_password_witness:
  "\<exists>us. fst (authenticate demo_checkpw ''t9'' ''bob'' ''secret''
      (g_db (snd (api_update_user demo_access (session_request ''/api/users/u2'') ''u2''
        [(''username'', JStr ''x''), (''password'', JStr ''secret'')] (open_gate (fold apply_op demo_ops empty_auth))))))
      = Some us \<and> us_id us = ''u2''"
proof -
  let ?G = "open_gate (fold apply_op demo_ops empty_auth)"
  let ?row = "\<lparr>u_name = ''bob'', u_email = None, u_hash = ''h-bob'', u_active = True, u_created = ''t0'',
     u_updated = ''t0'', u_last = None, u_disabled = None\<rparr>"
  have G: "?G = (open_gate empty_auth)\<lparr>g_db := fold apply_op demo_ops empty_auth\<rparr>"
    by (simp add: open_gate_def)
  have row: "map_of (t_users (g_db ?G)) ''u2'' = Some ?row"
    using demo_users by (simp only: demo_auth_def open_gate_def gate.simps)
  have v: "strip ''x'' \<noteq> []" "validate_username (JStr (strip ''x'')) \<noteq> None" by code_simp+
  have "fst (api_update_user demo_access (session_request ''/api/users/u2'') ''u2''
        [(''username'', JStr ''x''), (''password'', JStr ''secret'')] ?G) = 400 \<and>
    (\<exists>us. fst (authenticate (ae_checkpw demo_access) ''t9'' (u_name ?row) ''secret''
      (g_db (snd (api_update_user demo_access (session_request ''/api/users/u2'') ''u2''
        [(''username'', JStr ''x''), (''password'', JStr ''secret'')] ?G)))) = Some us \<and> us_id us = ''u2'')"
    by (rule rejected_update_sets_password [OF G session_accepted _ row _ _ v])
       (simp_all add: demo_access_def demo_checkpw_def)
  then show ?thesis by (elim conjE) (simp only: user_row.simps demo_access_def auth_env.simps)
qed

subsection \<open>The limit on login attempts\<close>

definition login_key :: "string option \<Rightarrow> string option \<Rightarrow> doc \<Rightarrow> string" where
  \<comment> \<open>what the limiter counts by; empty for a body it does not get to\<close>
  "login_key forwarded remote body =
    (case strip_default body ''username'' of
       Inl _ \<Rightarrow> [] | Inr username \<Rightarrow> client_ip forwarded remote @ ''|'' @ lower username)"

text \<open>The limiter is asked and told in two steps, with a lock around each but none around both, so
  logins overlap. An event is the first half of a request, or the second half of the \<open>i\<close>-th of
  those that passed the limiter and are not answered yet; it has its own time.\<close>

datatype login_event = Arrive auth_env "string option" "string option" doc | Answer nat auth_env

fun event_time :: "login_event \<Rightarrow> real" where
  "event_time (Arrive E fw rm body) = ae_now E"
| "event_time (Answer i E) = ae_now E"

type_synonym flight = "string \<times> string \<times> doc"

fun login_run :: "login_event list \<Rightarrow> gate \<Rightarrow> flight list \<Rightarrow> (real \<times> string \<times> nat) list" where
  \<comment> \<open>time, key and status code of each answer\<close>
  "login_run [] G P = []"
| "login_run (Arrive E fw rm body # evs) G P =
    (case login_guard E fw rm body G of
       (Inl code, G') \<Rightarrow> (ae_now E, login_key fw rm body, code) # login_run evs G' P
     | (Inr (username, key), G') \<Rightarrow> login_run evs G' (P @ [(username, key, body)]))"
| "login_run (Answer i E # evs) G P =
    (if i < length P then
       (case P ! i of
          (username, key, body) \<Rightarrow>
            (case login_finish E username key body G of
               ((code, _), G') \<Rightarrow> (ae_now E, key, code) # login_run evs G' (take i P @ drop (Suc i) P)))
     else login_run evs G P)"

definition flying :: "string \<Rightarrow> flight list \<Rightarrow> nat" where
  "flying k P = length (filter (\<lambda>(u, k', b). k' = k) P)"

fun most_flying :: "string \<Rightarrow> login_event list \<Rightarrow> gate \<Rightarrow> flight list \<Rightarrow> nat" where
  \<comment> \<open>how many requests for the key are half-way at the same time, at most\<close>
  "most_flying k [] G P = flying k P"
| "most_flying k (Arrive E fw rm body # evs) G P =
    (case login_guard E fw rm body G of
       (Inl code, G') \<Rightarrow> max (flying k P) (most_flying k evs G' P)
     | (Inr (username, key), G') \<Rightarrow> max (flying k P) (most_flying k evs G' (P @ [(username, key, body)])))"
| "most_flying k (Answer i E # evs) G P =
    (if i < length P then
       (case P ! i of
          (username, key, body) \<Rightarrow>
            (case login_finish E username key body G of
               (_, G') \<Rightarrow> max (flying k P) (most_flying k evs G' (take i P @ drop (Suc i) P))))
     else max (flying k P) (most_flying k evs G P))"

lemma flying_le_most: "flying k P \<le> most_flying k evs G P"
  by (cases "(k, evs, G, P)" rule: most_flying.cases) (auto split: prod.split sum.split)

lemma flying_append: "flying k (P @ Q) = flying k P + flying k Q"
  by (simp add: flying_def)

lemma flying_take_out:
  assumes "i < length P" "P ! i = (u, k', b)"
  shows "flying k P = flying k (take i P @ drop (Suc i) P) + (if k' = k then 1 else 0)"
proof -
  have "P = take i P @ (u, k', b) # drop (Suc i) P" using assms id_take_nth_drop by metis
  then have "flying k P = flying k (take i P @ (u, k', b) # drop (Suc i) P)" by simp
  then show ?thesis by (simp add: flying_def)
qed

lemma attempts_update [simp]:
  "attempts_of k (AList.update k' v m) = (if k = k' then v else attempts_of k m)"
  by (simp add: attempts_of_def update_conv')

lemma attempts_delete [simp]:
  "attempts_of k (AList.delete k' m) = (if k = k' then [] else attempts_of k m)"
  by (simp add: attempts_of_def delete_conv')

definition recent :: "real \<Rightarrow> real list \<Rightarrow> real list" where
  "recent now ts = filter (\<lambda>t. now - LOGIN_WINDOW_SECONDS < t) ts"

lemma recent_recent: "now \<le> later \<Longrightarrow> recent later (recent now ts) = recent later ts"
  unfolding recent_def filter_filter by (rule filter_cong) auto

lemma guard_step:
  assumes "login_guard E fw rm body G = (r, G')" "k \<noteq> []"
  shows "attempts_of k (g_attempts G') =
      (if login_key fw rm body = k then recent (ae_now E) (attempts_of k (g_attempts G)) else attempts_of k (g_attempts G))"
    and "r = Inl code \<Longrightarrow> code = 429 \<or> code = 500"
    and "r = Inr (u, k') \<Longrightarrow> k' = login_key fw rm body \<and>
      (k' = k \<longrightarrow> length (recent (ae_now E) (attempts_of k (g_attempts G))) < 5)"
  using assms
  by (auto simp: login_guard_def login_key_def Let_def login_rate_limit_allow_def recent_def LOGIN_MAX_FAILURES_def
      split: sum.splits prod.splits bool.splits if_splits)

lemma finish_step:
  assumes "login_finish E u k' body G = ((code, r), G')"
  shows "k' \<noteq> k \<Longrightarrow> attempts_of k (g_attempts G') = attempts_of k (g_attempts G)"
    and "code \<noteq> 200 \<Longrightarrow> attempts_of k' (g_attempts G') = attempts_of k' (g_attempts G) @ [ae_now E] \<and> (code = 400 \<or> code = 401)"
  using assms
  by (auto simp: login_finish_def Let_def login_rate_limit_record_failure_def login_rate_limit_reset_def
      split: prod.splits if_splits json.splits option.splits)

definition fails :: "string \<Rightarrow> (real \<times> string \<times> nat) list \<Rightarrow> real list" where
  "fails k tr = map fst (filter (\<lambda>(t, k', c). k' = k \<and> (c = 400 \<or> c = 401)) tr)"

definition window :: "real \<Rightarrow> real list \<Rightarrow> real list" where
  "window s ts = filter (\<lambda>t. s - LOGIN_WINDOW_SECONDS < t \<and> t \<le> s) ts"

lemma fails_Cons:
  "fails k ((t, k', c) # tr) = (if k' = k \<and> (c = 400 \<or> c = 401) then t # fails k tr else fails k tr)"
  by (simp add: fails_def)

lemma recent_append: "recent t (xs @ ys) = recent t xs @ recent t ys"
  by (simp add: recent_def)

lemma window_append: "window t (xs @ ys) = window t xs @ window t ys"
  by (simp add: window_def)

lemma window_le_recent: "t \<le> s \<Longrightarrow> length (window s ts) \<le> length (recent t ts)"
proof -
  assume "t \<le> s"
  then have "window s ts = window s (recent t ts)"
    unfolding window_def recent_def filter_filter by (intro filter_cong) auto
  then show ?thesis by (simp add: window_def)
qed

lemma login_window:
  assumes "\<forall>t\<ge>now. recent t H = recent t (attempts_of k (g_attempts G))"
    and "\<forall>s. length (window s H) \<le> 4 + m" and "\<forall>s\<ge>now. length (window s H) + flying k P \<le> 4 + m"
    and "k \<noteq> []" and "sorted (now # map event_time evs)" and "\<forall>t. (t, k, 200) \<notin> set (login_run evs G P)"
    and "most_flying k evs G P \<le> m"
  shows "length (window s (H @ fails k (login_run evs G P))) \<le> 4 + m"
  using assms
proof (induction evs arbitrary: now H G P)
  case Nil
  then show ?case by (simp add: fails_def)
next
  case (Cons ev evs)
  have t: "now \<le> event_time ev" and sorted': "sorted (event_time ev # map event_time evs)"
    using Cons.prems(5) by auto
  show ?case
  proof (cases ev)
    case (Arrive E fw rm body)
    obtain r G' where call: "login_guard E fw rm body G = (r, G')" by fastforce
    note step = guard_step [OF call Cons.prems(4)]
    have rec: "\<forall>t'\<ge>ae_now E. recent t' H = recent t' (attempts_of k (g_attempts G'))"
      using Cons.prems(1) t Arrive step(1) by (auto simp: recent_recent)
    have late: "\<forall>s\<ge>ae_now E. length (window s H) + flying k P \<le> 4 + m" using Cons.prems(3) t Arrive by auto
    show ?thesis
    proof (cases r)
      case (Inl code)
      then have "code = 429 \<or> code = 500" using step(2) by blast
      moreover have "length (window s (H @ fails k (login_run evs G' P))) \<le> 4 + m"
        by (rule Cons.IH [OF rec Cons.prems(2) late Cons.prems(4)])
          (use sorted' Cons.prems(6,7) Inl call Arrive in auto)
      ultimately show ?thesis using Inl call Arrive by (auto simp: fails_Cons)
    next
      case (Inr uk)
      obtain u k' where uk: "uk = (u, k')" by (cases uk)
      let ?P = "P @ [(u, k', body)]"
      have most: "most_flying k evs G' ?P \<le> m" using Cons.prems(7) Inr uk call Arrive by simp
      then have fly: "flying k ?P \<le> m" using flying_le_most [of k ?P evs G'] by simp
      have "length (window s H) + flying k ?P \<le> 4 + m" if "ae_now E \<le> s" for s
      proof (cases "k' = k")
        case True
        then have "length (recent (ae_now E) H) < 5" using step(3) Inr uk Cons.prems(1) t Arrive by auto
        then show ?thesis using window_le_recent [OF that, of H] fly by linarith
      next
        case False
        then show ?thesis using late that by (simp add: flying_append) (simp add: flying_def)
      qed
      then have "length (window s (H @ fails k (login_run evs G' ?P))) \<le> 4 + m"
        by (intro Cons.IH [OF rec Cons.prems(2) _ Cons.prems(4)])
          (use sorted' Cons.prems(6) most Inr uk call Arrive in auto)
      then show ?thesis using Inr uk call Arrive by simp
    qed
  next
    case (Answer i E)
    show ?thesis
    proof (cases "i < length P")
      case False
      have "length (window s (H @ fails k (login_run evs G P))) \<le> 4 + m"
        by (rule Cons.IH [of "ae_now E"]) (use Cons.prems t sorted' Answer False in auto)
      then show ?thesis using Answer False by simp
    next
      case True
      obtain u k' b where p: "P ! i = (u, k', b)" by (cases "P ! i")
      obtain code r G' where call: "login_finish E u k' b G = ((code, r), G')" by (metis surj_pair)
      let ?P = "take i P @ drop (Suc i) P"
      note step = finish_step [OF call] and out = flying_take_out [OF True p, of k]
      have rec: "\<forall>t'\<ge>ae_now E. recent t' H = recent t' (attempts_of k (g_attempts G))" using Cons.prems(1) t Answer by auto
      have late: "\<forall>s\<ge>ae_now E. length (window s H) + flying k P \<le> 4 + m" using Cons.prems(3) t Answer by auto
      have no200: "k' = k \<Longrightarrow> code \<noteq> 200" "\<forall>t. (t, k, 200) \<notin> set (login_run evs G' ?P)"
        using Cons.prems(6) Answer True p call by auto
      have most: "most_flying k evs G' ?P \<le> m" using Cons.prems(7) Answer True p call by simp
      show ?thesis
      proof (cases "k' = k")
        case k: True
        let ?H = "H @ [ae_now E]"
        have new: "attempts_of k (g_attempts G') = attempts_of k (g_attempts G) @ [ae_now E]" "code = 400 \<or> code = 401"
          using step(2) no200(1) k by auto
        have one: "length (window s ?H) \<le> length (window s H) + 1" for s by (simp add: window_append) (simp add: window_def)
        have early: "length (window s ?H) = length (window s H)" if "s < ae_now E" for s
          using that by (simp add: window_append) (simp add: window_def)
        have "length (window s ?H) + flying k ?P \<le> 4 + m" if "ae_now E \<le> s" for s
          using late that out k one [of s] by fastforce
        moreover from this have "length (window s ?H) \<le> 4 + m" for s
          using early [of s] Cons.prems(2) by (cases "s < ae_now E") (force simp: not_less)+
        moreover have "\<forall>t'\<ge>ae_now E. recent t' ?H = recent t' (attempts_of k (g_attempts G'))"
          using rec new(1) by (simp add: recent_append)
        ultimately have "length (window s (?H @ fails k (login_run evs G' ?P))) \<le> 4 + m"
          by (intro Cons.IH [of "ae_now E"]) (use Cons.prems(4) sorted' no200(2) most Answer in auto)
        then show ?thesis using Answer True p call k new(2) by (simp add: fails_Cons)
      next
        case False
        have "length (window s (H @ fails k (login_run evs G' ?P))) \<le> 4 + m"
          by (rule Cons.IH [of "ae_now E"])
            (use Cons.prems(2,4) sorted' no200(2) most Answer rec late out False step(1) in auto)
        then show ?thesis using Answer True p call False by (simp add: fails_Cons)
      qed
    qed
  qed
qed

text \<open>C9: At most five failed logins a minute, and one more for every login that overlaps another.
  Logins of any clients arrive and are answered in any order, with a clock that does not run
  backwards and no failure on record at the start. As long as none with the same client and
  username succeeds, and at most \<open>m\<close> of them are between the limiter and their answer at
  any time, every window of 60 seconds contains at most \<open>5 + (m - 1)\<close> attempts for them that
  passed the limiter and failed. (The client is what the request's \<open>X-Forwarded-For\<close> header says.)\<close>
theorem login_rate_limited:
  assumes "attempts_of k (g_attempts G) = []" and "k \<noteq> []"
    and "sorted (map event_time evs)" and "\<forall>t. (t, k, 200) \<notin> set (login_run evs G [])"
    and "most_flying k evs G [] \<le> m" and "1 \<le> m"
  shows "length (window s (fails k (login_run evs G []))) \<le> LOGIN_MAX_FAILURES + (m - 1)"
proof -
  obtain now where now: "sorted (now # map event_time evs)"
  proof (cases evs)
    case Nil
    then show thesis by (intro that [of 0]) simp
  next
    case (Cons l ls')
    then show thesis using assms(3) by (intro that [of "event_time l"]) auto
  qed
  have "length (window s ([] @ fails k (login_run evs G []))) \<le> 4 + m"
    by (rule login_window [OF _ _ _ assms(2) now assms(4,5)]) (simp_all add: assms(1) window_def recent_def flying_def)
  then show ?thesis using assms(6) by (simp add: LOGIN_MAX_FAILURES_def)
qed

definition bad_login :: login_event where
  "bad_login = Arrive demo_access None (Some ''ip'') [(''username'', JStr ''Bob''), (''password'', JStr ''no'')]"

definition bad_logins :: "login_event list" where
  \<comment> \<open>six that arrive one after the other, and two together\<close>
  "bad_logins = concat (replicate 4 [bad_login, Answer 0 demo_access]) @
     [bad_login, bad_login, Answer 1 demo_access, Answer 0 demo_access, bad_login, bad_login]"

lemma bad_logins_codes:
  "map (\<lambda>(t, k, c). (k, c)) (login_run bad_logins (open_gate empty_auth) []) =
    replicate 6 (''ip|bob'', 401) @ replicate 2 (''ip|bob'', 429)"
  by code_simp

lemma bad_logins_flying: "most_flying ''ip|bob'' bad_logins (open_gate empty_auth) [] = 2"
  by code_simp

lemma not_in_codes: "map (\<lambda>(t, k, c). (k, c)) tr = ys \<Longrightarrow> (k, c) \<notin> set ys \<Longrightarrow> (t, k, c) \<notin> set tr"
  by force

theorem login_rate_limited_witness:
  "length (window 100 (fails ''ip|bob'' (login_run bad_logins (open_gate empty_auth) []))) \<le> LOGIN_MAX_FAILURES + (2 - 1)"
proof (rule login_rate_limited)
  show "attempts_of ''ip|bob'' (g_attempts (open_gate empty_auth)) = []"
    by (simp add: attempts_of_def open_gate_def)
  show "sorted (map event_time bad_logins)"
    by (simp add: bad_logins_def bad_login_def numeral_eq_Suc)
  show "\<forall>t. (t, ''ip|bob'', 200) \<notin> set (login_run bad_logins (open_gate empty_auth) [])"
    using not_in_codes [OF bad_logins_codes] by simp
qed (simp_all add: bad_logins_flying)

subsection \<open>From a login to a session\<close>

lemma split_space_word:
  "w \<noteq> [] \<Longrightarrow> \<forall>c\<in>set w. \<not> is_space c \<Longrightarrow> split_space w = [w]"
proof (induction w)
  case (Cons c w)
  then show ?case by (cases w) auto
qed simp

lemma bearer_header:
  assumes "w \<noteq> []" "\<forall>c\<in>set w. \<not> is_space c"
  shows "get_token_from_header (Some (''Bearer '' @ w)) = Some w"
proof -
  have sp: "is_space CHR '' ''" "\<not> is_space CHR ''B''" "\<not> is_space CHR ''e''" "\<not> is_space CHR ''a''" "\<not> is_space CHR ''r''"
    by code_simp+
  have "lower ''Bearer'' = ''bearer''" by code_simp
  then show ?thesis
    using split_space_word [OF assms] sp by (simp add: get_token_from_header_def)
qed

lemma us_row_row_to_user: "us_row (row_to_user db (k, r)) = r"
  by (simp add: row_to_user_def)

lemma login_200:
  assumes "api_auth_login E fw rm body G = ((200, Some (a, r)), G')" and wf: "wf_auth (g_db G)"
  obtains name pw k row roles where
    "strip_default body ''username'' = Inr name" "getd body ''password'' (JStr []) = JStr pw"
    "map_of (t_users (g_db G)) k = Some row" "u_name row = name" "u_active row" "ae_checkpw E pw (u_hash row)"
    "a = generate_token (ae_jwt E) (ae_now E) k name roles ''access'' None"
    "g_black G' = g_black G" "g_tokens G' = g_tokens G"
proof -
  from assms(1) obtain name pw us db where b: "strip_default body ''username'' = Inr name"
    "getd body ''password'' (JStr []) = JStr pw"
    and auth: "authenticate (ae_checkpw E) (ae_iso E) name pw (g_db G) = (Some us, db)"
    and tok: "a = generate_token (ae_jwt E) (ae_now E) (us_id us) (u_name (us_row us)) (role_names us db) ''access'' None"
    and frame: "g_black G' = g_black G" "g_tokens G' = g_tokens G"
    by (auto simp: api_auth_login_def login_guard_def login_finish_def Let_def
        split: sum.splits prod.splits bool.splits if_splits json.splits option.splits)
  have "fst (authenticate (ae_checkpw E) (ae_iso E) name pw (g_db G)) = Some us" using auth by simp
  then obtain row where row: "map_of (t_users (g_db G)) (us_id us) = Some row" "u_name row = name" "u_active row"
      "ae_checkpw E pw (u_hash row)"
    using authenticate_user_iff [OF wf, of "ae_checkpw E" "ae_iso E" name pw "us_id us"] by blast
  have "u_name (us_row us) = name"
  proof -
    obtain us0 where "get_user_by_username name (g_db G) = Some us0" "u_name (us_row us) = u_name (us_row us0)"
      using auth by (auto simp: authenticate_def Let_def split: option.splits if_splits)
    then show ?thesis unfolding get_user_by_username_iff [OF wf] by (metis us_row_row_to_user)
  qed
  then show thesis using that b row tok frame by blast
qed

text \<open>C8: A login opens a session of the right user. If a login answers 200, the username and the
  password of the request belong to an active account, and the access token it returns,
  presented as a Bearer header without the internal secret, is accepted as that account's until
  one second before a day later, unless the blacklist has it. This holds for every path except those
  on which a worker's token is tried first: everything under \<^verbatim>\<open>/api/worker/\<close>, and a GET under
  \<^verbatim>\<open>/api/executions/\<close>. (The token is non-empty without spaces, and the JWT library decodes what it
  encoded between issue and expiry.)\<close>
theorem login_opens_session:
  assumes "jwt_laws (ae_jwt E)"
    and "G = G0\<lparr>g_db := fold apply_op ops empty_auth\<rparr>"
    and "fst (api_auth_login E fw rm body G) = (200, Some (token, refresh))"
    and "G1 = snd (api_auth_login E fw rm body G)"
    and "ae_now E \<le> t" and "t + 1 \<le> ae_now E + 86400"
    and "\<not> fst (is_token_blacklisted (ae_black E) (ae_offset E) t token (g_black G))"
    and "rq_internal rq = None" and "rq_auth rq = Some (''Bearer '' @ token)"
    and "token \<noteq> []" and "\<forall>c\<in>set token. \<not> is_space c"
    and "\<not> starts_with (rq_path rq) ''/api/worker/''"
    and "starts_with (rq_path rq) ''/api/executions/'' \<longrightarrow> rq_method rq \<noteq> ''GET''"
  shows "\<exists>pr k row. fst (require_auth (E\<lparr>ae_now := t\<rparr>) rq G1) = Inr pr \<and> pr_user pr = Some k \<and>
    map_of (t_users (g_db G)) k = Some row \<and> u_active row \<and>
    strip_default body ''username'' = Inr (u_name row) \<and>
    (\<exists>pw. getd body ''password'' (JStr []) = JStr pw \<and> ae_checkpw E pw (u_hash row))"
proof -
  have wf: "wf_auth (g_db G)" using assms(2) by (simp add: wf_apply_ops wf_auth_empty)
  have call: "api_auth_login E fw rm body G = ((200, Some (token, refresh)), G1)"
    using assms(3,4) by (metis prod.collapse)
  obtain name pw k row roles where
    b: "strip_default body ''username'' = Inr name" "getd body ''password'' (JStr []) = JStr pw" and
    row: "map_of (t_users (g_db G)) k = Some row" "u_name row = name" "u_active row" "ae_checkpw E pw (u_hash row)" and
    tok: "token = generate_token (ae_jwt E) (ae_now E) k name roles ''access'' None" and
    frame: "g_black G1 = g_black G"
    by (rule login_200 [OF call wf]) blast
  let ?c = "\<lparr>jc_user = k, jc_name = name, jc_roles = roles, jc_type = ''access'',
      jc_exp = \<lfloor>ae_now E + 86400\<rfloor>, jc_iat = \<lfloor>ae_now E\<rfloor>\<rparr>"
  have "token = jw_encode (ae_jwt E) ?c"
    unfolding tok by (simp add: generate_token_def access_minutes_def)
  then have signed: "jw_signed (ae_jwt E) token = Some ?c" using assms(1) by (simp add: jwt_laws_def)
  have "real_of_int (jc_iat ?c) \<le> t" using assms(5) by simp linarith
  moreover have "t < real_of_int (jc_exp ?c)" using assms(6) by simp linarith
  ultimately have dec: "jw_decode (ae_jwt E) t token = Some ?c"
    using assms(1) signed unfolding jwt_laws_def by blast
  have ver: "fst (verify_jwt (ae_jwt E) (ae_black E) (ae_offset E) t token ''access'' (g_black G)) = Some ?c"
    using assms(7) dec by (auto simp: verify_jwt_def split: prod.split bool.split)
  have rt: "request_token rq = Some token"
    using assms(9-11) bearer_header [OF assms(10,11)] by (simp add: request_token_def nonempty_def)
  have "fst (require_auth (E\<lparr>ae_now := t\<rparr>) rq G1) = Inr (user_principal ?c token)"
    using assms(8,12,13) rt ver frame
    by (auto simp: require_auth_def nonempty_def check_session_or_api_def split: prod.splits)
  then show ?thesis using b row by (force simp: user_principal_def)
qed

definition login_env :: auth_env where
  "login_env = demo_access\<lparr>ae_jwt := plain_jwt\<rparr>"

definition login_body :: doc where
  "login_body = [(''username'', JStr '' ann ''), (''password'', JStr ''ann'')]"

definition login_token :: "string \<Rightarrow> string" where
  "login_token ty = enc_claims \<lparr>jc_user = ''u1'', jc_name = ''ann'', jc_roles = [''admin''], jc_type = ty,
     jc_exp = (if ty = ''refresh'' then 604900 else 86500), jc_iat = 100\<rparr>"

lemma login_demo:
  "fst (api_auth_login login_env None (Some ''ip'') login_body (open_gate (fold apply_op demo_ops empty_auth))) =
    (200, Some (login_token ''access'', login_token ''refresh''))"
proof -
  have gen: "generate_token plain_jwt 100 ''u1'' ''ann'' [''admin''] ty None = login_token ty"
    if "ty = ''access'' \<or> ty = ''refresh''" for ty
    using that by (auto simp: generate_token_def plain_jwt_def login_token_def refresh_days_def access_minutes_def)
  have "strip_default login_body ''username'' = Inr ''ann''" "getd login_body ''password'' (JStr []) = JStr ''ann''"
    "validate_username (JStr ''ann'') = None"
    by code_simp+
  moreover have "(case authenticate demo_checkpw ''t9'' ''ann'' ''ann'' (fold apply_op demo_ops empty_auth) of
      (None, db) \<Rightarrow> None | (Some us, db) \<Rightarrow> Some (us_id us, u_name (us_row us), role_names us db))
    = Some (''u1'', ''ann'', [''admin''])"
    by code_simp
  then obtain us db where "authenticate demo_checkpw ''t9'' ''ann'' ''ann'' (fold apply_op demo_ops empty_auth) = (Some us, db)"
    "us_id us = ''u1''" "u_name (us_row us) = ''ann''" "role_names us db = [''admin'']"
    by (auto split: prod.splits option.splits)
  ultimately show ?thesis
    using gen by (simp add: api_auth_login_def login_guard_def login_finish_def login_env_def demo_access_def open_gate_def Let_def
      login_rate_limit_allow_def attempts_of_def LOGIN_MAX_FAILURES_def)
qed

lemma login_token_chars: "login_token ty \<noteq> []" "\<forall>c\<in>set (login_token ''access''). \<not> is_space c"
  by (auto simp: login_token_def enc_claims_def enc_string_def enc_int_def is_space_def char_in_def)

theorem login_opens_session_witness:
  "\<exists>pr. fst (require_auth (login_env\<lparr>ae_now := 80000\<rparr>)
      ((session_request ''/api/users'')\<lparr>rq_auth := Some (''Bearer '' @ login_token ''access'')\<rparr>)
      (snd (api_auth_login login_env None (Some ''ip'') login_body (open_gate (fold apply_op demo_ops empty_auth))))) = Inr pr"
proof -
  have E: "jwt_laws (ae_jwt login_env)" "ae_now login_env = 100"
    by (simp_all add: login_env_def plain_jwt_laws demo_access_def)
  have G: "open_gate (fold apply_op demo_ops empty_auth) = (open_gate empty_auth)\<lparr>g_db := fold apply_op demo_ops empty_auth\<rparr>"
    by (simp add: open_gate_def)
  show ?thesis
    using login_opens_session [OF E(1) G login_demo refl, of 80000
        "(session_request ''/api/users'')\<lparr>rq_auth := Some (''Bearer '' @ login_token ''access'')\<rparr>"] login_token_chars
    by (auto simp: E(2) session_request_def starts_with_def is_token_blacklisted_def load_token_blacklist_def
        open_gate_def)
qed

end
