(* ===== verification/CloudState.thy ===== *)
theory CloudState
  imports Middleware
begin

section \<open>State of cloud stacks: lock, versions, backend\<close>

text \<open>
  \<^verbatim>\<open>server/services/cloud_state.py\<close>. A stack has two directories: the one of its files (the
  state file, the pulled state, \<^verbatim>\<open>backend.hcl\<close>) and the one of its data (the lock, the saved
  versions with their index, the audit trail). Both are the record \<open>stack\<close>. The JSON parser on
  the text of a state file (\<open>loads\<close>), the hash (\<open>sha\<close>), the clock and fresh ids are arguments.
\<close>

definition MUTATING_ACTIONS :: "string list" where
  "MUTATING_ACTIONS = [''apply'', ''destroy'', ''refresh'']"

definition TERMINAL_STATUSES :: "string list" where
  "TERMINAL_STATUSES = [''SUCCESS'', ''FAILED'', ''CANCELED'', ''ERROR'', ''TIMEOUT'', ''STALLED'']"

definition MAX_VERSIONS :: nat where "MAX_VERSIONS = 50"

definition BACKEND_FIELDS :: "string list" where
  "BACKEND_FIELDS = [''bucket'', ''key'', ''region'', ''endpoint'', ''profile'', ''prefix'']"

record stack =
  st_tfstate :: "string option"
  st_pulled :: "string option"
  st_backup :: "string option"
  st_hcl :: "string option"
  st_tf :: "string option"
  st_lock :: "jfile option"
  st_index :: "doc list option"                      \<comment> \<open>\<open>None\<close>: missing or not a list\<close>
  st_vfiles :: "(string \<times> string) list"
  st_audit :: "doc list"

definition state_source :: "stack \<Rightarrow> (string \<times> string) option" where
  "state_source s =
    (case st_tfstate s of
       Some raw \<Rightarrow> Some (''terraform.tfstate'', raw)
     | None \<Rightarrow> map_option (\<lambda>raw. (''terraform.tfstate.json'', raw)) (st_pulled s))"

fun count_instances :: "json list \<Rightarrow> real res" where
  "count_instances [] = Inr 0"
| "count_instances (r # rs) =
    (case r of
       JObj d \<Rightarrow>
         (let n = (case py_or (dget d ''instances'') (JArr []) of
                     JArr xs \<Rightarrow> Inr (real (length xs))
                   | JStr x \<Rightarrow> Inr (real (length x))
                   | JObj x \<Rightarrow> Inr (real (length x))
                   | _ \<Rightarrow> Inl TypeError)
          in (case (n, count_instances rs) of
                (Inl e, _) \<Rightarrow> Inl e
              | (Inr _, Inl e) \<Rightarrow> Inl e
              | (Inr a, Inr b) \<Rightarrow> Inr (a + b)))
     | _ \<Rightarrow> Inl AttributeError)"

definition summarize_state :: "(string \<Rightarrow> json option) \<Rightarrow> string \<Rightarrow> doc res" where
  \<comment> \<open>only the parsing is guarded: a state of another shape raises\<close>
  "summarize_state loads raw =
    (case loads raw of
       None \<Rightarrow> Inr [(''serial'', JNull), (''lineage'', JNull), (''resource_count'', JNum 0), (''tofu_version'', JNull)]
     | Some (JObj state) \<Rightarrow>
         (let count = (case py_or (dget state ''resources'') (JArr []) of
                         JArr rs \<Rightarrow> count_instances rs
                       | JStr x \<Rightarrow> Inl AttributeError
                       | JObj x \<Rightarrow> Inl AttributeError
                       | _ \<Rightarrow> Inl TypeError)
          in map_sum (\<lambda>e. e) (\<lambda>n. [(''serial'', dget state ''serial''), (''lineage'', dget state ''lineage''),
                                    (''resource_count'', JNum n),
                                    (''tofu_version'', dget state ''terraform_version'')]) count)
     | Some _ \<Rightarrow> Inl AttributeError)"

subsection \<open>Audit trail\<close>

definition append_audit :: "string \<Rightarrow> string \<Rightarrow> string \<Rightarrow> doc \<Rightarrow> stack \<Rightarrow> stack" where
  "append_audit ts event actor extra s =
    s\<lparr>st_audit := st_audit s @
        [[(''at'', JStr ts), (''event'', JStr event),
          (''actor'', JStr (if actor = [] then ''unknown'' else actor))] @ extra]\<rparr>"

definition read_audit :: "nat \<Rightarrow> stack \<Rightarrow> doc list" where
  \<comment> \<open>\<^verbatim>\<open>lines[-limit:]\<close>; \<open>-0\<close> is the whole list\<close>
  "read_audit limit s =
    rev (if limit = 0 then st_audit s else drop (length (st_audit s) - limit) (st_audit s))"

subsection \<open>Locking\<close>

definition drop_lock :: "string \<Rightarrow> doc \<Rightarrow> string \<Rightarrow> bool \<Rightarrow> string \<Rightarrow> stack \<Rightarrow> stack" where
  \<comment> \<open>the second half of a release, after the look at the lock; a file that is gone by then raises\<close>
  "drop_lock ts lock actor force reason s =
    (if st_lock s = None then s
     else append_audit ts (if force then ''lock.forced'' else ''lock.released'') actor
            [(''lock_id'', dget lock ''id''), (''previous_owner'', dget lock ''who''),
             (''operation'', dget lock ''operation''), (''reason'', JStr reason)]
            (s\<lparr>st_lock := None\<rparr>))"

definition release_lock ::
  "bool \<Rightarrow> string \<Rightarrow> json \<Rightarrow> string \<Rightarrow> bool \<Rightarrow> string \<Rightarrow> stack \<Rightarrow> (bool \<times> bool) \<times> stack" where
  \<comment> \<open>the fields \<open>ok\<close> and \<open>released\<close>; \<open>removable\<close>: whether the lock file can be unlinked\<close>
  "release_lock removable ts lock_id actor force reason s =
    (case st_lock s of
       None \<Rightarrow> ((True, False), s)
     | Some f \<Rightarrow>
         (let lock = (case f of Doc d \<Rightarrow> d | Corrupt \<Rightarrow> [])
          in if truthy lock_id \<and> truthy (dget lock ''id'') \<and> lock_id \<noteq> dget lock ''id'' \<and> \<not> force
             then ((False, False), s)
             else if \<not> removable then ((False, False), s)
             else ((True, True), drop_lock ts lock actor force reason s)))"

definition run_status :: "(json \<Rightarrow> string) \<Rightarrow> (json \<Rightarrow> doc option res) option \<Rightarrow> json \<Rightarrow> string option" where
  \<comment> \<open>the upper-case status of the run that holds the lock; \<open>None\<close>: not looked up, or the look-up raised\<close>
  "run_status str getx run_id =
    (case getx of
       None \<Rightarrow> None
     | Some get \<Rightarrow>
         if \<not> truthy run_id then None
         else (case get run_id of
                 Inl _ \<Rightarrow> None
               | Inr exe \<Rightarrow>
                   Some (upper (case py_or (dget (case exe of None \<Rightarrow> [] | Some d \<Rightarrow> d) ''status'') (JStr []) of
                                  JStr t \<Rightarrow> t | j \<Rightarrow> str j))))"

definition read_lock ::
  "(json \<Rightarrow> string) \<Rightarrow> bool \<Rightarrow> real \<Rightarrow> string \<Rightarrow> (json \<Rightarrow> doc option res) option \<Rightarrow> stack \<Rightarrow> doc option \<times> stack" where
  \<comment> \<open>a lock whose run has ended is released on the way\<close>
  "read_lock str removable now ts getx s =
    (case st_lock s of
       Some (Doc lock) \<Rightarrow>
         (case run_status str getx (dget lock ''run_id'') of
            Some status \<Rightarrow>
              if status \<in> set TERMINAL_STATUSES then
                (None, snd (release_lock removable ts (dget lock ''id'') ''system'' False
                              (''run '' @ lower status) s))
              else (Some (dset lock ''held_seconds''
                     (JNum (case num_of (py_or (dget lock ''created_ts'') (JNum 0)) of
                              None \<Rightarrow> 0 | Some t \<Rightarrow> max 0 (real_of_int (py_int (now - t)))))), s)
          | None \<Rightarrow>
              (Some (dset lock ''held_seconds''
                 (JNum (case num_of (py_or (dget lock ''created_ts'') (JNum 0)) of
                          None \<Rightarrow> 0 | Some t \<Rightarrow> max 0 (real_of_int (py_int (now - t)))))), s))
     | _ \<Rightarrow> (None, s))"

definition new_lock :: "real \<Rightarrow> string \<Rightarrow> string \<Rightarrow> string \<Rightarrow> string \<Rightarrow> json \<Rightarrow> string \<Rightarrow> doc" where
  "new_lock now ts lock_id actor operation run_id note =
    [(''id'', JStr lock_id), (''who'', JStr (if actor = [] then ''unknown'' else actor)),
     (''operation'', JStr operation), (''run_id'', run_id), (''note'', JStr note),
     (''created_at'', JStr ts), (''created_ts'', JNum now)]"

definition take_lock ::
  "real \<Rightarrow> string \<Rightarrow> string \<Rightarrow> string \<Rightarrow> string \<Rightarrow> json \<Rightarrow> string \<Rightarrow> stack \<Rightarrow> stack" where
  \<comment> \<open>the second half of an acquisition: the lock file is written whatever is there by now\<close>
  "take_lock now ts lock_id actor operation run_id note s =
    append_audit ts ''lock.acquired'' actor
      [(''operation'', JStr operation), (''run_id'', run_id), (''lock_id'', JStr lock_id), (''note'', JStr note)]
      (s\<lparr>st_lock := Some (Doc (new_lock now ts lock_id actor operation run_id note))\<rparr>)"

definition acquire_lock ::
  "(json \<Rightarrow> string) \<Rightarrow> bool \<Rightarrow> real \<Rightarrow> string \<Rightarrow> (json \<Rightarrow> doc option res) option \<Rightarrow> string \<Rightarrow> string \<Rightarrow> string
   \<Rightarrow> json \<Rightarrow> string \<Rightarrow> stack \<Rightarrow> (bool \<times> doc) \<times> stack" where
  \<comment> \<open>\<open>ok\<close> and the lock that is held\<close>
  "acquire_lock str removable now ts getx lock_id actor operation run_id note s =
    (case read_lock str removable now ts getx s of
       (Some existing, s1) \<Rightarrow> ((False, existing), s1)
     | (None, s1) \<Rightarrow>
         ((True, new_lock now ts lock_id actor operation run_id note),
          take_lock now ts lock_id actor operation run_id note s1))"

subsection \<open>Versions\<close>

definition list_versions :: "stack \<Rightarrow> doc list" where
  "list_versions s = (case st_index s of None \<Rightarrow> [] | Some vs \<Rightarrow> vs)"

definition noted_runs :: "doc \<Rightarrow> string \<Rightarrow> json list" where
  \<comment> \<open>the run ids of the newest version with this run added\<close>
  "noted_runs v run_id =
    (let ids = (case py_or (dget v ''run_ids'') (JArr []) of JArr xs \<Rightarrow> xs | _ \<Rightarrow> []);
         ids = (if truthy (dget v ''run_id'') \<and> dget v ''run_id'' \<notin> set ids then ids @ [dget v ''run_id''] else ids)
     in if JStr run_id \<notin> set ids then ids @ [JStr run_id] else ids)"

definition new_version ::
  "string \<Rightarrow> string \<Rightarrow> string \<Rightarrow> string \<Rightarrow> string option \<Rightarrow> string \<Rightarrow> string \<Rightarrow> string \<Rightarrow> doc \<Rightarrow> doc" where
  "new_version ts vid actor reason run_id raw digest source summary =
    [(''id'', JStr vid), (''created_at'', JStr ts), (''actor'', JStr (if actor = [] then ''system'' else actor)),
     (''reason'', JStr reason), (''run_id'', case run_id of None \<Rightarrow> JNull | Some r \<Rightarrow> JStr r),
     (''run_ids'', JArr (case run_id of None \<Rightarrow> [] | Some r \<Rightarrow> if r = [] then [] else [JStr r])),
     (''size_bytes'', JNum (real (length raw))), (''sha256'', JStr digest), (''source'', JStr source)] @ summary"

definition drop_files :: "doc list \<Rightarrow> (string \<times> string) list \<Rightarrow> (string \<times> string) list" where
  \<comment> \<open>unlink the files of the pruned versions; what fails is skipped\<close>
  "drop_files old files =
    fold (\<lambda>v fs. case dget v ''id'' of JStr i \<Rightarrow> AList.delete i fs | _ \<Rightarrow> fs) old files"

definition store_version ::
  "(string \<Rightarrow> json option) \<Rightarrow> string \<Rightarrow> string \<Rightarrow> string \<Rightarrow> string \<Rightarrow> string option \<Rightarrow> string \<Rightarrow> string \<Rightarrow> string
   \<Rightarrow> stack \<Rightarrow> doc option res \<times> stack" where
  \<comment> \<open>\<open>stamp\<close>: the text of the time in milliseconds. The file is written before the summary is made\<close>
  "store_version loads stamp ts actor reason run_id raw digest source s =
    (let vid = stamp @ ''-'' @ take 8 digest;
         s1 = s\<lparr>st_vfiles := AList.update vid raw (st_vfiles s)\<rparr>
     in (case summarize_state loads raw of
           Inl e \<Rightarrow> (Inl e, s1)
         | Inr summary \<Rightarrow>
             (let entry = new_version ts vid actor reason run_id raw digest source summary;
                  versions = entry # list_versions s;
                  s2 = s1\<lparr>st_vfiles := drop_files (drop MAX_VERSIONS versions) (st_vfiles s1),
                          st_index := Some (take MAX_VERSIONS versions)\<rparr>
              in (Inr (Some entry),
                  append_audit ts ''state.snapshot'' actor
                    [(''version_id'', JStr vid), (''reason'', JStr reason),
                     (''run_id'', case run_id of None \<Rightarrow> JNull | Some r \<Rightarrow> JStr r),
                     (''serial'', dget entry ''serial''), (''resource_count'', dget entry ''resource_count'')] s2))))"

definition snapshot_state ::
  "(string \<Rightarrow> json option) \<Rightarrow> (string \<Rightarrow> string) \<Rightarrow> string \<Rightarrow> string \<Rightarrow> string \<Rightarrow> string \<Rightarrow> string option \<Rightarrow> stack
   \<Rightarrow> doc option res \<times> stack" where
  "snapshot_state loads sha stamp ts actor reason run_id s =
    (case state_source s of
       None \<Rightarrow> (Inr None, s)
     | Some (source, raw) \<Rightarrow>
         (case list_versions s of
            v # vs \<Rightarrow>
              if dget v ''sha256'' = JStr (sha raw) then
                (case nonempty run_id of
                   None \<Rightarrow> (Inr None, s)
                 | Some r \<Rightarrow> (let v' = dset v ''run_ids'' (JArr (noted_runs v r))
                             in (Inr (Some v'), s\<lparr>st_index := Some (v' # vs)\<rparr>)))
              else store_version loads stamp ts actor reason run_id raw (sha raw) source s
          | [] \<Rightarrow> store_version loads stamp ts actor reason run_id raw (sha raw) source s))"

definition version_id_ok :: "string \<Rightarrow> bool" where
  \<comment> \<open>\<^verbatim>\<open>^[A-Za-z0-9._-]+$\<close>; \<^verbatim>\<open>$\<close> also matches before a final newline\<close>
  "version_id_ok i =
    (rx [Many (word_char ''._-'')] i \<or>
     (i \<noteq> [] \<and> last i = CHR 0x0A \<and> rx [Many (word_char ''._-'')] (butlast i)))"

definition rollback_state ::
  "(string \<Rightarrow> json option) \<Rightarrow> (string \<Rightarrow> string) \<Rightarrow> string \<Rightarrow> string \<Rightarrow> string \<Rightarrow> string \<Rightarrow> stack \<Rightarrow> bool res \<times> stack" where
  \<comment> \<open>the field \<open>ok\<close>; the snapshot before the restore may prune the very version that is asked for\<close>
  "rollback_state loads sha stamp ts version_id actor s =
    (if \<not> version_id_ok version_id \<or> map_of (st_vfiles s) version_id = None then (Inr False, s)
     else (case snapshot_state loads sha stamp ts actor ''pre-rollback'' None s of
             (Inl e, s1) \<Rightarrow> (Inl e, s1)
           | (Inr _, s1) \<Rightarrow>
               (case map_of (st_vfiles s1) version_id of
                  None \<Rightarrow> (Inr False, s1)
                | Some raw \<Rightarrow>
                    (let s2 = s1\<lparr>st_backup := (case st_tfstate s1 of None \<Rightarrow> st_backup s1 | Some old \<Rightarrow> Some old),
                                st_tfstate := Some raw\<rparr>
                     in (case summarize_state loads raw of
                           Inl e \<Rightarrow> (Inl e, s2)
                         | Inr summary \<Rightarrow>
                             (Inr True, append_audit ts ''state.rollback'' actor
                                          ((''version_id'', JStr version_id) # summary) s2))))))"

subsection \<open>Backend configuration\<close>

definition is_break :: "char \<Rightarrow> bool" where
  \<comment> \<open>the line boundaries of \<open>str.splitlines\<close> in ASCII\<close>
  "is_break c = (char_in 10 13 c \<or> char_in 28 30 c)"

fun splitlines :: "string \<Rightarrow> string \<Rightarrow> string list" where
  \<comment> \<open>the first argument is the current line, reversed. A carriage return with a newline makes
     an extra empty line here, which carries no setting\<close>
  "splitlines acc [] = (if acc = [] then [] else [rev acc])"
| "splitlines acc (c # s) = (if is_break c then rev acc # splitlines [] s else splitlines (c # acc) s)"

definition hcl_value :: "string \<Rightarrow> string option" where
  \<comment> \<open>\<^verbatim>\<open>"?([^"\n]*)"?\s*$\<close> after the equals sign and its spaces\<close>
  "hcl_value r =
    (let r1 = (case r of [] \<Rightarrow> [] | c # t \<Rightarrow> if c = CHR ''\"'' then t else r);
         v = takeWhile (\<lambda>c. c \<noteq> CHR ''\"'') r1; rest = dropWhile (\<lambda>c. c \<noteq> CHR ''\"'') r1
     in if list_all is_space (drop 1 rest) then Some v else None)"

definition hcl_line :: "string \<Rightarrow> (string \<times> string) option" where
  \<comment> \<open>\<^verbatim>\<open>^\s*([A-Za-z0-9_]+)\s*=\s*"?([^"\n]*)"?\s*$\<close>; each repetition stops where it must\<close>
  "hcl_line line =
    (let l = dropWhile is_space line; key = takeWhile (word_char ''_'') l;
         l1 = dropWhile is_space (dropWhile (word_char ''_'') l)
     in if key = [] then None
        else (case l1 of
                [] \<Rightarrow> None
              | c # t \<Rightarrow> if c \<noteq> CHR ''='' then None
                         else map_option (\<lambda>v. (key, v)) (hcl_value (dropWhile is_space t))))"

fun hcl_values :: "string list \<Rightarrow> (string \<times> string) list \<Rightarrow> (string \<times> string) list" where
  "hcl_values [] m = m"
| "hcl_values (l # ls) m =
    (if starts_with (strip l) ''#'' then hcl_values ls m
     else (case hcl_line l of None \<Rightarrow> hcl_values ls m | Some (k, v) \<Rightarrow> hcl_values ls (AList.update k v m)))"

fun find_backend :: "string \<Rightarrow> string option" where
  \<comment> \<open>the first match of \<^verbatim>\<open>backend\s+"([a-z0-9]+)"\<close>\<close>
  "find_backend [] = None"
| "find_backend (c # s) =
    (let t = drop 7 (c # s); r = dropWhile is_space t;
         name = takeWhile (\<lambda>c. is_lower c \<or> is_digit c) (drop 1 r);
         rest = drop (Suc (length name)) r
     in if starts_with (c # s) ''backend'' \<and> r \<noteq> t \<and> take 1 r = ''\"'' \<and> name \<noteq> [] \<and> take 1 rest = ''\"''
        then Some name else find_backend s)"

record backend_view =
  bv_type :: string
  bv_configured :: bool
  bv_placeholder :: bool
  bv_values :: "(string \<times> string) list"
  bv_raw :: string

definition read_backend_config :: "stack \<Rightarrow> backend_view" where
  "read_backend_config s =
    (let raw = (case st_hcl s of None \<Rightarrow> [] | Some t \<Rightarrow> t);
         values = hcl_values (splitlines [] raw) [];
         placeholder = list_ex (\<lambda>(k, v). starts_with v ''REPLACE_ME'') values;
         picked = List.map_filter (\<lambda>k. map_option (\<lambda>v. (k, v)) (map_of values k)) BACKEND_FIELDS
     in \<lparr>bv_type = (case st_tf s of
                       None \<Rightarrow> ''local''
                     | Some t \<Rightarrow> (case find_backend t of None \<Rightarrow> ''local'' | Some b \<Rightarrow> b)),
         bv_configured = (values \<noteq> [] \<and> \<not> placeholder), bv_placeholder = placeholder,
         bv_values = (if picked \<noteq> [] then picked else values), bv_raw = raw\<rparr>)"

fun clean_backend :: "(json \<Rightarrow> string) \<Rightarrow> doc \<Rightarrow> string list \<Rightarrow> (string \<times> string) list option" where
  "clean_backend str values [] = Some []"
| "clean_backend str values (k # ks) =
    (if dget values k = JNull then clean_backend str values ks
     else (let v = strip (case dget values k of JStr t \<Rightarrow> t | j \<Rightarrow> str j)
           in if v = [] then clean_backend str values ks
              else if CHR 0x0A \<in> set v \<or> CHR ''\"'' \<in> set v then None
              else map_option ((#) (k, v)) (clean_backend str values ks)))"

definition hcl_text :: "(string \<times> string) list \<Rightarrow> string" where
  \<comment> \<open>every line ends in a newline; the dash of the comment is not ASCII in the source\<close>
  "hcl_text clean =
    concat (map (\<lambda>l. l @ [CHR 0x0A])
      ([''# OpenTofu backend config - managed from the OpenSible console.'', []] @
       map (\<lambda>(k, v). k @ '' = '' @ [CHR ''\"''] @ v @ [CHR ''\"'']) clean))"

definition write_backend_config ::
  "(json \<Rightarrow> string) \<Rightarrow> string \<Rightarrow> doc \<Rightarrow> string \<Rightarrow> stack \<Rightarrow> backend_view option \<times> stack" where
  \<comment> \<open>\<open>None\<close>: refused\<close>
  "write_backend_config str ts values actor s =
    (case clean_backend str values BACKEND_FIELDS of
       None \<Rightarrow> (None, s)
     | Some [] \<Rightarrow> (None, s)
     | Some clean \<Rightarrow>
         (let s1 = append_audit ts ''backend.updated'' actor
                     [(''fields'', JArr (map JStr (sort (map fst clean))))] (s\<lparr>st_hcl := Some (hcl_text clean)\<rparr>)
          in (Some (read_backend_config s1), s1)))"

subsection \<open>Handlers\<close>

text \<open>
  The handlers that change state; \<open>found\<close> is whether the stack name is valid and its directory
  exists. Each returns its status code.
\<close>

definition text_field :: "(json \<Rightarrow> string) \<Rightarrow> doc \<Rightarrow> string \<Rightarrow> string \<Rightarrow> string" where
  \<comment> \<open>\<^verbatim>\<open>str(body.get(k) or default)\<close>\<close>
  "text_field str body k dflt =
    (case py_or (dget body k) (JStr dflt) of JStr t \<Rightarrow> t | j \<Rightarrow> str j)"

definition state_lock_post ::
  "(json \<Rightarrow> string) \<Rightarrow> bool \<Rightarrow> real \<Rightarrow> string \<Rightarrow> (json \<Rightarrow> doc option res) option \<Rightarrow> string \<Rightarrow> string \<Rightarrow> bool \<Rightarrow> doc
   \<Rightarrow> stack \<Rightarrow> nat \<times> stack" where
  "state_lock_post str removable now ts getx lock_id actor found body s =
    (if \<not> found then (404, s)
     else (case acquire_lock str removable now ts getx lock_id actor
                  (take 40 (text_field str body ''operation'' ''manual'')) JNull
                  (take 300 (text_field str body ''note'' [])) s of
             ((True, _), s1) \<Rightarrow> (201, s1)
           | ((False, _), s1) \<Rightarrow> (409, s1)))"

definition state_lock_delete ::
  "bool \<Rightarrow> string \<Rightarrow> string \<Rightarrow> bool \<Rightarrow> (string \<times> string) list \<Rightarrow> stack \<Rightarrow> nat \<times> stack" where
  "state_lock_delete removable ts actor found args s =
    (if \<not> found then (404, s)
     else (let arg = (\<lambda>k. case map_of args k of None \<Rightarrow> [] | Some v \<Rightarrow> v)
           in (case release_lock removable ts
                      (case nonempty (map_of args ''lock_id'') of None \<Rightarrow> JNull | Some i \<Rightarrow> JStr i) actor
                      (lower (arg ''force'') \<in> {''1'', ''true'', ''yes''}) (arg ''reason'') s of
                 ((True, _), s1) \<Rightarrow> (200, s1)
               | ((False, _), s1) \<Rightarrow> (409, s1))))"

definition state_versions_post ::
  "(string \<Rightarrow> json option) \<Rightarrow> (string \<Rightarrow> string) \<Rightarrow> string \<Rightarrow> string \<Rightarrow> string \<Rightarrow> bool \<Rightarrow> stack \<Rightarrow> nat \<times> stack" where
  "state_versions_post loads sha stamp ts actor found s =
    (if \<not> found then (404, s)
     else (case snapshot_state loads sha stamp ts actor ''manual'' None s of
             (Inl _, s1) \<Rightarrow> (500, s1)
           | (Inr None, s1) \<Rightarrow> (409, s1)
           | (Inr (Some _), s1) \<Rightarrow> (201, s1)))"

definition state_version_rollback ::
  "(json \<Rightarrow> string) \<Rightarrow> bool \<Rightarrow> real \<Rightarrow> (string \<Rightarrow> json option) \<Rightarrow> (string \<Rightarrow> string) \<Rightarrow> string \<Rightarrow> string
   \<Rightarrow> (json \<Rightarrow> doc option res) option \<Rightarrow> string \<Rightarrow> bool \<Rightarrow> string \<Rightarrow> string \<Rightarrow> doc \<Rightarrow> stack \<Rightarrow> nat \<times> stack" where
  "state_version_rollback str removable now loads sha stamp ts getx actor found name version_id body s =
    (if \<not> found then (404, s)
     else if strip (text_field str body ''confirm'' []) \<noteq> name then (400, s)
     else (case read_lock str removable now ts getx s of
             (Some _, s1) \<Rightarrow> (409, s1)
           | (None, s1) \<Rightarrow>
               (case rollback_state loads sha stamp ts version_id actor s1 of
                  (Inl _, s2) \<Rightarrow> (500, s2)
                | (Inr True, s2) \<Rightarrow> (200, s2)
                | (Inr False, s2) \<Rightarrow> (400, s2))))"

definition state_backend_put ::
  "(json \<Rightarrow> string) \<Rightarrow> string \<Rightarrow> string \<Rightarrow> bool \<Rightarrow> doc \<Rightarrow> stack \<Rightarrow> nat \<times> stack" where
  "state_backend_put str ts actor found body s =
    (if \<not> found then (404, s)
     else (case write_backend_config str ts
                  (case dget body ''values'' of JObj values \<Rightarrow> values | _ \<Rightarrow> body) actor s of
             (None, s1) \<Rightarrow> (400, s1)
           | (Some _, s1) \<Rightarrow> (200, s1)))"

end
