(* ===== verification/CloudStateProps.thy ===== *)
theory CloudStateProps
  imports CloudState
begin

section \<open>Properties of the state of cloud stacks\<close>

text \<open>
  The saved versions form a consistent history (\<open>wf_stack\<close>): at most \<open>MAX_VERSIONS\<close> entries
  with distinct ids, each with its file and the hash of that file. It is kept by every
  operation as long as the millisecond stamps of the new versions are new. A rollback can be
  undone; the lock excludes those that come later; the backend settings are read back as they were written.
\<close>

subsection \<open>The history of versions\<close>

definition version_ok :: "(string \<Rightarrow> string) \<Rightarrow> (string \<times> string) list \<Rightarrow> doc \<Rightarrow> bool" where
  "version_ok sha files v =
    (case dget v ''id'' of
       JStr i \<Rightarrow> (case map_of files i of None \<Rightarrow> False | Some raw \<Rightarrow> dget v ''sha256'' = JStr (sha raw))
     | _ \<Rightarrow> False)"

definition stamp_of :: "string \<Rightarrow> string" where
  "stamp_of vid = takeWhile (\<lambda>c. c \<noteq> CHR ''-'') vid"

definition wf_stack :: "(string \<Rightarrow> string) \<Rightarrow> string set \<Rightarrow> stack \<Rightarrow> bool" where
  \<comment> \<open>\<open>used\<close>: the stamps of the version files\<close>
  "wf_stack sha used s =
    (length (list_versions s) \<le> MAX_VERSIONS \<and> distinct (map (\<lambda>v. dget v ''id'') (list_versions s)) \<and>
     (\<forall>v\<in>set (list_versions s). version_ok sha (st_vfiles s) v) \<and>
     (\<forall>i\<in>fst ` set (st_vfiles s). stamp_of i \<in> used))"

lemma version_okE:
  assumes "version_ok sha files v"
  obtains i raw where "dget v ''id'' = JStr i" "map_of files i = Some raw" "dget v ''sha256'' = JStr (sha raw)"
  using assms by (auto simp: version_ok_def split: json.splits option.splits)

lemma version_okI:
  "dget v ''id'' = JStr i \<Longrightarrow> map_of files i = Some raw \<Longrightarrow> dget v ''sha256'' = JStr (sha raw) \<Longrightarrow>
   version_ok sha files v"
  by (simp add: version_ok_def)

lemma version_ok_runs [simp]: "version_ok sha files (dset v ''run_ids'' x) = version_ok sha files v"
  by (auto simp: version_ok_def split: json.splits option.splits)

lemma map_of_drop_files:
  "map_of (drop_files old files) i =
    (if JStr i \<in> (\<lambda>v. dget v ''id'') ` set old then None else map_of files i)"
proof (induction old arbitrary: files)
  case Nil
  then show ?case by (simp add: drop_files_def)
next
  case (Cons v old)
  have "drop_files (v # old) files =
      drop_files old (case dget v ''id'' of JStr j \<Rightarrow> AList.delete j files | _ \<Rightarrow> files)"
    by (simp add: drop_files_def)
  then show ?case using Cons.IH by (auto simp: delete_conv' split: json.splits)
qed

lemma keys_drop_files: "fst ` set (drop_files old files) \<subseteq> fst ` set files"
proof
  fix i assume "i \<in> fst ` set (drop_files old files)"
  then have "map_of (drop_files old files) i \<noteq> None" by (simp add: map_of_eq_None_iff)
  then have "map_of files i \<noteq> None" by (simp add: map_of_drop_files split: if_splits)
  then show "i \<in> fst ` set files" by (simp add: map_of_eq_None_iff)
qed

lemma list_versions_simps [simp]:
  "list_versions (append_audit ts e a x s) = list_versions s"
  "list_versions (s\<lparr>st_vfiles := f, st_index := Some vs\<rparr>) = vs"
  "list_versions (s\<lparr>st_index := Some vs\<rparr>) = vs"
  "list_versions (s\<lparr>st_backup := b, st_tfstate := t\<rparr>) = list_versions s"
  "list_versions (s\<lparr>st_tfstate := t\<rparr>) = list_versions s"
  "list_versions (s\<lparr>st_backup := b\<rparr>) = list_versions s"
  "list_versions (s\<lparr>st_vfiles := f\<rparr>) = list_versions s"
  "list_versions (s\<lparr>st_lock := l\<rparr>) = list_versions s"
  by (simp_all add: list_versions_def append_audit_def)

lemma vfiles_append_audit [simp]: "st_vfiles (append_audit ts e a x s) = st_vfiles s"
  by (simp add: append_audit_def)

lemma tfstate_append_audit [simp]: "st_tfstate (append_audit ts e a x s) = st_tfstate s"
  by (simp add: append_audit_def)

lemma new_version_simps [simp]:
  "dget (new_version ts vid actor reason run_id raw digest source summary) ''id'' = JStr vid"
  "dget (new_version ts vid actor reason run_id raw digest source summary) ''sha256'' = JStr digest"
  by (simp_all add: new_version_def)

lemma stamp_of_vid [simp]: "CHR ''-'' \<notin> set stamp \<Longrightarrow> stamp_of (stamp @ CHR ''-'' # x) = stamp"
  by (induction stamp) (auto simp: stamp_of_def)

lemma wf_mono: "wf_stack sha used s \<Longrightarrow> used \<subseteq> used' \<Longrightarrow> wf_stack sha used' s"
  by (auto simp: wf_stack_def)

lemma wf_fresh_vid:
  assumes "wf_stack sha used s" "stamp \<notin> used" "CHR ''-'' \<notin> set stamp"
  shows "map_of (st_vfiles s) (stamp @ ''-'' @ d) = None"
  using assms by (force simp: wf_stack_def map_of_eq_None_iff)

lemma wf_store_version:
  assumes wf: "wf_stack sha used s" and new: "stamp \<notin> used" "CHR ''-'' \<notin> set stamp"
  shows "wf_stack sha (insert stamp used) (snd (store_version loads stamp ts actor reason run_id raw (sha raw) source s))"
proof -
  define vid where "vid = stamp @ ''-'' @ take 8 (sha raw)"
  define files where "files = AList.update vid raw (st_vfiles s)"
  have fresh: "map_of (st_vfiles s) vid = None" unfolding vid_def by (rule wf_fresh_vid [OF wf new])
  have keys: "\<forall>i\<in>fst ` set files. stamp_of i \<in> insert stamp used"
  proof
    fix i assume "i \<in> fst ` set files"
    then have "map_of files i \<noteq> None" by (simp add: map_of_eq_None_iff)
    then have "i = vid \<or> i \<in> fst ` set (st_vfiles s)"
      by (auto simp: files_def update_conv' split: if_splits dest!: map_of_SomeD intro: rev_image_eqI)
    then show "stamp_of i \<in> insert stamp used"
      using wf new by (auto simp: vid_def wf_stack_def)
  qed
  have old_ok: "version_ok sha files v \<and> dget v ''id'' \<noteq> JStr vid" if v: "v \<in> set (list_versions s)" for v
  proof -
    have "version_ok sha (st_vfiles s) v" using wf v by (simp add: wf_stack_def)
    then obtain i r where i: "dget v ''id'' = JStr i" "map_of (st_vfiles s) i = Some r" "dget v ''sha256'' = JStr (sha r)"
      by (rule version_okE)
    then have "i \<noteq> vid" using fresh by auto
    then show ?thesis using i by (auto intro: version_okI simp: files_def update_conv')
  qed
  show ?thesis
  proof (cases "summarize_state loads raw")
    case (Inl e)
    have "wf_stack sha (insert stamp used) (s\<lparr>st_vfiles := files\<rparr>)"
      using wf keys old_ok by (simp add: wf_stack_def)
    then show ?thesis using Inl by (simp add: store_version_def Let_def files_def vid_def)
  next
    case (Inr summary)
    define entry where "entry = new_version ts vid actor reason run_id raw (sha raw) source summary"
    define vs where "vs = entry # list_versions s"
    define files' where "files' = drop_files (drop MAX_VERSIONS vs) files"
    have dist: "distinct (map (\<lambda>v. dget v ''id'') vs)"
    proof -
      have "JStr vid \<notin> (\<lambda>v. dget v ''id'') ` set (list_versions s)" using old_ok by force
      then show ?thesis using wf by (simp add: vs_def entry_def wf_stack_def)
    qed
    have ok: "version_ok sha files v" if "v \<in> set vs" for v
      using that old_ok by (auto simp: vs_def entry_def files_def update_conv' intro: version_okI)
    have kept: "version_ok sha files' v" if v: "v \<in> set (take MAX_VERSIONS vs)" for v
    proof -
      have "v \<in> set vs" using v by (rule in_set_takeD)
      then obtain i r where i: "dget v ''id'' = JStr i" "map_of files i = Some r" "dget v ''sha256'' = JStr (sha r)"
        using ok by (blast elim: version_okE)
      have "distinct (map (\<lambda>v. dget v ''id'') (take MAX_VERSIONS vs @ drop MAX_VERSIONS vs))"
        unfolding append_take_drop_id by (rule dist)
      then have "dget v ''id'' \<notin> (\<lambda>v. dget v ''id'') ` set (drop MAX_VERSIONS vs)"
        using v by (force simp del: append_take_drop_id)
      then have "map_of files' i = Some r" using i by (simp add: files'_def map_of_drop_files)
      then show ?thesis using i by (auto intro: version_okI)
    qed
    have "distinct (map (\<lambda>v. dget v ''id'') (take MAX_VERSIONS vs))"
      using dist by (simp add: take_map [symmetric])
    moreover have "\<forall>i\<in>fst ` set files'. stamp_of i \<in> insert stamp used"
      using keys keys_drop_files [of "drop MAX_VERSIONS vs" files] unfolding files'_def by blast
    ultimately have "wf_stack sha (insert stamp used) (s\<lparr>st_vfiles := files', st_index := Some (take MAX_VERSIONS vs)\<rparr>)"
      using kept unfolding wf_stack_def list_versions_simps by simp
    moreover have "wf_stack sha used' (append_audit ts e a x t) = wf_stack sha used' t" for used' e a x t
      by (simp add: wf_stack_def)
    ultimately show ?thesis using Inr
      by (simp add: store_version_def Let_def files_def files'_def vid_def vs_def entry_def)
  qed
qed

lemma wf_snapshot:
  assumes wf: "wf_stack sha used s" and new: "stamp \<notin> used" "CHR ''-'' \<notin> set stamp"
  shows "wf_stack sha (insert stamp used) (snd (snapshot_state loads sha stamp ts actor reason run_id s))"
proof -
  have same: "wf_stack sha (insert stamp used) s" by (rule wf_mono [OF wf]) auto
  show ?thesis
  proof (cases "state_source s")
    case None
    then show ?thesis using same by (simp add: snapshot_state_def)
  next
    case (Some p)
    obtain source raw where p: "p = (source, raw)" by fastforce
    note store = wf_store_version [OF assms, of loads ts actor reason run_id raw source]
    show ?thesis
    proof (cases "list_versions s")
      case Nil
      then show ?thesis using Some p store by (simp add: snapshot_state_def)
    next
      case (Cons v vs)
      have "wf_stack sha (insert stamp used) (s\<lparr>st_index := Some (dset v ''run_ids'' x # vs)\<rparr>)" for x
        using same Cons by (auto simp: wf_stack_def)
      then show ?thesis using Some p Cons store same
        by (auto simp: snapshot_state_def Let_def split: option.split)
    qed
  qed
qed

lemma snapshot_head:
  assumes "snapshot_state loads sha stamp ts actor reason run_id s = (Inr r, s1)"
    and "state_source s = Some (source, raw)"
  shows "\<exists>v vs. list_versions s1 = v # vs \<and> dget v ''sha256'' = JStr (sha raw)"
proof (cases "list_versions s")
  case Nil
  then show ?thesis using assms
    by (auto simp: snapshot_state_def store_version_def Let_def MAX_VERSIONS_def split: sum.splits)
next
  case (Cons v vs)
  then show ?thesis using assms
    by (auto simp: snapshot_state_def store_version_def Let_def MAX_VERSIONS_def split: sum.splits if_splits option.splits)
qed

lemma store_version_files:
  assumes "map_of (st_vfiles (snd (store_version loads stamp ts actor reason run_id raw digest source s))) i = Some c"
    and "i \<noteq> stamp @ ''-'' @ take 8 digest"
  shows "map_of (st_vfiles s) i = Some c"
  using assms
  by (auto simp: store_version_def Let_def map_of_drop_files update_conv' split: sum.splits if_splits)

lemma snapshot_shape:
  "st_vfiles (snd (snapshot_state loads sha stamp ts actor reason run_id s)) = st_vfiles s \<or>
   (\<exists>source raw. snapshot_state loads sha stamp ts actor reason run_id s =
      store_version loads stamp ts actor reason run_id raw (sha raw) source s)"
  by (auto simp: snapshot_state_def Let_def split: option.split list.split)

lemma snapshot_files:
  assumes "wf_stack sha used s" "stamp \<notin> used" "CHR ''-'' \<notin> set stamp"
    and "map_of (st_vfiles (snd (snapshot_state loads sha stamp ts actor reason run_id s))) i = Some c"
    and "map_of (st_vfiles s) i \<noteq> None"
  shows "map_of (st_vfiles s) i = Some c"
proof -
  have "i \<noteq> stamp @ ''-'' @ take 8 d" for d using wf_fresh_vid [OF assms(1-3)] assms(5) by metis
  then show ?thesis
    using assms(4) snapshot_shape [of loads sha stamp ts actor reason run_id s] store_version_files by metis
qed

lemma rollback_ok_cases:
  assumes "rollback_state loads sha stamp ts vid actor s = (Inr True, s')"
  obtains r s1 raw where "snapshot_state loads sha stamp ts actor ''pre-rollback'' None s = (Inr r, s1)"
    "map_of (st_vfiles s) vid \<noteq> None" "map_of (st_vfiles s1) vid = Some raw" "st_tfstate s' = Some raw"
    "list_versions s' = list_versions s1" "st_vfiles s' = st_vfiles s1"
  using assms
  by (auto simp: rollback_state_def Let_def split: if_splits prod.splits sum.splits option.splits)

text \<open>C15: A rollback restores the version and can be undone. On a consistent history, when
  \<open>rollback_state\<close> reports success, the state file is the content of the requested version, the
  history is still consistent (at most 50 entries with distinct ids, each with a file of the
  recorded hash), and one of its versions has the hash of the state that was overwritten.\<close>
theorem rollback_reversible:
  assumes "wf_stack sha used s" and "stamp \<notin> used" and "CHR ''-'' \<notin> set stamp"
    and "fst (rollback_state loads sha stamp ts vid actor s) = Inr True"
    and "state_source s = Some (source, old)"
  shows "let s' = snd (rollback_state loads sha stamp ts vid actor s) in
    st_tfstate s' = map_of (st_vfiles s) vid \<and> wf_stack sha (insert stamp used) s' \<and>
    (\<exists>v\<in>set (list_versions s'). \<exists>i c. dget v ''id'' = JStr i \<and> map_of (st_vfiles s') i = Some c \<and> sha c = sha old)"
proof -
  obtain s' where call: "rollback_state loads sha stamp ts vid actor s = (Inr True, s')"
    using assms(4) by (metis prod.collapse)
  from rollback_ok_cases [OF call] obtain r s1 raw
    where snap: "snapshot_state loads sha stamp ts actor ''pre-rollback'' None s = (Inr r, s1)"
      and old_file: "map_of (st_vfiles s) vid \<noteq> None" and raw: "map_of (st_vfiles s1) vid = Some raw"
      and s': "st_tfstate s' = Some raw" "list_versions s' = list_versions s1" "st_vfiles s' = st_vfiles s1"
    by blast
  have "map_of (st_vfiles s) vid = Some raw"
    using snapshot_files [OF assms(1-3), of loads ts actor "''pre-rollback''" None vid raw] raw old_file
    by (simp add: snap)
  moreover have wf1: "wf_stack sha (insert stamp used) s1"
    using wf_snapshot [OF assms(1-3), of loads ts actor "''pre-rollback''" None] by (simp add: snap)
  then have "wf_stack sha (insert stamp used) s'" by (simp add: wf_stack_def s')
  moreover obtain v vs where v: "list_versions s1 = v # vs" "dget v ''sha256'' = JStr (sha old)"
    using snapshot_head [OF snap assms(5)] by blast
  then have "version_ok sha (st_vfiles s1) v" using wf1 by (simp add: wf_stack_def)
  then have "\<exists>i c. dget v ''id'' = JStr i \<and> map_of (st_vfiles s') i = Some c \<and> sha c = sha old"
    using v(2) s'(3) by (elim version_okE) auto
  ultimately show ?thesis using call s' v(1) by (auto simp: Let_def)
qed

definition empty_stack :: stack where
  "empty_stack = \<lparr>st_tfstate = None, st_pulled = None, st_backup = None, st_hcl = None, st_tf = None,
     st_lock = None, st_index = None, st_vfiles = [], st_audit = []\<rparr>"

definition demo_stack :: stack where
  \<comment> \<open>version \<open>1-hone\<close> of the state \<open>one\<close>, and a newer state that is not saved yet\<close>
  "demo_stack = empty_stack\<lparr>st_tfstate := Some ''two'', st_vfiles := [(''1-hone'', ''one'')],
     st_index := Some [new_version ''t1'' ''1-hone'' ''ann'' ''apply'' (Some ''e1'') ''one'' ''hone'' ''terraform.tfstate'' []]\<rparr>"

lemma wf_demo_stack: "wf_stack (Cons CHR ''h'') {''1''} demo_stack"
  by (simp add: demo_stack_def wf_stack_def list_versions_def version_ok_def MAX_VERSIONS_def stamp_of_def)

theorem rollback_reversible_witness:
  "st_tfstate (snd (rollback_state (\<lambda>_. None) (Cons CHR ''h'') ''2'' ''t2'' ''1-hone'' ''bob'' demo_stack)) = Some ''one''"
proof -
  have ok: "version_id_ok ''1-hone''" by code_simp
  have "fst (rollback_state (\<lambda>_. None) (Cons CHR ''h'') ''2'' ''t2'' ''1-hone'' ''bob'' demo_stack) = Inr True"
    by (simp add: rollback_state_def ok demo_stack_def empty_stack_def snapshot_state_def state_source_def
        list_versions_def store_version_def summarize_state_def MAX_VERSIONS_def drop_files_def append_audit_def Let_def)
  moreover have "state_source demo_stack = Some (''terraform.tfstate'', ''two'')"
    by (simp add: demo_stack_def state_source_def)
  ultimately have "st_tfstate (snd (rollback_state (\<lambda>_. None) (Cons CHR ''h'') ''2'' ''t2'' ''1-hone'' ''bob'' demo_stack))
      = map_of (st_vfiles demo_stack) ''1-hone''"
    using rollback_reversible [OF wf_demo_stack, of "''2''" "\<lambda>_. None" "''t2''" "''1-hone''" "''bob''"]
    by (simp add: Let_def)
  then show ?thesis by (simp add: demo_stack_def)
qed

text \<open>With a full history the oldest version cannot be restored. When 50 versions are saved
  and the current state is not among the newest, the snapshot that \<open>rollback_state\<close> takes
  before it restores prunes the oldest version: asking for exactly that one is answered with a
  failure, and its file is gone.\<close>
theorem rollback_to_oldest_fails:
  assumes "wf_stack sha used s" and "stamp \<notin> used" and "CHR ''-'' \<notin> set stamp"
    and "length (list_versions s) = MAX_VERSIONS"
    and "dget (last (list_versions s)) ''id'' = JStr vid" and "version_id_ok vid"
    and "state_source s = Some (source, raw)" and "dget (hd (list_versions s)) ''sha256'' \<noteq> JStr (sha raw)"
    and "summarize_state loads raw = Inr summary"
  shows "fst (rollback_state loads sha stamp ts vid actor s) = Inr False \<and>
    map_of (st_vfiles s) vid \<noteq> None \<and>
    map_of (st_vfiles (snd (rollback_state loads sha stamp ts vid actor s))) vid = None"
proof -
  obtain v vs where vs: "list_versions s = v # vs" using assms(4) by (cases "list_versions s") (auto simp: MAX_VERSIONS_def)
  have last_in: "last (list_versions s) \<in> set (list_versions s)" using vs by simp
  have stored: "map_of (st_vfiles s) vid \<noteq> None"
    using assms(1,5) last_in by (auto simp: wf_stack_def elim!: version_okE)
  obtain r s1 where snap: "snapshot_state loads sha stamp ts actor ''pre-rollback'' None s = (Inr r, s1)"
    using vs assms(7-9) by (simp add: snapshot_state_def store_version_def Let_def)
  have s1: "st_vfiles s1 = drop_files (drop MAX_VERSIONS (e # list_versions s))
      (AList.update (stamp @ ''-'' @ take 8 (sha raw)) raw (st_vfiles s))" for e
    using snap vs assms(7-9) by (auto simp: snapshot_state_def store_version_def Let_def MAX_VERSIONS_def)
  have "drop (length xs) (e # xs) = [last xs]" if "xs \<noteq> []" for e :: doc and xs :: "doc list"
    using that by (induction xs rule: rev_induct) auto
  then have "drop MAX_VERSIONS (e # list_versions s) = [last (list_versions s)]" for e :: doc
    using assms(4) vs by (metis list.distinct(1))
  then have "map_of (st_vfiles s1) vid = None"
    using s1 [of "[]"] assms(5) by (simp add: map_of_drop_files)
  then show ?thesis using stored assms(6) snap by (simp add: rollback_state_def)
qed

definition full_version :: "nat \<Rightarrow> doc" where
  "full_version k = [(''id'', JStr (replicate (Suc k) CHR ''a'')), (''sha256'', JStr ''hx'')]"

definition full_stack :: stack where
  "full_stack = empty_stack\<lparr>st_tfstate := Some ''new'', st_index := Some (map full_version [0..<50]),
     st_vfiles := map (\<lambda>k. (replicate (Suc k) CHR ''a'', ''x'')) [0..<50]\<rparr>"

lemma wf_full_stack: "wf_stack (Cons CHR ''h'') (set (map (\<lambda>k. replicate (Suc k) CHR ''a'') [0..<50])) full_stack"
  by code_simp

theorem rollback_to_oldest_fails_witness:
  "fst (rollback_state (\<lambda>_. None) (Cons CHR ''h'') ''2'' ''t2'' (replicate 50 CHR ''a'') ''bob'' full_stack) = Inr False"
proof -
  have "version_id_ok (replicate 50 CHR ''a'')" "dget (last (list_versions full_stack)) ''id'' = JStr (replicate 50 CHR ''a'')"
    "length (list_versions full_stack) = MAX_VERSIONS" "dget (hd (list_versions full_stack)) ''sha256'' \<noteq> JStr (CHR ''h'' # ''new'')"
    "state_source full_stack = Some (''terraform.tfstate'', ''new'')"
    "''2'' \<notin> set (map (\<lambda>k. replicate (Suc k) CHR ''a'') [0..<50])"
    by code_simp+
  then show ?thesis
    using rollback_to_oldest_fails [OF wf_full_stack, of "''2''" "replicate 50 CHR ''a''" "''terraform.tfstate''" "''new''" "\<lambda>_. None"]
    by (simp add: summarize_state_def)
qed

subsection \<open>The lock\<close>

text \<open>The lock is a file that is looked at first and written or removed afterwards, with nothing in
  between that would keep others out. \<open>lock_plan\<close> is what an acquisition or a release decides to write
  when it looks; \<open>lock_step\<close> lets any number of them look and write in any order.\<close>

datatype lock_op =
    LAcquire real string "(json \<Rightarrow> doc option res) option" string string string json string
  | LRelease bool string json string bool string

fun lock_plan :: "(json \<Rightarrow> string) \<Rightarrow> bool \<Rightarrow> lock_op \<Rightarrow> stack \<Rightarrow> (stack \<Rightarrow> stack) list" where
  \<comment> \<open>the lock of a run that has ended is removed before a new one is written\<close>
  "lock_plan str rm (LAcquire now ts g i who what run note) s =
    (case fst (read_lock str rm now ts g s) of
       Some existing \<Rightarrow> []
     | None \<Rightarrow>
         (case st_lock s of
            Some (Doc lock) \<Rightarrow>
              if rm then [drop_lock ts lock ''system'' False
                    (''run '' @ lower (the (run_status str g (dget lock ''run_id''))))] else []
          | _ \<Rightarrow> []) @ [take_lock now ts i who what run note])"
| "lock_plan str rm (LRelease rm' ts i who force reason) s =
    (case st_lock s of
       None \<Rightarrow> []
     | Some f \<Rightarrow>
         (let lock = (case f of Doc d \<Rightarrow> d | Corrupt \<Rightarrow> [])
          in if truthy i \<and> truthy (dget lock ''id'') \<and> i \<noteq> dget lock ''id'' \<and> \<not> force \<or> \<not> rm' then []
             else [drop_lock ts lock who force reason]))"

lemma run_plan:
  "fold (\<lambda>f s. f s) (lock_plan str rm (LAcquire now ts g i who what run note) s) s =
     snd (acquire_lock str rm now ts g i who what run note s)"
  "fold (\<lambda>f s. f s) (lock_plan str rm (LRelease rm' ts j who force reason) s) s =
     snd (release_lock rm' ts j who force reason s)"
  by (auto simp: acquire_lock_def read_lock_def release_lock_def Let_def split: option.splits jfile.splits if_splits)

datatype lock_event = Look lock_op | Go nat

fun lock_step :: "(json \<Rightarrow> string) \<Rightarrow> bool \<Rightarrow> lock_event \<Rightarrow> stack \<times> (stack \<Rightarrow> stack) list list \<Rightarrow> stack \<times> (stack \<Rightarrow> stack) list list" where
  \<comment> \<open>one operation looks; or the \<open>i\<close>-th of them makes its next write\<close>
  "lock_step str rm (Look op) (s, P) = (s, P @ [lock_plan str rm op s])"
| "lock_step str rm (Go i) (s, P) =
    (if i < length P then (case P ! i of [] \<Rightarrow> (s, P) | f # fs \<Rightarrow> (f s, P[i := fs])) else (s, P))"

fun keeps_lock :: "(json \<Rightarrow> string) \<Rightarrow> doc \<Rightarrow> lock_op \<Rightarrow> bool" where
  \<comment> \<open>an attempt to take it while the owning run has not ended, or a release with a wrong id\<close>
  "keeps_lock str lock (LAcquire now ts g i who what run note) =
    (case run_status str g (dget lock ''run_id'') of None \<Rightarrow> True | Some st \<Rightarrow> st \<notin> set TERMINAL_STATUSES)"
| "keeps_lock str lock (LRelease rm' ts i who force reason) =
    (truthy i \<and> i \<noteq> dget lock ''id'' \<and> \<not> force)"

lemma read_held:
  assumes "st_lock s = Some (Doc lock)"
    and "case run_status str g (dget lock ''run_id'') of None \<Rightarrow> True | Some st \<Rightarrow> st \<notin> set TERMINAL_STATUSES"
  shows "\<exists>h. read_lock str rm now ts g s = (Some (dset lock ''held_seconds'' h), s)"
  using assms by (auto simp: read_lock_def split: option.splits)

lemma keeps_plan:
  assumes "st_lock s = Some (Doc lock)" "truthy (dget lock ''id'')" "keeps_lock str lock op"
  shows "lock_plan str rm op s = []"
proof (cases op)
  case (LAcquire now ts g i who what run nt)
  then have "case run_status str g (dget lock ''run_id'') of None \<Rightarrow> True | Some st \<Rightarrow> st \<notin> set TERMINAL_STATUSES"
    using assms(3) by simp
  from read_held [OF assms(1) this, of rm now ts] show ?thesis using LAcquire by auto
next
  case (LRelease rm' ts i who force reason)
  then show ?thesis using assms by simp
qed

lemma keeps_run:
  assumes "st_lock s = Some (Doc lock)" "truthy (dget lock ''id'')" "\<forall>fs\<in>set P. fs = []"
    and "\<forall>op. Look op \<in> set evs \<longrightarrow> keeps_lock str lock op" "fold (lock_step str rm) evs (s, P) = (s', P')"
  shows "s' = s"
  using assms(3-5)
proof (induction evs arbitrary: P)
  case (Cons ev evs)
  obtain P1 where "lock_step str rm ev (s, P) = (s, P1)" "\<forall>fs\<in>set P1. fs = []"
  proof (cases ev)
    case (Look op)
    then show thesis using that [of "P @ [[]]"] keeps_plan [OF assms(1,2)] Cons.prems(1,2) by simp
  next
    case (Go i)
    have "P ! i = []" if "i < length P" using Cons.prems(1) nth_mem [OF that] by blast
    then have "lock_step str rm ev (s, P) = (s, P)" using Go by simp
    then show thesis using that Cons.prems(1) by blast
  qed
  then show ?case using Cons by auto
qed simp

text \<open>C14: The lock of a stack excludes those that come later. Once an acquisition has written its
  lock, while no other acquisition or release is between its look at the lock file and its write, the lock
  stays in place through any interleaving of further attempts to take or to release it, and every
  attempt to take it is refused and reports the lock that is held. This holds as long as the owning
  run has not reached a terminal status and nobody releases with the lock's id, without an id or by
  force. (Two acquisitions that overlap both succeed, see \<open>overlapping_acquisitions_both_succeed\<close>.)\<close>
theorem lock_excludes:
  assumes "lock = new_lock now ts i who what run note" and "i \<noteq> []"
    and "\<forall>fs\<in>set P. fs = []"
    and "fold (lock_step str rm) evs (take_lock now ts i who what run note s, P) = (s', P')"
    and "\<forall>op. Look op \<in> set evs \<longrightarrow> keeps_lock str lock op"
    and "keeps_lock str lock (LAcquire now' ts' g' i' who' what' run' note')"
  shows "st_lock s' = Some (Doc lock) \<and>
    (\<exists>h. acquire_lock str rm now' ts' g' i' who' what' run' note' s' = ((False, dset lock ''held_seconds'' h), s'))"
proof -
  let ?s = "take_lock now ts i who what run note s"
  have s: "st_lock ?s = Some (Doc lock)" by (simp add: take_lock_def append_audit_def assms(1))
  have id: "truthy (dget lock ''id'')" using assms(2) by (simp add: assms(1) new_lock_def)
  have "s' = ?s" by (rule keeps_run [OF s id assms(3,5,4)])
  then obtain h where "read_lock str rm now' ts' g' s' = (Some (dset lock ''held_seconds'' h), s')"
    using read_held [OF s, of str g' rm now' ts'] assms(6) by auto
  then show ?thesis using s \<open>s' = ?s\<close> by (auto simp: acquire_lock_def)
qed

theorem lock_excludes_witness:
  "\<exists>h. acquire_lock (\<lambda>_. []) True 9 ''t9'' None ''l2'' ''bob'' ''apply'' JNull []
     (take_lock 1 ''t1'' ''l1'' ''ann'' ''apply'' JNull [] empty_stack)
     = ((False, dset (new_lock 1 ''t1'' ''l1'' ''ann'' ''apply'' JNull []) ''held_seconds'' h),
        take_lock 1 ''t1'' ''l1'' ''ann'' ''apply'' JNull [] empty_stack)"
proof -
  let ?lock = "new_lock 1 ''t1'' ''l1'' ''ann'' ''apply'' JNull []"
  let ?s = "take_lock 1 ''t1'' ''l1'' ''ann'' ''apply'' JNull [] empty_stack"
  let ?evs = "[Look (LRelease True ''t5'' (JStr ''zz'') ''bob'' False []), Go 0, Go 1]"
  have run: "fold (lock_step (\<lambda>_. []) True) ?evs (?s, [[]]) = (?s, [[], []])"
    by (simp add: take_lock_def append_audit_def new_lock_def)
  have k: "\<forall>op. Look op \<in> set ?evs \<longrightarrow> keeps_lock (\<lambda>_. []) ?lock op" by (simp add: new_lock_def)
  show ?thesis
    using lock_excludes [OF refl _ _ run k, of 9 "''t9''" None "''l2''" "''bob''" "''apply''" JNull "[]"]
    by (simp add: run_status_def)
qed

text \<open>Two requests that look at a free stack before either writes are both told that they have the
  lock; the second to write replaces the lock of the first.\<close>

theorem overlapping_acquisitions_both_succeed:
  assumes "st_lock s = None"
    and "fold (lock_step str rm)
      [Look (LAcquire t1 ts1 g1 i1 a1 o1 r1 n1), Look (LAcquire t2 ts2 g2 i2 a2 o2 r2 n2), Go 0, Go 1] (s, []) = (s', P')"
  shows "fst (acquire_lock str rm t1 ts1 g1 i1 a1 o1 r1 n1 s) = (True, new_lock t1 ts1 i1 a1 o1 r1 n1) \<and>
    fst (acquire_lock str rm t2 ts2 g2 i2 a2 o2 r2 n2 s) = (True, new_lock t2 ts2 i2 a2 o2 r2 n2) \<and>
    st_lock s' = Some (Doc (new_lock t2 ts2 i2 a2 o2 r2 n2)) \<and> P' = [[], []]"
  using assms by (auto simp: acquire_lock_def read_lock_def take_lock_def append_audit_def)

subsection \<open>Backend settings\<close>

lemma splitlines_line:
  "\<forall>c\<in>set l. \<not> is_break c \<Longrightarrow> splitlines acc (l @ CHR 0x0A # rest) = (rev acc @ l) # splitlines [] rest"
  by (induction l arbitrary: acc) (auto simp: is_break_def char_in_def)

lemma splitlines_lines:
  "\<forall>l\<in>set ls. \<forall>c\<in>set l. \<not> is_break c \<Longrightarrow> splitlines [] (concat (map (\<lambda>l. l @ [CHR 0x0A]) ls)) = ls"
  by (induction ls) (simp_all add: splitlines_line)

definition setting :: "string \<times> string \<Rightarrow> string" where
  "setting = (\<lambda>(k, v). k @ '' = '' @ [CHR ''\"''] @ v @ [CHR ''\"''])"

definition plain_key :: "string \<Rightarrow> bool" where
  "plain_key k = (k \<noteq> [] \<and> list_all (word_char ''_'') k)"

lemma takeWhile_all: "\<forall>x\<in>set xs. P x \<Longrightarrow> \<not> P y \<Longrightarrow> takeWhile P (xs @ y # ys) = xs"
  by (induction xs) auto

lemma dropWhile_all: "\<forall>x\<in>set xs. P x \<Longrightarrow> \<not> P y \<Longrightarrow> dropWhile P (xs @ y # ys) = y # ys"
  by (induction xs) auto

lemma chars:
  "is_space CHR '' ''" "\<not> is_space CHR ''=''" "\<not> is_space CHR ''\"''" "\<not> word_char ''_'' CHR '' ''"
  "\<not> is_break CHR '' ''" "\<not> is_break CHR ''=''" "\<not> is_break CHR ''\"''"
  by code_simp+

lemma word_char_facts:
  assumes "word_char ''_'' c"
  shows "\<not> is_space c" "\<not> is_break c" "c \<noteq> CHR ''#''"
proof -
  show "\<not> is_space c" "\<not> is_break c"
    using assms by (auto simp: word_char_def is_alnum_def is_alpha_def is_lower_def is_upper_def is_digit_def
        is_space_def is_break_def char_in_def Let_def)
  show "c \<noteq> CHR ''#''" using assms by (auto simp: word_char_def is_alnum_def is_alpha_def is_lower_def
        is_upper_def is_digit_def char_in_def)
qed

lemma hcl_line_setting:
  assumes "plain_key k" "CHR ''\"'' \<notin> set v"
  shows "hcl_line (setting (k, v)) = Some (k, v)"
proof -
  obtain c k' where k: "k = c # k'" "word_char ''_'' c" using assms(1) by (cases k) (auto simp: plain_key_def)
  have w: "\<forall>x\<in>set k. word_char ''_'' x" using assms(1) by (simp add: plain_key_def list_all_iff)
  have "dropWhile is_space (setting (k, v)) = setting (k, v)"
    using word_char_facts(1) [OF k(2)] by (simp add: setting_def k(1))
  moreover have "takeWhile (word_char ''_'') (setting (k, v)) = k"
    "dropWhile (word_char ''_'') (setting (k, v)) = '' = '' @ [CHR ''\"''] @ v @ [CHR ''\"'']"
    unfolding setting_def using takeWhile_all [OF w chars(4)] dropWhile_all [OF w chars(4)] by simp_all
  moreover have "takeWhile (\<lambda>c. c \<noteq> CHR ''\"'') (v @ [CHR ''\"'']) = v"
    "dropWhile (\<lambda>c. c \<noteq> CHR ''\"'') (v @ [CHR ''\"'']) = [CHR ''\"'']"
    using assms(2) by (auto intro!: takeWhile_all dropWhile_all)
  ultimately show ?thesis
    using k(1) chars by (simp add: hcl_line_def Let_def hcl_value_def)
qed

lemma setting_not_comment:
  assumes "plain_key k"
  shows "\<not> starts_with (strip (setting (k, v))) ''#''"
proof -
  obtain c k' where k: "k = c # k'" "word_char ''_'' c" using assms by (cases k) (auto simp: plain_key_def)
  have "strip (setting (k, v)) = setting (k, v)"
    using word_char_facts(1) [OF k(2)] chars(3) by (simp add: strip_def setting_def k(1))
  then show ?thesis using word_char_facts(3) [OF k(2)] by (simp add: starts_with_def setting_def k(1))
qed

lemma hcl_values_settings:
  assumes "\<forall>(k, v)\<in>set c. plain_key k \<and> CHR ''\"'' \<notin> set v" "distinct (map fst m @ map fst c)"
  shows "hcl_values (map setting c) m = m @ c"
  using assms
proof (induction c arbitrary: m)
  case (Cons p c)
  obtain k v where p: "p = (k, v)" by fastforce
  have "hcl_values (map setting (p # c)) m = hcl_values (map setting c) (AList.update k v m)"
    using Cons.prems(1) by (simp add: p hcl_line_setting setting_not_comment)
  also have "AList.update k v m = m @ [p]" using Cons.prems(2) by (simp add: p update_fresh)
  finally show ?case using Cons by (simp add: p)
qed simp

lemma map_filter_eqI: "(\<And>x. x \<in> set xs \<Longrightarrow> f x = g x) \<Longrightarrow> List.map_filter f xs = List.map_filter g xs"
  by (induction xs) (simp_all add: List.map_filter_def)

lemma clean_backend_props:
  assumes "clean_backend str values ks = Some c" "distinct ks"
  shows "set (map fst c) \<subseteq> set ks" "distinct (map fst c)" "\<forall>(k, v)\<in>set c. v \<noteq> [] \<and> CHR ''\"'' \<notin> set v"
    "List.map_filter (\<lambda>k. map_option (\<lambda>v. (k, v)) (map_of c k)) ks = c"
proof -
  have "set (map fst c) \<subseteq> set ks \<and> distinct (map fst c) \<and> (\<forall>(k, v)\<in>set c. v \<noteq> [] \<and> CHR ''\"'' \<notin> set v) \<and>
    List.map_filter (\<lambda>k. map_option (\<lambda>v. (k, v)) (map_of c k)) ks = c"
    using assms
  proof (induction ks arbitrary: c)
    case (Cons k ks)
    have none: "map_of d k = None" if "set (map fst d) \<subseteq> set ks" for d :: "(string \<times> string) list"
      using that Cons.prems(2) by (auto simp: map_of_eq_None_iff)
    have cong: "List.map_filter (\<lambda>k'. map_option (\<lambda>v. (k', v)) (map_of ((k, v) # d) k')) ks =
        List.map_filter (\<lambda>k'. map_option (\<lambda>v. (k', v)) (map_of d k')) ks" for v and d :: "(string \<times> string) list"
      using Cons.prems(2) by (intro map_filter_eqI) auto
    show ?case
    proof (cases "clean_backend str values ks = Some c")
      case True
      then show ?thesis using Cons.IH [OF True] Cons.prems(2) none [of c] by (auto simp: map_filter_def)
    next
      case False
      then obtain v d where d: "clean_backend str values ks = Some d" "c = (k, v) # d" "v \<noteq> []" "CHR ''\"'' \<notin> set v"
        using Cons.prems(1) by (auto simp: Let_def split: if_splits)
      then show ?thesis
        using Cons.IH [OF d(1)] Cons.prems(2) cong [of v d] by (auto simp: map_filter_def)
    qed
  qed (simp add: map_filter_def)
  then show "set (map fst c) \<subseteq> set ks" "distinct (map fst c)" "\<forall>(k, v)\<in>set c. v \<noteq> [] \<and> CHR ''\"'' \<notin> set v"
    "List.map_filter (\<lambda>k. map_option (\<lambda>v. (k, v)) (map_of c k)) ks = c" by auto
qed

lemma backend_fields_plain: "\<forall>k\<in>set BACKEND_FIELDS. plain_key k" "distinct BACKEND_FIELDS"
  by code_simp+

text \<open>Backend settings are read back as they were written. When \<open>write_backend_config\<close> accepts
  the values, and none contains one of the other characters that end a line in Python (such as a
  form feed), then reading \<^verbatim>\<open>backend.hcl\<close> gives exactly the cleaned values, in the order of the
  fields, and the backend counts as configured unless a value is a placeholder.\<close>
theorem backend_roundtrip:
  fixes s :: stack and actor ts :: string
  assumes "clean_backend str values BACKEND_FIELDS = Some clean" and "clean \<noteq> []"
    and "\<forall>(k, v)\<in>set clean. \<forall>c\<in>set v. \<not> is_break c"
  defines "s' \<equiv> snd (write_backend_config str ts values actor s)"
  shows "bv_values (read_backend_config s') = clean \<and>
    bv_configured (read_backend_config s') = (\<not> list_ex (\<lambda>(k, v). starts_with v ''REPLACE_ME'') clean) \<and>
    fst (write_backend_config str ts values actor s) = Some (read_backend_config s')"
proof -
  note props = clean_backend_props [OF assms(1) backend_fields_plain(2)]
  have plain: "\<forall>(k, v)\<in>set clean. plain_key k \<and> CHR ''\"'' \<notin> set v"
    using props(1,3) backend_fields_plain(1) by fastforce
  have hcl: "st_hcl s' = Some (hcl_text clean)" and fst: "fst (write_backend_config str ts values actor s) = Some (read_backend_config s')"
    using assms(1,2) by (auto simp: s'_def write_backend_config_def append_audit_def Let_def split: list.split)
  let ?head = "[''# OpenTofu backend config - managed from the OpenSible console.'', []]"
  have body: "hcl_text clean = concat (map (\<lambda>l. l @ [CHR 0x0A]) (?head @ map setting clean))"
    by (simp only: hcl_text_def setting_def)
  have "\<forall>l\<in>set ?head. \<forall>c\<in>set l. \<not> is_break c" by code_simp
  moreover have "\<forall>l\<in>set (map setting clean). \<forall>c\<in>set l. \<not> is_break c"
  proof -
    have "\<forall>c\<in>set (setting (k, v)). \<not> is_break c" if "(k, v) \<in> set clean" for k v
      using that assms(3) plain chars(5-7) by (fastforce simp: setting_def plain_key_def list_all_iff dest: word_char_facts(2))
    then show ?thesis by force
  qed
  ultimately have "splitlines [] (hcl_text clean) = ?head @ map setting clean"
    unfolding body by (intro splitlines_lines) auto
  moreover have "hcl_values ?head [] = []" by code_simp
  then have "hcl_values (?head @ map setting clean) [] = hcl_values (map setting clean) []"
  proof -
    have a: "starts_with (strip ''# OpenTofu backend config - managed from the OpenSible console.'') ''#''"
      "\<not> starts_with (strip []) ''#''" "hcl_line [] = None" by code_simp+
    show ?thesis by (simp only: append_Cons append_Nil hcl_values.simps a if_True if_False option.case)
  qed
  moreover have "hcl_values (map setting clean) [] = clean"
    using hcl_values_settings [OF plain, of "[]"] props(2) by simp
  ultimately have vals: "hcl_values (splitlines [] (hcl_text clean)) [] = clean" by simp
  have "bv_values (read_backend_config s') = clean \<and>
    bv_configured (read_backend_config s') = (\<not> list_ex (\<lambda>(k, v). starts_with v ''REPLACE_ME'') clean)"
    using vals props(4) assms(2) by (simp add: read_backend_config_def Let_def hcl)
  then show ?thesis using fst by blast
qed

theorem backend_roundtrip_witness:
  "bv_values (read_backend_config (snd (write_backend_config (\<lambda>_. []) ''t1''
      [(''region'', JStr '' eu-1 ''), (''bucket'', JStr ''state''), (''other'', JStr ''x'')] ''ann'' empty_stack)))
    = [(''bucket'', ''state''), (''region'', ''eu-1'')]"
proof -
  have "clean_backend (\<lambda>_. []) [(''region'', JStr '' eu-1 ''), (''bucket'', JStr ''state''), (''other'', JStr ''x'')] BACKEND_FIELDS
      = Some [(''bucket'', ''state''), (''region'', ''eu-1'')]"
    "\<forall>(k, v)\<in>set [(''bucket'', ''state''), (''region'', ''eu-1'')]. \<forall>c\<in>set v. \<not> is_break c"
    by code_simp+
  from backend_roundtrip [OF this(1) _ this(2)] show ?thesis by simp
qed

end
