(* ===== verification/Cicd.thy ===== *)
theory Cicd
  imports AccountRoutes Dispatcher "HOL-Library.Char_ord" "HOL-Library.List_Lexorder"
begin

section \<open>Pipelines and their runs\<close>

text \<open>
  \<^verbatim>\<open>server/storage/cicd_store.py\<close>, \<^verbatim>\<open>server/services/cicd_engine.py\<close> and the handlers of
  \<^verbatim>\<open>server/api/cicd_routes.py\<close>. The record \<open>cicd\<close> is the directory \<^verbatim>\<open>cicd\<close> of one project: the
  files of the pipelines and of the runs by the stem of their names, the logs of the steps and
  the artifacts. A run is executed by a thread; \<open>run_pipeline_thread\<close> follows it operation by
  operation, and the argument \<open>env\<close> is what everybody else does to the directory before each of
  its writes. A shell command is an argument (\<open>sh\<close>): its output and its exit code, or \<open>None\<close>
  when it could not be started. Ids are names of files; an id with a slash, which would reach
  out of the directory, is not modelled.
\<close>

type_synonym files = "(string \<times> jfile) list"

record cicd =
  ci_pipelines :: files
  ci_runs :: files
  ci_logs :: "((string \<times> nat) \<times> string) list"
  ci_artifacts :: "(string \<times> (string \<times> string) list) list"

definition RUN_FINAL :: "string list" where
  "RUN_FINAL = [''SUCCESS'', ''FAILED'', ''CANCELED'']"

definition nl :: string where "nl = [CHR 0x0A]"

subsection \<open>Files\<close>

definition read_files :: "files \<Rightarrow> doc list" where
  \<comment> \<open>\<^verbatim>\<open>sorted(d.glob('*.json'))\<close>; what does not parse is skipped\<close>
  "read_files fs = List.map_filter (\<lambda>(k, f). file_doc (Some f)) (sort_key (\<lambda>(k, f). k @ ''.json'') fs)"

definition read_one :: "files \<Rightarrow> string \<Rightarrow> doc option" where
  "read_one fs k = file_doc (map_of fs k)"

subsection \<open>Pipelines\<close>

definition new_pipeline :: "string \<Rightarrow> json \<Rightarrow> real \<Rightarrow> doc \<Rightarrow> doc" where
  "new_pipeline project pipeline_id now data =
    [(''id'', pipeline_id), (''project_id'', JStr project), (''name'', getd data ''name'' (JStr ''Untitled Pipeline'')),
     (''git_repo'', getd data ''git_repo'' (JStr [])), (''git_branch'', getd data ''git_branch'' (JStr ''main'')),
     (''trigger_config'', getd data ''trigger_config'' (JObj [])), (''stages'', getd data ''stages'' (JArr [])),
     (''created_at'', JNum now), (''updated_at'', JNum now)]"

definition create_pipeline ::
  "(json \<Rightarrow> string) \<Rightarrow> string \<Rightarrow> string \<Rightarrow> real \<Rightarrow> doc \<Rightarrow> cicd \<Rightarrow> json \<times> cicd" where
  "create_pipeline str project uuid now data S =
    (let pipeline_id = py_or (dget data ''id'') (JStr uuid)
     in (pipeline_id, S\<lparr>ci_pipelines := AList.update (as_text str pipeline_id)
                          (Doc (new_pipeline project pipeline_id now data)) (ci_pipelines S)\<rparr>))"

definition list_pipelines :: "cicd \<Rightarrow> doc list" where
  "list_pipelines S = read_files (ci_pipelines S)"

definition get_pipeline :: "string \<Rightarrow> cicd \<Rightarrow> doc option" where
  "get_pipeline pipeline_id S = read_one (ci_pipelines S) pipeline_id"

definition update_pipeline :: "string \<Rightarrow> real \<Rightarrow> doc \<Rightarrow> cicd \<Rightarrow> bool \<times> cicd" where
  "update_pipeline pipeline_id now data S =
    (case get_pipeline pipeline_id S of
       None \<Rightarrow> (False, S)
     | Some d \<Rightarrow>
         (let d1 = fold (\<lambda>k d. if has data k then dset d k (dget data k) else d)
                     [''name'', ''git_repo'', ''git_branch'', ''trigger_config'', ''stages''] d
          in (True, S\<lparr>ci_pipelines := AList.update pipeline_id (Doc (dset d1 ''updated_at'' (JNum now))) (ci_pipelines S)\<rparr>)))"

definition delete_pipeline :: "string \<Rightarrow> cicd \<Rightarrow> bool \<times> cicd" where
  "delete_pipeline pipeline_id S =
    (map_of (ci_pipelines S) pipeline_id \<noteq> None, S\<lparr>ci_pipelines := AList.delete pipeline_id (ci_pipelines S)\<rparr>)"

subsection \<open>Runs\<close>

definition sort_runs :: "doc list \<Rightarrow> doc list res" where
  \<comment> \<open>\<^verbatim>\<open>runs.sort(key=..., reverse=True)\<close>, stable; keys that do not compare raise\<close>
  "sort_runs rs =
    (let key = (\<lambda>r. getd r ''created_at'' (JNum 0))
     in if length rs \<le> 1 then Inr rs
        else if list_all (\<lambda>r. num_of (key r) \<noteq> None) rs then Inr (rev (sort_key (\<lambda>r. the (num_of (key r))) (rev rs)))
        else if list_all (\<lambda>r. str_of (key r) \<noteq> None) rs then Inr (rev (sort_key (\<lambda>r. the (str_of (key r))) (rev rs)))
        else Inl TypeError)"

definition list_pipeline_runs :: "json \<Rightarrow> cicd \<Rightarrow> doc list res" where
  "list_pipeline_runs pipeline_id S =
    sort_runs (filter (\<lambda>r. \<not> (truthy pipeline_id \<and> dget r ''pipeline_id'' \<noteq> pipeline_id)) (read_files (ci_runs S)))"

fun max_number :: "json list \<Rightarrow> real res" where
  \<comment> \<open>\<^verbatim>\<open>max(..., default=0)\<close> when a number is added to it: other values raise one way or the other\<close>
  "max_number [] = Inr 0"
| "max_number (j # js) =
    (case num_of j of
       None \<Rightarrow> Inl TypeError
     | Some n \<Rightarrow> if js = [] then Inr n else map_sum (\<lambda>e. e) (max n) (max_number js))"

definition new_run :: "string \<Rightarrow> json \<Rightarrow> json \<Rightarrow> real \<Rightarrow> real \<Rightarrow> doc \<Rightarrow> doc" where
  "new_run project run_id pipeline_id n now data =
    [(''id'', run_id), (''project_id'', JStr project), (''pipeline_id'', pipeline_id), (''run_number'', JNum n),
     (''trigger_type'', getd data ''trigger_type'' (JStr ''manual'')), (''status'', getd data ''status'' (JStr ''QUEUED'')),
     (''git_commit'', getd data ''git_commit'' (JStr [])), (''triggered_by'', getd data ''triggered_by'' (JStr [])),
     (''started_at'', JNull), (''finished_at'', JNull), (''created_at'', JNum now),
     (''steps'', getd data ''steps'' (JArr []))]"

definition create_pipeline_run ::
  "(json \<Rightarrow> string) \<Rightarrow> string \<Rightarrow> string \<Rightarrow> real \<Rightarrow> string \<Rightarrow> doc \<Rightarrow> cicd \<Rightarrow> json res \<times> cicd" where
  "create_pipeline_run str project uuid now pipeline_id data S =
    (let run_id = py_or (dget data ''id'') (JStr uuid)
     in (case list_pipeline_runs (JStr pipeline_id) S of
           Inl e \<Rightarrow> (Inl e, S)
         | Inr existing \<Rightarrow>
             (case max_number (map (\<lambda>r. getd r ''run_number'' (JNum 0)) existing) of
                Inl e \<Rightarrow> (Inl e, S)
              | Inr n \<Rightarrow>
                  (Inr run_id, S\<lparr>ci_runs := AList.update (as_text str run_id)
                     (Doc (new_run project run_id (JStr pipeline_id) (n + 1) now data)) (ci_runs S)\<rparr>))))"

definition get_pipeline_run :: "string \<Rightarrow> cicd \<Rightarrow> doc option" where
  "get_pipeline_run run_id S = read_one (ci_runs S) run_id"

definition stamp_run :: "real \<Rightarrow> doc \<Rightarrow> doc \<Rightarrow> doc" where
  \<comment> \<open>what \<open>update_pipeline_run\<close> adds to the update\<close>
  "stamp_run now d updates =
    (let old_status = getd d ''status'' (JStr ''QUEUED''); new_status = dget updates ''status''
     in if truthy new_status \<and> new_status \<noteq> old_status then
          (let u1 = (if old_status = JStr ''QUEUED'' \<and> new_status = JStr ''RUNNING''
                     then dset updates ''started_at'' (getd updates ''started_at'' (JNum now)) else updates)
           in if new_status \<in> JStr ` set RUN_FINAL
              then dset u1 ''finished_at'' (getd u1 ''finished_at'' (JNum now)) else u1)
        else updates)"

definition unhashable :: "json \<Rightarrow> bool" where
  "unhashable j = (case j of JArr _ \<Rightarrow> True | JObj _ \<Rightarrow> True | _ \<Rightarrow> False)"

definition update_pipeline_run :: "string \<Rightarrow> real \<Rightarrow> doc \<Rightarrow> cicd \<Rightarrow> bool \<times> cicd" where
  \<comment> \<open>there is no check of the transition; a status that is a list or an object raises in the set test\<close>
  "update_pipeline_run run_id now updates S =
    (case get_pipeline_run run_id S of
       None \<Rightarrow> (False, S)
     | Some d \<Rightarrow>
         if truthy (dget updates ''status'') \<and> dget updates ''status'' \<noteq> getd d ''status'' (JStr ''QUEUED'')
            \<and> unhashable (dget updates ''status'') then (False, S)
         else (True, S\<lparr>ci_runs := AList.update run_id (Doc (dupd d (stamp_run now d updates))) (ci_runs S)\<rparr>))"

definition delete_pipeline_run :: "string \<Rightarrow> cicd \<Rightarrow> bool \<times> cicd" where
  "delete_pipeline_run run_id S =
    (map_of (ci_runs S) run_id \<noteq> None, S\<lparr>ci_runs := AList.delete run_id (ci_runs S)\<rparr>)"

subsection \<open>Artifacts\<close>

definition save_artifact :: "string \<Rightarrow> string \<Rightarrow> string \<Rightarrow> cicd \<Rightarrow> cicd" where
  "save_artifact run_id name content S =
    (let held = (case map_of (ci_artifacts S) run_id of None \<Rightarrow> [] | Some t \<Rightarrow> t)
     in S\<lparr>ci_artifacts := AList.update run_id (AList.update name content held) (ci_artifacts S)\<rparr>)"

definition list_artifacts :: "string \<Rightarrow> cicd \<Rightarrow> string list" where
  "list_artifacts run_id S =
    (case map_of (ci_artifacts S) run_id of None \<Rightarrow> [] | Some t \<Rightarrow> sort (map fst t))"

definition get_artifact :: "string \<Rightarrow> string \<Rightarrow> cicd \<Rightarrow> string option" where
  \<comment> \<open>the content behind the path that \<open>get_artifact_path\<close> returns\<close>
  "get_artifact run_id name S =
    (case map_of (ci_artifacts S) run_id of None \<Rightarrow> None | Some t \<Rightarrow> map_of t name)"

subsection \<open>Starting a run\<close>

fun step_records :: "json \<Rightarrow> json list \<Rightarrow> json list res" where
  "step_records stage_name [] = Inr []"
| "step_records stage_name (step # steps) =
    (case step of
       JObj d \<Rightarrow>
         map_sum (\<lambda>e. e)
           ((#) (JObj [(''stage_name'', stage_name), (''step_name'', getd d ''name'' (JStr ''step'')),
                       (''step_type'', getd d ''type'' (JStr ''shell'')),
                       (''config'', py_or (getd d ''config'' (JObj [])) (JObj [])), (''status'', JStr ''PENDING''),
                       (''started_at'', JNull), (''finished_at'', JNull), (''log_ref'', JNull)]))
           (step_records stage_name steps)
     | _ \<Rightarrow> Inl AttributeError)"

fun stage_records :: "json list \<Rightarrow> json list res" where
  "stage_records [] = Inr []"
| "stage_records (stage # stages) =
    (case stage of
       JObj d \<Rightarrow>
         (case iter_json (py_or (getd d ''steps'' (JArr [])) (JArr [])) of
            Inl e \<Rightarrow> Inl e
          | Inr steps \<Rightarrow>
              (case step_records (getd d ''name'' (JStr ''stage'')) steps of
                 Inl e \<Rightarrow> Inl e
               | Inr rs \<Rightarrow> map_sum (\<lambda>e. e) ((@) rs) (stage_records stages)))
     | _ \<Rightarrow> Inl AttributeError)"

definition trigger_pipeline_run ::
  "(json \<Rightarrow> string) \<Rightarrow> string \<Rightarrow> string \<Rightarrow> real \<Rightarrow> string \<Rightarrow> json \<Rightarrow> json \<Rightarrow> json \<Rightarrow> cicd \<Rightarrow> json option res \<times> cicd" where
  \<comment> \<open>the thread that is started is \<open>run_pipeline_thread\<close>\<close>
  "trigger_pipeline_run str project uuid now pipeline_id trigger_type git_commit triggered_by S =
    (case get_pipeline pipeline_id S of
       None \<Rightarrow> (Inr None, S)
     | Some p \<Rightarrow>
         if p = [] then (Inr None, S)
         else (case iter_json (py_or (getd p ''stages'' (JArr [])) (JArr [])) of
                 Inl e \<Rightarrow> (Inl e, S)
               | Inr stages \<Rightarrow>
                   (case stage_records stages of
                      Inl e \<Rightarrow> (Inl e, S)
                    | Inr steps \<Rightarrow>
                        (case create_pipeline_run str project uuid now pipeline_id
                                [(''trigger_type'', trigger_type), (''status'', JStr ''QUEUED''),
                                 (''git_commit'', git_commit), (''triggered_by'', triggered_by),
                                 (''steps'', JArr steps)] S of
                           (Inl e, S1) \<Rightarrow> (Inl e, S1)
                         | (Inr i, S1) \<Rightarrow> (Inr (Some i), S1)))))"

subsection \<open>One step\<close>

text \<open>A shell command writes lines and ends with an exception or an exit code. There is no time limit:
  \<open>None\<close> is a command that never ends, and then the step never does.\<close>

type_synonym shell = "nat \<Rightarrow> string \<Rightarrow> string list \<times> (string + int) option"

definition step_result :: "(json \<Rightarrow> string) \<Rightarrow> shell \<Rightarrow> nat \<Rightarrow> doc \<Rightarrow> string res option \<times> string option" where
  \<comment> \<open>the status, or the exception, if there is an end; and the text of the log when it is opened\<close>
  "step_result str sh i step =
    (case py_or (dget step ''step_type'') (JStr ''shell'') of
       JStr ty \<Rightarrow>
         (let step_type = lower ty;
              config = py_or (getd step ''config'' (JObj [])) (JObj []);
              head = ''=== Step: '' @ as_text str (dget step ''step_name'') @ '' ('' @ step_type @ '') ==='' @ nl @
                     ''=== Stage: '' @ as_text str (dget step ''stage_name'') @ '' ==='' @ nl @ nl
          in if step_type = ''shell'' then
               (case config of
                  JObj c \<Rightarrow>
                    (case py_or (dget c ''command'') (py_or (dget c ''script'') (JStr [])) of
                       JStr command \<Rightarrow>
                         if strip command = [] then (Some (Inr ''FAILED''), Some (head @ ''[error] no command provided'' @ nl))
                         else (let (output, rc) = sh i command;
                                   ran = head @ ''$ '' @ command @ nl @ nl @ concat output
                               in (case rc of
                                     None \<Rightarrow> (None, Some ran)
                                   | Some (Inl e) \<Rightarrow> (Some (Inr ''FAILED''), Some (ran @ nl @ ''[exception] '' @ e @ nl))
                                   | Some (Inr n) \<Rightarrow>
                                       (Some (Inr (if n = 0 then ''SUCCESS'' else ''FAILED'')),
                                        Some (ran @ nl @ ''[exit code: '' @ str (JNum (real_of_int n)) @ '']'' @ nl))))
                     | _ \<Rightarrow> (Some (Inl AttributeError), Some head))
                | _ \<Rightarrow> (Some (Inl AttributeError), Some head))
             else if step_type = ''ansible'' \<or> step_type = ''tofu'' then
               (Some (Inr ''SUCCESS''),
                Some (head @ ''[info] step type '' @ [CHR 0x27] @ step_type @ [CHR 0x27] @ '' is not yet wired to the worker; marking as SUCCESS placeholder.'' @ nl))
             else (Some (Inr ''FAILED''), Some (head @ ''[error] unknown step type: '' @ step_type @ nl)))
     | _ \<Rightarrow> (Some (Inl AttributeError), None))"

definition execute_step ::
  "(json \<Rightarrow> string) \<Rightarrow> shell \<Rightarrow> string \<Rightarrow> nat \<Rightarrow> doc \<Rightarrow> cicd \<Rightarrow> string res option \<times> cicd" where
  "execute_step str sh run_id i step S =
    (let (r, log) = step_result str sh i step
     in (r, case log of None \<Rightarrow> S | Some t \<Rightarrow> S\<lparr>ci_logs := AList.update (run_id, i) t (ci_logs S)\<rparr>))"

definition get_step_log :: "string \<Rightarrow> nat \<Rightarrow> cicd \<Rightarrow> string" where
  "get_step_log run_id i S = (case map_of (ci_logs S) (run_id, i) of None \<Rightarrow> [] | Some t \<Rightarrow> t)"

subsection \<open>The thread of a run\<close>

text \<open>The thread reads and rewrites the file of its run without a lock. Others work before the thread
  reads it and between its reading and its writing, and a write may fail, before or after the
  file was emptied; \<open>update_pipeline_run\<close> swallows that, and the thread ignores its result.\<close>

datatype write_end = Written | NotWritten | Garbled

record others =
  o_before :: "nat \<Rightarrow> cicd \<Rightarrow> cicd"
  o_between :: "nat \<Rightarrow> cicd \<Rightarrow> cicd"
  o_write :: "nat \<Rightarrow> write_end"

type_synonym moment = "cicd \<times> nat"

definition thread_update :: "others \<Rightarrow> (nat \<Rightarrow> real) \<Rightarrow> string \<Rightarrow> doc \<Rightarrow> moment \<Rightarrow> moment" where
  \<comment> \<open>the \<open>k\<close>-th write of the thread\<close>
  "thread_update env clock run_id updates = (\<lambda>(S, k).
    (let S1 = o_before env k S
     in case update_pipeline_run run_id (clock k) updates S1 of
          (False, S2) \<Rightarrow> (S2, Suc k)
        | (True, S2) \<Rightarrow>
            (let S3 = o_between env k S1
             in (case (o_write env k, map_of (ci_runs S2) run_id) of
                   (Written, Some f) \<Rightarrow> S3\<lparr>ci_runs := AList.update run_id f (ci_runs S3)\<rparr>
                 | (Garbled, _) \<Rightarrow> S3\<lparr>ci_runs := AList.update run_id Corrupt (ci_runs S3)\<rparr>
                 | _ \<Rightarrow> S3, Suc k))))"

fun skip_steps :: "json list \<Rightarrow> json list res" where
  "skip_steps [] = Inr []"
| "skip_steps (j # js) =
    (case j of
       JObj d \<Rightarrow> map_sum (\<lambda>e. e) ((#) (JObj (dset d ''status'' (JStr ''SKIPPED'')))) (skip_steps js)
     | _ \<Rightarrow> Inl TypeError)"

definition begin_step :: "(json \<Rightarrow> string) \<Rightarrow> real \<Rightarrow> nat \<Rightarrow> doc \<Rightarrow> doc" where
  "begin_step str now i d =
    dset (dset (dset d ''status'' (JStr ''RUNNING'')) ''started_at'' (JNum now))
      ''log_ref'' (JStr (''step_'' @ str (JNum (real i)) @ ''.log''))"

fun run_steps ::
  "(json \<Rightarrow> string) \<Rightarrow> shell \<Rightarrow> others \<Rightarrow> (nat \<Rightarrow> real) \<Rightarrow> string \<Rightarrow> json list \<Rightarrow> json list \<Rightarrow> moment
   \<Rightarrow> bool res option \<times> moment" where
  \<comment> \<open>the finished steps, those to come; whether the run has failed; \<open>None\<close>: a step never ends\<close>
  "run_steps str sh env clock run_id done [] T = (Some (Inr False), T)"
| "run_steps str sh env clock run_id done (step # rest) T =
    (case step of
       JObj d \<Rightarrow>
         (let i = length done;
              d1 = begin_step str (clock (snd T)) i d;
              T1 = thread_update env clock run_id [(''steps'', JArr (done @ JObj d1 # rest))] T
          in (case execute_step str sh run_id i d1 (fst T1) of
                (None, S) \<Rightarrow> (None, (S, snd T1))
              | (Some (Inl e), S) \<Rightarrow> (Some (Inl e), (S, snd T1))
              | (Some (Inr status), S) \<Rightarrow>
                  (let d2 = dset (dset d1 ''status'' (JStr status)) ''finished_at'' (JNum (clock (snd T1)));
                       T2 = thread_update env clock run_id [(''steps'', JArr (done @ JObj d2 # rest))] (S, snd T1)
                   in if status \<noteq> ''SUCCESS'' then
                        (case skip_steps rest of
                           Inl e \<Rightarrow> (Some (Inl e), T2)
                         | Inr skipped \<Rightarrow>
                             (Some (Inr True), thread_update env clock run_id [(''steps'', JArr (done @ JObj d2 # skipped))] T2))
                      else run_steps str sh env clock run_id (done @ [JObj d2]) rest T2)))
     | _ \<Rightarrow> (Some (Inl TypeError), T))"

definition run_pipeline_thread ::
  "(json \<Rightarrow> string) \<Rightarrow> shell \<Rightarrow> others \<Rightarrow> (nat \<Rightarrow> real) \<Rightarrow> string \<Rightarrow> cicd \<Rightarrow> bool \<times> cicd" where
  \<comment> \<open>whether the thread ends, and the project when it does, or when it waits for ever\<close>
  "run_pipeline_thread str sh env clock run_id S =
    (let end_as = (\<lambda>status T. (True, fst (thread_update env clock run_id [(''status'', JStr status)] T)))
     in case get_pipeline_run run_id S of
          None \<Rightarrow> (True, S)
        | Some d \<Rightarrow>
            if d = [] then (True, S)
            else (let T = thread_update env clock run_id [(''status'', JStr ''RUNNING'')] (S, 0)
                  in (case iter_json (getd d ''steps'' (JArr [])) of
                        Inl e \<Rightarrow> end_as ''FAILED'' T
                      | Inr steps \<Rightarrow>
                          (case run_steps str sh env clock run_id [] steps T of
                             (None, T') \<Rightarrow> (False, fst T')
                           | (Some (Inl e), T') \<Rightarrow> end_as ''FAILED'' T'
                           | (Some (Inr failed), T') \<Rightarrow> end_as (if failed then ''FAILED'' else ''SUCCESS'') T'))))"

subsection \<open>Handlers\<close>

text \<open>
  The handlers of \<^verbatim>\<open>server/api/cicd_routes.py\<close> that change state. None of them carries one of the
  decorators of \<^verbatim>\<open>server/auth/middleware.py\<close>. \<open>S\<close> is the directory of the project that
  \<open>cicd_project\<close> names.
\<close>

definition cicd_project :: "string option \<Rightarrow> doc \<Rightarrow> (string \<times> string) list \<Rightarrow> json" where
  "cicd_project header body args =
    (case nonempty header of
       Some p \<Rightarrow> JStr p
     | None \<Rightarrow> py_or (dget body ''project_id'')
                 (case map_of args ''project_id'' of None \<Rightarrow> JNull | Some p \<Rightarrow> JStr p))"

definition api_create_pipeline ::
  "(json \<Rightarrow> string) \<Rightarrow> json \<Rightarrow> string \<Rightarrow> real \<Rightarrow> doc \<Rightarrow> cicd \<Rightarrow> nat \<times> cicd" where
  "api_create_pipeline str pid uuid now body S =
    (if \<not> truthy pid then (400, S)
     else if \<not> truthy (dget body ''name'') then (400, S)
     else (201, snd (create_pipeline str (as_text str pid) uuid now body S)))"

definition api_update_pipeline :: "json \<Rightarrow> string \<Rightarrow> real \<Rightarrow> doc \<Rightarrow> cicd \<Rightarrow> nat \<times> cicd" where
  "api_update_pipeline pid pipeline_id now body S =
    (if \<not> truthy pid then (400, S)
     else (case update_pipeline pipeline_id now body S of (ok, S1) \<Rightarrow> (if ok then 200 else 404, S1)))"

definition api_delete_pipeline :: "json \<Rightarrow> string \<Rightarrow> cicd \<Rightarrow> nat \<times> cicd" where
  "api_delete_pipeline pid pipeline_id S =
    (if \<not> truthy pid then (400, S)
     else (case delete_pipeline pipeline_id S of (ok, S1) \<Rightarrow> (if ok then 200 else 404, S1)))"

definition api_trigger_pipeline ::
  "(json \<Rightarrow> string) \<Rightarrow> json \<Rightarrow> string \<Rightarrow> real \<Rightarrow> string \<Rightarrow> doc \<Rightarrow> cicd \<Rightarrow> (nat \<times> json option) \<times> cicd" where
  \<comment> \<open>with the run whose thread was started\<close>
  "api_trigger_pipeline str pid uuid now pipeline_id body S =
    (if \<not> truthy pid then ((400, None), S)
     else (case get_pipeline pipeline_id S of
             None \<Rightarrow> ((404, None), S)
           | Some p \<Rightarrow>
               if p = [] then ((404, None), S)
               else (case trigger_pipeline_run str (as_text str pid) uuid now pipeline_id
                            (getd body ''trigger_type'' (JStr ''manual'')) (getd body ''git_commit'' (JStr []))
                            (getd body ''triggered_by'' (JStr [])) S of
                       (Inl _, S1) \<Rightarrow> ((500, None), S1)
                     | (Inr None, S1) \<Rightarrow> ((500, None), S1)
                     | (Inr (Some i), S1) \<Rightarrow>
                         if \<not> truthy i then ((500, Some i), S1)
                         else ((case get_pipeline_run (as_text str i) S1 of None \<Rightarrow> 500 | Some _ \<Rightarrow> 200, Some i), S1))))"

definition api_update_run :: "json \<Rightarrow> string \<Rightarrow> real \<Rightarrow> doc \<Rightarrow> cicd \<Rightarrow> nat \<times> cicd" where
  "api_update_run pid run_id now body S =
    (if \<not> truthy pid then (400, S)
     else (case update_pipeline_run run_id now body S of (ok, S1) \<Rightarrow> (if ok then 200 else 404, S1)))"

definition api_delete_run :: "json \<Rightarrow> string \<Rightarrow> cicd \<Rightarrow> nat \<times> cicd" where
  "api_delete_run pid run_id S =
    (if \<not> truthy pid then (400, S)
     else (case delete_pipeline_run run_id S of (ok, S1) \<Rightarrow> (if ok then 200 else 404, S1)))"

end
