(* ===== verification/CicdProps.thy ===== *)
theory CicdProps
  imports Cicd
begin

section \<open>Pipelines and their runs: properties\<close>

text \<open>
  The thread of a run against a specification of what its steps end as, in the presence of
  other writers; the numbers of the runs; who may start a run.
\<close>

subsection \<open>Files of runs\<close>

lemma get_update_run:
  "get_pipeline_run r (S\<lparr>ci_runs := AList.update r (Doc d) (ci_runs S)\<rparr>) = Some d"
  by (simp add: get_pipeline_run_def read_one_def update_conv')

lemma update_run_props:
  assumes "get_pipeline_run r S = Some d" and "\<not> unhashable (dget u ''status'')"
  shows "get_pipeline_run r (snd (update_pipeline_run r now u S)) = Some (dupd d (stamp_run now d u))"
  using assms by (simp add: update_pipeline_run_def get_update_run)

lemma stamp_run_other:
  assumes "k \<noteq> ''started_at''" "k \<noteq> ''finished_at''"
  shows "dget (stamp_run now d u) k = dget u k" "has (stamp_run now d u) k = has u k"
  using assms by (auto simp: stamp_run_def Let_def)

lemma unhashable_simps [simp]:
  "\<not> unhashable JNull" "\<not> unhashable (JStr s)"
  by (simp_all add: unhashable_def)

subsection \<open>The thread among other writers\<close>

text \<open>Writers that, whenever the thread is about to read its run, have not removed its file and left
  its steps alone; and writes of the thread that succeed.\<close>

definition keeps_steps :: "string \<Rightarrow> others \<Rightarrow> bool" where
  "keeps_steps r env = (\<forall>k. o_write env k = Written \<and> (\<forall>S d. get_pipeline_run r S = Some d \<longrightarrow>
     (\<exists>d'. get_pipeline_run r (o_before env k S) = Some d' \<and> dget d' ''steps'' = dget d ''steps'')))"

definition keeps_run :: "string \<Rightarrow> others \<Rightarrow> bool" where
  "keeps_run r env = (\<forall>k. o_write env k = Written \<and>
     (\<forall>S. get_pipeline_run r S \<noteq> None \<longrightarrow> get_pipeline_run r (o_before env k S) \<noteq> None))"

lemma keeps_steps_run: "keeps_steps r env \<Longrightarrow> keeps_run r env"
  unfolding keeps_steps_def keeps_run_def by (metis not_None_eq)

lemma thread_writes:
  assumes "get_pipeline_run r (o_before env n S) = Some d" "\<not> unhashable (dget u ''status'')" "o_write env n = Written"
  shows "get_pipeline_run r (fst (thread_update env clock r u (S, n))) = Some (dupd d (stamp_run (clock n) d u))"
proof -
  obtain b S2 where u: "update_pipeline_run r (clock n) u (o_before env n S) = (b, S2)" by fastforce
  have "b" using assms(1,2) u by (simp add: update_pipeline_run_def)
  moreover have "map_of (ci_runs S2) r = Some (Doc (dupd d (stamp_run (clock n) d u)))"
    using assms(1,2) u by (simp add: update_pipeline_run_def) (auto simp: update_conv')
  ultimately show ?thesis using u assms(3)
    by (simp add: thread_update_def Let_def get_pipeline_run_def read_one_def update_conv')
qed

lemma get_execute_step [simp]:
  "get_pipeline_run r (snd (execute_step str sh r' i d S)) = get_pipeline_run r S"
  by (simp add: execute_step_def get_pipeline_run_def split: prod.split option.split)

lemma execute_step_result: "fst (execute_step str sh r i d S) = fst (step_result str sh i d)"
  by (simp add: execute_step_def split: prod.split)

lemma thread_update_present:
  assumes "keeps_run r env" "get_pipeline_run r (fst T) \<noteq> None" "\<not> unhashable (dget u ''status'')"
  shows "\<exists>d. get_pipeline_run r (fst (thread_update env clock r u T)) = Some d \<and>
    (\<forall>k. has u k \<longrightarrow> k \<noteq> ''started_at'' \<longrightarrow> k \<noteq> ''finished_at'' \<longrightarrow> dget d k = dget u k)"
proof -
  obtain S n where T: "T = (S, n)" by fastforce
  have w: "o_write env n = Written" using assms(1) by (simp add: keeps_run_def)
  obtain d where d: "get_pipeline_run r (o_before env n S) = Some d"
    using assms(1,2) unfolding keeps_run_def T by (metis fst_conv not_None_eq)
  show ?thesis
    using thread_writes [OF d assms(3) w] by (auto simp: T dget_dupd stamp_run_other)
qed

lemma thread_update_steps:
  assumes "keeps_steps r env" "get_pipeline_run r (fst T) = Some d" "\<not> unhashable (dget u ''status'')" "\<not> has u ''steps''"
  shows "\<exists>d'. get_pipeline_run r (fst (thread_update env clock r u T)) = Some d' \<and> dget d' ''steps'' = dget d ''steps''"
proof -
  obtain S n where T: "T = (S, n)" by fastforce
  have w: "o_write env n = Written" using assms(1) by (simp add: keeps_steps_def)
  obtain d1 where d1: "get_pipeline_run r (o_before env n S) = Some d1" "dget d1 ''steps'' = dget d ''steps''"
    using assms(1,2) unfolding keeps_steps_def T by (metis fst_conv)
  show ?thesis
    using thread_writes [OF d1(1) assms(3) w] d1(2) assms(4) by (auto simp: T dget_dupd stamp_run_other)
qed

lemma run_steps_present:
  assumes "keeps_run r env" "get_pipeline_run r (fst T) \<noteq> None"
  shows "get_pipeline_run r (fst (snd (run_steps str sh env clock r dn steps T))) \<noteq> None"
  using assms(2)
proof (induction steps arbitrary: dn T)
  case (Cons step rest)
  have upd: "get_pipeline_run r (fst (thread_update env clock r [(''steps'', j)] T)) \<noteq> None"
    if "get_pipeline_run r (fst T) \<noteq> None" for j and T :: moment
    using thread_update_present [OF assms(1) that, of "[(''steps'', j)]"] by auto
  show ?case
  proof (cases step)
    case (JObj d)
    define d1 where "d1 = begin_step str (clock (snd T)) (length dn) d"
    define T1 where "T1 = thread_update env clock r [(''steps'', JArr (dn @ JObj d1 # rest))] T"
    obtain res S where ex: "execute_step str sh r (length dn) d1 (fst T1) = (res, S)" by fastforce
    have S: "get_pipeline_run r S \<noteq> None"
      using upd [OF Cons.prems] unfolding T1_def by (metis T1_def ex get_execute_step snd_conv)
    show ?thesis
    proof (cases "\<exists>status. res = Some (Inr status)")
      case True
      then obtain status where Inr: "res = Some (Inr status)" by blast
      have *: "get_pipeline_run r (fst (thread_update env clock r [(''steps'', j)] (S, snd T1))) \<noteq> None" for j
        using S by (intro upd) simp
      show ?thesis
        using Cons.IH [OF *] upd [OF *] *
        by (simp add: JObj d1_def [symmetric] T1_def [symmetric] ex Inr Let_def split: sum.split)
    next
      case False
      then show ?thesis
        using S by (auto simp: JObj d1_def [symmetric] T1_def [symmetric] ex Let_def split: option.split sum.split)
    qed
  qed (use Cons.prems in simp_all)
qed simp

lemma step_hangs:
  assumes "fst (step_result str sh i step) = None"
  shows "\<exists>command. snd (sh i command) = None"
proof -
  obtain ty c command where "py_or (dget step ''step_type'') (JStr ''shell'') = JStr ty" "lower ty = ''shell''"
    "py_or (getd step ''config'' (JObj [])) (JObj []) = JObj c"
    "py_or (dget c ''command'') (py_or (dget c ''script'') (JStr [])) = JStr command" "strip command \<noteq> []"
    using assms by (auto simp: step_result_def Let_def split: json.splits if_splits)
  then have "snd (sh i command) = None"
    using assms by (auto simp: step_result_def Let_def split: prod.splits option.splits sum.splits)
  then show ?thesis by blast
qed

lemma steps_hang:
  assumes "fst (run_steps str sh env clock r dn steps T) = None"
  shows "\<exists>i command. snd (sh i command) = None"
  using assms
proof (induction steps arbitrary: dn T)
  case (Cons step rest)
  show ?case
  proof (cases step)
    case (JObj d)
    let ?d = "begin_step str (clock (snd T)) (length dn) d"
    define T1 where "T1 = thread_update env clock r [(''steps'', JArr (dn @ JObj ?d # rest))] T"
    obtain res S where ex: "execute_step str sh r (length dn) ?d (fst T1) = (res, S)" by fastforce
    show ?thesis
    proof (cases "res = None")
      case True
      then have "fst (step_result str sh (length dn) ?d) = None"
        using ex execute_step_result [of str sh r "length dn" ?d "fst T1"] by simp
      then show ?thesis using step_hangs by blast
    next
      case False
      then show ?thesis
        using Cons.prems JObj ex
        by (auto simp: Let_def T1_def [symmetric] split: sum.splits if_splits intro: Cons.IH)
    qed
  qed (use Cons.prems in simp_all)
qed simp

text \<open>C16: Only a command that never ends can keep a pipeline run from ending. Whatever the stored steps
  look like and whatever others write to the project meanwhile, as long as the run's file is there
  and readable when the thread reads it and the thread's own writes succeed: if the thread does not end, one of the
  commands does not, and if it ends, then the run is \<open>SUCCESS\<close> or \<open>FAILED\<close>, also when a step
  crashed the thread.\<close>
theorem pipeline_run_ends:
  assumes "get_pipeline_run r S = Some d" "d \<noteq> []" "keeps_run r env"
    and "run_pipeline_thread str sh env clock r S = (ended, S')"
  shows "if ended then \<exists>d'. get_pipeline_run r S' = Some d' \<and> dget d' ''status'' \<in> {JStr ''SUCCESS'', JStr ''FAILED''}
    else \<exists>i command. snd (sh i command) = None"
proof -
  define T where "T = thread_update env clock r [(''status'', JStr ''RUNNING'')] (S, 0)"
  have T: "get_pipeline_run r (fst T) \<noteq> None"
    using thread_update_present [OF assms(3), of "(S, 0)" "[(''status'', JStr ''RUNNING'')]"] assms(1) by (auto simp: T_def)
  have fin: "\<exists>d'. get_pipeline_run r (fst (thread_update env clock r [(''status'', JStr s)] T')) = Some d' \<and>
      dget d' ''status'' = JStr s" if "get_pipeline_run r (fst T') \<noteq> None" for s and T'
    using thread_update_present [OF assms(3) that, of "[(''status'', JStr s)]"] by auto
  show ?thesis
  proof (cases "iter_json (getd d ''steps'' (JArr []))")
    case (Inl e)
    then show ?thesis
      using fin [OF T, of "''FAILED''"] assms(1,2,4) by (auto simp: run_pipeline_thread_def T_def [symmetric] Let_def)
  next
    case (Inr steps)
    obtain res T' where run: "run_steps str sh env clock r [] steps T = (res, T')" by (meson surj_pair)
    have "get_pipeline_run r (fst T') \<noteq> None"
      using run_steps_present [OF assms(3) T] run by (metis snd_conv)
    then obtain e1 e2 where "get_pipeline_run r (fst (thread_update env clock r [(''status'', JStr ''FAILED'')] T')) = Some e1"
      "dget e1 ''status'' = JStr ''FAILED''"
      "get_pipeline_run r (fst (thread_update env clock r [(''status'', JStr ''SUCCESS'')] T')) = Some e2"
      "dget e2 ''status'' = JStr ''SUCCESS''"
      using fin by blast
    moreover have "res = None \<Longrightarrow> \<exists>i command. snd (sh i command) = None"
      using steps_hang [of str sh env clock r "[]" steps T] run by simp
    ultimately show ?thesis
      using assms(1,2,4) Inr run
      by (auto simp: run_pipeline_thread_def T_def [symmetric] Let_def split: sum.splits option.splits)
  qed
qed


subsection \<open>What the steps end as\<close>

fun expected :: "string list \<Rightarrow> string list" where
  "expected [] = []"
| "expected (s # ss) = s # (if s = ''SUCCESS'' then expected ss else map (\<lambda>_. ''SKIPPED'') ss)"

lemma step_result_begin: "step_result str sh i (begin_step str now j d) = step_result str sh i d"
proof -
  have "dget (begin_step str now j d) k = dget d k" "getd (begin_step str now j d) k v = getd d k v"
    if "k \<in> {''step_type'', ''config'', ''step_name'', ''stage_name''}" for k v
    using that by (auto simp: begin_step_def)
  note this [of "''step_type''"] this [of "''config''"] this [of "''step_name''"] this [of "''stage_name''"]
  then show ?thesis unfolding step_result_def by (simp only: insert_iff simp_thms)
qed

lemma skip_steps_docs: "skip_steps (map JObj ds) = Inr (map (\<lambda>d. JObj (dset d ''status'' (JStr ''SKIPPED''))) ds)"
  by (induction ds) simp_all

lemma thread_write_steps:
  assumes "keeps_steps r env" "get_pipeline_run r (fst T) \<noteq> None"
  shows "\<exists>d. get_pipeline_run r (fst (thread_update env clock r [(''steps'', j)] T)) = Some d \<and> dget d ''steps'' = j"
  using thread_update_present [OF keeps_steps_run [OF assms(1)] assms(2), of "[(''steps'', j)]"] by auto

lemma run_steps_outcome:
  assumes "keeps_steps r env" "length rs = length ds"
    and "\<forall>i<length ds. fst (step_result str sh (length dn + i) (ds ! i)) = Some (Inr (rs ! i))"
    and "get_pipeline_run r (fst T) = Some d" "dget d ''steps'' = JArr (dn @ map JObj ds)"
  shows "\<exists>T' d' ds'. run_steps str sh env clock r dn (map JObj ds) T = (Some (Inr (\<not> list_all ((=) ''SUCCESS'') rs)), T') \<and>
    get_pipeline_run r (fst T') = Some d' \<and> dget d' ''steps'' = JArr (dn @ map JObj ds') \<and>
    map (\<lambda>s. dget s ''status'') ds' = map JStr (expected rs)"
  using assms(2-5)
proof (induction ds arbitrary: rs dn T d)
  case (Cons s ds)
  obtain status rs' where rs: "rs = status # rs'" "length rs' = length ds" using Cons.prems(1) by (cases rs) auto
  define d1 where "d1 = begin_step str (clock (snd T)) (length dn) s"
  define T1 where "T1 = thread_update env clock r [(''steps'', JArr (dn @ JObj d1 # map JObj ds))] T"
  have T1: "get_pipeline_run r (fst T1) \<noteq> None"
    using thread_write_steps [OF assms(1), of T] Cons.prems(3) unfolding T1_def by (metis option.distinct(1))
  obtain S where ex: "execute_step str sh r (length dn) d1 (fst T1) = (Some (Inr status), S)"
    using Cons.prems(2) [THEN spec, of 0] execute_step_result [of str sh r "length dn" d1 "fst T1"]
    by (cases "execute_step str sh r (length dn) d1 (fst T1)") (auto simp: rs d1_def step_result_begin)
  then have S: "get_pipeline_run r S \<noteq> None" using T1 by (metis get_execute_step snd_conv)
  define d2 where "d2 = dset (dset d1 ''status'' (JStr status)) ''finished_at'' (JNum (clock (snd T1)))"
  define T2 where "T2 = thread_update env clock r [(''steps'', JArr (dn @ JObj d2 # map JObj ds))] (S, snd T1)"
  obtain e where T2: "get_pipeline_run r (fst T2) = Some e" "dget e ''steps'' = JArr (dn @ JObj d2 # map JObj ds)"
    using thread_write_steps [OF assms(1), of "(S, snd T1)"] S unfolding T2_def by auto
  have d2: "dget d2 ''status'' = JStr status" by (simp add: d2_def)
  define skipped where "skipped = map (\<lambda>d. JObj (dset d ''status'' (JStr ''SKIPPED''))) ds"
  have step: "run_steps str sh env clock r dn (map JObj (s # ds)) T =
    (if status \<noteq> ''SUCCESS'' then (Some (Inr True), thread_update env clock r [(''steps'', JArr (dn @ JObj d2 # skipped))] T2)
     else run_steps str sh env clock r (dn @ [JObj d2]) (map JObj ds) T2)"
    by (simp add: Let_def d1_def [symmetric] T1_def [symmetric] ex d2_def [symmetric] T2_def [symmetric]
        skip_steps_docs skipped_def)
  show ?case
  proof (cases "status = ''SUCCESS''")
    case True
    have "\<forall>i<length ds. fst (step_result str sh (length (dn @ [JObj d2]) + i) (ds ! i)) = Some (Inr (rs' ! i))"
      using Cons.prems(2) by (force simp: rs)
    from Cons.IH [OF rs(2) this T2(1)] T2(2)
    obtain T' d' ds' where IH: "run_steps str sh env clock r (dn @ [JObj d2]) (map JObj ds) T2 = (Some (Inr (\<not> list_all ((=) ''SUCCESS'') rs')), T')"
      "get_pipeline_run r (fst T') = Some d'" "dget d' ''steps'' = JArr ((dn @ [JObj d2]) @ map JObj ds')"
      "map (\<lambda>s. dget s ''status'') ds' = map JStr (expected rs')"
      by auto
    show ?thesis
      unfolding step
      by (rule exI [of _ T'], rule exI [of _ d'], rule exI [of _ "d2 # ds'"])
        (use IH True d2 in \<open>simp add: rs\<close>)
  next
    case False
    define T3 where "T3 = thread_update env clock r [(''steps'', JArr (dn @ JObj d2 # skipped))] T2"
    obtain e' where e': "get_pipeline_run r (fst T3) = Some e'" "dget e' ''steps'' = JArr (dn @ JObj d2 # skipped)"
      using thread_write_steps [OF assms(1), of T2] T2(1) unfolding T3_def by auto
    show ?thesis
      unfolding step T3_def [symmetric]
      by (rule exI [of _ T3], rule exI [of _ e'], rule exI [of _ "d2 # map (\<lambda>d. dset d ''status'' (JStr ''SKIPPED'')) ds"])
        (use e' False d2 rs(2) in \<open>simp add: rs(1) skipped_def map_replicate_const o_def\<close>)
  qed
qed auto


lemma pipeline_run_outcome_lemma:
  assumes "get_pipeline_run r S = Some d" "dget d ''steps'' = JArr (map JObj ds)" "keeps_steps r env"
    and "length rs = length ds" "\<forall>i<length ds. fst (step_result str sh i (ds ! i)) = Some (Inr (rs ! i))"
  shows "\<exists>S' d' ds'. run_pipeline_thread str sh env clock r S = (True, S') \<and> get_pipeline_run r S' = Some d' \<and>
    dget d' ''steps'' = JArr (map JObj ds') \<and> map (\<lambda>s. dget s ''status'') ds' = map JStr (expected rs) \<and>
    dget d' ''status'' = JStr (if list_all ((=) ''SUCCESS'') rs then ''SUCCESS'' else ''FAILED'')"
proof -
  define T where "T = thread_update env clock r [(''status'', JStr ''RUNNING'')] (S, 0)"
  obtain d1 where d1: "get_pipeline_run r (fst T) = Some d1" "dget d1 ''steps'' = JArr ([] @ map JObj ds)"
    using thread_update_steps [OF assms(3), of "(S, 0)" d "[(''status'', JStr ''RUNNING'')]"] assms(1,2)
    by (auto simp: T_def)
  have "\<forall>i<length ds. fst (step_result str sh (length ([] :: json list) + i) (ds ! i)) = Some (Inr (rs ! i))"
    using assms(5) by simp
  from run_steps_outcome [OF assms(3,4) this d1, where clock = clock]
  obtain T' d' ds' where run: "run_steps str sh env clock r [] (map JObj ds) T = (Some (Inr (\<not> list_all ((=) ''SUCCESS'') rs)), T')"
    and d': "get_pipeline_run r (fst T') = Some d'" "dget d' ''steps'' = JArr (map JObj ds')"
      "map (\<lambda>s. dget s ''status'') ds' = map JStr (expected rs)" by auto
  let ?u = "[(''status'', JStr (if list_all ((=) ''SUCCESS'') rs then ''SUCCESS'' else ''FAILED''))]"
  have "getd d ''steps'' (JArr []) = JArr (map JObj ds)" "d \<noteq> []"
    using assms(2) by (auto simp: dget_def getd_def split: option.splits)
  then have "run_pipeline_thread str sh env clock r S = (True, fst (thread_update env clock r ?u T'))"
    using assms(1) run by (simp add: run_pipeline_thread_def T_def [symmetric] Let_def iter_json_def)
  moreover obtain e where "get_pipeline_run r (fst (thread_update env clock r ?u T')) = Some e" "dget e ''steps'' = JArr (map JObj ds')"
    using thread_update_steps [OF assms(3) d'(1), of ?u] d'(2) by auto
  moreover from this have "dget e ''status'' = JStr (if list_all ((=) ''SUCCESS'') rs then ''SUCCESS'' else ''FAILED'')"
    using thread_update_present [OF keeps_steps_run [OF assms(3)], of T' ?u clock] d'(1) by auto
  ultimately show ?thesis using d'(3) by (intro exI [of _ "fst (thread_update env clock r ?u T')"] exI [of _ e] exI [of _ ds']) simp
qed


text \<open>C17: A run does its steps in order and stops at the first failure. For stored steps whose
  commands raise nothing, whatever others write to the project as long as they leave the run's
  steps alone, and with every command ending and every write of the thread succeeding: the statuses of the steps are those of the commands up to the first failure,
  every later step is \<open>SKIPPED\<close>, and the run is \<open>SUCCESS\<close> exactly when all steps succeeded.\<close>
theorem pipeline_run_outcome:
  assumes "get_pipeline_run r S = Some d" "dget d ''steps'' = JArr (map JObj ds)" "keeps_steps r env"
    and "length rs = length ds" "\<forall>i<length ds. fst (step_result str sh i (ds ! i)) = Some (Inr (rs ! i))"
  shows "\<exists>S' d' ds'. run_pipeline_thread str sh env clock r S = (True, S') \<and> get_pipeline_run r S' = Some d' \<and>
    dget d' ''steps'' = JArr (map JObj ds') \<and> map (\<lambda>s. dget s ''status'') ds' = map JStr (expected rs) \<and>
    dget d' ''status'' = JStr (if list_all ((=) ''SUCCESS'') rs then ''SUCCESS'' else ''FAILED'')"
  using assms by (rule pipeline_run_outcome_lemma)

text \<open>Cancelling a run has no effect. \<open>update_pipeline_run\<close> checks no transition and the thread
  never reads the status: a request that sets a run to \<open>CANCELED\<close> before any of the thread's
  writes is answered with 200, yet all steps are executed as if nothing had happened, and the run
  ends as \<open>SUCCESS\<close> or \<open>FAILED\<close>.\<close>
theorem cancel_is_overwritten:
  fixes pid :: json and now :: real and c :: nat
  assumes "get_pipeline_run r S = Some d" "dget d ''steps'' = JArr (map JObj ds)" "truthy pid"
    and "length rs = length ds" "\<forall>i<length ds. fst (step_result str sh i (ds ! i)) = Some (Inr (rs ! i))"
  defines "cancel \<equiv> api_update_run pid r now [(''status'', JStr ''CANCELED'')]"
  defines "env \<equiv> \<lparr>o_before = (\<lambda>k S. if k = c then snd (cancel S) else S), o_between = (\<lambda>k S. S), o_write = (\<lambda>k. Written)\<rparr>"
  shows "fst (cancel S) = 200 \<and>
    (\<exists>S' d' ds'. run_pipeline_thread str sh env clock r S = (True, S') \<and> get_pipeline_run r S' = Some d' \<and>
      dget d' ''steps'' = JArr (map JObj ds') \<and> map (\<lambda>s. dget s ''status'') ds' = map JStr (expected rs) \<and>
      dget d' ''status'' = JStr (if list_all ((=) ''SUCCESS'') rs then ''SUCCESS'' else ''FAILED''))"
proof -
  have "keeps_steps r env"
    unfolding keeps_steps_def
  proof (intro allI conjI impI)
    show "o_write env k = Written" for k by (simp add: env_def)
    fix k S e assume e: "get_pipeline_run r S = Some e"
    show "\<exists>e'. get_pipeline_run r (o_before env k S) = Some e' \<and> dget e' ''steps'' = dget e ''steps''"
      using update_run_props [OF e, of "[(''status'', JStr ''CANCELED'')]" now] e assms(3)
      by (auto simp: env_def cancel_def api_update_run_def dget_dupd stamp_run_other split: prod.split)
  qed
  then show ?thesis
    using pipeline_run_outcome_lemma [OF assms(1,2) _ assms(4,5), of env clock] assms(1,3)
    by (auto simp: cancel_def api_update_run_def update_pipeline_run_def)
qed


subsection \<open>Witnesses\<close>

definition demo_step :: "string \<Rightarrow> doc" where
  "demo_step command = [(''step_type'', JStr ''Shell''), (''config'', JObj [(''command'', JStr command)])]"

definition demo_run :: doc where
  "demo_run = [(''status'', JStr ''QUEUED''),
     (''steps'', JArr (map JObj [demo_step ''make'', demo_step ''false'', demo_step ''make'']))]"

definition demo_cicd :: cicd where
  "demo_cicd = \<lparr>ci_pipelines = [], ci_runs = [(''r'', Doc demo_run)], ci_logs = [], ci_artifacts = []\<rparr>"

definition demo_shell :: shell where
  "demo_shell i command = ([], Some (Inr (if command = ''make'' then 0 else 1)))"

definition nobody :: others where
  "nobody = \<lparr>o_before = (\<lambda>_ S. S), o_between = (\<lambda>_ S. S), o_write = (\<lambda>_. Written)\<rparr>"

definition demo_str :: "json \<Rightarrow> string" where "demo_str j = ''n''"

lemma demo_run_stored: "get_pipeline_run ''r'' demo_cicd = Some demo_run" "demo_run \<noteq> []"
  "dget demo_run ''steps'' = JArr (map JObj [demo_step ''make'', demo_step ''false'', demo_step ''make''])"
  by (simp_all add: demo_cicd_def get_pipeline_run_def read_one_def demo_run_def)

lemma demo_results:
  "fst (step_result demo_str demo_shell i (demo_step ''make'')) = Some (Inr ''SUCCESS'')"
  "fst (step_result demo_str demo_shell i (demo_step ''false'')) = Some (Inr ''FAILED'')"
proof -
  have "lower ''Shell'' = ''shell''" "strip ''make'' = ''make''" "strip ''false'' = ''false''" by code_simp+
  then show "fst (step_result demo_str demo_shell i (demo_step ''make'')) = Some (Inr ''SUCCESS'')"
    "fst (step_result demo_str demo_shell i (demo_step ''false'')) = Some (Inr ''FAILED'')"
    by (simp_all add: step_result_def demo_step_def demo_shell_def py_or_def Let_def)
qed

lemma demo_all_results:
  "\<forall>i<length [demo_step ''make'', demo_step ''false'', demo_step ''make''].
     fst (step_result demo_str demo_shell i ([demo_step ''make'', demo_step ''false'', demo_step ''make''] ! i)) =
     Some (Inr ([''SUCCESS'', ''FAILED'', ''SUCCESS''] ! i))"
  using demo_results by (auto simp: less_Suc_eq)

lemma quiet_keeps: "keeps_steps r nobody" "keeps_run r nobody"
  by (simp_all add: keeps_steps_def keeps_run_def nobody_def)

theorem pipeline_run_ends_witness:
  "case run_pipeline_thread demo_str demo_shell nobody real ''r'' demo_cicd of
     (ended, S') \<Rightarrow> ended \<and> (\<exists>d'. get_pipeline_run ''r'' S' = Some d' \<and>
       dget d' ''status'' \<in> {JStr ''SUCCESS'', JStr ''FAILED''})"
proof -
  obtain ended S' where run: "run_pipeline_thread demo_str demo_shell nobody real ''r'' demo_cicd = (ended, S')" by fastforce
  from pipeline_run_ends [OF demo_run_stored(1,2) quiet_keeps(2) run] show ?thesis
    by (auto simp: run demo_shell_def split: if_splits)
qed

theorem pipeline_run_outcome_witness:
  "\<exists>S' d' ds'. run_pipeline_thread demo_str demo_shell nobody real ''r'' demo_cicd = (True, S') \<and>
    get_pipeline_run ''r'' S' = Some d' \<and> dget d' ''steps'' = JArr (map JObj ds') \<and>
    map (\<lambda>s. dget s ''status'') ds' = map JStr [''SUCCESS'', ''FAILED'', ''SKIPPED''] \<and>
    dget d' ''status'' = JStr ''FAILED''"
  using pipeline_run_outcome [OF demo_run_stored(1,3) quiet_keeps(1) _ demo_all_results] by auto

theorem cancel_is_overwritten_witness:
  "\<exists>S' d' ds'. run_pipeline_thread demo_str demo_shell
      \<lparr>o_before = (\<lambda>k S. if k = 2 then snd (api_update_run (JStr ''p'') ''r'' 5 [(''status'', JStr ''CANCELED'')] S) else S),
       o_between = (\<lambda>k S. S), o_write = (\<lambda>k. Written)\<rparr> real ''r'' demo_cicd = (True, S') \<and>
    get_pipeline_run ''r'' S' = Some d' \<and> dget d' ''steps'' = JArr (map JObj ds') \<and>
    map (\<lambda>s. dget s ''status'') ds' = map JStr [''SUCCESS'', ''FAILED'', ''SKIPPED''] \<and>
    dget d' ''status'' = JStr ''FAILED''"
  using cancel_is_overwritten [OF demo_run_stored(1,3) _ _ demo_all_results, of "JStr ''p''" 5 2 real] by auto

text \<open>There is no time limit: a first step whose command never ends leaves the run as it is.\<close>

theorem hanging_command_blocks_run:
  assumes "get_pipeline_run r S = Some d" "dget d ''steps'' = JArr (JObj s # steps)"
    and "fst (step_result str sh 0 s) = None"
  shows "fst (run_pipeline_thread str sh nobody clock r S) = False"
proof -
  have "getd d ''steps'' (JArr []) = JArr (JObj s # steps)" "d \<noteq> []"
    using assms(2) by (auto simp: dget_def getd_def split: option.splits)
  then show ?thesis
    using assms(1,3)
    by (auto simp: run_pipeline_thread_def iter_json_def Let_def step_result_begin execute_step_def split: prod.splits)
qed

subsection \<open>Run numbers\<close>

text \<open>What can happen to the files of the runs: a run is created, a run is deleted, a run is
  written by its thread or by a request. Only a request may name the fields that identify a run;
  \<open>honest\<close> excludes that.\<close>

datatype run_op =
    Create string real string doc       \<comment> \<open>uuid, time, pipeline, the new run\<close>
  | Write string real doc
  | Delete string

fun apply_run :: "(json \<Rightarrow> string) \<Rightarrow> string \<Rightarrow> run_op \<Rightarrow> cicd \<Rightarrow> cicd" where
  "apply_run str project (Create uuid now pipeline_id data) S =
     snd (create_pipeline_run str project uuid now pipeline_id data S)"
| "apply_run str project (Write r now u) S = snd (update_pipeline_run r now u S)"
| "apply_run str project (Delete r) S = snd (delete_pipeline_run r S)"

fun honest :: "run_op \<Rightarrow> bool" where
  "honest (Write r now u) = (\<not> has u ''run_number'' \<and> \<not> has u ''pipeline_id'')"
| "honest _ = True"

definition run_key :: "doc \<Rightarrow> json \<times> json" where
  "run_key d = (dget d ''pipeline_id'', dget d ''run_number'')"

definition numbered :: "cicd \<Rightarrow> bool" where
  "numbered S =
    (distinct (map fst (ci_runs S)) \<and>
     (\<forall>(k, f)\<in>set (ci_runs S). \<exists>d n. f = Doc d \<and> dget d ''run_number'' = JNum n \<and> 0 < n) \<and>
     (\<forall>k1 k2 d1 d2. (k1, Doc d1) \<in> set (ci_runs S) \<longrightarrow> (k2, Doc d2) \<in> set (ci_runs S) \<longrightarrow>
        run_key d1 = run_key d2 \<longrightarrow> k1 = k2))"

lemma set_read_files: "set (read_files fs) = {d. \<exists>k. (k, Doc d) \<in> set fs}"
  by (force simp: read_files_def List.map_filter_def)

lemma set_sort_runs: "sort_runs rs = Inr rs' \<Longrightarrow> set rs' = set rs"
  by (auto simp: sort_runs_def Let_def split: if_splits)

lemma max_number_ge: "max_number js = Inr n \<Longrightarrow> JNum m \<in> set js \<Longrightarrow> m \<le> n"
proof (induction js arbitrary: n)
  case (Cons j js)
  then show ?case by (cases "max_number js") (auto split: option.splits if_splits)
qed simp

lemma max_number_nonneg:
  "max_number js = Inr n \<Longrightarrow> \<forall>j\<in>set js. \<exists>m. j = JNum m \<and> 0 < m \<Longrightarrow> 0 \<le> n"
proof (cases js)
  case (Cons j js')
  assume n: "max_number js = Inr n" and pos: "\<forall>j\<in>set js. \<exists>m. j = JNum m \<and> 0 < m"
  then obtain m where m: "j = JNum m" "0 < m" using Cons by auto
  then show ?thesis using max_number_ge [OF n, of m] Cons by simp
qed simp

lemma numbered_create:
  assumes "numbered S"
  shows "numbered (snd (create_pipeline_run str project uuid now pipeline_id data S))"
proof (cases "list_pipeline_runs (JStr pipeline_id) S")
  case (Inr rs)
  show ?thesis
  proof (cases "max_number (map (\<lambda>r. getd r ''run_number'' (JNum 0)) rs)")
    case (Inr n)
    define key where "key = as_text str (py_or (dget data ''id'') (JStr uuid))"
    define d where "d = new_run project (py_or (dget data ''id'') (JStr uuid)) (JStr pipeline_id) (n + 1) now data"
    have eq: "snd (create_pipeline_run str project uuid now pipeline_id data S) =
        S\<lparr>ci_runs := AList.update key (Doc d) (ci_runs S)\<rparr>"
      using Inr \<open>list_pipeline_runs (JStr pipeline_id) S = Inr rs\<close>
      by (simp add: create_pipeline_run_def Let_def key_def d_def)
    have mem: "set rs = {r. (\<exists>k. (k, Doc r) \<in> set (ci_runs S)) \<and> (pipeline_id = [] \<or> dget r ''pipeline_id'' = JStr pipeline_id)}"
      using set_sort_runs [of _ rs] \<open>list_pipeline_runs (JStr pipeline_id) S = Inr rs\<close>
      by (auto simp: list_pipeline_runs_def set_read_files)
    have num: "\<exists>m. dget r ''run_number'' = JNum m \<and> getd r ''run_number'' (JNum 0) = JNum m \<and> 0 < m"
      if "(k, Doc r) \<in> set (ci_runs S)" for k r
      using assms that unfolding numbered_def by (force simp: dget_def getd_def split: option.splits)
    have low: "m \<le> n" if "r \<in> set rs" "dget r ''run_number'' = JNum m" for r m
      using max_number_ge [OF Inr, of m] num that by (force simp: mem)
    have "0 \<le> n" using max_number_nonneg [OF Inr] num by (force simp: mem)
    then have d: "dget d ''run_number'' = JNum (n + 1)" "dget d ''pipeline_id'' = JStr pipeline_id" "0 < n + 1"
      by (simp_all add: d_def new_run_def)
    have new: "run_key r \<noteq> run_key d" if "(k, Doc r) \<in> set (ci_runs S)" for k r
      using low [of r "n + 1"] that d by (auto simp: run_key_def mem)
    have dist: "distinct (map fst (ci_runs S))" using assms by (simp add: numbered_def)
    show ?thesis
      unfolding eq numbered_def
      using assms dist new new [symmetric] d
      by (simp add: set_update distinct_update) (unfold numbered_def, blast)
  qed (use assms \<open>list_pipeline_runs (JStr pipeline_id) S = Inr rs\<close> in \<open>simp add: create_pipeline_run_def Let_def\<close>)
qed (use assms in \<open>simp add: create_pipeline_run_def Let_def\<close>)


lemma numbered_write:
  assumes "numbered S" "\<not> has u ''run_number''" "\<not> has u ''pipeline_id''"
  shows "numbered (snd (update_pipeline_run r now u S))"
proof (cases "get_pipeline_run r S")
  case (Some d)
  define d' where "d' = dupd d (stamp_run now d u)"
  have mem: "(r, Doc d) \<in> set (ci_runs S)"
    using Some by (auto simp: get_pipeline_run_def read_one_def dest: map_of_SomeD)
  have dist: "distinct (map fst (ci_runs S))" using assms(1) by (simp add: numbered_def)
  have key: "run_key d' = run_key d" "dget d' ''run_number'' = dget d ''run_number''"
    using assms(2,3) by (simp_all add: run_key_def d'_def dget_dupd stamp_run_other)
  have "numbered (S\<lparr>ci_runs := AList.update r (Doc d') (ci_runs S)\<rparr>)"
    using assms(1) dist mem key unfolding numbered_def
    by (simp add: set_update distinct_update) (safe; (fastforce | metis))
  then show ?thesis
    using Some assms(1) by (simp add: update_pipeline_run_def d'_def)
qed (use assms(1) in \<open>simp add: update_pipeline_run_def\<close>)

lemma numbered_delete: "numbered S \<Longrightarrow> numbered (snd (delete_pipeline_run r S))"
  unfolding numbered_def delete_pipeline_run_def
  by (simp add: distinct_delete) (auto simp: AList.delete_eq)

lemma numbered_run:
  "list_all honest ops \<Longrightarrow> numbered S \<Longrightarrow> numbered (fold (apply_run str project) ops S)"
proof (induction ops arbitrary: S)
  case (Cons x ops)
  then show ?case
    by (cases x) (auto simp: numbered_create numbered_write numbered_delete)
qed simp

text \<open>Run numbers identify the runs of a pipeline. Starting from an empty project, after any
  creations, deletions and writes that do not themselves name the number or the pipeline, no two
  runs of a pipeline have the same number.\<close>
theorem run_numbers_unique:
  fixes str :: "json \<Rightarrow> string" and project :: string
  assumes "ci_runs S = []" "list_all honest ops"
  defines "S' \<equiv> fold (apply_run str project) ops S"
  shows "\<forall>k1 k2 d1 d2. get_pipeline_run k1 S' = Some d1 \<and> get_pipeline_run k2 S' = Some d2 \<and>
    dget d1 ''pipeline_id'' = dget d2 ''pipeline_id'' \<and> dget d1 ''run_number'' = dget d2 ''run_number'' \<longrightarrow> k1 = k2"
proof (intro allI impI, elim conjE)
  fix k1 k2 d1 d2
  assume *: "get_pipeline_run k1 S' = Some d1" "get_pipeline_run k2 S' = Some d2"
    "dget d1 ''pipeline_id'' = dget d2 ''pipeline_id''" "dget d1 ''run_number'' = dget d2 ''run_number''"
  have "numbered S'" unfolding S'_def using assms(1,2) by (intro numbered_run) (simp_all add: numbered_def)
  moreover have "(k1, Doc d1) \<in> set (ci_runs S')" "(k2, Doc d2) \<in> set (ci_runs S')"
    using *(1,2) by (auto simp: get_pipeline_run_def read_one_def dest: map_of_SomeD)
  ultimately show "k1 = k2" using *(3,4) unfolding numbered_def run_key_def by blast
qed


definition demo_ops :: "run_op list" where
  "demo_ops = [Create ''a'' 1 ''x'' [], Create ''b'' 2 ''x'' [], Write ''a'' 3 [(''status'', JStr ''RUNNING'')]]"

theorem run_numbers_unique_witness:
  "\<exists>d1 d2. get_pipeline_run ''a'' (fold (apply_run demo_str ''p'') demo_ops (demo_cicd\<lparr>ci_runs := []\<rparr>)) = Some d1 \<and>
     get_pipeline_run ''b'' (fold (apply_run demo_str ''p'') demo_ops (demo_cicd\<lparr>ci_runs := []\<rparr>)) = Some d2 \<and>
     dget d1 ''pipeline_id'' = dget d2 ''pipeline_id'' \<and> dget d1 ''run_number'' \<noteq> dget d2 ''run_number''"
proof -
  let ?S = "fold (apply_run demo_str ''p'') demo_ops (demo_cicd\<lparr>ci_runs := []\<rparr>)"
  have "get_pipeline_run ''a'' ?S \<noteq> None" "get_pipeline_run ''b'' ?S \<noteq> None"
    "dget (the (get_pipeline_run ''a'' ?S)) ''pipeline_id'' = dget (the (get_pipeline_run ''b'' ?S)) ''pipeline_id''"
    by code_simp+
  then obtain d1 d2 where d: "get_pipeline_run ''a'' ?S = Some d1" "get_pipeline_run ''b'' ?S = Some d2"
    "dget d1 ''pipeline_id'' = dget d2 ''pipeline_id''" by auto
  have "dget d1 ''run_number'' \<noteq> dget d2 ''run_number''"
    using run_numbers_unique [of "demo_cicd\<lparr>ci_runs := []\<rparr>" demo_ops demo_str "''p''"] d by (auto simp: demo_ops_def)
  then show ?thesis using d by blast
qed

subsection \<open>Who may run commands\<close>

lemma thread_update_logs:
  "ci_logs (fst (thread_update nobody clock r u T)) = ci_logs (fst T)"
  by (simp add: thread_update_def update_pipeline_run_def nobody_def Let_def split: prod.split option.split)

lemma single_step_log:
  assumes "get_pipeline_run r S = Some d" "dget d ''steps'' = JArr [JObj step]" "step_result str sh 0 step = (Some (Inr status), Some t)"
  shows "get_step_log r 0 (snd (run_pipeline_thread str sh nobody clock r S)) = t"
proof -
  have "getd d ''steps'' (JArr []) = JArr [JObj step]" "d \<noteq> []"
    using assms(2) by (auto simp: dget_def getd_def split: option.splits)
  then show ?thesis
    using assms(1,3)
    by (simp add: run_pipeline_thread_def iter_json_def Let_def execute_step_def step_result_begin get_step_log_def
        thread_update_logs update_conv')
qed

lemma step_result_shell:
  assumes "py_or (dget step ''step_type'') (JStr ''shell'') = JStr ''shell''"
    and "py_or (getd step ''config'' (JObj [])) (JObj []) = JObj c"
    and "py_or (dget c ''command'') (py_or (dget c ''script'') (JStr [])) = JStr command" "strip command \<noteq> []"
    and "snd (sh i command) = Some rc"
  obtains status pre post where "step_result str sh i step =
    (Some (Inr status), Some (pre @ ''$ '' @ command @ nl @ nl @ concat (fst (sh i command)) @ post))"
proof -
  have low: "lower ''shell'' = ''shell''" by code_simp
  let ?pre = "''=== Step: '' @ as_text str (dget step ''step_name'') @ '' (shell) ==='' @ nl @
      ''=== Stage: '' @ as_text str (dget step ''stage_name'') @ '' ==='' @ nl @ nl"
  obtain out where sh: "sh i command = (out, Some rc)" using assms(5) by (metis prod.collapse)
  show thesis
  proof (cases rc)
    case (Inl e)
    show thesis
      by (rule that [of "''FAILED''" ?pre "nl @ ''[exception] '' @ e @ nl"])
        (simp add: step_result_def assms low sh Inl Let_def)
  next
    case (Inr n)
    show thesis
      by (rule that [of "if n = 0 then ''SUCCESS'' else ''FAILED''" ?pre
            "nl @ ''[exit code: '' @ str (JNum (real_of_int n)) @ '']'' @ nl"])
        (simp add: step_result_def assms low sh Inr Let_def)
  qed
qed

definition attack :: "string \<Rightarrow> doc" where
  "attack command = [(''name'', JStr ''x''),
     (''stages'', JArr [JObj [(''steps'', JArr [JObj [(''config'', JObj [(''command'', JStr command)])]])]])]"

text \<open>Anybody can run a command on the server. The handlers of \<^verbatim>\<open>cicd_routes.py\<close> carry no
  authentication decorator: a request without any credential, which \<open>require_auth\<close> answers with 401,
  creates a pipeline and starts a run in a project of its choice, and the thread runs the command of the
  request as a shell command of the server; its output is stored where the log is read from.\<close>
theorem anonymous_commands_run:
  fixes command p u1 u2 :: string and str :: "json \<Rightarrow> string" and now :: real and sh :: shell and clock :: "nat \<Rightarrow> real"
  assumes "rq_internal rq = None" "rq_auth rq = None" "rq_args rq = []"
    and "ci_runs S = []" "p \<noteq> []" "u1 \<noteq> []" "u2 \<noteq> []" "strip command \<noteq> []"
    and "snd (sh 0 command) = Some rc"
  defines "created \<equiv> api_create_pipeline str (JStr p) u1 now (attack command) S"
  defines "started \<equiv> api_trigger_pipeline str (JStr p) u2 now u1 [] (snd created)"
  defines "S' \<equiv> snd (run_pipeline_thread str sh nobody clock u2 (snd started))"
  shows "fst (require_auth E rq G) = Inl 401 \<and> fst created = 201 \<and> fst started = (200, Some (JStr u2)) \<and>
    (\<exists>pre post. get_step_log u2 0 S' = pre @ ''$ '' @ command @ nl @ nl @ concat (fst (sh 0 command)) @ post)"
proof -
  define step where "step = [(''stage_name'', JStr ''stage''), (''step_name'', JStr ''step''), (''step_type'', JStr ''shell''),
    (''config'', JObj [(''command'', JStr command)]), (''status'', JStr ''PENDING''), (''started_at'', JNull),
    (''finished_at'', JNull), (''log_ref'', JNull)]"
  define data where "data = [(''trigger_type'', JStr ''manual''), (''status'', JStr ''QUEUED''), (''git_commit'', JStr []),
    (''triggered_by'', JStr []), (''steps'', JArr [JObj step])]"
  define run where "run = new_run p (JStr u2) (JStr u1) 1 now data"
  have s1: "fst created = 201" "get_pipeline u1 (snd created) = Some (new_pipeline p (JStr u1) now (attack command))"
    "ci_runs (snd created) = []"
    using assms(4-6) by (simp_all add: created_def api_create_pipeline_def create_pipeline_def attack_def py_or_def Let_def
        as_text_def get_pipeline_def read_one_def update_conv')
  have stages: "stage_records [JObj [(''steps'', JArr [JObj [(''config'', JObj [(''command'', JStr command)])]])]] = Inr [JObj step]"
    by (simp add: iter_json_def py_or_def step_def)
  have none: "list_pipeline_runs j (snd created) = Inr []" for j
    using s1(3) by (simp add: list_pipeline_runs_def read_files_def sort_runs_def List.map_filter_def)
  have pl: "new_pipeline p (JStr u1) now (attack command) \<noteq> []"
    "getd (new_pipeline p (JStr u1) now (attack command)) ''stages'' (JArr []) =
      JArr [JObj [(''steps'', JArr [JObj [(''config'', JObj [(''command'', JStr command)])]])]]"
    by (simp_all add: new_pipeline_def attack_def)
  have start: "started = ((200, Some (JStr u2)), (snd created)\<lparr>ci_runs := [(u2, Doc run)]\<rparr>)"
    using assms(5,7) s1(2,3)
    by (simp add: started_def api_trigger_pipeline_def trigger_pipeline_run_def as_text_def pl py_or_def iter_json_def
        stages create_pipeline_run_def Let_def none run_def data_def get_pipeline_run_def read_one_def del: stage_records.simps)
  have run: "get_pipeline_run u2 (snd started) = Some run" "dget run ''steps'' = JArr (map JObj [step])" "run \<noteq> []"
    by (simp_all add: start get_pipeline_run_def read_one_def run_def new_run_def data_def)
  obtain status pre post where result: "step_result str sh 0 step =
      (Some (Inr status), Some (pre @ ''$ '' @ command @ nl @ nl @ concat (fst (sh 0 command)) @ post))"
  proof (rule step_result_shell [of step "[(''command'', JStr command)]" command sh 0 rc str])
    show "py_or (dget [(''command'', JStr command)] ''command'')
        (py_or (dget [(''command'', JStr command)] ''script'') (JStr [])) = JStr command"
      using assms(8) by (auto simp: py_or_def strip_def)
  qed (use assms(8,9) in \<open>simp_all add: step_def py_or_def\<close>)
  have "fst (require_auth E rq G) = Inl 401"
    using assms(1-3) by (simp add: require_auth_def request_token_def nonempty_def get_token_from_header_def)
  moreover have "get_step_log u2 0 S' = pre @ ''$ '' @ command @ nl @ nl @ concat (fst (sh 0 command)) @ post"
    unfolding S'_def by (rule single_step_log [OF run(1) _ result]) (use run(2) in simp)
  ultimately show ?thesis using s1(1) start by auto
qed


theorem anonymous_commands_run_witness:
  "\<forall>E G. fst (require_auth E \<lparr>rq_method = ''POST'', rq_path = ''/api/cicd/pipelines'', rq_internal = None,
      rq_auth = None, rq_args = []\<rparr> G) = Inl 401 \<and>
    (\<exists>pre post. get_step_log ''r1'' 0
       (snd (run_pipeline_thread demo_str (\<lambda>_ _. ([''uid=0''], Some (Inr 0))) nobody real ''r1''
         (snd (api_trigger_pipeline demo_str (JStr ''p'') ''r1'' 1 ''p1'' []
           (snd (api_create_pipeline demo_str (JStr ''p'') ''p1'' 1 (attack ''id'') (demo_cicd\<lparr>ci_runs := []\<rparr>)))))))
     = pre @ ''$ '' @ ''id'' @ nl @ nl @ ''uid=0'' @ post)"
proof (intro allI)
  fix E G
  have "strip ''id'' \<noteq> []" by code_simp
  from anonymous_commands_run [OF _ _ _ _ _ _ _ this, where rc = "Inr 0" and rq = "\<lparr>rq_method = ''POST'', rq_path = ''/api/cicd/pipelines'',
      rq_internal = None, rq_auth = None, rq_args = []\<rparr>" and S = "demo_cicd\<lparr>ci_runs := []\<rparr>" and p = "''p''" and ?u1.0 = "''p1''" and ?u2.0 = "''r1''"
      and E = E and G = G and str = demo_str and now = 1 and sh = "\<lambda>_ _. ([''uid=0''], Some (Inr 0))" and clock = real]
  show "fst (require_auth E \<lparr>rq_method = ''POST'', rq_path = ''/api/cicd/pipelines'', rq_internal = None,
      rq_auth = None, rq_args = []\<rparr> G) = Inl 401 \<and>
    (\<exists>pre post. get_step_log ''r1'' 0
       (snd (run_pipeline_thread demo_str (\<lambda>_ _. ([''uid=0''], Some (Inr 0))) nobody real ''r1''
         (snd (api_trigger_pipeline demo_str (JStr ''p'') ''r1'' 1 ''p1'' []
           (snd (api_create_pipeline demo_str (JStr ''p'') ''p1'' 1 (attack ''id'') (demo_cicd\<lparr>ci_runs := []\<rparr>)))))))
     = pre @ ''$ '' @ ''id'' @ nl @ nl @ ''uid=0'' @ post)"
    by simp
qed

end
