(* ===== verification/Settings.thy ===== *)
theory Settings
  imports AccountRoutes Dispatcher ExecHistory HostStatus "HOL-Library.Char_ord" "HOL-Library.List_Lexorder" "HOL-Library.Product_Lexorder"
begin

section \<open>The configuration database and the settings\<close>

text \<open>
  \<^verbatim>\<open>server/storage/config_db.py\<close> (projects and settings, with the import of the old JSON files),
  \<^verbatim>\<open>server/utils/scheduler_settings.py\<close>, \<^verbatim>\<open>server/utils/backup_settings.py\<close> and the handlers that
  write them. \<open>cf_files\<close> are the old files: \<open>None\<close> does not parse. \<open>writable\<close> tells whether the
  database takes a write, \<open>floatof\<close> is \<open>float\<close> on a string and \<open>sql\<close> the text a number gets in
  a \<^verbatim>\<open>TEXT\<close> column; \<open>env\<close> are the environment variables.
\<close>

subsection \<open>Python's \<open>int\<close>\<close>

fun int_digits :: "int \<Rightarrow> bool \<Rightarrow> string \<Rightarrow> int option" where
  \<comment> \<open>the value so far; whether the last character was a digit\<close>
  "int_digits n d [] = (if d then Some n else None)"
| "int_digits n d (c # s) =
    (if is_digit c then int_digits (10 * n + (of_char c - 48)) True s
     else if c = CHR ''_'' \<and> d then int_digits n False s
     else None)"

definition int_of_str :: "string \<Rightarrow> int option" where
  "int_of_str s =
    (case strip s of
       [] \<Rightarrow> None
     | c # t \<Rightarrow> if c = CHR ''-'' then map_option uminus (int_digits 0 False t)
                else if c = CHR ''+'' then int_digits 0 False t
                else int_digits 0 False (c # t))"

definition int_of_json :: "json \<Rightarrow> int option" where
  \<comment> \<open>\<open>int(value)\<close>; \<open>None\<close>: \<open>TypeError\<close> or \<open>ValueError\<close>\<close>
  "int_of_json j =
    (case j of
       JNum x \<Rightarrow> Some (py_int x)
     | JBool b \<Rightarrow> Some (if b then 1 else 0)
     | JStr s \<Rightarrow> int_of_str s
     | _ \<Rightarrow> None)"

fun split_on :: "char \<Rightarrow> string \<Rightarrow> string \<Rightarrow> string list" where
  \<comment> \<open>\<open>s.split(x)\<close> for one character; the second argument is the current part\<close>
  "split_on x acc [] = [acc]"
| "split_on x acc (c # s) = (if c = x then acc # split_on x [] s else split_on x (acc @ [c]) s)"

lemma split_on_plain: "x \<notin> set s \<Longrightarrow> split_on x acc (s @ t) = split_on x (acc @ s) t"
  by (induction s arbitrary: acc) auto

definition hex_digit :: "nat \<Rightarrow> char" where
  "hex_digit n = char_of (if n < 10 then 48 + n else 87 + n)"

definition clamp :: "int \<Rightarrow> int \<Rightarrow> int \<Rightarrow> int" where
  "clamp lo hi v = max lo (min hi v)"

definition jint :: "int \<Rightarrow> json" where "jint n = JNum (real_of_int n)"

subsection \<open>The database\<close>

record config_db =
  cf_projects :: "(string \<times> doc \<times> real option) list"
  cf_settings :: "(string \<times> json) list"
  cf_migrated :: bool
  cf_files :: "(string \<times> json option) list"

definition list_projects :: "config_db \<Rightarrow> doc list" where
  \<comment> \<open>\<^verbatim>\<open>ORDER BY COALESCE(created_at, 0) ASC, id ASC\<close>\<close>
  "list_projects cf =
    map (\<lambda>(i, d, c). d) (sort_key (\<lambda>(i, d, c). ((case c of None \<Rightarrow> 0 | Some t \<Rightarrow> t), i)) (cf_projects cf))"

definition created_of :: "(string \<Rightarrow> real option) \<Rightarrow> doc \<Rightarrow> real option" where
  "created_of floatof p =
    (case py_or (dget p ''createdAt'') (dget p ''created_at'') of
       JStr s \<Rightarrow> floatof s
     | j \<Rightarrow> num_of j)"

fun project_rows ::
  "(string \<Rightarrow> real option) \<Rightarrow> (json \<Rightarrow> string) \<Rightarrow> json list \<Rightarrow> (string \<times> doc \<times> real option) list
   \<Rightarrow> (string \<times> doc \<times> real option) list option" where
  \<comment> \<open>the loop of the transaction; \<open>None\<close>: an exception\<close>
  "project_rows floatof sql [] t = Some t"
| "project_rows floatof sql (j # js) t =
    (case j of
       JObj p \<Rightarrow>
         (if \<not> truthy (dget p ''id'') then project_rows floatof sql js t
          else (case dget p ''id'' of
                  JArr _ \<Rightarrow> None
                | JObj _ \<Rightarrow> None
                | i \<Rightarrow> project_rows floatof sql js (tput (as_text sql i) (p, created_of floatof p) t)))
     | _ \<Rightarrow> None)"

definition replace_all_projects ::
  "bool \<Rightarrow> (string \<Rightarrow> real option) \<Rightarrow> (json \<Rightarrow> string) \<Rightarrow> json \<Rightarrow> config_db \<Rightarrow> bool \<times> config_db" where
  "replace_all_projects writable floatof sql items cf =
    (case iter_json (py_or items (JArr [])) of
       Inl e \<Rightarrow> (False, cf)
     | Inr xs \<Rightarrow>
         (case project_rows floatof sql xs [] of
            None \<Rightarrow> (False, cf)
          | Some t \<Rightarrow> if writable then (True, cf\<lparr>cf_projects := t\<rparr>) else (False, cf)))"

definition get_setting :: "string \<Rightarrow> json \<Rightarrow> config_db \<Rightarrow> json" where
  "get_setting key dflt cf = (case map_of (cf_settings cf) key of None \<Rightarrow> dflt | Some v \<Rightarrow> v)"

definition set_setting :: "bool \<Rightarrow> string \<Rightarrow> json \<Rightarrow> config_db \<Rightarrow> bool \<times> config_db" where
  "set_setting writable key v cf =
    (if writable then (True, cf\<lparr>cf_settings := AList.update key v (cf_settings cf)\<rparr>) else (False, cf))"

definition SETTINGS_FILES :: "(string \<times> string) list" where
  "SETTINGS_FILES = [(''execution_settings'', ''execution_settings.json''), (''backup_settings'', ''backup_settings.json'')]"

definition import_projects ::
  "bool \<Rightarrow> (string \<Rightarrow> real option) \<Rightarrow> (json \<Rightarrow> string) \<Rightarrow> config_db \<Rightarrow> config_db" where
  "import_projects writable floatof sql cf =
    (if cf_projects cf \<noteq> [] then cf
     else (case map_of (cf_files cf) ''projects.json'' of
             Some (Some (JObj raw)) \<Rightarrow>
               (let items = getd raw ''projects'' (JArr [])
                in if truthy items then snd (replace_all_projects writable floatof sql items cf) else cf)
           | _ \<Rightarrow> cf))"

definition import_setting :: "bool \<Rightarrow> string \<times> string \<Rightarrow> config_db \<Rightarrow> config_db" where
  "import_setting writable = (\<lambda>(key, fname) cf.
    (if map_of (cf_settings cf) key \<noteq> None then cf
     else (case map_of (cf_files cf) fname of
             Some (Some data) \<Rightarrow> snd (set_setting writable key data cf)
           | _ \<Rightarrow> cf)))"

definition migrate_from_json_if_needed ::
  "bool \<Rightarrow> (string \<Rightarrow> real option) \<Rightarrow> (json \<Rightarrow> string) \<Rightarrow> (string \<Rightarrow> bool) \<Rightarrow> config_db \<Rightarrow> config_db" where
  \<comment> \<open>\<open>renames f\<close>: the old file can be renamed. It is renamed even when its import failed\<close>
  "migrate_from_json_if_needed writable floatof sql renames cf =
    (if cf_migrated cf then cf
     else (let cf1 = fold (import_setting writable) SETTINGS_FILES (import_projects writable floatof sql cf)
           in cf1\<lparr>cf_files := filter (\<lambda>(f, c). \<not> (f \<in> set (''projects.json'' # map snd SETTINGS_FILES) \<and> renames f)) (cf_files cf1),
                  cf_migrated := True\<rparr>))"

subsection \<open>Intervals of the background schedulers\<close>

definition SCHEDULER_SPECS :: "(string \<times> string \<times> int \<times> int \<times> int) list" where
  "SCHEDULER_SPECS =
    [(''autosync_check_interval'', ''AUTOSYNC_CHECK_INTERVAL'', 60, 10, 86400),
     (''playbook_scheduler_interval'', ''PLAYBOOK_SCHEDULER_INTERVAL'', 60, 15, 86400),
     (''execution_recovery_interval'', ''EXECUTION_RECOVERY_INTERVAL'', 300, 60, 86400),
     (''host_status_scheduler_interval'', ''HOST_STATUS_SCHEDULER_INTERVAL'', 300, 30, 86400)]"

definition clamp_setting :: "int \<times> int \<times> int \<Rightarrow> json \<Rightarrow> int" where
  "clamp_setting = (\<lambda>(dflt, lo, hi) value. (case int_of_json value of None \<Rightarrow> dflt | Some v \<Rightarrow> clamp lo hi v))"

definition env_default :: "(string \<Rightarrow> string option) \<Rightarrow> string \<Rightarrow> int \<times> int \<times> int \<Rightarrow> int" where
  "env_default env var spec =
    (case nonempty (env var) of None \<Rightarrow> fst spec | Some raw \<Rightarrow> clamp_setting spec (JStr raw))"

definition load_scheduler_settings :: "(string \<Rightarrow> string option) \<Rightarrow> config_db \<Rightarrow> (string \<times> int) list" where
  "load_scheduler_settings env cf =
    (let stored = (case get_setting ''scheduler_settings'' JNull cf of JObj d \<Rightarrow> d | _ \<Rightarrow> [])
     in map (\<lambda>(name, var, spec).
          (name, if dget stored name \<noteq> JNull then clamp_setting spec (dget stored name) else env_default env var spec))
          SCHEDULER_SPECS)"

definition save_scheduler_settings ::
  "bool \<Rightarrow> (string \<Rightarrow> string option) \<Rightarrow> doc \<Rightarrow> config_db \<Rightarrow> (string \<times> int) list \<times> config_db" where
  \<comment> \<open>the result of \<open>set_setting\<close> is ignored\<close>
  "save_scheduler_settings writable env vs cf =
    (let current = load_scheduler_settings env cf;
         merged = map (\<lambda>(name, var, spec).
                    (name, if has vs name then clamp_setting spec (dget vs name) else the (map_of current name)))
                    SCHEDULER_SPECS
     in (merged, snd (set_setting writable ''scheduler_settings'' (JObj (map (\<lambda>(n, v). (n, jint v)) merged)) cf)))"

definition get_interval :: "(string \<Rightarrow> string option) \<Rightarrow> string \<Rightarrow> config_db \<Rightarrow> int res" where
  "get_interval env name cf =
    (case map_of (load_scheduler_settings env cf) name of None \<Rightarrow> Inl (KeyError name) | Some v \<Rightarrow> Inr v)"

definition api_update_scheduler_settings ::
  "bool \<Rightarrow> (string \<Rightarrow> string option) \<Rightarrow> doc \<Rightarrow> config_db \<Rightarrow> (nat \<times> (string \<times> int) list) \<times> config_db" where
  "api_update_scheduler_settings writable env data cf =
    (case save_scheduler_settings writable env data cf of (m, cf') \<Rightarrow> ((200, m), cf'))"

subsection \<open>Settings of executions and backups\<close>

text \<open>Both loaders first call \<open>migrate_from_json_if_needed\<close>; here the database is the one after it.\<close>

definition EXECUTION_DEFAULTS :: doc where
  "EXECUTION_DEFAULTS =
    [(''save_history'', JBool True), (''retention_mode'', JStr ''count''), (''retention_count'', JNum 200),
     (''retention_size_mb'', JNum 200), (''debug_mode'', JBool False), (''log_level'', JStr ''INFO''),
     (''max_upload_size_mb'', JNum 10), (''max_log_size_mb'', JNum 10),
     (''host_status_ttl_seconds'', jint HOST_STATUS_TTL_DEFAULT)]"

definition load_execution_settings :: "config_db \<Rightarrow> doc" where
  "load_execution_settings cf =
    (case get_setting ''execution_settings'' JNull cf of
       JObj stored \<Rightarrow> dupd EXECUTION_DEFAULTS stored
     | _ \<Rightarrow> EXECUTION_DEFAULTS)"

definition save_execution_settings :: "bool \<Rightarrow> doc \<Rightarrow> config_db \<Rightarrow> bool \<times> config_db" where
  "save_execution_settings writable settings = set_setting writable ''execution_settings'' (JObj settings)"

definition LOG_LEVELS :: "string list" where
  "LOG_LEVELS = [''DEBUG'', ''INFO'', ''WARNING'', ''ERROR'', ''CRITICAL'']"

definition validate_log_level :: "(json \<Rightarrow> string) \<Rightarrow> json \<Rightarrow> bool" where
  "validate_log_level str j = (upper (as_text str (py_or j (JStr []))) \<in> set LOG_LEVELS)"

text \<open>The handler \<open>api_save_execution_settings\<close> of \<^verbatim>\<open>server/api/executions_routes.py\<close> up to the
  retention that follows; \<open>limits\<close> is the upload limit the process applies, in megabytes.\<close>

definition log_size_setting :: "doc \<Rightarrow> doc \<Rightarrow> doc res" where
  "log_size_setting data settings =
    (if \<not> has data ''max_log_size_mb'' then Inr settings
     else (case int_of_json (dget data ''max_log_size_mb'') of
             None \<Rightarrow> Inl TypeError
           | Some n \<Rightarrow> Inr (dset settings ''max_log_size_mb'' (jint (clamp 1 1024 n)))))"

definition ttl_setting :: "doc \<Rightarrow> doc \<Rightarrow> doc" where
  "ttl_setting data settings =
    (if \<not> has data ''host_status_ttl_seconds'' then settings
     else (let n = (case int_of_json (dget data ''host_status_ttl_seconds'') of
                      None \<Rightarrow> HOST_STATUS_TTL_DEFAULT | Some n \<Rightarrow> n)
           in dset settings ''host_status_ttl_seconds'' (jint (clamp 30 86400 n))))"

definition api_save_execution_settings ::
  "bool \<Rightarrow> doc \<Rightarrow> int \<times> config_db \<Rightarrow> nat \<times> int \<times> config_db" where
  \<comment> \<open>setting the log level never raises and changes no state modelled here\<close>
  "api_save_execution_settings writable data = (\<lambda>(limit, cf).
    (let settings = dupd (load_execution_settings cf) data;
         upload = (if has data ''max_upload_size_mb''
                   then map_option (clamp 1 1024) (int_of_json (dget data ''max_upload_size_mb''))
                   else Some limit)
     in case upload of
          None \<Rightarrow> (500, limit, cf)
        | Some limit' \<Rightarrow>
            (case log_size_setting data settings of
               Inl e \<Rightarrow> (500, limit', cf)
             | Inr s1 \<Rightarrow>
                 (case save_execution_settings writable (ttl_setting data s1) cf of
                    (True, cf') \<Rightarrow> (200, limit', cf')
                  | (False, cf') \<Rightarrow> (500, limit', cf')))))"

definition BACKUP_DEFAULTS :: doc where
  "BACKUP_DEFAULTS = [(''max_depth'', JNum 100), (''projects'', JObj [])]"

definition load_backup_settings :: "config_db \<Rightarrow> doc" where
  "load_backup_settings cf =
    (case get_setting ''backup_settings'' JNull cf of
       JObj stored \<Rightarrow> dupd BACKUP_DEFAULTS stored
     | _ \<Rightarrow> BACKUP_DEFAULTS)"

definition save_backup_settings :: "bool \<Rightarrow> doc \<Rightarrow> config_db \<Rightarrow> bool \<times> config_db" where
  "save_backup_settings writable settings = set_setting writable ''backup_settings'' (JObj settings)"

definition get_project_backup_enabled :: "string \<Rightarrow> config_db \<Rightarrow> bool res" where
  "get_project_backup_enabled project_id cf =
    (case getd (load_backup_settings cf) ''projects'' (JObj []) of
       JObj ps \<Rightarrow>
         (case getd ps project_id (JObj []) of
            JObj p \<Rightarrow> Inr (truthy (getd p ''enabled'' (JBool False)))
          | _ \<Rightarrow> Inl AttributeError)
     | _ \<Rightarrow> Inl AttributeError)"

fun projects_match :: "string \<Rightarrow> string option" where
  \<comment> \<open>\<^verbatim>\<open>re.search(r'/projects/([^/]+)/', path)\<close>\<close>
  "projects_match [] = None"
| "projects_match (c # s) =
    (let rest = drop 10 (c # s); name = takeWhile (\<lambda>c. c \<noteq> CHR ''/'') rest
     in if starts_with (c # s) ''/projects/'' \<and> name \<noteq> [] \<and> length name < length rest
        then Some name else projects_match s)"

definition should_create_backup :: "string \<Rightarrow> string option \<Rightarrow> config_db \<Rightarrow> bool res" where
  "should_create_backup path project_id cf =
    (case (case nonempty project_id of Some p \<Rightarrow> Some p | None \<Rightarrow> projects_match path) of
       None \<Rightarrow> Inr False
     | Some p \<Rightarrow> get_project_backup_enabled p cf)"

definition update_backup_settings :: "bool \<Rightarrow> doc \<Rightarrow> config_db \<Rightarrow> nat \<times> config_db" where
  \<comment> \<open>the handler of \<^verbatim>\<open>server/api/backups_routes.py\<close>\<close>
  "update_backup_settings writable data cf =
    (let settings = load_backup_settings cf;
         with_depth = (if \<not> has data ''max_depth'' then Inr settings
                       else (case int_of_json (dget data ''max_depth'') of
                               None \<Rightarrow> Inl 500
                             | Some n \<Rightarrow> if n < 1 then Inl 400 else Inr (dset settings ''max_depth'' (jint n))));
         with_projects = (\<lambda>s. if \<not> has data ''projects'' then Inr s
                          else (case dget data ''projects'' of
                                  JObj ps \<Rightarrow>
                                    (case getd s ''projects'' (JObj []) of
                                       JObj held \<Rightarrow>
                                         Inr (dset s ''projects'' (JObj (fold (\<lambda>(p, v) m. case v of
                                             JObj o' \<Rightarrow> dset m p (JObj [(''enabled'', JBool (truthy (getd o' ''enabled'' (JBool False))))])
                                           | _ \<Rightarrow> m) ps held)))
                                     | _ \<Rightarrow> if list_all (\<lambda>(p, v). obj_of v = None) ps then Inr s else Inl 500)
                                | _ \<Rightarrow> Inl 400))
     in case with_depth of
          Inl code \<Rightarrow> (code, cf)
        | Inr s1 \<Rightarrow>
            (case with_projects s1 of
               Inl code \<Rightarrow> (code, cf)
             | Inr s2 \<Rightarrow>
                 (case save_backup_settings writable s2 cf of
                    (True, cf') \<Rightarrow> (200, cf')
                  | (False, cf') \<Rightarrow> (500, cf'))))"

end
