(* ===== verification/Backups.thy ===== *)
theory Backups
  imports Settings
begin

section \<open>Backups of edited files\<close>

text \<open>
  \<open>create_backup\<close> of \<^verbatim>\<open>server/utils/yaml_io.py\<close> and the pruning of
  \<^verbatim>\<open>server/utils/backup_settings.py\<close>. A directory of backups maps the name of a file to its
  modification time and content; \<open>copy2\<close> keeps the modification time of the source. Removing a
  file succeeds.
\<close>

type_synonym bdir = "(string \<times> real \<times> string) list"
type_synonym bdirs = "((string \<times> string option) \<times> bdir) list"

subsection \<open>Names of files\<close>

definition path_name :: "string \<Rightarrow> string" where
  "path_name p = rev (takeWhile (\<lambda>c. c \<noteq> CHR ''/'') (rev p))"

definition path_suffix :: "string \<Rightarrow> string" where
  \<comment> \<open>\<open>PurePath.suffix\<close> of a name\<close>
  "path_suffix name =
    (let ext = takeWhile (\<lambda>c. c \<noteq> CHR ''.'') (rev name)
     in if ext \<noteq> [] \<and> length ext + 1 < length name then CHR ''.'' # rev ext else [])"

definition path_stem :: "string \<Rightarrow> string" where
  "path_stem name = take (length name - length (path_suffix name)) name"

subsection \<open>Pruning\<close>

definition exact_int :: "json \<Rightarrow> int option" where
  \<comment> \<open>a JSON number that is an integer\<close>
  "exact_int j = (case num_of j of
     None \<Rightarrow> None | Some x \<Rightarrow> if x = real_of_int \<lfloor>x\<rfloor> then Some \<lfloor>x\<rfloor> else None)"

definition newest :: "bdir \<Rightarrow> bdir" where
  \<comment> \<open>sorted by modification time, newest first, equal times in the order of the directory\<close>
  "newest t = rev (sort_key (\<lambda>(n, m, c). m) (rev t))"

definition prune_files :: "string \<Rightarrow> int \<Rightarrow> bdir \<Rightarrow> bdir" where
  "prune_files suffix max_depth t =
    (let found = newest (filter (\<lambda>(n, m, c). ends_with n suffix) t)
     in if int (length found) > max_depth then
          filter (\<lambda>(n, m, c). n \<notin> fst ` set (py_slice_from max_depth found)) t
        else t)"

definition cleanup_old_backups :: "json \<Rightarrow> bdir \<Rightarrow> bdir" where
  \<comment> \<open>a depth that is no integer raises, which is swallowed\<close>
  "cleanup_old_backups max_depth t =
    (case exact_int max_depth of None \<Rightarrow> t | Some n \<Rightarrow> prune_files ''.yml'' n t)"

definition cleanup_old_archives :: "json \<Rightarrow> bdir \<Rightarrow> bdir" where
  "cleanup_old_archives max_depth t =
    (case exact_int max_depth of None \<Rightarrow> t | Some n \<Rightarrow> prune_files ''.tar.gz'' n t)"

subsection \<open>Creating a backup\<close>

definition bucket_of :: "string \<Rightarrow> string" where
  "bucket_of path =
    (if contains path ''group_vars'' then ''group_vars''
     else if contains path ''host_vars'' then ''host_vars''
     else if contains path ''inventory'' then ''inventory''
     else if contains path ''playbooks'' \<or> path_suffix (path_name path) = ''.json'' then ''playbooks''
     else ''other'')"

definition backup_dir :: "string \<Rightarrow> string \<times> string option" where
  "backup_dir path = (bucket_of path, if bucket_of path = ''other'' then None else projects_match path)"

definition backup_name :: "string \<Rightarrow> string \<Rightarrow> string" where
  "backup_name timestamp path =
    (let name = path_name path in path_stem name @ ''_'' @ timestamp @ path_suffix name)"

definition dir_of :: "bdirs \<Rightarrow> string \<times> string option \<Rightarrow> bdir" where
  "dir_of B k = (case map_of B k of None \<Rightarrow> [] | Some t \<Rightarrow> t)"

definition create_backup ::
  "string \<Rightarrow> bool \<Rightarrow> config_db \<Rightarrow> string \<Rightarrow> (real \<times> string) option \<Rightarrow> bdirs \<Rightarrow> bool \<times> bdirs" where
  \<comment> \<open>\<open>source\<close>: the file at \<open>path\<close>, its modification time and content. An exception of the look-up
     of the setting is answered with \<open>False\<close>\<close>
  "create_backup timestamp force cf path source B =
    (case source of
       None \<Rightarrow> (False, B)
     | Some (mtime, content) \<Rightarrow>
         (let refused = (case projects_match path of
                           None \<Rightarrow> False
                         | Some p \<Rightarrow> should_create_backup path (Some p) cf \<noteq> Inr True)
          in if \<not> force \<and> refused then (False, B)
             else (let k = backup_dir path;
                       t = AList.update (backup_name timestamp path) (mtime, content) (dir_of B k);
                       t' = (if projects_match path = None then t
                             else cleanup_old_backups (getd (load_backup_settings cf) ''max_depth'' (JNum 100)) t)
                   in (True, AList.update k t' B))))"

end
