(* ===== verification/SettingsProps.thy ===== *)
theory SettingsProps
  imports Backups "HOL-Library.Multiset"
begin

section \<open>Settings and backups: properties\<close>

text \<open>
  Intervals stay within their bounds and survive a round trip through the database; the list of
  projects is stored as a whole; what the pruning of backups keeps, and a backup it loses.
\<close>

subsection \<open>Scheduler intervals\<close>

lemma py_int_of_int [simp]: "py_int (real_of_int n) = n"
  by (simp add: py_int_def)

lemma int_of_jint [simp]: "int_of_json (jint n) = Some n"
  by (simp add: int_of_json_def jint_def)

lemma jint_not_null [simp]: "jint n \<noteq> JNull"
  by (simp add: jint_def)

lemma clamp_bounds: "lo \<le> hi \<Longrightarrow> lo \<le> clamp lo hi v \<and> clamp lo hi v \<le> hi"
  by (auto simp: clamp_def)

lemma clamp_idem: "lo \<le> v \<Longrightarrow> v \<le> hi \<Longrightarrow> clamp lo hi v = v"
  by (auto simp: clamp_def)

definition spec_ok :: "int \<times> int \<times> int \<Rightarrow> bool" where
  "spec_ok = (\<lambda>(d, lo, hi). lo \<le> d \<and> d \<le> hi)"

definition inside :: "int \<times> int \<times> int \<Rightarrow> int \<Rightarrow> bool" where
  "inside = (\<lambda>(d, lo, hi) v. lo \<le> v \<and> v \<le> hi)"

lemma clamp_setting_within: "spec_ok spec \<Longrightarrow> inside spec (clamp_setting spec j)"
  by (cases spec) (auto simp: spec_ok_def inside_def clamp_setting_def clamp_def split: option.split)

lemma clamp_setting_jint: "inside spec v \<Longrightarrow> clamp_setting spec (jint v) = v"
  by (cases spec) (auto simp: inside_def clamp_setting_def clamp_idem)

lemma env_default_within: "spec_ok spec \<Longrightarrow> inside spec (env_default env var spec)"
  using clamp_setting_within by (cases spec) (auto simp: env_default_def spec_ok_def inside_def split: option.split)

lemma specs_ok: "list_all (\<lambda>(n, var, spec). spec_ok spec) SCHEDULER_SPECS" "distinct (map fst SCHEDULER_SPECS)"
  by (simp_all add: SCHEDULER_SPECS_def spec_ok_def)

lemma map_of_specs:
  "(n, var, spec) \<in> set specs \<Longrightarrow> distinct (map fst specs) \<Longrightarrow>
    map_of (map (\<lambda>(n, var, spec). (n, f n var spec)) specs) n = Some (f n var spec)"
  by (induction specs) force+

lemma load_interval:
  assumes "(n, var, spec) \<in> set SCHEDULER_SPECS"
  shows "\<exists>v. map_of (load_scheduler_settings env cf) n = Some v \<and> inside spec v"
proof -
  define stored where "stored = (case get_setting ''scheduler_settings'' JNull cf of JObj d \<Rightarrow> d | _ \<Rightarrow> [])"
  define f where "f = (\<lambda>n var spec. if dget stored n \<noteq> JNull then clamp_setting spec (dget stored n) else env_default env var spec)"
  have "load_scheduler_settings env cf = map (\<lambda>(n, var, spec). (n, f n var spec)) SCHEDULER_SPECS"
    unfolding load_scheduler_settings_def Let_def stored_def f_def by (rule refl)
  moreover have "spec_ok spec" using assms specs_ok(1) by (auto simp: list_all_iff)
  ultimately show ?thesis
    using map_of_specs [OF assms specs_ok(2), of f] clamp_setting_within env_default_within by (auto simp: f_def)
qed

text \<open>A background scheduler always gets an interval within its bounds. For each of the
  schedulers \<open>get_interval\<close> returns a value between its minimum and its maximum, whatever is
  stored under the settings (of any JSON type, written by anybody) and whatever the environment says.\<close>
theorem intervals_always_bounded:
  "list_all (\<lambda>(name, var, dflt, lo, hi). \<exists>v. get_interval env name cf = Inr v \<and> lo \<le> v \<and> v \<le> hi) SCHEDULER_SPECS"
proof -
  have "\<exists>v. get_interval env n cf = Inr v \<and> inside spec v" if "(n, var, spec) \<in> set SCHEDULER_SPECS" for n var spec
    using load_interval [OF that, of env cf] by (auto simp: get_interval_def)
  then show ?thesis unfolding list_all_iff inside_def by fastforce
qed

text \<open>The settings of the schedulers are read back as they were answered. After a successful
  write, the handler's answer is exactly what is loaded from then on, under any environment, and
  each value that was not sent keeps what it was before.\<close>
theorem scheduler_settings_roundtrip:
  fixes env :: "string \<Rightarrow> string option" and vs :: doc and cf :: config_db
  defines "r \<equiv> api_update_scheduler_settings True env vs cf"
  shows "load_scheduler_settings env' (snd r) = snd (fst r) \<and>
    list_all (\<lambda>(name, _). has vs name \<or> map_of (snd (fst r)) name = map_of (load_scheduler_settings env cf) name)
      SCHEDULER_SPECS"
proof -
  define g where "g = (\<lambda>n (var :: string) spec. if has vs n then clamp_setting spec (dget vs n)
    else the (map_of (load_scheduler_settings env cf) n))"
  define m where "m = map (\<lambda>(n, var, spec). (n, g n var spec)) SCHEDULER_SPECS"
  define d where "d = map (\<lambda>(n, v). (n, jint v)) m"
  have r: "snd (fst r) = m" "get_setting ''scheduler_settings'' JNull (snd r) = JObj d"
    by (simp_all add: r_def api_update_scheduler_settings_def save_scheduler_settings_def Let_def m_def g_def d_def
        get_setting_def set_setting_def update_conv')
  have d: "dget d n = jint (g n var spec)" "inside spec (g n var spec)" "map_of m n = Some (g n var spec)"
    if "(n, var, spec) \<in> set SCHEDULER_SPECS" for n var spec
  proof -
    have "d = map (\<lambda>(n, var, spec). (n, jint (g n var spec))) SCHEDULER_SPECS"
      by (simp add: d_def m_def case_prod_beta)
    then show "dget d n = jint (g n var spec)"
      using map_of_specs [OF that specs_ok(2), of "\<lambda>n v s. jint (g n v s)"] by (simp add: dget_def)
    have "spec_ok spec" using that specs_ok(1) by (auto simp: list_all_iff)
    then show "inside spec (g n var spec)"
      using load_interval [OF that, of env cf] by (auto simp: g_def clamp_setting_within)
    show "map_of m n = Some (g n var spec)" unfolding m_def by (rule map_of_specs [OF that specs_ok(2)])
  qed
  have "load_scheduler_settings env' (snd r) = m"
    unfolding load_scheduler_settings_def Let_def r m_def json.case
    by (rule map_cong [OF refl]) (auto simp: d(1) clamp_setting_jint [OF d(2)])
  moreover have "has vs n \<or> map_of m n = map_of (load_scheduler_settings env cf) n"
    if "(n, var, spec) \<in> set SCHEDULER_SPECS" for n var spec
    using d(3) [OF that] load_interval [OF that, of env cf] by (auto simp: g_def)
  ultimately show ?thesis unfolding r(1) list_all_iff by fast
qed


subsection \<open>Settings of executions\<close>

text \<open>What the handler of the execution settings stores. When a request is accepted, the log size
  and the life time of a host status it sent are stored clamped to their bounds. The upload limit
  is clamped only for the running process: the value that is stored, and that applies after a
  restart, is the one of the request, however large.\<close>
theorem execution_settings_stored:
  fixes limit :: int and cf :: config_db
  assumes "int_of_json (dget data ''max_log_size_mb'') = Some a" "int_of_json (dget data ''host_status_ttl_seconds'') = Some b"
    and "int_of_json (dget data ''max_upload_size_mb'') = Some c"
  defines "r \<equiv> api_save_execution_settings True data (limit, cf)"
  shows "fst r = 200 \<and>
    dget (load_execution_settings (snd (snd r))) ''max_log_size_mb'' = jint (clamp 1 1024 a) \<and>
    dget (load_execution_settings (snd (snd r))) ''host_status_ttl_seconds'' = jint (clamp 30 86400 b) \<and>
    fst (snd r) = clamp 1 1024 c \<and>
    dget (load_execution_settings (snd (snd r))) ''max_upload_size_mb'' = dget data ''max_upload_size_mb''"
proof -
  have "has data ''max_log_size_mb''" "has data ''host_status_ttl_seconds''" "has data ''max_upload_size_mb''"
    using assms(1-3) by (auto simp: int_of_json_def dget_def has_def split: option.splits)
  then show ?thesis
    using assms(1-3)
    by (simp add: r_def api_save_execution_settings_def Let_def log_size_setting_def ttl_setting_def
        save_execution_settings_def set_setting_def load_execution_settings_def get_setting_def update_conv' dget_dupd)
qed

theorem execution_settings_stored_witness:
  "dget (load_execution_settings (snd (snd (api_save_execution_settings True
      [(''max_log_size_mb'', jint 9999), (''host_status_ttl_seconds'', JStr '' 5''), (''max_upload_size_mb'', jint 99999)]
      (10, \<lparr>cf_projects = [], cf_settings = [], cf_migrated = True, cf_files = []\<rparr>))))) ''max_upload_size_mb'' = jint 99999"
proof -
  let ?d = "[(''max_log_size_mb'', jint 9999), (''host_status_ttl_seconds'', JStr '' 5''), (''max_upload_size_mb'', jint 99999)]"
  have "int_of_json (dget ?d ''max_log_size_mb'') = Some 9999" "int_of_json (dget ?d ''max_upload_size_mb'') = Some 99999"
    by simp_all
  moreover have "int_of_str '' 5'' = Some 5" by code_simp
  then have "int_of_json (dget ?d ''host_status_ttl_seconds'') = Some 5" by (simp add: int_of_json_def)
  ultimately show ?thesis
    using execution_settings_stored [of ?d 9999 5 99999 10 "\<lparr>cf_projects = [], cf_settings = [], cf_migrated = True, cf_files = []\<rparr>"]
    by simp
qed

subsection \<open>Projects\<close>

lemma tput_new: "k \<notin> fst ` set t \<Longrightarrow> tput k v t = t @ [(k, v)]"
  by (simp add: tput_def delete_id)

lemma project_rows_docs:
  assumes "\<forall>p\<in>set ps. \<exists>i. dget p ''id'' = JStr i \<and> i \<noteq> []" "distinct (map fst t @ map (\<lambda>p. the (str_of (dget p ''id''))) ps)"
  shows "project_rows floatof sql (map JObj ps) t =
    Some (t @ map (\<lambda>p. (the (str_of (dget p ''id'')), p, created_of floatof p)) ps)"
  using assms
proof (induction ps arbitrary: t)
  case (Cons p ps)
  then obtain i where "dget p ''id'' = JStr i" "i \<noteq> []" by auto
  then show ?case using Cons by (auto simp: tput_new as_text_def)
qed simp

lemma insort_key_map: "insort_key f (g x) (map g xs) = map g (insort_key (\<lambda>x. f (g x)) x xs)"
  by (induction xs) auto

lemma sort_key_map: "sort_key f (map g xs) = map g (sort_key (\<lambda>x. f (g x)) xs)"
  by (induction xs) (simp_all add: insort_key_map)

text \<open>The list of projects is read back in the order of creation. Storing documents with
  distinct non-empty ids succeeds, and \<open>list_projects\<close> then returns exactly these documents,
  sorted by their creation time (a missing or unreadable one counts as 0) and then by id.\<close>
theorem projects_roundtrip:
  fixes floatof :: "string \<Rightarrow> real option" and sql :: "json \<Rightarrow> string" and cf :: config_db
  assumes "list_all (\<lambda>p. \<exists>i. dget p ''id'' = JStr i \<and> i \<noteq> []) ps" "distinct (map (\<lambda>p. dget p ''id'') ps)"
  defines "r \<equiv> replace_all_projects True floatof sql (JArr (map JObj ps)) cf"
  shows "fst r \<and> list_projects (snd r) =
    sort_key (\<lambda>p. ((case created_of floatof p of None \<Rightarrow> 0 | Some t \<Rightarrow> t), the (str_of (dget p ''id'')))) ps"
proof -
  have "distinct (map (\<lambda>p. the (str_of (dget p ''id''))) ps)"
    using assms(1,2) by (induction ps) (force simp: list_all_iff)+
  then have rows: "project_rows floatof sql (map JObj ps) [] =
      Some (map (\<lambda>p. (the (str_of (dget p ''id'')), p, created_of floatof p)) ps)"
    using project_rows_docs [of ps "[]"] assms(1) by (simp add: list_all_iff)
  have "iter_json (py_or (JArr (map JObj ps)) (JArr [])) = Inr (map JObj ps)"
    by (simp add: py_or_def iter_json_def)
  then show ?thesis
    by (simp add: r_def replace_all_projects_def rows list_projects_def sort_key_map o_def)
qed


theorem projects_roundtrip_witness:
  "map (\<lambda>p. dget p ''id'') (list_projects (snd (replace_all_projects True (\<lambda>_. None) (\<lambda>_. [])
      (JArr (map JObj [[(''id'', JStr ''b''), (''createdAt'', JNum 7)], [(''id'', JStr ''c'')], [(''id'', JStr ''a'')]]))
      \<lparr>cf_projects = [], cf_settings = [], cf_migrated = True, cf_files = []\<rparr>))) = [JStr ''a'', JStr ''c'', JStr ''b'']"
proof -
  let ?ps = "[[(''id'', JStr ''b''), (''createdAt'', JNum 7)], [(''id'', JStr ''c'')], [(''id'', JStr ''a'')]]"
  have less: "(0 :: real, ''a'') \<le> (0, ''c'')" "\<not> (0 :: real, ''c'') \<le> (0, ''a'')" "\<not> (7 :: real, ''b'') \<le> (0, ''c'')" "\<not> (7 :: real, ''b'') \<le> (0, ''a'')"
    by (simp_all add: less_eq_char_def)
  have "list_all (\<lambda>p. \<exists>i. dget p ''id'' = JStr i \<and> i \<noteq> []) ?ps" "distinct (map (\<lambda>p. dget p ''id'') ?ps)" by simp_all
  from projects_roundtrip [OF this, of "\<lambda>_. None" "\<lambda>_. []"] less show ?thesis
    by (simp add: created_of_def py_or_def)
qed

subsection \<open>Pruning backups\<close>

definition mtime :: "string \<times> real \<times> string \<Rightarrow> real" where "mtime x = fst (snd x)"

lemma newest_props:
  "set (newest t) = set t" "length (newest t) = length t"
  "distinct (map fst t) \<Longrightarrow> distinct (map fst (newest t))"
  "sorted_wrt (\<lambda>x y. mtime y \<le> mtime x) (newest t)"
proof -
  have key: "(\<lambda>(n, m, c). m) = mtime" by (auto simp: mtime_def)
  have m: "mset (newest t) = mset t" by (simp add: newest_def)
  then show "set (newest t) = set t" "length (newest t) = length t"
    by (metis set_mset_mset, metis size_mset)
  show "distinct (map fst (newest t))" if "distinct (map fst t)"
    using that m by (metis mset_eq_imp_distinct_iff mset_map)
  have "sorted (map mtime (sort_key mtime (rev t)))" by simp
  then show "sorted_wrt (\<lambda>x y. mtime y \<le> mtime x) (newest t)"
    unfolding newest_def key by (simp add: sorted_wrt_rev sorted_map)
qed

lemma prune_files_keeps:
  fixes n :: int and t :: bdir and suffix :: string
  assumes "distinct (map fst t)" "0 \<le> n"
  defines "found \<equiv> newest (filter (\<lambda>x. ends_with (fst x) suffix) t)"
  shows "filter (\<lambda>x. ends_with (fst x) suffix) (prune_files suffix n t) =
      filter (\<lambda>x. x \<in> set (take (nat n) found)) t"
    and "filter (\<lambda>x. \<not> ends_with (fst x) suffix) (prune_files suffix n t) =
      filter (\<lambda>x. \<not> ends_with (fst x) suffix) t"
proof -
  have "(\<lambda>x. ends_with (fst x) suffix) = (\<lambda>(n, m, c). ends_with n suffix)" for suffix
    by (auto simp: fun_eq_iff)
  then have found: "found = newest (filter (\<lambda>(n, m, c). ends_with n suffix) t)"
    unfolding found_def by metis
  have set: "set found = {x \<in> set t. ends_with (fst x) suffix}" by (auto simp: found_def newest_props(1))
  have dist: "distinct (map fst found)"
    unfolding found_def using assms(1) by (intro newest_props(3)) (simp add: distinct_map_filter)
  have split: "set found = set (take (nat n) found) \<union> set (drop (nat n) found)"
    by (metis append_take_drop_id set_append)
  have disj: "fst ` set (take (nat n) found) \<inter> fst ` set (drop (nat n) found) = {}"
    using dist by (metis append_take_drop_id distinct_append map_append set_map)
  have drop: "py_slice_from n found = drop (nat n) found"
    using assms(2) by (simp add: py_slice_from_def py_bound_def min_def)
  have gone: "(\<lambda>(n', m, c). n' \<notin> fst ` R) = (\<lambda>x. fst x \<notin> fst ` R)" for R :: "(string \<times> real \<times> string) set"
    by (auto simp: fun_eq_iff)
  have prune: "prune_files suffix n t =
      filter (\<lambda>x. \<not> (int (length found) > n \<and> fst x \<in> fst ` set (drop (nat n) found))) t"
    unfolding prune_files_def Let_def found [symmetric] drop gone by simp
  have "ends_with (fst x) suffix \<and> \<not> (int (length found) > n \<and> fst x \<in> fst ` set (drop (nat n) found)) \<longleftrightarrow>
      x \<in> set (take (nat n) found)" if "x \<in> set t" for x
  proof (cases "ends_with (fst x) suffix")
    case True
    then have "x \<in> set (take (nat n) found) \<or> x \<in> set (drop (nat n) found)" using that set split by auto
    moreover have "drop (nat n) found = []" if "\<not> int (length found) > n" using that by simp
    ultimately show ?thesis using True disj by (auto dest: imageI [of _ _ fst])
  qed (use set split in blast)
  then show "filter (\<lambda>x. ends_with (fst x) suffix) (prune_files suffix n t) = filter (\<lambda>x. x \<in> set (take (nat n) found)) t"
    unfolding prune filter_filter by (intro filter_cong refl) blast
  have "\<forall>y\<in>set (drop (nat n) found). ends_with (fst y) suffix" using set split by blast
  then have "\<not> ends_with (fst x) suffix \<longrightarrow> fst x \<notin> fst ` set (drop (nat n) found)" for x
    by (metis imageE)
  then show "filter (\<lambda>x. \<not> ends_with (fst x) suffix) (prune_files suffix n t) = filter (\<lambda>x. \<not> ends_with (fst x) suffix) t"
    unfolding prune filter_filter by (intro filter_cong refl) blast
qed


lemma prune_keeps_newest_lemma:
  fixes n :: int and t :: bdir
  assumes "distinct (map fst t)" "0 \<le> n"
  defines "kept \<equiv> filter (\<lambda>x. ends_with (fst x) ''.yml'') (cleanup_old_backups (jint n) t)"
    and "old \<equiv> filter (\<lambda>x. ends_with (fst x) ''.yml'') t"
  shows "length kept = min (nat n) (length old) \<and>
    (\<forall>x y. x \<in> set kept \<and> y \<in> set old \<and> y \<notin> set kept \<longrightarrow> mtime y \<le> mtime x) \<and>
    filter (\<lambda>x. \<not> ends_with (fst x) ''.yml'') (cleanup_old_backups (jint n) t) = filter (\<lambda>x. \<not> ends_with (fst x) ''.yml'') t"
proof -
  define found where "found = newest old"
  have clean: "cleanup_old_backups (jint n) t = prune_files ''.yml'' n t"
    by (simp add: cleanup_old_backups_def exact_int_def jint_def)
  have kept: "kept = filter (\<lambda>x. x \<in> set (take (nat n) found)) t"
    unfolding kept_def clean found_def old_def by (rule prune_files_keeps(1) [OF assms(1,2)])
  have set: "set found = set old" "length found = length old" by (simp_all add: found_def newest_props)
  have dt: "distinct t" using assms(1) by (simp add: distinct_map)
  have "distinct (map fst found)"
    unfolding found_def old_def by (intro newest_props(3)) (simp add: distinct_map_filter assms(1))
  then have df: "distinct found" by (simp add: distinct_map)
  have sk: "set kept = set (take (nat n) found)"
    using set(1) by (auto simp: kept old_def dest: in_set_takeD)
  have "length kept = card (set kept)" using distinct_card [of kept] dt by (simp add: kept)
  also have "\<dots> = length (take (nat n) found)" unfolding sk using df by (simp add: distinct_card)
  finally have len: "length kept = min (nat n) (length old)" using set(2) by simp
  have "mtime y \<le> mtime x" if "x \<in> set kept" "y \<in> set old" "y \<notin> set kept" for x y
  proof -
    have "y \<in> set (drop (nat n) found)"
      using that sk set(1) by (metis Un_iff append_take_drop_id set_append)
    moreover have "sorted_wrt (\<lambda>x y. mtime y \<le> mtime x) (take (nat n) found @ drop (nat n) found)"
      unfolding append_take_drop_id found_def by (rule newest_props(4))
    ultimately show ?thesis using that(1) unfolding sk sorted_wrt_append by blast
  qed
  then show ?thesis
    using len prune_files_keeps(2) [OF assms(1,2), of "''.yml''"] unfolding clean by blast
qed

text \<open>Pruning keeps the newest backups and nothing else of their kind. Of the files with the
  pruned suffix exactly the newest \<open>max_depth\<close> remain (all of them when there are fewer), each at
  least as new as each that is removed, and every other file of the directory is untouched.\<close>
theorem prune_keeps_newest:
  fixes n :: int and t :: bdir
  assumes "distinct (map fst t)" "0 \<le> n"
  defines "kept \<equiv> filter (\<lambda>x. ends_with (fst x) ''.yml'') (cleanup_old_backups (jint n) t)"
    and "old \<equiv> filter (\<lambda>x. ends_with (fst x) ''.yml'') t"
  shows "length kept = min (nat n) (length old) \<and>
    (\<forall>x y. x \<in> set kept \<and> y \<in> set old \<and> y \<notin> set kept \<longrightarrow> mtime y \<le> mtime x) \<and>
    filter (\<lambda>x. \<not> ends_with (fst x) ''.yml'') (cleanup_old_backups (jint n) t) = filter (\<lambda>x. \<not> ends_with (fst x) ''.yml'') t"
  unfolding kept_def old_def by (rule prune_keeps_newest_lemma [OF assms(1,2)])

theorem prune_keeps_newest_witness:
  "length (filter (\<lambda>x. ends_with (fst x) ''.yml'')
     (cleanup_old_backups (jint 1) [(''a.yml'', 1, []), (''b.yml'', 2, []), (''c.txt'', 0, [])])) = 1"
proof -
  let ?t = "[(''a.yml'', 1, []), (''b.yml'', 2, []), (''c.txt'', 0, [])]"
  have e: "ends_with ''a.yml'' ''.yml''" "ends_with ''b.yml'' ''.yml''" "\<not> ends_with ''c.txt'' ''.yml''" by code_simp+
  have "distinct (map fst ?t)" by simp
  from prune_keeps_newest [OF this, of 1, THEN conjunct1] show ?thesis
    by (simp only: filter.simps e fst_conv if_True if_False) simp
qed

lemma set_cleanup: "set (cleanup_old_backups d t) \<subseteq> set t"
  by (auto simp: cleanup_old_backups_def prune_files_def Let_def split: option.splits if_splits)

text \<open>A backup can be lost in the moment it is made. \<open>create_backup\<close> copies the file with its
  modification time and then prunes by that time: when the directory already holds \<open>max_depth\<close>
  backups, all of files that were modified later, the new backup is the one that is removed, and
  the caller is told that the file was backed up.\<close>
theorem fresh_backup_pruned:
  assumes "create_backup ts True cf path (Some (m, content)) B = (ok, B')"
    and "projects_match path \<noteq> None" "ends_with (backup_name ts path) ''.yml''"
    and "getd (load_backup_settings cf) ''max_depth'' (JNum 100) = jint n" "0 \<le> n"
    and "distinct (map fst (dir_of B (backup_dir path)))" "backup_name ts path \<notin> fst ` set (dir_of B (backup_dir path))"
    and "n \<le> int (length (filter (\<lambda>x. ends_with (fst x) ''.yml'') (dir_of B (backup_dir path))))"
    and "\<forall>x\<in>set (dir_of B (backup_dir path)). m < mtime x"
  shows "ok \<and> backup_name ts path \<notin> fst ` set (dir_of B' (backup_dir path))"
proof -
  define name where "name = backup_name ts path"
  define t where "t = dir_of B (backup_dir path)"
  define t' where "t' = t @ [(name, m, content)]"
  have new: "AList.update name (m, content) t = t'"
    using assms(7) unfolding t'_def t_def name_def by (rule update_fresh)
  have B': "ok" "dir_of B' (backup_dir path) = cleanup_old_backups (jint n) t'"
    using assms(1,2,4) new by (auto simp: create_backup_def Let_def t_def name_def dir_of_def update_conv')
  have dist: "distinct (map fst t')" using assms(6,7) by (simp add: t'_def t_def name_def)
  define yml where "yml = (\<lambda>x :: string \<times> real \<times> string. ends_with (fst x) ''.yml'')"
  define kept where "kept = filter yml (cleanup_old_backups (jint n) t')"
  note keeps = prune_keeps_newest_lemma [OF dist assms(5), folded yml_def, folded kept_def]
  have "name \<notin> fst ` set (cleanup_old_backups (jint n) t')"
  proof
    assume "name \<in> fst ` set (cleanup_old_backups (jint n) t')"
    then obtain x where x: "x \<in> set (cleanup_old_backups (jint n) t')" "fst x = name" by auto
    then have "x \<in> set t'" using set_cleanup by blast
    then have "x = (name, m, content)" using x(2) assms(7) by (force simp: t'_def t_def name_def)
    then have kept: "(name, m, content) \<in> set kept" using x(1) assms(3) by (simp add: kept_def yml_def name_def)
    have "length kept < length (filter yml t')"
      using keeps assms(3,5,8) by (simp add: t'_def t_def name_def yml_def)
    moreover have "distinct (filter yml t')" using dist by (simp add: distinct_map)
    ultimately have "\<not> set (filter yml t') \<subseteq> set kept"
      by (metis card_length card_mono distinct_card finite_set leD le_trans)
    then obtain y where y: "y \<in> set (filter yml t')" "y \<notin> set kept" by blast
    then have "mtime y \<le> mtime (name, m, content)" using keeps kept by blast
    moreover have "y \<in> set t' \<and> y \<noteq> (name, m, content)" using y kept by auto
    then have "y \<in> set t" by (auto simp: t'_def)
    ultimately show False using assms(9) by (auto simp: mtime_def t_def)
  qed
  then show ?thesis using B' by (simp add: name_def)
qed


theorem fresh_backup_pruned_witness:
  "fst (create_backup ''20250101_000000'' True
     \<lparr>cf_projects = [], cf_settings = [(''backup_settings'', JObj [(''max_depth'', jint 1)])], cf_migrated = True, cf_files = []\<rparr>
     ''/data/projects/p/playbooks/site.yml'' (Some (3, ''new'')) [((''playbooks'', Some ''p''), [(''a.yml'', 7, ''old'')])]) \<and>
   backup_name ''20250101_000000'' ''/data/projects/p/playbooks/site.yml'' \<notin>
     fst ` set (dir_of (snd (create_backup ''20250101_000000'' True
       \<lparr>cf_projects = [], cf_settings = [(''backup_settings'', JObj [(''max_depth'', jint 1)])], cf_migrated = True, cf_files = []\<rparr>
       ''/data/projects/p/playbooks/site.yml'' (Some (3, ''new'')) [((''playbooks'', Some ''p''), [(''a.yml'', 7, ''old'')])]))
     (''playbooks'', Some ''p''))"
proof -
  let ?path = "''/data/projects/p/playbooks/site.yml''"
  let ?cf = "\<lparr>cf_projects = [], cf_settings = [(''backup_settings'', JObj [(''max_depth'', jint 1)])], cf_migrated = True, cf_files = []\<rparr>"
  let ?B = "[((''playbooks'', Some ''p''), [(''a.yml'', 7, ''old'')])]"
  have path: "projects_match ?path = Some ''p''" "backup_dir ?path = (''playbooks'', Some ''p'')"
    "backup_name ''20250101_000000'' ?path = ''site_20250101_000000.yml''"
    "ends_with ''site_20250101_000000.yml'' ''.yml''" "ends_with ''a.yml'' ''.yml''"
    by code_simp+
  have depth: "getd (load_backup_settings ?cf) ''max_depth'' (JNum 100) = jint 1"
    by (simp add: load_backup_settings_def get_setting_def getd_dupd)
  have dir: "dir_of ?B (''playbooks'', Some ''p'') = [(''a.yml'', 7, ''old'')]" by (simp add: dir_of_def)
  obtain ok B' where r: "create_backup ''20250101_000000'' True ?cf ?path (Some (3, ''new'')) ?B = (ok, B')" by fastforce
  show ?thesis
    using fresh_backup_pruned [OF r _ _ depth, unfolded path dir] path by (simp add: r mtime_def)
qed

end
