(* ===== verification/Schedule.thy ===== *)
theory Schedule
  imports Settings
begin

section \<open>The playbook scheduler\<close>

text \<open>
  \<^verbatim>\<open>server/services/playbook_scheduler.py\<close>. A process of the server keeps a \<open>sched\<close>; all processes
  share the directory \<open>sched_dir\<close>: the file of the last starts and the lock files. The
  packages croniter and pytz are the arguments \<open>cron_lib\<close>: the last due time before and the
  first due time after a moment (\<open>None\<close>: the expression is refused), and the local time of a
  zone (\<open>Inr None\<close>: the zone is unknown). Times are seconds; \<open>utc\<close> is the clock as UTC time and \<open>now\<close> the
  time stamp, read at their own moments.
\<close>

record cron_lib =
  cr_prev :: "json \<Rightarrow> real \<Rightarrow> real option"
  cr_next :: "json \<Rightarrow> real \<Rightarrow> real option"
  cr_zone :: "json \<Rightarrow> (real \<Rightarrow> real) option res"

type_synonym schedule_key = "string \<times> string"

record sched =
  sc_interval :: real
  sc_start :: real
  sc_last :: "(schedule_key \<times> json) list"

record sched_dir =
  sd_last :: "jfile option"
  sd_locks :: "string list"

definition STARTUP_GRACE_PERIOD :: real where "STARTUP_GRACE_PERIOD = 60"

subsection \<open>The file of the last starts\<close>

definition repr_char :: "char \<Rightarrow> char \<Rightarrow> string" where
  "repr_char q c =
    (if c = q \<or> c = CHR 0x5C then [CHR 0x5C, c]
     else if c = CHR 0x09 then [CHR 0x5C, CHR ''t'']
     else if c = CHR 0x0A then [CHR 0x5C, CHR ''n'']
     else if c = CHR 0x0D then [CHR 0x5C, CHR ''r'']
     else if char_in 0 31 c \<or> c = CHR 0x7F
     then [CHR 0x5C, CHR ''x'', hex_digit (of_char c div 16), hex_digit (of_char c mod 16)]
     else [c])"

definition py_repr :: "string \<Rightarrow> string" where
  \<comment> \<open>\<open>repr\<close> of an ASCII string\<close>
  "py_repr s =
    (let q = (if CHR 0x27 \<in> set s \<and> CHR 0x22 \<notin> set s then CHR 0x22 else CHR 0x27)
     in [q] @ concat (map (repr_char q) s) @ [q])"

definition key_text :: "schedule_key \<Rightarrow> string" where
  \<comment> \<open>\<open>str\<close> of the tuple\<close>
  "key_text = (\<lambda>(p, b). ''('' @ py_repr p @ '', '' @ py_repr b @ '')'')"

definition strip_quotes :: "string \<Rightarrow> string" where
  "strip_quotes s =
    (let quote = (\<lambda>c. c = CHR 0x27 \<or> c = CHR 0x22)
     in rev (dropWhile quote (rev (dropWhile quote s))))"

definition parse_key :: "string \<Rightarrow> schedule_key option" where
  "parse_key t =
    (if starts_with t ''('' \<and> ends_with t '')'' then
       (case map (\<lambda>p. strip_quotes (strip p)) (split_on CHR '','' [] (butlast (tl t))) of
          [a, b] \<Rightarrow> Some (a, b)
        | _ \<Rightarrow> None)
     else None)"

definition load_last_execution :: "sched_dir \<Rightarrow> (schedule_key \<times> json) list" where
  "load_last_execution D =
    (case sd_last D of
       Some (Doc d) \<Rightarrow>
         fold (\<lambda>(t, v) m. case parse_key t of None \<Rightarrow> m | Some k \<Rightarrow> AList.update k v m) d []
     | _ \<Rightarrow> [])"

definition save_last_execution :: "bool \<Rightarrow> (schedule_key \<times> json) list \<Rightarrow> sched_dir \<Rightarrow> sched_dir" where
  \<comment> \<open>a failing write is swallowed\<close>
  "save_last_execution writable m D =
    (if writable then D\<lparr>sd_last := Some (Doc (fold (\<lambda>(k, v) d. dset d (key_text k) v) m []))\<rparr> else D)"

subsection \<open>Whether a schedule is due\<close>

definition due :: "real \<Rightarrow> real \<Rightarrow> real \<Rightarrow> real \<Rightarrow> bool \<times> bool" where
  \<comment> \<open>due, and urgent\<close>
  "due check_interval time_since_prev time_until_next cron_interval =
    (let execution_window = (if 0 < cron_interval \<and> cron_interval \<le> 600
                             then max (check_interval * 2) (cron_interval * 0.5) else check_interval * 2)
     in if time_until_next < 0 then
          (let max_catchup = (if 0 < cron_interval then cron_interval * 2 else 600)
           in if \<bar>time_until_next\<bar> \<le> max_catchup then (True, True) else (False, False))
        else if time_until_next \<le> 5 then (True, True)
        else if time_until_next \<le> check_interval then (True, False)
        else if 0 \<le> time_since_prev \<and> time_since_prev \<le> execution_window then (True, False)
        else (False, False))"

definition min_gap :: "real \<Rightarrow> real" where
  "min_gap cron_interval = (if 0 < cron_interval then max 30 (cron_interval * 0.7) else 60)"

definition should_run_now :: "cron_lib \<Rightarrow> json \<Rightarrow> json \<Rightarrow> real \<Rightarrow> real \<Rightarrow> schedule_key \<Rightarrow> sched \<Rightarrow> bool" where
  \<comment> \<open>\<open>croniter\<close> moves: the next due time is asked from the previous one on. Any exception is \<open>False\<close>\<close>
  "should_run_now L cron tz utc now key W =
    (case cr_zone L tz of
       Inl e \<Rightarrow> False
     | Inr z \<Rightarrow>
         (let cur = (case z of None \<Rightarrow> utc | Some f \<Rightarrow> f utc)
          in case cr_prev L cron cur of
               None \<Rightarrow> False
             | Some prev \<Rightarrow>
                 (case cr_next L cron prev of
                    None \<Rightarrow> False
                  | Some next' \<Rightarrow>
                      (let (should_run, urgent) = due (sc_interval W) (cur - prev) (next' - cur) (next' - prev)
                       in should_run \<and>
                          (case num_of (case map_of (sc_last W) key of None \<Rightarrow> JNum 0 | Some v \<Rightarrow> v) of
                             None \<Rightarrow> False
                           | Some last_exec \<Rightarrow> now - last_exec \<ge> (if urgent then 5 else min_gap (next' - prev)))))))"

subsection \<open>Starting a run\<close>

definition lock_name :: "schedule_key \<Rightarrow> string" where
  "lock_name = (\<lambda>(p, b). ''scheduler_'' @ p @ ''_'' @ b @ ''.lock'')"

definition run_interval :: "cron_lib \<Rightarrow> json \<Rightarrow> real \<Rightarrow> real" where
  \<comment> \<open>the interval around \<open>utc\<close>, first the next due time, then the one before it; 300 when it fails\<close>
  "run_interval L cron utc =
    (if \<not> truthy cron then 300
     else (case cr_next L cron utc of
             None \<Rightarrow> 300
           | Some next' \<Rightarrow> (case cr_prev L cron next' of None \<Rightarrow> 300 | Some prev \<Rightarrow> next' - prev)))"

definition decide_start ::
  "cron_lib \<Rightarrow> json \<Rightarrow> real \<Rightarrow> real \<Rightarrow> schedule_key \<Rightarrow> sched \<Rightarrow> sched_dir \<Rightarrow> bool \<times> sched" where
  \<comment> \<open>reading the file and deciding, under the schedule's lock; a yes comes with the last starts to
     save. A last start that is no number raises\<close>
  "decide_start L cron utc now key W D =
    (let last = load_last_execution D; W1 = W\<lparr>sc_last := last\<rparr>
     in case num_of (case map_of last key of None \<Rightarrow> JNum 0 | Some v \<Rightarrow> v) of
          None \<Rightarrow> (False, W1)
        | Some old_last_exec \<Rightarrow>
            if now - old_last_exec < min_gap (run_interval L cron utc) then (False, W1)
            else (True, W\<lparr>sc_last := AList.update key (JNum now) last\<rparr>))"

definition locked_start ::
  "cron_lib \<Rightarrow> bool \<Rightarrow> json \<Rightarrow> real \<Rightarrow> real \<Rightarrow> schedule_key \<Rightarrow> sched \<Rightarrow> sched_dir \<Rightarrow> bool \<times> sched \<times> sched_dir" where
  \<comment> \<open>what happens while the lock is held, when nobody else writes the file in between: whether the
     run was started\<close>
  "locked_start L writable cron utc now key W D =
    (case decide_start L cron utc now key W D of
       (go, W1) \<Rightarrow> (go, W1, if go then save_last_execution writable (sc_last W1) D else D))"

definition lock_schedule :: "schedule_key \<Rightarrow> sched_dir \<Rightarrow> sched_dir" where
  "lock_schedule key D = D\<lparr>sd_locks := lock_name key # sd_locks D\<rparr>"

definition unlock_schedule :: "schedule_key \<Rightarrow> sched_dir \<Rightarrow> sched_dir" where
  "unlock_schedule key D = D\<lparr>sd_locks := removeAll (lock_name key) (sd_locks D)\<rparr>"

definition may_start :: "real \<Rightarrow> schedule_key \<Rightarrow> sched \<Rightarrow> sched_dir \<Rightarrow> bool" where
  \<comment> \<open>the grace period is over and the lock file can be created\<close>
  "may_start now key W D =
    (\<not> now - sc_start W < STARTUP_GRACE_PERIOD \<and> lock_name key \<notin> set (sd_locks D))"

definition create_scheduled_run ::
  "cron_lib \<Rightarrow> bool \<Rightarrow> json \<Rightarrow> real \<Rightarrow> real \<Rightarrow> schedule_key \<Rightarrow> sched \<Rightarrow> sched_dir \<Rightarrow> bool \<times> sched \<times> sched_dir" where
  \<comment> \<open>the outcome of the call that starts the playbook is only logged. The lock file is created,
     and removed at the end\<close>
  "create_scheduled_run L writable cron utc now key W D =
    (if \<not> may_start now key W D then (False, W, D)
     else (case locked_start L writable cron utc now key W (lock_schedule key D) of
             (started, W', D') \<Rightarrow> (started, W', unlock_schedule key D')))"

subsection \<open>A pass over the schedules\<close>

record schedule_info =
  si_project :: string
  si_playbook :: string
  si_schedule :: doc

fun check_schedules ::
  "cron_lib \<Rightarrow> bool \<Rightarrow> real \<Rightarrow> (schedule_info \<times> real \<times> real \<times> real) list \<Rightarrow> sched \<Rightarrow> sched_dir
   \<Rightarrow> schedule_key list \<times> sched \<times> sched_dir" where
  \<comment> \<open>with each schedule the clock readings of its check and of its start (\<open>now\<close>, \<open>now\<close>, \<open>utc\<close>);
     \<open>utc\<close> is read once for all checks. The runs that were started\<close>
  "check_schedules L writable utc [] W D = ([], W, D)"
| "check_schedules L writable utc ((s, now1, now2, utc2) # rest) W D =
    (let key = (si_project s, si_playbook s);
         cron = getd (si_schedule s) ''cron'' (JStr []);
         tz = getd (si_schedule s) ''timezone'' (JStr ''UTC'')
     in if truthy (getd (si_schedule s) ''enabled'' (JBool False)) \<and> truthy cron \<and>
           should_run_now L cron tz utc now1 key W
        then (case create_scheduled_run L writable cron utc2 now2 key W D of
                (started, W1, D1) \<Rightarrow>
                  (case check_schedules L writable utc rest W1 D1 of
                     (runs, W2, D2) \<Rightarrow> (if started then key # runs else runs, W2, D2)))
        else check_schedules L writable utc rest W D)"

definition new_sched :: "real \<Rightarrow> real \<Rightarrow> sched_dir \<Rightarrow> sched" where
  "new_sched interval now D = \<lparr>sc_interval = interval, sc_start = now, sc_last = load_last_execution D\<rparr>"

definition resolve_interval :: "(string \<Rightarrow> string option) \<Rightarrow> config_db \<Rightarrow> int" where
  "resolve_interval env cf =
    (case get_interval env ''playbook_scheduler_interval'' cf of
       Inr v \<Rightarrow> v
     | Inl e \<Rightarrow> (case int_of_json (py_or (case env ''PLAYBOOK_SCHEDULER_INTERVAL'' of None \<Rightarrow> JNull | Some s \<Rightarrow> JStr s) (jint 60)) of
                   None \<Rightarrow> 60 | Some n \<Rightarrow> max 15 n))"

definition validate_cron :: "cron_lib \<Rightarrow> string \<Rightarrow> real \<Rightarrow> bool" where
  \<comment> \<open>the flag of the result\<close>
  "validate_cron L cron now = (strip cron \<noteq> [] \<and> cr_next L (JStr cron) now \<noteq> None)"

end
