(* ===== verification/ScheduleProps.thy ===== *)
theory ScheduleProps
  imports Schedule
begin

section \<open>The playbook scheduler: properties\<close>

text \<open>
  The file of the last starts is read back as it was written; runs of one schedule keep their
  distance, also when processes compete for it; a periodic schedule fires; and three ways in which a due
  run is lost or a run is started twice.
\<close>

subsection \<open>Keys and their text\<close>

definition id_ok :: "string \<Rightarrow> bool" where "id_ok s = list_all (word_char ''-_'') s"

definition key_ok :: "schedule_key \<Rightarrow> bool" where "key_ok k = (id_ok (fst k) \<and> id_ok (snd k))"

lemma word_char_not:
  assumes "word_char ''-_'' c"
  shows "c \<noteq> CHR 0x27" "c \<noteq> CHR 0x22" "c \<noteq> CHR 0x5C" "c \<noteq> CHR '',''" "\<not> char_in 0 31 c" "c \<noteq> CHR 0x7F"
    "c \<noteq> CHR 0x09" "c \<noteq> CHR 0x0A" "c \<noteq> CHR 0x0D"
  using assms by (auto simp: word_char_def is_alnum_def is_alpha_def is_lower_def is_upper_def is_digit_def char_in_def Let_def)

lemma plain_repr: "id_ok s \<Longrightarrow> py_repr s = CHR 0x27 # s @ [CHR 0x27]"
proof -
  assume s: "id_ok s"
  then have q: "CHR 0x27 \<notin> set s" by (auto simp: id_ok_def list_all_iff dest: word_char_not(1))
  have "concat (map (repr_char (CHR 0x27)) s) = s"
    using s by (induction s) (auto simp: id_ok_def repr_char_def word_char_not)
  then show ?thesis using q by (simp add: py_repr_def Let_def)
qed

lemma strip_quoted: "strip (CHR 0x27 # s @ [CHR 0x27]) = CHR 0x27 # s @ [CHR 0x27]"
  "strip (CHR '' '' # CHR 0x27 # s @ [CHR 0x27]) = CHR 0x27 # s @ [CHR 0x27]"
  by (simp_all add: strip_def is_space_def char_in_def)

lemma strip_quotes_plain: "id_ok s \<Longrightarrow> strip_quotes (CHR 0x27 # s @ [CHR 0x27]) = s"
proof -
  assume s: "id_ok s"
  have drop: "dropWhile (\<lambda>c. c = CHR 0x27 \<or> c = CHR 0x22) t = t" if "\<forall>c\<in>set t. word_char ''-_'' c" for t
    using that word_char_not(1,2) by (cases t) auto
  show ?thesis
  proof (cases "s = []")
    case False
    have all: "\<forall>c\<in>set s. word_char ''-_'' c" using s by (simp add: id_ok_def list_all_iff)
    then have "dropWhile (\<lambda>c. c = CHR 0x27 \<or> c = CHR 0x22) (s @ [CHR 0x27]) = s @ [CHR 0x27]"
      using False word_char_not(1,2) by (cases s) auto
    then show ?thesis using drop [of "rev s"] all by (simp add: strip_quotes_def)
  qed (simp add: strip_quotes_def)
qed

lemma parse_key_text: "key_ok k \<Longrightarrow> parse_key (key_text k) = Some k"
proof -
  assume k: "key_ok k"
  obtain p b where pb: "k = (p, b)" by fastforce
  have plain: "id_ok p" "id_ok b" using k by (simp_all add: key_ok_def pb)
  define x where "x = CHR 0x27 # p @ [CHR 0x27]"
  define y where "y = CHR 0x27 # b @ [CHR 0x27]"
  have nc: "CHR '','' \<notin> set x" "CHR '','' \<notin> set (CHR '' '' # y)"
    using plain by (auto simp: x_def y_def id_ok_def list_all_iff dest: word_char_not(4))
  have t: "key_text k = ''('' @ x @ '', '' @ y @ '')''" by (simp add: key_text_def pb plain plain_repr x_def y_def)
  then have "key_text k = CHR ''('' # (x @ CHR '','' # (CHR '' '' # y)) @ '')''" by simp
  then have "butlast (tl (key_text k)) = x @ CHR '','' # (CHR '' '' # y)" by (simp only: list.sel butlast_snoc)
  then have "split_on CHR '','' [] (butlast (tl (key_text k))) = [x, CHR '' '' # y]"
    using split_on_plain [OF nc(1), of "[]" "CHR '','' # CHR '' '' # y"] split_on_plain [OF nc(2), of "[]" "[]"] by simp
  moreover have "starts_with (key_text k) ''(''" "ends_with (key_text k) '')''"
    by (simp_all add: t starts_with_def ends_with_def)
  moreover have "strip_quotes (strip x) = p" "strip_quotes (strip (CHR '' '' # y)) = b"
    by (simp_all add: x_def y_def strip_quoted strip_quotes_plain plain)
  ultimately show ?thesis by (simp add: parse_key_def pb)
qed

lemma key_text_inj: "key_ok k \<Longrightarrow> key_ok k' \<Longrightarrow> key_text k = key_text k' \<Longrightarrow> k = k'"
  using parse_key_text by (metis option.inject)

lemma fold_dset_keys:
  assumes "distinct (map fst m)" "\<forall>k\<in>fst ` set m. key_ok k" "fst ` set d \<inter> key_text ` fst ` set m = {}"
  shows "fold (\<lambda>(k, v) d. dset d (key_text k) v) m d = d @ map (\<lambda>(k, v). (key_text k, v)) m"
  using assms
proof (induction m arbitrary: d)
  case (Cons p m)
  obtain k v where p: "p = (k, v)" by fastforce
  have upd: "dset d (key_text k) v = d @ [(key_text k, v)]"
  proof -
    have "key_text k \<notin> fst ` set d" using Cons.prems(3) by (auto simp: p)
    then show ?thesis by (simp add: dset_def update_fresh)
  qed
  have "key_text k \<notin> key_text ` fst ` set m"
  proof
    assume "key_text k \<in> key_text ` fst ` set m"
    then obtain k' where "k' \<in> fst ` set m" "key_text k = key_text k'" by blast
    moreover have "key_ok k" "key_ok k'" using Cons.prems(2) \<open>k' \<in> fst ` set m\<close> by (auto simp: p)
    ultimately have "k \<in> fst ` set m" using key_text_inj by blast
    then show False using Cons.prems(1) by (simp add: p)
  qed
  then have "fst ` set (d @ [(key_text k, v)]) \<inter> key_text ` fst ` set m = {}" using Cons.prems(3) by (auto simp: p)
  from Cons.IH [OF _ _ this] show ?case using Cons.prems(1,2) upd by (simp add: p)
qed simp

lemma fold_parse_keys:
  assumes "distinct (map fst (m0 @ m))" "\<forall>k\<in>fst ` set m. key_ok k"
  shows "fold (\<lambda>(t, v) m. case parse_key t of None \<Rightarrow> m | Some k \<Rightarrow> AList.update k v m)
    (map (\<lambda>(k, v). (key_text k, v)) m) m0 = m0 @ m"
  using assms
proof (induction m arbitrary: m0)
  case (Cons p m)
  obtain k v where p: "p = (k, v)" by fastforce
  have "AList.update k v m0 = m0 @ [(k, v)]"
  proof -
    have "k \<notin> fst ` set m0" using Cons.prems(1) by (force simp: p)
    then show ?thesis by (rule update_fresh)
  qed
  then show ?case using Cons by (simp add: p parse_key_text)
qed simp

lemma last_execution_kept:
  assumes "distinct (map fst m)" "\<forall>k\<in>fst ` set m. key_ok k"
  shows "load_last_execution (save_last_execution True m D) = m"
  using fold_dset_keys [OF assms, of "[]"] fold_parse_keys [of "[]" m] assms
  by (simp add: load_last_execution_def save_last_execution_def)


subsection \<open>Processes that compete\<close>

text \<open>
  Attempts of any processes to start runs, interleaved: each takes the lock file of its schedule,
  reads the file of the last starts and decides, saves the file, calls the interface and removes the
  lock file; or the process dies and leaves the lock file. The processes share only the directory.
  The state also lists the runs in the order in which they were started.
\<close>

record attempt =
  at_sched :: sched
  at_cron :: json
  at_utc :: real
  at_now :: real
  at_key :: schedule_key
  at_writes :: bool  \<comment> \<open>whether its write of the file succeeds\<close>

datatype stage = Locked | Decided sched | Calling

type_synonym sched_run = "sched_dir \<times> (attempt \<times> stage) list \<times> (schedule_key \<times> real) list"

inductive sched_step :: "cron_lib \<Rightarrow> sched_run \<Rightarrow> sched_run \<Rightarrow> bool" for L where
  take: "may_start (at_now a) (at_key a) (at_sched a) D \<Longrightarrow>
     sched_step L (D, ps, rs) (lock_schedule (at_key a) D, (a, Locked) # ps, rs)"
| go: "decide_start L (at_cron a) (at_utc a) (at_now a) (at_key a) (at_sched a) D = (True, W) \<Longrightarrow>
     sched_step L (D, p @ (a, Locked) # q, rs) (D, p @ (a, Decided W) # q, rs)"
| leave: "decide_start L (at_cron a) (at_utc a) (at_now a) (at_key a) (at_sched a) D = (False, W) \<Longrightarrow>
     sched_step L (D, p @ (a, Locked) # q, rs) (unlock_schedule (at_key a) D, p @ q, rs)"
| start: "sched_step L (D, p @ (a, Decided W) # q, rs)
     (save_last_execution (at_writes a) (sc_last W) D, p @ (a, Calling) # q, rs @ [(at_key a, at_now a)])"
| finish: "sched_step L (D, p @ (a, Calling) # q, rs) (unlock_schedule (at_key a) D, p @ q, rs)"
| die: "sched_step L (D, p @ x # q, rs) (D, p @ q, rs)"

definition runs_of :: "schedule_key \<Rightarrow> (schedule_key \<times> real) list \<Rightarrow> real list" where
  "runs_of k rs = map snd (filter (\<lambda>r. fst r = k) rs)"

lemma runs_of_simps [simp]:
  "runs_of k [] = []" "runs_of k ((k', t) # rs) = (if k' = k then t # runs_of k rs else runs_of k rs)"
  "runs_of k (rs @ rs') = runs_of k rs @ runs_of k rs'"
  by (simp_all add: runs_of_def)

definition last_start :: "sched_dir \<Rightarrow> schedule_key \<Rightarrow> json" where
  "last_start D k = (case map_of (load_last_execution D) k of None \<Rightarrow> JNum 0 | Some v \<Rightarrow> v)"

definition tidy :: "sched_dir \<Rightarrow> bool" where
  "tidy D = (distinct (map fst (load_last_execution D)) \<and> (\<forall>k\<in>fst ` set (load_last_execution D). key_ok k))"

lemma load_locks [simp]:
  "load_last_execution (lock_schedule k D) = load_last_execution D"
  "load_last_execution (unlock_schedule k D) = load_last_execution D"
  "load_last_execution (D\<lparr>sd_locks := ls\<rparr>) = load_last_execution D"
  by (simp_all add: load_last_execution_def lock_schedule_def unlock_schedule_def)

lemma last_start_locks [simp]:
  "last_start (lock_schedule k D) k' = last_start D k'" "last_start (unlock_schedule k D) k' = last_start D k'"
  "tidy (lock_schedule k D) = tidy D" "tidy (unlock_schedule k D) = tidy D"
  by (simp_all add: last_start_def tidy_def)

lemma save_locks [simp]: "sd_locks (save_last_execution w m D) = sd_locks D"
  by (simp add: save_last_execution_def)

text \<open>An attempt that is not disturbed is a run of the machine from its lock to its end.\<close>
lemma attempt_is_its_steps:
  fixes a :: attempt
  assumes "create_scheduled_run L (at_writes a) (at_cron a) (at_utc a) (at_now a) (at_key a) (at_sched a) D = (s, W, D')"
  shows "(sched_step L)\<^sup>*\<^sup>* (D, ps, rs) (D', ps, if s then rs @ [(at_key a, at_now a)] else rs)"
proof (cases "may_start (at_now a) (at_key a) (at_sched a) D")
  case True
  let ?D = "lock_schedule (at_key a) D"
  note tk = sched_step.take [OF True, of L ps rs]
  obtain g W1 where d: "decide_start L (at_cron a) (at_utc a) (at_now a) (at_key a) (at_sched a) ?D = (g, W1)" by fastforce
  show ?thesis
  proof (cases g)
    case False
    then have "s = False \<and> D' = unlock_schedule (at_key a) ?D"
      using assms True d by (simp add: create_scheduled_run_def locked_start_def)
    moreover have "sched_step L (?D, (a, Locked) # ps, rs) (unlock_schedule (at_key a) ?D, ps, rs)"
      using sched_step.leave [of L a ?D W1 "[]" ps rs] d False by simp
    ultimately show ?thesis using tk by (simp add: converse_rtranclp_into_rtranclp)
  next
    case True
    let ?S = "save_last_execution (at_writes a) (sc_last W1) ?D"
    have "s = True \<and> D' = unlock_schedule (at_key a) ?S"
      using assms True \<open>may_start _ _ _ D\<close> d by (auto simp: create_scheduled_run_def locked_start_def)
    moreover have "sched_step L (?D, (a, Locked) # ps, rs) (?D, (a, Decided W1) # ps, rs)"
      using sched_step.go [of L a ?D W1 "[]" ps rs] d True by simp
    moreover have "sched_step L (?D, (a, Decided W1) # ps, rs) (?S, (a, Calling) # ps, rs @ [(at_key a, at_now a)])"
      using sched_step.start [of L ?D "[]" a W1 ps rs] by simp
    moreover have "sched_step L (?S, (a, Calling) # ps, rs @ [(at_key a, at_now a)])
        (unlock_schedule (at_key a) ?S, ps, rs @ [(at_key a, at_now a)])"
      using sched_step.finish [of L ?S "[]" a ps] by simp
    ultimately show ?thesis using tk by (simp add: converse_rtranclp_into_rtranclp)
  qed
qed (use assms in \<open>simp add: create_scheduled_run_def\<close>)

subsection \<open>The locks and the distance\<close>

definition locks_held :: "sched_run \<Rightarrow> bool" where
  \<comment> \<open>who works on a schedule holds its lock, and nobody else does\<close>
  "locks_held = (\<lambda>(D, ps, rs). distinct (map (lock_name \<circ> at_key \<circ> fst) ps) \<and>
     (\<forall>x\<in>set ps. lock_name (at_key (fst x)) \<in> set (sd_locks D)))"

lemma alone_in:
  assumes "distinct (map f (p @ x # q))" "y \<in> set (p @ q)"
  shows "f y \<noteq> f x"
proof
  assume "f y = f x"
  then have "f x \<in> f ` set (p @ q)" using assms(2) by (metis imageI)
  then show False using assms(1) by auto
qed

lemma locks_held_drop:
  assumes "locks_held (D, p @ (a, st) # q, rs)"
  shows "locks_held (unlock_schedule (at_key a) D, p @ q, rs)"
proof -
  have d: "distinct (map (lock_name \<circ> at_key \<circ> fst) (p @ (a, st) # q))"
    and m: "\<forall>x\<in>set (p @ q). lock_name (at_key (fst x)) \<in> set (sd_locks D)"
    using assms by (auto simp: locks_held_def)
  have "\<forall>x\<in>set (p @ q). lock_name (at_key (fst x)) \<noteq> lock_name (at_key a)"
    using alone_in [OF d] by simp
  with d m show ?thesis by (auto simp: locks_held_def unlock_schedule_def)
qed

lemma locks_held_step: "sched_step L s t \<Longrightarrow> locks_held s \<Longrightarrow> locks_held t"
proof (induction rule: sched_step.induct)
  case (take a D ps rs)
  then show ?case by (auto simp: locks_held_def lock_schedule_def may_start_def)
next
  case (leave a D W p q rs)
  then show ?case by (blast intro: locks_held_drop)
next
  case (finish D p a q rs)
  then show ?case by (blast intro: locks_held_drop)
qed (auto simp: locks_held_def)

definition one_schedule :: "cron_lib \<Rightarrow> schedule_key \<Rightarrow> real \<Rightarrow> sched_run \<Rightarrow> bool" where
  \<comment> \<open>those who hold a lock work on the same schedule, and their writes succeed; ids are plain, and
     the interval of \<open>k\<close> is at least \<open>I\<close>\<close>
  "one_schedule L k I = (\<lambda>(D, ps, rs). (\<forall>x\<in>set ps. \<forall>y\<in>set ps. at_key (fst x) = at_key (fst y)) \<and>
     (\<forall>x\<in>set ps. at_writes (fst x) \<and> key_ok (at_key (fst x)) \<and>
        (at_key (fst x) = k \<longrightarrow> I \<le> run_interval L (at_cron (fst x)) (at_utc (fst x)))))"

lemma single_holder:
  assumes "locks_held (D, p @ x # q, rs)" "one_schedule L k I (D, p @ x # q, rs)"
  shows "p = [] \<and> q = []"
proof (rule ccontr)
  assume "\<not> (p = [] \<and> q = [])"
  then obtain y where y: "y \<in> set (p @ q)" by (cases "p @ q") auto
  have "distinct (map (lock_name \<circ> at_key \<circ> fst) (p @ x # q))" using assms(1) by (simp add: locks_held_def)
  from alone_in [OF this y] have "at_key (fst y) \<noteq> at_key (fst x)" by auto
  moreover have "at_key (fst y) = at_key (fst x)"
  proof -
    have "\<forall>u\<in>set (p @ x # q). \<forall>v\<in>set (p @ x # q). at_key (fst u) = at_key (fst v)"
      using assms(2) unfolding one_schedule_def prod.case by (rule conjunct1)
    moreover have "y \<in> set (p @ x # q)" "x \<in> set (p @ x # q)" using y by auto
    ultimately show ?thesis by blast
  qed
  ultimately show False by blast
qed

definition spaced_inv :: "schedule_key \<Rightarrow> real \<Rightarrow> sched_run \<Rightarrow> bool" where
  \<comment> \<open>the file knows every start, and a decision rests on it\<close>
  "spaced_inv k G = (\<lambda>(D, ps, rs). tidy D \<and>
     (\<forall>x\<in>set ps. \<forall>W. snd x = Decided W \<longrightarrow>
        sc_last W = AList.update (at_key (fst x)) (JNum (at_now (fst x))) (load_last_execution D) \<and>
        (at_key (fst x) = k \<longrightarrow> (\<exists>l. num_of (last_start D k) = Some l \<and> G \<le> at_now (fst x) - l))) \<and>
     sorted_wrt (\<lambda>t t'. G \<le> t' - t) (runs_of k rs) \<and>
     (\<forall>t\<in>set (runs_of k rs). \<exists>l. num_of (last_start D k) = Some l \<and> t \<le> l))"

lemma decided:
  assumes "decide_start L cron utc now key W D = (True, W')"
  shows "sc_last W' = AList.update key (JNum now) (load_last_execution D)"
    "\<exists>l. num_of (last_start D key) = Some l \<and> min_gap (run_interval L cron utc) \<le> now - l"
  using assms by (auto simp: decide_start_def Let_def last_start_def split: option.splits if_splits)

lemma spaced_step:
  assumes "sched_step L s t" "locks_held s" "one_schedule L k I s" "spaced_inv k G s"
    and "0 < I" "G = max 30 (I * 0.7)"
  shows "spaced_inv k G t"
  using assms(1)
proof cases
  case (take a D ps rs)
  with assms(4) show ?thesis by (auto simp: spaced_inv_def)
next
  case (leave a D W p q rs)
  with assms(4) show ?thesis by (auto simp: spaced_inv_def)
next
  case (finish D p a q rs)
  with assms(4) show ?thesis by (auto simp: spaced_inv_def)
next
  case (die D p x q rs)
  with assms(4) show ?thesis by (auto simp: spaced_inv_def)
next
  case (go a D W p q rs)
  have "at_key a = k \<Longrightarrow> G \<le> min_gap (run_interval L (at_cron a) (at_utc a))"
    using assms(3,5,6) go(1) by (auto simp: one_schedule_def min_gap_def)
  then have "at_key a = k \<Longrightarrow> \<exists>l. num_of (last_start D k) = Some l \<and> G \<le> at_now a - l"
    using decided(2) [OF go(3)] by force
  with assms(4) go(1,2) decided(1) [OF go(3)] show ?thesis by (auto simp: spaced_inv_def)
next
  case (start D p a W q rs)
  have pq: "p = []" "q = []" using single_holder [of D p "(a, Decided W)" q rs L k I] assms(2,3) start(1) by simp_all
  have a: "at_writes a" "key_ok (at_key a)" using assms(3) start(1) by (simp_all add: one_schedule_def)
  define m where "m = AList.update (at_key a) (JNum (at_now a)) (load_last_execution D)"
  have W: "sc_last W = m" "tidy D"
    and far: "at_key a = k \<Longrightarrow> \<exists>l. num_of (last_start D k) = Some l \<and> G \<le> at_now a - l"
    and old: "sorted_wrt (\<lambda>t t'. G \<le> t' - t) (runs_of k rs)"
      "\<forall>t\<in>set (runs_of k rs). \<exists>l. num_of (last_start D k) = Some l \<and> t \<le> l"
    using assms(4) start(1) by (auto simp: spaced_inv_def m_def)
  have m: "distinct (map fst m)" "\<forall>k\<in>fst ` set m. key_ok k"
    using W(2) a(2) by (auto simp: m_def tidy_def distinct_update dom_update)
  let ?D = "save_last_execution True m D"
  have ld: "load_last_execution ?D = m" by (rule last_execution_kept [OF m])
  have ls: "last_start ?D k = (if at_key a = k then JNum (at_now a) else last_start D k)"
    unfolding last_start_def ld by (simp add: m_def update_conv')
  have "0 \<le> G" using assms(6) by simp
  then have "spaced_inv k G (?D, [(a, Calling)], rs @ [(at_key a, at_now a)])"
    using old far m by (auto simp: spaced_inv_def ls tidy_def ld sorted_wrt_append)
  then show ?thesis using start(2) pq a(1) W(1) by simp
qed

text \<open>C23: Runs of one schedule keep their distance when processes compete for it. Any number of
  processes, with any memory and any clock readings, interleave their attempts step by step (taking
  the lock file, reading the last starts and deciding, saving them, calling the interface, removing
  the lock file), may die between these steps and leave the lock file, and may find lock files
  lying around: two starts of the same schedule are at least 30 seconds and at least 70 percent of
  the cron interval apart, in the order in which they happen and by the time stamps the attempts
  took before they asked for the lock. The conditions: the file of the last starts begins
  empty and its writes succeed; the ids have only letters, digits, hyphens and underscores; and
  attempts for different schedules do not overlap, because the locks are per schedule and the file
  is shared, so that one can overwrite the start that another has recorded.\<close>
theorem scheduled_runs_spaced:
  fixes I :: real
  assumes "(\<lambda>s t. sched_step L s t \<and> one_schedule L k I s)\<^sup>*\<^sup>* (D, [], []) (D', ps, rs)"
    and "sd_last D = None" "0 < I"
  shows "sorted_wrt (\<lambda>t t'. max 30 (I * 0.7) \<le> t' - t) (runs_of k rs)"
proof -
  let ?G = "max 30 (I * 0.7)"
  have "locks_held (D, [], []) \<and> spaced_inv k ?G (D, [], [])"
    using assms(2) by (simp add: locks_held_def spaced_inv_def tidy_def load_last_execution_def)
  with assms(1) have "locks_held (D', ps, rs) \<and> spaced_inv k ?G (D', ps, rs)"
  proof (induction rule: rtranclp_induct)
    case (step s t)
    then show ?case using locks_held_step spaced_step [OF _ _ _ _ assms(3) refl, of L s t k] by blast
  qed
  then show ?thesis by (simp add: spaced_inv_def)
qed

text \<open>The starts survive a restart. What a process writes to the file of the last starts is what the
  next process reads from it, when the ids are of the usual characters.\<close>
theorem last_execution_roundtrip:
  assumes "distinct (map fst m)" "list_all key_ok (map fst m)"
  shows "sc_last (new_sched interval now (save_last_execution True m D)) = m"
  using last_execution_kept [OF assms(1), of D] assms(2) by (simp add: new_sched_def list_all_iff)

subsection \<open>A periodic schedule\<close>

definition periodic :: "real \<Rightarrow> cron_lib" where
  \<comment> \<open>due at every multiple of the period\<close>
  "periodic P = \<lparr>cr_prev = (\<lambda>_ t. Some (P * real_of_int (\<lceil>t / P\<rceil> - 1))),
     cr_next = (\<lambda>_ t. Some (P * real_of_int (\<lfloor>t / P\<rfloor> + 1))), cr_zone = (\<lambda>_. Inr None)\<rparr>"

lemma periodic_around:
  assumes "0 < P" "P * real_of_int n - P < t" "t \<le> P * real_of_int n"
  shows "cr_prev (periodic P) c t = Some (P * real_of_int n - P)"
    "cr_next (periodic P) c (P * real_of_int n - P) = Some (P * real_of_int n)"
    "run_interval (periodic P) c t = P \<or> \<not> truthy c"
proof -
  have "\<lceil>t / P\<rceil> = n"
    using assms by (intro ceiling_unique) (simp_all add: field_simps)
  then show "cr_prev (periodic P) c t = Some (P * real_of_int n - P)"
    by (simp add: periodic_def algebra_simps)
  have "(P * real_of_int n - P) / P = real_of_int (n - 1)" using assms(1) by (simp add: field_simps)
  then show "cr_next (periodic P) c (P * real_of_int n - P) = Some (P * real_of_int n)"
    by (simp add: periodic_def del: of_int_diff)
  define i where "i = \<lfloor>t / P\<rfloor> + 1"
  have "cr_next (periodic P) c t = Some (P * real_of_int i)" by (simp add: periodic_def i_def)
  moreover have "(P * real_of_int i) / P = real_of_int i" using assms(1) by simp
  then have "cr_prev (periodic P) c (P * real_of_int i) = Some (P * real_of_int i - P)"
    by (simp add: periodic_def algebra_simps)
  ultimately show "run_interval (periodic P) c t = P \<or> \<not> truthy c" by (simp add: run_interval_def)
qed


lemma periodic_due:
  assumes "15 \<le> sc_interval W" "10 * sc_interval W \<le> P"
    and "P * real_of_int n - sc_interval W \<le> now" "now \<le> P * real_of_int n"
    and "num_of (case map_of (sc_last W) k of None \<Rightarrow> JNum 0 | Some v \<Rightarrow> v) = Some l" "l \<le> P * real_of_int n - P + 2 * sc_interval W"
  shows "should_run_now (periodic P) cron tz now now k W"
proof -
  have P: "0 < P" "P * real_of_int n - P < now" using assms by simp_all
  note around = periodic_around(1,2) [OF P assms(4)]
  have "fst (due (sc_interval W) (now - (P * real_of_int n - P)) (P * real_of_int n - now) P)"
    using assms(1,3,4) by (auto simp: due_def Let_def)
  moreover have "min_gap P \<le> now - l" "5 \<le> now - l"
    using assms(1-3,6) P(1) by (auto simp: min_gap_def)
  ultimately show ?thesis
    by (auto simp: should_run_now_def around Let_def assms(5) periodic_def [THEN arg_cong, of cr_zone, simplified]
        split: prod.split)
qed

text \<open>A periodic schedule fires once in each period. Let a schedule be due at every multiple of
  \<open>P\<close>, at least ten polling intervals, and its last start lie no later than two intervals after the
  previous due time. Then the first check within an interval before the due time starts exactly one
  run, and the recorded start again satisfies the assumption for the next due time; this needs
  the grace period to be over and no lock file to be left.\<close>
theorem periodic_schedule_fires:
  fixes P now l :: real and n :: int
  assumes "truthy (getd (si_schedule s) ''enabled'' (JBool False))" "truthy (getd (si_schedule s) ''cron'' (JStr []))"
    and "15 \<le> sc_interval W" "10 * sc_interval W \<le> P"
    and "P * real_of_int n - sc_interval W \<le> now" "now \<le> P * real_of_int n" "sc_start W + 60 \<le> now"
    and "lock_name (si_project s, si_playbook s) \<notin> set (sd_locks D)" "tidy D" "key_ok (si_project s, si_playbook s)"
    and "sc_last W = load_last_execution D"
    and "last_start D (si_project s, si_playbook s) = JNum l" "l \<le> P * real_of_int n - P + 2 * sc_interval W"
  defines "r \<equiv> check_schedules (periodic P) True now [(s, now, now, now)] W D"
  shows "fst r = [(si_project s, si_playbook s)] \<and>
    last_start (snd (snd r)) (si_project s, si_playbook s) = JNum now \<and> sc_last (fst (snd r)) = load_last_execution (snd (snd r)) \<and>
    now \<le> P * real_of_int (n + 1) - P + 2 * sc_interval W"
proof -
  define k where "k = (si_project s, si_playbook s)"
  define cron where "cron = getd (si_schedule s) ''cron'' (JStr [])"
  have l: "num_of (case map_of (load_last_execution D) k of None \<Rightarrow> JNum 0 | Some v \<Rightarrow> v) = Some l"
    using assms(12) by (simp add: last_start_def k_def)
  have due: "should_run_now (periodic P) cron tz now now k W" for tz
    using periodic_due [OF assms(3-6), of k l] l assms(11,13) by simp
  have P: "0 < P" "P * real_of_int n - P < now" using assms(3-6) by simp_all
  have int: "run_interval (periodic P) cron now = P"
    using periodic_around(3) [OF P assms(6), of cron] assms(2) by (simp add: cron_def)
  have gap: "\<not> now - l < min_gap P" using assms(3-5,13) P(1) by (auto simp: min_gap_def)
  define m where "m = AList.update k (JNum now) (load_last_execution D)"
  have m: "distinct (map fst m)" "\<forall>k\<in>fst ` set m. key_ok k"
    using assms(9,10) by (auto simp: m_def tidy_def distinct_update dom_update k_def)
  have start: "create_scheduled_run (periodic P) True cron now now k W D =
      (True, W\<lparr>sc_last := m\<rparr>, (save_last_execution True m D)\<lparr>sd_locks := removeAll (lock_name k) (lock_name k # sd_locks D)\<rparr>)"
    using assms(7,8) gap l
    by (simp add: create_scheduled_run_def may_start_def STARTUP_GRACE_PERIOD_def locked_start_def decide_start_def Let_def int
        m_def [symmetric] k_def [symmetric] lock_schedule_def unlock_schedule_def save_last_execution_def)
  have "r = ([k], W\<lparr>sc_last := m\<rparr>, (save_last_execution True m D)\<lparr>sd_locks := removeAll (lock_name k) (lock_name k # sd_locks D)\<rparr>)"
    using assms(1,2) due start by (simp add: r_def Let_def k_def [symmetric] cron_def [symmetric])
  then show ?thesis
    using last_execution_kept [OF m, of D] assms(3,6)
    by (simp add: k_def [symmetric] last_start_def) (simp add: m_def update_conv' algebra_simps)
qed


subsection \<open>Lost and doubled runs\<close>

text \<open>A left-over lock file stops a schedule for good. The lock is the existence of a file that is
  removed at the end of the attempt; when a process dies in between, nothing removes it: no
  attempt of any process, in any interleaving, ever starts the schedule again.\<close>
theorem stale_lock_blocks:
  assumes "(sched_step L)\<^sup>*\<^sup>* (D, [], []) (D', ps, rs)" "lock_name k \<in> set (sd_locks D)"
  shows "runs_of k rs = []"
proof -
  let ?P = "\<lambda>(D, ps, rs). lock_name k \<in> set (sd_locks D) \<and> (\<forall>x\<in>set ps. lock_name (at_key (fst x)) \<noteq> lock_name k) \<and> runs_of k rs = []"
  have "?P t" if "sched_step L s t" "?P s" for s t
    using that by (induction rule: sched_step.induct) (auto simp: lock_schedule_def unlock_schedule_def may_start_def)
  with assms(1) have "?P (D', ps, rs)"
    by (induction rule: rtranclp_induct) (use assms(2) in auto)
  then show ?thesis by simp
qed

text \<open>A run that is late after a short pause is dropped. The minimal distance is computed from the
  interval around the present moment, not from the one since the last start. Between the due
  times \<open>P\<close> and \<open>N\<close> (more than ten minutes apart), when the run of \<open>P\<close> was missed and the last start \<open>l\<close>,
  of an earlier due time, is nearer than 70 percent of the interval between \<open>P\<close> and \<open>N\<close>, no check
  before the next due time comes near starts it, although the code means to catch up.\<close>
theorem late_run_is_dropped:
  fixes P N l :: real
  assumes "cr_zone L tz = Inr None" "\<forall>t. P < t \<and> t \<le> N \<longrightarrow> cr_prev L cron t = Some P" "cr_next L cron P = Some N"
    and "600 < N - P" "5 \<le> sc_interval W"
    and "map_of (sc_last W) k = Some (JNum l)" "P + 2 * sc_interval W - l < 0.7 * (N - P)"
  shows "\<forall>now. P < now \<and> now < N - sc_interval W \<longrightarrow> \<not> should_run_now L cron tz now now k W"
proof (intro allI impI)
  fix now assume now: "P < now \<and> now < N - sc_interval W"
  then have "cr_prev L cron now = Some P" using assms(2,5) by simp
  moreover have "now - P \<le> 2 * sc_interval W \<Longrightarrow> now - l < min_gap (N - P)"
    using assms(4,7) by (simp add: min_gap_def)
  moreover have "due (sc_interval W) (now - P) (N - now) (N - P) = (now - P \<le> 2 * sc_interval W, False)"
    using now assms(4,5) by (auto simp: due_def Let_def)
  ultimately show "\<not> should_run_now L cron tz now now k W"
    using assms(1,3,6) by (auto simp: should_run_now_def)
qed

text \<open>Two processes can forget a start. The locks are per schedule, the file of the last starts is
  shared: when a process starts schedule \<open>a\<close> while another, which has read the file before, starts
  \<open>b\<close> and writes it afterwards, the start of \<open>a\<close> is no longer recorded, and the next attempt
  starts \<open>a\<close> again at once.\<close>
theorem concurrent_start_forgotten:
  assumes "tidy D" "key_ok a" "key_ok b" "a \<noteq> b"
    and "fst (locked_start L True cron utc now a WA D)" "fst (locked_start L True cron_b utc_b now_b b WB D)"
    and "run_interval L cron utc' = run_interval L cron utc" "now \<le> now'"
  defines "D' \<equiv> D\<lparr>sd_last := sd_last (snd (snd (locked_start L True cron_b utc_b now_b b WB D)))\<rparr>"
  shows "last_start D' a = last_start D a \<and> fst (locked_start L True cron utc' now' a WA D')"
proof -
  define m where "m = AList.update b (JNum now_b) (load_last_execution D)"
  have m: "distinct (map fst m)" "\<forall>k\<in>fst ` set m. key_ok k"
    using assms(1,3) by (auto simp: m_def tidy_def distinct_update dom_update)
  have "D' = save_last_execution True m D"
    using assms(6) by (auto simp: D'_def locked_start_def decide_start_def Let_def m_def save_last_execution_def split: option.splits if_splits)
  then have load: "load_last_execution D' = m" using last_execution_kept [OF m] by simp
  then have same: "last_start D' a = last_start D a" using assms(4) by (simp add: last_start_def m_def update_conv')
  obtain t where t: "num_of (last_start D a) = Some t" "\<not> now - t < min_gap (run_interval L cron utc)"
    using assms(5) by (auto simp: locked_start_def decide_start_def Let_def last_start_def split: option.splits if_splits)
  have "\<not> now' - t < min_gap (run_interval L cron utc')" using t(2) assms(7,8) by simp
  then have "fst (locked_start L True cron utc' now' a WA D')"
    using t(1) same by (simp add: locked_start_def decide_start_def Let_def last_start_def)
  then show ?thesis using same by simp
qed

subsection \<open>Witnesses\<close>

definition demo_sched :: sched where
  "demo_sched = \<lparr>sc_interval = 60, sc_start = 0, sc_last = [((''p'', ''b''), JNum 3600)]\<rparr>"

definition demo_dir :: sched_dir where
  "demo_dir = save_last_execution True [((''p'', ''b''), JNum 3600)] \<lparr>sd_last = None, sd_locks = []\<rparr>"

lemma demo_keys: "key_ok (''p'', ''b'')" "key_ok (''p'', ''c'')"
  by code_simp+

lemma demo_load: "load_last_execution demo_dir = [((''p'', ''b''), JNum 3600)]"
  unfolding demo_dir_def by (rule last_execution_kept) (simp_all add: demo_keys)

lemma demo_tidy: "tidy demo_dir"
  by (simp add: tidy_def demo_load demo_keys)

lemma demo_locks: "sd_locks demo_dir = []"
  by (simp add: demo_dir_def save_last_execution_def)

theorem last_execution_roundtrip_witness:
  "sc_last (new_sched 60 0 demo_dir) = [((''p'', ''b''), JNum 3600)]"
  unfolding demo_dir_def by (rule last_execution_roundtrip) (simp_all add: demo_keys)

lemma three_steps: "R a b \<Longrightarrow> R b c \<Longrightarrow> R c d \<Longrightarrow> R\<^sup>*\<^sup>* a d"
  by (meson converse_rtranclp_into_rtranclp r_into_rtranclp)

definition demo_attempt :: "schedule_key \<Rightarrow> real \<Rightarrow> attempt" where
  "demo_attempt k t = \<lparr>at_sched = demo_sched, at_cron = JStr ''0 * * * *'', at_utc = t, at_now = t, at_key = k, at_writes = True\<rparr>"

theorem stale_lock_blocks_witness: "runs_of (''p'', ''b'') [((''p'', ''c''), 7210)] = []"
proof (rule stale_lock_blocks)
  let ?D = "demo_dir\<lparr>sd_locks := [''scheduler_p_b.lock'']\<rparr>"
  let ?a = "demo_attempt (''p'', ''c'') 7210"
  have "run_interval (periodic 3600) (JStr ''0 * * * *'') 7210 = 3600"
    using periodic_around(3) [of 3600 3 7210 "JStr ''0 * * * *''"] by simp
  then have "fst (create_scheduled_run (periodic 3600) True (JStr ''0 * * * *'') 7210 7210 (''p'', ''c'') demo_sched ?D)"
    by (simp add: create_scheduled_run_def may_start_def STARTUP_GRACE_PERIOD_def demo_sched_def lock_name_def locked_start_def
        decide_start_def demo_load min_gap_def)
  then obtain W D' where "create_scheduled_run (periodic 3600) True (JStr ''0 * * * *'') 7210 7210 (''p'', ''c'') demo_sched ?D =
      (True, W, D')" by (cases "create_scheduled_run (periodic 3600) True (JStr ''0 * * * *'') 7210 7210 (''p'', ''c'') demo_sched ?D") auto
  with attempt_is_its_steps [of "periodic 3600" ?a ?D True W D' "[]" "[]"]
  show "(sched_step (periodic 3600))\<^sup>*\<^sup>* (?D, [], []) (snd (snd (create_scheduled_run (periodic 3600) True (JStr ''0 * * * *'') 7210 7210
      (''p'', ''c'') demo_sched ?D)), [], [((''p'', ''c''), 7210)])"
    by (simp add: demo_attempt_def)
qed (simp add: lock_name_def)

theorem scheduled_runs_spaced_witness:
  "sorted_wrt (\<lambda>t t'. max 30 (3600 * 0.7) \<le> t' - t) (runs_of (''p'', ''b'') [((''p'', ''b''), 7200)])"
proof -
  let ?D = "\<lparr>sd_last = None, sd_locks = []\<rparr>" and ?a = "demo_attempt (''p'', ''b'') 7200"
  let ?W = "demo_sched\<lparr>sc_last := [((''p'', ''b''), JNum 7200)]\<rparr>"
  let ?L = "lock_schedule (''p'', ''b'') ?D"
  let ?R = "\<lambda>s t. sched_step (periodic 3600) s t \<and> one_schedule (periodic 3600) (''p'', ''b'') 3600 s"
  have int: "run_interval (periodic 3600) (JStr ''0 * * * *'') 7200 = 3600"
    using periodic_around(3) [of 3600 2 7200 "JStr ''0 * * * *''"] by simp
  have "sched_step (periodic 3600) (?D, [], []) (?L, [(?a, Locked)], [])"
    using sched_step.take [of ?a ?D "periodic 3600" "[]" "[]"]
    by (simp add: demo_attempt_def may_start_def demo_sched_def STARTUP_GRACE_PERIOD_def)
  moreover have "sched_step (periodic 3600) (?L, [(?a, Locked)], []) (?L, [(?a, Decided ?W)], [])"
    using sched_step.go [of "periodic 3600" ?a ?L ?W "[]" "[]" "[]"] int
    by (simp add: demo_attempt_def decide_start_def load_last_execution_def lock_schedule_def min_gap_def)
  moreover have "sched_step (periodic 3600) (?L, [(?a, Decided ?W)], [])
      (save_last_execution True (sc_last ?W) ?L, [(?a, Calling)], [((''p'', ''b''), 7200)])"
    using sched_step.start [of "periodic 3600" ?L "[]" ?a ?W "[]" "[]"] by (simp add: demo_attempt_def)
  ultimately have "?R (?D, [], []) (?L, [(?a, Locked)], [])" "?R (?L, [(?a, Locked)], []) (?L, [(?a, Decided ?W)], [])"
    "?R (?L, [(?a, Decided ?W)], []) (save_last_execution True (sc_last ?W) ?L, [(?a, Calling)], [((''p'', ''b''), 7200)])"
    using int demo_keys by (simp_all add: one_schedule_def demo_attempt_def)
  then have "?R\<^sup>*\<^sup>* (?D, [], []) (save_last_execution True (sc_last ?W) ?L, [(?a, Calling)], [((''p'', ''b''), 7200)])"
    by (rule three_steps [where R = ?R])
  then show ?thesis by (rule scheduled_runs_spaced [where D = ?D]) simp_all
qed

theorem periodic_schedule_fires_witness:
  "fst (check_schedules (periodic 3600) True 7170 [(\<lparr>si_project = ''p'', si_playbook = ''b'',
      si_schedule = [(''enabled'', JBool True), (''cron'', JStr ''0 * * * *'')]\<rparr>, 7170, 7170, 7170)] demo_sched demo_dir)
    = [(''p'', ''b'')]"
  using periodic_schedule_fires [of "\<lparr>si_project = ''p'', si_playbook = ''b'',
      si_schedule = [(''enabled'', JBool True), (''cron'', JStr ''0 * * * *'')]\<rparr>" demo_sched 3600 2 7170 demo_dir 3600]
  by (simp add: demo_sched_def demo_locks demo_tidy demo_keys demo_load last_start_def)

definition twice_daily :: cron_lib where
  "twice_daily = \<lparr>cr_prev = (\<lambda>_ _. Some 61200), cr_next = (\<lambda>_ _. Some 118800), cr_zone = (\<lambda>_. Inr None)\<rparr>"

theorem late_run_is_dropped_witness:
  "\<not> should_run_now twice_daily (JStr ''0 9,17 * * *'') (JStr ''UTC'') 61230 61230 (''p'', ''b'') (demo_sched\<lparr>sc_last := [((''p'', ''b''), JNum 32400)]\<rparr>) \<and>
   \<not> should_run_now twice_daily (JStr ''0 9,17 * * *'') (JStr ''UTC'') 90000 90000 (''p'', ''b'') (demo_sched\<lparr>sc_last := [((''p'', ''b''), JNum 32400)]\<rparr>)"
  using late_run_is_dropped [of twice_daily
      "JStr ''UTC''" 61200 118800 "JStr ''0 9,17 * * *''" "demo_sched\<lparr>sc_last := [((''p'', ''b''), JNum 32400)]\<rparr>" "(''p'', ''b'')" 32400]
  by (simp add: demo_sched_def twice_daily_def)

theorem concurrent_start_forgotten_witness:
  "fst (locked_start (periodic 3600) True (JStr ''0 * * * *'') 7210 7210 (''p'', ''b'') demo_sched
     (demo_dir\<lparr>sd_last := sd_last (snd (snd (locked_start (periodic 3600) True (JStr ''0 * * * *'') 7205 7205 (''p'', ''c'') demo_sched demo_dir)))\<rparr>))"
proof -
  have int: "run_interval (periodic 3600) (JStr ''0 * * * *'') t = 3600" if "7200 < t" "t < 7300" for t
    using periodic_around(3) [of 3600 3 t "JStr ''0 * * * *''"] that by simp
  have a: "fst (locked_start (periodic 3600) True (JStr ''0 * * * *'') 7205 7205 (''p'', ''b'') demo_sched demo_dir)"
    "fst (locked_start (periodic 3600) True (JStr ''0 * * * *'') 7205 7205 (''p'', ''c'') demo_sched demo_dir)"
    by (simp_all add: locked_start_def decide_start_def demo_load Let_def int min_gap_def)
  show ?thesis
    using concurrent_start_forgotten [OF demo_tidy demo_keys _ a, of 7210 7210] int by simp
qed

end
