(* ===== verification/Policy.thy ===== *)
theory Policy
  imports Settings
begin

section \<open>The policy gate of cloud stacks\<close>

text \<open>
  \<^verbatim>\<open>server/services/cloud_policy.py\<close>: the rules a stack is checked against, cleaned when a client
  sends them and again when they are read back. \<open>str\<close> is Python's \<open>str\<close> of a value that is not
  a string; \<open>rxok\<close> tells whether \<open>re.compile\<close> accepts a pattern.
\<close>

definition POLICY_RULE_TYPES :: "string list" where
  "POLICY_RULE_TYPES = [''deny_destroy'', ''denied_resource_types'', ''require_tags'', ''deny_public_ingress'', ''max_created'']"
definition SEVERITIES :: "string list" where "SEVERITIES = [''warn'', ''deny'']"
definition CUSTOM_SEVERITIES :: "string list" where "CUSTOM_SEVERITIES = [''info'', ''warn'', ''deny'']"
definition ENFORCEMENTS :: "string list" where "ENFORCEMENTS = [''inherit'', ''block'', ''report'']"
definition CUSTOM_OPERATORS :: "string list" where
  "CUSTOM_OPERATORS = [''matches'', ''not_matches'', ''equals'', ''not_equals'', ''exists'', ''not_exists'', ''gt'', ''lt'']"
definition CUSTOM_ACTIONS :: "string list" where
  "CUSTOM_ACTIONS = [''create'', ''update'', ''delete'', ''read'', ''no-op'']"
definition MAX_CUSTOM_RULES :: nat where "MAX_CUSTOM_RULES = 100"

subsection \<open>Identifiers of rules\<close>

fun join_dash :: "string list \<Rightarrow> string" where
  "join_dash [] = []"
| "join_dash [p] = p"
| "join_dash (p # q # ps) = p @ ''-'' @ join_dash (q # ps)"

definition slug_char :: "char \<Rightarrow> bool" where
  "slug_char c = (is_lower c \<or> is_digit c \<or> c \<in> set ''-_'')"

definition slugify :: "(json \<Rightarrow> string) \<Rightarrow> json \<Rightarrow> string \<Rightarrow> string" where
  "slugify str value fallback =
    (let s = map (\<lambda>c. if slug_char c then c else CHR ''-'') (lower (strip (as_text str (py_or value (JStr [])))));
         s = take 64 (join_dash (filter (\<lambda>p. p \<noteq> []) (split_on CHR ''-'' [] s)))
     in if s = [] then fallback else s)"

function nat_text :: "nat \<Rightarrow> string" where
  \<comment> \<open>decimal digits\<close>
  "nat_text n = (if n < 10 then [char_of (48 + n)] else nat_text (n div 10) @ [char_of (48 + n mod 10)])"
  by pat_completeness auto
termination
  by (relation "measure id") auto

declare nat_text.simps [simp del]

lemma nat_text_last: "nat_text n = butlast (nat_text n) @ [char_of (48 + n mod 10)]"
  by (subst (1 2) nat_text.simps) simp

lemma digit_inj: "(char_of (48 + a mod 10) :: char) = char_of (48 + b mod 10) \<Longrightarrow> a mod 10 = (b mod 10 :: nat)"
proof -
  assume "(char_of (48 + a mod 10) :: char) = char_of (48 + b mod 10)"
  then have "of_char (char_of (48 + a mod 10) :: char) = (of_char (char_of (48 + b mod 10) :: char) :: nat)" by simp
  moreover have "a mod 10 < 10" "b mod 10 < 10" by simp_all
  then have "(48 + a mod 10) mod 256 = 48 + a mod 10" "(48 + b mod 10) mod 256 = 48 + b mod 10" by simp_all
  ultimately show ?thesis by simp
qed

lemma nat_text_inj: "nat_text a = nat_text b \<Longrightarrow> a = b"
proof (induction a arbitrary: b rule: less_induct)
  case (less a)
  have d: "a mod 10 = b mod 10"
    using less.prems nat_text_last [of a] nat_text_last [of b] by (metis digit_inj last_snoc)
  have ne: "nat_text n \<noteq> []" for n by (subst nat_text.simps) simp
  show ?case
  proof (cases "a < 10")
    case True
    then have "\<not> 10 \<le> b" using less.prems ne [of "b div 10"]
      by (subst (asm) (1 2) nat_text.simps) (auto split: if_splits)
    then show ?thesis using d True by simp
  next
    case False
    moreover have "\<not> b < 10" using less.prems ne [of "a div 10"] False
      by (subst (asm) (1 2) nat_text.simps) (auto split: if_splits)
    ultimately have "nat_text (a div 10) = nat_text (b div 10)"
      using less.prems by (subst (asm) (1 2) nat_text.simps) simp
    then have "a div 10 = b div 10" using less.IH [of "a div 10" "b div 10"] False by simp
    then show ?thesis using d by (metis div_mult_mod_eq)
  qed
qed

definition taken_from :: "string \<Rightarrow> nat \<Rightarrow> string list \<Rightarrow> nat set" where
  "taken_from base n seen = {m. n \<le> m \<and> base @ ''-'' @ nat_text m \<in> set seen}"

lemma finite_taken: "finite (taken_from base n seen)"
proof (rule inj_on_finite [of "\<lambda>m. base @ ''-'' @ nat_text m" _ "set seen"])
  show "inj_on (\<lambda>m. base @ ''-'' @ nat_text m) (taken_from base n seen)"
    by (auto intro!: inj_onI nat_text_inj)
qed (auto simp: taken_from_def)

lemma taken_step:
  "base @ ''-'' @ nat_text n \<in> set seen \<Longrightarrow> taken_from base n seen = insert n (taken_from base (Suc n) seen)"
  "base @ ''-'' @ nat_text n \<notin> set seen \<Longrightarrow> taken_from base n seen = taken_from base (Suc n) seen"
  by (auto simp: taken_from_def Suc_le_eq le_eq_less_or_eq)

function fresh_id :: "string \<Rightarrow> nat \<Rightarrow> string \<Rightarrow> string list \<Rightarrow> string" where
  \<comment> \<open>the loop that appends a number while the id is taken\<close>
  "fresh_id base n rid seen =
    (if rid \<in> set seen then fresh_id base (Suc n) (base @ ''-'' @ nat_text n) seen else rid)"
  by pat_completeness auto
termination
proof (relation "measure (\<lambda>(base, n, rid, seen). card (taken_from base n seen) + (if rid \<in> set seen then 1 else 0))")
  fix base n rid and seen :: "string list"
  assume "rid \<in> set seen"
  moreover have "n \<notin> taken_from base (Suc n) seen" by (simp add: taken_from_def)
  ultimately show "((base, Suc n, base @ ''-'' @ nat_text n, seen), (base, n, rid, seen)) \<in>
      measure (\<lambda>(base, n, rid, seen). card (taken_from base n seen) + (if rid \<in> set seen then 1 else 0))"
    using taken_step [of base n seen] finite_taken [of base "Suc n" seen] by simp
qed simp

declare fresh_id.simps [simp del]

subsection \<open>Custom rules\<close>

definition one_of :: "string list \<Rightarrow> string \<Rightarrow> string \<Rightarrow> string" where
  "one_of allowed dflt s = (if s \<in> set allowed then s else dflt)"

definition word_field :: "(json \<Rightarrow> string) \<Rightarrow> doc \<Rightarrow> string \<Rightarrow> string \<Rightarrow> string" where
  \<comment> \<open>\<^verbatim>\<open>str(raw.get(k) or dflt).strip()\<close>\<close>
  "word_field str raw k dflt = strip (as_text str (py_or (dget raw k) (JStr dflt)))"

definition regex_list :: "(json \<Rightarrow> string) \<Rightarrow> (string \<Rightarrow> bool) \<Rightarrow> json \<Rightarrow> json" where
  \<comment> \<open>the pattern is cut after it was compiled\<close>
  "regex_list str rxok value =
    JArr (map (\<lambda>s. JStr (take 400 s))
      (filter (\<lambda>s. s \<noteq> [] \<and> rxok s)
        (map (\<lambda>v. strip (as_text str v)) (take 50 (case value of JStr s \<Rightarrow> [JStr s] | JArr xs \<Rightarrow> xs | _ \<Rightarrow> [])))))"

definition rule_actions :: "(json \<Rightarrow> string) \<Rightarrow> json \<Rightarrow> json res" where
  "rule_actions str actions =
    (case iter_json (py_or (case actions of JStr s \<Rightarrow> JArr [JStr s] | j \<Rightarrow> j) (JArr [])) of
       Inl e \<Rightarrow> Inl e
     | Inr xs \<Rightarrow> Inr (JArr (map JStr (filter (\<lambda>a. a \<in> set CUSTOM_ACTIONS) (map (\<lambda>a. lower (strip (as_text str a))) xs)))))"

definition rule_value :: "(json \<Rightarrow> string) \<Rightarrow> doc \<Rightarrow> string" where
  "rule_value str raw =
    (let v = (if dget raw ''value'' = JNull then dget raw ''pattern'' else dget raw ''value'')
     in case v of JNull \<Rightarrow> [] | JArr _ \<Rightarrow> [] | JObj _ \<Rightarrow> [] | j \<Rightarrow> take 400 (as_text str j))"

definition rule_doc ::
  "string \<Rightarrow> string \<Rightarrow> string \<Rightarrow> bool \<Rightarrow> string \<Rightarrow> string \<Rightarrow> json \<Rightarrow> json \<Rightarrow> json \<Rightarrow> string \<Rightarrow> string \<Rightarrow> string \<Rightarrow> string \<Rightarrow> doc" where
  "rule_doc rid name description on' sev enf resource_types addresses actions attribute op value message =
    [(''id'', JStr rid), (''name'', JStr name), (''description'', JStr description), (''enabled'', JBool on'),
     (''severity'', JStr sev), (''enforcement'', JStr enf), (''resource_types'', resource_types), (''addresses'', addresses),
     (''actions'', actions), (''attribute'', JStr attribute), (''operator'', JStr op), (''value'', JStr value),
     (''message'', JStr message)]"

definition custom_rule ::
  "(json \<Rightarrow> string) \<Rightarrow> (string \<Rightarrow> bool) \<Rightarrow> string \<Rightarrow> doc \<Rightarrow> doc option res" where
  \<comment> \<open>\<open>Inr None\<close>: the rule is dropped; its id stays taken\<close>
  "custom_rule str rxok rid raw =
    (let name = take 120 (strip (as_text str (py_or (py_or (dget raw ''name'') (dget raw ''id'')) (JStr []))));
         op = one_of CUSTOM_OPERATORS ''matches'' (lower (word_field str raw ''operator'' ''matches''));
         sev = one_of CUSTOM_SEVERITIES ''warn'' (lower (word_field str raw ''severity'' ''warn''));
         enf = one_of ENFORCEMENTS ''inherit'' (lower (word_field str raw ''enforcement'' ''inherit''));
         value = rule_value str raw;
         attribute = take 200 (word_field str raw ''attribute'' [])
     in case rule_actions str (dget raw ''actions'') of
          Inl e \<Rightarrow> Inl e
        | Inr actions \<Rightarrow>
            if op \<in> {''matches'', ''not_matches''} \<and> value \<noteq> [] \<and> \<not> rxok value then Inr None
            else if op \<notin> {''exists'', ''not_exists''} \<and> attribute = [] \<and> value = [] \<and> \<not> truthy (dget raw ''resource_types'')
            then Inr None
            else Inr (Some (rule_doc rid (if name = [] then rid else name)
                     (take 400 (word_field str raw ''description'' [])) (truthy (getd raw ''enabled'' (JBool True))) sev enf
                     (regex_list str rxok (dget raw ''resource_types'')) (regex_list str rxok (dget raw ''addresses''))
                     actions attribute op value (take 400 (word_field str raw ''message'' [])))))"

definition rule_id :: "(json \<Rightarrow> string) \<Rightarrow> nat \<Rightarrow> doc \<Rightarrow> string list \<Rightarrow> string" where
  "rule_id str idx raw seen =
    (let name = take 120 (strip (as_text str (py_or (py_or (dget raw ''name'') (dget raw ''id'')) (JStr []))));
         base = slugify str (py_or (dget raw ''id'') (JStr name)) (''rule-'' @ nat_text (Suc idx))
     in fresh_id base 2 base seen)"

fun custom_rules ::
  "(json \<Rightarrow> string) \<Rightarrow> (string \<Rightarrow> bool) \<Rightarrow> nat \<Rightarrow> string list \<Rightarrow> json list \<Rightarrow> doc list res" where
  "custom_rules str rxok idx seen [] = Inr []"
| "custom_rules str rxok idx seen (j # js) =
    (case j of
       JObj raw \<Rightarrow>
         (let rid = rule_id str idx raw seen
          in case custom_rule str rxok rid raw of
               Inl e \<Rightarrow> Inl e
             | Inr None \<Rightarrow> custom_rules str rxok (Suc idx) (rid # seen) js
             | Inr (Some r) \<Rightarrow> map_sum (\<lambda>e. e) ((#) r) (custom_rules str rxok (Suc idx) (rid # seen) js))
     | _ \<Rightarrow> custom_rules str rxok (Suc idx) seen js)"

definition sanitize_custom_rules :: "(json \<Rightarrow> string) \<Rightarrow> (string \<Rightarrow> bool) \<Rightarrow> json \<Rightarrow> json res" where
  "sanitize_custom_rules str rxok items =
    (case items of
       JArr xs \<Rightarrow> map_sum (\<lambda>e. e) (\<lambda>rs. JArr (map JObj rs)) (custom_rules str rxok 0 [] (take MAX_CUSTOM_RULES xs))
     | _ \<Rightarrow> Inr (JArr []))"

subsection \<open>Built-in rules\<close>

definition default_rules :: "(string \<times> doc) list" where
  "default_rules =
    [(''deny_destroy'', [(''enabled'', JBool False), (''severity'', JStr ''deny''), (''enforcement'', JStr ''inherit''), (''max_destroy'', jint 0)]),
     (''denied_resource_types'', [(''enabled'', JBool False), (''severity'', JStr ''deny''), (''enforcement'', JStr ''inherit''), (''types'', JArr [])]),
     (''require_tags'', [(''enabled'', JBool False), (''severity'', JStr ''warn''), (''enforcement'', JStr ''inherit''),
        (''keys'', JArr [JStr ''environment'', JStr ''owner''])]),
     (''deny_public_ingress'', [(''enabled'', JBool True), (''severity'', JStr ''deny''), (''enforcement'', JStr ''inherit''),
        (''ports'', JArr [jint 22, jint 3389])]),
     (''max_created'', [(''enabled'', JBool False), (''severity'', JStr ''warn''), (''enforcement'', JStr ''inherit''), (''limit'', jint 50)])]"

record policy =
  po_mode :: string
  po_rules :: "(string \<times> doc) list"
  po_custom :: json

definition default_policy :: policy where
  "default_policy = \<lparr>po_mode = ''warn'', po_rules = default_rules, po_custom = JArr []\<rparr>"

definition policy_json :: "policy \<Rightarrow> json" where
  "policy_json P = JObj [(''mode'', JStr (po_mode P)), (''rules'', JObj (map (\<lambda>(i, d). (i, JObj d)) (po_rules P))),
     (''custom_rules'', po_custom P)]"

definition lower_field :: "doc \<Rightarrow> string \<Rightarrow> string res" where
  \<comment> \<open>\<^verbatim>\<open>(d.get(k) or "").strip().lower()\<close>\<close>
  "lower_field d k = (case py_or (dget d k) (JStr []) of JStr s \<Rightarrow> Inr (lower (strip s)) | _ \<Rightarrow> Inl AttributeError)"

definition text_items :: "(json \<Rightarrow> string) \<Rightarrow> nat \<Rightarrow> json list \<Rightarrow> json" where
  "text_items str limit xs =
    JArr (map JStr (take limit (filter (\<lambda>s. s \<noteq> []) (map (\<lambda>t. strip (as_text str t)) xs))))"

definition clean_ports :: "json list \<Rightarrow> json" where
  "clean_ports xs = JArr (map jint (filter (\<lambda>n. 0 < n \<and> n < 65536) (List.map_filter int_of_json (take 100 xs))))"

definition rule_limits :: "(json \<Rightarrow> string) \<Rightarrow> string \<Rightarrow> doc \<Rightarrow> doc \<Rightarrow> doc" where
  \<comment> \<open>the part of the loop that depends on the rule\<close>
  "rule_limits str rid incoming target =
    (if rid = ''deny_destroy'' then
       (case int_of_json (getd incoming ''max_destroy'' (jint 0)) of
          None \<Rightarrow> target | Some n \<Rightarrow> dset target ''max_destroy'' (jint (max 0 n)))
     else if rid = ''denied_resource_types'' then
       (case dget incoming ''types'' of JArr xs \<Rightarrow> dset target ''types'' (text_items str 100 xs) | _ \<Rightarrow> target)
     else if rid = ''require_tags'' then
       (case dget incoming ''keys'' of JArr xs \<Rightarrow> dset target ''keys'' (text_items str 50 xs) | _ \<Rightarrow> target)
     else if rid = ''deny_public_ingress'' then
       (case dget incoming ''ports'' of JArr xs \<Rightarrow> dset target ''ports'' (clean_ports xs) | _ \<Rightarrow> target)
     else if rid = ''max_created'' then
       (case int_of_json (getd incoming ''limit'' (jint 50)) of
          None \<Rightarrow> target | Some n \<Rightarrow> dset target ''limit'' (jint (max 1 n)))
     else target)"

definition clean_rule :: "(json \<Rightarrow> string) \<Rightarrow> string \<Rightarrow> doc \<Rightarrow> doc \<Rightarrow> doc res" where
  "clean_rule str rid incoming target =
    (case (lower_field incoming ''severity'', lower_field incoming ''enforcement'') of
       (Inr sev, Inr enf) \<Rightarrow>
         (let t = dset target ''enabled'' (JBool (truthy (dget incoming ''enabled'')));
              t = (if sev \<in> set SEVERITIES then dset t ''severity'' (JStr sev) else t);
              t = (if enf \<in> set ENFORCEMENTS then dset t ''enforcement'' (JStr enf) else t)
          in Inr (rule_limits str rid incoming t))
     | _ \<Rightarrow> Inl AttributeError)"

fun clean_rules :: "(json \<Rightarrow> string) \<Rightarrow> doc \<Rightarrow> (string \<times> doc) list \<Rightarrow> (string \<times> doc) list res" where
  "clean_rules str [] rules = Inr rules"
| "clean_rules str ((rid, incoming) # more') rules =
    (case (map_of rules rid, incoming) of
       (Some target, JObj d) \<Rightarrow>
         (case clean_rule str rid d target of
            Inl e \<Rightarrow> Inl e
          | Inr t \<Rightarrow> clean_rules str more' (AList.update rid t rules))
     | _ \<Rightarrow> clean_rules str more' rules)"

definition sanitize_policy :: "(json \<Rightarrow> string) \<Rightarrow> (string \<Rightarrow> bool) \<Rightarrow> doc \<Rightarrow> policy res" where
  "sanitize_policy str rxok body =
    (case lower_field body ''mode'' of
       Inl e \<Rightarrow> Inl e
     | Inr mode \<Rightarrow>
         (case sanitize_custom_rules str rxok (dget body ''custom_rules'') of
            Inl e \<Rightarrow> Inl e
          | Inr custom \<Rightarrow>
              (let P = default_policy\<lparr>po_mode := (if mode \<in> {''warn'', ''enforce''} then mode else ''warn''), po_custom := custom\<rparr>
               in case py_or (dget body ''rules'') (JObj []) of
                    JObj rules \<Rightarrow> map_sum (\<lambda>e. e) (\<lambda>rs. P\<lparr>po_rules := rs\<rparr>) (clean_rules str rules (po_rules P))
                  | _ \<Rightarrow> Inr P)))"

subsection \<open>The policy of a stack\<close>

definition policy_enabled_from_meta :: "doc \<Rightarrow> bool" where
  "policy_enabled_from_meta meta = (dget meta ''policy_enabled'' = JBool True)"

fun merge_rules :: "doc \<Rightarrow> (string \<times> doc) list \<Rightarrow> (string \<times> doc) list" where
  "merge_rules [] rules = rules"
| "merge_rules ((rid, rule) # more') rules =
    (case (map_of rules rid, rule) of
       (Some target, JObj d) \<Rightarrow> merge_rules more' (AList.update rid (dupd target (filter (\<lambda>(k, v). k \<noteq> ''id'') d)) rules)
     | _ \<Rightarrow> merge_rules more' rules)"

definition policy_config_from_meta :: "(json \<Rightarrow> string) \<Rightarrow> (string \<Rightarrow> bool) \<Rightarrow> doc \<Rightarrow> policy res" where
  "policy_config_from_meta str rxok meta =
    (case dget meta ''policy_rules'' of
       JObj stored \<Rightarrow>
         (case py_or (dget stored ''rules'') (JObj []) of
            JObj rules \<Rightarrow>
              (let P = default_policy\<lparr>po_mode := (case dget stored ''mode'' of
                          JStr m \<Rightarrow> if m \<in> {''warn'', ''enforce''} then m else ''warn'' | _ \<Rightarrow> ''warn''),
                        po_rules := merge_rules rules default_rules\<rparr>
               in case dget stored ''custom_rules'' of
                    JArr xs \<Rightarrow> map_sum (\<lambda>e. e) (\<lambda>c. P\<lparr>po_custom := c\<rparr>) (sanitize_custom_rules str rxok (JArr xs))
                  | _ \<Rightarrow> Inr P)
          | _ \<Rightarrow> Inl AttributeError)
     | _ \<Rightarrow> Inr default_policy)"

definition save_meta :: "real \<Rightarrow> doc \<Rightarrow> doc \<Rightarrow> doc" where
  \<comment> \<open>\<open>_save_meta\<close> of \<^verbatim>\<open>cloud_provisioning.py\<close> on the content of \<^verbatim>\<open>meta.json\<close>\<close>
  "save_meta now patch meta =
    dset (dset_new (dupd meta patch) ''created_at'' (jint (py_int now))) ''updated_at'' (jint (py_int now))"

definition policy_set ::
  "(json \<Rightarrow> string) \<Rightarrow> (string \<Rightarrow> bool) \<Rightarrow> real \<Rightarrow> bool \<Rightarrow> doc \<Rightarrow> doc \<Rightarrow> nat \<times> doc" where
  \<comment> \<open>\<open>found\<close>: the stack exists; the answer repeats the stored policy, so reading it back may raise\<close>
  "policy_set str rxok now found body meta =
    (let enabled = (case dget body ''enabled'' of
                      JStr s \<Rightarrow> JBool (lower (strip s) \<in> {''1'', ''true'', ''yes'', ''on''}) | j \<Rightarrow> j);
         patch1 = (if has body ''enabled'' then
                     (case enabled of JBool b \<Rightarrow> Inr [(''policy_enabled'', JBool b)] | _ \<Rightarrow> Inl 400) else Inr [])
     in if \<not> found then (404, meta)
        else (case patch1 of
                Inl code \<Rightarrow> (code, meta)
              | Inr p1 \<Rightarrow>
                  (case (case dget body ''policy'' of
                           JObj d \<Rightarrow> map_sum (\<lambda>e. e) (\<lambda>P. p1 @ [(''policy_rules'', policy_json P)]) (sanitize_policy str rxok d)
                         | _ \<Rightarrow> Inr p1) of
                     Inl e \<Rightarrow> (500, meta)
                   | Inr [] \<Rightarrow> (400, meta)
                   | Inr patch \<Rightarrow>
                       (let meta' = save_meta now patch meta
                        in (if is_ok (policy_config_from_meta str rxok meta') then 200 else 500, meta')))))"

subsection \<open>The last verdict\<close>

fun latest_policy_result :: "string \<Rightarrow> jfile list \<Rightarrow> doc option res" where
  \<comment> \<open>the files newest first, at most 300; the \<open>policy\<close> object of the first fitting run, from which
     the answer is built. Only the reading of a file is guarded\<close>
  "latest_policy_result name [] = Inr None"
| "latest_policy_result name (Corrupt # files) = latest_policy_result name files"
| "latest_policy_result name (Doc exe # files) =
    (case py_or (dget exe ''runParams'') (JObj []) of
       JObj rp \<Rightarrow>
         (if dget rp ''execution_type'' \<noteq> JStr ''TOFU_RUN'' \<or> dget rp ''stack_name'' \<noteq> JStr name
          then latest_policy_result name files
          else (case py_or (py_or (dget exe ''result'') (dget exe ''stats'')) (JObj []) of
                  JObj r \<Rightarrow> (case dget r ''policy'' of JObj p \<Rightarrow> Inr (Some p) | _ \<Rightarrow> latest_policy_result name files)
                | _ \<Rightarrow> latest_policy_result name files))
     | _ \<Rightarrow> Inl AttributeError)"

end
