(* ===== verification/PolicyProps.thy ===== *)
theory PolicyProps
  imports Policy SettingsProps
begin

section \<open>The policy gate: properties\<close>

text \<open>
  Ids of custom rules are fresh; whatever a client sends, the stored policy is well typed; the
  built-in rules are read back as they were stored; and a custom rule that loses its filter.
\<close>

subsection \<open>Fresh ids\<close>

lemma fresh_id_result:
  "fresh_id base n rid seen \<notin> set seen \<and>
    (fresh_id base n rid seen = rid \<or>
     (\<exists>m\<ge>n. fresh_id base n rid seen = base @ ''-'' @ nat_text m \<and> rid \<in> set seen \<and>
        (\<forall>i. n \<le> i \<and> i < m \<longrightarrow> base @ ''-'' @ nat_text i \<in> set seen)))"
proof (induction base n rid seen rule: fresh_id.induct)
  case (1 base n rid seen)
  show ?case
  proof (cases "rid \<in> set seen")
    case True
    have f: "fresh_id base n rid seen = fresh_id base (Suc n) (base @ ''-'' @ nat_text n) seen"
      by (subst fresh_id.simps) (simp add: True)
    from "1.IH" [OF True] show ?thesis unfolding f
    proof (elim conjE disjE exE, goal_cases)
      case 1
      then show ?case using True by (intro conjI disjI2 exI [of _ n]) auto
    next
      case (2 m)
      moreover have "base @ ''-'' @ nat_text i \<in> set seen" if "n \<le> i" "i < m" for i
        using 2(4,5) that by (cases "i = n") auto
      ultimately show ?case using True by (intro conjI disjI2 exI [of _ m]) auto
    qed
  qed (subst (1 2) fresh_id.simps, simp)
qed

text \<open>The search for a free id ends, with the least free number. The loop that appends a number
  to the id of a custom rule while it is taken terminates on every list of taken ids, its result is
  not taken, and it is the wanted id itself or the wanted id with the smallest number from 2 on
  that is free, which is at most the number of taken ids plus one.\<close>
theorem rule_id_fresh:
  "fresh_id base 2 base seen \<notin> set seen \<and>
    (fresh_id base 2 base seen = base \<or>
     (\<exists>m. 2 \<le> m \<and> m \<le> length seen + 1 \<and> fresh_id base 2 base seen = base @ ''-'' @ nat_text m \<and>
        {base @ ''-'' @ nat_text i | i. 2 \<le> i \<and> i < m} \<subseteq> set seen))"
proof -
  note r = fresh_id_result [of base 2 base seen]
  show ?thesis
  proof (cases "fresh_id base 2 base seen = base")
    case False
    then obtain m where m: "2 \<le> m" "fresh_id base 2 base seen = base @ ''-'' @ nat_text m" "base \<in> set seen"
      "\<forall>i. 2 \<le> i \<and> i < m \<longrightarrow> base @ ''-'' @ nat_text i \<in> set seen" using r by auto
    define S where "S = (\<lambda>i. base @ ''-'' @ nat_text i) ` {2..<m}"
    have "insert base S \<subseteq> set seen" using m(3,4) by (auto simp: S_def)
    then have "card (insert base S) \<le> length seen"
      by (meson List.finite_set card_length card_mono le_trans)
    moreover have "card S = m - 2"
      unfolding S_def by (subst card_image) (auto intro!: inj_onI nat_text_inj)
    moreover have "base \<notin> S" by (auto simp: S_def)
    moreover have "finite S" by (simp add: S_def)
    ultimately have "m \<le> length seen + 1" using m(1) by simp
    moreover have "{base @ ''-'' @ nat_text i | i. 2 \<le> i \<and> i < m} \<subseteq> set seen" using m(4) by auto
    ultimately show ?thesis using r m(1,2) by blast
  qed (use r in simp)
qed


subsection \<open>What is stored is well typed\<close>

definition base_ok :: "doc \<Rightarrow> bool" where
  "base_ok d = ((\<exists>b. dget d ''enabled'' = JBool b) \<and> dget d ''severity'' \<in> JStr ` set SEVERITIES \<and>
     dget d ''enforcement'' \<in> JStr ` set ENFORCEMENTS)"

definition limit_ok :: "string \<Rightarrow> doc \<Rightarrow> bool" where
  "limit_ok rid d =
    ((rid = ''deny_destroy'' \<longrightarrow> (\<exists>n\<ge>0. dget d ''max_destroy'' = jint n)) \<and>
     (rid = ''denied_resource_types'' \<longrightarrow> (\<exists>ts. dget d ''types'' = JArr (map JStr ts) \<and> length ts \<le> 100 \<and> [] \<notin> set ts)) \<and>
     (rid = ''require_tags'' \<longrightarrow> (\<exists>ts. dget d ''keys'' = JArr (map JStr ts) \<and> length ts \<le> 50 \<and> [] \<notin> set ts)) \<and>
     (rid = ''deny_public_ingress'' \<longrightarrow>
        (\<exists>ns. dget d ''ports'' = JArr (map jint ns) \<and> length ns \<le> 100 \<and> (\<forall>n\<in>set ns. 0 < n \<and> n < 65536))) \<and>
     (rid = ''max_created'' \<longrightarrow> (\<exists>n\<ge>1. dget d ''limit'' = jint n)))"

definition custom_ok :: "(string \<Rightarrow> bool) \<Rightarrow> doc \<Rightarrow> bool" where
  "custom_ok rxok r =
    (\<exists>op v as. dget r ''operator'' = JStr op \<and> op \<in> set CUSTOM_OPERATORS \<and>
      dget r ''severity'' \<in> JStr ` set CUSTOM_SEVERITIES \<and> dget r ''enforcement'' \<in> JStr ` set ENFORCEMENTS \<and>
      dget r ''value'' = JStr v \<and> length v \<le> 400 \<and> (op \<in> {''matches'', ''not_matches''} \<longrightarrow> v = [] \<or> rxok v) \<and>
      dget r ''actions'' = JArr (map JStr as) \<and> set as \<subseteq> set CUSTOM_ACTIONS)"

definition policy_ok :: "(string \<Rightarrow> bool) \<Rightarrow> policy \<Rightarrow> bool" where
  "policy_ok rxok P =
    (po_mode P \<in> {''warn'', ''enforce''} \<and> map fst (po_rules P) = POLICY_RULE_TYPES \<and>
     list_all (\<lambda>(rid, d). base_ok d \<and> limit_ok rid d) (po_rules P) \<and>
     (\<exists>rs. po_custom P = JArr (map JObj rs) \<and> length rs \<le> MAX_CUSTOM_RULES \<and> list_all (custom_ok rxok) rs \<and>
       distinct (map (\<lambda>r. dget r ''id'') rs)))"

lemma one_of_in: "dflt \<in> set allowed \<Longrightarrow> one_of allowed dflt s \<in> set allowed"
  by (simp add: one_of_def)

lemma rule_value_length: "length (rule_value str raw) \<le> 400"
  by (simp add: rule_value_def Let_def split: json.split)

lemma rule_actions_ok: "rule_actions str j = Inr a \<Longrightarrow> \<exists>as. a = JArr (map JStr as) \<and> set as \<subseteq> set CUSTOM_ACTIONS"
  by (auto simp: rule_actions_def split: sum.splits)

lemma rule_doc_simps [simp]:
  "dget (rule_doc i n d e s f rt ad a' av op v m) ''id'' = JStr i"
  "dget (rule_doc i n d e s f rt ad a' av op v m) ''severity'' = JStr s"
  "dget (rule_doc i n d e s f rt ad a' av op v m) ''enforcement'' = JStr f"
  "dget (rule_doc i n d e s f rt ad a' av op v m) ''resource_types'' = rt"
  "dget (rule_doc i n d e s f rt ad a' av op v m) ''actions'' = a'"
  "dget (rule_doc i n d e s f rt ad a' av op v m) ''operator'' = JStr op"
  "dget (rule_doc i n d e s f rt ad a' av op v m) ''value'' = JStr v"
  by (simp_all add: rule_doc_def)

lemma guarded:
  "(if c then Inr None else if d then Inr None else Inr (Some x)) = (Inr (Some r) :: 'a option res) \<Longrightarrow> \<not> c \<and> r = x"
  by (simp split: if_splits)

lemma custom_rule_ok:
  assumes "custom_rule str rxok rid raw = Inr (Some r)"
  shows "custom_ok rxok r \<and> dget r ''id'' = JStr rid"
proof -
  define op where "op = one_of CUSTOM_OPERATORS ''matches'' (lower (word_field str raw ''operator'' ''matches''))"
  define v where "v = rule_value str raw"
  have op: "op \<in> set CUSTOM_OPERATORS" unfolding op_def by (rule one_of_in) (simp add: CUSTOM_OPERATORS_def)
  obtain a where a: "rule_actions str (dget raw ''actions'') = Inr a"
    using assms unfolding custom_rule_def Let_def by (cases "rule_actions str (dget raw ''actions'')") simp_all
  then obtain as where as: "a = JArr (map JStr as)" "set as \<subseteq> set CUSTOM_ACTIONS" using rule_actions_ok by blast
  note g = guarded [OF assms [unfolded custom_rule_def Let_def a sum.case, folded op_def v_def]]
  have v: "length v \<le> 400" "op \<in> {''matches'', ''not_matches''} \<longrightarrow> v = [] \<or> rxok v"
    using g rule_value_length [of str raw] unfolding v_def by blast+
  have "one_of CUSTOM_SEVERITIES ''warn'' s \<in> set CUSTOM_SEVERITIES" "one_of ENFORCEMENTS ''inherit'' s \<in> set ENFORCEMENTS" for s
    by (rule one_of_in, simp add: CUSTOM_SEVERITIES_def ENFORCEMENTS_def)+
  then have "dget r ''operator'' = JStr op" "dget r ''value'' = JStr v" "dget r ''actions'' = a" "dget r ''id'' = JStr rid"
    "dget r ''severity'' \<in> JStr ` set CUSTOM_SEVERITIES" "dget r ''enforcement'' \<in> JStr ` set ENFORCEMENTS"
    using g [THEN conjunct2] by (simp_all only: rule_doc_simps) (rule imageI, blast)+
  then show ?thesis unfolding custom_ok_def using op v as by blast
qed

lemma rule_id_free: "rule_id str idx raw seen \<notin> set seen"
  using fresh_id_result by (simp add: rule_id_def Let_def)

lemma custom_rules_ok:
  "custom_rules str rxok idx seen js = Inr rs \<Longrightarrow>
    length rs \<le> length js \<and> list_all (custom_ok rxok) rs \<and> distinct (map (\<lambda>r. dget r ''id'') rs) \<and>
    (\<forall>r\<in>set rs. dget r ''id'' \<notin> JStr ` set seen)"
proof (induction js arbitrary: idx seen rs)
  case (Cons j js)
  show ?case
  proof (cases "\<exists>raw. j = JObj raw")
    case True
    then obtain raw where j: "j = JObj raw" by blast
    define rid where "rid = rule_id str idx raw seen"
    have free: "rid \<notin> set seen" by (simp add: rid_def rule_id_free)
    consider (drop) "custom_rules str rxok (Suc idx) (rid # seen) js = Inr rs"
      | (keep) r rs' where "custom_rule str rxok rid raw = Inr (Some r)"
          "custom_rules str rxok (Suc idx) (rid # seen) js = Inr rs'" "rs = r # rs'"
      using Cons.prems by (cases "custom_rules str rxok (Suc idx) (rid # seen) js")
        (auto simp: j Let_def rid_def [symmetric] split: sum.splits option.splits)
    then show ?thesis
    proof cases
      case drop
      then show ?thesis using Cons.IH [OF drop] by auto
    next
      case (keep r rs')
      have "custom_ok rxok r" "dget r ''id'' = JStr rid" using custom_rule_ok [OF keep(1)] by simp_all
      then show ?thesis using Cons.IH [OF keep(2)] free keep(3) by force
    qed
  next
    case False
    then have "custom_rules str rxok (Suc idx) seen js = Inr rs" using Cons.prems by (cases j) simp_all
    then show ?thesis using Cons.IH by fastforce
  qed
qed simp


lemma text_items_ok: "\<exists>ts. text_items str n xs = JArr (map JStr ts) \<and> length ts \<le> n \<and> [] \<notin> set ts"
  unfolding text_items_def by (rule exI, rule conjI [OF refl]) (auto dest: in_set_takeD)

lemma clean_ports_ok:
  "\<exists>ns. clean_ports xs = JArr (map jint ns) \<and> length ns \<le> 100 \<and> (\<forall>n\<in>set ns. 0 < n \<and> n < 65536)"
proof -
  have "length (List.map_filter f ys) \<le> length ys" for f :: "json \<Rightarrow> int option" and ys
    by (simp add: List.map_filter_def)
  then have "length (List.map_filter int_of_json (take 100 xs)) \<le> 100" by (rule le_trans) simp
  then have "length (filter (\<lambda>n. 0 < n \<and> n < 65536) (List.map_filter int_of_json (take 100 xs))) \<le> 100"
    by (rule le_trans [OF length_filter_le])
  then show ?thesis unfolding clean_ports_def by (intro exI conjI [OF refl]) auto
qed

lemma limit_ok_dset:
  "k \<in> {''enabled'', ''severity'', ''enforcement''} \<Longrightarrow> limit_ok rid (dset d k v) = limit_ok rid d"
  by (auto simp: limit_ok_def)

lemma base_ok_dset: "k \<notin> {''enabled'', ''severity'', ''enforcement''} \<Longrightarrow> base_ok (dset d k v) = base_ok d"
  by (auto simp: base_ok_def)

lemma rule_limits_base: "base_ok d \<Longrightarrow> base_ok (rule_limits str rid incoming d)"
  unfolding rule_limits_def by (auto simp: base_ok_dset split: option.split json.split)

lemma rule_limits_limit: "limit_ok rid d \<Longrightarrow> limit_ok rid (rule_limits str rid incoming d)"
proof -
  assume d: "limit_ok rid d"
  consider "rid = ''deny_destroy''" | "rid = ''denied_resource_types''" | "rid = ''require_tags''"
    | "rid = ''deny_public_ingress''" | "rid = ''max_created''" | "rid \<notin> set POLICY_RULE_TYPES"
    by (auto simp: POLICY_RULE_TYPES_def)
  then show ?thesis
    using d text_items_ok clean_ports_ok
  proof cases
    case 1
    have "\<exists>m\<ge>0. jint (max 0 n) = jint m" for n by (rule exI [of _ "max 0 n"]) simp
    then show ?thesis using d 1 by (auto simp: rule_limits_def limit_ok_def split: option.split)
  next
    case 2 then show ?thesis using d text_items_ok [of str 100] by (auto simp: rule_limits_def limit_ok_def split: json.split)
  next
    case 3 then show ?thesis using d text_items_ok [of str 50] by (auto simp: rule_limits_def limit_ok_def split: json.split)
  next
    case 4 then show ?thesis using d clean_ports_ok by (auto simp: rule_limits_def limit_ok_def split: json.split)
  next
    case 5
    have "\<exists>m\<ge>1. jint (max 1 n) = jint m" for n by (rule exI [of _ "max 1 n"]) simp
    then show ?thesis using d 5 by (auto simp: rule_limits_def limit_ok_def split: option.split)
  next
    case 6 then show ?thesis by (auto simp: limit_ok_def POLICY_RULE_TYPES_def)
  qed
qed

lemma clean_rule_ok:
  assumes "clean_rule str rid incoming t = Inr t'" "base_ok t \<and> limit_ok rid t"
  shows "base_ok t' \<and> limit_ok rid t'"
proof -
  obtain sev enf where e: "lower_field incoming ''severity'' = Inr sev" "lower_field incoming ''enforcement'' = Inr enf"
    using assms(1) by (auto simp: clean_rule_def split: sum.splits)
  define u where "u = (let t = dset t ''enabled'' (JBool (truthy (dget incoming ''enabled'')));
      t = (if sev \<in> set SEVERITIES then dset t ''severity'' (JStr sev) else t)
    in (if enf \<in> set ENFORCEMENTS then dset t ''enforcement'' (JStr enf) else t))"
  have "t' = rule_limits str rid incoming u" using assms(1) by (simp add: clean_rule_def e u_def Let_def)
  moreover have "base_ok u" using assms(2) by (auto simp: u_def Let_def base_ok_def)
  moreover have "limit_ok rid u" using assms(2) by (simp add: u_def Let_def limit_ok_dset)
  ultimately show ?thesis using rule_limits_base rule_limits_limit by blast
qed

lemma map_fst_update: "k \<in> fst ` set al \<Longrightarrow> map fst (AList.update k v al) = map fst al"
  by (simp add: update_keys)

lemma clean_rules_inv:
  assumes "\<And>rid d t t'. clean_rule str rid d t = Inr t' \<Longrightarrow> Q rid t \<Longrightarrow> Q rid t'"
  shows "clean_rules str incoming rules = Inr rules' \<Longrightarrow> distinct (map fst rules) \<Longrightarrow> \<forall>(rid, d)\<in>set rules. Q rid d \<Longrightarrow>
    map fst rules' = map fst rules \<and> (\<forall>(rid, d)\<in>set rules'. Q rid d)"
proof (induction incoming arbitrary: rules)
  case (Cons p incoming)
  obtain rid j where p: "p = (rid, j)" by fastforce
  show ?case
  proof (cases "\<exists>t d. map_of rules rid = Some t \<and> j = JObj d")
    case True
    then obtain t d where t: "map_of rules rid = Some t" "j = JObj d" by blast
    then obtain t' where t': "clean_rule str rid d t = Inr t'" "clean_rules str incoming (AList.update rid t' rules) = Inr rules'"
      using Cons.prems(1) by (auto simp: p split: sum.splits)
    have keys: "map fst (AList.update rid t' rules) = map fst rules"
      using map_of_SomeD [OF t(1)] by (intro map_fst_update) force
    have "Q rid t'" using assms [OF t'(1)] Cons.prems(3) map_of_SomeD [OF t(1)] by auto
    then have "\<forall>(i, d)\<in>set (AList.update rid t' rules). Q i d"
      using Cons.prems(3) set_update [OF Cons.prems(2), of rid t'] by auto
    then show ?thesis using Cons.IH [OF t'(2)] keys Cons.prems(2) by simp
  next
    case False
    then have "clean_rules str incoming rules = Inr rules'"
      using Cons.prems(1) by (auto simp: p split: option.splits json.splits)
    then show ?thesis using Cons.IH Cons.prems(2,3) by blast
  qed
qed simp

lemma default_rules_ok:
  "distinct (map fst default_rules)" "map fst default_rules = POLICY_RULE_TYPES"
  "\<forall>(rid, d)\<in>set default_rules. base_ok d \<and> limit_ok rid d"
proof -
  have nums: "\<exists>n\<ge>0. jint 0 = jint n" "\<exists>n\<ge>1. jint 50 = jint n" by (intro exI conjI refl; simp)+
  have lists: "\<exists>ts. JArr [] = JArr (map JStr ts) \<and> length ts \<le> 100 \<and> [] \<notin> set ts"
    "\<exists>ts. JArr [JStr ''environment'', JStr ''owner''] = JArr (map JStr ts) \<and> length ts \<le> 50 \<and> [] \<notin> set ts"
    "\<exists>ns. JArr [jint 22, jint 3389] = JArr (map jint ns) \<and> length ns \<le> 100 \<and> (\<forall>n\<in>set ns. 0 < n \<and> n < 65536)"
    by (intro exI [of _ "[]"], simp) (intro exI [of _ "[''environment'', ''owner'']"], simp, intro exI [of _ "[22, 3389]"], simp)
  show "\<forall>(rid, d)\<in>set default_rules. base_ok d \<and> limit_ok rid d"
    using nums lists by (simp add: default_rules_def base_ok_def limit_ok_def SEVERITIES_def ENFORCEMENTS_def) blast
qed (simp_all add: default_rules_def POLICY_RULE_TYPES_def)


lemma sanitize_custom_ok:
  assumes "sanitize_custom_rules str rxok items = Inr c"
  shows "\<exists>rs. c = JArr (map JObj rs) \<and> length rs \<le> MAX_CUSTOM_RULES \<and> list_all (custom_ok rxok) rs \<and>
    distinct (map (\<lambda>r. dget r ''id'') rs)"
proof (cases "\<exists>xs. items = JArr xs")
  case True
  then obtain xs rs where "c = JArr (map JObj rs)" "custom_rules str rxok 0 [] (take MAX_CUSTOM_RULES xs) = Inr rs"
    using assms by (cases items) (auto simp: sanitize_custom_rules_def map_sum_def split: sum.splits)
  then show ?thesis using custom_rules_ok [of str rxok 0 "[]" "take MAX_CUSTOM_RULES xs" rs] by auto
next
  case False
  then have "c = JArr (map JObj [])" using assms by (cases items) (simp_all add: sanitize_custom_rules_def)
  then show ?thesis by (intro exI [of _ "[]"]) simp
qed

lemma sanitize_policy_cases:
  assumes "sanitize_policy str rxok body = Inr P"
  obtains incoming rs where "po_mode P \<in> {''warn'', ''enforce''}" "clean_rules str incoming default_rules = Inr rs" "po_rules P = rs"
    "sanitize_custom_rules str rxok (dget body ''custom_rules'') = Inr (po_custom P)"
proof -
  obtain mode custom where e: "lower_field body ''mode'' = Inr mode" "sanitize_custom_rules str rxok (dget body ''custom_rules'') = Inr custom"
    using assms by (auto simp: sanitize_policy_def split: sum.splits)
  show thesis
  proof (cases "\<exists>r. py_or (dget body ''rules'') (JObj []) = JObj r")
    case True
    then obtain r where r: "py_or (dget body ''rules'') (JObj []) = JObj r" by blast
    then obtain rs where "clean_rules str r default_rules = Inr rs"
      "P = \<lparr>po_mode = (if mode \<in> {''warn'', ''enforce''} then mode else ''warn''), po_rules = rs, po_custom = custom\<rparr>"
      using assms e by (cases "clean_rules str r default_rules") (auto simp: sanitize_policy_def Let_def default_policy_def)
    then show thesis using that [of r rs] e(2) by auto
  next
    case False
    then have "P = \<lparr>po_mode = (if mode \<in> {''warn'', ''enforce''} then mode else ''warn''), po_rules = default_rules, po_custom = custom\<rparr>"
      using assms e by (auto simp: sanitize_policy_def Let_def default_policy_def split: json.splits)
    then show thesis using that [of "[]" default_rules] e(2) by auto
  qed
qed

text \<open>C31: Whatever a client sends, the policy that is stored is well typed. When \<open>sanitize_policy\<close>
  accepts a request, of any JSON shape, every built-in rule is there with a flag, a known severity
  and enforcement and its limits in range (ports from 1 to 65535, no negative count, no empty
  name), and the custom rules are at most 100, with distinct ids, known operators, severities and
  actions, and a pattern that compiles wherever the operator matches one.\<close>
theorem sanitized_policy_typed:
  assumes "sanitize_policy str rxok body = Inr P"
  shows "policy_ok rxok P"
proof -
  obtain incoming rs where c: "po_mode P \<in> {''warn'', ''enforce''}" "clean_rules str incoming default_rules = Inr rs" "po_rules P = rs"
    "sanitize_custom_rules str rxok (dget body ''custom_rules'') = Inr (po_custom P)"
    by (rule sanitize_policy_cases [OF assms])
  have "map fst rs = map fst default_rules \<and> (\<forall>(rid, d)\<in>set rs. base_ok d \<and> limit_ok rid d)"
    by (rule clean_rules_inv [where Q = "\<lambda>rid d. base_ok d \<and> limit_ok rid d", OF clean_rule_ok c(2) default_rules_ok(1,3)])
  then show ?thesis
    unfolding policy_ok_def using c sanitize_custom_ok [OF c(4)] default_rules_ok(2) by (simp add: list_all_iff)
qed

subsection \<open>Reading a policy back\<close>

lemma alist_eqI:
  "map fst xs = map fst ys \<Longrightarrow> distinct (map fst xs) \<Longrightarrow> map_of xs = map_of ys \<Longrightarrow> xs = ys"
proof (induction xs arbitrary: ys)
  case (Cons p xs)
  then obtain q ys' where ys: "ys = q # ys'" "fst q = fst p" "map fst xs = map fst ys'" by (cases ys) auto
  then have "q = p" using fun_cong [OF Cons.prems(3), of "fst p"] by (cases p, cases q) simp
  moreover have "map_of xs k = map_of ys' k" for k
  proof (cases "k = fst p")
    case True
    then have "map_of xs k = None" "map_of ys' k = None"
      using Cons.prems(2) ys(3) by (auto simp: map_of_eq_None_iff simp del: map_map simp flip: set_map)
    then show ?thesis by simp
  next
    case False
    then show ?thesis using Cons.prems(3) ys \<open>q = p\<close> by (metis fun_upd_other map_of.simps(2) surj_pair fst_conv snd_conv)
  qed
  ultimately show ?case using Cons.IH [of ys'] Cons.prems(2) ys by auto
qed simp

lemma merge_keys: "fst ` set d \<subseteq> fst ` set t \<Longrightarrow> map fst (dupd t d) = map fst t"
proof (induction d)
  case (Cons p d)
  have "fst p \<in> fst ` set (dupd t d)" using Cons by (auto simp: dupd_def dom_merge)
  then show ?case using Cons by (simp add: dupd_def map_fst_update)
qed (simp add: dupd_def)

lemma dupd_same:
  assumes "map fst d = map fst t" "distinct (map fst d)"
  shows "dupd t d = d"
proof (rule alist_eqI)
  show "map fst (dupd t d) = map fst d" using assms(1) by (simp add: merge_keys flip: set_map)
  then show "distinct (map fst (dupd t d))" using assms(2) by simp
  have "dom (map_of t) = dom (map_of d)" using assms(1) by (simp add: dom_map_of_conv_image_fst flip: set_map)
  then have "map_of d x = None \<Longrightarrow> map_of t x = None" for x by (metis domIff)
  then show "map_of (dupd t d) = map_of d" by (simp add: fun_eq_iff map_add_def split: option.split)
qed


lemma merge_rules_same:
  assumes "list_all2 (\<lambda>(i, d) (j, t). i = j \<and> map fst d = map fst t \<and> distinct (map fst d) \<and> ''id'' \<notin> fst ` set d) rs ds"
    and "distinct (map fst (pre @ ds))"
  shows "merge_rules (map (\<lambda>(i, d). (i, JObj d)) rs) (pre @ ds) = pre @ rs"
  using assms
proof (induction rs ds arbitrary: pre rule: list_all2_induct)
  case (Cons r rs q ds)
  obtain i d t where rq: "r = (i, d)" "q = (i, t)" "map fst d = map fst t" "distinct (map fst d)" "''id'' \<notin> fst ` set d"
    using Cons.hyps(1) by (cases r; cases q) auto
  have i: "i \<notin> fst ` set pre" using Cons.prems by (auto simp: rq)
  have "\<forall>x\<in>set d. fst x \<noteq> ''id''" using rq(5) by (metis imageI)
  then have "filter (\<lambda>(k, v). k \<noteq> ''id'') d = d" by (auto simp: filter_id_conv)
  moreover have "map_of pre i = None" using i by (simp add: map_of_eq_None_iff)
  then have "map_of (pre @ (i, t) # ds) i = Some t" by (simp add: map_add_def)
  moreover have "AList.update i d (pre @ (i, t) # ds) = pre @ (i, d) # ds" using i by (induction pre) auto
  ultimately have "merge_rules (map (\<lambda>(i, d). (i, JObj d)) (r # rs)) (pre @ q # ds) =
      merge_rules (map (\<lambda>(i, d). (i, JObj d)) rs) ((pre @ [(i, d)]) @ ds)"
    using dupd_same [OF rq(3,4)] by (simp add: rq(1,2))
  also have "\<dots> = (pre @ [(i, d)]) @ rs" using Cons.prems by (intro Cons.IH) (simp add: rq)
  finally show ?case by (simp add: rq)
qed simp

definition same_keys :: "string \<Rightarrow> doc \<Rightarrow> bool" where
  "same_keys rid d = (\<exists>t. map_of default_rules rid = Some t \<and> map fst d = map fst t)"

lemma map_fst_dset: "k \<in> fst ` set d \<Longrightarrow> map fst (dset d k v) = map fst d"
  by (simp add: dset_def map_fst_update)

lemma default_rule_cases:
  assumes "map_of default_rules rid = Some t"
  shows "distinct (map fst t) \<and> {''enabled'', ''severity'', ''enforcement''} \<subseteq> fst ` set t \<and> ''id'' \<notin> fst ` set t \<and>
    (\<forall>str incoming d. map fst d = map fst t \<longrightarrow> map fst (rule_limits str rid incoming d) = map fst d)"
proof -
  have set: "k \<in> fst ` set d \<longleftrightarrow> k \<in> fst ` set t" if "map fst d = map fst t" for k and d t :: doc
    using that by (metis set_map)
  consider "rid = ''deny_destroy''" "t = [(''enabled'', JBool False), (''severity'', JStr ''deny''), (''enforcement'', JStr ''inherit''), (''max_destroy'', jint 0)]"
    | "rid = ''denied_resource_types''" "t = [(''enabled'', JBool False), (''severity'', JStr ''deny''), (''enforcement'', JStr ''inherit''), (''types'', JArr [])]"
    | "rid = ''require_tags''" "t = [(''enabled'', JBool False), (''severity'', JStr ''warn''), (''enforcement'', JStr ''inherit''),
        (''keys'', JArr [JStr ''environment'', JStr ''owner''])]"
    | "rid = ''deny_public_ingress''" "t = [(''enabled'', JBool True), (''severity'', JStr ''deny''), (''enforcement'', JStr ''inherit''),
        (''ports'', JArr [jint 22, jint 3389])]"
    | "rid = ''max_created''" "t = [(''enabled'', JBool False), (''severity'', JStr ''warn''), (''enforcement'', JStr ''inherit''), (''limit'', jint 50)]"
    using assms by (auto simp: default_rules_def split: if_splits)
  then show ?thesis
    by cases (auto simp: rule_limits_def map_fst_dset set split: option.split json.split)
qed


lemma clean_rule_keys:
  assumes "clean_rule str rid incoming d = Inr d'" "same_keys rid d"
  shows "same_keys rid d'"
proof -
  obtain t where t: "map_of default_rules rid = Some t" "map fst d = map fst t" using assms(2) by (auto simp: same_keys_def)
  note facts = default_rule_cases [OF t(1)]
  have mem: "k \<in> fst ` set e" if "map fst e = map fst t" "k \<in> {''enabled'', ''severity'', ''enforcement''}" for e :: doc and k
  proof -
    have "fst ` set e = fst ` set t" using arg_cong [OF that(1), of set] by (simp only: set_map)
    then show ?thesis using facts [THEN conjunct2, THEN conjunct1] that(2) by (auto simp only: subset_eq)
  qed
  have keep: "map fst (dset e k v) = map fst t" if "map fst e = map fst t" "k \<in> {''enabled'', ''severity'', ''enforcement''}" for e k v
    using map_fst_dset [OF mem [OF that]] that(1) by simp
  obtain sev enf where e: "lower_field incoming ''severity'' = Inr sev" "lower_field incoming ''enforcement'' = Inr enf"
    using assms(1) by (auto simp: clean_rule_def split: sum.splits)
  define u1 where "u1 = dset d ''enabled'' (JBool (truthy (dget incoming ''enabled'')))"
  define u2 where "u2 = (if sev \<in> set SEVERITIES then dset u1 ''severity'' (JStr sev) else u1)"
  define u where "u = (if enf \<in> set ENFORCEMENTS then dset u2 ''enforcement'' (JStr enf) else u2)"
  have "map fst u1 = map fst t" unfolding u1_def by (rule keep [OF t(2)]) simp
  then have "map fst u2 = map fst t" using keep [of u1 "''severity''"] by (simp add: u2_def)
  then have "map fst u = map fst t" using keep [of u2 "''enforcement''"] by (simp add: u_def)
  moreover have "d' = rule_limits str rid incoming u"
    using assms(1) unfolding clean_rule_def Let_def e prod.case sum.case u1_def [symmetric] u2_def [symmetric] u_def [symmetric]
    by simp
  ultimately have "map fst d' = map fst t"
    using facts [THEN conjunct2, THEN conjunct2, THEN conjunct2, rule_format, of u str incoming] by simp
  then show ?thesis using t(1) by (auto simp: same_keys_def)
qed

text \<open>The built-in rules are read back as they were stored. When a request without custom rules is
  accepted and its policy saved to the stack's metadata, \<open>policy_config_from_meta\<close> gives exactly that
  policy, whatever else the metadata held.\<close>
theorem policy_roundtrip:
  assumes "sanitize_policy str rxok body = Inr P" "po_custom P = JArr []"
  shows "policy_config_from_meta str' rxok' (save_meta now [(''policy_rules'', policy_json P)] meta) = Inr P"
proof -
  obtain incoming rs where c: "po_mode P \<in> {''warn'', ''enforce''}" "clean_rules str incoming default_rules = Inr rs" "po_rules P = rs"
    "sanitize_custom_rules str rxok (dget body ''custom_rules'') = Inr (po_custom P)"
    by (rule sanitize_policy_cases [OF assms(1)])
  have start: "\<forall>(rid, d)\<in>set default_rules. same_keys rid d"
    by (simp add: default_rules_def same_keys_def)
  have inv: "map fst rs = map fst default_rules \<and> (\<forall>(rid, d)\<in>set rs. same_keys rid d)"
    by (rule clean_rules_inv [where Q = same_keys, OF clean_rule_keys c(2) default_rules_ok(1) start])
  have "list_all2 (\<lambda>(i, d) (j, t). i = j \<and> map fst d = map fst t \<and> distinct (map fst d) \<and> ''id'' \<notin> fst ` set d) rs default_rules"
  proof (rule list_all2_all_nthI)
    show "length rs = length default_rules" using inv by (metis length_map)
    fix k assume k: "k < length rs"
    obtain i d j t where e: "rs ! k = (i, d)" "default_rules ! k = (j, t)" by fastforce
    have "fst (rs ! k) = fst (default_rules ! k)" using inv k by (metis length_map nth_map)
    then have ij: "i = j" by (simp add: e)
    have "(i, d) \<in> set rs" "(j, t) \<in> set default_rules" using k e inv by (metis nth_mem, metis length_map nth_mem)
    then have "same_keys i d" "map_of default_rules i = Some t" using inv default_rules_ok(1) ij by auto
    then have "map_of default_rules i = Some t" "map fst d = map fst t" by (auto simp: same_keys_def)
    moreover from this have "distinct (map fst d)" "''id'' \<notin> fst ` set d"
      using default_rule_cases [of i t] by (simp, metis set_map)
    ultimately show "(case rs ! k of (i, d) \<Rightarrow> \<lambda>(j, t). i = j \<and> map fst d = map fst t \<and> distinct (map fst d) \<and> ''id'' \<notin> fst ` set d) (default_rules ! k)"
      by (simp add: e ij)
  qed
  from merge_rules_same [OF this, of "[]"] have merge: "merge_rules (map (\<lambda>(i, d). (i, JObj d)) rs) default_rules = rs"
    using default_rules_ok(1) by simp
  have ne: "map (\<lambda>(i, d). (i, JObj d)) rs \<noteq> []" using inv by (auto simp: default_rules_def)
  have "dget (save_meta now [(''policy_rules'', policy_json P)] meta) ''policy_rules'' = policy_json P"
    by (simp add: save_meta_def dget_dupd)
  then show ?thesis
    using c(1,3) merge ne assms(2)
    by (cases P) (auto simp: policy_config_from_meta_def policy_json_def py_or_def Let_def default_policy_def
        sanitize_custom_rules_def)
qed


subsection \<open>A rule that loses its filter\<close>

lemma fresh_id_free: "base \<notin> set seen \<Longrightarrow> fresh_id base n base seen = base"
  by (subst fresh_id.simps) simp

lemma resource_types_of:
  assumes "custom_rule str rxok rid raw = Inr (Some r)"
  shows "dget r ''resource_types'' = regex_list str rxok (dget raw ''resource_types'')"
proof -
  obtain a where a: "rule_actions str (dget raw ''actions'') = Inr a"
    using assms unfolding custom_rule_def Let_def by (cases "rule_actions str (dget raw ''actions'')") simp_all
  note g = guarded [OF assms [unfolded custom_rule_def Let_def a sum.case]]
  show ?thesis using g [THEN conjunct2] by (simp only: rule_doc_simps)
qed

lemma exists_rule_kept:
  assumes "word_field str raw ''operator'' ''matches'' = ''exists''" "dget raw ''actions'' \<in> {JNull, JArr []}"
  shows "\<exists>r. custom_rule str rxok rid raw = Inr (Some r) \<and> dget r ''operator'' = JStr ''exists'' \<and> dget r ''actions'' = JArr []"
proof -
  have op: "one_of CUSTOM_OPERATORS ''matches'' (lower ''exists'') = ''exists''" by code_simp
  have act: "rule_actions str (dget raw ''actions'') = Inr (JArr [])"
    using assms(2) by (auto simp: rule_actions_def py_or_def iter_json_def)
  have ne: "''exists'' \<noteq> ''matches''" "''exists'' \<noteq> ''not_matches''" by simp_all
  show ?thesis
    unfolding custom_rule_def Let_def assms(1) op act sum.case
    by (simp only: insert_iff empty_iff ne simp_thms if_False if_True, rule exI, rule conjI [OF refl], rule conjI)
      (simp_all only: rule_doc_simps)
qed

text \<open>A custom rule can lose the filter that restricts it. A pattern is cut to 400 characters after
  it was compiled, so what is stored need not compile: reading the policy back drops it, and a rule
  that the user restricted to one resource type by a long pattern is left with an empty list of
  resource types, although malformed rules are meant to be dropped rather than to match everything.\<close>
theorem custom_filter_lost:
  assumes "400 < length p" "strip p = p" "rxok p" "\<not> rxok (strip (take 400 p))"
  defines "raw \<equiv> [(''name'', JStr ''r''), (''operator'', JStr ''exists''), (''resource_types'', JArr [JStr p])]"
  shows "\<exists>r r'. sanitize_custom_rules str rxok (JArr [JObj raw]) = Inr (JArr [JObj r]) \<and>
    dget r ''resource_types'' = JArr [JStr (take 400 p)] \<and>
    sanitize_custom_rules str rxok (JArr [JObj r]) = Inr (JArr [JObj r']) \<and> dget r' ''resource_types'' = JArr []"
proof -
  have word: "word_field str raw ''operator'' ''matches'' = ''exists''"
  proof -
    have "strip ''exists'' = ''exists''" by code_simp
    then show ?thesis by (simp add: raw_def word_field_def py_or_def as_text_def)
  qed
  have one: "\<exists>r. sanitize_custom_rules str rxok (JArr [JObj raw]) = Inr (JArr [JObj r]) \<and>
      dget r ''operator'' = JStr ''exists'' \<and> dget r ''actions'' = JArr [] \<and>
      dget r ''resource_types'' = regex_list str rxok (dget raw ''resource_types'')"
    if raw: "word_field str raw ''operator'' ''matches'' = ''exists''" "dget raw ''actions'' \<in> {JNull, JArr []}" for raw
  proof -
    obtain r where r: "custom_rule str rxok (rule_id str 0 raw []) raw = Inr (Some r)" "dget r ''operator'' = JStr ''exists''"
      "dget r ''actions'' = JArr []" using exists_rule_kept [OF raw] by blast
    then show ?thesis using resource_types_of [OF r(1)]
      by (simp add: sanitize_custom_rules_def MAX_CUSTOM_RULES_def Let_def)
  qed
  obtain r where r: "sanitize_custom_rules str rxok (JArr [JObj raw]) = Inr (JArr [JObj r])" "dget r ''operator'' = JStr ''exists''"
    "dget r ''actions'' = JArr []" "dget r ''resource_types'' = regex_list str rxok (dget raw ''resource_types'')"
    using one [OF word] by (auto simp: raw_def)
  have "p \<noteq> []" using assms(1) by auto
  then have types: "dget r ''resource_types'' = JArr [JStr (take 400 p)]"
    using r(4) assms(2,3) by (simp add: raw_def regex_list_def as_text_def)
  have "word_field str r ''operator'' ''matches'' = ''exists''"
  proof -
    have "strip ''exists'' = ''exists''" by code_simp
    then show ?thesis by (simp add: word_field_def r(2) py_or_def as_text_def)
  qed
  then obtain r' where r': "sanitize_custom_rules str rxok (JArr [JObj r]) = Inr (JArr [JObj r'])"
    "dget r' ''resource_types'' = regex_list str rxok (dget r ''resource_types'')"
    using one [of r] r(3) by auto
  have "dget r' ''resource_types'' = JArr []"
    using r'(2) assms(4) by (simp add: types regex_list_def as_text_def)
  then show ?thesis using r(1) types r'(1) by blast
qed

definition balanced :: "string \<Rightarrow> bool" where
  "balanced s = (length (filter (\<lambda>c. c = CHR ''('') s) = length (filter (\<lambda>c. c = CHR '')'') s))"

theorem custom_filter_lost_witness:
  "\<exists>r r'. sanitize_custom_rules (\<lambda>_. []) balanced (JArr [JObj [(''name'', JStr ''r''), (''operator'', JStr ''exists''),
      (''resource_types'', JArr [JStr (replicate 399 CHR ''a'' @ ''(b)'')])]]) = Inr (JArr [JObj r]) \<and>
    sanitize_custom_rules (\<lambda>_. []) balanced (JArr [JObj r]) = Inr (JArr [JObj r']) \<and> dget r' ''resource_types'' = JArr []"
proof -
  let ?p = "replicate 399 CHR ''a'' @ ''(b)''"
  have "400 < length ?p" by simp
  moreover have "strip ?p = ?p" "balanced ?p" "\<not> balanced (strip (take 400 ?p))" by code_simp+
  ultimately show ?thesis using custom_filter_lost [of ?p balanced "\<lambda>_. []"] by blast
qed

definition demo_policy :: doc where
  "demo_policy = [(''mode'', JStr ''Enforce''), (''rules'', JObj [(''deny_destroy'', JObj [(''enabled'', JBool True), (''max_destroy'', jint (-3))])])]"

lemma demo_policy_accepted:
  "\<exists>P. sanitize_policy (\<lambda>_. []) (\<lambda>_. True) demo_policy = Inr P \<and> po_custom P = JArr []"
  by (simp add: sanitize_policy_def demo_policy_def lower_field_def py_or_def sanitize_custom_rules_def default_policy_def
      default_rules_def clean_rule_def Let_def)

theorem sanitized_policy_typed_witness:
  "\<exists>P. sanitize_policy (\<lambda>_. []) (\<lambda>_. True) demo_policy = Inr P \<and> policy_ok (\<lambda>_. True) P"
  using demo_policy_accepted sanitized_policy_typed by blast

theorem policy_roundtrip_witness:
  "\<exists>P. sanitize_policy (\<lambda>_. []) (\<lambda>_. True) demo_policy = Inr P \<and>
    policy_config_from_meta (\<lambda>_. []) (\<lambda>_. True) (save_meta 5 [(''policy_rules'', policy_json P)] []) = Inr P"
  using demo_policy_accepted policy_roundtrip by blast

end
