(* ===== verification/DocsAccess.thy ===== *)
theory DocsAccess
  imports Settings "HOL-Library.Word"
begin

unbundle bit_operations_syntax

section \<open>The allow-list of the API documentation\<close>

text \<open>
  \<^verbatim>\<open>server/utils/docs_access.py\<close> and the handler that writes its settings. The addresses and
  networks of Python's \<open>ipaddress\<close> are words of 32 and 128 bits; an IPv6 address may carry a
  scope. \<open>None\<close> is a \<open>ValueError\<close>.
\<close>

datatype ip = V4 "32 word" | V6 "128 word" "string option"
datatype network = N4 "32 word" nat | N6 "128 word" nat

subsection \<open>Addresses\<close>

definition dec_val :: "string \<Rightarrow> nat" where
  "dec_val s = foldl (\<lambda>n c. 10 * n + (of_char c - 48)) 0 s"

definition digits :: "string \<Rightarrow> bool" where "digits s = (s \<noteq> [] \<and> list_all is_digit s)"

definition octet :: "string \<Rightarrow> nat option" where
  "octet s =
    (if \<not> digits s \<or> 3 < length s \<or> (s \<noteq> ''0'' \<and> hd s = CHR ''0'') \<or> 255 < dec_val s then None
     else Some (dec_val s))"

definition ipv4_int :: "string \<Rightarrow> 32 word option" where
  "ipv4_int s =
    (case map octet (split_on CHR ''.'' [] s) of
       [Some a, Some b, Some c, Some d] \<Rightarrow> Some (of_nat (((a * 256 + b) * 256 + c) * 256 + d))
     | _ \<Rightarrow> None)"

definition is_hex :: "char \<Rightarrow> bool" where
  "is_hex c = (is_digit c \<or> char_in 97 102 c \<or> char_in 65 70 c)"

definition hex_value :: "char \<Rightarrow> nat" where
  "hex_value c = (if is_digit c then of_char c - 48 else if char_in 97 102 c then of_char c - 87 else of_char c - 55)"

definition hextet :: "string \<Rightarrow> nat option" where
  "hextet s = (if s = [] \<or> \<not> list_all is_hex s \<or> 4 < length s then None else Some (foldl (\<lambda>n c. 16 * n + hex_value c) 0 s))"

definition hex_text :: "nat \<Rightarrow> string" where
  \<comment> \<open>\<open>'%x'\<close> of 16 bits\<close>
  "hex_text n =
    (let ds = dropWhile (\<lambda>d. d = 0) [n div 4096 mod 16, n div 256 mod 16, n div 16 mod 16, n mod 16]
     in if ds = [] then ''0'' else map hex_digit ds)"

fun all_some :: "'a option list \<Rightarrow> 'a list option" where
  "all_some [] = Some []"
| "all_some (x # xs) = (case x of None \<Rightarrow> None | Some y \<Rightarrow> map_option ((#) y) (all_some xs))"

definition ipv6_parts :: "string \<Rightarrow> string list option" where
  \<comment> \<open>an IPv4 address at the end counts as two parts\<close>
  "ipv6_parts s =
    (let parts = split_on CHR '':'' [] s
     in if length parts < 3 then None
        else if CHR ''.'' \<in> set (last parts) then
          (case ipv4_int (last parts) of
             None \<Rightarrow> None
           | Some w \<Rightarrow> Some (butlast parts @ [hex_text (unat (drop_bit 16 w) mod 65536), hex_text (unat w mod 65536)]))
        else Some parts)"

definition ipv6_join :: "string list \<Rightarrow> nat \<Rightarrow> nat \<Rightarrow> nat \<Rightarrow> 128 word option" where
  "ipv6_join parts hi lo skipped =
    (case (all_some (map hextet (take hi parts)), all_some (map hextet (drop (length parts - lo) parts))) of
       (Some hs, Some ls) \<Rightarrow>
         Some (of_nat (foldl (\<lambda>n h. n * 65536 + h) (foldl (\<lambda>n h. n * 65536 + h) 0 hs * 65536 ^ skipped) ls))
     | _ \<Rightarrow> None)"

definition ipv6_int :: "string \<Rightarrow> 128 word option" where
  "ipv6_int s =
    (case ipv6_parts s of
       None \<Rightarrow> None
     | Some parts \<Rightarrow>
         (let n = length parts; skips = filter (\<lambda>i. parts ! i = []) [1..<n - 1]
          in if 9 < n then None
             else (case skips of
                     [] \<Rightarrow> if n \<noteq> 8 \<or> hd parts = [] \<or> last parts = [] then None else ipv6_join parts 8 0 0
                   | [i] \<Rightarrow>
                       (let hi = (if hd parts = [] then i - 1 else i);
                            lo = (if last parts = [] then n - i - 2 else n - i - 1)
                        in if hd parts = [] \<and> hi \<noteq> 0 \<or> last parts = [] \<and> lo \<noteq> 0 \<or> 8 \<le> hi + lo then None
                           else ipv6_join parts hi lo (8 - (hi + lo)))
                   | _ \<Rightarrow> None)))"

definition split_scope :: "string \<Rightarrow> (string \<times> string option) option" where
  "split_scope s =
    (if CHR ''%'' \<notin> set s then Some (s, None)
     else (let a = takeWhile (\<lambda>c. c \<noteq> CHR ''%'') s; scope = drop (Suc (length a)) s
           in if scope = [] \<or> CHR ''%'' \<in> set scope then None else Some (a, Some scope)))"

definition ipv6_address :: "string \<Rightarrow> (128 word \<times> string option) option" where
  "ipv6_address s =
    (if CHR ''/'' \<in> set s then None
     else (case split_scope s of
             None \<Rightarrow> None
           | Some (a, scope) \<Rightarrow> map_option (\<lambda>w. (w, scope)) (ipv6_int a)))"

definition ip_address :: "string \<Rightarrow> ip option" where
  "ip_address s =
    (case ipv4_int s of
       Some w \<Rightarrow> Some (V4 w)
     | None \<Rightarrow> map_option (\<lambda>(w, scope). V6 w scope) (ipv6_address s))"

subsection \<open>Networks\<close>

definition netmask :: "nat \<Rightarrow> 'a::len word" where
  \<comment> \<open>\<^verbatim>\<open>ALL_ONES ^ (ALL_ONES >> prefixlen)\<close>\<close>
  "netmask p = (- 1) XOR drop_bit p (- 1)"

definition prefix_string :: "nat \<Rightarrow> string \<Rightarrow> nat option" where
  "prefix_string max_prefix s = (if digits s \<and> dec_val s \<le> max_prefix then Some (dec_val s) else None)"

definition prefix_of_mask :: "32 word \<Rightarrow> nat option" where
  \<comment> \<open>the length of a contiguous mask\<close>
  "prefix_of_mask w = List.find (\<lambda>p. netmask p = w) [0..<33]"

definition ipv4_prefix :: "string \<Rightarrow> nat option" where
  \<comment> \<open>a number, a net mask or a host mask\<close>
  "ipv4_prefix s =
    (case prefix_string 32 s of
       Some p \<Rightarrow> Some p
     | None \<Rightarrow>
         (case ipv4_int s of
            None \<Rightarrow> None
          | Some w \<Rightarrow> (case prefix_of_mask w of Some p \<Rightarrow> Some p | None \<Rightarrow> prefix_of_mask (w XOR (- 1)))))"

definition ip_network :: "string \<Rightarrow> network option" where
  \<comment> \<open>of a text with a slash, \<open>strict=False\<close>\<close>
  "ip_network s =
    (case split_on CHR ''/'' [] s of
       [a, m] \<Rightarrow>
         (case (ipv4_int a, ipv4_prefix m) of
            (Some w, Some p) \<Rightarrow> Some (N4 (w AND netmask p) p)
          | _ \<Rightarrow>
              (case (ipv6_address a, prefix_string 128 m) of
                 (Some (w, _), Some p) \<Rightarrow> Some (N6 (w AND netmask p) p)
               | _ \<Rightarrow> None))
     | _ \<Rightarrow> None)"

fun in_network :: "ip \<Rightarrow> network \<Rightarrow> bool" where
  "in_network (V4 a) (N4 n p) = (a AND netmask p = n)"
| "in_network (V6 a _) (N6 n p) = (a AND netmask p = n)"
| "in_network _ _ = False"

subsection \<open>The allow-list\<close>

record docs_config =
  dc_enabled :: bool
  dc_allowlist :: "string list"

definition DEFAULT_CONFIG :: docs_config where
  "DEFAULT_CONFIG = \<lparr>dc_enabled = False, dc_allowlist = []\<rparr>"

definition load_config :: "(json \<Rightarrow> string) \<Rightarrow> jfile option \<Rightarrow> docs_config res" where
  \<comment> \<open>a missing or unreadable file is the default: open to everybody\<close>
  "load_config str f =
    (case f of
       Some (Doc data) \<Rightarrow>
         map_sum (\<lambda>e. e) (\<lambda>xs. \<lparr>dc_enabled = truthy (getd data ''enabled'' (JBool False)), dc_allowlist = map (as_text str) xs\<rparr>)
           (iter_json (py_or (dget data ''allowlist'') (JArr [])))
     | _ \<Rightarrow> Inr DEFAULT_CONFIG)"

definition entry_ok :: "string \<Rightarrow> bool" where
  "entry_ok e = (if CHR ''/'' \<in> set e then ip_network e \<noteq> None else ip_address e \<noteq> None)"

definition validate_entry :: "json \<Rightarrow> string res" where
  "validate_entry j =
    (case py_or j (JStr []) of
       JStr s \<Rightarrow> (let e = strip s in if e = [] then Inl (ValueError ''empty entry'')
                                  else if entry_ok e then Inr e else Inl (ValueError ''invalid IP/CIDR''))
     | _ \<Rightarrow> Inl AttributeError)"

fun clean_entries :: "json list \<Rightarrow> string list \<Rightarrow> string list res" where
  "clean_entries [] cleaned = Inr cleaned"
| "clean_entries (j # js) cleaned =
    (case validate_entry j of
       Inl e \<Rightarrow> Inl e
     | Inr v \<Rightarrow> clean_entries js (if v \<in> set cleaned then cleaned else cleaned @ [v]))"

definition save_config :: "bool \<Rightarrow> json list \<Rightarrow> jfile option \<Rightarrow> docs_config res \<times> jfile option" where
  "save_config enabled' allowlist f =
    (case clean_entries allowlist [] of
       Inl e \<Rightarrow> (Inl e, f)
     | Inr cleaned \<Rightarrow>
         (Inr \<lparr>dc_enabled = enabled', dc_allowlist = cleaned\<rparr>,
          Some (Doc [(''enabled'', JBool enabled'), (''allowlist'', JArr (map JStr cleaned))])))"

definition docs_client_ip :: "string option \<Rightarrow> string option \<Rightarrow> string" where
  \<comment> \<open>the header \<^verbatim>\<open>X-Forwarded-For\<close> and the address of the connection\<close>
  "docs_client_ip xff remote =
    (let first = strip (hd (split_on CHR '','' [] (case xff of None \<Rightarrow> [] | Some h \<Rightarrow> h)))
     in if first \<noteq> [] then first else (case remote of None \<Rightarrow> [] | Some r \<Rightarrow> r))"

definition entry_matches :: "ip \<Rightarrow> string \<Rightarrow> bool" where
  "entry_matches addr e =
    (if CHR ''/'' \<in> set e
     then (case ip_network e of None \<Rightarrow> False | Some n \<Rightarrow> in_network addr n)
     else ip_address e = Some addr)"

definition is_allowed :: "string \<Rightarrow> string list \<Rightarrow> bool" where
  "is_allowed ip allowlist =
    (case (if ip = [] then None else ip_address ip) of
       None \<Rightarrow> False
     | Some addr \<Rightarrow> list_ex (entry_matches addr) allowlist)"

definition check_request ::
  "(json \<Rightarrow> string) \<Rightarrow> string option \<Rightarrow> string option \<Rightarrow> jfile option \<Rightarrow> (bool \<times> string) res" where
  "check_request str xff remote f =
    map_sum (\<lambda>e. e)
      (\<lambda>cfg. (let ip = docs_client_ip xff remote in (\<not> dc_enabled cfg \<or> is_allowed ip (dc_allowlist cfg), ip)))
      (load_config str f)"

definition api_update_docs_access :: "principal \<Rightarrow> doc \<Rightarrow> jfile option \<Rightarrow> nat \<times> jfile option" where
  "api_update_docs_access pr data f =
    (if ''admin'' \<notin> set (pr_roles pr) then (403, f)
     else (case py_or (dget data ''allowlist'') (JArr []) of
             JArr xs \<Rightarrow>
               if 500 < length xs then (400, f)
               else (case save_config (truthy (getd data ''enabled'' (JBool False))) xs f of
                       (Inr _, f') \<Rightarrow> (200, f')
                     | (Inl (ValueError _), f') \<Rightarrow> (400, f')
                     | (Inl _, f') \<Rightarrow> (500, f'))
           | _ \<Rightarrow> (400, f)))"

end
