(* ===== verification/DocsAccessProps.thy ===== *)
theory DocsAccessProps
  imports DocsAccess
begin

unbundle bit_operations_syntax

section \<open>The allow-list of the API documentation: properties\<close>

text \<open>
  A network entry admits the addresses with its prefix; what is saved is valid and read back; and
  the address that is checked is the one the client writes in the header.
\<close>

subsection \<open>Texts of addresses\<close>

lemma split_on_chars: "c \<in> set acc \<union> set s \<Longrightarrow> c = x \<or> (\<exists>p \<in> set (split_on x acc s). c \<in> set p)"
proof (induction s arbitrary: acc)
  case (Cons a s)
  show ?case
  proof (cases "a = x")
    case True
    then show ?thesis using Cons.prems Cons.IH [of "[]"] by auto
  next
    case False
    then show ?thesis using Cons.prems Cons.IH [of "acc @ [a]"] by auto
  qed
qed simp

lemma split_on_two:
  "x \<notin> set a \<Longrightarrow> x \<notin> set b \<Longrightarrow> split_on x [] (a @ x # b) = [a, b]"
  using split_on_plain [of x a "[]" "x # b"] split_on_plain [of x b "[]" "[]"] by simp

lemma hd_split_on: "x \<notin> set a \<Longrightarrow> hd (split_on x [] (a @ x # b)) = a"
  using split_on_plain [of x a "[]" "x # b"] by simp

lemma digits_not: "digits s \<Longrightarrow> \<not> is_digit c \<Longrightarrow> c \<notin> set s"
  by (auto simp: digits_def list_all_iff)

lemma octet_digits: "octet p = Some n \<Longrightarrow> digits p"
  by (auto simp: octet_def split: if_splits)

lemma ipv4_parts:
  assumes "ipv4_int s = Some w"
  shows "\<forall>p \<in> set (split_on CHR ''.'' [] s). digits p"
proof -
  from assms obtain a b c d where "map octet (split_on CHR ''.'' [] s) = [Some a, Some b, Some c, Some d]"
    by (auto simp: ipv4_int_def split: list.splits option.splits)
  then have "\<forall>q \<in> set (map octet (split_on CHR ''.'' [] s)). q \<noteq> None" by simp
  then have "\<forall>p \<in> set (split_on CHR ''.'' [] s). \<exists>n. octet p = Some n" by auto
  then show ?thesis using octet_digits by blast
qed

lemma ipv4_chars:
  assumes "ipv4_int s = Some w" "\<not> is_digit c" "c \<noteq> CHR ''.''"
  shows "c \<notin> set s"
proof
  assume "c \<in> set s"
  then obtain p where "p \<in> set (split_on CHR ''.'' [] s)" "c \<in> set p"
    using split_on_chars [of c "[]" s "CHR ''.''"] assms(3) by auto
  then show False using ipv4_parts [OF assms(1)] digits_not assms(2) by blast
qed

lemma separators: "\<not> is_digit CHR ''/''" "\<not> is_digit CHR '','' "
  by (simp_all add: is_digit_def char_in_def)

lemma ip_address_no_slash: "ip_address s = Some a \<Longrightarrow> CHR ''/'' \<notin> set s"
  using ipv4_chars [of s _ "CHR ''/''"] separators
  by (auto simp: ip_address_def ipv6_address_def split: option.splits if_splits)

lemma ip_address_nonempty: "ip_address s = Some a \<Longrightarrow> s \<noteq> []"
  by (auto simp: ip_address_def ipv4_int_def octet_def digits_def ipv6_address_def split_scope_def ipv6_int_def ipv6_parts_def)

lemmas ipv4_eval = ipv4_int_def octet_def digits_def is_digit_def char_in_def dec_val_def

subsection \<open>Networks\<close>

lemma bit_netmask: "bit (netmask p :: 'a::len word) n \<longleftrightarrow> n < LENGTH('a) \<and> LENGTH('a) \<le> n + p"
  by (auto simp: netmask_def bit_simps)

lemma masked_eq_iff_prefix:
  fixes a b :: "'a::len word"
  assumes "p \<le> LENGTH('a)"
  shows "a AND netmask p = b AND netmask p \<longleftrightarrow> drop_bit (LENGTH('a) - p) a = drop_bit (LENGTH('a) - p) b"
proof
  assume eq: "a AND netmask p = b AND netmask p"
  show "drop_bit (LENGTH('a) - p) a = drop_bit (LENGTH('a) - p) b"
  proof (rule bit_word_eqI)
    fix n assume "n < LENGTH('a)"
    from eq have "bit (a AND netmask p) (LENGTH('a) - p + n) = bit (b AND netmask p) (LENGTH('a) - p + n)" by simp
    then show "bit (drop_bit (LENGTH('a) - p) a) n = bit (drop_bit (LENGTH('a) - p) b) n"
      using assms bit_imp_le_length [of a] bit_imp_le_length [of b]
      by (fastforce simp: bit_simps bit_netmask dest: bit_imp_le_length)
  qed
next
  assume eq: "drop_bit (LENGTH('a) - p) a = drop_bit (LENGTH('a) - p) b"
  show "a AND netmask p = b AND netmask p"
  proof (rule bit_word_eqI)
    fix n assume n: "n < LENGTH('a)"
    from eq have "bit (drop_bit (LENGTH('a) - p) a) (n - (LENGTH('a) - p)) = bit (drop_bit (LENGTH('a) - p) b) (n - (LENGTH('a) - p))"
      by simp
    then show "bit (a AND netmask p) n = bit (b AND netmask p) n"
      using n by (auto simp: bit_simps bit_netmask)
  qed
qed

lemma ip_network_v4:
  assumes "ipv4_int base = Some b" "digits m" "dec_val m \<le> 32"
  shows "ip_network (base @ CHR ''/'' # m) = Some (N4 (b AND netmask (dec_val m)) (dec_val m))"
proof -
  have "split_on CHR ''/'' [] (base @ CHR ''/'' # m) = [base, m]"
    by (rule split_on_two) (use assms ipv4_chars digits_not separators in auto)
  moreover have "ipv4_prefix m = Some (dec_val m)" using assms(2,3) by (simp add: ipv4_prefix_def prefix_string_def)
  ultimately show ?thesis using assms(1) by (simp add: ip_network_def)
qed

text \<open>An IPv4 network entry admits exactly the addresses whose leading bits are those of its base,
  whatever the host bits of the base are; a prefix of 0 admits every address, one of 32 only its own.\<close>
theorem cidr_match_is_prefix:
  assumes "ipv4_int base = Some b" "digits m" "dec_val m \<le> 32" "ipv4_int ip = Some a"
  shows "is_allowed ip [base @ CHR ''/'' # m] \<longleftrightarrow> drop_bit (32 - dec_val m) a = drop_bit (32 - dec_val m) b"
proof -
  have ip: "ip_address ip = Some (V4 a)" using assms(4) by (simp add: ip_address_def)
  have "is_allowed ip [base @ CHR ''/'' # m] \<longleftrightarrow> a AND netmask (dec_val m) = b AND netmask (dec_val m)"
    using ip_address_nonempty [OF ip] by (simp add: is_allowed_def ip entry_matches_def ip_network_v4 [OF assms(1-3)])
  also have "\<dots> \<longleftrightarrow> drop_bit (32 - dec_val m) a = drop_bit (32 - dec_val m) b"
    using masked_eq_iff_prefix [of "dec_val m" a b] assms(3) by simp
  finally show ?thesis .
qed

lemma cidr_match_is_prefix_witness:
  "is_allowed ''10.1.2.77'' [''10.1.2.3/24''] \<and> \<not> is_allowed ''10.1.3.3'' [''10.1.2.3/24'']"
proof -
  have base: "ipv4_int ''10.1.2.3'' = Some 167838211" by (simp add: ipv4_eval)
  have near: "ipv4_int ''10.1.2.77'' = Some 167838285" by (simp add: ipv4_eval)
  have far: "ipv4_int ''10.1.3.3'' = Some 167838467" by (simp add: ipv4_eval)
  have m: "digits ''24''" "dec_val ''24'' = 24" by code_simp+
  have "drop_bit 8 (167838285 :: 32 word) = drop_bit 8 167838211" "drop_bit 8 (167838467 :: 32 word) \<noteq> drop_bit 8 167838211"
    by simp_all
  then show ?thesis
    using cidr_match_is_prefix [OF base m(1) _ near] cidr_match_is_prefix [OF base m(1) _ far] by (simp add: m)
qed

subsection \<open>Saving\<close>

lemma clean_entries_ok:
  "clean_entries js acc = Inr cleaned \<Longrightarrow> distinct acc \<Longrightarrow> list_all entry_ok acc \<Longrightarrow>
    distinct cleaned \<and> list_all entry_ok cleaned"
proof (induction js arbitrary: acc)
  case (Cons j js)
  from Cons.prems(1) obtain v where v: "validate_entry j = Inr v"
    and rec: "clean_entries js (if v \<in> set acc then acc else acc @ [v]) = Inr cleaned"
    by (auto split: sum.splits)
  from v have "entry_ok v" by (auto simp: validate_entry_def Let_def split: json.splits if_splits)
  then show ?case using Cons.IH [OF rec] Cons.prems(2,3) by (auto split: if_splits)
qed simp

lemma as_text_strings [simp]: "map (as_text str) (map JStr xs) = xs"
  by (induction xs) (simp_all add: as_text_def)

lemma as_text_JStr [simp]: "as_text str \<circ> JStr = id"
  by (rule ext) (simp add: as_text_def)

text \<open>What is saved is what the next request reads: the switch and a list of valid entries
  without duplicates. An invalid entry anywhere leaves the file as it was.\<close>
theorem saved_allowlist_read_back:
  "case save_config enabled' entries f of
     (Inl e, f') \<Rightarrow> f' = f
   | (Inr cfg, f') \<Rightarrow> load_config str f' = Inr cfg \<and> dc_enabled cfg = enabled' \<and>
       distinct (dc_allowlist cfg) \<and> list_all entry_ok (dc_allowlist cfg)"
proof (cases "clean_entries entries []")
  case (Inr cleaned)
  have "distinct cleaned \<and> list_all entry_ok cleaned" using clean_entries_ok [OF Inr] by simp
  moreover have "load_config str (Some (Doc [(''enabled'', JBool enabled'), (''allowlist'', JArr (map JStr cleaned))])) =
      Inr \<lparr>dc_enabled = enabled', dc_allowlist = cleaned\<rparr>"
    by (cases cleaned) (simp_all add: load_config_def getd_def has_def py_or_def iter_json_def as_text_def)
  ultimately show ?thesis by (simp add: save_config_def Inr)
qed (simp add: save_config_def)

subsection \<open>The forwarded address\<close>

text \<open>With the allow-list switched on, a client that writes an admitted address first in
  \<open>X-Forwarded-For\<close> is admitted from anywhere, whatever the proxies append after it: the first
  element is taken, not the last hop that the comment in the code names.\<close>
theorem forwarded_header_spoofs:
  assumes "load_config str f = Inr cfg" "e \<in> set (dc_allowlist cfg)" "ip_address e = Some a"
    and "strip e = e" "CHR '','' \<notin> set e"
  shows "check_request str (Some (e @ CHR '','' # hops)) remote f = Inr (True, e)"
proof -
  have "docs_client_ip (Some (e @ CHR '','' # hops)) remote = e"
    using ip_address_nonempty [OF assms(3)] hd_split_on [OF assms(5), of hops] assms(4)
    by (simp add: docs_client_ip_def)
  moreover have "is_allowed e (dc_allowlist cfg)"
    using assms(2,3) ip_address_nonempty [OF assms(3)] ip_address_no_slash [OF assms(3)]
    by (auto simp: is_allowed_def entry_matches_def list_ex_iff)
  ultimately show ?thesis using assms(1) by (simp add: check_request_def)
qed

definition docs_file :: "jfile option" where
  "docs_file = Some (Doc [(''enabled'', JBool True), (''allowlist'', JArr [JStr ''10.0.0.7''])])"

lemma forwarded_header_spoofs_witness:
  "check_request (\<lambda>_. []) (Some ''10.0.0.7, 203.0.113.9'') (Some ''203.0.113.9'') docs_file = Inr (True, ''10.0.0.7'') \<and>
   check_request (\<lambda>_. []) None (Some ''203.0.113.9'') docs_file = Inr (False, ''203.0.113.9'')"
proof
  have cfg: "load_config (\<lambda>_. []) docs_file = Inr \<lparr>dc_enabled = True, dc_allowlist = [''10.0.0.7'']\<rparr>"
    by (simp add: docs_file_def load_config_def getd_def has_def py_or_def iter_json_def as_text_def)
  have "ip_address ''10.0.0.7'' = Some (V4 167772167)" by (simp add: ip_address_def ipv4_eval)
  then show "check_request (\<lambda>_. []) (Some ''10.0.0.7, 203.0.113.9'') (Some ''203.0.113.9'') docs_file = Inr (True, ''10.0.0.7'')"
    using forwarded_header_spoofs [OF cfg, of "''10.0.0.7''" _ "'' 203.0.113.9''" "Some ''203.0.113.9''"]
    by (simp add: strip_def is_space_def char_in_def)
  have "docs_client_ip None (Some ''203.0.113.9'') = ''203.0.113.9''" by code_simp
  moreover have "is_allowed ''203.0.113.9'' [''10.0.0.7''] = False"
    by (simp add: is_allowed_def entry_matches_def ip_address_def ipv4_eval)
  ultimately show "check_request (\<lambda>_. []) None (Some ''203.0.113.9'') docs_file = Inr (False, ''203.0.113.9'')"
    using cfg by (simp add: check_request_def)
qed

end
