(* ===== verification/SecretCrypto.thy ===== *)
theory SecretCrypto
  imports Prelude
begin

section \<open>Encryption of the global secrets\<close>

text \<open>
  \<^verbatim>\<open>server/utils/secret_encryption.py\<close>. Byte strings are lists of characters, and a Python string
  stands for its UTF-8 bytes. The package \<^verbatim>\<open>cryptography\<close> is the argument \<open>crypto\<close>: the key
  derivation and the authenticated cipher, with the laws the code relies on in the locale
  \<open>aead_laws\<close>. Base 64 is Python's own: its decoder skips foreign characters and stops at the
  padding.
\<close>

subsection \<open>Base 64\<close>

definition b64_char :: "nat \<Rightarrow> char" where
  "b64_char n =
    (if n < 26 then char_of (65 + n) else if n < 52 then char_of (71 + n)
     else if n < 62 then char_of (n - 4) else if n = 62 then CHR ''+'' else CHR ''/'')"

definition b64_value :: "char \<Rightarrow> nat option" where
  "b64_value c =
    (if is_upper c then Some (of_char c - 65) else if is_lower c then Some (of_char c - 71)
     else if is_digit c then Some (of_char c + 4) else if c = CHR ''+'' then Some 62
     else if c = CHR ''/'' then Some 63 else None)"

fun b64_encode :: "string \<Rightarrow> string" where
  "b64_encode [] = []"
| "b64_encode [a] =
    (let x = of_char a in [b64_char (x div 4), b64_char (x mod 4 * 16), CHR ''='', CHR ''=''])"
| "b64_encode [a, b] =
    (let x = of_char a; y = of_char b
     in [b64_char (x div 4), b64_char (x mod 4 * 16 + y div 16), b64_char (y mod 16 * 4), CHR ''=''])"
| "b64_encode (a # b # c # s) =
    (let x = of_char a; y = of_char b; z = of_char c
     in b64_char (x div 4) # b64_char (x mod 4 * 16 + y div 16) # b64_char (y mod 16 * 4 + z div 64) #
        b64_char (z mod 64) # b64_encode s)"

fun b64_go :: "nat \<Rightarrow> nat \<Rightarrow> nat \<Rightarrow> string \<Rightarrow> string option" where
  \<comment> \<open>the place within four characters, the padding seen, the bits left over\<close>
  "b64_go q pads left [] = (if q = 0 then Some [] else None)"
| "b64_go q pads left (c # s) =
    (if c = CHR ''='' then
       (if 2 \<le> q \<and> 4 \<le> q + pads + 1 then Some [] else b64_go q (if 2 \<le> q then pads + 1 else pads) left s)
     else (case b64_value c of
             None \<Rightarrow> b64_go q pads left s
           | Some v \<Rightarrow>
               (if q = 0 then b64_go 1 0 v s
                else if q = 1 then map_option ((#) (char_of (left * 4 + v div 16))) (b64_go 2 0 (v mod 16) s)
                else if q = 2 then map_option ((#) (char_of (left * 16 + v div 4))) (b64_go 3 0 (v mod 4) s)
                else map_option ((#) (char_of (left * 64 + v))) (b64_go 0 0 0 s))))"

definition b64_decode :: "string \<Rightarrow> string option" where
  \<comment> \<open>\<open>None\<close>: \<open>binascii.Error\<close>\<close>
  "b64_decode s = b64_go 0 0 0 s"

subsection \<open>UTF-8\<close>

definition cont :: "nat \<Rightarrow> nat \<Rightarrow> nat \<Rightarrow> bool" where "cont lo hi n = (lo \<le> n \<and> n \<le> hi)"

fun utf8_ok :: "nat list \<Rightarrow> bool" where
  "utf8_ok [] = True"
| "utf8_ok (a # s) =
    (if a < 128 then utf8_ok s
     else if cont 194 223 a then (case s of b # t \<Rightarrow> cont 128 191 b \<and> utf8_ok t | _ \<Rightarrow> False)
     else if cont 224 239 a then
       (case s of b # c # t \<Rightarrow>
          cont (if a = 224 then 160 else 128) (if a = 237 then 159 else 191) b \<and> cont 128 191 c \<and> utf8_ok t
        | _ \<Rightarrow> False)
     else if cont 240 244 a then
       (case s of b # c # d # t \<Rightarrow>
          cont (if a = 240 then 144 else 128) (if a = 244 then 143 else 191) b \<and> cont 128 191 c \<and> cont 128 191 d \<and> utf8_ok t
        | _ \<Rightarrow> False)
     else False)"

definition utf8_text :: "string \<Rightarrow> bool" where
  "utf8_text s = utf8_ok (map of_char s)"

subsection \<open>The cipher\<close>

record crypto =
  cx_kdf :: "string \<Rightarrow> string \<Rightarrow> string"
  cx_seal :: "string \<Rightarrow> string \<Rightarrow> string \<Rightarrow> string"
  cx_unseal :: "string \<Rightarrow> string \<Rightarrow> string \<Rightarrow> string option"

definition V2_PREFIX :: string where "V2_PREFIX = ''v2''"
definition LEGACY_FIXED_SALT :: string where "LEGACY_FIXED_SALT = ''global_secrets_salt''"

definition encrypt :: "crypto \<Rightarrow> string \<Rightarrow> string \<Rightarrow> string \<Rightarrow> string \<Rightarrow> string" where
  \<comment> \<open>with the salt and the nonce drawn for the call\<close>
  "encrypt C server_key salt nonce plaintext =
    (if plaintext = [] then []
     else b64_encode (V2_PREFIX @ salt @ nonce @ cx_seal C (cx_kdf C server_key salt) nonce plaintext))"

definition unsealed :: "string option \<Rightarrow> string res" where
  \<comment> \<open>the plaintext as a text; every exception becomes a \<open>ValueError\<close>\<close>
  "unsealed p =
    (case p of
       None \<Rightarrow> Inl (ValueError ''Decryption failed'')
     | Some t \<Rightarrow> if utf8_text t then Inr t else Inl (ValueError ''Decryption failed''))"

definition decrypt :: "crypto \<Rightarrow> string \<Rightarrow> string \<Rightarrow> string res" where
  "decrypt C server_key encrypted_data =
    (if encrypted_data = [] then Inr []
     else (case b64_decode encrypted_data of
             None \<Rightarrow> Inl (ValueError ''Decryption failed'')
           | Some d \<Rightarrow>
               if starts_with d V2_PREFIX then
                 (let payload = drop 2 d
                  in if length payload < 16 + 12 + 16 then Inl (ValueError ''Decryption failed'')
                     else unsealed (cx_unseal C (cx_kdf C server_key (take 16 payload)) (take 12 (drop 16 payload)) (drop 28 payload)))
               else if length d < 12 + 16 then Inl (ValueError ''Decryption failed'')
               else unsealed (cx_unseal C (cx_kdf C server_key LEGACY_FIXED_SALT) (take 12 d) (drop 12 d))))"

subsection \<open>The server key\<close>

text \<open>The key comes from the environment or from a file on the data volume; a new one is written
  there. A failing write is swallowed.\<close>

definition load_encryption_key :: "string option \<Rightarrow> string option \<Rightarrow> string option" where
  "load_encryption_key env keyfile =
    (case env of
       Some (c # k) \<Rightarrow> Some (c # k)
     | _ \<Rightarrow> (case map_option strip keyfile of Some (c # k) \<Rightarrow> Some (c # k) | _ \<Rightarrow> None))"

definition save_encryption_key :: "bool \<Rightarrow> string \<Rightarrow> string option \<Rightarrow> bool \<times> string option" where
  "save_encryption_key writable key keyfile = (if writable then (True, Some key) else (False, keyfile))"

definition get_encryption :: "string option \<Rightarrow> bool \<Rightarrow> string \<Rightarrow> string option \<Rightarrow> string \<times> string option" where
  \<comment> \<open>at the first use in a process; \<open>fresh\<close>: the key that is generated when there is none\<close>
  "get_encryption env writable fresh keyfile =
    (case load_encryption_key env keyfile of
       Some k \<Rightarrow> (k, keyfile)
     | None \<Rightarrow> (fresh, snd (save_encryption_key writable fresh keyfile)))"

subsection \<open>The laws of the cipher and the round trip\<close>

locale aead_laws =
  fixes C :: crypto
  assumes unseal_seal: "cx_unseal C k n (cx_seal C k n p) = Some p"
    and length_seal: "length (cx_seal C k n p) = length p + 16"

lemma of_char_sub: "n < 256 \<Longrightarrow> (of_char (char_of n) :: nat) = n" for n :: nat
  by (simp add: of_char_of)

lemma char_eq_iff: "c = d \<longleftrightarrow> (of_char c :: nat) = of_char d"
  by simp

lemma b64_value_char: "n < 64 \<Longrightarrow> b64_value (b64_char n) = Some n \<and> b64_char n \<noteq> CHR ''=''"
  by (auto simp: b64_char_def b64_value_def is_upper_def is_lower_def is_digit_def char_in_def Let_def char_eq_iff of_char_sub
           simp del: of_char_eq_iff)

lemma b64_go_char:
  assumes "n < 64"
  shows "b64_go 0 p l (b64_char n # s) = b64_go 1 0 n s"
    "b64_go 1 p l (b64_char n # s) = map_option ((#) (char_of (l * 4 + n div 16))) (b64_go 2 0 (n mod 16) s)"
    "b64_go 2 p l (b64_char n # s) = map_option ((#) (char_of (l * 16 + n div 4))) (b64_go 3 0 (n mod 4) s)"
    "b64_go 3 p l (b64_char n # s) = map_option ((#) (char_of (l * 64 + n))) (b64_go 0 0 0 s)"
  using b64_value_char [OF assms] by simp_all

lemma split_digit:
  fixes b :: nat
  assumes "b < n"
  shows "(a * n + b) div n = a" "(a * n + b) mod n = b"
  using assms by simp_all

lemma byte_bounds:
  fixes x :: nat
  assumes "x < 256"
  shows "x div 4 < 64" "x div 16 < 16" "x div 64 < 4" "x mod 4 < 4" "x mod 16 < 16" "x mod 64 < 64"
  using assms by simp_all

lemma join_bounds:
  fixes a b :: nat
  shows "a < 4 \<Longrightarrow> b < 16 \<Longrightarrow> a * 16 + b < 64" "a < 16 \<Longrightarrow> b < 4 \<Longrightarrow> a * 4 + b < 64" "a < 4 \<Longrightarrow> a * 16 < 64" "a < 16 \<Longrightarrow> a * 4 < 64"
  by simp_all

lemma byte_split: "x div 4 * 4 + x mod 4 = (x :: nat)" "x div 16 * 16 + x mod 16 = x" "x div 64 * 64 + x mod 64 = x"
  by simp_all

lemma b64_go_pad: "b64_go 2 0 l ''=='' = Some []" "b64_go 3 0 l ''='' = Some []"
  by simp_all

lemma b64_one:
  assumes "x < 256"
  shows "b64_go 0 p l [b64_char (x div 4), b64_char (x mod 4 * 16), CHR ''='', CHR ''=''] = Some [char_of x]"
proof -
  have "x mod 4 * 16 div 16 = x mod 4" "x mod 4 * 16 mod 16 = 0" by simp_all
  then show ?thesis
    using byte_bounds [OF assms] by (simp only: b64_go_char join_bounds b64_go_pad option.map byte_split)
qed

lemma b64_two:
  assumes "x < 256" "y < 256"
  shows "b64_go 0 p l [b64_char (x div 4), b64_char (x mod 4 * 16 + y div 16), b64_char (y mod 16 * 4), CHR ''=''] =
    Some [char_of x, char_of y]"
proof -
  have "y mod 16 * 4 div 4 = y mod 16" "y mod 16 * 4 mod 4 = 0" by simp_all
  then show ?thesis
    using byte_bounds [OF assms(1)] byte_bounds [OF assms(2)]
    by (simp only: b64_go_char join_bounds split_digit b64_go_pad option.map byte_split)
qed

lemma b64_three:
  assumes "x < 256" "y < 256" "z < 256"
  shows "b64_go 0 p l (b64_char (x div 4) # b64_char (x mod 4 * 16 + y div 16) # b64_char (y mod 16 * 4 + z div 64) #
      b64_char (z mod 64) # s) =
    map_option (\<lambda>t. char_of x # char_of y # char_of z # t) (b64_go 0 0 0 s)"
  using byte_bounds [OF assms(1)] byte_bounds [OF assms(2)] byte_bounds [OF assms(3)]
  by (simp only: b64_go_char join_bounds split_digit byte_split option.map_comp comp_def)

lemma b64_go_encode: "b64_go 0 p l (b64_encode s) = Some s"
proof (induction s arbitrary: p l rule: b64_encode.induct)
  case 1
  show ?case by simp
next
  case (2 a)
  show ?case by (simp only: b64_encode.simps Let_def b64_one of_char_less char_of_char)
next
  case (3 a b)
  show ?case by (simp only: b64_encode.simps Let_def b64_two of_char_less char_of_char)
next
  case (4 a b c s)
  then show ?case by (simp only: b64_encode.simps Let_def b64_three of_char_less char_of_char option.map)
qed

lemma b64_roundtrip [simp]: "b64_decode (b64_encode s) = Some s"
  by (simp add: b64_decode_def b64_go_encode)

lemma b64_encode_Nil [simp]: "b64_encode s = [] \<longleftrightarrow> s = []"
  by (cases s rule: b64_encode.cases) (simp_all add: Let_def)

lemma starts_with_append [simp]: "starts_with (p @ s) p"
  by (simp add: starts_with_def)

context aead_laws
begin

lemma decrypt_encrypt:
  assumes "length salt = 16" "length nonce = 12" "utf8_text p"
  shows "decrypt C k (encrypt C k salt nonce p) = Inr p"
proof (cases "p = []")
  case False
  have "take 12 (drop 16 (salt @ nonce @ t)) = nonce" "take 16 (salt @ nonce @ t) = salt"
    "drop 28 (salt @ nonce @ t) = t" for t
    using assms(1,2) by simp_all
  then show ?thesis
    using False assms(1,2,3) by (simp add: encrypt_def decrypt_def V2_PREFIX_def starts_with_def length_seal unseal_seal unsealed_def)
qed (simp add: encrypt_def decrypt_def)

lemma legacy_readable:
  assumes "length nonce = 12" "utf8_text p" "\<not> starts_with nonce V2_PREFIX"
  shows "decrypt C k (b64_encode (nonce @ cx_seal C (cx_kdf C k LEGACY_FIXED_SALT) nonce p)) = Inr p"
proof -
  have "\<not> starts_with (nonce @ t) V2_PREFIX" for t
    using assms(1,3) by (simp add: starts_with_def V2_PREFIX_def)
  moreover have "nonce \<noteq> []" using assms(1) by auto
  ultimately show ?thesis
    using assms(1,2) by (simp add: decrypt_def length_seal unseal_seal unsealed_def)
qed

end

end
