(* ===== verification/Secrets.thy ===== *)
theory Secrets
  imports SecretCrypto AccountRoutes Dispatcher "HOL-Library.Char_ord" "HOL-Library.List_Lexorder"
begin

section \<open>Global secrets\<close>

text \<open>
  \<^verbatim>\<open>server/services/global_secrets_manager.py\<close> and the handlers of
  \<^verbatim>\<open>server/api/global_secrets_routes.py\<close>. The state holds the secret files by id, the file of the server key and the
  key that the manager of the running process was made with. \<open>str\<close> is Python's \<open>str\<close> of a value
  that is no text; \<open>enc\<close> gives, for each field of one call, the encryption with a fresh salt and nonce.
\<close>

record secret_store =
  sx_files :: "(string \<times> jfile) list"
  sx_keyfile :: "string option"
  sx_key :: string

definition SECRET_TYPES :: "(string \<times> string list \<times> string list \<times> string list) list" where
  \<comment> \<open>required, optional and metadata fields\<close>
  "SECRET_TYPES =
    [(''git_ssh_key'', [''privateKey''], [''passphrase'', ''username'', ''publicKey'', ''fingerprint''],
       [''username'', ''keyType'', ''keySize'', ''comment'', ''fingerprint'']),
     (''git_token'', [''token''], [''username''], [''provider'', ''username'', ''scope'', ''expiresAt'', ''tokenPrefix'']),
     (''basic_auth'', [''username'', ''password''], [], [''username'', ''registry'']),
     (''registry_token'', [''token''], [], [''registry'', ''tokenType'', ''expiresAt'', ''tokenPrefix'']),
     (''vault_token'', [''token''], [], [''vaultUrl'', ''policy'', ''expiresAt'', ''tokenPrefix''])]"

definition SECRET_MATERIAL_FIELDS :: "string list" where
  "SECRET_MATERIAL_FIELDS = [''privateKey'', ''passphrase'', ''token'', ''password'']"

abbreviation secret_error :: py_error where "secret_error \<equiv> OtherError ''GlobalSecretError''"

subsection \<open>Validation\<close>

definition secret_path_ok :: "string \<Rightarrow> bool" where
  "secret_path_ok i = (\<not> contains i ''..'' \<and> CHR ''/'' \<notin> set i \<and> CHR 0x5C \<notin> set i)"

definition validate_secret_name :: "json \<Rightarrow> bool" where
  "validate_secret_name j =
    (case j of
       JStr s \<Rightarrow>
         (let name = strip s
          in s \<noteq> [] \<and> 3 \<le> length name \<and> length name \<le> 64 \<and>
             list_all (\<lambda>c. is_lower c \<or> is_upper c \<or> is_digit c \<or> c = CHR ''_'' \<or> c = CHR ''-'') name)
     | _ \<Rightarrow> False)"

definition ssh_key_ok :: "doc \<Rightarrow> bool res" where
  \<comment> \<open>the fall-back of the import: there is no module \<^verbatim>\<open>services.app\<close>\<close>
  "ssh_key_ok d =
    (case getd d ''privateKey'' (JStr []) of
       JStr s \<Rightarrow> (let k = strip s in Inr (k = [] \<or> starts_with k ''-----BEGIN'' \<and> ends_with k ''-----''))
     | _ \<Rightarrow> Inl AttributeError)"

definition validate_secret_data :: "(json \<Rightarrow> string) \<Rightarrow> json \<Rightarrow> doc \<Rightarrow> bool res" where
  "validate_secret_data str secret_type d =
    (case secret_type of
       JArr _ \<Rightarrow> Inl TypeError
     | JObj _ \<Rightarrow> Inl TypeError
     | t \<Rightarrow>
         (case (case t of JStr s \<Rightarrow> map_of SECRET_TYPES s | _ \<Rightarrow> None) of
            None \<Rightarrow> Inr False
          | Some (required, optional, meta) \<Rightarrow>
              if list_ex (\<lambda>f. \<not> truthy (dget d f) \<or> strip (as_text str (dget d f)) = []) required then Inr False
              else if t = JStr ''git_ssh_key'' then ssh_key_ok d
              else Inr True))"

subsection \<open>Encryption of the fields\<close>

definition encrypt_secret_material :: "(json \<Rightarrow> string) \<Rightarrow> (string \<Rightarrow> string \<Rightarrow> string) \<Rightarrow> doc \<Rightarrow> doc" where
  "encrypt_secret_material str enc d =
    fold (\<lambda>f d. if truthy (dget d f) \<and> as_text str (dget d f) \<noteq> [] then dset d f (JStr (enc f (as_text str (dget d f)))) else d)
      SECRET_MATERIAL_FIELDS d"

definition fresh_enc :: "crypto \<Rightarrow> string \<Rightarrow> (string \<Rightarrow> string \<times> string) \<Rightarrow> string \<Rightarrow> string \<Rightarrow> string" where
  \<comment> \<open>\<open>rnd\<close>: the salt and the nonce drawn for a field\<close>
  "fresh_enc C key rnd f p = encrypt C key (fst (rnd f)) (snd (rnd f)) p"

fun decrypt_fields :: "(json \<Rightarrow> string) \<Rightarrow> (string \<Rightarrow> string res) \<Rightarrow> string list \<Rightarrow> doc \<Rightarrow> doc res" where
  "decrypt_fields str dec [] d = Inr d"
| "decrypt_fields str dec (f # fs) d =
    (if truthy (dget d f) then
       (case dec (as_text str (dget d f)) of
          Inl e \<Rightarrow> Inl secret_error
        | Inr p \<Rightarrow> decrypt_fields str dec fs (dset d f (JStr p)))
     else decrypt_fields str dec fs d)"

definition decrypt_secret_material :: "(json \<Rightarrow> string) \<Rightarrow> (string \<Rightarrow> string res) \<Rightarrow> doc \<Rightarrow> doc res" where
  "decrypt_secret_material str dec d = decrypt_fields str dec SECRET_MATERIAL_FIELDS d"

definition sanitize_secret_for_api :: "(json \<Rightarrow> string) \<Rightarrow> doc \<Rightarrow> doc res" where
  "sanitize_secret_for_api str d =
    (let sanitized = fold (\<lambda>f d. dpop d f) SECRET_MATERIAL_FIELDS d;
         masked = (\<lambda>prefix. case getd sanitized ''metadata'' (JObj []) of
                     JObj m \<Rightarrow> Inr (dset sanitized ''metadata'' (JObj (dset m ''tokenPrefix'' (JStr (prefix @ ''***'')))))
                   | _ \<Rightarrow> Inl TypeError)
     in if truthy (dget d ''token'') then
          (case dget d ''token'' of
             JStr t \<Rightarrow> masked (take 8 t)
           | JArr xs \<Rightarrow> masked (str (JArr (take 8 xs)))
           | _ \<Rightarrow> Inl TypeError)
        else Inr sanitized)"

subsection \<open>Listing and reading\<close>

definition lower_name :: "doc \<Rightarrow> string \<Rightarrow> string res" where
  "lower_name d k = (case getd d k (JStr []) of JStr s \<Rightarrow> Inr (lower s) | _ \<Rightarrow> Inl AttributeError)"

definition search_hits :: "string \<Rightarrow> doc \<Rightarrow> bool" where
  \<comment> \<open>an exception skips the file\<close>
  "search_hits search d =
    (case (lower_name d ''name'', lower_name d ''description'') of
       (Inr n, Inr t) \<Rightarrow> contains n (lower search) \<or> contains t (lower search)
     | _ \<Rightarrow> False)"

definition listed_secret :: "(json \<Rightarrow> string) \<Rightarrow> string option \<Rightarrow> string option \<Rightarrow> jfile \<Rightarrow> doc option" where
  "listed_secret str typ search f =
    (case f of
       Corrupt \<Rightarrow> None
     | Doc d \<Rightarrow>
         if (case typ of Some (c # t) \<Rightarrow> dget d ''type'' \<noteq> JStr (c # t) | _ \<Rightarrow> False) then None
         else if (case search of Some (c # s) \<Rightarrow> \<not> search_hits (c # s) d | _ \<Rightarrow> False) then None
         else (case sanitize_secret_for_api str d of Inl e \<Rightarrow> None | Inr s \<Rightarrow> Some s))"

definition list_secrets :: "(json \<Rightarrow> string) \<Rightarrow> string option \<Rightarrow> string option \<Rightarrow> secret_store \<Rightarrow> doc list res" where
  "list_secrets str typ search S =
    (let found = List.map_filter (listed_secret str typ search) (map snd (sx_files S))
     in if list_all (\<lambda>d. is_ok (lower_name d ''name'')) found
        then Inr (sort_key (\<lambda>d. case lower_name d ''name'' of Inr n \<Rightarrow> n | Inl e \<Rightarrow> []) found)
        else Inl AttributeError)"

definition get_secret :: "crypto \<Rightarrow> (json \<Rightarrow> string) \<Rightarrow> string \<Rightarrow> bool \<Rightarrow> secret_store \<Rightarrow> doc option res" where
  "get_secret C str i include_material S =
    (if \<not> secret_path_ok i then Inl secret_error
     else (case map_of (sx_files S) i of
             None \<Rightarrow> Inr None
           | Some Corrupt \<Rightarrow> Inl secret_error
           | Some (Doc d) \<Rightarrow>
               (case (if include_material then decrypt_secret_material str (decrypt C (sx_key S)) d
                      else sanitize_secret_for_api str d) of
                  Inl e \<Rightarrow> Inl secret_error
                | Inr d' \<Rightarrow> Inr (Some d'))))"

subsection \<open>Creating\<close>

definition name_in_use :: "(doc \<Rightarrow> bool) \<Rightarrow> string \<Rightarrow> doc list \<Rightarrow> bool" where
  "name_in_use counts name existing = list_ex (\<lambda>d. counts d \<and> lower_name d ''name'' = Inr (lower name)) existing"

definition type_fields :: "string \<Rightarrow> string list \<times> string list \<times> string list" where
  "type_fields t = (case map_of SECRET_TYPES t of None \<Rightarrow> ([], [], []) | Some x \<Rightarrow> x)"

definition new_secret :: "string \<Rightarrow> string \<Rightarrow> string \<Rightarrow> string \<Rightarrow> string \<Rightarrow> string option \<Rightarrow> doc \<Rightarrow> doc" where
  \<comment> \<open>before encryption; \<open>now\<close> is the time stamp as text\<close>
  "new_secret i now creator name t description d =
    (case type_fields t of
       (required, optional, meta) \<Rightarrow>
         fold (\<lambda>f s. if truthy (dget d f) then dset s f (dget d f) else s) (required @ optional)
           [(''id'', JStr i), (''name'', JStr (strip name)), (''type'', JStr t),
            (''description'', JStr (case description of None \<Rightarrow> [] | Some x \<Rightarrow> strip x)),
            (''createdAt'', JStr now), (''updatedAt'', JStr now), (''createdBy'', JStr creator),
            (''version'', JNum 1), (''scope'', JStr ''global''),
            (''metadata'', JObj (fold (\<lambda>f m. if has d f then dset m f (dget d f) else m) meta []))])"

definition write_secret :: "bool \<Rightarrow> (json \<Rightarrow> string) \<Rightarrow> string \<Rightarrow> doc \<Rightarrow> secret_store \<Rightarrow> doc res \<times> secret_store" where
  \<comment> \<open>the end of creation and update: the file, then the answer without the material\<close>
  "write_secret writable str i d S =
    (if writable then (sanitize_secret_for_api str d, S\<lparr>sx_files := AList.update i (Doc d) (sx_files S)\<rparr>)
     else (Inl secret_error, S))"

definition create_secret ::
  "(json \<Rightarrow> string) \<Rightarrow> (string \<Rightarrow> string \<Rightarrow> string) \<Rightarrow> bool \<Rightarrow> string \<Rightarrow> string \<Rightarrow> string \<Rightarrow> string \<Rightarrow> string \<Rightarrow> doc \<Rightarrow> string option
   \<Rightarrow> secret_store \<Rightarrow> doc res \<times> secret_store" where
  "create_secret str enc writable uuid now creator name t d description S =
    (if \<not> validate_secret_name (JStr name) then (Inl secret_error, S)
     else if map_of SECRET_TYPES t = None then (Inl secret_error, S)
     else (case validate_secret_data str (JStr t) d of
             Inl e \<Rightarrow> (Inl e, S)
           | Inr ok \<Rightarrow>
               if \<not> ok then (Inl secret_error, S)
               else (case list_secrets str None None S of
                       Inl e \<Rightarrow> (Inl e, S)
                     | Inr existing \<Rightarrow>
                         if name_in_use (\<lambda>d. True) name existing then (Inl secret_error, S)
                         else if \<not> secret_path_ok uuid then (Inl secret_error, S)
                         else write_secret writable str uuid
                                (encrypt_secret_material str enc (new_secret uuid now creator name t description d)) S)))"

subsection \<open>Updating and deleting\<close>

definition dict_update :: "json \<Rightarrow> json \<Rightarrow> json res" where
  \<comment> \<open>\<open>target.update(value)\<close>; of the sequences that are no objects only the empty ones are accepted\<close>
  "dict_update target value =
    (case target of
       JObj m \<Rightarrow>
         (case value of
            JObj u \<Rightarrow> Inr (JObj (dupd m u))
          | JArr xs \<Rightarrow> if xs = [] then Inr (JObj m) else Inl (ValueError ''dictionary update sequence'')
          | JStr s \<Rightarrow> if s = [] then Inr (JObj m) else Inl (ValueError ''dictionary update sequence'')
          | _ \<Rightarrow> Inl TypeError)
     | _ \<Rightarrow> Inl AttributeError)"

definition rename_secret :: "(json \<Rightarrow> string) \<Rightarrow> string \<Rightarrow> json \<Rightarrow> secret_store \<Rightarrow> doc \<Rightarrow> doc res" where
  "rename_secret str i name S d =
    (case name of
       JNull \<Rightarrow> Inr d
     | JStr n \<Rightarrow>
         if \<not> validate_secret_name name then Inl secret_error
         else (case list_secrets str None None S of
                 Inl e \<Rightarrow> Inl e
               | Inr existing \<Rightarrow>
                   if name_in_use (\<lambda>d. dget d ''id'' \<noteq> JStr i) n existing then Inl secret_error
                   else Inr (dset d ''name'' (JStr (strip n))))
     | _ \<Rightarrow> Inl secret_error)"

definition describe_secret :: "json \<Rightarrow> doc \<Rightarrow> doc res" where
  "describe_secret description d =
    (case description of
       JNull \<Rightarrow> Inr d
     | JStr s \<Rightarrow> Inr (dset d ''description'' (JStr (strip s)))
     | _ \<Rightarrow> Inl AttributeError)"

definition update_metadata :: "json \<Rightarrow> doc \<Rightarrow> doc res" where
  "update_metadata metadata d =
    (if metadata = JNull then Inr d
     else (case dict_update (getd d ''metadata'' (JObj [])) metadata of
             Inl e \<Rightarrow> Inl e
           | Inr m \<Rightarrow> Inr (dset d ''metadata'' m)))"

definition optional_fields :: "doc \<Rightarrow> string list" where
  "optional_fields d = (case dget d ''type'' of JStr t \<Rightarrow> fst (snd (type_fields t)) | _ \<Rightarrow> [])"

definition set_fields :: "string list \<Rightarrow> doc \<Rightarrow> doc \<Rightarrow> doc" where
  \<comment> \<open>the entries of \<open>u\<close> with an allowed key\<close>
  "set_fields allowed u d = fold (\<lambda>(f, v) d. if f \<in> set allowed then dset d f v else d) u d"

definition update_material :: "(json \<Rightarrow> string) \<Rightarrow> doc option \<Rightarrow> doc \<Rightarrow> doc res" where
  "update_material str material d =
    (case material of
       None \<Rightarrow> Inr d
     | Some u \<Rightarrow>
         (case validate_secret_data str (dget d ''type'') (dupd d u) of
            Inl e \<Rightarrow> Inl e
          | Inr ok \<Rightarrow>
              if \<not> ok then Inl secret_error
              else Inr (set_fields (SECRET_MATERIAL_FIELDS @ optional_fields d) u d)))"

definition edit_secret ::
  "(json \<Rightarrow> string) \<Rightarrow> string \<Rightarrow> json \<Rightarrow> json \<Rightarrow> json \<Rightarrow> doc option \<Rightarrow> secret_store \<Rightarrow> doc \<Rightarrow> doc res" where
  \<comment> \<open>all that \<open>update_secret\<close> does to the decrypted document\<close>
  "edit_secret str i name description metadata material S d =
    (case rename_secret str i name S d of
       Inl e \<Rightarrow> Inl e
     | Inr d1 \<Rightarrow>
         (case describe_secret description d1 of
            Inl e \<Rightarrow> Inl e
          | Inr d2 \<Rightarrow>
              (case update_metadata metadata d2 of
                 Inl e \<Rightarrow> Inl e
               | Inr d3 \<Rightarrow> update_material str material d3)))"

definition update_secret ::
  "crypto \<Rightarrow> (json \<Rightarrow> string) \<Rightarrow> (string \<Rightarrow> string \<Rightarrow> string) \<Rightarrow> bool \<Rightarrow> string \<Rightarrow> string \<Rightarrow> json \<Rightarrow> json \<Rightarrow> json \<Rightarrow> doc option
   \<Rightarrow> secret_store \<Rightarrow> doc res \<times> secret_store" where
  "update_secret C str enc writable now i name description metadata material S =
    (if \<not> secret_path_ok i then (Inl secret_error, S)
     else (case map_of (sx_files S) i of
             None \<Rightarrow> (Inl secret_error, S)
           | Some Corrupt \<Rightarrow> (Inl (ValueError ''json''), S)
           | Some (Doc d) \<Rightarrow>
               (case decrypt_secret_material str (decrypt C (sx_key S)) d of
                  Inl e \<Rightarrow> (Inl e, S)
                | Inr plain \<Rightarrow>
                    (case edit_secret str i name description metadata material S plain of
                       Inl e \<Rightarrow> (Inl e, S)
                     | Inr d' \<Rightarrow>
                         write_secret writable str i (encrypt_secret_material str enc (dset d' ''updatedAt'' (JStr now))) S))))"

definition delete_secret :: "bool \<Rightarrow> string \<Rightarrow> secret_store \<Rightarrow> bool res \<times> secret_store" where
  "delete_secret writable i S =
    (if \<not> secret_path_ok i then (Inl secret_error, S)
     else if map_of (sx_files S) i = None then (Inr False, S)
     else if \<not> writable then (Inl secret_error, S)
     else (Inr True, S\<lparr>sx_files := AList.delete i (sx_files S)\<rparr>))"

definition git_secret :: "doc \<Rightarrow> bool" where
  "git_secret d = (dget d ''type'' \<in> {JStr ''git_ssh_key'', JStr ''git_token''})"

definition ssh_like :: "doc \<Rightarrow> bool res" where
  "ssh_like d = (case lower_name d ''type'' of Inl e \<Rightarrow> Inl e | Inr t \<Rightarrow> Inr (contains t ''ssh'' \<or> contains t ''key''))"

definition get_secret_options :: "(json \<Rightarrow> string) \<Rightarrow> string option \<Rightarrow> secret_store \<Rightarrow> doc list res" where
  "get_secret_options str purpose S =
    (case list_secrets str None None S of
       Inl e \<Rightarrow> Inl e
     | Inr secrets \<Rightarrow>
         (let gits = filter git_secret secrets;
              chosen = (if purpose \<noteq> Some ''git'' then Inr secrets
                        else if gits \<noteq> [] then Inr gits
                        else if list_all (\<lambda>d. is_ok (ssh_like d)) secrets then Inr (filter (\<lambda>d. ssh_like d = Inr True) secrets)
                        else Inl AttributeError)
          in map_sum (\<lambda>e. e)
               (map (\<lambda>d. [(''id'', dget d ''id''), (''name'', dget d ''name''), (''type'', dget d ''type''),
                          (''meta'', getd d ''metadata'' (JObj []))])) chosen))"

end
