(* ===== verification/SecretRoutes.thy ===== *)
theory SecretRoutes
  imports Secrets Middleware
begin

section \<open>Handlers of the global secrets\<close>

text \<open>
  \<^verbatim>\<open>server/api/global_secrets_routes.py\<close>: status, answered secrets and the new state. The manager
  exists; \<open>pr\<close> is the caller that \<open>require_auth\<close> let through, \<open>db\<close> the accounts.
\<close>

definition text_arg :: "(json \<Rightarrow> string) \<Rightarrow> json \<Rightarrow> string" where
  \<comment> \<open>\<^verbatim>\<open>str(v).strip() if v else ''\<close>\<close>
  "text_arg str j = (if truthy j then strip (as_text str j) else [])"

definition create_data :: "doc \<Rightarrow> doc" where
  \<comment> \<open>the body without the fixed keys, then the true entries of its metadata\<close>
  "create_data body =
    (let d = filter (\<lambda>(k, v). k \<notin> {''name'', ''type'', ''description'', ''metadata''}) body
     in case getd body ''metadata'' (JObj []) of
          JObj m \<Rightarrow> fold (\<lambda>(k, v) d. if truthy v then dset d k v else d) m d
        | _ \<Rightarrow> d)"

definition answer :: "nat \<Rightarrow> doc res \<times> secret_store \<Rightarrow> nat \<times> doc list \<times> secret_store" where
  "answer good = (\<lambda>(r, S). case r of
     Inr d \<Rightarrow> (good, [d], S)
   | Inl e \<Rightarrow> (if e = secret_error then 400 else 500, [], S))"

definition api_create_global_secret ::
  "(json \<Rightarrow> string) \<Rightarrow> (string \<Rightarrow> string \<Rightarrow> string) \<Rightarrow> bool \<Rightarrow> string \<Rightarrow> string \<Rightarrow> string \<Rightarrow> principal \<Rightarrow> auth_db \<Rightarrow> doc \<Rightarrow> secret_store
   \<Rightarrow> nat \<times> doc list \<times> secret_store" where
  "api_create_global_secret str enc writable uuid now creator pr db body S =
    (let name = text_arg str (dget body ''name''); t = text_arg str (dget body ''type'');
         description = (case text_arg str (dget body ''description'') of [] \<Rightarrow> None | s \<Rightarrow> Some s)
     in if \<not> can_write_global_secrets pr db then (403, [], S)
        else if name = [] \<or> t = [] then (400, [], S)
        else answer 201 (create_secret str enc writable uuid now creator name t (create_data body) description S))"

definition update_fields :: "doc \<Rightarrow> doc" where
  "update_fields body =
    fold (\<lambda>f u. if has body f then dset u f (dget body f) else u)
      [''privateKey'', ''passphrase'', ''token'', ''password'', ''username'', ''publicKey'', ''fingerprint''] []"

definition api_update_global_secret ::
  "crypto \<Rightarrow> (json \<Rightarrow> string) \<Rightarrow> (string \<Rightarrow> string \<Rightarrow> string) \<Rightarrow> bool \<Rightarrow> string \<Rightarrow> principal \<Rightarrow> auth_db \<Rightarrow> string \<Rightarrow> doc \<Rightarrow> secret_store
   \<Rightarrow> nat \<times> doc list \<times> secret_store" where
  "api_update_global_secret C str enc writable now pr db i body S =
    (if \<not> can_write_global_secrets pr db then (403, [], S)
     else answer 200 (update_secret C str enc writable now i (dget body ''name'') (dget body ''description'') (dget body ''metadata'')
            (case update_fields body of [] \<Rightarrow> None | u \<Rightarrow> Some u) S))"

definition api_delete_global_secret :: "bool \<Rightarrow> principal \<Rightarrow> auth_db \<Rightarrow> string \<Rightarrow> secret_store \<Rightarrow> nat \<times> doc list \<times> secret_store" where
  "api_delete_global_secret writable pr db i S =
    (if \<not> can_write_global_secrets pr db then (403, [], S)
     else (case delete_secret writable i S of
             (Inl e, S') \<Rightarrow> (if e = secret_error then 400 else 500, [], S')
           | (Inr deleted, S') \<Rightarrow> (if deleted then 200 else 404, [], S')))"

definition api_get_global_secret :: "crypto \<Rightarrow> (json \<Rightarrow> string) \<Rightarrow> principal \<Rightarrow> auth_db \<Rightarrow> string \<Rightarrow> secret_store \<Rightarrow> nat \<times> doc list" where
  "api_get_global_secret C str pr db i S =
    (if \<not> can_read_global_secrets pr db then (403, [])
     else (case get_secret C str i False S of
             Inl e \<Rightarrow> (if e = secret_error then 400 else 500, [])
           | Inr None \<Rightarrow> (404, [])
           | Inr (Some d) \<Rightarrow> (if d = [] then (404, []) else (200, [d]))))"

definition api_list_global_secrets ::
  "(json \<Rightarrow> string) \<Rightarrow> principal \<Rightarrow> auth_db \<Rightarrow> string option \<Rightarrow> string option \<Rightarrow> secret_store \<Rightarrow> nat \<times> doc list" where
  "api_list_global_secrets str pr db typ search S =
    (if \<not> can_read_global_secrets pr db then (403, [])
     else (case list_secrets str typ search S of Inl e \<Rightarrow> (500, []) | Inr ds \<Rightarrow> (200, ds)))"

definition api_get_global_secret_options ::
  "(json \<Rightarrow> string) \<Rightarrow> principal \<Rightarrow> auth_db \<Rightarrow> string option \<Rightarrow> secret_store \<Rightarrow> nat \<times> doc list" where
  "api_get_global_secret_options str pr db purpose S =
    (if \<not> can_read_global_secrets pr db then (403, [])
     else (case get_secret_options str purpose S of Inl e \<Rightarrow> (500, []) | Inr ds \<Rightarrow> (200, ds)))"

subsection \<open>The server key\<close>

definition api_update_encryption_key ::
  "(json \<Rightarrow> string) \<Rightarrow> string option \<Rightarrow> bool \<Rightarrow> principal \<Rightarrow> auth_db \<Rightarrow> doc \<Rightarrow> secret_store \<Rightarrow> nat \<times> secret_store" where
  "api_update_encryption_key str env writable pr db body S =
    (if \<not> can_write_global_secrets pr db then (403, S)
     else (case (if body = [] then JStr [] else getd body ''key'' (JStr [])) of
             JStr k \<Rightarrow>
               (let new_key = strip k
                in if new_key = [] \<or> length new_key < 32 then (400, S)
                   else (case (if load_encryption_key env (sx_keyfile S) = None then Inr [] else list_secrets str None None S) of
                           Inl e \<Rightarrow> (500, S)
                         | Inr (d # ds) \<Rightarrow> (400, S)
                         | Inr [] \<Rightarrow>
                             (case save_encryption_key writable new_key (sx_keyfile S) of
                                (saved, kf) \<Rightarrow> (if saved then 200 else 500, S\<lparr>sx_keyfile := kf\<rparr>))))
           | _ \<Rightarrow> (500, S)))"

definition api_create_encryption_key ::
  "string option \<Rightarrow> bool \<Rightarrow> string \<Rightarrow> principal \<Rightarrow> auth_db \<Rightarrow> secret_store \<Rightarrow> nat \<times> secret_store" where
  \<comment> \<open>the outcome of the write is not looked at\<close>
  "api_create_encryption_key env writable fresh pr db S =
    (if \<not> can_write_global_secrets pr db then (403, S)
     else if load_encryption_key env (sx_keyfile S) \<noteq> None then (400, S)
     else (200, S\<lparr>sx_keyfile := snd (save_encryption_key writable fresh (sx_keyfile S))\<rparr>))"

definition start_manager :: "string option \<Rightarrow> bool \<Rightarrow> string \<Rightarrow> secret_store \<Rightarrow> secret_store" where
  \<comment> \<open>\<open>GlobalSecretsManager.__init__\<close> in a new process; it keeps its key for its lifetime\<close>
  "start_manager env writable fresh S =
    (case get_encryption env writable fresh (sx_keyfile S) of (k, kf) \<Rightarrow> S\<lparr>sx_key := k, sx_keyfile := kf\<rparr>)"

end
