(* ===== verification/SecretsProps.thy ===== *)
theory SecretsProps
  imports SecretRoutes
begin

section \<open>Global secrets: properties\<close>

text \<open>
  What an operation stores is encrypted and reads back; no answer depends on the secret material;
  the names are unique as long as they are trimmed; and the ways in which a secret is lost.
\<close>

subsection \<open>Fields of a document\<close>

lemma fold_dpop_simps [simp]:
  "map_of (fold (\<lambda>f d. dpop d f) fs d) k = (if k \<in> set fs then None else map_of d k)"
  by (induction fs arbitrary: d) auto

lemma fold_dpop_doc [simp]:
  "dget (fold (\<lambda>f d. dpop d f) fs d) k = (if k \<in> set fs then JNull else dget d k)"
  "getd (fold (\<lambda>f d. dpop d f) fs d) k v = (if k \<in> set fs then v else getd d k v)"
  "has (fold (\<lambda>f d. dpop d f) fs d) k = (k \<notin> set fs \<and> has d k)"
  by (simp_all add: dget_def getd_def has_def)

lemma fold_fields:
  assumes "distinct fs"
  shows "map_of (fold (\<lambda>f d. if c (dget d f) then dset d f (v f (dget d f)) else d) fs d) k =
    (if k \<in> set fs \<and> c (dget d k) then Some (v k (dget d k)) else map_of d k)"
  using assms by (induction fs arbitrary: d) auto

lemma distinct_material [simp]: "distinct SECRET_MATERIAL_FIELDS"
  by (simp add: SECRET_MATERIAL_FIELDS_def)

abbreviation secret_text :: "(json \<Rightarrow> string) \<Rightarrow> json \<Rightarrow> bool" where
  "secret_text str j \<equiv> truthy j \<and> as_text str j \<noteq> []"

lemma map_of_encrypted:
  "map_of (encrypt_secret_material str enc d) k =
    (if k \<in> set SECRET_MATERIAL_FIELDS \<and> secret_text str (dget d k) then Some (JStr (enc k (as_text str (dget d k)))) else map_of d k)"
  unfolding encrypt_secret_material_def
  by (rule fold_fields [where c = "\<lambda>j. secret_text str j" and v = "\<lambda>f j. JStr (enc f (as_text str j))"]) simp

lemma dget_encrypted:
  "dget (encrypt_secret_material str enc d) k =
    (if k \<in> set SECRET_MATERIAL_FIELDS \<and> secret_text str (dget d k) then JStr (enc k (as_text str (dget d k))) else dget d k)"
  by (simp add: dget_def map_of_encrypted)

lemma decrypt_fields_ok:
  assumes "distinct fs" "\<And>f. f \<in> set fs \<Longrightarrow> truthy (dget d f) \<Longrightarrow> dec (as_text str (dget d f)) = Inr (p f)"
  shows "\<exists>d'. decrypt_fields str dec fs d = Inr d' \<and>
    (\<forall>k. map_of d' k = (if k \<in> set fs \<and> truthy (dget d k) then Some (JStr (p k)) else map_of d k))"
  using assms
proof (induction fs arbitrary: d)
  case (Cons f fs)
  define e where "e = (if truthy (dget d f) then dset d f (JStr (p f)) else d)"
  have eq: "decrypt_fields str dec (f # fs) d = decrypt_fields str dec fs e"
    using Cons.prems(2) [of f] by (simp add: e_def)
  have "\<exists>d'. decrypt_fields str dec fs e = Inr d' \<and>
    (\<forall>k. map_of d' k = (if k \<in> set fs \<and> truthy (dget e k) then Some (JStr (p k)) else map_of e k))"
  proof (rule Cons.IH)
    fix g assume "g \<in> set fs" "truthy (dget e g)"
    then show "dec (as_text str (dget e g)) = Inr (p g)"
      using Cons.prems by (auto simp: e_def split: if_splits)
  qed (use Cons.prems(1) in simp)
  then show ?case using Cons.prems(1) unfolding eq by (auto simp: e_def)
qed simp

lemma decrypt_fields_some:
  assumes "decrypt_fields str dec fs d = Inr d'" "distinct fs"
  shows "map_of d' k =
    (if k \<in> set fs \<and> truthy (dget d k) then (case dec (as_text str (dget d k)) of Inr p \<Rightarrow> Some (JStr p) | Inl e \<Rightarrow> None)
     else map_of d k)"
  using assms
proof (induction fs arbitrary: d)
  case (Cons f fs)
  show ?case
  proof (cases "truthy (dget d f)")
    case True
    with Cons.prems(1) obtain p where p: "dec (as_text str (dget d f)) = Inr p"
      and rec: "decrypt_fields str dec fs (dset d f (JStr p)) = Inr d'"
      by (auto split: sum.splits)
    show ?thesis using Cons.IH [OF rec] Cons.prems(2) True p by auto
  next
    case False
    then show ?thesis using Cons.IH [of d] Cons.prems by auto
  qed
qed simp

subsection \<open>Encrypted documents\<close>

definition sealed :: "crypto \<Rightarrow> string \<Rightarrow> json \<Rightarrow> bool" where
  \<comment> \<open>an output of the encryption under the key, of a text\<close>
  "sealed C key j =
    (\<exists>salt nonce p. j = JStr (encrypt C key salt nonce p) \<and> length salt = 16 \<and> length nonce = 12 \<and> utf8_text p)"

definition sealed_doc :: "crypto \<Rightarrow> string \<Rightarrow> doc \<Rightarrow> bool" where
  "sealed_doc C key d = (\<forall>f \<in> set SECRET_MATERIAL_FIELDS. truthy (dget d f) \<longrightarrow> sealed C key (dget d f))"

definition good_rnd :: "(string \<Rightarrow> string \<times> string) \<Rightarrow> bool" where
  "good_rnd rnd = (\<forall>f. length (fst (rnd f)) = 16 \<and> length (snd (rnd f)) = 12)"

definition texts :: "(json \<Rightarrow> string) \<Rightarrow> doc \<Rightarrow> bool" where
  \<comment> \<open>the fields with material are values that become text, as every JSON value does\<close>
  "texts str d = (\<forall>f \<in> set SECRET_MATERIAL_FIELDS. truthy (dget d f) \<longrightarrow> as_text str (dget d f) \<noteq> [] \<and> utf8_text (as_text str (dget d f)))"

lemma sealed_encrypted:
  assumes "good_rnd rnd" "texts str d"
  shows "sealed_doc C key (encrypt_secret_material str (fresh_enc C key rnd) d)"
  using assms unfolding sealed_doc_def
  by (auto simp: dget_encrypted texts_def sealed_def fresh_enc_def good_rnd_def split: if_splits) blast+

lemma encrypted_reads_back:
  assumes "aead_laws C" "good_rnd rnd" "texts str d"
  shows "\<exists>d'. decrypt_secret_material str (decrypt C key) (encrypt_secret_material str (fresh_enc C key rnd) d) = Inr d' \<and>
    (\<forall>k. map_of d' k = (if k \<in> set SECRET_MATERIAL_FIELDS \<and> truthy (dget d k) then Some (JStr (as_text str (dget d k))) else map_of d k))"
proof -
  let ?e = "encrypt_secret_material str (fresh_enc C key rnd) d"
  have "\<exists>d'. decrypt_fields str (decrypt C key) SECRET_MATERIAL_FIELDS ?e = Inr d' \<and>
    (\<forall>k. map_of d' k = (if k \<in> set SECRET_MATERIAL_FIELDS \<and> truthy (dget ?e k) then Some (JStr (as_text str (dget d k))) else map_of ?e k))"
  proof (rule decrypt_fields_ok)
    fix f assume f: "f \<in> set SECRET_MATERIAL_FIELDS" "truthy (dget ?e f)"
    then have t: "truthy (dget d f)" by (auto simp: dget_encrypted split: if_splits)
    with f(1) assms(3) have s: "secret_text str (dget d f)" "utf8_text (as_text str (dget d f))" by (auto simp: texts_def)
    have "as_text str (JStr x) = x" for x by (simp add: as_text_def)
    then show "decrypt C key (as_text str (dget ?e f)) = Inr (as_text str (dget d f))"
      using s f(1) aead_laws.decrypt_encrypt [OF assms(1)] assms(2) by (simp add: dget_encrypted fresh_enc_def good_rnd_def)
  qed simp
  moreover have "truthy (dget ?e k) \<longleftrightarrow> truthy (dget d k)" if "k \<in> set SECRET_MATERIAL_FIELDS" for k
    using that assms(3) by (auto simp: dget_encrypted texts_def fresh_enc_def encrypt_def V2_PREFIX_def)
  moreover have "map_of ?e k = map_of d k" if "\<not> (k \<in> set SECRET_MATERIAL_FIELDS \<and> truthy (dget d k))" for k
    using that by (auto simp: map_of_encrypted)
  ultimately show ?thesis unfolding decrypt_secret_material_def by (smt (verit))
qed

subsection \<open>Creation, updates and reading back\<close>

lemma fold_copy:
  "map_of (fold (\<lambda>f s. if truthy (dget d f) then dset s f (dget d f) else s) fs s) k =
    (if k \<in> set fs \<and> truthy (dget d k) then Some (dget d k) else map_of s k)"
  by (induction fs arbitrary: s) auto

lemma type_fields_cases:
  assumes "map_of SECRET_TYPES t \<noteq> None"
  shows "set (fst (type_fields t) @ fst (snd (type_fields t))) \<inter>
    {''id'', ''name'', ''type'', ''description'', ''createdAt'', ''updatedAt'', ''createdBy'', ''version'', ''scope'', ''metadata''} = {}"
    "set (snd (snd (type_fields t))) \<inter> set SECRET_MATERIAL_FIELDS = {}"
  using assms by (auto simp: SECRET_TYPES_def type_fields_def SECRET_MATERIAL_FIELDS_def split: if_splits)

lemma dget_new_secret_field:
  assumes "k \<notin> {''id'', ''name'', ''type'', ''description'', ''createdAt'', ''updatedAt'', ''createdBy'', ''version'', ''scope'', ''metadata''}"
  shows "map_of (new_secret i now creator name t descr d) k =
    (if k \<in> set (fst (type_fields t) @ fst (snd (type_fields t))) \<and> truthy (dget d k) then Some (dget d k) else None)"
  using assms by (cases "type_fields t") (simp add: new_secret_def fold_copy)

lemma dget_new_secret_base:
  assumes "map_of SECRET_TYPES t \<noteq> None"
  shows "dget (new_secret i now creator name t descr d) ''id'' = JStr i"
    "dget (new_secret i now creator name t descr d) ''name'' = JStr (strip name)"
    "dget (new_secret i now creator name t descr d) ''type'' = JStr t"
    "\<exists>m. dget (new_secret i now creator name t descr d) ''metadata'' = JObj m"
proof -
  obtain r p m where t: "type_fields t = (r, p, m)" by (cases "type_fields t")
  have free: "k \<notin> set (r @ p)" if "k \<in> {''id'', ''name'', ''type'', ''metadata''}" for k
    using type_fields_cases(1) [OF assms] that unfolding t fst_conv snd_conv disjoint_iff by fastforce
  let ?n = "new_secret i now creator name t descr d"
  have "map_of ?n ''id'' = Some (JStr i)" "map_of ?n ''name'' = Some (JStr (strip name))"
    "map_of ?n ''type'' = Some (JStr t)" "\<exists>m. map_of ?n ''metadata'' = Some (JObj m)"
    using free [of "''id''"] free [of "''name''"] free [of "''type''"] free [of "''metadata''"]
    by (simp_all add: new_secret_def t fold_copy)
  then show "dget ?n ''id'' = JStr i" "dget ?n ''name'' = JStr (strip name)" "dget ?n ''type'' = JStr t"
    "\<exists>m. dget ?n ''metadata'' = JObj m"
    by (auto simp: dget_def [of ?n])
qed

lemma material_not_base:
  "k \<in> set SECRET_MATERIAL_FIELDS \<Longrightarrow>
    k \<notin> {''id'', ''name'', ''type'', ''description'', ''createdAt'', ''updatedAt'', ''createdBy'', ''version'', ''scope'', ''metadata''}"
  by (auto simp: SECRET_MATERIAL_FIELDS_def)

lemma texts_new_secret: "texts str d \<Longrightarrow> texts str (new_secret i now creator name t descr d)"
  unfolding texts_def using dget_new_secret_field material_not_base
  by (auto simp: dget_def split: option.splits if_splits)

lemma create_ok:
  assumes "create_secret str enc writable uuid now creator name t d descr S = (Inr ans, S')"
  shows "map_of SECRET_TYPES t \<noteq> None" "secret_path_ok uuid"
    "validate_secret_name (JStr name)" "validate_secret_data str (JStr t) d = Inr True"
    "\<exists>ds. list_secrets str None None S = Inr ds \<and> \<not> name_in_use (\<lambda>d. True) name ds"
    "S' = S\<lparr>sx_files := AList.update uuid (Doc (encrypt_secret_material str enc (new_secret uuid now creator name t descr d))) (sx_files S)\<rparr>"
    "sanitize_secret_for_api str (encrypt_secret_material str enc (new_secret uuid now creator name t descr d)) = Inr ans"
  using assms by (auto simp: create_secret_def write_secret_def split: if_splits sum.splits)

lemma map_of_put_file [simp]: "map_of (AList.update i f t) = (map_of t)(i \<mapsto> f)"
  by (simp add: update_conv')

lemma created_reads_back:
  assumes "aead_laws C" "good_rnd rnd" "texts str d"
    and "create_secret str (fresh_enc C (sx_key S) rnd) writable uuid now creator name t d descr S = (Inr ans, S')"
  shows "\<exists>d'. get_secret C str uuid True S' = Inr (Some d') \<and>
    (\<forall>k. map_of d' k = (let n = new_secret uuid now creator name t descr d
       in if k \<in> set SECRET_MATERIAL_FIELDS \<and> truthy (dget n k) then Some (JStr (as_text str (dget n k))) else map_of n k))"
proof -
  from encrypted_reads_back [OF assms(1,2) texts_new_secret [OF assms(3), where i = uuid and now = now and creator = creator and
      name = name and t = t and descr = descr], where key = "sx_key S"] obtain d' where
    d': "decrypt_secret_material str (decrypt C (sx_key S))
        (encrypt_secret_material str (fresh_enc C (sx_key S) rnd) (new_secret uuid now creator name t descr d)) = Inr d'"
      "\<forall>k. map_of d' k = (let n = new_secret uuid now creator name t descr d
       in if k \<in> set SECRET_MATERIAL_FIELDS \<and> truthy (dget n k) then Some (JStr (as_text str (dget n k))) else map_of n k)"
    unfolding Let_def by blast
  have "get_secret C str uuid True S' = Inr (Some d')"
    using create_ok(2,6) [OF assms(4)] d'(1) by (simp add: get_secret_def)
  with d'(2) show ?thesis by blast
qed

lemma decrypted_texts:
  assumes "decrypt_secret_material str (decrypt C key) d = Inr d'"
  shows "texts str d'"
proof -
  have utf: "utf8_text p" if "decrypt C key x = Inr p" for x p
    using that by (auto simp: decrypt_def unsealed_def Let_def utf8_text_def split: if_splits option.splits)
  have "dget d' f = (if truthy (dget d f) then (case decrypt C key (as_text str (dget d f)) of Inr p \<Rightarrow> JStr p | Inl e \<Rightarrow> JNull) else dget d f)"
    if "f \<in> set SECRET_MATERIAL_FIELDS" for f
    using decrypt_fields_some [OF assms [unfolded decrypt_secret_material_def] distinct_material, of f] that
    by (auto simp: dget_def split: sum.splits)
  then show ?thesis by (auto simp: texts_def as_text_def utf split: sum.splits)
qed

lemma rename_cases:
  assumes "rename_secret str i name S d = Inr d'"
  obtains "name = JNull" "d' = d"
  | n ds where "name = JStr n" "validate_secret_name (JStr n)" "list_secrets str None None S = Inr ds"
      "\<not> name_in_use (\<lambda>d. dget d ''id'' \<noteq> JStr i) n ds" "d' = dset d ''name'' (JStr (strip n))"
  using assms by (cases name) (auto simp: rename_secret_def split: if_splits sum.splits)

lemma describe_cases:
  assumes "describe_secret descr d = Inr d'"
  obtains "d' = d" | s where "d' = dset d ''description'' (JStr s)"
  using assms by (cases descr) (auto simp: describe_secret_def)

lemma dict_update_obj: "dict_update t v = Inr j \<Longrightarrow> \<exists>m. j = JObj m"
  by (auto simp: dict_update_def split: json.splits if_splits)

lemma metadata_cases:
  assumes "update_metadata metadata d = Inr d'"
  obtains "d' = d" | m where "d' = dset d ''metadata'' (JObj m)"
  using assms by (auto simp: update_metadata_def split: if_splits sum.splits dest!: dict_update_obj)

lemma edit_cases:
  assumes "edit_secret str i name descr metadata material S d = Inr d'"
  obtains d1 d2 d3 where "rename_secret str i name S d = Inr d1" "describe_secret descr d1 = Inr d2"
    "update_metadata metadata d2 = Inr d3" "update_material str material d3 = Inr d'"
  using assms by (auto simp: edit_secret_def split: sum.splits)

lemma edit_keeps_material:
  assumes "edit_secret str i name descr metadata None S d = Inr d'" "f \<in> set SECRET_MATERIAL_FIELDS"
  shows "dget d' f = dget d f"
proof -
  from edit_cases [OF assms(1)] obtain d1 d2 d3 where e: "rename_secret str i name S d = Inr d1"
    "describe_secret descr d1 = Inr d2" "update_metadata metadata d2 = Inr d3" "update_material str None d3 = Inr d'"
    by blast
  note nb = material_not_base [OF assms(2)]
  have "dget d1 f = dget d f" by (rule rename_cases [OF e(1)]) (use nb in auto)
  moreover have "dget d2 f = dget d1 f" by (rule describe_cases [OF e(2)]) (use nb in auto)
  moreover have "dget d3 f = dget d2 f" by (rule metadata_cases [OF e(3)]) (use nb in auto)
  moreover have "d' = d3" using e(4) by (simp add: update_material_def)
  ultimately show ?thesis by simp
qed

lemma update_ok:
  assumes "update_secret C str enc writable now i name descr metadata material S = (Inr ans, S')"
  shows "secret_path_ok i"
    "\<exists>d plain d'. map_of (sx_files S) i = Some (Doc d) \<and> decrypt_secret_material str (decrypt C (sx_key S)) d = Inr plain \<and>
      edit_secret str i name descr metadata material S plain = Inr d' \<and>
      S' = S\<lparr>sx_files := AList.update i (Doc (encrypt_secret_material str enc (dset d' ''updatedAt'' (JStr now)))) (sx_files S)\<rparr>"
  using assms by (auto simp: update_secret_def write_secret_def split: if_splits sum.splits option.splits jfile.splits)

lemma texts_cong:
  "texts str d \<Longrightarrow> (\<And>f. f \<in> set SECRET_MATERIAL_FIELDS \<Longrightarrow> dget d' f = dget d f) \<Longrightarrow> texts str d'"
  by (simp add: texts_def)

lemma update_keeps_material:
  assumes "aead_laws C" "good_rnd rnd"
    and "update_secret C str (fresh_enc C (sx_key S) rnd) writable now i name descr metadata None S = (Inr ans, S')"
    and "get_secret C str i True S = Inr (Some d0)"
  shows "\<exists>d1. get_secret C str i True S' = Inr (Some d1) \<and>
    (\<forall>f \<in> set SECRET_MATERIAL_FIELDS. truthy (dget d0 f) \<longrightarrow> dget d1 f = dget d0 f)"
proof -
  from update_ok [OF assms(3)] obtain d plain d' where p: "secret_path_ok i" "map_of (sx_files S) i = Some (Doc d)"
    and dec: "decrypt_secret_material str (decrypt C (sx_key S)) d = Inr plain"
    and ed: "edit_secret str i name descr metadata None S plain = Inr d'"
    and S': "S' = S\<lparr>sx_files := AList.update i (Doc (encrypt_secret_material str (fresh_enc C (sx_key S) rnd) (dset d' ''updatedAt'' (JStr now)))) (sx_files S)\<rparr>"
    by blast
  have d0: "d0 = plain" using assms(4) p dec by (simp add: get_secret_def)
  let ?n = "dset d' ''updatedAt'' (JStr now)"
  have same: "dget ?n f = dget plain f" if "f \<in> set SECRET_MATERIAL_FIELDS" for f
    using edit_keeps_material [OF ed that] material_not_base [OF that] by auto
  have jstr: "as_text str (dget plain f) = p" if "dget plain f = JStr p" for f p using that by (simp add: as_text_def)
  have texts: "texts str ?n" using texts_cong [OF decrypted_texts [OF dec] same] .
  have str: "\<exists>p. dget plain f = JStr p" if "f \<in> set SECRET_MATERIAL_FIELDS" "truthy (dget plain f)" for f
    using decrypt_fields_some [OF dec [unfolded decrypt_secret_material_def] distinct_material, of f] that
    by (auto simp: dget_def split: sum.splits option.splits if_splits)
  from encrypted_reads_back [OF assms(1,2) texts, where key = "sx_key S"] obtain d1 where
    d1: "decrypt_secret_material str (decrypt C (sx_key S)) (encrypt_secret_material str (fresh_enc C (sx_key S) rnd) ?n) = Inr d1"
      "\<forall>k. map_of d1 k = (if k \<in> set SECRET_MATERIAL_FIELDS \<and> truthy (dget ?n k) then Some (JStr (as_text str (dget ?n k))) else map_of ?n k)"
    by blast
  have "dget d1 f = dget d0 f" if f: "f \<in> set SECRET_MATERIAL_FIELDS" "truthy (dget d0 f)" for f
  proof -
    have "map_of d1 f = Some (JStr (as_text str (dget plain f)))" using d1(2) f same [OF f(1)] d0 by simp
    moreover from str [of f] f d0 obtain p where "dget plain f = JStr p" by auto
    ultimately show ?thesis using jstr [of f p] d0 by (simp add: dget_def [of d1])
  qed
  then show ?thesis using p d1(1) S' by (auto simp: get_secret_def)
qed

text \<open>C33: What is stored as a secret can be read back: after a creation and any later change of name,
  description or metadata, reading with the material gives every field of the material as it was
  passed in, for a cipher that opens what it sealed and with the key unchanged.\<close>
theorem secret_survives_update:
  assumes "aead_laws C" "good_rnd rnd" "good_rnd rnd'" "texts str d"
    and "create_secret str (fresh_enc C (sx_key S) rnd) writable uuid now creator name t d descr S = (Inr ans, S1)"
    and "update_secret C str (fresh_enc C (sx_key S1) rnd') writable now' uuid name' descr' metadata None S1 = (Inr ans', S2)"
  shows "\<exists>d'. get_secret C str uuid True S2 = Inr (Some d') \<and>
    (\<forall>f \<in> set SECRET_MATERIAL_FIELDS. f \<in> set (fst (type_fields t) @ fst (snd (type_fields t))) \<longrightarrow> truthy (dget d f) \<longrightarrow>
      dget d' f = JStr (as_text str (dget d f)))"
proof -
  from created_reads_back [OF assms(1,2,4,5)] obtain d0 where d0: "get_secret C str uuid True S1 = Inr (Some d0)"
    and fields: "\<forall>k. map_of d0 k = (let n = new_secret uuid now creator name t descr d
       in if k \<in> set SECRET_MATERIAL_FIELDS \<and> truthy (dget n k) then Some (JStr (as_text str (dget n k))) else map_of n k)"
    by blast
  from update_keeps_material [OF assms(1,3,6) d0] obtain d1 where d1: "get_secret C str uuid True S2 = Inr (Some d1)"
    "\<forall>f \<in> set SECRET_MATERIAL_FIELDS. truthy (dget d0 f) \<longrightarrow> dget d1 f = dget d0 f" by blast
  have "dget d1 f = JStr (as_text str (dget d f))"
    if f: "f \<in> set SECRET_MATERIAL_FIELDS" "f \<in> set (fst (type_fields t) @ fst (snd (type_fields t)))" "truthy (dget d f)" for f
  proof -
    have "map_of (new_secret uuid now creator name t descr d) f = Some (dget d f)"
      using dget_new_secret_field [OF material_not_base [OF f(1)]] f(2,3) by simp
    then have n: "dget (new_secret uuid now creator name t descr d) f = dget d f" by (simp add: dget_def)
    have "dget d0 f = JStr (as_text str (dget d f))" using fields f(1,3) n by (simp add: Let_def dget_def [of d0])
    then show ?thesis using d1(2) f(1,3) assms(4) by (simp add: texts_def)
  qed
  then show ?thesis using d1(1) by blast
qed

subsection \<open>No answer depends on the material\<close>

definition public :: "doc \<Rightarrow> doc" where
  "public d = filter (\<lambda>(k, v). k \<notin> set SECRET_MATERIAL_FIELDS) d"

lemma public_dpops: "fold (\<lambda>f d. dpop d f) SECRET_MATERIAL_FIELDS d = public d"
proof -
  have "fold (\<lambda>f d. dpop d f) fs d = filter (\<lambda>(k, v). k \<notin> set fs) d" for fs :: "string list"
    by (induction fs arbitrary: d) (auto simp: dpop_def AList.delete_eq filter_filter split_def intro!: filter_cong)
  then show ?thesis by (simp add: public_def)
qed

lemma public_dset:
  "f \<in> set SECRET_MATERIAL_FIELDS \<Longrightarrow> public (dset d f v) = public d"
  "f \<notin> set SECRET_MATERIAL_FIELDS \<Longrightarrow> public (dset d f v) = dset (public d) f v"
  by (induction d) (auto simp: public_def dset_def)

lemma public_encrypted: "public (encrypt_secret_material str enc d) = public d"
proof -
  have "set fs \<subseteq> set SECRET_MATERIAL_FIELDS \<Longrightarrow>
    public (fold (\<lambda>f d. if secret_text str (dget d f) then dset d f (JStr (enc f (as_text str (dget d f)))) else d) fs d) = public d" for fs
    by (induction fs arbitrary: d) (auto simp: public_dset)
  then show ?thesis by (simp add: encrypt_secret_material_def)
qed

lemma map_of_public: "map_of (public d) k = (if k \<in> set SECRET_MATERIAL_FIELDS then None else map_of d k)"
  by (simp add: public_dpops [symmetric])

lemma dget_public: "k \<notin> set SECRET_MATERIAL_FIELDS \<Longrightarrow> dget (public d) k = dget d k" "k \<notin> set SECRET_MATERIAL_FIELDS \<Longrightarrow> getd (public d) k v = getd d k v"
  by (simp_all add: dget_def getd_def map_of_public)

lemma public_fold_copy:
  assumes "\<forall>k. k \<notin> set SECRET_MATERIAL_FIELDS \<longrightarrow> dget d1 k = dget d2 k"
  shows "public (fold (\<lambda>f s. if truthy (dget d1 f) then dset s f (dget d1 f) else s) fs s) =
    public (fold (\<lambda>f s. if truthy (dget d2 f) then dset s f (dget d2 f) else s) fs s)"
proof -
  have "public (fold (\<lambda>f s. if truthy (dget d f) then dset s f (dget d f) else s) fs s) =
    fold (\<lambda>f s. if f \<notin> set SECRET_MATERIAL_FIELDS \<and> truthy (dget d f) then dset s f (dget d f) else s) fs (public s)" for d :: doc
    by (induction fs arbitrary: s) (auto simp: public_dset)
  then show ?thesis using assms by (auto intro!: fold_cong simp: fun_eq_iff)
qed

definition like :: "doc \<Rightarrow> doc \<Rightarrow> bool" where
  \<comment> \<open>equal but for the values of the material\<close>
  "like d1 d2 = ((\<forall>k. k \<notin> set SECRET_MATERIAL_FIELDS \<longrightarrow> map_of d1 k = map_of d2 k) \<and>
     (\<forall>f \<in> set SECRET_MATERIAL_FIELDS. truthy (dget d1 f) = truthy (dget d2 f)))"

lemma public_new_secret:
  assumes "like d1 d2" "map_of SECRET_TYPES t \<noteq> None"
  shows "public (new_secret i now creator name t descr d1) = public (new_secret i now creator name t descr d2)"
proof -
  have e: "\<forall>k. k \<notin> set SECRET_MATERIAL_FIELDS \<longrightarrow> dget d1 k = dget d2 k"
    using assms(1) by (simp add: like_def dget_def)
  obtain r p m where t: "type_fields t = (r, p, m)" by (cases "type_fields t")
  have "map_of d1 k = map_of d2 k" if "k \<in> set m" for k
    using that type_fields_cases(2) [OF assms(2)] assms(1) unfolding t like_def by auto
  then have "fold (\<lambda>f m. if has d1 f then dset m f (dget d1 f) else m) m [] = fold (\<lambda>f m. if has d2 f then dset m f (dget d2 f) else m) m []"
    by (intro fold_cong refl ext) (auto simp: has_def dget_def)
  then show ?thesis using public_fold_copy [OF e] by (simp add: new_secret_def t del: fold_append)
qed

lemma token_prefix:
  assumes "length salt = 16" "p \<noteq> []" "q \<noteq> []"
  shows "take 8 (encrypt C key salt nonce p) = take 8 (encrypt C key salt nonce' q)"
proof -
  from assms(1) have "\<exists>a b c d rest. salt = a # b # c # d # rest" by (auto simp: numeral_eq_Suc length_Suc_conv)
  then obtain a b c d rest where "salt = a # b # c # d # rest" by blast
  then show ?thesis using assms(2,3) by (simp add: encrypt_def V2_PREFIX_def Let_def)
qed

lemma sanitize_cong:
  assumes "public x = public y" "truthy (dget x ''token'') = truthy (dget y ''token'')"
    and "truthy (dget x ''token'') \<Longrightarrow> \<exists>s t. dget x ''token'' = JStr s \<and> dget y ''token'' = JStr t \<and> take 8 s = take 8 t"
  shows "sanitize_secret_for_api str x = sanitize_secret_for_api str y"
  using assms by (cases "truthy (dget x ''token'')") (auto simp: sanitize_secret_for_api_def public_dpops Let_def split: json.splits)

lemma created_alike:
  fixes C :: crypto and key i now creator name :: string and descr :: "string option"
  assumes "like d1 d2" "texts str d1" "texts str d2" "good_rnd rnd" "map_of SECRET_TYPES t \<noteq> None"
  defines "x \<equiv> \<lambda>d. encrypt_secret_material str (fresh_enc C key rnd) (new_secret i now creator name t descr d)"
  shows "public (x d1) = public (x d2)" "sanitize_secret_for_api str (x d1) = sanitize_secret_for_api str (x d2)"
proof -
  show p: "public (x d1) = public (x d2)" unfolding x_def public_encrypted by (rule public_new_secret [OF assms(1,5)])
  have tok: "dget (new_secret i now creator name t descr d) ''token'' =
      (if ''token'' \<in> set (fst (type_fields t) @ fst (snd (type_fields t))) \<and> truthy (dget d ''token'') then dget d ''token'' else JNull)" for d
    using dget_new_secret_field [of "''token''"] by (simp add: dget_def)
  have m: "''token'' \<in> set SECRET_MATERIAL_FIELDS" by (simp add: SECRET_MATERIAL_FIELDS_def)
  have alike: "truthy (dget d1 ''token'') = truthy (dget d2 ''token'')" using assms(1) m by (simp add: like_def)
  have enc: "encrypt C key s n p \<noteq> []" if "p \<noteq> []" for s n p using that by (simp add: encrypt_def V2_PREFIX_def)
  have t: "secret_text str (dget d1 ''token'')" "secret_text str (dget d2 ''token'')" if "truthy (dget d1 ''token'')"
    using that alike m assms(2,3) by (auto simp: texts_def)
  show "sanitize_secret_for_api str (x d1) = sanitize_secret_for_api str (x d2)"
  proof (rule sanitize_cong [OF p])
    show "truthy (dget (x d1) ''token'') = truthy (dget (x d2) ''token'')"
      using alike t m by (auto simp: x_def dget_encrypted tok fresh_enc_def enc)
    show "\<exists>s u. dget (x d1) ''token'' = JStr s \<and> dget (x d2) ''token'' = JStr u \<and> take 8 s = take 8 u" if "truthy (dget (x d1) ''token'')"
    proof -
      have tt: "truthy (dget d1 ''token'')" and u: "''token'' \<in> set (fst (type_fields t) @ fst (snd (type_fields t)))"
        using that by (auto simp: x_def dget_encrypted tok split: if_splits)
      show ?thesis using t [OF tt] alike m u assms(4)
          token_prefix [of "fst (rnd ''token'')" "as_text str (dget d1 ''token'')" "as_text str (dget d2 ''token'')"]
        by (auto simp: x_def dget_encrypted tok fresh_enc_def good_rnd_def simp del: set_append)
    qed
  qed
qed

lemma map_filter_update:
  "g f1 = g f2 \<Longrightarrow> List.map_filter g (map snd (AList.update i f1 t)) = List.map_filter g (map snd (AList.update i f2 t))"
  by (induction t) (auto simp: List.map_filter_simps split: option.split)

lemma listed_alike:
  assumes "public x = public y" "sanitize_secret_for_api str x = sanitize_secret_for_api str y"
  shows "listed_secret str typ search (Doc x) = listed_secret str typ search (Doc y)"
proof -
  have "''type'' \<notin> set SECRET_MATERIAL_FIELDS" "''name'' \<notin> set SECRET_MATERIAL_FIELDS" "''description'' \<notin> set SECRET_MATERIAL_FIELDS"
    by (simp_all add: SECRET_MATERIAL_FIELDS_def)
  then have "dget x ''type'' = dget y ''type''" "lower_name x ''name'' = lower_name y ''name''"
    "lower_name x ''description'' = lower_name y ''description''"
    using dget_public [of _ x] dget_public [of _ y] assms(1) by (metis lower_name_def)+
  moreover from this have "search_hits q x = search_hits q y" for q by (simp add: search_hits_def)
  ultimately show ?thesis unfolding listed_secret_def jfile.case assms(2) by (simp only:)
qed

text \<open>C32: No answer depends on the secret material: two creations that differ only in the values of the
  material, with the same salts and nonces, answer the same, and afterwards reading without the
  material and every listing answer the same.\<close>
theorem answers_hide_material:
  assumes "like d1 d2" "texts str d1" "texts str d2" "good_rnd rnd"
    and "create_secret str (fresh_enc C key rnd) writable uuid now creator name t d1 descr S = (Inr a1, S1)"
    and "create_secret str (fresh_enc C key rnd) writable uuid now creator name t d2 descr S = (Inr a2, S2)"
  shows "a1 = a2 \<and> (\<forall>i. get_secret C str i False S1 = get_secret C str i False S2) \<and>
    (\<forall>typ search. list_secrets str typ search S1 = list_secrets str typ search S2)"
proof -
  note c1 = create_ok [OF assms(5)] and c2 = create_ok [OF assms(6)]
  note same = created_alike [OF assms(1-4) c1(1), of C key uuid now creator name descr]
  have "get_secret C str i False S1 = get_secret C str i False S2" for i
    using same(2) by (simp add: c1(6) c2(6) get_secret_def split: option.split jfile.split)
  moreover have "list_secrets str ty search S1 = list_secrets str ty search S2" for ty search
  proof -
    have files: "sx_files (S\<lparr>sx_files := fs\<rparr>) = fs" for fs by simp
    show ?thesis
      unfolding list_secrets_def Let_def c1(6) c2(6) files map_filter_update [of "listed_secret str ty search", OF listed_alike [OF same]]
      by (rule refl)
  qed
  ultimately show ?thesis using same(2) c1(7) c2(7) by simp
qed

subsection \<open>Names\<close>

definition secret_wf :: "string \<Rightarrow> doc \<Rightarrow> bool" where
  "secret_wf i d =
    (dget d ''id'' = JStr i \<and> (\<exists>n. dget d ''name'' = JStr n \<and> strip n = n) \<and> (\<exists>m. dget d ''metadata'' = JObj m) \<and>
     (\<forall>f \<in> set SECRET_MATERIAL_FIELDS. truthy (dget d f) \<longrightarrow> (\<exists>s. dget d f = JStr s)))"

definition secrets_inv :: "secret_store \<Rightarrow> bool" where
  "secrets_inv S =
    (distinct (map fst (sx_files S)) \<and>
     (\<forall>i f. map_of (sx_files S) i = Some f \<longrightarrow> (\<exists>d. f = Doc d \<and> secret_wf i d)) \<and>
     (\<forall>i j d e. map_of (sx_files S) i = Some (Doc d) \<and> map_of (sx_files S) j = Some (Doc e) \<and>
        lower_name d ''name'' = lower_name e ''name'' \<longrightarrow> i = j))"

lemma getd_dget: "dget d k = v \<Longrightarrow> v \<noteq> JNull \<Longrightarrow> getd d k w = v"
  by (auto simp: dget_def getd_def split: option.splits)

lemma sanitize_wf:
  assumes "secret_wf i d"
  shows "\<exists>s. sanitize_secret_for_api str d = Inr s \<and> dget s ''id'' = JStr i \<and> lower_name s ''name'' = lower_name d ''name''"
proof -
  have nm: "k \<in> {''id'', ''name'', ''metadata''} \<Longrightarrow> k \<notin> set SECRET_MATERIAL_FIELDS" for k
    by (auto simp: SECRET_MATERIAL_FIELDS_def)
  have tok: "''token'' \<in> set SECRET_MATERIAL_FIELDS" by (simp add: SECRET_MATERIAL_FIELDS_def)
  from assms obtain m where m: "getd (public d) ''metadata'' (JObj []) = JObj m"
    using nm by (auto simp: secret_wf_def dget_public getd_dget)
  from assms have id: "dget (public d) ''id'' = JStr i" using nm by (simp add: secret_wf_def dget_public)
  have name: "lower_name (public d) ''name'' = lower_name d ''name''" using nm by (simp add: lower_name_def dget_public)
  show ?thesis
  proof (cases "truthy (dget d ''token'')")
    case True
    with assms tok obtain t where "dget d ''token'' = JStr t" by (auto simp: secret_wf_def)
    with True m id name show ?thesis by (simp add: sanitize_secret_for_api_def public_dpops lower_name_def)
  next
    case False
    with id name show ?thesis by (simp add: sanitize_secret_for_api_def public_dpops)
  qed
qed

lemma secrets_inv_wf: "secrets_inv S \<Longrightarrow> map_of (sx_files S) i = Some (Doc d) \<Longrightarrow> secret_wf i d"
  unfolding secrets_inv_def by (metis jfile.inject)

lemma listed_complete:
  assumes "secrets_inv S" "map_of (sx_files S) i = Some (Doc d)" "list_secrets str None None S = Inr ds"
  shows "\<exists>s \<in> set ds. dget s ''id'' = JStr i \<and> lower_name s ''name'' = lower_name d ''name''"
proof -
  from sanitize_wf [OF secrets_inv_wf [OF assms(1,2)]] obtain s where s: "sanitize_secret_for_api str d = Inr s" "dget s ''id'' = JStr i"
    "lower_name s ''name'' = lower_name d ''name''" by blast
  have "Doc d \<in> set (map snd (sx_files S))" using assms(2) by (force dest: map_of_SomeD)
  then have "s \<in> set (List.map_filter (listed_secret str None None) (map snd (sx_files S)))"
    using s(1) by (force simp: List.map_filter_def listed_secret_def)
  then have "s \<in> set ds" using assms(3) by (auto simp: list_secrets_def Let_def split: if_splits)
  with s show ?thesis by blast
qed

lemma name_not_used:
  assumes "secrets_inv S" "list_secrets str None None S = Inr ds" "\<not> name_in_use counts name ds"
    and "map_of (sx_files S) i = Some (Doc d)" "\<And>s. dget s ''id'' = JStr i \<Longrightarrow> counts s"
  shows "lower_name d ''name'' \<noteq> Inr (lower name)"
  using listed_complete [OF assms(1,4,2)] assms(3,5) by (auto simp: name_in_use_def list_ex_iff)

lemma inv_put:
  assumes "secrets_inv S" "secret_wf i d"
    and "\<And>j e. j \<noteq> i \<Longrightarrow> map_of (sx_files S) j = Some (Doc e) \<Longrightarrow> lower_name e ''name'' \<noteq> lower_name d ''name''"
  shows "secrets_inv (S\<lparr>sx_files := AList.update i (Doc d) (sx_files S)\<rparr>)"
  using assms(1,2) assms(3) [symmetric] assms(3) unfolding secrets_inv_def
  by (auto simp: distinct_update split: if_splits)

lemma wf_encrypted:
  assumes "dget d ''id'' = JStr i" "dget d ''name'' = JStr n" "strip n = n" "dget d ''metadata'' = JObj m" "\<And>j. truthy j \<Longrightarrow> as_text str j \<noteq> []"
  shows "secret_wf i (encrypt_secret_material str enc d)"
    "lower_name (encrypt_secret_material str enc d) ''name'' = Inr (lower n)"
  using assms by (auto simp: secret_wf_def dget_encrypted SECRET_MATERIAL_FIELDS_def lower_name_def getd_dget)

lemma secrets_inv_create:
  assumes "secrets_inv S" "\<And>j. truthy j \<Longrightarrow> as_text str j \<noteq> []" "strip name = name"
  shows "secrets_inv (snd (create_secret str enc writable uuid now creator name t d descr S))"
proof (cases "snd (create_secret str enc writable uuid now creator name t d descr S) = S")
  case False
  let ?n = "new_secret uuid now creator name t descr d"
  from False obtain ds where ok: "map_of SECRET_TYPES t \<noteq> None" "list_secrets str None None S = Inr ds" "\<not> name_in_use (\<lambda>d. True) name ds"
    and S': "snd (create_secret str enc writable uuid now creator name t d descr S) =
      S\<lparr>sx_files := AList.update uuid (Doc (encrypt_secret_material str enc ?n)) (sx_files S)\<rparr>"
    by (auto simp: create_secret_def write_secret_def split: if_splits sum.splits)
  from dget_new_secret_base [OF ok(1)] obtain m where base: "dget ?n ''id'' = JStr uuid" "dget ?n ''name'' = JStr name" "dget ?n ''metadata'' = JObj m"
    using assms(3) by metis
  note wf = wf_encrypted [OF base(1,2) assms(3) base(3) assms(2), where enc = enc]
  show ?thesis unfolding S' using name_not_used [OF assms(1) ok(2,3)] wf by (intro inv_put [OF assms(1)]) auto
qed (use assms(1) in simp)

lemma set_fields_other: "k \<notin> set allowed \<Longrightarrow> dget (set_fields allowed u d) k = dget d k"
proof -
  assume "k \<notin> set allowed"
  then have "dget (fold (\<lambda>(f, v) d. if f \<in> set allowed then dset d f v else d) u d) k = dget d k" for d
    by (induction u arbitrary: d) auto
  then show "dget (set_fields allowed u d) k = dget d k" by (simp add: set_fields_def)
qed

lemma optional_fields_subset:
  "set (optional_fields d) \<subseteq> {''passphrase'', ''username'', ''publicKey'', ''fingerprint''}"
  by (auto simp: optional_fields_def type_fields_def SECRET_TYPES_def split: json.splits option.splits if_splits)

lemma update_material_keeps:
  assumes "update_material str material d = Inr d'" "k \<in> {''id'', ''name'', ''metadata'', ''type''}"
  shows "dget d' k = dget d k"
proof -
  have "k \<notin> set (SECRET_MATERIAL_FIELDS @ optional_fields d)"
    using assms(2) optional_fields_subset [of d] by (auto simp: SECRET_MATERIAL_FIELDS_def)
  then show ?thesis using assms(1) set_fields_other
    by (auto simp: update_material_def split: option.splits sum.splits if_splits simp del: set_append)
qed

lemma decrypted_keeps:
  assumes "decrypt_secret_material str dec d = Inr d'" "k \<notin> set SECRET_MATERIAL_FIELDS"
  shows "dget d' k = dget d k"
  using decrypt_fields_some [OF assms(1) [unfolded decrypt_secret_material_def] distinct_material, of k] assms(2)
  by (simp add: dget_def)

lemma base_fields: "k \<in> {''id'', ''name'', ''metadata'', ''type'', ''description'', ''updatedAt''} \<Longrightarrow> k \<notin> set SECRET_MATERIAL_FIELDS"
  by (auto simp: SECRET_MATERIAL_FIELDS_def)

lemma edit_keeps_wf:
  assumes "edit_secret str i name descr metadata material S d = Inr d'"
    and "dget d ''id'' = JStr i" "dget d ''name'' = JStr n" "strip n = n" "dget d ''metadata'' = JObj m"
    and "\<And>x. name = JStr x \<Longrightarrow> strip x = x"
  shows "dget d' ''id'' = JStr i \<and> (\<exists>m'. dget d' ''metadata'' = JObj m') \<and>
    (\<exists>n'. dget d' ''name'' = JStr n' \<and> strip n' = n' \<and>
      (n' = n \<or> (\<exists>ds. list_secrets str None None S = Inr ds \<and> \<not> name_in_use (\<lambda>d. dget d ''id'' \<noteq> JStr i) n' ds)))"
proof -
  from edit_cases [OF assms(1)] obtain d1 d2 d3 where e: "rename_secret str i name S d = Inr d1"
    "describe_secret descr d1 = Inr d2" "update_metadata metadata d2 = Inr d3" "update_material str material d3 = Inr d'"
    by blast
  have r: "dget d1 ''id'' = JStr i" "dget d1 ''metadata'' = JObj m"
    by (rule rename_cases [OF e(1)]; use assms(2,5) in simp)+
  have "\<exists>n'. dget d1 ''name'' = JStr n' \<and> strip n' = n' \<and>
      (n' = n \<or> (\<exists>ds. list_secrets str None None S = Inr ds \<and> \<not> name_in_use (\<lambda>d. dget d ''id'' \<noteq> JStr i) n' ds))"
    by (rule rename_cases [OF e(1)]; use assms(3,4,6) in force)
  moreover have d2: "dget d2 k = dget d1 k" if "k \<noteq> ''description''" for k
    by (rule describe_cases [OF e(2)]) (use that in auto)
  moreover have d3: "dget d3 k = dget d2 k" if "k \<noteq> ''metadata''" for k
    by (rule metadata_cases [OF e(3)]) (use that in auto)
  moreover have "\<exists>m'. dget d3 ''metadata'' = JObj m'"
    by (rule metadata_cases [OF e(3)]) (use r(2) d2 in auto)
  ultimately show ?thesis using r(1) update_material_keeps [OF e(4)] by auto
qed

lemma secrets_inv_update:
  assumes "secrets_inv S" "\<And>j. truthy j \<Longrightarrow> as_text str j \<noteq> []" "\<And>x. name = JStr x \<Longrightarrow> strip x = x"
  shows "secrets_inv (snd (update_secret C str enc writable now i name descr metadata material S))"
proof (cases "snd (update_secret C str enc writable now i name descr metadata material S) = S")
  case False
  then obtain d plain d' where o: "map_of (sx_files S) i = Some (Doc d)" "decrypt_secret_material str (decrypt C (sx_key S)) d = Inr plain"
      "edit_secret str i name descr metadata material S plain = Inr d'"
    and S': "snd (update_secret C str enc writable now i name descr metadata material S) =
      S\<lparr>sx_files := AList.update i (Doc (encrypt_secret_material str enc (dset d' ''updatedAt'' (JStr now)))) (sx_files S)\<rparr>"
    by (auto simp: update_secret_def write_secret_def split: if_splits sum.splits option.splits jfile.splits)
  from secrets_inv_wf [OF assms(1) o(1)] obtain n m where d: "dget d ''id'' = JStr i" "dget d ''name'' = JStr n" "strip n = n" "dget d ''metadata'' = JObj m"
    by (auto simp: secret_wf_def)
  have p: "dget plain ''id'' = JStr i" "dget plain ''name'' = JStr n" "dget plain ''metadata'' = JObj m"
    using d decrypted_keeps [OF o(2)] base_fields by simp_all
  from edit_keeps_wf [OF o(3) p(1,2) d(3) p(3) assms(3)] obtain m' n' where e: "dget d' ''id'' = JStr i" "dget d' ''metadata'' = JObj m'"
    "dget d' ''name'' = JStr n'" "strip n' = n'"
    and new: "n' = n \<or> (\<exists>ds. list_secrets str None None S = Inr ds \<and> \<not> name_in_use (\<lambda>d. dget d ''id'' \<noteq> JStr i) n' ds)"
    by blast
  let ?w = "dset d' ''updatedAt'' (JStr now)"
  have "dget ?w ''id'' = JStr i" "dget ?w ''name'' = JStr n'" "dget ?w ''metadata'' = JObj m'" using e by simp_all
  note wf = wf_encrypted [OF this(1,2) e(4) this(3) assms(2), where enc = enc]
  have "lower_name x ''name'' \<noteq> lower_name (encrypt_secret_material str enc ?w) ''name''"
    if x: "j \<noteq> i" "map_of (sx_files S) j = Some (Doc x)" for j x
  proof (cases "n' = n")
    case True
    have "lower_name d ''name'' = Inr (lower n)" using d(2) by (simp add: lower_name_def getd_dget)
    then show ?thesis using wf(2) True x o(1) assms(1) unfolding secrets_inv_def by metis
  next
    case False
    with new obtain ds where "list_secrets str None None S = Inr ds" "\<not> name_in_use (\<lambda>d. dget d ''id'' \<noteq> JStr i) n' ds" by blast
    from name_not_used [OF assms(1) this x(2)] show ?thesis using wf(2) x(1) by auto
  qed
  then show ?thesis unfolding S' by (intro inv_put [OF assms(1) wf(1)]) auto
qed (use assms(1) in simp)

lemma secrets_inv_delete:
  assumes "secrets_inv S"
  shows "secrets_inv (snd (delete_secret writable i S))"
  using assms unfolding secrets_inv_def
  by (auto simp: delete_secret_def AList.delete_eq distinct_map_filter split: if_splits) blast

inductive secret_step :: "crypto \<Rightarrow> (json \<Rightarrow> string) \<Rightarrow> secret_store \<Rightarrow> secret_store \<Rightarrow> bool" for C str where
  create: "strip name = name \<Longrightarrow>
    secret_step C str S (snd (create_secret str enc writable uuid now creator name t d descr S))"
| update: "(\<And>n. name = JStr n \<Longrightarrow> strip n = n) \<Longrightarrow>
    secret_step C str S (snd (update_secret C str enc writable now i name descr metadata material S))"
| delete: "secret_step C str S (snd (delete_secret writable i S))"
| key: "secret_step C str S (S\<lparr>sx_key := k, sx_keyfile := kf\<rparr>)"

lemma inv_step:
  assumes "secret_step C str S S'" "secrets_inv S" "\<And>j. truthy j \<Longrightarrow> as_text str j \<noteq> []"
  shows "secrets_inv S'"
  using assms(1)
proof cases
  case (key k kf)
  then show ?thesis using assms(2) by (simp add: secrets_inv_def)
qed (use assms(2,3) secrets_inv_create secrets_inv_update secrets_inv_delete in \<open>simp; blast\<close>)+

text \<open>C34: Names are unique without regard to case: after any creations, updates and deletions whose names carry no
  surrounding blanks, and any change of the server key, two secrets with the same name are the same
  secret.\<close>
theorem secret_names_unique:
  assumes "sx_files S0 = []" "(secret_step C str)\<^sup>*\<^sup>* S0 S" "\<And>j. truthy j \<Longrightarrow> as_text str j \<noteq> []"
    and "map_of (sx_files S) i = Some (Doc d)" "map_of (sx_files S) j = Some (Doc e)"
    and "lower_name d ''name'' = lower_name e ''name''"
  shows "i = j"
proof -
  from assms(2) have "secrets_inv S"
  proof (induction rule: rtranclp_induct)
    case base
    then show ?case using assms(1) by (simp add: secrets_inv_def)
  next
    case (step S S')
    then show ?case using inv_step assms(3) by blast
  qed
  then show ?thesis using assms(4-6) unfolding secrets_inv_def by metis
qed

subsection \<open>How secrets are lost or doubled\<close>

lemma lo_char_space: "lo_char c = CHR '' '' \<longleftrightarrow> c = CHR '' ''"
proof
  assume a: "lo_char c = CHR '' ''"
  show "c = CHR '' ''"
  proof (cases "is_upper c")
    case True
    then have b: "65 \<le> (of_char c :: nat)" "(of_char c :: nat) \<le> 90" by (simp_all add: is_upper_def char_in_def Let_def)
    have "lo_char c = char_of (of_char c + (32 :: nat))" using True by (simp add: lo_char_def)
    then have "(of_char (lo_char c) :: nat) = of_char c + 32" using b by (simp add: of_char_of)
    then show ?thesis using a b by simp
  qed (use a in \<open>simp add: lo_char_def\<close>)
qed (simp add: lo_char_def is_upper_def char_in_def)

lemma strip_last: "strip s = s \<Longrightarrow> s \<noteq> [] \<Longrightarrow> \<not> is_space (last s)"
proof -
  assume s: "strip s = s" "s \<noteq> []"
  let ?t = "dropWhile is_space (rev (dropWhile is_space s))"
  have r: "rev s = ?t" using s(1) by (metis rev_rev_ident strip_def)
  then have "?t \<noteq> []" using s(2) by (metis rev_is_Nil_conv)
  then have "\<not> is_space (hd ?t)" by (rule hd_dropWhile)
  then show "\<not> is_space (last s)" using r s(2) by (metis hd_rev)
qed

lemma strip_trailing: "strip n = n \<Longrightarrow> n \<noteq> [] \<Longrightarrow> strip (n @ '' '') = n"
proof -
  assume n: "strip n = n" "n \<noteq> []"
  have "\<not> is_space (hd n)"
  proof
    assume "is_space (hd n)"
    then have "length (dropWhile is_space n) < length n"
      using n(2) by (cases n) (simp_all add: less_Suc_eq_le length_dropWhile_le)
    moreover have "length (strip n) \<le> length (dropWhile is_space n)"
      by (simp add: strip_def) (metis length_dropWhile_le length_rev)
    ultimately show False using n(1) by simp
  qed
  then have "dropWhile is_space (n @ '' '') = n @ '' ''" "dropWhile is_space n = n" using n(2) by (cases n; simp)+
  then show ?thesis using n strip_last [OF n] by (simp add: strip_def is_space_def char_in_def)
qed

lemma listed_names:
  assumes "secrets_inv S"
  shows "\<exists>ds. list_secrets str None None S = Inr ds \<and>
    (\<forall>s \<in> set ds. \<exists>k x. map_of (sx_files S) k = Some (Doc x) \<and> lower_name s ''name'' = lower_name x ''name'')"
proof -
  define found where "found = List.map_filter (listed_secret str None None) (map snd (sx_files S))"
  have each: "\<exists>k x. map_of (sx_files S) k = Some (Doc x) \<and> lower_name s ''name'' = lower_name x ''name'' \<and> is_ok (lower_name x ''name'')"
    if s: "s \<in> set found" for s
  proof -
    from s obtain k f where f: "(k, f) \<in> set (sx_files S)" "listed_secret str None None f = Some s"
      by (auto simp: found_def List.map_filter_def)
    then have "map_of (sx_files S) k = Some f" using assms by (simp add: secrets_inv_def)
    then obtain x where x: "f = Doc x" "map_of (sx_files S) k = Some (Doc x)" "secret_wf k x" using assms unfolding secrets_inv_def by blast
    from sanitize_wf [OF x(3), of str] f(2) x(1) have "lower_name s ''name'' = lower_name x ''name''" by (auto simp: listed_secret_def)
    moreover have "is_ok (lower_name x ''name'')" using x(3) by (auto simp: secret_wf_def lower_name_def getd_dget)
    ultimately show ?thesis using x(2) by blast
  qed
  then have "list_all (\<lambda>d. is_ok (lower_name d ''name'')) found" by (force simp: list_all_iff)
  then show ?thesis using each by (force simp: list_secrets_def found_def [symmetric])
qed

lemma create_succeeds:
  assumes "secrets_inv S" "strip name = name" "validate_secret_name (JStr name)" "validate_secret_data str (JStr t) d = Inr True"
    and "secret_path_ok uuid" "\<And>x. truthy x \<Longrightarrow> as_text str x \<noteq> []"
    and "\<And>k x. map_of (sx_files S) k = Some (Doc x) \<Longrightarrow> lower_name x ''name'' \<noteq> Inr (lower name)"
  shows "\<exists>ans. create_secret str enc True uuid now creator name t d descr S =
    (Inr ans, S\<lparr>sx_files := AList.update uuid (Doc (encrypt_secret_material str enc (new_secret uuid now creator name t descr d))) (sx_files S)\<rparr>)"
proof -
  let ?n = "new_secret uuid now creator name t descr d"
  have t: "map_of SECRET_TYPES t \<noteq> None" using assms(4) by (cases "map_of SECRET_TYPES t") (simp_all add: validate_secret_data_def)
  from listed_names [OF assms(1), of str] obtain ds where ds: "list_secrets str None None S = Inr ds"
    "\<forall>s \<in> set ds. \<exists>k x. map_of (sx_files S) k = Some (Doc x) \<and> lower_name s ''name'' = lower_name x ''name''" by blast
  have "\<not> name_in_use (\<lambda>d. True) name ds" using ds(2) assms(7) by (force simp: name_in_use_def list_ex_iff)
  moreover obtain ans where "sanitize_secret_for_api str (encrypt_secret_material str enc ?n) = Inr ans"
  proof -
    obtain m where "dget ?n ''metadata'' = JObj m" using dget_new_secret_base(4) [OF t] by metis
    with dget_new_secret_base(1,2) [OF t] assms(2) have "secret_wf uuid (encrypt_secret_material str enc ?n)"
      by (intro wf_encrypted(1) [OF _ _ assms(2) _ assms(6)]) auto
    from sanitize_wf [OF this, of str] that show ?thesis by blast
  qed
  ultimately show ?thesis using t ds(1) assms(3,4,5) by (simp add: create_secret_def write_secret_def)
qed

lemma rename_succeeds:
  assumes "secrets_inv S" "validate_secret_name (JStr x)"
    and "\<And>k y. map_of (sx_files S) k = Some (Doc y) \<Longrightarrow> lower_name y ''name'' \<noteq> Inr (lower x)"
  shows "edit_secret str i (JStr x) JNull JNull None S d = Inr (dset d ''name'' (JStr (strip x)))"
proof -
  from listed_names [OF assms(1), of str] obtain ds where ds: "list_secrets str None None S = Inr ds"
    "\<forall>s \<in> set ds. \<exists>k x. map_of (sx_files S) k = Some (Doc x) \<and> lower_name s ''name'' = lower_name x ''name''" by blast
  have "\<not> name_in_use (\<lambda>d. dget d ''id'' \<noteq> JStr i) x ds" using ds(2) assms(3) by (force simp: name_in_use_def list_ex_iff)
  then show ?thesis using ds(1) assms(2)
    by (simp add: edit_secret_def rename_secret_def describe_secret_def update_metadata_def update_material_def)
qed

lemma update_succeeds:
  assumes "secret_path_ok i" "map_of (sx_files S) i = Some (Doc d)"
    and "decrypt_secret_material str (decrypt C (sx_key S)) d = Inr plain" "edit_secret str i name descr metadata material S plain = Inr d'"
    and "dget d' ''id'' = JStr i" "dget d' ''name'' = JStr n" "strip n = n" "dget d' ''metadata'' = JObj m"
    and "\<And>x. truthy x \<Longrightarrow> as_text str x \<noteq> []"
  shows "\<exists>ans. update_secret C str enc True now i name descr metadata material S =
    (Inr ans, S\<lparr>sx_files := AList.update i (Doc (encrypt_secret_material str enc (dset d' ''updatedAt'' (JStr now)))) (sx_files S)\<rparr>)"
proof -
  have w: "dget (dset d' ''updatedAt'' (JStr now)) ''id'' = JStr i" "dget (dset d' ''updatedAt'' (JStr now)) ''name'' = JStr n"
    "dget (dset d' ''updatedAt'' (JStr now)) ''metadata'' = JObj m"
    using assms(5,6,8) by simp_all
  from sanitize_wf [OF wf_encrypted(1) [OF w(1,2) assms(7) w(3) assms(9)], of str] show ?thesis
    using assms(1-4) by (auto simp: update_secret_def write_secret_def)
qed

lemma stored_name: "secrets_inv S \<Longrightarrow> map_of (sx_files S) k = Some (Doc x) \<Longrightarrow> \<exists>m. lower_name x ''name'' = Inr (lower m) \<and> strip m = m"
  using secrets_inv_wf [of S k x] by (auto simp: secret_wf_def lower_name_def getd_dget)

lemma padded_differs:
  assumes "strip m = m"
  shows "lower m \<noteq> lower (n @ '' '')"
proof
  assume eq: "lower m = lower (n @ '' '')"
  then have "m \<noteq> []" by (auto simp: lower_def)
  have "last (lower m) = CHR '' ''" unfolding eq by (simp add: lower_def lo_char_def is_upper_def char_in_def)
  then have "last m = CHR '' ''" using \<open>m \<noteq> []\<close> by (simp add: lower_def last_map lo_char_space)
  then show False using strip_last [OF assms \<open>m \<noteq> []\<close>] by (simp add: is_space_def char_in_def)
qed

text \<open>Padding the new name defeats the check of uniqueness: renaming a secret to the name of another
  one with a blank behind it is accepted, and the stored, trimmed name is then the same.\<close>
theorem padded_rename_duplicates:
  assumes "secrets_inv S" "map_of (sx_files S) i = Some (Doc d)" "map_of (sx_files S) j = Some (Doc e)" "i \<noteq> j"
    and "dget e ''name'' = JStr n" "validate_secret_name (JStr n)" "secret_path_ok i"
    and "decrypt_secret_material str (decrypt C (sx_key S)) d = Inr plain" "\<And>x. truthy x \<Longrightarrow> as_text str x \<noteq> []"
  shows "\<exists>ans S' d'. update_secret C str enc True now i (JStr (n @ '' '')) JNull JNull None S = (Inr ans, S') \<and>
    map_of (sx_files S') i = Some (Doc d') \<and> dget d' ''name'' = JStr n \<and> map_of (sx_files S') j = Some (Doc e)"
proof -
  from secrets_inv_wf [OF assms(1,3)] assms(5) have n: "strip n = n" by (auto simp: secret_wf_def)
  from assms(6) have ne: "n \<noteq> []" by (auto simp: validate_secret_name_def)
  have valid: "validate_secret_name (JStr (n @ '' ''))"
    using assms(6) strip_trailing [OF n ne] by (simp add: validate_secret_name_def n Let_def)
  have "lower_name y ''name'' \<noteq> Inr (lower (n @ '' ''))" if "map_of (sx_files S) k = Some (Doc y)" for k y
    using stored_name [OF assms(1) that] padded_differs [of _ n] by (metis sum.inject(2))
  from rename_succeeds [OF assms(1) valid this, where str = str and i = i and d = plain]
  have edit: "edit_secret str i (JStr (n @ '' '')) JNull JNull None S plain = Inr (dset plain ''name'' (JStr n))"
    by (simp add: strip_trailing [OF n ne])
  from secrets_inv_wf [OF assms(1,2)] obtain m where d: "dget d ''id'' = JStr i" "dget d ''metadata'' = JObj m" by (auto simp: secret_wf_def)
  have w: "dget (dset plain ''name'' (JStr n)) ''id'' = JStr i" "dget (dset plain ''name'' (JStr n)) ''name'' = JStr n"
    "dget (dset plain ''name'' (JStr n)) ''metadata'' = JObj m"
    using d decrypted_keeps [OF assms(8)] base_fields by simp_all
  from update_succeeds [OF assms(7,2,8) edit w(1,2) n w(3) assms(9), of enc now] obtain ans where
    "update_secret C str enc True now i (JStr (n @ '' '')) JNull JNull None S = (Inr ans, S\<lparr>sx_files := AList.update i
       (Doc (encrypt_secret_material str enc (dset (dset plain ''name'' (JStr n)) ''updatedAt'' (JStr now)))) (sx_files S)\<rparr>)" by blast
  moreover have "dget (encrypt_secret_material str enc (dset (dset plain ''name'' (JStr n)) ''updatedAt'' (JStr now))) ''name'' = JStr n"
    using base_fields by (simp add: dget_encrypted)
  ultimately show ?thesis using assms(3,4) by simp
qed

lemma decrypt_fields_all:
  assumes "decrypt_fields str dec fs d = Inr d'" "distinct fs" "f \<in> set fs" "truthy (dget d f)"
  shows "\<exists>p. dec (as_text str (dget d f)) = Inr p"
  using assms
proof (induction fs arbitrary: d)
  case (Cons g fs)
  show ?case
  proof (cases "f = g")
    case True
    then show ?thesis using Cons.prems by (auto split: sum.splits)
  next
    case False
    then have f: "f \<in> set fs" "distinct fs" using Cons.prems(2,3) by auto
    show ?thesis
    proof (cases "truthy (dget d g)")
      case True
      with Cons.prems(1) obtain p where "decrypt_fields str dec fs (dset d g (JStr p)) = Inr d'" by (auto split: sum.splits)
      from Cons.IH [OF this f(2,1)] show ?thesis using Cons.prems(4) False by simp
    next
      case False
      then show ?thesis using Cons.IH [of d] Cons.prems(1,4) f by simp
    qed
  qed
qed simp

lemma decrypt_encrypt_other:
  assumes "aead_laws C" "length salt = 16" "length nonce = 12" "p \<noteq> []"
    and "cx_unseal C (cx_kdf C k' salt) nonce (cx_seal C (cx_kdf C k salt) nonce p) = None"
  shows "\<not> is_ok (decrypt C k' (encrypt C k salt nonce p))"
proof -
  have parts: "take 12 (drop 16 (salt @ nonce @ t)) = nonce" "take 16 (salt @ nonce @ t) = salt" "drop 28 (salt @ nonce @ t) = t" for t
    using assms(2,3) by simp_all
  show ?thesis using assms(2-5)
    by (simp add: encrypt_def decrypt_def V2_PREFIX_def starts_with_def aead_laws.length_seal [OF assms(1)] unsealed_def)
qed

lemma required_material:
  assumes "validate_secret_data str (JStr t) d = Inr True"
  shows "\<exists>f \<in> set SECRET_MATERIAL_FIELDS. f \<in> set (fst (type_fields t) @ fst (snd (type_fields t))) \<and> truthy (dget d f)"
  using assms by (auto simp: validate_secret_data_def SECRET_TYPES_def type_fields_def SECRET_MATERIAL_FIELDS_def split: option.splits if_splits)

text \<open>Replacing the server key loses the secrets made before the next restart: the handler checks that
  there are no secrets yet and answers 200, but the running manager keeps the key it was made with;
  what it encrypts from then on cannot be read after a restart, when the new key is loaded.\<close>
theorem replaced_key_loses_secrets:
  assumes "aead_laws C" "sx_files S = []" "load_encryption_key None (sx_keyfile S) = Some (sx_key S)"
    and "can_write_global_secrets pr db" "strip k = k" "32 \<le> length k"
    and "good_rnd rnd" "texts str d"
    and "create_secret str (fresh_enc C (sx_key S) rnd) True uuid now creator name t d descr
        (snd (api_update_encryption_key str None True pr db [(''key'', JStr k)] S)) = (Inr ans, S')"
    and "\<And>f p. cx_unseal C (cx_kdf C k (fst (rnd f))) (snd (rnd f)) (cx_seal C (cx_kdf C (sx_key S) (fst (rnd f))) (snd (rnd f)) p) = None"
  shows "fst (api_update_encryption_key str None True pr db [(''key'', JStr k)] S) = 200 \<and>
    (\<exists>x. get_secret C str uuid True S' = Inr (Some x)) \<and>
    get_secret C str uuid True (start_manager None True fresh S') = Inl secret_error"
proof -
  have ne: "k \<noteq> []" using assms(6) by auto
  have "list_secrets str None None S = Inr []" using assms(2) by (simp add: list_secrets_def List.map_filter_simps)
  then have upd: "api_update_encryption_key str None True pr db [(''key'', JStr k)] S = (200, S\<lparr>sx_keyfile := Some k\<rparr>)"
    using assms(3-6) ne by (simp add: api_update_encryption_key_def save_encryption_key_def Let_def)
  note created = assms(9) [unfolded upd snd_conv]
  note c = create_ok [OF created]
  let ?n = "new_secret uuid now creator name t descr d"
  have now: "\<exists>x. get_secret C str uuid True S' = Inr (Some x)"
  proof -
    have "create_secret str (fresh_enc C (sx_key (S\<lparr>sx_keyfile := Some k\<rparr>)) rnd) True uuid now creator name t d descr
        (S\<lparr>sx_keyfile := Some k\<rparr>) = (Inr ans, S')"
      using created by simp
    from created_reads_back [OF assms(1,7,8) this] show ?thesis by blast
  qed
  obtain x xs where "k = x # xs" using ne by (cases k) auto
  then have restart: "start_manager None True fresh S' = S'\<lparr>sx_key := k, sx_keyfile := Some k\<rparr>"
    using assms(5) by (simp add: start_manager_def get_encryption_def load_encryption_key_def c(6))
  from required_material [OF c(4)] obtain f where f: "f \<in> set SECRET_MATERIAL_FIELDS" "truthy (dget d f)"
    "f \<in> set (fst (type_fields t) @ fst (snd (type_fields t)))" by blast
  then have nf: "dget ?n f = dget d f" using dget_new_secret_field [OF material_not_base [OF f(1)]] by (simp add: dget_def [of ?n])
  have filled: "as_text str (dget d f) \<noteq> []" using assms(8) f by (simp add: texts_def)
  let ?e = "encrypt_secret_material str (fresh_enc C (sx_key S) rnd) ?n"
  have ef: "dget ?e f = JStr (encrypt C (sx_key S) (fst (rnd f)) (snd (rnd f)) (as_text str (dget d f)))"
    using f nf filled by (simp add: dget_encrypted fresh_enc_def)
  have text_id: "as_text str (JStr x) = x" for x by (simp add: as_text_def)
  have bad: "\<not> is_ok (decrypt C k (as_text str (dget ?e f)))"
    unfolding ef text_id
    by (rule decrypt_encrypt_other [OF assms(1)]) (use assms(7,10) filled in \<open>simp_all add: good_rnd_def\<close>)
  have "truthy (dget ?e f)" unfolding ef using filled by (simp add: encrypt_def V2_PREFIX_def)
  then have "\<not> is_ok (decrypt_secret_material str (decrypt C k) ?e)"
    using bad decrypt_fields_all [OF _ distinct_material f(1)] by (fastforce simp: is_ok_iff decrypt_secret_material_def)
  then have "get_secret C str uuid True (start_manager None True fresh S') = Inl secret_error"
    using c(2) unfolding restart by (auto simp: get_secret_def c(6) is_ok_def split: sum.splits)
  with now show ?thesis by (simp add: upd)
qed

text \<open>A legacy secret reads back or not by chance: the format is told by the first two bytes, which are
  random in the legacy format. If they spell the prefix of the new format, a short secret is
  rejected as corrupt; otherwise it is read.\<close>
theorem legacy_secret_by_chance:
  assumes "aead_laws C" "length nonce = 12" "utf8_text p" "length p < 18"
  shows "decrypt C k (b64_encode (nonce @ cx_seal C (cx_kdf C k LEGACY_FIXED_SALT) nonce p)) =
    (if starts_with nonce V2_PREFIX then Inl (ValueError ''Decryption failed'') else Inr p)"
proof (cases "starts_with nonce V2_PREFIX")
  case True
  have "nonce \<noteq> []" using assms(2) by auto
  moreover have "starts_with (nonce @ x) V2_PREFIX" for x
    using True assms(2) by (simp add: starts_with_def V2_PREFIX_def)
  ultimately show ?thesis using assms(2,4) True by (simp add: decrypt_def aead_laws.length_seal [OF assms(1)] Let_def)
next
  case False
  then show ?thesis using aead_laws.legacy_readable [OF assms(1-3)] by simp
qed

lemma dget_set_field:
  "f \<in> set allowed \<Longrightarrow> dget (set_fields allowed [(f, v)] d) f = v"
  by (simp add: set_fields_def)

text \<open>The user name of a secret of type \<open>basic_auth\<close> cannot be changed: the update is answered with 200,
  but the field is neither material nor optional and is left out.\<close>
theorem basic_username_not_updated:
  assumes "can_write_global_secrets pr db" "secret_path_ok i" "map_of (sx_files S) i = Some (Doc d)" "secret_wf i d"
    and "dget d ''type'' = JStr ''basic_auth''" "decrypt_secret_material str (decrypt C (sx_key S)) d = Inr plain"
    and "truthy (dget plain ''password'')" "strip (as_text str (dget plain ''password'')) \<noteq> []" "strip u \<noteq> []"
    and "\<And>x. truthy x \<Longrightarrow> as_text str x \<noteq> []"
  shows "\<exists>ans S' d'. api_update_global_secret C str enc True now pr db i [(''username'', JStr u)] S = (200, ans, S') \<and>
    map_of (sx_files S') i = Some (Doc d') \<and> dget d' ''username'' = dget d ''username''"
proof -
  have u: "u \<noteq> []" using assms(9) by (auto simp: strip_def)
  have fields: "update_fields [(''username'', JStr u)] = [(''username'', JStr u)]" by (simp add: update_fields_def dset_def)
  have nt: "''type'' \<notin> set SECRET_MATERIAL_FIELDS" "''username'' \<notin> set SECRET_MATERIAL_FIELDS" by (simp_all add: SECRET_MATERIAL_FIELDS_def)
  have t: "dget plain ''type'' = JStr ''basic_auth''" using decrypted_keeps [OF assms(6) nt(1)] assms(5) by simp
  have valid: "validate_secret_data str (JStr ''basic_auth'') (dupd plain [(''username'', JStr u)]) = Inr True"
    using assms(7,8,9) u by (simp add: validate_secret_data_def SECRET_TYPES_def dget_dupd as_text_def)
  have "optional_fields plain = []" by (simp add: optional_fields_def t type_fields_def SECRET_TYPES_def)
  then have same: "set_fields (SECRET_MATERIAL_FIELDS @ optional_fields plain) [(''username'', JStr u)] plain = plain"
    using nt(2) by (simp add: set_fields_def)
  have edit: "edit_secret str i JNull JNull JNull (Some [(''username'', JStr u)]) S plain = Inr plain"
    using valid same by (simp add: edit_secret_def rename_secret_def describe_secret_def update_metadata_def update_material_def t)
  from assms(4) obtain n m where d: "dget d ''id'' = JStr i" "dget d ''name'' = JStr n" "strip n = n" "dget d ''metadata'' = JObj m"
    by (auto simp: secret_wf_def)
  let ?w = "dset plain ''updatedAt'' (JStr now)"
  have w: "dget plain ''id'' = JStr i" "dget plain ''name'' = JStr n" "dget plain ''metadata'' = JObj m"
    using d decrypted_keeps [OF assms(6)] base_fields by simp_all
  from update_succeeds [OF assms(2,3,6) edit w(1,2) d(3) w(3) assms(10), of enc now] obtain ans where
    "update_secret C str enc True now i JNull JNull JNull (Some [(''username'', JStr u)]) S =
      (Inr ans, S\<lparr>sx_files := AList.update i (Doc (encrypt_secret_material str enc ?w)) (sx_files S)\<rparr>)" by blast
  moreover have "dget (encrypt_secret_material str enc ?w) ''username'' = dget d ''username''"
    using nt(2) decrypted_keeps [OF assms(6) nt(2)] by (simp add: dget_encrypted)
  ultimately show ?thesis using assms(1) by (simp add: api_update_global_secret_def fields answer_def)
qed

subsection \<open>Witnesses\<close>

definition tag :: "string \<Rightarrow> string" where "tag k = take 16 (k @ replicate 16 CHR ''-'')"

definition demo_crypto :: crypto where
  "demo_crypto =
    \<lparr>cx_kdf = (\<lambda>k salt. k), cx_seal = (\<lambda>k n p. p @ tag k),
     cx_unseal = (\<lambda>k n c. if 16 \<le> length c \<and> drop (length c - 16) c = tag k then Some (take (length c - 16) c) else None)\<rparr>"

lemma demo_laws: "aead_laws demo_crypto"
  by unfold_locales (simp_all add: demo_crypto_def tag_def)

interpretation demo_aead: aead_laws demo_crypto
  by (rule demo_laws)

definition demo_str :: "json \<Rightarrow> string" where "demo_str j = ''x''"
definition demo_rnd :: "string \<Rightarrow> string \<times> string" where "demo_rnd f = (replicate 16 CHR ''s'', replicate 12 CHR ''n'')"
definition empty_secrets :: secret_store where
  "empty_secrets = \<lparr>sx_files = [], sx_keyfile = Some ''0key'', sx_key = ''0key''\<rparr>"
definition demo_token :: "string \<Rightarrow> doc" where "demo_token v = [(''token'', JStr v)]"

definition demo_created :: "string \<Rightarrow> doc res \<times> secret_store" where
  "demo_created v = create_secret demo_str (fresh_enc demo_crypto ''0key'' demo_rnd) True ''u1'' ''t0'' ''root'' ''deploy'' ''git_token'' (demo_token v) None empty_secrets"

lemma demo_good: "good_rnd demo_rnd" "utf8_text v \<Longrightarrow> texts demo_str (demo_token v)"
  by (auto simp: good_rnd_def demo_rnd_def texts_def demo_token_def SECRET_MATERIAL_FIELDS_def as_text_def)

lemma demo_text [simp]: "truthy j \<Longrightarrow> as_text demo_str j \<noteq> []"
  by (cases j) (simp_all add: as_text_def demo_str_def)

lemma demo_texts: "texts demo_str (demo_token ''abc'')" "texts demo_str (demo_token ''xyz'')"
  by (rule demo_good(2), code_simp)+

lemma empty_inv [simp]: "secrets_inv (empty_secrets\<lparr>sx_keyfile := kf\<rparr>)" "secrets_inv empty_secrets"
  by (simp_all add: secrets_inv_def empty_secrets_def)

lemma demo_names: "strip ''deploy'' = ''deploy''" "strip ''deploy2'' = ''deploy2''" "strip ''backup'' = ''backup''"
  "validate_secret_name (JStr ''deploy'')" "validate_secret_name (JStr ''deploy2'')" "validate_secret_name (JStr ''backup'')"
  "secret_path_ok ''u1''" "secret_path_ok ''u2''"
  by (simp_all add: validate_secret_name_def secret_path_ok_def strip_def is_space_def is_lower_def is_digit_def char_in_def starts_with_def)

lemma demo_valid: "validate_secret_data demo_str (JStr ''git_token'') (demo_token ''abc'') = Inr True"
  "validate_secret_data demo_str (JStr ''git_token'') (demo_token ''xyz'') = Inr True"
  by (simp_all add: validate_secret_data_def SECRET_TYPES_def demo_token_def as_text_def strip_def is_space_def char_in_def)

lemma demo_create:
  assumes "validate_secret_data demo_str (JStr ''git_token'') (demo_token v) = Inr True"
  shows "\<exists>ans. create_secret demo_str (fresh_enc demo_crypto ''0key'' demo_rnd) True ''u1'' ''t0'' ''root'' ''deploy'' ''git_token'' (demo_token v) None
      (empty_secrets\<lparr>sx_keyfile := kf\<rparr>) = (Inr ans, empty_secrets\<lparr>sx_keyfile := kf, sx_files := [(''u1'', Doc (encrypt_secret_material demo_str
        (fresh_enc demo_crypto ''0key'' demo_rnd) (new_secret ''u1'' ''t0'' ''root'' ''deploy'' ''git_token'' None (demo_token v))))]\<rparr>)"
proof -
  have "sx_files (empty_secrets\<lparr>sx_keyfile := kf\<rparr>) = []" by (simp add: empty_secrets_def)
  then show ?thesis
    using create_succeeds [OF empty_inv(1) demo_names(1,4) assms demo_names(7) demo_text,
        of kf, where enc = "fresh_enc demo_crypto ''0key'' demo_rnd" and now = "''t0''" and creator = "''root''" and descr = None]
    by auto
qed

lemma demo_created_ok: "is_ok (fst (demo_created ''abc''))" "is_ok (fst (demo_created ''xyz''))"
proof -
  have e: "empty_secrets\<lparr>sx_keyfile := Some ''0key''\<rparr> = empty_secrets" by (simp add: empty_secrets_def)
  show "is_ok (fst (demo_created ''abc''))" "is_ok (fst (demo_created ''xyz''))"
    using demo_create [OF demo_valid(1), of "Some ''0key''"] demo_create [OF demo_valid(2), of "Some ''0key''"]
    unfolding e demo_created_def by auto
qed

definition demo_renamed :: "doc res \<times> secret_store" where
  "demo_renamed = update_secret demo_crypto demo_str (fresh_enc demo_crypto ''0key'' demo_rnd) True ''t1'' ''u1'' (JStr ''deploy2'') JNull JNull None
    (snd (demo_created ''abc''))"

lemma demo_file:
  "\<exists>d plain. sx_files (snd (demo_created ''abc'')) = [(''u1'', Doc d)] \<and> secret_wf ''u1'' d \<and> dget d ''name'' = JStr ''deploy'' \<and>
    decrypt_secret_material demo_str (decrypt demo_crypto ''0key'') d = Inr plain"
proof -
  let ?n = "new_secret ''u1'' ''t0'' ''root'' ''deploy'' ''git_token'' None (demo_token ''abc'')"
  let ?d = "encrypt_secret_material demo_str (fresh_enc demo_crypto ''0key'' demo_rnd) ?n"
  have e: "empty_secrets\<lparr>sx_keyfile := Some ''0key''\<rparr> = empty_secrets" by (simp add: empty_secrets_def)
  have "sx_files (snd (demo_created ''abc'')) = [(''u1'', Doc ?d)]"
    using demo_create [OF demo_valid(1), of "Some ''0key''"] unfolding e demo_created_def by auto
  moreover obtain m where base: "dget ?n ''id'' = JStr ''u1''" "dget ?n ''name'' = JStr ''deploy''" "dget ?n ''metadata'' = JObj m"
    using dget_new_secret_base [of "''git_token''" "''u1''" "''t0''" "''root''" "''deploy''" None "demo_token ''abc''"] demo_names(1)
    by (auto simp: SECRET_TYPES_def)
  moreover have "dget ?d ''name'' = JStr ''deploy''" using base(2) base_fields by (simp add: dget_encrypted)
  moreover obtain plain where "decrypt_secret_material demo_str (decrypt demo_crypto ''0key'') ?d = Inr plain"
    using encrypted_reads_back [OF demo_laws demo_good(1) texts_new_secret [OF demo_texts(1)]] by blast
  ultimately show ?thesis using wf_encrypted(1) [OF base(1,2) demo_names(1) base(3) demo_text] by blast
qed

lemma demo_key: "sx_key (snd (demo_created v)) = ''0key''"
  by (simp add: demo_created_def create_secret_def write_secret_def empty_secrets_def split: sum.split)

lemma single_inv: "secret_wf i d \<Longrightarrow> sx_files S = [(i, Doc d)] \<Longrightarrow> secrets_inv S"
  by (simp add: secrets_inv_def)

lemma demo_renamed_ok: "is_ok (fst demo_renamed)"
proof -
  from demo_file obtain d plain where f: "sx_files (snd (demo_created ''abc'')) = [(''u1'', Doc d)]" "secret_wf ''u1'' d" "dget d ''name'' = JStr ''deploy''"
    "decrypt_secret_material demo_str (decrypt demo_crypto (sx_key (snd (demo_created ''abc'')))) d = Inr plain"
    unfolding demo_key by blast
  have at: "map_of (sx_files (snd (demo_created ''abc''))) ''u1'' = Some (Doc d)" by (simp add: f(1))
  have "lower_name y ''name'' \<noteq> Inr (lower ''deploy2'')" if "map_of (sx_files (snd (demo_created ''abc''))) k = Some (Doc y)" for k y
    using that f(3) by (auto simp: f(1) lower_name_def getd_dget lower_def lo_char_def is_upper_def char_in_def split: if_splits)
  from rename_succeeds [OF single_inv [OF f(2,1)] demo_names(5) this] demo_names(2)
  have e: "edit_secret demo_str ''u1'' (JStr ''deploy2'') JNull JNull None (snd (demo_created ''abc'')) plain = Inr (dset plain ''name'' (JStr ''deploy2''))"
    by simp
  from f(2) obtain m where m: "dget d ''id'' = JStr ''u1''" "dget d ''metadata'' = JObj m" by (auto simp: secret_wf_def)
  have w: "dget (dset plain ''name'' (JStr ''deploy2'')) ''id'' = JStr ''u1''" "dget (dset plain ''name'' (JStr ''deploy2'')) ''name'' = JStr ''deploy2''"
    "dget (dset plain ''name'' (JStr ''deploy2'')) ''metadata'' = JObj m"
    using m decrypted_keeps [OF f(4)] base_fields by simp_all
  have "\<exists>ans S'. demo_renamed = (Inr ans, S')"
    unfolding demo_renamed_def using update_succeeds [OF demo_names(7) at f(4) e w(1,2) demo_names(2) w(3)] demo_text by blast
  then show ?thesis by (metis fst_conv is_ok_simps(1))
qed

theorem secret_survives_update_witness:
  "\<exists>d'. get_secret demo_crypto demo_str ''u1'' True (snd demo_renamed) = Inr (Some d') \<and> dget d' ''token'' = JStr ''abc''"
proof -
  obtain a1 S1 where c: "demo_created ''abc'' = (Inr a1, S1)" using demo_created_ok(1) by (cases "demo_created ''abc''") (auto simp: is_ok_iff)
  obtain a2 S2 where u: "demo_renamed = (Inr a2, S2)" using demo_renamed_ok unfolding is_ok_iff by (metis prod.collapse)
  have k: "sx_key S1 = ''0key''" using demo_key [of "''abc''"] by (simp add: c)
  have e: "sx_key empty_secrets = ''0key''" by (simp add: empty_secrets_def)
  have "demo_renamed = update_secret demo_crypto demo_str (fresh_enc demo_crypto (sx_key S1) demo_rnd) True ''t1'' ''u1'' (JStr ''deploy2'') JNull JNull None S1"
    by (simp add: demo_renamed_def c k)
  note secret_survives_update [OF demo_laws demo_good(1) demo_good(1) demo_texts(1) c [unfolded demo_created_def e [symmetric]] this [symmetric, unfolded u]]
  then show ?thesis by (simp add: u demo_token_def type_fields_def SECRET_TYPES_def SECRET_MATERIAL_FIELDS_def as_text_def)
qed

theorem answers_hide_material_witness:
  "\<exists>a. fst (demo_created ''abc'') = Inr a \<and> fst (demo_created ''xyz'') = Inr a"
proof -
  obtain a1 S1 where c: "demo_created ''abc'' = (Inr a1, S1)" using demo_created_ok(1) by (cases "demo_created ''abc''") (auto simp: is_ok_iff)
  obtain a2 S2 where d: "demo_created ''xyz'' = (Inr a2, S2)" using demo_created_ok(2) by (cases "demo_created ''xyz''") (auto simp: is_ok_iff)
  have "like (demo_token ''abc'') (demo_token ''xyz'')" by (auto simp: like_def demo_token_def SECRET_MATERIAL_FIELDS_def)
  from answers_hide_material [OF this demo_texts demo_good(1) c [unfolded demo_created_def] d [unfolded demo_created_def]]
  show ?thesis by (simp add: c d)
qed

definition two_secrets :: secret_store where
  "two_secrets = snd (create_secret demo_str (fresh_enc demo_crypto ''0key'' demo_rnd) True ''u2'' ''t1'' ''root'' ''backup'' ''git_token''
    (demo_token ''xyz'') None (snd (demo_created ''abc'')))"

lemma two_reached: "(secret_step demo_crypto demo_str)\<^sup>*\<^sup>* empty_secrets two_secrets"
proof -
  have s: "strip ''deploy'' = ''deploy''" "strip ''backup'' = ''backup''" by (simp_all add: strip_def is_space_def char_in_def)
  have "secret_step demo_crypto demo_str empty_secrets (snd (demo_created ''abc''))" unfolding demo_created_def by (rule secret_step.create [OF s(1)])
  moreover have "secret_step demo_crypto demo_str (snd (demo_created ''abc'')) two_secrets" unfolding two_secrets_def by (rule secret_step.create [OF s(2)])
  ultimately show ?thesis by (meson rtranclp.simps)
qed

lemma two_inv: "secrets_inv two_secrets"
  using two_reached
proof (induction rule: rtranclp_induct)
  case base
  show ?case by (simp add: secrets_inv_def empty_secrets_def)
next
  case (step S S')
  then show ?case using inv_step [where str = demo_str] by (metis demo_text)
qed

lemma two_files:
  "\<exists>d e plain. map_of (sx_files two_secrets) ''u1'' = Some (Doc d) \<and> map_of (sx_files two_secrets) ''u2'' = Some (Doc e) \<and>
    dget e ''name'' = JStr ''backup'' \<and> decrypt_secret_material demo_str (decrypt demo_crypto (sx_key two_secrets)) d = Inr plain"
proof -
  from demo_file obtain d plain where f: "sx_files (snd (demo_created ''abc'')) = [(''u1'', Doc d)]" "secret_wf ''u1'' d" "dget d ''name'' = JStr ''deploy''"
    "decrypt_secret_material demo_str (decrypt demo_crypto ''0key'') d = Inr plain" by blast
  have free: "lower_name y ''name'' \<noteq> Inr (lower ''backup'')" if "map_of (sx_files (snd (demo_created ''abc''))) k = Some (Doc y)" for k y
    using that f(3) by (auto simp: f(1) lower_name_def getd_dget lower_def lo_char_def is_upper_def char_in_def split: if_splits)
  let ?n = "new_secret ''u2'' ''t1'' ''root'' ''backup'' ''git_token'' None (demo_token ''xyz'')"
  let ?S = "snd (demo_created ''abc'')" and ?enc = "fresh_enc demo_crypto ''0key'' demo_rnd"
  have "\<exists>ans. create_secret demo_str ?enc True ''u2'' ''t1'' ''root'' ''backup'' ''git_token'' (demo_token ''xyz'') None ?S =
      (Inr ans, ?S\<lparr>sx_files := AList.update ''u2'' (Doc (encrypt_secret_material demo_str ?enc ?n)) (sx_files ?S)\<rparr>)"
    by (rule create_succeeds [OF single_inv [OF f(2,1)] demo_names(3,6) demo_valid(2) demo_names(8)]) (use free in auto)
  then have eq: "two_secrets = ?S\<lparr>sx_files := AList.update ''u2'' (Doc (encrypt_secret_material demo_str ?enc ?n)) (sx_files ?S)\<rparr>"
    by (auto simp: two_secrets_def)
  moreover have "dget (encrypt_secret_material demo_str (fresh_enc demo_crypto ''0key'' demo_rnd) ?n) ''name'' = JStr ''backup''"
    using dget_new_secret_base(2) [of "''git_token''" "''u2''" "''t1''" "''root''" "''backup''" None "demo_token ''xyz''"] demo_names(3) base_fields
    by (simp add: dget_encrypted SECRET_TYPES_def)
  moreover have "sx_files two_secrets = [(''u1'', Doc d), (''u2'', Doc (encrypt_secret_material demo_str ?enc ?n))]"
    "sx_key two_secrets = ''0key''"
    unfolding eq using f(1) demo_key [of "''abc''"] by simp_all
  ultimately show ?thesis using f(4) by auto
qed

theorem secret_names_unique_witness:
  "\<exists>d e. map_of (sx_files two_secrets) ''u1'' = Some (Doc d) \<and> map_of (sx_files two_secrets) ''u2'' = Some (Doc e) \<and>
     lower_name d ''name'' \<noteq> lower_name e ''name''"
proof -
  obtain d e where f: "map_of (sx_files two_secrets) ''u1'' = Some (Doc d)" "map_of (sx_files two_secrets) ''u2'' = Some (Doc e)"
    using two_files by blast
  then have "lower_name d ''name'' \<noteq> lower_name e ''name''"
    using secret_names_unique [OF _ two_reached demo_text f] by (auto simp: empty_secrets_def)
  with f show ?thesis by blast
qed

theorem padded_rename_duplicates_witness:
  "\<exists>ans S' d' e. update_secret demo_crypto demo_str (fresh_enc demo_crypto ''0key'' demo_rnd) True ''t2'' ''u1'' (JStr ''backup '') JNull JNull None two_secrets = (Inr ans, S') \<and>
     map_of (sx_files S') ''u1'' = Some (Doc d') \<and> map_of (sx_files S') ''u2'' = Some (Doc e) \<and> dget d' ''name'' = dget e ''name''"
proof -
  obtain d e plain where f: "map_of (sx_files two_secrets) ''u1'' = Some (Doc d)" "map_of (sx_files two_secrets) ''u2'' = Some (Doc e)" "dget e ''name'' = JStr ''backup''"
    and p: "decrypt_secret_material demo_str (decrypt demo_crypto (sx_key two_secrets)) d = Inr plain"
    using two_files by blast
  from padded_rename_duplicates [OF two_inv f(1,2) _ f(3) demo_names(6,7) p demo_text, of "fresh_enc demo_crypto ''0key'' demo_rnd" "''t2''"] f(3)
  show ?thesis by auto
qed

definition new_key :: string where "new_key = replicate 32 CHR ''k''"

definition after_change :: "doc res \<times> secret_store" where
  "after_change = create_secret demo_str (fresh_enc demo_crypto ''0key'' demo_rnd) True ''u1'' ''t0'' ''root'' ''deploy'' ''git_token'' (demo_token ''abc'') None
    (snd (api_update_encryption_key demo_str None True \<lparr>pr_user = Some ''__internal__'', pr_worker = None, pr_name = [], pr_roles = [], pr_token = None\<rparr>
       empty_auth [(''key'', JStr new_key)] empty_secrets))"

lemma internal_may_write:
  "can_write_global_secrets \<lparr>pr_user = Some ''__internal__'', pr_worker = None, pr_name = [], pr_roles = [], pr_token = None\<rparr> db"
  by (simp add: can_write_global_secrets_def)

lemma after_change_ok: "is_ok (fst after_change)"
proof -
  have k: "strip new_key = new_key" "32 \<le> length new_key" "new_key \<noteq> []" by (simp_all add: new_key_def strip_def is_space_def char_in_def numeral_eq_Suc)
  have "list_secrets demo_str None None empty_secrets = Inr []" by (simp add: empty_secrets_def list_secrets_def List.map_filter_simps)
  then have "snd (api_update_encryption_key demo_str None True \<lparr>pr_user = Some ''__internal__'', pr_worker = None, pr_name = [], pr_roles = [], pr_token = None\<rparr>
       empty_auth [(''key'', JStr new_key)] empty_secrets) = empty_secrets\<lparr>sx_keyfile := Some new_key\<rparr>"
    using k by (simp add: api_update_encryption_key_def internal_may_write save_encryption_key_def Let_def)
  then show ?thesis using demo_create [OF demo_valid(1), of "Some new_key"] by (auto simp: after_change_def)
qed

theorem replaced_key_loses_secrets_witness:
  "(\<exists>x. get_secret demo_crypto demo_str ''u1'' True (snd after_change) = Inr (Some x)) \<and>
   get_secret demo_crypto demo_str ''u1'' True (start_manager None True ''f'' (snd after_change)) = Inl secret_error"
proof -
  obtain a S where c: "after_change = (Inr a, S)" using after_change_ok unfolding is_ok_iff by (metis prod.collapse)
  have e: "sx_files empty_secrets = []" "load_encryption_key None (sx_keyfile empty_secrets) = Some (sx_key empty_secrets)" "sx_key empty_secrets = ''0key''"
    by (simp_all add: empty_secrets_def load_encryption_key_def strip_def is_space_def char_in_def)
  have k: "strip new_key = new_key" "32 \<le> length new_key" by (simp_all add: new_key_def strip_def is_space_def char_in_def numeral_eq_Suc)
  have wrong: "cx_unseal demo_crypto (cx_kdf demo_crypto new_key s) n (cx_seal demo_crypto (cx_kdf demo_crypto (sx_key empty_secrets) s') n' p) = None" for s n s' n' p
    by (simp add: demo_crypto_def tag_def new_key_def e(3) numeral_eq_Suc)
  from replaced_key_loses_secrets [OF demo_laws e(1,2) internal_may_write k demo_good(1) demo_texts(1)
      c [unfolded after_change_def e(3) [symmetric]] wrong]
  show ?thesis by (simp add: c)
qed

theorem legacy_secret_by_chance_witness:
  "\<not> is_ok (decrypt demo_crypto ''0key'' (b64_encode (''v2random-byt'' @ cx_seal demo_crypto (cx_kdf demo_crypto ''0key'' LEGACY_FIXED_SALT) ''v2random-byt'' ''abc''))) \<and>
   decrypt demo_crypto ''0key'' (b64_encode (''vXrandom-byt'' @ cx_seal demo_crypto (cx_kdf demo_crypto ''0key'' LEGACY_FIXED_SALT) ''vXrandom-byt'' ''abc'')) = Inr ''abc''"
  using legacy_secret_by_chance [OF demo_laws, of "''v2random-byt''" "''abc''" "''0key''"]
    legacy_secret_by_chance [OF demo_laws, of "''vXrandom-byt''" "''abc''" "''0key''"]
  by (simp add: starts_with_def V2_PREFIX_def utf8_text_def)

end
