(* ===== verification/Files.thy ===== *)
theory Files
  imports Settings "HOL-Library.Sublist"
begin

text \<open>
  The file system the source synchronisation works on: a finite tree of directories and files,
  kept as the list of its paths in the order a directory scan returns them, with the operations
  of \<^verbatim>\<open>pathlib\<close>, \<^verbatim>\<open>os\<close> and \<^verbatim>\<open>shutil\<close> the code calls (\<^verbatim>\<open>mkdir\<close>, \<^verbatim>\<open>rmtree\<close>, \<^verbatim>\<open>unlink\<close>,
  \<^verbatim>\<open>copy2\<close>, \<^verbatim>\<open>copytree\<close>). They are the standard library's, as the code uses them: each returns the
  tree it leaves behind and the error it raises, so a loop that stops half way leaves a half
  copied tree. Links are not part of the model, removing never fails, and reading a file or
  making a path may be refused by the machine (\<open>readable\<close>, \<open>path_max\<close>).
\<close>

type_synonym path = "string list"

datatype entry = File string real | Dir

type_synonym fs = "(path \<times> entry) list"

datatype os_error =
    NotFound path
  | NotADirectory path
  | IsADirectory path
  | FileExists path
  | PermissionDenied path
  | SameFile path
  | NameTooLong path
  | CopyErrors "os_error list"

record host =
  readable :: "path \<Rightarrow> bool"
  path_max :: nat

definition path_text :: "path \<Rightarrow> string" where
  "path_text p = concat (map (\<lambda>c. CHR ''/'' # c) p)"

lemma path_text_append [simp]: "path_text (p @ q) = path_text p @ path_text q"
  by (simp add: path_text_def)

lemma path_text_Cons [simp]: "path_text [] = []" "path_text (c # p) = CHR ''/'' # c @ path_text p"
  by (simp_all add: path_text_def)

subsection \<open>Looking\<close>

definition entry_at :: "fs \<Rightarrow> path \<Rightarrow> entry option" where
  "entry_at fs p = (if p = [] then Some Dir else map_of fs p)"

definition exists_at :: "fs \<Rightarrow> path \<Rightarrow> bool" where
  "exists_at fs p = (entry_at fs p \<noteq> None)"

definition dir_at :: "fs \<Rightarrow> path \<Rightarrow> bool" where
  "dir_at fs p = (entry_at fs p = Some Dir)"

definition file_at :: "fs \<Rightarrow> path \<Rightarrow> bool" where
  "file_at fs p = (case entry_at fs p of Some (File s t) \<Rightarrow> True | _ \<Rightarrow> False)"

definition scan :: "fs \<Rightarrow> path \<Rightarrow> (string \<times> bool) list" where
  \<comment> \<open>\<^verbatim>\<open>os.scandir\<close>: the names in a directory, with whether each is a directory\<close>
  "scan fs p = map (\<lambda>(q, e). (last q, e = Dir)) (filter (\<lambda>(q, e). q \<noteq> [] \<and> butlast q = p) fs)"

subsection \<open>Making and removing\<close>

fun makedirs :: "fs \<Rightarrow> path \<Rightarrow> path \<Rightarrow> fs \<times> os_error option" where
  "makedirs fs p [] = (fs, None)"
| "makedirs fs p (c # cs) =
    (case entry_at fs (p @ [c]) of
       Some Dir \<Rightarrow> makedirs fs (p @ [c]) cs
     | Some (File s t) \<Rightarrow>
         (fs, Some (if cs = [] then FileExists (p @ [c]) else NotADirectory (p @ [c])))
     | None \<Rightarrow> makedirs (tput (p @ [c]) Dir fs) (p @ [c]) cs)"

definition mkdir_p :: "fs \<Rightarrow> path \<Rightarrow> fs \<times> os_error option" where
  \<comment> \<open>\<^verbatim>\<open>mkdir(parents=True, exist_ok=True)\<close>\<close>
  "mkdir_p fs p = makedirs fs [] p"

definition remove :: "fs \<Rightarrow> path \<Rightarrow> fs" where
  \<comment> \<open>\<^verbatim>\<open>shutil.rmtree\<close> of a directory, \<^verbatim>\<open>unlink\<close> of a file\<close>
  "remove fs p = filter (\<lambda>(q, e). \<not> prefix p q) fs"

subsection \<open>Copying\<close>

definition copy2 :: "host \<Rightarrow> path \<Rightarrow> path \<Rightarrow> fs \<Rightarrow> fs \<times> os_error option" where
  \<comment> \<open>\<^verbatim>\<open>shutil.copy2\<close>: onto a directory means into it; the modification time goes along\<close>
  "copy2 h src dst fs =
    (let dst = (if dir_at fs dst then dst @ [last src] else dst) in
     case entry_at fs src of
       None \<Rightarrow> (fs, Some (NotFound src))
     | Some Dir \<Rightarrow> (fs, Some (IsADirectory src))
     | Some (File s t) \<Rightarrow>
         if dst = src then (fs, Some (SameFile src))
         else if \<not> readable h src then (fs, Some (PermissionDenied src))
         else if path_max h \<le> length (path_text dst) then (fs, Some (NameTooLong dst))
         else
           (case entry_at fs (butlast dst) of
              None \<Rightarrow> (fs, Some (NotFound dst))
            | Some (File s' t') \<Rightarrow> (fs, Some (NotADirectory dst))
            | Some Dir \<Rightarrow>
                if dir_at fs dst then (fs, Some (IsADirectory dst))
                else (tput dst (File s t) fs, None)))"

fun all_errors :: "os_error option \<Rightarrow> os_error list" where
  "all_errors None = []"
| "all_errors (Some (CopyErrors es)) = es"
| "all_errors (Some e) = [e]"

function (sequential) copytree ::
    "host \<Rightarrow> (string \<Rightarrow> bool \<Rightarrow> bool) \<Rightarrow> path \<Rightarrow> path \<Rightarrow> fs \<Rightarrow> fs \<times> os_error option"
  and copy_entries ::
    "host \<Rightarrow> (string \<Rightarrow> bool \<Rightarrow> bool) \<Rightarrow> path \<Rightarrow> path \<Rightarrow> (string \<times> bool) list \<Rightarrow> fs \<Rightarrow>
     fs \<times> os_error list"
where
  \<comment> \<open>\<^verbatim>\<open>shutil.copytree(src, dst, dirs_exist_ok=True, ignore=...)\<close>: the names are read once, before
     the destination is made; an error does not stop the copying of what follows\<close>
  "copytree h skip src dst fs =
    (if \<not> dir_at fs src then (fs, Some (NotFound src))
     else if path_max h \<le> length (path_text dst) then (fs, Some (NameTooLong dst))
     else
       (case mkdir_p fs dst of
          (fs', Some e) \<Rightarrow> (fs', Some e)
        | (fs', None) \<Rightarrow>
            (case copy_entries h skip src dst (scan fs src) fs' of
               (fs'', es) \<Rightarrow> (fs'', if es = [] then None else Some (CopyErrors es)))))"
| "copy_entries h skip src dst [] fs = (fs, [])"
| "copy_entries h skip src dst ((n, d) # ns) fs =
    (if skip n d then copy_entries h skip src dst ns fs
     else
       (case (if d then copytree h skip (src @ [n]) (dst @ [n]) fs
              else copy2 h (src @ [n]) (dst @ [n]) fs) of
          (fs', e) \<Rightarrow>
            (case copy_entries h skip src dst ns fs' of
               (fs'', es) \<Rightarrow> (fs'', all_errors e @ es))))"
  by pat_completeness auto
termination
  by (relation "measures
        [case_sum (\<lambda>(h, skip, src, dst, fs). Suc (path_max h) - length (path_text dst))
                  (\<lambda>(h, skip, src, dst, ns, fs). path_max h - length (path_text dst)),
         case_sum (\<lambda>_. 0) (\<lambda>(h, skip, src, dst, ns, fs). length ns)]") auto

declare copytree.simps [simp del]

subsection \<open>The loops over a directory\<close>

fun clear_items :: "(string \<Rightarrow> bool) \<Rightarrow> path \<Rightarrow> string list \<Rightarrow> fs \<Rightarrow> fs" where
  \<comment> \<open>\<^verbatim>\<open>for item in path.iterdir()\<close>: remove it, unless its name is one to keep\<close>
  "clear_items keep p [] fs = fs"
| "clear_items keep p (n # ns) fs =
    clear_items keep p ns (if keep n then fs else remove fs (p @ [n]))"

definition clear_dir :: "(string \<Rightarrow> bool) \<Rightarrow> path \<Rightarrow> fs \<Rightarrow> fs" where
  "clear_dir keep p fs = (if dir_at fs p then clear_items keep p (map fst (scan fs p)) fs else fs)"

fun copy_items :: "host \<Rightarrow> (string \<Rightarrow> bool \<Rightarrow> bool) \<Rightarrow> (string \<Rightarrow> bool \<Rightarrow> bool) \<Rightarrow> path \<Rightarrow> path \<Rightarrow>
    string list \<Rightarrow> fs \<Rightarrow> fs \<times> os_error option" where
  \<comment> \<open>\<^verbatim>\<open>for item in src.iterdir()\<close>: a directory by \<^verbatim>\<open>copytree\<close>, anything else by \<^verbatim>\<open>copy2\<close>; the
     first error ends the loop\<close>
  "copy_items h omit skip src dst [] fs = (fs, None)"
| "copy_items h omit skip src dst (n # ns) fs =
    (let d = dir_at fs (src @ [n]) in
     if omit n d then copy_items h omit skip src dst ns fs
     else
       (case (if d then copytree h skip (src @ [n]) (dst @ [n]) fs
              else copy2 h (src @ [n]) (dst @ [n]) fs) of
          (fs', Some e) \<Rightarrow> (fs', Some e)
        | (fs', None) \<Rightarrow> copy_items h omit skip src dst ns fs'))"

end
