(* ===== verification/Sync.thy ===== *)
theory Sync
  imports Files Policy "HOL-Library.Char_ord" "HOL-Library.List_Lexorder"
begin

text \<open>
  The synchronisation of a project's storage with an external source
  (\<^verbatim>\<open>services/source_sync_service.py\<close>): the state kept per project in \<^verbatim>\<open>.sync_state.json\<close>, the
  revision of a tree, the detection of conflicts, and push and pull with a local path. The
  trees of every project and every external path are one file system, so a source that
  overlaps the project's storage is a case of the model. The digest (\<^verbatim>\<open>hashlib.md5\<close>), the texts
  of a float and of the exceptions, the git command and \<^verbatim>\<open>GitSourceManager\<close> are fields of the
  environment; clock readings are arguments.
\<close>

datatype git_error =
    GitSourceError string string
  | GitOther string

record 'g sync_env =
  machine :: host
  os_text :: "os_error \<Rightarrow> string"
  exn_text :: "py_error \<Rightarrow> string"
  called_text :: "string list \<Rightarrow> int \<Rightarrow> string"
  json_text :: "json \<Rightarrow> string"
  cwd :: path
  projects_dir :: path
  digest :: "string \<Rightarrow> string"
  num_text :: "real \<Rightarrow> string"
  run_git :: "path \<Rightarrow> string list \<Rightarrow> 'g \<times> fs \<Rightarrow> ('g \<times> fs) \<times> int \<times> string \<times> string"
  resolve_path :: "string \<Rightarrow> string \<Rightarrow> string \<Rightarrow> string \<Rightarrow> string \<Rightarrow> json \<Rightarrow> bool \<Rightarrow>
    'g \<times> fs \<Rightarrow> ('g \<times> fs) \<times> (git_error + path)"
  auth_error :: "string \<Rightarrow> json \<Rightarrow> string \<Rightarrow> git_error option"

record sync_job =
  job_id :: string
  direction :: string
  actor :: string
  started_at :: int
  job_status :: string
  completed_at :: "int option"
  error_code :: "string option"
  job_error :: "string option"

record 'g sync_world =
  repos :: 'g
  tree :: fs
  sync_files :: "(string \<times> jfile) list"
  configs :: "(string \<times> jfile) list"
  active_jobs :: "((string \<times> string) \<times> sync_job) list"

subsection \<open>Paths\<close>

definition get_project_storage_path :: "'g sync_env \<Rightarrow> string \<Rightarrow> string \<Rightarrow> path res" where
  "get_project_storage_path E pid key =
    (if key = ''repo'' then Inr (projects_dir E @ [pid, ''repo''])
     else if key = ''stacks'' then Inr (projects_dir E @ [pid, ''stacks''])
     else Inl (ValueError (''Unknown source_key: '' @ key)))"

definition path_parts :: "string \<Rightarrow> path" where
  "path_parts s = filter (\<lambda>c. c \<noteq> [] \<and> c \<noteq> ''.'') (split_on CHR ''/'' [] s)"

definition is_absolute :: "string \<Rightarrow> bool" where
  "is_absolute s = starts_with s ''/''"

definition rel_text :: "path \<Rightarrow> string" where
  "rel_text p = (if p = [] then ''.'' else tl (path_text p))"

definition str_path :: "string \<Rightarrow> string" where
  \<comment> \<open>\<^verbatim>\<open>str(Path(s))\<close>\<close>
  "str_path s =
    (if is_absolute s then if path_parts s = [] then ''/'' else path_text (path_parts s)
     else rel_text (path_parts s))"

subsection \<open>Configuration and state files\<close>

definition load_json :: "(string \<times> jfile) list \<Rightarrow> string \<Rightarrow> doc" where
  \<comment> \<open>a missing or unreadable file counts as empty\<close>
  "load_json files pid = (case map_of files pid of Some (Doc d) \<Rightarrow> d | _ \<Rightarrow> [])"

definition load_project_config :: "'g sync_world \<Rightarrow> string \<Rightarrow> doc" where
  "load_project_config w pid = load_json (configs w) pid"

definition get_repo_layout :: "'g sync_world \<Rightarrow> string \<Rightarrow> doc res" where
  "get_repo_layout w pid =
    (case getd (load_project_config w pid) ''repoLayout'' (JObj []) of
       JObj l \<Rightarrow> Inr (map (\<lambda>k. (k, getd l k (JStr k))) [''playbooks'', ''roles'', ''inventories'', ''vars''])
     | _ \<Rightarrow> Inl AttributeError)"

definition load_sync_state :: "'g sync_world \<Rightarrow> string \<Rightarrow> doc" where
  "load_sync_state w pid = load_json (sync_files w) pid"

definition save_sync_state :: "'g sync_world \<Rightarrow> string \<Rightarrow> doc \<Rightarrow> 'g sync_world" where
  "save_sync_state w pid d = w\<lparr>sync_files := tput pid (Doc d) (sync_files w)\<rparr>"

definition show_running :: "sync_job option \<Rightarrow> doc \<Rightarrow> doc" where
  \<comment> \<open>the test is \<^verbatim>\<open>'push' in job['direction']\<close>, on a string\<close>
  "show_running j s =
    (case j of
       None \<Rightarrow> s
     | Some j \<Rightarrow>
         let s = (if contains (direction j) ''push'' then dset s ''lastPushStatus'' (JStr ''running'') else s)
         in (if contains (direction j) ''pull'' then dset s ''lastPullStatus'' (JStr ''running'') else s))"

definition get_sync_state :: "'g sync_world \<Rightarrow> string \<Rightarrow> string \<Rightarrow> doc res" where
  "get_sync_state w pid key =
    (case getd (load_sync_state w pid) key (JObj []) of
       JObj s \<Rightarrow>
         (let s = show_running (map_of (active_jobs w) (pid, key)) s in
          Inr [(''lastPushAt'', dget s ''lastPushAt''),
               (''lastPullAt'', dget s ''lastPullAt''),
               (''lastPushStatus'', getd s ''lastPushStatus'' (JStr ''idle'')),
               (''lastPullStatus'', getd s ''lastPullStatus'' (JStr ''idle'')),
               (''lastPushError'', dget s ''lastPushError''),
               (''lastPullError'', dget s ''lastPullError''),
               (''lastPushRevision'', dget s ''lastPushRevision''),
               (''lastPullRevision'', dget s ''lastPullRevision'')])
     | _ \<Rightarrow> Inl AttributeError)"

definition given :: "string option \<Rightarrow> bool" where
  \<comment> \<open>\<^verbatim>\<open>if error:\<close>\<close>
  "given s = (s \<noteq> None \<and> s \<noteq> Some [])"

definition put_side :: "string \<Rightarrow> string \<Rightarrow> string option \<Rightarrow> string option \<Rightarrow> int \<Rightarrow> doc \<Rightarrow> doc" where
  \<comment> \<open>one half of the record: \<open>side\<close> is \<open>Push\<close> or \<open>Pull\<close>\<close>
  "put_side side status err revn now s =
    (let s = dset s (''last'' @ side @ ''At'')
               (if status = ''ok'' then JNum (of_int now) else dget s (''last'' @ side @ ''At''));
         s = dset s (''last'' @ side @ ''Status'') (JStr status);
         s = (if given err then dset s (''last'' @ side @ ''Error'') (JStr (the err))
              else if status = ''ok'' then dpop s (''last'' @ side @ ''Error'') else s)
     in (if given revn then dset s (''last'' @ side @ ''Revision'') (JStr (the revn)) else s))"

definition update_sync_state ::
    "'g sync_world \<Rightarrow> string \<Rightarrow> string \<Rightarrow> string \<Rightarrow> string \<Rightarrow> string option \<Rightarrow> string option \<Rightarrow> int \<Rightarrow>
     'g sync_world res" where
  "update_sync_state w pid key dir status err revn now =
    (let state = dset_new (load_sync_state w pid) key (JObj []) in
     if dir = ''push'' \<or> dir = ''pull'' then
       (case dget state key of
          JObj s \<Rightarrow>
            Inr (save_sync_state w pid (dset state key (JObj
              (put_side (if dir = ''push'' then ''Push'' else ''Pull'') status err revn now s))))
        | _ \<Rightarrow> Inl (if status = ''ok'' then TypeError else AttributeError))
     else Inr (save_sync_state w pid state))"

subsection \<open>Revisions\<close>

definition files_below :: "fs \<Rightarrow> path \<Rightarrow> (path \<times> real \<times> nat) list" where
  \<comment> \<open>the files of \<^verbatim>\<open>sorted(path.rglob('*'))\<close>, with time and size\<close>
  "files_below fs p =
    sort_key fst (concat (map (\<lambda>(q, e). case e of
        File s t \<Rightarrow> if strict_prefix p q then [(drop (length p) q, t, length s)] else []
      | Dir \<Rightarrow> []) fs))"

definition revision_line :: "'g sync_env \<Rightarrow> string \<Rightarrow> real \<Rightarrow> nat \<Rightarrow> string" where
  "revision_line E name t n = name @ '':'' @ num_text E t @ '':'' @ nat_text n"

fun join_lines :: "string list \<Rightarrow> string" where
  "join_lines [] = []"
| "join_lines [l] = l"
| "join_lines (l # ls) = l @ CHR 0x0A # join_lines ls"

definition compute_revision :: "'g sync_env \<Rightarrow> fs \<Rightarrow> path \<Rightarrow> string" where
  "compute_revision E fs p =
    (case entry_at fs p of
       None \<Rightarrow> []
     | Some (File s t) \<Rightarrow> digest E (revision_line E (path_text p) t (length s))
     | Some Dir \<Rightarrow>
         (let content = join_lines (map (\<lambda>(r, t, n). revision_line E (rel_text r) t n) (files_below fs p))
          in if content = [] then [] else digest E content))"

subsection \<open>Conflicts\<close>

definition changed_since :: "string \<Rightarrow> json \<Rightarrow> json" where
  \<comment> \<open>\<^verbatim>\<open>last_rev and rev != last_rev\<close>\<close>
  "changed_since r last_rev = (if truthy last_rev then JBool (JStr r \<noteq> last_rev) else last_rev)"

definition conflict_text :: string where
  "conflict_text = ''Both Project Storage and External Source have changed since last sync''"

definition detect_conflict ::
    "'g sync_env \<Rightarrow> 'g sync_world \<Rightarrow> string \<Rightarrow> string \<Rightarrow> path \<Rightarrow> path \<Rightarrow>
     (bool \<times> string option \<times> doc option) res" where
  "detect_conflict E w pid key storage ext =
    (case get_sync_state w pid key of
       Inl e \<Rightarrow> Inl e
     | Inr state \<Rightarrow>
         if \<not> truthy (dget state ''lastPushAt'') \<and> \<not> truthy (dget state ''lastPullAt'')
         then Inr (False, None, None)
         else
           (let sc = changed_since (compute_revision E (tree w) storage) (dget state ''lastPushRevision'');
                xc = changed_since (compute_revision E (tree w) ext) (dget state ''lastPullRevision'');
                details = [(''storageChanged'', sc), (''externalChanged'', xc),
                  (''lastPushAt'', dget state ''lastPushAt''), (''lastPullAt'', dget state ''lastPullAt'')]
            in if truthy sc \<and> truthy xc then Inr (True, Some conflict_text, Some details)
               else Inr (False, None, Some details)))"

subsection \<open>Local push and pull\<close>

type_synonym outcome = "bool \<times> string option \<times> string option \<times> string option"

datatype returned =
  \<comment> \<open>what the function returns; the caller unpacks four values\<close>
    Triple bool string string
  | Quad outcome

fun unpack :: "returned \<Rightarrow> outcome res" where
  "unpack (Quad q) = Inr q"
| "unpack (Triple ok c m) = Inl (ValueError ''not enough values to unpack (expected 4, got 3)'')"

definition failure :: "string \<Rightarrow> string \<Rightarrow> outcome" where
  "failure c m = (False, Some c, Some m, None)"

definition io_failure :: "'g sync_env \<Rightarrow> os_error \<Rightarrow> outcome" where
  "io_failure E e = failure ''SYNC_IO_ERROR'' (''IO error: '' @ os_text E e)"

definition none :: "string \<Rightarrow> bool \<Rightarrow> bool" where
  "none n d = False"

definition replace_dir :: "host \<Rightarrow> (string \<Rightarrow> bool) \<Rightarrow> path \<Rightarrow> path \<Rightarrow> fs \<Rightarrow> fs \<times> os_error option" where
  \<comment> \<open>clear the destination, then copy what the source holds by then\<close>
  "replace_dir h keep src dst fs =
    (let fs = clear_dir keep dst fs in
     if \<not> dir_at fs src then (fs, Some (NotFound src))
     else copy_items h none none src dst (map fst (scan fs src)) fs)"

definition sync_local_push :: "'g sync_env \<Rightarrow> path \<Rightarrow> string \<Rightarrow> fs \<Rightarrow> fs \<times> returned" where
  "sync_local_push E storage ext fs =
    (let x = path_parts ext in
     if \<not> is_absolute ext then (fs, Triple False ''SYNC_PATH_INVALID'' ''External path must be absolute'')
     else if contains (str_path ext) ''..'' then (fs, Triple False ''SYNC_PATH_INVALID'' ''Path traversal detected'')
     else if \<not> exists_at fs storage then
       (fs, Quad (failure ''SYNC_STORAGE_NOT_FOUND'' (''Project Storage not found: '' @ path_text storage)))
     else
       (case mkdir_p fs (butlast x) of
          (fs, Some e) \<Rightarrow> (fs, Quad (io_failure E e))
        | (fs, None) \<Rightarrow>
            (case (if file_at fs storage then copy2 (machine E) storage x fs
                   else replace_dir (machine E) (\<lambda>n. n = ''.git'') storage x fs) of
               (fs, Some e) \<Rightarrow> (fs, Quad (io_failure E e))
             | (fs, None) \<Rightarrow> (fs, Quad (True, None, None, Some (compute_revision E fs x))))))"

definition sync_local_pull :: "'g sync_env \<Rightarrow> path \<Rightarrow> string \<Rightarrow> fs \<Rightarrow> fs \<times> returned" where
  "sync_local_pull E storage ext fs =
    (let x = path_parts ext in
     if \<not> is_absolute ext then (fs, Quad (failure ''SYNC_PATH_INVALID'' ''External path must be absolute''))
     else if contains (str_path ext) ''..'' then (fs, Quad (failure ''SYNC_PATH_INVALID'' ''Path traversal detected''))
     else if \<not> exists_at fs x then
       (fs, Quad (failure ''SYNC_EXTERNAL_NOT_FOUND'' (''External source not found: '' @ str_path ext)))
     else
       (case mkdir_p fs (butlast storage) of
          (fs, Some e) \<Rightarrow> (fs, Quad (io_failure E e))
        | (fs, None) \<Rightarrow>
            (case (if file_at fs x then copy2 (machine E) x storage fs
                   else replace_dir (machine E) (\<lambda>n. False) x storage fs) of
               (fs, Some e) \<Rightarrow> (fs, Quad (io_failure E e))
             | (fs, None) \<Rightarrow> (fs, Quad (True, None, None, Some (compute_revision E fs storage))))))"

end
