(* ===== verification/SyncGit.thy ===== *)
theory SyncGit
  imports Sync CloudState
begin

text \<open>
  Synchronisation with a git repository (\<^verbatim>\<open>_sync_git_push\<close>, \<^verbatim>\<open>_sync_git_pull\<close> and the mirror of
  the \<^verbatim>\<open>stacks\<close> workspace). The clone is a directory of the file system; \<^verbatim>\<open>git\<close> itself is the
  field \<open>run_git\<close>, a function from the working directory and the arguments to an exit status
  and two outputs, which may change the repositories and the files. A source other than
  \<^verbatim>\<open>repo\<close> and \<^verbatim>\<open>stacks\<close> has no storage path, so the code's branches for other sources are
  never reached and have no definition here.
\<close>

type_synonym 'g disk = "'g \<times> fs"

datatype git_exn =
    CalledProcessError "string list" int string string
  | GitRaised git_error
  | OsRaised os_error
  | PyRaised py_error

fun git_error_text :: "git_error \<Rightarrow> string" where
  "git_error_text (GitSourceError c m) = m"
| "git_error_text (GitOther m) = m"

fun exception_text :: "'g sync_env \<Rightarrow> git_exn \<Rightarrow> string" where
  \<comment> \<open>\<^verbatim>\<open>str(e)\<close>\<close>
  "exception_text E (CalledProcessError a rc out err) = called_text E a rc"
| "exception_text E (GitRaised g) = git_error_text g"
| "exception_text E (OsRaised e) = os_text E e"
| "exception_text E (PyRaised e) = exn_text E e"

definition secret_missing :: "git_error \<Rightarrow> json \<Rightarrow> bool" where
  "secret_missing g auth =
    (case g of GitSourceError c m \<Rightarrow> c = ''SECRET_NOT_FOUND'' \<and> truthy auth | GitOther m \<Rightarrow> False)"

subsection \<open>The configuration of a git source\<close>

definition stripped :: "doc \<Rightarrow> string \<Rightarrow> string \<Rightarrow> string res" where
  \<comment> \<open>\<^verbatim>\<open>d.get(k, default).strip()\<close>\<close>
  "stripped d k dflt =
    (case getd d k (JStr dflt) of JStr s \<Rightarrow> Inr (strip s) | _ \<Rightarrow> Inl AttributeError)"

definition git_settings :: "doc \<Rightarrow> (string \<times> string \<times> string \<times> json) res" where
  \<comment> \<open>repository, ref, subdirectory, secret\<close>
  "git_settings config =
    (case getd config ''git'' (JObj []) of
       JObj g \<Rightarrow>
         (case (stripped g ''repo'' [], stripped g ''ref'' ''main'', stripped g ''subdir'' []) of
            (Inr u, Inr r, Inr s) \<Rightarrow> Inr (u, r, s, dget g ''authSecretId'')
          | _ \<Rightarrow> Inl AttributeError)
     | _ \<Rightarrow> Inl AttributeError)"

fun walk :: "path \<Rightarrow> path \<Rightarrow> path" where
  \<comment> \<open>a relative path taken from a directory; \<^verbatim>\<open>..\<close> goes up\<close>
  "walk p [] = p"
| "walk p (c # cs) = walk (if c = ''..'' then butlast p else p @ [c]) cs"

definition join_path :: "path \<Rightarrow> string \<Rightarrow> path" where
  \<comment> \<open>\<^verbatim>\<open>p / s\<close>: an absolute \<open>s\<close> replaces the path\<close>
  "join_path p s = walk (if is_absolute s then [] else p) (path_parts s)"

subsection \<open>The mirror of the stacks workspace\<close>

definition is_git_excluded :: "string \<Rightarrow> bool \<Rightarrow> bool" where
  "is_git_excluded n d =
    (n \<in> {''.git'', ''.terraform'', ''.terragrunt-cache''} \<or>
     \<not> d \<and> (ends_with n ''.tfstate'' \<or> ends_with n ''.tfstate.backup'' \<or> ends_with n ''.tfplan''))"

definition mirror_copy :: "host \<Rightarrow> bool \<Rightarrow> path \<Rightarrow> path \<Rightarrow> fs \<Rightarrow> fs \<times> os_error option" where
  "mirror_copy h exclude_heavy src dst fs =
    (case mkdir_p fs dst of
       (fs, Some e) \<Rightarrow> (fs, Some e)
     | (fs, None) \<Rightarrow>
         (let fs = clear_dir (\<lambda>n. n = ''.git'') dst fs in
          if \<not> exists_at fs src then (fs, None)
          else if \<not> dir_at fs src then (fs, Some (NotADirectory src))
          else copy_items h (\<lambda>n d. n = ''.git'' \<or> exclude_heavy \<and> is_git_excluded n d)
                 (if exclude_heavy then is_git_excluded else none) src dst (map fst (scan fs src)) fs))"

definition ignored_patterns :: "string list" where
  "ignored_patterns = [''.terraform/'', ''.terragrunt-cache/'', ''*.tfstate'', ''*.tfstate.backup'', ''*.tfplan'']"

definition ignore_lines :: "string list \<Rightarrow> string list" where
  \<comment> \<open>the lines of \<^verbatim>\<open>.gitignore\<close> with the missing patterns added\<close>
  "ignore_lines existing =
    (let missing = filter (\<lambda>p. p \<notin> set existing) ignored_patterns
     in existing @ (if existing \<noteq> [] \<and> strip (last existing) \<noteq> [] then [[]] else []) @ missing)"

definition read_text :: "string \<Rightarrow> string" where
  \<comment> \<open>line ends as text mode reads them\<close>
  "read_text s = replace_all [CHR 0x0D] [CHR 0x0A] (replace_all [CHR 0x0D, CHR 0x0A] [CHR 0x0A] s)"

definition update_gitignore :: "'g sync_env \<Rightarrow> path \<Rightarrow> real \<Rightarrow> fs \<Rightarrow> fs" where
  \<comment> \<open>any exception is logged and passed over\<close>
  "update_gitignore E clone now fs =
    (let p = clone @ [''.gitignore''];
         existing = (case entry_at fs p of
             None \<Rightarrow> Some []
           | Some (File s t) \<Rightarrow> if readable (machine E) p then Some (splitlines [] (read_text s)) else None
           | Some Dir \<Rightarrow> None)
     in case existing of
          None \<Rightarrow> fs
        | Some ls \<Rightarrow>
            if (\<forall>p \<in> set ignored_patterns. p \<in> set ls) \<or> \<not> dir_at fs clone then fs
            else tput p (File (strip (join_lines (ignore_lines ls)) @ [CHR 0x0A]) now) fs)"

definition checked :: "string list \<Rightarrow> 'g disk \<times> int \<times> string \<times> string \<Rightarrow> 'g disk \<times> (git_exn + string)" where
  \<comment> \<open>\<^verbatim>\<open>subprocess.run(..., check=True)\<close>\<close>
  "checked a r =
    (case r of (s, rc, out, err) \<Rightarrow> (s, if rc \<noteq> 0 then Inl (CalledProcessError a rc out err) else Inr out))"

definition git_identity :: "'g sync_env \<Rightarrow> path \<Rightarrow> 'g disk \<Rightarrow> 'g disk \<times> (git_exn + unit)" where
  "git_identity E d s =
    (case checked [''git'', ''config'', ''user.email'', ''git@opensible-local'']
            (run_git E d [''config'', ''user.email'', ''git@opensible-local''] s) of
       (s, Inl x) \<Rightarrow> (s, Inl x)
     | (s, Inr y) \<Rightarrow>
         (case checked [''git'', ''config'', ''user.name'', ''OpenSible Sync'']
                 (run_git E d [''config'', ''user.name'', ''OpenSible Sync''] s) of
            (s, Inl x) \<Rightarrow> (s, Inl x)
          | (s, Inr y) \<Rightarrow> (s, Inr ())))"

definition stacks_branch :: "'g sync_env \<Rightarrow> path \<Rightarrow> string \<Rightarrow> 'g disk \<Rightarrow> 'g disk" where
  \<comment> \<open>the target branch checked out; commits that were never pushed are undone, their files kept\<close>
  "stacks_branch E d ref s =
    (let s = (case run_git E d [''rev-parse'', ''--verify'', ref] s of
           (s, rc, out, err) \<Rightarrow>
             if rc \<noteq> 0 then fst (run_git E d [''checkout'', ''-b'', ref] s)
             else (case run_git E d [''rev-parse'', ''--abbrev-ref'', ''HEAD''] s of
                (s, rc, out, err) \<Rightarrow>
                  if strip out \<noteq> ref then fst (run_git E d [''checkout'', ref] s) else s))
     in case run_git E d [''rev-parse'', ''--verify'', ''origin/'' @ ref] s of
          (s, rc, out, err) \<Rightarrow>
            if rc = 0 then
              (case run_git E d [''rev-list'', ''--count'', ''origin/'' @ ref @ ''..HEAD''] s of
                 (s, rc, out, err) \<Rightarrow>
                   if strip out \<noteq> [] \<and> strip out \<noteq> ''0''
                   then fst (run_git E d [''reset'', ''--soft'', ''origin/'' @ ref] s) else s)
            else s)"

definition blob_hint :: string where
  "blob_hint = ''git push rejected: the remote refuses files over its blob size limit. '' @
     ''This is usually a .terraform provider cache or a large state file already present '' @
     ''in the remote branch history. OpenSible no longer pushes those, but existing history '' @
     ''must be cleaned on the remote (or Git LFS enabled).'' @ [CHR 0x0A, CHR 0x0A]"

definition stacks_publish :: "'g sync_env \<Rightarrow> path \<Rightarrow> string \<Rightarrow> 'g disk \<Rightarrow> 'g disk \<times> (git_exn + outcome)" where
  "stacks_publish E d ref s =
    (if \<not> dir_at (snd s) d then (s, Inl (OsRaised (NotFound d)))
     else case git_identity E d s of
       (s, Inl x) \<Rightarrow> (s, Inl x)
     | (s, Inr u) \<Rightarrow>
    (case checked [''git'', ''add'', ''-A''] (run_git E d [''add'', ''-A''] (stacks_branch E d ref s)) of
       (s, Inl x) \<Rightarrow> (s, Inl x)
     | (s, Inr y) \<Rightarrow>
    (case run_git E d [''status'', ''--porcelain''] s of (s, rc, out, err) \<Rightarrow>
    (case (if strip out \<noteq> [] then run_git E d [''commit'', ''-m'', ''Sync stacks from Project Storage''] s
           else (s, 0, [], [])) of (s, rc, out, err) \<Rightarrow>
       if rc \<noteq> 0 then (s, Inr (failure ''SYNC_IO_ERROR'' (''git commit failed: '' @ strip err)))
       else
    (case run_git E d [''rev-parse'', ''--abbrev-ref'', ''--symbolic-full-name'', ''@'' @ ''{u}''] s of (s, rc, out, err) \<Rightarrow>
    (case run_git E d (if rc \<noteq> 0 then [''push'', ''--set-upstream'', ''origin'', ref] else [''push'', ''origin'', ref]) s of
       (s, rc, out, err) \<Rightarrow>
       if rc \<noteq> 0 then
         (s, Inr (failure ''SYNC_IO_ERROR'' (''git push failed: '' @
            (if contains (strip err) ''exceed'' \<and> contains (strip err) ''limit''
             then blob_hint @ strip err else strip err))))
       else
         (case checked [''git'', ''rev-parse'', ''HEAD''] (run_git E d [''rev-parse'', ''HEAD''] s) of
            (s, Inl x) \<Rightarrow> (s, Inl x)
          | (s, Inr out) \<Rightarrow> (s, Inr (True, None, None, Some (strip out))))))))))"

definition stacks_push_body ::
    "'g sync_env \<Rightarrow> string \<Rightarrow> doc \<Rightarrow> path \<Rightarrow> real \<Rightarrow> 'g disk \<Rightarrow> 'g disk \<times> (git_exn + outcome)" where
  "stacks_push_body E pid config storage now s =
    (case git_settings config of
       Inl e \<Rightarrow> (s, Inl (PyRaised e))
     | Inr (url, ref, subdir, auth) \<Rightarrow>
       if url = [] then (s, Inr (failure ''SYNC_GIT_REF_NOT_FOUND'' ''Repository URL not configured''))
       else if \<not> truthy auth then
         (s, Inr (failure ''SYNC_GIT_AUTH_FAILED''
            ''Git authentication not configured. Please configure authSecretId in source settings.''))
       else case mkdir_p (snd s) storage of
         (fs, Some e) \<Rightarrow> ((fst s, fs), Inl (OsRaised e))
       | (fs, None) \<Rightarrow>
      (case resolve_path E pid ''stacks'' url ref [] auth False (fst s, fs) of
         (s, Inl (GitSourceError c m)) \<Rightarrow> (s, Inr (failure ''SYNC_GIT_AUTH_FAILED'' m))
       | (s, Inl g) \<Rightarrow> (s, Inl (GitRaised g))
       | (s, Inr clone) \<Rightarrow>
         (let target = (if subdir = [] then clone else join_path clone subdir) in
          case mkdir_p (snd s) target of
            (fs, Some e) \<Rightarrow> ((fst s, fs), Inl (OsRaised e))
          | (fs, None) \<Rightarrow>
         (case mirror_copy (machine E) True storage target fs of
            (fs, Some e) \<Rightarrow> ((fst s, fs), Inl (OsRaised e))
          | (fs, None) \<Rightarrow>
            (let s = (fst s, update_gitignore E clone now fs) in
             case auth_error E pid auth url of
               Some (GitSourceError c m) \<Rightarrow> (s, Inr (failure ''SYNC_GIT_AUTH_FAILED'' m))
             | Some g \<Rightarrow> (s, Inl (GitRaised g))
             | None \<Rightarrow> stacks_publish E clone ref s)))))"

fun called_message :: "'g sync_env \<Rightarrow> git_exn \<Rightarrow> string" where
  \<comment> \<open>what went to the error output, or the exception's own text\<close>
  "called_message E (CalledProcessError a rc out err) = (if err = [] then called_text E a rc else err)"
| "called_message E x = exception_text E x"

fun stacks_failed :: "'g sync_env \<Rightarrow> bool \<Rightarrow> git_exn \<Rightarrow> outcome" where
  "stacks_failed E pull (CalledProcessError a rc out err) = failure ''SYNC_IO_ERROR''
     (''git command failed: '' @ called_message E (CalledProcessError a rc out err))"
| "stacks_failed E pull (GitRaised (GitSourceError c m)) = failure ''SYNC_IO_ERROR''
     ((if pull then ''Git source error: '' else ''Unexpected error: '') @ m)"
| "stacks_failed E pull x = failure ''SYNC_IO_ERROR'' (''Unexpected error: '' @ exception_text E x)"

definition sync_stacks_git_push ::
    "'g sync_env \<Rightarrow> string \<Rightarrow> doc \<Rightarrow> path \<Rightarrow> real \<Rightarrow> 'g disk \<Rightarrow> 'g disk \<times> outcome" where
  "sync_stacks_git_push E pid config storage now s =
    (case stacks_push_body E pid config storage now s of
       (s, Inl x) \<Rightarrow> (s, stacks_failed E False x)
     | (s, Inr r) \<Rightarrow> (s, r))"

definition stacks_pull_body ::
    "'g sync_env \<Rightarrow> string \<Rightarrow> doc \<Rightarrow> path \<Rightarrow> 'g disk \<Rightarrow> 'g disk \<times> (git_exn + outcome)" where
  "stacks_pull_body E pid config storage s =
    (case git_settings config of
       Inl e \<Rightarrow> (s, Inl (PyRaised e))
     | Inr (url, ref, subdir, auth) \<Rightarrow>
       if url = [] then (s, Inr (failure ''SYNC_GIT_REF_NOT_FOUND'' ''Repository URL not configured''))
       else
      (case (case resolve_path E pid ''stacks'' url ref [] auth True s of
               (s, Inl (GitSourceError c m)) \<Rightarrow>
                 if secret_missing (GitSourceError c m) auth
                 then (case resolve_path E pid ''stacks'' url ref [] JNull True s of
                         (s, Inl g) \<Rightarrow> (s, Inl (Inl (GitRaised g)))
                       | (s, Inr p) \<Rightarrow> (s, Inr p))
                 else (s, Inl (Inr (failure ''SYNC_GIT_AUTH_FAILED'' m)))
             | (s, Inl g) \<Rightarrow> (s, Inl (Inl (GitRaised g)))
             | (s, Inr p) \<Rightarrow> (s, Inr p)) of
         (s, Inl stop) \<Rightarrow> (s, stop)
       | (s, Inr clone) \<Rightarrow>
         (let src = (if subdir = [] then clone else join_path clone subdir) in
          if \<not> exists_at (snd s) src then
            (s, Inr (failure ''SYNC_EXTERNAL_NOT_FOUND'' (''Git source not found: '' @ path_text src)))
          else case mkdir_p (snd s) storage of
            (fs, Some e) \<Rightarrow> ((fst s, fs), Inl (OsRaised e))
          | (fs, None) \<Rightarrow>
         (case mirror_copy (machine E) False src storage fs of
            (fs, Some e) \<Rightarrow> ((fst s, fs), Inl (OsRaised e))
          | (fs, None) \<Rightarrow>
            if \<not> dir_at fs clone then ((fst s, fs), Inl (OsRaised (NotFound clone)))
            else (case checked [''git'', ''rev-parse'', ''HEAD''] (run_git E clone [''rev-parse'', ''HEAD''] (fst s, fs)) of
               (s, Inl x) \<Rightarrow> (s, Inl x)
             | (s, Inr out) \<Rightarrow> (s, Inr (True, None, None, Some (strip out))))))))"

definition sync_stacks_git_pull ::
    "'g sync_env \<Rightarrow> string \<Rightarrow> doc \<Rightarrow> path \<Rightarrow> 'g disk \<Rightarrow> 'g disk \<times> outcome" where
  "sync_stacks_git_pull E pid config storage s =
    (case stacks_pull_body E pid config storage s of
       (s, Inl x) \<Rightarrow> (s, stacks_failed E True x)
     | (s, Inr r) \<Rightarrow> (s, r))"

end
