(* ===== verification/SyncRepo.thy ===== *)
theory SyncRepo
  imports SyncGit
begin

text \<open>
  Push and pull of the \<^verbatim>\<open>repo\<close> workspace with a git repository (\<^verbatim>\<open>_sync_git_push\<close>,
  \<^verbatim>\<open>_sync_git_pull\<close>): the four kinds of Ansible files go to the paths of the project's
  \<^verbatim>\<open>repoLayout\<close>, other files of the top level go along, and the sequence of git commands that
  publishes the result.
\<close>

definition default_entities :: "string list" where
  "default_entities = [''playbooks'', ''roles'', ''inventories'', ''vars'']"

function find_work_dir :: "fs \<Rightarrow> path \<Rightarrow> path option" where
  \<comment> \<open>the nearest directory upwards with a \<^verbatim>\<open>.git\<close>; the root directory is not tried\<close>
  "find_work_dir fs p =
    (if p = [] then None else if exists_at fs (p @ [''.git'']) then Some p else find_work_dir fs (butlast p))"
  by pat_completeness auto
termination
  by (relation "measure (\<lambda>(fs, p). length p)") (auto simp: length_greater_0_conv [symmetric] simp del: length_greater_0_conv)

declare find_work_dir.simps [simp del]

definition git_work_dir :: "fs \<Rightarrow> path \<Rightarrow> path" where
  "git_work_dir fs clone =
    (if exists_at fs (clone @ [''.git'']) then clone
     else case find_work_dir fs clone of Some d \<Rightarrow> d | None \<Rightarrow> clone)"

definition resolve_or_public ::
    "'g sync_env \<Rightarrow> string \<Rightarrow> string \<Rightarrow> string \<Rightarrow> string \<Rightarrow> json \<Rightarrow> bool \<Rightarrow> 'g disk \<Rightarrow>
     'g disk \<times> ((git_exn + outcome) + path)" where
  \<comment> \<open>when the secret is gone, once more without it\<close>
  "resolve_or_public E pid url ref subdir auth refresh s =
    (case resolve_path E pid ''repo'' url ref subdir auth refresh s of
       (s, Inr p) \<Rightarrow> (s, Inr p)
     | (s, Inl g) \<Rightarrow>
         if secret_missing g auth then
           (case resolve_path E pid ''repo'' url ref subdir JNull refresh s of
              (s, Inr p) \<Rightarrow> (s, Inr p)
            | (s, Inl g') \<Rightarrow> (s, Inl (Inr (failure ''SYNC_GIT_AUTH_FAILED''
                (''Authentication secret not found and repository requires authentication: '' @ git_error_text g)))))
         else (s, Inl (Inl (GitRaised g))))"

subsection \<open>The copying of a push\<close>

fun push_entities :: "host \<Rightarrow> path \<Rightarrow> path \<Rightarrow> doc \<Rightarrow> string list \<Rightarrow> fs \<Rightarrow> fs \<times> git_exn option" where
  "push_entities h repo dest layout [] fs = (fs, None)"
| "push_entities h repo dest layout (k # ks) fs =
    (case dget layout k of
       JStr g \<Rightarrow>
         (let src = repo @ [k]; dst = join_path dest g in
          if \<not> exists_at fs src then push_entities h repo dest layout ks fs
          else
            (let fs = (if exists_at fs dst then remove fs dst else fs); d = dir_at fs src in
             case mkdir_p fs (butlast dst) of
               (fs, Some e) \<Rightarrow> (fs, Some (OsRaised e))
             | (fs, None) \<Rightarrow>
                 (case (if d then copytree h none src dst fs else copy2 h src dst fs) of
                    (fs, Some e) \<Rightarrow> (fs, Some (OsRaised e))
                  | (fs, None) \<Rightarrow> push_entities h repo dest layout ks fs)))
     | _ \<Rightarrow> (fs, Some (PyRaised TypeError)))"

fun push_others :: "host \<Rightarrow> path \<Rightarrow> path \<Rightarrow> string list \<Rightarrow> fs \<Rightarrow> fs \<times> git_exn option" where
  "push_others h repo dest [] fs = (fs, None)"
| "push_others h repo dest (n # ns) fs =
    (if n = ''.git'' \<or> n = ''templates'' \<or> n \<in> set default_entities then push_others h repo dest ns fs
     else if dir_at fs (repo @ [n]) then
       (if file_at fs (dest @ [n]) then (fs, Some (OsRaised (NotADirectory (dest @ [n]))))
        else
          (case copytree h none (repo @ [n]) (dest @ [n])
                  (if exists_at fs (dest @ [n]) then remove fs (dest @ [n]) else fs) of
             (fs, Some e) \<Rightarrow> (fs, Some (OsRaised e))
           | (fs, None) \<Rightarrow> push_others h repo dest ns fs))
     else
       (case mkdir_p fs dest of
          (fs, Some e) \<Rightarrow> (fs, Some (OsRaised e))
        | (fs, None) \<Rightarrow>
            (case copy2 h (repo @ [n]) (dest @ [n]) fs of
               (fs, Some e) \<Rightarrow> (fs, Some (OsRaised e))
             | (fs, None) \<Rightarrow> push_others h repo dest ns fs)))"

definition push_copy :: "host \<Rightarrow> path \<Rightarrow> path \<Rightarrow> doc \<Rightarrow> fs \<Rightarrow> fs \<times> git_exn option" where
  "push_copy h repo dest layout fs =
    (case push_entities h repo dest layout default_entities fs of
       (fs, Some x) \<Rightarrow> (fs, Some x)
     | (fs, None) \<Rightarrow>
         if \<not> dir_at fs repo then (fs, Some (OsRaised (NotFound repo)))
         else push_others h repo dest (map fst (scan fs repo)) fs)"

subsection \<open>The git commands of a push\<close>

definition push_branch :: "'g sync_env \<Rightarrow> path \<Rightarrow> string \<Rightarrow> 'g disk \<Rightarrow> 'g disk" where
  "push_branch E d ref s =
    (case run_git E d [''rev-parse'', ''--abbrev-ref'', ''HEAD''] s of (s, rc, out, err) \<Rightarrow>
     let current = (if rc = 0 then Some (strip out) else None) in
     case run_git E d [''rev-parse'', ''--verify'', ref] s of (s, rc, out, err) \<Rightarrow>
       if rc \<noteq> 0 then fst (run_git E d [''checkout'', ''-b'', ref] s)
       else if current \<noteq> Some ref then fst (run_git E d [''checkout'', ref] s) else s)"

definition push_commit :: "'g sync_env \<Rightarrow> path \<Rightarrow> string \<Rightarrow> 'g disk \<Rightarrow> 'g disk \<times> (git_exn + string)" where
  \<comment> \<open>\<^verbatim>\<open>git commit\<close>, an exit status other than 0 raised\<close>
  "push_commit E d msg s = checked [''git'', ''commit'', ''-m'', msg] (run_git E d [''commit'', ''-m'', msg] s)"

definition push_first_commit :: "'g sync_env \<Rightarrow> path \<Rightarrow> 'g disk \<Rightarrow> 'g disk \<times> ((git_exn + outcome) + unit)" where
  \<comment> \<open>a branch without commits\<close>
  "push_first_commit E d s =
    (case run_git E d [''status'', ''--porcelain''] s of (s, rc, out, err) \<Rightarrow>
     case run_git E d [''ls-files''] s of (s, rc', out', err') \<Rightarrow>
       if strip out = [] \<and> strip out' = [] then
         (s, Inl (Inr (failure ''SYNC_IO_ERROR'' ''Repository is empty. Add files to repository before pushing.'')))
       else
         (case checked [''git'', ''add'', ''-A''] (run_git E d [''add'', ''-A''] s) of
            (s, Inl x) \<Rightarrow> (s, Inl (Inl x))
          | (s, Inr y) \<Rightarrow>
              (case push_commit E d ''Initial commit: Sync repo from Project Storage'' s of
                 (s, Inl x) \<Rightarrow> (s, Inl (Inl x))
               | (s, Inr y) \<Rightarrow> (s, Inr ()))))"

definition push_remote :: "'g sync_env \<Rightarrow> path \<Rightarrow> string \<Rightarrow> 'g disk \<Rightarrow> 'g disk \<times> (git_exn + outcome)" where
  "push_remote E d ref s =
    (let s = fst (run_git E d [''rev-list'', ''--count'', ''HEAD...origin/'' @ ref] s) in
     case run_git E d [''rev-parse'', ''--abbrev-ref'', ''--symbolic-full-name'', ''@'' @ ''{u}''] s of (s, rc, out, err) \<Rightarrow>
     let a = (if rc \<noteq> 0 then [''push'', ''--set-upstream'', ''origin'', ref] else [''push'', ''origin'', ref]) in
     case checked (''git'' # a) (run_git E d a s) of
       (s, Inl x) \<Rightarrow> (s, Inl x)
     | (s, Inr y) \<Rightarrow>
         (case checked [''git'', ''rev-parse'', ''HEAD''] (run_git E d [''rev-parse'', ''HEAD''] s) of
            (s, Inl x) \<Rightarrow> (s, Inl x)
          | (s, Inr out) \<Rightarrow> (s, Inr (True, None, None, Some (strip out)))))"

definition push_publish ::
    "'g sync_env \<Rightarrow> string \<Rightarrow> string \<Rightarrow> path \<Rightarrow> string \<Rightarrow> json \<Rightarrow> 'g disk \<Rightarrow> 'g disk \<times> (git_exn + outcome)" where
  "push_publish E pid url d ref auth s =
    (if \<not> dir_at (snd s) d then (s, Inl (OsRaised (NotFound d)))
     else case git_identity E d s of
       (s, Inl x) \<Rightarrow> (s, Inl x)
     | (s, Inr u) \<Rightarrow>
    (case run_git E d [''rev-list'', ''--count'', ''HEAD''] (push_branch E d ref s) of (s, rc, out, err) \<Rightarrow>
     let has_commits = (rc = 0 \<and> strip out \<noteq> ''0'') in
     case checked [''git'', ''add'', ''-A''] (run_git E d [''add'', ''-A''] s) of
       (s, Inl x) \<Rightarrow> (s, Inl x)
     | (s, Inr y) \<Rightarrow>
    (case run_git E d [''status'', ''--porcelain''] s of (s, rc, out, err) \<Rightarrow>
     let changes = (strip out \<noteq> []) in
     case (if changes then push_commit E d ''Sync repo from Project Storage'' s else (s, Inr [])) of
       (s, Inl x) \<Rightarrow> (s, Inl x)
     | (s, Inr y) \<Rightarrow>
    (case (if changes \<or> has_commits then (s, Inr ()) else push_first_commit E d s) of
       (s, Inl stop) \<Rightarrow> (s, stop)
     | (s, Inr u) \<Rightarrow>
       if \<not> truthy auth then
         (s, Inr (failure ''SYNC_GIT_AUTH_FAILED''
            ''Git authentication not configured. Please configure authSecretId in source settings.''))
       else case auth_error E pid auth url of
         Some (GitSourceError c m) \<Rightarrow> (s, Inr (failure ''SYNC_GIT_AUTH_FAILED'' m))
       | Some g \<Rightarrow> (s, Inl (GitRaised g))
       | None \<Rightarrow> push_remote E d ref s))))"

definition repo_push_body ::
    "'g sync_env \<Rightarrow> string \<Rightarrow> doc \<Rightarrow> path \<Rightarrow> doc res \<Rightarrow> 'g disk \<Rightarrow> 'g disk \<times> (git_exn + outcome)" where
  "repo_push_body E pid config storage layout s =
    (case git_settings config of
       Inl e \<Rightarrow> (s, Inl (PyRaised e))
     | Inr (url, ref, subdir, auth) \<Rightarrow>
       if url = [] then (s, Inr (failure ''SYNC_GIT_REF_NOT_FOUND'' ''Repository URL not configured''))
       else if \<not> exists_at (snd s) storage then
         (s, Inr (failure ''SYNC_STORAGE_NOT_FOUND'' (''Project Storage not found: '' @ path_text storage)))
       else case layout of
         Inl e \<Rightarrow> (s, Inl (PyRaised e))
       | Inr layout \<Rightarrow>
      (case resolve_or_public E pid url ref subdir auth False s of
         (s, Inl stop) \<Rightarrow> (s, stop)
       | (s, Inr git_base) \<Rightarrow>
      (case resolve_path E pid ''repo'' url ref [] auth False s of
         (s, Inl g) \<Rightarrow> (s, Inl (GitRaised g))
       | (s, Inr clone) \<Rightarrow>
         (let d = git_work_dir (snd s) clone;
              s = (if exists_at (snd s) (d @ [''.git'']) then fst (run_git E d [''remote'', ''get-url'', ''origin''] s) else s)
          in case push_copy (machine E) (projects_dir E @ [pid, ''repo''])
                 (if subdir = [] then clone else join_path clone subdir) layout (snd s) of
               (fs, Some x) \<Rightarrow> ((fst s, fs), Inl x)
             | (fs, None) \<Rightarrow> push_publish E pid url d ref auth (fst s, fs)))))"

subsection \<open>The copying of a pull\<close>

fun pull_entities :: "host \<Rightarrow> path \<Rightarrow> path \<Rightarrow> doc \<Rightarrow> string list \<Rightarrow> fs \<Rightarrow> fs \<times> git_exn option" where
  "pull_entities h git repo layout [] fs = (fs, None)"
| "pull_entities h git repo layout (k # ks) fs =
    (case dget layout k of
       JStr g \<Rightarrow>
         (let src = join_path git g; dst = repo @ [k] in
          if exists_at fs src then
            (let fs = (if exists_at fs dst then remove fs dst else fs) in
             case (if dir_at fs src then copytree h none src dst fs
                   else case mkdir_p fs (butlast dst) of
                      (fs, Some e) \<Rightarrow> (fs, Some e) | (fs, None) \<Rightarrow> copy2 h src dst fs) of
               (fs, Some e) \<Rightarrow> (fs, Some (OsRaised e))
             | (fs, None) \<Rightarrow> pull_entities h git repo layout ks fs)
          else
            (case (if exists_at fs dst then (fs, None) else mkdir_p fs dst) of
               (fs, Some e) \<Rightarrow> (fs, Some (OsRaised e))
             | (fs, None) \<Rightarrow> pull_entities h git repo layout ks fs))
     | _ \<Rightarrow> (fs, Some (PyRaised TypeError)))"

fun pull_others :: "host \<Rightarrow> path \<Rightarrow> path \<Rightarrow> doc \<Rightarrow> string list \<Rightarrow> fs \<Rightarrow> fs \<times> git_exn option" where
  \<comment> \<open>the files, not the directories, of the top level\<close>
  "pull_others h git repo layout [] fs = (fs, None)"
| "pull_others h git repo layout (n # ns) fs =
    (if n = ''.git'' \<or> JStr n \<in> set (map (dget layout) default_entities) \<or> \<not> file_at fs (git @ [n])
     then pull_others h git repo layout ns fs
     else
       (case copy2 h (git @ [n]) (repo @ [n]) fs of
          (fs, Some e) \<Rightarrow> (fs, Some (OsRaised e))
        | (fs, None) \<Rightarrow> pull_others h git repo layout ns fs))"

definition pull_copy :: "host \<Rightarrow> path \<Rightarrow> path \<Rightarrow> doc \<Rightarrow> fs \<Rightarrow> fs \<times> git_exn option" where
  "pull_copy h git repo layout fs =
    (case mkdir_p fs repo of
       (fs, Some e) \<Rightarrow> (fs, Some (OsRaised e))
     | (fs, None) \<Rightarrow>
         (case pull_entities h git repo layout default_entities fs of
            (fs, Some x) \<Rightarrow> (fs, Some x)
          | (fs, None) \<Rightarrow>
              if \<not> dir_at fs git then (fs, Some (OsRaised (NotADirectory git)))
              else pull_others h git repo layout (map fst (scan fs git)) fs))"

definition repo_pull_body ::
    "'g sync_env \<Rightarrow> string \<Rightarrow> doc \<Rightarrow> doc res \<Rightarrow> 'g disk \<Rightarrow> 'g disk \<times> (git_exn + outcome)" where
  "repo_pull_body E pid config layout s =
    (case git_settings config of
       Inl e \<Rightarrow> (s, Inl (PyRaised e))
     | Inr (url, ref, subdir, auth) \<Rightarrow>
       if url = [] then (s, Inr (failure ''SYNC_GIT_REF_NOT_FOUND'' ''Repository URL not configured''))
       else case layout of
         Inl e \<Rightarrow> (s, Inl (PyRaised e))
       | Inr layout \<Rightarrow>
      (let repo = projects_dir E @ [pid, ''repo''] in
       case mkdir_p (snd s) repo of
         (fs, Some e) \<Rightarrow> ((fst s, fs), Inl (OsRaised e))
       | (fs, None) \<Rightarrow>
      (case resolve_or_public E pid url ref subdir auth True (fst s, fs) of
         (s, Inl stop) \<Rightarrow> (s, stop)
       | (s, Inr git) \<Rightarrow>
         if \<not> exists_at (snd s) git then
           (s, Inr (failure ''SYNC_EXTERNAL_NOT_FOUND'' (''Git base path not found: '' @ path_text git)))
         else case pull_copy (machine E) git repo layout (snd s) of
           (fs, Some x) \<Rightarrow> ((fst s, fs), Inl x)
         | (fs, None) \<Rightarrow>
        (case resolve_path E pid ''repo'' url ref [] auth False (fst s, fs) of
           (s, Inl g) \<Rightarrow> (s, Inl (GitRaised g))
         | (s, Inr clone) \<Rightarrow>
           if \<not> dir_at (snd s) clone then (s, Inl (OsRaised (NotFound clone)))
           else (case checked [''git'', ''rev-parse'', ''HEAD''] (run_git E clone [''rev-parse'', ''HEAD''] s) of
              (s, Inl x) \<Rightarrow> (s, Inl x)
            | (s, Inr out) \<Rightarrow> (s, Inr (True, None, None, Some (strip out))))))))"

subsection \<open>From exceptions to error codes\<close>

definition int_text :: "int \<Rightarrow> string" where
  "int_text i = (if i < 0 then CHR ''-'' # nat_text (nat (- i)) else nat_text (nat i))"

fun join_words :: "string list \<Rightarrow> string" where
  "join_words [] = []"
| "join_words [l] = l"
| "join_words (l # ls) = l @ CHR '' '' # join_words ls"

definition mentions :: "string \<Rightarrow> string \<Rightarrow> bool" where
  "mentions m s = contains (lower m) s"

fun called_failed :: "'g sync_env \<Rightarrow> bool \<Rightarrow> git_exn \<Rightarrow> outcome" where
  "called_failed E pull (CalledProcessError a rc out err) =
    (let m = (if err = [] then called_text E a rc else err);
         full = ''Command: '' @ join_words a @ '', Exit code: '' @ int_text rc @
           (if out = [] then [] else '', stdout: '' @ out) @ (if m = [] then [] else '', stderr: '' @ m)
     in if mentions m ''authentication'' \<or> mentions m ''auth'' \<or> mentions m ''permission''
        then failure ''SYNC_GIT_AUTH_FAILED'' (''Git authentication failed: '' @ m)
        else if pull \<and> (mentions m ''not found'' \<or> mentions m ''ref'')
        then failure ''SYNC_GIT_REF_NOT_FOUND'' (''Git ref not found: '' @ m)
        else failure ''SYNC_IO_ERROR'' (''Git operation failed: '' @ full))"
| "called_failed E pull x = failure ''SYNC_IO_ERROR'' (''Unexpected error: '' @ exception_text E x)"

definition source_failed :: "string \<Rightarrow> string \<Rightarrow> outcome" where
  \<comment> \<open>a \<^verbatim>\<open>GitSourceError\<close>, by its code, then by its words\<close>
  "source_failed c m =
    (if c = ''SECRET_NOT_FOUND'' then failure ''SYNC_GIT_AUTH_FAILED'' (''Authentication secret not found: '' @ m)
     else if c = ''SECRET_DECRYPT_FAILED'' then failure ''SYNC_GIT_AUTH_FAILED'' (''Failed to decrypt authentication secret: '' @ m)
     else if c = ''GIT_AUTH_FAILED'' then failure ''SYNC_GIT_AUTH_FAILED'' (''Git authentication failed: '' @ m)
     else if mentions m ''secret'' \<and> mentions m ''not found'' then failure ''SYNC_GIT_AUTH_FAILED'' (''Authentication secret not found: '' @ m)
     else if mentions m ''authentication'' \<or> mentions m ''auth'' then failure ''SYNC_GIT_AUTH_FAILED'' (''Git authentication failed: '' @ m)
     else if mentions m ''not found'' \<and> mentions m ''ref'' then failure ''SYNC_GIT_REF_NOT_FOUND'' (''Git ref not found: '' @ m)
     else failure ''SYNC_IO_ERROR'' (''Git source error: '' @ m))"

fun repo_failed :: "'g sync_env \<Rightarrow> bool \<Rightarrow> git_exn \<Rightarrow> outcome" where
  "repo_failed E pull (GitRaised (GitSourceError c m)) = source_failed c m"
| "repo_failed E pull x = called_failed E pull x"

definition disk_of :: "'g sync_world \<Rightarrow> 'g disk" where
  "disk_of w = (repos w, tree w)"

definition with_disk :: "'g sync_world \<Rightarrow> 'g disk \<Rightarrow> 'g sync_world" where
  "with_disk w s = w\<lparr>repos := fst s, tree := snd s\<rparr>"

definition sync_git_push ::
    "'g sync_env \<Rightarrow> string \<Rightarrow> string \<Rightarrow> doc \<Rightarrow> path \<Rightarrow> real \<Rightarrow> 'g sync_world \<Rightarrow> 'g sync_world \<times> outcome" where
  "sync_git_push E pid key config storage now w =
    (if key = ''stacks'' then
       (case sync_stacks_git_push E pid config storage now (disk_of w) of (s, r) \<Rightarrow> (with_disk w s, r))
     else
       (case repo_push_body E pid config storage (get_repo_layout w pid) (disk_of w) of
          (s, Inl x) \<Rightarrow> (with_disk w s, repo_failed E False x)
        | (s, Inr r) \<Rightarrow> (with_disk w s, r)))"

definition sync_git_pull ::
    "'g sync_env \<Rightarrow> string \<Rightarrow> string \<Rightarrow> doc \<Rightarrow> path \<Rightarrow> 'g sync_world \<Rightarrow> 'g sync_world \<times> outcome" where
  "sync_git_pull E pid key config storage w =
    (if key = ''stacks'' then
       (case sync_stacks_git_pull E pid config storage (disk_of w) of (s, r) \<Rightarrow> (with_disk w s, r))
     else
       (case repo_pull_body E pid config (get_repo_layout w pid) (disk_of w) of
          (s, Inl x) \<Rightarrow> (with_disk w s, repo_failed E True x)
        | (s, Inr r) \<Rightarrow> (with_disk w s, r)))"

end
