(* ===== verification/SyncRun.thy ===== *)
theory SyncRun
  imports SyncRepo
begin

text \<open>
  One synchronisation from the request to its record: a single direction, \<^verbatim>\<open>both\<close>, the conflict
  check of the interface, and the jobs that run in threads of their own
  (\<^verbatim>\<open>_execute_sync_direction\<close>, \<^verbatim>\<open>execute_sync\<close>, \<^verbatim>\<open>check_conflict\<close>, \<^verbatim>\<open>start_sync\<close>,
  \<^verbatim>\<open>_sync_worker\<close>). \<open>clk\<close> gives the successive readings of the clock.
\<close>

subsection \<open>Directories beside the inventories\<close>

definition inventories_dir :: "'g sync_env \<Rightarrow> string \<Rightarrow> fs \<Rightarrow> path" where
  "inventories_dir E pid fs =
    (let base = projects_dir E @ [pid, ''repo''];
         iac = base @ [''IaC'', ''ansible'', ''inventories'']
     in if exists_at fs iac then iac else base @ [''inventories''])"

definition inventory_names :: "string list" where
  "inventory_names = [''inventory.yaml'', ''inventory.yml'', ''hosts.yaml'', ''hosts.yml'', ''hosts'', ''hosts.ini'']"

definition inventory_files :: "fs \<Rightarrow> path \<Rightarrow> path list" where
  "inventory_files fs d =
    (let direct = filter (file_at fs) (map (\<lambda>n. d @ [n]) inventory_names);
         deep = filter (\<lambda>q. strict_prefix d q \<and> file_at fs q \<and> last q \<in> set inventory_names \<and>
             ''group_vars'' \<notin> set (drop (length d) q) \<and> ''host_vars'' \<notin> set (drop (length d) q))
           (map fst fs)
     in direct @ filter (\<lambda>q. q \<notin> set direct) deep)"

definition ensure_inventory_dirs :: "path \<Rightarrow> fs \<Rightarrow> fs" where
  "ensure_inventory_dirs q fs =
    (let d = butlast q in
     case (if exists_at fs (d @ [''group_vars'']) then (fs, None) else mkdir_p fs (d @ [''group_vars''])) of
       (fs, Some e) \<Rightarrow> fs
     | (fs, None) \<Rightarrow>
         if exists_at fs (d @ [''host_vars'']) then fs else fst (mkdir_p fs (d @ [''host_vars''])))"

definition ensure_all_inventory_dirs :: "'g sync_env \<Rightarrow> string \<Rightarrow> fs \<Rightarrow> fs" where
  "ensure_all_inventory_dirs E pid fs =
    (let d = inventories_dir E pid fs in
     fold ensure_inventory_dirs (if exists_at fs d then inventory_files fs d else []) fs)"

definition wants_inventory_dirs :: "string \<Rightarrow> doc \<Rightarrow> bool res" where
  "wants_inventory_dirs key config =
    (if key = ''repo'' then Inr True
     else case getd config ''git'' (JObj []) of
       JObj g \<Rightarrow>
         (case getd g ''subdir'' (JStr []) of
            JStr s \<Rightarrow> Inr (s = [] \<or> mentions s ''inventor'')
          | _ \<Rightarrow> Inl AttributeError)
     | _ \<Rightarrow> Inl AttributeError)"

subsection \<open>One direction\<close>

definition error_text :: "'g sync_env \<Rightarrow> py_error \<Rightarrow> string" where
  "error_text E e = (case e of ValueError m \<Rightarrow> m | _ \<Rightarrow> exn_text E e)"

definition run_direction ::
    "'g sync_env \<Rightarrow> string \<Rightarrow> string \<Rightarrow> doc \<Rightarrow> string \<Rightarrow> path \<Rightarrow> int \<Rightarrow> 'g sync_world \<Rightarrow>
     'g sync_world \<times> outcome res" where
  "run_direction E pid key config dir storage now w =
    (let mode = getd config ''mode'' (JStr ''local'') in
     if mode = JStr ''local'' then
       (let lp = getd config ''localPath'' (JStr []) in
        if \<not> truthy lp then (w, Inr (failure ''SYNC_PATH_INVALID'' ''Local path not configured''))
        else case lp of
          JStr x \<Rightarrow>
            (case (if dir = ''push'' then sync_local_push E storage x (tree w)
                   else sync_local_pull E storage x (tree w)) of
               (fs, r) \<Rightarrow> (w\<lparr>tree := fs\<rparr>, unpack r))
        | _ \<Rightarrow> (w, Inl TypeError))
     else if mode = JStr ''git'' then
       (case (if dir = ''push'' then sync_git_push E pid key config storage (of_int now) w
              else sync_git_pull E pid key config storage w) of
          (w, r) \<Rightarrow> (w, Inr r))
     else (w, Inr (failure ''SYNC_IO_ERROR'' (''Unknown mode: '' @ as_text (json_text E) mode))))"

definition record_outcome ::
    "'g sync_env \<Rightarrow> string \<Rightarrow> string \<Rightarrow> doc \<Rightarrow> string \<Rightarrow> int \<Rightarrow> outcome \<Rightarrow> 'g sync_world \<Rightarrow>
     'g sync_world \<times> outcome res" where
  \<comment> \<open>the state after success or failure, then the directories after a pull\<close>
  "record_outcome E pid key config dir now q w =
    (case q of (ok, code, msg, revn) \<Rightarrow>
     if ok then
       (case update_sync_state w pid key dir ''ok'' None revn now of
          Inl e \<Rightarrow> (w, Inl e)
        | Inr w \<Rightarrow>
            if dir = ''pull'' then
              (case wants_inventory_dirs key config of
                 Inl e \<Rightarrow> (w, Inl e)
               | Inr b \<Rightarrow> (if b then w\<lparr>tree := ensure_all_inventory_dirs E pid (tree w)\<rparr> else w, Inr q))
            else (w, Inr q))
     else
       (case update_sync_state w pid key dir ''failed'' msg None now of
          Inl e \<Rightarrow> (w, Inl e)
        | Inr w \<Rightarrow> (w, Inr q)))"

definition execute_sync_direction ::
    "'g sync_env \<Rightarrow> string \<Rightarrow> string \<Rightarrow> doc \<Rightarrow> string \<Rightarrow> path \<Rightarrow> (nat \<Rightarrow> int) \<Rightarrow> 'g sync_world \<Rightarrow>
     'g sync_world \<times> outcome res" where
  "execute_sync_direction E pid key config dir storage clk w =
    (case update_sync_state w pid key dir ''running'' None None (clk 0) of
       Inl e \<Rightarrow> (w, Inl e)
     | Inr w \<Rightarrow>
         (case (case run_direction E pid key config dir storage (clk 1) w of
                  (w, Inl e) \<Rightarrow> (w, Inl e)
                | (w, Inr q) \<Rightarrow> record_outcome E pid key config dir (clk 2) q w) of
            (w, Inr q) \<Rightarrow> (w, Inr q)
          | (w, Inl e) \<Rightarrow>
              (let m = ''Unexpected error: '' @ error_text E e in
               case update_sync_state w pid key dir ''failed'' (Some m) None (clk 3) of
                 Inl e \<Rightarrow> (w, Inl e)
               | Inr w \<Rightarrow> (w, Inr (failure ''SYNC_IO_ERROR'' m)))))"

subsection \<open>Both directions\<close>

type_synonym answer3 = "bool \<times> string option \<times> string option"

definition brief :: "outcome \<Rightarrow> answer3" where
  "brief q = (case q of (ok, code, msg, revn) \<Rightarrow> (ok, code, msg))"

definition local_external :: "'g sync_env \<Rightarrow> doc \<Rightarrow> path option res" where
  \<comment> \<open>\<^verbatim>\<open>Path(source_config.get('localPath', ''))\<close>, seen from the working directory\<close>
  "local_external E config =
    (let lp = getd config ''localPath'' (JStr []) in
     if \<not> truthy lp then Inr None
     else case lp of JStr x \<Rightarrow> Inr (Some (join_path (cwd E) x)) | _ \<Rightarrow> Inl TypeError)"

definition resolve_external :: "'g sync_env \<Rightarrow> string \<Rightarrow> string \<Rightarrow> doc \<Rightarrow> 'g disk \<Rightarrow> 'g disk \<times> path option" where
  \<comment> \<open>any exception gives no path\<close>
  "resolve_external E pid key config s =
    (case getd config ''git'' (JObj []) of
       JObj g \<Rightarrow>
         (case (getd g ''repo'' (JStr []), getd g ''ref'' (JStr ''main''), getd g ''subdir'' (JStr [])) of
            (JStr u, JStr r, JStr d) \<Rightarrow>
              (case resolve_path E pid key u r d (dget g ''authSecretId'') False s of
                 (s, Inr p) \<Rightarrow> (s, Some p)
               | (s, Inl e) \<Rightarrow> (s, None))
          | _ \<Rightarrow> (s, None))
     | _ \<Rightarrow> (s, None))"

definition external_for_both ::
    "'g sync_env \<Rightarrow> string \<Rightarrow> string \<Rightarrow> doc \<Rightarrow> 'g sync_world \<Rightarrow> 'g sync_world \<times> path option res" where
  \<comment> \<open>with git, \<^verbatim>\<open>resolved['rootPath']\<close> on a \<^verbatim>\<open>Path\<close> raises, and the path is taken to be \<^verbatim>\<open>None\<close>\<close>
  "external_for_both E pid key config w =
    (let mode = getd config ''mode'' (JStr ''local'') in
     if mode = JStr ''local'' then (w, local_external E config)
     else if mode = JStr ''git'' then (with_disk w (fst (resolve_external E pid key config (disk_of w))), Inr None)
     else (w, Inr None))"

definition execute_both ::
    "'g sync_env \<Rightarrow> string \<Rightarrow> string \<Rightarrow> doc \<Rightarrow> path \<Rightarrow> (nat \<Rightarrow> int) \<Rightarrow> 'g sync_world \<Rightarrow>
     'g sync_world \<times> answer3 res" where
  \<comment> \<open>pull, then push\<close>
  "execute_both E pid key config storage clk w =
    (case execute_sync_direction E pid key config ''pull'' storage clk w of
       (w, Inl e) \<Rightarrow> (w, Inl e)
     | (w, Inr q) \<Rightarrow>
         if \<not> fst q then (w, Inr (False, snd (brief q)))
         else
           (case execute_sync_direction E pid key config ''push'' storage (\<lambda>i. clk (4 + i)) w of
              (w, Inl e) \<Rightarrow> (w, Inl e)
            | (w, Inr q) \<Rightarrow> (w, Inr (if \<not> fst q then (False, snd (brief q)) else (True, None, None)))))"

definition execute_sync ::
    "'g sync_env \<Rightarrow> string \<Rightarrow> string \<Rightarrow> doc \<Rightarrow> string \<Rightarrow> (nat \<Rightarrow> int) \<Rightarrow> 'g sync_world \<Rightarrow>
     'g sync_world \<times> answer3 res" where
  "execute_sync E pid key config dir clk w =
    (case get_project_storage_path E pid key of
       Inl e \<Rightarrow> (w, Inl e)
     | Inr storage \<Rightarrow>
         if dir = ''both'' then
           (case external_for_both E pid key config w of
              (w, Inl e) \<Rightarrow> (w, Inl e)
            | (w, Inr None) \<Rightarrow> execute_both E pid key config storage clk w
            | (w, Inr (Some ext)) \<Rightarrow>
                (case detect_conflict E w pid key storage ext of
                   Inl e \<Rightarrow> (w, Inl e)
                 | Inr (False, msg, details) \<Rightarrow> execute_both E pid key config storage clk w
                 | Inr (True, msg, details) \<Rightarrow>
                     (case update_sync_state w pid key ''push'' ''failed'' msg None (clk 0) of
                        Inl e \<Rightarrow> (w, Inl e)
                      | Inr w \<Rightarrow>
                          (case update_sync_state w pid key ''pull'' ''failed'' msg None (clk 1) of
                             Inl e \<Rightarrow> (w, Inl e)
                           | Inr w \<Rightarrow> (w, Inr (False, Some ''SYNC_CONFLICT'', msg))))))
         else
           (case execute_sync_direction E pid key config dir storage clk w of
              (w, Inl e) \<Rightarrow> (w, Inl e)
            | (w, Inr q) \<Rightarrow> (w, Inr (brief q))))"

subsection \<open>The conflict check of the interface\<close>

definition opt_json :: "string option \<Rightarrow> json" where
  "opt_json s = (case s of None \<Rightarrow> JNull | Some t \<Rightarrow> JStr t)"

definition conflict_answer :: "bool \<Rightarrow> json \<Rightarrow> json \<Rightarrow> doc" where
  "conflict_answer b m d = [(''hasConflict'', JBool b), (''message'', m), (''details'', d)]"

definition check_conflict ::
    "'g sync_env \<Rightarrow> string \<Rightarrow> string \<Rightarrow> doc \<Rightarrow> 'g sync_world \<Rightarrow> 'g sync_world \<times> doc" where
  "check_conflict E pid key config w =
    (let mode = getd config ''mode'' (JStr ''local'');
         wrong = (\<lambda>e. conflict_answer False (JStr (''Error checking conflict: '' @ error_text E e)) JNull)
     in case get_project_storage_path E pid key of
       Inl e \<Rightarrow> (w, wrong e)
     | Inr storage \<Rightarrow>
         (case (if mode = JStr ''local'' then (w, local_external E config)
                else if mode = JStr ''git'' then
                  (case resolve_external E pid key config (disk_of w) of (s, p) \<Rightarrow> (with_disk w s, Inr p))
                else (w, Inr None)) of
            (w, Inl e) \<Rightarrow> (w, wrong e)
          | (w, Inr None) \<Rightarrow> (w, conflict_answer False JNull JNull)
          | (w, Inr (Some ext)) \<Rightarrow>
              (case detect_conflict E w pid key storage ext of
                 Inl e \<Rightarrow> (w, wrong e)
               | Inr (b, m, d) \<Rightarrow>
                   (w, conflict_answer b (opt_json m) (case d of None \<Rightarrow> JNull | Some d \<Rightarrow> JObj d)))))"

subsection \<open>Jobs\<close>

definition start_sync ::
    "string \<Rightarrow> string \<Rightarrow> string \<Rightarrow> string \<Rightarrow> int \<Rightarrow> int \<Rightarrow> 'g sync_world \<Rightarrow>
     'g sync_world \<times> string option \<times> bool \<times> string option \<times> string option" where
  \<comment> \<open>on success the worker thread of the job is started\<close>
  "start_sync pid key dir who now now_ms w =
    (let running = (case map_of (active_jobs w) (pid, key) of
           Some j \<Rightarrow> job_status j = ''running'' | None \<Rightarrow> False)
     in if running then (w, None, False, Some ''SYNC_LOCKED'', Some ''Sync already in progress'')
        else
          (let i = pid @ ''_'' @ key @ ''_'' @ int_text now_ms;
               j = \<lparr>job_id = i, direction = dir, actor = who, started_at = now, job_status = ''running'',
                    completed_at = None, error_code = None, job_error = None\<rparr>
           in (w\<lparr>active_jobs := tput (pid, key) j (active_jobs w)\<rparr>, Some i, True, None, None)))"

definition end_job :: "'g sync_env \<Rightarrow> answer3 res \<Rightarrow> int \<Rightarrow> sync_job \<Rightarrow> sync_job" where
  "end_job E r now j =
    (case r of
       Inr (ok, code, msg) \<Rightarrow>
         j\<lparr>job_status := (if ok then ''ok'' else ''failed''), completed_at := Some now,
           error_code := (if given code then code else error_code j),
           job_error := (if given msg then msg else job_error j)\<rparr>
     | Inl e \<Rightarrow> j\<lparr>job_status := ''failed'', completed_at := Some now, job_error := Some (error_text E e)\<rparr>)"

definition end_worker ::
    "'g sync_env \<Rightarrow> string \<Rightarrow> string \<Rightarrow> answer3 res \<Rightarrow> int \<Rightarrow> 'g sync_world \<Rightarrow> 'g sync_world" where
  \<comment> \<open>what the worker writes into the table of jobs, under its lock\<close>
  "end_worker E pid key r now w =
    (case map_of (active_jobs w) (pid, key) of
       None \<Rightarrow> w
     | Some j \<Rightarrow> w\<lparr>active_jobs := AList.update (pid, key) (end_job E r now j) (active_jobs w)\<rparr>)"

definition sync_worker ::
    "'g sync_env \<Rightarrow> string \<Rightarrow> string \<Rightarrow> doc \<Rightarrow> string \<Rightarrow> (nat \<Rightarrow> int) \<Rightarrow> int \<Rightarrow> 'g sync_world \<Rightarrow> 'g sync_world" where
  "sync_worker E pid key config dir clk now w =
    (case execute_sync E pid key config dir clk w of (w, r) \<Rightarrow> end_worker E pid key r now w)"

definition cleanup_job :: "string \<Rightarrow> string \<Rightarrow> 'g sync_world \<Rightarrow> 'g sync_world" where
  \<comment> \<open>five seconds after the worker's end\<close>
  "cleanup_job pid key w =
    (case map_of (active_jobs w) (pid, key) of
       Some j \<Rightarrow>
         if job_status j \<noteq> ''running'' then w\<lparr>active_jobs := tdel (pid, key) (active_jobs w)\<rparr> else w
     | None \<Rightarrow> w)"

end
