(* ===== verification/Sources.thy ===== *)
theory Sources
  imports SyncRun
begin

text \<open>
  The sources of a project as its configuration has them (\<^verbatim>\<open>services/sources_service.py\<close>):
  defaults, the checks a new configuration must pass, where the storage of a source is, and the
  two older push and pull functions, whose copying is never reached.
\<close>

subsection \<open>Defaults\<close>

definition idle_sync :: json where
  "idle_sync = JObj (map (\<lambda>d. (d, JObj [(''status'', JStr ''idle''), (''lastSyncAt'', JNull), (''error'', JNull)]))
     [''push'', ''pull''])"

definition default_source :: "string \<Rightarrow> doc" where
  "default_source t = [(''mode'', JStr ''local''), (''localPath'', JStr t)]"

definition git_defaults :: "doc \<Rightarrow> doc" where
  "git_defaults g = dset_new (dset_new (dset_new g ''ref'' (JStr ''main'')) ''subdir'' (JStr [])) ''authSecretId'' JNull"

definition normalize_source :: "string \<Rightarrow> doc \<Rightarrow> doc res" where
  "normalize_source t s =
    (let s = dset_new s ''mode'' (JStr ''local'');
         s = (if dget s ''mode'' = JStr ''local'' then dset_new s ''localPath'' (JStr t) else s);
         done = (\<lambda>s. Inr (dset_new (dset_new s ''syncDirection'' (JStr ''pull'')) ''syncStatus'' idle_sync))
     in if dget s ''mode'' = JStr ''git'' then
          (case getd s ''git'' (JObj []) of
             JObj g \<Rightarrow> done (dset s ''git'' (JObj (git_defaults g)))
           | _ \<Rightarrow> Inl TypeError)
        else done s)"

definition normalize_entry :: "doc \<Rightarrow> string \<Rightarrow> doc res" where
  "normalize_entry sources t =
    (if has sources t then
       (case dget sources t of JObj s \<Rightarrow> normalize_source t s | _ \<Rightarrow> Inl AttributeError)
     else Inr (default_source t @ [(''syncDirection'', JStr ''pull''), (''syncStatus'', idle_sync)]))"

definition normalize_sources :: "json \<Rightarrow> doc res" where
  "normalize_sources sources =
    (case sources of
       JObj d \<Rightarrow>
         (case normalize_entry d ''repo'' of
            Inl e \<Rightarrow> Inl e
          | Inr r \<Rightarrow>
              (case normalize_entry d ''stacks'' of
                 Inl e \<Rightarrow> Inl e
               | Inr s \<Rightarrow> Inr [(''repo'', JObj r), (''stacks'', JObj s)]))
     | _ \<Rightarrow> Inl TypeError)"

subsection \<open>Checks\<close>

definition validate_repo_layout_path :: "string \<Rightarrow> string option" where
  \<comment> \<open>\<^verbatim>\<open>utils/paths.py\<close>: the complaint, if any\<close>
  "validate_repo_layout_path p =
    (if p = [] then Some ''Path cannot be empty''
     else if is_absolute p then Some ''Path must be relative, not absolute''
     else if contains p ''..'' then Some ''Path cannot contain .. (path traversal)''
     else if starts_with p ''/'' \<or> ends_with p ''/'' then Some ''Path cannot start or end with /''
     else if 2 \<le> length p \<and> p ! 1 = CHR '':'' then Some ''Path must be relative, not absolute (Windows path detected)''
     else None)"

fun check_layout :: "doc \<Rightarrow> (string \<times> string) option" where
  "check_layout [] = None"
| "check_layout ((k, v) # l) =
    (if k \<notin> set default_entities
     then Some (''INVALID_REPO_LAYOUT_KEY'', ''Invalid repoLayout key: '' @ k @
       ''. Must be one of ['' @ concat [CHR 0x27 # ''playbooks'' @ [CHR 0x27], '', '', CHR 0x27 # ''roles'' @ [CHR 0x27], '', '',
         CHR 0x27 # ''inventories'' @ [CHR 0x27], '', '', CHR 0x27 # ''vars'' @ [CHR 0x27]] @ '']'')
     else case v of
       JStr p \<Rightarrow>
         (case validate_repo_layout_path p of
            Some m \<Rightarrow> Some (''INVALID_REPO_LAYOUT_PATH'', ''repoLayout.'' @ k @ '': '' @ m)
          | None \<Rightarrow> check_layout l)
     | _ \<Rightarrow> Some (''INVALID_REPO_LAYOUT_VALUE'', ''repoLayout.'' @ k @ '' must be a string''))"

definition validate_repo_layout :: "json \<Rightarrow> (string \<times> string) option" where
  \<comment> \<open>\<open>None\<close> when valid, else code and message\<close>
  "validate_repo_layout l =
    (case l of JNull \<Rightarrow> None | JObj d \<Rightarrow> check_layout d
     | _ \<Rightarrow> Some (''INVALID_REPO_LAYOUT_FORMAT'', ''repoLayout must be a dictionary''))"

definition git_url :: "string \<Rightarrow> bool" where
  "git_url u = (starts_with u ''http://'' \<or> starts_with u ''https://'' \<or> starts_with u ''git@'' \<or> starts_with u ''git://'')"

definition check_git :: "string \<Rightarrow> doc \<Rightarrow> (string \<times> string) option" where
  "check_git t g =
    (let url = dget g ''repo''; ref = dget g ''ref''; subdir = getd g ''subdir'' (JStr []); auth = dget g ''authSecretId'' in
     if \<not> truthy url then Some (''MISSING_GIT_REPO'', ''git.repo is required for '' @ t @ '' in git mode'')
     else case url of
       JStr u \<Rightarrow>
         if \<not> git_url u then Some (''INVALID_GIT_REPO'', ''git.repo for '' @ t @ '' must be a valid Git URL'')
         else if truthy ref \<and> str_of ref = None then Some (''INVALID_GIT_REF'', ''git.ref for '' @ t @ '' must be a string'')
         else if truthy subdir \<and> str_of subdir = None then Some (''INVALID_GIT_SUBDIR'', ''git.subdir for '' @ t @ '' must be a string'')
         else if truthy subdir \<and> (contains (the (str_of subdir)) ''..'' \<or> starts_with (the (str_of subdir)) ''/'')
         then Some (''INVALID_GIT_SUBDIR'', ''git.subdir for '' @ t @ '' contains invalid characters (path traversal detected)'')
         else if auth \<noteq> JNull \<and> str_of auth = None
         then Some (''INVALID_AUTH_SECRET_ID'', ''git.authSecretId for '' @ t @ '' must be a string or null'')
         else None
     | _ \<Rightarrow> Some (''INVALID_GIT_REPO'', ''git.repo for '' @ t @ '' must be a string''))"

definition check_source :: "(json \<Rightarrow> string) \<Rightarrow> string \<Rightarrow> json \<Rightarrow> (string \<times> string) option" where
  "check_source str t v =
    (if t \<noteq> ''repo'' \<and> t \<noteq> ''stacks'' then Some (''INVALID_RESOURCE_TYPE'', ''Invalid resource type: '' @ t)
     else case v of
       JObj c \<Rightarrow>
         (let mode = dget c ''mode'' in
          if mode = JStr ''local'' then
            (let p = dget c ''localPath'' in
             if \<not> truthy p then Some (''MISSING_LOCAL_PATH'', ''localPath is required for '' @ t @ '' in local mode'')
             else case p of
               JStr s \<Rightarrow> if contains s ''..'' then Some (''INVALID_LOCAL_PATH'', ''localPath for '' @ t @ '' contains path traversal (..)'') else None
             | _ \<Rightarrow> Some (''INVALID_LOCAL_PATH'', ''localPath for '' @ t @ '' must be a string''))
          else if mode = JStr ''git'' then
            (case dget c ''git'' of
               JObj g \<Rightarrow> check_git t g
             | _ \<Rightarrow> Some (''MISSING_GIT_CONFIG'', ''git configuration is required for '' @ t @ '' in git mode''))
          else Some (''UNSUPPORTED_MODE'', ''Unsupported mode for '' @ t @ '': '' @ as_text str mode @
            ''. Must be '' @ [CHR 0x22] @ ''local'' @ [CHR 0x22] @ '' or '' @ [CHR 0x22] @ ''git'' @ [CHR 0x22]))
     | _ \<Rightarrow> Some (''INVALID_SOURCE_CONFIG'', ''Source config for '' @ t @ '' must be a dictionary''))"

fun first_complaint :: "(json \<Rightarrow> string) \<Rightarrow> doc \<Rightarrow> (string \<times> string) option" where
  "first_complaint str [] = None"
| "first_complaint str ((t, v) # d) =
    (case check_source str t v of Some c \<Rightarrow> Some c | None \<Rightarrow> first_complaint str d)"

definition validate_sources :: "(json \<Rightarrow> string) \<Rightarrow> json \<Rightarrow> (string \<times> string) option" where
  "validate_sources str sources =
    (case sources of JObj d \<Rightarrow> first_complaint str d
     | _ \<Rightarrow> Some (''INVALID_FORMAT'', ''Sources must be a dictionary''))"

subsection \<open>Storage paths\<close>

definition storage_names :: "(string \<times> path) list" where
  "storage_names =
    [(''repo'', [''repo'']), (''stacks'', [''stacks'']), (''inventory'', [''repo'', ''inventories'']),
     (''roles_playbooks'', [''repo'']), (''ansible_config'', [''ansible-config'', ''ansible.cfg'']),
     (''group_vars_storage'', [''repo'', ''group_vars'']), (''host_vars_storage'', [''repo'', ''host_vars'']),
     (''secrets_storage'', [''secrets-storage''])]"

fun join_comma :: "string list \<Rightarrow> string" where
  "join_comma [] = []"
| "join_comma [l] = l"
| "join_comma (l # ls) = l @ '', '' @ join_comma ls"

definition storage_of :: "'g sync_env \<Rightarrow> string \<Rightarrow> string \<Rightarrow> path res" where
  "storage_of E pid key =
    (case map_of storage_names key of
       Some p \<Rightarrow> Inr (projects_dir E @ pid # p)
     | None \<Rightarrow> Inl (ValueError (''Unknown source_key: '' @ key @ ''. Supported keys: '' @ join_comma (map fst storage_names))))"

definition source_meta :: "'g sync_env \<Rightarrow> string \<Rightarrow> string \<Rightarrow> doc \<Rightarrow> (json \<times> doc) res" where
  \<comment> \<open>mode and description of a configured source\<close>
  "source_meta E pid key config =
    (case normalize_sources (getd config ''sources'' (JObj [])) of
       Inl e \<Rightarrow> Inl e
     | Inr n \<Rightarrow>
         (case map_of n key of
            Some (JObj c) \<Rightarrow>
              (let mode = getd c ''mode'' (JStr ''local'') in
               if mode = JStr ''local'' then
                 Inr (mode, if truthy (dget c ''localPath'') then
                   [(''localPath'', dget c ''localPath''), (''projectDir'', JStr (path_text (projects_dir E @ [pid])))] else [])
               else if mode = JStr ''git'' then
                 (case getd c ''git'' (JObj []) of
                    JObj g \<Rightarrow> Inr (mode, if truthy (dget g ''repo'') then
                      [(''repoUrl'', dget g ''repo''), (''ref'', getd g ''ref'' (JStr ''main'')),
                       (''subdir'', getd g ''subdir'' (JStr [])), (''authSecretId'', dget g ''authSecretId'')] else [])
                  | _ \<Rightarrow> Inl AttributeError)
               else Inr (mode, []))
          | _ \<Rightarrow> Inr (JStr ''local'', [])))"

definition resolve_project_source ::
    "'g sync_env \<Rightarrow> bool \<Rightarrow> string \<Rightarrow> string \<Rightarrow> 'g sync_world \<Rightarrow> 'g sync_world \<times> (json \<times> path \<times> doc) res" where
  \<comment> \<open>\<open>enabled\<close> is \<^verbatim>\<open>PROJECT_SOURCES_ENABLED\<close>; the directory is made\<close>
  "resolve_project_source E enabled_flag pid key w =
    (case storage_of E pid key of
       Inl e \<Rightarrow> (w, Inl e)
     | Inr p \<Rightarrow>
         (case mkdir_p (tree w) (if key = ''ansible_config'' then butlast p else p) of
            (fs, Some e) \<Rightarrow> (w\<lparr>tree := fs\<rparr>, Inl OSError)
          | (fs, None) \<Rightarrow>
              (let w = w\<lparr>tree := fs\<rparr> in
               case (if enabled_flag then source_meta E pid key (load_project_config w pid) else Inr (JStr ''local'', [])) of
                 Inr (mode, meta) \<Rightarrow> (w, Inr (mode, p, meta))
               | Inl e \<Rightarrow> (w, Inr (JStr ''local'', p, [])))))"

subsection \<open>The older push and pull\<close>

definition sync_source_push ::
    "'g sync_env \<Rightarrow> string \<Rightarrow> string \<Rightarrow> path \<Rightarrow> int \<Rightarrow> fs \<Rightarrow> fs \<times> doc" where
  \<comment> \<open>the copying stands after the \<^verbatim>\<open>return\<close> of the missing storage, in the same block\<close>
  "sync_source_push E pid key ext now fs =
    (case storage_of E pid key of
       Inl e \<Rightarrow> (fs, [(''success'', JBool False), (''error'', JStr (error_text E e)), (''errorCode'', JStr ''SYNC_PUSH_FAILED'')])
     | Inr p \<Rightarrow>
         if \<not> exists_at fs p then
           (fs, [(''success'', JBool False), (''error'', JStr (''Project Storage does not exist: '' @ path_text p)),
                 (''errorCode'', JStr ''STORAGE_NOT_FOUND'')])
         else
           (fs, [(''success'', JBool True), (''message'', JStr (''Successfully pushed '' @ key @ '' to external source'')),
                 (''syncedAt'', JNum (of_int now))]))"

definition sync_source_pull ::
    "'g sync_env \<Rightarrow> string \<Rightarrow> string \<Rightarrow> path \<Rightarrow> int \<Rightarrow> fs \<Rightarrow> fs \<times> doc" where
  "sync_source_pull E pid key ext now fs =
    (case storage_of E pid key of
       Inl e \<Rightarrow> (fs, [(''success'', JBool False), (''error'', JStr (error_text E e)), (''errorCode'', JStr ''SYNC_PULL_FAILED'')])
     | Inr p \<Rightarrow>
         if \<not> exists_at fs ext then
           (fs, [(''success'', JBool False), (''error'', JStr (''External source does not exist: '' @ path_text ext)),
                 (''errorCode'', JStr ''EXTERNAL_NOT_FOUND'')])
         else
           (fs, [(''success'', JBool True), (''message'', JStr (''Successfully pulled '' @ key @ '' from external source'')),
                 (''syncedAt'', JNum (of_int now))]))"

end
