(* ===== verification/SourceRoutes.thy ===== *)
theory SourceRoutes
  imports Sources
begin

text \<open>
  The handlers of a project's sources (\<^verbatim>\<open>api/sources_routes.py\<close>): reading, replacing and reverting
  the configuration, starting a synchronisation, its state and conflicts, and the settings of
  the automatic synchronisation. A request's body is a \<open>doc\<close>; an answer is a status and a body.
  \<open>pids\<close> are the identifiers of the existing projects.
\<close>

type_synonym 'g answered = "'g sync_world \<times> nat \<times> doc"

definition complaint :: "string \<Rightarrow> string \<Rightarrow> doc" where
  "complaint m c = [(''success'', JBool False), (''error'', JStr m), (''errorCode'', JStr c)]"

definition no_project :: doc where
  "no_project = complaint ''Project not found'' ''PROJECT_NOT_FOUND''"

definition internal :: "'g sync_env \<Rightarrow> py_error \<Rightarrow> doc" where
  "internal E e = complaint (error_text E e) ''INTERNAL_ERROR''"

definition configured :: "'g sync_world \<Rightarrow> string \<Rightarrow> doc res" where
  \<comment> \<open>\<^verbatim>\<open>normalize_sources(load_project_config(...).get('sources', {}))\<close>\<close>
  "configured w pid = normalize_sources (getd (load_project_config w pid) ''sources'' (JObj []))"

definition save_project_config :: "string \<Rightarrow> doc \<Rightarrow> 'g sync_world \<Rightarrow> 'g sync_world" where
  "save_project_config pid d w = w\<lparr>configs := tput pid (Doc d) (configs w)\<rparr>"

subsection \<open>Synchronising\<close>

definition directions :: "json list" where
  "directions = [JStr ''push'', JStr ''pull'', JStr ''both'']"

definition api_start_sync ::
    "'g sync_env \<Rightarrow> string list \<Rightarrow> string \<Rightarrow> string \<Rightarrow> doc \<Rightarrow> int \<Rightarrow> int \<Rightarrow> 'g sync_world \<Rightarrow> 'g answered" where
  "api_start_sync E pids pid key body now ms w =
    (if pid \<notin> set pids then (w, 404, no_project)
     else case getd body ''direction'' (JStr ''push'') of
       JStr dir \<Rightarrow>
        (if JStr dir \<notin> set directions then (w, 400, complaint ''Invalid direction. Must be push, pull, or both'' ''INVALID_DIRECTION'')
         else case configured w pid of
           Inl e \<Rightarrow> (w, 500, internal E e)
         | Inr n \<Rightarrow>
             if \<not> has n key then (w, 404, complaint (''Source '' @ key @ '' not configured'') ''SOURCE_NOT_CONFIGURED'')
             else (case start_sync pid key dir ''user'' now ms w of
               (w, i, ok, code, msg) \<Rightarrow>
                 if \<not> ok then (w, 400, [(''success'', JBool False), (''error'', opt_json msg), (''errorCode'', opt_json code)])
                 else (w, 200, [(''success'', JBool True), (''jobId'', opt_json i), (''message'', JStr (''Sync started: '' @ dir))])))
     | _ \<Rightarrow> (w, 400, complaint ''Invalid direction. Must be push, pull, or both'' ''INVALID_DIRECTION''))"

definition api_get_sync_state ::
    "'g sync_env \<Rightarrow> string list \<Rightarrow> string \<Rightarrow> string \<Rightarrow> 'g sync_world \<Rightarrow> nat \<times> doc" where
  "api_get_sync_state E pids pid key w =
    (if pid \<notin> set pids then (404, no_project)
     else case get_sync_state w pid key of
       Inl e \<Rightarrow> (500, internal E e)
     | Inr s \<Rightarrow> (200, [(''success'', JBool True), (''state'', JObj s)]))"

definition api_check_sync_conflict ::
    "'g sync_env \<Rightarrow> string list \<Rightarrow> string \<Rightarrow> string \<Rightarrow> 'g sync_world \<Rightarrow> 'g answered" where
  "api_check_sync_conflict E pids pid key w =
    (if pid \<notin> set pids then (w, 404, no_project)
     else case configured w pid of
       Inl e \<Rightarrow> (w, 500, internal E e)
     | Inr n \<Rightarrow>
         (case map_of n key of
            Some (JObj c) \<Rightarrow>
              (case check_conflict E pid key c w of
                 (w, d) \<Rightarrow> (w, 200, (''success'', JBool True) # d))
          | _ \<Rightarrow> (w, 404, complaint ''Source not found'' ''SOURCE_NOT_FOUND'')))"

definition stamp_synced :: "string \<Rightarrow> string \<Rightarrow> int \<Rightarrow> doc \<Rightarrow> doc res" where
  \<comment> \<open>\<^verbatim>\<open>config['syncTimestamps'][source_key] = now\<close>\<close>
  "stamp_synced pid key now config =
    (case getd config ''syncTimestamps'' (JObj []) of
       JObj t \<Rightarrow> Inr (dset config ''syncTimestamps'' (JObj (dset t key (JNum (of_int now)))))
     | _ \<Rightarrow> Inl TypeError)"

definition sync_error :: "'g sync_env \<Rightarrow> py_error \<Rightarrow> doc" where
  "sync_error E e = complaint (''Error syncing source: '' @ error_text E e) ''SYNC_ERROR'' @ [(''details'', JObj [])]"

definition api_sync_project_source ::
    "'g sync_env \<Rightarrow> string list \<Rightarrow> string \<Rightarrow> doc \<Rightarrow> (nat \<Rightarrow> int) \<Rightarrow> int \<Rightarrow> 'g sync_world \<Rightarrow> 'g answered" where
  \<comment> \<open>the older request: it runs the pull itself, without a job; the configuration written back is
     the one read before. The resolved path of the answer is left out\<close>
  "api_sync_project_source E pids pid body clk now w =
    (if pid \<notin> set pids then (w, 404, no_project)
     else case dget body ''sourceKey'' of
       JStr key \<Rightarrow>
         if key = [] then (w, 400, complaint ''sourceKey is required'' ''MISSING_SOURCE_KEY'')
         else
        (let config = load_project_config w pid in
         case configured w pid of
           Inl e \<Rightarrow> (w, 500, internal E e @ [(''details'', JObj [])])
         | Inr n \<Rightarrow>
             (case map_of n key of
                Some (JObj c) \<Rightarrow>
                  if getd c ''mode'' (JStr ''local'') \<noteq> JStr ''git'' then
                    (w, 400, complaint (''Source '' @ key @ '' is not a git source (mode: '' @
                       as_text (json_text E) (getd c ''mode'' (JStr ''local'')) @ '')'') ''NOT_GIT_SOURCE'')
                  else (case getd c ''git'' (JObj []) of
                    JObj g \<Rightarrow>
                      if \<not> truthy (dget g ''repo'') then (w, 400, complaint ''Repository URL is required'' ''MISSING_REPO_URL'')
                      else (case execute_sync E pid key c ''pull'' clk w of
                        (w, Inl e) \<Rightarrow> (w, 500, sync_error E e)
                      | (w, Inr (ok, code, msg)) \<Rightarrow>
                          if \<not> ok then (w, 500, complaint (if given msg then the msg else ''Sync failed'')
                                            (if given code then the code else ''SYNC_FAILED''))
                          else (case stamp_synced pid key now config of
                            Inl e \<Rightarrow> (w, 500, sync_error E e)
                          | Inr config \<Rightarrow>
                              (let w = save_project_config pid config w;
                                   w = with_disk w (fst (resolve_external E pid key c (disk_of w)))
                               in case wants_inventory_dirs key c of
                                    Inl e \<Rightarrow> (w, 500, sync_error E e)
                                  | Inr b \<Rightarrow>
                                      (if b then w\<lparr>tree := ensure_all_inventory_dirs E pid (tree w)\<rparr> else w, 200,
                                       [(''success'', JBool True), (''ok'', JBool True), (''syncedAt'', JNum (of_int now))]))))
                  | _ \<Rightarrow> (w, 500, internal E AttributeError @ [(''details'', JObj [])]))
              | _ \<Rightarrow> (w, 404, complaint (''Source '' @ key @ '' not found'') ''SOURCE_NOT_FOUND'')))
     | j \<Rightarrow>
         if \<not> truthy j then (w, 400, complaint ''sourceKey is required'' ''MISSING_SOURCE_KEY'')
         else (w, 404, complaint (''Source '' @ as_text (json_text E) j @ '' not found'') ''SOURCE_NOT_FOUND''))"

subsection \<open>The configuration\<close>

definition hard_check :: "json \<Rightarrow> (string \<times> string) option" where
  \<comment> \<open>made again after the validation\<close>
  "hard_check v =
    (case v of
       JObj c \<Rightarrow>
         (let mode = getd c ''mode'' (JStr ''local'') in
          if mode = JStr ''local'' then
            (case getd c ''localPath'' (JStr []) of
               JStr p \<Rightarrow> if contains p ''..'' then Some (''Path traversal detected'', ''PATH_TRAVERSAL'') else None
             | _ \<Rightarrow> None)
          else if mode = JStr ''git'' then
            (case getd c ''git'' (JObj []) of
               JObj g \<Rightarrow>
                 (case (getd g ''repo'' (JStr []), getd g ''subdir'' (JStr [])) of
                    (JStr u, d) \<Rightarrow>
                      if contains u ''..'' \<or> starts_with u ''file://'' then Some (''Unsafe repository URL'', ''UNSAFE_REPO_URL'')
                      else (case d of
                        JStr s \<Rightarrow> if contains s ''..'' then Some (''Path traversal in subdir'', ''SUBDIR_TRAVERSAL'') else None
                      | _ \<Rightarrow> None)
                  | _ \<Rightarrow> None)
             | _ \<Rightarrow> None)
          else None)
     | _ \<Rightarrow> None)"

fun first_hard :: "doc \<Rightarrow> (string \<times> string) option" where
  "first_hard [] = None"
| "first_hard ((t, v) # d) = (case hard_check v of Some c \<Rightarrow> Some c | None \<Rightarrow> first_hard d)"

definition default_layout :: "doc \<Rightarrow> bool" where
  \<comment> \<open>three of the four keys are compared\<close>
  "default_layout l = (\<forall>k \<in> set [''playbooks'', ''roles'', ''inventories'']. getd l k (JStr k) = JStr k)"

definition put_layout :: "json \<Rightarrow> doc \<Rightarrow> doc" where
  "put_layout l config =
    (case l of
       JObj d \<Rightarrow> if default_layout d then dpop config ''repoLayout'' else dset config ''repoLayout'' l
     | _ \<Rightarrow> config)"

definition wants_first_pull :: "'g sync_env \<Rightarrow> string \<Rightarrow> string \<Rightarrow> doc \<Rightarrow> fs \<Rightarrow> bool" where
  \<comment> \<open>a local source that exists, with no or empty storage\<close>
  "wants_first_pull E pid key c fs =
    (getd c ''mode'' (JStr ''local'') = JStr ''local'' \<and>
     (case getd c ''localPath'' (JStr []) of
        JStr p \<Rightarrow> p \<noteq> [] \<and> is_absolute p \<and> exists_at fs (join_path [] p)
      | _ \<Rightarrow> False) \<and>
     (case storage_of E pid key of
        Inr s \<Rightarrow> \<not> exists_at fs s \<or> dir_at fs s \<and> scan fs s = []
      | Inl e \<Rightarrow> False))"

fun first_pulls :: "'g sync_env \<Rightarrow> string \<Rightarrow> (string \<times> json) list \<Rightarrow> (nat \<Rightarrow> int) \<Rightarrow> 'g sync_world \<Rightarrow> 'g sync_world" where
  "first_pulls E pid [] clk w = w"
| "first_pulls E pid ((key, v) # d) clk w =
    first_pulls E pid d (\<lambda>i. clk (4 + i))
      (case v of
         JObj c \<Rightarrow> if wants_first_pull E pid key c (tree w) then fst (execute_sync E pid key c ''pull'' clk w) else w
       | _ \<Rightarrow> w)"

definition api_update_project_sources ::
    "'g sync_env \<Rightarrow> string list \<Rightarrow> string \<Rightarrow> doc \<Rightarrow> (nat \<Rightarrow> int) \<Rightarrow> 'g sync_world \<Rightarrow> 'g answered" where
  "api_update_project_sources E pids pid body clk w =
    (if pid \<notin> set pids then (w, 404, no_project)
     else case normalize_sources (getd body ''sources'' (JObj [])) of
       Inl e \<Rightarrow> (w, 500, internal E e)
     | Inr n \<Rightarrow>
        (case validate_sources (json_text E) (JObj n) of
           Some (c, m) \<Rightarrow> (w, 400, complaint m c)
         | None \<Rightarrow>
        (case validate_repo_layout (dget body ''repoLayout'') of
           Some (c, m) \<Rightarrow> (w, 400, complaint m c)
         | None \<Rightarrow>
        (case first_hard n of
           Some (m, c) \<Rightarrow> (w, 400, complaint m c)
         | None \<Rightarrow>
           (let config = put_layout (dget body ''repoLayout'') (dset (load_project_config w pid) ''sources'' (JObj n));
                w = first_pulls E pid n clk (save_project_config pid config w)
            in case normalize_sources (JObj n) of
                 Inl e \<Rightarrow> (w, 500, internal E e)
               | Inr m \<Rightarrow> (w, 200, [(''success'', JBool True), (''sources'', JObj m)]))))))"

definition api_revert_source :: "'g sync_env \<Rightarrow> string list \<Rightarrow> string \<Rightarrow> doc \<Rightarrow> 'g sync_world \<Rightarrow> 'g answered" where
  "api_revert_source E pids pid body w =
    (if pid \<notin> set pids then (w, 404, no_project)
     else case dget body ''sourceKey'' of
       JStr key \<Rightarrow>
         if key = [] then (w, 400, complaint ''sourceKey is required'' ''MISSING_SOURCE_KEY'')
         else
          (let config = load_project_config w pid in
           case getd config ''sources'' (JObj []) of
             JObj d \<Rightarrow>
               (let w = (if has d key then save_project_config pid (dset config ''sources'' (JObj (dpop d key))) w else w)
                in case normalize_sources (JObj (dpop d key)) of
                     Inl e \<Rightarrow> (w, 500, internal E e)
                   | Inr n \<Rightarrow> (w, 200, [(''success'', JBool True), (''sources'', JObj n)]))
           | _ \<Rightarrow> (w, 500, internal E TypeError))
     | j \<Rightarrow> if truthy j then (w, 500, internal E TypeError)
            else (w, 400, complaint ''sourceKey is required'' ''MISSING_SOURCE_KEY''))"

subsection \<open>Settings of the automatic synchronisation\<close>

definition default_autosync :: doc where
  "default_autosync = [(''enabled'', JBool False), (''direction'', JStr ''pull''), (''sourceKeys'', JArr []),
     (''intervalSeconds'', JNum 3600), (''lastRunAt'', JNull), (''nextRunAt'', JNull), (''lastStatus'', JNull),
     (''lastError'', JNull)]"

definition api_get_autosync_config ::
    "'g sync_env \<Rightarrow> string list \<Rightarrow> string \<Rightarrow> 'g sync_world \<Rightarrow> nat \<times> doc" where
  "api_get_autosync_config E pids pid w =
    (if pid \<notin> set pids then (404, no_project)
     else case getd (load_project_config w pid) ''autosync'' (JObj []) of
       JObj a \<Rightarrow> (200, [(''success'', JBool True), (''autosync'', JObj (dupd default_autosync a))])
     | _ \<Rightarrow> (500, internal E TypeError))"

definition int_json :: "json \<Rightarrow> bool" where
  \<comment> \<open>\<^verbatim>\<open>isinstance(v, int)\<close>\<close>
  "int_json j = (case j of JNum x \<Rightarrow> x = of_int \<lfloor>x\<rfloor> | JBool b \<Rightarrow> True | _ \<Rightarrow> False)"

definition planned :: "json \<Rightarrow> real \<Rightarrow> int \<Rightarrow> doc \<Rightarrow> doc res" where
  \<comment> \<open>\<^verbatim>\<open>nextRunAt\<close> of the new settings\<close>
  "planned enabled_flag interval now a =
    (if \<not> truthy enabled_flag then Inr (dset a ''nextRunAt'' JNull)
     else let n = dget a ''nextRunAt'' in
       if \<not> truthy n then Inr (dset a ''nextRunAt'' (JNum (of_int now + interval)))
       else case num_of n of
         None \<Rightarrow> Inl TypeError
       | Some t \<Rightarrow> Inr (if t \<le> of_int now then dset a ''nextRunAt'' (JNum (of_int now + interval)) else a))"

definition api_update_autosync_config ::
    "'g sync_env \<Rightarrow> string list \<Rightarrow> string \<Rightarrow> doc \<Rightarrow> int \<Rightarrow> 'g sync_world \<Rightarrow> 'g answered" where
  "api_update_autosync_config E pids pid body now w =
    (let dir = getd body ''direction'' (JStr ''pull''); iv = getd body ''intervalSeconds'' (JNum 3600);
         keys = getd body ''sourceKeys'' (JArr []); en = getd body ''enabled'' (JBool False);
         config = load_project_config w pid
     in if pid \<notin> set pids then (w, 404, no_project)
        else if dir \<notin> set directions then (w, 400, complaint ''Invalid direction. Must be push, pull, or both'' ''INVALID_DIRECTION'')
        else if \<not> int_json iv \<or> the (num_of iv) < 60 then (w, 400, complaint ''intervalSeconds must be an integer >= 60'' ''INVALID_INTERVAL'')
        else if (case keys of JArr xs \<Rightarrow> False | _ \<Rightarrow> True) then (w, 400, complaint ''sourceKeys must be a list'' ''INVALID_SOURCE_KEYS'')
        else case getd config ''autosync'' (JObj []) of
          JObj a \<Rightarrow>
            (case planned en (the (num_of iv)) now
                    (dset (dset (dset (dset a ''enabled'' en) ''direction'' dir) ''sourceKeys'' keys) ''intervalSeconds'' iv) of
               Inl e \<Rightarrow> (w, 500, internal E e)
             | Inr a \<Rightarrow> (save_project_config pid (dset config ''autosync'' (JObj a)) w, 200,
                 [(''success'', JBool True), (''autosync'', JObj a)]))
        | _ \<Rightarrow> (w, 500, internal E TypeError))"

end
