(* ===== verification/Autosync.thy ===== *)
theory Autosync
  imports SourceRoutes
begin

text \<open>
  The automatic synchronisation (\<^verbatim>\<open>services/autosync_scheduler.py\<close>), one visit of a project by the
  scheduler. The scheduler reads the project's settings once, changes its copy, and writes the
  copy back at the start and at the end of a run; \<open>others\<close> is what requests and workers do in
  between. \<open>app_loaded\<close> tells whether the module \<^verbatim>\<open>app\<close> is found; every exception is caught.
\<close>

definition write_autosync :: "string \<Rightarrow> doc \<Rightarrow> 'g sync_world \<Rightarrow> 'g sync_world" where
  "write_autosync pid a w = save_project_config pid (dset (load_project_config w pid) ''autosync'' (JObj a)) w"

fun key_list :: "json \<Rightarrow> json list option" where
  \<comment> \<open>what a \<^verbatim>\<open>for\<close> loop goes over\<close>
  "key_list (JArr xs) = Some xs"
| "key_list (JStr s) = Some (map (\<lambda>c. JStr [c]) s)"
| "key_list (JObj d) = Some (map (\<lambda>(k, v). JStr k) d)"
| "key_list _ = None"

fun plain_keys :: "doc \<Rightarrow> json list \<Rightarrow> doc res" where
  \<comment> \<open>the sources as they are, for the selected keys\<close>
  "plain_keys sources [] = Inr []"
| "plain_keys sources (JStr k # ks) =
    (case plain_keys sources ks of
       Inl e \<Rightarrow> Inl e | Inr d \<Rightarrow> Inr ((k, getd sources k (JObj [])) # d))"
| "plain_keys sources (JArr x # ks) = Inl TypeError"
| "plain_keys sources (JObj x # ks) = Inl TypeError"
| "plain_keys sources (j # ks) = plain_keys sources ks"

definition sources_for :: "bool \<Rightarrow> doc \<Rightarrow> json list \<Rightarrow> doc res" where
  "sources_for app_loaded config keys =
    (if app_loaded then normalize_sources (getd config ''sources'' (JObj []))
     else case getd config ''sources'' (JObj []) of
       JObj d \<Rightarrow> plain_keys d keys | _ \<Rightarrow> Inl AttributeError)"

definition error_note :: "string \<Rightarrow> string option \<Rightarrow> string option \<Rightarrow> string" where
  \<comment> \<open>\<^verbatim>\<open>f"{source_key}: {error_msg or error_code}"\<close>\<close>
  "error_note k msg code = k @ '': '' @ (if given msg then the msg else case code of Some c \<Rightarrow> c | None \<Rightarrow> ''None'')"

fun start_keys ::
    "'g sync_env \<Rightarrow> string \<Rightarrow> string \<Rightarrow> doc \<Rightarrow> int \<Rightarrow> int \<Rightarrow> json list \<Rightarrow> string list \<Rightarrow> 'g sync_world \<Rightarrow>
     'g sync_world \<times> string list res" where
  \<comment> \<open>a job for each selected source that is not shown as running; the errors met\<close>
  "start_keys E pid dir sources now ms [] errs w = (w, Inr errs)"
| "start_keys E pid dir sources now ms (j # ks) errs w =
    (case j of
       JStr k \<Rightarrow>
         if \<not> has sources k then start_keys E pid dir sources now ms ks (errs @ [k @ '': Source not configured'']) w
         else (case get_sync_state w pid k of
           Inl e \<Rightarrow> (w, Inl e)
         | Inr s \<Rightarrow>
             if dget s ''lastPushStatus'' = JStr ''running'' \<or> dget s ''lastPullStatus'' = JStr ''running''
             then start_keys E pid dir sources now ms ks errs w
             else (case start_sync pid k dir ''system'' now ms w of
               (w, i, ok, code, msg) \<Rightarrow>
                 start_keys E pid dir sources now ms ks (if ok then errs else errs @ [error_note k msg code]) w))
     | JArr x \<Rightarrow> (w, Inl TypeError)
     | JObj x \<Rightarrow> (w, Inl TypeError)
     | _ \<Rightarrow> start_keys E pid dir sources now ms ks (errs @ [as_text (json_text E) j @ '': Source not configured'']) w)"

fun join_semicolon :: "string list \<Rightarrow> string" where
  "join_semicolon [] = []"
| "join_semicolon [l] = l"
| "join_semicolon (l # ls) = l @ ''; '' @ join_semicolon ls"

definition mark_started :: "int \<Rightarrow> real \<Rightarrow> doc \<Rightarrow> doc" where
  "mark_started now interval a =
    dset (dset (dset (dset a ''lastRunAt'' (JNum (of_int now))) ''lastStatus'' (JStr ''running'')) ''lastError'' JNull)
      ''nextRunAt'' (JNum (of_int now + interval))"

definition mark_ended :: "string list \<Rightarrow> doc \<Rightarrow> doc" where
  "mark_ended errs a =
    (let a = dset a ''lastStatus'' (JStr (if errs = [] then ''ok'' else ''failed''))
     in if errs = [] then dpop a ''lastError'' else dset a ''lastError'' (JStr (join_semicolon errs)))"

definition mark_failed :: "string \<Rightarrow> doc \<Rightarrow> doc" where
  "mark_failed m a = dset (dset a ''lastStatus'' (JStr ''failed'')) ''lastError'' (JStr m)"

definition run_autosync ::
    "'g sync_env \<Rightarrow> bool \<Rightarrow> string \<Rightarrow> doc \<Rightarrow> int \<Rightarrow> int \<Rightarrow> ('g sync_world \<Rightarrow> 'g sync_world) \<Rightarrow>
     'g sync_world \<Rightarrow> 'g sync_world" where
  "run_autosync E app_loaded pid a now ms others w =
    (let keys = getd a ''sourceKeys'' (JArr []);
         failed = (\<lambda>e a w. write_autosync pid (mark_failed (error_text E e) a) (others w))
     in if \<not> truthy keys then w
        else case (num_of (getd a ''intervalSeconds'' (JNum 3600)), getd a ''direction'' (JStr ''pull'')) of
          (Some interval, JStr dir) \<Rightarrow>
            (let a = mark_started now interval a; w = write_autosync pid a w;
                 config = load_project_config w pid
             in case key_list keys of
                  None \<Rightarrow> failed TypeError a w
                | Some ks \<Rightarrow>
                    (case sources_for app_loaded config ks of
                       Inl e \<Rightarrow> failed e a w
                     | Inr sources \<Rightarrow>
                         (case start_keys E pid dir sources now ms ks [] w of
                            (w, Inl e) \<Rightarrow> failed e a w
                          | (w, Inr errs) \<Rightarrow> write_autosync pid (mark_ended errs a) (others w))))
        | _ \<Rightarrow> failed TypeError (dset (dset (dset a ''lastRunAt'' (JNum (of_int now))) ''lastStatus'' (JStr ''running'')) ''lastError'' JNull) w)"

definition check_project ::
    "'g sync_env \<Rightarrow> bool \<Rightarrow> string \<Rightarrow> int \<Rightarrow> int \<Rightarrow> ('g sync_world \<Rightarrow> 'g sync_world) \<Rightarrow> 'g sync_world \<Rightarrow> 'g sync_world" where
  "check_project E app_loaded pid now ms others w =
    (let config = load_project_config w pid in
     case getd config ''autosync'' (JObj []) of
       JObj a \<Rightarrow>
         (let n = dget a ''nextRunAt'' in
          if \<not> truthy (dget a ''enabled'') then w
          else if \<not> truthy n then
            (case num_of (getd a ''intervalSeconds'' (JNum 3600)) of
               None \<Rightarrow> w
             | Some interval \<Rightarrow>
                 save_project_config pid (dset config ''autosync'' (JObj (dset a ''nextRunAt'' (JNum (of_int now + interval))))) w)
          else case num_of n of
            None \<Rightarrow> w
          | Some t \<Rightarrow> if of_int now < t then w else run_autosync E app_loaded pid a now ms others w)
     | _ \<Rightarrow> w)"

definition check_and_run_autosync ::
    "'g sync_env \<Rightarrow> bool \<Rightarrow> int \<Rightarrow> int \<Rightarrow> ('g sync_world \<Rightarrow> 'g sync_world) \<Rightarrow> 'g sync_world \<Rightarrow> 'g sync_world" where
  \<comment> \<open>\<^verbatim>\<open>get_project_dir('').parent\<close>: the path of no project is \<^verbatim>\<open>projects_dir\<close> itself\<close>
  "check_and_run_autosync E app_loaded now ms others w =
    (let d = butlast (projects_dir E) in
     if \<not> dir_at (tree w) d then w
     else fold (\<lambda>(pid, isdir) w. if isdir then check_project E app_loaded pid now ms others w else w)
            (scan (tree w) d) w)"

end
