(* ===== verification/FilesProps.thy ===== *)
theory FilesProps
  imports Files
begin

text \<open>
  The laws of the file system: what an operation leaves unchanged, which trees are well formed,
  and that copying a directory to a fresh place reproduces it, entry for entry.
\<close>

definition wf_fs :: "fs \<Rightarrow> bool" where
  \<comment> \<open>no path twice, and every entry is in a directory\<close>
  "wf_fs fs = (distinct (map fst fs) \<and> (\<forall>(q, e) \<in> set fs. q \<noteq> [] \<and> dir_at fs (butlast q)))"

lemma map_of_filter_key: "map_of (filter (\<lambda>(q, e). P q) t) k = (if P k then map_of t k else None)"
  by (induction t) auto

lemma entry_at_tput [simp]: "p \<noteq> [] \<Longrightarrow> entry_at (tput p e fs) q = (if q = p then Some e else entry_at fs q)"
  by (simp add: entry_at_def)

lemma entry_at_remove [simp]:
  "p \<noteq> [] \<Longrightarrow> entry_at (remove fs p) q = (if prefix p q then None else entry_at fs q)"
  by (auto simp: entry_at_def remove_def map_of_filter_key)

lemma entry_at_Nil [simp]: "entry_at fs [] = Some Dir"
  by (simp add: entry_at_def)

lemma wf_fs_distinct: "wf_fs fs \<Longrightarrow> distinct (map fst fs)"
  by (simp add: wf_fs_def)

lemma wf_fs_parent: "wf_fs fs \<Longrightarrow> entry_at fs (q @ [n]) \<noteq> None \<Longrightarrow> dir_at fs q"
  by (force simp: wf_fs_def entry_at_def dest!: map_of_SomeD)

lemma in_fs: "wf_fs fs \<Longrightarrow> (q, e) \<in> set fs \<longleftrightarrow> q \<noteq> [] \<and> entry_at fs q = Some e"
  by (auto simp: wf_fs_def entry_at_def map_of_eq_Some_iff)

lemma wf_fsI:
  assumes "distinct (map fst fs)" "[] \<notin> fst ` set fs"
    and "\<And>q n. entry_at fs (q @ [n]) \<noteq> None \<Longrightarrow> dir_at fs q"
  shows "wf_fs fs"
  unfolding wf_fs_def
proof (intro conjI ballI, simp add: assms(1), clarify)
  fix q e assume q: "(q, e) \<in> set fs"
  with assms(2) have ne: "q \<noteq> []" by force
  with q assms(1) have "entry_at fs (butlast q @ [last q]) \<noteq> None"
    by (simp add: entry_at_def)
  with assms(3) ne show "q \<noteq> [] \<and> dir_at fs (butlast q)" by blast
qed

lemma wf_tput:
  assumes "wf_fs fs" "dir_at fs p" "\<not> dir_at fs (p @ [n]) \<or> e = Dir"
  shows "wf_fs (tput (p @ [n]) e fs)"
proof (rule wf_fsI)
  show "[] \<notin> fst ` set (tput (p @ [n]) e fs)"
    using assms(1) by (auto simp: set_tput wf_fs_def)
  fix q m assume "entry_at (tput (p @ [n]) e fs) (q @ [m]) \<noteq> None"
  then show "dir_at (tput (p @ [n]) e fs) q"
    using assms wf_fs_parent [OF assms(1), of q m] by (auto simp: dir_at_def split: if_splits)
qed (simp add: wf_fs_distinct assms)

lemma wf_remove: assumes "wf_fs fs" "p \<noteq> []" shows "wf_fs (remove fs p)"
proof (rule wf_fsI)
  show "distinct (map fst (remove fs p))"
    using wf_fs_distinct [OF assms(1)] by (simp add: remove_def distinct_map_filter)
  show "[] \<notin> fst ` set (remove fs p)" using assms by (auto simp: remove_def wf_fs_def)
  fix q n assume "entry_at (remove fs p) (q @ [n]) \<noteq> None"
  with assms show "dir_at (remove fs p) q"
    using wf_fs_parent [OF assms(1), of q n] by (auto simp: dir_at_def split: if_splits)
qed

lemma absent_below: "wf_fs fs \<Longrightarrow> \<not> dir_at fs p \<Longrightarrow> r \<noteq> [] \<Longrightarrow> entry_at fs (p @ r) = None"
proof (induction r rule: rev_induct)
  case (snoc n r)
  then have "\<not> dir_at fs (p @ r)" by (cases "r = []") (auto simp: dir_at_def)
  with snoc.prems(1) wf_fs_parent [of fs "p @ r" n] show ?case
    by (cases "entry_at fs (p @ r @ [n])") simp_all
qed simp

lemma dir_at_prefix: "wf_fs fs \<Longrightarrow> entry_at fs (p @ r) \<noteq> None \<Longrightarrow> r \<noteq> [] \<Longrightarrow> dir_at fs p"
  by (metis absent_below)

lemma dir_at_up: "wf_fs fs \<Longrightarrow> dir_at fs (p @ r) \<Longrightarrow> dir_at fs p"
  by (cases "r = []") (auto simp: dir_at_def [of fs "p @ r"] intro: dir_at_prefix)

lemma set_scan: "wf_fs fs \<Longrightarrow> (n, d) \<in> set (scan fs p) \<longleftrightarrow> (\<exists>e. entry_at fs (p @ [n]) = Some e \<and> d = (e = Dir))"
proof
  assume w: "wf_fs fs" and "(n, d) \<in> set (scan fs p)"
  then obtain q e where q: "(q, e) \<in> set fs" "butlast q = p" "last q = n" "d = (e = Dir)" "q \<noteq> []"
    by (auto simp: scan_def)
  then have "q = p @ [n]" by (metis append_butlast_last_id)
  with q w show "\<exists>e. entry_at fs (p @ [n]) = Some e \<and> d = (e = Dir)" by (auto simp: in_fs)
next
  assume w: "wf_fs fs" and "\<exists>e. entry_at fs (p @ [n]) = Some e \<and> d = (e = Dir)"
  then obtain e where e: "(p @ [n], e) \<in> set fs" "d = (e = Dir)" by (auto simp: in_fs)
  then have "(p @ [n], e) \<in> set (filter (\<lambda>(q, e). q \<noteq> [] \<and> butlast q = p) fs)" by simp
  then have "(\<lambda>(q, e). (last q, e = Dir)) (p @ [n], e) \<in> set (scan fs p)"
    unfolding scan_def set_map by (rule imageI)
  with e show "(n, d) \<in> set (scan fs p)" by simp
qed

lemma fst_scan: "wf_fs fs \<Longrightarrow> n \<in> fst ` set (scan fs p) \<longleftrightarrow> entry_at fs (p @ [n]) \<noteq> None"
  by (auto simp: set_scan image_iff Bex_def split_paired_Ex)

lemma distinct_scan: assumes "wf_fs fs" shows "distinct (map fst (scan fs p))"
proof -
  let ?k = "filter (\<lambda>q. q \<noteq> [] \<and> butlast q = p) (map fst fs)"
  have "map fst (scan fs p) = map last ?k"
    by (simp add: scan_def filter_map o_def split_def)
  moreover have "distinct ?k" using wf_fs_distinct [OF assms] by simp
  moreover have "inj_on last (set ?k)"
    by (rule inj_onI) (auto, metis append_butlast_last_id)
  ultimately show ?thesis by (simp add: distinct_map)
qed

subsection \<open>Making directories\<close>

lemma makedirs_there: "wf_fs fs \<Longrightarrow> dir_at fs (p @ cs) \<Longrightarrow> makedirs fs p cs = (fs, None)"
proof (induction cs arbitrary: p)
  case (Cons c cs)
  then have "dir_at fs (p @ [c])" using dir_at_up [of fs "p @ [c]" cs] by simp
  with Cons show ?case by (simp add: dir_at_def)
qed simp

lemma mkdir_p_there [simp]: "wf_fs fs \<Longrightarrow> dir_at fs p \<Longrightarrow> mkdir_p fs p = (fs, None)"
  by (simp add: mkdir_p_def makedirs_there)

lemma makedirs_last:
  "wf_fs fs \<Longrightarrow> dir_at fs (p @ cs) \<Longrightarrow> entry_at fs (p @ cs @ [c]) = None \<Longrightarrow>
    makedirs fs p (cs @ [c]) = (tput (p @ cs @ [c]) Dir fs, None)"
proof (induction cs arbitrary: p)
  case (Cons b cs)
  then have "dir_at fs (p @ [b])" using dir_at_up [of fs "p @ [b]" cs] by simp
  with Cons show ?case by (simp add: dir_at_def)
qed simp

lemma mkdir_p_new: "wf_fs fs \<Longrightarrow> dir_at fs p \<Longrightarrow> entry_at fs (p @ [c]) = None \<Longrightarrow>
    mkdir_p fs (p @ [c]) = (tput (p @ [c]) Dir fs, None)"
  using makedirs_last [of fs "[]" p c] by (simp add: mkdir_p_def)

subsection \<open>Copying to a fresh place\<close>

fun kept :: "(string \<Rightarrow> bool \<Rightarrow> bool) \<Rightarrow> fs \<Rightarrow> path \<Rightarrow> path \<Rightarrow> bool" where
  \<comment> \<open>no name on the way from \<open>p\<close> down is one of those left out\<close>
  "kept skip fs p [] = True"
| "kept skip fs p (n # r) = (\<not> skip n (dir_at fs (p @ [n])) \<and> kept skip fs (p @ [n]) r)"

lemma kept_all [simp]: "kept (\<lambda>n d. False) fs p r"
  by (induction r arbitrary: p) auto

definition copyable :: "host \<Rightarrow> fs \<Rightarrow> path \<Rightarrow> path \<Rightarrow> bool" where
  \<comment> \<open>the machine lets every file below \<open>src\<close> be read and every path below \<open>dst\<close> be made\<close>
  "copyable h fs src dst = (\<forall>(q, e) \<in> set fs. prefix src q \<longrightarrow>
     (e \<noteq> Dir \<longrightarrow> readable h q) \<and> length (path_text dst) + length (path_text (drop (length src) q)) < path_max h)"

lemma copyable_at:
  assumes "copyable h fs src dst" "wf_fs fs" "entry_at fs (src @ r) = Some e" "src @ r \<noteq> []"
  shows "e \<noteq> Dir \<Longrightarrow> readable h (src @ r)"
    and "length (path_text (dst @ r)) < path_max h"
proof -
  have "(src @ r, e) \<in> set fs" using assms by (simp add: in_fs)
  with assms(1) show "e \<noteq> Dir \<Longrightarrow> readable h (src @ r)" "length (path_text (dst @ r)) < path_max h"
    unfolding copyable_def by fastforce+
qed

lemma copyable_frame:
  assumes "copyable h fs src dst" "wf_fs fs" "wf_fs fs'"
    and "\<And>r. entry_at fs' (src @ r) = entry_at fs (src @ r)"
  shows "copyable h fs' src dst"
  unfolding copyable_def
proof (clarify)
  fix q e assume q: "(q, e) \<in> set fs'" "prefix src q"
  then obtain r where r: "q = src @ r" by (auto elim: prefixE)
  with q assms have "entry_at fs (src @ r) = Some e" "src @ r \<noteq> []" by (simp_all add: in_fs)
  with copyable_at [OF assms(1,2)] r
  show "(e \<noteq> Dir \<longrightarrow> readable h q) \<and>
      length (path_text dst) + length (path_text (drop (length src) q)) < path_max h"
    by auto
qed

lemma copyable_down: "copyable h fs src dst \<Longrightarrow> copyable h fs (src @ [n]) (dst @ [n])"
  unfolding copyable_def
proof (clarify)
  fix q e assume a: "\<forall>(q, e)\<in>set fs. prefix src q \<longrightarrow> (e \<noteq> Dir \<longrightarrow> readable h q) \<and>
       length (path_text dst) + length (path_text (drop (length src) q)) < path_max h"
    and q: "(q, e) \<in> set fs" "prefix (src @ [n]) q"
  then obtain r where "q = (src @ [n]) @ r" by (auto elim: prefixE)
  then have r: "q = src @ n # r" by simp
  with a q(1) have "(e \<noteq> Dir \<longrightarrow> readable h q) \<and>
       length (path_text dst) + length (path_text (drop (length src) q)) < path_max h"
    by fastforce
  with r show "(e \<noteq> Dir \<longrightarrow> readable h q) \<and>
      length (path_text (dst @ [n])) + length (path_text (drop (length (src @ [n])) q)) < path_max h"
    by simp
qed

lemma entry_at_parallel:
  assumes "\<And>q. \<not> prefix dst q \<Longrightarrow> entry_at fs' q = entry_at fs q" "src \<parallel> dst"
  shows "entry_at fs' (src @ r) = entry_at fs (src @ r)"
proof -
  have "\<not> prefix dst (src @ r)" using assms(2) by (auto simp: prefix_append parallel_def)
  with assms(1) show ?thesis by simp
qed

lemma copy2_fresh:
  assumes "wf_fs fs" "entry_at fs (src @ [n]) = Some (File s t)" "src \<parallel> dst" "dir_at fs dst"
    "entry_at fs (dst @ [n]) = None" "copyable h fs src dst"
  shows "copy2 h (src @ [n]) (dst @ [n]) fs = (tput (dst @ [n]) (File s t) fs, None)"
proof -
  have "readable h (src @ [n])" "length (path_text (dst @ [n])) < path_max h"
    using copyable_at [OF assms(6,1), of "[n]"] assms(2) by auto
  moreover have "dst \<noteq> src" using assms(3) by auto
  ultimately show ?thesis using assms by (simp add: copy2_def dir_at_def)
qed

lemma kept_frame: "(\<And>r. entry_at fs' (src @ r) = entry_at fs (src @ r)) \<Longrightarrow> kept skip fs' src r = kept skip fs src r"
proof (induction r arbitrary: src)
  case (Cons n r)
  have "entry_at fs' ((src @ [n]) @ r) = entry_at fs ((src @ [n]) @ r)" for r
    using Cons.prems [of "n # r"] by simp
  with Cons.IH [of "src @ [n]"] Cons.prems [of "[n]"] show ?case by (simp add: dir_at_def)
qed simp

definition copied :: "(string \<Rightarrow> bool \<Rightarrow> bool) \<Rightarrow> path \<Rightarrow> path \<Rightarrow> fs \<Rightarrow> fs \<Rightarrow> bool" where
  \<comment> \<open>the tree at \<open>dst\<close> is that at \<open>src\<close>, less what is left out; the rest is as it was\<close>
  "copied skip src dst fs fs' =
    (wf_fs fs' \<and> (\<forall>q. \<not> prefix dst q \<longrightarrow> entry_at fs' q = entry_at fs q) \<and>
     (\<forall>r. entry_at fs' (dst @ r) = (if kept skip fs src r then entry_at fs (src @ r) else None)))"

definition copied_names :: "(string \<Rightarrow> bool \<Rightarrow> bool) \<Rightarrow> path \<Rightarrow> path \<Rightarrow> string set \<Rightarrow> fs \<Rightarrow> fs \<Rightarrow> bool" where
  "copied_names skip src dst N fs fs' =
    (wf_fs fs' \<and> dir_at fs' dst \<and> (\<forall>q. \<not> prefix dst q \<longrightarrow> entry_at fs' q = entry_at fs q) \<and>
     (\<forall>n r. entry_at fs' (dst @ n # r) =
        (if n \<in> N then if kept skip fs src (n # r) then entry_at fs (src @ n # r) else None
         else entry_at fs (dst @ n # r))))"

lemma copied_names_Nil: "wf_fs fs \<Longrightarrow> dir_at fs dst \<Longrightarrow> copied_names skip src dst {} fs fs"
  by (simp add: copied_names_def)

lemma copied_names_skip:
  assumes "copied_names skip src dst N fs fs'" "skip n (dir_at fs (src @ [n]))"
    "n \<notin> N" "entry_at fs (dst @ [n]) = None" "wf_fs fs"
  shows "copied_names skip src dst (insert n N) fs fs'"
proof -
  have "entry_at fs (dst @ n # r) = None" for r
    using absent_below [of fs "dst @ [n]" r] assms(4,5) by (cases "r = []") (auto simp: dir_at_def)
  with assms show ?thesis by (auto simp: copied_names_def)
qed

lemma copied_names_step:
  assumes one: "copied skip (src @ [n]) (dst @ [n]) fs fs1"
    and rest: "copied_names skip src dst N fs1 fs2"
    and side: "src \<parallel> dst" "n \<notin> N" "\<not> skip n (dir_at fs (src @ [n]))"
  shows "copied_names skip src dst (insert n N) fs fs2"
proof -
  have frame1: "entry_at fs1 q = entry_at fs q" if "\<not> prefix (dst @ [n]) q" for q
    using one that by (simp add: copied_def)
  have under: "entry_at fs1 (src @ r) = entry_at fs (src @ r)" for r
  proof (rule frame1)
    show "\<not> prefix (dst @ [n]) (src @ r)"
      using side(1) append_prefixD [of dst "[n]" "src @ r"] by (auto simp: prefix_append parallel_def)
  qed
  have "entry_at fs2 (dst @ m # r) =
      (if m \<in> insert n N then if kept skip fs src (m # r) then entry_at fs (src @ m # r) else None
       else entry_at fs (dst @ m # r))" for m r
  proof (cases "m = n")
    case True
    have "entry_at fs2 (dst @ n # r) = entry_at fs1 ((dst @ [n]) @ r)"
      using rest side(2) by (simp add: copied_names_def)
    also have "\<dots> = (if kept skip fs (src @ [n]) r then entry_at fs ((src @ [n]) @ r) else None)"
      using one unfolding copied_def by blast
    finally show ?thesis using True side(3) by simp
  next
    case False
    then have "\<not> prefix (dst @ [n]) (dst @ m # r)" by simp
    with frame1 have "entry_at fs1 (dst @ m # r) = entry_at fs (dst @ m # r)" by blast
    moreover have "kept skip fs1 src (m # r) = kept skip fs src (m # r)"
      by (rule kept_frame) (rule under)
    ultimately show ?thesis using rest under [of "m # r"] False
      unfolding copied_names_def by auto
  qed
  moreover have "entry_at fs2 q = entry_at fs q" if "\<not> prefix dst q" for q
  proof -
    have "\<not> prefix (dst @ [n]) q" using that by (metis append_prefixD)
    with rest frame1 that show ?thesis by (simp add: copied_names_def)
  qed
  ultimately show ?thesis using rest unfolding copied_names_def by blast
qed

lemma copied_file:
  assumes "wf_fs fs" "dir_at fs dst" "entry_at fs (src @ [n]) = Some (File s t)"
    "entry_at fs (dst @ [n]) = None" "src \<parallel> dst"
  shows "copied skip (src @ [n]) (dst @ [n]) fs (tput (dst @ [n]) (File s t) fs)"
proof -
  have nodir: "\<not> dir_at fs (src @ [n])" "\<not> dir_at fs (dst @ [n])" using assms(3,4) by (simp_all add: dir_at_def)
  have "entry_at fs (src @ n # r) = None" "entry_at fs (dst @ n # r) = None" if "r \<noteq> []" for r
    using absent_below [OF assms(1) nodir(1) that] absent_below [OF assms(1) nodir(2) that] by simp_all
  then have "entry_at (tput (dst @ [n]) (File s t) fs) ((dst @ [n]) @ r) =
      (if kept skip fs (src @ [n]) r then entry_at fs ((src @ [n]) @ r) else None)" for r
    using assms(3) by (cases "r = []") auto
  moreover have "wf_fs (tput (dst @ [n]) (File s t) fs)"
    using assms nodir by (intro wf_tput) auto
  ultimately show ?thesis by (auto simp: copied_def)
qed

lemma copy_fresh:
  "wf_fs fs \<Longrightarrow> src \<parallel> dst \<Longrightarrow> dir_at fs src \<Longrightarrow> dst \<noteq> [] \<Longrightarrow> dir_at fs (butlast dst) \<Longrightarrow>
     entry_at fs dst = None \<Longrightarrow> copyable h fs src dst \<Longrightarrow>
     (case copytree h skip src dst fs of (fs', e) \<Rightarrow> e = None \<and> copied skip src dst fs fs')"
  "wf_fs fs \<Longrightarrow> src \<parallel> dst \<Longrightarrow> dir_at fs dst \<Longrightarrow> distinct (map fst ns) \<Longrightarrow>
     (\<forall>(n, d) \<in> set ns. \<exists>e. entry_at fs (src @ [n]) = Some e \<and> d = (e = Dir)) \<Longrightarrow>
     (\<forall>(n, d) \<in> set ns. entry_at fs (dst @ [n]) = None) \<Longrightarrow> copyable h fs src dst \<Longrightarrow>
     (case copy_entries h skip src dst ns fs of
        (fs', es) \<Rightarrow> es = [] \<and> copied_names skip src dst (fst ` set ns) fs fs')"
proof (induction h skip src dst fs and h skip src dst ns fs rule: copytree_copy_entries.induct)
  case (1 h skip src dst fs)
  let ?fs = "tput dst Dir fs"
  from 1(5) have dst: "dst = butlast dst @ [last dst]" by simp
  have made: "mkdir_p fs dst = (?fs, None)"
    using mkdir_p_new [of fs "butlast dst" "last dst"] 1(2,6,7) dst by simp
  have wf: "wf_fs ?fs" using wf_tput [of fs "butlast dst" "last dst" Dir] 1(2,6) dst by simp
  have short: "length (path_text dst) < path_max h"
  proof (cases "src = []")
    case False
    then show ?thesis using copyable_at(2) [OF 1(8,2), of "[]" Dir] 1(4) by (simp add: dir_at_def)
  qed (use 1(3) in auto)
  have under: "entry_at ?fs (src @ r) = entry_at fs (src @ r)" for r
    using 1(3,5) by (auto simp: parallel_def)
  have "case copy_entries h skip src dst (scan fs src) ?fs of
     (fs', es) \<Rightarrow> es = [] \<and> copied_names skip src dst (fst ` set (scan fs src)) ?fs fs'"
  proof (rule 1(1) [OF _ _ made [symmetric] refl wf 1(3)])
    show "dir_at ?fs dst" using 1(5) by (simp add: dir_at_def)
    show "distinct (map fst (scan fs src))" by (rule distinct_scan [OF 1(2)])
    show "\<forall>(n, d)\<in>set (scan fs src). \<exists>e. entry_at ?fs (src @ [n]) = Some e \<and> d = (e = Dir)"
      using under by (auto simp: set_scan 1(2))
    show "\<forall>(n, d)\<in>set (scan fs src). entry_at ?fs (dst @ [n]) = None"
      using 1(5) absent_below [OF 1(2), of dst] 1(7) by (auto simp: dir_at_def)
    show "copyable h ?fs src dst" by (rule copyable_frame [OF 1(8,2) wf under])
  qed (use short 1(4) in auto)
  then obtain fs' where fs': "copy_entries h skip src dst (scan fs src) ?fs = (fs', [])"
    "copied_names skip src dst (fst ` set (scan fs src)) ?fs fs'" by auto
  have "copied skip src dst fs fs'"
    unfolding copied_def
  proof (intro conjI allI impI)
    show "wf_fs fs'" using fs'(2) by (simp add: copied_names_def)
  next
    fix q assume q: "\<not> prefix dst q"
    with fs'(2) have "entry_at fs' q = entry_at ?fs q" by (simp add: copied_names_def)
    with q 1(5) show "entry_at fs' q = entry_at fs q" by auto
  next
    fix r show "entry_at fs' (dst @ r) = (if kept skip fs src r then entry_at fs (src @ r) else None)"
    proof (cases r)
      case Nil
      with fs'(2) 1(4) show ?thesis by (simp add: copied_names_def dir_at_def)
    next
      case (Cons n t)
      have below: "entry_at fs (dst @ n # t) = None"
        using absent_below [OF 1(2), of dst "n # t"] 1(7) by (simp add: dir_at_def)
      have none: "entry_at fs (src @ n # t) = None" if "n \<notin> fst ` set (scan fs src)"
      proof -
        from that 1(2) have "\<not> dir_at fs (src @ [n])" "entry_at fs (src @ [n]) = None"
          by (simp_all add: fst_scan dir_at_def)
        then show ?thesis using absent_below [OF 1(2), of "src @ [n]" t] by (cases "t = []") auto
      qed
      have "kept skip ?fs src (n # t) = kept skip fs src (n # t)" by (rule kept_frame [OF under])
      then show ?thesis
        using fs'(2) under [of "n # t"] Cons below none 1(5) unfolding copied_names_def by auto
    qed
  qed
  with fs'(1) made short 1(4) show ?case by (simp add: copytree.simps)
next
  case (2 h skip src dst fs)
  then show ?case by (simp add: copied_names_Nil)
next
  case (3 h skip src dst n d ns fs)
  from 3(8) obtain e where e: "entry_at fs (src @ [n]) = Some e" "d = (e = Dir)" by auto
  then have d: "d = dir_at fs (src @ [n])" by (simp add: dir_at_def)
  from 3(9) have fresh: "entry_at fs (dst @ [n]) = None" by auto
  from 3(7) have new: "n \<notin> fst ` set ns" by auto
  show ?case
  proof (cases "skip n d")
    case True
    have "case copy_entries h skip src dst ns fs of
        (fs', es) \<Rightarrow> es = [] \<and> copied_names skip src dst (fst ` set ns) fs fs'"
      by (rule 3(1) [OF True 3(4,5,6)]) (use 3(7-10) in auto)
    with True d new fresh 3(4) show ?thesis
      by (auto intro: copied_names_skip)
  next
    case False
    let ?one = "if d then copytree h skip (src @ [n]) (dst @ [n]) fs else copy2 h (src @ [n]) (dst @ [n]) fs"
    obtain fs1 o1 where one: "?one = (fs1, o1)" by fastforce
    have c1: "o1 = None \<and> copied skip (src @ [n]) (dst @ [n]) fs fs1"
    proof (cases d)
      case True
      have "case copytree h skip (src @ [n]) (dst @ [n]) fs of
          (fs', e) \<Rightarrow> e = None \<and> copied skip (src @ [n]) (dst @ [n]) fs fs'"
      proof (rule 3(2) [OF False True 3(4)])
        show "src @ [n] \<parallel> dst @ [n]" using 3(5) by (rule parallel_append)
        show "copyable h fs (src @ [n]) (dst @ [n])" by (rule copyable_down [OF 3(10)])
      qed (use True d 3(6) fresh in auto)
      with one True show ?thesis by simp
    next
      case nodir: False
      with e obtain s t where f: "entry_at fs (src @ [n]) = Some (File s t)" by (cases e) auto
      with copy2_fresh [OF 3(4) f 3(5,6) fresh 3(10)] copied_file [OF 3(4,6) f fresh 3(5)] one nodir
      show ?thesis by simp
    qed
    then have frame1: "entry_at fs1 q = entry_at fs q" if "\<not> prefix (dst @ [n]) q" for q
      using that by (simp add: copied_def)
    have wf1: "wf_fs fs1" using c1 by (simp add: copied_def)
    have under: "entry_at fs1 (src @ r) = entry_at fs (src @ r)" for r
      by (rule entry_at_parallel [where dst = "dst @ [n]"])
        (use frame1 parallel_append [OF 3(5), of "[]" "[n]"] in auto)
    have "case copy_entries h skip src dst ns fs1 of
        (fs', es) \<Rightarrow> es = [] \<and> copied_names skip src dst (fst ` set ns) fs1 fs'"
    proof (rule 3(3) [OF False one [symmetric] wf1 3(5)])
      show "dir_at fs1 dst" using 3(6) frame1 [of dst] by (simp add: dir_at_def)
      show "distinct (map fst ns)" using 3(7) by simp
      show "\<forall>(n, d)\<in>set ns. \<exists>e. entry_at fs1 (src @ [n]) = Some e \<and> d = (e = Dir)"
        using 3(8) under by auto
      show "\<forall>(n, d)\<in>set ns. entry_at fs1 (dst @ [n]) = None"
      proof (clarify)
        fix m b assume m: "(m, b) \<in> set ns"
        with new have "m \<noteq> n" by force
        with frame1 [of "dst @ [m]"] 3(9) m show "entry_at fs1 (dst @ [m]) = None" by auto
      qed
      show "copyable h fs1 src dst" by (rule copyable_frame [OF 3(10,4) wf1 under])
    qed
    then obtain fs2 where two: "copy_entries h skip src dst ns fs1 = (fs2, [])"
      "copied_names skip src dst (fst ` set ns) fs1 fs2" by auto
    have "copied_names skip src dst (insert n (fst ` set ns)) fs fs2"
      by (rule copied_names_step [OF _ two(2) 3(5) new]) (use c1 False d in auto)
    with one two(1) c1 False show ?thesis by simp
  qed
qed

lemma copy_items_fresh:
  assumes "wf_fs fs" "src \<parallel> dst" "dir_at fs dst" "distinct ns" "copyable h fs src dst"
    "\<forall>n \<in> set ns. entry_at fs (src @ [n]) \<noteq> None"
    "\<forall>n \<in> set ns. \<not> omit n (dir_at fs (src @ [n])) \<longrightarrow>
       entry_at fs (dst @ [n]) = None \<and> \<not> skip n (dir_at fs (src @ [n]))"
  shows "\<exists>fs'. copy_items h omit skip src dst ns fs = (fs', None) \<and>
     copied_names skip src dst {n \<in> set ns. \<not> omit n (dir_at fs (src @ [n]))} fs fs'"
  using assms
proof (induction ns arbitrary: fs)
  case Nil
  then show ?case by (simp add: copied_names_Nil)
next
  case (Cons n ns)
  note wf = Cons.prems(1) and par = Cons.prems(2) and dst = Cons.prems(3) and cp = Cons.prems(5)
  let ?d = "dir_at fs (src @ [n])"
  show ?case
  proof (cases "omit n ?d")
    case True
    then have "{m \<in> set (n # ns). \<not> omit m (dir_at fs (src @ [m]))} =
        {m \<in> set ns. \<not> omit m (dir_at fs (src @ [m]))}" by auto
    with Cons.IH [OF wf par dst _ cp] Cons.prems(4,6,7) True show ?thesis by (simp add: Let_def)
  next
    case False
    have fresh: "entry_at fs (dst @ [n]) = None" and noskip: "\<not> skip n ?d"
      using Cons.prems(7) False by auto
    let ?one = "if ?d then copytree h skip (src @ [n]) (dst @ [n]) fs else copy2 h (src @ [n]) (dst @ [n]) fs"
    have "\<exists>fs1. ?one = (fs1, None) \<and> copied skip (src @ [n]) (dst @ [n]) fs fs1"
    proof (cases ?d)
      case True
      have "case copytree h skip (src @ [n]) (dst @ [n]) fs of
          (fs', e) \<Rightarrow> e = None \<and> copied skip (src @ [n]) (dst @ [n]) fs fs'"
        by (rule copy_fresh(1) [OF wf parallel_append [OF par]])
          (use True dst fresh copyable_down [OF cp] in auto)
      with True show ?thesis by auto
    next
      case nodir: False
      then obtain s t where f: "entry_at fs (src @ [n]) = Some (File s t)"
        using Cons.prems(6) by (cases "entry_at fs (src @ [n])" rule: option.exhaust)
          (auto simp: dir_at_def, metis entry.exhaust)
      with copy2_fresh [OF wf f par dst fresh cp] copied_file [OF wf dst f fresh par] nodir
      show ?thesis by auto
    qed
    then obtain fs1 where one: "?one = (fs1, None)" "copied skip (src @ [n]) (dst @ [n]) fs fs1" by blast
    then have frame1: "entry_at fs1 q = entry_at fs q" if "\<not> prefix (dst @ [n]) q" for q
      using that by (simp add: copied_def)
    have wf1: "wf_fs fs1" using one by (simp add: copied_def)
    have under: "entry_at fs1 (src @ r) = entry_at fs (src @ r)" for r
      by (rule entry_at_parallel [where dst = "dst @ [n]"])
        (use frame1 parallel_append [OF par, of "[]" "[n]"] in auto)
    then have same: "dir_at fs1 (src @ [m]) = dir_at fs (src @ [m])" for m by (simp add: dir_at_def)
    have other: "entry_at fs1 (dst @ [m]) = entry_at fs (dst @ [m])" if "m \<in> set ns" for m
      using that Cons.prems(4) frame1 [of "dst @ [m]"] by auto
    have "\<exists>fs2. copy_items h omit skip src dst ns fs1 = (fs2, None) \<and>
        copied_names skip src dst {m \<in> set ns. \<not> omit m (dir_at fs1 (src @ [m]))} fs1 fs2"
    proof (rule Cons.IH [OF wf1 par])
      show "dir_at fs1 dst" using dst frame1 [of dst] by (simp add: dir_at_def)
      show "copyable h fs1 src dst" by (rule copyable_frame [OF cp wf wf1 under])
    qed (use Cons.prems under same other in auto)
    then obtain fs2 where two: "copy_items h omit skip src dst ns fs1 = (fs2, None)"
      "copied_names skip src dst {m \<in> set ns. \<not> omit m (dir_at fs (src @ [m]))} fs1 fs2"
      using same by auto
    have two': "copied_names skip src dst (insert n {m \<in> set ns. \<not> omit m (dir_at fs (src @ [m]))}) fs fs2"
      by (rule copied_names_step [OF one(2) two(2) par]) (use Cons.prems(4) noskip in auto)
    have names: "insert n {m \<in> set ns. \<not> omit m (dir_at fs (src @ [m]))} =
        {m \<in> set (n # ns). \<not> omit m (dir_at fs (src @ [m]))}" using False by auto
    have "copy_items h omit skip src dst (n # ns) fs = (fs2, None)"
      using one(1) two(1) False unfolding copy_items.simps Let_def by simp
    with two' show ?thesis unfolding names by (intro exI conjI)
  qed
qed

lemma clear_items_effect:
  "wf_fs fs \<Longrightarrow> wf_fs (clear_items keep p ns fs) \<and>
     (\<forall>q. entry_at (clear_items keep p ns fs) q =
        (if \<exists>n \<in> set ns. \<not> keep n \<and> prefix (p @ [n]) q then None else entry_at fs q))"
proof (induction ns arbitrary: fs)
  case (Cons n ns)
  have "wf_fs (if keep n then fs else remove fs (p @ [n]))" using Cons.prems by (simp add: wf_remove)
  note IH = Cons.IH [OF this]
  then show ?case by (auto split: if_split)
qed simp

lemma clear_dir_effect:
  assumes "wf_fs fs" "dir_at fs p"
  shows "wf_fs (clear_dir keep p fs)"
    and "\<not> prefix p q \<Longrightarrow> entry_at (clear_dir keep p fs) q = entry_at fs q"
    and "dir_at (clear_dir keep p fs) p"
    and "entry_at (clear_dir keep p fs) (p @ n # r) = (if keep n then entry_at fs (p @ n # r) else None)"
proof -
  have at: "entry_at (clear_dir keep p fs) q =
      (if \<exists>n \<in> fst ` set (scan fs p). \<not> keep n \<and> prefix (p @ [n]) q then None else entry_at fs q)" for q
    using clear_items_effect [of fs keep p "map fst (scan fs p)"] assms by (simp add: clear_dir_def)
  show "wf_fs (clear_dir keep p fs)"
    using clear_items_effect [of fs keep p "map fst (scan fs p)"] assms by (simp add: clear_dir_def)
  show "entry_at (clear_dir keep p fs) q = entry_at fs q" if "\<not> prefix p q"
    using at [of q] that by (metis append_prefixD)
  show "dir_at (clear_dir keep p fs) p" using at [of p] assms(2) by (simp add: dir_at_def)
  have "entry_at fs (p @ n # r) = None" if "n \<notin> fst ` set (scan fs p)"
    using that fst_scan [OF assms(1), of n p] absent_below [OF assms(1), of "p @ [n]" r]
    by (cases "r = []") (auto simp: dir_at_def)
  then show "entry_at (clear_dir keep p fs) (p @ n # r) = (if keep n then entry_at fs (p @ n # r) else None)"
    using at [of "p @ n # r"] by auto
qed

lemma mirror_dir:
  assumes "wf_fs fs" "src \<parallel> dst" "dir_at fs dst" "dir_at fs src" "copyable h fs src dst"
    and keep: "\<And>n. keep n \<Longrightarrow> entry_at fs (src @ [n]) \<noteq> None \<Longrightarrow> omit n (dir_at fs (src @ [n]))"
    and top: "\<And>n. skip n (dir_at fs (src @ [n])) \<Longrightarrow> omit n (dir_at fs (src @ [n]))"
  obtains fs' where
    "copy_items h omit skip src dst (map fst (scan (clear_dir keep dst fs) src)) (clear_dir keep dst fs) = (fs', None)"
    "wf_fs fs'" "dir_at fs' dst"
    "\<And>q. \<not> prefix dst q \<Longrightarrow> entry_at fs' q = entry_at fs q"
    "\<And>n r. entry_at fs' (dst @ n # r) =
       (if keep n then entry_at fs (dst @ n # r)
        else if omit n (dir_at fs (src @ [n])) then None
        else if kept skip fs (src @ [n]) r then entry_at fs (src @ n # r) else None)"
proof -
  let ?fs = "clear_dir keep dst fs"
  note cl = clear_dir_effect [OF assms(1,3), where keep = keep]
  have under: "entry_at ?fs (src @ r) = entry_at fs (src @ r)" for r
    by (rule entry_at_parallel [OF cl(2) assms(2)])
  then have d: "dir_at ?fs (src @ [n]) = dir_at fs (src @ [n])" for n by (simp add: dir_at_def)
  have "\<exists>fs'. copy_items h omit skip src dst (map fst (scan ?fs src)) ?fs = (fs', None) \<and>
      copied_names skip src dst {n \<in> set (map fst (scan ?fs src)). \<not> omit n (dir_at ?fs (src @ [n]))} ?fs fs'"
  proof (rule copy_items_fresh [OF cl(1) assms(2) cl(3) distinct_scan [OF cl(1)]])
    show "copyable h ?fs src dst" by (rule copyable_frame [OF assms(5,1) cl(1) under])
    show "\<forall>n\<in>set (map fst (scan ?fs src)). entry_at ?fs (src @ [n]) \<noteq> None"
      using fst_scan [OF cl(1)] by simp
    show "\<forall>n\<in>set (map fst (scan ?fs src)). \<not> omit n (dir_at ?fs (src @ [n])) \<longrightarrow>
        entry_at ?fs (dst @ [n]) = None \<and> \<not> skip n (dir_at ?fs (src @ [n]))"
    proof (intro ballI impI)
      fix n assume "n \<in> set (map fst (scan ?fs src))" "\<not> omit n (dir_at ?fs (src @ [n]))"
      with fst_scan [OF cl(1), of n src] under [of "[n]"] d keep top
      show "entry_at ?fs (dst @ [n]) = None \<and> \<not> skip n (dir_at ?fs (src @ [n]))"
        using cl(4) [where n = n and r = "[]"] by auto
    qed
  qed
  then obtain fs' where fs': "copy_items h omit skip src dst (map fst (scan ?fs src)) ?fs = (fs', None)"
    and c: "copied_names skip src dst {n \<in> set (map fst (scan ?fs src)). \<not> omit n (dir_at ?fs (src @ [n]))} ?fs fs'"
    by blast
  show thesis
  proof (rule that [OF fs'])
    show "wf_fs fs'" "dir_at fs' dst" using c by (simp_all add: copied_names_def)
    show "entry_at fs' q = entry_at fs q" if "\<not> prefix dst q" for q
      using c cl(2) [OF that] that by (simp add: copied_names_def)
    fix n r
    have k: "kept skip ?fs src (n # r) = kept skip fs src (n # r)" by (rule kept_frame [OF under])
    have absent: "entry_at fs (src @ n # r) = None" if "entry_at fs (src @ [n]) = None"
      using absent_below [OF assms(1), of "src @ [n]" r] that by (cases "r = []") (auto simp: dir_at_def)
    have at: "entry_at fs' (dst @ n # r) =
       (if entry_at fs (src @ [n]) \<noteq> None \<and> \<not> omit n (dir_at fs (src @ [n]))
        then if kept skip fs src (n # r) then entry_at fs (src @ n # r) else None
        else entry_at ?fs (dst @ n # r))"
      using c fst_scan [OF cl(1), of n src] under [of "[n]"] under [of "n # r"] d k
      unfolding copied_names_def by auto
    show "entry_at fs' (dst @ n # r) =
       (if keep n then entry_at fs (dst @ n # r)
        else if omit n (dir_at fs (src @ [n])) then None
        else if kept skip fs (src @ [n]) r then entry_at fs (src @ n # r) else None)"
      unfolding at cl(4) using keep [of n] top [of n] absent by auto
  qed
qed

subsection \<open>What is never touched\<close>

lemma parallel_down: "q \<parallel> p \<Longrightarrow> q \<parallel> p @ r"
  using parallel_append [of q p "[]" r] by simp

lemma parallel_not_prefix: "q \<parallel> p \<Longrightarrow> \<not> prefix (p @ r) q" "q \<parallel> p \<Longrightarrow> q \<noteq> p @ r"
  by (auto simp: parallel_def dest: append_prefixD)

lemma makedirs_frame: "\<not> prefix q (p @ cs) \<Longrightarrow> entry_at (fst (makedirs fs p cs)) q = entry_at fs q"
proof (induction cs arbitrary: fs p)
  case (Cons c cs)
  have "q \<noteq> p @ [c]" using Cons.prems by auto
  moreover have "\<not> prefix q ((p @ [c]) @ cs)" using Cons.prems by simp
  ultimately show ?case using Cons.IH [of "p @ [c]"] by (auto split: option.split entry.split)
qed simp

lemma mkdir_p_frame: "\<not> prefix q p \<Longrightarrow> entry_at (fst (mkdir_p fs p)) q = entry_at fs q"
  by (simp add: mkdir_p_def makedirs_frame)

lemma copy2_frame: "q \<parallel> dst \<Longrightarrow> entry_at (fst (copy2 h src dst fs)) q = entry_at fs q"
  using parallel_not_prefix(2) [of q dst "[]"] parallel_not_prefix(2) [of q dst "[last src]"]
  by (cases "dst = []") (auto simp: copy2_def Let_def split: option.split entry.split)

lemma copytree_frame:
  "q \<parallel> dst \<Longrightarrow> entry_at (fst (copytree h skip src dst fs)) q = entry_at fs q"
  "q \<parallel> dst \<Longrightarrow> entry_at (fst (copy_entries h skip src dst ns fs)) q = entry_at fs q"
proof (induction h skip src dst fs and h skip src dst ns fs rule: copytree_copy_entries.induct)
  case (1 h skip src dst fs)
  have m: "entry_at (fst (mkdir_p fs dst)) q = entry_at fs q"
    using 1(2) by (intro mkdir_p_frame) auto
  show ?case
  proof (cases "\<not> dir_at fs src \<or> path_max h \<le> length (path_text dst)")
    case False
    obtain fs' e where md: "mkdir_p fs dst = (fs', e)" by fastforce
    show ?thesis
    proof (cases e)
      case None
      have "entry_at (fst (copy_entries h skip src dst (scan fs src) fs')) q = entry_at fs' q"
        using 1(1) [OF _ _ _ _ 1(2)] False md None by simp
      with False md None m show ?thesis by (subst copytree.simps) (auto split: prod.split)
    qed (use False md m in \<open>simp add: copytree.simps\<close>)
  qed (auto simp: copytree.simps)
next
  case (3 h skip src dst n d ns fs)
  let ?one = "if d then copytree h skip (src @ [n]) (dst @ [n]) fs else copy2 h (src @ [n]) (dst @ [n]) fs"
  obtain fs1 o1 where one: "?one = (fs1, o1)" by fastforce
  show ?case
  proof (cases "skip n d")
    case False
    have "entry_at (fst ?one) q = entry_at fs q"
      using 3(2) [OF False _ parallel_down [OF 3(4)]] copy2_frame [OF parallel_down [OF 3(4)]] by simp
    moreover have "entry_at (fst (copy_entries h skip src dst ns fs1)) q = entry_at fs1 q"
      by (rule 3(3) [OF False one [symmetric] 3(4)])
    ultimately show ?thesis using one False by (auto split: prod.split)
  qed (use 3(1) [OF _ 3(4)] in simp)
qed simp

lemma copy_items_frame:
  "q \<parallel> dst \<Longrightarrow> entry_at (fst (copy_items h omit skip src dst ns fs)) q = entry_at fs q"
proof (induction ns arbitrary: fs)
  case (Cons n ns)
  let ?one = "if dir_at fs (src @ [n]) then copytree h skip (src @ [n]) (dst @ [n]) fs
    else copy2 h (src @ [n]) (dst @ [n]) fs"
  obtain fs1 o1 where one: "?one = (fs1, o1)" by fastforce
  have "entry_at (fst ?one) q = entry_at fs q"
    using copytree_frame(1) [OF parallel_down [OF Cons.prems]] copy2_frame [OF parallel_down [OF Cons.prems]] by simp
  with one Cons.IH [OF Cons.prems] show ?case
    by (cases o1) (simp_all add: Let_def)
qed simp

lemma clear_items_frame: "\<not> prefix p q \<Longrightarrow> entry_at (clear_items keep p ns fs) q = entry_at fs q"
proof (induction ns arbitrary: fs)
  case (Cons n ns)
  have "\<not> prefix (p @ [n]) q" using Cons.prems by (auto dest: append_prefixD)
  with Cons show ?case by simp
qed simp

lemma clear_dir_frame: "\<not> prefix p q \<Longrightarrow> entry_at (clear_dir keep p fs) q = entry_at fs q"
  by (simp add: clear_dir_def clear_items_frame)

end
