(* ===== verification/SyncProps.thy ===== *)
theory SyncProps
  imports SyncRun FilesProps
begin

text \<open>
  What a synchronisation does to the two trees, what it records, and what holds of its jobs.
\<close>

subsection \<open>Local push and pull\<close>

lemma none_simp [simp]: "none n d = False" by (simp add: none_def)

lemma none_eq: "none = (\<lambda>n d. False)" by (simp add: fun_eq_iff)

definition replaced :: "(string \<Rightarrow> bool) \<Rightarrow> path \<Rightarrow> path \<Rightarrow> fs \<Rightarrow> fs \<Rightarrow> bool" where
  \<comment> \<open>below \<open>dst\<close> is now what is below \<open>src\<close>, except for the names kept; the rest is as it was\<close>
  "replaced keep src dst fs fs' =
    (wf_fs fs' \<and> dir_at fs' dst \<and>
     (\<forall>n r. entry_at fs' (dst @ n # r) = entry_at fs ((if keep n then dst else src) @ n # r)) \<and>
     (\<forall>q. \<not> prefix dst q \<longrightarrow> entry_at fs' q = entry_at fs q))"

lemma replace_dir_effect:
  assumes "wf_fs fs" "src \<parallel> dst" "dir_at fs dst" "dir_at fs src" "copyable h fs src dst"
    and "\<And>n. keep n \<Longrightarrow> entry_at fs (src @ [n]) = None"
  shows "\<exists>fs'. replace_dir h keep src dst fs = (fs', None) \<and> replaced keep src dst fs fs'"
proof -
  obtain fs' where fs':
    "copy_items h none none src dst (map fst (scan (clear_dir keep dst fs) src)) (clear_dir keep dst fs) = (fs', None)"
    "wf_fs fs'" "dir_at fs' dst" "\<And>q. \<not> prefix dst q \<Longrightarrow> entry_at fs' q = entry_at fs q"
    "\<And>n r. entry_at fs' (dst @ n # r) =
       (if keep n then entry_at fs (dst @ n # r)
        else if none n (dir_at fs (src @ [n])) then None
        else if kept none fs (src @ [n]) r then entry_at fs (src @ n # r) else None)"
    using mirror_dir [OF assms(1-5), of keep none none] assms(6) by auto
  have "entry_at (clear_dir keep dst fs) src = entry_at fs src"
    using assms(2) by (intro clear_dir_frame) auto
  then have "replace_dir h keep src dst fs = (fs', None)"
    using fs'(1) assms(4) by (simp add: replace_dir_def Let_def dir_at_def)
  moreover have "kept none fs p r" for p r unfolding none_eq by simp
  then have "replaced keep src dst fs fs'" using fs'(2-5) by (simp add: replaced_def)
  ultimately show ?thesis by blast
qed

lemma replace_dir_frame:
  assumes "q \<parallel> dst" shows "entry_at (fst (replace_dir h keep src dst fs)) q = entry_at fs q"
proof -
  have "\<not> prefix dst q" using assms by auto
  then have "entry_at (clear_dir keep dst fs) q = entry_at fs q" by (rule clear_dir_frame)
  with copy_items_frame [OF assms] show ?thesis by (simp add: replace_dir_def Let_def)
qed

definition dirs_apart :: "'g sync_env \<Rightarrow> path \<Rightarrow> path \<Rightarrow> fs \<Rightarrow> bool" where
  \<comment> \<open>two directories, neither in the other, the first of which may be copied over the second\<close>
  "dirs_apart E src dst fs =
    (wf_fs fs \<and> src \<parallel> dst \<and> dir_at fs src \<and> dir_at fs dst \<and> copyable (machine E) fs src dst)"

definition plain_path :: "string \<Rightarrow> bool" where
  "plain_path x = (is_absolute x \<and> \<not> contains (str_path x) ''..'')"

lemma dir_not_file: "dir_at fs p \<Longrightarrow> \<not> file_at fs p"
  by (simp add: dir_at_def file_at_def)

lemma dir_exists: "dir_at fs p \<Longrightarrow> exists_at fs p"
  by (simp add: dir_at_def exists_at_def)

lemma mkdir_parent: "wf_fs fs \<Longrightarrow> dir_at fs p \<Longrightarrow> mkdir_p fs (butlast p) = (fs, None)"
  using dir_at_up [of fs "butlast p" "[last p]"] by (cases "p = []") auto

lemma pull_effect:
  assumes "dirs_apart E (path_parts x) storage fs" "plain_path x"
  shows "\<exists>fs'. sync_local_pull E storage x fs = (fs', Quad (True, None, None, Some (compute_revision E fs' storage)))
     \<and> replaced (\<lambda>n. False) (path_parts x) storage fs fs'"
proof -
  have a: "wf_fs fs" "path_parts x \<parallel> storage" "dir_at fs storage" "dir_at fs (path_parts x)"
    "copyable (machine E) fs (path_parts x) storage"
    using assms(1) by (simp_all add: dirs_apart_def)
  obtain fs' where "replace_dir (machine E) (\<lambda>n. False) (path_parts x) storage fs = (fs', None)"
    "replaced (\<lambda>n. False) (path_parts x) storage fs fs'"
    using replace_dir_effect [OF a, of "\<lambda>n. False"] by auto
  with assms(2) a(1,3,4) show ?thesis
    by (auto simp: sync_local_pull_def plain_path_def Let_def dir_exists dir_not_file mkdir_parent)
qed

text \<open>C18: A push to a local directory succeeds and makes it a copy of the storage: every entry below
  it is the storage's, with its content and modification time, only the destination's own
  \<^verbatim>\<open>.git\<close> is kept, and nothing outside of the directory is changed. The conditions: the storage
  and the external directory both exist and neither is, or lies in, the other; the configured
  path is absolute and has no dot-dot; every file of the storage can be read and every copy's
  path is within the system's limit; the storage has no \<^verbatim>\<open>.git\<close> at its top; and nobody else
  changes the trees while the push runs.\<close>
theorem push_mirrors:
  assumes "dirs_apart E storage (path_parts x) fs" "plain_path x"
    and "entry_at fs (storage @ [''.git'']) = None"
  shows "\<exists>fs'. sync_local_push E storage x fs =
       (fs', Quad (True, None, None, Some (compute_revision E fs' (path_parts x))))
     \<and> replaced (\<lambda>n. n = ''.git'') storage (path_parts x) fs fs'"
proof -
  have a: "wf_fs fs" "storage \<parallel> path_parts x" "dir_at fs (path_parts x)" "dir_at fs storage"
    "copyable (machine E) fs storage (path_parts x)"
    using assms(1) by (simp_all add: dirs_apart_def)
  obtain fs' where "replace_dir (machine E) (\<lambda>n. n = ''.git'') storage (path_parts x) fs = (fs', None)"
    "replaced (\<lambda>n. n = ''.git'') storage (path_parts x) fs fs'"
    using replace_dir_effect [OF a, of "\<lambda>n. n = ''.git''"] assms(3) by auto
  with assms(2) a(1,3,4) show ?thesis
    by (auto simp: sync_local_push_def plain_path_def Let_def dir_exists dir_not_file mkdir_parent)
qed

lemma copy_items_nothing: "copy_items h omit skip src dst [] fs = (fs, None)" by simp

text \<open>A push whose external path is the project's own storage reports success and has
  deleted everything in it but \<^verbatim>\<open>.git\<close>.\<close>
theorem push_to_itself_erases:
  assumes "wf_fs fs" "plain_path x" "path_parts x = storage" "dir_at fs storage"
    and "entry_at fs (storage @ [''.git'']) = None"
  shows "\<exists>fs'. sync_local_push E storage x fs = (fs', Quad (True, None, None, Some []))
     \<and> (\<forall>n r. entry_at fs' (storage @ n # r) = None)"
proof -
  let ?fs = "clear_dir (\<lambda>n. n = ''.git'') storage fs"
  note cl = clear_dir_effect [OF assms(1,4), where keep = "\<lambda>n. n = ''.git''"]
  have gone: "entry_at ?fs (storage @ n # r) = None" for n r
  proof (cases "n = ''.git''")
    case True
    have "entry_at fs ((storage @ [''.git'']) @ r) = None"
      using absent_below [OF assms(1), of "storage @ [''.git'']" r] assms(5)
      by (cases "r = []") (auto simp: dir_at_def)
    with True show ?thesis unfolding cl(4) by simp
  qed (simp add: cl(4))
  have empty: "scan ?fs storage = []"
  proof (rule ccontr)
    assume "scan ?fs storage \<noteq> []"
    then obtain n where "n \<in> fst ` set (scan ?fs storage)" by (cases "scan ?fs storage") auto
    with fst_scan [OF cl(1)] gone [of n "[]"] show False by simp
  qed
  have r: "replace_dir (machine E) (\<lambda>n. n = ''.git'') storage storage fs = (?fs, None)"
    using cl(3) empty by (simp add: replace_dir_def Let_def)
  have "files_below ?fs storage = []"
  proof (rule ccontr)
    assume "files_below ?fs storage \<noteq> []"
    then obtain z where "z \<in> set (files_below ?fs storage)" by (cases "files_below ?fs storage") auto
    then obtain q s t where q: "(q, File s t) \<in> set ?fs" "strict_prefix storage q"
      unfolding files_below_def by (auto split: entry.splits if_splits)
    then obtain v where "q = storage @ v" "v \<noteq> []" by (auto simp: strict_prefix_def prefix_def)
    then obtain n u where "q = storage @ n # u" by (cases v) auto
    with q cl(1) gone [of n u] show False by (simp add: in_fs)
  qed
  then have "compute_revision E ?fs storage = []"
    using cl(3) by (simp add: compute_revision_def dir_at_def)
  with r assms have "sync_local_push E storage x fs = (?fs, Quad (True, None, None, Some []))"
    by (simp add: sync_local_push_def plain_path_def Let_def dir_exists dir_not_file mkdir_parent)
  with gone show ?thesis by blast
qed

subsection \<open>The recorded state\<close>

definition side_name :: "string \<Rightarrow> string" where
  "side_name dir = (if dir = ''push'' then ''Push'' else ''Pull'')"

definition recorded :: "'g sync_world \<Rightarrow> string \<Rightarrow> string \<Rightarrow> string \<Rightarrow> json" where
  \<comment> \<open>the status on disk of one direction\<close>
  "recorded w pid key dir =
    (case dget (load_sync_state w pid) key of
       JObj s \<Rightarrow> dget s (''last'' @ side_name dir @ ''Status'') | _ \<Rightarrow> JNull)"

definition state_ok :: "'g sync_world \<Rightarrow> string \<Rightarrow> string \<Rightarrow> bool" where
  \<comment> \<open>what the file holds for the source, if anything, is an object\<close>
  "state_ok w pid key = (obj_of (getd (load_sync_state w pid) key (JObj [])) \<noteq> None)"

lemma load_saved_state [simp]: "load_sync_state (save_sync_state w pid d) p = (if p = pid then d else load_sync_state w p)"
  by (simp add: load_sync_state_def save_sync_state_def load_json_def)

lemma obj_of_Some: "obj_of j = Some d \<longleftrightarrow> j = JObj d"
  by (cases j) auto

lemma update_recorded:
  assumes "state_ok w pid key" "dir \<in> {''push'', ''pull''}"
  shows "\<exists>w'. update_sync_state w pid key dir status err r now = Inr w' \<and> state_ok w' pid key \<and>
     recorded w' pid key dir = JStr status"
proof -
  obtain d where d: "getd (load_sync_state w pid) key (JObj []) = JObj d"
    using assms(1) by (auto simp: state_ok_def obj_of_Some)
  have "dget (dset_new (load_sync_state w pid) key (JObj [])) key = JObj d"
    using d getd_has [of "load_sync_state w pid" key] getd_not_has [of "load_sync_state w pid" key]
    by (cases "has (load_sync_state w pid) key") (simp_all add: dset_new_def)
  with assms(2) show ?thesis
    by (auto simp: update_sync_state_def Let_def recorded_def state_ok_def side_name_def put_side_def
        getd_has)
qed

lemma update_frame:
  "update_sync_state w pid key dir status err r now = Inr w' \<Longrightarrow>
     tree w' = tree w \<and> active_jobs w' = active_jobs w \<and> configs w' = configs w"
  by (auto simp: update_sync_state_def Let_def save_sync_state_def split: if_splits json.splits)

lemma with_disk_simps [simp]:
  "sync_files (with_disk w s) = sync_files w" "active_jobs (with_disk w s) = active_jobs w"
  "configs (with_disk w s) = configs w" "tree (with_disk w s) = snd s"
  by (simp_all add: with_disk_def)

lemma run_direction_frame:
  "sync_files (fst (run_direction E pid key config dir storage now w)) = sync_files w"
  "active_jobs (fst (run_direction E pid key config dir storage now w)) = active_jobs w"
  by (auto simp: run_direction_def Let_def sync_git_push_def sync_git_pull_def
      split: json.split prod.split sum.split)

lemma state_ok_cong: "sync_files w' = sync_files w \<Longrightarrow> state_ok w' pid key = state_ok w pid key"
  by (simp add: state_ok_def load_sync_state_def)

lemma recorded_cong: "sync_files w' = sync_files w \<Longrightarrow> recorded w' pid key dir = recorded w pid key dir"
  by (simp add: recorded_def load_sync_state_def)

lemma record_outcome_settles:
  assumes "state_ok w pid key" "dir \<in> {''push'', ''pull''}"
    and "record_outcome E pid key config dir now q w = (w', r)"
  shows "state_ok w' pid key" and "r = Inr q' \<Longrightarrow>
      q' = q \<and> recorded w' pid key dir = JStr (if fst q then ''ok'' else ''failed'')"
proof -
  obtain ok code msg revn where q: "q = (ok, code, msg, revn)" by (cases q)
  obtain w1 where w1: "update_sync_state w pid key dir ''ok'' None revn now = Inr w1"
    "state_ok w1 pid key" "recorded w1 pid key dir = JStr ''ok''" using update_recorded [OF assms(1,2)] by blast
  obtain w2 where w2: "update_sync_state w pid key dir ''failed'' msg None now = Inr w2"
    "state_ok w2 pid key" "recorded w2 pid key dir = JStr ''failed''" using update_recorded [OF assms(1,2)] by blast
  have t: "state_ok (w1\<lparr>tree := f\<rparr>) pid key" "recorded (w1\<lparr>tree := f\<rparr>) pid key dir = JStr ''ok''" for f
    using w1(2,3) by (simp_all add: state_ok_def recorded_def load_sync_state_def)
  show "state_ok w' pid key"
    and "r = Inr q' \<Longrightarrow> q' = q \<and> recorded w' pid key dir = JStr (if fst q then ''ok'' else ''failed'')"
    using assms(3) w1 w2 t unfolding record_outcome_def q
    by (auto split: if_splits sum.splits)
qed

text \<open>C20: A direction of a synchronisation records its outcome: whatever the mode, the settings, the
  paths and the answers of git are, the call raises nothing, and the status it leaves in the
  state file is \<^verbatim>\<open>ok\<close> if it reports success and \<^verbatim>\<open>failed\<close> if it does not, never \<^verbatim>\<open>running\<close>. The
  conditions: the entry of the source in the state file, if there is one, is an object; the state
  file can be written; every git command it starts returns (they have no time limit); and no
  other synchronisation of the project writes the state file in between, which no lock prevents.\<close>
theorem direction_settles:
  assumes "state_ok w pid key" "dir \<in> {''push'', ''pull''}"
  shows "\<exists>w' q. execute_sync_direction E pid key config dir storage clk w = (w', Inr q) \<and>
     recorded w' pid key dir = JStr (if fst q then ''ok'' else ''failed'')"
proof -
  obtain w1 where w1: "update_sync_state w pid key dir ''running'' None None (clk 0) = Inr w1" "state_ok w1 pid key"
    using update_recorded [OF assms] by blast
  obtain w2 r where run: "run_direction E pid key config dir storage (clk 1) w1 = (w2, r)" by fastforce
  then have ok2: "state_ok w2 pid key"
    using run_direction_frame(1) [of E pid key config dir storage "clk 1" w1] w1(2) state_ok_cong by fastforce
  let ?body = "case run_direction E pid key config dir storage (clk 1) w1 of
      (w, Inl e) \<Rightarrow> (w, Inl e) | (w, Inr q) \<Rightarrow> record_outcome E pid key config dir (clk 2) q w"
  obtain w3 s where body: "?body = (w3, s)" by fastforce
  have ok3: "state_ok w3 pid key"
    and good: "\<And>q. s = Inr q \<Longrightarrow> recorded w3 pid key dir = JStr (if fst q then ''ok'' else ''failed'')"
    using body run ok2 record_outcome_settles [OF ok2 assms(2), of E config "clk 2" _ w3 s]
    by (cases r; fastforce)+
  show ?thesis
  proof (cases s)
    case (Inr q)
    with good body w1 show ?thesis by (simp add: execute_sync_direction_def)
  next
    case (Inl e)
    obtain w4 where "update_sync_state w3 pid key dir ''failed''
        (Some (''Unexpected error: '' @ error_text E e)) None (clk 3) = Inr w4"
      "recorded w4 pid key dir = JStr ''failed''"
      using update_recorded [OF ok3 assms(2)] by blast
    with Inl body w1 show ?thesis by (simp add: execute_sync_direction_def Let_def failure_def)
  qed
qed

subsection \<open>Both directions\<close>

definition same_files :: "fs \<Rightarrow> fs \<Rightarrow> bool" where
  "same_files fs fs' = (\<forall>q s t. entry_at fs' q = Some (File s t) \<longleftrightarrow> entry_at fs q = Some (File s t))"

lemma same_files_refl [simp]: "same_files fs fs"
  by (simp add: same_files_def)

lemma same_files_trans: "same_files a b \<Longrightarrow> same_files b c \<Longrightarrow> same_files a c"
  by (simp add: same_files_def)

lemma makedirs_files: "same_files fs (fst (makedirs fs p cs))"
proof (induction cs arbitrary: fs p)
  case (Cons c cs)
  have "same_files fs (tput (p @ [c]) Dir fs)" if "entry_at fs (p @ [c]) = None"
    using that by (auto simp: same_files_def)
  with Cons.IH show ?case by (auto split: option.split entry.split intro: same_files_trans)
qed simp

lemma ensure_dirs_files: "same_files fs (ensure_inventory_dirs q fs)"
proof -
  have m: "same_files f (fst (mkdir_p f p))" for f p by (simp add: mkdir_p_def makedirs_files)
  have md: "same_files f f'" if "mkdir_p f p = (f', e)" for f f' p e using m [of f p] that by simp
  show ?thesis
    by (auto simp: ensure_inventory_dirs_def Let_def split: prod.split option.split
        intro: m md same_files_trans [OF md m])
qed

lemma ensure_all_files: "same_files fs (ensure_all_inventory_dirs E pid fs)"
proof -
  have "same_files fs (fold ensure_inventory_dirs qs fs)" for qs
    by (induction qs arbitrary: fs) (auto intro: same_files_trans ensure_dirs_files)
  then show ?thesis by (simp add: ensure_all_inventory_dirs_def Let_def)
qed

lemma record_outcome_files:
  "same_files (tree w) (tree (fst (record_outcome E pid key config dir now q w)))"
  by (auto simp: record_outcome_def ensure_all_files dest!: update_frame split: prod.split sum.split)

lemma direction_files:
  assumes "update_sync_state w pid key dir ''running'' None None (clk 0) = Inr w1"
  shows "same_files (tree (fst (run_direction E pid key config dir storage (clk 1) w1)))
     (tree (fst (execute_sync_direction E pid key config dir storage clk w)))"
proof -
  obtain w2 r where run: "run_direction E pid key config dir storage (clk 1) w1 = (w2, r)" by fastforce
  let ?body = "case r of Inl e \<Rightarrow> (w2, Inl e) | Inr q \<Rightarrow> record_outcome E pid key config dir (clk 2) q w2"
  obtain w3 s where body: "?body = (w3, s)" by fastforce
  have "same_files (tree w2) (tree w3)"
    using body record_outcome_files [of w2 E pid key config dir "clk 2"] by (cases r) (auto, metis fst_conv)
  moreover have "tree (fst (execute_sync_direction E pid key config dir storage clk w)) = tree w3"
    using assms run body
    by (cases r; cases s) (auto simp: execute_sync_direction_def Let_def dest!: update_frame split: sum.split)
  ultimately show ?thesis using run by simp
qed

lemma push_frame: "q \<parallel> path_parts x \<Longrightarrow> entry_at (fst (sync_local_push E storage x fs)) q = entry_at fs q"
proof -
  assume q: "q \<parallel> path_parts x"
  then have np: "\<not> prefix q (butlast (path_parts x))" by (metis parallelE prefix_order.trans prefixeq_butlast)
  have m: "entry_at f q = entry_at fs q" if "mkdir_p fs (butlast (path_parts x)) = (f, e)" for f e
    using mkdir_p_frame [OF np, of fs] that by simp
  have r: "entry_at f' q = entry_at f q" if "replace_dir h keep storage (path_parts x) f = (f', e)" for h keep f f' e
    using replace_dir_frame [OF q, of h keep storage f] that by simp
  have c: "entry_at f' q = entry_at f q" if "copy2 h storage (path_parts x) f = (f', e)" for h f f' e
    using copy2_frame [OF q, of h storage f] that by simp
  show ?thesis
    by (auto simp: sync_local_push_def Let_def m split: prod.split option.split if_splits dest!: r c)
qed

lemma push_direction_keeps:
  assumes "getd config ''mode'' (JStr ''local'') = JStr ''local''"
    and "getd config ''localPath'' (JStr []) = JStr x" "q \<parallel> path_parts x"
  shows "entry_at (tree (fst (execute_sync_direction E pid key config ''push'' storage clk w))) q = Some (File s t)
    \<longleftrightarrow> entry_at (tree w) q = Some (File s t)"
proof (cases "update_sync_state w pid key ''push'' ''running'' None None (clk 0)")
  case (Inl e)
  then show ?thesis by (simp add: execute_sync_direction_def)
next
  case (Inr w1)
  have "entry_at (tree (fst (run_direction E pid key config ''push'' storage (clk 1) w1))) q = entry_at (tree w1) q"
    using assms(1,2) push_frame [OF assms(3), of E storage "tree w1"]
    by (auto simp: run_direction_def Let_def split: prod.split)
  with direction_files [where clk = clk, OF Inr, of E config storage] update_frame [OF Inr] show ?thesis
    by (simp add: same_files_def)
qed

lemma pull_direction_replaces:
  assumes "getd config ''mode'' (JStr ''local'') = JStr ''local''"
    and "getd config ''localPath'' (JStr []) = JStr x" "plain_path x"
    and "dirs_apart E (path_parts x) storage (tree w)" "state_ok w pid key"
  shows "entry_at (tree (fst (execute_sync_direction E pid key config ''pull'' storage clk w))) (storage @ n # r) =
      Some (File s t) \<longleftrightarrow> entry_at (tree w) (path_parts x @ n # r) = Some (File s t)"
proof -
  obtain w1 where w1: "update_sync_state w pid key ''pull'' ''running'' None None (clk 0) = Inr w1"
    using update_recorded [OF assms(5), of "''pull''"] by blast
  with assms(4) update_frame have "dirs_apart E (path_parts x) storage (tree w1)" "tree w1 = tree w" by fastforce+
  from pull_effect [OF this(1) assms(3)] this(2) obtain fs' where
    "sync_local_pull E storage x (tree w1) =
       (fs', Quad (True, None, None, Some (compute_revision E fs' storage)))"
    "replaced (\<lambda>n. False) (path_parts x) storage (tree w) fs'" by auto
  moreover have "x \<noteq> []" using assms(3) by (auto simp: plain_path_def is_absolute_def starts_with_def)
  ultimately have "entry_at (tree (fst (run_direction E pid key config ''pull'' storage (clk 1) w1))) (storage @ n # r) =
      entry_at (tree w) (path_parts x @ n # r)"
    using assms(1,2) by (simp add: run_direction_def replaced_def)
  with direction_files [where clk = clk, OF w1, of E config storage] show ?thesis by (simp add: same_files_def)
qed

lemma both_is_pull_or_more:
  "fst (execute_both E pid key config storage clk w) = fst (execute_sync_direction E pid key config ''pull'' storage clk w) \<or>
   fst (execute_both E pid key config storage clk w) =
     fst (execute_sync_direction E pid key config ''push'' storage (\<lambda>i. clk (4 + i))
       (fst (execute_sync_direction E pid key config ''pull'' storage clk w)))"
proof -
  obtain w1 r1 where p: "execute_sync_direction E pid key config ''pull'' storage clk w = (w1, r1)" by fastforce
  define later where "later = (\<lambda>i. clk (4 + i))"
  obtain w2 r2 where q: "execute_sync_direction E pid key config ''push'' storage later w1 = (w2, r2)" by fastforce
  show ?thesis
    unfolding execute_both_def later_def [symmetric] p by (cases r1; cases r2) (simp_all add: q)
qed

text \<open>C40: A synchronisation in both directions with a local directory, when no conflict is found,
  leaves in the project's storage exactly the files of the external directory: the pull comes
  first and replaces the storage, so what was changed or added in the storage is lost before
  the push that should have carried it over. The conditions: the mode is \<^verbatim>\<open>local\<close> and the
  configured path is absolute without dot-dot; both directories exist and neither is, or lies
  in, the other; every file of the external directory can be read and every copy's path is
  within the system's limit, so that no copy fails; and nobody else changes the trees
  meanwhile.\<close>
theorem both_discards_storage:
  assumes "get_project_storage_path E pid key = Inr storage"
    and "getd config ''mode'' (JStr ''local'') = JStr ''local''"
    and "getd config ''localPath'' (JStr []) = JStr x" "plain_path x"
    and "dirs_apart E (path_parts x) storage (tree w)"
    and "detect_conflict E w pid key storage (join_path (cwd E) x) = Inr (False, m, d)"
  shows "entry_at (tree (fst (execute_sync E pid key config ''both'' clk w))) (storage @ n # r) = Some (File s t)
     \<longleftrightarrow> entry_at (tree w) (path_parts x @ n # r) = Some (File s t)"
proof -
  have x: "x \<noteq> []" using assms(4) by (auto simp: plain_path_def is_absolute_def starts_with_def)
  have "state_ok w pid key"
    using assms(6) by (auto simp: detect_conflict_def get_sync_state_def state_ok_def split: json.splits)
  note pull = pull_direction_replaces [OF assms(2,3,4,5) this]
  have par: "storage @ n # r \<parallel> path_parts x"
    using assms(5) parallel_append [of storage "path_parts x" "n # r" "[]"]
    by (simp add: dirs_apart_def) (metis parallel_commute)
  have "fst (execute_sync E pid key config ''both'' clk w) = fst (execute_both E pid key config storage clk w)"
    using assms(1-3,6) x
    by (simp add: execute_sync_def external_for_both_def local_external_def)
  moreover have "entry_at (tree (fst (execute_both E pid key config storage clk w))) (storage @ n # r) = Some (File s t)
     \<longleftrightarrow> entry_at (tree (fst (execute_sync_direction E pid key config ''pull'' storage clk w))) (storage @ n # r)
         = Some (File s t)"
    using both_is_pull_or_more [of E pid key config storage clk w]
    by (elim disjE) (simp_all only: push_direction_keeps [OF assms(2,3) par])
  ultimately show ?thesis using pull by simp
qed

subsection \<open>A small project\<close>

definition demo_sync_env :: "unit sync_env" where
  "demo_sync_env = \<lparr>machine = \<lparr>readable = (\<lambda>p. True), path_max = 40\<rparr>, os_text = (\<lambda>e. ''os''),
     exn_text = (\<lambda>e. ''exn''), called_text = (\<lambda>a n. ''called''), json_text = (\<lambda>j. ''json''),
     cwd = [''w''], projects_dir = [''p''], digest = (\<lambda>s. s), num_text = (\<lambda>t. ''t''),
     run_git = (\<lambda>d a s. (s, 0, [], [])),
     resolve_path = (\<lambda>pid key url ref subdir auth refresh s. (s, Inr [''g''])),
     auth_error = (\<lambda>pid auth url. None)\<rparr>"

definition demo_fs :: fs where
  "demo_fs = [([''p''], Dir), ([''p'', ''1''], Dir), ([''p'', ''1'', ''repo''], Dir),
     ([''p'', ''1'', ''repo'', ''a''], File ''A'' 1), ([''x''], Dir), ([''x'', ''b''], File ''B'' 2)]"

definition demo_world :: "unit sync_world" where
  "demo_world = \<lparr>repos = (), tree = demo_fs, sync_files = [], configs = [], active_jobs = []\<rparr>"

lemma demo_wf: "wf_fs demo_fs"
  by (simp add: wf_fs_def demo_fs_def dir_at_def entry_at_def)

lemma demo_apart:
  "dirs_apart demo_sync_env [''p'', ''1'', ''repo''] [''x''] demo_fs"
  "dirs_apart demo_sync_env [''x''] [''p'', ''1'', ''repo''] demo_fs"
  using demo_wf
  by (simp_all add: dirs_apart_def dir_at_def entry_at_def copyable_def parallel_def)
    (simp_all add: demo_fs_def demo_sync_env_def)

lemma demo_paths: "path_parts ''/x'' = [''x'']" "plain_path ''/x''"
  "path_parts ''/p/1/repo'' = [''p'', ''1'', ''repo'']" "plain_path ''/p/1/repo''"
  by (simp_all add: path_parts_def plain_path_def is_absolute_def starts_with_def str_path_def path_text_def)

theorem push_mirrors_witness:
  "\<exists>fs'. sync_local_push demo_sync_env [''p'', ''1'', ''repo''] ''/x'' demo_fs =
       (fs', Quad (True, None, None, Some (compute_revision demo_sync_env fs' (path_parts ''/x''))))
     \<and> replaced (\<lambda>n. n = ''.git'') [''p'', ''1'', ''repo''] (path_parts ''/x'') demo_fs fs'"
  by (rule push_mirrors) (simp_all add: demo_apart demo_paths, simp add: demo_fs_def entry_at_def)

theorem push_to_itself_erases_witness:
  "\<exists>fs'. sync_local_push demo_sync_env [''p'', ''1'', ''repo''] ''/p/1/repo'' demo_fs = (fs', Quad (True, None, None, Some []))
     \<and> (\<forall>n r. entry_at fs' ([''p'', ''1'', ''repo''] @ n # r) = None)"
  by (rule push_to_itself_erases) (simp_all add: demo_wf demo_paths, simp_all add: demo_fs_def entry_at_def dir_at_def)

theorem direction_settles_witness:
  "\<exists>w' q. execute_sync_direction demo_sync_env ''1'' ''repo'' [(''localPath'', JStr ''/x'')] ''push''
       [''p'', ''1'', ''repo''] int demo_world = (w', Inr q) \<and>
     recorded w' ''1'' ''repo'' ''push'' = JStr (if fst q then ''ok'' else ''failed'')"
  by (rule direction_settles) (simp_all add: demo_world_def state_ok_def load_sync_state_def load_json_def)

theorem both_discards_storage_witness:
  "entry_at (tree (fst (execute_sync demo_sync_env ''1'' ''repo'' [(''localPath'', JStr ''/x'')] ''both'' int demo_world)))
       ([''p'', ''1'', ''repo''] @ ''a'' # []) = Some (File ''A'' 1)
     \<longleftrightarrow> entry_at (tree demo_world) (path_parts ''/x'' @ ''a'' # []) = Some (File ''A'' 1)"
proof (rule both_discards_storage [where m = None and d = None])
  show "detect_conflict demo_sync_env demo_world ''1'' ''repo'' [''p'', ''1'', ''repo'']
      (join_path (cwd demo_sync_env) ''/x'') = Inr (False, None, None)"
    by (simp add: detect_conflict_def get_sync_state_def demo_world_def load_sync_state_def load_json_def show_running_def)
qed (use demo_apart demo_paths in
  \<open>simp_all add: get_project_storage_path_def demo_sync_env_def demo_world_def\<close>)

end
