(* ===== verification/SyncJobs.thy ===== *)
theory SyncJobs
  imports SyncProps
begin

text \<open>
  The jobs of the synchronisation as a machine: requests, workers and the delayed removal of a
  finished job, in any interleaving; and what the git commands of a push may do.
\<close>

subsection \<open>Settings and jobs are not the synchronisation's\<close>

definition beside :: "'g sync_world \<Rightarrow> (string \<times> jfile) list \<times> ((string \<times> string) \<times> sync_job) list" where
  "beside w = (configs w, active_jobs w)"

lemma beside_simps [simp]:
  "beside (w\<lparr>tree := f\<rparr>) = beside w" "beside (with_disk w s) = beside w"
  by (simp_all add: beside_def)

lemma update_beside: "update_sync_state w pid key dir status err r now = Inr w' \<Longrightarrow> beside w' = beside w"
  by (auto simp: beside_def dest!: update_frame)

lemma run_direction_beside: "beside (fst (run_direction E pid key config dir storage now w)) = beside w"
  by (auto simp: run_direction_def Let_def sync_git_push_def sync_git_pull_def
      split: json.split prod.split sum.split)

lemma record_outcome_beside [simp]:
  "beside (fst (record_outcome E pid key config dir now q w)) = beside w"
  by (auto simp: record_outcome_def dest!: update_beside split: prod.split sum.split)

lemma execute_direction_beside [simp]:
  "beside (fst (execute_sync_direction E pid key config dir storage clk w)) = beside w"
proof (cases "update_sync_state w pid key dir ''running'' None None (clk 0)")
  case (Inr w1)
  obtain w2 r where run: "run_direction E pid key config dir storage (clk 1) w1 = (w2, r)" by fastforce
  let ?body = "case r of Inl e \<Rightarrow> (w2, Inl e) | Inr q \<Rightarrow> record_outcome E pid key config dir (clk 2) q w2"
  obtain w3 s where body: "?body = (w3, s)" by fastforce
  have "beside w2 = beside w"
    using run_direction_beside [of E pid key config dir storage "clk 1" w1] run update_beside [OF Inr] by simp
  moreover have "beside w3 = beside w2"
    using body record_outcome_beside [of E pid key config dir "clk 2" _ w2]
    by (cases r) (simp, metis fst_conv sum.case(2))
  moreover have "beside (fst (execute_sync_direction E pid key config dir storage clk w)) = beside w3"
    using Inr run body
    by (cases r; cases s) (auto simp: execute_sync_direction_def Let_def dest!: update_beside split: sum.split)
  ultimately show ?thesis by simp
qed (simp add: execute_sync_direction_def)

lemma execute_both_beside [simp]:
  "beside (fst (execute_both E pid key config storage clk w)) = beside w"
  using both_is_pull_or_more [of E pid key config storage clk w] by (elim disjE) simp_all

lemma external_for_both_beside:
  "external_for_both E pid key config w = (w', r) \<Longrightarrow> beside w' = beside w"
  by (auto simp: external_for_both_def Let_def split: if_splits)

lemma execute_sync_beside: "beside (fst (execute_sync E pid key config dir clk w)) = beside w"
proof (cases "get_project_storage_path E pid key")
  case (Inr storage)
  obtain w1 r where x: "external_for_both E pid key config w = (w1, r)" by fastforce
  obtain w2 q where d: "execute_sync_direction E pid key config dir storage clk w = (w2, q)" by fastforce
  have "beside w2 = beside w"
    using execute_direction_beside [of E pid key config dir storage clk w] d by simp
  with Inr x d external_for_both_beside [OF x] show ?thesis
    by (auto simp: execute_sync_def dest!: update_beside split: sum.split option.split bool.split)
qed (simp add: execute_sync_def)

subsection \<open>Requests, workers and removals\<close>

text \<open>
  The server's threads: jobs, which the table knows, and the synchronisations that the first pull of
  new settings (\<^verbatim>\<open>api_update_project_sources\<close>) and the manual refresh run in the request's own thread,
  which it does not. Synchronisations overlap: what they do to the trees, the state files and
  the repositories comes in single writes at any time, so \<open>effect\<close> leaves all of that open.
\<close>

datatype phase = Syncing | Waiting | Direct

type_synonym 'g sync_run = "'g sync_world \<times> ((string \<times> string) \<times> phase) list"

inductive sync_step :: "'g sync_env \<Rightarrow> 'g sync_run \<Rightarrow> 'g sync_run \<Rightarrow> bool" for E where
  request: "start_sync pid key dir who now ms w = (w', Some i, True, c, m) \<Longrightarrow>
     sync_step E (w, ts) (w', ((pid, key), Syncing) # ts)"
| refused: "start_sync pid key dir who now ms w = (w', None, False, c, m) \<Longrightarrow> sync_step E (w, ts) (w', ts)"
| effect: "active_jobs w' = active_jobs w \<Longrightarrow> sync_step E (w, ts) (w', ts)"
| ended: "sync_step E (w, a @ ((pid, key), Syncing) # b)
     (end_worker E pid key r now w, a @ ((pid, key), Waiting) # b)"
| removal: "sync_step E (w, a @ ((pid, key), Waiting) # b) (cleanup_job pid key w, a @ b)"
| direct: "sync_step E (w, ts) (w, ((pid, key), Direct) # ts)"
| answered: "sync_step E (w, a @ ((pid, key), Direct) # b) (w, a @ b)"

inductive_cases sync_stepE: "sync_step E s t"

text \<open>The worker and a direct call, run from their start to their end, are steps of the machine.\<close>
lemma worker_is_its_steps:
  "(sync_step E)\<^sup>*\<^sup>* (w, a @ ((pid, key), Syncing) # b)
     (sync_worker E pid key config dir clk now w, a @ ((pid, key), Waiting) # b)"
proof -
  obtain w1 r where x: "execute_sync E pid key config dir clk w = (w1, r)" by fastforce
  have "active_jobs w1 = active_jobs w" using execute_sync_beside [of E pid key config dir clk w] x by (simp add: beside_def)
  then have "sync_step E (w, a @ ((pid, key), Syncing) # b) (w1, a @ ((pid, key), Syncing) # b)"
    by (rule sync_step.effect)
  moreover have "sync_step E (w1, a @ ((pid, key), Syncing) # b)
     (sync_worker E pid key config dir clk now w, a @ ((pid, key), Waiting) # b)"
    using sync_step.ended [of E w1 a pid key b r now] x by (simp add: sync_worker_def)
  ultimately show ?thesis by (meson converse_rtranclp_into_rtranclp r_into_rtranclp)
qed

lemma direct_is_its_steps:
  "(sync_step E)\<^sup>*\<^sup>* (w, ts) (fst (execute_sync E pid key config dir clk w), ts)"
proof -
  let ?w = "fst (execute_sync E pid key config dir clk w)"
  have "sync_step E (w, ((pid, key), Direct) # ts) (?w, ((pid, key), Direct) # ts)"
    using execute_sync_beside [of E pid key config dir clk w] by (intro sync_step.effect) (simp add: beside_def)
  moreover have "sync_step E (?w, ((pid, key), Direct) # ts) (?w, ts)"
    using sync_step.answered [of E ?w "[]" pid key ts] by simp
  ultimately show ?thesis
    by (meson converse_rtranclp_into_rtranclp r_into_rtranclp sync_step.direct)
qed

definition busy :: "'g sync_world \<Rightarrow> string \<times> string \<Rightarrow> bool" where
  "busy w k = (case map_of (active_jobs w) k of Some j \<Rightarrow> job_status j = ''running'' | None \<Rightarrow> False)"

definition jobs_inv :: "'g sync_run \<Rightarrow> bool" where
  \<comment> \<open>as many workers as the table says\<close>
  "jobs_inv s = (\<forall>k. count_list (snd s) (k, Syncing) = (if busy (fst s) k then 1 else 0))"

lemma start_sync_busy:
  "start_sync pid key dir who now ms w = (w', i, True, c, m) \<Longrightarrow> \<not> busy w (pid, key) \<and> busy w' = (busy w)((pid, key) := True)"
  "start_sync pid key dir who now ms w = (w', i, False, c, m) \<Longrightarrow> w' = w"
  by (auto simp: start_sync_def busy_def Let_def fun_eq_iff split: if_splits)

lemma end_job_status: "job_status (end_job E r now j) \<noteq> ''running''"
  by (auto simp: end_job_def split: sum.split)

lemma end_worker_busy: "busy (end_worker E pid key r now w) = (busy w)((pid, key) := False)"
  using end_job_status [of E r now]
  by (auto simp: end_worker_def busy_def fun_eq_iff update_conv' split: option.split)

lemma cleanup_busy: "busy (cleanup_job pid key w) = busy w"
  by (auto simp: cleanup_job_def busy_def fun_eq_iff split: option.split)

lemma jobs_inv_step:
  assumes "sync_step E s t" "jobs_inv s" shows "jobs_inv t"
  using assms
proof (cases rule: sync_step.cases)
  case (request pid key dir who now ms w w' i c m ts)
  with start_sync_busy(1) [OF request(3)] assms(2) show ?thesis by (auto simp: jobs_inv_def)
next
  case (refused pid key dir who now ms w w' c m ts)
  with start_sync_busy(2) [OF refused(3)] assms(2) show ?thesis by simp
next
  case (effect w' w ts)
  then have "busy w' = busy w" by (simp add: busy_def fun_eq_iff)
  with effect assms(2) show ?thesis by (simp add: jobs_inv_def)
next
  case (ended w a pid key b r now)
  show ?thesis unfolding jobs_inv_def
  proof
    fix k
    have "count_list (a @ ((pid, key), Syncing) # b) (k, Syncing) = (if busy w k then 1 else 0)"
      using assms(2) ended(1) unfolding jobs_inv_def by (metis fst_conv snd_conv)
    then show "count_list (snd t) (k, Syncing) = (if busy (fst t) k then 1 else 0)"
      using ended(2) by (cases "k = (pid, key)") (auto simp: end_worker_busy split: if_splits)
  qed
next
  case (removal w a pid key b)
  with assms(2) show ?thesis by (simp add: jobs_inv_def cleanup_busy)
next
  case (direct w ts pid key)
  with assms(2) show ?thesis by (simp add: jobs_inv_def)
next
  case (answered w a pid key b)
  with assms(2) show ?thesis by (simp add: jobs_inv_def)
qed

text \<open>C19: Within a server process at most one background job works on a source at a time: from an
  empty table of jobs, in every interleaving of requests, the writes of running
  synchronisations, the ends of workers, the removals of finished jobs and the synchronisations
  that are run directly, no source of a project ever has two workers. The direct ones (the
  first pull of new settings and the manual refresh) are not counted: they do not look at
  the table, and can overlap with the worker and with each other.\<close>
theorem one_sync_per_source:
  assumes "(sync_step E)\<^sup>*\<^sup>* (w, []) s" "active_jobs w = []"
  shows "count_list (snd s) (k, Syncing) \<le> 1"
proof -
  have "jobs_inv (w, [])" using assms(2) by (simp add: jobs_inv_def busy_def)
  with assms(1) have "jobs_inv s"
    by (induction rule: rtranclp_induct) (auto intro: jobs_inv_step)
  then have "count_list (snd s) (k, Syncing) = (if busy (fst s) k then 1 else 0)"
    unfolding jobs_inv_def by blast
  then show ?thesis by simp
qed

definition demo_started :: "unit sync_world" where
  "demo_started = fst (start_sync ''1'' ''repo'' ''push'' ''user'' 5 5000 demo_world)"

lemma demo_request: "sync_step demo_sync_env (demo_world, []) (demo_started, [((''1'', ''repo''), Syncing)])"
proof -
  have "start_sync ''1'' ''repo'' ''push'' ''user'' 5 5000 demo_world =
      (demo_started, Some (''1_repo_'' @ int_text 5000), True, None, None)"
    by (simp add: demo_started_def start_sync_def demo_world_def Let_def)
  then show ?thesis by (rule sync_step.request)
qed

theorem one_sync_per_source_witness:
  "count_list (snd (demo_started, [((''1'', ''repo''), Syncing)])) ((''1'', ''repo''), Syncing) \<le> 1"
proof (rule one_sync_per_source [where w = demo_world and E = demo_sync_env])
  show "(sync_step demo_sync_env)\<^sup>*\<^sup>* (demo_world, []) (demo_started, [((''1'', ''repo''), Syncing)])"
    using demo_request by blast
qed (simp add: demo_world_def)

text \<open>A manual refresh, or the first pull of new settings, starts while a job works on the same source.\<close>
theorem direct_sync_overlaps_job:
  "(sync_step demo_sync_env)\<^sup>*\<^sup>* (demo_world, [])
     (demo_started, [((''1'', ''repo''), Direct), ((''1'', ''repo''), Syncing)])"
  using demo_request sync_step.direct [of demo_sync_env demo_started "[((''1'', ''repo''), Syncing)]" "''1''" "''repo''"]
  by (meson converse_rtranclp_into_rtranclp r_into_rtranclp)

subsection \<open>Git\<close>

lemma checked_snd: "checked a r = (s, x) \<Longrightarrow> s = fst r"
  by (auto simp: checked_def split: prod.splits)

definition keeps :: "'g sync_env \<Rightarrow> path \<Rightarrow> ('g disk \<Rightarrow> bool) \<Rightarrow> bool" where
  \<comment> \<open>every git command but \<^verbatim>\<open>push\<close>, run in the directory, keeps \<open>P\<close>\<close>
  "keeps E d P = (\<forall>a s. a = [] \<or> hd a \<noteq> ''push'' \<longrightarrow> P s \<longrightarrow> P (fst (run_git E d a s)))"

lemma keeps_fst: "keeps E d P \<Longrightarrow> P s \<Longrightarrow> c \<noteq> ''push'' \<Longrightarrow> P (fst (run_git E d (c # a) s))"
  by (metis keeps_def list.sel(1))

lemma keepsD: "run_git E d (c # a) s = (s', r) \<Longrightarrow> keeps E d P \<Longrightarrow> P s \<Longrightarrow> c \<noteq> ''push'' \<Longrightarrow> P s'"
  by (metis keeps_fst fst_conv)

lemma keeps_checked:
  "checked b (run_git E d (c # a) s) = (s', r) \<Longrightarrow> keeps E d P \<Longrightarrow> P s \<Longrightarrow> c \<noteq> ''push'' \<Longrightarrow> P s'"
  by (metis checked_snd keeps_fst)

lemma git_identity_keeps: "git_identity E d s = (s', r) \<Longrightarrow> keeps E d P \<Longrightarrow> P s \<Longrightarrow> P s'"
  unfolding git_identity_def
  by (auto split: prod.splits sum.splits dest: keeps_checked)

lemma push_branch_keeps: "keeps E d P \<Longrightarrow> P s \<Longrightarrow> P (push_branch E d ref s)"
  unfolding push_branch_def Let_def
  by (auto split: prod.split intro: keeps_fst dest: keepsD)

lemma push_commit_keeps: "push_commit E d msg s = (s', r) \<Longrightarrow> keeps E d P \<Longrightarrow> P s \<Longrightarrow> P s'"
  unfolding push_commit_def by (auto dest: keeps_checked)

lemma push_first_commit_keeps: "push_first_commit E d s = (s', r) \<Longrightarrow> keeps E d P \<Longrightarrow> P s \<Longrightarrow> P s'"
  unfolding push_first_commit_def
  by (auto split: prod.splits sum.splits if_splits dest: keeps_checked keepsD push_commit_keeps)

text \<open>C22: Without a configured secret a push of the \<^verbatim>\<open>repo\<close> workspace never runs \<^verbatim>\<open>git push\<close>: whatever
  the other git commands leave alone (the remote repository, for one) is left alone.\<close>
theorem no_push_without_secret:
  assumes "\<not> truthy auth" "keeps E d P" "P s"
  shows "P (fst (push_publish E pid url d ref auth s))"
proof -
  note k = assms(2)
  obtain s1 r1 where 1: "git_identity E d s = (s1, r1)" by fastforce
  then have P1: "P s1" using k assms(3) by (rule git_identity_keeps)
  obtain s2 rc2 o2 e2 where 2: "run_git E d [''rev-list'', ''--count'', ''HEAD''] (push_branch E d ref s1) = (s2, rc2, o2, e2)"
    by (metis prod_cases4)
  then have P2: "P s2" using k push_branch_keeps [OF k P1] by (rule keepsD) simp
  obtain s3 r3 where 3: "checked [''git'', ''add'', ''-A''] (run_git E d [''add'', ''-A''] s2) = (s3, r3)" by fastforce
  then have P3: "P s3" using k P2 by (rule keeps_checked) simp
  obtain s4 rc4 o4 e4 where 4: "run_git E d [''status'', ''--porcelain''] s3 = (s4, rc4, o4, e4)" by (metis prod_cases4)
  then have P4: "P s4" using k P3 by (rule keepsD) simp
  define has where "has = (rc2 = 0 \<and> strip o2 \<noteq> ''0'')"
  define idle where "idle = (strip o4 = [])"
  obtain s5 r5 where 5: "(if \<not> idle then push_commit E d ''Sync repo from Project Storage'' s4 else (s4, Inr [])) = (s5, r5)"
    by fastforce
  then have P5: "P s5" using P4 push_commit_keeps [OF _ k P4] by (simp split: if_splits)
  obtain s6 r6 where 6: "(if \<not> idle \<or> has then (s5, Inr ()) else push_first_commit E d s5) = (s6, r6)" by fastforce
  then have P6: "P s6" using P5 push_first_commit_keeps [OF _ k P5] by (simp split: if_splits)
  have "push_publish E pid url d ref auth s \<in> {(s, Inl (OsRaised (NotFound d)))} \<union> {s1, s3, s5, s6} \<times> UNIV"
    using assms(1) 1 2 3 4 5 6
    by (cases idle; cases has) (simp_all add: push_publish_def Let_def has_def [symmetric] idle_def [symmetric] split: sum.split)
  then show ?thesis using assms(3) P1 P3 P5 P6 by auto
qed

definition counting_env :: "nat sync_env" where
  \<comment> \<open>the repository is the number of pushes it has seen\<close>
  "counting_env = \<lparr>machine = \<lparr>readable = (\<lambda>p. True), path_max = 40\<rparr>, os_text = (\<lambda>e. ''os''),
     exn_text = (\<lambda>e. ''exn''), called_text = (\<lambda>a n. ''called''), json_text = (\<lambda>j. ''json''),
     cwd = [''w''], projects_dir = [''p''], digest = (\<lambda>s. s), num_text = (\<lambda>t. ''t''),
     run_git = (\<lambda>d a s. ((if a \<noteq> [] \<and> hd a = ''push'' then Suc (fst s) else fst s, snd s), 0, ''1'', [])),
     resolve_path = (\<lambda>pid key url ref subdir auth refresh s.
        (s, if truthy auth then Inl (GitSourceError ''SECRET_NOT_FOUND'' ''no such secret'') else Inr [''x''])),
     auth_error = (\<lambda>pid auth url. None)\<rparr>"

theorem no_push_without_secret_witness:
  "fst (fst (push_publish counting_env ''1'' ''u'' [''x''] ''main'' JNull (0, demo_fs))) = 0"
  by (rule no_push_without_secret [where P = "\<lambda>s. fst s = 0"]) (auto simp: keeps_def counting_env_def)

text \<open>Were \<^verbatim>\<open>resolve_path\<close> to report a missing secret, the second attempt without it would copy everything
  over the project's storage and only then fail, because the last look at the clone asks for the
  secret again. The cache never reports that error (\<^verbatim>\<open>GitSourceProps\<close>), so this describes the pull alone.\<close>
theorem public_pull_fails_after_copy:
  assumes "git_settings config = Inr (url, ref, subdir, auth)" "url \<noteq> []"
    and "get_repo_layout w pid = Inr layout" "mkdir_p (tree w) (projects_dir E @ [pid, ''repo'']) = (fs1, None)"
    and "\<And>d refresh s. resolve_path E pid ''repo'' url ref d auth refresh s = (s, Inl (GitSourceError ''SECRET_NOT_FOUND'' m))"
    and "resolve_path E pid ''repo'' url ref subdir JNull True (repos w, fs1) = ((g, fs2), Inr git)"
    and "truthy auth" "exists_at fs2 git"
    and "pull_copy (machine E) git (projects_dir E @ [pid, ''repo'']) layout fs2 = (fs3, None)"
  shows "sync_git_pull E pid ''repo'' config storage w =
     (w\<lparr>repos := g, tree := fs3\<rparr>, failure ''SYNC_GIT_AUTH_FAILED'' (''Authentication secret not found: '' @ m))"
  using assms
  by (simp add: sync_git_pull_def repo_pull_body_def disk_of_def resolve_or_public_def secret_missing_def
      with_disk_def source_failed_def)

lemmas demo_eval = default_entities_def join_path_def is_absolute_def starts_with_def path_parts_def
  exists_at_def dir_at_def file_at_def entry_at_def mkdir_p_def tput_def scan_def copy2_def Let_def
  counting_env_def demo_fs_def

definition pulled_fs :: fs where
  "pulled_fs = fst (pull_copy (machine counting_env) [''x''] [''p'', ''1'', ''repo'']
     (map (\<lambda>k. (k, JStr k)) default_entities) demo_fs)"

definition counting_world :: "nat sync_world" where
  "counting_world = \<lparr>repos = 0, tree = demo_fs, sync_files = [], configs = [], active_jobs = []\<rparr>"

theorem public_pull_fails_after_copy_witness:
  "sync_git_pull counting_env ''1'' ''repo'' [(''git'', JObj [(''repo'', JStr ''u''), (''authSecretId'', JStr ''k'')])]
       [''p'', ''1'', ''repo''] counting_world =
     (counting_world\<lparr>repos := 0, tree := pulled_fs\<rparr>,
      failure ''SYNC_GIT_AUTH_FAILED'' (''Authentication secret not found: '' @ ''no such secret''))"
proof (rule public_pull_fails_after_copy)
  show "git_settings [(''git'', JObj [(''repo'', JStr ''u''), (''authSecretId'', JStr ''k'')])] =
      Inr (''u'', ''main'', [], JStr ''k'')"
    by (simp add: git_settings_def stripped_def strip_def is_space_def char_in_def)
  show "get_repo_layout counting_world ''1'' = Inr (map (\<lambda>k. (k, JStr k)) default_entities)"
    by (simp add: get_repo_layout_def counting_world_def load_project_config_def load_json_def default_entities_def)
  show "mkdir_p (tree counting_world) (projects_dir counting_env @ [''1'', ''repo'']) = (demo_fs, None)"
    using demo_wf by (simp add: counting_world_def counting_env_def) (simp add: demo_fs_def dir_at_def entry_at_def)
  show "pull_copy (machine counting_env) [''x''] (projects_dir counting_env @ [''1'', ''repo''])
      (map (\<lambda>k. (k, JStr k)) default_entities) demo_fs = (pulled_fs, None)"
    by (simp add: pulled_fs_def pull_copy_def demo_eval)
qed (simp_all add: counting_env_def counting_world_def exists_at_def entry_at_def demo_fs_def)

definition goes_along :: "fs \<Rightarrow> path \<Rightarrow> path \<Rightarrow> bool" where
  \<comment> \<open>no name on the way down is a cache, a repository's own directory, a state or a plan\<close>
  "goes_along fs d r = (\<forall>i < length r. \<not> is_git_excluded (r ! i) (dir_at fs (d @ take (Suc i) r)))"

lemma goes_along_kept: "goes_along fs d r = kept is_git_excluded fs d r"
proof (induction r arbitrary: d)
  case Nil
  then show ?case by (simp add: goes_along_def)
next
  case (Cons n r)
  have "goes_along fs d (n # r) = (\<not> is_git_excluded n (dir_at fs (d @ [n])) \<and> goes_along fs (d @ [n]) r)"
    unfolding goes_along_def length_Cons All_less_Suc2 by simp
  with Cons show ?case by simp
qed

text \<open>C21: What a push of the \<^verbatim>\<open>stacks\<close> workspace puts into the clone is the storage without state,
  plans and provider caches: the copy succeeds; below the clone, beside its own \<^verbatim>\<open>.git\<close>, which
  stays as it was, there is afterwards exactly what is in the storage, with content and
  modification time, except what is called or lies below something called \<^verbatim>\<open>.git\<close>,
  \<^verbatim>\<open>.terraform\<close> or \<^verbatim>\<open>.terragrunt-cache\<close>, and except files, not directories, whose
  names end in \<^verbatim>\<open>.tfstate\<close>, \<^verbatim>\<open>.tfstate.backup\<close> or \<^verbatim>\<open>.tfplan\<close>, at any depth; and nothing outside of
  the clone changes. The conditions: both directories exist and neither is, or lies in, the other;
  the files of the storage can be read and the paths of the copies are within the system's limit;
  and nobody else changes the trees meanwhile.\<close>
theorem mirror_leaves_state_out:
  assumes "wf_fs fs" "storage \<parallel> clone" "dir_at fs storage" "dir_at fs clone" "copyable h fs storage clone"
  shows "\<exists>fs'. mirror_copy h True storage clone fs = (fs', None) \<and>
    (\<forall>n r. entry_at fs' (clone @ n # r) =
       (if n = ''.git'' then entry_at fs (clone @ n # r)
        else if goes_along fs storage (n # r) then entry_at fs (storage @ n # r) else None)) \<and>
    (\<forall>q. \<not> prefix clone q \<longrightarrow> entry_at fs' q = entry_at fs q)"
proof -
  let ?omit = "\<lambda>n d. n = ''.git'' \<or> True \<and> is_git_excluded n d"
  obtain f where f:
    "copy_items h ?omit is_git_excluded storage clone
       (map fst (scan (clear_dir (\<lambda>n. n = ''.git'') clone fs) storage)) (clear_dir (\<lambda>n. n = ''.git'') clone fs) = (f, None)"
    "\<And>q. \<not> prefix clone q \<Longrightarrow> entry_at f q = entry_at fs q"
    "\<And>n r. entry_at f (clone @ n # r) =
       (if n = ''.git'' then entry_at fs (clone @ n # r)
        else if ?omit n (dir_at fs (storage @ [n])) then None
        else if kept is_git_excluded fs (storage @ [n]) r then entry_at fs (storage @ n # r) else None)"
    by (rule mirror_dir [OF assms(1,2,4,3,5), where keep = "\<lambda>n. n = ''.git''" and omit = ?omit and skip = is_git_excluded])
      blast+
  have d: "dir_at (clear_dir (\<lambda>n. n = ''.git'') clone fs) storage"
    using assms(2,3) clear_dir_frame [of clone storage "\<lambda>n. n = ''.git''" fs] by (auto simp: dir_at_def)
  have "mirror_copy h True storage clone fs = (f, None)"
    using assms(1,4) f(1) d dir_exists [OF d] by (simp add: mirror_copy_def Let_def)
  with f(2,3) show ?thesis by (simp add: goes_along_kept)
qed

definition stack_fs :: fs where
  \<comment> \<open>two stacks' files and a state in a directory\<close>
  "stack_fs = [([''s''], Dir), ([''s'', ''main.tf''], File ''A'' 1), ([''s'', ''d''], Dir),
     ([''s'', ''d'', ''x.tfstate''], File ''S'' 2), ([''c''], Dir), ([''c'', ''.git''], Dir), ([''c'', ''old''], File ''O'' 3)]"

theorem mirror_leaves_state_out_witness:
  "\<exists>fs'. mirror_copy (machine demo_sync_env) True [''s''] [''c''] stack_fs = (fs', None) \<and>
    (\<forall>n r. entry_at fs' ([''c''] @ n # r) =
       (if n = ''.git'' then entry_at stack_fs ([''c''] @ n # r)
        else if goes_along stack_fs [''s''] (n # r) then entry_at stack_fs ([''s''] @ n # r) else None)) \<and>
    (\<forall>q. \<not> prefix [''c''] q \<longrightarrow> entry_at fs' q = entry_at stack_fs q)"
  by (rule mirror_leaves_state_out)
    (simp_all add: wf_fs_def stack_fs_def dir_at_def entry_at_def copyable_def parallel_def demo_sync_env_def path_text_def)

end
