(* ===== verification/SourceProps.thy ===== *)
theory SourceProps
  imports Autosync SyncJobs
begin

text \<open>
  Configurations of sources, and what the automatic synchronisation does with them.
\<close>

subsection \<open>Normalising\<close>

lemma dset_new_same: "has d k \<Longrightarrow> dset_new d k v = d"
  by (simp add: dset_new_def)

lemma git_defaults_idem: "git_defaults (git_defaults g) = git_defaults g"
  by (simp add: git_defaults_def dset_new_same)

lemma normalize_source_shape:
  assumes "normalize_source t s = Inr r"
  shows "has r ''mode''" "dget r ''mode'' = JStr ''local'' \<Longrightarrow> has r ''localPath''"
    "has r ''syncDirection''" "has r ''syncStatus''"
    "dget r ''mode'' = JStr ''git'' \<Longrightarrow> \<exists>g. dget r ''git'' = JObj (git_defaults g)"
  using assms by (auto simp: normalize_source_def Let_def split: if_splits json.splits)

lemma dset_same: "map_of d k = Some v \<Longrightarrow> dset d k v = d"
  by (simp add: dset_def) (induction d, auto)

lemma normalize_source_again:
  assumes "has r ''mode''" "dget r ''mode'' = JStr ''local'' \<Longrightarrow> has r ''localPath''"
    "has r ''syncDirection''" "has r ''syncStatus''"
    "dget r ''mode'' = JStr ''git'' \<Longrightarrow> \<exists>g. dget r ''git'' = JObj (git_defaults g)"
  shows "normalize_source t r = Inr r"
proof (cases "dget r ''mode'' = JStr ''git''")
  case True
  with assms(5) obtain g where g: "dget r ''git'' = JObj (git_defaults g)" by blast
  then have m: "map_of r ''git'' = Some (JObj (git_defaults g))" by (auto simp: dget_def split: option.splits)
  then have "getd r ''git'' (JObj []) = JObj (git_defaults g)" by (simp add: getd_def)
  with True assms m show ?thesis
    by (simp add: normalize_source_def dset_new_same git_defaults_idem dset_same)
next
  case False
  with assms show ?thesis by (auto simp: normalize_source_def Let_def dset_new_same)
qed

lemma normalize_entry_again:
  assumes "normalize_entry d t = Inr r" shows "normalize_source t r = Inr r"
proof (cases "has d t")
  case True
  with assms obtain s where "normalize_source t s = Inr r" by (auto simp: normalize_entry_def split: json.splits)
  from normalize_source_shape [OF this] show ?thesis by (rule normalize_source_again)
next
  case False
  with assms have r: "r = default_source t @ [(''syncDirection'', JStr ''pull''), (''syncStatus'', idle_sync)]"
    by (simp add: normalize_entry_def)
  show ?thesis by (rule normalize_source_again) (simp_all add: r default_source_def)
qed

text \<open>Normalising the sources of a project twice is normalising them once: what is stored after
  an update reads back unchanged.\<close>
theorem normalize_idempotent:
  assumes "normalize_sources j = Inr n" shows "normalize_sources (JObj n) = Inr n"
proof -
  from assms obtain d r s where d: "normalize_entry d ''repo'' = Inr r" "normalize_entry d ''stacks'' = Inr s"
    and n: "n = [(''repo'', JObj r), (''stacks'', JObj s)]"
    by (auto simp: normalize_sources_def split: json.splits sum.splits)
  show ?thesis using normalize_entry_again [OF d(1)] normalize_entry_again [OF d(2)]
    by (simp add: normalize_sources_def normalize_entry_def n)
qed

lemma demo_normalized:
  "normalize_sources (JObj []) =
    Inr [(''repo'', JObj (default_source ''repo'' @ [(''syncDirection'', JStr ''pull''), (''syncStatus'', idle_sync)])),
         (''stacks'', JObj (default_source ''stacks'' @ [(''syncDirection'', JStr ''pull''), (''syncStatus'', idle_sync)]))]"
  by (simp add: normalize_sources_def normalize_entry_def)

lemma demo_normalized_again:
  assumes "normalize_sources (JObj []) = Inr n" shows "normalize_sources (JObj n) = Inr n"
  using assms demo_normalized
    normalize_entry_again [of "[]" "''repo''" "default_source ''repo'' @ [(''syncDirection'', JStr ''pull''), (''syncStatus'', idle_sync)]"]
    normalize_entry_again [of "[]" "''stacks''" "default_source ''stacks'' @ [(''syncDirection'', JStr ''pull''), (''syncStatus'', idle_sync)]"]
  by (auto simp: normalize_sources_def normalize_entry_def)

theorem normalize_idempotent_witness:
  "normalize_sources (JObj [(''repo'', JObj (default_source ''repo'' @ [(''syncDirection'', JStr ''pull''), (''syncStatus'', idle_sync)])),
         (''stacks'', JObj (default_source ''stacks'' @ [(''syncDirection'', JStr ''pull''), (''syncStatus'', idle_sync)]))]) =
   Inr [(''repo'', JObj (default_source ''repo'' @ [(''syncDirection'', JStr ''pull''), (''syncStatus'', idle_sync)])),
         (''stacks'', JObj (default_source ''stacks'' @ [(''syncDirection'', JStr ''pull''), (''syncStatus'', idle_sync)]))]"
  by (rule normalize_idempotent [OF demo_normalized])

subsection \<open>A project without configured sources\<close>

lemma relative_push:
  "\<not> is_absolute x \<Longrightarrow> sync_local_push E storage x fs =
     (fs, Triple False ''SYNC_PATH_INVALID'' ''External path must be absolute'')"
  by (simp add: sync_local_push_def Let_def)

text \<open>A push whose external path is not absolute, as it is for every project that keeps the
  default sources, touches no file and is reported as \<^verbatim>\<open>SYNC_IO_ERROR\<close> with the message of an
  unpacking error, where the pull reports \<^verbatim>\<open>SYNC_PATH_INVALID\<close>.\<close>
theorem default_push_unpack_error:
  assumes "state_ok w pid key" "configured w pid = Inr n" "map_of n key = Some (JObj c)"
    and "getd (load_project_config w pid) ''sources'' (JObj []) = JObj []"
  shows "snd (execute_sync_direction E pid key c ''push'' storage clk w) =
     Inr (failure ''SYNC_IO_ERROR'' ''Unexpected error: not enough values to unpack (expected 4, got 3)'')"
proof -
  from assms(2-4) demo_normalized have
    "c = default_source key @ [(''syncDirection'', JStr ''pull''), (''syncStatus'', idle_sync)]"
    "key = ''repo'' \<or> key = ''stacks''"
    by (auto simp: configured_def split: if_splits)
  then have c: "getd c ''mode'' (JStr ''local'') = JStr ''local''" "getd c ''localPath'' (JStr []) = JStr key"
    "key \<noteq> []" "\<not> is_absolute key"
    by (auto simp: default_source_def is_absolute_def starts_with_def)
  obtain w1 where w1: "update_sync_state w pid key ''push'' ''running'' None None (clk 0) = Inr w1" "state_ok w1 pid key"
    using update_recorded [OF assms(1), of "''push''"] by blast
  have run: "run_direction E pid key c ''push'' storage (clk 1) w1 =
      (w1, Inl (ValueError ''not enough values to unpack (expected 4, got 3)''))"
    using c by (simp add: run_direction_def relative_push)
  obtain w2 where w2: "update_sync_state w1 pid key ''push'' ''failed''
      (Some (''Unexpected error: '' @ ''not enough values to unpack (expected 4, got 3)'')) None (clk 3) = Inr w2"
    using update_recorded [OF w1(2), of "''push''"] by blast
  then show ?thesis using w1 run by (simp add: execute_sync_direction_def Let_def error_text_def)
qed

theorem default_push_unpack_error_witness:
  "snd (execute_sync_direction demo_sync_env ''1'' ''repo''
      (default_source ''repo'' @ [(''syncDirection'', JStr ''pull''), (''syncStatus'', idle_sync)]) ''push''
      [''p'', ''1'', ''repo''] int demo_world) =
     Inr (failure ''SYNC_IO_ERROR'' ''Unexpected error: not enough values to unpack (expected 4, got 3)'')"
proof (rule default_push_unpack_error)
  show "configured demo_world ''1'' = Inr
      [(''repo'', JObj (default_source ''repo'' @ [(''syncDirection'', JStr ''pull''), (''syncStatus'', idle_sync)])),
         (''stacks'', JObj (default_source ''stacks'' @ [(''syncDirection'', JStr ''pull''), (''syncStatus'', idle_sync)]))]"
    using demo_normalized by (simp add: configured_def demo_world_def load_project_config_def load_json_def)
qed (simp_all add: demo_world_def state_ok_def load_sync_state_def load_json_def load_project_config_def)

subsection \<open>A layout that deletes the repository\<close>

definition gone :: "path \<Rightarrow> fs \<Rightarrow> bool" where "gone q fs = (entry_at fs q = None)"

lemma mkdir_p_gone: "gone q fs \<Longrightarrow> \<not> prefix q p \<Longrightarrow> mkdir_p fs p = (fs', e) \<Longrightarrow> gone q fs'"
  using mkdir_p_frame [of q p fs] by (simp add: gone_def)

lemma remove_gone: "gone q fs \<Longrightarrow> p \<noteq> [] \<Longrightarrow> gone q (remove fs p)"
  by (simp add: gone_def)

lemma copytree_gone: "gone q fs \<Longrightarrow> q \<parallel> dst \<Longrightarrow> copytree h skip src dst fs = (fs', e) \<Longrightarrow> gone q fs'"
  using copytree_frame(1) [of q dst h skip src fs] by (simp add: gone_def)

lemma copy2_gone: "gone q fs \<Longrightarrow> q \<parallel> dst \<Longrightarrow> copy2 h src dst fs = (fs', e) \<Longrightarrow> gone q fs'"
  using copy2_frame [of q dst h src fs] by (simp add: gone_def)

lemma parallel_no_prefix: "q \<parallel> dst \<Longrightarrow> \<not> prefix q (butlast dst) \<and> dst \<noteq> []"
  by (auto dest: prefix_order.trans [OF _ prefixeq_butlast])

lemma push_entities_gone:
  "gone q fs \<Longrightarrow> \<forall>k \<in> set ks. \<forall>g. dget layout k = JStr g \<longrightarrow> q \<parallel> join_path dest g \<Longrightarrow>
     gone q (fst (push_entities h repo dest layout ks fs))"
proof (induction ks arbitrary: fs)
  case (Cons k ks)
  show ?case
  proof (cases "dget layout k")
    case (JStr g)
    let ?dst = "join_path dest g"
    have par: "q \<parallel> ?dst" using Cons.prems(2) JStr by simp
    note np = parallel_no_prefix [OF par]
    let ?fs = "if exists_at fs ?dst then remove fs ?dst else fs"
    have g1: "gone q ?fs" using Cons.prems(1) np by (simp add: remove_gone)
    obtain fs1 e1 where m: "mkdir_p ?fs (butlast ?dst) = (fs1, e1)" by fastforce
    have g2: "gone q fs1" by (rule mkdir_p_gone [OF g1 _ m]) (simp add: np)
    obtain fs2 e2 where c: "(if dir_at ?fs (repo @ [k]) then copytree h none (repo @ [k]) ?dst fs1
        else copy2 h (repo @ [k]) ?dst fs1) = (fs2, e2)" by fastforce
    have g3: "gone q fs2" using c copytree_gone [OF g2 par] copy2_gone [OF g2 par] by (simp split: if_splits)
    have IH: "gone q f \<Longrightarrow> gone q (fst (push_entities h repo dest layout ks f))" for f
      using Cons.IH Cons.prems(2) by simp
    show ?thesis
      using JStr m c g2 g3 IH Cons.prems(1)
      by (cases e1; cases e2) (simp_all add: Let_def)
  qed (use Cons.prems(1) in simp_all)
qed simp

lemma push_others_gone:
  "gone (dest @ [''.git'']) fs \<Longrightarrow> gone (dest @ [''.git'']) (fst (push_others h repo dest ns fs))"
proof (induction ns arbitrary: fs)
  case (Cons n ns)
  let ?q = "dest @ [''.git'']"
  show ?case
  proof (cases "n = ''.git''")
    case False
    then have par: "?q \<parallel> dest @ [n]" by (auto simp: parallel_def)
    have np: "\<not> prefix ?q dest" by simp
    have rm: "gone ?q (if exists_at fs (dest @ [n]) then remove fs (dest @ [n]) else fs)"
      using Cons.prems by (simp add: remove_gone)
    obtain f1 e1 where t: "copytree h none (repo @ [n]) (dest @ [n])
        (if exists_at fs (dest @ [n]) then remove fs (dest @ [n]) else fs) = (f1, e1)" by fastforce
    have g1: "gone ?q f1" by (rule copytree_gone [OF rm par t])
    obtain f2 e2 where m: "mkdir_p fs dest = (f2, e2)" by fastforce
    have g2: "gone ?q f2" by (rule mkdir_p_gone [OF Cons.prems np m])
    obtain f3 e3 where c: "copy2 h (repo @ [n]) (dest @ [n]) f2 = (f3, e3)" by fastforce
    have g3: "gone ?q f3" by (rule copy2_gone [OF g2 par c])
    show ?thesis
      using Cons.IH [OF Cons.prems] Cons.IH [OF g1] Cons.IH [OF g3] Cons.prems False t m c g1 g2 g3
      by (cases e1; cases e2; cases e3) simp_all
  qed (use Cons in simp)
qed simp

text \<open>A layout path of \<^verbatim>\<open>.\<close>, which the validation accepts, makes a push delete the clone it
  is about to commit: whatever else happens, the clone's \<^verbatim>\<open>.git\<close> is gone after the copying.\<close>
theorem dot_layout_deletes_repository:
  assumes "dget layout ''playbooks'' = JStr ''.''" "validate_repo_layout_path ''.'' = None"
    and "\<forall>k \<in> set [''roles'', ''inventories'', ''vars'']. dget layout k = JStr k"
    and "dirs_apart E (repo @ [''playbooks'']) clone fs"
    and "entry_at fs (repo @ [''playbooks'', ''.git'']) = None" "clone \<noteq> []"
  shows "entry_at (fst (push_copy (machine E) repo clone layout fs)) (clone @ [''.git'']) = None"
proof -
  let ?src = "repo @ [''playbooks'']" and ?q = "clone @ [''.git'']" and ?fs = "remove fs clone"
  have a: "wf_fs fs" "?src \<parallel> clone" "dir_at fs ?src" "dir_at fs clone" "copyable (machine E) fs ?src clone"
    using assms(4) by (simp_all add: dirs_apart_def)
  have under: "entry_at ?fs (?src @ r) = entry_at fs (?src @ r)" for r
    by (rule entry_at_parallel [OF _ a(2)]) (simp add: assms(6))
  have wf: "wf_fs ?fs" by (rule wf_remove [OF a(1) assms(6)])
  have src: "dir_at ?fs ?src" using under [of "[]"] a(3) by (simp add: dir_at_def)
  have par: "dir_at ?fs (butlast clone)"
  proof -
    have "\<not> prefix clone (butlast clone)" using assms(6) prefix_length_le [of clone "butlast clone"]
      by (cases clone rule: rev_cases) auto
    with dir_at_up [OF a(1), of "butlast clone" "[last clone]"] a(4) assms(6) show ?thesis
      by (simp add: dir_at_def)
  qed
  have made: "mkdir_p ?fs (butlast clone) = (?fs, None)" by (rule mkdir_p_there [OF wf par])
  have "case copytree (machine E) none ?src clone ?fs of (f, e) \<Rightarrow> e = None \<and> copied none ?src clone ?fs f"
    by (rule copy_fresh(1) [OF wf a(2) src assms(6) par _ copyable_frame [OF a(5,1) wf under]]) (simp add: assms(6))
  then obtain f where f: "copytree (machine E) none ?src clone ?fs = (f, None)" "copied none ?src clone ?fs f"
    by (cases "copytree (machine E) none ?src clone ?fs") auto
  have "entry_at f (clone @ [''.git'']) = (if kept none ?fs ?src [''.git''] then entry_at ?fs (?src @ [''.git'']) else None)"
    using f(2) unfolding copied_def by blast
  then have g: "gone ?q f" using under [of "[''.git'']"] assms(5) by (simp add: gone_def)
  have dot: "join_path clone ''.'' = clone" by (simp add: join_path_def is_absolute_def starts_with_def path_parts_def)
  have others: "join_path clone k = clone @ [k]" if "k \<in> {''roles'', ''inventories'', ''vars''}" for k
    using that by (auto simp: join_path_def is_absolute_def starts_with_def path_parts_def)
  have "gone ?q (fst (push_entities (machine E) repo clone layout [''roles'', ''inventories'', ''vars''] f))"
    by (rule push_entities_gone [OF g]) (use assms(3) others in \<open>auto simp: parallel_def\<close>)
  moreover have "push_entities (machine E) repo clone layout default_entities fs =
      push_entities (machine E) repo clone layout [''roles'', ''inventories'', ''vars''] f"
    using assms(1) a(3,4) src made f(1) dot
    by (simp add: default_entities_def Let_def dir_exists)
  ultimately have "gone ?q (fst (push_entities (machine E) repo clone layout default_entities fs))" by simp
  then have "gone ?q (fst (push_copy (machine E) repo clone layout fs))"
    using push_others_gone [of clone] by (auto simp: push_copy_def split: prod.split option.split) (metis fst_conv)?
  then show ?thesis by (simp add: gone_def)
qed

definition dot_layout :: doc where
  "dot_layout = (''playbooks'', JStr ''.'') # map (\<lambda>k. (k, JStr k)) [''roles'', ''inventories'', ''vars'']"

definition dot_fs :: fs where
  "dot_fs = demo_fs @ [([''p'', ''1'', ''repo'', ''playbooks''], Dir), ([''x'', ''.git''], Dir)]"

theorem dot_layout_deletes_repository_witness:
  "entry_at (fst (push_copy (machine demo_sync_env) [''p'', ''1'', ''repo''] [''x''] dot_layout dot_fs)) [''x'', ''.git''] = None"
proof -
  have "entry_at (fst (push_copy (machine demo_sync_env) [''p'', ''1'', ''repo''] [''x''] dot_layout dot_fs)) ([''x''] @ [''.git'']) = None"
  proof (rule dot_layout_deletes_repository)
    show "dirs_apart demo_sync_env ([''p'', ''1'', ''repo''] @ [''playbooks'']) [''x''] dot_fs"
      by (simp add: dirs_apart_def wf_fs_def dir_at_def entry_at_def copyable_def parallel_def)
        (simp add: dot_fs_def demo_fs_def demo_sync_env_def)
  qed (simp_all add: dot_layout_def dot_fs_def demo_fs_def entry_at_def validate_repo_layout_path_def is_absolute_def
      starts_with_def ends_with_def)
  then show ?thesis by simp
qed

subsection \<open>The automatic synchronisation\<close>

definition untouched :: "string \<Rightarrow> 'g sync_world \<Rightarrow> 'g sync_world \<Rightarrow> bool" where
  \<comment> \<open>the project's configuration and jobs are the same\<close>
  "untouched pid w w' =
    (load_project_config w' pid = load_project_config w pid \<and>
     (\<forall>key. map_of (active_jobs w') (pid, key) = map_of (active_jobs w) (pid, key)))"

lemma untouched_refl [simp]: "untouched pid w w"
  by (simp add: untouched_def)

lemma untouched_trans: "untouched pid a b \<Longrightarrow> untouched pid b c \<Longrightarrow> untouched pid a c"
  by (simp add: untouched_def)

lemma save_config_untouched: "p \<noteq> pid \<Longrightarrow> untouched pid w (save_project_config p d w)"
  by (simp add: untouched_def save_project_config_def load_project_config_def load_json_def)

lemma write_autosync_untouched: "p \<noteq> pid \<Longrightarrow> untouched pid w (write_autosync p a w)"
  by (simp add: write_autosync_def save_config_untouched)

lemma start_sync_untouched: "p \<noteq> pid \<Longrightarrow> start_sync p key dir who now ms w = (w', r) \<Longrightarrow> untouched pid w w'"
  by (auto simp: start_sync_def Let_def untouched_def load_project_config_def split: if_splits)

lemma start_keys_untouched:
  "p \<noteq> pid \<Longrightarrow> untouched pid w (fst (start_keys E p dir sources now ms ks errs w))"
proof (induction ks arbitrary: errs w)
  case (Cons j ks)
  show ?case
  proof (cases j)
    case (JStr k)
    obtain w' i ok code msg where s: "start_sync p k dir ''system'' now ms w = (w', i, ok, code, msg)"
      by (metis prod_cases5)
    have "untouched pid w' (fst (start_keys E p dir sources now ms ks er w'))" for er using Cons by blast
    with start_sync_untouched [OF Cons.prems s] have "untouched pid w (fst (start_keys E p dir sources now ms ks er w'))" for er
      by (blast intro: untouched_trans)
    with JStr s Cons show ?thesis by (auto split: sum.split)
  qed (use Cons in simp_all)
qed simp

lemma run_autosync_untouched:
  assumes "p \<noteq> pid" shows "untouched pid w (run_autosync E app_loaded p a now ms (\<lambda>w. w) w)"
proof -
  have s: "untouched pid w' f" if "start_keys E p dir sources now ms ks errs w' = (f, r)" for dir sources ks errs w' f r
    using start_keys_untouched [OF assms, of w' E dir sources now ms ks errs] that by simp
  note wa = write_autosync_untouched [OF assms]
  show ?thesis
    unfolding run_autosync_def Let_def
    by (auto split: option.split json.split sum.split prod.split
        intro: wa untouched_trans [OF wa wa] untouched_trans [OF untouched_trans [OF wa s] wa])
qed

lemma check_project_untouched:
  "p \<noteq> pid \<Longrightarrow> untouched pid w (check_project E app_loaded p now ms (\<lambda>w. w) w)"
  by (auto simp: check_project_def Let_def run_autosync_untouched save_config_untouched split: json.split option.split)

text \<open>The scheduler of the automatic synchronisation looks for projects in the directory above
  the projects' directory: a project whose identifier is not the name of an entry there is never
  visited, whatever its settings say, so neither its next run is planned nor a job started.\<close>
theorem autosync_misses_projects:
  assumes "wf_fs (tree w)" "\<not> exists_at (tree w) (butlast (projects_dir E) @ [pid])"
  shows "untouched pid w (check_and_run_autosync E app_loaded now ms (\<lambda>w. w) w)"
proof -
  let ?d = "butlast (projects_dir E)"
  let ?f = "\<lambda>(p, isdir) w. if isdir then check_project E app_loaded p now ms (\<lambda>w. w) w else w"
  have "untouched pid v (fold ?f ns v)" if "\<forall>n \<in> set ns. fst n \<noteq> pid" for ns v
    using that
  proof (induction ns arbitrary: v)
    case (Cons n ns)
    then have "untouched pid v (?f n v)" by (cases n) (simp add: check_project_untouched)
    with Cons show ?case by (auto intro: untouched_trans)
  qed simp
  moreover have "fst n \<noteq> pid" if "n \<in> set (scan (tree w) ?d)" for n
    using that fst_scan [OF assms(1), of pid ?d] assms(2) by (force simp: exists_at_def)
  ultimately show ?thesis by (simp add: check_and_run_autosync_def Let_def)
qed

definition autosync_world :: "unit sync_world" where
  \<comment> \<open>a project whose run is long due\<close>
  "autosync_world = demo_world\<lparr>configs := [(''1'', Doc [(''autosync'', JObj [(''enabled'', JBool True),
     (''sourceKeys'', JArr [JStr ''repo'']), (''nextRunAt'', JNum 1)])])]\<rparr>"

theorem autosync_misses_projects_witness:
  "untouched ''1'' autosync_world (check_and_run_autosync demo_sync_env True 1000 1000000 (\<lambda>w. w) autosync_world)"
  by (rule autosync_misses_projects)
    (use demo_wf in \<open>simp_all add: autosync_world_def demo_world_def demo_sync_env_def demo_fs_def exists_at_def entry_at_def\<close>)

text \<open>A state file that says \<^verbatim>\<open>running\<close>, as it does after the server was stopped in the middle of
  a synchronisation, keeps the automatic synchronisation from ever starting the source again, and
  the run that skipped it is recorded as \<^verbatim>\<open>ok\<close>.\<close>
theorem stale_running_is_skipped:
  assumes "recorded w pid key ''pull'' = JStr ''running''" "has sources key"
    and "key_list (getd a ''sourceKeys'' (JArr [])) = Some [JStr key]"
    and "getd a ''direction'' (JStr ''pull'') = JStr dir" "num_of (getd a ''intervalSeconds'' (JNum 3600)) = Some interval"
    and "sources_for app_loaded (load_project_config (write_autosync pid (mark_started now interval a) w) pid) [JStr key] = Inr sources"
  shows "run_autosync E app_loaded pid a now ms (\<lambda>w. w) w =
     write_autosync pid (mark_ended [] (mark_started now interval a)) (write_autosync pid (mark_started now interval a) w)"
proof -
  let ?w = "write_autosync pid (mark_started now interval a) w"
  have "truthy (getd a ''sourceKeys'' (JArr []))"
    using assms(3) by (cases "getd a ''sourceKeys'' (JArr [])") auto
  moreover have "sync_files ?w = sync_files w" by (simp add: write_autosync_def save_project_config_def)
  then have "recorded ?w pid key ''pull'' = JStr ''running''" using assms(1) recorded_cong by metis
  then obtain s where s: "dget (load_sync_state ?w pid) key = JObj s" "dget s ''lastPullStatus'' = JStr ''running''"
    by (auto simp: recorded_def side_name_def split: json.splits)
  then have "getd (load_sync_state ?w pid) key (JObj []) = JObj s"
    by (auto simp: dget_def getd_def split: option.splits)
  moreover have "getd s' ''lastPullStatus'' d = JStr ''running''"
    if "s' = show_running j s" for j s' d
    using that s(2) by (auto simp: show_running_def Let_def getd_def dget_def split: option.splits)
  ultimately obtain t where "get_sync_state ?w pid key = Inr t" "dget t ''lastPullStatus'' = JStr ''running''"
    by (simp add: get_sync_state_def Let_def)
  then have "start_keys E pid dir sources now ms [JStr key] [] ?w = (?w, Inr [])" using assms(2) by simp
  with \<open>truthy (getd a ''sourceKeys'' (JArr []))\<close> assms(3-6) show ?thesis
    by (simp add: run_autosync_def Let_def)
qed

definition stale_world :: "unit sync_world" where
  "stale_world = demo_world\<lparr>sync_files := [(''1'', Doc [(''repo'', JObj [(''lastPullStatus'', JStr ''running'')])])]\<rparr>"

theorem stale_running_is_skipped_witness:
  "run_autosync demo_sync_env True ''1'' [(''sourceKeys'', JArr [JStr ''repo''])] 5 5000 (\<lambda>w. w) stale_world =
     write_autosync ''1'' (mark_ended [] (mark_started 5 3600 [(''sourceKeys'', JArr [JStr ''repo''])]))
       (write_autosync ''1'' (mark_started 5 3600 [(''sourceKeys'', JArr [JStr ''repo''])]) stale_world)"
proof (rule stale_running_is_skipped [where key = "''repo''" and dir = "''pull''"])
  show "sources_for True (load_project_config (write_autosync ''1'' (mark_started 5 3600 [(''sourceKeys'', JArr [JStr ''repo''])]) stale_world) ''1'')
      [JStr ''repo''] = Inr [(''repo'', JObj (default_source ''repo'' @ [(''syncDirection'', JStr ''pull''), (''syncStatus'', idle_sync)])),
         (''stacks'', JObj (default_source ''stacks'' @ [(''syncDirection'', JStr ''pull''), (''syncStatus'', idle_sync)]))]"
    using demo_normalized
    by (simp add: sources_for_def write_autosync_def save_project_config_def stale_world_def demo_world_def
        load_project_config_def load_json_def)
qed (simp_all add: recorded_def stale_world_def load_sync_state_def load_json_def side_name_def)

subsection \<open>The layout of a project\<close>

lemma first_pulls_configs: "configs (first_pulls E pid d clk w) = configs w"
proof (induction d arbitrary: clk w)
  case (Cons a d)
  have "configs (fst (execute_sync E pid (fst a) c ''pull'' clk w)) = configs w" for c
    using execute_sync_beside [of E pid "fst a" c "''pull''" clk w] by (simp add: beside_def)
  with Cons show ?case by (cases a) (auto split: json.split)
qed simp

text \<open>A repository layout that changes only where the variables are is accepted and dropped: after
  the update the project has the default layout again.\<close>
theorem vars_layout_dropped:
  assumes "api_update_project_sources E pids pid body clk w = (w', 200, ans)"
    and "dget body ''repoLayout'' = JObj l" "default_layout l"
  shows "get_repo_layout w' pid = Inr (map (\<lambda>k. (k, JStr k)) default_entities)"
proof -
  obtain n where n: "configs w' = tput pid (Doc (dpop (dset (load_project_config w pid) ''sources'' (JObj n)) ''repoLayout'')) (configs w)"
    using assms
    by (auto simp: api_update_project_sources_def Let_def put_layout_def first_pulls_configs save_project_config_def
        split: if_splits sum.splits option.splits)
  have "\<not> has (load_project_config w' pid) ''repoLayout''"
    by (simp add: load_project_config_def load_json_def n)
  then show ?thesis by (simp add: get_repo_layout_def getd_not_has default_entities_def)
qed

theorem vars_layout_dropped_witness:
  "get_repo_layout (fst (api_update_project_sources demo_sync_env [''1''] ''1''
      [(''repoLayout'', JObj [(''vars'', JStr ''group_vars'')])] int demo_world)) ''1'' =
    Inr (map (\<lambda>k. (k, JStr k)) default_entities)"
proof (rule vars_layout_dropped)
  let ?r = "api_update_project_sources demo_sync_env [''1''] ''1'' [(''repoLayout'', JObj [(''vars'', JStr ''group_vars'')])] int demo_world"
  have checks: "validate_repo_layout (JObj [(''vars'', JStr ''group_vars'')]) = None"
    by (simp add: validate_repo_layout_def default_entities_def validate_repo_layout_path_def is_absolute_def
        starts_with_def ends_with_def)
  have sources: "validate_sources str (JObj n) = None" "first_hard n = None" "normalize_sources (JObj n) = Inr n"
    if "normalize_sources (JObj []) = Inr n" for n str
    using that demo_normalized demo_normalized_again
    by (auto simp: validate_sources_def check_source_def hard_check_def default_source_def starts_with_def)
  have "fst (snd ?r) = 200"
    using demo_normalized checks sources [OF demo_normalized]
    by (simp add: api_update_project_sources_def Let_def)
  then show "?r = (fst ?r, 200, snd (snd ?r))" by (metis prod.collapse)
  show "default_layout [(''vars'', JStr ''group_vars'')]" by (simp add: default_layout_def)
qed simp

end
