(* ===== verification/GitUrl.thy ===== *)
theory GitUrl
  imports DocsAccess Sync
begin

section \<open>Repository addresses\<close>

text \<open>
  The pure part of \<^verbatim>\<open>server/services/git_source_manager.py\<close>: the guard of repository URLs
  (\<^verbatim>\<open>validate_git_repo_url\<close>) with what it uses of \<^verbatim>\<open>urllib.parse\<close> and \<^verbatim>\<open>ipaddress\<close>, the
  credentials put into a URL, and their removal from the messages of \<^verbatim>\<open>git\<close>. The resolver
  (\<^verbatim>\<open>socket.getaddrinfo\<close>) and the text of an address are arguments.
\<close>

subsection \<open>Splitting a URL\<close>

definition before_char :: "char \<Rightarrow> string \<Rightarrow> string" where
  \<comment> \<open>\<^verbatim>\<open>s.partition(c)[0]\<close>\<close>
  "before_char c s = takeWhile (\<lambda>x. x \<noteq> c) s"

definition after_char :: "char \<Rightarrow> string \<Rightarrow> string" where
  \<comment> \<open>\<^verbatim>\<open>s.partition(c)[2]\<close>\<close>
  "after_char c s = drop (Suc (length (before_char c s))) s"

definition after_last :: "char \<Rightarrow> string \<Rightarrow> string" where
  \<comment> \<open>\<^verbatim>\<open>s.rpartition(c)[2]\<close>\<close>
  "after_last c s = rev (takeWhile (\<lambda>x. x \<noteq> c) (rev s))"

definition is_letter :: "char \<Rightarrow> bool" where
  "is_letter c = (is_lower c \<or> is_upper c)"

definition scheme_char :: "char \<Rightarrow> bool" where
  "scheme_char c = (is_letter c \<or> is_digit c \<or> c \<in> {CHR ''+'', CHR ''-'', CHR ''.''})"

definition url_clean :: "string \<Rightarrow> string" where
  \<comment> \<open>control characters and spaces in front go, tabs and line ends anywhere\<close>
  "url_clean u = filter (\<lambda>c. of_char c \<notin> {9, 10, 13 :: nat}) (dropWhile (char_in 0 32) u)"

definition split_scheme :: "string \<Rightarrow> string \<times> string" where
  "split_scheme u =
    (let s = before_char CHR '':'' u in
     if CHR '':'' \<in> set u \<and> s \<noteq> [] \<and> is_letter (hd s) \<and> list_all scheme_char s
     then (lower s, after_char CHR '':'' u) else ([], u))"

definition split_netloc :: "string \<Rightarrow> string \<times> string" where
  "split_netloc u =
    (if starts_with u ''//'' then
       (let r = drop 2 u; n = takeWhile (\<lambda>c. c \<notin> {CHR ''/'', CHR ''?'', CHR ''#''}) r
        in (n, drop (length n) r))
     else ([], u))"

definition bracketed_ok :: "string \<Rightarrow> bool" where
  \<comment> \<open>\<^verbatim>\<open>_check_bracketed_netloc\<close> and \<^verbatim>\<open>_check_bracketed_host\<close>\<close>
  "bracketed_ok netloc =
    (let hp = after_last CHR ''@'' netloc in
     if CHR ''['' \<in> set hp \<and> before_char CHR ''['' hp \<noteq> [] then False
     else
       (let b = after_char CHR ''['' hp; port = after_char CHR '']'' b;
            hostname = (if CHR ''['' \<in> set hp then before_char CHR '']'' b else before_char CHR '':'' hp) in
        if CHR ''['' \<in> set hp \<and> port \<noteq> [] \<and> hd port \<noteq> CHR '':'' then False
        else if hostname \<noteq> [] \<and> hd hostname = CHR ''v'' then
          (let d = takeWhile is_hex (tl hostname); r = drop (length d) (tl hostname)
           in d \<noteq> [] \<and> starts_with r ''.'' \<and> tl r \<noteq> [] \<and> CHR 0x0A \<notin> set r)
        else (case ip_address hostname of Some (V6 w z) \<Rightarrow> True | _ \<Rightarrow> False)))"

record url =
  u_scheme :: string
  u_netloc :: string
  u_path :: string
  u_query :: string
  u_fragment :: string

definition drop_params :: "string \<Rightarrow> string \<Rightarrow> string" where
  \<comment> \<open>\<^verbatim>\<open>urlparse\<close> takes the parameters of the last segment off and \<^verbatim>\<open>urlunparse\<close> puts them back
     unless they are empty\<close>
  "drop_params scheme p =
    (let seg = after_last CHR ''/'' p in
     if scheme \<in> {[], ''http'', ''https''} \<and> CHR '';'' \<in> set seg \<and> after_char CHR '';'' seg = [] then butlast p else p)"

definition urlparse :: "string \<Rightarrow> url res" where
  "urlparse u =
    (case split_scheme (url_clean u) of (scheme, r) \<Rightarrow>
     (case split_netloc r of (netloc, r) \<Rightarrow>
      (let l = CHR ''['' \<in> set netloc; c = CHR '']'' \<in> set netloc in
       if l \<noteq> c then Inl (ValueError ''Invalid IPv6 URL'')
       else if l \<and> \<not> bracketed_ok netloc then Inl (ValueError ''Invalid bracketed host'')
       else
         (let p = before_char CHR ''#'' r
          in Inr \<lparr>u_scheme = scheme, u_netloc = netloc, u_path = drop_params scheme (before_char CHR ''?'' p),
                  u_query = after_char CHR ''?'' p, u_fragment = after_char CHR ''#'' r\<rparr>))))"

definition hostname_of :: "string \<Rightarrow> string" where
  \<comment> \<open>the property \<^verbatim>\<open>hostname\<close> of a net location, empty for None; a zone keeps its case\<close>
  "hostname_of netloc =
    (let hp = after_last CHR ''@'' netloc;
         h = (if CHR ''['' \<in> set hp then before_char CHR '']'' (after_char CHR ''['' hp)
              else before_char CHR '':'' hp);
         n = length (before_char CHR ''%'' h)
     in lower (take n h) @ drop n h)"

definition urlunparse :: "url \<Rightarrow> string" where
  \<comment> \<open>with a net location\<close>
  "urlunparse u =
    (let p = u_path u; p = (if p \<noteq> [] \<and> hd p \<noteq> CHR ''/'' then CHR ''/'' # p else p)
     in (if u_scheme u = [] then [] else u_scheme u @ '':'') @ ''//'' @ u_netloc u @ p @
        (if u_query u = [] then [] else CHR ''?'' # u_query u) @
        (if u_fragment u = [] then [] else CHR ''#'' # u_fragment u))"

subsection \<open>Addresses that are not public\<close>

definition nets :: "string list \<Rightarrow> network list" where
  "nets ss = List.map_filter ip_network ss"

definition private4 :: "network list" where
  "private4 = nets [''0.0.0.0/8'', ''10.0.0.0/8'', ''127.0.0.0/8'', ''169.254.0.0/16'', ''172.16.0.0/12'',
     ''192.0.0.0/24'', ''192.0.0.170/31'', ''192.0.2.0/24'', ''192.168.0.0/16'', ''198.18.0.0/15'',
     ''198.51.100.0/24'', ''203.0.113.0/24'', ''240.0.0.0/4'', ''255.255.255.255/32'']"

definition private4_but :: "network list" where
  "private4_but = nets [''192.0.0.9/32'', ''192.0.0.10/32'']"

definition special4 :: "network list" where
  \<comment> \<open>loopback, link local, multicast, reserved, unspecified\<close>
  "special4 = nets [''127.0.0.0/8'', ''169.254.0.0/16'', ''224.0.0.0/4'', ''240.0.0.0/4'', ''0.0.0.0/32'']"

definition private6 :: "network list" where
  "private6 = nets [''::1/128'', ''::/128'', ''::ffff:0:0/96'', ''64:ff9b:1::/48'', ''100::/64'', ''2001::/23'',
     ''2001:db8::/32'', ''2002::/16'', ''3fff::/20'', ''fc00::/7'', ''fe80::/10'']"

definition private6_but :: "network list" where
  "private6_but = nets [''2001:1::1/128'', ''2001:1::2/128'', ''2001:3::/32'', ''2001:4:112::/48'',
     ''2001:20::/28'', ''2001:30::/28'']"

definition special6 :: "network list" where
  "special6 = nets [''::1/128'', ''fe80::/10'', ''ff00::/8'', ''::/8'', ''100::/8'', ''200::/7'', ''400::/6'',
     ''800::/5'', ''1000::/4'', ''4000::/3'', ''6000::/3'', ''8000::/3'', ''A000::/3'', ''C000::/3'', ''E000::/4'',
     ''F000::/5'', ''F800::/6'', ''FE00::/9'']"

definition listed_in :: "ip \<Rightarrow> network list \<Rightarrow> bool" where
  "listed_in a ns = list_ex (in_network a) ns"

fun not_public :: "ip \<Rightarrow> bool" where
  \<comment> \<open>an IPv4-mapped IPv6 address is judged as the IPv4 address\<close>
  "not_public (V4 w) =
    (listed_in (V4 w) private4 \<and> \<not> listed_in (V4 w) private4_but \<or> listed_in (V4 w) special4)"
| "not_public (V6 w z) =
    (if drop_bit 32 w = 0xFFFF then
       listed_in (V4 (ucast w)) private4 \<and> \<not> listed_in (V4 (ucast w)) private4_but \<or> listed_in (V4 (ucast w)) special4
     else listed_in (V6 w z) private6 \<and> \<not> listed_in (V6 w z) private6_but \<or> listed_in (V6 w z) special6)"

subsection \<open>The guard\<close>

datatype addresses =
    Addresses "string list"
  | GaiError
  | LookupError string

record resolver =
  getaddrinfo :: "string \<Rightarrow> addresses"
  ip_text :: "ip \<Rightarrow> string"
  error_text :: "py_error \<Rightarrow> string"

abbreviation url_refused :: "string \<Rightarrow> git_error + unit" where
  "url_refused m \<equiv> Inl (GitSourceError ''GIT_INVALID_URL'' m)"

definition ALLOWED_GIT_SCHEMES :: "string list" where
  "ALLOWED_GIT_SCHEMES = [''https'', ''http'', ''ssh'', ''git'']"

fun refuse_private :: "resolver \<Rightarrow> ip list \<Rightarrow> git_error + unit" where
  "refuse_private R [] = Inr ()"
| "refuse_private R (a # as) =
    (if not_public a then url_refused (''Host resolves to a non-public address: '' @ ip_text R a)
     else refuse_private R as)"

definition validate_git_repo_url :: "resolver \<Rightarrow> string \<Rightarrow> git_error + unit" where
  "validate_git_repo_url R u =
    (if u = [] then url_refused ''Repository URL is required''
     else
       (case urlparse u of
          Inl e \<Rightarrow> Inl (GitOther (error_text R e))
        | Inr p \<Rightarrow>
            (let scheme = u_scheme p; hostname = strip (hostname_of (u_netloc p)) in
             if scheme \<noteq> [] \<and> scheme \<notin> set ALLOWED_GIT_SCHEMES then
               url_refused (''Disallowed URL scheme: '' @ scheme)
             else if hostname = [] then
               (if scheme \<noteq> [] then url_refused ''Repository URL is missing a host'' else Inr ())
             else if lower hostname \<in> {''metadata'', ''metadata.google.internal''} then
               url_refused (''Host not allowed: '' @ hostname)
             else
               (case ip_address hostname of
                  Some a \<Rightarrow> refuse_private R [a]
                | None \<Rightarrow>
                    (case getaddrinfo R hostname of
                       GaiError \<Rightarrow> Inr ()
                     | LookupError m \<Rightarrow> Inl (GitOther m)
                     | Addresses as \<Rightarrow> refuse_private R (List.map_filter ip_address as))))))"

subsection \<open>Credentials in messages\<close>

definition web_prefix :: "string \<Rightarrow> nat" where
  \<comment> \<open>the length of \<^verbatim>\<open>https?://\<close> at the front, 0 without one\<close>
  "web_prefix t = (if lower (take 8 t) = ''https://'' then 8 else if lower (take 7 t) = ''http://'' then 7 else 0)"

definition cred_char :: "char \<Rightarrow> bool" where
  "cred_char c = (c \<noteq> CHR ''/'' \<and> \<not> is_space c \<and> c \<noteq> CHR ''@'')"

definition cred_match :: "string \<Rightarrow> (nat \<times> nat) option" where
  \<comment> \<open>a match of \<^verbatim>\<open>(https?://)([^/\s@]+)@\<close> at the front: the length of the first group and of the whole\<close>
  "cred_match t =
    (let n = web_prefix t; k = length (takeWhile cred_char (drop n t)); r = drop (n + k) t
     in if n \<noteq> 0 \<and> k \<noteq> 0 \<and> r \<noteq> [] \<and> hd r = CHR ''@'' then Some (n, n + k + 1) else None)"

function scrub_credentials :: "string \<Rightarrow> string" where
  "scrub_credentials [] = []"
| "scrub_credentials (c # t) =
    (case cred_match (c # t) of
       Some (n, m) \<Rightarrow> take n (c # t) @ ''***@'' @ scrub_credentials (drop m (c # t))
     | None \<Rightarrow> c # scrub_credentials t)"
  by pat_completeness auto
termination
  by (relation "measure length") (auto simp: cred_match_def Let_def split: if_splits)

declare scrub_credentials.simps [simp del]

end
