(* ===== verification/GitSource.thy ===== *)
theory GitSource
  imports GitUrl SyncGit Secrets
begin

section \<open>The cache of git repositories\<close>

text \<open>
  \<^verbatim>\<open>GitSourceManager\<close> of \<^verbatim>\<open>server/services/git_source_manager.py\<close>: one shallow clone per project
  and repository under the cache directory, brought up to date when it is a minute old, with the
  requested ref checked out and an optional directory inside it. The \<^verbatim>\<open>git\<close> command is the
  field \<open>gs_exec\<close>: from the working directory, the variables added to the environment and the
  arguments to a changed disk and a result; it may run into its time limit. The files of the
  project's secrets are lists, the global secrets a look-up (\<open>load_global\<close> gives it from the
  store of the global secrets). The lock around the whole operation makes it one step.
\<close>

datatype run =
    Ran int string string
  | TimedOut
  | RunFailed string

type_synonym git_vars = "(string \<times> string) list"

record 'g git_host =
  gs_resolver :: resolver
  gs_cache :: path
  gs_digest :: "string \<Rightarrow> string"
  gs_globals :: "(string \<Rightarrow> string + doc option) option"
  gs_git_auth :: "((string \<times> string) \<times> jfile) list"
  gs_storage :: "((string \<times> string) \<times> jfile) list"
  gs_text :: "json \<Rightarrow> string"
  gs_os_text :: "os_error \<Rightarrow> string"
  gs_dir_mtime :: "fs \<Rightarrow> path \<Rightarrow> real"
  gs_temp :: "fs \<Rightarrow> string + path"
  gs_exec :: "path option \<Rightarrow> git_vars \<Rightarrow> string list \<Rightarrow> 'g disk \<Rightarrow> 'g disk \<times> run"

definition then_do :: "'s \<times> ('e + 'a) \<Rightarrow> ('a \<Rightarrow> 's \<Rightarrow> 's \<times> ('e + 'b)) \<Rightarrow> 's \<times> ('e + 'b)" where
  \<comment> \<open>an exception ends the sequence\<close>
  "then_do r f = (case r of (s, Inl e) \<Rightarrow> (s, Inl e) | (s, Inr x) \<Rightarrow> f x s)"

subsection \<open>Finding the secret\<close>

definition load_global :: "crypto \<Rightarrow> (json \<Rightarrow> string) \<Rightarrow> (string \<Rightarrow> string) \<Rightarrow> secret_store \<Rightarrow> string \<Rightarrow> string + doc option" where
  \<comment> \<open>\<^verbatim>\<open>get_secret(i, include_material=True)\<close> with the texts of its exceptions\<close>
  "load_global C str why S i =
    (case get_secret C str i True S of
       Inr r \<Rightarrow> Inr r
     | Inl e \<Rightarrow>
         Inl (if \<not> secret_path_ok i then ''Invalid secret ID: '' @ i
              else if map_of (sx_files S) i = Some Corrupt then ''Failed to read secret '' @ i @ '': '' @ why i
              else ''Failed to decrypt secret '' @ i @ '': '' @ why i))"

definition global_secret :: "'g git_host \<Rightarrow> string \<Rightarrow> git_error + doc option" where
  \<comment> \<open>None: the project's secrets come next\<close>
  "global_secret H i =
    (case gs_globals H of
       None \<Rightarrow> Inr None
     | Some look \<Rightarrow>
         (case look i of
            Inr (Some d) \<Rightarrow> Inr (if d = [] then None else Some d)
          | Inr None \<Rightarrow> Inr None
          | Inl m \<Rightarrow>
              if contains (lower m) ''not found'' \<or> contains m ''Failed to read'' then Inr None
              else if contains (lower m) ''decrypt'' \<or> contains m ''Failed to decrypt'' then
                Inl (GitSourceError ''SECRET_DECRYPT_FAILED'' (''Failed to decrypt secret: '' @ m))
              else Inr None))"

definition load_failed :: "string \<Rightarrow> git_error + 'a" where
  "load_failed m = Inl (GitSourceError ''GIT_AUTH_FAILED'' (''Failed to load authentication secret: '' @ m))"

definition none_has_no_exists :: string where
  \<comment> \<open>the text of the \<^verbatim>\<open>AttributeError\<close>\<close>
  "none_has_no_exists =
    [CHR 0x27] @ ''NoneType'' @ [CHR 0x27] @ '' object has no attribute '' @ [CHR 0x27] @ ''exists'' @ [CHR 0x27]"

definition project_secret :: "'g git_host \<Rightarrow> string \<Rightarrow> string \<Rightarrow> git_error + doc" where
  \<comment> \<open>without a file the variable is still None when \<^verbatim>\<open>exists\<close> is called on it\<close>
  "project_secret H pid i =
    (let secret_file = (if map_of (gs_git_auth H) (pid, i) \<noteq> None then Some (pid, i) else None) in
     case secret_file of
       None \<Rightarrow> load_failed none_has_no_exists
     | Some k \<Rightarrow>
         (case map_of (gs_git_auth H) k of
            None \<Rightarrow> Inl (GitSourceError ''SECRET_NOT_FOUND''
              (''Secret '' @ i @ '' not found in global or project storage''))
          | Some Corrupt \<Rightarrow> load_failed ''unreadable''
          | Some (Doc d) \<Rightarrow> Inr d))"

definition find_secret :: "'g git_host \<Rightarrow> string \<Rightarrow> string \<Rightarrow> git_error + bool \<times> doc" where
  \<comment> \<open>whether it is a global one, and its fields\<close>
  "find_secret H pid i =
    (case global_secret H i of
       Inl e \<Rightarrow> Inl e
     | Inr (Some d) \<Rightarrow> Inr (True, d)
     | Inr None \<Rightarrow> map_sum id (Pair False) (project_secret H pid i))"

subsection \<open>The environment of git\<close>

definition unsupported :: "string \<Rightarrow> git_error + 'a" where
  "unsupported m = Inl (GitSourceError ''SECRET_TYPE_UNSUPPORTED'' m)"

definition ssh_user :: "'g git_host \<Rightarrow> doc \<Rightarrow> string res" where
  "ssh_user H d =
    (let u = (case getd d ''metadata'' (JObj []) of
           JObj m \<Rightarrow> Inr (if m \<noteq> [] then dget m ''username'' else getd d ''username'' (JStr ''git''))
         | j \<Rightarrow> if truthy j then Inl AttributeError else Inr (getd d ''username'' (JStr ''git'')))
     in map_sum id (\<lambda>j. if truthy j then as_text (gs_text H) j else ''git'') u)"

definition ssh_command :: "path \<Rightarrow> string \<Rightarrow> bool \<Rightarrow> string" where
  "ssh_command key user locked =
    ''ssh -i '' @ path_text key @ '' -o StrictHostKeyChecking=accept-new'' @
    (if user \<noteq> ''git'' then '' -l '' @ user else []) @ (if locked then '' -o BatchMode=yes'' else [])"

definition key_content :: "string \<Rightarrow> string" where
  "key_content k = (let s = strip k in if ends_with s [CHR 0x0A] then s else s @ [CHR 0x0A])"

definition setup_ssh_auth :: "'g git_host \<Rightarrow> real \<Rightarrow> doc \<Rightarrow> string \<Rightarrow> fs \<Rightarrow> fs \<times> (git_error + git_vars)" where
  \<comment> \<open>the key goes to a temporary file that is not removed\<close>
  "setup_ssh_auth H now d i fs =
    (let private_key = getd d ''privateKey'' (JStr []);
         failed = (\<lambda>m. Inl (GitSourceError ''GIT_AUTH_FAILED'' (''Failed to setup SSH authentication: '' @ m))) in
     if \<not> truthy private_key then
       (fs, unsupported (''Secret '' @ i @ '' (type: git_ssh_key) missing privateKey''))
     else
       (case ssh_user H d of
          Inl e \<Rightarrow> (fs, Inl (GitOther (error_text (gs_resolver H) e)))
        | Inr user \<Rightarrow>
            (case gs_temp H fs of
               Inl m \<Rightarrow> (fs, failed m)
             | Inr p \<Rightarrow>
                 (case private_key of
                    JStr k \<Rightarrow> (tput p (File (key_content k) now) fs,
                      Inr [(''GIT_SSH_COMMAND'', ssh_command p user (truthy (dget d ''passphrase'')))])
                  | _ \<Rightarrow> (tput p (File [] now) fs, failed (error_text (gs_resolver H) AttributeError))))))"

definition get_auth_env :: "'g git_host \<Rightarrow> real \<Rightarrow> string \<Rightarrow> json \<Rightarrow> fs \<Rightarrow> fs \<times> (git_error + git_vars)" where
  \<comment> \<open>the variables added to the environment; the function returning None adds none\<close>
  "get_auth_env H now pid auth fs =
    (if \<not> truthy auth then (fs, Inr [])
     else
       (case auth of
          JStr i \<Rightarrow>
            if strip i = [] then (fs, Inr [])
            else
              (case find_secret H pid i of
                 Inl e \<Rightarrow> (fs, Inl e)
               | Inr (is_global, d) \<Rightarrow>
                   (let t = getd d ''type'' (JStr []) in
                    if \<not> truthy t then (fs, unsupported (''Secret '' @ i @ '' has no type specified''))
                    else if t = JStr ''git_ssh_key'' \<or> \<not> is_global \<and> t = JStr ''ssh_key'' then
                      setup_ssh_auth H now d i fs
                    else if t = JStr ''git_token'' then
                      (if \<not> truthy (dget d ''token'')
                       then (fs, unsupported (''Secret '' @ i @ '' (type: git_token) missing token''))
                       else (fs, Inr [(''GIT_TERMINAL_PROMPT'', ''0'')]))
                    else if \<not> is_global \<and> t = JStr ''login_password'' then
                      (fs, Inr (if truthy (dget d ''username'') \<and> truthy (dget d ''password'')
                                then [(''GIT_TERMINAL_PROMPT'', ''0'')] else []))
                    else (fs, unsupported (''Secret type '' @ as_text (gs_text H) t @
                      '' is not supported for git authentication. Supported: git_ssh_key, git_token''))))
        | _ \<Rightarrow> (fs, Inl (GitOther (error_text (gs_resolver H) AttributeError)))))"

definition git_vars_for ::
    "'g git_host \<Rightarrow> real \<Rightarrow> string \<Rightarrow> json \<Rightarrow> 'g disk \<Rightarrow> 'g disk \<times> (git_error + git_vars)" where
  "git_vars_for H now pid auth s =
    (case get_auth_env H now pid auth (snd s) of (fs, r) \<Rightarrow> ((fst s, fs), r))"

subsection \<open>The URL of a clone\<close>

definition url_secret :: "'g git_host \<Rightarrow> string \<Rightarrow> string \<Rightarrow> doc option" where
  \<comment> \<open>the project's secret is looked for in another directory than for the environment\<close>
  "url_secret H pid i =
    (let g = (case gs_globals H of
           None \<Rightarrow> None
         | Some look \<Rightarrow> (case look i of Inr (Some d) \<Rightarrow> if d = [] then None else Some d | _ \<Rightarrow> None))
     in case g of
          Some d \<Rightarrow> Some d
        | None \<Rightarrow> (case map_of (gs_storage H) (pid, i) of Some (Doc d) \<Rightarrow> Some d | _ \<Rightarrow> None))"

definition with_userinfo :: "string \<Rightarrow> string \<Rightarrow> string" where
  "with_userinfo user u =
    (case urlparse u of Inl e \<Rightarrow> u | Inr p \<Rightarrow> urlunparse (p\<lparr>u_netloc := user @ ''@'' @ u_netloc p\<rparr>))"

definition embed_credentials :: "'g git_host \<Rightarrow> doc \<Rightarrow> string \<Rightarrow> string" where
  \<comment> \<open>an exception leaves the URL as it is\<close>
  "embed_credentials H d u =
    (let str = as_text (gs_text H); t = getd d ''type'' (JStr []) in
     if t = JStr ''git_token'' then
       (case getd d ''metadata'' (JObj []) of
          JObj m \<Rightarrow>
            (let token = dget d ''token''; user = py_or (dget m ''username'') (getd d ''username'' (JStr [])) in
             if \<not> truthy token then u
             else if truthy user then with_userinfo (str user @ '':'' @ str token) u
             else with_userinfo (str token) u)
        | _ \<Rightarrow> u)
     else if t = JStr ''login_password'' then
       (if truthy (dget d ''username'') \<and> truthy (dget d ''password'')
        then with_userinfo (str (dget d ''username'') @ '':'' @ str (dget d ''password'')) u else u)
     else u)"

definition clone_url :: "'g git_host \<Rightarrow> string \<Rightarrow> json \<Rightarrow> string \<Rightarrow> string" where
  "clone_url H pid auth u =
    (case auth of
       JStr i \<Rightarrow>
         if i \<noteq> [] \<and> contains u ''https://''
         then (case url_secret H pid i of Some d \<Rightarrow> if d = [] then u else embed_credentials H d u | None \<Rightarrow> u) else u
     | _ \<Rightarrow> u)"

subsection \<open>Clone, fetch, checkout\<close>

definition get_cache_dir :: "'g git_host \<Rightarrow> string \<Rightarrow> string \<Rightarrow> path" where
  "get_cache_dir H pid u = gs_cache H @ [pid, take 16 (gs_digest H u)]"

definition CACHE_STALE_THRESHOLD :: real where "CACHE_STALE_THRESHOLD = 60"

definition is_cache_stale :: "'g git_host \<Rightarrow> real \<Rightarrow> path \<Rightarrow> fs \<Rightarrow> bool" where
  "is_cache_stale H now cache fs =
    (let git = cache @ [''.git'']; mtime = (\<lambda>p. case entry_at fs p of Some (File s t) \<Rightarrow> t | _ \<Rightarrow> gs_dir_mtime H fs p) in
     if \<not> exists_at fs cache then True
     else if \<not> exists_at fs git then True
     else if exists_at fs (git @ [''FETCH_HEAD'']) then CACHE_STALE_THRESHOLD < now - mtime (git @ [''FETCH_HEAD''])
     else CACHE_STALE_THRESHOLD < now - mtime git)"

definition message :: "string \<Rightarrow> string \<Rightarrow> string" where
  \<comment> \<open>\<^verbatim>\<open>result.stderr or result.stdout or 'Unknown error'\<close>\<close>
  "message out err = (if err \<noteq> [] then err else if out \<noteq> [] then out else ''Unknown error'')"

definition auth_refused :: "string \<Rightarrow> bool" where
  "auth_refused m = (contains m ''Authentication failed'' \<or> contains m ''Permission denied'')"

definition git_clone :: "'g git_host \<Rightarrow> real \<Rightarrow> string \<Rightarrow> string \<Rightarrow> json \<Rightarrow> path \<Rightarrow> 'g disk \<Rightarrow> 'g disk \<times> (git_error + unit)" where
  "git_clone H now pid u auth cache s =
    (case mkdir_p (snd s) (butlast cache) of
       (fs, Some e) \<Rightarrow> ((fst s, fs), Inl (GitOther (gs_os_text H e)))
     | (fs, None) \<Rightarrow>
         then_do (git_vars_for H now pid auth (fst s, fs)) (\<lambda>env s.
           (case gs_exec H None env
                   [''clone'', ''--depth'', ''1'', ''--no-single-branch'', clone_url H pid auth u, path_text cache] s of
              (s, Ran rc out err) \<Rightarrow>
                (let m = scrub_credentials (message out err) in
                 (s, if rc = 0 then Inr ()
                     else if auth_refused m then Inl (GitSourceError ''GIT_AUTH_FAILED'' (''Authentication failed: '' @ m))
                     else Inl (GitSourceError ''GIT_CLONE_FAILED'' (''Clone failed: '' @ m))))
            | (s, TimedOut) \<Rightarrow> (s, Inl (GitSourceError ''GIT_CLONE_FAILED'' ''Clone operation timed out''))
            | (s, RunFailed m) \<Rightarrow>
                (s, Inl (GitSourceError ''GIT_CLONE_FAILED'' (''Clone failed: '' @ scrub_credentials m))))))"

definition git_fetch :: "'g git_host \<Rightarrow> real \<Rightarrow> string \<Rightarrow> json \<Rightarrow> path \<Rightarrow> 'g disk \<Rightarrow> 'g disk \<times> (git_error + unit)" where
  \<comment> \<open>a failure that is not about the credentials is passed over\<close>
  "git_fetch H now pid auth cache s =
    then_do (git_vars_for H now pid auth s) (\<lambda>env s.
      (case gs_exec H (Some cache) env [''fetch'', ''--all'', ''--prune''] s of
         (s, Ran rc out err) \<Rightarrow>
           (s, if rc \<noteq> 0 \<and> auth_refused (message out err)
               then Inl (GitSourceError ''GIT_AUTH_FAILED'' (''Authentication failed: '' @ message out err)) else Inr ())
       | (s, TimedOut) \<Rightarrow> (s, Inr ())
       | (s, RunFailed m) \<Rightarrow> (s, Inl (GitOther m))))"

definition ref_error :: "string \<Rightarrow> git_error" where
  "ref_error m = GitSourceError ''GIT_REF_NOT_FOUND'' m"

definition ref_run :: "'g git_host \<Rightarrow> path \<Rightarrow> string \<Rightarrow> git_vars \<Rightarrow> string list \<Rightarrow> 'g disk \<Rightarrow>
    'g disk \<times> (git_error + int \<times> string \<times> string)" where
  \<comment> \<open>a command of the checkout, its exceptions turned into errors about the ref\<close>
  "ref_run H cache ref env args s =
    (case gs_exec H (Some cache) env args s of
       (s, Ran rc out err) \<Rightarrow> (s, Inr (rc, out, err))
     | (s, TimedOut) \<Rightarrow> (s, Inl (ref_error (''Checkout of ref '' @ ref @ '' timed out'')))
     | (s, RunFailed m) \<Rightarrow> (s, Inl (ref_error (''Failed to checkout ref '' @ ref @ '': '' @ m))))"

definition ref_result :: "string \<Rightarrow> int \<times> string \<times> string \<Rightarrow> 'g disk \<Rightarrow> 'g disk \<times> (git_error + unit)" where
  "ref_result ref r s =
    (case r of (rc, out, err) \<Rightarrow>
      (s, if rc = 0 then Inr () else Inl (ref_error (''Ref '' @ ref @ '' not found: '' @ message out err))))"

definition checkout_fetched :: "'g git_host \<Rightarrow> path \<Rightarrow> string \<Rightarrow> 'g disk \<Rightarrow> 'g disk \<times> (git_error + unit)" where
  "checkout_fetched H cache ref s =
    then_do (ref_run H cache ref [] [''reset'', ''--hard'', ''origin/'' @ ref] s) (\<lambda>(rc, out, err) s.
      if rc = 0 then (s, Inr ())
      else then_do (ref_run H cache ref [] [''checkout'', ref] s) (ref_result ref))"

definition checkout_vars ::
    "'g git_host \<Rightarrow> real \<Rightarrow> string \<Rightarrow> json \<Rightarrow> string \<Rightarrow> 'g disk \<Rightarrow> 'g disk \<times> (git_error + git_vars)" where
  "checkout_vars H now pid auth ref s =
    (case git_vars_for H now pid auth s of
       (s, Inl (GitOther m)) \<Rightarrow> (s, Inl (ref_error (''Failed to checkout ref '' @ ref @ '': '' @ m)))
     | r \<Rightarrow> r)"

definition checkout_cached ::
    "'g git_host \<Rightarrow> real \<Rightarrow> string \<Rightarrow> json \<Rightarrow> path \<Rightarrow> string \<Rightarrow> 'g disk \<Rightarrow> 'g disk \<times> (git_error + unit)" where
  \<comment> \<open>a ref the clone does not have is fetched by name\<close>
  "checkout_cached H now pid auth cache ref s =
    then_do (ref_run H cache ref [] [''checkout'', ref] s) (\<lambda>(rc, out, err) s.
      if rc = 0 then (s, Inr ())
      else
        then_do (checkout_vars H now pid auth ref s) (\<lambda>env s.
        then_do (ref_run H cache ref env [''fetch'', ''origin'', ref] s) (\<lambda>(rc', out', err') s.
          if rc' = 0 then then_do (ref_run H cache ref [] [''checkout'', ref] s) (ref_result ref)
          else ref_result ref (rc, out, err) s)))"

definition clone_or_fetch ::
    "'g git_host \<Rightarrow> real \<Rightarrow> string \<Rightarrow> string \<Rightarrow> string \<Rightarrow> json \<Rightarrow> bool \<Rightarrow> 'g disk \<Rightarrow> 'g disk \<times> (git_error + path)" where
  "clone_or_fetch H now pid u ref auth force s =
    (case validate_git_repo_url (gs_resolver H) u of
       Inl e \<Rightarrow> (s, Inl e)
     | Inr _ \<Rightarrow>
         (let cache = get_cache_dir H pid u;
              needs_clone = (\<not> exists_at (snd s) cache \<or> \<not> exists_at (snd s) (cache @ [''.git'']));
              needs_fetch = (\<not> needs_clone \<and> (force \<or> is_cache_stale H now cache (snd s))) in
          then_do (if needs_clone then git_clone H now pid u auth cache s else (s, Inr ())) (\<lambda>_ s.
          then_do (if needs_fetch then git_fetch H now pid auth cache s else (s, Inr ())) (\<lambda>_ s.
          then_do (if ref = [] then (s, Inr ())
                   else if needs_fetch then checkout_fetched H cache ref s
                   else checkout_cached H now pid auth cache ref s) (\<lambda>_ s. (s, Inr cache))))))"

subsection \<open>The directory of a source\<close>

definition safe_subdir_path :: "path \<Rightarrow> string \<Rightarrow> git_error + path" where
  \<comment> \<open>without links, a relative path without \<^verbatim>\<open>..\<close> stays inside\<close>
  "safe_subdir_path base subdir =
    (if subdir = [] then Inr base
     else if is_absolute subdir then Inl (GitSourceError ''INVALID_SUBDIR'' ''Subdir cannot be an absolute path'')
     else if ''..'' \<in> set (path_parts subdir) then
       Inl (GitSourceError ''INVALID_SUBDIR'' ''Subdir contains path traversal (..)'')
     else
       (let resolved = walk base (path_parts subdir) in
        if \<not> prefix base resolved then Inl (GitSourceError ''INVALID_SUBDIR'' ''Subdir resolves outside repository'')
        else Inr resolved))"

definition resolve_git ::
    "'g git_host \<Rightarrow> real \<Rightarrow> string \<Rightarrow> string \<Rightarrow> string \<Rightarrow> string \<Rightarrow> string \<Rightarrow> json \<Rightarrow> bool \<Rightarrow>
     'g disk \<Rightarrow> 'g disk \<times> (git_error + path)" where
  \<comment> \<open>\<^verbatim>\<open>resolve_path\<close>; the key of the source is not used\<close>
  "resolve_git H now pid key u ref subdir auth force s =
    then_do (clone_or_fetch H now pid u ref auth force s) (\<lambda>cache s.
      if subdir = [] then (s, Inr cache)
      else
        (case safe_subdir_path cache subdir of
           Inl e \<Rightarrow> (s, Inl e)
         | Inr p \<Rightarrow>
             (s, if exists_at (snd s) p then Inr p
                 else Inl (GitSourceError ''SUBDIR_NOT_FOUND'' (''Subdir '' @ subdir @ '' not found in repository'')))))"

end
