(* ===== verification/GitUrlProps.thy ===== *)
theory GitUrlProps
  imports GitUrl DocsAccessProps
begin

text \<open>
  The guard of repository URLs against the tables of addresses, written out in octets, and what it
  lets through; the removal of credentials from messages.
\<close>

subsection \<open>Octets and networks\<close>

lemma digit_char: "k < 10 \<Longrightarrow> of_char (char_of (48 + k) :: char) = 48 + k" for k :: nat
  by simp

lemma nat_text_1: "n < 10 \<Longrightarrow> nat_text n = [char_of (48 + n)]"
  by (subst nat_text.simps) simp

lemma nat_text_2: "10 \<le> n \<Longrightarrow> n < 100 \<Longrightarrow> nat_text n = [char_of (48 + n div 10), char_of (48 + n mod 10)]"
  by (subst nat_text.simps) (simp add: nat_text_1)

lemma nat_text_3:
  "100 \<le> n \<Longrightarrow> n < 1000 \<Longrightarrow>
     nat_text n = [char_of (48 + n div 100), char_of (48 + n div 10 mod 10), char_of (48 + n mod 10)]"
  by (subst nat_text.simps) (simp add: nat_text_2 div_mult2_eq [symmetric])

lemma zero_char: "k < 10 \<Longrightarrow> char_of (48 + k) = CHR ''0'' \<longleftrightarrow> k = 0" for k :: nat
proof -
  have "char_of (48 :: nat) = CHR ''0''" by code_simp
  then show "k < 10 \<Longrightarrow> ?thesis" by (auto dest: arg_cong [of _ _ "of_char :: char \<Rightarrow> nat"])
qed

lemma octet_3:
  "h < 10 \<Longrightarrow> t < 10 \<Longrightarrow> u < 10 \<Longrightarrow> h \<noteq> 0 \<Longrightarrow> 100 * h + 10 * t + u \<le> 255 \<Longrightarrow>
     octet [char_of (48 + h), char_of (48 + t), char_of (48 + u)] = Some (100 * h + 10 * t + u)" for h t u :: nat
  by (simp add: octet_def digits_def is_digit_def char_in_def dec_val_def zero_char)

lemma octet_nat_text: "n < 256 \<Longrightarrow> octet (nat_text n) = Some n"
proof -
  assume n: "n < 256"
  consider "n < 10" | "10 \<le> n" "n < 100" | "100 \<le> n" by linarith
  then show ?thesis
  proof cases
    case 1
    then show ?thesis by (simp add: nat_text_1 octet_def digits_def is_digit_def char_in_def dec_val_def)
  next
    case 2
    then have "n div 10 < 10" "n mod 10 < 10" "n div 10 \<noteq> 0" by auto
    then show ?thesis using 2
      by (simp add: nat_text_2 octet_def digits_def is_digit_def char_in_def dec_val_def zero_char)
  next
    case 3
    have e: "100 * (n div 100) + 10 * (n div 10 mod 10) + n mod 10 = n"
    proof -
      have "n div 100 = n div 10 div 10" by (simp add: div_mult2_eq [symmetric])
      then have "100 * (n div 100) + 10 * (n div 10 mod 10) = 10 * (n div 10)"
        using div_mult_mod_eq [of "n div 10" 10] by linarith
      then show ?thesis using div_mult_mod_eq [of n 10] by linarith
    qed
    have "octet [char_of (48 + n div 100), char_of (48 + n div 10 mod 10), char_of (48 + n mod 10)] =
        Some (100 * (n div 100) + 10 * (n div 10 mod 10) + n mod 10)"
    proof (rule octet_3)
      show "n div 100 < 10" using n by (simp add: less_mult_imp_div_less)
      show "n div 100 \<noteq> 0" using 3 by (simp add: div_eq_0_iff)
    qed (use n e in simp_all)
    then show ?thesis using 3 n unfolding e by (simp add: nat_text_3)
  qed
qed

definition quad :: "nat \<Rightarrow> nat \<Rightarrow> nat \<Rightarrow> nat \<Rightarrow> string" where
  "quad a b c d = nat_text a @ ''.'' @ nat_text b @ ''.'' @ nat_text c @ ''.'' @ nat_text d"

definition in_block :: "32 word \<Rightarrow> nat \<Rightarrow> 32 word \<Rightarrow> bool" where
  "in_block b p w \<longleftrightarrow> unat w div 2 ^ (32 - p) = unat b div 2 ^ (32 - p)"

lemma in_network_block:
  assumes "p \<le> 32"
  shows "in_network (V4 w) (N4 (b AND netmask p) p) \<longleftrightarrow> in_block b p w"
proof -
  have "in_network (V4 w) (N4 (b AND netmask p) p) \<longleftrightarrow> drop_bit (32 - p) w = drop_bit (32 - p) b"
    using masked_eq_iff_prefix [of p w b] assms by simp
  also have "\<dots> \<longleftrightarrow> unat (drop_bit (32 - p) w) = unat (drop_bit (32 - p) b)" by (simp only: word_unat_eq_iff)
  finally show ?thesis by (simp only: unat_drop_bit_eq in_block_def) (simp only: drop_bit_eq_div)
qed

lemma listed_in_simps:
  "listed_in a (nets []) = False"
  "ip_network s = Some n \<Longrightarrow> listed_in a (nets (s # ss)) \<longleftrightarrow> in_network a n \<or> listed_in a (nets ss)"
  by (simp_all add: listed_in_def nets_def List.map_filter_simps)

lemma listed_block:
  assumes "ipv4_int base = Some b" "digits m" "dec_val m = p" "p \<le> 32" "s = base @ CHR ''/'' # m"
  shows "listed_in (V4 w) (nets (s # ss)) \<longleftrightarrow> in_block b p w \<or> listed_in (V4 w) (nets ss)"
  using assms by (simp only: listed_in_simps(2) [OF ip_network_v4] in_network_block)

lemma digits_eval:
  "digits ''4'' \<and> dec_val ''4'' = 4"
  "digits ''8'' \<and> dec_val ''8'' = 8"
  "digits ''12'' \<and> dec_val ''12'' = 12"
  "digits ''15'' \<and> dec_val ''15'' = 15"
  "digits ''16'' \<and> dec_val ''16'' = 16"
  "digits ''24'' \<and> dec_val ''24'' = 24"
  "digits ''31'' \<and> dec_val ''31'' = 31"
  "digits ''32'' \<and> dec_val ''32'' = 32"
  by code_simp+

lemma base_eval:
  "ipv4_int ''0.0.0.0'' = Some 0"
  "ipv4_int ''10.0.0.0'' = Some 167772160"
  "ipv4_int ''127.0.0.0'' = Some 2130706432"
  "ipv4_int ''169.254.0.0'' = Some 2851995648"
  "ipv4_int ''172.16.0.0'' = Some 2886729728"
  "ipv4_int ''192.0.0.0'' = Some 3221225472"
  "ipv4_int ''192.0.0.170'' = Some 3221225642"
  "ipv4_int ''192.0.2.0'' = Some 3221225984"
  "ipv4_int ''192.168.0.0'' = Some 3232235520"
  "ipv4_int ''198.18.0.0'' = Some 3323068416"
  "ipv4_int ''198.51.100.0'' = Some 3325256704"
  "ipv4_int ''203.0.113.0'' = Some 3405803776"
  "ipv4_int ''240.0.0.0'' = Some 4026531840"
  "ipv4_int ''255.255.255.255'' = Some 4294967295"
  "ipv4_int ''224.0.0.0'' = Some 3758096384"
  "ipv4_int ''192.0.0.9'' = Some 3221225481"
  "ipv4_int ''192.0.0.10'' = Some 3221225482"
  by (simp_all add: ipv4_eval)

lemma private4_blocks:
  "listed_in (V4 w) private4 \<longleftrightarrow>
     in_block 0 8 w \<or> in_block 167772160 8 w \<or> in_block 2130706432 8 w \<or> in_block 2851995648 16 w \<or> in_block 2886729728 12 w \<or> in_block 3221225472 24 w \<or> in_block 3221225642 31 w \<or> in_block 3221225984 24 w \<or> in_block 3232235520 16 w \<or> in_block 3323068416 15 w \<or> in_block 3325256704 24 w \<or> in_block 3405803776 24 w \<or> in_block 4026531840 4 w \<or> in_block 4294967295 32 w"
  unfolding private4_def
  apply (subst listed_block [of "''0.0.0.0''" 0 "''8''" 8]; (simp add: base_eval digits_eval)?)
  apply (subst listed_block [of "''10.0.0.0''" 167772160 "''8''" 8]; (simp add: base_eval digits_eval)?)
  apply (subst listed_block [of "''127.0.0.0''" 2130706432 "''8''" 8]; (simp add: base_eval digits_eval)?)
  apply (subst listed_block [of "''169.254.0.0''" 2851995648 "''16''" 16]; (simp add: base_eval digits_eval)?)
  apply (subst listed_block [of "''172.16.0.0''" 2886729728 "''12''" 12]; (simp add: base_eval digits_eval)?)
  apply (subst listed_block [of "''192.0.0.0''" 3221225472 "''24''" 24]; (simp add: base_eval digits_eval)?)
  apply (subst listed_block [of "''192.0.0.170''" 3221225642 "''31''" 31]; (simp add: base_eval digits_eval)?)
  apply (subst listed_block [of "''192.0.2.0''" 3221225984 "''24''" 24]; (simp add: base_eval digits_eval)?)
  apply (subst listed_block [of "''192.168.0.0''" 3232235520 "''16''" 16]; (simp add: base_eval digits_eval)?)
  apply (subst listed_block [of "''198.18.0.0''" 3323068416 "''15''" 15]; (simp add: base_eval digits_eval)?)
  apply (subst listed_block [of "''198.51.100.0''" 3325256704 "''24''" 24]; (simp add: base_eval digits_eval)?)
  apply (subst listed_block [of "''203.0.113.0''" 3405803776 "''24''" 24]; (simp add: base_eval digits_eval)?)
  apply (subst listed_block [of "''240.0.0.0''" 4026531840 "''4''" 4]; (simp add: base_eval digits_eval)?)
  apply (subst listed_block [of "''255.255.255.255''" 4294967295 "''32''" 32]; (simp add: base_eval digits_eval)?)
  by (simp add: listed_in_simps(1))

lemma private4_but_blocks:
  "listed_in (V4 w) private4_but \<longleftrightarrow>
     in_block 3221225481 32 w \<or> in_block 3221225482 32 w"
  unfolding private4_but_def
  apply (subst listed_block [of "''192.0.0.9''" 3221225481 "''32''" 32]; (simp add: base_eval digits_eval)?)
  apply (subst listed_block [of "''192.0.0.10''" 3221225482 "''32''" 32]; (simp add: base_eval digits_eval)?)
  by (simp add: listed_in_simps(1))

lemma special4_blocks:
  "listed_in (V4 w) special4 \<longleftrightarrow>
     in_block 2130706432 8 w \<or> in_block 2851995648 16 w \<or> in_block 3758096384 4 w \<or> in_block 4026531840 4 w \<or> in_block 0 32 w"
  unfolding special4_def
  apply (subst listed_block [of "''127.0.0.0''" 2130706432 "''8''" 8]; (simp add: base_eval digits_eval)?)
  apply (subst listed_block [of "''169.254.0.0''" 2851995648 "''16''" 16]; (simp add: base_eval digits_eval)?)
  apply (subst listed_block [of "''224.0.0.0''" 3758096384 "''4''" 4]; (simp add: base_eval digits_eval)?)
  apply (subst listed_block [of "''240.0.0.0''" 4026531840 "''4''" 4]; (simp add: base_eval digits_eval)?)
  apply (subst listed_block [of "''0.0.0.0''" 0 "''32''" 32]; (simp add: base_eval digits_eval)?)
  by (simp add: listed_in_simps(1))

definition blocked :: "nat \<Rightarrow> nat \<Rightarrow> nat \<Rightarrow> nat \<Rightarrow> bool" where
  "blocked a b c d \<longleftrightarrow>
     a = 0 \<or> a = 10 \<or> a = 127 \<or> a = 169 \<and> b = 254 \<or> a = 172 \<and> 16 \<le> b \<and> b < 32 \<or>
     a = 192 \<and> (b = 0 \<and> c = 0 \<and> d \<noteq> 9 \<and> d \<noteq> 10 \<or> b = 0 \<and> c = 2 \<or> b = 168) \<or>
     a = 198 \<and> (b = 18 \<or> b = 19 \<or> b = 51 \<and> c = 100) \<or> a = 203 \<and> b = 0 \<and> c = 113 \<or> 224 \<le> a"

definition quad_word :: "nat \<Rightarrow> nat \<Rightarrow> nat \<Rightarrow> nat \<Rightarrow> 32 word" where
  "quad_word a b c d = of_nat (((a * 256 + b) * 256 + c) * 256 + d)"

lemma unat_quad:
  assumes "a < 256" "b < 256" "c < 256" "d < 256"
  shows "unat (quad_word a b c d) = ((a * 256 + b) * 256 + c) * 256 + d"
proof -
  have "((a * 256 + b) * 256 + c) * 256 + d < 2 ^ LENGTH(32)" using assms by simp
  then show ?thesis unfolding quad_word_def by (simp only: unat_of_nat mod_less)
qed

lemma radix: "r < k \<Longrightarrow> q * k + r = n \<longleftrightarrow> q = n div k \<and> r = n mod k" for q r k n :: nat
  by (auto simp: mult.commute)

lemma quad_blocks:
  assumes "a < 256" "b < 256" "c < 256" "d < 256"
  shows "in_block n 4 (quad_word a b c d) \<longleftrightarrow> a div 16 = unat n div 268435456"
    "in_block n 8 (quad_word a b c d) \<longleftrightarrow> a = unat n div 16777216"
    "in_block n 12 (quad_word a b c d) \<longleftrightarrow> a = unat n div 1048576 div 16 \<and> b div 16 = unat n div 1048576 mod 16"
    "in_block n 15 (quad_word a b c d) \<longleftrightarrow> a = unat n div 131072 div 128 \<and> b div 2 = unat n div 131072 mod 128"
    "in_block n 16 (quad_word a b c d) \<longleftrightarrow> a = unat n div 65536 div 256 \<and> b = unat n div 65536 mod 256"
    "in_block n 24 (quad_word a b c d) \<longleftrightarrow>
       (a = unat n div 256 div 256 div 256 \<and> b = unat n div 256 div 256 mod 256) \<and> c = unat n div 256 mod 256"
    "in_block n 31 (quad_word a b c d) \<longleftrightarrow>
       ((a = unat n div 2 div 128 div 256 div 256 \<and> b = unat n div 2 div 128 div 256 mod 256) \<and>
        c = unat n div 2 div 128 mod 256) \<and> d div 2 = unat n div 2 mod 128"
    "in_block n 32 (quad_word a b c d) \<longleftrightarrow>
       ((a = unat n div 256 div 256 div 256 \<and> b = unat n div 256 div 256 mod 256) \<and> c = unat n div 256 mod 256) \<and>
       d = unat n mod 256"
proof -
  let ?n = "((a * 256 + b) * 256 + c) * 256 + d"
  have q: "(q * 256 + r) div 256 = q" if "r < 256" for q r :: nat using that by simp
  have s: "(q * 256 + r) div 16 = q * 16 + r div 16" "(q * 256 + r) div 2 = q * 128 + r div 2" for q r :: nat
    by presburger+
  have d8: "?n div 256 = (a * 256 + b) * 256 + c" by (rule q [OF assms(4)])
  have split: "m div 65536 = m div 256 div 256" "m div 16777216 = m div 65536 div 256" "m div 268435456 = m div 16777216 div 16"
      "m div 1048576 = m div 65536 div 16" "m div 131072 = m div 65536 div 2" for m :: nat
    by (simp_all add: div_mult2_eq [symmetric])
  have d16: "?n div 65536 = a * 256 + b" unfolding split(1) d8 by (rule q [OF assms(3)])
  have d24: "?n div 16777216 = a" unfolding split(2) d16 by (rule q [OF assms(2)])
  have d: "?n div 268435456 = a div 16" "?n div 1048576 = a * 16 + b div 16" "?n div 131072 = a * 128 + b div 2"
    unfolding split(3-5) d16 d24 by (rule refl s)+
  have d2: "?n div 2 = ((a * 256 + b) * 256 + c) * 128 + d div 2" by (rule s(2))
  note d = d d8 d16 d24 d2
  have l: "b div 16 < 16" "b div 2 < 128" "d div 2 < 128" using assms by auto
  have w: "2 ^ (32 - 4) = (268435456 :: nat)" "2 ^ (32 - 8) = (16777216 :: nat)" "2 ^ (32 - 12) = (1048576 :: nat)"
      "2 ^ (32 - 15) = (131072 :: nat)" "2 ^ (32 - 16) = (65536 :: nat)" "2 ^ (32 - 24) = (256 :: nat)"
      "2 ^ (32 - 31) = (2 :: nat)" "2 ^ (32 - 32) = (1 :: nat)"
    by simp_all
  note i = in_block_def unat_quad [OF assms] w div_by_1 d
  show "in_block n 4 (quad_word a b c d) \<longleftrightarrow> a div 16 = unat n div 268435456"
    "in_block n 8 (quad_word a b c d) \<longleftrightarrow> a = unat n div 16777216" by (simp_all only: i)
  show "in_block n 12 (quad_word a b c d) \<longleftrightarrow> a = unat n div 1048576 div 16 \<and> b div 16 = unat n div 1048576 mod 16"
    unfolding radix [OF l(1), symmetric] by (simp only: i)
  show "in_block n 15 (quad_word a b c d) \<longleftrightarrow> a = unat n div 131072 div 128 \<and> b div 2 = unat n div 131072 mod 128"
    unfolding radix [OF l(2), symmetric] by (simp only: i)
  show "in_block n 16 (quad_word a b c d) \<longleftrightarrow> a = unat n div 65536 div 256 \<and> b = unat n div 65536 mod 256"
    unfolding radix [OF assms(2), symmetric] by (simp only: i)
  show "in_block n 24 (quad_word a b c d) \<longleftrightarrow>
       (a = unat n div 256 div 256 div 256 \<and> b = unat n div 256 div 256 mod 256) \<and> c = unat n div 256 mod 256"
    unfolding radix [OF assms(2), symmetric] radix [OF assms(3), symmetric] by (simp only: i)
  show "in_block n 31 (quad_word a b c d) \<longleftrightarrow>
       ((a = unat n div 2 div 128 div 256 div 256 \<and> b = unat n div 2 div 128 div 256 mod 256) \<and>
        c = unat n div 2 div 128 mod 256) \<and> d div 2 = unat n div 2 mod 128"
    unfolding radix [OF assms(2), symmetric] radix [OF assms(3), symmetric] radix [OF l(3), symmetric] by (simp only: i)
  show "in_block n 32 (quad_word a b c d) \<longleftrightarrow>
       ((a = unat n div 256 div 256 div 256 \<and> b = unat n div 256 div 256 mod 256) \<and> c = unat n div 256 mod 256) \<and>
       d = unat n mod 256"
    unfolding radix [OF assms(2), symmetric] radix [OF assms(3), symmetric] radix [OF assms(4), symmetric] by (simp only: i)
qed

lemma div_is: "0 < k \<Longrightarrow> n div k = q \<longleftrightarrow> q * k \<le> n \<and> n < q * k + k" for n k q :: nat
  using dividend_less_div_times [of k n] div_times_less_eq_dividend [of n k]
  by (auto simp: mult.commute intro!: div_nat_eqI)

lemma nibbles:
  fixes a :: nat
  shows "a div 16 = 15 \<longleftrightarrow> 240 \<le> a \<and> a < 256" "a div 16 = 14 \<longleftrightarrow> 224 \<le> a \<and> a < 240"
    "a div 16 = Suc 0 \<longleftrightarrow> 16 \<le> a \<and> a < 32" "a div 2 = 9 \<longleftrightarrow> a = 18 \<or> a = 19"
    "a div 2 = 85 \<longleftrightarrow> a = 170 \<or> a = 171"
  by (simp_all add: div_is) auto

lemma quad_private_blocks:
  assumes "a < 256" "b < 256" "c < 256" "d < 256"
  shows "in_block 0 8 (quad_word a b c d) \<longleftrightarrow> a = 0"
    "in_block 167772160 8 (quad_word a b c d) \<longleftrightarrow> a = 10"
    "in_block 2130706432 8 (quad_word a b c d) \<longleftrightarrow> a = 127"
    "in_block 2851995648 16 (quad_word a b c d) \<longleftrightarrow> a = 169 \<and> b = 254"
    "in_block 2886729728 12 (quad_word a b c d) \<longleftrightarrow> a = 172 \<and> b div 16 = Suc 0"
    "in_block 3221225472 24 (quad_word a b c d) \<longleftrightarrow> (a = 192 \<and> b = 0) \<and> c = 0"
    "in_block 3221225642 31 (quad_word a b c d) \<longleftrightarrow> ((a = 192 \<and> b = 0) \<and> c = 0) \<and> d div 2 = 85"
    "in_block 3221225984 24 (quad_word a b c d) \<longleftrightarrow> (a = 192 \<and> b = 0) \<and> c = 2"
    "in_block 3232235520 16 (quad_word a b c d) \<longleftrightarrow> a = 192 \<and> b = 168"
    "in_block 3323068416 15 (quad_word a b c d) \<longleftrightarrow> a = 198 \<and> b div 2 = 9"
    "in_block 3325256704 24 (quad_word a b c d) \<longleftrightarrow> (a = 198 \<and> b = 51) \<and> c = 100"
    "in_block 3405803776 24 (quad_word a b c d) \<longleftrightarrow> (a = 203 \<and> b = 0) \<and> c = 113"
    "in_block 4026531840 4 (quad_word a b c d) \<longleftrightarrow> a div 16 = 15"
    "in_block 4294967295 32 (quad_word a b c d) \<longleftrightarrow> ((a = 255 \<and> b = 255) \<and> c = 255) \<and> d = 255"
  by (simp_all add: quad_blocks [OF assms])

lemma quad_private:
  assumes "a < 256" "b < 256" "c < 256" "d < 256"
  shows "listed_in (V4 (quad_word a b c d)) private4 \<longleftrightarrow>
      a = 0 \<or> a = 10 \<or> a = 127 \<or> a = 169 \<and> b = 254 \<or> a = 172 \<and> b div 16 = Suc 0 \<or>
      (a = 192 \<and> b = 0) \<and> c = 0 \<or> ((a = 192 \<and> b = 0) \<and> c = 0) \<and> d div 2 = 85 \<or> (a = 192 \<and> b = 0) \<and> c = 2 \<or>
      a = 192 \<and> b = 168 \<or> a = 198 \<and> b div 2 = 9 \<or> (a = 198 \<and> b = 51) \<and> c = 100 \<or>
      (a = 203 \<and> b = 0) \<and> c = 113 \<or> a div 16 = 15 \<or> ((a = 255 \<and> b = 255) \<and> c = 255) \<and> d = 255"
  by (simp only: private4_blocks quad_private_blocks [OF assms])

lemma quad_special:
  assumes "a < 256" "b < 256" "c < 256" "d < 256"
  shows "listed_in (V4 (quad_word a b c d)) special4 \<longleftrightarrow>
      a = 127 \<or> a = 169 \<and> b = 254 \<or> a div 16 = 14 \<or> a div 16 = 15 \<or> ((a = 0 \<and> b = 0) \<and> c = 0) \<and> d = 0"
  unfolding special4_blocks quad_blocks [OF assms] by simp

lemma quad_exception:
  assumes "a < 256" "b < 256" "c < 256" "d < 256"
  shows "listed_in (V4 (quad_word a b c d)) private4_but \<longleftrightarrow>
      ((a = 192 \<and> b = 0) \<and> c = 0) \<and> d = 9 \<or> ((a = 192 \<and> b = 0) \<and> c = 0) \<and> d = 10"
  unfolding private4_but_blocks quad_blocks [OF assms] by simp

lemma not_public_quad:
  assumes "a < 256" "b < 256" "c < 256" "d < 256"
  shows "not_public (V4 (quad_word a b c d)) \<longleftrightarrow> blocked a b c d"
proof (cases "a = 192 \<and> b = 0 \<and> c = 0")
  case True
  then show ?thesis
    unfolding not_public.simps quad_private [OF assms] quad_special [OF assms] quad_exception [OF assms] blocked_def by auto
next
  case False
  have h: "224 \<le> a \<longleftrightarrow> a div 16 = 14 \<or> a div 16 = 15" using assms(1) by (auto simp: nibbles)
  have l: "(16 \<le> b \<and> b < 32) = (b div 16 = Suc 0)" "(b = 18 \<or> b = 19) = (b div 2 = 9)" by (simp_all add: nibbles)
  have e: "((a = 192 \<and> b = 0) \<and> c = 0) = False" using False by blast
  note u = not_public.simps quad_private [OF assms] quad_special [OF assms] quad_exception [OF assms] blocked_def e simp_thms h
  consider "a = 172" | "a = 192" | "a = 198" | "a \<notin> {172, 192, 198}" by blast
  then show ?thesis
  proof cases
    case 1
    then show ?thesis using l unfolding u by simp
  next
    case 2
    then show ?thesis using False unfolding u by auto
  next
    case 3
    then show ?thesis using l unfolding u by auto
  next
    case 4
    then show ?thesis unfolding u by auto
  qed
qed

subsection \<open>The guard\<close>

definition host_char :: "char \<Rightarrow> bool" where
  "host_char c = (is_digit c \<or> c = CHR ''.'')"

lemma host_charE:
  assumes "host_char c"
  shows "\<not> char_in 0 32 c" "of_char c \<notin> {9, 10, 13 :: nat}" "lo_char c = c" "\<not> is_space c"
    "c \<notin> {CHR ''/'', CHR ''?'', CHR ''#'', CHR ''@'', CHR '':'', CHR ''['', CHR '']'', CHR ''%''}"
  using assms by (auto simp: host_char_def is_digit_def char_in_def is_space_def lo_char_def is_upper_def Let_def)

lemma host_chars: "ipv4_int s = Some w \<Longrightarrow> list_all host_char s \<and> s \<noteq> []"
  using ipv4_chars [of s w] by (auto simp: list_all_iff host_char_def) (auto simp: ipv4_int_def octet_def digits_def)

lemma takeWhile_stop: "list_all P s \<Longrightarrow> \<not> P c \<Longrightarrow> takeWhile P (s @ c # r) = s"
  by (simp add: list_all_iff takeWhile_append2)

lemma no_char: "list_all host_char s \<Longrightarrow> x \<in> {CHR ''/'', CHR ''?'', CHR ''#'', CHR ''@'', CHR '':'', CHR ''['', CHR '']'', CHR ''%''} \<Longrightarrow> x \<notin> set s"
  using host_charE(5) by (auto simp: list_all_iff)

lemma hostname_plain:
  assumes "list_all host_char s"
  shows "strip (hostname_of s) = s"
proof -
  have n: "x \<notin> set s" if "x \<in> {CHR ''@'', CHR '':'', CHR ''['', CHR ''%''}" for x using no_char [OF assms] that by auto
  have t: "takeWhile (\<lambda>x. x \<noteq> c) u = u" if "c \<notin> set u" for c and u :: string
    using that by (induction u) auto
  have r: "takeWhile (\<lambda>x. x \<noteq> CHR ''@'') (rev s) = rev s" by (rule t) (use n in simp)
  have l: "lower s = s" using assms host_charE(3) by (auto simp: lower_def list_all_iff intro: map_idI)
  have d: "dropWhile is_space u = u" if "set u \<subseteq> set s" for u
    using assms host_charE(4) that by (cases u) (auto simp: list_all_iff)
  have a: "after_last CHR ''@'' s = s" by (simp add: after_last_def r)
  have "hostname_of s = s"
    unfolding hostname_of_def a Let_def before_char_def using n by (simp add: t l)
  then show ?thesis using d [of s] d [of "rev s"] by (simp add: strip_def)
qed

lemma urlparse_host:
  assumes "sch \<in> set ALLOWED_GIT_SCHEMES" "list_all host_char s"
  shows "\<exists>p. urlparse (sch @ ''://'' @ s @ ''/'' @ rest) = Inr p \<and> u_scheme p = sch \<and> u_netloc p = s"
proof -
  have f: "filter (\<lambda>c. of_char c \<notin> {9, 10, 13 :: nat}) s = s"
    using assms(2) host_charE(2) by (auto simp: list_all_iff intro: filter_True)
  obtain rest' where c: "url_clean (sch @ ''://'' @ s @ ''/'' @ rest) = sch @ ''://'' @ s @ CHR ''/'' # rest'"
    using assms(1) f by (auto simp: url_clean_def ALLOWED_GIT_SCHEMES_def char_in_def)
  have sc: "split_scheme (sch @ ''://'' @ s @ CHR ''/'' # rest') = (sch, ''//'' @ s @ CHR ''/'' # rest')"
    using assms(1)
    by (auto simp: split_scheme_def before_char_def after_char_def ALLOWED_GIT_SCHEMES_def is_letter_def is_lower_def
        char_in_def scheme_char_def lower_def lo_char_def is_upper_def Let_def)
  have n: "takeWhile (\<lambda>c. c \<notin> {CHR ''/'', CHR ''?'', CHR ''#''}) (s @ CHR ''/'' # rest') = s"
    by (rule takeWhile_stop) (use assms(2) host_charE(5) in \<open>auto simp: list_all_iff\<close>)
  have b: "CHR ''['' \<notin> set s" "CHR '']'' \<notin> set s" using no_char [OF assms(2)] by auto
  have sn: "split_netloc (''//'' @ s @ CHR ''/'' # rest') = (s, CHR ''/'' # rest')"
    using n by (simp add: split_netloc_def starts_with_def)
  show ?thesis
    unfolding urlparse_def c sc by (simp add: sn [simplified] b Let_def)
qed

lemma guard_on_address:
  assumes "sch \<in> set ALLOWED_GIT_SCHEMES" "ipv4_int s = Some w"
  shows "validate_git_repo_url R (sch @ ''://'' @ s @ ''/'' @ rest) = refuse_private R [V4 w]"
proof -
  obtain p where p: "urlparse (sch @ ''://'' @ s @ ''/'' @ rest) = Inr p" "u_scheme p = sch" "u_netloc p = s"
    using urlparse_host [OF assms(1)] host_chars [OF assms(2)] by blast
  have s: "strip (hostname_of s) = s" "s \<noteq> []" using hostname_plain host_chars [OF assms(2)] by auto
  have m: "lower s \<notin> {''metadata'', ''metadata.google.internal''}"
  proof -
    have "lower s = s" using host_chars [OF assms(2)] host_charE(3) by (auto simp: lower_def list_all_iff intro: map_idI)
    moreover have "s \<noteq> CHR ''m'' # t" for t using host_chars [OF assms(2)] by (auto simp: host_char_def is_digit_def char_in_def)
    ultimately show ?thesis by auto
  qed
  have a: "ip_address s = Some (V4 w)" using assms(2) by (simp add: ip_address_def)
  show ?thesis
    using assms(1) s m a by (simp add: validate_git_repo_url_def p [simplified] Let_def del: refuse_private.simps)
qed

lemma ipv4_int_quad:
  assumes "a < 256" "b < 256" "c < 256" "d < 256"
  shows "ipv4_int (quad a b c d) = Some (quad_word a b c d)"
proof -
  have n: "CHR ''.'' \<notin> set (nat_text x)" if "x < 256" for x
    using octet_digits [OF octet_nat_text [OF that]] digits_not by (auto simp: is_digit_def char_in_def)
  have "split_on CHR ''.'' [] (quad a b c d) = [nat_text a, nat_text b, nat_text c, nat_text d]"
    using n assms split_on_plain [of "CHR ''.''" "nat_text d" "[]" "[]"] by (simp add: quad_def split_on_plain)
  then show ?thesis using assms by (simp add: ipv4_int_def octet_nat_text quad_word_def)
qed

text \<open>C35: The guard of repository URLs on an IPv4 address: for each scheme it allows, it refuses exactly the
  private, loopback, link-local, documentation, benchmark, multicast and reserved addresses.\<close>
theorem guard_refuses_exactly:
  assumes "sch \<in> set ALLOWED_GIT_SCHEMES" "a < 256" "b < 256" "c < 256" "d < 256"
  shows "validate_git_repo_url R (sch @ ''://'' @ quad a b c d @ ''/'' @ rest) =
     (if blocked a b c d
      then url_refused (''Host resolves to a non-public address: '' @ ip_text R (V4 (quad_word a b c d)))
      else Inr ())"
  using guard_on_address [OF assms(1) ipv4_int_quad [OF assms(2-5)]] not_public_quad [OF assms(2-5)] by simp

definition demo_resolver :: resolver where
  "demo_resolver = \<lparr>getaddrinfo = (\<lambda>h. GaiError), ip_text = (\<lambda>a. ''address''), error_text = (\<lambda>e. ''error'')\<rparr>"

theorem guard_refuses_exactly_witness:
  "validate_git_repo_url demo_resolver (''http'' @ ''://'' @ quad 169 254 169 254 @ ''/'' @ ''latest'') =
     url_refused ''Host resolves to a non-public address: address''"
  using guard_refuses_exactly [of "''http''" 169 254 169 254 demo_resolver "''latest''"]
  by (simp add: ALLOWED_GIT_SCHEMES_def blocked_def demo_resolver_def)

text \<open>C36: What has neither a scheme nor a host is accepted without a look at it: every text that is
  not empty, has no colon or begins with something else than a letter, does not begin with two
  slashes, has no tab or line end, and does not begin with a space or a control character. Among
  them are absolute and relative paths on the server and what \<^verbatim>\<open>git clone\<close> takes for an option.\<close>
theorem schemeless_urls_accepted:
  assumes "u \<noteq> []" "CHR '':'' \<notin> set u \<or> \<not> is_letter (hd u)" "\<not> starts_with u ''//''"
    and "\<not> char_in 0 32 (hd u)" "list_all (\<lambda>c. of_char c \<notin> {9, 10, 13 :: nat}) u"
  shows "validate_git_repo_url R u = Inr ()"
proof -
  obtain x r where u: "u = x # r" using assms(1) by (cases u) auto
  have "filter (\<lambda>c. of_char c \<notin> {9, 10, 13 :: nat}) u = u"
    using assms(5) by (simp add: filter_id_conv list_all_iff)
  then have c: "url_clean u = u" using assms(4) by (simp add: url_clean_def u)
  have "CHR '':'' \<in> set u \<Longrightarrow> before_char CHR '':'' u \<noteq> [] \<Longrightarrow> \<not> is_letter (hd (before_char CHR '':'' u))"
    using assms(2) by (auto simp: u before_char_def split: if_splits)
  then have sc: "split_scheme u = ([], u)" by (auto simp: split_scheme_def Let_def)
  have n: "split_netloc u = ([], u)" using assms(3) by (simp add: split_netloc_def)
  show ?thesis using assms(1)
    by (simp add: validate_git_repo_url_def urlparse_def c sc n Let_def hostname_of_def after_last_def before_char_def
        lower_def strip_def)
qed

theorem schemeless_urls_accepted_witness:
  "validate_git_repo_url demo_resolver ''/etc/secret'' = Inr () \<and> validate_git_repo_url demo_resolver ''repos/x'' = Inr () \<and>
   validate_git_repo_url demo_resolver ''--upload-pack=x'' = Inr ()"
  by (intro conjI schemeless_urls_accepted)
    (simp_all add: is_letter_def is_lower_def is_upper_def char_in_def starts_with_def)

subsection \<open>Messages\<close>

definition starts_web :: "char \<Rightarrow> bool" where
  "starts_web c = (lo_char c = CHR ''h'')"

lemma cred_match_head: "cred_match (c # t) = Some r \<Longrightarrow> starts_web c"
  by (auto simp: cred_match_def web_prefix_def Let_def lower_def starts_web_def split: if_splits)

lemma scrub_step: "\<not> starts_web c \<Longrightarrow> scrub_credentials (c # t) = c # scrub_credentials t"
  using cred_match_head by (auto simp: scrub_credentials.simps split: option.split)

lemma cred_matchD:
  assumes "cred_match t = Some (n, m)"
  obtains seg r where "n = web_prefix t" "n \<noteq> 0" "t = take n t @ seg @ CHR ''@'' # r" "length (take n t) = n" "seg \<noteq> []"
    "list_all cred_char seg" "drop m t = r" "m = n + length seg + 1"
proof -
  define seg where "seg = takeWhile cred_char (drop n t)"
  define r where "r = dropWhile cred_char (drop n t)"
  have d: "drop n t = seg @ r" by (simp add: r_def seg_def)
  have "drop (n + length seg) t = r" by (simp add: d drop_drop [symmetric] add.commute [of n])
  moreover have n: "n = web_prefix t" using assms by (auto simp: cred_match_def Let_def split: if_splits)
  ultimately have *: "n = web_prefix t" "n \<noteq> 0" "seg \<noteq> []" "r \<noteq> []" "hd r = CHR ''@''" "m = n + length seg + 1"
    using assms seg_def by (auto simp: cred_match_def Let_def split: if_splits)
  then have r: "r = CHR ''@'' # tl r" by (cases r) auto
  have t: "t = take n t @ seg @ CHR ''@'' # tl r" using d r by (metis append_take_drop_id)
  have "drop m t = drop (Suc (length seg)) (drop n t)" by (simp add: *(6) add.commute)
  also have "\<dots> = tl r" unfolding d by (subst r) simp
  finally have dm: "drop m t = tl r" .
  have l: "length (take n t) = n" using d *(4) by (cases "n \<le> length t") auto
  have c: "list_all cred_char seg" by (auto simp: seg_def list_all_iff dest: set_takeWhileD)
  show thesis using that [OF *(1,2) t l *(3) c dm *(6)] .
qed

lemma cred_matchI:
  assumes "web_prefix (p @ u) = length p" "p \<noteq> []" "seg \<noteq> []" "list_all cred_char seg" "u = seg @ CHR ''@'' # r"
  shows "cred_match (p @ u) = Some (length p, length p + length seg + 1)"
proof -
  have "takeWhile cred_char u = seg"
    unfolding assms(5) using assms(4) by (subst takeWhile_append2) (auto simp: list_all_iff cred_char_def)
  then show ?thesis using assms(1,2,3) unfolding cred_match_def by (simp add: Let_def assms(5))
qed

lemma web_prefix_cut: "web_prefix t = n \<Longrightarrow> n \<noteq> 0 \<Longrightarrow> web_prefix (take n t @ u) = n \<and> length (take n t) = n"
  by (auto simp: web_prefix_def lower_def split: if_splits dest!: arg_cong [of _ _ length])

lemma web_prefix_inner:
  assumes "web_prefix t = n" "n \<noteq> 0"
  obtains c p where "take n t = c # p" "starts_web c" "list_all (\<lambda>x. \<not> starts_web x) p"
proof -
  have "lower (take n t) = ''https://'' \<or> lower (take n t) = ''http://''"
    using assms by (auto simp: web_prefix_def split: if_splits)
  then show thesis
    by (elim disjE) (auto simp: lower_def map_eq_Cons_conv starts_web_def intro!: that)
qed

lemma scrub_plain: "list_all (\<lambda>x. \<not> starts_web x) p \<Longrightarrow> scrub_credentials (p @ t) = p @ scrub_credentials t"
  by (induction p) (simp_all add: scrub_step)

lemma scrub_match:
  assumes "cred_match t = Some (n, m)"
  shows "scrub_credentials t = take n t @ ''***@'' @ scrub_credentials (drop m t)"
proof (cases t)
  case Nil
  then show ?thesis using assms by (auto elim!: cred_matchD)
qed (use assms in \<open>simp add: scrub_credentials.simps\<close>)

lemma hd_scrub: "t \<noteq> [] \<Longrightarrow> scrub_credentials t \<noteq> [] \<and> hd (scrub_credentials t) = hd t"
proof (cases "cred_match t")
  case None
  then show "t \<noteq> [] \<Longrightarrow> ?thesis" by (cases t) (simp_all add: scrub_credentials.simps)
next
  case (Some r)
  obtain n m where r: "r = (n, m)" by (cases r)
  then have "take n t \<noteq> []" using Some by (auto elim!: cred_matchD)
  then show ?thesis using scrub_match Some r by auto
qed

lemma scrub_unplain:
  "scrub_credentials t = p @ y \<Longrightarrow> list_all (\<lambda>x. \<not> starts_web x) p \<Longrightarrow> \<exists>t'. t = p @ t' \<and> y = scrub_credentials t'"
proof (induction p arbitrary: t)
  case (Cons c p)
  have "t \<noteq> []" using Cons.prems by (auto simp: scrub_credentials.simps)
  then obtain t0 where t: "t = c # t0" using hd_scrub [of t] Cons.prems by (cases t) auto
  then have "scrub_credentials t0 = p @ y" using Cons.prems scrub_step [of c t0] by simp
  then show ?case using Cons.IH Cons.prems t by auto
qed simp

lemma dropWhile_grow: "dropWhile P xs = y # ys \<Longrightarrow> dropWhile P (xs @ u) = y # ys @ u"
  by (induction xs) (auto split: if_splits)

lemma of_lo_char: "is_upper c \<Longrightarrow> of_char (lo_char c) = of_char c + (32::nat)"
  by (simp add: lo_char_def is_upper_def char_in_def Let_def)

lemma lo_char_fixed:
  assumes "of_char d < (97::nat)" "\<not> is_upper d"
  shows "lo_char c = d \<longleftrightarrow> c = d"
proof (cases "is_upper c")
  case True
  then have "of_char (lo_char c) \<ge> (97::nat)" using of_lo_char [OF True] by (simp add: is_upper_def char_in_def Let_def)
  then show ?thesis using assms True by auto
qed (simp add: lo_char_def)

lemma lo_char_slash: "lo_char c = CHR ''/'' \<longleftrightarrow> c = CHR ''/''"
  by (rule lo_char_fixed) (simp_all add: is_upper_def char_in_def)

lemma web_prefix_slash:
  assumes "web_prefix t = n" "n \<noteq> 0"
  shows "\<exists>b. dropWhile (\<lambda>x. x \<noteq> CHR ''/'' \<and> x \<noteq> CHR ''@'') (take n t) = CHR ''/'' # b"
proof -
  have "lower (take n t) = ''https://'' \<or> lower (take n t) = ''http://''"
    using assms by (auto simp: web_prefix_def split: if_splits)
  then have "dropWhile (\<lambda>x. lo_char x \<noteq> CHR ''/'' \<and> lo_char x \<noteq> CHR ''@'') (take n t) \<noteq> [] \<and>
      lo_char (hd (dropWhile (\<lambda>x. lo_char x \<noteq> CHR ''/'' \<and> lo_char x \<noteq> CHR ''@'') (take n t))) = CHR ''/''"
    by (elim disjE) (auto simp: lower_def map_eq_Cons_conv)
  moreover have "lo_char x = CHR ''@'' \<longleftrightarrow> x = CHR ''@''" for x
    by (rule lo_char_fixed) (simp_all add: is_upper_def char_in_def)
  ultimately have "dropWhile (\<lambda>x. x \<noteq> CHR ''/'' \<and> x \<noteq> CHR ''@'') (take n t) \<noteq> [] \<and>
      hd (dropWhile (\<lambda>x. x \<noteq> CHR ''/'' \<and> x \<noteq> CHR ''@'') (take n t)) = CHR ''/''"
    by (simp add: lo_char_slash)
  then show ?thesis by (cases "dropWhile (\<lambda>x. x \<noteq> CHR ''/'' \<and> x \<noteq> CHR ''@'') (take n t)") auto
qed

lemma scrub_seg:
  "scrub_credentials t = seg @ CHR ''@'' # r \<Longrightarrow> list_all cred_char seg \<Longrightarrow> \<exists>r'. t = seg @ CHR ''@'' # r'"
proof (induction seg arbitrary: t)
  case Nil
  then have "t \<noteq> []" by (auto simp: scrub_credentials.simps(1))
  then have "hd t = CHR ''@''" using hd_scrub [of t] Nil(1) by simp
  then show ?case using \<open>t \<noteq> []\<close> by (cases t) simp_all
next
  case (Cons c seg)
  have "t \<noteq> []" using Cons.prems by (auto simp: scrub_credentials.simps)
  then obtain t0 where t: "t = c # t0" using hd_scrub [of t] Cons.prems by (cases t) auto
  have "cred_match t = None"
  proof (rule ccontr)
    assume "cred_match t \<noteq> None"
    then obtain n m where m: "cred_match t = Some (n, m)" by auto
    have s: "take n t @ ''***@'' @ scrub_credentials (drop m t) = (c # seg) @ CHR ''@'' # r"
      using Cons.prems(1) scrub_match [OF m] by simp
    let ?P = "\<lambda>x. x \<noteq> CHR ''/'' \<and> x \<noteq> CHR ''@''"
    obtain b where b: "dropWhile ?P (take n t) = CHR ''/'' # b" using web_prefix_slash m by (auto elim!: cred_matchD)
    then have 1: "dropWhile ?P (take n t @ ''***@'' @ scrub_credentials (drop m t)) =
        CHR ''/'' # b @ ''***@'' @ scrub_credentials (drop m t)"
      by (rule dropWhile_grow)
    have 2: "dropWhile ?P ((c # seg) @ CHR ''@'' # r) = CHR ''@'' # r"
      using Cons.prems(2) by (subst dropWhile_append2) (auto simp: list_all_iff cred_char_def)
    from 1 [unfolded s] 2 show False by simp
  qed
  then have "scrub_credentials t0 = seg @ CHR ''@'' # r" using Cons.prems(1) t by (simp add: scrub_credentials.simps)
  then show ?case using Cons.IH Cons.prems t by auto
qed

lemma scrub_no_new_match:
  assumes "cred_match t = None"
  shows "cred_match (scrub_credentials t) = None"
proof (rule ccontr)
  assume "cred_match (scrub_credentials t) \<noteq> None"
  then obtain n m where m: "cred_match (scrub_credentials t) = Some (n, m)" by auto
  obtain seg r where x: "n = web_prefix (scrub_credentials t)" "n \<noteq> 0"
      "scrub_credentials t = take n (scrub_credentials t) @ seg @ CHR ''@'' # r"
      "length (take n (scrub_credentials t)) = n" "seg \<noteq> []" "list_all cred_char seg"
    using m by (rule cred_matchD)
  obtain c p where cp: "take n (scrub_credentials t) = c # p" "list_all (\<lambda>x. \<not> starts_web x) p"
    using web_prefix_inner [OF x(1) [symmetric] x(2)] by metis
  have "t \<noteq> []" using x(3) cp(1) by (auto simp: scrub_credentials.simps)
  then obtain t0 where t: "t = c # t0" using hd_scrub [of t] x(3) cp(1) by (cases t) auto
  then have s0: "scrub_credentials t0 = p @ seg @ CHR ''@'' # r"
    using assms x(3) cp(1) by (simp add: scrub_credentials.simps)
  obtain t1 where t1: "t0 = p @ t1" "scrub_credentials t1 = seg @ CHR ''@'' # r"
    using scrub_unplain [OF s0 cp(2)] by auto
  obtain r' where r': "t1 = seg @ CHR ''@'' # r'" using scrub_seg [OF t1(2) x(6)] by auto
  have "web_prefix (take n (scrub_credentials t) @ t1) = n" using web_prefix_cut [OF x(1) [symmetric] x(2)] by simp
  then have "cred_match ((c # p) @ t1) \<noteq> None"
    using cred_matchI [of "c # p" t1 seg r'] x(4,5,6) r' cp(1) by auto
  then show False using assms t t1(1) by simp
qed

text \<open>Wherever a scrubbed text has something that looks like user information in a web address, it is the
  three stars.\<close>
lemma scrubbed_text_is_clean:
  "scrub_credentials t = a @ b \<Longrightarrow> cred_match b = Some (n, m) \<Longrightarrow> take (m - n) (drop n b) = ''***@''"
proof (induction t arbitrary: a rule: scrub_credentials.induct)
  case 1
  then show ?case by (auto simp: scrub_credentials.simps cred_match_def web_prefix_def)
next
  case (2 c t)
  note IH2 = 2
  then show ?case
  proof (cases "cred_match (c # t)")
    case None
    have s: "scrub_credentials (c # t) = c # scrub_credentials t" using None by (simp add: scrub_credentials.simps)
    have "a \<noteq> []" using scrub_no_new_match [OF None] 2 by auto
    then obtain a' where "scrub_credentials t = a' @ b" using 2(3) s by (cases a) auto
    then show ?thesis using 2 None by auto
  next
    case (Some r0)
    obtain k l where kl: "cred_match (c # t) = Some (k, l)" using Some by (cases r0) auto
    obtain seg r where x: "k = web_prefix (c # t)" "k \<noteq> 0" "length (take k (c # t)) = k"
      using kl by (rule cred_matchD)
    obtain c' p where cp: "take k (c # t) = c' # p" "list_all (\<lambda>x. \<not> starts_web x) p"
      using web_prefix_inner [OF x(1) [symmetric] x(2)] by metis
    define q where "q = p @ ''***@''"
    define w where "w = scrub_credentials (drop l (c # t))"
    have s: "c' # q @ w = a @ b" using scrub_match [OF kl] 2(3) cp(1) by (simp add: q_def w_def)
    have q: "list_all (\<lambda>x. \<not> starts_web x) q" using cp(2) by (simp add: q_def starts_web_def lo_char_def is_upper_def char_in_def)
    show ?thesis
    proof (cases a)
      case Nil
      have "web_prefix b = k" using web_prefix_cut [OF x(1) [symmetric] x(2), of "''***@'' @ w"] s Nil cp(1) by (simp add: q_def)
      then have "cred_match b = Some (k, k + 3 + 1)"
        using cred_matchI [of "c' # p" "''***@'' @ w" "''***''" w] s Nil cp(1) x(3)
        by (simp add: q_def cred_char_def is_space_def char_in_def)
      moreover have "take 4 (drop k b) = ''***@''" using s Nil cp(1) x(3) by (auto simp: q_def)
      ultimately show ?thesis using 2(4) by simp
    next
      case (Cons y a1)
      then have s1: "q @ w = a1 @ b" using s by simp
      show ?thesis
      proof (cases "length q \<le> length a1")
        case True
        then have "w = drop (length q) a1 @ b" using s1 by (metis append_eq_append_conv_if append_eq_conv_conj)
        then show ?thesis using 2(1,2) kl 2(4) unfolding w_def by blast
      next
        case False
        then obtain z where "q = a1 @ z" "z \<noteq> []" "b = z @ w"
          using s1 by (auto simp: append_eq_append_conv2)
        then have "\<not> starts_web (hd b)" "b \<noteq> []" using q by (cases z; auto)+
        then show ?thesis using 2(4) cred_match_head by (cases b) auto
      qed
    qed
  qed
qed

lemma web_prefix_at: "lower p \<in> {''http://'', ''https://''} \<Longrightarrow> web_prefix (p @ u) = length p \<and> p \<noteq> []"
  by (auto simp: web_prefix_def lower_def map_eq_Cons_conv split: list.split)

lemma scrubbed_userinfo:
  assumes "scrub_credentials t = a @ p @ x @ ''@'' @ r" "lower p \<in> {''http://'', ''https://''}" "x \<noteq> []" "list_all cred_char x"
  shows "x = ''***''"
proof -
  have w: "web_prefix (p @ x @ ''@'' @ r) = length p" "p \<noteq> []" using web_prefix_at [OF assms(2)] by auto
  have "cred_match (p @ x @ ''@'' @ r) = Some (length p, length p + length x + 1)"
    using cred_matchI [OF w assms(3,4), of r] by simp
  from scrubbed_text_is_clean [OF assms(1) this] have "x @ ''@'' = ''***'' @ ''@''" by simp
  then show ?thesis by (simp only: append_same_eq)
qed

lemma capitals: "\<not> starts_web CHR ''A''" "\<not> starts_web CHR ''C''"
  by code_simp+

lemma scrub_clone_failed: "scrub_credentials (''Clone failed: '' @ t) = ''Clone failed: '' @ scrub_credentials t"
  "scrub_credentials ''Clone operation timed out'' = ''Clone operation timed out''"
  using scrub_plain [of "''Clone operation timed out''" "[]"]
  by (simp_all add: scrub_step capitals) (simp_all add: scrub_step starts_web_def lo_char_def is_upper_def char_in_def scrub_credentials.simps(1))

lemma scrub_auth_failed: "scrub_credentials (''Authentication failed: '' @ t) = ''Authentication failed: '' @ scrub_credentials t"
proof -
  have "cred_match (CHR ''h'' # ''entication failed: '' @ t) = None"
    by (simp add: cred_match_def web_prefix_def lower_def lo_char_def is_upper_def char_in_def)
  then have "scrub_credentials (CHR ''h'' # ''entication failed: '' @ t) = CHR ''h'' # scrub_credentials (''entication failed: '' @ t)"
    by (simp add: scrub_credentials.simps(2))
  then show ?thesis
    by (simp add: scrub_step capitals) (simp add: scrub_step starts_web_def lo_char_def is_upper_def char_in_def)
qed

lemma token_with_slash_shown: "scrub_credentials ''https://a/b@h'' = ''https://a/b@h''"
  by code_simp

end
