(* ===== verification/GitSourceProps.thy ===== *)
theory GitSourceProps
  imports GitSource GitUrlProps SyncRepo
begin

text \<open>
  The repository cache: which errors it can report, what that means for the synchronisation built on
  it, how many commands it runs, where its result lies, and what becomes of credentials.
\<close>

subsection \<open>A missing secret\<close>

definition secret_found :: "(git_error + 'a) \<Rightarrow> bool" where
  \<comment> \<open>any outcome but the error of a missing secret\<close>
  "secret_found r = (case r of Inl (GitSourceError c m) \<Rightarrow> c \<noteq> ''SECRET_NOT_FOUND'' | _ \<Rightarrow> True)"

lemma secret_found_simps [simp]:
  "secret_found (Inr x)" "secret_found (Inl (GitOther m))"
  "secret_found (Inl (GitSourceError c m)) \<longleftrightarrow> c \<noteq> ''SECRET_NOT_FOUND''"
  by (simp_all add: secret_found_def)

lemma secret_found_Inl: "secret_found (Inl e :: git_error + 'a) \<Longrightarrow> secret_found (Inl e :: git_error + 'b)"
  by (cases e) simp_all

lemma then_do_found:
  "secret_found (snd r) \<Longrightarrow> (\<And>x s. secret_found (snd (f x s))) \<Longrightarrow> secret_found (snd (then_do r f))"
  by (cases r; cases "snd r") (auto simp: then_do_def intro: secret_found_Inl)

lemma find_secret_found: "secret_found (find_secret H pid i)"
  by (auto simp: find_secret_def global_secret_def project_secret_def load_failed_def Let_def
      split: option.split sum.split jfile.split)

lemma setup_ssh_found: "secret_found (snd (setup_ssh_auth H now d i fs))"
  by (auto simp: setup_ssh_auth_def Let_def unsupported_def split: sum.split json.split)

lemma get_auth_env_found: "secret_found (snd (get_auth_env H now pid auth fs))"
  using find_secret_found [of H pid]
  by (auto simp: get_auth_env_def Let_def unsupported_def setup_ssh_found
      split: sum.split json.split prod.split) (metis secret_found_Inl)

lemma git_vars_found: "secret_found (snd (git_vars_for H now pid auth s))"
  using get_auth_env_found [of H now pid auth "snd s"] by (auto simp: git_vars_for_def split: prod.split)

lemma refuse_private_found: "secret_found (refuse_private R as)"
  by (induction as) auto

lemma validate_found: "secret_found (validate_git_repo_url R u)"
  by (auto simp: validate_git_repo_url_def Let_def refuse_private_found split: sum.split option.split addresses.split)

lemma git_clone_found: "secret_found (snd (git_clone H now pid u auth cache s))"
  unfolding git_clone_def
  by (auto simp: Let_def intro!: then_do_found git_vars_found split: prod.split option.split run.split)

lemma git_fetch_found: "secret_found (snd (git_fetch H now pid auth cache s))"
  unfolding git_fetch_def by (auto intro!: then_do_found git_vars_found split: prod.split run.split)

lemma ref_run_found: "secret_found (snd (ref_run H cache ref env args s))"
  by (auto simp: ref_run_def ref_error_def split: prod.split run.split)

lemma ref_result_found: "secret_found (snd (ref_result ref r s))"
  by (auto simp: ref_result_def ref_error_def split: prod.split)

lemma checkout_vars_found: "secret_found (snd (checkout_vars H now pid auth ref s))"
  using git_vars_found [of H now pid auth s]
  by (auto simp: checkout_vars_def ref_error_def split: prod.split sum.split git_error.split)

lemma checkout_fetched_found: "secret_found (snd (checkout_fetched H cache ref s))"
  unfolding checkout_fetched_def
  by (auto intro!: then_do_found ref_run_found ref_result_found split: prod.split)

lemma checkout_cached_found: "secret_found (snd (checkout_cached H now pid auth cache ref s))"
  unfolding checkout_cached_def
  by (auto intro!: then_do_found ref_run_found ref_result_found checkout_vars_found split: prod.split)

lemma clone_or_fetch_found: "secret_found (snd (clone_or_fetch H now pid u ref auth force s))"
  using validate_found [of "gs_resolver H" u]
  by (auto simp: clone_or_fetch_def Let_def split: sum.split
      intro!: then_do_found git_clone_found git_fetch_found checkout_fetched_found checkout_cached_found
      intro: secret_found_Inl)

text \<open>C38: Whatever is configured and whatever git answers, a missing secret is never reported as
  \<^verbatim>\<open>SECRET_NOT_FOUND\<close>: the look for the file fails on None before the check that would raise it.\<close>
theorem missing_secret_never_reported:
  "snd (resolve_git H now pid key u ref subdir auth force s) \<noteq> Inl (GitSourceError ''SECRET_NOT_FOUND'' m)"
proof -
  have "secret_found (snd (resolve_git H now pid key u ref subdir auth force s))"
    unfolding resolve_git_def
    by (rule then_do_found [OF clone_or_fetch_found]) (auto simp: safe_subdir_path_def Let_def split: sum.split)
  then show ?thesis by (metis secret_found_simps(3))
qed

text \<open>So the second attempt of a synchronisation, without the secret, never happens.\<close>
theorem retry_without_secret_is_dead:
  "resolve_or_public (E\<lparr>resolve_path := resolve_git H now\<rparr>) pid url ref subdir auth refresh s =
     (case resolve_git H now pid ''repo'' url ref subdir auth refresh s of
        (s', Inr p) \<Rightarrow> (s', Inr p) | (s', Inl g) \<Rightarrow> (s', Inl (Inl (GitRaised g))))"
proof -
  have "secret_found (snd (resolve_git H now pid ''repo'' url ref subdir auth refresh s))"
    unfolding resolve_git_def
    by (rule then_do_found [OF clone_or_fetch_found]) (auto simp: safe_subdir_path_def Let_def split: sum.split)
  then show ?thesis
    by (auto simp: resolve_or_public_def secret_missing_def secret_found_def split: prod.split sum.split git_error.splits)
qed

subsection \<open>What reaches git\<close>

definition spends :: "('g \<Rightarrow> nat) \<Rightarrow> nat \<Rightarrow> 'g disk \<Rightarrow> 'g disk \<times> 'r \<Rightarrow> bool" where
  "spends c n s r \<longleftrightarrow> c (fst (fst r)) \<le> c (fst s) + n"

lemma spends_refl [simp]: "spends c n s (s, r)"
  by (simp add: spends_def)

lemma spends_mono: "spends c n s r \<Longrightarrow> n \<le> m \<Longrightarrow> spends c m s r"
  by (simp add: spends_def)

lemma spends_then:
  assumes "spends c n s r" "\<And>x s'. spends c k s' (f x s')"
  shows "spends c (n + k) s (then_do r f)"
proof (cases r)
  case (Pair s' r')
  show ?thesis using assms(1) assms(2) [of s' "case r' of Inr x \<Rightarrow> x | Inl e \<Rightarrow> undefined"]
    by (cases r') (auto simp: Pair then_do_def spends_def)
qed

lemmas spends_then_free = spends_then [of c 0 s r k for c s r k, unfolded add_0]

definition counts_git :: "('g \<Rightarrow> nat) \<Rightarrow> 'g git_host \<Rightarrow> bool" where
  \<comment> \<open>a counter in the state of the repositories that a command raises by at most one\<close>
  "counts_git c H \<longleftrightarrow> (\<forall>d env args s. c (fst (fst (gs_exec H d env args s))) \<le> Suc (c (fst s)))"

lemma exec_spends:
  "counts_git c H \<Longrightarrow> gs_exec H d env args s = (s', r) \<Longrightarrow> spends c 1 s (s', q)"
  unfolding counts_git_def spends_def by (metis fst_conv Suc_eq_plus1)

lemma vars_spends: "spends c 0 s (git_vars_for H now pid auth s)"
  by (simp add: git_vars_for_def spends_def split: prod.split)

lemma ref_run_spends: "counts_git c H \<Longrightarrow> spends c 1 s (ref_run H cache ref env args s)"
  by (auto simp: ref_run_def simp del: One_nat_def split: prod.split run.split intro: exec_spends)

lemma ref_result_spends: "spends c 0 s (ref_result ref r s)"
  by (simp add: ref_result_def spends_def split: prod.split)

lemma checkout_vars_spends: "spends c 0 s (checkout_vars H now pid auth ref s)"
  using vars_spends [of c s H now pid auth]
  by (auto simp: checkout_vars_def spends_def split: prod.split sum.split git_error.split)

lemma clone_spends:
  assumes "counts_git c H"
  shows "spends c 1 s (git_clone H now pid u auth cache s)"
proof (cases "mkdir_p (snd s) (butlast cache)")
  case (Pair fs e)
  have v: "spends c 0 s (git_vars_for H now pid auth (fst s, fs))"
    using vars_spends [of c "(fst s, fs)" H now pid auth] by (simp add: spends_def)
  show ?thesis
  proof (cases e)
    case None
    show ?thesis unfolding git_clone_def Pair None prod.case option.case
      by (rule spends_then_free [OF v])
        (auto simp: Let_def simp del: One_nat_def split: prod.split run.split intro: exec_spends [OF assms])
  qed (simp add: git_clone_def Pair spends_def)
qed

lemma fetch_spends:
  assumes "counts_git c H"
  shows "spends c 1 s (git_fetch H now pid auth cache s)"
  unfolding git_fetch_def
  by (rule spends_then_free [OF vars_spends])
    (auto simp del: One_nat_def split: prod.split run.split intro: exec_spends [OF assms])

lemma last_run_spends:
  assumes "counts_git c H"
  shows "spends c 1 s (then_do (ref_run H cache ref env args s) (ref_result ref))"
  using spends_then [OF ref_run_spends [OF assms], of 0] ref_result_spends by (metis add_0_right)

lemma checkout_fetched_spends:
  assumes "counts_git c H"
  shows "spends c 2 s (checkout_fetched H cache ref s)"
  unfolding checkout_fetched_def one_add_one [symmetric]
  by (rule spends_then [OF ref_run_spends [OF assms]]) (simp add: last_run_spends [OF assms] del: One_nat_def split: prod.split)

lemma checkout_cached_spends:
  assumes "counts_git c H"
  shows "spends c 3 s (checkout_cached H now pid auth cache ref s)"
proof -
  have f: "spends c 2 s' (then_do (checkout_vars H now pid auth ref s') (\<lambda>env s.
        then_do (ref_run H cache ref env [''fetch'', ''origin'', ref] s) (\<lambda>(rc', out', err') s.
          if rc' = 0 then then_do (ref_run H cache ref [] [''checkout'', ref] s) (ref_result ref)
          else ref_result ref r s)))" for r s'
    by (rule spends_then_free [OF checkout_vars_spends], unfold one_add_one [symmetric],
        rule spends_then [OF ref_run_spends [OF assms]])
      (auto simp: last_run_spends [OF assms] simp del: One_nat_def intro: spends_mono [OF ref_result_spends] split: prod.split)
  have "spends c (1 + 2) s (checkout_cached H now pid auth cache ref s)"
    unfolding checkout_cached_def
    by (rule spends_then [OF ref_run_spends [OF assms]]) (auto simp: f split: prod.split)
  then show ?thesis by (rule spends_mono) simp
qed

lemma clone_or_fetch_spends:
  assumes "counts_git c H"
  shows "spends c 4 s (clone_or_fetch H now pid u ref auth force s)"
proof -
  let ?cache = "get_cache_dir H pid u"
  define C where "C = (\<not> exists_at (snd s) ?cache \<or> \<not> exists_at (snd s) (?cache @ [''.git'']))"
  define F where "F = (\<not> C \<and> (force \<or> is_cache_stale H now ?cache (snd s)))"
  have a: "spends c (if C then 1 else 0) s (if C then git_clone H now pid u auth ?cache s else (s, Inr ()))"
    using clone_spends [OF assms] by simp
  have b: "spends c (if F then 1 else 0) s' (if F then git_fetch H now pid auth ?cache s' else (s', Inr ()))" for s'
    using fetch_spends [OF assms] by simp
  have d: "spends c (if F then 2 else 3) s' (if ref = [] then (s', Inr ())
       else if F then checkout_fetched H ?cache ref s' else checkout_cached H now pid auth ?cache ref s')" for s'
    using checkout_fetched_spends [OF assms] checkout_cached_spends [OF assms] by simp
  have t: "spends c 4 s (then_do (if C then git_clone H now pid u auth ?cache s else (s, Inr ())) (\<lambda>_ s.
          then_do (if F then git_fetch H now pid auth ?cache s else (s, Inr ())) (\<lambda>_ s.
          then_do (if ref = [] then (s, Inr ()) else if F then checkout_fetched H ?cache ref s
                   else checkout_cached H now pid auth ?cache ref s) (\<lambda>_ s. (s, Inr ?cache)))))"
    by (rule spends_mono [OF spends_then [OF a spends_then [OF b spends_then [OF d spends_refl [of c 0]]]]]) (simp add: F_def)
  show ?thesis
  proof (cases "validate_git_repo_url (gs_resolver H) u")
    case (Inr x)
    show ?thesis using t unfolding clone_or_fetch_def Let_def Inr sum.case C_def [symmetric] F_def [symmetric] .
  qed (simp add: clone_or_fetch_def)
qed

text \<open>Resolving a source runs at most four git commands, whatever they answer.\<close>
theorem resolve_runs_few_commands:
  assumes "counts_git c H"
  shows "c (fst (fst (resolve_git H now pid key u ref subdir auth force s))) \<le> c (fst s) + 4"
proof -
  have "spends c (4 + 0) s (resolve_git H now pid key u ref subdir auth force s)"
    unfolding resolve_git_def
    by (rule spends_then [OF clone_or_fetch_spends [OF assms]]) (auto simp: Let_def split: sum.split)
  then show ?thesis by (simp add: spends_def)
qed

subsection \<open>The directory\<close>

lemma walk_down: "''..'' \<notin> set ps \<Longrightarrow> walk p ps = p @ ps"
  by (induction ps arbitrary: p) auto

lemma then_do_Inr:
  "then_do r f = (s', Inr y) \<Longrightarrow> \<exists>x s. r = (s, Inr x) \<and> f x s = (s', Inr y)"
  by (cases r; cases "snd r") (auto simp: then_do_def)

lemma clone_or_fetch_path:
  "clone_or_fetch H now pid u ref auth force s = (s', Inr p) \<Longrightarrow> p = get_cache_dir H pid u"
  by (auto simp: clone_or_fetch_def Let_def split: sum.splits dest!: then_do_Inr)

text \<open>The path of a resolved source lies in the cache directory of its project and repository, and a
  directory inside it is there.\<close>
theorem resolved_inside_cache:
  assumes "resolve_git H now pid key u ref subdir auth force s = (s', Inr p)" "subdir \<noteq> []"
  shows "prefix (get_cache_dir H pid u) p \<and> ''..'' \<notin> set (drop (length (get_cache_dir H pid u)) p) \<and> exists_at (snd s') p"
proof -
  obtain q s1 where q: "clone_or_fetch H now pid u ref auth force s = (s1, Inr q)"
      "(if subdir = [] then (s1, Inr q)
        else (case safe_subdir_path q subdir of Inl e \<Rightarrow> (s1, Inl e)
         | Inr p \<Rightarrow> (s1, if exists_at (snd s1) p then Inr p
             else Inl (GitSourceError ''SUBDIR_NOT_FOUND'' (''Subdir '' @ subdir @ '' not found in repository''))))) = (s', Inr p)"
    using then_do_Inr [OF assms(1) [unfolded resolve_git_def]] by auto
  then obtain p' where p': "safe_subdir_path q subdir = Inr p'" using assms(2) by (cases "safe_subdir_path q subdir") auto
  then have "p' = p" "s1 = s'" "exists_at (snd s') p" using q(2) assms(2) by (auto split: if_splits)
  moreover have "p' = q @ path_parts subdir" "''..'' \<notin> set (path_parts subdir)"
    using p' assms(2) by (auto simp: safe_subdir_path_def Let_def walk_down split: if_splits)
  ultimately show ?thesis using clone_or_fetch_path [OF q(1)] by auto
qed


subsection \<open>Credentials of an existing clone\<close>

lemma vars_token:
  assumes "gs_globals H = Some look" "look i = Inr (Some d)" "dget d ''type'' = JStr ''git_token''" "truthy (dget d ''token'')"
    "strip i \<noteq> []"
  shows "git_vars_for H now pid (JStr i) s = (s, Inr [(''GIT_TERMINAL_PROMPT'', ''0'')])"
proof -
  have "d \<noteq> []" "has d ''type''" using assms(3) by (auto simp: dget_def has_def split: option.splits)
  then have "getd d ''type'' (JStr []) = JStr ''git_token''" using assms(3) by (simp add: getd_def has_def dget_def split: option.splits)
  moreover have "i \<noteq> []" using assms(5) by (auto simp: strip_def)
  ultimately show ?thesis using assms \<open>d \<noteq> []\<close>
    by (simp add: git_vars_for_def get_auth_env_def find_secret_def global_secret_def)
qed

text \<open>C39: The token of an existing clone is the one it was cloned with: what the secret says now changes
  nothing, neither the commands nor their answers.\<close>
theorem rotated_token_ignored:
  assumes "exists_at (snd s) (get_cache_dir H pid u @ [''.git''])" "exists_at (snd s) (get_cache_dir H pid u)" "strip i \<noteq> []"
    and "gs_globals H = Some look" "look i = Inr (Some d)" "dget d ''type'' = JStr ''git_token''" "truthy (dget d ''token'')"
    and "look' i = Inr (Some d')" "dget d' ''type'' = JStr ''git_token''" "truthy (dget d' ''token'')"
  shows "resolve_git (H\<lparr>gs_globals := Some look'\<rparr>) now pid key u ref subdir (JStr i) force s =
     resolve_git H now pid key u ref subdir (JStr i) force s"
proof -
  let ?H = "H\<lparr>gs_globals := Some look'\<rparr>"
  have m: "gs_dir_mtime ?H = gs_dir_mtime H" "gs_exec ?H = gs_exec H" "gs_cache ?H = gs_cache H" "gs_digest ?H = gs_digest H"
      "gs_resolver ?H = gs_resolver H"
    by simp_all
  have v: "git_vars_for ?H now pid (JStr i) = git_vars_for H now pid (JStr i)"
    using vars_token [of H look i d now pid] vars_token [of ?H look' i d' now pid] assms by (simp add: fun_eq_iff)
  have e: "get_cache_dir ?H = get_cache_dir H" "is_cache_stale ?H = is_cache_stale H" "ref_run ?H = ref_run H"
      "checkout_vars ?H now pid (JStr i) = checkout_vars H now pid (JStr i)"
    unfolding fun_eq_iff get_cache_dir_def is_cache_stale_def ref_run_def checkout_vars_def v m by simp_all
  have f: "git_fetch ?H now pid (JStr i) = git_fetch H now pid (JStr i)" "checkout_fetched ?H = checkout_fetched H"
      "checkout_cached ?H now pid (JStr i) = checkout_cached H now pid (JStr i)"
    unfolding fun_eq_iff git_fetch_def checkout_fetched_def checkout_cached_def v e m by simp_all
  have c: "(\<not> exists_at (snd s) (get_cache_dir H pid u) \<or> \<not> exists_at (snd s) (get_cache_dir H pid u @ [''.git''])) = False"
    using assms(1,2) by simp
  have "clone_or_fetch ?H now pid u ref (JStr i) force s = clone_or_fetch H now pid u ref (JStr i) force s"
    unfolding clone_or_fetch_def Let_def e f m c if_False ..
  then show ?thesis by (simp add: resolve_git_def)
qed

text \<open>A password kept with the project's git secrets is found for the environment and never gets to git:
  the URL of the clone is built from another directory.\<close>
theorem project_password_unused:
  assumes "gs_globals H = None" "map_of (gs_git_auth H) (pid, i) = Some (Doc d)" "map_of (gs_storage H) (pid, i) = None"
    and "dget d ''type'' = JStr ''login_password''" "truthy (dget d ''username'')" "truthy (dget d ''password'')" "strip i \<noteq> []"
  shows "git_vars_for H now pid (JStr i) s = (s, Inr [(''GIT_TERMINAL_PROMPT'', ''0'')]) \<and> clone_url H pid (JStr i) u = u"
proof -
  have "getd d ''type'' (JStr []) = JStr ''login_password''"
    using assms(4) by (auto simp: getd_def dget_def split: option.splits)
  moreover have "i \<noteq> []" using assms(7) by (auto simp: strip_def)
  ultimately show ?thesis using assms
    by (simp add: git_vars_for_def get_auth_env_def find_secret_def global_secret_def project_secret_def clone_url_def url_secret_def)
qed

text \<open>The messages of a fetch are passed on as they are.\<close>
lemma fetch_message_unscrubbed:
  assumes "git_vars_for H now pid auth s = (s1, Inr env)"
    and "gs_exec H (Some cache) env [''fetch'', ''--all'', ''--prune''] s1 = (s2, Ran rc out err)" "rc \<noteq> 0" "err \<noteq> []"
    and "auth_refused err"
  shows "git_fetch H now pid auth cache s = (s2, Inl (GitSourceError ''GIT_AUTH_FAILED'' (''Authentication failed: '' @ err)))"
  using assms by (simp add: git_fetch_def then_do_def message_def)

definition demo_git :: "nat git_host" where
  "demo_git = \<lparr>gs_resolver = demo_resolver, gs_cache = [''c''], gs_digest = (\<lambda>u. u),
     gs_globals = Some (\<lambda>i. Inr (Some [(''type'', JStr ''git_token''), (''token'', JStr ''old'')])),
     gs_git_auth = [], gs_storage = [], gs_text = (\<lambda>j. ''json''), gs_os_text = (\<lambda>e. ''os''), gs_dir_mtime = (\<lambda>fs p. 0),
     gs_temp = (\<lambda>fs. Inr [''tmp'', ''k'']), gs_exec = (\<lambda>d env args s. ((Suc (fst s), snd s), Ran 0 [] []))\<rparr>"

definition demo_cache :: fs where
  "demo_cache = [([''c''], Dir), ([''c'', ''1''], Dir), ([''c'', ''1'', ''u''], Dir), ([''c'', ''1'', ''u'', ''.git''], Dir)]"

theorem rotated_token_ignored_witness:
  "resolve_git (demo_git\<lparr>gs_globals := Some (\<lambda>i. Inr (Some [(''type'', JStr ''git_token''), (''token'', JStr ''new'')]))\<rparr>)
     9 ''1'' ''repo'' ''u'' ''main'' [] (JStr ''k'') True (0, demo_cache) =
   resolve_git demo_git 9 ''1'' ''repo'' ''u'' ''main'' [] (JStr ''k'') True (0, demo_cache)"
  by (rule rotated_token_ignored [where look = "\<lambda>i. Inr (Some [(''type'', JStr ''git_token''), (''token'', JStr ''old'')])"
        and d = "[(''type'', JStr ''git_token''), (''token'', JStr ''old'')]"
        and d' = "[(''type'', JStr ''git_token''), (''token'', JStr ''new'')]"])
    (simp_all add: demo_git_def get_cache_dir_def demo_cache_def exists_at_def entry_at_def
      dget_def strip_def is_space_def char_in_def)

text \<open>The cache of the demonstration counts its commands: a forced refresh runs two.\<close>
theorem resolve_runs_few_commands_witness:
  "fst (fst (resolve_git demo_git 9 ''1'' ''repo'' ''u'' ''main'' [] (JStr ''k'') True (0, demo_cache))) \<le> 4"
  using resolve_runs_few_commands [of id demo_git 9 "''1''" "''repo''" "''u''" "''main''" "[]" "JStr ''k''" True "(0, demo_cache)"]
  by (simp add: counts_git_def demo_git_def)

subsection \<open>The message of a failed clone\<close>













end
