(* ===== verification/Inventory.thy ===== *)
theory Inventory
  imports Tokens
begin

text \<open>
  Inventories (\<^verbatim>\<open>utils/inventory_io.py\<close>): the parser of Ansible's INI format, and the searches
  through a parsed inventory. A group of the INI file names its children, so the tree is built by
  following names: the interpreter's stack is the bound of that recursion, and the number of frames it
  has left is an argument.
\<close>

subsection \<open>Lines of an INI inventory\<close>

definition is_ini_inventory_file :: "string \<Rightarrow> bool" where
  \<comment> \<open>of the name of the file; a name has a suffix behind a dot that is neither its first nor its last character\<close>
  "is_ini_inventory_file name =
    (ends_with name ''.ini'' \<and> length name > 4 \<or> name = ''hosts'')"

definition unquote :: "string \<Rightarrow> string" where
  "unquote v =
    (if length v \<ge> 2 \<and> (hd v = CHR 0x27 \<and> last v = CHR 0x27 \<or> hd v = CHR 0x22 \<and> last v = CHR 0x22)
     then butlast (tl v) else v)"

definition parse_ini_key_value :: "string \<Rightarrow> (string \<times> string) option" where
  "parse_ini_key_value l =
    (let k = takeWhile (\<lambda>c. c \<noteq> CHR ''='') l; rest = drop (length k) l in
     if rest = [] \<or> k = [] then None else Some (strip k, unquote (strip (tl rest))))"

record raw_group =
  g_hosts :: "(string \<times> doc) list"   \<comment> \<open>a host without variables has the empty dictionary\<close>
  g_children :: "string list"
  g_vars :: doc

record ini =
  raws :: "(string \<times> raw_group) list"   \<comment> \<open>\<^verbatim>\<open>groups_raw\<close>\<close>
  cur_section :: "string option"
  cur_kind :: "string option"
  all_vars :: doc

definition new_group :: raw_group where
  "new_group = \<lparr>g_hosts = [], g_children = [], g_vars = []\<rparr>"

definition new_ini :: ini where
  "new_ini = \<lparr>raws = [], cur_section = None, cur_kind = None, all_vars = []\<rparr>"

definition ensure_group :: "string \<Rightarrow> (string \<times> raw_group) list \<Rightarrow> (string \<times> raw_group) list" where
  \<comment> \<open>\<^verbatim>\<open>groups_raw.setdefault(name, ...)\<close>\<close>
  "ensure_group n R = (if map_of R n = None then R @ [(n, new_group)] else R)"

definition on_group :: "string \<Rightarrow> (raw_group \<Rightarrow> raw_group) \<Rightarrow> (string \<times> raw_group) list \<Rightarrow> (string \<times> raw_group) list" where
  "on_group n f R = map (\<lambda>(k, g). (k, if k = n then f g else g)) R"

definition ini_header :: "string \<Rightarrow> ini \<Rightarrow> ini" where
  "ini_header inner S =
    (if CHR '':'' \<in> set inner then
       (let name = strip (takeWhile (\<lambda>c. c \<noteq> CHR '':'') inner);
            kind = lower (strip (tl (dropWhile (\<lambda>c. c \<noteq> CHR '':'') inner)));
            S = S\<lparr>cur_section := Some name, cur_kind := Some kind, raws := ensure_group name (raws S)\<rparr>
        in if kind = ''vars'' then
             (if name = ''all'' then S\<lparr>all_vars := []\<rparr>
              else S\<lparr>raws := on_group name (g_vars_update (\<lambda>_. [])) (raws S)\<rparr>)
           else if kind = ''children'' then
             S\<lparr>raws := on_group name (g_children_update (\<lambda>_. [])) (raws S)\<rparr>
           else S)
     else S\<lparr>cur_section := Some inner, cur_kind := None, raws := ensure_group inner (raws S)\<rparr>)"

definition ini_var :: "string \<Rightarrow> string \<Rightarrow> ini \<Rightarrow> ini" where
  "ini_var sec l S =
    (case parse_ini_key_value l of
       None \<Rightarrow> S
     | Some (k, v) \<Rightarrow>
         if sec = ''all'' then S\<lparr>all_vars := dset (all_vars S) k (JStr v)\<rparr>
         else S\<lparr>raws := on_group sec (\<lambda>g. g\<lparr>g_vars := dset (g_vars g) k (JStr v)\<rparr>) (raws S)\<rparr>)"

definition ini_child :: "string \<Rightarrow> string \<Rightarrow> ini \<Rightarrow> ini" where
  "ini_child sec l S =
    (case split_space l of
       [] \<Rightarrow> S
     | n # _ \<Rightarrow>
         if n \<noteq> [] \<and> \<not> starts_with n ''#''
         then S\<lparr>raws := on_group sec (\<lambda>g. g\<lparr>g_children := g_children g @ [n]\<rparr>) (raws S)\<rparr> else S)"

definition ini_host_vars :: "string list \<Rightarrow> doc" where
  "ini_host_vars ps =
    fold (\<lambda>p d. if CHR ''='' \<in> set p
           then (case parse_ini_key_value p of Some (k, v) \<Rightarrow> dset d k (JStr v) | None \<Rightarrow> d) else d) ps []"

definition ini_host_name :: "string \<Rightarrow> string" where
  "ini_host_name n =
    (if CHR '':'' \<in> set n \<and> \<not> starts_with n ''['' then takeWhile (\<lambda>c. c \<noteq> CHR '':'') n else n)"

definition ini_host :: "string \<Rightarrow> string \<Rightarrow> ini \<Rightarrow> ini" where
  "ini_host sec l S =
    (case split_space l of
       [] \<Rightarrow> S
     | n # ps \<Rightarrow>
         if starts_with n ''#'' then S
         else S\<lparr>raws := on_group sec (\<lambda>g. g\<lparr>g_hosts := g_hosts g @ [(ini_host_name n, ini_host_vars ps)]\<rparr>) (raws S)\<rparr>)"

definition ini_line :: "string \<Rightarrow> ini \<Rightarrow> ini" where
  "ini_line line S =
    (let l = strip line in
     if l = [] \<or> starts_with l ''#'' then S
     else if starts_with l ''['' \<and> ends_with l '']'' then ini_header (strip (butlast (tl l))) S
     else case cur_section S of
       None \<Rightarrow> S
     | Some sec \<Rightarrow>
         if cur_kind S = Some ''vars'' then ini_var sec l S
         else if cur_kind S = Some ''children'' then ini_child sec l S
         else ini_host sec l S)"

fun file_lines :: "string \<Rightarrow> string \<Rightarrow> string list" where
  \<comment> \<open>a text file with universal newlines; the empty line between a return and a newline is skipped later\<close>
  "file_lines acc [] = [acc]"
| "file_lines acc (c # s) =
    (if c = CHR 0x0A \<or> c = CHR 0x0D then acc # file_lines [] s else file_lines (acc @ [c]) s)"

definition read_ini :: "string \<Rightarrow> ini" where
  "read_ini content =
    (let S = fold ini_line (file_lines [] content) new_ini in
     if all_vars S = [] then S
     else S\<lparr>raws := on_group ''all'' (g_vars_update (\<lambda>_. all_vars S)) (ensure_group ''all'' (raws S))\<rparr>)"

subsection \<open>The tree of the groups\<close>

fun collect :: "(string \<Rightarrow> json res) \<Rightarrow> string list \<Rightarrow> doc \<Rightarrow> doc res" where
  "collect f [] acc = Inr acc"
| "collect f (c # cs) acc = (case f c of Inl e \<Rightarrow> Inl e | Inr j \<Rightarrow> collect f cs (dset acc c j))"

definition host_dict :: "(string \<times> doc) list \<Rightarrow> doc" where
  "host_dict hs = fold (\<lambda>(h, vs) d. dset d h (if vs = [] then JNull else JObj vs)) hs []"

definition kids :: "(string \<times> raw_group) list \<Rightarrow> raw_group \<Rightarrow> string list" where
  "kids R g = filter (\<lambda>c. map_of R c \<noteq> None \<and> c \<noteq> ''all'') (g_children g)"

definition group_doc :: "raw_group \<Rightarrow> doc \<Rightarrow> json" where
  "group_doc g ch =
    JObj ([(''hosts'', JObj (host_dict (g_hosts g))), (''children'', JObj ch)] @
      (if g_vars g \<noteq> [] then [(''vars'', JObj (g_vars g))] else []))"

primrec build_group :: "(string \<times> raw_group) list \<Rightarrow> nat \<Rightarrow> raw_group \<Rightarrow> json res" where
  "build_group R 0 g = Inl (OtherError ''RecursionError'')"
| "build_group R (Suc frames) g =
    (case collect (\<lambda>c. build_group R frames (the (map_of R c))) (kids R g) [] of
       Inl e \<Rightarrow> Inl e
     | Inr ch \<Rightarrow> Inr (group_doc g ch))"

definition groups_tree :: "nat \<Rightarrow> ini \<Rightarrow> json res" where
  "groups_tree frames S =
    (case collect (\<lambda>c. build_group (raws S) frames (the (map_of (raws S) c)))
            (filter (\<lambda>n. n \<noteq> ''all'') (map fst (raws S))) [] of
       Inl e \<Rightarrow> Inl e
     | Inr ch \<Rightarrow>
         Inr (JObj [(''all'', JObj ([(''children'', JObj ch)] @
           (if all_vars S \<noteq> [] then [(''vars'', JObj (all_vars S))] else [])))]))"

definition parse_ini_inventory :: "nat \<Rightarrow> string option \<Rightarrow> json option res" where
  \<comment> \<open>of the content of the file, if there is one\<close>
  "parse_ini_inventory frames content =
    (case content of
       None \<Rightarrow> Inr None
     | Some c \<Rightarrow> (case groups_tree frames (read_ini c) of Inl e \<Rightarrow> Inl e | Inr j \<Rightarrow> Inr (Some j)))"

subsection \<open>Searching an inventory\<close>

lemma size_dget_obj: "dget d k = v \<Longrightarrow> v \<noteq> JNull \<Longrightarrow> size v < size (JObj d)"
proof (induction d)
  case (Cons p d)
  then show ?case by (cases p) (auto split: if_splits)
qed simp

lemma size_in_obj: "(n, v) \<in> set d \<Longrightarrow> size v < size (JObj d)"
  by (induction d) auto

definition direct_host :: "string \<Rightarrow> doc \<Rightarrow> json option" where
  "direct_host h d =
    (case dget d ''hosts'' of
       JObj hs \<Rightarrow> (case map_of hs h of Some v \<Rightarrow> Some (if v = JNull then JObj [] else v) | None \<Rightarrow> None)
     | _ \<Rightarrow> None)"

definition listed_host :: "string \<Rightarrow> doc \<Rightarrow> json option" where
  \<comment> \<open>the hosts of a group may also be a list\<close>
  "listed_host h g =
    (case dget g ''hosts'' of
       JArr xs \<Rightarrow> if JStr h \<in> set xs then Some (JObj []) else None
     | _ \<Rightarrow> direct_host h g)"

function (sequential) find_section :: "string \<Rightarrow> doc \<Rightarrow> json option"
  and find_groups :: "string \<Rightarrow> doc \<Rightarrow> json option" where
  "find_section h d =
    (case direct_host h d of
       Some v \<Rightarrow> Some v
     | None \<Rightarrow> (case dget d ''children'' of JObj cs \<Rightarrow> find_groups h cs | _ \<Rightarrow> None))"
| "find_groups h [] = None"
| "find_groups h ((n, JObj g) # cs) =
    (case listed_host h g of
       Some v \<Rightarrow> Some v
     | None \<Rightarrow>
         if has g ''children'' then
           (case find_section h g of Some v \<Rightarrow> Some v | None \<Rightarrow> find_groups h cs)
         else find_groups h cs)"
| "find_groups h (c # cs) = find_groups h cs"
  by pat_completeness auto
termination
  by (relation "measure (\<lambda>x. case x of Inl (h, d) \<Rightarrow> size (JObj d) | Inr (h, cs) \<Rightarrow> size (JObj cs))")
    (auto dest: size_dget_obj)

declare find_section.simps [simp del]

definition find_host_in_inventory :: "json \<Rightarrow> string \<Rightarrow> json option res" where
  "find_host_in_inventory data h =
    (if \<not> truthy data then Inr None
     else case data of
       JObj d \<Rightarrow>
         (case map_of d ''all'' of
            None \<Rightarrow> Inr None
          | Some (JObj s) \<Rightarrow> Inr (find_section h s)
          | Some (JArr xs) \<Rightarrow>
              if JStr ''hosts'' \<in> set xs \<or> JStr ''children'' \<in> set xs then Inl TypeError else Inr None
          | Some (JStr s) \<Rightarrow> if contains s ''hosts'' \<or> contains s ''children'' then Inl TypeError else Inr None
          | Some _ \<Rightarrow> Inl TypeError)
     | JArr xs \<Rightarrow> if JStr ''all'' \<in> set xs then Inl TypeError else Inr None
     | JStr s \<Rightarrow> if contains s ''all'' then Inl TypeError else Inr None
     | _ \<Rightarrow> Inl TypeError)"

subsection \<open>Collecting hosts and groups\<close>

type_synonym host_list = "string list \<times> doc list"   \<comment> \<open>\<^verbatim>\<open>hosts_set\<close> and \<^verbatim>\<open>hosts_list\<close>\<close>

definition inline_vars :: "doc \<Rightarrow> doc" where
  "inline_vars config = filter (\<lambda>(k, v). k \<noteq> ''vars_file'' \<and> v \<noteq> JNull) config"

definition host_row :: "json \<Rightarrow> string \<Rightarrow> json \<Rightarrow> doc" where
  "host_row file_name h config =
    (let c = (case config of JObj d \<Rightarrow> d | _ \<Rightarrow> []);
         vf = py_or (dget c ''vars_file'') (JStr (''host_vars/'' @ h @ ''.yml''))
     in [(''name'', JStr h), (''vars_file'', vf), (''inventory_file'', file_name)] @
        (if inline_vars c \<noteq> [] then [(''vars'', JObj (inline_vars c))] else []))"

definition host_again :: "json \<Rightarrow> json \<Rightarrow> doc \<Rightarrow> doc" where
  \<comment> \<open>a later occurrence of a known host\<close>
  "host_again file_name config e =
    (let c = (case config of JObj d \<Rightarrow> d | _ \<Rightarrow> []);
         e = dset e ''inventory_file'' file_name;
         e = (if truthy (dget c ''vars_file'') then dset e ''vars_file'' (dget c ''vars_file'') else e)
     in if inline_vars c \<noteq> [] then dset e ''vars'' (JObj (inline_vars c)) else e)"

fun on_first :: "(doc \<Rightarrow> bool) \<Rightarrow> (doc \<Rightarrow> doc) \<Rightarrow> doc list \<Rightarrow> doc list" where
  "on_first P f [] = []"
| "on_first P f (e # es) = (if P e then f e # es else e # on_first P f es)"

definition merge_host :: "json \<Rightarrow> string \<Rightarrow> json \<Rightarrow> host_list \<Rightarrow> host_list" where
  "merge_host file_name h config H =
    (case H of (known, es) \<Rightarrow>
     if starts_with h ''#'' then H
     else if h \<notin> set known then (known @ [h], es @ [host_row file_name h config])
     else (known, on_first (\<lambda>e. dget e ''name'' = JStr h) (host_again file_name config) es))"

definition section_hosts :: "json \<Rightarrow> (string \<times> json) list" where
  \<comment> \<open>the hosts of a section with their configuration; a list has none\<close>
  "section_hosts hosts =
    (case hosts of
       JObj hs \<Rightarrow> hs
     | JArr xs \<Rightarrow> concat (map (\<lambda>x. case x of JStr h \<Rightarrow> [(h, JNull)] | _ \<Rightarrow> []) xs)
     | _ \<Rightarrow> [])"

definition sub_groups :: "json \<Rightarrow> doc" where
  "sub_groups j = (case j of JObj cs \<Rightarrow> cs | _ \<Rightarrow> [])"

lemma size_sub_groups: "(n, v) \<in> set (sub_groups (dget d k)) \<Longrightarrow> size v < size (JObj d)"
  by (cases "dget d k") (auto simp: sub_groups_def dest!: size_in_obj dest: size_dget_obj)

function extract_hosts_from_group :: "json \<Rightarrow> doc \<Rightarrow> host_list \<Rightarrow> host_list" where
  "extract_hosts_from_group file_name d H =
    fold (\<lambda>(n, v) H. case v of JObj g \<Rightarrow> extract_hosts_from_group file_name g H | _ \<Rightarrow> H)
      (sub_groups (dget d ''children''))
      (fold (\<lambda>(h, c). merge_host file_name h c) (section_hosts (dget d ''hosts'')) H)"
  by pat_completeness auto
termination
  by (relation "measure (\<lambda>(f, d, H). size (JObj d))") (auto dest!: size_sub_groups)

declare extract_hosts_from_group.simps [simp del]

definition group_entry :: "json \<Rightarrow> doc" where
  "group_entry file_name = [(''hosts'', JArr []), (''children'', JArr []), (''inventory_file'', file_name)]"

definition put_group :: "json \<Rightarrow> string \<Rightarrow> (string \<times> doc) list \<Rightarrow> (string \<times> doc) list" where
  "put_group file_name n G = (if map_of G n = None then G @ [(n, group_entry file_name)] else G)"

definition extend_group :: "json \<Rightarrow> string \<Rightarrow> string \<Rightarrow> string list \<Rightarrow> (string \<times> doc) list \<Rightarrow> (string \<times> doc) list" where
  \<comment> \<open>\<^verbatim>\<open>groups_dict[current_group][k].extend(names)\<close>, when there are any\<close>
  "extend_group file_name n k names G =
    (if names = [] then G
     else map (\<lambda>(m, e). (m,
        if m = n then
          (let old = (case dget e k of JArr xs \<Rightarrow> xs | _ \<Rightarrow> []);
               e = dset e k (JArr (old @ map JStr names))
           in if truthy file_name \<and> \<not> truthy (dget e ''inventory_file'') then dset e ''inventory_file'' file_name else e)
        else e)) (put_group file_name n G))"

definition set_vars :: "json \<Rightarrow> string \<Rightarrow> json \<Rightarrow> (string \<times> doc) list \<Rightarrow> (string \<times> doc) list" where
  "set_vars file_name n v G =
    (case v of
       JObj vs \<Rightarrow>
         if vs = [] then G
         else map (\<lambda>(m, e). (m, if m = n then dset e ''vars'' v else e)) (put_group file_name n G)
     | _ \<Rightarrow> G)"

definition no_comment :: "string \<Rightarrow> bool" where "no_comment n = (\<not> starts_with n ''#'')"

definition child_pairs :: "json \<Rightarrow> doc" where
  \<comment> \<open>the children are a dictionary, or a list of names and dictionaries\<close>
  "child_pairs j =
    filter (\<lambda>p. no_comment (fst p))
      (case j of
         JObj cs \<Rightarrow> cs
       | JArr xs \<Rightarrow> concat (map (\<lambda>x. case x of JStr n \<Rightarrow> [(n, JNull)] | JObj c \<Rightarrow> c | _ \<Rightarrow> []) xs)
       | _ \<Rightarrow> [])"

lemma size_in_arr: "x \<in> set xs \<Longrightarrow> size x < size (JArr xs)"
  by (induction xs) auto

lemma child_pairs_arr:
  "(n, JObj g) \<in> set (child_pairs (JArr xs)) \<Longrightarrow> \<exists>c. JObj c \<in> set xs \<and> (n, JObj g) \<in> set c"
proof (induction xs)
  case (Cons x xs)
  then show ?case by (cases x) (auto simp: child_pairs_def split: if_splits)
qed (simp add: child_pairs_def)

lemma size_child_pairs:
  assumes "(n, JObj g) \<in> set (child_pairs (dget d k))" shows "size (JObj g) < size (JObj d)"
proof (cases "dget d k")
  case (JArr xs)
  then obtain x c where x: "x \<in> set xs" "x = JObj c" "(n, JObj g) \<in> set c"
    using assms child_pairs_arr [of n g xs] by auto
  have "size (JObj g) < size x" using size_in_obj [OF x(3)] x(2) by simp
  also have "\<dots> < size (JArr xs)" by (rule size_in_arr [OF x(1)])
  also have "\<dots> < size (JObj d)" using JArr by (intro size_dget_obj [OF JArr]) simp
  finally show ?thesis .
next
  case (JObj cs)
  then have "(n, JObj g) \<in> set cs" using assms by (simp add: child_pairs_def)
  then have "size (JObj g) < size (JObj cs)" by (rule size_in_obj)
  also have "\<dots> < size (JObj d)" by (rule size_dget_obj [OF JObj]) simp
  finally show ?thesis .
qed (use assms in \<open>simp_all add: child_pairs_def\<close>)

function extract_groups_from_inventory :: "json \<Rightarrow> string \<Rightarrow> doc \<Rightarrow> (string \<times> doc) list \<Rightarrow> (string \<times> doc) list" where
  "extract_groups_from_inventory file_name path d G =
    (let cur = (if path = [] then ''all'' else path);
         cs = child_pairs (dget d ''children'');
         G = set_vars file_name cur (dget d ''vars'') G;
         G = extend_group file_name cur ''hosts'' (filter no_comment (map fst (section_hosts (dget d ''hosts'')))) G;
         G = fold (\<lambda>(n, v) G. case v of JObj g \<Rightarrow> extract_groups_from_inventory file_name n g (put_group file_name n G) | _ \<Rightarrow> G)
               cs G
     in extend_group file_name cur ''children'' (map fst cs) G)"
  by pat_completeness auto
termination
  by (relation "measure (\<lambda>(f, p, d, G). size (JObj d))") (auto dest: size_child_pairs)

declare extract_groups_from_inventory.simps [simp del]

end
