(* ===== verification/HostLookup.thy ===== *)
theory HostLookup
  imports Inventory SyncRun HostStatus
begin

text \<open>
  The hosts and groups of a project (\<^verbatim>\<open>app.py\<close>): the inventories on the disk, the groups of a host,
  its connection secret, the inventories of a playbook, and the tick that checks hosts in the
  background. The YAML parser is the parameter \<open>yaml\<close>; the order in which Python iterates over a
  set of strings differs from process to process and is the parameter \<open>order\<close>; \<open>frames\<close> is the stack
  left to the INI parser.
\<close>

record inventory_env =
  yaml :: "string \<Rightarrow> json res"
  frames :: nat
  order :: "string list \<Rightarrow> string list"

subsection \<open>Reading inventories\<close>

definition read_file :: "'g sync_env \<Rightarrow> fs \<Rightarrow> path \<Rightarrow> string res" where
  "read_file E fs p =
    (case entry_at fs p of
       Some (File s t) \<Rightarrow> if readable (machine E) p then Inr s else Inl OSError
     | _ \<Rightarrow> Inl OSError)"

definition read_yaml :: "'g sync_env \<Rightarrow> inventory_env \<Rightarrow> fs \<Rightarrow> path \<Rightarrow> json res" where
  "read_yaml E Y fs p = (case read_file E fs p of Inl e \<Rightarrow> Inl e | Inr s \<Rightarrow> yaml Y (read_text s))"

definition read_inventory :: "'g sync_env \<Rightarrow> inventory_env \<Rightarrow> fs \<Rightarrow> path \<Rightarrow> json res" where
  "read_inventory E Y fs p =
    (if is_ini_inventory_file (last p) then
       (if exists_at fs p then
          (case read_file E fs p of
             Inl e \<Rightarrow> Inl e
           | Inr s \<Rightarrow> (case parse_ini_inventory (frames Y) (Some s) of
                         Inl e \<Rightarrow> Inl e
                       | Inr j \<Rightarrow> Inr (case j of Some v \<Rightarrow> v | None \<Rightarrow> JNull)))
        else Inr JNull)
     else read_yaml E Y fs p)"

definition is_file_path :: "string \<Rightarrow> bool" where
  "is_file_path n = (is_absolute n \<or> CHR ''/'' \<in> set n \<or> CHR 0x5C \<in> set n)"

definition add_hosts :: "'g sync_env \<Rightarrow> inventory_env \<Rightarrow> fs \<Rightarrow> string \<Rightarrow> host_list \<Rightarrow> host_list" where
  "add_hosts E Y fs n H =
    (let p = join_path (cwd E) n in
     if \<not> is_file_path n \<or> \<not> exists_at fs p then H
     else case read_inventory E Y fs p of
       Inr (JObj d) \<Rightarrow>
         if d = [] then H
         else if has d ''all'' then
           (case dget d ''all'' of JObj s \<Rightarrow> extract_hosts_from_group (JStr (str_path n)) s H | _ \<Rightarrow> H)
         else extract_hosts_from_group (JStr (str_path n)) d H
     | _ \<Rightarrow> H)"

definition get_inventory_hosts :: "'g sync_env \<Rightarrow> inventory_env \<Rightarrow> fs \<Rightarrow> string list \<Rightarrow> doc list" where
  \<comment> \<open>no list of files is the empty list\<close>
  "get_inventory_hosts E Y fs names = snd (fold (add_hosts E Y fs) names ([], []))"

definition repo_relative :: "string \<Rightarrow> string" where
  \<comment> \<open>the path below \<^verbatim>\<open>projects/<id>/repo\<close>, or the name of the file\<close>
  "repo_relative n =
    (case dropWhile (\<lambda>c. c \<noteq> ''projects'') (path_parts n) of
       p # i # r # rest \<Rightarrow> if r = ''repo'' then rel_text rest else last (path_parts n)
     | _ \<Rightarrow> last (path_parts n))"

definition add_groups :: "'g sync_env \<Rightarrow> inventory_env \<Rightarrow> fs \<Rightarrow> string \<Rightarrow> (string \<times> doc) list \<Rightarrow> (string \<times> doc) list" where
  "add_groups E Y fs n G =
    (let p = join_path (cwd E) n in
     if \<not> is_file_path n \<or> \<not> exists_at fs p then G
     else case read_inventory E Y fs p of
       Inr (JObj d) \<Rightarrow>
         if d = [] then G
         else if has d ''all'' then
           (case dget d ''all'' of JObj s \<Rightarrow> extract_groups_from_inventory (JStr (repo_relative n)) ''all'' s G | _ \<Rightarrow> G)
         else extract_groups_from_inventory (JStr (repo_relative n)) ''root'' d G
     | _ \<Rightarrow> G)"

definition get_inventory_groups :: "'g sync_env \<Rightarrow> inventory_env \<Rightarrow> fs \<Rightarrow> string list \<Rightarrow> (string \<times> doc) list" where
  "get_inventory_groups E Y fs names =
    (let G = fold (add_groups E Y fs) names [] in
     case map_of G ''all'' of
       Some e \<Rightarrow> if \<not> truthy (dget e ''hosts'') \<and> \<not> truthy (dget e ''vars'') then tdel ''all'' G else G
     | None \<Rightarrow> G)"

subsection \<open>The groups of a host\<close>

definition add_name :: "string \<Rightarrow> string list \<Rightarrow> string list" where
  "add_name n ns = (if n \<in> set ns then ns else ns @ [n])"

definition holds_host :: "string \<Rightarrow> doc \<Rightarrow> bool" where
  "holds_host h g =
    (case dget g ''hosts'' of JObj hs \<Rightarrow> has hs h | JArr xs \<Rightarrow> JStr h \<in> set xs | _ \<Rightarrow> False)"

function walk_groups :: "string \<Rightarrow> doc \<Rightarrow> string \<Rightarrow> string list \<Rightarrow> string list" where
  "walk_groups h g n ns =
    fold (\<lambda>(c, v) ns. case v of JObj d \<Rightarrow> walk_groups h d c ns | _ \<Rightarrow> ns) (sub_groups (dget g ''children''))
      (if holds_host h g then add_name n ns else ns)"
  by pat_completeness auto
termination
  by (relation "measure (\<lambda>(h, d, n, ns). size (JObj d))") (auto dest!: size_sub_groups)

declare walk_groups.simps [simp del]

definition deep_inventories :: "fs \<Rightarrow> path \<Rightarrow> path list" where
  \<comment> \<open>\<^verbatim>\<open>rglob('*')\<close>, the names of inventories, not below a directory of variables\<close>
  "deep_inventories fs d =
    filter (\<lambda>q. strict_prefix d q \<and> file_at fs q \<and> last q \<in> set inventory_names \<and>
        ''group_vars'' \<notin> set (drop (length d) q) \<and> ''host_vars'' \<notin> set (drop (length d) q)) (map fst fs)"

definition groups_in_file :: "'g sync_env \<Rightarrow> inventory_env \<Rightarrow> fs \<Rightarrow> string \<Rightarrow> path \<Rightarrow> string list \<Rightarrow> string list" where
  "groups_in_file E Y fs h q ns =
    (case read_inventory E Y fs q of
       Inr (JObj d) \<Rightarrow>
         (case dget d ''all'' of
            JObj s \<Rightarrow> walk_groups h s ''all'' ns
          | _ \<Rightarrow> fold (\<lambda>(c, v) ns. case v of JObj g \<Rightarrow> walk_groups h g c ns | _ \<Rightarrow> ns) d ns)
     | _ \<Rightarrow> ns)"

definition find_groups_for_host :: "'g sync_env \<Rightarrow> inventory_env \<Rightarrow> fs \<Rightarrow> string \<Rightarrow> string \<Rightarrow> string list" where
  "find_groups_for_host E Y fs pid h =
    (let d = inventories_dir E pid fs in
     if exists_at fs d then fold (groups_in_file E Y fs h) (deep_inventories fs d) [''all''] else [''all''])"

subsection \<open>The connection of a host\<close>

definition connection_of :: "doc \<Rightarrow> (json \<times> bool) option" where
  \<comment> \<open>what the variables of one file say\<close>
  "connection_of vs =
    (if truthy (dget vs ''connectionSecret'') then Some (dget vs ''connectionSecret'', True)
     else if truthy (dget vs ''ansible_ssh_private_key_file'') \<or> truthy (dget vs ''ansible_password'')
     then Some (dget vs ''connectionSecret'', True) else None)"

fun first_group_secret :: "'g sync_env \<Rightarrow> inventory_env \<Rightarrow> fs \<Rightarrow> path list \<Rightarrow> (json \<times> bool) option" where
  "first_group_secret E Y fs [] = None"
| "first_group_secret E Y fs (q # qs) =
    (case (if exists_at fs q then read_yaml E Y fs q else Inl OSError) of
       Inr (JObj vs) \<Rightarrow> (case connection_of vs of Some r \<Rightarrow> Some r | None \<Rightarrow> first_group_secret E Y fs qs)
     | _ \<Rightarrow> first_group_secret E Y fs qs)"

definition group_files :: "path \<Rightarrow> string list \<Rightarrow> path list" where
  "group_files d gs = concat (map (\<lambda>g. [join_path d (g @ ''.yml''), join_path d (g @ ''.yaml'')]) gs)"

definition ordered_groups :: "inventory_env \<Rightarrow> string list \<Rightarrow> string list" where
  "ordered_groups Y gs =
    filter (\<lambda>g. g \<noteq> ''all'') (order Y gs) @ (if ''all'' \<in> set gs then [''all''] else [])"

definition group_secret :: "'g sync_env \<Rightarrow> inventory_env \<Rightarrow> fs \<Rightarrow> string \<Rightarrow> string \<Rightarrow> json \<times> bool" where
  "group_secret E Y fs pid h =
    (let d = inventories_dir E pid fs @ [''group_vars''] in
     if exists_at fs d then
       (case first_group_secret E Y fs (group_files d (ordered_groups Y (find_groups_for_host E Y fs pid h))) of
          Some r \<Rightarrow> r
        | None \<Rightarrow> (JNull, False))
     else (JNull, False))"

definition resolve_connection_secret_for_host ::
    "'g sync_env \<Rightarrow> inventory_env \<Rightarrow> fs \<Rightarrow> string \<Rightarrow> string \<Rightarrow> json \<times> bool" where
  "resolve_connection_secret_for_host E Y fs pid h =
    (if pid = [] \<or> h = [] then (JNull, False)
     else
       (let q = join_path (inventories_dir E pid fs @ [''host_vars'']) (h @ ''.yml'') in
        if exists_at fs q then
          (case read_yaml E Y fs q of
             Inl e \<Rightarrow> (JNull, False)
           | Inr (JObj vs) \<Rightarrow>
               (case connection_of vs of Some r \<Rightarrow> r | None \<Rightarrow> group_secret E Y fs pid h)
           | Inr _ \<Rightarrow> group_secret E Y fs pid h)
        else group_secret E Y fs pid h))"

subsection \<open>Directories of variables\<close>

definition below :: "fs \<Rightarrow> path \<Rightarrow> (path \<Rightarrow> bool) \<Rightarrow> path list" where
  \<comment> \<open>\<^verbatim>\<open>rglob\<close>, in the order of the file system\<close>
  "below fs d P = filter (\<lambda>q. strict_prefix d q \<and> P q) (map fst fs)"

definition file_name :: "string \<Rightarrow> string" where
  \<comment> \<open>\<^verbatim>\<open>Path(s).name\<close>\<close>
  "file_name s = (if path_parts s = [] then [] else last (path_parts s))"

definition best_match :: "path \<Rightarrow> string \<Rightarrow> path list \<Rightarrow> path option" where
  "best_match repo p qs =
    find (\<lambda>q. rel_text (drop (length repo) q) = p \<or>
      \<not> is_absolute p \<and> suffix (path_parts p) (drop (length repo) q)) qs"

definition locate_inventory :: "'g sync_env \<Rightarrow> bool \<Rightarrow> string \<Rightarrow> string \<Rightarrow> fs \<Rightarrow> path option res" where
  \<comment> \<open>below the repository, as a path of the project, or by name; only the host variables look for the
    best of several files (\<open>matching\<close>). The name has no wildcards\<close>
  "locate_inventory E matching pid p fs =
    (let pd = projects_dir E @ [pid]; repo = pd @ [''repo'']; q = join_path repo p; full = join_path (cwd E) p in
     if exists_at fs q then Inr (Some q)
     else if exists_at fs full \<and> is_absolute p \<and> prefix pd (path_parts p) then Inr (Some full)
     else if file_name p = [] then Inl (ValueError ''Unacceptable pattern'')
     else (case below fs repo (\<lambda>r. last r = file_name p) of
             [] \<Rightarrow> Inr None
           | r # rs \<Rightarrow>
               Inr (Some (if matching then (case best_match repo p (r # rs) of Some b \<Rightarrow> b | None \<Rightarrow> r) else r))))"

definition vars_dir :: "'g sync_env \<Rightarrow> bool \<Rightarrow> string \<Rightarrow> string \<Rightarrow> string \<Rightarrow> fs \<Rightarrow> path res" where
  "vars_dir E matching kind pid p fs =
    (case (if p = [] then Inr None else locate_inventory E matching pid p fs) of
       Inl e \<Rightarrow> Inl e
     | Inr (Some q) \<Rightarrow>
         Inr (if exists_at fs q then butlast q @ [kind] else inventories_dir E pid fs @ [kind])
     | Inr None \<Rightarrow> Inr (inventories_dir E pid fs @ [kind]))"

definition get_host_vars_dir_for_inventory :: "'g sync_env \<Rightarrow> string \<Rightarrow> string \<Rightarrow> fs \<Rightarrow> path res" where
  "get_host_vars_dir_for_inventory E pid p fs = vars_dir E True ''host_vars'' pid p fs"

definition get_group_vars_dir_for_inventory :: "'g sync_env \<Rightarrow> string \<Rightarrow> string \<Rightarrow> fs \<Rightarrow> path res" where
  "get_group_vars_dir_for_inventory E pid p fs = vars_dir E False ''group_vars'' pid p fs"

definition named_host :: "string \<Rightarrow> doc list \<Rightarrow> doc option" where
  "named_host h es = find (\<lambda>e. dget e ''name'' = JStr h) es"

fun first_with_inventory :: "string \<Rightarrow> doc list \<Rightarrow> string option" where
  \<comment> \<open>the loop leaves at the first entry of the host that names an inventory\<close>
  "first_with_inventory h [] = None"
| "first_with_inventory h (e # es) =
    (if dget e ''name'' = JStr h \<and> truthy (getd e ''inventory_file'' (JStr []))
     then str_of (dget e ''inventory_file'') else first_with_inventory h es)"

definition get_host_vars_file :: "'g sync_env \<Rightarrow> inventory_env \<Rightarrow> string \<Rightarrow> string \<Rightarrow> string \<Rightarrow> fs \<Rightarrow> path res" where
  \<comment> \<open>the hosts are asked for without naming any inventory\<close>
  "get_host_vars_file E Y h pid p fs =
    (if pid = [] then Inl (ValueError ''project_id is required'')
     else
       (let hosts = get_inventory_hosts E Y fs [];
            d = (if p \<noteq> [] then get_host_vars_dir_for_inventory E pid p fs
                 else case first_with_inventory h hosts of
                   Some i \<Rightarrow> get_host_vars_dir_for_inventory E pid i fs
                 | None \<Rightarrow> Inr (inventories_dir E pid fs @ [''host_vars'']))
        in case d of
             Inl e \<Rightarrow> Inl e
           | Inr d \<Rightarrow>
               (case named_host h hosts of
                  Some e \<Rightarrow>
                    (case getd e ''vars_file'' (JStr []) of
                       JStr v \<Rightarrow> Inr (join_path d
                         (if starts_with v ''host_vars/'' then replace_all ''host_vars/'' [] v else h @ ''.yml''))
                     | _ \<Rightarrow> Inl AttributeError)
                | None \<Rightarrow> Inr (join_path d (h @ ''.yml'')))))"

subsection \<open>The inventories of a group and of a playbook\<close>

definition inventory_candidates :: "'g sync_env \<Rightarrow> string \<Rightarrow> fs \<Rightarrow> path list" where
  \<comment> \<open>\<^verbatim>\<open>*.yaml\<close>, \<^verbatim>\<open>*.yml\<close>, \<^verbatim>\<open>*.ini\<close> and \<^verbatim>\<open>hosts\<close> below the inventories, then the one of the repository\<close>
  "inventory_candidates E pid fs =
    (let repo = projects_dir E @ [pid, ''repo'']; d = inventories_dir E pid fs;
         ok = (\<lambda>q. file_at fs q \<and> ''host_vars'' \<notin> set (drop (length d) q) \<and> ''group_vars'' \<notin> set (drop (length d) q))
     in (if exists_at fs d then
           below fs d (\<lambda>q. ends_with (last q) ''.yaml'' \<and> ok q) @ below fs d (\<lambda>q. ends_with (last q) ''.yml'' \<and> ok q) @
           below fs d (\<lambda>q. ends_with (last q) ''.ini'' \<and> ok q) @ below fs d (\<lambda>q. last q = ''hosts'' \<and> ok q)
         else []) @
        (if exists_at fs (repo @ [''inventory.yml'']) then [repo @ [''inventory.yml'']] else []))"

definition read_or_empty :: "'g sync_env \<Rightarrow> inventory_env \<Rightarrow> fs \<Rightarrow> path \<Rightarrow> doc res" where
  \<comment> \<open>\<^verbatim>\<open>load(...) or {}\<close>; anything but a dictionary has no \<^verbatim>\<open>get\<close>\<close>
  "read_or_empty E Y fs q =
    (case read_inventory E Y fs q of
       Inl e \<Rightarrow> Inl e
     | Inr j \<Rightarrow> (case py_or j (JObj []) of JObj d \<Rightarrow> Inr d | _ \<Rightarrow> Inl AttributeError))"

definition children_of :: "doc \<Rightarrow> json res" where
  \<comment> \<open>\<^verbatim>\<open>data.get('all', {}).get('children', {})\<close>\<close>
  "children_of d =
    (case getd d ''all'' (JObj []) of
       JObj s \<Rightarrow> Inr (getd s ''children'' (JObj []))
     | _ \<Rightarrow> Inl AttributeError)"

definition py_in :: "string \<Rightarrow> json \<Rightarrow> bool res" where
  "py_in n j =
    (case j of
       JObj d \<Rightarrow> Inr (has d n)
     | JArr xs \<Rightarrow> Inr (JStr n \<in> set xs)
     | JStr s \<Rightarrow> Inr (contains s n)
     | _ \<Rightarrow> Inl TypeError)"

definition group_in_file :: "'g sync_env \<Rightarrow> inventory_env \<Rightarrow> fs \<Rightarrow> string \<Rightarrow> path \<Rightarrow> bool" where
  "group_in_file E Y fs g q =
    (case read_or_empty E Y fs q of
       Inl e \<Rightarrow> False
     | Inr d \<Rightarrow> (case children_of d of Inl e \<Rightarrow> False | Inr c \<Rightarrow> py_in g c = Inr True))"

definition find_inventory_file_for_group :: "'g sync_env \<Rightarrow> inventory_env \<Rightarrow> string \<Rightarrow> string \<Rightarrow> fs \<Rightarrow> string" where
  "find_inventory_file_for_group E Y pid g fs =
    (case find (group_in_file E Y fs g) (inventory_candidates E pid fs) of
       Some q \<Rightarrow> rel_text (drop (length (projects_dir E) + 2) q)
     | None \<Rightarrow> [])"

definition is_ip :: "string \<Rightarrow> bool" where
  \<comment> \<open>\<^verbatim>\<open>re.match(r'^\d+\.\d+\.\d+\.\d+$', s)\<close>: one newline may follow\<close>
  "is_ip s =
    (let t = (if s \<noteq> [] \<and> last s = CHR 0x0A then butlast s else s);
         ps = split_on CHR ''.'' [] t
     in length ps = 4 \<and> list_all (\<lambda>p. p \<noteq> [] \<and> list_all is_digit p) ps)"

definition play_targets :: "(json \<Rightarrow> string) \<Rightarrow> doc \<Rightarrow> string list" where
  \<comment> \<open>the hosts and groups a play names, \<^verbatim>\<open>all\<close> apart\<close>
  "play_targets str play =
    (case getd play ''hosts'' (JStr []) of
       JStr s \<Rightarrow> if s \<noteq> [] \<and> s \<noteq> ''all'' then [s] else []
     | JArr xs \<Rightarrow> map (as_text str) (filter (\<lambda>x. truthy x \<and> x \<noteq> JStr ''all'') xs)
     | _ \<Rightarrow> [])"

fun any_host :: "json \<Rightarrow> string list \<Rightarrow> bool res" where
  \<comment> \<open>the search ends with the first host that is found; a miss lists the groups for the log\<close>
  "any_host data [] = Inr False"
| "any_host data (h # hs) =
    (case find_host_in_inventory data h of
       Inl e \<Rightarrow> Inl e
     | Inr (Some v) \<Rightarrow> Inr True
     | Inr None \<Rightarrow>
         (case (case data of JObj d \<Rightarrow> children_of d | _ \<Rightarrow> Inl AttributeError) of
            Inr (JObj c) \<Rightarrow> any_host data hs
          | Inr _ \<Rightarrow> Inl AttributeError
          | Inl e \<Rightarrow> Inl e))"

fun nested_group :: "string \<Rightarrow> doc \<Rightarrow> bool res" where
  "nested_group g [] = Inr False"
| "nested_group g ((n, JObj c) # cs) =
    (case py_in g (getd c ''children'' (JObj [])) of
       Inl e \<Rightarrow> Inl e
     | Inr True \<Rightarrow> Inr True
     | Inr False \<Rightarrow> nested_group g cs)"
| "nested_group g (c # cs) = nested_group g cs"

fun any_group :: "doc \<Rightarrow> bool \<Rightarrow> string list \<Rightarrow> bool res" where
  \<comment> \<open>a direct child ends the search, a nested one does not\<close>
  "any_group cs found [] = Inr found"
| "any_group cs found (g # gs) =
    (if has cs g then Inr True
     else case nested_group g cs of Inl e \<Rightarrow> Inl e | Inr b \<Rightarrow> any_group cs (found \<or> b) gs)"

definition serves_playbook :: "inventory_env \<Rightarrow> string list \<Rightarrow> string list \<Rightarrow> doc \<Rightarrow> bool res" where
  "serves_playbook Y hosts groups d =
    (let logged = (if truthy (dget d ''all'') then (case children_of d of Inr (JObj c) \<Rightarrow> True | _ \<Rightarrow> False) else True) in
     if \<not> logged then Inl AttributeError
     else case any_host (JObj d) (order Y hosts) of
       Inl e \<Rightarrow> Inl e
     | Inr h \<Rightarrow>
         if groups = [] then Inr h
         else case children_of d of
           Inr (JObj c) \<Rightarrow> (case any_group c False (order Y groups) of Inl e \<Rightarrow> Inl e | Inr g \<Rightarrow> Inr (h \<or> g))
         | Inr _ \<Rightarrow> Inl TypeError
         | Inl e \<Rightarrow> Inl e)"

definition find_inventory_files_for_playbook ::
    "'g sync_env \<Rightarrow> inventory_env \<Rightarrow> (json \<Rightarrow> string) \<Rightarrow> string \<Rightarrow> doc list \<Rightarrow> fs \<Rightarrow> string list" where
  \<comment> \<open>of the plays; the code returns a set, here in the order the files are tried\<close>
  "find_inventory_files_for_playbook E Y str pid plays fs =
    (let targets = remdups (concat (map (play_targets str) plays));
         hosts = filter is_ip targets; groups = filter (\<lambda>t. \<not> is_ip t) targets
     in if targets = [] then []
        else map (\<lambda>q. rel_text (drop (length (projects_dir E) + 2) q))
          (filter (\<lambda>q. case read_or_empty E Y fs q of
              Inl e \<Rightarrow> False
            | Inr d \<Rightarrow> serves_playbook Y hosts groups d = Inr True) (remdups (inventory_candidates E pid fs))))"

subsection \<open>Checking hosts in the background\<close>

definition project_auto_check :: "'g sync_world \<Rightarrow> string \<Rightarrow> bool res" where
  "project_auto_check w pid =
    (case getd (load_project_config w pid) ''host_status'' (JObj []) of
       JObj h \<Rightarrow> Inr (truthy (dget h ''auto_check_all_hosts''))
     | _ \<Rightarrow> Inl AttributeError)"

fun auto_check_projects :: "'g sync_world \<Rightarrow> string list \<Rightarrow> string list" where
  \<comment> \<open>an exception ends the loop; what was found so far is kept\<close>
  "auto_check_projects w [] = []"
| "auto_check_projects w (p # ps) =
    (case project_auto_check w p of
       Inl e \<Rightarrow> []
     | Inr b \<Rightarrow> (if b then [p] else []) @ auto_check_projects w ps)"

definition get_projects_with_auto_check_hosts :: "'g sync_env \<Rightarrow> 'g sync_world \<Rightarrow> string list" where
  "get_projects_with_auto_check_hosts E w =
    auto_check_projects w (map fst (filter snd (scan (tree w) (projects_dir E))))"

definition project_inventories :: "'g sync_env \<Rightarrow> string \<Rightarrow> fs \<Rightarrow> path list" where
  "project_inventories E pid fs =
    (let d = inventories_dir E pid fs; fallback = projects_dir E @ [pid, ''repo'', ''inventories''];
         direct = filter (exists_at fs) (map (\<lambda>n. d @ [n]) inventory_names);
         found = direct @ filter (\<lambda>q. q \<notin> set direct) (deep_inventories fs d)
     in if found = [] \<and> exists_at fs fallback then
          concat (map (\<lambda>n. case filter (\<lambda>q. last q = n) (deep_inventories fs fallback) of [] \<Rightarrow> [] | q # qs \<Rightarrow> [q]) inventory_names)
        else found)"

definition get_project_hosts_list :: "'g sync_env \<Rightarrow> inventory_env \<Rightarrow> string \<Rightarrow> fs \<Rightarrow> string list" where
  "get_project_hosts_list E Y pid fs =
    map (\<lambda>e. case dget e ''name'' of JStr n \<Rightarrow> n | _ \<Rightarrow> [])
      (get_inventory_hosts E Y fs (map path_text (project_inventories E pid fs)))"

record tick_env =
  isofmt :: "real \<Rightarrow> string"
  parse_iso :: "string \<Rightarrow> real option"
  parse_int :: "string \<Rightarrow> int option"
  ttl_env :: "string option"

definition wants_check :: "host_report option \<Rightarrow> bool res" where
  \<comment> \<open>unknown hosts and expired states are checked\<close>
  "wants_check st =
    (case st of
       None \<Rightarrow> Inr True
     | Some r \<Rightarrow>
         (case py_or (hr_status r) (JStr ''unknown'') of
            JStr s \<Rightarrow> Inr (hr_expired r \<or> lower s = ''unknown'')
          | _ \<Rightarrow> Inl AttributeError))"

fun hosts_to_check ::
    "(string \<Rightarrow> json \<times> bool) \<Rightarrow> (string \<Rightarrow> host_state \<Rightarrow> host_report option \<times> host_state) \<Rightarrow> string list \<Rightarrow> host_state \<Rightarrow>
     (string \<times> json) list res \<times> host_state" where
  "hosts_to_check secret status [] H = (Inr [], H)"
| "hosts_to_check secret status (h # hs) H =
    (case status h H of (st, H) \<Rightarrow>
     (case wants_check st of
        Inl e \<Rightarrow> (Inl e, H)
      | Inr b \<Rightarrow>
          (case hosts_to_check secret status hs H of
             (Inl e, H) \<Rightarrow> (Inl e, H)
           | (Inr r, H) \<Rightarrow>
               (Inr (if b \<and> (snd (secret h) \<or> truthy (fst (secret h))) then (h, fst (secret h)) # r else r), H))))"

definition host_check_request :: "string \<Rightarrow> (string \<times> json) list \<Rightarrow> doc" where
  "host_check_request pid hs =
    [(''hosts'', JArr (map (JStr \<circ> fst) (take 20 hs))), (''project_id'', JStr pid),
     (''connection_secrets'', JObj (fold (\<lambda>(h, s) d. if truthy s then dset d h s else d) hs [])),
     (''inventory_files'', JArr [JStr ''inventory.yml'']), (''ansible_config'', JStr ''ansible_local_execute.cfg'')]"

definition check_project_hosts ::
    "'g sync_env \<Rightarrow> inventory_env \<Rightarrow> tick_env \<Rightarrow> real \<Rightarrow> 'g sync_world \<Rightarrow> string \<Rightarrow> host_state \<Rightarrow> doc list \<times> host_state" where
  "check_project_hosts E Y T now w pid H =
    (let ttl = get_host_status_ttl_seconds (parse_int T) (ttl_env T) (Some (load_project_config w pid)) pid in
     case hosts_to_check (resolve_connection_secret_for_host E Y (tree w) pid)
       (get_host_check_status (isofmt T) (parse_iso T) ttl now pid) (get_project_hosts_list E Y pid (tree w)) H of
       (Inl e, H) \<Rightarrow> ([], H)
     | (Inr hs, H) \<Rightarrow> (if hs = [] then [] else [host_check_request pid hs], H))"

definition host_status_auto_check_tick ::
    "'g sync_env \<Rightarrow> inventory_env \<Rightarrow> tick_env \<Rightarrow> real \<Rightarrow> 'g sync_world \<Rightarrow> host_state \<Rightarrow> doc list \<times> host_state" where
  \<comment> \<open>the requests to \<^verbatim>\<open>/api/check_hosts\<close>\<close>
  "host_status_auto_check_tick E Y T now w H =
    fold (\<lambda>pid (reqs, H). case check_project_hosts E Y T now w pid H of (r, H) \<Rightarrow> (reqs @ r, H))
      (get_projects_with_auto_check_hosts E w) ([], H)"

end
