(* ===== verification/InventoryProps.thy ===== *)
theory InventoryProps
  imports Inventory
begin

text \<open>
  When the INI parser returns, what its tree holds, and what the searches find in it.
\<close>

subsection \<open>Cyclic groups\<close>

definition child_rel :: "(string \<times> raw_group) list \<Rightarrow> (string \<times> string) set" where
  "child_rel R = {(c, p). \<exists>g. map_of R p = Some g \<and> c \<in> set (kids R g)}"

lemma collect_ok: "is_ok (collect f cs acc) \<longleftrightarrow> (\<forall>c \<in> set cs. is_ok (f c))"
  by (induction f cs acc rule: collect.induct) (auto split: sum.splits)

lemma collect_error:
  "(\<And>c e. c \<in> set cs \<Longrightarrow> f c = Inl e \<Longrightarrow> e = x) \<Longrightarrow> collect f cs acc = Inl e \<Longrightarrow> e = x"
  by (induction f cs acc rule: collect.induct) (auto split: sum.splits)

lemma build_error: "build_group R n g = Inl e \<Longrightarrow> e = OtherError ''RecursionError''"
proof (induction n arbitrary: g e)
  case (Suc n)
  then show ?case by (auto split: sum.splits dest!: collect_error [where x = "OtherError ''RecursionError''", rotated])
qed simp

definition built :: "(string \<times> raw_group) list \<Rightarrow> nat \<Rightarrow> string \<Rightarrow> bool" where
  "built R n p = is_ok (build_group R n (the (map_of R p)))"

lemma built_Suc: "map_of R p = Some g \<Longrightarrow> built R (Suc n) p \<longleftrightarrow> (\<forall>c \<in> set (kids R g). built R n c)"
  using collect_ok [of "\<lambda>c. build_group R n (the (map_of R c))" "kids R g" "[]"]
  by (auto simp: built_def is_ok_iff split: sum.splits)

lemma built_0 [simp]: "\<not> built R 0 p"
  by (simp add: built_def)

lemma built_below: "(c, p) \<in> (child_rel R)\<^sup>+ \<Longrightarrow> built R n p \<Longrightarrow> \<exists>m < n. built R m c"
proof (induction arbitrary: n rule: converse_trancl_induct)
  case (base c)
  then obtain g where "map_of R p = Some g" "c \<in> set (kids R g)" by (auto simp: child_rel_def)
  with base show ?case by (cases n) (auto simp: built_Suc)
next
  case (step b c)
  then obtain m where m: "m < n" "built R m c" by blast
  obtain g where "map_of R c = Some g" "b \<in> set (kids R g)" using step.hyps by (auto simp: child_rel_def)
  with m show ?case by (cases m) (auto simp: built_Suc intro: less_trans)
qed

lemma cycle_not_built: "(p, p) \<in> (child_rel R)\<^sup>+ \<Longrightarrow> \<not> built R n p"
  using built_below by (induction n rule: less_induct) blast

lemma child_rel_keys: "child_rel R \<subseteq> (fst ` set R - {''all''}) \<times> fst ` set R"
  by (auto simp: child_rel_def kids_def dest!: map_of_SomeD intro: image_eqI [rotated])

lemma descendants_keys: "{x. (x, p) \<in> (child_rel R)\<^sup>+} \<subseteq> fst ` set R - {''all''}"
proof
  fix x assume "x \<in> {x. (x, p) \<in> (child_rel R)\<^sup>+}"
  then obtain y where "(x, y) \<in> child_rel R" by (auto elim: converse_tranclE)
  then show "x \<in> fst ` set R - {''all''}" using child_rel_keys [of R] by blast
qed

lemma acyclic_built:
  assumes "acyclic (child_rel R)" shows "map_of R p \<noteq> None \<Longrightarrow> card {x. (x, p) \<in> (child_rel R)\<^sup>+} < n \<Longrightarrow> built R n p"
proof (induction n arbitrary: p)
  case (Suc n)
  let ?D = "\<lambda>p. {x. (x, p) \<in> (child_rel R)\<^sup>+}"
  obtain g where g: "map_of R p = Some g" using Suc.prems by auto
  have fin: "finite (?D q)" for q by (rule finite_subset [OF descendants_keys]) simp
  have "built R n c" if c: "c \<in> set (kids R g)" for c
  proof (rule Suc.IH)
    from c show "map_of R c \<noteq> None" by (simp add: kids_def)
    have cp: "(c, p) \<in> child_rel R" using c g by (auto simp: child_rel_def)
    then have "?D c \<subset> ?D p" using assms by (auto simp: acyclic_def intro: trancl_into_trancl)
    then have "card (?D c) < card (?D p)" using fin by (intro psubset_card_mono)
    with Suc.prems show "card (?D c) < n" by simp
  qed
  then show ?case using built_Suc [OF g] by blast
qed simp

lemma tree_ok: "is_ok (groups_tree n S) \<longleftrightarrow> (\<forall>p \<in> fst ` set (raws S) - {''all''}. built (raws S) n p)"
proof -
  have "is_ok (groups_tree n S) \<longleftrightarrow> is_ok (collect (\<lambda>c. build_group (raws S) n (the (map_of (raws S) c)))
      (filter (\<lambda>n. n \<noteq> ''all'') (map fst (raws S))) [])"
    by (auto simp: groups_tree_def is_ok_iff split: sum.splits)
  then show ?thesis by (auto simp: collect_ok built_def)
qed

lemma tree_error: "groups_tree n S = Inl e \<Longrightarrow> e = OtherError ''RecursionError''"
  by (auto simp: groups_tree_def split: sum.splits dest: build_error dest!: collect_error [where x = "OtherError ''RecursionError''", rotated])

lemma tree_acyclic_ok:
  assumes "acyclic (child_rel (raws S))" "length (raws S) \<le> n" shows "is_ok (groups_tree n S)"
  unfolding tree_ok
proof
  fix p assume p: "p \<in> fst ` set (raws S) - {''all''}"
  let ?D = "{x. (x, p) \<in> (child_rel (raws S))\<^sup>+}"
  have "?D \<subset> fst ` set (raws S)"
    using p descendants_keys [of p "raws S"] assms(1) by (auto simp: acyclic_def)
  then have "card ?D < card (fst ` set (raws S))" by (intro psubset_card_mono) simp_all
  also have "\<dots> \<le> length (raws S)" by (metis card_length length_map list.set_map)
  finally have "card ?D < n" using assms(2) by simp
  moreover have "map_of (raws S) p \<noteq> None" using p by (simp add: map_of_eq_None_iff)
  ultimately show "built (raws S) n p" by (intro acyclic_built [OF assms(1)])
qed

lemma tree_cyclic_error:
  assumes "\<not> acyclic (child_rel (raws S))" shows "groups_tree n S = Inl (OtherError ''RecursionError'')"
proof -
  obtain p where p: "(p, p) \<in> (child_rel (raws S))\<^sup>+" using assms by (auto simp: acyclic_def)
  then have "p \<in> fst ` set (raws S) - {''all''}" using descendants_keys [of p "raws S"] by blast
  then have "\<not> is_ok (groups_tree n S)" using cycle_not_built [OF p] by (auto simp: tree_ok)
  then show ?thesis using tree_error [of n S] by (cases "groups_tree n S") auto
qed

text \<open>C24: An INI inventory is parsed if and only if no group is, directly or through others, among its own
  children: then one stack frame for every group is enough, and otherwise the parser runs out of
  stack however much there is.\<close>
theorem ini_parsed_iff_acyclic:
  assumes "length (raws (read_ini c)) \<le> frames"
  shows "is_ok (parse_ini_inventory frames (Some c)) \<longleftrightarrow> acyclic (child_rel (raws (read_ini c)))"
  using tree_acyclic_ok [OF _ assms] tree_cyclic_error [of "read_ini c" frames]
  by (cases "acyclic (child_rel (raws (read_ini c)))") (auto simp: parse_ini_inventory_def is_ok_iff split: sum.splits)

definition lf :: char where "lf = CHR 0x0A"

definition cyclic_text :: string where
  "cyclic_text = ''[a:children]'' @ [lf] @ ''b'' @ [lf] @ ''[b:children]'' @ [lf] @ ''a'' @ [lf]"

definition plain_text :: string where
  "plain_text = ''[web]'' @ [lf] @ ''h1 port=22'' @ [lf] @ ''[site:children]'' @ [lf] @ ''web'' @ [lf]"

lemma cyclic_read: "raws (read_ini cyclic_text) =
    [(''a'', \<lparr>g_hosts = [], g_children = [''b''], g_vars = []\<rparr>), (''b'', \<lparr>g_hosts = [], g_children = [''a''], g_vars = []\<rparr>)]"
  by code_simp

lemma plain_read: "raws (read_ini plain_text) =
    [(''web'', \<lparr>g_hosts = [(''h1'', [(''port'', JStr ''22'')])], g_children = [], g_vars = []\<rparr>),
     (''site'', \<lparr>g_hosts = [], g_children = [''web''], g_vars = []\<rparr>)]"
  by code_simp

theorem ini_parsed_iff_acyclic_witness:
  "\<not> is_ok (parse_ini_inventory 1000 (Some cyclic_text))"
proof -
  have "(''a'', ''a'') \<in> (child_rel (raws (read_ini cyclic_text)))\<^sup>+"
    by (rule trancl_trans [of _ "''b''"]) (auto simp: cyclic_read child_rel_def kids_def intro!: r_into_trancl)
  then have "\<not> acyclic (child_rel (raws (read_ini cyclic_text)))" by (auto simp: acyclic_def)
  with ini_parsed_iff_acyclic [of cyclic_text 1000] show ?thesis by (simp add: cyclic_read)
qed

subsection \<open>Finding a host\<close>

inductive occurs :: "string \<Rightarrow> doc \<Rightarrow> bool" for h :: string where
  own: "dget d ''hosts'' = JObj hs \<Longrightarrow> has hs h \<Longrightarrow> occurs h d"
| listed: "dget d ''children'' = JObj cs \<Longrightarrow> (n, JObj g) \<in> set cs \<Longrightarrow> dget g ''hosts'' = JArr xs \<Longrightarrow>
    JStr h \<in> set xs \<Longrightarrow> occurs h d"
| below: "dget d ''children'' = JObj cs \<Longrightarrow> (n, JObj g) \<in> set cs \<Longrightarrow> occurs h g \<Longrightarrow> occurs h d"

lemma direct_host_iff: "direct_host h d \<noteq> None \<longleftrightarrow> (\<exists>hs. dget d ''hosts'' = JObj hs \<and> has hs h)"
  by (auto simp: direct_host_def has_def split: json.splits option.splits)

lemma listed_host_iff:
  "listed_host h g \<noteq> None \<longleftrightarrow> direct_host h g \<noteq> None \<or> (\<exists>xs. dget g ''hosts'' = JArr xs \<and> JStr h \<in> set xs)"
  by (cases "dget g ''hosts''") (auto simp: listed_host_def direct_host_def)

lemma find_sound:
  "find_section h d \<noteq> None \<Longrightarrow> occurs h d"
  "find_groups h cs \<noteq> None \<Longrightarrow> \<exists>n g. (n, JObj g) \<in> set cs \<and> (listed_host h g \<noteq> None \<or> occurs h g)"
proof (induction h d and h cs rule: find_section_find_groups.induct)
  case (1 h d)
  show ?case
  proof (cases "direct_host h d")
    case None
    with 1 obtain cs where cs: "dget d ''children'' = JObj cs" "find_groups h cs \<noteq> None"
      by (auto simp: find_section.simps [of h d] split: json.splits)
    with 1(1) None obtain n g where g: "(n, JObj g) \<in> set cs" "listed_host h g \<noteq> None \<or> occurs h g" by blast
    from g(2) show ?thesis
    proof
      assume "listed_host h g \<noteq> None"
      then show ?thesis using cs(1) g(1) by (auto simp: listed_host_iff direct_host_iff simp del: not_None_eq intro: occurs.intros)
    qed (rule occurs.below [OF cs(1) g(1)])
  next
    case (Some v)
    then show ?thesis using direct_host_iff [of h d] by (auto intro: occurs.own)
  qed
next
  case (3 h n g cs)
  then show ?case by (auto split: option.splits if_splits)
qed auto

lemma find_groups_member:
  "(n, JObj g) \<in> set cs \<Longrightarrow> listed_host h g \<noteq> None \<or> has g ''children'' \<and> find_section h g \<noteq> None \<Longrightarrow> find_groups h cs \<noteq> None"
proof (induction cs)
  case (Cons p cs)
  obtain m v where p: "p = (m, v)" by (cases p)
  show ?case
  proof (cases v)
    case (JObj g')
    with Cons p show ?thesis by (auto split: option.splits)
  qed (use Cons p in simp_all)
qed simp

lemma find_complete: "occurs h d \<Longrightarrow> find_section h d \<noteq> None"
proof (induction rule: occurs.induct)
  case (own d hs)
  then show ?case using direct_host_iff [of h d] by (auto simp: find_section.simps [of h d])
next
  case (listed d cs n g xs)
  then show ?case using find_groups_member [of n g cs h] listed_host_iff [of h g]
    by (auto simp: find_section.simps [of h d] split: option.splits)
next
  case (below d cs n g)
  have "listed_host h g \<noteq> None \<or> has g ''children''"
  proof (cases "direct_host h g")
    case None
    with below have "dget g ''children'' \<noteq> JNull" by (auto simp: find_section.simps [of h g] split: json.splits)
    then show ?thesis using dget_not_has [of g "''children''"] by auto
  qed (use listed_host_iff [of h g] in blast)
  with below show ?case using find_groups_member [of n g cs h]
    by (auto simp: find_section.simps [of h d] split: option.splits)
qed

text \<open>The search of a host in an inventory finds it exactly if it stands, at any depth, under the
  hosts of the section \<^verbatim>\<open>all\<close> or of a group below it: as a key of a dictionary anywhere, as an
  item of a list in every group but \<^verbatim>\<open>all\<close> itself.\<close>
theorem find_host_iff_occurs:
  assumes "map_of d ''all'' = Some (JObj s)"
  shows "(\<exists>v. find_host_in_inventory (JObj d) h = Inr (Some v)) \<longleftrightarrow> occurs h s"
proof -
  have "d \<noteq> []" using assms by auto
  then have "find_host_in_inventory (JObj d) h = Inr (find_section h s)"
    using assms by (simp add: find_host_in_inventory_def)
  then show ?thesis using find_sound(1) [of h s] find_complete [of h s] by auto
qed

theorem find_host_iff_occurs_witness:
  "\<exists>v. find_host_in_inventory (JObj [(''all'', JObj [(''children'', JObj [(''web'', JObj [(''hosts'', JArr [JStr ''h''])])])])]) ''h''
     = Inr (Some v)"
  by (subst find_host_iff_occurs [OF map_of_Cons_code(2) [THEN trans, unfolded if_P [OF refl]]])
    (auto intro!: occurs.listed [of _ _ "''web''" "[(''hosts'', JArr [JStr ''h''])]" "[JStr ''h'']"])

subsection \<open>What the parsed file holds\<close>

lemma has_host_dict: "has (host_dict hs) h \<longleftrightarrow> h \<in> fst ` set hs"
proof -
  have "has (fold (\<lambda>(h, vs) d. dset d h (if vs = [] then JNull else JObj vs)) hs d) h \<longleftrightarrow> h \<in> fst ` set hs \<or> has d h" for d
    by (induction hs arbitrary: d) auto
  then show ?thesis by (simp add: host_dict_def)
qed

lemma collect_values:
  "collect f cs acc = Inr ch \<Longrightarrow> (n, v) \<in> set ch \<Longrightarrow> (n, v) \<in> set acc \<or> n \<in> set cs \<and> f n = Inr v"
proof (induction f cs acc rule: collect.induct)
  case (2 f c cs acc)
  then obtain j where j: "f c = Inr j" "collect f cs (dset acc c j) = Inr ch" by (auto split: sum.splits)
  have "(n, v) \<in> set (dset acc c j) \<Longrightarrow> (n, v) \<in> set acc \<or> (n, v) = (c, j)"
    by (induction acc) (auto simp: dset_def split: if_splits)
  with 2(1) [OF j 2(3)] j(1) show ?case by auto
qed simp

lemma collect_all: "collect f cs acc = Inr ch \<Longrightarrow> (\<forall>k. k \<in> set cs \<longrightarrow> f k = Inr (g k)) \<Longrightarrow>
    map_of ch k = (if k \<in> set cs then Some (g k) else map_of acc k)"
  by (induction f cs acc rule: collect.induct) (auto split: sum.splits)

lemma group_doc_hosts: "direct_host h d \<noteq> None \<longleftrightarrow> h \<in> fst ` set (g_hosts g)" if "group_doc g ch = JObj d"
proof -
  have "dget d ''hosts'' = JObj (host_dict (g_hosts g))" using that by (auto simp: group_doc_def)
  then show ?thesis unfolding direct_host_iff by (simp add: has_host_dict)
qed

lemma group_doc_children: "group_doc g ch = JObj d \<Longrightarrow> dget d ''children'' = JObj ch"
  by (auto simp: group_doc_def)

lemma built_obj: "build_group R n g = Inr v \<Longrightarrow> \<exists>ch. v = group_doc g ch"
  by (cases n) (auto split: sum.splits)

lemma build_occurs:
  "build_group R n g = Inr (JObj d) \<Longrightarrow> occurs h d \<Longrightarrow>
     \<exists>g'. (g' = g \<or> (\<exists>m. m \<noteq> ''all'' \<and> map_of R m = Some g')) \<and> h \<in> fst ` set (g_hosts g')"
proof (induction n arbitrary: g d)
  case (Suc n)
  then obtain ch where ch: "collect (\<lambda>c. build_group R n (the (map_of R c))) (kids R g) [] = Inr ch" "group_doc g ch = JObj d"
    by (auto split: sum.splits)
  have sub: "c \<noteq> ''all'' \<and> (\<exists>g'. map_of R c = Some g' \<and> build_group R n g' = Inr v)" if "(c, v) \<in> set ch" for c v
    using collect_values [OF ch(1) that] by (auto simp: kids_def)
  from Suc.prems(2) show ?case
  proof cases
    case (own hs)
    then have "direct_host h d \<noteq> None" unfolding direct_host_iff by blast
    then show ?thesis using group_doc_hosts [OF ch(2), of h] by blast
  next
    case (listed cs c g' xs)
    then have "(c, JObj g') \<in> set ch" using group_doc_children [OF ch(2)] by simp
    from sub [OF this] listed show ?thesis by (auto dest!: built_obj simp: group_doc_def)
  next
    case (below cs c g')
    then have "(c, JObj g') \<in> set ch" using group_doc_children [OF ch(2)] by simp
    from sub [OF this] obtain g2 where "c \<noteq> ''all''" "map_of R c = Some g2" "build_group R n g2 = Inr (JObj g')" by blast
    with Suc.IH [OF this(3) below(3)] show ?thesis by blast
  qed
qed simp

lemma occurs_inside:
  "occurs h d \<Longrightarrow> dget d ''hosts'' = JNull \<Longrightarrow> dget d ''children'' = JObj ch \<Longrightarrow>
     \<exists>n g. (n, JObj g) \<in> set ch \<and> (occurs h g \<or> (\<exists>xs. dget g ''hosts'' = JArr xs))"
  by (erule occurs.cases) fastforce+

definition ini_hosts :: "ini \<Rightarrow> string set" where
  \<comment> \<open>the hosts of every section but \<^verbatim>\<open>all\<close>\<close>
  "ini_hosts S = {h. \<exists>n g. n \<noteq> ''all'' \<and> map_of (raws S) n = Some g \<and> h \<in> fst ` set (g_hosts g)}"

lemma found_iff_in_sections:
  assumes "parse_ini_inventory frames (Some c) = Inr (Some j)"
  shows "(\<exists>v. find_host_in_inventory j h = Inr (Some v)) \<longleftrightarrow> h \<in> ini_hosts (read_ini c)"
proof -
  let ?S = "read_ini c"
  let ?names = "filter (\<lambda>n. n \<noteq> ''all'') (map fst (raws ?S))"
  obtain ch where ch: "collect (\<lambda>c. build_group (raws ?S) frames (the (map_of (raws ?S) c))) ?names [] = Inr ch"
    and j: "j = JObj [(''all'', JObj ([(''children'', JObj ch)] @
        (if all_vars ?S \<noteq> [] then [(''vars'', JObj (all_vars ?S))] else [])))]"
    using assms by (auto simp: parse_ini_inventory_def groups_tree_def split: sum.splits)
  let ?s = "[(''children'', JObj ch)] @ (if all_vars ?S \<noteq> [] then [(''vars'', JObj (all_vars ?S))] else [])"
  have s: "dget ?s ''hosts'' = JNull" "dget ?s ''children'' = JObj ch" by simp_all
  have "occurs h ?s \<longleftrightarrow> h \<in> ini_hosts ?S"
  proof
    assume "occurs h ?s"
    from occurs_inside [OF this s] obtain n g where
      g: "(n, JObj g) \<in> set ch" "occurs h g \<or> (\<exists>xs. dget g ''hosts'' = JArr xs)" by blast
    from collect_values [OF ch g(1)] obtain r where n: "n \<noteq> ''all''" "map_of (raws ?S) n = Some r"
        "build_group (raws ?S) frames r = Inr (JObj g)"
      by (auto dest: weak_map_of_SomeI)
    have "dget g ''hosts'' \<noteq> JArr xs" for xs using built_obj [OF n(3)] by (auto simp: group_doc_def)
    with g(2) have "occurs h g" by blast
    from build_occurs [OF n(3) this] n show "h \<in> ini_hosts ?S" by (auto simp: ini_hosts_def)
  next
    assume "h \<in> ini_hosts ?S"
    then obtain n r where n: "n \<noteq> ''all''" "map_of (raws ?S) n = Some r" "h \<in> fst ` set (g_hosts r)"
      by (auto simp: ini_hosts_def)
    then have nm: "n \<in> set ?names" by (auto dest: map_of_SomeD intro: image_eqI [rotated])
    have ok: "\<forall>c \<in> set ?names. is_ok (build_group (raws ?S) frames (the (map_of (raws ?S) c)))"
      using collect_ok [of "\<lambda>c. build_group (raws ?S) frames (the (map_of (raws ?S) c))" ?names "[]"] unfolding ch by simp
    have "is_ok (build_group (raws ?S) frames r)" using bspec [OF ok nm] n(2) by simp
    then obtain v kidsd where v: "build_group (raws ?S) frames r = Inr v" "v = group_doc r kidsd"
      using built_obj unfolding is_ok_iff by blast
    then obtain d where d: "build_group (raws ?S) frames r = Inr (JObj d)" "group_doc r kidsd = JObj d"
      by (auto simp: group_doc_def)
    have all: "\<forall>k. k \<in> set ?names \<longrightarrow> build_group (raws ?S) frames (the (map_of (raws ?S) k)) =
        Inr (projr (build_group (raws ?S) frames (the (map_of (raws ?S) k))))"
    proof (intro allI impI)
      fix k assume "k \<in> set ?names"
      with ok have "is_ok (build_group (raws ?S) frames (the (map_of (raws ?S) k)))" by blast
      then show "build_group (raws ?S) frames (the (map_of (raws ?S) k)) =
        Inr (projr (build_group (raws ?S) frames (the (map_of (raws ?S) k))))" unfolding is_ok_iff by force
    qed
    have "map_of ch n = Some (JObj d)" using collect_all [OF ch all, of n] nm n(2) d(1) by simp
    then have "(n, JObj d) \<in> set ch" by (rule map_of_SomeD)
    moreover have "occurs h d" using group_doc_hosts [OF d(2), of h] n(3) direct_host_iff [of h d] occurs.own [of d _ h] by blast
    ultimately show "occurs h ?s" using s(2) by (rule occurs.below [rotated])
  qed
  moreover have "find_host_in_inventory j h = Inr (find_section h ?s)"
    by (simp add: j find_host_in_inventory_def)
  ultimately show ?thesis using find_sound(1) [of h ?s] find_complete [of h ?s] by auto
qed

subsection \<open>Which hosts the lines of a file list\<close>

text \<open>Said of the lines alone, with no reader: a heading is a line in brackets; it opens a group of
  hosts unless it names its variables or its children; a line below it, up to the next
  heading, names a host by its first word up to a colon.\<close>

definition heading :: "string \<Rightarrow> bool" where
  "heading l = (\<exists>s. strip l = ''['' @ s @ '']'')"

definition opens :: "string \<Rightarrow> string \<Rightarrow> bool" where
  \<comment> \<open>the heading of a group \<open>n\<close> of hosts\<close>
  "opens l n = (\<exists>s. strip l = ''['' @ s @ '']'' \<and>
     (CHR '':'' \<notin> set s \<and> n = strip s \<or>
      (\<exists>a b. strip s = a @ '':'' @ b \<and> CHR '':'' \<notin> set a \<and> n = strip a \<and> lower (strip b) \<notin> {''vars'', ''children''})))"

definition names_host :: "string \<Rightarrow> string \<Rightarrow> bool" where
  "names_host l h = (\<not> heading l \<and> \<not> starts_with (strip l) ''#'' \<and>
     (\<exists>w rest. strip l = w @ rest \<and> w \<noteq> [] \<and> (\<forall>c\<in>set w. \<not> is_space c) \<and> (rest = [] \<or> is_space (hd rest)) \<and>
        (if starts_with w ''['' then h = w
         else (\<exists>z. w = h @ z \<and> CHR '':'' \<notin> set h \<and> (z = [] \<or> hd z = CHR '':'')))))"

definition under :: "string list \<Rightarrow> string \<Rightarrow> bool" where
  \<comment> \<open>the last heading opens the group of hosts \<open>n\<close>\<close>
  "under ls n = (\<exists>pre hd mid. ls = pre @ hd # mid \<and> opens hd n \<and> (\<forall>m\<in>set mid. \<not> heading m))"

definition lists_host :: "string list \<Rightarrow> string \<Rightarrow> string \<Rightarrow> bool" where
  "lists_host ls n h = (\<exists>pre l post. ls = pre @ l # post \<and> under pre n \<and> names_host l h)"

lemma lists_host_iff:
  "lists_host ls n h \<longleftrightarrow> (\<exists>pre hd mid l post. ls = pre @ hd # mid @ l # post \<and> opens hd n \<and>
       (\<forall>m\<in>set mid. \<not> heading m) \<and> names_host l h)"
proof
  assume "lists_host ls n h"
  then obtain pre hd mid l post where "ls = (pre @ hd # mid) @ l # post" "opens hd n" "\<forall>m\<in>set mid. \<not> heading m" "names_host l h"
    unfolding lists_host_def under_def by blast
  then have "ls = pre @ hd # mid @ l # post \<and> opens hd n \<and> (\<forall>m\<in>set mid. \<not> heading m) \<and> names_host l h" by simp
  then show "\<exists>pre hd mid l post. ls = pre @ hd # mid @ l # post \<and> opens hd n \<and>
       (\<forall>m\<in>set mid. \<not> heading m) \<and> names_host l h" by blast
next
  assume "\<exists>pre hd mid l post. ls = pre @ hd # mid @ l # post \<and> opens hd n \<and> (\<forall>m\<in>set mid. \<not> heading m) \<and> names_host l h"
  then obtain pre hd mid l post where "ls = (pre @ hd # mid) @ l # post" "opens hd n" "\<forall>m\<in>set mid. \<not> heading m" "names_host l h"
    by auto
  then show "lists_host ls n h" unfolding lists_host_def under_def by blast
qed

lemma opens_heading: "opens l n \<Longrightarrow> heading l"
  by (auto simp: opens_def heading_def)

lemma under_Nil [simp]: "\<not> under [] n"
  by (simp add: under_def)

lemma under_snoc: "under (ls @ [l]) n \<longleftrightarrow> (if heading l then opens l n else under ls n)"
proof
  assume "under (ls @ [l]) n"
  then obtain pre hd mid where p: "ls @ [l] = pre @ hd # mid" "opens hd n" "\<forall>m\<in>set mid. \<not> heading m"
    unfolding under_def by blast
  then show "if heading l then opens l n else under ls n"
  proof (cases mid rule: rev_cases)
    case Nil
    with p opens_heading show ?thesis by auto
  next
    case (snoc ms m)
    with p have "ls = pre @ hd # ms" "m = l" by auto
    with p snoc show ?thesis by (auto simp: under_def)
  qed
next
  assume r: "if heading l then opens l n else under ls n"
  show "under (ls @ [l]) n"
  proof (cases "heading l")
    case True
    with r show ?thesis unfolding under_def by (intro exI [of _ ls] exI [of _ l] exI [of _ "[]"]) simp
  next
    case False
    with r obtain pre hd mid where "ls = pre @ hd # mid" "opens hd n" "\<forall>m\<in>set mid. \<not> heading m"
      unfolding under_def by auto
    with False show ?thesis unfolding under_def by (intro exI [of _ pre] exI [of _ hd] exI [of _ "mid @ [l]"]) auto
  qed
qed

lemma lists_Nil [simp]: "\<not> lists_host [] n h"
  by (simp add: lists_host_def)

lemma lists_snoc: "lists_host (ls @ [l]) n h \<longleftrightarrow> lists_host ls n h \<or> under ls n \<and> names_host l h"
proof
  assume "lists_host (ls @ [l]) n h"
  then obtain pre k post where p: "ls @ [l] = pre @ k # post" "under pre n" "names_host k h"
    unfolding lists_host_def by blast
  then show "lists_host ls n h \<or> under ls n \<and> names_host l h"
    by (cases post rule: rev_cases) (auto simp: lists_host_def)
next
  assume "lists_host ls n h \<or> under ls n \<and> names_host l h"
  then show "lists_host (ls @ [l]) n h"
  proof
    assume "lists_host ls n h"
    then obtain pre k post where "ls = pre @ k # post" "under pre n" "names_host k h" unfolding lists_host_def by blast
    then show ?thesis unfolding lists_host_def by (intro exI [of _ pre] exI [of _ k] exI [of _ "post @ [l]"]) simp
  qed (unfold lists_host_def, blast)
qed

text \<open>The reader agrees with it, line by line.\<close>

lemma dropWhile_hd: "dropWhile P s = c # t \<Longrightarrow> \<not> P c"
  by (metis hd_dropWhile list.distinct(1) list.sel(1))

lemma strip_first: "strip l = c # t \<Longrightarrow> \<not> is_space c"
proof -
  assume s: "strip l = c # t"
  define d where "d = dropWhile is_space l"
  have "strip l = rev (dropWhile is_space (rev d))" by (simp add: strip_def d_def)
  then have "\<exists>z. d = strip l @ z"
    by (metis rev_append rev_rev_ident takeWhile_dropWhile_id)
  then obtain z where "d = c # (t @ z)" using s by auto
  then show ?thesis unfolding d_def by (rule dropWhile_hd)
qed

lemma strip_subset: "c \<in> set (strip s) \<Longrightarrow> c \<in> set s"
  by (metis set_dropWhileD set_rev strip_def)

lemma dropWhile_keeps: "c \<in> set s \<Longrightarrow> \<not> P c \<Longrightarrow> c \<in> set (dropWhile P s)"
  by (induction s) auto

lemma strip_keeps: "c \<in> set s \<Longrightarrow> \<not> is_space c \<Longrightarrow> c \<in> set (strip s)"
  by (simp add: strip_def dropWhile_keeps)

lemma split_space_first:
  "s \<noteq> [] \<Longrightarrow> \<not> is_space (hd s) \<Longrightarrow> \<exists>ws. split_space s = takeWhile (\<lambda>c. \<not> is_space c) s # ws"
proof (induction s)
  case (Cons c s)
  show ?case
  proof (cases s)
    case (Cons d u)
    note step = split_space.simps(2) [of c s, unfolded Cons list.case, folded Cons]
    show ?thesis
    proof (cases "is_space d")
      case True
      with Cons Cons.prems step show ?thesis by (simp del: split_space.simps)
    next
      case False
      then obtain ws where "split_space s = takeWhile (\<lambda>c. \<not> is_space c) s # ws" using Cons.IH Cons by auto
      with False Cons.prems step show ?thesis by (simp del: split_space.simps add: Cons)
    qed
  qed (use Cons.prems in simp)
qed simp

lemma bracketed: "starts_with l ''['' \<and> ends_with l '']'' \<longleftrightarrow> (\<exists>s. l = ''['' @ s @ '']'')"
proof
  assume a: "starts_with l ''['' \<and> ends_with l '']''"
  then obtain t where t: "l = CHR ''['' # t" by (cases l) (auto simp: starts_with_def)
  with a have "t \<noteq> []" by (auto simp: ends_with_def starts_with_def)
  then obtain u c where "t = u @ [c]" by (metis rev_exhaust)
  with a t show "\<exists>s. l = ''['' @ s @ '']''" by (auto simp: ends_with_def starts_with_def)
qed (auto simp: starts_with_def ends_with_def)

lemma heading_line: "ini_line l S = ini_header (strip s) S" if "strip l = ''['' @ s @ '']''"
proof -
  have "starts_with (strip l) ''['' \<and> ends_with (strip l) '']''" using that bracketed by blast
  then show ?thesis using that by (simp add: ini_line_def Let_def starts_with_def)
qed

definition hosts_of :: "(string \<times> raw_group) list \<Rightarrow> string \<Rightarrow> string set" where
  "hosts_of R n = (case map_of R n of None \<Rightarrow> {} | Some g \<Rightarrow> fst ` set (g_hosts g))"

lemma hosts_of_iff: "h \<in> hosts_of R n \<longleftrightarrow> (\<exists>g. map_of R n = Some g \<and> h \<in> fst ` set (g_hosts g))"
  by (cases "map_of R n") (auto simp: hosts_of_def)

definition hosting :: "ini \<Rightarrow> string option" where
  \<comment> \<open>the group whose hosts are being read\<close>
  "hosting S = (if cur_kind S \<in> {Some ''vars'', Some ''children''} then None else cur_section S)"

definition section_known :: "ini \<Rightarrow> bool" where
  "section_known S = (\<forall>n. cur_section S = Some n \<longrightarrow> map_of (raws S) n \<noteq> None)"

lemma map_of_on_group: "map_of (on_group n f R) k = (if k = n then map_option f (map_of R k) else map_of R k)"
  by (induction R) (auto simp: on_group_def)

lemma map_of_ensure: "map_of (ensure_group n R) k = (if k = n \<and> map_of R n = None then Some new_group else map_of R k)"
  by (auto simp: ensure_group_def map_add_def split: option.splits)

lemma hosts_of_ensure [simp]: "hosts_of (ensure_group n R) k = hosts_of R k"
  by (auto simp: hosts_of_def map_of_ensure new_group_def)

lemma hosts_of_on_group: "(\<And>g. g_hosts (f g) = g_hosts g) \<Longrightarrow> hosts_of (on_group n f R) k = hosts_of R k"
  by (auto simp: hosts_of_def map_of_on_group split: option.split)

lemma header_effect:
  "hosts_of (raws (ini_header s S)) k = hosts_of (raws S) k" "section_known (ini_header s S)"
  by (auto simp: ini_header_def Let_def hosts_of_on_group section_known_def map_of_on_group map_of_ensure)

lemma header_opens:
  assumes "strip l = ''['' @ s @ '']''"
  shows "hosting (ini_header (strip s) S) = Some n \<longleftrightarrow> opens l n"
proof (cases "CHR '':'' \<in> set (strip s)")
  case False
  have "CHR '':'' \<notin> set s"
  proof
    assume "CHR '':'' \<in> set s"
    moreover have "\<not> is_space (CHR '':'')" by code_simp
    ultimately have "CHR '':'' \<in> set (strip s)" by (rule strip_keeps)
    with False show False by simp
  qed
  with False assms show ?thesis by (auto simp: hosting_def ini_header_def opens_def)
next
  case True
  then obtain a b where split: "strip s = a @ CHR '':'' # b" "CHR '':'' \<notin> set a" by (meson split_list_first)
  then have ab: "strip s = a @ '':'' @ b" by simp
  have plain: "\<forall>c\<in>set a. c \<noteq> CHR '':''" using split(2) by blast
  have tw: "takeWhile (\<lambda>c. c \<noteq> CHR '':'') (strip s) = a" unfolding split(1) using plain by (subst takeWhile_append2) auto
  have dw: "tl (dropWhile (\<lambda>c. c \<noteq> CHR '':'') (strip s)) = b" unfolding split(1) using plain by (subst dropWhile_append2) auto
  note a = split(2)
  have uniq: "a' = a \<and> b' = b" if "strip s = a' @ '':'' @ b'" "CHR '':'' \<notin> set a'" for a' b'
  proof -
    have "takeWhile (\<lambda>c. c \<noteq> CHR '':'') (a' @ CHR '':'' # b') = a'"
      using that(2) by (subst takeWhile_append2) auto
    then have "a' = a" using that(1) tw by simp
    then show ?thesis using that(1) ab by simp
  qed
  have no: "CHR '':'' \<in> set s" using True strip_subset by blast
  have "hosting (ini_header (strip s) S) = (if lower (strip b) \<in> {''vars'', ''children''} then None else Some (strip a))"
    using True by (auto simp: hosting_def ini_header_def Let_def tw dw)
  moreover have "opens l n \<longleftrightarrow> n = strip a \<and> lower (strip b) \<notin> {''vars'', ''children''}"
  proof -
    have "opens l n \<longleftrightarrow> (\<exists>a b. strip s = a @ '':'' @ b \<and> CHR '':'' \<notin> set a \<and> n = strip a \<and>
        lower (strip b) \<notin> {''vars'', ''children''})"
      using no unfolding opens_def assms by simp
    then show ?thesis using ab a uniq by blast
  qed
  ultimately show ?thesis by auto
qed

lemma host_line:
  assumes "\<not> heading l" "strip l \<noteq> []" "\<not> starts_with (strip l) ''#''"
  shows "\<exists>n ps. split_space (strip l) = n # ps \<and> \<not> starts_with n ''#'' \<and> (names_host l h \<longleftrightarrow> h = ini_host_name n)"
proof -
  let ?w = "takeWhile (\<lambda>c. \<not> is_space c) (strip l)"
  obtain c t where ct: "strip l = c # t" using assms(2) by (cases "strip l") auto
  have c: "\<not> is_space c" by (rule strip_first [OF ct])
  then obtain ps where ps: "split_space (strip l) = ?w # ps" using split_space_first [of "strip l"] ct by auto
  have w: "?w = c # takeWhile (\<lambda>c. \<not> is_space c) t" using ct c by simp
  have "\<not> starts_with ?w ''#''" using assms(3) ct w by (auto simp: starts_with_def)
  moreover have "names_host l h \<longleftrightarrow> h = ini_host_name ?w"
  proof -
    have first: "w = ?w" if "strip l = w @ rest" "\<forall>c\<in>set w. \<not> is_space c" "rest = [] \<or> is_space (hd rest)" for w rest
    proof -
      have "takeWhile (\<lambda>c. \<not> is_space c) (w @ rest) = w @ takeWhile (\<lambda>c. \<not> is_space c) rest"
        using that(2) by (intro takeWhile_append2) blast
      moreover have "takeWhile (\<lambda>c. \<not> is_space c) rest = []" using that(3) by (cases rest) simp_all
      ultimately have "takeWhile (\<lambda>c. \<not> is_space c) (strip l) = w" unfolding that(1) by (simp only: append_Nil2)
      then show ?thesis ..
    qed
    have cut: "(\<exists>z. w = h @ z \<and> CHR '':'' \<notin> set h \<and> (z = [] \<or> hd z = CHR '':'')) \<longleftrightarrow> h = takeWhile (\<lambda>c. c \<noteq> CHR '':'') w" for w
    proof
      assume "\<exists>z. w = h @ z \<and> CHR '':'' \<notin> set h \<and> (z = [] \<or> hd z = CHR '':'')"
      then obtain z where z: "w = h @ z" "CHR '':'' \<notin> set h" "z = [] \<or> hd z = CHR '':''" by blast
      have "takeWhile (\<lambda>c. c \<noteq> CHR '':'') (h @ z) = h @ takeWhile (\<lambda>c. c \<noteq> CHR '':'') z"
        using z(2) by (intro takeWhile_append2) auto
      moreover have "takeWhile (\<lambda>c. c \<noteq> CHR '':'') z = []" using z(3) by (cases z) simp_all
      ultimately have "takeWhile (\<lambda>c. c \<noteq> CHR '':'') w = h" unfolding z(1) by (simp only: append_Nil2)
      then show "h = takeWhile (\<lambda>c. c \<noteq> CHR '':'') w" ..
    next
      assume h: "h = takeWhile (\<lambda>c. c \<noteq> CHR '':'') w"
      have "w = h @ dropWhile (\<lambda>c. c \<noteq> CHR '':'') w" unfolding h by (rule takeWhile_dropWhile_id [symmetric])
      moreover have "CHR '':'' \<notin> set h" unfolding h by (auto dest: set_takeWhileD)
      moreover have "dropWhile (\<lambda>c. c \<noteq> CHR '':'') w = [] \<or> hd (dropWhile (\<lambda>c. c \<noteq> CHR '':'') w) = CHR '':''"
        using hd_dropWhile [of "\<lambda>c. c \<noteq> CHR '':''" w] by blast
      ultimately show "\<exists>z. w = h @ z \<and> CHR '':'' \<notin> set h \<and> (z = [] \<or> hd z = CHR '':'')" by blast
    qed
    have name: "h = ini_host_name ?w \<longleftrightarrow> (if starts_with ?w ''['' then h = ?w else h = takeWhile (\<lambda>c. c \<noteq> CHR '':'') ?w)"
    proof (cases "CHR '':'' \<in> set ?w")
      case False
      then have tw: "takeWhile (\<lambda>c. c \<noteq> CHR '':'') ?w = ?w" by (intro takeWhile_eq_all_conv [THEN iffD2]) auto
      show ?thesis unfolding tw using False by (simp add: ini_host_name_def)
    qed (simp add: ini_host_name_def)
    have whole: "strip l = ?w @ dropWhile (\<lambda>c. \<not> is_space c) (strip l)" by simp
    have tail: "dropWhile (\<lambda>c. \<not> is_space c) (strip l) = [] \<or> is_space (hd (dropWhile (\<lambda>c. \<not> is_space c) (strip l)))"
      using hd_dropWhile [of "\<lambda>c. \<not> is_space c" "strip l"] by blast
    have some: "?w \<noteq> []" using w by simp
    have plain: "\<forall>c\<in>set ?w. \<not> is_space c" by (auto dest: set_takeWhileD)
    show ?thesis
    proof
      assume "names_host l h"
      then obtain w rest where r: "strip l = w @ rest" "\<forall>c\<in>set w. \<not> is_space c" "rest = [] \<or> is_space (hd rest)"
        and hw: "if starts_with w ''['' then h = w else (\<exists>z. w = h @ z \<and> CHR '':'' \<notin> set h \<and> (z = [] \<or> hd z = CHR '':''))"
        unfolding names_host_def by blast
      from hw show "h = ini_host_name ?w" unfolding name cut first [OF r] .
    next
      assume "h = ini_host_name ?w"
      then have "if starts_with ?w ''['' then h = ?w
          else (\<exists>z. ?w = h @ z \<and> CHR '':'' \<notin> set h \<and> (z = [] \<or> hd z = CHR '':''))" unfolding name cut .
      with whole tail some plain show "names_host l h" unfolding names_host_def using assms(1,3) by blast
    qed
  qed
  ultimately show ?thesis using ps by blast
qed

lemma silent_line:
  assumes "strip l = [] \<or> starts_with (strip l) ''#''"
  shows "\<not> heading l" "\<not> names_host l h"
  using assms by (auto simp: heading_def names_host_def starts_with_def)

lemma entry_effect:
  assumes "\<not> heading l" "section_known S"
  shows "hosting (ini_line l S) = hosting S" "section_known (ini_line l S)"
    "h \<in> hosts_of (raws (ini_line l S)) n \<longleftrightarrow> h \<in> hosts_of (raws S) n \<or> hosting S = Some n \<and> names_host l h"
proof -
  have nb: "\<not> (starts_with (strip l) ''['' \<and> ends_with (strip l) '']'')"
    using assms(1) bracketed by (auto simp: heading_def)
  have "hosting (ini_line l S) = hosting S \<and> section_known (ini_line l S) \<and>
    (h \<in> hosts_of (raws (ini_line l S)) n \<longleftrightarrow> h \<in> hosts_of (raws S) n \<or> hosting S = Some n \<and> names_host l h)"
  proof (cases "strip l = [] \<or> starts_with (strip l) ''#''")
    case True
    with silent_line [OF True] show ?thesis using assms(2) by (auto simp: ini_line_def Let_def)
  next
    case False
    then obtain w ps where w: "split_space (strip l) = w # ps" "\<not> starts_with w ''#''"
      "names_host l h \<longleftrightarrow> h = ini_host_name w" using host_line [OF assms(1), of h] by blast
    show ?thesis
    proof (cases "cur_section S")
      case None
      with False assms(2) have "ini_line l S = S" by (simp add: ini_line_def Let_def nb)
      with None assms(2) show ?thesis by (simp add: hosting_def)
    next
      case (Some sec)
      then have known: "map_of (raws S) sec \<noteq> None" using assms(2) by (simp add: section_known_def)
      consider "cur_kind S = Some ''vars''" | "cur_kind S = Some ''children''"
        | "cur_kind S \<noteq> Some ''vars''" "cur_kind S \<noteq> Some ''children''" by blast
      then show ?thesis
      proof cases
        case 1
        with Some False have "ini_line l S = ini_var sec (strip l) S" by (simp add: ini_line_def Let_def nb)
        then show ?thesis using 1 Some known
          by (auto simp: ini_var_def hosting_def section_known_def hosts_of_on_group map_of_on_group split: option.split)
      next
        case 2
        with Some False have "ini_line l S = ini_child sec (strip l) S" by (simp add: ini_line_def Let_def nb)
        then show ?thesis using 2 Some known
          by (auto simp: ini_child_def hosting_def section_known_def hosts_of_on_group map_of_on_group split: list.split)
      next
        case 3
        with Some False have "ini_line l S = ini_host sec (strip l) S" by (simp add: ini_line_def Let_def nb)
        then show ?thesis using 3 Some known w
          by (auto simp: ini_host_def hosting_def section_known_def hosts_of_def map_of_on_group split: option.split)
      qed
    qed
  qed
  then show "hosting (ini_line l S) = hosting S" "section_known (ini_line l S)"
    "h \<in> hosts_of (raws (ini_line l S)) n \<longleftrightarrow> h \<in> hosts_of (raws S) n \<or> hosting S = Some n \<and> names_host l h" by blast+
qed

lemma read_lines:
  "section_known (fold ini_line ls new_ini) \<and>
   (hosting (fold ini_line ls new_ini) = Some n \<longleftrightarrow> under ls n) \<and>
   (h \<in> hosts_of (raws (fold ini_line ls new_ini)) n \<longleftrightarrow> lists_host ls n h)"
proof (induction ls arbitrary: n rule: rev_induct)
  case Nil
  then show ?case by (simp add: new_ini_def section_known_def hosting_def hosts_of_def)
next
  case (snoc l ls)
  let ?S = "fold ini_line ls new_ini"
  show ?case
  proof (cases "heading l")
    case True
    then obtain s where s: "strip l = ''['' @ s @ '']''" by (auto simp: heading_def)
    have "\<not> names_host l h" using True by (simp add: names_host_def)
    with snoc True header_effect [of "strip s" ?S] header_opens [OF s, of ?S n] show ?thesis
      by (simp add: heading_line [OF s] under_snoc lists_snoc)
  next
    case False
    then show ?thesis using snoc entry_effect(1,2) [OF False, of ?S] entry_effect(3) [OF False, of ?S h n] by (simp add: under_snoc lists_snoc)
  qed
qed

definition text_of :: "string list \<Rightarrow> string" where
  \<comment> \<open>a file of these lines\<close>
  "text_of ls = concat (map (\<lambda>l. l @ [lf]) ls)"

lemma lines_of_text:
  "(\<forall>l\<in>set ls. CHR 0x0A \<notin> set l \<and> CHR 0x0D \<notin> set l) \<Longrightarrow> file_lines [] (text_of ls) = ls @ [[]]"
proof (induction ls)
  case (Cons l ls)
  have "file_lines a (l @ CHR 0x0A # s) = (a @ l) # file_lines [] s" if "CHR 0x0A \<notin> set l \<and> CHR 0x0D \<notin> set l" for a s
    using that by (induction l arbitrary: a) auto
  with Cons show ?case by (simp add: text_of_def lf_def)
qed (simp add: text_of_def)

lemma hosts_read:
  assumes "list_all (\<lambda>l. CHR 0x0A \<notin> set l \<and> CHR 0x0D \<notin> set l) ls"
  shows "h \<in> ini_hosts (read_ini (text_of ls)) \<longleftrightarrow> (\<exists>n. n \<noteq> ''all'' \<and> lists_host ls n h)"
proof -
  let ?S = "fold ini_line ls new_ini"
  have "ini_line [] ?S = ?S" by (simp add: ini_line_def strip_def)
  then have S: "fold ini_line (file_lines [] (text_of ls)) new_ini = ?S"
    using lines_of_text assms by (simp add: list_all_iff)
  have "hosts_of (raws (read_ini (text_of ls))) n = hosts_of (raws ?S) n" for n
    by (simp add: read_ini_def S Let_def hosts_of_on_group)
  moreover have "h \<in> ini_hosts T \<longleftrightarrow> (\<exists>n. n \<noteq> ''all'' \<and> h \<in> hosts_of (raws T) n)" for T
    unfolding hosts_of_iff by (auto simp: ini_hosts_def)
  ultimately show ?thesis using read_lines [of ls] by simp
qed

text \<open>C25: An INI inventory that parses is searched correctly: for a file of any lines, the search of a
  host in the parsed inventory succeeds exactly if some line names it, by its first word up to a
  colon, and the last heading above that line opens a group other than \<^verbatim>\<open>all\<close>, that is, it is
  \<^verbatim>\<open>[name]\<close> or \<^verbatim>\<open>[name:kind]\<close> where the kind is neither \<^verbatim>\<open>vars\<close> nor \<^verbatim>\<open>children\<close>. Neither hosts
  before the first heading nor hosts under \<^verbatim>\<open>[all]\<close>, both of which Ansible knows, are
  found. The right-hand side is said of the lines, without the reader.\<close>
theorem parsed_hosts_found:
  assumes "parse_ini_inventory frames (Some (text_of ls)) = Inr (Some j)"
    and "list_all (\<lambda>l. CHR 0x0A \<notin> set l \<and> CHR 0x0D \<notin> set l) ls"
  shows "(\<exists>v. find_host_in_inventory j h = Inr (Some v)) \<longleftrightarrow>
    (\<exists>n. n \<noteq> ''all'' \<and> (\<exists>pre hd mid l post. ls = pre @ hd # mid @ l # post \<and> opens hd n \<and>
       (\<forall>m\<in>set mid. \<not> heading m) \<and> names_host l h))"
proof -
  have "(\<exists>v. find_host_in_inventory j h = Inr (Some v)) \<longleftrightarrow> (\<exists>n. n \<noteq> ''all'' \<and> lists_host ls n h)"
    unfolding found_iff_in_sections [OF assms(1)] by (rule hosts_read [OF assms(2)])
  then show ?thesis unfolding lists_host_iff .
qed

definition plain_lines :: "string list" where
  "plain_lines = [''[web]'', ''h1 port=22'', ''[site:children]'', ''web'']"

theorem parsed_hosts_found_witness:
  "(\<exists>v. find_host_in_inventory (projr (groups_tree 2 (read_ini plain_text))) ''h1'' = Inr (Some v)) \<longleftrightarrow>
    (\<exists>n. n \<noteq> ''all'' \<and> (\<exists>pre hd mid l post. plain_lines = pre @ hd # mid @ l # post \<and> opens hd n \<and>
       (\<forall>m\<in>set mid. \<not> heading m) \<and> names_host l ''h1''))"
proof (rule parsed_hosts_found)
  have "text_of plain_lines = plain_text" by code_simp
  moreover have "parse_ini_inventory 2 (Some plain_text) = Inr (Some (projr (groups_tree 2 (read_ini plain_text))))"
    by code_simp
  ultimately show "parse_ini_inventory 2 (Some (text_of plain_lines)) = Inr (Some (projr (groups_tree 2 (read_ini plain_text))))"
    by simp
qed (simp add: plain_lines_def)

subsection \<open>The list of the hosts\<close>

inductive appears :: "string \<Rightarrow> doc \<Rightarrow> bool" for h :: string where
  here: "h \<in> fst ` set (section_hosts (dget d ''hosts'')) \<Longrightarrow> appears h d"
| deeper: "(n, JObj g) \<in> set (sub_groups (dget d ''children'')) \<Longrightarrow> appears h g \<Longrightarrow> appears h d"

definition hosts_inv :: "host_list \<Rightarrow> bool" where
  "hosts_inv H = (distinct (fst H) \<and> map (\<lambda>e. dget e ''name'') (snd H) = map JStr (fst H))"

lemma host_again_name [simp]: "dget (host_again f c e) ''name'' = dget e ''name''"
  by (simp add: host_again_def Let_def)

lemma on_first_names [simp]: "map (\<lambda>e. dget e ''name'') (on_first P (host_again f c) es) = map (\<lambda>e. dget e ''name'') es"
  by (induction es) auto

lemma merge_host_inv:
  assumes "hosts_inv H"
  shows "hosts_inv (merge_host f h c H)" "set (fst (merge_host f h c H)) = set (fst H) \<union> (if no_comment h then {h} else {})"
  using assms by (auto simp: merge_host_def hosts_inv_def host_row_def no_comment_def Let_def split: prod.splits)

lemma merge_hosts_inv:
  "hosts_inv H \<Longrightarrow> hosts_inv (fold (\<lambda>(h, c). merge_host f h c) hs H) \<and>
     set (fst (fold (\<lambda>(h, c). merge_host f h c) hs H)) = set (fst H) \<union> {h \<in> fst ` set hs. no_comment h}"
proof (induction hs arbitrary: H)
  case (Cons p hs)
  obtain h c where p: "p = (h, c)" by (cases p)
  from Cons.IH [OF merge_host_inv(1) [OF Cons.prems, of f h c]] merge_host_inv(2) [OF Cons.prems, of f h c]
  show ?case by (auto simp: p)
qed simp

lemma fold_growing:
  assumes "\<And>x H. x \<in> set xs \<Longrightarrow> inva H \<Longrightarrow> inva (F x H) \<and> known (F x H) = known H \<union> A x" "inva H"
  shows "inva (fold F xs H) \<and> known (fold F xs H) = known H \<union> (\<Union>x \<in> set xs. A x)"
  using assms by (induction xs arbitrary: H) auto

lemma extract_hosts_inv:
  "hosts_inv H \<Longrightarrow> hosts_inv (extract_hosts_from_group f d H) \<and>
     set (fst (extract_hosts_from_group f d H)) = set (fst H) \<union> {h. appears h d \<and> no_comment h}"
proof (induction f d H rule: extract_hosts_from_group.induct)
  case (1 f d H)
  let ?H = "fold (\<lambda>(h, c). merge_host f h c) (section_hosts (dget d ''hosts'')) H"
  let ?F = "\<lambda>(n, v) H. case v of JObj g \<Rightarrow> extract_hosts_from_group f g H | _ \<Rightarrow> H"
  let ?A = "\<lambda>p. {h. (\<exists>g. snd p = JObj g \<and> appears h g) \<and> no_comment h}"
  let ?cs = "sub_groups (dget d ''children'')"
  note H = merge_hosts_inv [OF 1(2), of f "section_hosts (dget d ''hosts'')"]
  have "hosts_inv (fold ?F ?cs ?H) \<and> set (fst (fold ?F ?cs ?H)) = set (fst ?H) \<union> (\<Union>p \<in> set ?cs. ?A p)"
  proof (rule fold_growing [where known = "\<lambda>H. set (fst H)"])
    fix p H' assume p: "p \<in> set ?cs" "hosts_inv H'"
    obtain n v where nv: "p = (n, v)" by (cases p)
    show "hosts_inv (?F p H') \<and> set (fst (?F p H')) = set (fst H') \<union> ?A p"
    proof (cases v)
      case (JObj g)
      from 1(1) [OF p(1) nv [symmetric] JObj p(2)] show ?thesis by (simp add: nv JObj)
    qed (use p(2) in \<open>simp_all add: nv\<close>)
  qed (use H in blast)
  moreover have "{h. appears h d \<and> no_comment h} =
      {h \<in> fst ` set (section_hosts (dget d ''hosts'')). no_comment h} \<union> (\<Union>p \<in> set ?cs. ?A p)"
    by (intro set_eqI iffI) (simp_all add: appears.simps [of _ d], (metis snd_conv prod.collapse)+)
  ultimately show ?case using H by (simp add: extract_hosts_from_group.simps [of f d H] Un_assoc)
qed

text \<open>The list of the hosts of an inventory has every host that stands anywhere in the tree, with the
  exception of commented names, and has it once however often it occurs.\<close>
theorem extract_hosts_exact:
  "\<exists>ns. map (\<lambda>e. dget e ''name'') (snd (extract_hosts_from_group f d ([], []))) = map JStr ns
     \<and> distinct ns \<and> set ns = {h. appears h d \<and> no_comment h}"
  using extract_hosts_inv [of "([], [])" f d] unfolding hosts_inv_def by auto

end
