(* ===== verification/HostLookupProps.thy ===== *)
theory HostLookupProps
  imports HostLookup InventoryProps SyncProps
begin

text \<open>
  The groups a host is found in, the connection it gets, and what the background check asks for.
\<close>

subsection \<open>The groups of a host\<close>

inductive member :: "string \<Rightarrow> doc \<Rightarrow> string \<Rightarrow> string \<Rightarrow> bool" for h :: string where
  \<comment> \<open>the group \<open>n\<close>, with the tree below it, holds the host in the group \<open>m\<close>\<close>
  self: "holds_host h g \<Longrightarrow> member h g n n"
| child: "(c, JObj d) \<in> set (sub_groups (dget g ''children'')) \<Longrightarrow> member h d c m \<Longrightarrow> member h g n m"

lemma set_add_name [simp]: "set (add_name n ns) = insert n (set ns)"
  by (auto simp: add_name_def)

lemma distinct_add_name: "distinct ns \<Longrightarrow> distinct (add_name n ns)"
  by (simp add: add_name_def)

lemma walk_groups_exact:
  "distinct ns \<Longrightarrow> distinct (walk_groups h g n ns) \<and> set (walk_groups h g n ns) = set ns \<union> {m. member h g n m}"
proof (induction h g n ns rule: walk_groups.induct)
  case (1 h g n ns)
  let ?ns = "if holds_host h g then add_name n ns else ns"
  let ?F = "\<lambda>(c, v) ns. case v of JObj d \<Rightarrow> walk_groups h d c ns | _ \<Rightarrow> ns"
  let ?A = "\<lambda>(c, v). {m. \<exists>d. v = JObj d \<and> member h d c m}"
  let ?cs = "sub_groups (dget g ''children'')"
  have "distinct (fold ?F ?cs ?ns) \<and> set (fold ?F ?cs ?ns) = set ?ns \<union> (\<Union>p \<in> set ?cs. ?A p)"
  proof (rule fold_growing [where inva = distinct and known = set])
    fix p and ms :: "string list" assume p: "p \<in> set ?cs" "distinct ms"
    obtain c v where cv: "p = (c, v)" by (cases p)
    show "distinct (?F p ms) \<and> set (?F p ms) = set ms \<union> ?A p"
    proof (cases v)
      case (JObj d)
      from 1(1) [OF p(1) cv [symmetric] JObj p(2)] show ?thesis by (simp add: cv JObj)
    qed (use p(2) in \<open>simp_all add: cv\<close>)
  qed (use 1(2) in \<open>simp add: distinct_add_name\<close>)
  moreover have "{m. member h g n m} = (if holds_host h g then {n} else {}) \<union> (\<Union>p \<in> set ?cs. ?A p)"
    by (auto elim: member.cases intro: member.intros split: if_splits)
  ultimately show ?case by (auto simp: walk_groups.simps [of h g n ns])
qed

definition in_inventory :: "'g sync_env \<Rightarrow> inventory_env \<Rightarrow> fs \<Rightarrow> string \<Rightarrow> path \<Rightarrow> string \<Rightarrow> bool" where
  "in_inventory E Y fs h q m =
    (case read_inventory E Y fs q of
       Inr (JObj d) \<Rightarrow>
         (case dget d ''all'' of
            JObj s \<Rightarrow> member h s ''all'' m
          | _ \<Rightarrow> \<exists>c g. (c, JObj g) \<in> set d \<and> member h g c m)
     | _ \<Rightarrow> False)"

lemma walk_list_exact:
  "distinct ns \<Longrightarrow> distinct (fold (\<lambda>(c, v) ns. case v of JObj g \<Rightarrow> walk_groups h g c ns | _ \<Rightarrow> ns) d ns) \<and>
     set (fold (\<lambda>(c, v) ns. case v of JObj g \<Rightarrow> walk_groups h g c ns | _ \<Rightarrow> ns) d ns) =
       set ns \<union> {m. \<exists>c g. (c, JObj g) \<in> set d \<and> member h g c m}"
proof (induction d arbitrary: ns)
  case (Cons p d)
  obtain c v where p: "p = (c, v)" by (cases p)
  show ?case
  proof (cases v)
    case (JObj g)
    from walk_groups_exact [OF Cons.prems, of h g c] Cons.IH [of "walk_groups h g c ns"]
    show ?thesis by (auto simp: p JObj)
  qed (use Cons in \<open>auto simp: p\<close>)
qed simp

lemma groups_in_file_exact:
  "distinct ns \<Longrightarrow> distinct (groups_in_file E Y fs h q ns) \<and>
     set (groups_in_file E Y fs h q ns) = set ns \<union> {m. in_inventory E Y fs h q m}"
proof (cases "read_inventory E Y fs q")
  case (Inr j)
  assume ns: "distinct ns"
  show ?thesis
  proof (cases j)
    case (JObj d)
    show ?thesis
      using Inr JObj walk_list_exact [OF ns, of h d] walk_groups_exact [OF ns, of h _ "''all''"]
      by (cases "dget d ''all''") (simp_all add: groups_in_file_def in_inventory_def)
  qed (use Inr ns in \<open>simp_all add: groups_in_file_def in_inventory_def\<close>)
qed (simp add: groups_in_file_def in_inventory_def)

text \<open>C26: The groups from which a host takes its connection are \<^verbatim>\<open>all\<close> and exactly the groups that hold
  it, at any depth, in one of the project's inventories that can be read.\<close>
theorem groups_of_host_exact:
  assumes "exists_at fs (inventories_dir E pid fs)"
  shows "set (find_groups_for_host E Y fs pid h) =
    insert ''all'' {m. \<exists>q. q \<in> set (deep_inventories fs (inventories_dir E pid fs)) \<and> in_inventory E Y fs h q m}"
proof -
  let ?qs = "deep_inventories fs (inventories_dir E pid fs)"
  have "distinct (fold (groups_in_file E Y fs h) ?qs [''all'']) \<and>
    set (fold (groups_in_file E Y fs h) ?qs [''all'']) = set [''all''] \<union> (\<Union>q \<in> set ?qs. {m. in_inventory E Y fs h q m})"
    by (rule fold_growing [where inva = distinct and known = set], rule groups_in_file_exact) simp_all
  then show ?thesis using assms by (auto simp: find_groups_for_host_def)
qed

subsection \<open>The connection of a host\<close>

text \<open>Without an inventory the variables of a host are looked for in the project's fallback directory
  only: the inventory that lists the host, which the code means to follow, is never asked for,
  because the list of hosts is requested without naming any file.\<close>
theorem host_vars_file_ignores_inventories:
  assumes "pid \<noteq> []"
  shows "get_host_vars_file E Y h pid [] fs = Inr (join_path (inventories_dir E pid fs @ [''host_vars'']) (h @ ''.yml''))"
  using assms by (simp add: get_host_vars_file_def get_inventory_hosts_def named_host_def)

text \<open>A host file that cannot be parsed hides the groups: the host has no connection, whatever
  credentials its groups carry.\<close>
theorem broken_host_vars_hide_groups:
  assumes "exists_at fs (join_path (inventories_dir E pid fs @ [''host_vars'']) (h @ ''.yml''))"
    and "read_yaml E Y fs (join_path (inventories_dir E pid fs @ [''host_vars'']) (h @ ''.yml'')) = Inl e"
  shows "resolve_connection_secret_for_host E Y fs pid h = (JNull, False)"
  using assms by (simp add: resolve_connection_secret_for_host_def)

definition split_fs :: fs where
  "split_fs = [([''p''], Dir), ([''p'', ''1''], Dir), ([''p'', ''1'', ''repo''], Dir), ([''p'', ''1'', ''repo'', ''inventories''], Dir),
    ([''p'', ''1'', ''repo'', ''inventories'', ''hosts.yml''], File ''I'' 1),
    ([''p'', ''1'', ''repo'', ''inventories'', ''group_vars''], Dir),
    ([''p'', ''1'', ''repo'', ''inventories'', ''group_vars'', ''a.yml''], File ''A'' 1),
    ([''p'', ''1'', ''repo'', ''inventories'', ''group_vars'', ''b.yml''], File ''B'' 1)]"

definition split_yaml :: "string \<Rightarrow> json res" where
  "split_yaml s =
    (if s = ''I'' then Inr (JObj [(''all'', JObj [(''children'',
        JObj [(''a'', JObj [(''hosts'', JObj [(''h'', JNull)])]), (''b'', JObj [(''hosts'', JObj [(''h'', JNull)])])])])])
     else if s = ''A'' then Inr (JObj [(''connectionSecret'', JStr ''s1'')])
     else Inr (JObj [(''connectionSecret'', JStr ''s2'')]))"

text \<open>A host of two groups with different secrets gets the one or the other, according to the order in
  which the process iterates over a set of names.\<close>
theorem group_secret_depends_on_set_order:
  "resolve_connection_secret_for_host demo_sync_env \<lparr>yaml = split_yaml, frames = 9, order = (\<lambda>ns. ns)\<rparr> split_fs ''1'' ''h''
     = (JStr ''s1'', True) \<and>
   resolve_connection_secret_for_host demo_sync_env \<lparr>yaml = split_yaml, frames = 9, order = rev\<rparr> split_fs ''1'' ''h''
     = (JStr ''s2'', True)"
  by code_simp

subsection \<open>The background check\<close>

lemma hosts_to_check_sound:
  "hosts_to_check secret status hs H = (Inr r, H') \<Longrightarrow> (h, s) \<in> set r \<Longrightarrow>
     h \<in> set hs \<and> s = fst (secret h) \<and> (snd (secret h) \<or> truthy s)"
proof (induction hs arbitrary: r H)
  case (Cons k hs)
  obtain st H1 where st: "status k H = (st, H1)" by fastforce
  with Cons.prems(1) obtain b r' where b: "wants_check st = Inr b" "hosts_to_check secret status hs H1 = (Inr r', H')"
    and r: "r = (if b \<and> (snd (secret k) \<or> truthy (fst (secret k))) then (k, fst (secret k)) # r' else r')"
    by (auto split: sum.splits prod.splits)
  from Cons.prems(2) r consider "(h, s) \<in> set r'" | "h = k" "s = fst (secret k)" "snd (secret k) \<or> truthy (fst (secret k))"
    by (auto split: if_splits)
  then show ?case using Cons.IH [OF b(2)] by cases auto
qed simp

lemma auto_check_projects_sound: "p \<in> set (auto_check_projects w ps) \<Longrightarrow> p \<in> set ps \<and> project_auto_check w p = Inr True"
  by (induction ps) (auto split: sum.splits if_splits)

lemma tick_requests:
  "r \<in> set (fst (fold (\<lambda>pid (reqs, H). case check_project_hosts E Y T now w pid H of (r, H) \<Rightarrow> (reqs @ r, H)) ps (reqs, H))) \<Longrightarrow>
    r \<in> set reqs \<or> (\<exists>pid hs. pid \<in> set ps \<and> hs \<noteq> [] \<and> r = host_check_request pid hs \<and>
       (\<forall>(h, s) \<in> set hs. h \<in> set (get_project_hosts_list E Y pid (tree w)) \<and>
          s = fst (resolve_connection_secret_for_host E Y (tree w) pid h) \<and>
          (snd (resolve_connection_secret_for_host E Y (tree w) pid h) \<or> truthy s)))"
proof (induction ps arbitrary: reqs H)
  case (Cons p ps)
  obtain rs H' where c: "check_project_hosts E Y T now w p H = (rs, H')" by fastforce
  from Cons.prems have "r \<in> set (fst (fold (\<lambda>pid (reqs, H). case check_project_hosts E Y T now w pid H of (r, H) \<Rightarrow> (reqs @ r, H)) ps (reqs @ rs, H')))"
    by (simp add: c)
  from Cons.IH [OF this] show ?case
  proof (elim disjE)
    assume "r \<in> set (reqs @ rs)"
    then consider "r \<in> set reqs" | "r \<in> set rs" by auto
    then show ?thesis
    proof cases
      case 2
      with c obtain hs H2 where "hosts_to_check (resolve_connection_secret_for_host E Y (tree w) p)
          (get_host_check_status (isofmt T) (parse_iso T)
            (get_host_status_ttl_seconds (parse_int T) (ttl_env T) (Some (load_project_config w p)) p) now p)
          (get_project_hosts_list E Y p (tree w)) H = (Inr hs, H2)" "hs \<noteq> []" "r = host_check_request p hs"
        by (auto simp: check_project_hosts_def Let_def split: prod.splits sum.splits if_splits)
      with hosts_to_check_sound [OF this(1)] show ?thesis by (fastforce intro!: exI [of _ p] exI [of _ hs])
    qed simp
  qed fastforce
qed simp

text \<open>C27: The background check asks for at most twenty hosts of a project at a time, and only for hosts of
  that project's inventories which have a connection and of a project that has the check switched on.\<close>
theorem tick_is_bounded:
  assumes "r \<in> set (fst (host_status_auto_check_tick E Y T now w H))"
  shows "\<exists>pid ns. dget r ''project_id'' = JStr pid \<and> project_auto_check w pid = Inr True \<and>
     dget r ''hosts'' = JArr (map JStr ns) \<and> 0 < length ns \<and> length ns \<le> 20 \<and>
     list_all (\<lambda>h. h \<in> set (get_project_hosts_list E Y pid (tree w)) \<and>
        resolve_connection_secret_for_host E Y (tree w) pid h \<noteq> (JNull, False)) ns"
proof -
  from tick_requests [OF assms [unfolded host_status_auto_check_tick_def]] obtain pid hs where
    r: "pid \<in> set (get_projects_with_auto_check_hosts E w)" "hs \<noteq> []" "r = host_check_request pid hs"
      "\<forall>(h, s) \<in> set hs. h \<in> set (get_project_hosts_list E Y pid (tree w)) \<and>
          s = fst (resolve_connection_secret_for_host E Y (tree w) pid h) \<and>
          (snd (resolve_connection_secret_for_host E Y (tree w) pid h) \<or> truthy s)"
    by auto
  have "project_auto_check w pid = Inr True"
    using r(1) auto_check_projects_sound by (auto simp: get_projects_with_auto_check_hosts_def)
  moreover have "dget r ''hosts'' = JArr (map JStr (map fst (take 20 hs)))" "dget r ''project_id'' = JStr pid"
    by (simp_all add: r(3) host_check_request_def)
  moreover have "list_all (\<lambda>h. h \<in> set (get_project_hosts_list E Y pid (tree w)) \<and>
        resolve_connection_secret_for_host E Y (tree w) pid h \<noteq> (JNull, False)) (map fst (take 20 hs))"
    using r(4) by (fastforce dest: in_set_takeD simp: list_all_iff)
  ultimately show ?thesis using r(2) by (intro exI [of _ pid] exI [of _ "map fst (take 20 hs)"]) simp
qed

definition split_env :: inventory_env where
  "split_env = \<lparr>yaml = split_yaml, frames = 9, order = (\<lambda>ns. ns)\<rparr>"

definition checked_world :: "unit sync_world" where
  "checked_world = demo_world\<lparr>tree := split_fs,
     configs := [(''1'', Doc [(''host_status'', JObj [(''auto_check_all_hosts'', JBool True)])])]\<rparr>"

definition demo_tick :: tick_env where
  "demo_tick = \<lparr>isofmt = (\<lambda>t. ''t''), parse_iso = (\<lambda>s. None), parse_int = (\<lambda>s. None), ttl_env = None\<rparr>"

theorem tick_is_bounded_witness:
  "\<exists>pid ns. dget (host_check_request ''1'' [(''h'', JStr ''s1'')]) ''project_id'' = JStr pid \<and>
     project_auto_check checked_world pid = Inr True \<and>
     dget (host_check_request ''1'' [(''h'', JStr ''s1'')]) ''hosts'' = JArr (map JStr ns) \<and> 0 < length ns \<and> length ns \<le> 20 \<and>
     list_all (\<lambda>h. h \<in> set (get_project_hosts_list demo_sync_env split_env pid (tree checked_world)) \<and>
        resolve_connection_secret_for_host demo_sync_env split_env (tree checked_world) pid h \<noteq> (JNull, False)) ns"
proof (rule tick_is_bounded [where T = demo_tick and now = 7 and H = "\<lparr>h_cache = [], h_files = []\<rparr>"])
  have p: "get_projects_with_auto_check_hosts demo_sync_env checked_world = [''1'']" by code_simp
  have l: "get_project_hosts_list demo_sync_env split_env ''1'' (tree checked_world) = [''h'']" by code_simp
  have s: "resolve_connection_secret_for_host demo_sync_env split_env (tree checked_world) ''1'' ''h'' = (JStr ''s1'', True)"
    by code_simp
  show "host_check_request ''1'' [(''h'', JStr ''s1'')] \<in> set (fst (host_status_auto_check_tick demo_sync_env split_env demo_tick 7
      checked_world \<lparr>h_cache = [], h_files = []\<rparr>))"
    by (simp add: host_status_auto_check_tick_def p check_project_hosts_def l get_host_check_status_def load_host_entry_def
        wants_check_def s Let_def)
qed

theorem groups_of_host_exact_witness:
  "set (find_groups_for_host demo_sync_env split_env split_fs ''1'' ''h'') =
    insert ''all'' {m. \<exists>q. q \<in> set (deep_inventories split_fs (inventories_dir demo_sync_env ''1'' split_fs)) \<and>
      in_inventory demo_sync_env split_env split_fs ''h'' q m}"
proof (rule groups_of_host_exact)
  show "exists_at split_fs (inventories_dir demo_sync_env ''1'' split_fs)" by code_simp
qed

text \<open>A project whose \<^verbatim>\<open>host_status\<close> setting is not a dictionary ends the listing of the projects to
  check: those behind it in the directory are not checked either.\<close>
theorem bad_project_stops_listing:
  assumes "project_auto_check w bad = Inl e" "p \<in> set qs" "p \<notin> set ps"
  shows "p \<notin> set (auto_check_projects w (ps @ bad # qs))"
proof -
  have "set (auto_check_projects w (ps @ bad # qs)) \<subseteq> set ps"
    using assms(1) by (induction ps) (auto split: sum.splits if_splits)
  with assms(3) show ?thesis by blast
qed

end
