(* ===== verification/Playbooks.thy ===== *)
theory Playbooks
  imports Dispatcher Settings
begin

text \<open>
  Playbooks (\<^verbatim>\<open>playbooks/parser.py\<close>, \<^verbatim>\<open>playbooks/generator.py\<close>, \<^verbatim>\<open>playbooks/validator.py\<close>):
  YAML to the editor's form of a playbook and back, and the rules that decide whether it can run.
  The YAML library is the pair of parameters \<open>load\<close> and \<open>dump\<close>; \<open>str\<close> is Python's \<^verbatim>\<open>str\<close> on values that
  are not strings; the fresh ids of the plays are an argument.
\<close>

fun items :: "json \<Rightarrow> json list option" where
  \<comment> \<open>what a \<^verbatim>\<open>for\<close> loop goes over\<close>
  "items (JArr xs) = Some xs"
| "items (JObj d) = Some (map (JStr \<circ> fst) d)"
| "items (JStr s) = Some (map (\<lambda>c. JStr [c]) s)"
| "items _ = None"

fun try_all :: "('a \<Rightarrow> 'b res) \<Rightarrow> 'a list \<Rightarrow> 'b list res" where
  "try_all f [] = Inr []"
| "try_all f (x # xs) =
    (case f x of Inl e \<Rightarrow> Inl e | Inr y \<Rightarrow> (case try_all f xs of Inl e \<Rightarrow> Inl e | Inr ys \<Rightarrow> Inr (y # ys)))"

fun join_with :: "string \<Rightarrow> string list \<Rightarrow> string" where
  "join_with s [] = []"
| "join_with s [x] = x"
| "join_with s (x # xs) = x @ s @ join_with s xs"

subsection \<open>Parsing\<close>

definition parse_hosts :: "(json \<Rightarrow> string) \<Rightarrow> json \<Rightarrow> json" where
  "parse_hosts str j =
    (case j of
       JStr s \<Rightarrow> j
     | JArr xs \<Rightarrow> (case xs of [] \<Rightarrow> JStr ''all'' | [x] \<Rightarrow> x | _ \<Rightarrow> j)
     | _ \<Rightarrow> JStr (if truthy j then str j else ''all''))"

definition role_doc :: "json \<Rightarrow> json \<Rightarrow> json \<Rightarrow> doc" where
  "role_doc name tag vs = [(''role_name'', name), (''tag'', tag), (''auto'', JBool True), (''vars_override'', vs)]"

definition role_tag :: "(json \<Rightarrow> string) \<Rightarrow> json \<Rightarrow> json \<Rightarrow> json" where
  "role_tag str tags name =
    (case tags of
       JArr xs \<Rightarrow> (case xs of [] \<Rightarrow> name | [x] \<Rightarrow> x | _ \<Rightarrow> JStr (join_with '','' (map (as_text str) xs)))
     | JStr s \<Rightarrow> tags
     | _ \<Rightarrow> name)"

definition parse_role :: "(json \<Rightarrow> string) \<Rightarrow> json \<Rightarrow> doc option" where
  "parse_role str j =
    (case j of
       JStr s \<Rightarrow> Some (role_doc j j JNull)
     | JObj d \<Rightarrow>
         (let name = py_or (dget d ''role'') (dget d ''name'') in
          if \<not> truthy name then None
          else Some (role_doc name (role_tag str (getd d ''tags'' (JArr [])) name)
            (case dget d ''vars'' of JObj vs \<Rightarrow> if vs \<noteq> [] then JObj vs else JNull | _ \<Rightarrow> JNull)))
     | _ \<Rightarrow> None)"

definition parse_play :: "(json \<Rightarrow> string) \<Rightarrow> string \<Rightarrow> doc \<Rightarrow> doc option" where
  \<comment> \<open>roles that cannot be gone through are an exception, and the play is dropped\<close>
  "parse_play str i d =
    (let roles = getd d ''roles'' (JArr []) in
     case (if truthy roles then items roles else Some []) of
       None \<Rightarrow> None
     | Some rs \<Rightarrow>
         Some [(''id'', JStr i), (''name'', getd d ''name'' (JStr ''Unnamed Play'')),
           (''hosts'', parse_hosts str (getd d ''hosts'' (JStr ''all''))), (''remote_user'', dget d ''remote_user''),
           (''become'', getd d ''become'' (JBool False)), (''strategy'', getd d ''strategy'' (JStr ''linear'')),
           (''roles'', JArr (map JObj (List.map_filter (parse_role str) rs)))])"

fun parse_plays :: "(json \<Rightarrow> string) \<Rightarrow> (nat \<Rightarrow> string) \<Rightarrow> json list \<Rightarrow> doc list" where
  \<comment> \<open>every dictionary takes an id, also one that is dropped\<close>
  "parse_plays str uid [] = []"
| "parse_plays str uid (JObj d # js) =
    (case parse_play str (uid 0) d of Some p \<Rightarrow> [p] | None \<Rightarrow> []) @ parse_plays str (\<lambda>n. uid (Suc n)) js"
| "parse_plays str uid (j # js) = parse_plays str uid js"

definition parse :: "(string \<Rightarrow> json res) \<Rightarrow> (py_error \<Rightarrow> string) \<Rightarrow> (json \<Rightarrow> string) \<Rightarrow> (nat \<Rightarrow> string) \<Rightarrow> string \<Rightarrow> string \<Rightarrow> doc res" where
  \<comment> \<open>the handler of the end also catches the error of an empty file\<close>
  "parse load err str uid content playbook_name =
    (case load content of
       Inl e \<Rightarrow> Inl (OtherError (''Invalid YAML syntax: '' @ err e))
     | Inr JNull \<Rightarrow> Inl (OtherError (''Error parsing playbook: '' @ ''YAML file is empty''))
     | Inr j \<Rightarrow>
         (let js = (case j of JArr xs \<Rightarrow> xs | _ \<Rightarrow> [j]);
              name = (if playbook_name \<noteq> [] then JStr playbook_name
                      else case js of JObj d # _ \<Rightarrow> getd d ''name'' (JStr ''Imported Playbook'')
                                    | _ \<Rightarrow> JStr ''Imported Playbook'')
          in Inr [(''name'', name), (''description'', JStr []), (''plays'', JArr (map JObj (parse_plays str uid js))),
                  (''metadata'', JObj [(''version'', JNum 1)])]))"

fun check_plays :: "(nat \<Rightarrow> string) \<Rightarrow> nat \<Rightarrow> json list \<Rightarrow> string option" where
  "check_plays num i [] = None"
| "check_plays num i (JObj d # js) =
    (if has d ''hosts'' then check_plays num (Suc i) js
     else Some (''Play at index '' @ num i @ '' missing required field '' @ [CHR 0x27] @ ''hosts'' @ [CHR 0x27]))"
| "check_plays num i (j # js) = Some (''Play at index '' @ num i @ '' must be a dictionary'')"

definition validate_yaml_structure :: "(string \<Rightarrow> json res) \<Rightarrow> (py_error \<Rightarrow> string) \<Rightarrow> (nat \<Rightarrow> string) \<Rightarrow> string \<Rightarrow> string option" where
  \<comment> \<open>the complaint, if there is one\<close>
  "validate_yaml_structure load err num content =
    (case load content of
       Inl e \<Rightarrow> Some (''Invalid YAML syntax: '' @ err e)
     | Inr JNull \<Rightarrow> Some ''YAML file is empty''
     | Inr (JArr xs) \<Rightarrow> check_plays num 0 xs
     | Inr (JObj d) \<Rightarrow>
         if has d ''hosts'' then None
         else Some (''Play missing required field '' @ [CHR 0x27] @ ''hosts'' @ [CHR 0x27])
     | Inr _ \<Rightarrow> Some ''YAML must contain a list of plays or a single play'')"

subsection \<open>Generating\<close>

definition put_if :: "bool \<Rightarrow> string \<Rightarrow> json \<Rightarrow> doc" where
  "put_if b k v = (if b then [(k, v)] else [])"

definition generate_role :: "json \<Rightarrow> doc" where
  \<comment> \<open>a role without a name, or something that is no dictionary, is the empty dictionary\<close>
  "generate_role j =
    (case j of
       JObj r \<Rightarrow>
         (let name = getd r ''role_name'' (JStr []); tag = getd r ''tag'' (JStr []) in
          if \<not> truthy name then []
          else [(''role'', name),
                (''tags'', if truthy tag then (case tag of JStr s \<Rightarrow> JArr [tag] | _ \<Rightarrow> tag) else JArr [])] @
               (case dget r ''vars_override'' of JObj vs \<Rightarrow> put_if (vs \<noteq> []) ''vars'' (JObj vs) | _ \<Rightarrow> []))
     | _ \<Rightarrow> [])"

definition regular_task :: "(json \<Rightarrow> string) \<Rightarrow> doc \<Rightarrow> doc" where
  "regular_task str t =
    (let m = getd t ''module'' (JStr []); tags = getd t ''tags'' (JArr []) in
     if \<not> truthy m \<or> (case m of JArr _ \<Rightarrow> True | JObj _ \<Rightarrow> True | _ \<Rightarrow> False) then []
     else
       (let d = dset (put_if (truthy (getd t ''name'' (JStr []))) ''name'' (dget t ''name'')) (as_text str m) (getd t ''args'' (JObj []));
            d = (if truthy (dget t ''when'') then dset d ''when'' (dget t ''when'') else d);
            d = (if truthy tags then dset d ''tags'' (case tags of JArr _ \<Rightarrow> tags | _ \<Rightarrow> JArr [tags]) else d)
        in if truthy (getd t ''become'' (JBool False)) then dset d ''become'' (JBool True) else d))"

definition generate_task :: "(string \<Rightarrow> json res) \<Rightarrow> (json \<Rightarrow> string) \<Rightarrow> json \<Rightarrow> json" where
  \<comment> \<open>the override that parses comes first; \<^verbatim>\<open>strip\<close> of something that is no string is an exception\<close>
  "generate_task load str j =
    (case j of
       JObj t \<Rightarrow>
         (case dget t ''yaml_override'' of
            JStr s \<Rightarrow>
              if strip s \<noteq> [] then
                (case load s of
                   Inr (JObj d) \<Rightarrow> JObj d
                 | Inr (JArr (x # xs)) \<Rightarrow> x
                 | _ \<Rightarrow> JObj (regular_task str t))
              else JObj (regular_task str t)
          | v \<Rightarrow> if truthy v then JObj [] else JObj (regular_task str t))
     | _ \<Rightarrow> JObj [])"

definition generate_hosts :: "json \<Rightarrow> json" where
  "generate_hosts j =
    (case j of
       JArr xs \<Rightarrow> (case xs of [x] \<Rightarrow> x | _ \<Rightarrow> j)
     | _ \<Rightarrow> if truthy j then j else JArr [])"

definition generate_list :: "string \<Rightarrow> (json \<Rightarrow> json) \<Rightarrow> doc \<Rightarrow> doc res" where
  \<comment> \<open>an optional list of the play, with each item converted\<close>
  "generate_list k f p =
    (let xs = getd p k (JArr []) in
     if \<not> truthy xs then Inr []
     else case items xs of None \<Rightarrow> Inl TypeError | Some js \<Rightarrow> Inr [(k, JArr (map f js))])"

definition generate_play :: "(string \<Rightarrow> json res) \<Rightarrow> (json \<Rightarrow> string) \<Rightarrow> json \<Rightarrow> doc res" where
  "generate_play load str j =
    (case j of
       JObj p \<Rightarrow>
         (let strategy = getd p ''strategy'' (JStr ''linear'') in
          case generate_list ''pre_tasks'' (generate_task load str) p of Inl e \<Rightarrow> Inl e | Inr pre \<Rightarrow>
         (case generate_list ''roles'' (\<lambda>r. JObj (generate_role r)) p of Inl e \<Rightarrow> Inl e | Inr roles \<Rightarrow>
         (case generate_list ''post_tasks'' (generate_task load str) p of Inl e \<Rightarrow> Inl e | Inr post \<Rightarrow>
            Inr ([(''name'', getd p ''name'' (JStr ''Unnamed Play'')), (''hosts'', generate_hosts (getd p ''hosts'' (JArr [])))] @
              put_if (truthy (dget p ''remote_user'')) ''remote_user'' (dget p ''remote_user'') @
              put_if (truthy (getd p ''become'' (JBool False))) ''become'' (JBool True) @
              put_if (truthy strategy \<and> strategy \<noteq> JStr ''linear'') ''strategy'' strategy @
              pre @ (if roles = [] then [(''roles'', JArr [])] else roles) @ post @
              (case dget p ''vars_files'' of
                 JArr xs \<Rightarrow> put_if (xs \<noteq> []) ''vars_files'' (JArr (filter (\<lambda>x. truthy x \<and> str_of x \<noteq> None) xs))
               | _ \<Rightarrow> [])))))
     | _ \<Rightarrow> Inl AttributeError)"

definition generate :: "(string \<Rightarrow> json res) \<Rightarrow> (json \<Rightarrow> string) \<Rightarrow> (json \<Rightarrow> string) \<Rightarrow> doc \<Rightarrow> string res" where
  "generate load dump str playbook =
    (let plays = getd playbook ''plays'' (JArr []) in
     if \<not> truthy plays then Inr []
     else case items plays of
       None \<Rightarrow> Inl TypeError
     | Some js \<Rightarrow>
         (case try_all (generate_play load str) js of
            Inl e \<Rightarrow> Inl e
          | Inr ds \<Rightarrow> Inr (strip (dump (JArr (map JObj ds))))))"

subsection \<open>Issues\<close>

definition issue :: "string \<Rightarrow> string \<Rightarrow> string \<Rightarrow> doc \<Rightarrow> doc" where
  \<comment> \<open>\<^verbatim>\<open>ValidationIssue(...).to_dict()\<close>: only the extra fields with a value are kept\<close>
  "issue level code message extra =
    [(''level'', JStr level), (''code'', JStr code), (''message'', JStr message)] @ filter (\<lambda>(k, v). truthy v) extra"

record checks =
  inventory_groups :: doc
  available_roles :: "json list"
  role_dependencies :: doc

type_synonym issues = "doc list \<times> doc list"   \<comment> \<open>errors and warnings\<close>

definition quoted :: "string \<Rightarrow> string" where "quoted s = [CHR 0x27] @ s @ [CHR 0x27]"

definition is_ipv4 :: "string \<Rightarrow> bool" where
  \<comment> \<open>\<^verbatim>\<open>^(\d{1,3}\.){3}\d{1,3}$\<close>: one newline may follow\<close>
  "is_ipv4 s =
    (let t = (if s \<noteq> [] \<and> last s = CHR 0x0A then butlast s else s);
         ps = split_on CHR ''.'' [] t
     in length ps = 4 \<and> list_all (\<lambda>p. p \<noteq> [] \<and> length p \<le> 3 \<and> list_all is_digit p) ps)"

definition validate_group :: "checks \<Rightarrow> json \<Rightarrow> json \<Rightarrow> string \<Rightarrow> doc option res" where
  \<comment> \<open>always a warning; a name that is no string can be no key and no subject of the pattern\<close>
  "validate_group C g play_id play_name =
    (case g of
       JStr n \<Rightarrow>
         if \<not> has (inventory_groups C) n then
           Inr (if is_ipv4 n then None
                else Some (issue ''warning'' ''GROUP_NOT_EXISTS''
                  (''Play '' @ quoted play_name @ '' references '' @ quoted n @
                   '' which is not a group. It will be treated as a host name or IP address.'')
                  [(''field'', JStr ''hosts''), (''play_id'', play_id), (''group_name'', g)]))
         else
           (case dget (inventory_groups C) n of
              JObj d \<Rightarrow>
                Inr (if truthy (getd d ''hosts'' (JArr [])) then None
                     else Some (issue ''warning'' ''GROUP_EMPTY'' (''Group '' @ quoted n @ '' has no hosts'')
                       [(''field'', JStr ''hosts''), (''play_id'', play_id), (''group_name'', g)]))
            | _ \<Rightarrow> Inl AttributeError)
     | _ \<Rightarrow> Inl TypeError)"

definition dependencies :: "checks \<Rightarrow> json \<Rightarrow> doc option res" where
  \<comment> \<open>what is said about a role, if it is mentioned\<close>
  "dependencies C name =
    (case name of
       JStr n \<Rightarrow>
         if has (role_dependencies C) n then
           (case dget (role_dependencies C) n of JObj d \<Rightarrow> Inr (Some d) | _ \<Rightarrow> Inl AttributeError)
         else Inr None
     | JArr _ \<Rightarrow> Inl TypeError
     | JObj _ \<Rightarrow> Inl TypeError
     | _ \<Rightarrow> Inr None)"

definition role_name :: "json \<Rightarrow> json res" where
  "role_name role = (case role of JObj r \<Rightarrow> Inr (getd r ''role_name'' (JStr [])) | _ \<Rightarrow> Inl AttributeError)"

definition missing_role :: "(json \<Rightarrow> string) \<Rightarrow> checks \<Rightarrow> json \<Rightarrow> json \<Rightarrow> doc list" where
  "missing_role str C name play_id =
    (if truthy name \<and> name \<notin> set (available_roles C) then
       [issue ''error'' ''ROLE_NOT_EXISTS'' (''Role '' @ quoted (as_text str name) @ '' does not exist in project'')
         [(''field'', JStr ''roles''), (''play_id'', play_id), (''role_name'', name)]]
     else [])"

definition group_conflict :: "(json \<Rightarrow> string) \<Rightarrow> doc \<Rightarrow> json \<Rightarrow> json \<Rightarrow> json \<Rightarrow> issues" where
  \<comment> \<open>the group a role requires is compared with the \<^verbatim>\<open>hosts\<close> of the play; the level is free text\<close>
  "group_conflict str deps name hosts play_id =
    (let required = dget deps ''requires_group''; level = getd deps ''requires_group_level'' (JStr ''warning'');
         i = [(''level'', level), (''code'', JStr ''ROLE_REQUIRES_GROUP''),
              (''message'', JStr (''Role '' @ quoted (as_text str name) @ '' requires group '' @ quoted (as_text str required) @
                 '' but play uses '' @ quoted (as_text str hosts)))] @
             filter (\<lambda>(k, v). truthy v)
               [(''field'', JStr ''roles''), (''play_id'', play_id), (''role_name'', name),
                (''required_group'', required), (''current_group'', hosts)]
     in if \<not> truthy required \<or> hosts = required then ([], [])
        else if level = JStr ''error'' then ([i], []) else ([], [i]))"

definition validate_role :: "(json \<Rightarrow> string) \<Rightarrow> checks \<Rightarrow> doc \<Rightarrow> json \<Rightarrow> json \<Rightarrow> issues res" where
  "validate_role str C play play_id role =
    (case role_name role of
       Inl e \<Rightarrow> Inl e
     | Inr name \<Rightarrow>
         (case dependencies C name of
            Inl e \<Rightarrow> Inl e
          | Inr None \<Rightarrow> Inr (missing_role str C name play_id, [])
          | Inr (Some deps) \<Rightarrow>
              (case group_conflict str deps name (getd play ''hosts'' (JStr [])) play_id of
                 (es, ws) \<Rightarrow> Inr (missing_role str C name play_id @ es, ws))))"

definition validate_role_ordering :: "checks \<Rightarrow> json \<Rightarrow> doc list res" where
  \<comment> \<open>both branches of the search go on with the next role, so nothing is ever reported\<close>
  "validate_role_ordering C role =
    (case role_name role of
       Inl e \<Rightarrow> Inl e
     | Inr name \<Rightarrow>
         (case dependencies C name of
            Inl e \<Rightarrow> Inl e
          | Inr None \<Rightarrow> Inr []
          | Inr (Some deps) \<Rightarrow>
              (case items (getd deps ''requires_roles'' (JArr [])) of None \<Rightarrow> Inl TypeError | Some rs \<Rightarrow> Inr [])))"

definition play_groups :: "json \<Rightarrow> json list" where
  \<comment> \<open>the groups of a play that are looked up\<close>
  "play_groups hosts =
    filter (\<lambda>h. truthy h \<and> h \<noteq> JStr ''all'')
      (if \<not> truthy hosts then [] else case hosts of JArr xs \<Rightarrow> xs | _ \<Rightarrow> [hosts])"

record play_validation =
  pv_id :: json
  pv_errors :: "doc list"
  pv_warnings :: "doc list"

definition loop_roles :: "json \<Rightarrow> json list res" where
  \<comment> \<open>\<^verbatim>\<open>for role in roles\<close>\<close>
  "loop_roles roles = (case items roles of None \<Rightarrow> Inl TypeError | Some rs \<Rightarrow> Inr rs)"

definition validate_play :: "(json \<Rightarrow> string) \<Rightarrow> checks \<Rightarrow> json \<Rightarrow> play_validation res" where
  "validate_play str C j =
    (case j of
       JObj play \<Rightarrow>
         (case getd play ''name'' (JStr []) of
            JStr raw \<Rightarrow>
              (let play_id = getd play ''id'' (JStr ''unknown''); name = strip raw; roles = getd play ''roles'' (JArr []);
                   no_name = (if name = [] then [issue ''error'' ''PLAY_NAME_REQUIRED'' ''Play name is required''
                     [(''field'', JStr ''name''), (''play_id'', play_id)]] else []);
                   no_roles = (if \<not> truthy roles then [issue ''error'' ''NO_ROLES'' (''Play '' @ quoted name @ '' must have at least one role'')
                     [(''field'', JStr ''roles''), (''play_id'', play_id)]] else [])
               in case try_all (\<lambda>g. validate_group C g play_id name) (play_groups (getd play ''hosts'' (JStr []))) of
                    Inl e \<Rightarrow> Inl e
                  | Inr gs \<Rightarrow>
                 (case loop_roles roles of
                    Inl e \<Rightarrow> Inl e
                  | Inr rs \<Rightarrow>
                 (case try_all (validate_role str C play play_id) rs of
                    Inl e \<Rightarrow> Inl e
                  | Inr ris \<Rightarrow>
                 (case try_all (validate_role_ordering C) rs of
                    Inl e \<Rightarrow> Inl e
                  | Inr ws \<Rightarrow>
                      Inr \<lparr>pv_id = play_id, pv_errors = no_name @ no_roles @ concat (map fst ris),
                           pv_warnings = List.map_filter (\<lambda>g. g) gs @ concat (map snd ris) @ concat ws\<rparr>))))
          | _ \<Rightarrow> Inl AttributeError)
     | _ \<Rightarrow> Inl AttributeError)"

subsection \<open>The playbook as a whole\<close>

definition hashable_id :: "json \<Rightarrow> bool" where
  "hashable_id j = (case j of JArr _ \<Rightarrow> False | JObj _ \<Rightarrow> False | _ \<Rightarrow> True)"

definition id_of :: "json \<Rightarrow> json" where
  "id_of play = (case play of JObj d \<Rightarrow> dget d ''id'' | _ \<Rightarrow> JNull)"

definition duplicate_id :: "(json \<Rightarrow> string) \<Rightarrow> json \<Rightarrow> play_validation \<Rightarrow> play_validation" where
  "duplicate_id str i pv =
    pv\<lparr>pv_errors := pv_errors pv @ [issue ''error'' ''DUPLICATE_PLAY_ID'' (''Duplicate play ID '' @ quoted (as_text str i))
      [(''field'', JStr ''id''), (''play_id'', i)]]\<rparr>"

fun validate_plays :: "(json \<Rightarrow> string) \<Rightarrow> checks \<Rightarrow> json list \<Rightarrow> json list \<Rightarrow> play_validation list res" where
  \<comment> \<open>\<open>seen\<close> is \<^verbatim>\<open>play_ids\<close>\<close>
  "validate_plays str C seen [] = Inr []"
| "validate_plays str C seen (p # ps) =
    (case validate_play str C p of
       Inl e \<Rightarrow> Inl e
     | Inr pv \<Rightarrow>
         if truthy (id_of p) \<and> \<not> hashable_id (id_of p) then Inl TypeError
         else
           (case validate_plays str C (if truthy (id_of p) then id_of p # seen else seen) ps of
              Inl e \<Rightarrow> Inl e
            | Inr pvs \<Rightarrow>
                Inr ((if truthy (id_of p) \<and> id_of p \<in> set seen then duplicate_id str (id_of p) pv else pv) # pvs)))"

definition roles_of_play :: "json \<Rightarrow> json list res" where
  \<comment> \<open>the names of the roles of a play\<close>
  "roles_of_play j =
    (case j of
       JObj play \<Rightarrow> (case loop_roles (getd play ''roles'' (JArr [])) of Inl e \<Rightarrow> Inl e | Inr rs \<Rightarrow> try_all role_name rs)
     | _ \<Rightarrow> Inl AttributeError)"

definition missing_required :: "(json \<Rightarrow> string) \<Rightarrow> checks \<Rightarrow> json list \<Rightarrow> json \<Rightarrow> doc list res" where
  "missing_required str C all_names name =
    (case dependencies C name of
       Inl e \<Rightarrow> Inl e
     | Inr None \<Rightarrow> Inr []
     | Inr (Some deps) \<Rightarrow>
         (case items (getd deps ''requires_roles'' (JArr [])) of
            None \<Rightarrow> Inl TypeError
          | Some rs \<Rightarrow>
              if \<not> list_all hashable_id rs then Inl TypeError
              else Inr (map (\<lambda>r. issue ''warning'' ''MISSING_REQUIRED_ROLE''
                   (''Role '' @ quoted (as_text str name) @ '' requires '' @ quoted (as_text str r) @ '' but it is not present in any play'')
                   [(''role_name'', name), (''required_role'', r)])
                (filter (\<lambda>r. r \<notin> set all_names) rs))))"

definition target_name :: "(json \<Rightarrow> string) \<Rightarrow> json \<Rightarrow> string" where
  "target_name str hosts =
    (case hosts of
       JStr s \<Rightarrow> s
     | JArr xs \<Rightarrow> if xs = [] then ''all'' else join_with '','' (map (as_text str) xs)
     | _ \<Rightarrow> if truthy hosts then str hosts else ''all'')"

definition executions :: "(json \<Rightarrow> string) \<Rightarrow> doc list \<Rightarrow> (string \<times> json) list" where
  \<comment> \<open>every role with the target of its play, once per execution\<close>
  "executions str plays =
    concat (map (\<lambda>p. case roles_of_play (JObj p) of
        Inl e \<Rightarrow> [] | Inr ns \<Rightarrow> map (\<lambda>n. (target_name str (getd p ''hosts'' (JStr [])), n)) ns) plays)"

definition repeated :: "(json \<Rightarrow> string) \<Rightarrow> (string \<times> json) list \<Rightarrow> doc list" where
  \<comment> \<open>in the order of the first execution\<close>
  "repeated str xs =
    map (\<lambda>(g, n). issue ''warning'' ''DUPLICATE_ROLE_EXECUTION''
        (''Role '' @ quoted (as_text str n) @ '' is executed multiple times on group '' @ quoted g)
        [(''role_name'', n), (''group_name'', JStr g)])
      (filter (\<lambda>x. count_list xs x > 1) (rev (remdups (rev xs))))"

definition validate_playbook_level_rules :: "(json \<Rightarrow> string) \<Rightarrow> checks \<Rightarrow> json list \<Rightarrow> doc list res" where
  \<comment> \<open>the names are a set in the code; here in the order of their first use\<close>
  "validate_playbook_level_rules str C plays =
    (case try_all roles_of_play plays of
       Inl e \<Rightarrow> Inl e
     | Inr nss \<Rightarrow>
         (let names = rev (remdups (rev (concat nss))) in
          if \<not> list_all hashable_id names then Inl TypeError
          else case try_all (missing_required str C names) names of
            Inl e \<Rightarrow> Inl e
          | Inr ws \<Rightarrow>
              Inr (concat ws @ repeated str (executions str (List.map_filter obj_of plays)))))"

record validation =
  playbook_errors :: "doc list"
  playbook_warnings :: "doc list"
  plays_checked :: "play_validation list"

definition validate :: "(json \<Rightarrow> string) \<Rightarrow> (nat \<Rightarrow> string) \<Rightarrow> checks \<Rightarrow> doc \<Rightarrow> validation res" where
  "validate str num C playbook =
    (let plays = getd playbook ''plays'' (JArr []) in
     case loop_roles plays of
       Inl e \<Rightarrow> Inl e
     | Inr ps \<Rightarrow>
    (case validate_plays str C [] ps of
       Inl e \<Rightarrow> Inl e
     | Inr pvs \<Rightarrow>
    (case validate_playbook_level_rules str C ps of
       Inl e \<Rightarrow> Inl e
     | Inr ws \<Rightarrow>
         (let bad = length (filter (\<lambda>v. pv_errors v \<noteq> []) pvs) in
          Inr \<lparr>playbook_errors =
                 (if \<not> truthy plays then [issue ''error'' ''PLAYBOOK_EMPTY'' ''Playbook must contain at least one play'' []] else []) @
                 (if bad > 0 then [issue ''error'' ''PLAYBOOK_INVALID_PLAYS'' (''Playbook contains '' @ num bad @ '' invalid play(s)'') []] else []),
               playbook_warnings = ws, plays_checked = pvs\<rparr>))))"

definition can_run :: "validation \<Rightarrow> bool" where
  "can_run v = (playbook_errors v = [] \<and> list_all (\<lambda>p. pv_errors p = []) (plays_checked v))"

definition report :: "validation \<Rightarrow> doc" where
  "report v =
    [(''playbook'', JObj [(''valid'', JBool (playbook_errors v = [])), (''can_run'', JBool (can_run v)),
        (''errors'', JArr (map JObj (playbook_errors v))), (''warnings'', JArr (map JObj (playbook_warnings v)))]),
     (''plays'', JArr (map (\<lambda>p. JObj [(''play_id'', pv_id p), (''valid'', JBool (pv_errors p = [])), (''can_run'', JBool (pv_errors p = [])),
        (''errors'', JArr (map JObj (pv_errors p))), (''warnings'', JArr (map JObj (pv_warnings p)))]) (plays_checked v))),
     (''summary'', JObj [
        (''total_errors'', JNum (of_nat (length (playbook_errors v) + sum_list (map (length \<circ> pv_errors) (plays_checked v))))),
        (''total_warnings'', JNum (of_nat (length (playbook_warnings v) + sum_list (map (length \<circ> pv_warnings) (plays_checked v))))),
        (''plays_with_errors'', JNum (of_nat (length (filter (\<lambda>p. pv_errors p \<noteq> []) (plays_checked v))))),
        (''plays_with_warnings'', JNum (of_nat (length (filter (\<lambda>p. pv_warnings p \<noteq> []) (plays_checked v))))),
        (''playbook_can_run'', JBool (can_run v))])]"

end
