(* ===== verification/PlaybooksProps.thy ===== *)
theory PlaybooksProps
  imports Playbooks
begin

text \<open>
  When a playbook can run, and what generating and parsing keep of it.
\<close>

lemma try_all_ok: "try_all f xs = Inr ys \<Longrightarrow> list_all2 (\<lambda>x y. f x = Inr y) xs ys"
  by (induction xs arbitrary: ys) (auto split: sum.splits)

lemma try_all_map: "(\<And>x. x \<in> set xs \<Longrightarrow> f x = Inr (g x)) \<Longrightarrow> try_all f xs = Inr (map g xs)"
  by (induction xs) auto

subsection \<open>What lets a playbook run\<close>

definition role_fine :: "checks \<Rightarrow> doc \<Rightarrow> json \<Rightarrow> bool" where
  "role_fine C play role =
    (case role_name role of
       Inl e \<Rightarrow> False
     | Inr n \<Rightarrow>
         (\<not> truthy n \<or> n \<in> set (available_roles C)) \<and>
         (case dependencies C n of
            Inr (Some deps) \<Rightarrow>
              \<not> (truthy (dget deps ''requires_group'') \<and> getd play ''hosts'' (JStr []) \<noteq> dget deps ''requires_group'' \<and>
                 getd deps ''requires_group_level'' (JStr ''warning'') = JStr ''error'')
          | _ \<Rightarrow> True))"

definition play_fine :: "checks \<Rightarrow> json \<Rightarrow> bool" where
  "play_fine C j =
    (case j of
       JObj play \<Rightarrow>
         (case getd play ''name'' (JStr []) of JStr raw \<Rightarrow> strip raw \<noteq> [] | _ \<Rightarrow> False) \<and>
         (case items (getd play ''roles'' (JArr [])) of Some rs \<Rightarrow> rs \<noteq> [] \<and> list_all (role_fine C play) rs | None \<Rightarrow> False)
     | _ \<Rightarrow> False)"

lemma validate_role_fine: "validate_role str C play i role = Inr (es, ws) \<Longrightarrow> es = [] \<longleftrightarrow> role_fine C play role"
  by (auto simp: validate_role_def role_fine_def missing_role_def group_conflict_def Let_def
      split: sum.splits option.splits prod.splits if_splits)

lemma items_truthy: "items j = Some xs \<Longrightarrow> truthy j \<longleftrightarrow> xs \<noteq> []"
  by (cases j) auto

lemma validate_roles_fine:
  assumes "try_all (validate_role str C play i) rs = Inr ris"
  shows "concat (map fst ris) = [] \<longleftrightarrow> list_all (role_fine C play) rs"
proof -
  from try_all_ok [OF assms] show ?thesis
    by (induction rule: list_all2_induct) (auto dest: validate_role_fine)
qed

lemma validate_play_fine:
  assumes "validate_play str C j = Inr pv" shows "pv_errors pv = [] \<longleftrightarrow> play_fine C j"
proof -
  from assms obtain play raw rs ris where
    play: "j = JObj play" "getd play ''name'' (JStr []) = JStr raw" "items (getd play ''roles'' (JArr [])) = Some rs"
      "try_all (validate_role str C play (getd play ''id'' (JStr ''unknown''))) rs = Inr ris"
    and pv: "pv_errors pv = [] \<longleftrightarrow> strip raw \<noteq> [] \<and> truthy (getd play ''roles'' (JArr [])) \<and> concat (map fst ris) = []"
    by (auto simp: validate_play_def loop_roles_def Let_def split: json.splits sum.splits option.splits if_splits)
  show ?thesis unfolding pv validate_roles_fine [OF play(4)] items_truthy [OF play(3)]
    by (simp add: play_fine_def play)
qed

lemma validate_plays_fine:
  "validate_plays str C seen ps = Inr pvs \<Longrightarrow>
    list_all (\<lambda>v. pv_errors v = []) pvs \<longleftrightarrow>
      list_all (play_fine C) ps \<and> distinct (filter truthy (map id_of ps)) \<and> set (filter truthy (map id_of ps)) \<inter> set seen = {}"
proof (induction ps arbitrary: seen pvs)
  case (Cons p ps)
  then obtain pv pvs' where v: "validate_play str C p = Inr pv"
    "validate_plays str C (if truthy (id_of p) then id_of p # seen else seen) ps = Inr pvs'"
    "pvs = (if truthy (id_of p) \<and> id_of p \<in> set seen then duplicate_id str (id_of p) pv else pv) # pvs'"
    by (auto split: sum.splits if_splits)
  show ?case using Cons.IH [OF v(2)] validate_play_fine [OF v(1)] v(3)
    by (auto simp: duplicate_id_def)
qed simp

text \<open>C28: When the validator returns, it lets the playbook run exactly if there is a play, no id that
  counts as true is used twice, and every play has a name that is not blank and at least one entry
  among its roles, where each entry's role name is either missing or empty or the name of a role of the
  project, and the play's target is the group this role requires, if it requires one and the
  level of that rule is \<^verbatim>\<open>error\<close>. So an entry without a role name, which the generator writes as an
  empty dictionary, is let through; groups and hosts never stop a playbook.\<close>
theorem can_run_iff:
  assumes "validate str num C playbook = Inr v" "items (getd playbook ''plays'' (JArr [])) = Some ps"
  shows "can_run v \<longleftrightarrow> ps \<noteq> [] \<and> list_all (play_fine C) ps \<and> distinct (filter truthy (map id_of ps))"
proof -
  from assms obtain pvs where pvs: "validate_plays str C [] ps = Inr pvs" "plays_checked v = pvs"
    and e: "playbook_errors v = [] \<longleftrightarrow> truthy (getd playbook ''plays'' (JArr [])) \<and> \<not> length (filter (\<lambda>v. pv_errors v \<noteq> []) pvs) > 0"
    by (auto simp: validate_def loop_roles_def Let_def split: sum.splits)
  have "length (filter (\<lambda>v. pv_errors v \<noteq> []) pvs) > 0 \<longleftrightarrow> \<not> list_all (\<lambda>v. pv_errors v = []) pvs"
    by (auto simp: list_all_iff filter_empty_conv)
  with validate_plays_fine [OF pvs(1)] e items_truthy [OF assms(2)] show ?thesis
    by (auto simp: can_run_def pvs(2))
qed

text \<open>An entry without a role is accepted by the validator, and the generator makes an empty dictionary of it.\<close>
theorem nameless_role_accepted:
  "can_run (projr (validate str num \<lparr>inventory_groups = [], available_roles = [], role_dependencies = []\<rparr>
      [(''plays'', JArr [JObj [(''name'', JStr ''n''), (''hosts'', JStr ''all''), (''roles'', JArr [JObj []])]])]))"
    and "generate_role (JObj []) = []"
  by (simp_all add: validate_def loop_roles_def validate_play_def validate_role_def role_name_def dependencies_def
      missing_role_def validate_role_ordering_def play_groups_def validate_playbook_level_rules_def roles_of_play_def
      missing_required_def can_run_def hashable_id_def id_of_def strip_def is_space_def char_in_def generate_role_def Let_def)

text \<open>A play whose roles are \<^verbatim>\<open>null\<close> is not reported but makes the validator raise an exception, although
  a rule for plays without roles exists.\<close>
theorem null_roles_crash_validator:
  assumes "map_of play ''name'' = Some (JStr n)" "map_of play ''roles'' = Some JNull" "dget play ''hosts'' = JNull"
  shows "validate str num C [(''plays'', JArr [JObj play])] = Inl TypeError"
proof -
  have h: "play_groups (getd play ''hosts'' (JStr [])) = []"
    using assms(3) by (auto simp: play_groups_def getd_def dget_def split: option.splits)
  have "validate_play str C (JObj play) = Inl TypeError"
    using assms by (simp add: validate_play_def getd_def loop_roles_def Let_def h [unfolded getd_def])
  then show ?thesis by (simp add: validate_def loop_roles_def)
qed

subsection \<open>Generating and parsing\<close>

definition plain_role :: "doc \<Rightarrow> bool" where
  "plain_role r \<longleftrightarrow>
    (\<exists>n t vs. r = role_doc (JStr n) (JStr t) vs \<and> n \<noteq> [] \<and> t \<noteq> [] \<and> (vs = JNull \<or> (\<exists>d. d \<noteq> [] \<and> vs = JObj d)))"

definition plain_hosts :: "json \<Rightarrow> bool" where
  "plain_hosts j = (case j of JStr s \<Rightarrow> s \<noteq> [] | JArr xs \<Rightarrow> length xs \<ge> 2 | _ \<Rightarrow> False)"

definition dropped_fields :: "string set" where
  "dropped_fields = {''pre_tasks'', ''post_tasks'', ''vars_files''}"

definition plain_play :: "doc \<Rightarrow> bool" where
  \<comment> \<open>the fields the parser knows, and then the tasks and the files of variables, in any form that is written\<close>
  "plain_play p \<longleftrightarrow>
    (\<exists>i n h u b s rs x. p = [(''id'', i), (''name'', n), (''hosts'', h), (''remote_user'', u), (''become'', JBool b),
        (''strategy'', JStr s), (''roles'', JArr (map JObj rs))] @ x \<and>
      plain_hosts h \<and> (u = JNull \<or> truthy u) \<and> s \<noteq> [] \<and> list_all plain_role rs \<and>
      fst ` set x \<subseteq> dropped_fields \<and>
      (\<exists>xs. getd x ''pre_tasks'' (JArr []) = JArr xs) \<and> (\<exists>xs. getd x ''post_tasks'' (JArr []) = JArr xs))"

definition read_back :: "string \<Rightarrow> doc \<Rightarrow> doc" where
  \<comment> \<open>a new id, and nothing of the tasks and the files of variables\<close>
  "read_back i p = dset (filter (\<lambda>(k, v). k \<notin> dropped_fields) p) ''id'' (JStr i)"

fun read_back_all :: "(nat \<Rightarrow> string) \<Rightarrow> doc list \<Rightarrow> doc list" where
  "read_back_all uid [] = []"
| "read_back_all uid (p # ps) = read_back (uid 0) p # read_back_all (\<lambda>n. uid (Suc n)) ps"

lemma role_roundtrip: "plain_role r \<Longrightarrow> parse_role str (JObj (generate_role (JObj r))) = Some r"
  by (auto simp: plain_role_def role_doc_def generate_role_def put_if_def parse_role_def py_or_def role_tag_def)

lemma roles_roundtrip:
  "list_all plain_role rs \<Longrightarrow> List.map_filter (parse_role str) (map (\<lambda>r. JObj (generate_role r)) (map JObj rs)) = rs"
  by (induction rs) (auto simp: role_roundtrip List.map_filter_simps)

lemma hosts_roundtrip: "plain_hosts h \<Longrightarrow> parse_hosts str (generate_hosts h) = h"
  by (auto simp: plain_hosts_def parse_hosts_def generate_hosts_def split: json.splits list.splits)

lemma plain_hosts_truthy: "plain_hosts h \<Longrightarrow> truthy h"
  by (cases h) (auto simp: plain_hosts_def)

lemma play_roundtrip:
  assumes "plain_play p" shows "\<exists>d. generate_play load str (JObj p) = Inr d \<and> parse_play str i d = Some (read_back i p)"
proof -
  obtain i0 n h u b s rs x pre post where p: "p = [(''id'', i0), (''name'', n), (''hosts'', h), (''remote_user'', u),
      (''become'', JBool b), (''strategy'', JStr s), (''roles'', JArr (map JObj rs))] @ x"
    and h: "plain_hosts h" and u: "u = JNull \<or> truthy u" and s: "s \<noteq> []" and rs: "list_all plain_role rs"
    and x: "fst ` set x \<subseteq> dropped_fields"
    and pre: "getd x ''pre_tasks'' (JArr []) = JArr pre" and post: "getd x ''post_tasks'' (JArr []) = JArr post"
    using assms unfolding plain_play_def by (elim exE conjE) (rule that; assumption)
  have t: "getd p ''pre_tasks'' (JArr []) = JArr pre" "getd p ''post_tasks'' (JArr []) = JArr post"
    using pre post by (simp_all add: p)
  let ?roles = "JArr (map (\<lambda>r. JObj (generate_role r)) (map JObj rs))"
  define before where "before = put_if (pre \<noteq> []) ''pre_tasks'' (JArr (map (generate_task load str) pre))"
  define behind where "behind = put_if (post \<noteq> []) ''post_tasks'' (JArr (map (generate_task load str) post)) @
      (case dget p ''vars_files'' of
         JArr xs \<Rightarrow> put_if (xs \<noteq> []) ''vars_files'' (JArr (filter (\<lambda>x. truthy x \<and> str_of x \<noteq> None) xs)) | _ \<Rightarrow> [])"
  let ?d = "[(''name'', n), (''hosts'', generate_hosts h)] @ put_if (truthy u) ''remote_user'' u @
      put_if b ''become'' (JBool True) @ put_if (s \<noteq> ''linear'') ''strategy'' (JStr s) @ before @ [(''roles'', ?roles)] @ behind"
  have g: "generate_play load str (JObj p) = Inr ?d"
  proof -
    have l: "generate_list ''pre_tasks'' f p = Inr (put_if (pre \<noteq> []) ''pre_tasks'' (JArr (map f pre)))"
      "generate_list ''post_tasks'' f p = Inr (put_if (post \<noteq> []) ''post_tasks'' (JArr (map f post)))" for f
      by (simp_all add: generate_list_def t put_if_def)
    have r: "generate_list ''roles'' (\<lambda>r. JObj (generate_role r)) p =
        Inr (if rs = [] then [] else [(''roles'', ?roles)])"
      by (simp add: generate_list_def p)
    show ?thesis
      unfolding generate_play_def json.case l r using s
      by (cases "rs = []") (simp_all add: p before_def behind_def Let_def)
  qed
  have keys: "fst ` set before \<subseteq> dropped_fields" "fst ` set behind \<subseteq> dropped_fields"
    by (auto simp: before_def behind_def put_if_def dropped_fields_def split: json.split)
  have "parse_play str i ?d = Some [(''id'', JStr i), (''name'', n), (''hosts'', h), (''remote_user'', u),
      (''become'', JBool b), (''strategy'', JStr s), (''roles'', JArr (map JObj rs))]"
  proof -
    let ?a = "[(''name'', n), (''hosts'', generate_hosts h)] @ put_if (truthy u) ''remote_user'' u @
      put_if b ''become'' (JBool True) @ put_if (s \<noteq> ''linear'') ''strategy'' (JStr s)"
    have look: "getd ?d k v = getd (?a @ [(''roles'', ?roles)]) k v \<and> dget ?d k = dget (?a @ [(''roles'', ?roles)]) k"
      if "k \<notin> dropped_fields" for k v
    proof -
      have nk: "k \<notin> fst ` set before" "k \<notin> fst ` set behind" using that keys by blast+
      have "map_of ?d k = map_of (?a @ [(''roles'', ?roles)]) k"
        using nk by (simp add: map_add_def map_of_eq_None_iff [THEN iffD2] split: option.split)
      then show ?thesis by (simp only: getd_def dget_def)
    qed
    note l = look [unfolded dropped_fields_def, simplified insert_iff empty_iff simp_thms]
    show ?thesis
      using u roles_roundtrip [OF rs, of str] hosts_roundtrip [OF h, of str] l [of "''name''"] l [of "''hosts''"]
        l [of "''remote_user''"] l [of "''become''"] l [of "''strategy''"] l [of "''roles''"]
      by (cases rs) (auto simp: parse_play_def put_if_def Let_def)
  qed
  moreover have "read_back i p = [(''id'', JStr i), (''name'', n), (''hosts'', h), (''remote_user'', u),
      (''become'', JBool b), (''strategy'', JStr s), (''roles'', JArr (map JObj rs))]"
  proof -
    have "filter (\<lambda>(k, v). k \<notin> dropped_fields) x = []" using x by (auto simp: filter_empty_conv)
    then show ?thesis by (simp add: read_back_def p) (simp add: dropped_fields_def dset_def)
  qed
  ultimately show ?thesis using g by auto
qed

lemma plays_roundtrip:
  "list_all plain_play ps \<Longrightarrow> \<exists>ds. try_all (generate_play load str) (map JObj ps) = Inr ds \<and>
     parse_plays str uid (map JObj ds) = read_back_all uid ps \<and> length ds = length ps"
proof (induction ps arbitrary: uid)
  case (Cons p ps)
  from Cons.prems obtain d where d: "generate_play load str (JObj p) = Inr d" "parse_play str (uid 0) d = Some (read_back (uid 0) p)"
    using play_roundtrip by fastforce
  from Cons.IH [of "\<lambda>n. uid (Suc n)"] Cons.prems obtain ds where
    "try_all (generate_play load str) (map JObj ps) = Inr ds"
    "parse_plays str (\<lambda>n. uid (Suc n)) (map JObj ds) = read_back_all (\<lambda>n. uid (Suc n)) ps" "length ds = length ps" by auto
  with d show ?case by auto
qed simp

text \<open>C29: What the generator writes, the parser reads back as the same plays in order, each with a new id
  and with its name, target, user, privilege flag, strategy and roles (the role's name, tag and
  variables) unchanged, when the YAML library reads back what it wrote. The tasks before
  and after the roles and the files of variables, which the generator writes too, are not read
  back. This is for playbooks in the editor's normal form: a target is a name or at least two, the
  strategy is not empty, the user is missing or counts as true, and roles have a name, a tag, and
  variables that are missing or not empty.\<close>
theorem generate_parse_roundtrip:
  assumes "ps \<noteq> []" "list_all plain_play ps" "nm \<noteq> []"
    and "\<And>ds. try_all (generate_play load str) (map JObj ps) = Inr ds \<Longrightarrow>
      load (strip (dump (JArr (map JObj ds)))) = Inr (JArr (map JObj ds))"
  shows "\<exists>t. generate load dump str [(''plays'', JArr (map JObj ps))] = Inr t \<and>
    parse load err str uid t nm = Inr [(''name'', JStr nm), (''description'', JStr []),
      (''plays'', JArr (map JObj (read_back_all uid ps))), (''metadata'', JObj [(''version'', JNum 1)])]"
proof -
  obtain ds where ds: "try_all (generate_play load str) (map JObj ps) = Inr ds"
    "parse_plays str uid (map JObj ds) = read_back_all uid ps"
    using plays_roundtrip [OF assms(2)] by blast
  have "generate load dump str [(''plays'', JArr (map JObj ps))] = Inr (strip (dump (JArr (map JObj ds))))"
    using ds(1) assms(1) by (simp add: generate_def)
  moreover have "parse load err str uid (strip (dump (JArr (map JObj ds)))) nm = Inr [(''name'', JStr nm), (''description'', JStr []),
      (''plays'', JArr (map JObj (read_back_all uid ps))), (''metadata'', JObj [(''version'', JNum 1)])]"
    using assms(3) assms(4) [OF ds(1)] ds(2) by (simp add: parse_def Let_def)
  ultimately show ?thesis by blast
qed

definition demo_role :: doc where "demo_role = role_doc (JStr ''web'') (JStr ''web'') JNull"

definition demo_play :: doc where
  "demo_play = [(''id'', JStr ''i''), (''name'', JStr ''n''), (''hosts'', JStr ''all''), (''remote_user'', JNull),
    (''become'', JBool True), (''strategy'', JStr ''free''), (''roles'', JArr (map JObj [demo_role])),
    (''vars_files'', JArr [JStr ''v''])]"

definition demo_generated :: doc where
  "demo_generated = projr (generate_play (\<lambda>s. Inl TypeError) (\<lambda>j. []) (JObj demo_play))"

theorem generate_parse_roundtrip_witness:
  "\<exists>t. generate (\<lambda>s. Inr (JArr [JObj demo_generated])) (\<lambda>j. ''y'') (\<lambda>j. []) [(''plays'', JArr (map JObj [demo_play]))] = Inr t \<and>
    parse (\<lambda>s. Inr (JArr [JObj demo_generated])) (\<lambda>e. []) (\<lambda>j. []) (\<lambda>n. ''j'') t ''pb'' =
      Inr [(''name'', JStr ''pb''), (''description'', JStr []), (''plays'', JArr (map JObj (read_back_all (\<lambda>n. ''j'') [demo_play]))),
      (''metadata'', JObj [(''version'', JNum 1)])]"
proof (rule generate_parse_roundtrip)
  have "plain_role demo_role" by (auto simp: plain_role_def demo_role_def)
  then show "list_all plain_play [demo_play]"
    by (auto simp: plain_play_def demo_play_def plain_hosts_def dropped_fields_def intro!: exI [of _ "[demo_role]"])
  show "Inr (JArr [JObj demo_generated]) = Inr (JArr (map JObj ds))"
    if "try_all (generate_play (\<lambda>s. Inr (JArr [JObj demo_generated])) (\<lambda>j. [])) (map JObj [demo_play]) = Inr ds" for ds
    using that by (auto simp: demo_generated_def generate_play_def demo_play_def demo_role_def role_doc_def generate_list_def
        Let_def generate_role_def)
qed simp_all

theorem can_run_iff_witness:
  "can_run (projr (validate (\<lambda>j. []) (\<lambda>n. []) \<lparr>inventory_groups = [], available_roles = [JStr ''web''], role_dependencies = []\<rparr>
      [(''plays'', JArr (map JObj [demo_play]))])) \<longleftrightarrow>
    map JObj [demo_play] \<noteq> [] \<and>
    list_all (play_fine \<lparr>inventory_groups = [], available_roles = [JStr ''web''], role_dependencies = []\<rparr>) (map JObj [demo_play]) \<and>
    distinct (filter truthy (map id_of (map JObj [demo_play])))"
proof (rule can_run_iff)
  show "validate (\<lambda>j. []) (\<lambda>n. []) \<lparr>inventory_groups = [], available_roles = [JStr ''web''], role_dependencies = []\<rparr>
      [(''plays'', JArr (map JObj [demo_play]))] =
    Inr (projr (validate (\<lambda>j. []) (\<lambda>n. []) \<lparr>inventory_groups = [], available_roles = [JStr ''web''], role_dependencies = []\<rparr>
      [(''plays'', JArr (map JObj [demo_play]))]))"
    by code_simp
qed simp

text \<open>The parser keeps nothing but the target, the user and the roles of a play: tasks of every kind and
  files of variables are dropped without a message when a playbook is imported.\<close>
theorem parsing_drops_tasks:
  assumes "k \<in> {''tasks'', ''pre_tasks'', ''post_tasks'', ''handlers'', ''vars'', ''vars_files''}"
  shows "parse_play str i (dset d k v) = parse_play str i d"
proof -
  have "k \<noteq> ''name''" "k \<noteq> ''hosts''" "k \<noteq> ''remote_user''" "k \<noteq> ''become''" "k \<noteq> ''strategy''" "k \<noteq> ''roles''"
    using assms by auto
  then show ?thesis by (simp add: parse_play_def Let_def split: option.split)
qed

end
