(* ===== verification/Costs.thy ===== *)
theory Costs
  imports Playbooks Policy "HOL-Library.Char_ord" "HOL-Library.List_Lexorder"
begin

text \<open>
  Costs (\<^verbatim>\<open>storage/cost_store.py\<close>, \<^verbatim>\<open>services/cloud_cost.py\<close>, \<^verbatim>\<open>api/cost_routes.py\<close>): price lists per
  provider with their history, the estimate of a list of resources, and the saved estimates and
  reports of a project. \<open>num\<close> is Python's text of a number, \<open>str\<close> that of other values, \<open>flt\<close> is
  \<^verbatim>\<open>float\<close> on a string; the day and the time are arguments.
\<close>

subsection \<open>Numbers\<close>

definition round_half_even :: "real \<Rightarrow> int" where
  "round_half_even y =
    (let f = \<lfloor>y\<rfloor>; d = y - of_int f in
     if d < 1/2 then f else if d > 1/2 then f + 1 else if even f then f else f + 1)"

definition py_round :: "nat \<Rightarrow> real \<Rightarrow> real" where
  \<comment> \<open>\<^verbatim>\<open>round(x, n)\<close>\<close>
  "py_round n x = of_int (round_half_even (x * 10 ^ n)) / 10 ^ n"

definition to_int :: "json \<Rightarrow> int res" where
  "to_int j =
    (case int_of_json j of
       Some n \<Rightarrow> Inr n
     | None \<Rightarrow> (case j of JStr s \<Rightarrow> Inl (ValueError ''invalid literal for int()'') | _ \<Rightarrow> Inl TypeError))"

definition to_float :: "(string \<Rightarrow> real option) \<Rightarrow> json \<Rightarrow> real res" where
  "to_float flt j =
    (case j of
       JNum x \<Rightarrow> Inr x
     | JBool b \<Rightarrow> Inr (if b then 1 else 0)
     | JStr s \<Rightarrow> (case flt s of Some x \<Rightarrow> Inr x | None \<Rightarrow> Inl (ValueError ''could not convert string to float''))
     | _ \<Rightarrow> Inl TypeError)"

subsection \<open>Price lists\<close>

definition SUPPORTED_PROVIDERS :: "string list" where
  "SUPPORTED_PROVIDERS = [''aws'', ''eks'', ''gcp'', ''gke'', ''azure'', ''hetzner'', ''cloudflare'', ''bytedc'', ''kubernetes'']"

definition price_list :: "(string \<times> real) list \<Rightarrow> doc" where
  "price_list ps = map (\<lambda>(k, x). (k, JNum x)) ps"

definition template :: "string \<Rightarrow> real \<Rightarrow> real \<Rightarrow> real \<Rightarrow> json" where
  "template n v r m = JObj ((''name'', JStr n) # price_list [(''vcpu'', v), (''ram_gb'', r), (''monthly'', m)])"

definition base_compute :: doc where
  "base_compute = price_list [(''vcpu_hour'', 25/1000), (''ram_gb_hour'', 5/1000), (''gpu_hour'', 12/10)] @
    [(''instance_templates'', JArr [template ''small'' 2 4 25, template ''medium'' 4 8 50, template ''large'' 8 16 110])]"

definition base_storage :: doc where
  "base_storage = price_list [(''ssd_gb_month'', 10/100), (''hdd_gb_month'', 4/100), (''object_gb_month'', 23/1000), (''snapshot_gb_month'', 5/100)]"

definition base_network :: doc where
  "base_network = price_list [(''public_ip_month'', 35/10), (''bandwidth_gb'', 9/100), (''nat_gateway_hour'', 45/1000),
    (''load_balancer_hour'', 25/1000), (''vpn_gateway_month'', 36)]"

definition base_managed :: doc where
  "base_managed = price_list [(''kubernetes_cluster_month'', 73), (''database_instance_month'', 60), (''dns_zone_month'', 50/100),
    (''cdn_gb'', 85/1000), (''waf_month'', 20)]"

definition price_overrides :: "(string \<times> (string \<times> doc) list) list" where
  "price_overrides =
    [(''bytedc'', [(''compute'', price_list [(''vcpu_hour'', 18/1000), (''ram_gb_hour'', 4/1000)])]),
     (''hetzner'', [(''compute'', price_list [(''vcpu_hour'', 16/1000), (''ram_gb_hour'', 5/1000)]),
        (''network'', price_list [(''public_ip_month'', 119/100), (''bandwidth_gb'', 0)])]),
     (''aws'', [(''network'', price_list [(''public_ip_month'', 365/100)])]),
     (''eks'', [(''managed'', price_list [(''kubernetes_cluster_month'', 73)]), (''network'', price_list [(''public_ip_month'', 365/100)])]),
     (''gcp'', [(''compute'', price_list [(''vcpu_hour'', 31/1000), (''ram_gb_hour'', 4/1000)]),
        (''network'', price_list [(''public_ip_month'', 292/100)])]),
     (''gke'', [(''managed'', price_list [(''kubernetes_cluster_month'', 73)]),
        (''compute'', price_list [(''vcpu_hour'', 31/1000), (''ram_gb_hour'', 4/1000)])]),
     (''azure'', [(''managed'', price_list [(''kubernetes_cluster_month'', 75)])]),
     (''cloudflare'', [(''network'', price_list [(''bandwidth_gb'', 0)]), (''managed'', price_list [(''waf_month'', 25)])]),
     (''kubernetes'', [(''compute'', price_list [(''vcpu_hour'', 10/1000), (''ram_gb_hour'', 2/1000)]),
        (''managed'', price_list [(''kubernetes_cluster_month'', 0)])])]"

definition overridden :: "string \<Rightarrow> string \<Rightarrow> doc \<Rightarrow> json" where
  \<comment> \<open>a section of the base with the provider's prices\<close>
  "overridden provider section_name d =
    JObj (case map_of price_overrides provider of
       None \<Rightarrow> d
     | Some ov \<Rightarrow> (case map_of ov section_name of None \<Rightarrow> d | Some u \<Rightarrow> dupd d u))"

definition default_catalog :: "string \<Rightarrow> string \<Rightarrow> real \<Rightarrow> doc" where
  "default_catalog today provider now =
    [(''provider'', JStr provider), (''currency'', JStr ''USD''), (''version'', JNum 1), (''effective_date'', JStr today),
     (''updated_at'', JNum now), (''compute'', overridden provider ''compute'' base_compute),
     (''storage'', overridden provider ''storage'' base_storage), (''network'', overridden provider ''network'' base_network),
     (''managed'', overridden provider ''managed'' base_managed)]"

type_synonym json_files = "(string \<times> json option) list"   \<comment> \<open>\<open>None\<close>: a file that does not parse\<close>

record cost_store =
  pricing :: json_files
  price_history :: json_files
  estimates :: json_files
  reports :: "((string \<times> string) \<times> json option) list"

definition read_json :: "json_files \<Rightarrow> string \<Rightarrow> json option" where
  "read_json F n = (case map_of F n of Some (Some j) \<Rightarrow> Some j | _ \<Rightarrow> None)"

definition read_list :: "json_files \<Rightarrow> string \<Rightarrow> json" where
  \<comment> \<open>an empty list for a missing or broken file\<close>
  "read_list F n = (case read_json F n of Some j \<Rightarrow> j | None \<Rightarrow> JArr [])"

definition last_items :: "nat \<Rightarrow> 'a list \<Rightarrow> 'a list" where "last_items n xs = drop (length xs - n) xs"

definition next_version :: "bool \<Rightarrow> json option \<Rightarrow> doc \<Rightarrow> int res" where
  "next_version record_history prev catalog =
    (if record_history then
       (case py_or (case prev of Some j \<Rightarrow> j | None \<Rightarrow> JNull) (JObj []) of
          JObj p \<Rightarrow> (case to_int (getd p ''version'' (JNum 0)) of Inl e \<Rightarrow> Inl e | Inr n \<Rightarrow> Inr (n + 1))
        | _ \<Rightarrow> Inl AttributeError)
     else to_int (getd catalog ''version'' (JNum 1)))"

definition history_entry :: "doc \<Rightarrow> json" where
  "history_entry p =
    JObj [(''version'', getd p ''version'' (JNum 1)), (''saved_at'', dget p ''updated_at''), (''catalog'', JObj p)]"

definition save_pricing :: "string \<Rightarrow> real \<Rightarrow> string \<Rightarrow> doc \<Rightarrow> bool \<Rightarrow> cost_store \<Rightarrow> doc res \<times> cost_store" where
  "save_pricing today now provider catalog record_history S =
    (let provider = lower provider; prev = read_json (pricing S) provider in
     if provider \<notin> set SUPPORTED_PROVIDERS then (Inl (ValueError (''Unsupported provider: '' @ provider)), S)
     else case next_version record_history prev (dset_new (dset catalog ''provider'' (JStr provider)) ''currency'' (JStr ''USD'')) of
       Inl e \<Rightarrow> (Inl e, S)
     | Inr v \<Rightarrow>
         (let c = dset_new (dset catalog ''provider'' (JStr provider)) ''currency'' (JStr ''USD'');
              c = dset (dset c ''version'' (jint v)) ''updated_at'' (JNum now);
              c = dset_new c ''effective_date'' (JStr today);
              S = S\<lparr>pricing := tput provider (Some (JObj c)) (pricing S)\<rparr>
          in case prev of
               Some (JObj p) \<Rightarrow>
                 if record_history \<and> p \<noteq> [] then
                   (case read_list (price_history S) provider of
                      JArr h \<Rightarrow>
                        (Inr c, S\<lparr>price_history := tput provider (Some (JArr (last_items 50 (h @ [history_entry p])))) (price_history S)\<rparr>)
                    | _ \<Rightarrow> (Inl AttributeError, S))
                 else (Inr c, S)
             | _ \<Rightarrow> (Inr c, S)))"

definition get_pricing :: "string \<Rightarrow> real \<Rightarrow> string \<Rightarrow> cost_store \<Rightarrow> json res \<times> cost_store" where
  \<comment> \<open>the first request stores the default, a broken file is answered with it\<close>
  "get_pricing today now provider S =
    (let provider = lower provider; d = default_catalog today provider now in
     if provider \<notin> set SUPPORTED_PROVIDERS then (Inl (ValueError (''Unsupported provider: '' @ provider)), S)
     else case map_of (pricing S) provider of
       None \<Rightarrow> (case save_pricing today now provider d False S of
                  (Inl e, S) \<Rightarrow> (Inl e, S)
                | (Inr c, S) \<Rightarrow> (Inr (JObj c), S))
     | Some (Some j) \<Rightarrow> (Inr j, S)
     | Some None \<Rightarrow> (Inr (JObj d), S))"

fun list_all_pricing :: "string \<Rightarrow> real \<Rightarrow> string list \<Rightarrow> cost_store \<Rightarrow> json list res \<times> cost_store" where
  "list_all_pricing today now [] S = (Inr [], S)"
| "list_all_pricing today now (p # ps) S =
    (case get_pricing today now p S of
       (Inl e, S) \<Rightarrow> (Inl e, S)
     | (Inr j, S) \<Rightarrow>
         (case list_all_pricing today now ps S of (Inl e, S) \<Rightarrow> (Inl e, S) | (Inr js, S) \<Rightarrow> (Inr (j # js), S)))"

definition list_pricing :: "string \<Rightarrow> real \<Rightarrow> cost_store \<Rightarrow> json list res \<times> cost_store" where
  "list_pricing today now S = list_all_pricing today now SUPPORTED_PROVIDERS S"

definition get_pricing_history :: "string \<Rightarrow> cost_store \<Rightarrow> json" where
  "get_pricing_history provider S = read_list (price_history S) (lower provider)"

subsection \<open>Estimates\<close>

datatype basis = Hours | Size | Traffic | Flat

definition tariff :: "string \<Rightarrow> (string \<times> string \<times> string \<times> basis) option" where
  \<comment> \<open>section and key of the price, the unit, and what it is multiplied with\<close>
  "tariff kind = map_of
    [(''gpu'', ''compute'', ''gpu_hour'', ''hour'', Hours), (''ssd'', ''storage'', ''ssd_gb_month'', ''GB-month'', Size),
     (''hdd'', ''storage'', ''hdd_gb_month'', ''GB-month'', Size),
     (''object_storage'', ''storage'', ''object_gb_month'', ''GB-month'', Size),
     (''snapshot'', ''storage'', ''snapshot_gb_month'', ''GB-month'', Size),
     (''public_ip'', ''network'', ''public_ip_month'', ''month'', Flat),
     (''bandwidth'', ''network'', ''bandwidth_gb'', ''GB'', Traffic),
     (''nat_gateway'', ''network'', ''nat_gateway_hour'', ''hour'', Hours),
     (''load_balancer'', ''network'', ''load_balancer_hour'', ''hour'', Hours),
     (''vpn_gateway'', ''network'', ''vpn_gateway_month'', ''month'', Flat),
     (''kubernetes_cluster'', ''managed'', ''kubernetes_cluster_month'', ''month'', Flat),
     (''database'', ''managed'', ''database_instance_month'', ''month'', Flat),
     (''dns_zone'', ''managed'', ''dns_zone_month'', ''month'', Flat),
     (''cdn'', ''managed'', ''cdn_gb'', ''GB'', Traffic), (''waf'', ''managed'', ''waf_month'', ''month'', Flat)] kind"

definition price :: "json \<Rightarrow> string \<Rightarrow> string \<Rightarrow> real res" where
  \<comment> \<open>\<^verbatim>\<open>cat[section][key]\<close>, as a factor\<close>
  "price cat section_name key =
    (case cat of
       JObj c \<Rightarrow>
         (case map_of c section_name of
            None \<Rightarrow> Inl (KeyError section_name)
          | Some (JObj s) \<Rightarrow>
              (case map_of s key of
                 None \<Rightarrow> Inl (KeyError key)
               | Some v \<Rightarrow> (case num_of v of Some x \<Rightarrow> Inr x | None \<Rightarrow> Inl TypeError))
          | Some _ \<Rightarrow> Inl TypeError)
     | _ \<Rightarrow> Inl TypeError)"

definition field_or :: "(string \<Rightarrow> real option) \<Rightarrow> doc \<Rightarrow> string list \<Rightarrow> real \<Rightarrow> real res" where
  \<comment> \<open>\<^verbatim>\<open>float(r.get(a) or r.get(b) or x)\<close>\<close>
  "field_or flt r ks x = to_float flt (foldr (\<lambda>k j. py_or (dget r k) j) ks (JNum x))"

record cost_line =
  l_kind :: string
  l_name :: json
  l_quantity :: real
  l_unit :: string
  l_price :: real
  l_monthly :: real

definition amount :: "(string \<Rightarrow> real option) \<Rightarrow> doc \<Rightarrow> real \<Rightarrow> basis \<Rightarrow> real res" where
  "amount flt r hours b =
    (case b of
       Hours \<Rightarrow> Inr hours
     | Size \<Rightarrow> field_or flt r [''size_gb''] 0
     | Traffic \<Rightarrow> field_or flt r [''bandwidth_gb'', ''size_gb''] 0
     | Flat \<Rightarrow> Inr 1)"

definition instance_line :: "(string \<Rightarrow> real option) \<Rightarrow> (json \<Rightarrow> string) \<Rightarrow> (real \<Rightarrow> string) \<Rightarrow> json \<Rightarrow> doc \<Rightarrow> json \<Rightarrow> real \<Rightarrow> real \<Rightarrow>
    (cost_line \<times> string list) res" where
  "instance_line flt str num cat r name qty hours =
    (case field_or flt r [''vcpu''] 0 of Inl e \<Rightarrow> Inl e | Inr vcpu \<Rightarrow>
    (case field_or flt r [''ram_gb''] 0 of Inl e \<Rightarrow> Inl e | Inr ram \<Rightarrow>
    (case price cat ''compute'' ''vcpu_hour'' of Inl e \<Rightarrow> Inl e | Inr pv \<Rightarrow>
    (case price cat ''compute'' ''ram_gb_hour'' of Inl e \<Rightarrow> Inl e | Inr pr \<Rightarrow>
       (let u = vcpu * pv + ram * pr in
        Inr (\<lparr>l_kind = ''instance'', l_name = name, l_quantity = qty, l_unit = ''hour'', l_price = u, l_monthly = u * hours * qty\<rparr>,
          if vcpu \<ge> 16 \<or> ram \<ge> 64 then
            [''Resource '' @ [CHR 0x27] @ as_text str name @ [CHR 0x27] @ '' looks overprovisioned (vCPU='' @ num vcpu @ '', RAM='' @ num ram @ ''GB)'']
          else []))))))"

definition cost_resource :: "(string \<Rightarrow> real option) \<Rightarrow> (json \<Rightarrow> string) \<Rightarrow> (real \<Rightarrow> string) \<Rightarrow> json \<Rightarrow> json \<Rightarrow>
    (cost_line option \<times> string list) res" where
  \<comment> \<open>one resource: its line, if the kind is known, and the warnings\<close>
  "cost_resource flt str num cat j =
    (case j of
       JObj r \<Rightarrow>
         (case py_or (dget r ''kind'') (JStr []) of
            JStr raw \<Rightarrow>
              (let kind = strip (lower raw); name = py_or (dget r ''name'') (JStr kind) in
               case field_or flt r [''quantity''] 1 of Inl e \<Rightarrow> Inl e | Inr qty \<Rightarrow>
              (case field_or flt r [''hours_per_month''] 730 of Inl e \<Rightarrow> Inl e | Inr hours \<Rightarrow>
                if kind = ''instance'' then
                  (case instance_line flt str num cat r name qty hours of Inl e \<Rightarrow> Inl e | Inr (l, ws) \<Rightarrow> Inr (Some l, ws))
                else case tariff kind of
                  None \<Rightarrow> Inr (None, [''Unknown resource kind '' @ [CHR 0x27] @ kind @ [CHR 0x27] @ '' - skipped''])
                | Some (sec, key, unit_name, b) \<Rightarrow>
                    (case amount flt r hours b of Inl e \<Rightarrow> Inl e | Inr a \<Rightarrow>
                    (case price cat sec key of Inl e \<Rightarrow> Inl e | Inr u \<Rightarrow>
                       Inr (Some \<lparr>l_kind = kind, l_name = name, l_quantity = qty, l_unit = unit_name, l_price = u,
                                  l_monthly = a * u * qty\<rparr>, [])))))
          | _ \<Rightarrow> Inl AttributeError)
     | _ \<Rightarrow> Inl AttributeError)"

fun cost_resources :: "(json \<Rightarrow> (cost_line option \<times> string list) res) \<Rightarrow> json list \<Rightarrow> (cost_line list \<times> string list) res" where
  "cost_resources f [] = Inr ([], [])"
| "cost_resources f (j # js) =
    (case f j of
       Inl e \<Rightarrow> Inl e
     | Inr (l, ws) \<Rightarrow>
         (case cost_resources f js of
            Inl e \<Rightarrow> Inl e
          | Inr (ls, vs) \<Rightarrow> Inr ((case l of Some l \<Rightarrow> l # ls | None \<Rightarrow> ls), ws @ vs)))"

definition insights :: "cost_line list \<Rightarrow> string list" where
  "insights ls =
    (let instances = sum_list (map l_quantity (filter (\<lambda>l. l_kind l = ''instance'') ls));
         has_kind = (\<lambda>k. \<exists>l \<in> set ls. l_kind l = k)
     in (if instances \<ge> 2 \<and> \<not> has_kind ''load_balancer''
           then [''Multiple compute instances without a load balancer - consider HA.''] else []) @
        (if instances = 1 then [''Single compute instance is a potential single point of failure.''] else []) @
        (if has_kind ''public_ip'' \<and> \<not> has_kind ''nat_gateway''
           then [''Public IPs detected without NAT gateway - verify egress topology.''] else []))"

definition line_doc :: "cost_line \<Rightarrow> json" where
  "line_doc l =
    JObj [(''kind'', JStr (l_kind l)), (''name'', l_name l), (''quantity'', JNum (l_quantity l)), (''unit'', JStr (l_unit l)),
      (''unit_price'', JNum (py_round 6 (l_price l))), (''monthly'', JNum (py_round 2 (l_monthly l))),
      (''yearly'', JNum (py_round 2 (l_monthly l * 12)))]"

definition estimate_doc :: "string \<Rightarrow> json \<Rightarrow> real \<Rightarrow> cost_line list \<Rightarrow> string list \<Rightarrow> doc" where
  "estimate_doc provider currency now ls ws =
    (let total = sum_list (map l_monthly ls) in
     [(''provider'', JStr provider), (''currency'', currency),
      (''monthly_total'', JNum (py_round 2 total)), (''yearly_total'', JNum (py_round 2 (total * 12))), (''one_time_total'', JNum 0),
      (''line_items'', JArr (map line_doc ls)), (''warnings'', JArr (map JStr ws)), (''insights'', JArr (map JStr (insights ls))),
      (''computed_at'', JNum now)])"

definition estimate_cost :: "(string \<Rightarrow> real option) \<Rightarrow> (json \<Rightarrow> string) \<Rightarrow> (real \<Rightarrow> string) \<Rightarrow> string \<Rightarrow> real \<Rightarrow> string \<Rightarrow> json list \<Rightarrow>
    cost_store \<Rightarrow> doc res \<times> cost_store" where
  "estimate_cost flt str num today now provider resources S =
    (case get_pricing today now provider S of
       (Inl e, S) \<Rightarrow> (Inl e, S)
     | (Inr cat, S) \<Rightarrow>
         (case cost_resources (cost_resource flt str num cat) resources of
            Inl e \<Rightarrow> (Inl e, S)
          | Inr (ls, ws) \<Rightarrow>
              (case cat of
                 JObj c \<Rightarrow> (Inr (estimate_doc provider (getd c ''currency'' (JStr ''USD'')) now ls ws), S)
               | _ \<Rightarrow> (Inl AttributeError, S))))"

subsection \<open>Saved estimates\<close>

definition is_word_char :: "char \<Rightarrow> bool" where "is_word_char c = (is_lower c \<or> is_upper c \<or> is_digit c)"

definition safe_name :: "string \<Rightarrow> string \<Rightarrow> string" where
  "safe_name fallback s =
    (let t = filter (\<lambda>c. is_word_char c \<or> c = CHR ''-'' \<or> c = CHR ''_'') s in if t = [] then fallback else t)"

definition estimates_file :: "string \<Rightarrow> string" where
  \<comment> \<open>without the directory and the suffix\<close>
  "estimates_file pid = safe_name ''default'' pid"

definition list_estimates :: "string \<Rightarrow> cost_store \<Rightarrow> json" where
  "list_estimates pid S = read_list (estimates S) (estimates_file pid)"

definition save_estimate :: "string \<Rightarrow> real \<Rightarrow> string \<Rightarrow> doc \<Rightarrow> cost_store \<Rightarrow> doc res \<times> cost_store" where
  "save_estimate uuid now pid payload S =
    (case list_estimates pid S of
       JArr xs \<Rightarrow>
         (let record_doc = dupd [(''id'', JStr uuid), (''created_at'', JNum now)] payload in
          (Inr record_doc, S\<lparr>estimates := tput (estimates_file pid) (Some (JArr (take 100 (JObj record_doc # xs)))) (estimates S)\<rparr>))
     | _ \<Rightarrow> (Inl AttributeError, S))"

definition delete_estimate :: "string \<Rightarrow> string \<Rightarrow> cost_store \<Rightarrow> bool res \<times> cost_store" where
  "delete_estimate pid eid S =
    (case items (list_estimates pid S) of
       None \<Rightarrow> (Inl TypeError, S)
     | Some xs \<Rightarrow>
         if list_all (\<lambda>x. obj_of x \<noteq> None) xs then
           (let ys = filter (\<lambda>x. dget (the (obj_of x)) ''id'' \<noteq> JStr eid) xs in
            if length ys = length xs then (Inr False, S)
            else (Inr True, S\<lparr>estimates := tput (estimates_file pid) (Some (JArr ys)) (estimates S)\<rparr>))
         else (Inl AttributeError, S))"

subsection \<open>Resources of an inventory and of a plan\<close>

definition specs :: "real \<Rightarrow> real \<Rightarrow> doc" where "specs v r = price_list [(''vcpu'', v), (''ram_gb'', r)]"

definition FLAVOR_MAP :: "(string \<times> doc) list" where
  "FLAVOR_MAP =
    [(''s3.small.1'', specs 1 1), (''s3.medium.1'', specs 1 4), (''s3.large.1'', specs 2 2), (''s3.large.2'', specs 2 4),
     (''s3.large.4'', specs 2 8), (''s3.xlarge.2'', specs 4 8), (''s3.xlarge.4'', specs 4 16), (''s3.2xlarge.2'', specs 8 16),
     (''s3.2xlarge.4'', specs 8 32), (''s6.medium.2'', specs 1 2), (''s6.large.2'', specs 2 4), (''s6.xlarge.2'', specs 4 8),
     (''s6.2xlarge.2'', specs 8 16), (''c6.large.2'', specs 2 4), (''c6.xlarge.2'', specs 4 8), (''m6.large.8'', specs 2 16)]"

definition size_vcpu :: "string \<Rightarrow> real" where
  "size_vcpu s =
    (case map_of [(''small'', 1), (''medium'', 1), (''large'', 2), (''xlarge'', 4), (''2xlarge'', 8), (''4xlarge'', 16)] s of
       Some v \<Rightarrow> v | None \<Rightarrow> 2)"

definition flavor_specs :: "(string \<Rightarrow> real option) \<Rightarrow> json \<Rightarrow> doc res" where
  "flavor_specs flt flavor =
    (if \<not> truthy flavor then Inr (specs 2 4)
     else case flavor of
       JStr s \<Rightarrow>
         (let f = strip (lower s); ps = split_on CHR ''.'' [] f in
          case map_of FLAVOR_MAP f of
            Some d \<Rightarrow> Inr d
          | None \<Rightarrow>
              if length ps \<ge> 3 then
                (case flt (last ps) of
                   Some x \<Rightarrow> (let v = size_vcpu (last (butlast ps)) in Inr (specs v (v * x)))
                 | None \<Rightarrow> Inr (specs 2 4))
              else Inr (specs 2 4))
     | _ \<Rightarrow> Inl AttributeError)"

definition vm_resources :: "(string \<Rightarrow> real option) \<Rightarrow> (json \<Rightarrow> string) \<Rightarrow> json \<Rightarrow> json list res" where
  "vm_resources flt str j =
    (case j of
       JObj vm \<Rightarrow>
         (case flavor_specs flt (dget vm ''flavor_id'') of Inl e \<Rightarrow> Inl e | Inr sp \<Rightarrow>
         (case field_or flt vm [''system_disk_size''] 0 of Inl e \<Rightarrow> Inl e | Inr disk \<Rightarrow>
           (let machine_doc = JObj ([(''kind'', JStr ''instance''),
                  (''name'', py_or (py_or (dget vm ''hostname'') (dget vm ''instance_id'')) (JStr ''vm'')), (''quantity'', JNum 1)] @ sp);
                disk_doc = (\<lambda>k. JObj [(''kind'', JStr k), (''name'', JStr (as_text str (py_or (dget vm ''hostname'') (JStr ''vm'')) @ ''-root'')),
                  (''quantity'', JNum 1), (''size_gb'', JNum disk)])
            in if disk > 0 then
                 (case py_or (dget vm ''system_disk_type'') (JStr []) of
                    JStr t \<Rightarrow> Inr [machine_doc, disk_doc (if starts_with (lower t) ''sata'' then ''hdd'' else ''ssd'')]
                  | _ \<Rightarrow> Inl AttributeError)
               else Inr [machine_doc])))
     | _ \<Rightarrow> Inl AttributeError)"

definition py_len :: "json \<Rightarrow> nat option" where "py_len j = map_option length (items j)"

definition resources_from_inventory :: "(string \<Rightarrow> real option) \<Rightarrow> (json \<Rightarrow> string) \<Rightarrow> doc \<Rightarrow> json list res" where
  "resources_from_inventory flt str data =
    (case items (py_or (dget data ''vms'') (JArr [])) of
       None \<Rightarrow> Inl TypeError
     | Some vms \<Rightarrow>
         (case try_all (vm_resources flt str) vms of
            Inl e \<Rightarrow> Inl e
          | Inr rs \<Rightarrow>
              (let eips = py_or (dget data ''eips'') (JArr []) in
               if \<not> truthy eips then Inr (concat rs)
               else case py_len eips of
                 None \<Rightarrow> Inl TypeError
               | Some n \<Rightarrow> Inr (concat rs @ [JObj [(''kind'', JStr ''public_ip''), (''name'', JStr ''public-ips''), (''quantity'', JNum (of_nat n))]]))))"

definition plan_kind :: "string \<Rightarrow> string option" where
  \<comment> \<open>the kind of a Terraform type: the first test that fits\<close>
  "plan_kind t =
    (if contains t ''instance'' \<or> ends_with t ''_vm'' \<or> ends_with t ''_server'' then Some ''instance''
     else if contains t ''kubernetes'' \<or> ends_with t ''_cluster'' then Some ''kubernetes_cluster''
     else if contains t ''load_balancer'' \<or> ends_with t ''_lb'' then Some ''load_balancer''
     else if contains t ''nat'' then Some ''nat_gateway''
     else if contains t ''vpn'' then Some ''vpn_gateway''
     else if contains t ''public_ip'' \<or> ends_with t ''_eip'' then Some ''public_ip''
     else if contains t ''object'' \<or> contains t ''_bucket'' \<or> contains t ''_s3_bucket'' then Some ''object_storage''
     else if contains t ''volume'' \<or> contains t ''disk'' then Some ''ssd''
     else if contains t ''snapshot'' then Some ''snapshot''
     else if contains t ''database'' \<or> ends_with t ''_rds_instance'' \<or> ends_with t ''_db_instance'' then Some ''database''
     else if contains t ''dns_zone'' \<or> ends_with t ''_zone'' then Some ''dns_zone''
     else if contains t ''cdn'' \<or> contains t ''cloudfront'' then Some ''cdn''
     else if contains t ''waf'' then Some ''waf''
     else None)"

definition plan_extra :: "string \<Rightarrow> doc \<Rightarrow> doc res" where
  \<comment> \<open>the sizes taken from the planned values\<close>
  "plan_extra kind after =
    (if kind = ''instance'' then
       Inr [(''vcpu'', py_or (py_or (py_or (dget after ''vcpus'') (dget after ''cpu'')) (dget after ''cores'')) (JNum 2)),
            (''ram_gb'', py_or (dget after ''memory_gb'')
               (JNum (case num_of (dget after ''memory'') of Some m \<Rightarrow> m / 1024 | None \<Rightarrow> 4)))]
     else if kind = ''object_storage'' then Inr [(''size_gb'', py_or (dget after ''size_gb'') (JNum 100))]
     else if kind = ''ssd'' then
       (case py_or (dget after ''type'') (JStr []) of
          JStr t \<Rightarrow> Inr [(''size_gb'', py_or (py_or (dget after ''size'') (dget after ''size_gb'')) (JNum 50))]
        | _ \<Rightarrow> Inl AttributeError)
     else if kind = ''snapshot'' then Inr [(''size_gb'', py_or (dget after ''size_gb'') (JNum 20))]
     else if kind = ''cdn'' then Inr [(''bandwidth_gb'', py_or (dget after ''bandwidth_gb'') (JNum 100))]
     else Inr [])"

definition plan_resource :: "json \<Rightarrow> json list res" where
  "plan_resource j =
    (case j of
       JObj ch \<Rightarrow>
         (case (py_or (dget ch ''type'') (JStr []), py_or (dget ch ''change'') (JObj [])) of
            (JStr raw, JObj c) \<Rightarrow>
              (case py_or (dget c ''after'') (JObj []) of
                 JObj after \<Rightarrow>
                   (case plan_kind (lower raw) of
                      None \<Rightarrow> Inr []
                    | Some k \<Rightarrow>
                        (case plan_extra k after of
                           Inl e \<Rightarrow> Inl e
                         | Inr ex \<Rightarrow> Inr [JObj ([(''kind'', JStr k), (''name'', py_or (dget ch ''name'') (JStr (lower raw))), (''quantity'', JNum 1)] @ ex)]))
               | _ \<Rightarrow> if plan_kind (lower raw) \<in> {None, Some ''kubernetes_cluster'', Some ''load_balancer'', Some ''nat_gateway'',
                        Some ''vpn_gateway'', Some ''public_ip'', Some ''database'', Some ''dns_zone'', Some ''waf''}
                      then Inr (case plan_kind (lower raw) of
                          None \<Rightarrow> []
                        | Some k \<Rightarrow> [JObj [(''kind'', JStr k), (''name'', py_or (dget ch ''name'') (JStr (lower raw))), (''quantity'', JNum 1)]])
                      else Inl AttributeError)
          | _ \<Rightarrow> Inl AttributeError)
     | _ \<Rightarrow> Inl AttributeError)"

definition planned_change :: "json \<Rightarrow> json res" where
  "planned_change j =
    (case j of
       JObj r \<Rightarrow> Inr (JObj [(''type'', dget r ''type''), (''name'', dget r ''name''),
         (''change'', JObj [(''after'', getd r ''values'' (JObj []))])])
     | _ \<Rightarrow> Inl AttributeError)"

definition plan_changes :: "doc \<Rightarrow> json list res" where
  "plan_changes plan =
    (let changes = py_or (dget plan ''resource_changes'') (JArr []) in
     if truthy changes then (case items changes of None \<Rightarrow> Inl TypeError | Some xs \<Rightarrow> Inr xs)
     else case dget plan ''planned_values'' of
       JObj pv \<Rightarrow>
         (case py_or (dget pv ''root_module'') (JObj []) of
            JObj m \<Rightarrow>
              (case items (py_or (dget m ''resources'') (JArr [])) of
                 None \<Rightarrow> Inl TypeError
               | Some rs \<Rightarrow> try_all planned_change rs)
          | _ \<Rightarrow> Inl AttributeError)
     | _ \<Rightarrow> Inr [])"

definition extract_from_plan :: "(string \<Rightarrow> json option) \<Rightarrow> doc \<Rightarrow> (nat \<times> doc) res" where
  \<comment> \<open>the plan is a document or its text; only the parsing of the text is guarded\<close>
  "extract_from_plan loads body =
    (case (case dget body ''plan'' of JStr s \<Rightarrow> loads s | j \<Rightarrow> Some j) of
       None \<Rightarrow> Inr (400, [(''error'', JStr ''plan must be valid JSON'')])
     | Some (JObj plan) \<Rightarrow>
         (case plan_changes plan of
            Inl e \<Rightarrow> Inl e
          | Inr cs \<Rightarrow>
              (case try_all plan_resource cs of
                 Inl e \<Rightarrow> Inl e
               | Inr rs \<Rightarrow> Inr (200, [(''resources'', JArr (concat rs)), (''count'', JNum (of_nat (length (concat rs))))])))
     | Some _ \<Rightarrow> Inr (400, [(''error'', JStr ''plan is required'')]))"

subsection \<open>Reports\<close>

record report_args =
  r_source :: json
  r_run_id :: json
  r_env :: json
  r_cloud_project :: json

definition report_doc :: "string \<Rightarrow> int \<Rightarrow> string \<Rightarrow> json \<Rightarrow> json \<Rightarrow> json list \<Rightarrow> doc \<Rightarrow> report_args \<Rightarrow> doc" where
  "report_doc uuid ts fname provider stack resources result A =
    [(''id'', JStr uuid), (''filename'', JStr fname), (''created_at'', jint ts), (''provider'', provider), (''stack'', stack),
     (''env'', r_env A), (''cloud_project'', r_cloud_project A), (''source'', r_source A), (''run_id'', r_run_id A),
     (''resources'', JArr resources), (''result'', JObj result), (''monthly_total'', getd result ''monthly_total'' (JNum 0)),
     (''yearly_total'', getd result ''yearly_total'' (JNum 0)), (''currency'', getd result ''currency'' (JStr ''USD'')),
     (''resource_count'', JNum (of_nat (length resources)))]"

definition save_report :: "(int \<Rightarrow> string) \<Rightarrow> string \<Rightarrow> int \<Rightarrow> string \<Rightarrow> json \<Rightarrow> string \<Rightarrow> json list \<Rightarrow> doc \<Rightarrow> report_args \<Rightarrow> cost_store \<Rightarrow>
    doc \<times> cost_store" where
  "save_report itext uuid ts pid provider stack resources result A S =
    (let fname = itext ts @ ''_'' @ safe_name ''stack'' (if stack = [] then ''stack'' else stack) @ ''_'' @ take 8 uuid @ ''.json'';
         rec = report_doc uuid ts fname provider (JStr stack) resources result A
     in (rec, S\<lparr>reports := tput (safe_name ''default'' pid, fname) (Some (JObj rec)) (reports S)\<rparr>))"

definition project_reports :: "string \<Rightarrow> cost_store \<Rightarrow> (string \<times> json option) list" where
  "project_reports pid S = map (\<lambda>((p, f), j). (f, j)) (filter (\<lambda>((p, f), j). p = safe_name ''default'' pid) (reports S))"

definition report_row :: "doc \<Rightarrow> json" where
  "report_row rec =
    JObj (map (\<lambda>k. (k, dget rec k)) [''id'', ''filename'', ''created_at'', ''provider'', ''stack'', ''env'', ''cloud_project'',
        ''source'', ''run_id'', ''monthly_total'', ''yearly_total''] @
      [(''currency'', getd rec ''currency'' (JStr ''USD'')),
       (''resource_count'', if has rec ''resource_count'' then dget rec ''resource_count''
          else JNum (of_nat (case py_len (py_or (dget rec ''resources'') (JArr [])) of Some n \<Rightarrow> n | None \<Rightarrow> 0)))])"

definition row_of :: "string option \<Rightarrow> json option \<Rightarrow> json option" where
  \<comment> \<open>the default of \<^verbatim>\<open>get\<close> is computed even when the key is there, so a record whose \<^verbatim>\<open>resources\<close> have no
    length is skipped\<close>
  "row_of stack f =
    (case f of
       Some (JObj rec) \<Rightarrow>
         if (case stack of Some s \<Rightarrow> s \<noteq> [] \<and> dget rec ''stack'' \<noteq> JStr s | None \<Rightarrow> False) then None
         else if py_len (py_or (dget rec ''resources'') (JArr [])) = None then None
         else Some (report_row rec)
     | _ \<Rightarrow> None)"

definition list_reports :: "string \<Rightarrow> string option \<Rightarrow> nat \<Rightarrow> cost_store \<Rightarrow> json list" where
  \<comment> \<open>by file name, backwards; the limit comes before the stack\<close>
  "list_reports pid stack rows S =
    List.map_filter (row_of stack) (map snd (take rows (rev (sort_key fst (project_reports pid S)))))"

definition is_report :: "string \<Rightarrow> json option \<Rightarrow> bool" where
  "is_report rid f = (case f of Some (JObj rec) \<Rightarrow> dget rec ''id'' = JStr rid | _ \<Rightarrow> False)"

definition get_report :: "string \<Rightarrow> string \<Rightarrow> cost_store \<Rightarrow> json option" where
  "get_report pid rid S =
    (case find (\<lambda>(f, j). is_report rid j) (project_reports pid S) of Some (f, j) \<Rightarrow> j | None \<Rightarrow> None)"

definition delete_report :: "string \<Rightarrow> string \<Rightarrow> cost_store \<Rightarrow> bool \<times> cost_store" where
  "delete_report pid rid S =
    (case find (\<lambda>(f, j). is_report rid j) (project_reports pid S) of
       Some (f, j) \<Rightarrow> (True, S\<lparr>reports := tdel (safe_name ''default'' pid, f) (reports S)\<rparr>)
     | None \<Rightarrow> (False, S))"

subsection \<open>Handlers\<close>

definition project_header :: "string option \<Rightarrow> string" where
  "project_header h = (case h of Some p \<Rightarrow> if p = [] then ''default'' else p | None \<Rightarrow> ''default'')"

definition api_update_pricing :: "string \<Rightarrow> real \<Rightarrow> string \<Rightarrow> doc \<Rightarrow> cost_store \<Rightarrow> nat \<times> cost_store" where
  "api_update_pricing today now provider body S =
    (case save_pricing today now provider body True S of
       (Inr c, S) \<Rightarrow> (200, S)
     | (Inl (ValueError m), S) \<Rightarrow> (400, S)
     | (Inl e, S) \<Rightarrow> (500, S))"

definition api_get_pricing :: "string \<Rightarrow> real \<Rightarrow> string \<Rightarrow> cost_store \<Rightarrow> (nat \<times> json option) res \<times> cost_store" where
  \<comment> \<open>only a \<^verbatim>\<open>ValueError\<close> is answered\<close>
  "api_get_pricing today now provider S =
    (case get_pricing today now provider S of
       (Inr j, S) \<Rightarrow> (Inr (200, Some j), S)
     | (Inl (ValueError m), S) \<Rightarrow> (Inr (400, None), S)
     | (Inl e, S) \<Rightarrow> (Inl e, S))"

definition api_estimate :: "(string \<Rightarrow> real option) \<Rightarrow> (json \<Rightarrow> string) \<Rightarrow> (real \<Rightarrow> string) \<Rightarrow> string \<Rightarrow> real \<Rightarrow> doc \<Rightarrow> cost_store \<Rightarrow>
    (nat \<times> doc option) res \<times> cost_store" where
  "api_estimate flt str num today now body S =
    (case py_or (dget body ''provider'') (JStr ''bytedc'') of
       JStr p \<Rightarrow>
         (case py_or (dget body ''resources'') (JArr []) of
            JArr rs \<Rightarrow>
              (case estimate_cost flt str num today now (lower p) rs S of
                 (Inr d, S) \<Rightarrow> (Inr (200, Some d), S)
               | (Inl (ValueError m), S) \<Rightarrow> (Inr (400, None), S)
               | (Inl e, S) \<Rightarrow> (Inr (500, None), S))
          | _ \<Rightarrow> (Inr (400, None), S))
     | _ \<Rightarrow> (Inl AttributeError, S))"

definition api_delete_estimate :: "string option \<Rightarrow> string \<Rightarrow> cost_store \<Rightarrow> nat res \<times> cost_store" where
  "api_delete_estimate header eid S =
    (case delete_estimate (project_header header) eid S of
       (Inr b, S) \<Rightarrow> (Inr (if b then 200 else 404), S)
     | (Inl e, S) \<Rightarrow> (Inl e, S))"

definition api_delete_report :: "string option \<Rightarrow> string \<Rightarrow> cost_store \<Rightarrow> nat \<times> cost_store" where
  "api_delete_report header rid S =
    (case delete_report (project_header header) rid S of (b, S) \<Rightarrow> (if b then 200 else 404, S))"

subsection \<open>Cost estimates of stacks\<close>

definition cost_enabled_from_meta :: "doc \<Rightarrow> bool" where
  \<comment> \<open>anything but \<^verbatim>\<open>False\<close> enables it\<close>
  "cost_enabled_from_meta meta = (dget meta ''cost_estimate_enabled'' \<noteq> JBool False)"

definition cost_config_from_meta :: "string \<Rightarrow> real \<Rightarrow> doc \<Rightarrow> string \<Rightarrow> cost_store \<Rightarrow> doc res \<times> cost_store" where
  "cost_config_from_meta today now meta provider S =
    (case py_or (py_or (JStr provider) (dget meta ''provider'')) (JStr ''bytedc'') of
       JStr raw \<Rightarrow>
         (let p = (if lower raw \<in> set SUPPORTED_PROVIDERS then lower raw else ''bytedc'') in
          case get_pricing today now p S of
            (Inl e, S) \<Rightarrow> (Inl e, S)
          | (Inr (JObj c), S) \<Rightarrow>
              (Inr [(''provider'', JStr p), (''currency'', getd c ''currency'' (JStr ''USD'')), (''hours_per_month'', JNum 730),
                (''pricing'', JObj (map (\<lambda>k. (k, getd c k (JObj []))) [''compute'', ''storage'', ''network'', ''managed''])),
                (''catalog_version'', dget c ''version'')], S)
          | (Inr _, S) \<Rightarrow> (Inl AttributeError, S))
     | _ \<Rightarrow> (Inl AttributeError, S))"

definition cost_estimate_set :: "real \<Rightarrow> bool \<Rightarrow> doc \<Rightarrow> doc \<Rightarrow> nat \<times> doc" where
  \<comment> \<open>\<open>found\<close>: the name is valid and the stack exists; the metadata of the stack\<close>
  "cost_estimate_set now found body meta =
    (if \<not> found then (404, meta)
     else case (case dget body ''enabled'' of
                  JStr s \<Rightarrow> JBool (lower (strip s) \<in> {''1'', ''true'', ''yes'', ''on''}) | j \<Rightarrow> j) of
       JBool b \<Rightarrow> (200, save_meta now [(''cost_estimate_enabled'', JBool b)] meta)
     | _ \<Rightarrow> (400, meta))"

definition estimated_at :: "doc \<Rightarrow> json res" where
  "estimated_at exe =
    (case to_int (py_or (py_or (dget exe ''finishedAt'') (dget exe ''startedAt'')) (JNum 0)) of
       Inl e \<Rightarrow> Inl e
     | Inr n \<Rightarrow> Inr (if n = 0 then JNull else jint n))"

fun latest_cost_result :: "string \<Rightarrow> json option list \<Rightarrow> doc option res" where
  \<comment> \<open>the executions newest first, at most 300; only the reading of a file is guarded\<close>
  "latest_cost_result name [] = Inr None"
| "latest_cost_result name (None # fs) = latest_cost_result name fs"
| "latest_cost_result name (Some (JObj exe) # fs) =
    (case py_or (dget exe ''runParams'') (JObj []) of
       JObj rp \<Rightarrow>
         (if dget rp ''execution_type'' \<noteq> JStr ''TOFU_RUN'' \<or> dget rp ''stack_name'' \<noteq> JStr name
          then latest_cost_result name fs
          else (case py_or (py_or (dget exe ''result'') (dget exe ''stats'')) (JObj []) of
                  JObj r \<Rightarrow>
                    (case dget r ''cost'' of
                       JObj c \<Rightarrow>
                         (case estimated_at exe of
                            Inl e \<Rightarrow> Inl e
                          | Inr t \<Rightarrow> Inr (Some (dupd [(''run_id'', dget exe ''id''), (''action'', dget rp ''tofu_action''), (''estimated_at'', t)] c)))
                     | _ \<Rightarrow> latest_cost_result name fs)
                | _ \<Rightarrow> latest_cost_result name fs))
     | _ \<Rightarrow> Inl AttributeError)"
| "latest_cost_result name (Some j # fs) = Inl AttributeError"

end
