(* ===== verification/CostsProps.thy ===== *)
theory CostsProps
  imports Costs "HOL-Library.Multiset"
begin

text \<open>
  What an estimate adds up to, the versions of a price list, and where the saved results go wrong.
\<close>

subsection \<open>Estimates\<close>

lemma round_half_even_error: "\<bar>of_int (round_half_even y) - y\<bar> \<le> (1/2 :: real)"
proof -
  have "of_int \<lfloor>y\<rfloor> \<le> y" "y < of_int \<lfloor>y\<rfloor> + 1" by (simp_all add: floor_correct)
  then show ?thesis by (auto simp: round_half_even_def Let_def)
qed

lemma py_round_error: "\<bar>py_round n x - x\<bar> \<le> 1 / (2 * 10 ^ n)"
proof -
  have "py_round n x - x = (of_int (round_half_even (x * 10 ^ n)) - x * 10 ^ n) / 10 ^ n"
    by (simp add: py_round_def field_simps)
  then have "\<bar>py_round n x - x\<bar> = \<bar>of_int (round_half_even (x * 10 ^ n)) - x * 10 ^ n\<bar> / 10 ^ n" by simp
  also have "\<dots> \<le> (1/2) / 10 ^ n" by (rule divide_right_mono [OF round_half_even_error]) simp
  finally show ?thesis by simp
qed

lemma rounded_sum: "\<bar>sum_list (map (\<lambda>l. py_round n (f l)) ls) - sum_list (map f ls)\<bar> \<le> real (length ls) / (2 * 10 ^ n)"
proof (induction ls)
  case (Cons l ls)
  have "\<bar>py_round n (f l) - f l\<bar> \<le> 1 / (2 * 10 ^ n)" by (rule py_round_error)
  with Cons show ?case by (simp add: add_divide_distrib)
qed simp

lemma estimate_shape:
  assumes "estimate_cost flt str num today now provider rs S = (Inr d, S')"
  obtains cat cur ls ws where "get_pricing today now provider S = (Inr cat, S')"
    "cost_resources (cost_resource flt str num cat) rs = Inr (ls, ws)" "d = estimate_doc provider cur now ls ws"
  using assms by (auto simp: estimate_cost_def split: prod.splits sum.splits json.splits)

text \<open>The monthly total of an estimate differs from the sum of its lines, which are rounded one by one, by
  at most half a cent for each line and half a cent for the total.\<close>
theorem total_within_rounding:
  assumes "estimate_cost flt str num today now provider rs S = (Inr d, S')"
  shows "\<exists>t ls. dget d ''monthly_total'' = JNum t \<and> dget d ''line_items'' = JArr (map line_doc ls) \<and>
    \<bar>t - sum_list (map (\<lambda>l. py_round 2 (l_monthly l)) ls)\<bar> \<le> (real (length ls) + 1) / 200"
proof -
  obtain cur ls ws where d: "d = estimate_doc provider cur now ls ws" using assms by (rule estimate_shape)
  have "\<bar>py_round 2 (sum_list (map l_monthly ls)) - sum_list (map l_monthly ls)\<bar> \<le> 1 / 200"
    using py_round_error [of 2 "sum_list (map l_monthly ls)"] by simp
  moreover have "\<bar>sum_list (map (\<lambda>l. py_round 2 (l_monthly l)) ls) - sum_list (map l_monthly ls)\<bar> \<le> real (length ls) / 200"
    using rounded_sum [of 2 l_monthly ls] by simp
  ultimately have "\<bar>py_round 2 (sum_list (map l_monthly ls)) - sum_list (map (\<lambda>l. py_round 2 (l_monthly l)) ls)\<bar> \<le> 1 / 200 + real (length ls) / 200"
    by arith
  then have "\<bar>py_round 2 (sum_list (map l_monthly ls)) - sum_list (map (\<lambda>l. py_round 2 (l_monthly l)) ls)\<bar> \<le> (real (length ls) + 1) / 200"
    by (simp add: add_divide_distrib)
  then show ?thesis by (intro exI [of _ "py_round 2 (sum_list (map l_monthly ls))"] exI [of _ ls])
      (simp add: d estimate_doc_def Let_def)
qed

definition contribution :: "(json \<Rightarrow> (cost_line option \<times> string list) res) \<Rightarrow> json \<Rightarrow> real" where
  "contribution f j = (case f j of Inr (Some l, ws) \<Rightarrow> l_monthly l | _ \<Rightarrow> 0)"

lemma cost_resources_sum:
  "cost_resources f js = Inr (ls, ws) \<Longrightarrow> sum_list (map l_monthly ls) = sum_list (map (contribution f) js)"
  by (induction js arbitrary: ls ws) (auto simp: contribution_def split: sum.splits prod.splits option.splits)

lemma cost_resources_ok: "is_ok (cost_resources f js) \<longleftrightarrow> (\<forall>j \<in> set js. is_ok (f j))"
  by (induction js) (auto split: sum.splits prod.splits)

text \<open>The total does not depend on the order of the resources: with a permuted list the estimate succeeds,
  too, and gives the same total.\<close>
theorem estimate_of_permutation:
  assumes "estimate_cost flt str num today now provider rs S = (Inr d, S')" "mset rs' = mset rs"
  shows "\<exists>d'. estimate_cost flt str num today now provider rs' S = (Inr d', S') \<and>
    dget d' ''monthly_total'' = dget d ''monthly_total'' \<and> dget d' ''yearly_total'' = dget d ''yearly_total''"
proof -
  obtain cat cur ls ws where g: "get_pricing today now provider S = (Inr cat, S')"
    "cost_resources (cost_resource flt str num cat) rs = Inr (ls, ws)" "d = estimate_doc provider cur now ls ws"
    using assms(1) by (rule estimate_shape)
  let ?f = "cost_resource flt str num cat"
  have set: "set rs' = set rs" using assms(2) by (rule mset_eq_setD)
  have "is_ok (cost_resources ?f rs')"
    unfolding cost_resources_ok set using cost_resources_ok [of ?f rs] g(2) by simp
  then obtain ls' ws' where r: "cost_resources ?f rs' = Inr (ls', ws')" by (auto simp: is_ok_iff)
  have "sum_list (map (contribution ?f) rs') = sum_list (map (contribution ?f) rs)"
    by (metis assms(2) mset_map sum_mset_sum_list)
  then have t: "sum_list (map l_monthly ls') = sum_list (map l_monthly ls)"
    using cost_resources_sum [OF r] cost_resources_sum [OF g(2)] by simp
  obtain c where c: "cat = JObj c" using assms(1) g(1,2) by (cases cat) (simp_all add: estimate_cost_def)
  have "estimate_cost flt str num today now provider rs' S =
      (Inr (estimate_doc provider (getd c ''currency'' (JStr ''USD'')) now ls' ws'), S')"
    by (simp add: estimate_cost_def g(1) [unfolded c] r [unfolded c])
  then show ?thesis using t g(3) by (simp add: estimate_doc_def Let_def)
qed

lemma field_or_other [simp]: "k \<notin> set ks \<Longrightarrow> field_or flt (dset r k v) ks x = field_or flt r ks x"
proof -
  assume "k \<notin> set ks"
  then have "foldr (\<lambda>k' j. py_or (dget (dset r k v) k') j) ks j0 = foldr (\<lambda>k' j. py_or (dget r k') j) ks j0" for j0
    by (induction ks) auto
  then show ?thesis by (simp add: field_or_def)
qed

text \<open>A quantity of zero is billed as one: zero counts as missing.\<close>
theorem zero_quantity_billed_as_one:
  assumes "dget r ''quantity'' = JNum 0"
  shows "cost_resource flt str num cat (JObj r) = cost_resource flt str num cat (JObj (dset r ''quantity'' (JNum 1)))"
proof -
  let ?r = "dset r ''quantity'' (JNum 1)"
  have q: "field_or flt ?r [''quantity''] 1 = field_or flt r [''quantity''] 1"
    using assms by (simp add: field_or_def py_or_def)
  have others: "field_or flt ?r [''hours_per_month''] x = field_or flt r [''hours_per_month''] x"
    "field_or flt ?r [''vcpu''] x = field_or flt r [''vcpu''] x" "field_or flt ?r [''ram_gb''] x = field_or flt r [''ram_gb''] x"
    "field_or flt ?r [''size_gb''] x = field_or flt r [''size_gb''] x"
    "field_or flt ?r [''bandwidth_gb'', ''size_gb''] x = field_or flt r [''bandwidth_gb'', ''size_gb''] x"
    "dget ?r ''kind'' = dget r ''kind''" "dget ?r ''name'' = dget r ''name''" for x by simp_all
  show ?thesis unfolding cost_resource_def json.case instance_line_def amount_def q others ..
qed

subsection \<open>Price lists\<close>

definition stored_list :: "doc \<Rightarrow> string \<Rightarrow> int \<Rightarrow> real \<Rightarrow> string \<Rightarrow> string \<Rightarrow> json option" where
  \<comment> \<open>field by field, what is stored for a submitted list\<close>
  "stored_list catalog provider version now today k =
    (if k = ''provider'' then Some (JStr provider)
     else if k = ''version'' then Some (jint version)
     else if k = ''updated_at'' then Some (JNum now)
     else if k = ''currency'' \<and> map_of catalog k = None then Some (JStr ''USD'')
     else if k = ''effective_date'' \<and> map_of catalog k = None then Some (JStr today)
     else map_of catalog k)"

lemma map_of_dset_new: "map_of (dset_new d k v) = (if map_of d k = None then (map_of d)(k \<mapsto> v) else map_of d)"
  by (auto simp: dset_new_def has_def)

text \<open>C30: Saving a price list over one that is there stores every field of the submitted list as it is,
  with the provider, the version counted up from the replaced list's, the time, and, where they are
  missing, the currency and the date filled in; the next request is answered with it; the
  replaced list, whole, is put at the end of the history, of which the last fifty entries remain;
  and the lists and histories of the other providers stay. The conditions: the stored list can
  be read and has a number as its version, the history, if there is a file, is a list, both files
  can be written, and no other request saves the same list meanwhile.\<close>
theorem save_keeps_previous:
  assumes "lower provider \<in> set SUPPORTED_PROVIDERS" "read_json (pricing S) (lower provider) = Some (JObj prev)"
    and "map_of prev ''version'' = Some (JNum n)" "read_list (price_history S) (lower provider) = JArr h"
  shows "\<exists>c S'. save_pricing today now provider catalog True S = (Inr c, S') \<and>
    map_of c = stored_list catalog (lower provider) (py_int n + 1) now today \<and>
    fst (get_pricing today' now' provider S') = Inr (JObj c) \<and>
    get_pricing_history provider S' = JArr (last_items 50 (h @ [history_entry prev])) \<and>
    (\<forall>p. p \<noteq> lower provider \<longrightarrow> map_of (pricing S') p = map_of (pricing S) p \<and>
       map_of (price_history S') p = map_of (price_history S) p)"
proof -
  have v: "next_version True (Some (JObj prev)) c = Inr (py_int n + 1)" for c
    using assms(3) by (cases prev) (auto simp: next_version_def py_or_def getd_def to_int_def int_of_json_def)
  let ?c = "dset_new (dset (dset (dset_new (dset catalog ''provider'' (JStr (lower provider))) ''currency'' (JStr ''USD''))
      ''version'' (jint (py_int n + 1))) ''updated_at'' (JNum now)) ''effective_date'' (JStr today)"
  have "map_of ?c = stored_list catalog (lower provider) (py_int n + 1) now today"
    by (rule ext) (auto simp: map_of_dset_new stored_list_def)
  moreover have "prev \<noteq> []" using assms(3) by auto
  ultimately show ?thesis using assms(1,2,4) v
    by (auto simp: save_pricing_def Let_def get_pricing_def get_pricing_history_def read_list_def read_json_def)
qed

text \<open>A price list that cannot be read is replaced without a trace: the version starts again at one and
  the history does not mention the loss.\<close>
theorem broken_prices_restart:
  assumes "lower provider \<in> set SUPPORTED_PROVIDERS" "map_of (pricing S) (lower provider) = Some None"
  shows "\<exists>c S'. save_pricing today now provider catalog True S = (Inr c, S') \<and> dget c ''version'' = jint 1 \<and>
    price_history S' = price_history S"
  using assms by (simp add: save_pricing_def Let_def read_json_def next_version_def py_or_def to_int_def int_of_json_def py_int_def)

subsection \<open>Saved estimates and reports\<close>

text \<open>Projects whose names differ in punctuation only share their estimates.\<close>
theorem projects_share_estimates:
  assumes "list_estimates ''a.b'' S = JArr xs"
  shows "\<exists>d ys. fst (save_estimate uuid now ''a.b'' payload S) = Inr d \<and>
    list_estimates ''ab'' (snd (save_estimate uuid now ''a.b'' payload S)) = JArr (JObj d # ys)"
proof -
  have "estimates_file ''ab'' = estimates_file ''a.b''" by code_simp
  then show ?thesis using assms by (simp add: save_estimate_def Let_def list_estimates_def read_list_def read_json_def take_Cons')
qed

text \<open>The estimates of a project are limited to the last hundred, the newest first.\<close>
theorem saved_estimate_is_first:
  assumes "list_estimates pid S = JArr xs"
  shows "\<exists>d ys. fst (save_estimate uuid now pid payload S) = Inr d \<and>
    list_estimates pid (snd (save_estimate uuid now pid payload S)) = JArr (JObj d # ys) \<and> ys = take 99 xs"
  using assms by (simp add: save_estimate_def Let_def list_estimates_def read_list_def read_json_def take_Cons')

text \<open>The reports of a stack are cut before they are selected: when enough newer reports belong to other
  stacks, the list is empty although the stack has reports.\<close>
theorem other_stacks_hide_reports:
  assumes "\<And>f j. (f, j) \<in> set (take rows (rev (sort_key fst (project_reports pid S)))) \<Longrightarrow> row_of (Some stack) j = None"
  shows "list_reports pid (Some stack) rows S = []"
proof -
  have "List.map_filter g (map snd ps) = []" if "\<And>f j. (f, j) \<in> set ps \<Longrightarrow> g j = None" for g :: "json option \<Rightarrow> json option" and ps :: "(string \<times> json option) list"
    using that
  proof (induction ps)
    case (Cons p ps)
    have "g (snd p) = None" using Cons.prems [of "fst p" "snd p"] by simp
    moreover have "List.map_filter g (map snd ps) = []" by (rule Cons.IH) (use Cons.prems in auto)
    ultimately show ?case by (simp add: List.map_filter_simps)
  qed (simp add: List.map_filter_simps)
  with assms show ?thesis unfolding list_reports_def by blast
qed

subsection \<open>Resources of a plan\<close>

lemma contains_append: "contains y p \<Longrightarrow> contains (x @ y) p"
  by (induction x) auto

lemma ends_with_split: "ends_with s p \<Longrightarrow> \<exists>x. s = x @ p"
proof -
  assume "ends_with s p"
  then have "rev s = rev p @ drop (length p) (rev s)"
    by (metis append_take_drop_id ends_with_def length_rev starts_with_def)
  then have "s = rev (drop (length p) (rev s)) @ p" by (metis rev_append rev_rev_ident)
  then show ?thesis by blast
qed

text \<open>A planned database instance is priced as a virtual machine: the test for instances comes first, so
  the endings the code has for databases are never reached.\<close>
theorem database_priced_as_machine:
  assumes "ends_with t ''_db_instance'' \<or> ends_with t ''_rds_instance''"
  shows "plan_kind t = Some ''instance''"
proof -
  have "contains ''_db_instance'' ''instance''" "contains ''_rds_instance'' ''instance''" by code_simp+
  note parts = this [THEN contains_append]
  from assms have "contains t ''instance''"
    by (elim disjE) (auto dest!: ends_with_split simp only: intro: parts)
  then show ?thesis by (simp add: plan_kind_def)
qed

subsection \<open>Concrete price lists\<close>

definition demo_costs :: cost_store where
  "demo_costs = \<lparr>pricing = [(''aws'', Some (JObj [(''version'', JNum 1), (''network'', JObj [(''public_ip_month'', JNum 3)])]))],
     price_history = [], estimates = [], reports = []\<rparr>"

definition demo_resources :: "json list" where
  "demo_resources = [JObj [(''kind'', JStr ''public_ip''), (''quantity'', JNum 2)]]"

definition demo_line :: cost_line where
  "demo_line = \<lparr>l_kind = ''public_ip'', l_name = JStr ''public_ip'', l_quantity = 2, l_unit = ''month'', l_price = 3, l_monthly = 6\<rparr>"

lemma demo_estimate:
  "estimate_cost (\<lambda>s. None) (\<lambda>j. []) (\<lambda>x. []) ''d'' 0 ''aws'' demo_resources demo_costs =
    (Inr (estimate_doc ''aws'' (JStr ''USD'') 0 [demo_line] []), demo_costs)"
proof -
  have k: "strip (lower ''public_ip'') = ''public_ip''" "lower ''aws'' = ''aws''" by code_simp+
  show ?thesis
    by (simp add: estimate_cost_def get_pricing_def k demo_costs_def SUPPORTED_PROVIDERS_def Let_def demo_resources_def
        cost_resource_def py_or_def field_or_def to_float_def tariff_def amount_def price_def demo_line_def)
qed

theorem total_within_rounding_witness:
  "\<exists>t ls. dget (estimate_doc ''aws'' (JStr ''USD'') 0 [demo_line] []) ''monthly_total'' = JNum t \<and>
    dget (estimate_doc ''aws'' (JStr ''USD'') 0 [demo_line] []) ''line_items'' = JArr (map line_doc ls) \<and>
    \<bar>t - sum_list (map (\<lambda>l. py_round 2 (l_monthly l)) ls)\<bar> \<le> (real (length ls) + 1) / 200"
  by (rule total_within_rounding [OF demo_estimate])

theorem save_keeps_previous_witness:
  "\<exists>c S'. save_pricing ''d'' 0 ''AWS'' [(''network'', JObj [])] True demo_costs = (Inr c, S') \<and>
    map_of c = stored_list [(''network'', JObj [])] (lower ''AWS'') (py_int 1 + 1) 0 ''d'' \<and>
    fst (get_pricing ''d'' 0 ''AWS'' S') = Inr (JObj c) \<and>
    get_pricing_history ''AWS'' S' = JArr (last_items 50 ([] @ [history_entry [(''version'', JNum 1),
      (''network'', JObj [(''public_ip_month'', JNum 3)])]])) \<and>
    (\<forall>p. p \<noteq> lower ''AWS'' \<longrightarrow> map_of (pricing S') p = map_of (pricing demo_costs) p \<and>
       map_of (price_history S') p = map_of (price_history demo_costs) p)"
proof -
  have "lower ''AWS'' = ''aws''" by code_simp
  then show ?thesis
    by (intro save_keeps_previous) (simp_all add: SUPPORTED_PROVIDERS_def read_json_def demo_costs_def read_list_def)
qed

end
