(* ===== verification/Spec2Isabelle.thy ===== *)
theory Spec2Isabelle
  imports LifeCycleProps AccessProps CloudStateProps CicdProps SettingsProps ScheduleProps PolicyProps DocsAccessProps SecretsProps SourceProps GitSourceProps HostLookupProps PlaybooksProps CostsProps
begin

section \<open>Opensible: the core of the control server\<close>

text \<open>
  \<^bold>\<open>The program.\<close> Opensible is a web server (Python, Flask) that queues Ansible runs and hands
  them to workers. Its state is a tree of JSON files (executions, workers, statuses), two
  SQLite databases (an index of the executions, and the accounts) and a few caches in
  memory. This development models the control plane: what an execution goes through from its
  creation to its deletion, who may act on it, and the records that decide it.

  \<^bold>\<open>How the theories follow the code\<close> (paths under \<^verbatim>\<open>src/server\<close>):
  \<^item> \<open>Prelude\<close>: JSON values, dictionaries, strings and tables with Python's semantics, the
    errors as the left of a sum, the interfaces \<open>keyed_store\<close>, \<open>absorbing_machine\<close> and
    \<open>authenticator\<close>.
  \<^item> \<open>ExecStatus\<close>, \<open>ExecStore\<close>, \<open>ExecStoreProps\<close>: \<^verbatim>\<open>storage/executions_store.py\<close>, the status
    machine and the update of a record (\<open>update_execution_record\<close>), its log and its index rows.
  \<^item> \<open>IndexDb\<close>: the tables of \<^verbatim>\<open>storage/index_db.py\<close>, one operation per function.
  \<^item> \<open>ExecHistory\<close>, \<open>ExecHistoryProps\<close>: \<^verbatim>\<open>services/execution_history.py\<close>, creation, listing,
    deletion and retention.
  \<^item> \<open>WorkerRegistry\<close>, \<open>WorkerRegistryProps\<close>: \<^verbatim>\<open>services/worker_registry.py\<close>, workers, their
    tokens (index, cache, files) and heartbeats.
  \<^item> \<open>Dispatcher\<close>: \<^verbatim>\<open>services/execution_dispatcher.py\<close>; \<open>Claim\<close>, \<open>ClaimProps\<close>, \<open>Recovery\<close>: the
    claim of a queued execution and the recovery of stuck ones in \<^verbatim>\<open>app.py\<close>.
  \<^item> \<open>Routes\<close>, \<open>LifeCycle\<close>, \<open>LifeCycleProps\<close>: the handlers of \<^verbatim>\<open>api/worker_routes.py\<close> and
    \<^verbatim>\<open>api/executions_routes.py\<close> that change state, and the step relation of all of them.
  \<^item> \<open>HostStatus\<close>: \<^verbatim>\<open>utils/host_status.py\<close>.
  \<^item> \<open>AuthDb\<close>, \<open>AuthProps\<close>: \<^verbatim>\<open>storage/auth_db.py\<close>, \<^verbatim>\<open>services/user_service.py\<close>,
    \<^verbatim>\<open>services/role_service.py\<close>, \<^verbatim>\<open>services/permission_service.py\<close>.
  \<^item> \<open>Tokens\<close>, \<open>TokensProps\<close>: \<^verbatim>\<open>storage/api_tokens_store.py\<close> and the session tokens of
    \<^verbatim>\<open>auth/service.py\<close>; the JWT library is a parameter (\<open>jwt_lib\<close>, \<open>jwt_laws\<close>).
  \<^item> \<open>Middleware\<close>, \<open>AccountRoutes\<close>, \<open>AccessProps\<close>: \<^verbatim>\<open>auth/validators.py\<close>,
    \<^verbatim>\<open>auth/middleware.py\<close>, \<^verbatim>\<open>api/auth_routes.py\<close> and the writing handlers of
    \<^verbatim>\<open>api/users_routes.py\<close> over one state (\<open>gate\<close>).
  \<^item> \<open>CloudState\<close>, \<open>CloudStateProps\<close>: \<^verbatim>\<open>services/cloud_state.py\<close>, the lock, the saved versions,
    the audit trail and the backend settings of a stack.
  \<^item> \<open>Cicd\<close>, \<open>CicdProps\<close>: \<^verbatim>\<open>storage/cicd_store.py\<close>, \<^verbatim>\<open>services/cicd_engine.py\<close> and
    \<^verbatim>\<open>api/cicd_routes.py\<close>; the thread of a run takes what others write meanwhile as an argument.
  \<^item> \<open>Settings\<close>, \<open>Backups\<close>, \<open>SettingsProps\<close>: \<^verbatim>\<open>storage/config_db.py\<close>,
    \<^verbatim>\<open>utils/scheduler_settings.py\<close>, \<^verbatim>\<open>utils/backup_settings.py\<close> and \<open>create_backup\<close> of
    \<^verbatim>\<open>utils/yaml_io.py\<close>, with the handlers that write settings.
  \<^item> \<open>Schedule\<close>, \<open>ScheduleProps\<close>: \<^verbatim>\<open>services/playbook_scheduler.py\<close>; croniter and pytz are the
    parameter \<open>cron_lib\<close>.
  \<^item> \<open>Policy\<close>, \<open>PolicyProps\<close>: \<^verbatim>\<open>services/cloud_policy.py\<close>; which patterns compile is a parameter.
  \<^item> \<open>DocsAccess\<close>, \<open>DocsAccessProps\<close>: \<^verbatim>\<open>utils/docs_access.py\<close>; addresses are machine words.
  \<^item> \<open>SecretCrypto\<close>, \<open>Secrets\<close>, \<open>SecretRoutes\<close>, \<open>SecretsProps\<close>: \<^verbatim>\<open>utils/secret_encryption.py\<close>,
    \<^verbatim>\<open>services/global_secrets_manager.py\<close> and \<^verbatim>\<open>api/global_secrets_routes.py\<close>; the cipher and the key
    derivation are the parameter \<open>crypto\<close> with the laws \<open>aead_laws\<close>.
  \<^item> \<open>Files\<close>, \<open>FilesProps\<close>: the file system under the synchronisation (\<^verbatim>\<open>mkdir\<close>, \<^verbatim>\<open>rmtree\<close>,
    \<^verbatim>\<open>copy2\<close>, \<^verbatim>\<open>copytree\<close>) as a table of paths; which files can be read and which paths are too long
    is the parameter \<open>host\<close>. There are no symbolic links, and removing never fails.
  \<^item> \<open>Sync\<close>, \<open>SyncGit\<close>, \<open>SyncRepo\<close>, \<open>SyncRun\<close>, \<open>SyncProps\<close>, \<open>SyncJobs\<close>:
    \<^verbatim>\<open>services/source_sync_service.py\<close>: the state file, the local copies, the git sequences of
    \<^verbatim>\<open>stacks\<close> and \<^verbatim>\<open>repo\<close>, one direction and both, and the jobs as a step relation. The git commands,
    the clones of GitSourceManager, the digest and the texts of exceptions are the fields of \<open>sync_env\<close>.
  \<^item> \<open>GitUrl\<close>, \<open>GitSource\<close>, \<open>GitUrlProps\<close>, \<open>GitSourceProps\<close>: \<^verbatim>\<open>services/git_source_manager.py\<close>, the guard of
    repository URLs with the parts of urllib.parse and ipaddress it uses, the search for a secret and
    the git commands of a cached clone. \<open>resolve_git\<close> is a \<open>resolve_path\<close> of \<open>sync_env\<close>.
  \<^item> \<open>Sources\<close>, \<open>SourceRoutes\<close>, \<open>Autosync\<close>, \<open>SourceProps\<close>: \<^verbatim>\<open>services/sources_service.py\<close>, the
    handlers of \<^verbatim>\<open>api/sources_routes.py\<close> that start a synchronisation or change its settings, and
    \<^verbatim>\<open>services/autosync_scheduler.py\<close>.
  \<^item> \<open>Inventory\<close>, \<open>InventoryProps\<close>: \<^verbatim>\<open>utils/inventory_io.py\<close>, the INI parser and the searches.
    \<open>HostLookup\<close>, \<open>HostLookupProps\<close>: the functions of \<^verbatim>\<open>app.py\<close> that look hosts, groups and connections
    up in the inventories on the disk, and the background check. The YAML parser, the order of a Python
    set and the stack that is left are the fields of \<open>inventory_env\<close>.
  \<^item> \<open>Playbooks\<close>, \<open>PlaybooksProps\<close>: \<^verbatim>\<open>playbooks/parser.py\<close>, \<^verbatim>\<open>playbooks/generator.py\<close> and
    \<^verbatim>\<open>playbooks/validator.py\<close>, on loaded YAML values.
  \<^item> \<open>Costs\<close>, \<open>CostsProps\<close>: \<^verbatim>\<open>storage/cost_store.py\<close>, \<^verbatim>\<open>services/cloud_cost.py\<close> and the handlers of
    \<^verbatim>\<open>api/cost_routes.py\<close> that have logic of their own; rounding is exact, half to even.
  \<^bold>\<open>Conventions.\<close> A function of the code is a definition of the same name. State is passed
  explicitly: \<open>store\<close> (files of the executions and the index), \<open>registry\<close> (workers), \<open>server\<close>
  (both), \<open>auth_db\<close>. A clock reading, a fresh id, a random token, a hash function and
  the text form of a number are arguments. A file is \<open>Doc d\<close> or \<open>Corrupt\<close>; an exception is
  \<open>Inl e\<close>, and where the code catches it the model continues the way the handler does.
  Strings are ASCII; numbers are reals, so the rounding of floats is not modelled.

  \<^bold>\<open>What the lemmas show.\<close> Invariants hold for runs of any length: the life cycle of an
  execution (\<open>race_step\<close>), the tokens of the registry (\<open>reg_step\<close>) and the accounts
  (\<open>apply_op\<close>). The claim is first in, first out and keeps the limit of a worker; finished
  executions stay finished; tokens name the worker that holds them; a permission check is the
  join of the tables. A synchronisation mirrors one tree in the other and touches nothing else,
  every direction that returns has recorded its status, and a source has at most one background
  job at a time. The
  properties of kind error describe inputs where the code does
  something else than it means to, and state exactly what it does.

  \<^bold>\<open>Bounds and fuel.\<close> Every loop of the modelled code is structural on a list or has a measure, with one
  exception: the INI parser follows the names of groups, which may form a cycle. Its bound is the
  stack the interpreter has left; one frame for every group is enough when there is no cycle, and
  no stack is enough when there is one (\<open>ini_parsed_iff_acyclic\<close>). The interval and limit constants are those of the source.

  \<^bold>\<open>Not modelled.\<close> Flask, the thread scheduler, subprocesses (git, Terraform, Ansible), the
  network, encryption and the text of templates; a write that fails half-way, unless the
  code tests for it or one of the step relations below has it.

  \<^bold>\<open>Threads and processes.\<close> What the code does under one lock is one step. Where it takes no
  lock, the statements about several threads are about step relations that split the operation and
  interleave its parts with everything else: \<open>race_step\<close> (the records of executions: every read,
  emptying and write of an update is a step, and a write may fail or leave half a file),
  \<open>black_step\<close> (the blacklist of session tokens, whose reads and writes may fail), \<open>login_run\<close> (the
  test of the rate limit and the rest of a log-in), \<open>lock_step\<close> (looking at the lock of a stack
  and writing or removing it), \<open>thread_update\<close> (the file of a pipeline run, with other writers
  before and between), \<open>sync_step\<close> (jobs and direct synchronisations that overlap) and
  \<open>sched_step\<close> (processes that compete to start a schedule, and may die). The remaining statements
  about sequences of operations (\<open>reg_step\<close>, \<open>apply_op\<close>, the API tokens, the global secrets, one
  synchronisation on its trees) are about operations that run one after the other; the text of
  each says what it needs.
\<close>

end
